(* ===== verification/K210_Prelude.thy ===== *)
theory K210_Prelude
  imports Main "HOL-Library.Word"
begin

text \<open>
  Shared vocabulary of the development.

  \<^item> Type names for the C integer types the SDK uses.  A C \<open>int\<close> that only carries a
    status code or a small value is an \<open>int\<close>; an unsigned type whose wrap-around or
    truncation can be observed is a word of its width; a bit-field \<open>f : n\<close> is an
    \<open>n word\<close>.
  \<^item> \<open>dev_simps\<close>: the unfolding equations of the device models, so that a component's
    proofs can name them as one collection.
  \<^item> Generic lemmas on lists, bits and words that several components use.
\<close>

unbundle bit_operations_syntax

type_synonym u8 = "8 word"
type_synonym u16 = "16 word"
type_synonym u32 = "32 word"
type_synonym u64 = "64 word"
type_synonym bit1 = "1 word"

named_theorems dev_simps "defining equations of device operations"

subsection \<open>Arrays as lists\<close>

lemma nth_list_update_if:
  "i < length xs \<Longrightarrow> xs[i := v] ! j = (if i = j then v else xs ! j)"
  by simp

lemma list_update_eq_self: "xs ! i = v \<Longrightarrow> xs[i := v] = xs"
  by auto

text \<open>\<open>upd_all is f xs\<close>: the array after a loop has overwritten the cells in \<open>is\<close>.\<close>

lemma fold_update_length [simp]:
  "length (fold (\<lambda>i xs. xs[i := f i]) is xs) = length xs"
  by (induction "is" arbitrary: xs) simp_all

lemma fold_update_nth:
  "j < length xs \<Longrightarrow>
   fold (\<lambda>i xs. xs[i := f i]) is xs ! j = (if j \<in> set is then f j else xs ! j)"
  by (induction "is" arbitrary: xs) (auto simp: nth_list_update)

subsection \<open>Single bits of a register\<close>

lemma bit_or_shifted_one:
  fixes w :: "'a::len word"
  assumes "n < LENGTH('a)"
  shows "bit (w OR push_bit n 1) m = (bit w m \<or> m = n)"
  using assms by (auto simp: bit_simps)

lemma bit_and_not_shifted_one:
  fixes w :: "'a::len word"
  assumes "n < LENGTH('a)"
  shows "bit (w AND NOT (push_bit n 1)) m = (bit w m \<and> m \<noteq> n)"
  using assms by (auto simp: bit_simps dest: bit_imp_le_length)

lemma bit1_cases: "(b :: bit1) = 0 \<or> b = 1"
proof -
  have "unat b < 2"
    using unsigned_less [of b] by simp
  then have "unat b = 0 \<or> unat b = 1" by linarith
  then show ?thesis
    by (auto simp: word_unat_eq_iff)
qed

lemma bit1_not_zero: "(b :: bit1) \<noteq> 0 \<longleftrightarrow> b = 1"
  using bit1_cases [of b] by auto

subsection \<open>An array of 32-bit words as a set of bits\<close>

definition arr_bit :: "u32 list \<Rightarrow> nat \<Rightarrow> bool" where
  "arr_bit ws f = bit (ws ! (f div 32)) (f mod 32)"

lemma split_index: "(f :: nat) = i \<longleftrightarrow> f div 32 = i div 32 \<and> f mod 32 = i mod 32"
  by (metis div_mult_mod_eq)

lemma arr_bit_set:
  assumes "i div 32 < length ws"
  shows "arr_bit (ws[i div 32 := ws ! (i div 32) OR push_bit (i mod 32) 1]) f = (arr_bit ws f \<or> f = i)"
    and "arr_bit (ws[i div 32 := ws ! (i div 32) AND NOT (push_bit (i mod 32) 1)]) f = (arr_bit ws f \<and> f \<noteq> i)"
  using assms
  by (auto simp: arr_bit_def nth_list_update bit_or_shifted_one bit_and_not_shifted_one split_index [of f i]
      simp del: push_bit_of_1)

subsection \<open>Truncation to a bit-field\<close>

lemma unat_ucast_mod:
  "unat (ucast (w :: 'a::len word) :: 'b::len word) = unat w mod 2 ^ LENGTH('b)"
  by (simp add: unsigned_ucast_eq take_bit_eq_mod)

lemma unat_of_int_mod:
  "0 \<le> k \<Longrightarrow> unat (word_of_int k :: 'a::len word) = nat (k mod 2 ^ LENGTH('a))"
proof -
  assume "0 \<le> k"
  show ?thesis
    by (simp only: unat_eq_nat_uint uint_word_of_int)
qed

lemma unat_of_nat_mod:
  "unat (word_of_nat n :: 'a::len word) = n mod 2 ^ LENGTH('a)"
  by (rule unat_of_nat)

lemma unat_of_nat_small:
  "n < 2 ^ LENGTH('a) \<Longrightarrow> unat (word_of_nat n :: 'a::len word) = n"
  by (simp add: unat_of_nat_mod)

end
