(* ===== verification/Sysctl.thy ===== *)
theory Sysctl
  imports K210_Prelude
begin

text \<open>
  The system controller driver, \<open>sdk/lib/drivers/sysctl.c\<close>: clock gates, clock dividers
  ("thresholds"), clock multiplexers, peripheral resets, DMA handshake routing, IO power
  mode, reset status.

  Enumerations are datatypes with the header's enumerators, the \<open>_MAX\<close> one included: it
  stands for every argument the \<open>switch\<close> sends to \<open>default\<close>.  A register is the record of
  its bit-fields at their widths (the reserved fields, which no function names, are left
  out); a read of a register returns what was last written to it.  The three PLL registers
  use the one layout \<open>sysctl_general_pll\<close>, to which \<open>sysctl_pll_set_freq\<close> casts all three.
\<close>

subsection \<open>Enumerations\<close>

datatype sysctl_pll =
    SYSCTL_PLL0 | SYSCTL_PLL1 | SYSCTL_PLL2 | SYSCTL_PLL_MAX

datatype sysctl_clock_source =
    SYSCTL_SOURCE_IN0 | SYSCTL_SOURCE_PLL0 | SYSCTL_SOURCE_PLL1 | SYSCTL_SOURCE_PLL2
    | SYSCTL_SOURCE_ACLK | SYSCTL_SOURCE_MAX

datatype sysctl_dma_channel =
    SYSCTL_DMA_CHANNEL_0 | SYSCTL_DMA_CHANNEL_1 | SYSCTL_DMA_CHANNEL_2 | SYSCTL_DMA_CHANNEL_3
    | SYSCTL_DMA_CHANNEL_4 | SYSCTL_DMA_CHANNEL_5 | SYSCTL_DMA_CHANNEL_MAX

datatype sysctl_clock =
    SYSCTL_CLOCK_PLL0 | SYSCTL_CLOCK_PLL1 | SYSCTL_CLOCK_PLL2 | SYSCTL_CLOCK_CPU
    | SYSCTL_CLOCK_SRAM0 | SYSCTL_CLOCK_SRAM1 | SYSCTL_CLOCK_APB0 | SYSCTL_CLOCK_APB1
    | SYSCTL_CLOCK_APB2 | SYSCTL_CLOCK_ROM | SYSCTL_CLOCK_DMA | SYSCTL_CLOCK_AI
    | SYSCTL_CLOCK_DVP | SYSCTL_CLOCK_FFT | SYSCTL_CLOCK_GPIO | SYSCTL_CLOCK_SPI0
    | SYSCTL_CLOCK_SPI1 | SYSCTL_CLOCK_SPI2 | SYSCTL_CLOCK_SPI3 | SYSCTL_CLOCK_I2S0
    | SYSCTL_CLOCK_I2S1 | SYSCTL_CLOCK_I2S2 | SYSCTL_CLOCK_I2C0 | SYSCTL_CLOCK_I2C1
    | SYSCTL_CLOCK_I2C2 | SYSCTL_CLOCK_UART1 | SYSCTL_CLOCK_UART2 | SYSCTL_CLOCK_UART3
    | SYSCTL_CLOCK_AES | SYSCTL_CLOCK_FPIOA | SYSCTL_CLOCK_TIMER0 | SYSCTL_CLOCK_TIMER1
    | SYSCTL_CLOCK_TIMER2 | SYSCTL_CLOCK_WDT0 | SYSCTL_CLOCK_WDT1 | SYSCTL_CLOCK_SHA
    | SYSCTL_CLOCK_OTP | SYSCTL_CLOCK_RTC | SYSCTL_CLOCK_ACLK | SYSCTL_CLOCK_HCLK
    | SYSCTL_CLOCK_IN0 | SYSCTL_CLOCK_MAX

datatype sysctl_clock_select =
    SYSCTL_CLOCK_SELECT_PLL0_BYPASS | SYSCTL_CLOCK_SELECT_PLL1_BYPASS
    | SYSCTL_CLOCK_SELECT_PLL2_BYPASS | SYSCTL_CLOCK_SELECT_PLL2 | SYSCTL_CLOCK_SELECT_ACLK
    | SYSCTL_CLOCK_SELECT_SPI3 | SYSCTL_CLOCK_SELECT_TIMER0 | SYSCTL_CLOCK_SELECT_TIMER1
    | SYSCTL_CLOCK_SELECT_TIMER2 | SYSCTL_CLOCK_SELECT_SPI3_SAMPLE | SYSCTL_CLOCK_SELECT_MAX

datatype sysctl_threshold =
    SYSCTL_THRESHOLD_ACLK | SYSCTL_THRESHOLD_APB0 | SYSCTL_THRESHOLD_APB1
    | SYSCTL_THRESHOLD_APB2 | SYSCTL_THRESHOLD_SRAM0 | SYSCTL_THRESHOLD_SRAM1
    | SYSCTL_THRESHOLD_AI | SYSCTL_THRESHOLD_DVP | SYSCTL_THRESHOLD_ROM | SYSCTL_THRESHOLD_SPI0
    | SYSCTL_THRESHOLD_SPI1 | SYSCTL_THRESHOLD_SPI2 | SYSCTL_THRESHOLD_SPI3
    | SYSCTL_THRESHOLD_TIMER0 | SYSCTL_THRESHOLD_TIMER1 | SYSCTL_THRESHOLD_TIMER2
    | SYSCTL_THRESHOLD_I2S0 | SYSCTL_THRESHOLD_I2S1 | SYSCTL_THRESHOLD_I2S2
    | SYSCTL_THRESHOLD_I2S0_M | SYSCTL_THRESHOLD_I2S1_M | SYSCTL_THRESHOLD_I2S2_M
    | SYSCTL_THRESHOLD_I2C0 | SYSCTL_THRESHOLD_I2C1 | SYSCTL_THRESHOLD_I2C2
    | SYSCTL_THRESHOLD_WDT0 | SYSCTL_THRESHOLD_WDT1 | SYSCTL_THRESHOLD_MAX

datatype sysctl_reset_t =
    SYSCTL_RESET_SOC | SYSCTL_RESET_ROM | SYSCTL_RESET_DMA | SYSCTL_RESET_AI | SYSCTL_RESET_DVP
    | SYSCTL_RESET_FFT | SYSCTL_RESET_GPIO | SYSCTL_RESET_SPI0 | SYSCTL_RESET_SPI1
    | SYSCTL_RESET_SPI2 | SYSCTL_RESET_SPI3 | SYSCTL_RESET_I2S0 | SYSCTL_RESET_I2S1
    | SYSCTL_RESET_I2S2 | SYSCTL_RESET_I2C0 | SYSCTL_RESET_I2C1 | SYSCTL_RESET_I2C2
    | SYSCTL_RESET_UART1 | SYSCTL_RESET_UART2 | SYSCTL_RESET_UART3 | SYSCTL_RESET_AES
    | SYSCTL_RESET_FPIOA | SYSCTL_RESET_TIMER0 | SYSCTL_RESET_TIMER1 | SYSCTL_RESET_TIMER2
    | SYSCTL_RESET_WDT0 | SYSCTL_RESET_WDT1 | SYSCTL_RESET_SHA | SYSCTL_RESET_RTC
    | SYSCTL_RESET_MAX

datatype sysctl_power_bank =
    SYSCTL_POWER_BANK0 | SYSCTL_POWER_BANK1 | SYSCTL_POWER_BANK2 | SYSCTL_POWER_BANK3
    | SYSCTL_POWER_BANK4 | SYSCTL_POWER_BANK5 | SYSCTL_POWER_BANK6 | SYSCTL_POWER_BANK7
    | SYSCTL_POWER_BANK_MAX

datatype sysctl_io_power_mode =
    SYSCTL_POWER_V33 | SYSCTL_POWER_V18

datatype sysctl_reset_enum_status =
    SYSCTL_RESET_STATUS_HARD | SYSCTL_RESET_STATUS_SOFT | SYSCTL_RESET_STATUS_WDT0
    | SYSCTL_RESET_STATUS_WDT1 | SYSCTL_RESET_STATUS_MAX

subsection \<open>Registers\<close>

record sysctl_general_pll =
  clkr :: "4 word"
  clkf :: "6 word"
  clkod :: "4 word"
  bwadj :: "6 word"
  pll_reset :: "1 word"
  pll_pwrd :: "1 word"
  pll_intfb :: "1 word"
  pll_bypass :: "1 word"
  pll_test :: "1 word"
  pll_out_en :: "1 word"
  pll_ckin_sel :: "2 word"

record sysctl_pll_lock =
  pll_lock0 :: "2 word"
  pll_slip_clear0 :: "1 word"
  test_clk_out0 :: "1 word"
  pll_lock1 :: "2 word"
  pll_slip_clear1 :: "1 word"
  test_clk_out1 :: "1 word"
  pll_lock2 :: "2 word"
  pll_slip_clear2 :: "1 word"
  test_clk_out2 :: "1 word"

record sysctl_clk_sel0 =
  aclk_sel :: "1 word"
  aclk_divider_sel :: "2 word"
  apb0_clk_sel :: "3 word"
  apb1_clk_sel :: "3 word"
  apb2_clk_sel :: "3 word"
  spi3_clk_sel :: "1 word"
  timer0_clk_sel :: "1 word"
  timer1_clk_sel :: "1 word"
  timer2_clk_sel :: "1 word"

record sysctl_clk_sel1 =
  spi3_sample_clk_sel :: "1 word"

record sysctl_clk_en_cent =
  cpu_clk_en :: "1 word"
  sram0_clk_en :: "1 word"
  sram1_clk_en :: "1 word"
  apb0_clk_en :: "1 word"
  apb1_clk_en :: "1 word"
  apb2_clk_en :: "1 word"

record sysctl_clk_en_peri =
  rom_clk_en :: "1 word"
  dma_clk_en :: "1 word"
  ai_clk_en :: "1 word"
  dvp_clk_en :: "1 word"
  fft_clk_en :: "1 word"
  gpio_clk_en :: "1 word"
  spi0_clk_en :: "1 word"
  spi1_clk_en :: "1 word"
  spi2_clk_en :: "1 word"
  spi3_clk_en :: "1 word"
  i2s0_clk_en :: "1 word"
  i2s1_clk_en :: "1 word"
  i2s2_clk_en :: "1 word"
  i2c0_clk_en :: "1 word"
  i2c1_clk_en :: "1 word"
  i2c2_clk_en :: "1 word"
  uart1_clk_en :: "1 word"
  uart2_clk_en :: "1 word"
  uart3_clk_en :: "1 word"
  aes_clk_en :: "1 word"
  fpioa_clk_en :: "1 word"
  timer0_clk_en :: "1 word"
  timer1_clk_en :: "1 word"
  timer2_clk_en :: "1 word"
  wdt0_clk_en :: "1 word"
  wdt1_clk_en :: "1 word"
  sha_clk_en :: "1 word"
  otp_clk_en :: "1 word"
  rtc_clk_en :: "1 word"

record sysctl_peri_reset =
  rom_reset :: "1 word"
  dma_reset :: "1 word"
  ai_reset :: "1 word"
  dvp_reset :: "1 word"
  fft_reset :: "1 word"
  gpio_reset :: "1 word"
  spi0_reset :: "1 word"
  spi1_reset :: "1 word"
  spi2_reset :: "1 word"
  spi3_reset :: "1 word"
  i2s0_reset :: "1 word"
  i2s1_reset :: "1 word"
  i2s2_reset :: "1 word"
  i2c0_reset :: "1 word"
  i2c1_reset :: "1 word"
  i2c2_reset :: "1 word"
  uart1_reset :: "1 word"
  uart2_reset :: "1 word"
  uart3_reset :: "1 word"
  aes_reset :: "1 word"
  fpioa_reset :: "1 word"
  timer0_reset :: "1 word"
  timer1_reset :: "1 word"
  timer2_reset :: "1 word"
  wdt0_reset :: "1 word"
  wdt1_reset :: "1 word"
  sha_reset :: "1 word"
  rtc_reset :: "1 word"

record sysctl_clk_th0 =
  sram0_gclk_threshold :: "4 word"
  sram1_gclk_threshold :: "4 word"
  ai_gclk_threshold :: "4 word"
  dvp_gclk_threshold :: "4 word"
  rom_gclk_threshold :: "4 word"

record sysctl_clk_th1 =
  spi0_clk_threshold :: "8 word"
  spi1_clk_threshold :: "8 word"
  spi2_clk_threshold :: "8 word"
  spi3_clk_threshold :: "8 word"

record sysctl_clk_th2 =
  timer0_clk_threshold :: "8 word"
  timer1_clk_threshold :: "8 word"
  timer2_clk_threshold :: "8 word"

record sysctl_clk_th3 =
  i2s0_clk_threshold :: "16 word"
  i2s1_clk_threshold :: "16 word"

record sysctl_clk_th4 =
  i2s2_clk_threshold :: "16 word"
  i2s0_mclk_threshold :: "8 word"
  i2s1_mclk_threshold :: "8 word"

record sysctl_clk_th5 =
  i2s2_mclk_threshold :: "8 word"
  i2c0_clk_threshold :: "8 word"
  i2c1_clk_threshold :: "8 word"
  i2c2_clk_threshold :: "8 word"

record sysctl_clk_th6 =
  wdt0_clk_threshold :: "8 word"
  wdt1_clk_threshold :: "8 word"

record sysctl_reset_status =
  reset_sts_clr :: "1 word"
  pin_reset_sts :: "1 word"
  wdt0_reset_sts :: "1 word"
  wdt1_reset_sts :: "1 word"
  soft_reset_sts :: "1 word"

record sysctl_dma_sel0 =
  sel0 :: "6 word"
  sel1 :: "6 word"
  sel2 :: "6 word"
  sel3 :: "6 word"
  sel4 :: "6 word"

record sysctl_dma_sel1 =
  sel5 :: "6 word"

record sysctl =
  git_id :: u32
  clk_freq :: u32
  pll0 :: sysctl_general_pll
  pll1 :: sysctl_general_pll
  pll2 :: sysctl_general_pll
  pll_lock :: sysctl_pll_lock
  clk_sel0 :: sysctl_clk_sel0
  clk_sel1 :: sysctl_clk_sel1
  clk_en_cent :: sysctl_clk_en_cent
  clk_en_peri :: sysctl_clk_en_peri
  soft_reset :: bit1
  peri_reset :: sysctl_peri_reset
  clk_th0 :: sysctl_clk_th0
  clk_th1 :: sysctl_clk_th1
  clk_th2 :: sysctl_clk_th2
  clk_th3 :: sysctl_clk_th3
  clk_th4 :: sysctl_clk_th4
  clk_th5 :: sysctl_clk_th5
  clk_th6 :: sysctl_clk_th6
  spi_dvp_data_enable :: bit1
  reset_status :: sysctl_reset_status
  dma_sel0 :: sysctl_dma_sel0
  dma_sel1 :: sysctl_dma_sel1
  power_sel :: u32

subsection \<open>Peripheral resets\<close>

definition sysctl_reset_ctl :: "sysctl_reset_t \<Rightarrow> u8 \<Rightarrow> sysctl \<Rightarrow> sysctl" where
  [dev_simps]: "sysctl_reset_ctl reset rst_value s =
     (case reset of
       SYSCTL_RESET_SOC \<Rightarrow> s\<lparr>soft_reset := ucast rst_value\<rparr>
     | SYSCTL_RESET_ROM \<Rightarrow> s\<lparr>peri_reset := (peri_reset s)\<lparr>rom_reset := ucast rst_value\<rparr>\<rparr>
     | SYSCTL_RESET_DMA \<Rightarrow> s\<lparr>peri_reset := (peri_reset s)\<lparr>dma_reset := ucast rst_value\<rparr>\<rparr>
     | SYSCTL_RESET_AI \<Rightarrow> s\<lparr>peri_reset := (peri_reset s)\<lparr>ai_reset := ucast rst_value\<rparr>\<rparr>
     | SYSCTL_RESET_DVP \<Rightarrow> s\<lparr>peri_reset := (peri_reset s)\<lparr>dvp_reset := ucast rst_value\<rparr>\<rparr>
     | SYSCTL_RESET_FFT \<Rightarrow> s\<lparr>peri_reset := (peri_reset s)\<lparr>fft_reset := ucast rst_value\<rparr>\<rparr>
     | SYSCTL_RESET_GPIO \<Rightarrow> s\<lparr>peri_reset := (peri_reset s)\<lparr>gpio_reset := ucast rst_value\<rparr>\<rparr>
     | SYSCTL_RESET_SPI0 \<Rightarrow> s\<lparr>peri_reset := (peri_reset s)\<lparr>spi0_reset := ucast rst_value\<rparr>\<rparr>
     | SYSCTL_RESET_SPI1 \<Rightarrow> s\<lparr>peri_reset := (peri_reset s)\<lparr>spi1_reset := ucast rst_value\<rparr>\<rparr>
     | SYSCTL_RESET_SPI2 \<Rightarrow> s\<lparr>peri_reset := (peri_reset s)\<lparr>spi2_reset := ucast rst_value\<rparr>\<rparr>
     | SYSCTL_RESET_SPI3 \<Rightarrow> s\<lparr>peri_reset := (peri_reset s)\<lparr>spi3_reset := ucast rst_value\<rparr>\<rparr>
     | SYSCTL_RESET_I2S0 \<Rightarrow> s\<lparr>peri_reset := (peri_reset s)\<lparr>i2s0_reset := ucast rst_value\<rparr>\<rparr>
     | SYSCTL_RESET_I2S1 \<Rightarrow> s\<lparr>peri_reset := (peri_reset s)\<lparr>i2s1_reset := ucast rst_value\<rparr>\<rparr>
     | SYSCTL_RESET_I2S2 \<Rightarrow> s\<lparr>peri_reset := (peri_reset s)\<lparr>i2s2_reset := ucast rst_value\<rparr>\<rparr>
     | SYSCTL_RESET_I2C0 \<Rightarrow> s\<lparr>peri_reset := (peri_reset s)\<lparr>i2c0_reset := ucast rst_value\<rparr>\<rparr>
     | SYSCTL_RESET_I2C1 \<Rightarrow> s\<lparr>peri_reset := (peri_reset s)\<lparr>i2c1_reset := ucast rst_value\<rparr>\<rparr>
     | SYSCTL_RESET_I2C2 \<Rightarrow> s\<lparr>peri_reset := (peri_reset s)\<lparr>i2c2_reset := ucast rst_value\<rparr>\<rparr>
     | SYSCTL_RESET_UART1 \<Rightarrow> s\<lparr>peri_reset := (peri_reset s)\<lparr>uart1_reset := ucast rst_value\<rparr>\<rparr>
     | SYSCTL_RESET_UART2 \<Rightarrow> s\<lparr>peri_reset := (peri_reset s)\<lparr>uart2_reset := ucast rst_value\<rparr>\<rparr>
     | SYSCTL_RESET_UART3 \<Rightarrow> s\<lparr>peri_reset := (peri_reset s)\<lparr>uart3_reset := ucast rst_value\<rparr>\<rparr>
     | SYSCTL_RESET_AES \<Rightarrow> s\<lparr>peri_reset := (peri_reset s)\<lparr>aes_reset := ucast rst_value\<rparr>\<rparr>
     | SYSCTL_RESET_FPIOA \<Rightarrow> s\<lparr>peri_reset := (peri_reset s)\<lparr>fpioa_reset := ucast rst_value\<rparr>\<rparr>
     | SYSCTL_RESET_TIMER0 \<Rightarrow> s\<lparr>peri_reset := (peri_reset s)\<lparr>timer0_reset := ucast rst_value\<rparr>\<rparr>
     | SYSCTL_RESET_TIMER1 \<Rightarrow> s\<lparr>peri_reset := (peri_reset s)\<lparr>timer1_reset := ucast rst_value\<rparr>\<rparr>
     | SYSCTL_RESET_TIMER2 \<Rightarrow> s\<lparr>peri_reset := (peri_reset s)\<lparr>timer2_reset := ucast rst_value\<rparr>\<rparr>
     | SYSCTL_RESET_WDT0 \<Rightarrow> s\<lparr>peri_reset := (peri_reset s)\<lparr>wdt0_reset := ucast rst_value\<rparr>\<rparr>
     | SYSCTL_RESET_WDT1 \<Rightarrow> s\<lparr>peri_reset := (peri_reset s)\<lparr>wdt1_reset := ucast rst_value\<rparr>\<rparr>
     | SYSCTL_RESET_SHA \<Rightarrow> s\<lparr>peri_reset := (peri_reset s)\<lparr>sha_reset := ucast rst_value\<rparr>\<rparr>
     | SYSCTL_RESET_RTC \<Rightarrow> s\<lparr>peri_reset := (peri_reset s)\<lparr>rtc_reset := ucast rst_value\<rparr>\<rparr>
     | _ \<Rightarrow> s)"

subsection \<open>Clock gates\<close>

definition sysctl_clock_bus_en :: "sysctl_clock \<Rightarrow> u8 \<Rightarrow> sysctl \<Rightarrow> sysctl" where
  [dev_simps]: "sysctl_clock_bus_en clock en s =
    (if en \<noteq> 0 then
      (case clock of
       SYSCTL_CLOCK_GPIO \<Rightarrow> s\<lparr>clk_en_cent := (clk_en_cent s)\<lparr>apb0_clk_en := ucast en\<rparr>\<rparr>
     | SYSCTL_CLOCK_SPI2 \<Rightarrow> s\<lparr>clk_en_cent := (clk_en_cent s)\<lparr>apb0_clk_en := ucast en\<rparr>\<rparr>
     | SYSCTL_CLOCK_I2S0 \<Rightarrow> s\<lparr>clk_en_cent := (clk_en_cent s)\<lparr>apb0_clk_en := ucast en\<rparr>\<rparr>
     | SYSCTL_CLOCK_I2S1 \<Rightarrow> s\<lparr>clk_en_cent := (clk_en_cent s)\<lparr>apb0_clk_en := ucast en\<rparr>\<rparr>
     | SYSCTL_CLOCK_I2S2 \<Rightarrow> s\<lparr>clk_en_cent := (clk_en_cent s)\<lparr>apb0_clk_en := ucast en\<rparr>\<rparr>
     | SYSCTL_CLOCK_I2C0 \<Rightarrow> s\<lparr>clk_en_cent := (clk_en_cent s)\<lparr>apb0_clk_en := ucast en\<rparr>\<rparr>
     | SYSCTL_CLOCK_I2C1 \<Rightarrow> s\<lparr>clk_en_cent := (clk_en_cent s)\<lparr>apb0_clk_en := ucast en\<rparr>\<rparr>
     | SYSCTL_CLOCK_I2C2 \<Rightarrow> s\<lparr>clk_en_cent := (clk_en_cent s)\<lparr>apb0_clk_en := ucast en\<rparr>\<rparr>
     | SYSCTL_CLOCK_UART1 \<Rightarrow> s\<lparr>clk_en_cent := (clk_en_cent s)\<lparr>apb0_clk_en := ucast en\<rparr>\<rparr>
     | SYSCTL_CLOCK_UART2 \<Rightarrow> s\<lparr>clk_en_cent := (clk_en_cent s)\<lparr>apb0_clk_en := ucast en\<rparr>\<rparr>
     | SYSCTL_CLOCK_UART3 \<Rightarrow> s\<lparr>clk_en_cent := (clk_en_cent s)\<lparr>apb0_clk_en := ucast en\<rparr>\<rparr>
     | SYSCTL_CLOCK_FPIOA \<Rightarrow> s\<lparr>clk_en_cent := (clk_en_cent s)\<lparr>apb0_clk_en := ucast en\<rparr>\<rparr>
     | SYSCTL_CLOCK_TIMER0 \<Rightarrow> s\<lparr>clk_en_cent := (clk_en_cent s)\<lparr>apb0_clk_en := ucast en\<rparr>\<rparr>
     | SYSCTL_CLOCK_TIMER1 \<Rightarrow> s\<lparr>clk_en_cent := (clk_en_cent s)\<lparr>apb0_clk_en := ucast en\<rparr>\<rparr>
     | SYSCTL_CLOCK_TIMER2 \<Rightarrow> s\<lparr>clk_en_cent := (clk_en_cent s)\<lparr>apb0_clk_en := ucast en\<rparr>\<rparr>
     | SYSCTL_CLOCK_SHA \<Rightarrow> s\<lparr>clk_en_cent := (clk_en_cent s)\<lparr>apb0_clk_en := ucast en\<rparr>\<rparr>
     | SYSCTL_CLOCK_AES \<Rightarrow> s\<lparr>clk_en_cent := (clk_en_cent s)\<lparr>apb1_clk_en := ucast en\<rparr>\<rparr>
     | SYSCTL_CLOCK_WDT0 \<Rightarrow> s\<lparr>clk_en_cent := (clk_en_cent s)\<lparr>apb1_clk_en := ucast en\<rparr>\<rparr>
     | SYSCTL_CLOCK_WDT1 \<Rightarrow> s\<lparr>clk_en_cent := (clk_en_cent s)\<lparr>apb1_clk_en := ucast en\<rparr>\<rparr>
     | SYSCTL_CLOCK_OTP \<Rightarrow> s\<lparr>clk_en_cent := (clk_en_cent s)\<lparr>apb1_clk_en := ucast en\<rparr>\<rparr>
     | SYSCTL_CLOCK_RTC \<Rightarrow> s\<lparr>clk_en_cent := (clk_en_cent s)\<lparr>apb1_clk_en := ucast en\<rparr>\<rparr>
     | SYSCTL_CLOCK_SPI0 \<Rightarrow> s\<lparr>clk_en_cent := (clk_en_cent s)\<lparr>apb2_clk_en := ucast en\<rparr>\<rparr>
     | SYSCTL_CLOCK_SPI1 \<Rightarrow> s\<lparr>clk_en_cent := (clk_en_cent s)\<lparr>apb2_clk_en := ucast en\<rparr>\<rparr>
     | _ \<Rightarrow> s)
    else s)"

definition sysctl_clock_device_en :: "sysctl_clock \<Rightarrow> u8 \<Rightarrow> sysctl \<Rightarrow> sysctl" where
  [dev_simps]: "sysctl_clock_device_en clock en s =
     (case clock of
       SYSCTL_CLOCK_PLL0 \<Rightarrow> s\<lparr>pll0 := (pll0 s)\<lparr>pll_out_en := ucast en\<rparr>\<rparr>
     | SYSCTL_CLOCK_PLL1 \<Rightarrow> s\<lparr>pll1 := (pll1 s)\<lparr>pll_out_en := ucast en\<rparr>\<rparr>
     | SYSCTL_CLOCK_PLL2 \<Rightarrow> s\<lparr>pll2 := (pll2 s)\<lparr>pll_out_en := ucast en\<rparr>\<rparr>
     | SYSCTL_CLOCK_CPU \<Rightarrow> s\<lparr>clk_en_cent := (clk_en_cent s)\<lparr>cpu_clk_en := ucast en\<rparr>\<rparr>
     | SYSCTL_CLOCK_SRAM0 \<Rightarrow> s\<lparr>clk_en_cent := (clk_en_cent s)\<lparr>sram0_clk_en := ucast en\<rparr>\<rparr>
     | SYSCTL_CLOCK_SRAM1 \<Rightarrow> s\<lparr>clk_en_cent := (clk_en_cent s)\<lparr>sram1_clk_en := ucast en\<rparr>\<rparr>
     | SYSCTL_CLOCK_APB0 \<Rightarrow> s\<lparr>clk_en_cent := (clk_en_cent s)\<lparr>apb0_clk_en := ucast en\<rparr>\<rparr>
     | SYSCTL_CLOCK_APB1 \<Rightarrow> s\<lparr>clk_en_cent := (clk_en_cent s)\<lparr>apb1_clk_en := ucast en\<rparr>\<rparr>
     | SYSCTL_CLOCK_APB2 \<Rightarrow> s\<lparr>clk_en_cent := (clk_en_cent s)\<lparr>apb2_clk_en := ucast en\<rparr>\<rparr>
     | SYSCTL_CLOCK_ROM \<Rightarrow> s\<lparr>clk_en_peri := (clk_en_peri s)\<lparr>rom_clk_en := ucast en\<rparr>\<rparr>
     | SYSCTL_CLOCK_DMA \<Rightarrow> s\<lparr>clk_en_peri := (clk_en_peri s)\<lparr>dma_clk_en := ucast en\<rparr>\<rparr>
     | SYSCTL_CLOCK_AI \<Rightarrow> s\<lparr>clk_en_peri := (clk_en_peri s)\<lparr>ai_clk_en := ucast en\<rparr>\<rparr>
     | SYSCTL_CLOCK_DVP \<Rightarrow> s\<lparr>clk_en_peri := (clk_en_peri s)\<lparr>dvp_clk_en := ucast en\<rparr>\<rparr>
     | SYSCTL_CLOCK_FFT \<Rightarrow> s\<lparr>clk_en_peri := (clk_en_peri s)\<lparr>fft_clk_en := ucast en\<rparr>\<rparr>
     | SYSCTL_CLOCK_SPI3 \<Rightarrow> s\<lparr>clk_en_peri := (clk_en_peri s)\<lparr>spi3_clk_en := ucast en\<rparr>\<rparr>
     | SYSCTL_CLOCK_GPIO \<Rightarrow> s\<lparr>clk_en_peri := (clk_en_peri s)\<lparr>gpio_clk_en := ucast en\<rparr>\<rparr>
     | SYSCTL_CLOCK_SPI2 \<Rightarrow> s\<lparr>clk_en_peri := (clk_en_peri s)\<lparr>spi2_clk_en := ucast en\<rparr>\<rparr>
     | SYSCTL_CLOCK_I2S0 \<Rightarrow> s\<lparr>clk_en_peri := (clk_en_peri s)\<lparr>i2s0_clk_en := ucast en\<rparr>\<rparr>
     | SYSCTL_CLOCK_I2S1 \<Rightarrow> s\<lparr>clk_en_peri := (clk_en_peri s)\<lparr>i2s1_clk_en := ucast en\<rparr>\<rparr>
     | SYSCTL_CLOCK_I2S2 \<Rightarrow> s\<lparr>clk_en_peri := (clk_en_peri s)\<lparr>i2s2_clk_en := ucast en\<rparr>\<rparr>
     | SYSCTL_CLOCK_I2C0 \<Rightarrow> s\<lparr>clk_en_peri := (clk_en_peri s)\<lparr>i2c0_clk_en := ucast en\<rparr>\<rparr>
     | SYSCTL_CLOCK_I2C1 \<Rightarrow> s\<lparr>clk_en_peri := (clk_en_peri s)\<lparr>i2c1_clk_en := ucast en\<rparr>\<rparr>
     | SYSCTL_CLOCK_I2C2 \<Rightarrow> s\<lparr>clk_en_peri := (clk_en_peri s)\<lparr>i2c2_clk_en := ucast en\<rparr>\<rparr>
     | SYSCTL_CLOCK_UART1 \<Rightarrow> s\<lparr>clk_en_peri := (clk_en_peri s)\<lparr>uart1_clk_en := ucast en\<rparr>\<rparr>
     | SYSCTL_CLOCK_UART2 \<Rightarrow> s\<lparr>clk_en_peri := (clk_en_peri s)\<lparr>uart2_clk_en := ucast en\<rparr>\<rparr>
     | SYSCTL_CLOCK_UART3 \<Rightarrow> s\<lparr>clk_en_peri := (clk_en_peri s)\<lparr>uart3_clk_en := ucast en\<rparr>\<rparr>
     | SYSCTL_CLOCK_FPIOA \<Rightarrow> s\<lparr>clk_en_peri := (clk_en_peri s)\<lparr>fpioa_clk_en := ucast en\<rparr>\<rparr>
     | SYSCTL_CLOCK_TIMER0 \<Rightarrow> s\<lparr>clk_en_peri := (clk_en_peri s)\<lparr>timer0_clk_en := ucast en\<rparr>\<rparr>
     | SYSCTL_CLOCK_TIMER1 \<Rightarrow> s\<lparr>clk_en_peri := (clk_en_peri s)\<lparr>timer1_clk_en := ucast en\<rparr>\<rparr>
     | SYSCTL_CLOCK_TIMER2 \<Rightarrow> s\<lparr>clk_en_peri := (clk_en_peri s)\<lparr>timer2_clk_en := ucast en\<rparr>\<rparr>
     | SYSCTL_CLOCK_SHA \<Rightarrow> s\<lparr>clk_en_peri := (clk_en_peri s)\<lparr>sha_clk_en := ucast en\<rparr>\<rparr>
     | SYSCTL_CLOCK_AES \<Rightarrow> s\<lparr>clk_en_peri := (clk_en_peri s)\<lparr>aes_clk_en := ucast en\<rparr>\<rparr>
     | SYSCTL_CLOCK_WDT0 \<Rightarrow> s\<lparr>clk_en_peri := (clk_en_peri s)\<lparr>wdt0_clk_en := ucast en\<rparr>\<rparr>
     | SYSCTL_CLOCK_WDT1 \<Rightarrow> s\<lparr>clk_en_peri := (clk_en_peri s)\<lparr>wdt1_clk_en := ucast en\<rparr>\<rparr>
     | SYSCTL_CLOCK_OTP \<Rightarrow> s\<lparr>clk_en_peri := (clk_en_peri s)\<lparr>otp_clk_en := ucast en\<rparr>\<rparr>
     | SYSCTL_CLOCK_RTC \<Rightarrow> s\<lparr>clk_en_peri := (clk_en_peri s)\<lparr>rtc_clk_en := ucast en\<rparr>\<rparr>
     | SYSCTL_CLOCK_SPI0 \<Rightarrow> s\<lparr>clk_en_peri := (clk_en_peri s)\<lparr>spi0_clk_en := ucast en\<rparr>\<rparr>
     | SYSCTL_CLOCK_SPI1 \<Rightarrow> s\<lparr>clk_en_peri := (clk_en_peri s)\<lparr>spi1_clk_en := ucast en\<rparr>\<rparr>
     | _ \<Rightarrow> s)"

definition sysctl_clock_enable :: "sysctl_clock \<Rightarrow> sysctl \<Rightarrow> int \<times> sysctl" where
  [dev_simps]: "sysctl_clock_enable clock s =
     (if clock = SYSCTL_CLOCK_MAX then (-1, s)
      else (0, sysctl_clock_device_en clock 1 (sysctl_clock_bus_en clock 1 s)))"

definition sysctl_clock_disable :: "sysctl_clock \<Rightarrow> sysctl \<Rightarrow> int \<times> sysctl" where
  [dev_simps]: "sysctl_clock_disable clock s =
     (if clock = SYSCTL_CLOCK_MAX then (-1, s)
      else (0, sysctl_clock_device_en clock 0 s))"

subsection \<open>Clock dividers\<close>

definition sysctl_clock_set_threshold :: "sysctl_threshold \<Rightarrow> int \<Rightarrow> sysctl \<Rightarrow> int \<times> sysctl" where
  [dev_simps]: "sysctl_clock_set_threshold which threshold s =
     (case which of
       SYSCTL_THRESHOLD_ACLK \<Rightarrow> (0, s\<lparr>clk_sel0 := (clk_sel0 s)\<lparr>aclk_divider_sel := ucast ((word_of_int threshold :: u8) AND 0x03)\<rparr>\<rparr>)
     | SYSCTL_THRESHOLD_APB0 \<Rightarrow> (0, s\<lparr>clk_sel0 := (clk_sel0 s)\<lparr>apb0_clk_sel := ucast ((word_of_int threshold :: u8) AND 0x07)\<rparr>\<rparr>)
     | SYSCTL_THRESHOLD_APB1 \<Rightarrow> (0, s\<lparr>clk_sel0 := (clk_sel0 s)\<lparr>apb1_clk_sel := ucast ((word_of_int threshold :: u8) AND 0x07)\<rparr>\<rparr>)
     | SYSCTL_THRESHOLD_APB2 \<Rightarrow> (0, s\<lparr>clk_sel0 := (clk_sel0 s)\<lparr>apb2_clk_sel := ucast ((word_of_int threshold :: u8) AND 0x07)\<rparr>\<rparr>)
     | SYSCTL_THRESHOLD_SRAM0 \<Rightarrow> (0, s\<lparr>clk_th0 := (clk_th0 s)\<lparr>sram0_gclk_threshold := ucast ((word_of_int threshold :: u8) AND 0x0F)\<rparr>\<rparr>)
     | SYSCTL_THRESHOLD_SRAM1 \<Rightarrow> (0, s\<lparr>clk_th0 := (clk_th0 s)\<lparr>sram1_gclk_threshold := ucast ((word_of_int threshold :: u8) AND 0x0F)\<rparr>\<rparr>)
     | SYSCTL_THRESHOLD_AI \<Rightarrow> (0, s\<lparr>clk_th0 := (clk_th0 s)\<lparr>ai_gclk_threshold := ucast ((word_of_int threshold :: u8) AND 0x0F)\<rparr>\<rparr>)
     | SYSCTL_THRESHOLD_DVP \<Rightarrow> (0, s\<lparr>clk_th0 := (clk_th0 s)\<lparr>dvp_gclk_threshold := ucast ((word_of_int threshold :: u8) AND 0x0F)\<rparr>\<rparr>)
     | SYSCTL_THRESHOLD_ROM \<Rightarrow> (0, s\<lparr>clk_th0 := (clk_th0 s)\<lparr>rom_gclk_threshold := ucast ((word_of_int threshold :: u8) AND 0x0F)\<rparr>\<rparr>)
     | SYSCTL_THRESHOLD_SPI0 \<Rightarrow> (0, s\<lparr>clk_th1 := (clk_th1 s)\<lparr>spi0_clk_threshold := word_of_int threshold :: u8\<rparr>\<rparr>)
     | SYSCTL_THRESHOLD_SPI1 \<Rightarrow> (0, s\<lparr>clk_th1 := (clk_th1 s)\<lparr>spi1_clk_threshold := word_of_int threshold :: u8\<rparr>\<rparr>)
     | SYSCTL_THRESHOLD_SPI2 \<Rightarrow> (0, s\<lparr>clk_th1 := (clk_th1 s)\<lparr>spi2_clk_threshold := word_of_int threshold :: u8\<rparr>\<rparr>)
     | SYSCTL_THRESHOLD_SPI3 \<Rightarrow> (0, s\<lparr>clk_th1 := (clk_th1 s)\<lparr>spi3_clk_threshold := word_of_int threshold :: u8\<rparr>\<rparr>)
     | SYSCTL_THRESHOLD_TIMER0 \<Rightarrow> (0, s\<lparr>clk_th2 := (clk_th2 s)\<lparr>timer0_clk_threshold := word_of_int threshold :: u8\<rparr>\<rparr>)
     | SYSCTL_THRESHOLD_TIMER1 \<Rightarrow> (0, s\<lparr>clk_th2 := (clk_th2 s)\<lparr>timer1_clk_threshold := word_of_int threshold :: u8\<rparr>\<rparr>)
     | SYSCTL_THRESHOLD_TIMER2 \<Rightarrow> (0, s\<lparr>clk_th2 := (clk_th2 s)\<lparr>timer2_clk_threshold := word_of_int threshold :: u8\<rparr>\<rparr>)
     | SYSCTL_THRESHOLD_I2S0_M \<Rightarrow> (0, s\<lparr>clk_th4 := (clk_th4 s)\<lparr>i2s0_mclk_threshold := word_of_int threshold :: u8\<rparr>\<rparr>)
     | SYSCTL_THRESHOLD_I2S1_M \<Rightarrow> (0, s\<lparr>clk_th4 := (clk_th4 s)\<lparr>i2s1_mclk_threshold := word_of_int threshold :: u8\<rparr>\<rparr>)
     | SYSCTL_THRESHOLD_I2S2_M \<Rightarrow> (0, s\<lparr>clk_th5 := (clk_th5 s)\<lparr>i2s2_mclk_threshold := word_of_int threshold :: u8\<rparr>\<rparr>)
     | SYSCTL_THRESHOLD_I2C0 \<Rightarrow> (0, s\<lparr>clk_th5 := (clk_th5 s)\<lparr>i2c0_clk_threshold := word_of_int threshold :: u8\<rparr>\<rparr>)
     | SYSCTL_THRESHOLD_I2C1 \<Rightarrow> (0, s\<lparr>clk_th5 := (clk_th5 s)\<lparr>i2c1_clk_threshold := word_of_int threshold :: u8\<rparr>\<rparr>)
     | SYSCTL_THRESHOLD_I2C2 \<Rightarrow> (0, s\<lparr>clk_th5 := (clk_th5 s)\<lparr>i2c2_clk_threshold := word_of_int threshold :: u8\<rparr>\<rparr>)
     | SYSCTL_THRESHOLD_WDT0 \<Rightarrow> (0, s\<lparr>clk_th6 := (clk_th6 s)\<lparr>wdt0_clk_threshold := word_of_int threshold :: u8\<rparr>\<rparr>)
     | SYSCTL_THRESHOLD_WDT1 \<Rightarrow> (0, s\<lparr>clk_th6 := (clk_th6 s)\<lparr>wdt1_clk_threshold := word_of_int threshold :: u8\<rparr>\<rparr>)
     | SYSCTL_THRESHOLD_I2S0 \<Rightarrow> (0, s\<lparr>clk_th3 := (clk_th3 s)\<lparr>i2s0_clk_threshold := word_of_int threshold :: u16\<rparr>\<rparr>)
     | SYSCTL_THRESHOLD_I2S1 \<Rightarrow> (0, s\<lparr>clk_th3 := (clk_th3 s)\<lparr>i2s1_clk_threshold := word_of_int threshold :: u16\<rparr>\<rparr>)
     | SYSCTL_THRESHOLD_I2S2 \<Rightarrow> (0, s\<lparr>clk_th4 := (clk_th4 s)\<lparr>i2s2_clk_threshold := word_of_int threshold :: u16\<rparr>\<rparr>)
     | _ \<Rightarrow> (-1, s))"

definition sysctl_clock_get_threshold :: "sysctl_threshold \<Rightarrow> sysctl \<Rightarrow> int" where
  [dev_simps]: "sysctl_clock_get_threshold which s =
     (case which of
       SYSCTL_THRESHOLD_ACLK \<Rightarrow> uint (aclk_divider_sel (clk_sel0 s))
     | SYSCTL_THRESHOLD_APB0 \<Rightarrow> uint (apb0_clk_sel (clk_sel0 s))
     | SYSCTL_THRESHOLD_APB1 \<Rightarrow> uint (apb1_clk_sel (clk_sel0 s))
     | SYSCTL_THRESHOLD_APB2 \<Rightarrow> uint (apb2_clk_sel (clk_sel0 s))
     | SYSCTL_THRESHOLD_SRAM0 \<Rightarrow> uint (sram0_gclk_threshold (clk_th0 s))
     | SYSCTL_THRESHOLD_SRAM1 \<Rightarrow> uint (sram1_gclk_threshold (clk_th0 s))
     | SYSCTL_THRESHOLD_AI \<Rightarrow> uint (ai_gclk_threshold (clk_th0 s))
     | SYSCTL_THRESHOLD_DVP \<Rightarrow> uint (dvp_gclk_threshold (clk_th0 s))
     | SYSCTL_THRESHOLD_ROM \<Rightarrow> uint (rom_gclk_threshold (clk_th0 s))
     | SYSCTL_THRESHOLD_SPI0 \<Rightarrow> uint (spi0_clk_threshold (clk_th1 s))
     | SYSCTL_THRESHOLD_SPI1 \<Rightarrow> uint (spi1_clk_threshold (clk_th1 s))
     | SYSCTL_THRESHOLD_SPI2 \<Rightarrow> uint (spi2_clk_threshold (clk_th1 s))
     | SYSCTL_THRESHOLD_SPI3 \<Rightarrow> uint (spi3_clk_threshold (clk_th1 s))
     | SYSCTL_THRESHOLD_TIMER0 \<Rightarrow> uint (timer0_clk_threshold (clk_th2 s))
     | SYSCTL_THRESHOLD_TIMER1 \<Rightarrow> uint (timer1_clk_threshold (clk_th2 s))
     | SYSCTL_THRESHOLD_TIMER2 \<Rightarrow> uint (timer2_clk_threshold (clk_th2 s))
     | SYSCTL_THRESHOLD_I2S0 \<Rightarrow> uint (i2s0_clk_threshold (clk_th3 s))
     | SYSCTL_THRESHOLD_I2S1 \<Rightarrow> uint (i2s1_clk_threshold (clk_th3 s))
     | SYSCTL_THRESHOLD_I2S2 \<Rightarrow> uint (i2s2_clk_threshold (clk_th4 s))
     | SYSCTL_THRESHOLD_I2S0_M \<Rightarrow> uint (i2s0_mclk_threshold (clk_th4 s))
     | SYSCTL_THRESHOLD_I2S1_M \<Rightarrow> uint (i2s1_mclk_threshold (clk_th4 s))
     | SYSCTL_THRESHOLD_I2S2_M \<Rightarrow> uint (i2s2_mclk_threshold (clk_th5 s))
     | SYSCTL_THRESHOLD_I2C0 \<Rightarrow> uint (i2c0_clk_threshold (clk_th5 s))
     | SYSCTL_THRESHOLD_I2C1 \<Rightarrow> uint (i2c1_clk_threshold (clk_th5 s))
     | SYSCTL_THRESHOLD_I2C2 \<Rightarrow> uint (i2c2_clk_threshold (clk_th5 s))
     | SYSCTL_THRESHOLD_WDT0 \<Rightarrow> uint (wdt0_clk_threshold (clk_th6 s))
     | SYSCTL_THRESHOLD_WDT1 \<Rightarrow> uint (wdt1_clk_threshold (clk_th6 s))
     | _ \<Rightarrow> 0)"

subsection \<open>Clock multiplexers\<close>

definition sysctl_clock_set_clock_select :: "sysctl_clock_select \<Rightarrow> int \<Rightarrow> sysctl \<Rightarrow> int \<times> sysctl" where
  [dev_simps]: "sysctl_clock_set_clock_select which select s =
     (case which of
       SYSCTL_CLOCK_SELECT_PLL0_BYPASS \<Rightarrow> (0, s\<lparr>pll0 := (pll0 s)\<lparr>pll_bypass := word_of_int (select AND 0x01)\<rparr>\<rparr>)
     | SYSCTL_CLOCK_SELECT_PLL1_BYPASS \<Rightarrow> (0, s\<lparr>pll1 := (pll1 s)\<lparr>pll_bypass := word_of_int (select AND 0x01)\<rparr>\<rparr>)
     | SYSCTL_CLOCK_SELECT_PLL2_BYPASS \<Rightarrow> (0, s\<lparr>pll2 := (pll2 s)\<lparr>pll_bypass := word_of_int (select AND 0x01)\<rparr>\<rparr>)
     | SYSCTL_CLOCK_SELECT_ACLK \<Rightarrow> (0, s\<lparr>clk_sel0 := (clk_sel0 s)\<lparr>aclk_sel := word_of_int (select AND 0x01)\<rparr>\<rparr>)
     | SYSCTL_CLOCK_SELECT_SPI3 \<Rightarrow> (0, s\<lparr>clk_sel0 := (clk_sel0 s)\<lparr>spi3_clk_sel := word_of_int (select AND 0x01)\<rparr>\<rparr>)
     | SYSCTL_CLOCK_SELECT_TIMER0 \<Rightarrow> (0, s\<lparr>clk_sel0 := (clk_sel0 s)\<lparr>timer0_clk_sel := word_of_int (select AND 0x01)\<rparr>\<rparr>)
     | SYSCTL_CLOCK_SELECT_TIMER1 \<Rightarrow> (0, s\<lparr>clk_sel0 := (clk_sel0 s)\<lparr>timer1_clk_sel := word_of_int (select AND 0x01)\<rparr>\<rparr>)
     | SYSCTL_CLOCK_SELECT_TIMER2 \<Rightarrow> (0, s\<lparr>clk_sel0 := (clk_sel0 s)\<lparr>timer2_clk_sel := word_of_int (select AND 0x01)\<rparr>\<rparr>)
     | SYSCTL_CLOCK_SELECT_SPI3_SAMPLE \<Rightarrow> (0, s\<lparr>clk_sel1 := (clk_sel1 s)\<lparr>spi3_sample_clk_sel := word_of_int (select AND 0x01)\<rparr>\<rparr>)
     | SYSCTL_CLOCK_SELECT_PLL2 \<Rightarrow> (0, s\<lparr>pll2 := (pll2 s)\<lparr>pll_ckin_sel := word_of_int (select AND 0x03)\<rparr>\<rparr>)
     | _ \<Rightarrow> (-1, s))"

definition sysctl_clock_get_clock_select :: "sysctl_clock_select \<Rightarrow> sysctl \<Rightarrow> int" where
  [dev_simps]: "sysctl_clock_get_clock_select which s =
     (case which of
       SYSCTL_CLOCK_SELECT_PLL0_BYPASS \<Rightarrow> uint (pll_bypass (pll0 s))
     | SYSCTL_CLOCK_SELECT_PLL1_BYPASS \<Rightarrow> uint (pll_bypass (pll1 s))
     | SYSCTL_CLOCK_SELECT_PLL2_BYPASS \<Rightarrow> uint (pll_bypass (pll2 s))
     | SYSCTL_CLOCK_SELECT_PLL2 \<Rightarrow> uint (pll_ckin_sel (pll2 s))
     | SYSCTL_CLOCK_SELECT_ACLK \<Rightarrow> uint (aclk_sel (clk_sel0 s))
     | SYSCTL_CLOCK_SELECT_SPI3 \<Rightarrow> uint (spi3_clk_sel (clk_sel0 s))
     | SYSCTL_CLOCK_SELECT_TIMER0 \<Rightarrow> uint (timer0_clk_sel (clk_sel0 s))
     | SYSCTL_CLOCK_SELECT_TIMER1 \<Rightarrow> uint (timer1_clk_sel (clk_sel0 s))
     | SYSCTL_CLOCK_SELECT_TIMER2 \<Rightarrow> uint (timer2_clk_sel (clk_sel0 s))
     | SYSCTL_CLOCK_SELECT_SPI3_SAMPLE \<Rightarrow> uint (spi3_sample_clk_sel (clk_sel1 s))
     | _ \<Rightarrow> 0)"

subsection \<open>PLL power, lock and reset\<close>

text \<open>
  \<open>pll_of\<close> and \<open>pll_upd\<close> select the register a \<open>switch(pll)\<close> addresses.  The writes of one
  case are kept one by one and in order; the \<open>nop\<close>s only take time.
\<close>

definition pll_of :: "sysctl_pll \<Rightarrow> sysctl \<Rightarrow> sysctl_general_pll" where
  [dev_simps]: "pll_of pll s =
     (case pll of SYSCTL_PLL0 \<Rightarrow> pll0 s | SYSCTL_PLL1 \<Rightarrow> pll1 s | _ \<Rightarrow> pll2 s)"

definition pll_upd ::
  "sysctl_pll \<Rightarrow> (sysctl_general_pll \<Rightarrow> sysctl_general_pll) \<Rightarrow> sysctl \<Rightarrow> sysctl" where
  [dev_simps]: "pll_upd pll f s =
     (case pll of
       SYSCTL_PLL0 \<Rightarrow> s\<lparr>pll0 := f (pll0 s)\<rparr>
     | SYSCTL_PLL1 \<Rightarrow> s\<lparr>pll1 := f (pll1 s)\<rparr>
     | SYSCTL_PLL2 \<Rightarrow> s\<lparr>pll2 := f (pll2 s)\<rparr>
     | SYSCTL_PLL_MAX \<Rightarrow> s)"

definition sysctl_pll_is_lock :: "sysctl_pll \<Rightarrow> sysctl \<Rightarrow> int" where
  [dev_simps]: "sysctl_pll_is_lock pll s =
     (case pll of
       SYSCTL_PLL0 \<Rightarrow> of_bool (pll_lock0 (pll_lock s) = 3)
     | SYSCTL_PLL1 \<Rightarrow> uint (pll_lock1 (pll_lock s) AND 1)
     | SYSCTL_PLL2 \<Rightarrow> uint (pll_lock2 (pll_lock s) AND 1)
     | SYSCTL_PLL_MAX \<Rightarrow> 0)"

definition sysctl_pll_clear_slip :: "sysctl_pll \<Rightarrow> sysctl \<Rightarrow> int \<times> sysctl" where
  [dev_simps]: "sysctl_pll_clear_slip pll s =
     (if pll = SYSCTL_PLL_MAX then (-1, s)
      else
       (let s' = (case pll of
             SYSCTL_PLL0 \<Rightarrow> s\<lparr>pll_lock := (pll_lock s)\<lparr>pll_slip_clear0 := 1\<rparr>\<rparr>
           | SYSCTL_PLL1 \<Rightarrow> s\<lparr>pll_lock := (pll_lock s)\<lparr>pll_slip_clear1 := 1\<rparr>\<rparr>
           | SYSCTL_PLL2 \<Rightarrow> s\<lparr>pll_lock := (pll_lock s)\<lparr>pll_slip_clear2 := 1\<rparr>\<rparr>
           | _ \<Rightarrow> s)
        in (if sysctl_pll_is_lock pll s' \<noteq> 0 then 0 else -1, s')))"

definition sysctl_pll_enable :: "sysctl_pll \<Rightarrow> sysctl \<Rightarrow> int \<times> sysctl" where
  [dev_simps]: "sysctl_pll_enable pll s =
     (if pll = SYSCTL_PLL_MAX then (-1, s)
      else
       (let s = pll_upd pll (\<lambda>r. r\<lparr>pll_bypass := 0\<rparr>) s;
            s = pll_upd pll (\<lambda>r. r\<lparr>pll_pwrd := 1\<rparr>) s;
            s = pll_upd pll (\<lambda>r. r\<lparr>pll_reset := 0\<rparr>) s;
            s = pll_upd pll (\<lambda>r. r\<lparr>pll_reset := 1\<rparr>) s;
            s = pll_upd pll (\<lambda>r. r\<lparr>pll_reset := 0\<rparr>) s
        in (0, s)))"

definition sysctl_pll_disable :: "sysctl_pll \<Rightarrow> sysctl \<Rightarrow> int \<times> sysctl" where
  [dev_simps]: "sysctl_pll_disable pll s =
     (if pll = SYSCTL_PLL_MAX then (-1, s)
      else
       (let s = pll_upd pll (\<lambda>r. r\<lparr>pll_bypass := 1\<rparr>) s;
            s = pll_upd pll (\<lambda>r. r\<lparr>pll_pwrd := 0\<rparr>) s
        in (0, s)))"

text \<open>
  \<open>while(sysctl_pll_is_lock(pll) == 0) sysctl_pll_clear_slip(pll);\<close>  The lock bits are set
  by the PLL itself: \<open>hw\<close> is what the hardware does to the registers between two polls.  The
  loop may never end, so it is a partial function; \<open>None\<close> is "does not return".
\<close>

partial_function (option) sysctl_pll_wait_lock ::
  "(sysctl \<Rightarrow> sysctl) \<Rightarrow> sysctl_pll \<Rightarrow> sysctl \<Rightarrow> sysctl option" where
  "sysctl_pll_wait_lock hw pll s =
     (if sysctl_pll_is_lock pll s \<noteq> 0 then Some s
      else sysctl_pll_wait_lock hw pll (hw (snd (sysctl_pll_clear_slip pll s))))"

text \<open>
  \<open>sysctl_reset\<close> writes 1, waits 10 us, writes 0.  \<open>sysctl_reset_states\<close> lists the register
  states the hardware sees, in order; the driver returns in the last one.
\<close>

definition sysctl_reset_states :: "sysctl_reset_t \<Rightarrow> sysctl \<Rightarrow> sysctl list" where
  [dev_simps]: "sysctl_reset_states reset s =
     (let s1 = sysctl_reset_ctl reset 1 s in [s1, sysctl_reset_ctl reset 0 s1])"

definition sysctl_reset :: "sysctl_reset_t \<Rightarrow> sysctl \<Rightarrow> sysctl" where
  [dev_simps]: "sysctl_reset reset s = last (sysctl_reset_states reset s)"

subsection \<open>DMA routing, IO power, reset status, boot-time PLL setting\<close>

definition sysctl_dma_select :: "sysctl_dma_channel \<Rightarrow> nat \<Rightarrow> sysctl \<Rightarrow> int \<times> sysctl" where
  [dev_simps]: "sysctl_dma_select channel select s =
     (let r0 = dma_sel0 s; r1 = dma_sel1 s; v = word_of_nat select in
      case channel of
        SYSCTL_DMA_CHANNEL_0 \<Rightarrow> (0, s\<lparr>dma_sel0 := r0\<lparr>sel0 := v\<rparr>, dma_sel1 := r1\<rparr>)
      | SYSCTL_DMA_CHANNEL_1 \<Rightarrow> (0, s\<lparr>dma_sel0 := r0\<lparr>sel1 := v\<rparr>, dma_sel1 := r1\<rparr>)
      | SYSCTL_DMA_CHANNEL_2 \<Rightarrow> (0, s\<lparr>dma_sel0 := r0\<lparr>sel2 := v\<rparr>, dma_sel1 := r1\<rparr>)
      | SYSCTL_DMA_CHANNEL_3 \<Rightarrow> (0, s\<lparr>dma_sel0 := r0\<lparr>sel3 := v\<rparr>, dma_sel1 := r1\<rparr>)
      | SYSCTL_DMA_CHANNEL_4 \<Rightarrow> (0, s\<lparr>dma_sel0 := r0\<lparr>sel4 := v\<rparr>, dma_sel1 := r1\<rparr>)
      | SYSCTL_DMA_CHANNEL_5 \<Rightarrow> (0, s\<lparr>dma_sel0 := r0, dma_sel1 := r1\<lparr>sel5 := v\<rparr>\<rparr>)
      | SYSCTL_DMA_CHANNEL_MAX \<Rightarrow> (-1, s))"

definition sysctl_set_spi0_dvp_data :: "u8 \<Rightarrow> sysctl \<Rightarrow> int \<times> sysctl" where
  [dev_simps]: "sysctl_set_spi0_dvp_data en s = (0, s\<lparr>spi_dvp_data_enable := ucast en\<rparr>)"

fun power_bank_num :: "sysctl_power_bank \<Rightarrow> nat" where
  "power_bank_num SYSCTL_POWER_BANK0 = 0"
| "power_bank_num SYSCTL_POWER_BANK1 = 1"
| "power_bank_num SYSCTL_POWER_BANK2 = 2"
| "power_bank_num SYSCTL_POWER_BANK3 = 3"
| "power_bank_num SYSCTL_POWER_BANK4 = 4"
| "power_bank_num SYSCTL_POWER_BANK5 = 5"
| "power_bank_num SYSCTL_POWER_BANK6 = 6"
| "power_bank_num SYSCTL_POWER_BANK7 = 7"
| "power_bank_num SYSCTL_POWER_BANK_MAX = 8"

definition sysctl_set_power_mode ::
  "sysctl_power_bank \<Rightarrow> sysctl_io_power_mode \<Rightarrow> sysctl \<Rightarrow> sysctl" where
  [dev_simps]: "sysctl_set_power_mode power_bank io_power_mode s =
     (if io_power_mode \<noteq> SYSCTL_POWER_V33
      then s\<lparr>power_sel := power_sel s OR push_bit (power_bank_num power_bank) 1\<rparr>
      else s\<lparr>power_sel := power_sel s AND NOT (push_bit (power_bank_num power_bank) 1)\<rparr>)"

text \<open>
  \<open>sysctl_get_reset_status\<close> keeps its result in a static variable, here the first component
  of the state; \<open>SYSCTL_RESET_STATUS_HARD\<close> is 0, the variable's initial value.
\<close>

definition sysctl_get_reset_status ::
  "sysctl_reset_enum_status \<times> sysctl \<Rightarrow>
   sysctl_reset_enum_status \<times> (sysctl_reset_enum_status \<times> sysctl)" where
  [dev_simps]: "sysctl_get_reset_status st =
     (case st of (s_reset_status, s) \<Rightarrow>
       if s_reset_status \<noteq> SYSCTL_RESET_STATUS_HARD then (s_reset_status, st)
       else
        (let r = reset_status s;
             v = (if wdt0_reset_sts r \<noteq> 0 then SYSCTL_RESET_STATUS_WDT0
                  else if wdt1_reset_sts r \<noteq> 0 then SYSCTL_RESET_STATUS_WDT1
                  else if soft_reset_sts r \<noteq> 0 then SYSCTL_RESET_STATUS_SOFT
                  else SYSCTL_RESET_STATUS_HARD)
         in (v, v, s\<lparr>reset_status := r\<lparr>reset_sts_clr := 1\<rparr>\<rparr>)))"

definition pll_set_dividers ::
  "nat \<Rightarrow> nat \<Rightarrow> nat \<Rightarrow> nat \<Rightarrow> sysctl_general_pll \<Rightarrow> sysctl_general_pll" where
  [dev_simps]: "pll_set_dividers r f od bw p =
     p\<lparr>clkr := word_of_nat r, clkf := word_of_nat f, clkod := word_of_nat od,
       bwadj := word_of_nat bw\<rparr>"

definition sysctl_pll_fast_enable_pll :: "(sysctl \<Rightarrow> sysctl) \<Rightarrow> sysctl \<Rightarrow> (u32 \<times> sysctl) option" where
  "sysctl_pll_fast_enable_pll hw s =
     (let s = s\<lparr>pll0 := pll_set_dividers 0 60 1 60 (pll0 s),
                pll1 := pll_set_dividers 0 59 3 59 (pll1 s),
                pll2 := pll_set_dividers 0 59 3 59 (pll2 s)\<rparr>;
          s = snd (sysctl_pll_enable SYSCTL_PLL0 s);
          s = snd (sysctl_pll_enable SYSCTL_PLL1 s);
          s = snd (sysctl_pll_enable SYSCTL_PLL2 s)
      in Option.bind (sysctl_pll_wait_lock hw SYSCTL_PLL0 s) (\<lambda>s.
         Option.bind (sysctl_pll_wait_lock hw SYSCTL_PLL1 s) (\<lambda>s.
         Option.bind (sysctl_pll_wait_lock hw SYSCTL_PLL2 s) (\<lambda>s.
           let s = snd (sysctl_clock_enable SYSCTL_CLOCK_PLL0 s);
               s = snd (sysctl_clock_enable SYSCTL_CLOCK_PLL1 s);
               s = snd (sysctl_clock_enable SYSCTL_CLOCK_PLL2 s);
               s = snd (sysctl_clock_set_clock_select SYSCTL_CLOCK_SELECT_ACLK 1 s)
           in Some (0, s)))))"

subsection \<open>The interface of a bank of control fields\<close>

text \<open>
  Dividers and multiplexers have one contract: each valid key names a field of some width,
  writing a key stores the value modulo that width and touches no other key, and writing an
  invalid key is refused with -1 and no effect.
\<close>

locale control_bank =
  fixes get_field :: "'k \<Rightarrow> 's \<Rightarrow> int"
    and set_field :: "'k \<Rightarrow> int \<Rightarrow> 's \<Rightarrow> int \<times> 's"
    and width :: "'k \<Rightarrow> nat"
    and valid :: "'k \<Rightarrow> bool"
  assumes get_same: "valid k \<Longrightarrow> get_field k (snd (set_field k v s)) = v mod 2 ^ width k"
    and get_other: "k' \<noteq> k \<Longrightarrow> get_field k' (snd (set_field k v s)) = get_field k' s"
    and status: "fst (set_field k v s) = (if valid k then 0 else -1)"
    and refused: "\<not> valid k \<Longrightarrow> snd (set_field k v s) = s"
begin

lemma get_after_set:
  "get_field k' (snd (set_field k v s)) =
     (if k' = k \<and> valid k then v mod 2 ^ width k else get_field k' s)"
  by (cases "valid k") (auto simp: get_same get_other refused)

lemma get_after_program:
  "get_field k (snd (fold (\<lambda>(k, v) (r, s). set_field k v s) kvs (r0, s0))) =
     (case map_of (rev (filter (valid \<circ> fst) kvs)) k of
        Some v \<Rightarrow> v mod 2 ^ width k
      | None \<Rightarrow> get_field k s0)"
proof (induction kvs arbitrary: r0 s0)
  case Nil
  show ?case by simp
next
  case (Cons kv kvs)
  obtain k1 v1 where kv: "kv = (k1, v1)" by (cases kv)
  obtain r1 s1 where s1: "set_field k1 v1 s0 = (r1, s1)" by (cases "set_field k1 v1 s0")
  have g: "get_field k s1 = (if k = k1 \<and> valid k1 then v1 mod 2 ^ width k1 else get_field k s0)"
    using get_after_set [of k k1 v1 s0] by (simp add: s1)
  show ?case
    using Cons.IH [of r1 s1] by (auto simp: kv s1 g map_add_def split: option.splits)
qed

end

fun threshold_width :: "sysctl_threshold \<Rightarrow> nat" where
  "threshold_width SYSCTL_THRESHOLD_ACLK = 2"
| "threshold_width SYSCTL_THRESHOLD_APB0 = 3"
| "threshold_width SYSCTL_THRESHOLD_APB1 = 3"
| "threshold_width SYSCTL_THRESHOLD_APB2 = 3"
| "threshold_width SYSCTL_THRESHOLD_SRAM0 = 4"
| "threshold_width SYSCTL_THRESHOLD_SRAM1 = 4"
| "threshold_width SYSCTL_THRESHOLD_AI = 4"
| "threshold_width SYSCTL_THRESHOLD_DVP = 4"
| "threshold_width SYSCTL_THRESHOLD_ROM = 4"
| "threshold_width SYSCTL_THRESHOLD_I2S0 = 16"
| "threshold_width SYSCTL_THRESHOLD_I2S1 = 16"
| "threshold_width SYSCTL_THRESHOLD_I2S2 = 16"
| "threshold_width _ = 8"

fun clock_select_width :: "sysctl_clock_select \<Rightarrow> nat" where
  "clock_select_width SYSCTL_CLOCK_SELECT_PLL2 = 2"
| "clock_select_width _ = 1"

text \<open>Reading back a masked C value from a field as wide as the mask.\<close>

lemma and_mask_take_bit:
  fixes w :: "'a::len word"
  shows "w AND 1 = take_bit 1 w" "w AND 3 = take_bit 2 w" "w AND 7 = take_bit 3 w"
    "w AND 15 = take_bit 4 w"
  by (simp_all add: take_bit_eq_mask mask_eq_exp_minus_1)

lemma and_mask_int:
  "(k :: int) AND 1 = k mod 2" "k AND 3 = k mod 4"
  by (simp_all add: take_bit_eq_mask mask_eq_exp_minus_1 flip: take_bit_eq_mod [of 1 k, simplified] take_bit_eq_mod [of 2 k, simplified])

lemma uint_ucast_take_bit:
  "uint (ucast (take_bit n (word_of_int t :: 'a::len word)) :: 'b::len word) =
     t mod 2 ^ min (min n LENGTH('a)) LENGTH('b)"
  by (simp add: unsigned_ucast_eq unsigned_take_bit_eq uint_word_of_int_eq min.commute min.left_commute
      flip: take_bit_eq_mod)

lemma uint_ucast_of_int:
  "uint (ucast (word_of_int t :: 'a::len word) :: 'b::len word) =
     t mod 2 ^ min LENGTH('a) LENGTH('b)"
  by (simp add: unsigned_ucast_eq uint_word_of_int_eq min.commute flip: take_bit_eq_mod)

lemmas field_value = and_mask_take_bit uint_ucast_take_bit uint_ucast_of_int
  uint_word_of_int

interpretation thresholds: control_bank
  "\<lambda>which s. sysctl_clock_get_threshold which s" "sysctl_clock_set_threshold" threshold_width
  "\<lambda>which. which \<noteq> SYSCTL_THRESHOLD_MAX"
proof (unfold_locales, goal_cases)
  case (1 k v s)
  then show ?case
    by (cases k) (simp_all add: sysctl_clock_set_threshold_def sysctl_clock_get_threshold_def field_value)
next
  case (2 k' k v s)
  then show ?case
    by (cases k; cases k')
      (simp_all add: sysctl_clock_set_threshold_def sysctl_clock_get_threshold_def)
next
  case (3 k v s)
  show ?case
    by (cases k) (simp_all add: sysctl_clock_set_threshold_def)
next
  case (4 k v s)
  then show ?case
    by (simp add: sysctl_clock_set_threshold_def)
qed

interpretation selects: control_bank
  "\<lambda>which s. sysctl_clock_get_clock_select which s" "sysctl_clock_set_clock_select" clock_select_width
  "\<lambda>which. which \<noteq> SYSCTL_CLOCK_SELECT_MAX"
proof (unfold_locales, goal_cases)
  case (1 k v s)
  then show ?case
    by (cases k) (simp_all add: sysctl_clock_set_clock_select_def sysctl_clock_get_clock_select_def
        and_mask_int uint_word_of_int)
next
  case (2 k' k v s)
  then show ?case
    by (cases k; cases k')
      (simp_all add: sysctl_clock_set_clock_select_def sysctl_clock_get_clock_select_def)
next
  case (3 k v s)
  show ?case
    by (cases k) (simp_all add: sysctl_clock_set_clock_select_def)
next
  case (4 k v s)
  then show ?case
    by (simp add: sysctl_clock_set_clock_select_def)
qed

subsection \<open>Clock gates: what enabling and disabling promise\<close>

text \<open>
  The specification's view: the gate bit of every clock, and the APB bus a peripheral hangs
  on.  A bus has a clock identifier of its own, with the same bit as its gate.
\<close>

fun sysctl_gate :: "sysctl_clock \<Rightarrow> sysctl \<Rightarrow> bit1 option" where
  "sysctl_gate SYSCTL_CLOCK_PLL0 s = Some (pll_out_en (pll0 s))"
| "sysctl_gate SYSCTL_CLOCK_PLL1 s = Some (pll_out_en (pll1 s))"
| "sysctl_gate SYSCTL_CLOCK_PLL2 s = Some (pll_out_en (pll2 s))"
| "sysctl_gate SYSCTL_CLOCK_CPU s = Some (cpu_clk_en (clk_en_cent s))"
| "sysctl_gate SYSCTL_CLOCK_SRAM0 s = Some (sram0_clk_en (clk_en_cent s))"
| "sysctl_gate SYSCTL_CLOCK_SRAM1 s = Some (sram1_clk_en (clk_en_cent s))"
| "sysctl_gate SYSCTL_CLOCK_APB0 s = Some (apb0_clk_en (clk_en_cent s))"
| "sysctl_gate SYSCTL_CLOCK_APB1 s = Some (apb1_clk_en (clk_en_cent s))"
| "sysctl_gate SYSCTL_CLOCK_APB2 s = Some (apb2_clk_en (clk_en_cent s))"
| "sysctl_gate SYSCTL_CLOCK_ROM s = Some (rom_clk_en (clk_en_peri s))"
| "sysctl_gate SYSCTL_CLOCK_DMA s = Some (dma_clk_en (clk_en_peri s))"
| "sysctl_gate SYSCTL_CLOCK_AI s = Some (ai_clk_en (clk_en_peri s))"
| "sysctl_gate SYSCTL_CLOCK_DVP s = Some (dvp_clk_en (clk_en_peri s))"
| "sysctl_gate SYSCTL_CLOCK_FFT s = Some (fft_clk_en (clk_en_peri s))"
| "sysctl_gate SYSCTL_CLOCK_SPI3 s = Some (spi3_clk_en (clk_en_peri s))"
| "sysctl_gate SYSCTL_CLOCK_GPIO s = Some (gpio_clk_en (clk_en_peri s))"
| "sysctl_gate SYSCTL_CLOCK_SPI2 s = Some (spi2_clk_en (clk_en_peri s))"
| "sysctl_gate SYSCTL_CLOCK_I2S0 s = Some (i2s0_clk_en (clk_en_peri s))"
| "sysctl_gate SYSCTL_CLOCK_I2S1 s = Some (i2s1_clk_en (clk_en_peri s))"
| "sysctl_gate SYSCTL_CLOCK_I2S2 s = Some (i2s2_clk_en (clk_en_peri s))"
| "sysctl_gate SYSCTL_CLOCK_I2C0 s = Some (i2c0_clk_en (clk_en_peri s))"
| "sysctl_gate SYSCTL_CLOCK_I2C1 s = Some (i2c1_clk_en (clk_en_peri s))"
| "sysctl_gate SYSCTL_CLOCK_I2C2 s = Some (i2c2_clk_en (clk_en_peri s))"
| "sysctl_gate SYSCTL_CLOCK_UART1 s = Some (uart1_clk_en (clk_en_peri s))"
| "sysctl_gate SYSCTL_CLOCK_UART2 s = Some (uart2_clk_en (clk_en_peri s))"
| "sysctl_gate SYSCTL_CLOCK_UART3 s = Some (uart3_clk_en (clk_en_peri s))"
| "sysctl_gate SYSCTL_CLOCK_FPIOA s = Some (fpioa_clk_en (clk_en_peri s))"
| "sysctl_gate SYSCTL_CLOCK_TIMER0 s = Some (timer0_clk_en (clk_en_peri s))"
| "sysctl_gate SYSCTL_CLOCK_TIMER1 s = Some (timer1_clk_en (clk_en_peri s))"
| "sysctl_gate SYSCTL_CLOCK_TIMER2 s = Some (timer2_clk_en (clk_en_peri s))"
| "sysctl_gate SYSCTL_CLOCK_SHA s = Some (sha_clk_en (clk_en_peri s))"
| "sysctl_gate SYSCTL_CLOCK_AES s = Some (aes_clk_en (clk_en_peri s))"
| "sysctl_gate SYSCTL_CLOCK_WDT0 s = Some (wdt0_clk_en (clk_en_peri s))"
| "sysctl_gate SYSCTL_CLOCK_WDT1 s = Some (wdt1_clk_en (clk_en_peri s))"
| "sysctl_gate SYSCTL_CLOCK_OTP s = Some (otp_clk_en (clk_en_peri s))"
| "sysctl_gate SYSCTL_CLOCK_RTC s = Some (rtc_clk_en (clk_en_peri s))"
| "sysctl_gate SYSCTL_CLOCK_SPI0 s = Some (spi0_clk_en (clk_en_peri s))"
| "sysctl_gate SYSCTL_CLOCK_SPI1 s = Some (spi1_clk_en (clk_en_peri s))"
| "sysctl_gate _ s = None"

fun sysctl_bus :: "sysctl_clock \<Rightarrow> sysctl_clock option" where
  "sysctl_bus SYSCTL_CLOCK_GPIO = Some SYSCTL_CLOCK_APB0"
| "sysctl_bus SYSCTL_CLOCK_SPI2 = Some SYSCTL_CLOCK_APB0"
| "sysctl_bus SYSCTL_CLOCK_I2S0 = Some SYSCTL_CLOCK_APB0"
| "sysctl_bus SYSCTL_CLOCK_I2S1 = Some SYSCTL_CLOCK_APB0"
| "sysctl_bus SYSCTL_CLOCK_I2S2 = Some SYSCTL_CLOCK_APB0"
| "sysctl_bus SYSCTL_CLOCK_I2C0 = Some SYSCTL_CLOCK_APB0"
| "sysctl_bus SYSCTL_CLOCK_I2C1 = Some SYSCTL_CLOCK_APB0"
| "sysctl_bus SYSCTL_CLOCK_I2C2 = Some SYSCTL_CLOCK_APB0"
| "sysctl_bus SYSCTL_CLOCK_UART1 = Some SYSCTL_CLOCK_APB0"
| "sysctl_bus SYSCTL_CLOCK_UART2 = Some SYSCTL_CLOCK_APB0"
| "sysctl_bus SYSCTL_CLOCK_UART3 = Some SYSCTL_CLOCK_APB0"
| "sysctl_bus SYSCTL_CLOCK_FPIOA = Some SYSCTL_CLOCK_APB0"
| "sysctl_bus SYSCTL_CLOCK_TIMER0 = Some SYSCTL_CLOCK_APB0"
| "sysctl_bus SYSCTL_CLOCK_TIMER1 = Some SYSCTL_CLOCK_APB0"
| "sysctl_bus SYSCTL_CLOCK_TIMER2 = Some SYSCTL_CLOCK_APB0"
| "sysctl_bus SYSCTL_CLOCK_SHA = Some SYSCTL_CLOCK_APB0"
| "sysctl_bus SYSCTL_CLOCK_AES = Some SYSCTL_CLOCK_APB1"
| "sysctl_bus SYSCTL_CLOCK_WDT0 = Some SYSCTL_CLOCK_APB1"
| "sysctl_bus SYSCTL_CLOCK_WDT1 = Some SYSCTL_CLOCK_APB1"
| "sysctl_bus SYSCTL_CLOCK_OTP = Some SYSCTL_CLOCK_APB1"
| "sysctl_bus SYSCTL_CLOCK_RTC = Some SYSCTL_CLOCK_APB1"
| "sysctl_bus SYSCTL_CLOCK_SPI0 = Some SYSCTL_CLOCK_APB2"
| "sysctl_bus SYSCTL_CLOCK_SPI1 = Some SYSCTL_CLOCK_APB2"
| "sysctl_bus _ = None"

lemma sysctl_gate_device_en:
  "sysctl_gate c' (sysctl_clock_device_en c en s) =
     (if c' = c then map_option (\<lambda>_. ucast en) (sysctl_gate c s) else sysctl_gate c' s)"
  by (cases c; cases c') (simp_all add: sysctl_clock_device_en_def)

lemma sysctl_gate_bus_en:
  "sysctl_gate c' (sysctl_clock_bus_en c en s) =
     (if en \<noteq> 0 \<and> sysctl_bus c = Some c' then Some (ucast en) else sysctl_gate c' s)"
  by (cases c; cases c') (simp_all add: sysctl_clock_bus_en_def)

lemma sysctl_bus_gate: "sysctl_bus c = Some b \<Longrightarrow> sysctl_gate b s \<noteq> None \<and> b \<noteq> c"
  by (cases c) auto

lemma sysctl_gate_None: "sysctl_gate c s = None \<longleftrightarrow>
    c \<in> {SYSCTL_CLOCK_ACLK, SYSCTL_CLOCK_HCLK, SYSCTL_CLOCK_IN0, SYSCTL_CLOCK_MAX}"
  by (cases c) auto

lemma sysctl_gate_enable:
  "c \<noteq> SYSCTL_CLOCK_MAX \<Longrightarrow>
   sysctl_gate c' (snd (sysctl_clock_enable c s)) =
     (if (c' = c \<and> sysctl_gate c s \<noteq> None) \<or> sysctl_bus c = Some c' then Some 1
      else sysctl_gate c' s)"
  by (auto simp: sysctl_clock_enable_def sysctl_gate_device_en sysctl_gate_bus_en
      dest: sysctl_bus_gate)

lemma sysctl_gate_enable_any:
  "sysctl_gate c' (snd (sysctl_clock_enable c s)) =
     (if (c' = c \<and> sysctl_gate c s \<noteq> None) \<or> sysctl_bus c = Some c' then Some 1
      else sysctl_gate c' s)"
proof (cases "c = SYSCTL_CLOCK_MAX")
  case True
  then show ?thesis by (simp add: sysctl_clock_enable_def)
next
  case False
  then show ?thesis by (rule sysctl_gate_enable)
qed

lemma sysctl_gate_disable:
  "sysctl_gate c' (snd (sysctl_clock_disable c s)) =
     (if c' = c then map_option (\<lambda>_. 0) (sysctl_gate c s) else sysctl_gate c' s)"
  by (auto simp: sysctl_clock_disable_def sysctl_gate_device_en)

subsection \<open>Reset lines\<close>

fun reset_line :: "sysctl_reset_t \<Rightarrow> sysctl \<Rightarrow> bit1 option" where
  "reset_line SYSCTL_RESET_SOC s = Some (soft_reset s)"
| "reset_line SYSCTL_RESET_ROM s = Some (rom_reset (peri_reset s))"
| "reset_line SYSCTL_RESET_DMA s = Some (dma_reset (peri_reset s))"
| "reset_line SYSCTL_RESET_AI s = Some (ai_reset (peri_reset s))"
| "reset_line SYSCTL_RESET_DVP s = Some (dvp_reset (peri_reset s))"
| "reset_line SYSCTL_RESET_FFT s = Some (fft_reset (peri_reset s))"
| "reset_line SYSCTL_RESET_GPIO s = Some (gpio_reset (peri_reset s))"
| "reset_line SYSCTL_RESET_SPI0 s = Some (spi0_reset (peri_reset s))"
| "reset_line SYSCTL_RESET_SPI1 s = Some (spi1_reset (peri_reset s))"
| "reset_line SYSCTL_RESET_SPI2 s = Some (spi2_reset (peri_reset s))"
| "reset_line SYSCTL_RESET_SPI3 s = Some (spi3_reset (peri_reset s))"
| "reset_line SYSCTL_RESET_I2S0 s = Some (i2s0_reset (peri_reset s))"
| "reset_line SYSCTL_RESET_I2S1 s = Some (i2s1_reset (peri_reset s))"
| "reset_line SYSCTL_RESET_I2S2 s = Some (i2s2_reset (peri_reset s))"
| "reset_line SYSCTL_RESET_I2C0 s = Some (i2c0_reset (peri_reset s))"
| "reset_line SYSCTL_RESET_I2C1 s = Some (i2c1_reset (peri_reset s))"
| "reset_line SYSCTL_RESET_I2C2 s = Some (i2c2_reset (peri_reset s))"
| "reset_line SYSCTL_RESET_UART1 s = Some (uart1_reset (peri_reset s))"
| "reset_line SYSCTL_RESET_UART2 s = Some (uart2_reset (peri_reset s))"
| "reset_line SYSCTL_RESET_UART3 s = Some (uart3_reset (peri_reset s))"
| "reset_line SYSCTL_RESET_AES s = Some (aes_reset (peri_reset s))"
| "reset_line SYSCTL_RESET_FPIOA s = Some (fpioa_reset (peri_reset s))"
| "reset_line SYSCTL_RESET_TIMER0 s = Some (timer0_reset (peri_reset s))"
| "reset_line SYSCTL_RESET_TIMER1 s = Some (timer1_reset (peri_reset s))"
| "reset_line SYSCTL_RESET_TIMER2 s = Some (timer2_reset (peri_reset s))"
| "reset_line SYSCTL_RESET_WDT0 s = Some (wdt0_reset (peri_reset s))"
| "reset_line SYSCTL_RESET_WDT1 s = Some (wdt1_reset (peri_reset s))"
| "reset_line SYSCTL_RESET_SHA s = Some (sha_reset (peri_reset s))"
| "reset_line SYSCTL_RESET_RTC s = Some (rtc_reset (peri_reset s))"
| "reset_line SYSCTL_RESET_MAX s = None"

lemma reset_line_ctl:
  "reset_line r' (sysctl_reset_ctl r v s) =
     (if r' = r then map_option (\<lambda>_. ucast v) (reset_line r s) else reset_line r' s)"
  by (cases r; cases r') (simp_all add: sysctl_reset_ctl_def)

lemma reset_line_None: "reset_line r s = None \<longleftrightarrow> r = SYSCTL_RESET_MAX"
  by (cases r) auto

lemma sysctl_reset_pulse:
  assumes "r \<noteq> SYSCTL_RESET_MAX"
  shows "map (reset_line r) (sysctl_reset_states r s) = [Some 1, Some 0]"
    and "r' \<noteq> r \<Longrightarrow> map (reset_line r') (sysctl_reset_states r s) = [reset_line r' s, reset_line r' s]"
  using assms reset_line_None [of r s]
  by (auto simp: sysctl_reset_states_def reset_line_ctl Let_def)

text \<open>Resets and clock gates are independent banks.\<close>

lemma reset_line_clock:
  "reset_line r (snd (sysctl_clock_enable c s)) = reset_line r s"
  "reset_line r (snd (sysctl_clock_disable c s)) = reset_line r s"
proof -
  have "reset_line r (sysctl_clock_device_en c v s) = reset_line r s" for v s
    by (cases c; cases r) (simp_all add: sysctl_clock_device_en_def)
  moreover have "reset_line r (sysctl_clock_bus_en c v s) = reset_line r s" for v s
    by (cases r) (simp_all add: sysctl_clock_bus_en_def split: sysctl_clock.splits)
  ultimately show "reset_line r (snd (sysctl_clock_enable c s)) = reset_line r s"
    "reset_line r (snd (sysctl_clock_disable c s)) = reset_line r s"
    by (simp_all add: sysctl_clock_enable_def sysctl_clock_disable_def)
qed

lemma sysctl_gate_reset_ctl: "sysctl_gate c (sysctl_reset_ctl r v s) = sysctl_gate c s"
  by (cases r; cases c) (simp_all add: sysctl_reset_ctl_def)

subsection \<open>Waiting for a PLL\<close>

text \<open>One turn of the polling loop, and the loop's result when the lock comes up.\<close>

definition lock_poll :: "(sysctl \<Rightarrow> sysctl) \<Rightarrow> sysctl_pll \<Rightarrow> sysctl \<Rightarrow> sysctl" where
  "lock_poll hw pll s = hw (snd (sysctl_pll_clear_slip pll s))"

lemma pll_wait_lock_iterate:
  "sysctl_pll_is_lock pll ((lock_poll hw pll ^^ n) s) \<noteq> 0 \<Longrightarrow>
   \<exists>m \<le> n. sysctl_pll_wait_lock hw pll s = Some ((lock_poll hw pll ^^ m) s)"
proof (induction n arbitrary: s)
  case 0
  then show ?case by (simp add: sysctl_pll_wait_lock.simps)
next
  case (Suc n)
  show ?case
  proof (cases "sysctl_pll_is_lock pll s = 0")
    case False
    then have "sysctl_pll_wait_lock hw pll s = Some ((lock_poll hw pll ^^ 0) s)"
      by (simp add: sysctl_pll_wait_lock.simps)
    then show ?thesis by blast
  next
    case True
    have "sysctl_pll_is_lock pll ((lock_poll hw pll ^^ n) (lock_poll hw pll s)) \<noteq> 0"
      using Suc.prems by (simp add: funpow_swap1)
    from Suc.IH [OF this] obtain m where "m \<le> n"
      and "sysctl_pll_wait_lock hw pll (lock_poll hw pll s) = Some ((lock_poll hw pll ^^ m) (lock_poll hw pll s))"
      by blast
    with True have "Suc m \<le> Suc n"
      and "sysctl_pll_wait_lock hw pll s = Some ((lock_poll hw pll ^^ Suc m) s)"
      by (simp_all add: sysctl_pll_wait_lock.simps [of hw pll s] lock_poll_def funpow_swap1)
    then show ?thesis by blast
  qed
qed

lemma pll_wait_lock_locked:
  assumes "sysctl_pll_wait_lock hw pll s = Some s'"
  shows "sysctl_pll_is_lock pll s' \<noteq> 0 \<and> (\<exists>n. s' = (lock_poll hw pll ^^ n) s)"
proof (rule sysctl_pll_wait_lock.raw_induct
    [where P = "\<lambda>hw pll s s'. sysctl_pll_is_lock pll s' \<noteq> 0 \<and> (\<exists>n. s' = (lock_poll hw pll ^^ n) s)", OF _ assms])
  fix f hw pll s s'
  assume IH: "\<And>hw pll s s'. f hw pll s = Some s' \<Longrightarrow>
      sysctl_pll_is_lock pll s' \<noteq> 0 \<and> (\<exists>n. s' = (lock_poll hw pll ^^ n) s)"
    and eq: "(if sysctl_pll_is_lock pll s \<noteq> 0 then Some s
      else f hw pll (hw (snd (sysctl_pll_clear_slip pll s)))) = Some s'"
  show "sysctl_pll_is_lock pll s' \<noteq> 0 \<and> (\<exists>n. s' = (lock_poll hw pll ^^ n) s)"
  proof (cases "sysctl_pll_is_lock pll s = 0")
    case False
    with eq have "s' = (lock_poll hw pll ^^ 0) s" "sysctl_pll_is_lock pll s' \<noteq> 0" by auto
    then show ?thesis by blast
  next
    case True
    with eq have "f hw pll (lock_poll hw pll s) = Some s'" by (simp add: lock_poll_def)
    from IH [OF this] obtain n where "sysctl_pll_is_lock pll s' \<noteq> 0"
      and "s' = (lock_poll hw pll ^^ Suc n) s"
      by (auto simp: funpow_swap1)
    then show ?thesis by blast
  qed
qed

lemma pll_wait_lock_least:
  "sysctl_pll_wait_lock hw pll s =
     (if \<exists>n. sysctl_pll_is_lock pll ((lock_poll hw pll ^^ n) s) \<noteq> 0
      then Some ((lock_poll hw pll ^^ (LEAST n. sysctl_pll_is_lock pll ((lock_poll hw pll ^^ n) s) \<noteq> 0)) s) else None)"
proof (cases "\<exists>n. sysctl_pll_is_lock pll ((lock_poll hw pll ^^ n) s) \<noteq> 0")
  case True
  let ?n = "LEAST n. sysctl_pll_is_lock pll ((lock_poll hw pll ^^ n) s) \<noteq> 0"
  have "sysctl_pll_is_lock pll ((lock_poll hw pll ^^ ?n) s) \<noteq> 0" using True by (rule LeastI_ex)
  from pll_wait_lock_iterate [OF this] obtain m where m: "m \<le> ?n"
    "sysctl_pll_wait_lock hw pll s = Some ((lock_poll hw pll ^^ m) s)" by blast
  from pll_wait_lock_locked [OF m(2)] have "?n \<le> m" by (intro Least_le) simp
  with m True show ?thesis by simp
next
  case False
  then show ?thesis
    by (cases "sysctl_pll_wait_lock hw pll s") (auto dest: pll_wait_lock_locked)
qed

text \<open>The fields a poll reads and writes, by PLL.\<close>

lemma sysctl_pll_is_lock_pins:
  "sysctl_pll_is_lock pll s \<noteq> 0 \<longleftrightarrow> (case pll of
      SYSCTL_PLL0 \<Rightarrow> bit (pll_lock0 (pll_lock s)) 0 \<and> bit (pll_lock0 (pll_lock s)) 1
    | SYSCTL_PLL1 \<Rightarrow> bit (pll_lock1 (pll_lock s)) 0
    | SYSCTL_PLL2 \<Rightarrow> bit (pll_lock2 (pll_lock s)) 0
    | SYSCTL_PLL_MAX \<Rightarrow> False)"
proof -
  have three: "w = 3 \<longleftrightarrow> bit w 0 \<and> bit w 1" for w :: "2 word"
  proof -
    have m: "(3 :: 2 word) = mask 2" by (simp add: mask_eq_exp_minus_1)
    have "w = mask 2 \<longleftrightarrow> (\<forall>n < 2. bit w n)" by (auto simp: bit_mask_iff intro: bit_word_eqI)
    then show ?thesis unfolding m by (auto simp: less_2_cases_iff)
  qed
  have one: "uint (w AND 1) \<noteq> 0 \<longleftrightarrow> bit w 0" for w :: "2 word"
    by (simp add: and_one_eq bit_0 odd_iff_mod_2_eq_one mod2_eq_if)
  show ?thesis
    by (cases pll) (simp_all only: sysctl_pll_is_lock_def three one sysctl_pll.case of_bool_eq_0_iff not_not simp_thms)
qed

lemma lock_poll_pins:
  "lock_poll hw pll = (\<lambda>s. hw (case pll of
      SYSCTL_PLL0 \<Rightarrow> s\<lparr>pll_lock := (pll_lock s)\<lparr>pll_slip_clear0 := 1\<rparr>\<rparr>
    | SYSCTL_PLL1 \<Rightarrow> s\<lparr>pll_lock := (pll_lock s)\<lparr>pll_slip_clear1 := 1\<rparr>\<rparr>
    | SYSCTL_PLL2 \<Rightarrow> s\<lparr>pll_lock := (pll_lock s)\<lparr>pll_slip_clear2 := 1\<rparr>\<rparr>
    | SYSCTL_PLL_MAX \<Rightarrow> s))"
  by (cases pll) (auto simp: lock_poll_def sysctl_pll_clear_slip_def Let_def)

subsection \<open>Properties\<close>

text \<open>C4.  Clock dividers: after any sequence of \<open>sysctl_clock_set_threshold\<close> calls,
  \<open>sysctl_clock_get_threshold\<close> returns, for each divider, the value of the last valid call for that
  divider, reduced to the width of its register field, or the old value when there was none;
  and each call returns 0, or -1 without effect for an unknown divider.\<close>

theorem threshold_program_contract:
  "sysctl_clock_get_threshold which
     (snd (fold (\<lambda>(k, v) (r, s). sysctl_clock_set_threshold k v s) kvs (r0, s0))) =
     (case map_of (rev (filter (\<lambda>kv. fst kv \<noteq> SYSCTL_THRESHOLD_MAX) kvs)) which of
        Some v \<Rightarrow> v mod 2 ^ threshold_width which
      | None \<Rightarrow> sysctl_clock_get_threshold which s0) \<and>
   fst (sysctl_clock_set_threshold which t s0) = (if which = SYSCTL_THRESHOLD_MAX then -1 else 0) \<and>
   sysctl_clock_set_threshold SYSCTL_THRESHOLD_MAX t s0 = (-1, s0)"
  using thresholds.get_after_program [of which kvs r0 s0] thresholds.status [of which t s0]
  by (simp add: comp_def sysctl_clock_set_threshold_def)

text \<open>Clock multiplexers keep the same contract: \<open>sysctl_clock_set_clock_select\<close> changes the
  selected field to the value reduced to the field's width, leaves every other selection alone, and refuses an
  unknown one with -1.\<close>

lemma clock_select_contract:
  "sysctl_clock_get_clock_select w (snd (sysctl_clock_set_clock_select which v s)) =
     (if w = which \<and> which \<noteq> SYSCTL_CLOCK_SELECT_MAX then v mod 2 ^ clock_select_width which
      else sysctl_clock_get_clock_select w s) \<and>
   fst (sysctl_clock_set_clock_select which v s) = (if which = SYSCTL_CLOCK_SELECT_MAX then -1 else 0)"
  using selects.get_after_set [of w which v s] selects.status [of which v s] by simp

text \<open>Clock gates: \<open>sysctl_clock_enable\<close> switches on the clock's own gate and the gate of the APB
  bus it hangs on and no other; \<open>sysctl_clock_disable\<close> switches off the clock's gate only (its
  bus keeps running for the other peripherals); neither touches a reset line, and both refuse an unknown clock.\<close>

lemma clock_gate_contract:
  "sysctl_gate c' (snd (sysctl_clock_enable c s)) =
     (if (c' = c \<and> sysctl_gate c s \<noteq> None) \<or> sysctl_bus c = Some c' then Some 1
      else sysctl_gate c' s) \<and>
   sysctl_gate c' (snd (sysctl_clock_disable c s)) =
     (if c' = c then map_option (\<lambda>_. 0) (sysctl_gate c s) else sysctl_gate c' s) \<and>
   reset_line r (snd (sysctl_clock_enable c s)) = reset_line r s \<and>
   reset_line r (snd (sysctl_clock_disable c s)) = reset_line r s \<and>
   fst (sysctl_clock_enable c s) = (if c = SYSCTL_CLOCK_MAX then -1 else 0) \<and>
   fst (sysctl_clock_disable c s) = (if c = SYSCTL_CLOCK_MAX then -1 else 0)"
  using sysctl_gate_enable_any [of c' c s] sysctl_gate_disable [of c' c s] reset_line_clock [of r c s]
  by (simp add: sysctl_clock_enable_def sysctl_clock_disable_def)

text \<open>\<open>sysctl_reset\<close> pulses exactly one reset line, high and then low, in the register states the
  hardware sees; every other line and every clock gate is left alone, and an unknown reset does nothing.\<close>

lemma reset_pulses_one_line:
  "map (reset_line r') (sysctl_reset_states r s) =
     (if r' = r \<and> r \<noteq> SYSCTL_RESET_MAX then [Some 1, Some 0] else [reset_line r' s, reset_line r' s]) \<and>
   sysctl_gate c (sysctl_reset r s) = sysctl_gate c s"
  using sysctl_reset_pulse(1) [of r s] reset_line_None [of r s]
  by (auto simp: sysctl_reset_def sysctl_reset_states_def sysctl_gate_reset_ctl Let_def reset_line_ctl)

text \<open>C3.  Waiting for a PLL.  In every round the loop looks at the lock field of this PLL (both bits for PLL0,
  the lowest bit for PLL1 and PLL2) and, not locked, writes the slip-clear bit of this PLL and nothing else; then the
  hardware acts.  It returns after the first round in which that field shows the lock, in the state of that round, and does
  not return if no round shows it, as for the number \<open>SYSCTL_PLL_MAX\<close>, whatever the hardware does.\<close>

theorem pll_wait_lock_returns_iff_locks:
  "let locked = (\<lambda>s. case pll of
         SYSCTL_PLL0 \<Rightarrow> bit (pll_lock0 (pll_lock s)) 0 \<and> bit (pll_lock0 (pll_lock s)) 1
       | SYSCTL_PLL1 \<Rightarrow> bit (pll_lock1 (pll_lock s)) 0
       | SYSCTL_PLL2 \<Rightarrow> bit (pll_lock2 (pll_lock s)) 0
       | SYSCTL_PLL_MAX \<Rightarrow> False);
       clear = (\<lambda>s. case pll of
         SYSCTL_PLL0 \<Rightarrow> s\<lparr>pll_lock := (pll_lock s)\<lparr>pll_slip_clear0 := 1\<rparr>\<rparr>
       | SYSCTL_PLL1 \<Rightarrow> s\<lparr>pll_lock := (pll_lock s)\<lparr>pll_slip_clear1 := 1\<rparr>\<rparr>
       | SYSCTL_PLL2 \<Rightarrow> s\<lparr>pll_lock := (pll_lock s)\<lparr>pll_slip_clear2 := 1\<rparr>\<rparr>
       | SYSCTL_PLL_MAX \<Rightarrow> s);
       round = (\<lambda>n. ((\<lambda>s. hw (clear s)) ^^ n) s)
   in sysctl_pll_wait_lock hw pll s =
        (if \<exists>n. locked (round n) then Some (round (LEAST n. locked (round n))) else None)"
proof -
  let ?l = "\<lambda>n. sysctl_pll_is_lock pll ((lock_poll hw pll ^^ n) s) \<noteq> 0"
  have "sysctl_pll_wait_lock hw pll s =
      (if \<exists>n. ?l n then Some ((lock_poll hw pll ^^ (LEAST n. ?l n)) s) else None)"
    by (rule pll_wait_lock_least)
  then show ?thesis unfolding Let_def lock_poll_pins sysctl_pll_is_lock_pins .
qed

end
