(* ===== verification/C_Double.thy ===== *)
theory C_Double
  imports K210_Prelude Complex_Main
begin

text \<open>
  The C type \<open>double\<close>, as the clock code uses it: IEEE binary64, round to nearest, ties to
  even, on values far from overflow and from the subnormal range.  A finite double is the
  rational number it denotes; \<open>fl\<close> rounds a rational to the nearest one with a 53-bit
  significand, so the C expression \<open>a / b\<close> is \<open>fl (a / b)\<close>.  Everything is executable.

  \<open>fl_exact\<close> (integers of at most 53 bits are doubles) and \<open>fl_error\<close> (relative error at
  most \<open>2 ^ (- 53)\<close>) are what the clock proofs use.
\<close>

function ilog2 :: "int \<Rightarrow> nat" where
  "ilog2 n = (if n < 2 then 0 else Suc (ilog2 (n div 2)))"
  by pat_completeness auto
termination
  by (relation "measure nat") auto

declare ilog2.simps [simp del]

lemma ilog2_bounds: "0 < n \<Longrightarrow> 2 ^ ilog2 n \<le> n \<and> n < 2 ^ Suc (ilog2 n)"
proof (induction n rule: ilog2.induct)
  case (1 n)
  show ?case
  proof (cases "n < 2")
    case True
    with "1.prems" show ?thesis by (simp add: ilog2.simps [of n])
  next
    case False
    then have "0 < n div 2" by simp
    with False "1.IH" have "2 ^ ilog2 (n div 2) \<le> n div 2 \<and> n div 2 < 2 ^ Suc (ilog2 (n div 2))"
      by simp
    then show ?thesis
      using False by (auto simp: ilog2.simps [of n])
  qed
qed

text \<open>\<open>binexp m\<close>, for a positive \<open>m\<close>: the \<open>e\<close> with \<open>2 ^ e \<le> m < 2 ^ (e + 1)\<close>.\<close>

definition binexp :: "rat \<Rightarrow> int" where
  "binexp m =
     (let k = (if 1 \<le> m then 0 else Suc (ilog2 \<lceil>1 / m\<rceil>))
      in int (ilog2 \<lfloor>m * 2 ^ k\<rfloor>) - int k)"

text \<open>Round to the nearest integer, ties to even.\<close>

definition round_even :: "rat \<Rightarrow> int" where
  "round_even q =
     (let f = \<lfloor>q\<rfloor>; r = q - of_int f in
      if r < 1 / 2 then f
      else if 1 / 2 < r then f + 1
      else if even f then f else f + 1)"

definition ulp :: "rat \<Rightarrow> rat" where
  "ulp m = 2 powi (binexp m - 52)"

definition fl :: "rat \<Rightarrow> rat" where
  "fl x = (if x = 0 then 0
           else sgn x * (of_int (round_even (\<bar>x\<bar> / ulp \<bar>x\<bar>)) * ulp \<bar>x\<bar>))"

lemma round_even_of_int [simp]: "round_even (of_int k) = k"
  by (simp add: round_even_def Let_def)

lemma round_even_error: "\<bar>of_int (round_even q) - q\<bar> \<le> 1 / 2"
proof -
  define f where "f = \<lfloor>q\<rfloor>"
  have "of_int f \<le> q" "q < of_int f + 1"
    unfolding f_def by linarith+
  then show ?thesis
    unfolding round_even_def Let_def f_def [symmetric] by (auto simp: abs_le_iff field_simps)
qed

lemma ilog2_floor_bounds:
  assumes "1 \<le> m"
  shows "2 ^ ilog2 \<lfloor>m\<rfloor> \<le> m" and "m < 2 * 2 ^ ilog2 \<lfloor>m\<rfloor>"
proof -
  let ?n = "\<lfloor>m\<rfloor>"
  have n: "0 < ?n" using assms by simp
  have b: "2 ^ ilog2 ?n \<le> ?n" "?n + 1 \<le> 2 * 2 ^ ilog2 ?n"
    using ilog2_bounds [OF n] by auto
  have fl: "of_int ?n \<le> m" "m < of_int ?n + 1"
    using floor_correct [of m] by simp_all
  have "(of_int (2 ^ ilog2 ?n) :: 'a) \<le> of_int ?n"
    using b(1) by (simp only: of_int_le_iff)
  then have "(2 :: 'a) ^ ilog2 ?n \<le> of_int ?n"
    by (simp only: of_int_power of_int_numeral)
  then show "2 ^ ilog2 ?n \<le> m" using fl(1) by (rule order_trans)
  have "(of_int (?n + 1) :: 'a) \<le> of_int (2 * 2 ^ ilog2 ?n)"
    using b(2) by (simp only: of_int_le_iff)
  then have "of_int ?n + 1 \<le> (2 :: 'a) * 2 ^ ilog2 ?n"
    by (simp only: of_int_power of_int_numeral of_int_mult of_int_add of_int_1)
  with fl(2) show "m < 2 * 2 ^ ilog2 ?n" by (rule less_le_trans)
qed

lemma pow_ilog2_ceiling:
  fixes m :: rat
  assumes "0 < m"
  shows "1 \<le> m * 2 ^ Suc (ilog2 \<lceil>1 / m\<rceil>)"
proof -
  let ?d = "\<lceil>1 / m\<rceil>"
  have "0 < ?d" using assms by (simp add: less_ceiling_iff)
  then have "?d \<le> 2 ^ Suc (ilog2 ?d)"
    using ilog2_bounds [of ?d] by linarith
  then have "rat_of_int ?d \<le> of_int (2 ^ Suc (ilog2 ?d))"
    by (simp only: of_int_le_iff)
  then have "rat_of_int ?d \<le> 2 ^ Suc (ilog2 ?d)"
    by (simp only: of_int_power of_int_numeral)
  with le_of_int_ceiling [of "1 / m"] have "1 / m \<le> 2 ^ Suc (ilog2 ?d)"
    by (rule order_trans)
  then show ?thesis using assms by (simp add: field_simps)
qed

lemma binexp_bounds:
  assumes "0 < m"
  shows "2 powi binexp m \<le> m" and "m < 2 powi (binexp m + 1)"
proof -
  define k where "k = (if 1 \<le> m then 0 else Suc (ilog2 \<lceil>1 / m\<rceil>))"
  have one: "1 \<le> m * 2 ^ k"
    using pow_ilog2_ceiling [OF assms] by (simp add: k_def)
  have e: "binexp m = int (ilog2 \<lfloor>m * 2 ^ k\<rfloor>) - int k"
    by (simp add: binexp_def k_def)
  show "2 powi binexp m \<le> m"
    using ilog2_floor_bounds(1) [OF one] by (simp add: e power_int_diff field_simps)
  show "m < 2 powi (binexp m + 1)"
    using ilog2_floor_bounds(2) [OF one] by (simp add: e power_int_diff power_int_add field_simps)
qed

lemma ulp_pos [simp]: "0 < ulp m"
  by (simp add: ulp_def)

lemma ulp_le: "0 < m \<Longrightarrow> ulp m \<le> m * 2 powi (- 52)"
  using binexp_bounds(1) [of m] by (simp add: ulp_def power_int_diff field_simps)

lemma fl_error: "\<bar>fl x - x\<bar> \<le> \<bar>x\<bar> / 2 ^ 53"
proof (cases "x = 0")
  case False
  let ?m = "\<bar>x\<bar>" and ?u = "ulp \<bar>x\<bar>"
  have "x = sgn x * ?m" by (simp add: mult_sgn_abs)
  then have "\<bar>fl x - x\<bar> = \<bar>sgn x * (of_int (round_even (?m / ?u)) * ?u) - sgn x * ?m\<bar>"
    using False by (simp add: fl_def)
  also have "\<dots> = \<bar>of_int (round_even (?m / ?u)) * ?u - ?m\<bar>"
    using False by (simp add: abs_mult flip: right_diff_distrib)
  also have "\<dots> = \<bar>of_int (round_even (?m / ?u)) - ?m / ?u\<bar> * ?u"
  proof -
    have "of_int (round_even (?m / ?u)) * ?u - ?m = (of_int (round_even (?m / ?u)) - ?m / ?u) * ?u"
      using ulp_pos [of ?m] by (simp add: left_diff_distrib less_imp_neq [symmetric] del: ulp_pos)
    moreover have "\<bar>?u\<bar> = ?u" using ulp_pos [of ?m] by (rule abs_of_pos)
    ultimately show ?thesis by (simp only: abs_mult)
  qed
  also have "\<dots> \<le> 1 / 2 * ?u"
    using round_even_error [of "?m / ?u"] less_imp_le [OF ulp_pos [of ?m]] by (rule mult_right_mono)
  also have "\<dots> \<le> 1 / 2 * (?m * 2 powi (- 52))"
    using ulp_le [of ?m] False by simp
  finally show ?thesis by simp
qed (simp add: fl_def)

lemma fl_zero [simp]: "fl 0 = 0"
  by (simp add: fl_def)

lemma fl_of_int:
  assumes "\<bar>k\<bar> < 2 ^ 53"
  shows "fl (of_int k) = of_int k"
proof (cases "k = 0")
  case False
  let ?m = "of_int \<bar>k\<bar> :: rat"
  let ?e = "binexp ?m"
  have pos: "0 < ?m" using False by simp
  have "?m < of_int (2 ^ 53)"
    using assms by (simp only: of_int_less_iff)
  then have "?m < 2 powi 53" by (simp add: power_int_def)
  with binexp_bounds(1) [OF pos] have "(2 :: rat) powi ?e < 2 powi 53"
    by (rule order_le_less_trans)
  then have e: "?e \<le> 52"
    using power_int_increasing [of 53 ?e "2 :: rat"] by linarith
  define p where "p = nat (52 - ?e)"
  have "ulp ?m = 1 / 2 ^ p"
  proof -
    have "?e - 52 = - int p" using e by (simp add: p_def)
    then show ?thesis by (simp only: ulp_def power_int_minus power_int_of_nat inverse_eq_divide)
  qed
  then have q: "?m / ulp ?m = of_int (\<bar>k\<bar> * 2 ^ p)" and u: "of_int (\<bar>k\<bar> * 2 ^ p) * ulp ?m = ?m"
    by simp_all
  have "fl (of_int k) = sgn (of_int k) * ?m"
    using False by (simp only: fl_def of_int_eq_0_iff if_False of_int_abs [symmetric] q round_even_of_int u)
  then show ?thesis
    by (simp add: mult_sgn_abs)
qed simp

corollary fl_of_nat: "n < 2 ^ 53 \<Longrightarrow> fl (of_nat n) = of_nat n"
  using fl_of_int [of "int n"] by simp

text \<open>Conversion of a non-negative double to \<open>uint32_t\<close>: truncation towards zero.\<close>

definition double_to_u32 :: "rat \<Rightarrow> u32" where
  "double_to_u32 x = word_of_int \<lfloor>x\<rfloor>"

text \<open>The absolute error on numbers of at most 31 bits.\<close>

lemma fl_nonneg: "0 \<le> x \<Longrightarrow> 0 \<le> fl x"
proof -
  assume x: "0 \<le> x"
  then have "\<bar>x\<bar> / 2 ^ 53 \<le> x" by (simp add: field_simps)
  then show "0 \<le> fl x" using fl_error [of x] by linarith
qed

lemma fl_error_small: "0 \<le> x \<Longrightarrow> x < 2 ^ 31 \<Longrightarrow> fl x - x \<le> 1 / 2 ^ 22 \<and> x - fl x \<le> 1 / 2 ^ 22"
proof -
  assume x: "0 \<le> x" "x < 2 ^ 31"
  have "\<bar>x\<bar> / 2 ^ 53 \<le> 2 ^ 31 / 2 ^ 53" using x by (intro divide_right_mono) simp_all
  then have "\<bar>fl x - x\<bar> \<le> 1 / 2 ^ 22" using fl_error [of x] by simp
  then show ?thesis by (simp only: abs_le_iff minus_diff_eq)
qed

lemma fl_at_least_1: "1 \<le> x \<Longrightarrow> 1 \<le> fl x"
proof -
  assume x: "1 \<le> x"
  define e where "e = binexp x"
  have "0 \<le> e" using x by (simp add: e_def binexp_def)
  have u: "ulp x = 2 powi (e - 52)" by (simp add: ulp_def e_def)
  have "2 powi e \<le> x" using binexp_bounds(1) [of x] x by (simp add: e_def)
  then have "rat_of_int (2 ^ 52) \<le> x / ulp x" by (simp add: u power_int_diff field_simps)
  then have "2 ^ 52 \<le> round_even (x / ulp x)" by (simp add: round_even_def Let_def le_floor_iff)
  then have "(2 ^ 52 :: rat) \<le> of_int (round_even (x / ulp x))"
    by (metis of_int_le_iff of_int_numeral of_int_power)
  then have "2 ^ 52 * ulp x \<le> of_int (round_even (x / ulp x)) * ulp x" by (intro mult_right_mono less_imp_le [OF ulp_pos])
  moreover have "2 ^ 52 * ulp x = 2 powi e" by (simp add: u power_int_diff)
  moreover have "1 \<le> (2 :: rat) powi e" using \<open>0 \<le> e\<close> by (simp add: power_int_def)
  ultimately have "1 \<le> of_int (round_even (x / ulp x)) * ulp x" by linarith
  then show "1 \<le> fl x" using x by (simp add: fl_def)
qed

text \<open>Rounding does not go below a whole number.\<close>

lemma fl_at_least_int:
  assumes k: "of_int k \<le> x" and x: "0 \<le> x" "x < 2 ^ 31"
  shows "of_int k \<le> fl x"
proof (cases "1 \<le> k")
  case True
  define e where "e = binexp x"
  have pos: "1 \<le> x" using True k by (metis of_int_1 of_int_le_iff order_trans)
  then have "2 powi e \<le> x" using binexp_bounds(1) [of x] by (simp add: e_def)
  then have "e \<le> 52"
    using x(2) power_int_increasing [of 53 e "2 :: rat"] by (cases "e \<le> 52") simp_all
  then obtain m where m: "52 - e = int m" using nonneg_int_cases [of "52 - e"] by auto
  then have "e - 52 = - int m" by simp
  then have u: "ulp x = 1 / 2 ^ m" by (simp add: ulp_def e_def [symmetric] power_int_minus inverse_eq_divide)
  have "of_int (k * 2 ^ m) \<le> x / ulp x" using k by (simp add: u)
  then have "k * 2 ^ m \<le> \<lfloor>x / ulp x\<rfloor>" by (simp only: le_floor_iff)
  also have "\<dots> \<le> round_even (x / ulp x)" by (simp add: round_even_def Let_def)
  finally have "k * 2 ^ m \<le> round_even (x / ulp x)" .
  then have "rat_of_int (k * 2 ^ m) * ulp x \<le> of_int (round_even (x / ulp x)) * ulp x"
    by (intro mult_right_mono less_imp_le [OF ulp_pos]) (simp only: of_int_le_iff)
  moreover have "rat_of_int (k * 2 ^ m) * ulp x = of_int k" by (simp add: u)
  ultimately have "of_int k \<le> of_int (round_even (x / ulp x)) * ulp x" by linarith
  then show ?thesis using pos by (simp add: fl_def)
next
  case False
  then have "rat_of_int k \<le> 0" by simp
  then show ?thesis using fl_nonneg [OF x(1)] by (rule order_trans)
qed

lemma floor_fl:
  assumes "0 \<le> x" "x < 2 ^ 31"
  shows "of_int \<lfloor>fl x\<rfloor> \<le> x + 1 / 2 ^ 22 \<and> x < of_int \<lfloor>fl x\<rfloor> + 1"
proof -
  have "\<lfloor>x\<rfloor> \<le> \<lfloor>fl x\<rfloor>" using fl_at_least_int [OF of_int_floor_le assms] by (simp add: le_floor_iff)
  then have "rat_of_int \<lfloor>x\<rfloor> \<le> of_int \<lfloor>fl x\<rfloor>" by (simp only: of_int_le_iff)
  then show ?thesis
    using fl_error_small [OF assms] floor_correct [of x] floor_correct [of "fl x"] by linarith
qed

end
