(* ===== verification/Sysctl_Freq.thy ===== *)
theory Sysctl_Freq
  imports Sysctl C_Double
begin

text \<open>
  The clock tree of \<open>sysctl.c\<close>: \<open>sysctl_clock_source_get_freq\<close>, \<open>sysctl_pll_get_freq\<close> and
  \<open>sysctl_clock_get_freq\<close> call each other (a PLL asks for its source, a bus clock for ACLK,
  a peripheral clock for its bus), so they are one mutual recursion here too, with a rank of
  the tree as its termination measure.  The PLL output is computed in \<open>double\<close> arithmetic.
\<close>

text \<open>
  C's mixed divisions: \<open>source / (threshold + 1)\<close> and \<open>source / ((threshold + 1) * 2)\<close> divide
  a \<open>uint32_t\<close> by an \<open>int\<close>, in unsigned 32-bit arithmetic; \<open>source / (2ULL << threshold)\<close> is
  a 64-bit division whose result is truncated to 32 bits.
\<close>

definition gated_div :: "u32 \<Rightarrow> int \<Rightarrow> u32" where
  "gated_div source threshold = source div word_of_int (threshold + 1)"

definition even_div :: "u32 \<Rightarrow> int \<Rightarrow> u32" where
  "even_div source threshold = source div word_of_int ((threshold + 1) * 2)"

definition div_shift :: "u32 \<Rightarrow> int \<Rightarrow> u32" where
  "div_shift source threshold = ucast ((ucast source :: u64) div push_bit (nat threshold) 2)"

definition SYSCTRL_CLOCK_FREQ_IN0 :: u32 where
  "SYSCTRL_CLOCK_FREQ_IN0 = 26000000"

text \<open>The arrays \<open>get_select_pll2\<close> and \<open>get_source_pll2\<close>.\<close>

definition get_source_pll2 :: "sysctl_clock_source list" where
  "get_source_pll2 = [SYSCTL_SOURCE_IN0, SYSCTL_SOURCE_PLL0, SYSCTL_SOURCE_PLL1]"

text \<open>\<open>freq_out = (double)freq_in / (double)nr * (double)nf / (double)od\<close>, rounded after every operation.\<close>

definition pll_freq_out :: "u32 \<Rightarrow> u32 \<Rightarrow> u32 \<Rightarrow> u32 \<Rightarrow> u32" where
  "pll_freq_out freq_in nr nf od =
     double_to_u32 (fl (fl (fl (of_int (uint freq_in) / of_int (uint nr)) * of_int (uint nf)) / of_int (uint od)))"

fun source_rank :: "sysctl_clock_source \<Rightarrow> nat" where
  "source_rank SYSCTL_SOURCE_PLL0 = 2"
| "source_rank SYSCTL_SOURCE_PLL1 = 2"
| "source_rank SYSCTL_SOURCE_PLL2 = 4"
| "source_rank SYSCTL_SOURCE_ACLK = 6"
| "source_rank _ = 0"

fun pll_rank :: "sysctl_pll \<Rightarrow> nat" where
  "pll_rank SYSCTL_PLL2 = 3"
| "pll_rank _ = 1"

fun clock_rank :: "sysctl_clock \<Rightarrow> nat" where
  "clock_rank SYSCTL_CLOCK_SRAM0 = 7"
| "clock_rank SYSCTL_CLOCK_SRAM1 = 7"
| "clock_rank SYSCTL_CLOCK_ROM = 7"
| "clock_rank SYSCTL_CLOCK_DVP = 7"
| "clock_rank SYSCTL_CLOCK_APB0 = 7"
| "clock_rank SYSCTL_CLOCK_APB1 = 7"
| "clock_rank SYSCTL_CLOCK_APB2 = 7"
| "clock_rank SYSCTL_CLOCK_GPIO = 8"
| "clock_rank SYSCTL_CLOCK_UART1 = 8"
| "clock_rank SYSCTL_CLOCK_UART2 = 8"
| "clock_rank SYSCTL_CLOCK_UART3 = 8"
| "clock_rank SYSCTL_CLOCK_FPIOA = 8"
| "clock_rank SYSCTL_CLOCK_SHA = 8"
| "clock_rank SYSCTL_CLOCK_AES = 8"
| "clock_rank SYSCTL_CLOCK_OTP = 8"
| "clock_rank _ = 5"

function sysctl_clock_source_get_freq :: "sysctl \<Rightarrow> sysctl_clock_source \<Rightarrow> u32"
  and sysctl_pll_get_freq :: "sysctl \<Rightarrow> sysctl_pll \<Rightarrow> u32"
  and sysctl_clock_get_freq :: "sysctl \<Rightarrow> sysctl_clock \<Rightarrow> u32" where
  "sysctl_clock_source_get_freq s input =
     (case input of
       SYSCTL_SOURCE_IN0 \<Rightarrow> SYSCTRL_CLOCK_FREQ_IN0
     | SYSCTL_SOURCE_PLL0 \<Rightarrow> sysctl_pll_get_freq s SYSCTL_PLL0
     | SYSCTL_SOURCE_PLL1 \<Rightarrow> sysctl_pll_get_freq s SYSCTL_PLL1
     | SYSCTL_SOURCE_PLL2 \<Rightarrow> sysctl_pll_get_freq s SYSCTL_PLL2
     | SYSCTL_SOURCE_ACLK \<Rightarrow> sysctl_clock_get_freq s SYSCTL_CLOCK_ACLK
     | SYSCTL_SOURCE_MAX \<Rightarrow> 0)"
| "sysctl_pll_get_freq s pll =
     (case pll of
       SYSCTL_PLL0 \<Rightarrow>
         pll_freq_out (sysctl_clock_source_get_freq s SYSCTL_SOURCE_IN0)
           (ucast (clkr (pll0 s)) + 1) (ucast (clkf (pll0 s)) + 1) (ucast (clkod (pll0 s)) + 1)
     | SYSCTL_PLL1 \<Rightarrow>
         pll_freq_out (sysctl_clock_source_get_freq s SYSCTL_SOURCE_IN0)
           (ucast (clkr (pll1 s)) + 1) (ucast (clkf (pll1 s)) + 1) (ucast (clkod (pll1 s)) + 1)
     | SYSCTL_PLL2 \<Rightarrow>
         (let select = unat (pll_ckin_sel (pll2 s)) in
          if select = 0 then
            pll_freq_out (sysctl_clock_source_get_freq s SYSCTL_SOURCE_IN0)
              (ucast (clkr (pll2 s)) + 1) (ucast (clkf (pll2 s)) + 1) (ucast (clkod (pll2 s)) + 1)
          else if select = 1 then
            pll_freq_out (sysctl_clock_source_get_freq s SYSCTL_SOURCE_PLL0)
              (ucast (clkr (pll2 s)) + 1) (ucast (clkf (pll2 s)) + 1) (ucast (clkod (pll2 s)) + 1)
          else if select = 2 then
            pll_freq_out (sysctl_clock_source_get_freq s SYSCTL_SOURCE_PLL1)
              (ucast (clkr (pll2 s)) + 1) (ucast (clkf (pll2 s)) + 1) (ucast (clkod (pll2 s)) + 1)
          else 0)
     | SYSCTL_PLL_MAX \<Rightarrow> 0)"
| "sysctl_clock_get_freq s clock =
     (case clock of
       SYSCTL_CLOCK_IN0 \<Rightarrow> sysctl_clock_source_get_freq s SYSCTL_SOURCE_IN0
     | SYSCTL_CLOCK_PLL0 \<Rightarrow> sysctl_clock_source_get_freq s SYSCTL_SOURCE_PLL0
     | SYSCTL_CLOCK_PLL1 \<Rightarrow> sysctl_clock_source_get_freq s SYSCTL_SOURCE_PLL1
     | SYSCTL_CLOCK_PLL2 \<Rightarrow> sysctl_clock_source_get_freq s SYSCTL_SOURCE_PLL2
     | SYSCTL_CLOCK_CPU \<Rightarrow>
         (if sysctl_clock_get_clock_select SYSCTL_CLOCK_SELECT_ACLK s = 0
          then sysctl_clock_source_get_freq s SYSCTL_SOURCE_IN0
          else if sysctl_clock_get_clock_select SYSCTL_CLOCK_SELECT_ACLK s = 1
          then div_shift (sysctl_clock_source_get_freq s SYSCTL_SOURCE_PLL0)
         (sysctl_clock_get_threshold SYSCTL_THRESHOLD_ACLK s)
          else 0)
     | SYSCTL_CLOCK_DMA \<Rightarrow>
         (if sysctl_clock_get_clock_select SYSCTL_CLOCK_SELECT_ACLK s = 0
          then sysctl_clock_source_get_freq s SYSCTL_SOURCE_IN0
          else if sysctl_clock_get_clock_select SYSCTL_CLOCK_SELECT_ACLK s = 1
          then div_shift (sysctl_clock_source_get_freq s SYSCTL_SOURCE_PLL0)
         (sysctl_clock_get_threshold SYSCTL_THRESHOLD_ACLK s)
          else 0)
     | SYSCTL_CLOCK_FFT \<Rightarrow>
         (if sysctl_clock_get_clock_select SYSCTL_CLOCK_SELECT_ACLK s = 0
          then sysctl_clock_source_get_freq s SYSCTL_SOURCE_IN0
          else if sysctl_clock_get_clock_select SYSCTL_CLOCK_SELECT_ACLK s = 1
          then div_shift (sysctl_clock_source_get_freq s SYSCTL_SOURCE_PLL0)
         (sysctl_clock_get_threshold SYSCTL_THRESHOLD_ACLK s)
          else 0)
     | SYSCTL_CLOCK_ACLK \<Rightarrow>
         (if sysctl_clock_get_clock_select SYSCTL_CLOCK_SELECT_ACLK s = 0
          then sysctl_clock_source_get_freq s SYSCTL_SOURCE_IN0
          else if sysctl_clock_get_clock_select SYSCTL_CLOCK_SELECT_ACLK s = 1
          then div_shift (sysctl_clock_source_get_freq s SYSCTL_SOURCE_PLL0)
         (sysctl_clock_get_threshold SYSCTL_THRESHOLD_ACLK s)
          else 0)
     | SYSCTL_CLOCK_HCLK \<Rightarrow>
         (if sysctl_clock_get_clock_select SYSCTL_CLOCK_SELECT_ACLK s = 0
          then sysctl_clock_source_get_freq s SYSCTL_SOURCE_IN0
          else if sysctl_clock_get_clock_select SYSCTL_CLOCK_SELECT_ACLK s = 1
          then div_shift (sysctl_clock_source_get_freq s SYSCTL_SOURCE_PLL0)
         (sysctl_clock_get_threshold SYSCTL_THRESHOLD_ACLK s)
          else 0)
     | SYSCTL_CLOCK_SRAM0 \<Rightarrow> gated_div
         (sysctl_clock_source_get_freq s SYSCTL_SOURCE_ACLK)
         (sysctl_clock_get_threshold SYSCTL_THRESHOLD_SRAM0 s)
     | SYSCTL_CLOCK_SRAM1 \<Rightarrow> gated_div
         (sysctl_clock_source_get_freq s SYSCTL_SOURCE_ACLK)
         (sysctl_clock_get_threshold SYSCTL_THRESHOLD_SRAM1 s)
     | SYSCTL_CLOCK_ROM \<Rightarrow> gated_div
         (sysctl_clock_source_get_freq s SYSCTL_SOURCE_ACLK)
         (sysctl_clock_get_threshold SYSCTL_THRESHOLD_ROM s)
     | SYSCTL_CLOCK_DVP \<Rightarrow> gated_div
         (sysctl_clock_source_get_freq s SYSCTL_SOURCE_ACLK)
         (sysctl_clock_get_threshold SYSCTL_THRESHOLD_DVP s)
     | SYSCTL_CLOCK_APB0 \<Rightarrow> gated_div
         (sysctl_clock_source_get_freq s SYSCTL_SOURCE_ACLK)
         (sysctl_clock_get_threshold SYSCTL_THRESHOLD_APB0 s)
     | SYSCTL_CLOCK_APB1 \<Rightarrow> gated_div
         (sysctl_clock_source_get_freq s SYSCTL_SOURCE_ACLK)
         (sysctl_clock_get_threshold SYSCTL_THRESHOLD_APB1 s)
     | SYSCTL_CLOCK_APB2 \<Rightarrow> gated_div
         (sysctl_clock_source_get_freq s SYSCTL_SOURCE_ACLK)
         (sysctl_clock_get_threshold SYSCTL_THRESHOLD_APB2 s)
     | SYSCTL_CLOCK_AI \<Rightarrow> gated_div
         (sysctl_clock_source_get_freq s SYSCTL_SOURCE_PLL1)
         (sysctl_clock_get_threshold SYSCTL_THRESHOLD_AI s)
     | SYSCTL_CLOCK_I2S0 \<Rightarrow> even_div
         (sysctl_clock_source_get_freq s SYSCTL_SOURCE_PLL2)
         (sysctl_clock_get_threshold SYSCTL_THRESHOLD_I2S0 s)
     | SYSCTL_CLOCK_I2S1 \<Rightarrow> even_div
         (sysctl_clock_source_get_freq s SYSCTL_SOURCE_PLL2)
         (sysctl_clock_get_threshold SYSCTL_THRESHOLD_I2S1 s)
     | SYSCTL_CLOCK_I2S2 \<Rightarrow> even_div
         (sysctl_clock_source_get_freq s SYSCTL_SOURCE_PLL2)
         (sysctl_clock_get_threshold SYSCTL_THRESHOLD_I2S2 s)
     | SYSCTL_CLOCK_WDT0 \<Rightarrow> even_div
         (sysctl_clock_source_get_freq s SYSCTL_SOURCE_IN0)
         (sysctl_clock_get_threshold SYSCTL_THRESHOLD_WDT0 s)
     | SYSCTL_CLOCK_WDT1 \<Rightarrow> even_div
         (sysctl_clock_source_get_freq s SYSCTL_SOURCE_IN0)
         (sysctl_clock_get_threshold SYSCTL_THRESHOLD_WDT1 s)
     | SYSCTL_CLOCK_SPI0 \<Rightarrow> even_div
         (sysctl_clock_source_get_freq s SYSCTL_SOURCE_PLL0)
         (sysctl_clock_get_threshold SYSCTL_THRESHOLD_SPI0 s)
     | SYSCTL_CLOCK_SPI1 \<Rightarrow> even_div
         (sysctl_clock_source_get_freq s SYSCTL_SOURCE_PLL0)
         (sysctl_clock_get_threshold SYSCTL_THRESHOLD_SPI1 s)
     | SYSCTL_CLOCK_SPI2 \<Rightarrow> even_div
         (sysctl_clock_source_get_freq s SYSCTL_SOURCE_PLL0)
         (sysctl_clock_get_threshold SYSCTL_THRESHOLD_SPI2 s)
     | SYSCTL_CLOCK_I2C0 \<Rightarrow> even_div
         (sysctl_clock_source_get_freq s SYSCTL_SOURCE_PLL0)
         (sysctl_clock_get_threshold SYSCTL_THRESHOLD_I2C0 s)
     | SYSCTL_CLOCK_I2C1 \<Rightarrow> even_div
         (sysctl_clock_source_get_freq s SYSCTL_SOURCE_PLL0)
         (sysctl_clock_get_threshold SYSCTL_THRESHOLD_I2C1 s)
     | SYSCTL_CLOCK_I2C2 \<Rightarrow> even_div
         (sysctl_clock_source_get_freq s SYSCTL_SOURCE_PLL0)
         (sysctl_clock_get_threshold SYSCTL_THRESHOLD_I2C2 s)
     | SYSCTL_CLOCK_SPI3 \<Rightarrow>
         even_div (if sysctl_clock_get_clock_select SYSCTL_CLOCK_SELECT_SPI3 s = 0
          then sysctl_clock_source_get_freq s SYSCTL_SOURCE_IN0
          else if sysctl_clock_get_clock_select SYSCTL_CLOCK_SELECT_SPI3 s = 1
          then sysctl_clock_source_get_freq s SYSCTL_SOURCE_PLL0
         
          else 0)
         (sysctl_clock_get_threshold SYSCTL_THRESHOLD_SPI3 s)
     | SYSCTL_CLOCK_TIMER0 \<Rightarrow>
         even_div (if sysctl_clock_get_clock_select SYSCTL_CLOCK_SELECT_TIMER0 s = 0
          then sysctl_clock_source_get_freq s SYSCTL_SOURCE_IN0
          else if sysctl_clock_get_clock_select SYSCTL_CLOCK_SELECT_TIMER0 s = 1
          then sysctl_clock_source_get_freq s SYSCTL_SOURCE_PLL0
         
          else 0)
         (sysctl_clock_get_threshold SYSCTL_THRESHOLD_TIMER0 s)
     | SYSCTL_CLOCK_TIMER1 \<Rightarrow>
         even_div (if sysctl_clock_get_clock_select SYSCTL_CLOCK_SELECT_TIMER1 s = 0
          then sysctl_clock_source_get_freq s SYSCTL_SOURCE_IN0
          else if sysctl_clock_get_clock_select SYSCTL_CLOCK_SELECT_TIMER1 s = 1
          then sysctl_clock_source_get_freq s SYSCTL_SOURCE_PLL0
         
          else 0)
         (sysctl_clock_get_threshold SYSCTL_THRESHOLD_TIMER1 s)
     | SYSCTL_CLOCK_TIMER2 \<Rightarrow>
         even_div (if sysctl_clock_get_clock_select SYSCTL_CLOCK_SELECT_TIMER2 s = 0
          then sysctl_clock_source_get_freq s SYSCTL_SOURCE_IN0
          else if sysctl_clock_get_clock_select SYSCTL_CLOCK_SELECT_TIMER2 s = 1
          then sysctl_clock_source_get_freq s SYSCTL_SOURCE_PLL0
         
          else 0)
         (sysctl_clock_get_threshold SYSCTL_THRESHOLD_TIMER2 s)
     | SYSCTL_CLOCK_GPIO \<Rightarrow> sysctl_clock_get_freq s SYSCTL_CLOCK_APB0
     | SYSCTL_CLOCK_UART1 \<Rightarrow> sysctl_clock_get_freq s SYSCTL_CLOCK_APB0
     | SYSCTL_CLOCK_UART2 \<Rightarrow> sysctl_clock_get_freq s SYSCTL_CLOCK_APB0
     | SYSCTL_CLOCK_UART3 \<Rightarrow> sysctl_clock_get_freq s SYSCTL_CLOCK_APB0
     | SYSCTL_CLOCK_FPIOA \<Rightarrow> sysctl_clock_get_freq s SYSCTL_CLOCK_APB0
     | SYSCTL_CLOCK_SHA \<Rightarrow> sysctl_clock_get_freq s SYSCTL_CLOCK_APB0
     | SYSCTL_CLOCK_AES \<Rightarrow> sysctl_clock_get_freq s SYSCTL_CLOCK_APB1
     | SYSCTL_CLOCK_OTP \<Rightarrow> sysctl_clock_get_freq s SYSCTL_CLOCK_APB1
     | SYSCTL_CLOCK_RTC \<Rightarrow> sysctl_clock_source_get_freq s SYSCTL_SOURCE_IN0
     | _ \<Rightarrow> 0)"
  by pat_completeness auto
termination
  by (relation "measure (\<lambda>x. case x of
        Inl (s, src) \<Rightarrow> source_rank src
      | Inr (Inl (s, p)) \<Rightarrow> pll_rank p
      | Inr (Inr (s, c)) \<Rightarrow> clock_rank c)") auto

subsection \<open>How exact the PLL frequency is\<close>

lemma fl_mult_error:
  assumes "\<bar>x - y\<bar> \<le> \<bar>y\<bar> * e" "0 \<le> e"
  shows "\<bar>fl x - y\<bar> \<le> \<bar>y\<bar> * (e + (1 + e) / 2 ^ 53)"
proof -
  have "\<bar>x\<bar> \<le> \<bar>y\<bar> * (1 + e)"
    using assms(1) by (simp add: algebra_simps abs_le_iff) linarith
  then have "\<bar>x\<bar> / 2 ^ 53 \<le> \<bar>y\<bar> * (1 + e) / 2 ^ 53"
    by (simp add: divide_right_mono)
  moreover have "\<bar>fl x - x\<bar> \<le> \<bar>x\<bar> / 2 ^ 53"
    by (rule fl_error)
  ultimately have "\<bar>fl x - x\<bar> \<le> \<bar>y\<bar> * (1 + e) / 2 ^ 53" by linarith
  moreover have "\<bar>fl x - y\<bar> \<le> \<bar>fl x - x\<bar> + \<bar>x - y\<bar>" by linarith
  ultimately have "\<bar>fl x - y\<bar> \<le> \<bar>y\<bar> * (1 + e) / 2 ^ 53 + \<bar>y\<bar> * e"
    using assms(1) by linarith
  then show ?thesis by (simp add: algebra_simps add_divide_distrib)
qed

lemma fl_scale_error:
  fixes x y c e :: rat
  assumes "\<bar>x - y\<bar> \<le> \<bar>y\<bar> * e" "0 \<le> c"
  shows "\<bar>x * c - y * c\<bar> \<le> \<bar>y * c\<bar> * e"
proof -
  have "\<bar>x * c - y * c\<bar> = \<bar>x - y\<bar> * c"
    using assms(2) abs_mult [of "x - y" c] by (simp add: left_diff_distrib)
  also have "\<dots> \<le> \<bar>y\<bar> * e * c"
    using assms by (intro mult_right_mono)
  finally show ?thesis
    using assms(2) by (simp add: abs_mult mult_ac)
qed

text \<open>The three roundings together stay below one part in \<open>2 ^ 51\<close>.\<close>

lemma pll_rounding_error:
  fixes i r f d :: rat
  assumes "0 < r" "0 < f" "0 < d"
  shows "\<bar>fl (fl (fl (i / r) * f) / d) - i * f / (r * d)\<bar> \<le> \<bar>i * f / (r * d)\<bar> / 2 ^ 51"
proof -
  let ?e1 = "0 + (1 + 0) / 2 ^ 53 :: rat"
  let ?e2 = "?e1 + (1 + ?e1) / 2 ^ 53"
  let ?e3 = "?e2 + (1 + ?e2) / 2 ^ 53"
  have 1: "\<bar>fl (i / r) - i / r\<bar> \<le> \<bar>i / r\<bar> * ?e1"
    by (rule fl_mult_error) auto
  have "\<bar>fl (i / r) * f - i / r * f\<bar> \<le> \<bar>i / r * f\<bar> * ?e1"
    using fl_scale_error [OF 1, of f] assms by simp
  then have 2: "\<bar>fl (fl (i / r) * f) - i / r * f\<bar> \<le> \<bar>i / r * f\<bar> * ?e2"
    by (rule fl_mult_error) simp
  have "\<bar>fl (fl (i / r) * f) * (1 / d) - i / r * f * (1 / d)\<bar> \<le> \<bar>i / r * f * (1 / d)\<bar> * ?e2"
    using fl_scale_error [OF 2, of "1 / d"] assms by simp
  then have "\<bar>fl (fl (fl (i / r) * f) * (1 / d)) - i / r * f * (1 / d)\<bar> \<le> \<bar>i / r * f * (1 / d)\<bar> * ?e3"
    by (rule fl_mult_error) simp
  moreover have "\<bar>i / r * f * (1 / d)\<bar> * ?e3 \<le> \<bar>i / r * f * (1 / d)\<bar> * (1 / 2 ^ 51)"
    by (rule mult_left_mono) (simp_all add: field_simps)
  ultimately have "\<bar>fl (fl (fl (i / r) * f) * (1 / d)) - i / r * f * (1 / d)\<bar>
      \<le> \<bar>i / r * f * (1 / d)\<bar> * (1 / 2 ^ 51)"
    by linarith
  then show ?thesis by (simp add: mult_ac)
qed

text \<open>
  Truncating a value so close to \<open>n / d\<close> gives the integer quotient, except that a quotient
  without remainder may come out one too small.
\<close>

lemma floor_near_quotient:
  fixes n d :: int and x :: rat
  assumes d: "0 < d" "d < 2 ^ 16" and n: "0 \<le> n" "n < d * 2 ^ 32"
    and x: "\<bar>x - of_int n / of_int d\<bar> \<le> \<bar>of_int n / of_int d\<bar> / 2 ^ 51"
  shows "\<lfloor>x\<rfloor> = n div d \<or> (n mod d = 0 \<and> \<lfloor>x\<rfloor> = n div d - 1)"
proof -
  let ?q = "of_int n / of_int d :: rat"
  have "(of_int n :: rat) < of_int (d * 2 ^ 32)"
    using n(2) by (simp only: of_int_less_iff)
  then have q: "0 \<le> ?q" "?q < 2 ^ 32"
    using d n by (simp_all add: divide_less_eq mult.commute)
  have small: "\<bar>x - ?q\<bar> < 1 / 2 ^ 16"
  proof -
    have "\<bar>?q\<bar> / 2 ^ 51 < 1 / 2 ^ 16"
      using q by (simp add: abs_of_nonneg)
    with x show ?thesis by linarith
  qed
  then have lo: "?q - 1 / 2 ^ 16 < x" and hi: "x < ?q + 1 / 2 ^ 16"
    by linarith+
  have split: "?q = of_int (n div d) + of_int (n mod d) / of_int d"
    using d by (simp add: field_simps flip: of_int_mult of_int_add)
  have "(of_int d :: rat) < of_int (2 ^ 16)"
    using d(2) by (simp only: of_int_less_iff)
  then have unit: "1 / 2 ^ 16 < 1 / (of_int d :: rat)"
    using d(1) by (simp add: divide_strict_left_mono)
  show ?thesis
  proof (cases "n mod d = 0")
    case True
    with split have "?q = of_int (n div d)" by simp
    then have "of_int (n div d - 1) \<le> x" "x < of_int (n div d + 1)"
      using lo hi by simp_all
    then have "n div d - 1 \<le> \<lfloor>x\<rfloor>" "\<lfloor>x\<rfloor> < n div d + 1"
      by (simp_all only: le_floor_iff floor_less_iff)
    then have "\<lfloor>x\<rfloor> = n div d \<or> \<lfloor>x\<rfloor> = n div d - 1" by arith
    with True show ?thesis by blast
  next
    case False
    have "1 \<le> n mod d" "n mod d \<le> d - 1"
      using False d pos_mod_sign [of d n] pos_mod_bound [of d n] by linarith+
    then have "(1::rat) \<le> of_int (n mod d)" "of_int (n mod d) \<le> of_int d - (1::rat)"
      by (metis of_int_1_le_iff, metis of_int_1 of_int_diff of_int_le_iff)
    then have "1 / of_int d \<le> of_int (n mod d) / (of_int d :: rat)"
      and "of_int (n mod d) / (of_int d :: rat) \<le> 1 - 1 / of_int d"
      using d by (simp_all add: field_simps)
    then have "of_int (n div d) \<le> x" "x < of_int (n div d) + 1"
      using lo hi split unit by linarith+
    then show ?thesis by (simp add: floor_unique)
  qed
qed

lemma uint_field_succ:
  fixes w :: "'a::len word"
  assumes "LENGTH('a) < 32"
  shows "uint (ucast w + 1 :: u32) = uint w + 1"
proof -
  have "uint w < 2 ^ LENGTH('a)" by (rule uint_lt2p)
  also have "(2::int) ^ LENGTH('a) \<le> 2 ^ 31"
    using assms by (intro power_increasing) auto
  finally have w: "uint w < 2 ^ 31" .
  then have "uint (ucast w :: u32) = uint w"
    by (simp add: unsigned_ucast_eq take_bit_int_eq_self)
  with w show ?thesis by (simp add: uint_word_ariths)
qed

lemma pll_double_near:
  fixes i r f d :: int
  assumes "0 < r" "r \<le> 16" "0 < f" "0 < d" "d \<le> 16" "0 \<le> i" "i * f < r * d * 2 ^ 32"
  shows "\<lfloor>fl (fl (fl (of_int i / of_int r) * of_int f) / of_int d)\<rfloor> \<in>
    {i * f div (r * d)} \<union> {k. i * f mod (r * d) = 0 \<and> k = i * f div (r * d) - 1}"
proof -
  let ?x = "fl (fl (fl (of_int i / of_int r) * of_int f) / of_int d)"
  have d: "0 < r * d" "r * d < 2 ^ 16"
    using assms mult_mono [of r 16 d 16] by auto
  have "0 \<le> i * f" using assms by simp
  moreover have "\<bar>?x - of_int (i * f) / of_int (r * d)\<bar> \<le> \<bar>of_int (i * f) / of_int (r * d)\<bar> / 2 ^ 51"
    using pll_rounding_error [of "of_int r" "of_int f" "of_int d" "of_int i"] assms
    by (simp only: of_int_mult of_int_0_less_iff)
  ultimately show ?thesis
    using floor_near_quotient [OF d _ assms(7)] by auto
qed

lemma pll_freq_out_near:
  assumes nr: "0 < uint nr" "uint nr \<le> 16" and nf: "0 < uint nf" and od: "0 < uint od" "uint od \<le> 16"
    and fits: "uint i * uint nf < uint nr * uint od * 2 ^ 32"
  shows "uint (pll_freq_out i nr nf od) \<in>
      {uint i * uint nf div (uint nr * uint od)} \<union>
      {k. uint i * uint nf mod (uint nr * uint od) = 0 \<and> 0 < uint i \<and>
          k = uint i * uint nf div (uint nr * uint od) - 1}"
proof (cases "uint i = 0")
  case True
  then show ?thesis by (simp add: pll_freq_out_def double_to_u32_def)
next
  case False
  define k where "k = \<lfloor>fl (fl (fl (of_int (uint i) / of_int (uint nr)) * of_int (uint nf)) / of_int (uint od))\<rfloor>"
  let ?n = "uint i * uint nf" and ?d = "uint nr * uint od"
  have i: "0 < uint i" using False by (simp add: order_less_le)
  have k: "k \<in> {?n div ?d} \<union> {k. ?n mod ?d = 0 \<and> k = ?n div ?d - 1}"
    unfolding k_def using nr nf od fits by (intro pll_double_near) auto
  have d: "0 < ?d" and n: "0 < ?n" using nr od nf i by auto
  have e: "?n = ?d * (?n div ?d) + ?n mod ?d" and m: "0 \<le> ?n mod ?d"
    using d by simp_all
  have q: "0 \<le> ?n div ?d" using d n by (simp add: pos_imp_zdiv_nonneg_iff)
  have "?d * (?n div ?d) < ?d * 2 ^ 32" using e m fits by linarith
  then have q': "?n div ?d < 2 ^ 32" using d by (simp only: mult_less_cancel_left_pos)
  have "?n mod ?d = 0 \<Longrightarrow> 0 < ?n div ?d"
    using q e n by (cases "?n div ?d = 0") auto
  with k q q' have "0 \<le> k" "k < 2 ^ 32" by auto
  then have "uint (pll_freq_out i nr nf od) = k"
    unfolding pll_freq_out_def double_to_u32_def k_def [symmetric] by (simp add: uint_word_of_int)
  with k i show ?thesis by auto
qed

declare sysctl_clock_source_get_freq.simps [simp del] sysctl_pll_get_freq.simps [simp del]
  sysctl_clock_get_freq.simps [simp del]

lemma source_get_freq [simp]:
  "sysctl_clock_source_get_freq s SYSCTL_SOURCE_IN0 = 26000000"
  "sysctl_clock_source_get_freq s SYSCTL_SOURCE_PLL0 = sysctl_pll_get_freq s SYSCTL_PLL0"
  "sysctl_clock_source_get_freq s SYSCTL_SOURCE_PLL1 = sysctl_pll_get_freq s SYSCTL_PLL1"
  "sysctl_clock_source_get_freq s SYSCTL_SOURCE_PLL2 = sysctl_pll_get_freq s SYSCTL_PLL2"
  "sysctl_clock_source_get_freq s SYSCTL_SOURCE_ACLK = sysctl_clock_get_freq s SYSCTL_CLOCK_ACLK"
  by (simp_all add: sysctl_clock_source_get_freq.simps SYSCTRL_CLOCK_FREQ_IN0_def)

text \<open>PLL0 and PLL1 hang on the 26 MHz crystal directly.\<close>

lemma pll_get_freq_crystal:
  assumes "pll = SYSCTL_PLL0 \<or> pll = SYSCTL_PLL1"
  shows "sysctl_pll_get_freq s pll = pll_freq_out 26000000
    (ucast (clkr (pll_of pll s)) + 1) (ucast (clkf (pll_of pll s)) + 1) (ucast (clkod (pll_of pll s)) + 1)"
  using assms by (auto simp: sysctl_pll_get_freq.simps pll_of_def)

lemma pll_get_freq_near:
  assumes "pll = SYSCTL_PLL0 \<or> pll = SYSCTL_PLL1"
  shows "uint (sysctl_pll_get_freq s pll) \<in>
    (let n = 26000000 * (uint (clkf (pll_of pll s)) + 1);
         d = (uint (clkr (pll_of pll s)) + 1) * (uint (clkod (pll_of pll s)) + 1)
     in {n div d} \<union> {k. n mod d = 0 \<and> k = n div d - 1})"
proof -
  let ?r = "clkr (pll_of pll s)" and ?f = "clkf (pll_of pll s)" and ?d = "clkod (pll_of pll s)"
  have b: "0 \<le> uint ?r" "uint ?r < 16" "0 \<le> uint ?f" "uint ?f < 64" "0 \<le> uint ?d" "uint ?d < 16"
    using uint_lt2p [of ?r] uint_lt2p [of ?f] uint_lt2p [of ?d] by auto
  have "26000000 * (uint ?f + 1) < 2 ^ 32"
    using b by simp
  also have "2 ^ 32 \<le> (uint ?r + 1) * (uint ?d + 1) * 2 ^ 32"
    using mult_mono [of 1 "uint ?r + 1" 1 "uint ?d + 1"] b by simp
  finally have "26000000 * (uint ?f + 1) < (uint ?r + 1) * (uint ?d + 1) * 2 ^ 32" .
  then show ?thesis
    using pll_freq_out_near [of "ucast ?r + 1" "ucast ?f + 1" "ucast ?d + 1" 26000000] b
    by (auto simp: pll_get_freq_crystal [OF assms] uint_field_succ Let_def)
qed

text \<open>A quotient without remainder that really comes out one too small.\<close>

lemma pll_130MHz: "pll_freq_out 26000000 3 15 1 = 129999999"
  by code_simp

lemma pll_boot_freqs:
  "pll_freq_out 26000000 1 61 2 = 793000000" "pll_freq_out 26000000 1 60 4 = 390000000"
  by code_simp+

subsection \<open>Booting the PLLs\<close>

definition lock_only :: "(sysctl \<Rightarrow> sysctl) \<Rightarrow> bool" where
  "lock_only hw = (\<forall>s. \<exists>l. hw s = s\<lparr>pll_lock := l\<rparr>)"

lemma ex_pll_lock: "\<exists>l. s\<lparr>pll_lock := f s\<rparr> = s\<lparr>pll_lock := l\<rparr>"
  by blast

lemma lock_poll_lock_only:
  assumes "lock_only hw"
  shows "\<exists>l. (lock_poll hw pll ^^ n) s = s\<lparr>pll_lock := l\<rparr>"
proof (induction n)
  case 0
  show ?case by (rule exI [of _ "pll_lock s"]) simp
next
  case (Suc n)
  then obtain l where l: "(lock_poll hw pll ^^ n) s = s\<lparr>pll_lock := l\<rparr>" by blast
  have "\<exists>l'. snd (sysctl_pll_clear_slip pll (s\<lparr>pll_lock := l\<rparr>)) = s\<lparr>pll_lock := l'\<rparr>"
    by (cases pll) (auto simp: sysctl_pll_clear_slip_def Let_def)
  then obtain l' where "lock_poll hw pll (s\<lparr>pll_lock := l\<rparr>) = hw (s\<lparr>pll_lock := l'\<rparr>)"
    by (auto simp: lock_poll_def)
  moreover obtain l'' where "hw (s\<lparr>pll_lock := l'\<rparr>) = s\<lparr>pll_lock := l'\<rparr>\<lparr>pll_lock := l''\<rparr>"
    using assms unfolding lock_only_def by metis
  ultimately show ?case by (auto simp: l)
qed

lemma wait_lock_returns:
  assumes "lock_only hw" "\<exists>n. sysctl_pll_is_lock pll ((lock_poll hw pll ^^ n) s) \<noteq> 0"
  shows "\<exists>l. sysctl_pll_wait_lock hw pll s = Some (s\<lparr>pll_lock := l\<rparr>)"
  using assms pll_wait_lock_iterate lock_poll_lock_only by metis

definition boot_pll :: "nat \<Rightarrow> nat \<Rightarrow> sysctl_general_pll \<Rightarrow> sysctl_general_pll" where
  "boot_pll f od p = p\<lparr>clkr := 0, clkf := word_of_nat f, clkod := word_of_nat od, bwadj := word_of_nat f,
     pll_bypass := 0, pll_pwrd := 1, pll_reset := 0, pll_out_en := 1\<rparr>"

lemma fast_enable_state:
  assumes hw: "lock_only hw" and up: "\<And>pll s. \<exists>n. sysctl_pll_is_lock pll ((lock_poll hw pll ^^ n) s) \<noteq> 0 \<or> pll = SYSCTL_PLL_MAX"
  shows "\<exists>l. sysctl_pll_fast_enable_pll hw s = Some (0, s\<lparr>pll_lock := l,
      pll0 := boot_pll 60 1 (pll0 s), pll1 := boot_pll 59 3 (pll1 s), pll2 := boot_pll 59 3 (pll2 s),
      clk_sel0 := (clk_sel0 s)\<lparr>aclk_sel := 1\<rparr>\<rparr>)"
proof -
  have w: "pll \<noteq> SYSCTL_PLL_MAX \<Longrightarrow> \<exists>l. sysctl_pll_wait_lock hw pll s = Some (s\<lparr>pll_lock := l\<rparr>)" for pll s
    using wait_lock_returns [OF hw, of pll s] up [of pll s] by blast
  obtain g where g: "\<And>pll s. pll \<noteq> SYSCTL_PLL_MAX \<Longrightarrow> sysctl_pll_wait_lock hw pll s = Some (s\<lparr>pll_lock := g pll s\<rparr>)"
    using w by metis
  show ?thesis
    by (auto simp: sysctl_pll_fast_enable_pll_def g Let_def sysctl_pll_enable_def pll_upd_def
        sysctl_clock_enable_def sysctl_clock_device_en_def sysctl_clock_bus_en_def
        sysctl_clock_set_clock_select_def pll_set_dividers_def boot_pll_def)
qed


subsection \<open>Properties\<close>

lemma pll_get_freq_130MHz:
  "sysctl_pll_get_freq (s\<lparr>pll0 := pll_set_dividers 2 14 0 bw (pll0 s)\<rparr>) SYSCTL_PLL0 = 129999999"
  using pll_130MHz by (simp add: pll_get_freq_crystal pll_of_def pll_set_dividers_def)

text \<open>C1.  For every content of its divider fields, the frequency \<open>sysctl_pll_get_freq\<close>
  reports for PLL0 or PLL1 is the exact quotient \<open>26 MHz * nf / (nr * od)\<close> rounded down to whole
  hertz, or, only where the quotient is a whole number, that number less one: the three
  roundings of the double arithmetic can lose one hertz and never more.\<close>

theorem pll_freq_within_one_hertz:
  assumes "pll = SYSCTL_PLL0 \<or> pll = SYSCTL_PLL1"
  shows "uint (sysctl_pll_get_freq s pll) \<in>
    (let n = 26000000 * (uint (clkf (pll_of pll s)) + 1);
         d = (uint (clkr (pll_of pll s)) + 1) * (uint (clkod (pll_of pll s)) + 1)
     in {n div d} \<union> {k. n mod d = 0 \<and> k = n div d - 1})"
  using assms by (rule pll_get_freq_near)

theorem pll_freq_within_one_hertz_witness:
  "\<forall>s. uint (sysctl_pll_get_freq (s\<lparr>pll0 := boot_pll 60 1 (pll0 s)\<rparr>) SYSCTL_PLL0) \<in> {792999999, 793000000}"
proof
  fix s
  show "uint (sysctl_pll_get_freq (s\<lparr>pll0 := boot_pll 60 1 (pll0 s)\<rparr>) SYSCTL_PLL0) \<in> {792999999, 793000000}"
    using pll_freq_within_one_hertz [of SYSCTL_PLL0 "s\<lparr>pll0 := boot_pll 60 1 (pll0 s)\<rparr>"]
    by (auto simp: pll_of_def boot_pll_def)
qed

text \<open>The lost hertz is real: with \<open>nr = 3\<close>, \<open>nf = 15\<close>, \<open>od = 1\<close> the PLL output is
  130 MHz exactly and the driver reports 129999999 Hz, because \<open>26000000 / 3\<close> is rounded before
  it is multiplied; the boot settings of PLL0 and PLL1 come out exact.\<close>

lemma pll_freq_130MHz_reported_low:
  "26000000 * 15 div (3 * 1) = (130000000 :: int) \<and>
   sysctl_pll_get_freq (s\<lparr>pll0 := pll_set_dividers 2 14 0 bw (pll0 s)\<rparr>) SYSCTL_PLL0 = 129999999 \<and>
   sysctl_pll_get_freq (s\<lparr>pll0 := pll_set_dividers 0 60 1 60 (pll0 s)\<rparr>) SYSCTL_PLL0 = 793000000 \<and>
   sysctl_pll_get_freq (s\<lparr>pll1 := pll_set_dividers 0 59 3 59 (pll1 s)\<rparr>) SYSCTL_PLL1 = 390000000"
  using pll_get_freq_130MHz [where s = s and bw = bw] pll_boot_freqs
  by (simp add: pll_get_freq_crystal pll_of_def pll_set_dividers_def)

text \<open>C2.  When the hardware writes nothing but the lock register and every PLL locks after
  finitely many polls, \<open>sysctl_pll_fast_enable_pll\<close> returns 0, with PLL0 at 793 MHz, PLL1 and
  PLL2 at 390 MHz (PLL2 fed by the crystal), all three outputs gated on, and the CPU clock switched to
  PLL0 and divided by \<open>2 << aclk_divider_sel\<close>.\<close>

theorem fast_enable_boots_clocks:
  assumes hw: "\<And>s. \<exists>l. hw s = s\<lparr>pll_lock := l\<rparr>"
    and locks: "\<And>pll s. pll \<noteq> SYSCTL_PLL_MAX \<Longrightarrow>
      \<exists>n. sysctl_pll_is_lock pll (((\<lambda>s. hw (snd (sysctl_pll_clear_slip pll s))) ^^ n) s) \<noteq> 0"
    and ckin: "pll_ckin_sel (pll2 s) = 0"
  shows "\<exists>s'. sysctl_pll_fast_enable_pll hw s = Some (0, s') \<and>
    sysctl_pll_get_freq s' SYSCTL_PLL0 = 793000000 \<and>
    sysctl_pll_get_freq s' SYSCTL_PLL1 = 390000000 \<and>
    sysctl_pll_get_freq s' SYSCTL_PLL2 = 390000000 \<and>
    sysctl_clock_get_freq s' SYSCTL_CLOCK_CPU = div_shift 793000000 (uint (aclk_divider_sel (clk_sel0 s))) \<and>
    map (\<lambda>c. sysctl_gate c s') [SYSCTL_CLOCK_PLL0, SYSCTL_CLOCK_PLL1, SYSCTL_CLOCK_PLL2] = [Some 1, Some 1, Some 1]"
proof -
  have "lock_only hw" using hw by (simp add: lock_only_def)
  moreover have "\<exists>n. sysctl_pll_is_lock pll ((lock_poll hw pll ^^ n) s) \<noteq> 0 \<or> pll = SYSCTL_PLL_MAX" for pll s
    using locks [of pll s] unfolding lock_poll_def [abs_def] by blast
  ultimately show ?thesis
    using fast_enable_state [of hw s] pll_boot_freqs ckin
    by (auto simp: pll_get_freq_crystal pll_of_def boot_pll_def sysctl_pll_get_freq.simps Let_def
        sysctl_clock_get_freq.simps sysctl_clock_get_clock_select_def sysctl_clock_get_threshold_def)
qed

theorem fast_enable_boots_clocks_witness:
  "\<forall>s :: sysctl. \<exists>s'. sysctl_pll_fast_enable_pll
        (\<lambda>s. s\<lparr>pll_lock := (pll_lock s)\<lparr>pll_lock0 := 3, pll_lock1 := 1, pll_lock2 := 1\<rparr>\<rparr>)
        (s\<lparr>pll2 := (pll2 s)\<lparr>pll_ckin_sel := 0\<rparr>, clk_sel0 := (clk_sel0 s)\<lparr>aclk_divider_sel := 0\<rparr>\<rparr>) = Some (0, s') \<and>
      sysctl_clock_get_freq s' SYSCTL_CLOCK_CPU = 396500000"
proof
  fix s :: sysctl
  let ?hw = "\<lambda>s :: sysctl. s\<lparr>pll_lock := (pll_lock s)\<lparr>pll_lock0 := 3, pll_lock1 := 1, pll_lock2 := 1\<rparr>\<rparr>"
  let ?s = "s\<lparr>pll2 := (pll2 s)\<lparr>pll_ckin_sel := 0\<rparr>, clk_sel0 := (clk_sel0 s)\<lparr>aclk_divider_sel := 0\<rparr>\<rparr>"
  have "\<exists>n. sysctl_pll_is_lock pll (((\<lambda>s. ?hw (snd (sysctl_pll_clear_slip pll s))) ^^ n) s) \<noteq> 0"
    if "pll \<noteq> SYSCTL_PLL_MAX" for pll and s :: sysctl
    using that by (intro exI [of _ 1]) (cases pll; simp add: sysctl_pll_is_lock_def)
  then have "\<exists>s'. sysctl_pll_fast_enable_pll ?hw ?s = Some (0, s') \<and>
      sysctl_clock_get_freq s' SYSCTL_CLOCK_CPU = div_shift 793000000 (uint (aclk_divider_sel (clk_sel0 ?s)))"
    using fast_enable_boots_clocks [of ?hw ?s] by (auto simp: ex_pll_lock)
  moreover have "div_shift 793000000 0 = 396500000" by code_simp
  ultimately show "\<exists>s'. sysctl_pll_fast_enable_pll ?hw ?s = Some (0, s') \<and>
      sysctl_clock_get_freq s' SYSCTL_CLOCK_CPU = 396500000"
    by simp
qed

end
