(* ===== verification/Csr.thy ===== *)
theory Csr
  imports K210_Prelude
begin

text \<open>
  The control and status registers of a core that the interrupt code reads and writes, and
  the three instructions it uses on them (\<open>read_csr\<close>, \<open>set_csr\<close> and \<open>clear_csr\<close> of
  \<open>lib/bsp/include/encoding.h\<close>): \<open>set_csr(reg, bits)\<close> ors bits in, \<open>clear_csr\<close> takes them out.
\<close>

record csr =
  mstatus :: u64
  mie :: u64
  mip :: u64

definition MSTATUS_MIE :: u64 where "MSTATUS_MIE = 0x8"
definition MSTATUS_MPIE :: u64 where "MSTATUS_MPIE = 0x80"
definition MSTATUS_MPP :: u64 where "MSTATUS_MPP = 0x1800"
definition MIP_MSIP :: u64 where "MIP_MSIP = push_bit 3 1"
definition MIP_MTIP :: u64 where "MIP_MTIP = push_bit 7 1"
definition MIP_MEIP :: u64 where "MIP_MEIP = push_bit 11 1"

definition set_mie :: "u64 \<Rightarrow> csr \<Rightarrow> csr" where "set_mie m c = c\<lparr>mie := mie c OR m\<rparr>"
definition clear_mie :: "u64 \<Rightarrow> csr \<Rightarrow> csr" where "clear_mie m c = c\<lparr>mie := mie c AND NOT m\<rparr>"
definition set_mstatus :: "u64 \<Rightarrow> csr \<Rightarrow> csr" where "set_mstatus m c = c\<lparr>mstatus := mstatus c OR m\<rparr>"
definition clear_mstatus :: "u64 \<Rightarrow> csr \<Rightarrow> csr" where "clear_mstatus m c = c\<lparr>mstatus := mstatus c AND NOT m\<rparr>"

lemmas csr_ops = set_mie_def clear_mie_def set_mstatus_def clear_mstatus_def

lemma bit_push_bit_one: "bit (push_bit k 1 :: u64) n \<longleftrightarrow> n = k \<and> k < 64"
  by (auto simp: bit_simps simp del: push_bit_of_1)

lemma csr_mask_bit:
  "bit MSTATUS_MIE n \<longleftrightarrow> n = 3" "bit MSTATUS_MPIE n \<longleftrightarrow> n = 7" "bit MSTATUS_MPP n \<longleftrightarrow> n = 11 \<or> n = 12"
  "bit MIP_MSIP n \<longleftrightarrow> n = 3" "bit MIP_MTIP n \<longleftrightarrow> n = 7" "bit MIP_MEIP n \<longleftrightarrow> n = 11"
proof -
  have m: "MSTATUS_MIE = push_bit 3 1" "MSTATUS_MPIE = push_bit 7 1"
    "MSTATUS_MPP = push_bit 11 1 OR push_bit 12 1"
    by (simp_all add: MSTATUS_MIE_def MSTATUS_MPIE_def MSTATUS_MPP_def)
  show "bit MSTATUS_MIE n \<longleftrightarrow> n = 3" "bit MSTATUS_MPIE n \<longleftrightarrow> n = 7" "bit MSTATUS_MPP n \<longleftrightarrow> n = 11 \<or> n = 12"
    "bit MIP_MSIP n \<longleftrightarrow> n = 3" "bit MIP_MTIP n \<longleftrightarrow> n = 7" "bit MIP_MEIP n \<longleftrightarrow> n = 11"
    unfolding m MIP_MSIP_def MIP_MTIP_def MIP_MEIP_def bit_or_iff bit_push_bit_one by auto
qed

end
