(* ===== verification/Sysctl_Pll.thy ===== *)
theory Sysctl_Pll
  imports Sysctl_Freq Csr "HOL-Library.Signed_Division"
begin

text \<open>
  Setting a PLL to a frequency: \<open>sysctl_pll_source_set_freq\<close>, which searches the dividers, and its callers
  \<open>sysctl_pll_set_freq\<close> and \<open>sysctl_cpu_set_freq\<close> (\<open>lib/drivers/sysctl.c\<close>).  The search works in
  \<open>double\<close> arithmetic, rounded after every operation (\<open>fl\<close>); \<open>max_vco\<close> and \<open>ref_rng\<close>
  are constants that are set, so the branches they switch off are left out.  \<open>int\<close> variables are
  unbounded here: the one conversion that can leave the range, that of \<open>nr\<close>, does so only for candidates the
  later bound \<open>nrx \<le> 16\<close> refuses.  \<open>None\<close> is a division by zero.
\<close>

definition vco_min :: rat where "vco_min = 350000000"
definition vco_max :: rat where "vco_max = 1750000000"
definition ref_min :: rat where "ref_min = 13671900"
definition ref_max :: rat where "ref_max = 1750000000"
definition one_plus :: rat where "one_plus = fl (1 + fl (1 / 1000000))"
definition one_minus :: rat where "one_minus = fl (1 - fl (1 / 1000000))"
definition tiny :: rat where "tiny = fl (1 / 10000000000000000)"
definition terr :: rat where "terr = 1 / 64"

definition rint :: "rat \<Rightarrow> int" where "rint q = round_even q"

record pll_search =
  found :: bool
  firstx :: bool
  merr :: rat
  x_no :: int
  x_nrx :: int
  x_nfx :: int
  x_nb :: int
  x_fvco :: rat
  x_err :: rat

text \<open>\<open>for(no = start; no > no_min; --no)\<close>, left at the first divisor of \<open>nr\<close>.\<close>

function pll_no :: "int \<Rightarrow> int \<Rightarrow> int" where
  "pll_no nr no =
     (if no > 1 then
        (if nr sdiv no < 1 then pll_no nr (no - 1)
         else if nr smod no = 0 then no
         else pll_no nr (no - 1))
      else no)"
  by pat_completeness auto
termination
  by (relation "measure (\<lambda>(nr, no). nat no)") auto

declare pll_no.simps [simp del]

datatype candidate = Skip | Undefined | Candidate int int int int

text \<open>
  How the output divider is chosen for the reference divider \<open>nr\<close> and multiplier \<open>nfi\<close>: either all of
  the room of the multiplier is used, or the reference divider is reduced.  The result is \<open>nrx\<close>, \<open>nfx\<close>,
  \<open>nf\<close> and \<open>no\<close>.
\<close>

definition pll_dividers :: "rat \<Rightarrow> bool \<Rightarrow> int \<Rightarrow> int \<Rightarrow> candidate" where
  "pll_dividers fout fx nr nfi =
     (let nrx = nr; nfx = nfi; nf = (if nfi = 0 then 1 else nfi);
          nt = \<lfloor>fl (vco_max / fout)\<rfloor>;
          no = pll_no nr (if nt > 16 then 16 else nt)
      in if no = 0 then Undefined
         else if nr smod no \<noteq> 0 then Skip
         else
          (let nor = (if nt > 16 then 16 else nt) sdiv no;
               nore = 64 sdiv nf;
               nor = (if nor > nore then nore else nor);
               noe = \<lceil>fl (vco_min / fout)\<rceil>
           in if (no * nor < nt div 2 \<or> no * nor < noe) \<and> no * nor < 64 sdiv nf then
                (let no = 64 sdiv nf;
                     no = (if no > 16 then 16 else no);
                     no = (if no > nt then nt else no);
                     nfx = nfx * no; nf = nf * no
                 in if no > 1 \<and> \<not> fx then Skip else Candidate nrx nfx nf no)
              else
                (let nrx = nrx sdiv no; nfx = nfx * nor; nf = nf * nor; no = no * nor
                 in if no > 16 then Skip
                    else if nor > 1 \<and> \<not> fx then Skip
                    else Candidate nrx nfx nf no)))"

definition pll_check :: "rat \<Rightarrow> rat \<Rightarrow> pll_search \<Rightarrow> int \<Rightarrow> int \<Rightarrow> int \<Rightarrow> int \<Rightarrow> pll_search" where
  "pll_check fin err st nrx nfx nf no =
     (let nb = (if nfx < 1 then 1 else nfx) in
      if nb > 64 then st
      else
       (let fvco = fl (fl (fin / of_int nrx) * of_int nfx) in
        if fvco < vco_min then st
        else if fvco > vco_max then st
        else if nf < 1 then st
        else if fl (fin / of_int nrx) < ref_min then st
        else if nrx > 16 then st
        else if \<not> (\<bar>err\<bar> < fl (merr st * one_minus) \<or> no > x_no st) then st
        else if \<not> firstx st \<and> nrx > x_nrx st then st
        else \<lparr>found = True, firstx = False, merr = \<bar>err\<bar>, x_no = no, x_nrx = nrx, x_nfx = nfx, x_nb = nb,
               x_fvco = fvco, x_err = err\<rparr>))"

definition pll_try :: "rat \<Rightarrow> rat \<Rightarrow> rat \<Rightarrow> int \<Rightarrow> pll_search \<Rightarrow> pll_search option" where
  "pll_try fin fout val nfi st =
     (let nr = rint (fl (of_int nfi / val)) in
      if nr = 0 then Some st
      else if nr < 1 then Some st
      else if fl (fin / of_int nr) > ref_max then Some st
      else
       (let nval = fl (of_int nfi / of_int nr);
            err = fl (1 - fl (nval / val))
        in if \<bar>err\<bar> < fl (merr st * one_plus) \<or> \<bar>err\<bar> < tiny then
             (case pll_dividers fout (firstx st) nr nfi of
                Skip \<Rightarrow> Some st
              | Undefined \<Rightarrow> None
              | Candidate nrx nfx nf no \<Rightarrow> Some (pll_check fin err st nrx nfx nf no))
           else Some st))"

fun pll_scan :: "rat \<Rightarrow> rat \<Rightarrow> rat \<Rightarrow> int list \<Rightarrow> pll_search \<Rightarrow> pll_search option" where
  "pll_scan fin fout val [] st = Some st"
| "pll_scan fin fout val (nfi # ns) st =
     (case pll_try fin fout val nfi st of None \<Rightarrow> None | Some st \<Rightarrow> pll_scan fin fout val ns st)"

definition pll_find :: "u32 \<Rightarrow> u32 \<Rightarrow> pll_search option" where
  "pll_find freq_in freq =
     (let fin = of_int (uint freq_in); fout = of_int (uint freq); val = fl (fout / fin) in
      if val = 0 then None
      else pll_scan fin fout val [\<lfloor>val\<rfloor>..63]
             \<lparr>found = False, firstx = True, merr = terr, x_no = 0, x_nrx = 0, x_nfx = 0, x_nb = 0, x_fvco = 0, x_err = 0\<rparr>)"

definition get_select_pll2 :: "sysctl_clock_source \<Rightarrow> 2 word option" where
  "get_select_pll2 source =
     (case source of SYSCTL_SOURCE_IN0 \<Rightarrow> Some 0 | SYSCTL_SOURCE_PLL0 \<Rightarrow> Some 1 | SYSCTL_SOURCE_PLL1 \<Rightarrow> Some 2 | _ \<Rightarrow> None)"

definition pll_source_freq :: "sysctl_pll \<Rightarrow> sysctl_clock_source \<Rightarrow> sysctl \<Rightarrow> u32" where
  "pll_source_freq pll source s =
     (case pll of
        SYSCTL_PLL2 \<Rightarrow> (if get_select_pll2 source \<noteq> None then sysctl_clock_source_get_freq s source else 0)
      | SYSCTL_PLL_MAX \<Rightarrow> 0
      | _ \<Rightarrow> (if source \<noteq> SYSCTL_SOURCE_IN0 then 0 else sysctl_clock_source_get_freq s SYSCTL_SOURCE_IN0))"

definition sysctl_pll_source_set_freq ::
  "sysctl_pll \<Rightarrow> sysctl_clock_source \<Rightarrow> u32 \<Rightarrow> sysctl \<Rightarrow> (u32 \<times> sysctl) option" where
  "sysctl_pll_source_set_freq pll source freq s =
     (let freq_in = pll_source_freq pll source s in
      if pll = SYSCTL_PLL_MAX \<or> freq_in = 0 then Some (0, s)
      else case pll_find freq_in freq of
        None \<Rightarrow> None
      | Some st \<Rightarrow>
          if \<not> found st then Some (0, s)
          else if \<bar>x_err st\<bar> \<ge> fl (terr * one_minus) then Some (0, s)
          else
           (let s = (if pll = SYSCTL_PLL2
                     then pll_upd pll (\<lambda>p. p\<lparr>pll_ckin_sel := the (get_select_pll2 source)\<rparr>) s else s);
                s = pll_upd pll (\<lambda>p. p\<lparr>clkr := word_of_int (x_nrx st - 1), clkf := word_of_int (x_nfx st - 1),
                                      clkod := word_of_int (x_no st - 1), bwadj := word_of_int (x_nb st - 1)\<rparr>) s
            in Some (sysctl_pll_get_freq s pll, s)))"

definition source_of_sel :: "2 word \<Rightarrow> sysctl_clock_source" where
  "source_of_sel w = (if w = 0 then SYSCTL_SOURCE_IN0 else if w = 1 then SYSCTL_SOURCE_PLL0
     else if w = 2 then SYSCTL_SOURCE_PLL1 else SYSCTL_SOURCE_PLL2)"

text \<open>
  \<open>None\<close>: a division by zero in the search, or the PLL never locks.  The re-initialisation of the debug UART at the end is
  left out; \<open>hw\<close> is what the hardware does to the lock bits between two polls.
\<close>

definition sysctl_pll_set_freq :: "(sysctl \<Rightarrow> sysctl) \<Rightarrow> sysctl_pll \<Rightarrow> u32 \<Rightarrow> sysctl \<Rightarrow> (u32 \<times> sysctl) option" where
  "sysctl_pll_set_freq hw pll pll_freq s =
     (if pll_freq = 0 then Some (0, s)
      else if pll = SYSCTL_PLL_MAX then Some (0, s)
      else
       (let s = (if pll = SYSCTL_PLL0 then snd (sysctl_clock_set_clock_select SYSCTL_CLOCK_SELECT_ACLK 0 s) else s);
            s = pll_upd pll (\<lambda>p. p\<lparr>pll_out_en := 0\<rparr>) s;
            s = pll_upd pll (\<lambda>p. p\<lparr>pll_pwrd := 0\<rparr>) s
        in case sysctl_pll_source_set_freq pll
                  (if pll = SYSCTL_PLL2 then source_of_sel (pll_ckin_sel (pll_of pll s)) else SYSCTL_SOURCE_IN0) pll_freq s of
             None \<Rightarrow> None
           | Some (result, s) \<Rightarrow>
              (let s = pll_upd pll (\<lambda>p. p\<lparr>pll_pwrd := 1\<rparr>) s;
                   s = pll_upd pll (\<lambda>p. p\<lparr>pll_reset := 0\<rparr>) s;
                   s = pll_upd pll (\<lambda>p. p\<lparr>pll_reset := 1\<rparr>) s;
                   s = pll_upd pll (\<lambda>p. p\<lparr>pll_reset := 0\<rparr>) s
               in case sysctl_pll_wait_lock hw pll s of
                    None \<Rightarrow> None
                  | Some s \<Rightarrow>
                     (let s = pll_upd pll (\<lambda>p. p\<lparr>pll_out_en := 1\<rparr>) s;
                          s = (if pll = SYSCTL_PLL0 then snd (sysctl_clock_set_clock_select SYSCTL_CLOCK_SELECT_ACLK 1 s) else s)
                      in Some (result, s)))))"

text \<open>The static \<open>cpu_freq\<close> is an argument and a result.\<close>

definition sysctl_cpu_set_freq :: "(sysctl \<Rightarrow> sysctl) \<Rightarrow> u32 \<Rightarrow> u32 \<times> sysctl \<Rightarrow> (u32 \<times> u32 \<times> sysctl) option" where
  "sysctl_cpu_set_freq hw freq cs = (case cs of (cpu_freq, s) \<Rightarrow>
     (if freq = 0 then Some (0, cpu_freq, s)
      else case sysctl_pll_set_freq hw SYSCTL_PLL0 ((ucast (aclk_divider_sel (clk_sel0 s)) + 1) * 2 * freq) s of
        None \<Rightarrow> None
      | Some (cpu_freq, s) \<Rightarrow> Some (cpu_freq, cpu_freq, s)))"

definition sysctl_cpu_get_freq :: "u32 \<times> sysctl \<Rightarrow> u32" where
  "sysctl_cpu_get_freq cs = fst cs"

text \<open>The external interrupt switch, and the time since reset from the cycle counter (\<open>None\<close>: a
  division by a CPU frequency of 0).\<close>

definition sysctl_enable_irq :: "csr \<Rightarrow> csr" where
  "sysctl_enable_irq c = set_mstatus MSTATUS_MIE (set_mie MIP_MEIP c)"

definition sysctl_disable_irq :: "csr \<Rightarrow> csr" where
  "sysctl_disable_irq c = clear_mstatus MSTATUS_MIE (clear_mie MIP_MEIP c)"

definition sysctl_get_time_us :: "u64 \<Rightarrow> sysctl \<Rightarrow> u64 option" where
  "sysctl_get_time_us cycle s =
     (let f = sysctl_clock_get_freq s SYSCTL_CLOCK_CPU in if f = 0 then None else Some (cycle * 1000000 div ucast f))"

subsection \<open>Every candidate the search accepts is legal\<close>

lemma fl_bounds:
  assumes "0 \<le> x"
  shows "x * (1 - 1 / 2 ^ 53) \<le> fl x" "fl x \<le> x * (1 + 1 / 2 ^ 53)"
  using abs_le_D1 [OF fl_error [of x]] abs_le_D2 [OF fl_error [of x]] assms by (simp_all add: algebra_simps)

lemma int_sdiv: "0 \<le> a \<Longrightarrow> 0 < b \<Longrightarrow> a sdiv b = a div b" for a b :: int
  by (simp add: signed_divide_int_def sgn_if)

lemma int_smod: "0 \<le> a \<Longrightarrow> 0 < b \<Longrightarrow> a smod b = a mod b" for a b :: int
  by (rule smod_mod_positive) auto

lemma pll_no_range: "1 \<le> no \<Longrightarrow> 1 \<le> pll_no nr no \<and> pll_no nr no \<le> no"
proof (induction nr no rule: pll_no.induct)
  case (1 nr no)
  show ?case
  proof (cases "no > 1 \<and> (nr sdiv no < 1 \<or> nr smod no \<noteq> 0)")
    case True
    then have "pll_no nr no = pll_no nr (no - 1)" by (subst pll_no.simps) auto
    moreover have "1 \<le> pll_no nr (no - 1) \<and> pll_no nr (no - 1) \<le> no - 1"
      using 1 True by (cases "nr sdiv no < 1") auto
    ultimately show ?thesis by linarith
  next
    case False
    then have "pll_no nr no = no" by (subst pll_no.simps) auto
    then show ?thesis using 1(3) by simp
  qed
qed

definition output_bound :: "rat \<Rightarrow> int" where
  "output_bound fout = \<lfloor>fl (vco_max / fout)\<rfloor>"

lemma pll_dividers_defined:
  assumes "1 \<le> output_bound fout"
  shows "pll_dividers fout fx nr nfi \<noteq> Undefined"
proof -
  have "pll_no nr (if output_bound fout > 16 then 16 else output_bound fout) \<noteq> 0"
    using pll_no_range [of "if output_bound fout > 16 then 16 else output_bound fout" nr] assms by auto
  then show ?thesis
    unfolding pll_dividers_def Let_def output_bound_def [symmetric] by (simp split: if_split)
qed

lemma pll_dividers_ratio:
  assumes "pll_dividers fout fx nr nfi = Candidate nrx nfx nf no"
    and "1 \<le> output_bound fout" "1 \<le> nr" "0 \<le> nfi" "nfi \<le> 63"
  shows "1 \<le> nrx" "1 \<le> no" "no \<le> 16" "0 \<le> nfx" "nfx * nr = nfi * (nrx * no)"
proof -
  define nt where "nt = output_bound fout"
  define m where "m = (if nt > 16 then 16 else nt)"
  define d where "d = pll_no nr m"
  define f where "f = (if nfi = 0 then 1 else nfi)"
  define nor where "nor = (if m sdiv d > 64 sdiv f then 64 sdiv f else m sdiv d)"
  define k where "k = (if (if 64 sdiv f > 16 then 16 else 64 sdiv f) > nt then nt
      else (if 64 sdiv f > 16 then 16 else 64 sdiv f))"
  have m: "1 \<le> m" "m \<le> 16" "1 \<le> nt" using assms(2) by (auto simp: m_def nt_def)
  have d: "1 \<le> d" "d \<le> m" using pll_no_range [OF m(1), of nr] by (auto simp: d_def)
  have f: "1 \<le> f" "f \<le> 63" using assms(4,5) by (auto simp: f_def)
  have "64 sdiv f = 64 div f" using f by (simp add: int_sdiv)
  moreover have "0 < 64 div f" using f pos_imp_zdiv_pos_iff [of f 64] by simp
  ultimately have ff: "1 \<le> 64 sdiv f" by simp
  have k: "1 \<le> k" "k \<le> 16" using ff m by (auto simp: k_def)
  have "m sdiv d = m div d" using m d by (simp add: int_sdiv)
  moreover have "0 < m div d" using m d pos_imp_zdiv_pos_iff [of d m] by simp
  ultimately have nor: "1 \<le> nor" using ff by (auto simp: nor_def)
  have c: "nr smod d = 0 \<and>
      ((nrx = nr \<and> nfx = nfi * k \<and> no = k) \<or> (nrx = nr sdiv d \<and> nfx = nfi * nor \<and> no = d * nor \<and> no \<le> 16))"
    using assms(1)
    unfolding pll_dividers_def Let_def output_bound_def [symmetric] nt_def [symmetric] m_def [symmetric]
      d_def [symmetric] f_def [symmetric] nor_def [symmetric] k_def [symmetric]
    by (auto split: if_splits)
  have r: "nr = (nr sdiv d) * d" "1 \<le> nr sdiv d"
  proof -
    have "nr mod d = 0" "nr sdiv d = nr div d" using c assms(3) d by (simp_all add: int_smod int_sdiv)
    then show "nr = (nr sdiv d) * d" using div_mult_mod_eq [of nr d] by simp
    then show "1 \<le> nr sdiv d" using assms(3) d(1) by (smt (verit) mult_nonpos_nonneg)
  qed
  show "1 \<le> nrx" "1 \<le> no" "no \<le> 16" "0 \<le> nfx"
    using c k nor d r(2) assms(3,4) mult_mono [of 1 d 1 nor] by auto
  show "nfx * nr = nfi * (nrx * no)"
    using c r(1) by (auto simp: algebra_simps)
qed

definition legal :: "rat \<Rightarrow> rat \<Rightarrow> pll_search \<Rightarrow> bool" where
  "legal fin val st \<longleftrightarrow> found st \<longrightarrow>
     1 \<le> x_nrx st \<and> x_nrx st \<le> 16 \<and> 1 \<le> x_no st \<and> x_no st \<le> 16 \<and> 1 \<le> x_nfx st \<and> x_nfx st \<le> 64 \<and>
     x_nb st = x_nfx st \<and> vco_min \<le> fl (fl (fin / of_int (x_nrx st)) * of_int (x_nfx st)) \<and>
     fl (fl (fin / of_int (x_nrx st)) * of_int (x_nfx st)) \<le> vco_max \<and> ref_min \<le> fl (fin / of_int (x_nrx st)) \<and>
     (\<exists>nfi nr. 1 \<le> nr \<and> x_nfx st * nr = nfi * (x_nrx st * x_no st) \<and>
        x_err st = fl (1 - fl (fl (of_int nfi / of_int nr) / val)))"

lemma pll_check_legal:
  assumes "legal fin val st" "1 \<le> nrx" "1 \<le> no" "no \<le> 16" "0 \<le> nfx"
    and "1 \<le> nr" "nfx * nr = nfi * (nrx * no)" "err = fl (1 - fl (fl (of_int nfi / of_int nr) / val))"
  shows "legal fin val (pll_check fin err st nrx nfx nf no)"
proof (cases "pll_check fin err st nrx nfx nf no = st")
  case False
  let ?v = "fl (fl (fin / of_int nrx) * of_int nfx)"
  have c: "\<not> ?v < vco_min" "\<not> ?v > vco_max" "\<not> fl (fin / of_int nrx) < ref_min" "\<not> nrx > 16"
    "\<not> (if nfx < 1 then 1 else nfx) > 64"
    "pll_check fin err st nrx nfx nf no = \<lparr>found = True, firstx = False, merr = \<bar>err\<bar>, x_no = no, x_nrx = nrx,
       x_nfx = nfx, x_nb = (if nfx < 1 then 1 else nfx), x_fvco = ?v, x_err = err\<rparr>"
    using False unfolding pll_check_def Let_def by presburger+
  have "nfx \<noteq> 0" using c(1) by (auto simp: vco_min_def)
  then have "1 \<le> nfx" using assms(5) by simp
  then show ?thesis
    unfolding legal_def c(6) using assms c(1-5) by auto
qed (use assms(1) in simp)

lemma pll_try_legal:
  assumes "legal fin val st" "1 \<le> output_bound fout" "0 \<le> nfi" "nfi \<le> 63"
  shows "\<exists>st'. pll_try fin fout val nfi st = Some st' \<and> legal fin val st'"
proof -
  define nr where "nr = rint (fl (of_int nfi / val))"
  define err where "err = fl (1 - fl (fl (of_int nfi / of_int nr) / val))"
  show ?thesis
  proof (cases "nr < 1")
    case True
    then have "pll_try fin fout val nfi st = Some st"
      unfolding pll_try_def Let_def nr_def [symmetric] by simp
    then show ?thesis using assms(1) by simp
  next
    case nr: False
    have "pll_try fin fout val nfi st = Some st \<or>
        (\<exists>nrx nfx nf no. pll_dividers fout (firstx st) nr nfi = Candidate nrx nfx nf no \<and>
           pll_try fin fout val nfi st = Some (pll_check fin err st nrx nfx nf no))"
      using pll_dividers_defined [OF assms(2), of "firstx st" nr nfi] nr
      unfolding pll_try_def Let_def nr_def [symmetric] err_def [symmetric]
      by (cases "pll_dividers fout (firstx st) nr nfi") auto
    then show ?thesis
    proof (elim disjE exE conjE)
      fix nrx nfx nf no
      assume c: "pll_dividers fout (firstx st) nr nfi = Candidate nrx nfx nf no"
        and t: "pll_try fin fout val nfi st = Some (pll_check fin err st nrx nfx nf no)"
      have n: "1 \<le> nr" using nr by simp
      note r = pll_dividers_ratio [OF c assms(2) n assms(3,4)]
      show ?thesis
        using pll_check_legal [OF assms(1) r(1-4) n r(5) err_def] t by simp
    qed (use assms(1) in simp)
  qed
qed

lemma pll_scan_legal:
  assumes "1 \<le> output_bound fout" "\<forall>n \<in> set ns. 0 \<le> n \<and> n \<le> 63" "legal fin val st"
  shows "\<exists>st'. pll_scan fin fout val ns st = Some st' \<and> legal fin val st'"
  using assms(2,3)
proof (induction ns arbitrary: st)
  case (Cons n ns)
  then obtain st1 where "pll_try fin fout val n st = Some st1" "legal fin val st1"
    using pll_try_legal [OF _ assms(1), of fin val st n] by auto
  then show ?case using Cons by simp
qed simp

lemma crystal_output_bound:
  assumes "0 < freq" "fl (of_int freq / 26000000) < 64"
  shows "1 \<le> output_bound (of_int freq)"
proof -
  have "of_int freq / 26000000 * (1 - 1 / 2 ^ 53) \<le> fl (of_int freq / 26000000 :: rat)"
    by (rule fl_bounds) (use assms(1) in simp)
  then have "of_int freq < (1700000000 :: rat)" using assms(2) by (simp add: field_simps)
  then have "freq < 1700000000" by simp
  then have "(1 + 1 / 100 :: rat) \<le> vco_max / of_int freq"
    using assms(1) by (simp add: vco_max_def field_simps)
  moreover have "vco_max / of_int freq * (1 - 1 / 2 ^ 53) \<le> fl (vco_max / of_int freq)"
    by (rule fl_bounds) (use assms(1) in \<open>simp add: vco_max_def\<close>)
  ultimately have "1 \<le> fl (vco_max / of_int freq)" by (simp add: field_simps)
  then show ?thesis by (simp add: output_bound_def)
qed

lemma pll_find_legal:
  assumes "freq \<noteq> 0"
  shows "\<exists>st. pll_find 26000000 freq = Some st \<and> legal 26000000 (fl (of_int (uint freq) / 26000000)) st"
proof -
  define k where "k = uint freq"
  let ?val = "fl (of_int k / 26000000) :: rat"
  let ?st = "\<lparr>found = False, firstx = True, merr = terr, x_no = 0, x_nrx = 0, x_nfx = 0, x_nb = 0, x_fvco = 0, x_err = 0\<rparr>"
  have f: "0 < k" using assms uint_0_iff [of freq] uint_ge_0 [of freq] unfolding k_def by linarith
  have "of_int k / 26000000 * (1 - 1 / 2 ^ 53) \<le> ?val"
    by (rule fl_bounds) (use f in simp)
  moreover have "(0 :: rat) < of_int k / 26000000 * (1 - 1 / 2 ^ 53)" using f by simp
  ultimately have v: "0 < ?val" by linarith
  have l: "legal 26000000 ?val ?st" by (simp add: legal_def)
  have "\<exists>st. pll_scan 26000000 (of_int k) ?val [\<lfloor>?val\<rfloor>..63] ?st = Some st \<and> legal 26000000 ?val st"
  proof (cases "\<lfloor>?val\<rfloor> \<le> 63")
    case True
    then have "?val < 64" by linarith
    then have "1 \<le> output_bound (of_int k)" using crystal_output_bound [OF f] by simp
    moreover have nn: "0 \<le> \<lfloor>?val\<rfloor>" using v by simp
    ultimately show ?thesis
      by (intro pll_scan_legal) (auto intro: order_trans [OF nn] l)
  next
    case False
    then show ?thesis using l by simp
  qed
  moreover have "of_int (uint (26000000 :: u32)) = (26000000 :: rat)" by simp
  ultimately show ?thesis using v unfolding pll_find_def Let_def k_def [symmetric] by simp
qed

subsection \<open>How close the result is\<close>

lemma fl_near:
  assumes "0 \<le> x"
  shows "x * (1 - 1 / 10 ^ 15) \<le> fl x" "fl x \<le> x * (1 + 1 / 10 ^ 15)"
proof -
  have "x * (1 - 1 / 10 ^ 15) \<le> x * (1 - 1 / 2 ^ 53)" "x * (1 + 1 / 2 ^ 53) \<le> x * (1 + 1 / 10 ^ 15)"
    using assms by (simp_all add: mult_left_mono)
  then show "x * (1 - 1 / 10 ^ 15) \<le> fl x" "fl x \<le> x * (1 + 1 / 10 ^ 15)"
    using fl_bounds [OF assms] by linarith+
qed

text \<open>A relative error of less than \<open>1 / 64\<close> in the driver's arithmetic is one of less than \<open>1 / 63\<close> in exact arithmetic.\<close>

lemma relative_error:
  fixes a v :: rat
  assumes "0 < a" "0 < v" and err: "\<bar>fl (1 - fl (fl a / fl v))\<bar> < 1 / 64"
  shows "\<bar>a - v\<bar> \<le> v / 63"
proof -
  define A where "A = fl a"
  define V where "V = fl v"
  define q where "q = fl (A / V)"
  have A: "a * (1 - 1 / 10 ^ 15) \<le> A" "A \<le> a * (1 + 1 / 10 ^ 15)" using fl_near [of a] assms(1) by (simp_all add: A_def)
  have V: "v * (1 - 1 / 10 ^ 15) \<le> V" "V \<le> v * (1 + 1 / 10 ^ 15)" using fl_near [of v] assms(2) by (simp_all add: V_def)
  have pos: "0 < A" "0 < V" using A(1) V(1) assms(1,2) by (auto intro: less_le_trans [rotated])
  have q: "A / V * (1 - 1 / 10 ^ 15) \<le> q" "q \<le> A / V * (1 + 1 / 10 ^ 15)"
    using fl_near [of "A / V"] pos by (simp_all add: q_def)
  have "\<bar>fl (1 - q) - (1 - q)\<bar> \<le> \<bar>1 - q\<bar> / 2 ^ 53" by (rule fl_error)
  moreover have "\<bar>1 - q\<bar> / 2 ^ 53 \<le> \<bar>1 - q\<bar> / 1000" by (rule divide_left_mono) auto
  moreover have "\<bar>fl (1 - q)\<bar> < 1 / 64" using err by (simp add: q_def A_def V_def)
  moreover have "\<bar>1 - q\<bar> \<le> \<bar>fl (1 - q)\<bar> + \<bar>fl (1 - q) - (1 - q)\<bar>"
    using abs_triangle_ineq4 [of "fl (1 - q)" "fl (1 - q) - (1 - q)"] by simp
  moreover have "x < 10 / 639" if "x \<le> y + z" "z \<le> w" "w \<le> x / 1000" "y < 1 / 64" for x y z w :: rat
    using that by simp
  ultimately have w: "\<bar>1 - q\<bar> < 10 / 639" by blast
  define r where "r = A / V"
  have r: "r < 1 + 10 / 638" "1 - 10 / 638 < r"
  proof -
    have "q < 1 + 10 / 639" "1 - 10 / 639 < q" using w unfolding abs_less_iff by linarith+
    then show "r < 1 + 10 / 638" "1 - 10 / 638 < r"
      using q unfolding r_def [symmetric] by (simp_all add: field_simps)
  qed
  have "A = r * V" using pos by (simp add: r_def)
  have r0: "0 \<le> r" using r(2) by simp
  have b: "a * (1 - 1 / 10 ^ 15) \<le> r * v * (1 + 1 / 10 ^ 15)" "r * v * (1 - 1 / 10 ^ 15) \<le> a * (1 + 1 / 10 ^ 15)"
    using A mult_left_mono [OF V(1) r0] mult_left_mono [OF V(2) r0] unfolding \<open>A = r * V\<close> mult.assoc by linarith+
  define p where "p = r * v"
  have p: "p \<le> (1 + 10 / 638) * v" "(1 - 10 / 638) * v \<le> p"
    unfolding p_def by (rule mult_right_mono; use r assms(2) in simp)+
  have "a - v \<le> v / 63" "v - a \<le> v / 63"
    using b [folded p_def] p assms(2) by (simp_all add: field_simps)
  then show ?thesis by (intro abs_leI) simp_all
qed

lemma terr_bound: "fl (terr * one_minus) \<le> 1 / 64"
proof -
  have "1 / 1000000 * (1 - 1 / 10 ^ 15) \<le> fl (1 / 1000000 :: rat)" by (rule fl_near) simp
  then have e: "9 / 10000000 \<le> fl (1 / 1000000 :: rat)" by simp
  have "fl (1 / 1000000 :: rat) \<le> 1 / 1000000 * (1 + 1 / 10 ^ 15)" by (rule fl_near) simp
  then have z: "(0 :: rat) \<le> 1 - fl (1 / 1000000)" by (simp add: field_simps)
  have o: "one_minus \<le> (1 - fl (1 / 1000000)) * (1 + 1 / 10 ^ 15)"
    unfolding one_minus_def by (rule fl_near(2) [OF z])
  have m: "one_minus \<le> 1 - 8 / 10000000" using e o by (simp add: field_simps)
  have "0 \<le> one_minus"
    using fl_near(1) [OF z] z unfolding one_minus_def by (simp add: field_simps)
  then have "fl (terr * one_minus) \<le> terr * one_minus * (1 + 1 / 10 ^ 15)" by (intro fl_near) (simp add: terr_def)
  then show ?thesis using m by (simp add: terr_def field_simps)
qed

subsection \<open>The whole operation\<close>

text \<open>What the dividers left in a PLL satisfy when the search for \<open>freq\<close> succeeded.\<close>

definition pll_fits :: "u32 \<Rightarrow> sysctl_general_pll \<Rightarrow> bool" where
  "pll_fits freq p \<longleftrightarrow>
     (let nr = uint (clkr p) + 1; nf = uint (clkf p) + 1; od = uint (clkod p) + 1
      in bwadj p = clkf p \<and> 13671899 * nr \<le> 26000000 \<and>
         349999999 * nr \<le> 26000000 * nf \<and> 26000000 * nf \<le> 1750000001 * nr \<and>
         63 * \<bar>26000000 * nf - uint freq * (nr * od)\<bar> \<le> uint freq * (nr * od))"

lemma legal_fits:
  assumes "legal 26000000 (fl (of_int (uint freq) / 26000000)) st" "found st" "\<not> fl (terr * one_minus) \<le> \<bar>x_err st\<bar>"
    and "freq \<noteq> 0"
  shows "pll_fits freq (p\<lparr>clkr := word_of_int (x_nrx st - 1), clkf := word_of_int (x_nfx st - 1),
           clkod := word_of_int (x_no st - 1), bwadj := word_of_int (x_nb st - 1)\<rparr>)"
proof -
  define k where "k = uint freq"
  define r where "r = x_nrx st"
  define f where "f = x_nfx st"
  define d where "d = x_no st"
  have l: "1 \<le> r" "r \<le> 16" "1 \<le> d" "d \<le> 16" "1 \<le> f" "f \<le> 64" "x_nb st = f"
    and v: "vco_min \<le> fl (fl (26000000 / of_int r) * of_int f)" "fl (fl (26000000 / of_int r) * of_int f) \<le> vco_max"
    and m: "ref_min \<le> fl (26000000 / of_int r)"
    using assms(1,2) unfolding legal_def r_def f_def d_def by auto
  obtain nfi nr where nr: "1 \<le> nr" "f * nr = nfi * (r * d)"
    and e: "x_err st = fl (1 - fl (fl (of_int nfi / of_int nr) / fl (of_int k / 26000000)))"
    using assms(1,2) unfolding legal_def r_def f_def d_def k_def by auto
  have k: "0 < k" using assms(4) uint_0_iff [of freq] uint_ge_0 [of freq] unfolding k_def by linarith
  have q: "(0 :: rat) \<le> 26000000 / of_int r" using l(1) by simp
  define R where "R = (26000000 / of_int r :: rat)"
  define F where "F = fl R"
  have F: "R * (1 - 1 / 10 ^ 15) \<le> F" "F \<le> R * (1 + 1 / 10 ^ 15)"
    using fl_near [OF q] by (simp_all add: F_def R_def)
  have fr: "(1 :: rat) \<le> of_int f" "(of_int f :: rat) \<le> 64" using l by simp_all
  have R0: "0 < R" using l(1) by (simp add: R_def)
  have F0: "0 < F" using F(1) R0 by (auto intro: less_le_trans [rotated])
  define G where "G = fl (F * of_int f)"
  have G: "F * of_int f * (1 - 1 / 10 ^ 15) \<le> G" "G \<le> F * of_int f * (1 + 1 / 10 ^ 15)"
    using fl_near [of "F * of_int f"] F0 fr by (simp_all add: G_def)
  have fm: "R * (1 - 1 / 10 ^ 15) * of_int f \<le> F * of_int f" "F * of_int f \<le> R * (1 + 1 / 10 ^ 15) * of_int f"
    using F fr by (auto intro!: mult_right_mono)
  have g: "350000000 \<le> G" "G \<le> 1750000000" using v by (simp_all add: G_def F_def R_def vco_min_def vco_max_def)
  have hi: "349999999 \<le> R * of_int f" "R * of_int f \<le> 1750000001"
    using G fm g by (simp_all add: field_simps)
  have lo: "13671899 \<le> R" using m F(2) R0 by (simp add: F_def [symmetric] R_def [symmetric] ref_min_def field_simps)
  have rr: "(0 :: rat) < of_int r" using l(1) by simp
  have "of_int (13671899 * r) \<le> (of_int 26000000 :: rat)" using lo rr by (simp add: R_def field_simps)
  then have c1: "13671899 * r \<le> 26000000" by (simp only: of_int_le_iff)
  have "of_int (349999999 * r) \<le> (of_int (26000000 * f) :: rat)" "of_int (26000000 * f) \<le> (of_int (1750000001 * r) :: rat)"
    using hi rr by (simp_all add: R_def field_simps)
  then have c2: "349999999 * r \<le> 26000000 * f" "26000000 * f \<le> 1750000001 * r"
    by (simp_all only: of_int_le_iff)
  have "\<bar>x_err st\<bar> < 1 / 64" using assms(3) terr_bound by linarith
  have nfi: "1 \<le> nfi" using nr l by (smt (verit) mult_nonpos_nonneg mult_pos_pos)
  define A where "A = (of_int nfi / of_int nr :: rat)"
  have A: "0 < A" using nfi nr by (simp add: A_def)
  have A2: "A = of_int f / (of_int r * of_int d)"
  proof -
    have "(of_int (f * nr) :: rat) = of_int (nfi * (r * d))" using nr(2) by simp
    then show ?thesis using nr(1) l by (simp add: A_def frac_eq_eq algebra_simps)
  qed
  define V where "V = (of_int k / 26000000 :: rat)"
  have V: "0 < V" using k by (simp add: V_def)
  have "\<bar>A - V\<bar> \<le> V / 63"
    by (rule relative_error [OF A V]) (use e \<open>\<bar>x_err st\<bar> < 1 / 64\<close> in \<open>simp add: A_def V_def\<close>)
  then have w: "A - V \<le> V / 63" "V - A \<le> V / 63" using abs_le_D1 abs_le_D2 by (blast, fastforce)
  have rd: "(0 :: rat) < of_int r * of_int d" using l by simp
  have "A * (of_int r * of_int d) = of_int f" using rd unfolding A2 by (metis less_irrefl nonzero_eq_divide_eq)
  moreover have "(A - V) * (of_int r * of_int d) \<le> V / 63 * (of_int r * of_int d)"
    "(V - A) * (of_int r * of_int d) \<le> V / 63 * (of_int r * of_int d)"
    using mult_right_mono [OF w(1) less_imp_le [OF rd]] mult_right_mono [OF w(2) less_imp_le [OF rd]] by blast+
  ultimately have "of_int (63 * (26000000 * f - k * (r * d))) \<le> (of_int (k * (r * d)) :: rat)"
    "of_int (63 * (k * (r * d) - 26000000 * f)) \<le> (of_int (k * (r * d)) :: rat)"
    by (simp_all add: V_def algebra_simps)
  then have "63 * (26000000 * f - k * (r * d)) \<le> k * (r * d)" "63 * (k * (r * d) - 26000000 * f) \<le> k * (r * d)"
    by (simp_all only: of_int_le_iff)
  then have c3: "63 * \<bar>26000000 * f - k * (r * d)\<bar> \<le> k * (r * d)" by (simp add: abs_if)
  have u: "uint (word_of_int (r - 1) :: 4 word) + 1 = r" "uint (word_of_int (f - 1) :: 6 word) + 1 = f"
    "uint (word_of_int (d - 1) :: 4 word) + 1 = d"
    using l by (simp_all add: uint_word_of_int del: of_int_diff)
  show ?thesis
    unfolding pll_fits_def Let_def using c1 c2 c3 l(7)
    by (simp add: u r_def [symmetric] f_def [symmetric] d_def [symmetric] k_def [symmetric] del: of_int_diff)
qed

lemma source_set_freq_fits:
  assumes "pll = SYSCTL_PLL0 \<or> pll = SYSCTL_PLL1" "freq \<noteq> 0"
  shows "\<exists>res s'. sysctl_pll_source_set_freq pll SYSCTL_SOURCE_IN0 freq s = Some (res, s') \<and>
    ((res = 0 \<and> s' = s) \<or>
     (res = sysctl_pll_get_freq s' pll \<and>
      (\<exists>r f d b. s' = pll_upd pll (\<lambda>p. p\<lparr>clkr := r, clkf := f, clkod := d, bwadj := b\<rparr>) s \<and>
         pll_fits freq (pll_of pll s'))))"
proof -
  obtain st where st: "pll_find 26000000 freq = Some st" "legal 26000000 (fl (of_int (uint freq) / 26000000)) st"
    using pll_find_legal [OF assms(2)] by blast
  have i: "pll_source_freq pll SYSCTL_SOURCE_IN0 s = 26000000"
    using assms(1) by (auto simp: pll_source_freq_def)
  have p: "pll \<noteq> SYSCTL_PLL_MAX" "pll \<noteq> SYSCTL_PLL2" using assms(1) by auto
  let ?f = "\<lambda>p. p\<lparr>clkr := word_of_int (x_nrx st - 1), clkf := word_of_int (x_nfx st - 1),
           clkod := word_of_int (x_no st - 1), bwadj := word_of_int (x_nb st - 1)\<rparr>"
  have u: "pll_of pll (pll_upd pll ?f s) = ?f (pll_of pll s)"
    using assms(1) by (auto simp: pll_of_def pll_upd_def)
  show ?thesis
  proof (cases "found st \<and> \<not> fl (terr * one_minus) \<le> \<bar>x_err st\<bar>")
    case True
    have "pll_fits freq (pll_of pll (pll_upd pll ?f s))"
      unfolding u using legal_fits [OF st(2) _ _ assms(2)] True by blast
    moreover have "sysctl_pll_source_set_freq pll SYSCTL_SOURCE_IN0 freq s =
        Some (sysctl_pll_get_freq (pll_upd pll ?f s) pll, pll_upd pll ?f s)"
      using True p unfolding sysctl_pll_source_set_freq_def Let_def i st(1) by simp
    ultimately show ?thesis by blast
  next
    case False
    then have "sysctl_pll_source_set_freq pll SYSCTL_SOURCE_IN0 freq s = Some (0, s)"
      unfolding sysctl_pll_source_set_freq_def Let_def i st(1) by auto
    then show ?thesis by blast
  qed
qed

lemma get_freq_by_dividers:
  assumes "pll = SYSCTL_PLL0 \<or> pll = SYSCTL_PLL1"
    and "clkr (pll_of pll s) = clkr (pll_of pll t)" "clkf (pll_of pll s) = clkf (pll_of pll t)"
      "clkod (pll_of pll s) = clkod (pll_of pll t)"
  shows "sysctl_pll_get_freq s pll = sysctl_pll_get_freq t pll"
  using assms by (simp add: pll_get_freq_crystal)

definition pll_powered :: "(sysctl \<Rightarrow> sysctl) \<Rightarrow> bool" where
  "pll_powered hw \<longleftrightarrow> (\<forall>pll s. pll \<noteq> SYSCTL_PLL_MAX \<longrightarrow> (\<exists>n. sysctl_pll_is_lock pll ((lock_poll hw pll ^^ n) s) \<noteq> 0))"

lemma set_freq_returns:
  assumes hw: "lock_only hw" "pll_powered hw" and pll: "pll = SYSCTL_PLL0 \<or> pll = SYSCTL_PLL1" and f: "freq \<noteq> 0"
  shows "\<exists>res s'. sysctl_pll_set_freq hw pll freq s = Some (res, s') \<and>
    pll_out_en (pll_of pll s') = 1 \<and> pll_pwrd (pll_of pll s') = 1 \<and> pll_reset (pll_of pll s') = 0 \<and>
    (pll = SYSCTL_PLL0 \<longrightarrow> aclk_sel (clk_sel0 s') = 1) \<and>
    aclk_divider_sel (clk_sel0 s') = aclk_divider_sel (clk_sel0 s) \<and>
    ((res = 0 \<and> sysctl_pll_get_freq s' pll = sysctl_pll_get_freq s pll) \<or>
     (res = sysctl_pll_get_freq s' pll \<and> pll_fits freq (pll_of pll s')))"
proof -
  have w: "\<exists>l. sysctl_pll_wait_lock hw pll s = Some (s\<lparr>pll_lock := l\<rparr>)" for s
    using wait_lock_returns [OF hw(1)] hw(2) pll unfolding pll_powered_def by blast
  then obtain g where g: "\<And>s. sysctl_pll_wait_lock hw pll s = Some (s\<lparr>pll_lock := g s\<rparr>)" by metis
  define t where "t = pll_upd pll (\<lambda>p. p\<lparr>pll_pwrd := 0\<rparr>) (pll_upd pll (\<lambda>p. p\<lparr>pll_out_en := 0\<rparr>)
    (if pll = SYSCTL_PLL0 then snd (sysctl_clock_set_clock_select SYSCTL_CLOCK_SELECT_ACLK 0 s) else s))"
  obtain res u where u: "sysctl_pll_source_set_freq pll SYSCTL_SOURCE_IN0 freq t = Some (res, u)"
    and r: "(res = 0 \<and> u = t) \<or> (res = sysctl_pll_get_freq u pll \<and>
      (\<exists>r f d b. u = pll_upd pll (\<lambda>p. p\<lparr>clkr := r, clkf := f, clkod := d, bwadj := b\<rparr>) t \<and>
         pll_fits freq (pll_of pll u)))"
    using source_set_freq_fits [OF pll f] by blast
  define v where "v = pll_upd pll (\<lambda>p. p\<lparr>pll_reset := 0\<rparr>) (pll_upd pll (\<lambda>p. p\<lparr>pll_reset := 1\<rparr>)
    (pll_upd pll (\<lambda>p. p\<lparr>pll_reset := 0\<rparr>) (pll_upd pll (\<lambda>p. p\<lparr>pll_pwrd := 1\<rparr>) u)))"
  define x where "x = pll_upd pll (\<lambda>p. p\<lparr>pll_out_en := 1\<rparr>) (v\<lparr>pll_lock := g v\<rparr>)"
  define y where "y = (if pll = SYSCTL_PLL0 then snd (sysctl_clock_set_clock_select SYSCTL_CLOCK_SELECT_ACLK 1 x) else x)"
  have run: "sysctl_pll_set_freq hw pll freq s = Some (res, y)"
  proof -
    have "pll \<noteq> SYSCTL_PLL_MAX" "pll \<noteq> SYSCTL_PLL2" using pll by auto
    then show ?thesis
      unfolding sysctl_pll_set_freq_def Let_def t_def [symmetric]
      by (simp only: f u g if_False option.case prod.case v_def [symmetric] x_def [symmetric] y_def [symmetric])
  qed
  have p: "pll_of pll y = (pll_of pll u)\<lparr>pll_pwrd := 1, pll_reset := 0, pll_out_en := 1\<rparr>"
    using pll by (auto simp: y_def x_def v_def pll_of_def pll_upd_def sysctl_clock_set_clock_select_def)
  then have q: "sysctl_pll_get_freq y pll = sysctl_pll_get_freq u pll" "pll_fits freq (pll_of pll y) = pll_fits freq (pll_of pll u)"
    by (auto intro!: get_freq_by_dividers [OF pll] simp: pll_fits_def)
  have "pll_of pll t = (pll_of pll s)\<lparr>pll_pwrd := 0, pll_out_en := 0\<rparr>"
    using pll by (auto simp: t_def pll_of_def pll_upd_def sysctl_clock_set_clock_select_def)
  then have tf: "sysctl_pll_get_freq t pll = sysctl_pll_get_freq s pll"
    by (intro get_freq_by_dividers [OF pll]) auto
  have "aclk_divider_sel (clk_sel0 u) = aclk_divider_sel (clk_sel0 t)"
    using r pll by (auto simp: pll_upd_def)
  moreover have "aclk_divider_sel (clk_sel0 t) = aclk_divider_sel (clk_sel0 s)"
    using pll by (auto simp: t_def pll_upd_def sysctl_clock_set_clock_select_def)
  moreover have "aclk_divider_sel (clk_sel0 y) = aclk_divider_sel (clk_sel0 u)" "pll = SYSCTL_PLL0 \<longrightarrow> aclk_sel (clk_sel0 y) = 1"
    using pll by (auto simp: y_def x_def v_def pll_upd_def sysctl_clock_set_clock_select_def)
  moreover have "(res = 0 \<and> sysctl_pll_get_freq y pll = sysctl_pll_get_freq s pll) \<or>
      (res = sysctl_pll_get_freq y pll \<and> pll_fits freq (pll_of pll y))"
    using r q tf by (elim disjE) auto
  ultimately show ?thesis using run p by (intro exI [of _ res] exI [of _ y]) auto
qed

text \<open>C19.  When the hardware writes nothing but the lock register and every PLL locks after finitely many
  polls, \<open>sysctl_pll_set_freq\<close> on PLL0 or PLL1 returns, with the PLL powered, out of reset and its output on,
  and PLL0 clocking the CPU.  Either it returns 0 and the PLL runs at its old frequency, or it returns the frequency of the
  dividers it chose, and those are legal: a reference of at least 13.67 MHz, an oscillator between 350 MHz and
  1.75 GHz (each up to the rounding of the double arithmetic), and an output within one 63rd of the requested frequency.\<close>

theorem pll_set_freq_legal:
  assumes hw: "\<And>s. \<exists>l. hw s = s\<lparr>pll_lock := l\<rparr>"
    and locks: "\<And>pll s. pll \<noteq> SYSCTL_PLL_MAX \<Longrightarrow>
      \<exists>n. sysctl_pll_is_lock pll (((\<lambda>s. hw (snd (sysctl_pll_clear_slip pll s))) ^^ n) s) \<noteq> 0"
    and pll: "pll = SYSCTL_PLL0 \<or> pll = SYSCTL_PLL1" and f: "freq \<noteq> 0"
  shows "\<exists>res s'. sysctl_pll_set_freq hw pll freq s = Some (res, s') \<and>
    pll_out_en (pll_of pll s') = 1 \<and> pll_pwrd (pll_of pll s') = 1 \<and> pll_reset (pll_of pll s') = 0 \<and>
    (pll = SYSCTL_PLL0 \<longrightarrow> aclk_sel (clk_sel0 s') = 1) \<and>
    ((res = 0 \<and> sysctl_pll_get_freq s' pll = sysctl_pll_get_freq s pll) \<or>
     (res = sysctl_pll_get_freq s' pll \<and>
      (let nr = uint (clkr (pll_of pll s')) + 1; nf = uint (clkf (pll_of pll s')) + 1; od = uint (clkod (pll_of pll s')) + 1
       in bwadj (pll_of pll s') = clkf (pll_of pll s') \<and> 13671899 * nr \<le> 26000000 \<and>
          349999999 * nr \<le> 26000000 * nf \<and> 26000000 * nf \<le> 1750000001 * nr \<and>
          63 * \<bar>26000000 * nf - uint freq * (nr * od)\<bar> \<le> uint freq * (nr * od))))"
proof -
  have "lock_only hw" using hw by (simp add: lock_only_def)
  moreover have "pll_powered hw" using locks unfolding pll_powered_def lock_poll_def [abs_def] by blast
  ultimately show ?thesis
    using set_freq_returns [OF _ _ pll f, of hw s] unfolding pll_fits_def by blast
qed

text \<open>For 806 MHz the first candidate is exact: \<open>nr = 1\<close>, \<open>nf = 62\<close>, \<open>od = 2\<close>; the bounds leave only
  frequencies near the one asked for.\<close>

lemma ideal_lock:
  "pll \<noteq> SYSCTL_PLL_MAX \<Longrightarrow> \<exists>n. sysctl_pll_is_lock pll (((\<lambda>s. (\<lambda>s :: sysctl. s\<lparr>pll_lock := (pll_lock s)\<lparr>pll_lock0 := 3, pll_lock1 := 1, pll_lock2 := 1\<rparr>\<rparr>)
     (snd (sysctl_pll_clear_slip pll s))) ^^ n) s) \<noteq> 0"
  by (intro exI [of _ 1]) (cases pll; simp add: sysctl_pll_is_lock_def)

theorem pll_set_freq_legal_witness:
  "\<forall>s :: sysctl. \<exists>res s'. sysctl_pll_set_freq
        (\<lambda>s. s\<lparr>pll_lock := (pll_lock s)\<lparr>pll_lock0 := 3, pll_lock1 := 1, pll_lock2 := 1\<rparr>\<rparr>) SYSCTL_PLL1 390000000 s = Some (res, s') \<and>
      pll_out_en (pll1 s') = 1"
proof
  fix s :: sysctl
  let ?hw = "\<lambda>s :: sysctl. s\<lparr>pll_lock := (pll_lock s)\<lparr>pll_lock0 := 3, pll_lock1 := 1, pll_lock2 := 1\<rparr>\<rparr>"
  show "\<exists>res s'. sysctl_pll_set_freq ?hw SYSCTL_PLL1 390000000 s = Some (res, s') \<and> pll_out_en (pll1 s') = 1"
    using pll_set_freq_legal [of ?hw SYSCTL_PLL1 390000000 s] ideal_lock by (auto simp: ex_pll_lock pll_of_def)
qed

text \<open>What \<open>sysctl_cpu_set_freq\<close> returns and \<open>sysctl_cpu_get_freq\<close> repeats is not the frequency of the
  CPU but that of PLL0: after the call the CPU runs at that number divided by \<open>2 << aclk_divider_sel\<close>.\<close>

lemma cpu_set_freq_reports_pll0:
  assumes hw: "\<And>s. \<exists>l. hw s = s\<lparr>pll_lock := l\<rparr>"
    and locks: "\<And>pll s. pll \<noteq> SYSCTL_PLL_MAX \<Longrightarrow>
      \<exists>n. sysctl_pll_is_lock pll (((\<lambda>s. hw (snd (sysctl_pll_clear_slip pll s))) ^^ n) s) \<noteq> 0"
    and f: "freq \<noteq> 0"
  shows "\<exists>res s'. sysctl_cpu_set_freq hw freq (c, s) = Some (res, res, s') \<and> sysctl_cpu_get_freq (res, s') = res \<and>
    (res = 0 \<or> (res = sysctl_pll_get_freq s' SYSCTL_PLL0 \<and>
       sysctl_clock_get_freq s' SYSCTL_CLOCK_CPU = div_shift res (uint (aclk_divider_sel (clk_sel0 s)))))"
proof (cases "(ucast (aclk_divider_sel (clk_sel0 s)) + 1) * 2 * freq = 0")
  case True
  then show ?thesis using f by (simp add: sysctl_cpu_set_freq_def sysctl_pll_set_freq_def sysctl_cpu_get_freq_def)
next
  case False
  have "lock_only hw" using hw by (simp add: lock_only_def)
  moreover have "pll_powered hw" using locks unfolding pll_powered_def lock_poll_def [abs_def] by blast
  ultimately obtain res s' where s': "sysctl_pll_set_freq hw SYSCTL_PLL0 ((ucast (aclk_divider_sel (clk_sel0 s)) + 1) * 2 * freq) s = Some (res, s')"
    "aclk_sel (clk_sel0 s') = 1" "aclk_divider_sel (clk_sel0 s') = aclk_divider_sel (clk_sel0 s)"
    "res = 0 \<or> res = sysctl_pll_get_freq s' SYSCTL_PLL0"
    using set_freq_returns [OF _ _ _ False, of hw SYSCTL_PLL0 s] by auto
  have "sysctl_clock_get_freq s' SYSCTL_CLOCK_CPU =
      div_shift (sysctl_pll_get_freq s' SYSCTL_PLL0) (uint (aclk_divider_sel (clk_sel0 s)))"
    using s'(2,3) by (simp add: sysctl_clock_get_freq.simps sysctl_clock_get_clock_select_def sysctl_clock_get_threshold_def)
  then show ?thesis
    using s'(1,4) f by (auto simp: sysctl_cpu_set_freq_def sysctl_cpu_get_freq_def)
qed

lemma cpu_set_freq_reports_pll0_witness:
  "\<forall>s :: sysctl. \<exists>res s'. sysctl_cpu_set_freq
        (\<lambda>s. s\<lparr>pll_lock := (pll_lock s)\<lparr>pll_lock0 := 3, pll_lock1 := 1, pll_lock2 := 1\<rparr>\<rparr>) 403000000 (390000000, s) = Some (res, res, s')"
proof
  fix s :: sysctl
  let ?hw = "\<lambda>s :: sysctl. s\<lparr>pll_lock := (pll_lock s)\<lparr>pll_lock0 := 3, pll_lock1 := 1, pll_lock2 := 1\<rparr>\<rparr>"
  show "\<exists>res s'. sysctl_cpu_set_freq ?hw 403000000 (390000000, s) = Some (res, res, s')"
    using cpu_set_freq_reports_pll0 [of ?hw 403000000 390000000 s] ideal_lock by (auto simp: ex_pll_lock)
qed

end
