(* ===== verification/Fpioa_Table.thy ===== *)
theory Fpioa_Table
  imports K210_Prelude
begin

text \<open>
  The constant table \<open>function_config\<close> of \<open>lib/drivers/fpioa.c\<close>: for each of the 256 internal
  signals of the chip, the pad settings that go with it.  The table is cut into 32 definitions
  of eight entries, each the entries' lines of the source in their order; an entry is written
  with \<open>cell\<close>, whose arguments are the initialiser's fields in the order of the source, without
  the reserved fields and \<open>pad_di\<close>, which are 0 in every entry.  The enumerator
  \<open>FUNC_...\<close> in \<open>.ch_sel\<close> stands for its number in \<open>include/fpioa.h\<close>; its name is the comment of the entry.
\<close>

record fpioa_assign =
  a_ch_sel :: "8 word"
  a_ds :: "4 word"
  a_oe_en :: bit1
  a_oe_inv :: bit1
  a_do_sel :: bit1
  a_do_inv :: bit1
  a_pu :: bit1
  a_pd :: bit1
  a_sl :: bit1
  a_ie_en :: bit1
  a_ie_inv :: bit1
  a_di_inv :: bit1
  a_st :: bit1
  a_tie_en :: bit1
  a_tie_val :: bit1

definition cell ::
  "8 word \<Rightarrow> 4 word \<Rightarrow> bit1 \<Rightarrow> bit1 \<Rightarrow> bit1 \<Rightarrow> bit1 \<Rightarrow> bit1 \<Rightarrow> bit1 \<Rightarrow> bit1 \<Rightarrow> bit1 \<Rightarrow> bit1 \<Rightarrow>
   bit1 \<Rightarrow> bit1 \<Rightarrow> bit1 \<Rightarrow> bit1 \<Rightarrow> fpioa_assign" where
  "cell ch ds oe_en oe_inv do_sel do_inv pu pd sl ie_en ie_inv di_inv st tie_en tie_val =
     \<lparr>a_ch_sel = ch, a_ds = ds, a_oe_en = oe_en, a_oe_inv = oe_inv, a_do_sel = do_sel,
      a_do_inv = do_inv, a_pu = pu, a_pd = pd, a_sl = sl, a_ie_en = ie_en, a_ie_inv = ie_inv,
      a_di_inv = di_inv, a_st = st, a_tie_en = tie_en, a_tie_val = tie_val\<rparr>"

lemma cell_simps [simp]:
  "a_ch_sel (cell ch ds oe_en oe_inv do_sel do_inv pu pd sl ie_en ie_inv di_inv st tie_en tie_val) = ch"
  "a_tie_en (cell ch ds oe_en oe_inv do_sel do_inv pu pd sl ie_en ie_inv di_inv st tie_en tie_val) = tie_en"
  "a_tie_val (cell ch ds oe_en oe_inv do_sel do_inv pu pd sl ie_en ie_inv di_inv st tie_en tie_val) = tie_val"
  "a_pu (cell ch ds oe_en oe_inv do_sel do_inv pu pd sl ie_en ie_inv di_inv st tie_en tie_val) = pu"
  "a_pd (cell ch ds oe_en oe_inv do_sel do_inv pu pd sl ie_en ie_inv di_inv st tie_en tie_val) = pd"
  by (simp_all add: cell_def)

definition function_config_0 :: "fpioa_assign list" where
  "function_config_0 =
     [cell 0 0 0 0 0 0 0 0 0 1 0 0 1 0 0, \<comment> \<open>FUNC_JTAG_TCLK\<close>
      cell 1 0 0 0 0 0 0 0 0 1 0 0 1 0 0, \<comment> \<open>FUNC_JTAG_TDI\<close>
      cell 2 0 0 0 0 0 0 0 0 1 0 0 1 0 0, \<comment> \<open>FUNC_JTAG_TMS\<close>
      cell 3 15 1 0 0 0 0 0 0 0 0 0 0 0 0, \<comment> \<open>FUNC_JTAG_TDO\<close>
      cell 4 15 1 1 0 0 0 0 0 1 1 0 1 0 0, \<comment> \<open>FUNC_SPI0_D0\<close>
      cell 5 15 1 1 0 0 0 0 0 1 1 0 1 0 0, \<comment> \<open>FUNC_SPI0_D1\<close>
      cell 6 15 1 1 0 0 0 0 0 1 1 0 1 0 0, \<comment> \<open>FUNC_SPI0_D2\<close>
      cell 7 15 1 1 0 0 0 0 0 1 1 0 1 0 0] \<comment> \<open>FUNC_SPI0_D3\<close>"

definition function_config_1 :: "fpioa_assign list" where
  "function_config_1 =
     [cell 8 15 1 1 0 0 0 0 0 1 1 0 1 0 0, \<comment> \<open>FUNC_SPI0_D4\<close>
      cell 9 15 1 1 0 0 0 0 0 1 1 0 1 0 0, \<comment> \<open>FUNC_SPI0_D5\<close>
      cell 10 15 1 1 0 0 0 0 0 1 1 0 1 0 0, \<comment> \<open>FUNC_SPI0_D6\<close>
      cell 11 15 1 1 0 0 0 0 0 1 1 0 1 0 0, \<comment> \<open>FUNC_SPI0_D7\<close>
      cell 12 15 1 0 0 0 0 0 0 0 0 0 0 0 0, \<comment> \<open>FUNC_SPI0_SS0\<close>
      cell 13 15 1 0 0 0 0 0 0 0 0 0 0 0 0, \<comment> \<open>FUNC_SPI0_SS1\<close>
      cell 14 15 1 0 0 0 0 0 0 0 0 0 0 0 0, \<comment> \<open>FUNC_SPI0_SS2\<close>
      cell 15 15 1 0 0 0 0 0 0 0 0 0 0 0 0] \<comment> \<open>FUNC_SPI0_SS3\<close>"

definition function_config_2 :: "fpioa_assign list" where
  "function_config_2 =
     [cell 16 0 0 0 0 0 0 0 0 1 0 0 1 1 1, \<comment> \<open>FUNC_SPI0_ARB\<close>
      cell 17 15 1 0 0 0 0 0 0 0 0 0 0 0 0, \<comment> \<open>FUNC_SPI0_SCLK\<close>
      cell 18 0 0 0 0 0 0 0 0 1 0 0 1 0 0, \<comment> \<open>FUNC_UARTHS_RX\<close>
      cell 19 15 1 0 0 0 0 0 0 0 0 0 0 0 0, \<comment> \<open>FUNC_UARTHS_TX\<close>
      cell 20 0 0 0 0 0 0 0 0 1 0 0 1 0 0, \<comment> \<open>FUNC_RESV6\<close>
      cell 21 0 0 0 0 0 0 0 0 1 0 0 1 0 0, \<comment> \<open>FUNC_RESV7\<close>
      cell 22 15 1 0 0 0 0 0 0 0 0 0 0 0 0, \<comment> \<open>FUNC_CLK_SPI1\<close>
      cell 23 15 1 0 0 0 0 0 0 0 0 0 0 0 0] \<comment> \<open>FUNC_CLK_I2C1\<close>"

definition function_config_3 :: "fpioa_assign list" where
  "function_config_3 =
     [cell 24 15 1 0 0 0 0 0 0 1 0 0 1 0 0, \<comment> \<open>FUNC_GPIOHS0\<close>
      cell 25 15 1 0 0 0 0 0 0 1 0 0 1 0 0, \<comment> \<open>FUNC_GPIOHS1\<close>
      cell 26 15 1 0 0 0 0 0 0 1 0 0 1 0 0, \<comment> \<open>FUNC_GPIOHS2\<close>
      cell 27 15 1 0 0 0 0 0 0 1 0 0 1 0 0, \<comment> \<open>FUNC_GPIOHS3\<close>
      cell 28 15 1 0 0 0 0 0 0 1 0 0 1 0 0, \<comment> \<open>FUNC_GPIOHS4\<close>
      cell 29 15 1 0 0 0 0 0 0 1 0 0 1 0 0, \<comment> \<open>FUNC_GPIOHS5\<close>
      cell 30 15 1 0 0 0 0 0 0 1 0 0 1 0 0, \<comment> \<open>FUNC_GPIOHS6\<close>
      cell 31 15 1 0 0 0 0 0 0 1 0 0 1 0 0] \<comment> \<open>FUNC_GPIOHS7\<close>"

definition function_config_4 :: "fpioa_assign list" where
  "function_config_4 =
     [cell 32 15 1 0 0 0 0 0 0 1 0 0 1 0 0, \<comment> \<open>FUNC_GPIOHS8\<close>
      cell 33 15 1 0 0 0 0 0 0 1 0 0 1 0 0, \<comment> \<open>FUNC_GPIOHS9\<close>
      cell 34 15 1 0 0 0 0 0 0 1 0 0 1 0 0, \<comment> \<open>FUNC_GPIOHS10\<close>
      cell 35 15 1 0 0 0 0 0 0 1 0 0 1 0 0, \<comment> \<open>FUNC_GPIOHS11\<close>
      cell 36 15 1 0 0 0 0 0 0 1 0 0 1 0 0, \<comment> \<open>FUNC_GPIOHS12\<close>
      cell 37 15 1 0 0 0 0 0 0 1 0 0 1 0 0, \<comment> \<open>FUNC_GPIOHS13\<close>
      cell 38 15 1 0 0 0 0 0 0 1 0 0 1 0 0, \<comment> \<open>FUNC_GPIOHS14\<close>
      cell 39 15 1 0 0 0 0 0 0 1 0 0 1 0 0] \<comment> \<open>FUNC_GPIOHS15\<close>"

definition function_config_5 :: "fpioa_assign list" where
  "function_config_5 =
     [cell 40 15 1 0 0 0 0 0 0 1 0 0 1 0 0, \<comment> \<open>FUNC_GPIOHS16\<close>
      cell 41 15 1 0 0 0 0 0 0 1 0 0 1 0 0, \<comment> \<open>FUNC_GPIOHS17\<close>
      cell 42 15 1 0 0 0 0 0 0 1 0 0 1 0 0, \<comment> \<open>FUNC_GPIOHS18\<close>
      cell 43 15 1 0 0 0 0 0 0 1 0 0 1 0 0, \<comment> \<open>FUNC_GPIOHS19\<close>
      cell 44 15 1 0 0 0 0 0 0 1 0 0 1 0 0, \<comment> \<open>FUNC_GPIOHS20\<close>
      cell 45 15 1 0 0 0 0 0 0 1 0 0 1 0 0, \<comment> \<open>FUNC_GPIOHS21\<close>
      cell 46 15 1 0 0 0 0 0 0 1 0 0 1 0 0, \<comment> \<open>FUNC_GPIOHS22\<close>
      cell 47 15 1 0 0 0 0 0 0 1 0 0 1 0 0] \<comment> \<open>FUNC_GPIOHS23\<close>"

definition function_config_6 :: "fpioa_assign list" where
  "function_config_6 =
     [cell 48 15 1 0 0 0 0 0 0 1 0 0 1 0 0, \<comment> \<open>FUNC_GPIOHS24\<close>
      cell 49 15 1 0 0 0 0 0 0 1 0 0 1 0 0, \<comment> \<open>FUNC_GPIOHS25\<close>
      cell 50 15 1 0 0 0 0 0 0 1 0 0 1 0 0, \<comment> \<open>FUNC_GPIOHS26\<close>
      cell 51 15 1 0 0 0 0 0 0 1 0 0 1 0 0, \<comment> \<open>FUNC_GPIOHS27\<close>
      cell 52 15 1 0 0 0 0 0 0 1 0 0 1 0 0, \<comment> \<open>FUNC_GPIOHS28\<close>
      cell 53 15 1 0 0 0 0 0 0 1 0 0 1 0 0, \<comment> \<open>FUNC_GPIOHS29\<close>
      cell 54 15 1 0 0 0 0 0 0 1 0 0 1 0 0, \<comment> \<open>FUNC_GPIOHS30\<close>
      cell 55 15 1 0 0 0 0 0 0 1 0 0 1 0 0] \<comment> \<open>FUNC_GPIOHS31\<close>"

definition function_config_7 :: "fpioa_assign list" where
  "function_config_7 =
     [cell 56 15 1 0 0 0 0 0 0 1 0 0 1 0 0, \<comment> \<open>FUNC_GPIO0\<close>
      cell 57 15 1 0 0 0 0 0 0 1 0 0 1 0 0, \<comment> \<open>FUNC_GPIO1\<close>
      cell 58 15 1 0 0 0 0 0 0 1 0 0 1 0 0, \<comment> \<open>FUNC_GPIO2\<close>
      cell 59 15 1 0 0 0 0 0 0 1 0 0 1 0 0, \<comment> \<open>FUNC_GPIO3\<close>
      cell 60 15 1 0 0 0 0 0 0 1 0 0 1 0 0, \<comment> \<open>FUNC_GPIO4\<close>
      cell 61 15 1 0 0 0 0 0 0 1 0 0 1 0 0, \<comment> \<open>FUNC_GPIO5\<close>
      cell 62 15 1 0 0 0 0 0 0 1 0 0 1 0 0, \<comment> \<open>FUNC_GPIO6\<close>
      cell 63 15 1 0 0 0 0 0 0 1 0 0 1 0 0] \<comment> \<open>FUNC_GPIO7\<close>"

definition function_config_8 :: "fpioa_assign list" where
  "function_config_8 =
     [cell 64 0 0 0 0 0 0 0 0 1 0 0 1 0 0, \<comment> \<open>FUNC_UART1_RX\<close>
      cell 65 15 1 0 0 0 0 0 0 0 0 0 0 0 0, \<comment> \<open>FUNC_UART1_TX\<close>
      cell 66 0 0 0 0 0 0 0 0 1 0 0 1 0 0, \<comment> \<open>FUNC_UART2_RX\<close>
      cell 67 15 1 0 0 0 0 0 0 0 0 0 0 0 0, \<comment> \<open>FUNC_UART2_TX\<close>
      cell 68 0 0 0 0 0 0 0 0 1 0 0 1 0 0, \<comment> \<open>FUNC_UART3_RX\<close>
      cell 69 15 1 0 0 0 0 0 0 0 0 0 0 0 0, \<comment> \<open>FUNC_UART3_TX\<close>
      cell 70 15 1 1 0 0 0 0 0 1 1 0 1 0 0, \<comment> \<open>FUNC_SPI1_D0\<close>
      cell 71 15 1 1 0 0 0 0 0 1 1 0 1 0 0] \<comment> \<open>FUNC_SPI1_D1\<close>"

definition function_config_9 :: "fpioa_assign list" where
  "function_config_9 =
     [cell 72 15 1 1 0 0 0 0 0 1 1 0 1 0 0, \<comment> \<open>FUNC_SPI1_D2\<close>
      cell 73 15 1 1 0 0 0 0 0 1 1 0 1 0 0, \<comment> \<open>FUNC_SPI1_D3\<close>
      cell 74 15 1 1 0 0 0 0 0 1 1 0 1 0 0, \<comment> \<open>FUNC_SPI1_D4\<close>
      cell 75 15 1 1 0 0 0 0 0 1 1 0 1 0 0, \<comment> \<open>FUNC_SPI1_D5\<close>
      cell 76 15 1 1 0 0 0 0 0 1 1 0 1 0 0, \<comment> \<open>FUNC_SPI1_D6\<close>
      cell 77 15 1 1 0 0 0 0 0 1 1 0 1 0 0, \<comment> \<open>FUNC_SPI1_D7\<close>
      cell 78 15 1 0 0 0 0 0 0 0 0 0 0 0 0, \<comment> \<open>FUNC_SPI1_SS0\<close>
      cell 79 15 1 0 0 0 0 0 0 0 0 0 0 0 0] \<comment> \<open>FUNC_SPI1_SS1\<close>"

definition function_config_10 :: "fpioa_assign list" where
  "function_config_10 =
     [cell 80 15 1 0 0 0 0 0 0 0 0 0 0 0 0, \<comment> \<open>FUNC_SPI1_SS2\<close>
      cell 81 15 1 0 0 0 0 0 0 0 0 0 0 0 0, \<comment> \<open>FUNC_SPI1_SS3\<close>
      cell 82 0 0 0 0 0 0 0 0 1 0 0 1 1 1, \<comment> \<open>FUNC_SPI1_ARB\<close>
      cell 83 15 1 0 0 0 0 0 0 0 0 0 0 0 0, \<comment> \<open>FUNC_SPI1_SCLK\<close>
      cell 84 15 1 1 0 0 0 0 0 1 1 0 1 0 0, \<comment> \<open>FUNC_SPI_SLAVE_D0\<close>
      cell 85 0 0 0 0 0 0 0 0 1 0 0 1 0 0, \<comment> \<open>FUNC_SPI_SLAVE_SS\<close>
      cell 86 0 0 0 0 0 0 0 0 1 0 0 1 0 0, \<comment> \<open>FUNC_SPI_SLAVE_SCLK\<close>
      cell 87 15 1 0 0 0 0 0 0 0 0 0 0 0 0] \<comment> \<open>FUNC_I2S0_MCLK\<close>"

definition function_config_11 :: "fpioa_assign list" where
  "function_config_11 =
     [cell 88 15 1 0 0 0 0 0 0 0 0 0 0 0 0, \<comment> \<open>FUNC_I2S0_SCLK\<close>
      cell 89 15 1 0 0 0 0 0 0 0 0 0 0 0 0, \<comment> \<open>FUNC_I2S0_WS\<close>
      cell 90 0 0 0 0 0 0 0 0 1 0 0 1 0 0, \<comment> \<open>FUNC_I2S0_IN_D0\<close>
      cell 91 0 0 0 0 0 0 0 0 1 0 0 1 0 0, \<comment> \<open>FUNC_I2S0_IN_D1\<close>
      cell 92 0 0 0 0 0 0 0 0 1 0 0 1 0 0, \<comment> \<open>FUNC_I2S0_IN_D2\<close>
      cell 93 0 0 0 0 0 0 0 0 1 0 0 1 0 0, \<comment> \<open>FUNC_I2S0_IN_D3\<close>
      cell 94 15 1 0 0 0 0 0 0 0 0 0 0 0 0, \<comment> \<open>FUNC_I2S0_OUT_D0\<close>
      cell 95 15 1 0 0 0 0 0 0 0 0 0 0 0 0] \<comment> \<open>FUNC_I2S0_OUT_D1\<close>"

definition function_config_12 :: "fpioa_assign list" where
  "function_config_12 =
     [cell 96 15 1 0 0 0 0 0 0 0 0 0 0 0 0, \<comment> \<open>FUNC_I2S0_OUT_D2\<close>
      cell 97 15 1 0 0 0 0 0 0 0 0 0 0 0 0, \<comment> \<open>FUNC_I2S0_OUT_D3\<close>
      cell 98 15 1 0 0 0 0 0 0 0 0 0 0 0 0, \<comment> \<open>FUNC_I2S1_MCLK\<close>
      cell 99 15 1 0 0 0 0 0 0 0 0 0 0 0 0, \<comment> \<open>FUNC_I2S1_SCLK\<close>
      cell 100 15 1 0 0 0 0 0 0 0 0 0 0 0 0, \<comment> \<open>FUNC_I2S1_WS\<close>
      cell 101 0 0 0 0 0 0 0 0 1 0 0 1 0 0, \<comment> \<open>FUNC_I2S1_IN_D0\<close>
      cell 102 0 0 0 0 0 0 0 0 1 0 0 1 0 0, \<comment> \<open>FUNC_I2S1_IN_D1\<close>
      cell 103 0 0 0 0 0 0 0 0 1 0 0 1 0 0] \<comment> \<open>FUNC_I2S1_IN_D2\<close>"

definition function_config_13 :: "fpioa_assign list" where
  "function_config_13 =
     [cell 104 0 0 0 0 0 0 0 0 1 0 0 1 0 0, \<comment> \<open>FUNC_I2S1_IN_D3\<close>
      cell 105 15 1 0 0 0 0 0 0 0 0 0 0 0 0, \<comment> \<open>FUNC_I2S1_OUT_D0\<close>
      cell 106 15 1 0 0 0 0 0 0 0 0 0 0 0 0, \<comment> \<open>FUNC_I2S1_OUT_D1\<close>
      cell 107 15 1 0 0 0 0 0 0 0 0 0 0 0 0, \<comment> \<open>FUNC_I2S1_OUT_D2\<close>
      cell 108 15 1 0 0 0 0 0 0 0 0 0 0 0 0, \<comment> \<open>FUNC_I2S1_OUT_D3\<close>
      cell 109 15 1 0 0 0 0 0 0 0 0 0 0 0 0, \<comment> \<open>FUNC_I2S2_MCLK\<close>
      cell 110 15 1 0 0 0 0 0 0 0 0 0 0 0 0, \<comment> \<open>FUNC_I2S2_SCLK\<close>
      cell 111 15 1 0 0 0 0 0 0 0 0 0 0 0 0] \<comment> \<open>FUNC_I2S2_WS\<close>"

definition function_config_14 :: "fpioa_assign list" where
  "function_config_14 =
     [cell 112 0 0 0 0 0 0 0 0 1 0 0 1 0 0, \<comment> \<open>FUNC_I2S2_IN_D0\<close>
      cell 113 0 0 0 0 0 0 0 0 1 0 0 1 0 0, \<comment> \<open>FUNC_I2S2_IN_D1\<close>
      cell 114 0 0 0 0 0 0 0 0 1 0 0 1 0 0, \<comment> \<open>FUNC_I2S2_IN_D2\<close>
      cell 115 0 0 0 0 0 0 0 0 1 0 0 1 0 0, \<comment> \<open>FUNC_I2S2_IN_D3\<close>
      cell 116 15 1 0 0 0 0 0 0 0 0 0 0 0 0, \<comment> \<open>FUNC_I2S2_OUT_D0\<close>
      cell 117 15 1 0 0 0 0 0 0 0 0 0 0 0 0, \<comment> \<open>FUNC_I2S2_OUT_D1\<close>
      cell 118 15 1 0 0 0 0 0 0 0 0 0 0 0 0, \<comment> \<open>FUNC_I2S2_OUT_D2\<close>
      cell 119 15 1 0 0 0 0 0 0 0 0 0 0 0 0] \<comment> \<open>FUNC_I2S2_OUT_D3\<close>"

definition function_config_15 :: "fpioa_assign list" where
  "function_config_15 =
     [cell 120 0 0 0 0 0 0 0 0 0 0 0 0 0 0, \<comment> \<open>FUNC_RESV0\<close>
      cell 121 0 0 0 0 0 0 0 0 0 0 0 0 0 0, \<comment> \<open>FUNC_RESV1\<close>
      cell 122 0 0 0 0 0 0 0 0 0 0 0 0 0 0, \<comment> \<open>FUNC_RESV2\<close>
      cell 123 0 0 0 0 0 0 0 0 0 0 0 0 0 0, \<comment> \<open>FUNC_RESV3\<close>
      cell 124 0 0 0 0 0 0 0 0 0 0 0 0 0 0, \<comment> \<open>FUNC_RESV4\<close>
      cell 125 0 0 0 0 0 0 0 0 0 0 0 0 0 0, \<comment> \<open>FUNC_RESV5\<close>
      cell 126 0 1 0 0 0 1 0 1 1 0 0 1 0 0, \<comment> \<open>FUNC_I2C0_SCLK\<close>
      cell 127 0 1 0 0 0 1 0 1 1 0 0 1 0 0] \<comment> \<open>FUNC_I2C0_SDA\<close>"

definition function_config_16 :: "fpioa_assign list" where
  "function_config_16 =
     [cell 128 0 1 0 0 0 1 0 1 1 0 0 1 0 0, \<comment> \<open>FUNC_I2C1_SCLK\<close>
      cell 129 0 1 0 0 0 1 0 1 1 0 0 1 0 0, \<comment> \<open>FUNC_I2C1_SDA\<close>
      cell 130 0 1 0 0 0 1 0 1 1 0 0 1 0 0, \<comment> \<open>FUNC_I2C2_SCLK\<close>
      cell 131 0 1 0 0 0 1 0 1 1 0 0 1 0 0, \<comment> \<open>FUNC_I2C2_SDA\<close>
      cell 132 15 1 0 0 0 0 0 0 0 0 0 0 0 0, \<comment> \<open>FUNC_CMOS_XCLK\<close>
      cell 133 15 1 0 0 0 0 0 0 0 0 0 0 0 0, \<comment> \<open>FUNC_CMOS_RST\<close>
      cell 134 15 1 0 0 0 0 0 0 0 0 0 0 0 0, \<comment> \<open>FUNC_CMOS_PWDN\<close>
      cell 135 0 0 0 0 0 0 0 0 1 0 0 1 0 0] \<comment> \<open>FUNC_CMOS_VSYNC\<close>"

definition function_config_17 :: "fpioa_assign list" where
  "function_config_17 =
     [cell 136 0 0 0 0 0 0 0 0 1 0 0 1 0 0, \<comment> \<open>FUNC_CMOS_HREF\<close>
      cell 137 0 0 0 0 0 0 0 0 1 0 0 1 0 0, \<comment> \<open>FUNC_CMOS_PCLK\<close>
      cell 138 0 0 0 0 0 0 0 0 1 0 0 1 0 0, \<comment> \<open>FUNC_CMOS_D0\<close>
      cell 139 0 0 0 0 0 0 0 0 1 0 0 1 0 0, \<comment> \<open>FUNC_CMOS_D1\<close>
      cell 140 0 0 0 0 0 0 0 0 1 0 0 1 0 0, \<comment> \<open>FUNC_CMOS_D2\<close>
      cell 141 0 0 0 0 0 0 0 0 1 0 0 1 0 0, \<comment> \<open>FUNC_CMOS_D3\<close>
      cell 142 0 0 0 0 0 0 0 0 1 0 0 1 0 0, \<comment> \<open>FUNC_CMOS_D4\<close>
      cell 143 0 0 0 0 0 0 0 0 1 0 0 1 0 0] \<comment> \<open>FUNC_CMOS_D5\<close>"

definition function_config_18 :: "fpioa_assign list" where
  "function_config_18 =
     [cell 144 0 0 0 0 0 0 0 0 1 0 0 1 0 0, \<comment> \<open>FUNC_CMOS_D6\<close>
      cell 145 0 0 0 0 0 0 0 0 1 0 0 1 0 0, \<comment> \<open>FUNC_CMOS_D7\<close>
      cell 146 0 1 1 0 0 1 0 1 1 0 0 1 0 0, \<comment> \<open>FUNC_SCCB_SCLK\<close>
      cell 147 0 1 1 0 0 1 0 1 1 0 0 1 0 0, \<comment> \<open>FUNC_SCCB_SDA\<close>
      cell 148 0 0 0 0 0 0 0 0 1 0 0 1 0 0, \<comment> \<open>FUNC_UART1_CTS\<close>
      cell 149 0 0 0 0 0 0 0 0 1 0 0 1 0 0, \<comment> \<open>FUNC_UART1_DSR\<close>
      cell 150 0 0 0 0 0 0 0 0 1 0 0 1 0 0, \<comment> \<open>FUNC_UART1_DCD\<close>
      cell 151 0 0 0 0 0 0 0 0 1 0 0 1 0 0] \<comment> \<open>FUNC_UART1_RI\<close>"

definition function_config_19 :: "fpioa_assign list" where
  "function_config_19 =
     [cell 152 0 0 0 0 0 0 0 0 1 0 0 1 0 0, \<comment> \<open>FUNC_UART1_SIR_IN\<close>
      cell 153 15 1 0 0 0 0 0 0 0 0 0 0 0 0, \<comment> \<open>FUNC_UART1_DTR\<close>
      cell 154 15 1 0 0 0 0 0 0 0 0 0 0 0 0, \<comment> \<open>FUNC_UART1_RTS\<close>
      cell 155 15 1 0 0 0 0 0 0 0 0 0 0 0 0, \<comment> \<open>FUNC_UART1_OUT2\<close>
      cell 156 15 1 0 0 0 0 0 0 0 0 0 0 0 0, \<comment> \<open>FUNC_UART1_OUT1\<close>
      cell 157 15 1 0 0 0 0 0 0 0 0 0 0 0 0, \<comment> \<open>FUNC_UART1_SIR_OUT\<close>
      cell 158 15 1 0 0 0 0 0 0 0 0 0 0 0 0, \<comment> \<open>FUNC_UART1_BAUD\<close>
      cell 159 15 1 0 0 0 0 0 0 0 0 0 0 0 0] \<comment> \<open>FUNC_UART1_RE\<close>"

definition function_config_20 :: "fpioa_assign list" where
  "function_config_20 =
     [cell 160 15 1 0 0 0 0 0 0 0 0 0 0 0 0, \<comment> \<open>FUNC_UART1_DE\<close>
      cell 161 15 1 0 0 0 0 0 0 0 0 0 0 0 0, \<comment> \<open>FUNC_UART1_RS485_EN\<close>
      cell 162 0 0 0 0 0 0 0 0 1 0 0 1 0 0, \<comment> \<open>FUNC_UART2_CTS\<close>
      cell 163 0 0 0 0 0 0 0 0 1 0 0 1 0 0, \<comment> \<open>FUNC_UART2_DSR\<close>
      cell 164 0 0 0 0 0 0 0 0 1 0 0 1 0 0, \<comment> \<open>FUNC_UART2_DCD\<close>
      cell 165 0 0 0 0 0 0 0 0 1 0 0 1 0 0, \<comment> \<open>FUNC_UART2_RI\<close>
      cell 166 0 0 0 0 0 0 0 0 1 0 0 1 0 0, \<comment> \<open>FUNC_UART2_SIR_IN\<close>
      cell 167 15 1 0 0 0 0 0 0 0 0 0 0 0 0] \<comment> \<open>FUNC_UART2_DTR\<close>"

definition function_config_21 :: "fpioa_assign list" where
  "function_config_21 =
     [cell 168 15 1 0 0 0 0 0 0 0 0 0 0 0 0, \<comment> \<open>FUNC_UART2_RTS\<close>
      cell 169 15 1 0 0 0 0 0 0 0 0 0 0 0 0, \<comment> \<open>FUNC_UART2_OUT2\<close>
      cell 170 15 1 0 0 0 0 0 0 0 0 0 0 0 0, \<comment> \<open>FUNC_UART2_OUT1\<close>
      cell 171 15 1 0 0 0 0 0 0 0 0 0 0 0 0, \<comment> \<open>FUNC_UART2_SIR_OUT\<close>
      cell 172 15 1 0 0 0 0 0 0 0 0 0 0 0 0, \<comment> \<open>FUNC_UART2_BAUD\<close>
      cell 173 15 1 0 0 0 0 0 0 0 0 0 0 0 0, \<comment> \<open>FUNC_UART2_RE\<close>
      cell 174 15 1 0 0 0 0 0 0 0 0 0 0 0 0, \<comment> \<open>FUNC_UART2_DE\<close>
      cell 175 15 1 0 0 0 0 0 0 0 0 0 0 0 0] \<comment> \<open>FUNC_UART2_RS485_EN\<close>"

definition function_config_22 :: "fpioa_assign list" where
  "function_config_22 =
     [cell 176 0 0 0 0 0 0 0 0 1 0 0 1 0 0, \<comment> \<open>FUNC_UART3_CTS\<close>
      cell 177 0 0 0 0 0 0 0 0 1 0 0 1 0 0, \<comment> \<open>FUNC_UART3_DSR\<close>
      cell 178 0 0 0 0 0 0 0 0 1 0 0 1 0 0, \<comment> \<open>FUNC_UART3_DCD\<close>
      cell 179 0 0 0 0 0 0 0 0 1 0 0 1 0 0, \<comment> \<open>FUNC_UART3_RI\<close>
      cell 180 0 0 0 0 0 0 0 0 1 0 0 1 0 0, \<comment> \<open>FUNC_UART3_SIR_IN\<close>
      cell 181 15 1 0 0 0 0 0 0 0 0 0 0 0 0, \<comment> \<open>FUNC_UART3_DTR\<close>
      cell 182 15 1 0 0 0 0 0 0 0 0 0 0 0 0, \<comment> \<open>FUNC_UART3_RTS\<close>
      cell 183 15 1 0 0 0 0 0 0 0 0 0 0 0 0] \<comment> \<open>FUNC_UART3_OUT2\<close>"

definition function_config_23 :: "fpioa_assign list" where
  "function_config_23 =
     [cell 184 15 1 0 0 0 0 0 0 0 0 0 0 0 0, \<comment> \<open>FUNC_UART3_OUT1\<close>
      cell 185 15 1 0 0 0 0 0 0 0 0 0 0 0 0, \<comment> \<open>FUNC_UART3_SIR_OUT\<close>
      cell 186 15 1 0 0 0 0 0 0 0 0 0 0 0 0, \<comment> \<open>FUNC_UART3_BAUD\<close>
      cell 187 15 1 0 0 0 0 0 0 0 0 0 0 0 0, \<comment> \<open>FUNC_UART3_RE\<close>
      cell 188 15 1 0 0 0 0 0 0 0 0 0 0 0 0, \<comment> \<open>FUNC_UART3_DE\<close>
      cell 189 15 1 0 0 0 0 0 0 0 0 0 0 0 0, \<comment> \<open>FUNC_UART3_RS485_EN\<close>
      cell 190 15 1 0 0 0 0 0 0 0 0 0 0 0 0, \<comment> \<open>FUNC_TIMER0_TOGGLE1\<close>
      cell 191 15 1 0 0 0 0 0 0 0 0 0 0 0 0] \<comment> \<open>FUNC_TIMER0_TOGGLE2\<close>"

definition function_config_24 :: "fpioa_assign list" where
  "function_config_24 =
     [cell 192 15 1 0 0 0 0 0 0 0 0 0 0 0 0, \<comment> \<open>FUNC_TIMER0_TOGGLE3\<close>
      cell 193 15 1 0 0 0 0 0 0 0 0 0 0 0 0, \<comment> \<open>FUNC_TIMER0_TOGGLE4\<close>
      cell 194 15 1 0 0 0 0 0 0 0 0 0 0 0 0, \<comment> \<open>FUNC_TIMER1_TOGGLE1\<close>
      cell 195 15 1 0 0 0 0 0 0 0 0 0 0 0 0, \<comment> \<open>FUNC_TIMER1_TOGGLE2\<close>
      cell 196 15 1 0 0 0 0 0 0 0 0 0 0 0 0, \<comment> \<open>FUNC_TIMER1_TOGGLE3\<close>
      cell 197 15 1 0 0 0 0 0 0 0 0 0 0 0 0, \<comment> \<open>FUNC_TIMER1_TOGGLE4\<close>
      cell 198 15 1 0 0 0 0 0 0 0 0 0 0 0 0, \<comment> \<open>FUNC_TIMER2_TOGGLE1\<close>
      cell 199 15 1 0 0 0 0 0 0 0 0 0 0 0 0] \<comment> \<open>FUNC_TIMER2_TOGGLE2\<close>"

definition function_config_25 :: "fpioa_assign list" where
  "function_config_25 =
     [cell 200 15 1 0 0 0 0 0 0 0 0 0 0 0 0, \<comment> \<open>FUNC_TIMER2_TOGGLE3\<close>
      cell 201 15 1 0 0 0 0 0 0 0 0 0 0 0 0, \<comment> \<open>FUNC_TIMER2_TOGGLE4\<close>
      cell 202 15 1 0 0 0 0 0 0 0 0 0 0 0 0, \<comment> \<open>FUNC_CLK_SPI2\<close>
      cell 203 15 1 0 0 0 0 0 0 0 0 0 0 0 0, \<comment> \<open>FUNC_CLK_I2C2\<close>
      cell 204 15 1 0 0 0 0 0 0 0 0 0 0 0 0, \<comment> \<open>FUNC_INTERNAL0\<close>
      cell 205 15 1 0 0 0 0 0 0 0 0 0 0 0 0, \<comment> \<open>FUNC_INTERNAL1\<close>
      cell 206 15 1 0 0 0 0 0 0 0 0 0 0 0 0, \<comment> \<open>FUNC_INTERNAL2\<close>
      cell 207 15 1 0 0 0 0 0 0 0 0 0 0 0 0] \<comment> \<open>FUNC_INTERNAL3\<close>"

definition function_config_26 :: "fpioa_assign list" where
  "function_config_26 =
     [cell 208 15 1 0 0 0 0 0 0 0 0 0 0 0 0, \<comment> \<open>FUNC_INTERNAL4\<close>
      cell 209 15 1 0 0 0 0 0 0 0 0 0 0 0 0, \<comment> \<open>FUNC_INTERNAL5\<close>
      cell 210 15 1 0 0 0 0 0 0 0 0 0 0 0 0, \<comment> \<open>FUNC_INTERNAL6\<close>
      cell 211 15 1 0 0 0 0 0 0 0 0 0 0 0 0, \<comment> \<open>FUNC_INTERNAL7\<close>
      cell 212 15 1 0 0 0 0 0 0 0 0 0 0 0 0, \<comment> \<open>FUNC_INTERNAL8\<close>
      cell 213 0 0 0 0 0 0 0 0 1 0 0 1 0 0, \<comment> \<open>FUNC_INTERNAL9\<close>
      cell 214 0 0 0 0 0 0 0 0 1 0 0 1 0 0, \<comment> \<open>FUNC_INTERNAL10\<close>
      cell 215 0 0 0 0 0 0 0 0 1 0 0 1 0 0] \<comment> \<open>FUNC_INTERNAL11\<close>"

definition function_config_27 :: "fpioa_assign list" where
  "function_config_27 =
     [cell 216 0 0 0 0 0 0 0 0 1 0 0 1 0 0, \<comment> \<open>FUNC_INTERNAL12\<close>
      cell 217 0 0 0 0 0 1 0 0 1 0 0 1 0 0, \<comment> \<open>FUNC_INTERNAL13\<close>
      cell 218 15 1 0 0 0 1 0 1 1 0 0 1 0 0, \<comment> \<open>FUNC_INTERNAL14\<close>
      cell 219 0 0 0 0 0 0 0 0 1 0 0 1 0 0, \<comment> \<open>FUNC_INTERNAL15\<close>
      cell 220 0 0 0 0 0 0 0 0 1 0 0 1 0 0, \<comment> \<open>FUNC_INTERNAL16\<close>
      cell 221 0 0 0 0 0 0 0 0 1 0 0 1 0 0, \<comment> \<open>FUNC_INTERNAL17\<close>
      cell 222 0 0 0 0 0 0 0 0 0 0 0 0 0 0, \<comment> \<open>FUNC_CONSTANT\<close>
      cell 223 0 0 0 0 0 0 0 0 1 0 0 1 0 0] \<comment> \<open>FUNC_INTERNAL18\<close>"

definition function_config_28 :: "fpioa_assign list" where
  "function_config_28 =
     [cell 224 15 1 0 0 0 0 0 0 0 0 0 0 0 0, \<comment> \<open>FUNC_DEBUG0\<close>
      cell 225 15 1 0 0 0 0 0 0 0 0 0 0 0 0, \<comment> \<open>FUNC_DEBUG1\<close>
      cell 226 15 1 0 0 0 0 0 0 0 0 0 0 0 0, \<comment> \<open>FUNC_DEBUG2\<close>
      cell 227 15 1 0 0 0 0 0 0 0 0 0 0 0 0, \<comment> \<open>FUNC_DEBUG3\<close>
      cell 228 15 1 0 0 0 0 0 0 0 0 0 0 0 0, \<comment> \<open>FUNC_DEBUG4\<close>
      cell 229 15 1 0 0 0 0 0 0 0 0 0 0 0 0, \<comment> \<open>FUNC_DEBUG5\<close>
      cell 230 15 1 0 0 0 0 0 0 0 0 0 0 0 0, \<comment> \<open>FUNC_DEBUG6\<close>
      cell 231 15 1 0 0 0 0 0 0 0 0 0 0 0 0] \<comment> \<open>FUNC_DEBUG7\<close>"

definition function_config_29 :: "fpioa_assign list" where
  "function_config_29 =
     [cell 232 15 1 0 0 0 0 0 0 0 0 0 0 0 0, \<comment> \<open>FUNC_DEBUG8\<close>
      cell 233 15 1 0 0 0 0 0 0 0 0 0 0 0 0, \<comment> \<open>FUNC_DEBUG9\<close>
      cell 234 15 1 0 0 0 0 0 0 0 0 0 0 0 0, \<comment> \<open>FUNC_DEBUG10\<close>
      cell 235 15 1 0 0 0 0 0 0 0 0 0 0 0 0, \<comment> \<open>FUNC_DEBUG11\<close>
      cell 236 15 1 0 0 0 0 0 0 0 0 0 0 0 0, \<comment> \<open>FUNC_DEBUG12\<close>
      cell 237 15 1 0 0 0 0 0 0 0 0 0 0 0 0, \<comment> \<open>FUNC_DEBUG13\<close>
      cell 238 15 1 0 0 0 0 0 0 0 0 0 0 0 0, \<comment> \<open>FUNC_DEBUG14\<close>
      cell 239 15 1 0 0 0 0 0 0 0 0 0 0 0 0] \<comment> \<open>FUNC_DEBUG15\<close>"

definition function_config_30 :: "fpioa_assign list" where
  "function_config_30 =
     [cell 240 15 1 0 0 0 0 0 0 0 0 0 0 0 0, \<comment> \<open>FUNC_DEBUG16\<close>
      cell 241 15 1 0 0 0 0 0 0 0 0 0 0 0 0, \<comment> \<open>FUNC_DEBUG17\<close>
      cell 242 15 1 0 0 0 0 0 0 0 0 0 0 0 0, \<comment> \<open>FUNC_DEBUG18\<close>
      cell 243 15 1 0 0 0 0 0 0 0 0 0 0 0 0, \<comment> \<open>FUNC_DEBUG19\<close>
      cell 244 15 1 0 0 0 0 0 0 0 0 0 0 0 0, \<comment> \<open>FUNC_DEBUG20\<close>
      cell 245 15 1 0 0 0 0 0 0 0 0 0 0 0 0, \<comment> \<open>FUNC_DEBUG21\<close>
      cell 246 15 1 0 0 0 0 0 0 0 0 0 0 0 0, \<comment> \<open>FUNC_DEBUG22\<close>
      cell 247 15 1 0 0 0 0 0 0 0 0 0 0 0 0] \<comment> \<open>FUNC_DEBUG23\<close>"

definition function_config_31 :: "fpioa_assign list" where
  "function_config_31 =
     [cell 248 15 1 0 0 0 0 0 0 0 0 0 0 0 0, \<comment> \<open>FUNC_DEBUG24\<close>
      cell 249 15 1 0 0 0 0 0 0 0 0 0 0 0 0, \<comment> \<open>FUNC_DEBUG25\<close>
      cell 250 15 1 0 0 0 0 0 0 0 0 0 0 0 0, \<comment> \<open>FUNC_DEBUG26\<close>
      cell 251 15 1 0 0 0 0 0 0 0 0 0 0 0 0, \<comment> \<open>FUNC_DEBUG27\<close>
      cell 252 15 1 0 0 0 0 0 0 0 0 0 0 0 0, \<comment> \<open>FUNC_DEBUG28\<close>
      cell 253 15 1 0 0 0 0 0 0 0 0 0 0 0 0, \<comment> \<open>FUNC_DEBUG29\<close>
      cell 254 15 1 0 0 0 0 0 0 0 0 0 0 0 0, \<comment> \<open>FUNC_DEBUG30\<close>
      cell 255 15 1 0 0 0 0 0 0 0 0 0 0 0 0] \<comment> \<open>FUNC_DEBUG31\<close>"

definition function_config :: "fpioa_assign list" where
  "function_config =
     function_config_0 @
     function_config_1 @
     function_config_2 @
     function_config_3 @
     function_config_4 @
     function_config_5 @
     function_config_6 @
     function_config_7 @
     function_config_8 @
     function_config_9 @
     function_config_10 @
     function_config_11 @
     function_config_12 @
     function_config_13 @
     function_config_14 @
     function_config_15 @
     function_config_16 @
     function_config_17 @
     function_config_18 @
     function_config_19 @
     function_config_20 @
     function_config_21 @
     function_config_22 @
     function_config_23 @
     function_config_24 @
     function_config_25 @
     function_config_26 @
     function_config_27 @
     function_config_28 @
     function_config_29 @
     function_config_30 @
     function_config_31"

lemmas function_config_chunks =
  function_config_0_def function_config_1_def function_config_2_def function_config_3_def
  function_config_4_def function_config_5_def function_config_6_def function_config_7_def
  function_config_8_def function_config_9_def function_config_10_def function_config_11_def
  function_config_12_def function_config_13_def function_config_14_def function_config_15_def
  function_config_16_def function_config_17_def function_config_18_def function_config_19_def
  function_config_20_def function_config_21_def function_config_22_def function_config_23_def
  function_config_24_def function_config_25_def function_config_26_def function_config_27_def
  function_config_28_def function_config_29_def function_config_30_def function_config_31_def

subsection \<open>What the table holds\<close>

lemma length_function_config: "length function_config = 256"
  by (simp add: function_config_def function_config_chunks)

lemma upt_256: "[0..<256] = 0 # 1 # [2..<256]"
  by (simp add: upt_conv_Cons numeral_2_eq_2)

text \<open>Every entry selects its own channel.\<close>

lemma ch_sels: "map a_ch_sel function_config = map word_of_nat [0..<256]"
  by (simp add: function_config_def function_config_chunks upt_256 upt_rec_numeral)

lemma ch_sel_config: "f < 256 \<Longrightarrow> a_ch_sel (function_config ! f) = word_of_nat f"
  using arg_cong [OF ch_sels, of "\<lambda>l. l ! f"] by (simp add: length_function_config)

text \<open>Only the arbitration inputs of SPI0 (16) and SPI1 (82) are tied, and they are tied high.\<close>

lemma tie_ens: "map a_tie_en function_config = map (\<lambda>f. of_bool (f = 16 \<or> f = 82)) [0..<256]"
  by (simp add: function_config_def function_config_chunks upt_256 upt_rec_numeral)

lemma tie_vals: "map a_tie_val function_config = map (\<lambda>f. of_bool (f = 16 \<or> f = 82)) [0..<256]"
  by (simp add: function_config_def function_config_chunks upt_256 upt_rec_numeral)

lemma tie_en_config: "f < 256 \<Longrightarrow> a_tie_en (function_config ! f) = of_bool (f = 16 \<or> f = 82)"
  using arg_cong [OF tie_ens, of "\<lambda>l. l ! f"] by (simp add: length_function_config)

lemma tie_val_config: "f < 256 \<Longrightarrow> a_tie_val (function_config ! f) = of_bool (f = 16 \<or> f = 82)"
  using arg_cong [OF tie_vals, of "\<lambda>l. l ! f"] by (simp add: length_function_config)

end
