(* ===== verification/Fpioa.thy ===== *)
theory Fpioa
  imports Fpioa_Table Sysctl
begin

text \<open>
  The pin multiplexer driver \<open>lib/drivers/fpioa.c\<close>.  The state is the register block: one
  configuration per pad (\<open>fpioa->io\<close>, 48 of them) and the tie bits of the 256 signals in two
  arrays of 32-bit words.  Reserved bits are left out.  A pad number is a C \<open>int\<close>, a function
  an unsigned enumerator, here its number.
\<close>

datatype fpioa_pull =
  FPIOA_PULL_NONE | FPIOA_PULL_DOWN | FPIOA_PULL_UP | FPIOA_PULL_MAX

record fpioa_io_config =
  io_ch_sel :: "8 word"
  io_ds :: "4 word"
  io_oe_en :: bit1
  io_oe_inv :: bit1
  io_do_sel :: bit1
  io_do_inv :: bit1
  io_pu :: bit1
  io_pd :: bit1
  io_sl :: bit1
  io_ie_en :: bit1
  io_ie_inv :: bit1
  io_di_inv :: bit1
  io_st :: bit1
  io_pad_di :: bit1

record fpioa =
  fpioa_io :: "fpioa_io_config list"
  fpioa_tie_en :: "u32 list"
  fpioa_tie_val :: "u32 list"

definition FPIOA_NUM_IO :: int where [simp]: "FPIOA_NUM_IO = 48"
definition FUNC_RESV0 :: nat where [simp]: "FUNC_RESV0 = 120"
definition FUNC_MAX :: nat where [simp]: "FUNC_MAX = 256"
definition FPIOA_DRIVING_MAX :: nat where [simp]: "FPIOA_DRIVING_MAX = 16"

subsection \<open>Initialisation: the tie bits\<close>

definition tie_collect :: "nat \<Rightarrow> u32 list \<times> u32 list \<Rightarrow> u32 list \<times> u32 list" where
  "tie_collect i tie = (case tie of (en, val) \<Rightarrow>
     (en[i div 32 := en ! (i div 32) OR push_bit (i mod 32) (ucast (a_tie_en (function_config ! i)))],
      val[i div 32 := val ! (i div 32) OR push_bit (i mod 32) (ucast (a_tie_val (function_config ! i)))]))"

definition tie_write :: "u32 list \<times> u32 list \<Rightarrow> nat \<Rightarrow> fpioa \<Rightarrow> fpioa" where
  "tie_write tie i fp =
     (let fp = fp\<lparr>fpioa_tie_val := (fpioa_tie_val fp)[i := snd tie ! i]\<rparr>
      in fp\<lparr>fpioa_tie_en := (fpioa_tie_en fp)[i := fst tie ! i]\<rparr>)"

definition fpioa_init :: "sysctl \<times> fpioa \<Rightarrow> int \<times> sysctl \<times> fpioa" where
  "fpioa_init st = (case st of (sc, fp) \<Rightarrow>
     (let sc = snd (sysctl_clock_enable SYSCTL_CLOCK_FPIOA sc);
          tie = fold tie_collect [0..<FUNC_MAX] (replicate 8 0, replicate 8 0)
      in (0, sc, fold (tie_write tie) [0..<FUNC_MAX div 32] fp)))"

subsection \<open>Pad configuration\<close>

text \<open>The second argument of \<open>fpioa_get_io\<close> is whether the caller's pointer is null.\<close>

definition fpioa_get_io :: "int \<Rightarrow> bool \<Rightarrow> fpioa \<Rightarrow> int \<times> fpioa_io_config option" where
  "fpioa_get_io number cfg_null fp =
     (if number < 0 \<or> number \<ge> FPIOA_NUM_IO \<or> cfg_null then (-1, None)
      else (0, Some (fpioa_io fp ! nat number)))"

definition fpioa_set_io :: "int \<Rightarrow> fpioa_io_config option \<Rightarrow> fpioa \<Rightarrow> int \<times> fpioa" where
  "fpioa_set_io number cfg fp =
     (if number < 0 \<or> number \<ge> FPIOA_NUM_IO \<or> cfg = None then (-1, fp)
      else (0, fp\<lparr>fpioa_io := (fpioa_io fp)[nat number := the cfg]\<rparr>))"

definition fpioa_set_io_pull :: "int \<Rightarrow> fpioa_pull \<Rightarrow> fpioa \<Rightarrow> int \<times> fpioa" where
  "fpioa_set_io_pull number pull fp =
     (if number < 0 \<or> number \<ge> FPIOA_NUM_IO \<or> pull = FPIOA_PULL_MAX then (-1, fp)
      else
       (let cfg = fpioa_io fp ! nat number;
            cfg = (case pull of
                FPIOA_PULL_NONE \<Rightarrow> cfg\<lparr>io_pu := 0, io_pd := 0\<rparr>
              | FPIOA_PULL_DOWN \<Rightarrow> cfg\<lparr>io_pu := 0, io_pd := 1\<rparr>
              | FPIOA_PULL_UP \<Rightarrow> cfg\<lparr>io_pu := 1, io_pd := 0\<rparr>
              | FPIOA_PULL_MAX \<Rightarrow> cfg)
        in (0, fp\<lparr>fpioa_io := (fpioa_io fp)[nat number := cfg]\<rparr>)))"

fun pull_num :: "fpioa_pull \<Rightarrow> int" where
  "pull_num FPIOA_PULL_NONE = 0"
| "pull_num FPIOA_PULL_DOWN = 1"
| "pull_num FPIOA_PULL_UP = 2"
| "pull_num FPIOA_PULL_MAX = 3"

definition fpioa_get_io_pull :: "int \<Rightarrow> fpioa \<Rightarrow> int" where
  "fpioa_get_io_pull number fp =
     (if number < 0 \<or> number \<ge> FPIOA_NUM_IO then -1
      else
       (let cfg = fpioa_io fp ! nat number in
        pull_num (if io_pu cfg = 0 \<and> io_pd cfg = 1 then FPIOA_PULL_DOWN
                  else if io_pu cfg = 1 \<and> io_pd cfg = 0 then FPIOA_PULL_UP
                  else FPIOA_PULL_NONE)))"

definition fpioa_set_io_driving :: "int \<Rightarrow> nat \<Rightarrow> fpioa \<Rightarrow> int \<times> fpioa" where
  "fpioa_set_io_driving number driving fp =
     (if number < 0 \<or> number \<ge> FPIOA_NUM_IO \<or> driving \<ge> FPIOA_DRIVING_MAX then (-1, fp)
      else (0, fp\<lparr>fpioa_io := (fpioa_io fp)[nat number :=
                     (fpioa_io fp ! nat number)\<lparr>io_ds := word_of_nat driving\<rparr>]\<rparr>))"

definition fpioa_set_sl :: "int \<Rightarrow> u8 \<Rightarrow> fpioa \<Rightarrow> int \<times> fpioa" where
  "fpioa_set_sl number sl_enable fp =
     (if number < 0 \<or> number \<ge> FPIOA_NUM_IO then (-1, fp)
      else (0, fp\<lparr>fpioa_io := (fpioa_io fp)[nat number :=
                     (fpioa_io fp ! nat number)\<lparr>io_sl := ucast sl_enable\<rparr>]\<rparr>))"

definition fpioa_set_st :: "int \<Rightarrow> u8 \<Rightarrow> fpioa \<Rightarrow> int \<times> fpioa" where
  "fpioa_set_st number st_enable fp =
     (if number < 0 \<or> number \<ge> FPIOA_NUM_IO then (-1, fp)
      else (0, fp\<lparr>fpioa_io := (fpioa_io fp)[nat number :=
                     (fpioa_io fp ! nat number)\<lparr>io_st := ucast st_enable\<rparr>]\<rparr>))"

definition fpioa_set_oe_inv :: "int \<Rightarrow> u8 \<Rightarrow> fpioa \<Rightarrow> int \<times> fpioa" where
  "fpioa_set_oe_inv number inv_enable fp =
     (if number < 0 \<or> number \<ge> FPIOA_NUM_IO then (-1, fp)
      else (0, fp\<lparr>fpioa_io := (fpioa_io fp)[nat number :=
                     (fpioa_io fp ! nat number)\<lparr>io_oe_inv := ucast inv_enable\<rparr>]\<rparr>))"

definition fpioa_get_io_driving :: "int \<Rightarrow> fpioa \<Rightarrow> int" where
  "fpioa_get_io_driving number fp =
     (if number < 0 \<or> number \<ge> FPIOA_NUM_IO then -1
      else uint (io_ds (fpioa_io fp ! nat number)))"

subsection \<open>Routing a function to a pad\<close>

text \<open>The compound literal of \<open>fpioa_set_function_raw\<close>; the fields it does not name are 0.\<close>

definition function_io :: "nat \<Rightarrow> fpioa_io_config" where
  "function_io f = (let c = function_config ! f in
     \<lparr>io_ch_sel = a_ch_sel c, io_ds = a_ds c, io_oe_en = a_oe_en c, io_oe_inv = a_oe_inv c,
      io_do_sel = a_do_sel c, io_do_inv = a_do_inv c, io_pu = a_pu c, io_pd = a_pd c,
      io_sl = a_sl c, io_ie_en = a_ie_en c, io_ie_inv = a_ie_inv c, io_di_inv = a_di_inv c,
      io_st = a_st c, io_pad_di = 0\<rparr>)"

definition fpioa_set_function_raw :: "int \<Rightarrow> nat \<Rightarrow> fpioa \<Rightarrow> int \<times> fpioa" where
  "fpioa_set_function_raw number function fp =
     (if number < 0 \<or> number \<ge> FPIOA_NUM_IO \<or> function \<ge> FUNC_MAX then (-1, fp)
      else (0, fp\<lparr>fpioa_io := (fpioa_io fp)[nat number := function_io function]\<rparr>))"

definition fpioa_release :: "int \<Rightarrow> nat \<Rightarrow> nat \<Rightarrow> fpioa \<Rightarrow> fpioa" where
  "fpioa_release number function index fp =
     (if unat (io_ch_sel (fpioa_io fp ! index)) = function \<and> int index \<noteq> number
      then snd (fpioa_set_function_raw (int index) FUNC_RESV0 fp) else fp)"

definition fpioa_set_function :: "int \<Rightarrow> nat \<Rightarrow> fpioa \<Rightarrow> int \<times> fpioa" where
  "fpioa_set_function number function fp =
     (if number < 0 \<or> number \<ge> FPIOA_NUM_IO \<or> function \<ge> FUNC_MAX then (-1, fp)
      else if function = FUNC_RESV0 then (0, snd (fpioa_set_function_raw number FUNC_RESV0 fp))
      else
       (let fp = fold (fpioa_release number function) [0..<nat FPIOA_NUM_IO] fp
        in (0, snd (fpioa_set_function_raw number function fp))))"

definition fpioa_set_tie_enable :: "nat \<Rightarrow> int \<Rightarrow> fpioa \<Rightarrow> int \<times> fpioa" where
  "fpioa_set_tie_enable function enable fp =
     (if function \<ge> FUNC_MAX then (-1, fp)
      else
       (let i = function div 32; w = fpioa_tie_en fp ! i; m = push_bit (function mod 32) 1
        in (0, fp\<lparr>fpioa_tie_en := (fpioa_tie_en fp)[i := if enable \<noteq> 0 then w OR m else w AND NOT m]\<rparr>)))"

definition fpioa_set_tie_value :: "nat \<Rightarrow> int \<Rightarrow> fpioa \<Rightarrow> int \<times> fpioa" where
  "fpioa_set_tie_value function value fp =
     (if function \<ge> FUNC_MAX then (-1, fp)
      else
       (let i = function div 32; w = fpioa_tie_val fp ! i; m = push_bit (function mod 32) 1
        in (0, fp\<lparr>fpioa_tie_val := (fpioa_tie_val fp)[i := if value \<noteq> 0 then w OR m else w AND NOT m]\<rparr>)))"

text \<open>The loop of \<open>fpioa_get_io_by_function\<close>, which returns the first pad of the function.\<close>

fun find_io :: "nat list \<Rightarrow> nat \<Rightarrow> fpioa \<Rightarrow> int" where
  "find_io [] function fp = -1"
| "find_io (index # is) function fp =
     (if unat (io_ch_sel (fpioa_io fp ! index)) = function then int index
      else find_io is function fp)"

definition fpioa_get_io_by_function :: "nat \<Rightarrow> fpioa \<Rightarrow> int" where
  "fpioa_get_io_by_function function fp = find_io [0..<nat FPIOA_NUM_IO] function fp"

subsection \<open>The register block stays well formed\<close>

definition fpioa_wf :: "fpioa \<Rightarrow> bool" where
  "fpioa_wf fp \<longleftrightarrow> length (fpioa_io fp) = 48 \<and> length (fpioa_tie_en fp) = 8 \<and> length (fpioa_tie_val fp) = 8"

definition channel :: "fpioa \<Rightarrow> nat \<Rightarrow> nat" where
  "channel fp i = unat (io_ch_sel (fpioa_io fp ! i))"

lemma channel_function_io [simp]: "f < 256 \<Longrightarrow> unat (io_ch_sel (function_io f)) = f"
  by (simp add: function_io_def Let_def ch_sel_config unat_of_nat_small)

lemma set_function_raw_eq:
  "0 \<le> n \<Longrightarrow> n < 48 \<Longrightarrow> f < 256 \<Longrightarrow>
   fpioa_set_function_raw n f fp = (0, fp\<lparr>fpioa_io := (fpioa_io fp)[nat n := function_io f]\<rparr>)"
  by (simp add: fpioa_set_function_raw_def)

text \<open>The release loop moves every other pad of the function to the reserved one, and only those.\<close>

lemma release_fold:
  fixes number :: int and f :: nat
  assumes "fpioa_wf fp" "n \<le> 48"
  defines "fp' \<equiv> fold (fpioa_release number f) [0..<n] fp"
  shows "fpioa_wf fp' \<and> fpioa_tie_en fp' = fpioa_tie_en fp \<and> fpioa_tie_val fp' = fpioa_tie_val fp \<and>
    (\<forall>j < 48. fpioa_io fp' ! j =
       (if j < n \<and> channel fp j = f \<and> int j \<noteq> number then function_io 120 else fpioa_io fp ! j))"
  using assms(2) unfolding fp'_def
proof (induction n)
  case 0
  then show ?case using assms(1) by simp
next
  case (Suc n)
  let ?g = "fold (fpioa_release number f) [0..<n] fp"
  have IH: "fpioa_wf ?g" "fpioa_tie_en ?g = fpioa_tie_en fp" "fpioa_tie_val ?g = fpioa_tie_val fp"
      "\<And>j. j < 48 \<Longrightarrow> fpioa_io ?g ! j =
         (if j < n \<and> channel fp j = f \<and> int j \<noteq> number then function_io 120 else fpioa_io fp ! j)"
    using Suc by auto
  have n: "fpioa_io ?g ! n = fpioa_io fp ! n"
    using IH(4) [of n] Suc.prems by simp
  have step: "fpioa_release number f n ?g =
      (if channel fp n = f \<and> int n \<noteq> number
       then ?g\<lparr>fpioa_io := (fpioa_io ?g)[n := function_io 120]\<rparr> else ?g)"
    using Suc.prems by (simp add: fpioa_release_def n channel_def set_function_raw_eq)
  have len: "length (fpioa_io ?g) = 48" using IH(1) by (simp add: fpioa_wf_def)
  have "fold (fpioa_release number f) [0..<Suc n] fp = fpioa_release number f n ?g"
    by simp
  moreover have "fpioa_wf (fpioa_release number f n ?g) \<and>
     fpioa_tie_en (fpioa_release number f n ?g) = fpioa_tie_en fp \<and>
     fpioa_tie_val (fpioa_release number f n ?g) = fpioa_tie_val fp"
    using IH(1-3) by (simp add: step fpioa_wf_def)
  moreover have "fpioa_io (fpioa_release number f n ?g) ! j =
      (if j < Suc n \<and> channel fp j = f \<and> int j \<noteq> number then function_io 120 else fpioa_io fp ! j)"
    if "j < 48" for j
    using that IH(4) [OF that] len by (auto simp: step nth_list_update less_Suc_eq n)
  ultimately show ?case by metis
qed

lemma set_function_io:
  assumes wf: "fpioa_wf fp" and n: "0 \<le> number" "number < 48" and f: "f < 256" "f \<noteq> 120"
  shows "fst (fpioa_set_function number f fp) = 0"
    and "fpioa_wf (snd (fpioa_set_function number f fp))"
    and "j < 48 \<Longrightarrow> fpioa_io (snd (fpioa_set_function number f fp)) ! j =
      (if int j = number then function_io f
       else if channel fp j = f then function_io 120 else fpioa_io fp ! j)"
proof -
  let ?g = "fold (fpioa_release number f) [0..<48] fp"
  have r: "fpioa_wf ?g" "\<And>j. j < 48 \<Longrightarrow> fpioa_io ?g ! j =
      (if channel fp j = f \<and> int j \<noteq> number then function_io 120 else fpioa_io fp ! j)"
    using release_fold [OF wf, of 48 number f] by auto
  have eq: "fpioa_set_function number f fp = (0, ?g\<lparr>fpioa_io := (fpioa_io ?g)[nat number := function_io f]\<rparr>)"
    using n f by (simp add: fpioa_set_function_def set_function_raw_eq Let_def)
  show "fst (fpioa_set_function number f fp) = 0"
    and "fpioa_wf (snd (fpioa_set_function number f fp))"
    using r(1) by (simp_all add: eq fpioa_wf_def)
  show "fpioa_io (snd (fpioa_set_function number f fp)) ! j =
      (if int j = number then function_io f
       else if channel fp j = f then function_io 120 else fpioa_io fp ! j)" if "j < 48"
    using that r n by (auto simp: eq fpioa_wf_def nth_list_update)
qed

lemma filter_eq_upt_single: "k < n \<Longrightarrow> filter (\<lambda>i. i = k) [0..<n] = [k]"
  by (induction n) (auto simp: less_Suc_eq)

lemma find_io_first:
  "find_io is f fp = (case filter (\<lambda>i. channel fp i = f) is of [] \<Rightarrow> -1 | i # _ \<Rightarrow> int i)"
  by (induction "is") (auto simp: channel_def)

lemma get_io_by_function_unique:
  assumes "0 \<le> number" "number < 48" "\<And>i. i < 48 \<Longrightarrow> channel fp i = f \<longleftrightarrow> int i = number"
  shows "fpioa_get_io_by_function f fp = number"
proof -
  have "filter (\<lambda>i. channel fp i = f) [0..<48] = filter (\<lambda>i. i = nat number) [0..<48]"
    using assms by (intro filter_cong) auto
  also have "\<dots> = [nat number]"
    using assms(1,2) by (subst filter_eq_upt_single) auto
  finally show ?thesis
    using assms(1) by (simp add: fpioa_get_io_by_function_def find_io_first)
qed

subsection \<open>Tie bits\<close>

abbreviation tie_bit :: "u32 list \<Rightarrow> nat \<Rightarrow> bool" where
  "tie_bit \<equiv> arr_bit"

lemma bit_push_bit1: "bit (push_bit k (ucast (b :: bit1)) :: u32) m \<longleftrightarrow> m = k \<and> k < 32 \<and> b = 1"
  using bit1_cases [of b] by (auto simp: bit_simps)

lemma tie_bit_or:
  assumes "length ws = 8" "i < 256"
  shows "tie_bit (ws[i div 32 := ws ! (i div 32) OR push_bit (i mod 32) (ucast (b :: bit1))]) f =
    (tie_bit ws f \<or> (f = i \<and> b = 1))"
  using assms by (auto simp: arr_bit_def nth_list_update bit_or_iff bit_push_bit1 split_index [of f i])

lemma tie_collect_fold:
  assumes "n \<le> 256"
  defines "t \<equiv> fold tie_collect [0..<n] (replicate 8 0, replicate 8 0)"
  shows "length (fst t) = 8 \<and> length (snd t) = 8 \<and>
    (\<forall>f < 256. tie_bit (fst t) f = (f < n \<and> a_tie_en (function_config ! f) = 1) \<and>
               tie_bit (snd t) f = (f < n \<and> a_tie_val (function_config ! f) = 1))"
  using assms(1) unfolding t_def
proof (induction n)
  case 0
  show ?case by (simp add: arr_bit_def less_mult_imp_div_less)
next
  case (Suc n)
  obtain en val where t: "fold tie_collect [0..<n] (replicate 8 0, replicate 8 0) = (en, val)"
    by fastforce
  with Suc have IH: "length en = 8" "length val = 8"
    "\<And>f. f < 256 \<Longrightarrow> tie_bit en f = (f < n \<and> a_tie_en (function_config ! f) = 1) \<and>
       tie_bit val f = (f < n \<and> a_tie_val (function_config ! f) = 1)"
    by auto
  have F: "fold tie_collect [0..<Suc n] (replicate 8 0, replicate 8 0) =
      (en[n div 32 := en ! (n div 32) OR push_bit (n mod 32) (ucast (a_tie_en (function_config ! n)))],
       val[n div 32 := val ! (n div 32) OR push_bit (n mod 32) (ucast (a_tie_val (function_config ! n)))])"
    by (simp add: t) (simp add: tie_collect_def)
  show ?case
    unfolding F using IH Suc.prems by (auto simp: tie_bit_or less_Suc_eq)
qed

lemma tie_write_fold:
  assumes "length (fst t) = 8" "length (snd t) = 8" "fpioa_wf fp"
  shows "fold (tie_write t) [0..<8] fp = fp\<lparr>fpioa_tie_en := fst t, fpioa_tie_val := snd t\<rparr>"
proof -
  have "fold (tie_write t) [0..<n] fp =
      fp\<lparr>fpioa_tie_en := take n (fst t) @ drop n (fpioa_tie_en fp),
         fpioa_tie_val := take n (snd t) @ drop n (fpioa_tie_val fp)\<rparr>" if "n \<le> 8" for n
    using that
  proof (induction n)
    case (Suc n)
    have upd: "(take n xs @ drop n ys)[n := xs ! n] = take (Suc n) xs @ drop (Suc n) ys"
      if "length xs = 8" "length ys = 8" for xs ys :: "u32 list"
      using that Suc.prems
      by (simp add: list_update_append take_Suc_conv_app_nth flip: Cons_nth_drop_Suc)
    from Suc assms show ?case by (simp add: tie_write_def upd fpioa_wf_def)
  qed simp
  from this [of 8] show ?thesis using assms by (simp add: fpioa_wf_def)
qed

lemma fpioa_init_eq:
  assumes "fpioa_wf fp"
  obtains en val where "fpioa_init (sc, fp) =
      (0, snd (sysctl_clock_enable SYSCTL_CLOCK_FPIOA sc), fp\<lparr>fpioa_tie_en := en, fpioa_tie_val := val\<rparr>)"
    "length en = 8" "length val = 8"
    "\<And>f. f < 256 \<Longrightarrow> tie_bit en f = (f = 16 \<or> f = 82) \<and> tie_bit val f = (f = 16 \<or> f = 82)"
proof -
  let ?t = "fold tie_collect [0..<256] (replicate 8 0, replicate 8 0)"
  have t: "length (fst ?t) = 8" "length (snd ?t) = 8"
     "\<And>f. f < 256 \<Longrightarrow> tie_bit (fst ?t) f = (a_tie_en (function_config ! f) = 1) \<and>
        tie_bit (snd ?t) f = (a_tie_val (function_config ! f) = 1)"
    using tie_collect_fold [of 256] by auto
  have "fpioa_init (sc, fp) = (0, snd (sysctl_clock_enable SYSCTL_CLOCK_FPIOA sc),
      fp\<lparr>fpioa_tie_en := fst ?t, fpioa_tie_val := snd ?t\<rparr>)"
    using tie_write_fold [OF t(1,2) assms] by (simp add: fpioa_init_def Let_def)
  from that [OF this t(1,2)] t(3) show ?thesis
    by (simp add: tie_en_config tie_val_config)
qed

subsection \<open>Operation sequences\<close>

text \<open>
  Every call of the driver that changes a pad or a tie bit.  \<open>fpioa_set_io\<close> and
  \<open>fpioa_set_function_raw\<close> write a pad without looking at the others; \<open>duplicates\<close> is when such a call
  writes a function another pad has.
\<close>

datatype fpioa_op =
    Set_function int nat
  | Set_function_raw int nat
  | Set_io int "fpioa_io_config option"
  | Set_pull int fpioa_pull
  | Set_driving int nat
  | Set_sl int u8
  | Set_st int u8
  | Set_oe_inv int u8
  | Set_tie_enable nat int
  | Set_tie_value nat int

fun fpioa_exec :: "fpioa_op \<Rightarrow> fpioa \<Rightarrow> int \<times> fpioa" where
  "fpioa_exec (Set_function n f) fp = fpioa_set_function n f fp"
| "fpioa_exec (Set_function_raw n f) fp = fpioa_set_function_raw n f fp"
| "fpioa_exec (Set_io n c) fp = fpioa_set_io n c fp"
| "fpioa_exec (Set_pull n p) fp = fpioa_set_io_pull n p fp"
| "fpioa_exec (Set_driving n d) fp = fpioa_set_io_driving n d fp"
| "fpioa_exec (Set_sl n v) fp = fpioa_set_sl n v fp"
| "fpioa_exec (Set_st n v) fp = fpioa_set_st n v fp"
| "fpioa_exec (Set_oe_inv n v) fp = fpioa_set_oe_inv n v fp"
| "fpioa_exec (Set_tie_enable f v) fp = fpioa_set_tie_enable f v fp"
| "fpioa_exec (Set_tie_value f v) fp = fpioa_set_tie_value f v fp"

fun op_pad :: "fpioa_op \<Rightarrow> int option" where
  "op_pad (Set_function n f) = Some n"
| "op_pad (Set_function_raw n f) = Some n"
| "op_pad (Set_io n c) = Some n"
| "op_pad (Set_pull n p) = Some n"
| "op_pad (Set_driving n d) = Some n"
| "op_pad (Set_sl n v) = Some n"
| "op_pad (Set_st n v) = Some n"
| "op_pad (Set_oe_inv n v) = Some n"
| "op_pad _ = None"

definition fpioa_exclusive :: "fpioa \<Rightarrow> bool" where
  "fpioa_exclusive fp \<longleftrightarrow>
     (\<forall>i < 48. \<forall>j < 48. channel fp i = channel fp j \<and> channel fp i \<noteq> 120 \<longrightarrow> i = j)"

lemmas pad_setters = fpioa_set_io_pull_def fpioa_set_io_driving_def fpioa_set_sl_def
  fpioa_set_st_def fpioa_set_oe_inv_def

definition written_twice :: "int \<Rightarrow> nat \<Rightarrow> fpioa \<Rightarrow> bool" where
  "written_twice n f fp \<longleftrightarrow> 0 \<le> n \<and> n < 48 \<and> f \<noteq> 120 \<and> (\<exists>j < 48. int j \<noteq> n \<and> channel fp j = f)"

fun duplicates :: "fpioa_op \<Rightarrow> fpioa \<Rightarrow> bool" where
  "duplicates (Set_function_raw n f) fp = (f < 256 \<and> written_twice n f fp)"
| "duplicates (Set_io n (Some c)) fp = written_twice n (unat (io_ch_sel c)) fp"
| "duplicates _ fp = False"

text \<open>Every other call leaves all channels where they are.\<close>

lemma exec_channel:
  assumes "fpioa_wf fp" "\<And>n f. op \<noteq> Set_function n f" "\<And>n f. op \<noteq> Set_function_raw n f" "\<And>n c. op \<noteq> Set_io n c"
  shows "fpioa_wf (snd (fpioa_exec op fp)) \<and> (\<forall>i < 48. channel (snd (fpioa_exec op fp)) i = channel fp i)"
  using assms
  by (cases op) (auto simp: pad_setters fpioa_set_tie_enable_def fpioa_set_tie_value_def fpioa_wf_def
      channel_def nth_list_update Let_def split: fpioa_pull.split)

lemma set_function_resv0:
  assumes "fpioa_wf fp" "fpioa_exclusive fp"
  shows "fpioa_wf (snd (fpioa_set_function n 120 fp)) \<and> fpioa_exclusive (snd (fpioa_set_function n 120 fp))"
proof (cases "n < 0 \<or> n \<ge> 48")
  case False
  then have "fpioa_set_function n 120 fp = (0, fp\<lparr>fpioa_io := (fpioa_io fp)[nat n := function_io 120]\<rparr>)"
    by (simp add: fpioa_set_function_def set_function_raw_eq)
  moreover have "channel (fp\<lparr>fpioa_io := (fpioa_io fp)[nat n := function_io 120]\<rparr>) i =
      (if i = nat n then 120 else channel fp i)" if "i < 48" for i
    using that assms(1) by (simp add: channel_def fpioa_wf_def nth_list_update)
  ultimately show ?thesis
    using assms by (auto simp: fpioa_exclusive_def fpioa_wf_def split: if_splits)
qed (use assms in \<open>auto simp: fpioa_set_function_def\<close>)

lemma set_function_exclusive:
  assumes "fpioa_wf fp" "fpioa_exclusive fp"
  shows "fpioa_wf (snd (fpioa_set_function n f fp)) \<and> fpioa_exclusive (snd (fpioa_set_function n f fp))"
proof -
  consider "n < 0 \<or> n \<ge> 48 \<or> f \<ge> 256" | "f = 120" | "0 \<le> n" "n < 48" "f < 256" "f \<noteq> 120"
    by linarith
  then show ?thesis
  proof cases
    case 1
    then show ?thesis using assms by (auto simp: fpioa_set_function_def)
  next
    case 2
    then show ?thesis using set_function_resv0 [OF assms] by simp
  next
    case 3
    have "channel (snd (fpioa_set_function n f fp)) j =
        (if int j = n then f else if channel fp j = f then 120 else channel fp j)" if "j < 48" for j
      using set_function_io(3) [OF assms(1) 3 that] 3 by (simp add: channel_def)
    then show ?thesis
      using assms(2) set_function_io(2) [OF assms(1) 3] 3
      by (auto simp: fpioa_exclusive_def split: if_splits)
  qed
qed

text \<open>Writing one pad keeps exclusivity exactly if no other pad has the function.\<close>

lemma write_pad_exclusive:
  assumes wf: "fpioa_wf fp" and ex: "fpioa_exclusive fp" and n: "0 \<le> n" "n < 48"
  shows "fpioa_wf (fp\<lparr>fpioa_io := (fpioa_io fp)[nat n := c]\<rparr>) \<and>
    (fpioa_exclusive (fp\<lparr>fpioa_io := (fpioa_io fp)[nat n := c]\<rparr>) \<longleftrightarrow> \<not> written_twice n (unat (io_ch_sel c)) fp)"
proof -
  let ?fp = "fp\<lparr>fpioa_io := (fpioa_io fp)[nat n := c]\<rparr>" and ?f = "unat (io_ch_sel c)"
  have ch: "channel ?fp i = (if i = nat n then ?f else channel fp i)" if "i < 48" for i
    using that wf by (simp add: channel_def fpioa_wf_def nth_list_update)
  have "fpioa_exclusive ?fp \<longleftrightarrow> \<not> written_twice n ?f fp"
  proof
    assume e: "fpioa_exclusive ?fp"
    have "?f = 120" if "j < 48" "int j \<noteq> n" "channel fp j = ?f" for j
    proof (rule ccontr)
      assume "?f \<noteq> 120"
      have m: "nat n < 48" "j \<noteq> nat n" using n that by auto
      have "channel ?fp j = ?f" "channel ?fp (nat n) = ?f" using ch [OF that(1)] ch [OF m(1)] that(3) m(2) by simp_all
      with e that(1) m \<open>?f \<noteq> 120\<close> show False by (simp add: fpioa_exclusive_def)
    qed
    then show "\<not> written_twice n ?f fp" unfolding written_twice_def by blast
  next
    assume w: "\<not> written_twice n ?f fp"
    show "fpioa_exclusive ?fp"
      unfolding fpioa_exclusive_def
    proof (intro allI impI)
      fix i j assume ij: "i < (48 :: nat)" "j < (48 :: nat)" "channel ?fp i = channel ?fp j \<and> channel ?fp i \<noteq> 120"
      have no: "k < 48 \<Longrightarrow> k \<noteq> nat n \<Longrightarrow> channel fp k = ?f \<Longrightarrow> ?f = 120" for k
        using w n unfolding written_twice_def by (metis nat_int)
      show "i = j"
      proof (cases "i = nat n \<or> j = nat n")
        case True
        show ?thesis
        proof (rule ccontr)
          assume "i \<noteq> j"
          with True ij no [of i] no [of j] ch [OF ij(1)] ch [OF ij(2)] show False by auto
        qed
      next
        case False
        with ij ch [OF ij(1)] ch [OF ij(2)] have "channel fp i = channel fp j" "channel fp i \<noteq> 120" by simp_all
        with ex ij(1,2) show ?thesis by (simp add: fpioa_exclusive_def)
      qed
    qed
  qed
  with wf show ?thesis by (simp add: fpioa_wf_def)
qed

lemma exec_exclusive:
  assumes "fpioa_wf fp" "fpioa_exclusive fp"
  shows "fpioa_wf (snd (fpioa_exec op fp)) \<and> (fpioa_exclusive (snd (fpioa_exec op fp)) \<longleftrightarrow> \<not> duplicates op fp)"
proof -
  consider n f where "op = Set_function n f" | n f where "op = Set_function_raw n f" | n c where "op = Set_io n c"
    | "\<And>n f. op \<noteq> Set_function n f" "\<And>n f. op \<noteq> Set_function_raw n f" "\<And>n c. op \<noteq> Set_io n c"
    by blast
  then show ?thesis
  proof cases
    case 1
    then show ?thesis using set_function_exclusive [OF assms] by simp
  next
    case 2
    show ?thesis
    proof (cases "0 \<le> n \<and> n < 48 \<and> f < 256")
      case True
      then show ?thesis using write_pad_exclusive [OF assms, of n "function_io f"] by (simp add: 2 set_function_raw_eq)
    next
      case False
      then show ?thesis using assms by (auto simp: 2 fpioa_set_function_raw_def written_twice_def)
    qed
  next
    case 3
    show ?thesis
    proof (cases "0 \<le> n \<and> n < 48 \<and> c \<noteq> None")
      case True
      then show ?thesis using write_pad_exclusive [OF assms, of n "the c"] by (auto simp: 3 fpioa_set_io_def)
    next
      case False
      then show ?thesis using assms by (cases c) (auto simp: 3 fpioa_set_io_def written_twice_def)
    qed
  next
    case 4
    then have "\<not> duplicates op fp" by (cases op) auto
    with exec_channel [OF assms(1) 4] assms(2) show ?thesis by (auto simp: fpioa_exclusive_def)
  qed
qed

definition fpioa_run :: "fpioa_op list \<Rightarrow> fpioa \<Rightarrow> fpioa" where
  "fpioa_run ops fp = fold (\<lambda>op fp. snd (fpioa_exec op fp)) ops fp"

fun never_duplicates :: "fpioa_op list \<Rightarrow> fpioa \<Rightarrow> bool" where
  "never_duplicates [] fp = True"
| "never_duplicates (op # ops) fp = (\<not> duplicates op fp \<and> never_duplicates ops (snd (fpioa_exec op fp)))"

lemma exec_wf: "fpioa_wf fp \<Longrightarrow> fpioa_wf (snd (fpioa_exec op fp))"
proof (cases op)
  case (Set_function n f)
  assume wf: "fpioa_wf fp"
  show ?thesis
  proof (cases "0 \<le> n \<and> n < 48 \<and> f < 256 \<and> f \<noteq> 120")
    case True
    with set_function_io(2) [OF wf] Set_function show ?thesis by simp
  next
    case False
    with wf Set_function show ?thesis
      by (auto simp: fpioa_set_function_def fpioa_set_function_raw_def fpioa_wf_def)
  qed
qed (auto simp: pad_setters fpioa_set_io_def fpioa_set_function_raw_def fpioa_set_tie_enable_def
    fpioa_set_tie_value_def fpioa_wf_def Let_def)

lemma run_wf: "fpioa_wf fp \<Longrightarrow> fpioa_wf (fpioa_run ops fp)"
  unfolding fpioa_run_def by (induction ops arbitrary: fp) (simp_all add: exec_wf)

lemma all_prefixes_Cons:
  "(\<forall>k \<le> length (op # ops). P (fpioa_run (take k (op # ops)) fp)) \<longleftrightarrow>
   P fp \<and> (\<forall>k \<le> length ops. P (fpioa_run (take k ops) (snd (fpioa_exec op fp))))"
proof (intro iffI conjI allI impI)
  fix k assume "\<forall>k \<le> length (op # ops). P (fpioa_run (take k (op # ops)) fp)" "k \<le> length ops"
  then show "P (fpioa_run (take k ops) (snd (fpioa_exec op fp)))" by (force simp: fpioa_run_def dest: spec [of _ "Suc k"])
next
  fix k assume "P fp \<and> (\<forall>k \<le> length ops. P (fpioa_run (take k ops) (snd (fpioa_exec op fp))))" "k \<le> length (op # ops)"
  then show "P (fpioa_run (take k (op # ops)) fp)" by (cases k) (auto simp: fpioa_run_def)
qed (auto simp: fpioa_run_def dest: spec [of _ 0])

lemma run_exclusive:
  "fpioa_wf fp \<Longrightarrow> fpioa_exclusive fp \<Longrightarrow>
   (\<forall>k \<le> length ops. fpioa_exclusive (fpioa_run (take k ops) fp)) \<longleftrightarrow> never_duplicates ops fp"
proof (induction ops arbitrary: fp)
  case Nil
  then show ?case by (simp add: fpioa_run_def)
next
  case (Cons op ops)
  let ?fp = "snd (fpioa_exec op fp)"
  note e = exec_exclusive [OF Cons.prems, of op]
  show ?case
  proof (cases "duplicates op fp")
    case True
    then have "\<not> fpioa_exclusive (fpioa_run (take 0 ops) ?fp)" using e by (simp add: fpioa_run_def)
    then show ?thesis unfolding all_prefixes_Cons using True by auto
  next
    case False
    with Cons.IH [of ?fp] e Cons.prems(2) show ?thesis unfolding all_prefixes_Cons by simp
  qed
qed

lemma exec_refused:
  "op_pad op = Some n \<Longrightarrow> n < 0 \<or> n \<ge> 48 \<Longrightarrow> fpioa_exec op fp = (-1, fp)"
  by (cases op) (auto simp: pad_setters fpioa_set_function_def fpioa_set_function_raw_def fpioa_set_io_def)

text \<open>A register block in which every pad is on the reserved function.\<close>

definition fpioa_blank :: fpioa where
  "fpioa_blank = \<lparr>fpioa_io = replicate 48 (function_io 120),
     fpioa_tie_en = replicate 8 0, fpioa_tie_val = replicate 8 0\<rparr>"

lemma fpioa_blank_wf: "fpioa_wf fpioa_blank"
  by (simp add: fpioa_wf_def fpioa_blank_def)

lemma channel_blank [simp]: "i < 48 \<Longrightarrow> channel fpioa_blank i = 120"
  by (simp add: channel_def fpioa_blank_def)

lemma pull_roundtrip:
  assumes "fpioa_wf fp" "0 \<le> number" "number < 48" "pull \<noteq> FPIOA_PULL_MAX"
  shows "fst (fpioa_set_io_pull number pull fp) = 0"
    and "fpioa_get_io_pull number (snd (fpioa_set_io_pull number pull fp)) = pull_num pull"
  using assms
  by (cases pull; simp add: fpioa_set_io_pull_def fpioa_get_io_pull_def fpioa_wf_def)+

subsection \<open>Properties\<close>

text \<open>C5.  Routing a function to a pad is exclusive: after a successful \<open>fpioa_set_function\<close>
  the function is on the requested pad and on no other, \<open>fpioa_get_io_by_function\<close> finds it there, every
  pad that had it before is back on the reserved function with the settings of the table, and every
  other pad is untouched.\<close>

theorem fpioa_set_function_routes:
  assumes wf: "fpioa_wf fp" and n: "0 \<le> number" "number < 48" and f: "f < 256" "f \<noteq> FUNC_RESV0"
  shows "\<exists>fp'. fpioa_set_function number f fp = (0, fp') \<and> fpioa_wf fp' \<and>
    (\<forall>i < 48. channel fp' i = f \<longleftrightarrow> int i = number) \<and>
    fpioa_get_io_by_function f fp' = number \<and>
    (\<forall>i < 48. fpioa_io fp' ! i =
      (if int i = number then function_io f
       else if channel fp i = f then function_io FUNC_RESV0 else fpioa_io fp ! i))"
proof -
  let ?r = "fpioa_set_function number f fp"
  note s = set_function_io [OF wf n f(1) f(2) [unfolded FUNC_RESV0_def]]
  have c: "channel (snd ?r) i = f \<longleftrightarrow> int i = number" if "i < 48" for i
    using that s(3) [OF that] f by (auto simp: channel_def)
  have "?r = (0, snd ?r)" using s(1) by (metis prod.collapse)
  then show ?thesis
    using s(2,3) c get_io_by_function_unique [OF n c]
    by (intro exI [of _ "snd ?r"]) simp
qed

theorem fpioa_set_function_routes_witness:
  "\<exists>fp'. fpioa_set_function 5 24 fpioa_blank = (0, fp') \<and> channel fp' 5 = 24 \<and>
     fpioa_get_io_by_function 24 fp' = 5"
  using fpioa_set_function_routes [of fpioa_blank 5 24] fpioa_blank_wf by auto

text \<open>C6.  Exclusivity of functions.  From a register block in which no function other than the reserved one is on
  two pads, a sequence of calls that change pads or tie bits, with any arguments, keeps it so after every call exactly
  if none of its calls of \<open>fpioa_set_io\<close> and \<open>fpioa_set_function_raw\<close>, which do not look at the other
  pads, writes a function another pad has at that moment; \<open>fpioa_set_function\<close> and the setters always keep it.\<close>

theorem fpioa_exclusive_invariant:
  assumes "fpioa_wf fp" "fpioa_exclusive fp"
  shows "fpioa_wf (fpioa_run ops fp) \<and>
    ((\<forall>k \<le> length ops. fpioa_exclusive (fpioa_run (take k ops) fp)) \<longleftrightarrow> never_duplicates ops fp)"
  using run_exclusive [OF assms] run_wf [OF assms(1)] by blast

theorem fpioa_exclusive_invariant_witness:
  "fpioa_exclusive (fpioa_run [Set_function_raw 6 25, Set_function 7 25, Set_sl 6 1] fpioa_blank) \<and>
   \<not> never_duplicates [Set_function_raw 6 25, Set_function_raw 7 25] fpioa_blank"
proof
  have ex: "fpioa_exclusive fpioa_blank" by (simp add: fpioa_exclusive_def)
  let ?ops = "[Set_function_raw 6 25, Set_function 7 25, Set_sl 6 1]"
  have "never_duplicates ?ops fpioa_blank" by (simp add: written_twice_def)
  with fpioa_exclusive_invariant [OF fpioa_blank_wf ex, of ?ops] have
    "\<forall>k \<le> length ?ops. fpioa_exclusive (fpioa_run (take k ?ops) fpioa_blank)" by blast
  from this [rule_format, of 3] show "fpioa_exclusive (fpioa_run ?ops fpioa_blank)" by simp
  have "channel (snd (fpioa_set_function_raw 6 25 fpioa_blank)) 6 = 25"
    by (simp add: set_function_raw_eq channel_def fpioa_blank_def)
  then show "\<not> never_duplicates [Set_function_raw 6 25, Set_function_raw 7 25] fpioa_blank"
    unfolding never_duplicates.simps duplicates.simps written_twice_def by (auto intro!: exI [of _ "6 :: nat"])
qed

text \<open>\<open>fpioa_init\<close> gates the FPIOA clock and its bus on and leaves the tie bits of the table
  in the registers: the arbitration inputs of SPI0 and SPI1 are tied, high, and no other signal is; the pads
  are not touched.\<close>

lemma fpioa_init_ties_spi_arbitration:
  assumes "fpioa_wf fp"
  shows "\<exists>sc' fp'. fpioa_init (sc, fp) = (0, sc', fp') \<and> fpioa_io fp' = fpioa_io fp \<and>
    (\<forall>f < 256. tie_bit (fpioa_tie_en fp') f = (f \<in> {16, 82}) \<and>
               tie_bit (fpioa_tie_val fp') f = (f \<in> {16, 82})) \<and>
    sysctl_gate SYSCTL_CLOCK_FPIOA sc' = Some 1 \<and> sysctl_gate SYSCTL_CLOCK_APB0 sc' = Some 1"
proof -
  obtain en val where i: "fpioa_init (sc, fp) =
      (0, snd (sysctl_clock_enable SYSCTL_CLOCK_FPIOA sc), fp\<lparr>fpioa_tie_en := en, fpioa_tie_val := val\<rparr>)"
    "\<And>f. f < 256 \<Longrightarrow> tie_bit en f = (f = 16 \<or> f = 82) \<and> tie_bit val f = (f = 16 \<or> f = 82)"
    using fpioa_init_eq [OF assms] by metis
  have "sysctl_gate c (snd (sysctl_clock_enable SYSCTL_CLOCK_FPIOA sc)) = Some 1"
    if "c = SYSCTL_CLOCK_FPIOA \<or> c = SYSCTL_CLOCK_APB0" for c
    using that by (simp only: sysctl_gate_enable_any) auto
  with i show ?thesis by (auto simp del: sysctl_gate.simps)
qed

lemma fpioa_init_ties_spi_arbitration_witness:
  "\<forall>sc. \<exists>sc' fp'. fpioa_init (sc, fpioa_blank) = (0, sc', fp') \<and> tie_bit (fpioa_tie_en fp') 16"
proof
  fix sc
  show "\<exists>sc' fp'. fpioa_init (sc, fpioa_blank) = (0, sc', fp') \<and> tie_bit (fpioa_tie_en fp') 16"
    using fpioa_init_ties_spi_arbitration [OF fpioa_blank_wf, of sc] by auto
qed

text \<open>Errors and read-back: every pad call with a number outside 0..47 returns -1 and changes
  nothing, and on a pad that exists \<open>fpioa_get_io_pull\<close> returns the setting
  \<open>fpioa_set_io_pull\<close> was given, also where the pad had both resistors on before.\<close>

lemma fpioa_pad_calls_checked:
  assumes "fpioa_wf fp"
  shows "(op_pad op = Some n \<longrightarrow> n < 0 \<or> n \<ge> 48 \<longrightarrow> fpioa_exec op fp = (-1, fp)) \<and>
    (0 \<le> m \<longrightarrow> m < 48 \<longrightarrow> pull \<noteq> FPIOA_PULL_MAX \<longrightarrow>
       fpioa_get_io_pull m (snd (fpioa_set_io_pull m pull fp)) = pull_num pull)"
  using assms exec_refused pull_roundtrip(2) by blast

lemma fpioa_pad_calls_checked_witness:
  "fpioa_exec (Set_pull 48 FPIOA_PULL_UP) fpioa_blank = (-1, fpioa_blank) \<and>
   fpioa_get_io_pull 47 (snd (fpioa_set_io_pull 47 FPIOA_PULL_UP fpioa_blank)) = 2"
  using fpioa_pad_calls_checked [OF fpioa_blank_wf, of "Set_pull 48 FPIOA_PULL_UP" 48 47 FPIOA_PULL_UP]
  by simp

end
