(* ===== verification/Iomem.thy ===== *)
theory Iomem
  imports K210_Prelude
begin

text \<open>
  The allocator of uncached memory, \<open>lib/drivers/iomem.c\<close>.  The pool below
  \<open>_ioheap_line\<close> is cut into 256-byte blocks; \<open>memmap\<close> has a 16-bit cell per block, and an
  allocation of \<open>k\<close> blocks at \<open>o\<close> writes \<open>k\<close> into its first and its last cell and leaves the
  cells between alone.  The state is \<open>malloc_cortol\<close> with the two linker-provided lines; addresses are
  integers, 32-bit truncations are written out.  The functions run inside the recursive lock
  of the allocator, so they are sequential here; the contents of the memory itself
  are not modelled.  A read or write of a cell outside the table is a value of its own.
\<close>

record iomem =
  membase :: int
  memsize :: int
  memtblsize :: int
  memmap :: "u16 list"
  memrdy :: bool
  ioheap_line :: int
  heap_line :: int

definition IOMEM_BLOCK_SIZE :: int where [simp]: "IOMEM_BLOCK_SIZE = 256"

text \<open>
  \<open>iomem_init\<close> computes the size of the table, takes the table from the C heap, which may move
  \<open>_heap_line\<close> (\<open>brk bytes line\<close> is the new line), and computes everything again.
\<close>

definition iomem_init :: "(int \<Rightarrow> int \<Rightarrow> int) \<Rightarrow> iomem \<Rightarrow> iomem" where
  "iomem_init brk s =
     (let base0 = heap_line s - 0x40000000;
          tbl0 = ((ioheap_line s - base0) mod 2 ^ 32) div IOMEM_BLOCK_SIZE;
          hl = brk (tbl0 * 2) (heap_line s);
          base = hl - 0x40000000;
          msize = (ioheap_line s - base) mod 2 ^ 32;
          tbl = msize div IOMEM_BLOCK_SIZE
      in s\<lparr>heap_line := hl, membase := base, memsize := msize, memtblsize := tbl,
           memmap := replicate (nat tbl) 0, memrdy := True\<rparr>)"

definition k_unused :: "iomem \<Rightarrow> int" where
  "k_unused s = (ioheap_line s + 0x40000000 - heap_line s) mod 2 ^ 32"

text \<open>
  The search loop of \<open>k_malloc\<close>, from the top of the table down; \<open>kmemb\<close> counts the free cells
  just above \<open>offset\<close>, and a used cell, the last one of its allocation, is skipped with the whole allocation.
\<close>

datatype search = Found int | Full | Out_of_table

function k_search :: "u16 list \<Rightarrow> int \<Rightarrow> int \<Rightarrow> int \<Rightarrow> search" where
  "k_search m xmemb offset kmemb =
     (if offset < 0 then Full
      else if int (length m) \<le> offset then Out_of_table
      else
       (let (offset, kmemb) =
            (if m ! nat offset = 0 then (offset, kmemb + 1)
             else (offset - uint (m ! nat offset) + 1, 0))
        in if kmemb = xmemb then Found offset
           else k_search m xmemb (offset - 1) kmemb))"
  by pat_completeness auto
termination
proof (relation "measure (\<lambda>(m, x, offset, k). nat (offset + 1))", goal_cases)
  case (2 m xmemb offset kmemb p offset' kmemb')
  have "1 \<le> uint (m ! nat offset)" if "m ! nat offset \<noteq> 0"
    using that by (simp add: word_neq_0_conv word_less_def)
  with 2 show ?case by (auto split: if_splits)
qed simp

declare k_search.simps [simp del]

datatype 'a outcome = Val 'a | Bad_access

definition k_malloc :: "(int \<Rightarrow> int \<Rightarrow> int) \<Rightarrow> int \<Rightarrow> iomem \<Rightarrow> (int \<times> iomem) outcome" where
  "k_malloc brk sz s =
     (let s = (if memrdy s then s else iomem_init brk s) in
      if sz = 0 then Val (0xFFFFFFFF, s)
      else
       (let xmemb = sz div IOMEM_BLOCK_SIZE;
            xmemb = (if sz mod IOMEM_BLOCK_SIZE \<noteq> 0 then xmemb + 1 else xmemb)
        in case k_search (memmap s) xmemb ((memtblsize s - 1) mod 2 ^ 32) 0 of
             Found offset \<Rightarrow>
               Val ((offset * IOMEM_BLOCK_SIZE) mod 2 ^ 32,
                 s\<lparr>memmap := (memmap s)[nat offset := word_of_int xmemb,
                     nat (offset + xmemb - 1) := word_of_int xmemb]\<rparr>)
           | Full \<Rightarrow> Val (0xFFFFFFFF, s)
           | Out_of_table \<Rightarrow> Bad_access))"

definition k_free :: "(int \<Rightarrow> int \<Rightarrow> int) \<Rightarrow> int \<Rightarrow> iomem \<Rightarrow> (int \<times> iomem) outcome" where
  "k_free brk offset s =
     (if \<not> memrdy s then Val (1, iomem_init brk s)
      else if offset < memsize s then
        (let index = offset div IOMEM_BLOCK_SIZE in
         if int (length (memmap s)) \<le> index then Bad_access
         else
          (let nmemb = uint (memmap s ! nat index); last = index + nmemb - 1 in
           if last < 0 \<or> int (length (memmap s)) \<le> last then Bad_access
           else
            (let s' = s\<lparr>memmap := (memmap s)[nat index := 0, nat last := 0]\<rparr>
             in Val (0, if ioheap_line s' = membase s' + offset
                        then s'\<lparr>ioheap_line := ioheap_line s' + nmemb * IOMEM_BLOCK_SIZE\<rparr>
                        else s'))))
      else Val (2, s))"

definition iomem_free :: "(int \<Rightarrow> int \<Rightarrow> int) \<Rightarrow> int \<Rightarrow> iomem \<Rightarrow> iomem outcome" where
  "iomem_free brk paddr s =
     (if paddr = 0 then Val s
      else case k_free brk ((paddr - membase s) mod 2 ^ 32) s of
          Val (r, s) \<Rightarrow> Val s
        | Bad_access \<Rightarrow> Bad_access)"

text \<open>The three ways \<open>iomem_malloc\<close> ends: a block, a null pointer, or the endless loop.\<close>

datatype malloc_result = Block int iomem | Null iomem | Hang iomem

definition iomem_malloc :: "(int \<Rightarrow> int \<Rightarrow> int) \<Rightarrow> int \<Rightarrow> iomem \<Rightarrow> malloc_result outcome" where
  "iomem_malloc brk sz s =
     (case k_malloc brk sz s of
        Bad_access \<Rightarrow> Bad_access
      | Val (offset, s) \<Rightarrow>
          if offset = 0xFFFFFFFF then Val (Null s)
          else
           (let p = membase s + offset in
            if ioheap_line s > p then
              (let s = s\<lparr>ioheap_line := p\<rparr> in
               if ioheap_line s < heap_line s - 0x40000000 then Val (Hang s) else Val (Block p s))
            else Val (Block p s)))"

definition iomem_unused :: "iomem \<Rightarrow> int" where
  "iomem_unused s = k_unused s"

subsection \<open>The specification: a set of allocations\<close>

text \<open>
  An allocation is a first block and a number of blocks.  \<open>represents m n B\<close>: the first \<open>n\<close>
  cells of the table \<open>m\<close> stand for the set \<open>B\<close> of pairwise disjoint allocations.
\<close>

definition within :: "int \<Rightarrow> int \<times> int \<Rightarrow> bool" where
  "within i b \<longleftrightarrow> fst b \<le> i \<and> i < fst b + snd b"

definition apart :: "int \<times> int \<Rightarrow> int \<times> int \<Rightarrow> bool" where
  "apart b c \<longleftrightarrow> fst b + snd b \<le> fst c \<or> fst c + snd c \<le> fst b"

definition free_cell :: "(int \<times> int) set \<Rightarrow> int \<Rightarrow> bool" where
  "free_cell B i \<longleftrightarrow> (\<forall>b \<in> B. \<not> within i b)"

definition free_run :: "(int \<times> int) set \<Rightarrow> int \<Rightarrow> int \<Rightarrow> bool" where
  "free_run B a x \<longleftrightarrow> (\<forall>i. a \<le> i \<and> i < a + x \<longrightarrow> free_cell B i)"

definition represents :: "u16 list \<Rightarrow> int \<Rightarrow> (int \<times> int) set \<Rightarrow> bool" where
  "represents m n B \<longleftrightarrow>
     n = int (length m) \<and>
     (\<forall>(a, k) \<in> B. 0 \<le> a \<and> 0 < k \<and> a + k \<le> n \<and>
        uint (m ! nat a) = k \<and> uint (m ! nat (a + k - 1)) = k) \<and>
     (\<forall>b \<in> B. \<forall>c \<in> B. b \<noteq> c \<longrightarrow> apart b c) \<and>
     (\<forall>i. 0 \<le> i \<and> i < n \<and> m ! nat i \<noteq> 0 \<longrightarrow> (\<exists>(a, k) \<in> B. i = a \<or> i = a + k - 1))"

subsection \<open>The search finds the highest fit\<close>

lemma representsD:
  assumes "represents m n B"
  shows "n = int (length m)"
    and "(a, k) \<in> B \<Longrightarrow> 0 \<le> a \<and> 0 < k \<and> a + k \<le> n \<and> uint (m ! nat a) = k \<and> uint (m ! nat (a + k - 1)) = k"
    and "b \<in> B \<Longrightarrow> c \<in> B \<Longrightarrow> b \<noteq> c \<Longrightarrow> apart b c"
    and "0 \<le> i \<Longrightarrow> i < n \<Longrightarrow> m ! nat i \<noteq> 0 \<Longrightarrow> \<exists>(a, k) \<in> B. i = a \<or> i = a + k - 1"
proof -
  note r = assms [unfolded represents_def]
  show "n = int (length m)" using r by (elim conjE)
  show "0 \<le> a \<and> 0 < k \<and> a + k \<le> n \<and> uint (m ! nat a) = k \<and> uint (m ! nat (a + k - 1)) = k"
    if "(a, k) \<in> B"
    using bspec [OF r [THEN conjunct2, THEN conjunct1] that] by (simp only: prod.case)
  show "apart b c" if "b \<in> B" "c \<in> B" "b \<noteq> c"
    using r [THEN conjunct2, THEN conjunct2, THEN conjunct1] that by simp
  show "\<exists>(a, k) \<in> B. i = a \<or> i = a + k - 1" if "0 \<le> i" "i < n" "m ! nat i \<noteq> 0"
    using r [THEN conjunct2, THEN conjunct2, THEN conjunct2] that by simp
qed

text \<open>
  What holds at the head of the loop: the cells counted are free and bounded above by a used
  cell or the end of the table, the position is not inside an allocation except at its last
  cell, and no fit has been passed.
\<close>

definition search_inv :: "int \<Rightarrow> (int \<times> int) set \<Rightarrow> int \<Rightarrow> int \<Rightarrow> int \<Rightarrow> bool" where
  "search_inv n B x p c \<longleftrightarrow>
     p < n \<and> 0 \<le> c \<and> c < x \<and> p + c + 1 \<le> n \<and>
     (\<forall>i. p < i \<and> i \<le> p + c \<longrightarrow> free_cell B i) \<and>
     (p + c + 1 = n \<or> \<not> free_cell B (p + c + 1)) \<and>
     (\<forall>(a, k) \<in> B. \<not> (a \<le> p \<and> p < a + k - 1)) \<and>
     (\<forall>a > p. a + x \<le> n \<longrightarrow> \<not> free_run B a x)"

lemma search_inv_start:
  assumes "represents m n B" "0 < x"
  shows "search_inv n B x (n - 1) 0"
  unfolding search_inv_def
proof (intro conjI)
  show "\<forall>(a, k) \<in> B. \<not> (a \<le> n - 1 \<and> n - 1 < a + k - 1)"
    using representsD(2) [OF assms(1)] by fastforce
qed (use assms in auto)

lemma free_at_zero:
  assumes r: "represents m n B" and inv: "search_inv n B x p c" and p: "0 \<le> p" and z: "m ! nat p = 0"
  shows "free_cell B p"
  unfolding free_cell_def
proof
  fix b assume b: "b \<in> B"
  obtain a k where bk: "b = (a, k)" by fastforce
  show "\<not> within p b"
  proof
    assume "within p b"
    then have "a \<le> p" "p < a + k" by (simp_all add: bk within_def)
    moreover have "\<not> (a \<le> p \<and> p < a + k - 1)"
      using inv b bk unfolding search_inv_def by auto
    ultimately have "p = a + k - 1" by linarith
    then show False
      using representsD(2) [OF r, of a k] b bk z by auto
  qed
qed

lemma used_at_nonzero:
  assumes r: "represents m n B" and inv: "search_inv n B x p c" and p: "0 \<le> p" "p < n" and z: "m ! nat p \<noteq> 0"
  shows "(p - uint (m ! nat p) + 1, uint (m ! nat p)) \<in> B"
proof -
  obtain a k where b: "(a, k) \<in> B" and e: "p = a \<or> p = a + k - 1"
    using representsD(4) [OF r p z] by auto
  have k: "0 < k" "uint (m ! nat (a + k - 1)) = k" using representsD(2) [OF r b] by auto
  have "\<not> (a \<le> p \<and> p < a + k - 1)"
    using inv b unfolding search_inv_def by auto
  with e k have "p = a + k - 1" by linarith
  with k b show ?thesis by simp
qed

lemma search_inv_zero:
  assumes r: "represents m n B" and inv: "search_inv n B x p c" and p: "0 \<le> p" and z: "m ! nat p = 0"
    and x: "c + 1 \<noteq> x"
  shows "search_inv n B x (p - 1) (c + 1)"
proof -
  note f = free_at_zero [OF r inv p z]
  have c: "p < n" "0 \<le> c" "c + 1 < x" "p + c + 1 \<le> n" "p + c + 1 = n \<or> \<not> free_cell B (p + c + 1)"
    "\<And>a. p < a \<Longrightarrow> a + x \<le> n \<Longrightarrow> \<not> free_run B a x"
    "\<And>i. p < i \<Longrightarrow> i \<le> p + c \<Longrightarrow> free_cell B i"
    using inv x unfolding search_inv_def by auto
  have run: "\<not> free_run B p x" if "p + x \<le> n"
    using c that unfolding free_run_def by (metis add.assoc add_le_cancel_left add_less_cancel_left
        le_add_same_cancel1 less_le_not_le zero_le_one add_nonneg_nonneg)
  show ?thesis
    unfolding search_inv_def
  proof (intro conjI)
    show "\<forall>i. p - 1 < i \<and> i \<le> p - 1 + (c + 1) \<longrightarrow> free_cell B i"
    proof (intro allI impI)
      fix i assume "p - 1 < i \<and> i \<le> p - 1 + (c + 1)"
      then show "free_cell B i" using f c(7) [of i] by (cases "i = p") auto
    qed
    show "\<forall>(a, k) \<in> B. \<not> (a \<le> p - 1 \<and> p - 1 < a + k - 1)"
      using f unfolding free_cell_def within_def by fastforce
    show "\<forall>a > p - 1. a + x \<le> n \<longrightarrow> \<not> free_run B a x"
    proof (intro allI impI)
      fix a assume "p - 1 < a" "a + x \<le> n"
      then show "\<not> free_run B a x" using run c(6) [of a] by (cases "a = p") auto
    qed
  qed (use c in \<open>auto simp: algebra_simps\<close>)
qed

lemma search_inv_skip:
  assumes r: "represents m n B" and inv: "search_inv n B x p c" and b: "(a, k) \<in> B" and p: "p = a + k - 1"
  shows "search_inv n B x (a - 1) 0"
proof -
  have ak: "0 \<le> a" "0 < k" "a + k \<le> n" using representsD(2) [OF r b] by auto
  have used: "\<not> free_cell B i" if "a \<le> i" "i \<le> p" for i
    using that b p unfolding free_cell_def within_def by fastforce
  show ?thesis
    unfolding search_inv_def
  proof (intro conjI)
    show "\<forall>(a', k') \<in> B. \<not> (a' \<le> a - 1 \<and> a - 1 < a' + k' - 1)"
    proof (clarify)
      fix a' k' assume b': "(a', k') \<in> B" and h: "a' \<le> a - 1" "a - 1 < a' + k' - 1"
      then have "apart (a, k) (a', k')" using representsD(3) [OF r b b'] by force
      with h ak show False by (auto simp: apart_def)
    qed
    show "\<forall>a' > a - 1. a' + x \<le> n \<longrightarrow> \<not> free_run B a' x"
    proof (intro allI impI)
      fix a' assume a': "a - 1 < a'" "a' + x \<le> n"
      show "\<not> free_run B a' x"
      proof (cases "a' \<le> p")
        case True
        then show ?thesis
          using used [of a'] a' inv unfolding free_run_def search_inv_def by force
      next
        case False
        then show ?thesis using a' inv unfolding search_inv_def by auto
      qed
    qed
  qed (use ak used [of a] p inv in \<open>auto simp: search_inv_def\<close>)
qed

lemma k_search_correct:
  assumes "represents m n B" "search_inv n B x p c" "-1 \<le> p"
  shows "(\<exists>o'. k_search m x p c = Found o' \<and> 0 \<le> o' \<and> o' + x \<le> n \<and> free_run B o' x \<and>
            (\<forall>a > o'. a + x \<le> n \<longrightarrow> \<not> free_run B a x)) \<or>
         (k_search m x p c = Full \<and> (\<forall>a \<ge> 0. a + x \<le> n \<longrightarrow> \<not> free_run B a x))"
  using assms
proof (induction m x p c rule: k_search.induct)
  case (1 m x p c)
  note r = 1(2) and inv = 1(3)
  have n: "n = int (length m)" by (rule representsD(1) [OF r])
  have i: "p < n" "0 \<le> c" "c < x" "p + c + 1 \<le> n"
    using inv unfolding search_inv_def by auto
  show ?case
  proof (cases "p < 0")
    case True
    then have "p = -1" using 1(4) by linarith
    moreover have "k_search m x p c = Full"
      using True by (simp add: k_search.simps [of m x p c])
    ultimately show ?thesis using inv by (auto simp: search_inv_def)
  next
    case p: False
    show ?thesis
    proof (cases "m ! nat p = 0")
      case z: True
      show ?thesis
      proof (cases "c + 1 = x")
        case True
        have "free_run B p x"
          unfolding free_run_def
        proof (intro allI impI)
          fix i assume h: "p \<le> i \<and> i < p + x"
          show "free_cell B i"
          proof (cases "i = p")
            case False
            with h True inv show ?thesis unfolding search_inv_def by auto
          qed (use free_at_zero [OF r inv _ z] p in auto)
        qed
        with p i inv True show ?thesis
          by (auto simp: k_search.simps [of m x p c] z n search_inv_def)
      next
        case False
        have "k_search m x p c = k_search m x (p - 1) (c + 1)"
          using p i False by (simp add: k_search.simps [of m x p c] z n)
        moreover note 1(1) [OF p _ _ _ _ r search_inv_zero [OF r inv _ z False]]
        ultimately show ?thesis using p i False z n by simp
      qed
    next
      case z: False
      let ?k = "uint (m ! nat p)" and ?a = "p - uint (m ! nat p) + 1"
      have b: "(?a, ?k) \<in> B" using used_at_nonzero [OF r inv _ i(1) z] p by simp
      have "k_search m x p c = k_search m x (?a - 1) 0"
        using p i by (simp add: k_search.simps [of m x p c] z n)
      moreover have "0 \<le> ?a" using representsD(2) [OF r b] by simp
      moreover note 1(1) [OF p _ _ _ _ r search_inv_skip [OF r inv b]]
      ultimately show ?thesis using p i z n by simp
    qed
  qed
qed

subsection \<open>Allocating and freeing update the set\<close>

lemma apart_sym: "apart b c \<longleftrightarrow> apart c b"
  by (auto simp: apart_def)

lemma represents_insert:
  assumes r: "represents m n B" and run: "free_run B b x" and b: "0 \<le> b" "b + x \<le> n" and x: "0 < x" "x < 2 ^ 16"
  shows "represents (m[nat b := word_of_int x, nat (b + x - 1) := word_of_int x]) n (insert (b, x) B)"
    (is "represents ?m n ?B")
proof -
  have n: "n = int (length m)" by (rule representsD(1) [OF r])
  have x': "uint (word_of_int x :: u16) = x" using x by (simp add: uint_word_of_int)
  have cell: "?m ! nat i = (if i = b \<or> i = b + x - 1 then word_of_int x else m ! nat i)" if "0 \<le> i" "i < n" for i
    using that b x n by (auto simp: nth_list_update nat_eq_iff)
  have out: "apart (b, x) c" if "c \<in> B" for c
  proof -
    obtain a k where c: "c = (a, k)" by fastforce
    have k: "0 < k" using representsD(2) [OF r] that c by blast
    have "\<not> within a (b, x)" "\<not> within b (a, k)"
      using run that c k x unfolding free_run_def free_cell_def within_def by force+
    with k x show ?thesis by (auto simp: c within_def apart_def)
  qed
  show ?thesis
    unfolding represents_def
  proof (intro conjI)
    show "n = int (length ?m)" using n by simp
    show "\<forall>(a, k) \<in> ?B. 0 \<le> a \<and> 0 < k \<and> a + k \<le> n \<and> uint (?m ! nat a) = k \<and> uint (?m ! nat (a + k - 1)) = k"
    proof clarify
      fix a k assume "(a, k) \<in> ?B"
      then consider "a = b" "k = x" | "(a, k) \<in> B" by auto
      then show "0 \<le> a \<and> 0 < k \<and> a + k \<le> n \<and> uint (?m ! nat a) = k \<and> uint (?m ! nat (a + k - 1)) = k"
      proof cases
        case 1
        with b x x' cell [of a] cell [of "a + k - 1"] show ?thesis by simp
      next
        case 2
        with representsD(2) [OF r 2] out [OF 2] cell [of a] cell [of "a + k - 1"] x
        show ?thesis by (auto simp: apart_def)
      qed
    qed
    show "\<forall>c \<in> ?B. \<forall>d \<in> ?B. c \<noteq> d \<longrightarrow> apart c d"
    proof (intro ballI impI)
      fix c d assume "c \<in> ?B" "d \<in> ?B" "c \<noteq> d"
      then consider "c \<in> B" "d \<in> B" | "c = (b, x)" "d \<in> B" | "d = (b, x)" "c \<in> B" by blast
      then show "apart c d"
        using representsD(3) [OF r _ _ \<open>c \<noteq> d\<close>] out [of c] out [of d] by cases (simp_all add: apart_sym)
    qed
    show "\<forall>i. 0 \<le> i \<and> i < n \<and> ?m ! nat i \<noteq> 0 \<longrightarrow> (\<exists>(a, k) \<in> ?B. i = a \<or> i = a + k - 1)"
    proof (intro allI impI)
      fix i assume i: "0 \<le> i \<and> i < n \<and> ?m ! nat i \<noteq> 0"
      show "\<exists>(a, k) \<in> ?B. i = a \<or> i = a + k - 1"
      proof (cases "i = b \<or> i = b + x - 1")
        case False
        with i cell [of i] have "m ! nat i \<noteq> 0" by simp
        with i representsD(4) [OF r, of i] show ?thesis by auto
      qed auto
    qed
  qed
qed

lemma represents_delete:
  assumes r: "represents m n B" and b: "(b, x) \<in> B"
  shows "represents (m[nat b := 0, nat (b + x - 1) := 0]) n (B - {(b, x)})" (is "represents ?m n ?B")
proof -
  have n: "n = int (length m)" by (rule representsD(1) [OF r])
  have bx: "0 \<le> b" "0 < x" "b + x \<le> n" using representsD(2) [OF r b] by auto
  have cell: "?m ! nat i = (if i = b \<or> i = b + x - 1 then 0 else m ! nat i)" if "0 \<le> i" "i < n" for i
    using that bx n by (auto simp: nth_list_update nat_eq_iff)
  show ?thesis
    unfolding represents_def
  proof (intro conjI)
    show "n = int (length ?m)" using n by simp
    show "\<forall>(a, k) \<in> ?B. 0 \<le> a \<and> 0 < k \<and> a + k \<le> n \<and> uint (?m ! nat a) = k \<and> uint (?m ! nat (a + k - 1)) = k"
    proof (intro ballI, rule case_prodI2)
      fix c a k assume "c \<in> ?B" "c = (a, k)"
      then have ak: "(a, k) \<in> B" "(a, k) \<noteq> (b, x)" by auto
      show "0 \<le> a \<and> 0 < k \<and> a + k \<le> n \<and> uint (?m ! nat a) = k \<and> uint (?m ! nat (a + k - 1)) = k"
        using representsD(2) [OF r ak(1)] representsD(3) [OF r ak(1) b ak(2)] cell [of a] cell [of "a + k - 1"] bx
        by (auto simp: apart_def)
    qed
    show "\<forall>c \<in> ?B. \<forall>d \<in> ?B. c \<noteq> d \<longrightarrow> apart c d"
      using representsD(3) [OF r] by blast
    show "\<forall>i. 0 \<le> i \<and> i < n \<and> ?m ! nat i \<noteq> 0 \<longrightarrow> (\<exists>(a, k) \<in> ?B. i = a \<or> i = a + k - 1)"
    proof (intro allI impI)
      fix i assume i: "0 \<le> i \<and> i < n \<and> ?m ! nat i \<noteq> 0"
      then have "i \<noteq> b" "i \<noteq> b + x - 1" "m ! nat i \<noteq> 0" using cell [of i] by (auto split: if_splits)
      with i representsD(4) [OF r, of i] show "\<exists>(a, k) \<in> ?B. i = a \<or> i = a + k - 1" by fastforce
    qed
  qed
qed

subsection \<open>The allocator keeps its pool\<close>

definition iomem_inv :: "iomem \<Rightarrow> (int \<times> int) set \<Rightarrow> bool" where
  "iomem_inv s B \<longleftrightarrow> memrdy s \<and> 0 < membase s \<and> 0 < memtblsize s \<and> memtblsize s < 2 ^ 16 \<and>
     memtblsize s = memsize s div 256 \<and> represents (memmap s) (memtblsize s) B"

definition blocks_for :: "int \<Rightarrow> int" where
  "blocks_for sz = (sz + 255) div 256"

lemma blocks_for_eq: "(if sz mod 256 \<noteq> 0 then sz div 256 + 1 else sz div 256) = blocks_for sz"
proof -
  have e: "sz = 256 * (sz div 256) + sz mod 256" and r: "0 \<le> sz mod 256" "sz mod 256 < 256" by simp_all
  show ?thesis
  proof (cases "sz mod 256 = 0")
    case True
    with e have "(sz + 255) div 256 = sz div 256" by (intro int_div_pos_eq [of _ _ _ 255]) auto
    with True show ?thesis by (simp add: blocks_for_def)
  next
    case False
    with e r have "(sz + 255) div 256 = sz div 256 + 1"
      by (intro int_div_pos_eq [of _ _ _ "sz mod 256 - 1"]) auto
    with False show ?thesis by (simp add: blocks_for_def)
  qed
qed

lemma blocks_for_bounds:
  assumes "0 < sz"
  shows "0 < blocks_for sz \<and> sz \<le> 256 * blocks_for sz \<and> 256 * blocks_for sz < sz + 256"
proof -
  have "sz + 255 = 256 * blocks_for sz + (sz + 255) mod 256" "0 \<le> (sz + 255) mod 256" "(sz + 255) mod 256 < 256"
    by (simp_all add: blocks_for_def)
  with assms show ?thesis by linarith
qed

definition iomem_alloc_at :: "int \<Rightarrow> int \<Rightarrow> iomem \<Rightarrow> iomem" where
  "iomem_alloc_at b x s = s\<lparr>memmap := (memmap s)[nat b := word_of_int x, nat (b + x - 1) := word_of_int x],
     ioheap_line := min (ioheap_line s) (membase s + 256 * b)\<rparr>"

lemma iomem_malloc_zero: "iomem_inv s B \<Longrightarrow> iomem_malloc brk 0 s = Val (Null s)"
  by (simp add: iomem_malloc_def k_malloc_def iomem_inv_def)

lemma iomem_malloc_cases:
  assumes inv: "iomem_inv s B" and sz: "0 < sz" "sz < 2 ^ 32"
  defines "x \<equiv> blocks_for sz"
  shows "(iomem_malloc brk sz s = Val (Null s) \<and> (\<forall>b. 0 \<le> b \<and> b + x \<le> memtblsize s \<longrightarrow> \<not> free_run B b x)) \<or>
    (\<exists>b. 0 \<le> b \<and> b + x \<le> memtblsize s \<and> free_run B b x \<and>
       (\<forall>a > b. a + x \<le> memtblsize s \<longrightarrow> \<not> free_run B a x) \<and>
       iomem_inv (iomem_alloc_at b x s) (insert (b, x) B) \<and>
       iomem_malloc brk sz s = Val
         (if membase s + 256 * b < ioheap_line s \<and> membase s + 256 * b < heap_line s - 0x40000000
          then Hang (iomem_alloc_at b x s) else Block (membase s + 256 * b) (iomem_alloc_at b x s)))"
proof -
  let ?n = "memtblsize s"
  have r: "represents (memmap s) ?n B" and n: "0 < ?n" "?n < 2 ^ 16" "memrdy s"
    using inv by (auto simp: iomem_inv_def)
  have x: "0 < x" using blocks_for_bounds [OF sz(1)] by (simp add: x_def)
  have start: "(?n - 1) mod 2 ^ 32 = ?n - 1" using n by simp
  have k: "k_malloc brk sz s =
     (case k_search (memmap s) x (?n - 1) 0 of
        Found b \<Rightarrow> Val ((b * 256) mod 2 ^ 32,
          s\<lparr>memmap := (memmap s)[nat b := word_of_int x, nat (b + x - 1) := word_of_int x]\<rparr>)
      | Full \<Rightarrow> Val (0xFFFFFFFF, s) | Out_of_table \<Rightarrow> Bad_access)"
    unfolding k_malloc_def start IOMEM_BLOCK_SIZE_def Let_def blocks_for_eq x_def
    using n(3) sz(1) start by simp
  consider b where "k_search (memmap s) x (?n - 1) 0 = Found b" "0 \<le> b" "b + x \<le> ?n" "free_run B b x"
      "\<forall>a > b. a + x \<le> ?n \<longrightarrow> \<not> free_run B a x"
    | "k_search (memmap s) x (?n - 1) 0 = Full" "\<forall>a \<ge> 0. a + x \<le> ?n \<longrightarrow> \<not> free_run B a x"
    using k_search_correct [OF r search_inv_start [OF r x]] n by auto
  then show ?thesis
  proof cases
    case 1
    have m: "(b * 256) mod 2 ^ 32 = b * 256" using 1 n x by simp
    have k': "k_malloc brk sz s = Val (b * 256, s\<lparr>memmap := (memmap s)[nat b := word_of_int x, nat (b + x - 1) := word_of_int x]\<rparr>)"
      by (simp only: k 1(1) search.case m)
    have "iomem_inv (iomem_alloc_at b x s) (insert (b, x) B)"
      using represents_insert [OF r 1(4) 1(2,3) x] 1 n inv by (simp add: iomem_inv_def iomem_alloc_at_def)
    moreover have "b * 256 \<noteq> 0xFFFFFFFF" using 1 n x by auto
    ultimately show ?thesis
      using 1 by (intro disjI2 exI [of _ b])
        (auto simp: iomem_malloc_def k' iomem_alloc_at_def Let_def min_def mult.commute)
  next
    case 2
    then have "k_malloc brk sz s = Val (0xFFFFFFFF, s)"
      by (simp only: k search.case)
    with 2 show ?thesis by (simp add: iomem_malloc_def)
  qed
qed

lemma iomem_free_live:
  assumes inv: "iomem_inv s B" and b: "(b, x) \<in> B"
  shows "\<exists>s'. iomem_free brk (membase s + 256 * b) s = Val s' \<and> iomem_inv s' (B - {(b, x)}) \<and>
    membase s' = membase s \<and> memsize s' = memsize s \<and> heap_line s' = heap_line s \<and>
    ioheap_line s' = (if ioheap_line s = membase s + 256 * b then ioheap_line s + 256 * x else ioheap_line s)"
proof -
  have r: "represents (memmap s) (memtblsize s) B"
    and n: "memtblsize s < 2 ^ 16" "memrdy s" "0 < membase s" "memtblsize s = memsize s div 256"
    using inv by (auto simp: iomem_inv_def)
  note bx = representsD(2) [OF r b] and len = representsD(1) [OF r]
  have "256 * b < memsize s" using bx n(4) by linarith
  moreover have "(256 * b) mod 2 ^ 32 = 256 * b" using bx n(1) by simp
  ultimately have "iomem_free brk (membase s + 256 * b) s = Val
      (s\<lparr>memmap := (memmap s)[nat b := 0, nat (b + x - 1) := 0],
         ioheap_line := if ioheap_line s = membase s + 256 * b then ioheap_line s + 256 * x else ioheap_line s\<rparr>)"
    using bx n(2,3) len by (auto simp: iomem_free_def k_free_def Let_def mult.commute)
  with represents_delete [OF r b] inv show ?thesis by (auto simp: iomem_inv_def)
qed

subsection \<open>The interface a client of an allocator relies on\<close>

text \<open>
  A client asks for blocks of a size and gives back blocks it holds.  \<open>alloc\<close> and \<open>release\<close>
  are the two calls, with \<open>None\<close> for a call that does not return (or touches memory outside the
  allocator's table); \<open>pool s C\<close> says that the allocator's state \<open>s\<close> is sound and has given out
  exactly the intervals \<open>C\<close>.
\<close>

datatype request = Malloc u32 | Free nat

fun client_run ::
  "(u32 \<Rightarrow> 's \<Rightarrow> (int option \<times> 's) option) \<Rightarrow> (int \<Rightarrow> 's \<Rightarrow> 's option) \<Rightarrow> request list \<Rightarrow>
   's \<times> (int \<times> int) list \<Rightarrow> ('s \<times> (int \<times> int) list) option" where
  "client_run al rel [] (s, live) = Some (s, live)"
| "client_run al rel (Malloc z # rs) (s, live) =
     (case al z s of
        None \<Rightarrow> None
      | Some (None, s') \<Rightarrow> client_run al rel rs (s', live)
      | Some (Some p, s') \<Rightarrow> client_run al rel rs (s', (p, uint z) # live))"
| "client_run al rel (Free i # rs) (s, live) =
     (if i < length live then
        (case rel (fst (live ! i)) s of
           None \<Rightarrow> None
         | Some s' \<Rightarrow> client_run al rel rs (s', take i live @ drop (Suc i) live))
      else client_run al rel rs (s, live))"

lemma distinct_fst_remove:
  "distinct (map fst (xs @ (p, z) # ys)) \<longleftrightarrow> distinct (map fst (xs @ ys)) \<and> p \<notin> fst ` set (xs @ ys)"
  by auto

locale allocator =
  fixes pool :: "'s \<Rightarrow> (int \<times> int) set \<Rightarrow> bool"
    and bounds :: "'s \<Rightarrow> int \<times> int"
    and alloc :: "u32 \<Rightarrow> 's \<Rightarrow> (int option \<times> 's) option"
    and release :: "int \<Rightarrow> 's \<Rightarrow> 's option"
  assumes alloc_block: "pool s C \<Longrightarrow> alloc z s = Some (Some p, s') \<Longrightarrow>
      \<exists>c \<ge> uint z. (\<forall>b \<in> C. apart b (p, c)) \<and> pool s' (insert (p, c) C) \<and> bounds s' = bounds s"
    and alloc_null: "pool s C \<Longrightarrow> alloc z s = Some (None, s') \<Longrightarrow> pool s' C \<and> bounds s' = bounds s"
    and release_block: "pool s C \<Longrightarrow> (p, c) \<in> C \<Longrightarrow>
      \<exists>s'. release p s = Some s' \<and> pool s' (C - {(p, c)}) \<and> bounds s' = bounds s"
    and alloc_returns: "pool s C \<Longrightarrow> alloc z s \<noteq> None"
    and disjoint: "pool s C \<Longrightarrow> b \<in> C \<Longrightarrow> b' \<in> C \<Longrightarrow> b \<noteq> b' \<Longrightarrow> apart b b'"
    and positive: "pool s C \<Longrightarrow> (p, c) \<in> C \<Longrightarrow> 0 < c"
    and in_bounds: "pool s C \<Longrightarrow> (p, c) \<in> C \<Longrightarrow> fst (bounds s) \<le> p \<and> p + c \<le> snd (bounds s)"
begin

definition sound :: "'s \<Rightarrow> (int \<times> int) list \<Rightarrow> bool" where
  "sound s live \<longleftrightarrow> (\<exists>C. pool s C \<and> distinct (map fst live) \<and>
     (\<forall>(p, z) \<in> set live. \<exists>c \<ge> z. (p, c) \<in> C))"

lemma sound_malloc:
  assumes "sound s live" "alloc z s = Some (Some p, s')"
  shows "sound s' ((p, uint z) # live) \<and> bounds s' = bounds s"
proof -
  obtain C where C: "pool s C" "distinct (map fst live)" "\<forall>(p, z) \<in> set live. \<exists>c \<ge> z. (p, c) \<in> C"
    using assms(1) unfolding sound_def by blast
  obtain c where c: "uint z \<le> c" "\<forall>b \<in> C. apart b (p, c)" "pool s' (insert (p, c) C)" "bounds s' = bounds s"
    using alloc_block [OF C(1) assms(2)] by blast
  have new: "q \<noteq> p" if h: "(q, y) \<in> set live" for q y
  proof
    assume "q = p"
    obtain d where d: "(q, d) \<in> C" using bspec [OF C(3) h] by auto
    from bspec [OF c(2) d] have "apart (q, d) (p, c)" .
    moreover have "0 < c" using positive [OF c(3)] by blast
    moreover have "0 < d" using positive [OF C(1) d] .
    ultimately show False using \<open>q = p\<close> by (simp add: apart_def)
  qed
  have "distinct (map fst ((p, uint z) # live))" 
  proof -
    have "p \<notin> fst ` set live" using new by force
    with C(2) show ?thesis by simp
  qed
  moreover have "\<forall>(q, y) \<in> set ((p, uint z) # live). \<exists>d \<ge> y. (q, d) \<in> insert (p, c) C"
  proof (intro ballI, rule case_prodI2)
    fix e q y assume e: "e \<in> set ((p, uint z) # live)" "e = (q, y)"
    then consider "q = p" "y = uint z" | "(q, y) \<in> set live" by auto
    then show "\<exists>d \<ge> y. (q, d) \<in> insert (p, c) C"
    proof cases
      case 1
      with c(1) show ?thesis by blast
    next
      case 2
      from bspec [OF C(3) this] show ?thesis by auto
    qed
  qed
  ultimately show ?thesis
    unfolding sound_def using c(3,4) by blast
qed

lemma sound_free:
  assumes "sound s live" "i < length live"
  shows "\<exists>s'. release (fst (live ! i)) s = Some s' \<and> sound s' (take i live @ drop (Suc i) live) \<and> bounds s' = bounds s"
proof -
  obtain C where C: "pool s C" "distinct (map fst live)" "\<forall>(p, z) \<in> set live. \<exists>c \<ge> z. (p, c) \<in> C"
    using assms(1) unfolding sound_def by blast
  obtain p z where pz: "live ! i = (p, z)" by fastforce
  then have "(p, z) \<in> set live" using nth_mem [OF assms(2)] by simp
  from bspec [OF C(3) this] obtain c where c: "(p, c) \<in> C" by auto
  obtain s' where s': "release p s = Some s'" "pool s' (C - {(p, c)})" "bounds s' = bounds s"
    using release_block [OF C(1) c] by blast
  let ?l = "take i live @ drop (Suc i) live"
  have split: "live = take i live @ (p, z) # drop (Suc i) live"
    using id_take_nth_drop [OF assms(2)] pz by simp
  have "distinct (map fst (take i live @ (p, z) # drop (Suc i) live))"
    using C(2) by (simp only: split [symmetric])
  then have d: "distinct (map fst ?l)" "p \<notin> fst ` set ?l"
    unfolding distinct_fst_remove by blast+
  have all: "\<forall>(q, y) \<in> set ?l. \<exists>d \<ge> y. (q, d) \<in> C - {(p, c)}"
  proof (intro ballI, rule case_prodI2)
    fix b q y assume b: "b \<in> set ?l" "b = (q, y)"
    then have "b \<in> set live" by (auto dest: in_set_takeD in_set_dropD)
    from bspec [OF C(3) this] obtain d where "y \<le> d" "(q, d) \<in> C" using b(2) by auto
    moreover have "q \<noteq> p" using d(2) b by force
    ultimately show "\<exists>d \<ge> y. (q, d) \<in> C - {(p, c)}" by blast
  qed
  have "sound s' ?l"
    unfolding sound_def using s'(2) d(1) all by (intro exI [of _ "C - {(p, c)}"] conjI)
  with s' pz show ?thesis by simp
qed

lemma run_sound:
  "sound s live \<Longrightarrow> \<exists>s' live'. client_run alloc release rs (s, live) = Some (s', live') \<and>
     sound s' live' \<and> bounds s' = bounds s"
proof (induction rs arbitrary: s live)
  case Nil
  then show ?case by simp
next
  case (Cons r rs)
  show ?case
  proof (cases r)
    case (Malloc z)
    obtain q s1 where q: "alloc z s = Some (q, s1)"
      using Cons.prems alloc_returns [of s _ z] unfolding sound_def by fastforce
    show ?thesis
    proof (cases q)
      case None
      have "sound s1 live \<and> bounds s1 = bounds s"
        using Cons.prems alloc_null [of s _ z s1] q None unfolding sound_def by blast
      with Cons.IH [of s1 live] q None Malloc show ?thesis by simp
    next
      case (Some p)
      have "sound s1 ((p, uint z) # live) \<and> bounds s1 = bounds s"
        using sound_malloc [OF Cons.prems, of z p s1] q Some by simp
      with Cons.IH [of s1 "(p, uint z) # live"] q Some Malloc show ?thesis by simp
    qed
  next
    case (Free i)
    show ?thesis
    proof (cases "i < length live")
      case True
      obtain s1 where s1: "release (fst (live ! i)) s = Some s1"
        "sound s1 (take i live @ drop (Suc i) live)" "bounds s1 = bounds s"
        using sound_free [OF Cons.prems True] by blast
      with Cons.IH [OF s1(2)] Free True show ?thesis by simp
    next
      case False
      with Cons Free show ?thesis by simp
    qed
  qed
qed

lemma sound_disjoint:
  assumes "sound s live" "i < length live" "j < length live" "i \<noteq> j"
  shows "apart (live ! i) (live ! j)"
proof -
  obtain C where C: "pool s C" "distinct (map fst live)" "\<forall>(p, z) \<in> set live. \<exists>c \<ge> z. (p, c) \<in> C"
    using assms(1) unfolding sound_def by blast
  obtain p y q z where e: "live ! i = (p, y)" "live ! j = (q, z)" by fastforce
  have "(p, y) \<in> set live" "(q, z) \<in> set live"
    using e nth_mem [OF assms(2)] nth_mem [OF assms(3)] by auto
  from bspec [OF C(3) this(1)] bspec [OF C(3) this(2)]
  obtain c d where c: "y \<le> c" "(p, c) \<in> C" "z \<le> d" "(q, d) \<in> C" by auto
  have "p \<noteq> q"
    using C(2) assms(2-4) e by (metis fst_conv length_map nth_eq_iff_index_eq nth_map)
  then have "apart (p, c) (q, d)" using disjoint [OF C(1) c(2,4)] by simp
  with c show ?thesis by (auto simp: e apart_def)
qed

lemma sound_bounds:
  "sound s live \<Longrightarrow> (p, z) \<in> set live \<Longrightarrow> fst (bounds s) \<le> p \<and> p + z \<le> snd (bounds s)"
  unfolding sound_def using in_bounds by fastforce

end

subsection \<open>\<open>iomem\<close> provides it\<close>

definition iomem_pool :: "iomem \<Rightarrow> (int \<times> int) set \<Rightarrow> bool" where
  "iomem_pool s C \<longleftrightarrow> heap_line s - 0x40000000 \<le> membase s \<and>
     (\<exists>B. iomem_inv s B \<and> C = (\<lambda>(a, k). (membase s + 256 * a, 256 * k)) ` B)"

definition iomem_bounds :: "iomem \<Rightarrow> int \<times> int" where
  "iomem_bounds s = (membase s, membase s + memsize s)"

definition iomem_alloc :: "(int \<Rightarrow> int \<Rightarrow> int) \<Rightarrow> u32 \<Rightarrow> iomem \<Rightarrow> (int option \<times> iomem) option" where
  "iomem_alloc brk z s =
     (case iomem_malloc brk (uint z) s of
        Val (Block p s') \<Rightarrow> Some (Some p, s')
      | Val (Null s') \<Rightarrow> Some (None, s')
      | _ \<Rightarrow> None)"

definition iomem_release :: "(int \<Rightarrow> int \<Rightarrow> int) \<Rightarrow> int \<Rightarrow> iomem \<Rightarrow> iomem option" where
  "iomem_release brk p s = (case iomem_free brk p s of Val s' \<Rightarrow> Some s' | Bad_access \<Rightarrow> None)"

lemma iomem_invD: "iomem_inv s B \<Longrightarrow> represents (memmap s) (memtblsize s) B"
  and iomem_inv_table: "iomem_inv s B \<Longrightarrow> memtblsize s = memsize s div 256"
  unfolding iomem_inv_def by blast+

lemma iomem_alloc_cases:
  assumes inv: "iomem_inv s B"
  obtains (null) "iomem_alloc brk z s = Some (None, s)"
  | (block) b where "0 \<le> b" "free_run B b (blocks_for (uint z))" "0 < uint z"
      "iomem_inv (iomem_alloc_at b (blocks_for (uint z)) s) (insert (b, blocks_for (uint z)) B)"
      "iomem_alloc brk z s = Some (Some (membase s + 256 * b), iomem_alloc_at b (blocks_for (uint z)) s)"
  | (hang) b where "0 \<le> b" "membase s + 256 * b < heap_line s - 0x40000000" "iomem_alloc brk z s = None"
proof (cases "uint z = 0")
  case True
  with iomem_malloc_zero [OF inv, of brk] null show thesis by (simp add: iomem_alloc_def)
next
  case False
  then have z: "0 < uint z" by (simp add: order_less_le)
  have "uint z < 2 ^ 32" using uint_lt2p [of z] by simp
  from iomem_malloc_cases [OF inv z this, of brk] show thesis
  proof (elim disjE exE conjE)
    assume "iomem_malloc brk (uint z) s = Val (Null s)"
    with null show thesis by (simp add: iomem_alloc_def)
  next
    fix b assume b: "0 \<le> b" "free_run B b (blocks_for (uint z))"
      "iomem_inv (iomem_alloc_at b (blocks_for (uint z)) s) (insert (b, blocks_for (uint z)) B)"
      "iomem_malloc brk (uint z) s = Val
        (if membase s + 256 * b < ioheap_line s \<and> membase s + 256 * b < heap_line s - 0x40000000
         then Hang (iomem_alloc_at b (blocks_for (uint z)) s)
         else Block (membase s + 256 * b) (iomem_alloc_at b (blocks_for (uint z)) s))"
    show thesis
    proof (cases "membase s + 256 * b < ioheap_line s \<and> membase s + 256 * b < heap_line s - 0x40000000")
      case True
      with b hang [of b] show thesis by (simp add: iomem_alloc_def)
    next
      case False
      with b z block [of b] show thesis by (simp add: iomem_alloc_def)
    qed
  qed
qed

lemma apart_scale: "apart (m + 256 * a, 256 * k) (m + 256 * b, 256 * l) \<longleftrightarrow> apart (a, k) (b, l)"
  by (auto simp: apart_def)

interpretation iomem: allocator iomem_pool iomem_bounds "iomem_alloc brk" "iomem_release brk" for brk
proof (unfold_locales, goal_cases)
  case (1 s C z p s')
  then obtain B where B: "iomem_inv s B" "C = (\<lambda>(a, k). (membase s + 256 * a, 256 * k)) ` B"
    by (auto simp: iomem_pool_def)
  from B(1) obtain b where b: "p = membase s + 256 * b" "free_run B b (blocks_for (uint z))" "0 < uint z"
    "s' = iomem_alloc_at b (blocks_for (uint z)) s" "iomem_inv s' (insert (b, blocks_for (uint z)) B)"
    using 1(2) by (cases rule: iomem_alloc_cases [where brk = brk and z = z]) auto
  let ?x = "blocks_for (uint z)"
  note x = blocks_for_bounds [OF b(3)]
  have r': "represents (memmap s') (memtblsize s') (insert (b, ?x) B)"
    by (rule iomem_invD [OF b(5)])
  have out: "apart c (b, ?x)" if "c \<in> B" for c
  proof (rule representsD(3) [OF r'])
    have "\<not> within b c" using b(2) x that unfolding free_run_def free_cell_def by auto
    then show "c \<noteq> (b, ?x)" using x by (auto simp: within_def)
  qed (use that in auto)
  have "\<forall>c \<in> C. apart c (p, 256 * ?x)"
  proof
    fix c assume "c \<in> C"
    then obtain a k where "c = (membase s + 256 * a, 256 * k)" "(a, k) \<in> B" using B(2) by auto
    with out [of "(a, k)"] b(1) show "apart c (p, 256 * ?x)" by (simp only: apart_scale)
  qed
  moreover have "iomem_pool s' (insert (p, 256 * ?x) C)"
    unfolding iomem_pool_def using b 1(1) by (intro conjI exI [of _ "insert (b, ?x) B"]) (auto simp: B(2) iomem_alloc_at_def iomem_pool_def)
  ultimately show ?case
    using x b(4) by (intro exI [of _ "256 * ?x"]) (auto simp: iomem_bounds_def iomem_alloc_at_def)
next
  case (2 s C z s')
  then obtain B where "iomem_inv s B" by (auto simp: iomem_pool_def)
  then have "s' = s"
    using 2(2) by (cases rule: iomem_alloc_cases [where brk = brk and z = z]) auto
  with 2 show ?case by simp
next
  case (3 s C p c)
  then obtain B b x where B: "iomem_inv s B" "C = (\<lambda>(a, k). (membase s + 256 * a, 256 * k)) ` B"
    "(b, x) \<in> B" "p = membase s + 256 * b" "c = 256 * x"
    by (auto simp: iomem_pool_def)
  obtain s' where s': "iomem_free brk p s = Val s'" "iomem_inv s' (B - {(b, x)})"
      "membase s' = membase s" "memsize s' = memsize s" "heap_line s' = heap_line s"
    using iomem_free_live [OF B(1,3), of brk] B(4) by blast
  have "inj (\<lambda>(a :: int, k :: int). (membase s + 256 * a, 256 * k))" by (auto simp: inj_def)
  then have "C - {(p, c)} = (\<lambda>(a, k). (membase s + 256 * a, 256 * k)) ` (B - {(b, x)})"
    using B by (simp add: image_set_diff)
  with s' 3(1) show ?case
    by (intro exI [of _ s']) (auto simp: iomem_release_def iomem_pool_def iomem_bounds_def)
next
  case (4 s C z)
  then obtain B where B: "iomem_inv s B" "heap_line s - 0x40000000 \<le> membase s" by (auto simp: iomem_pool_def)
  from B(1) show ?case
    using B(2) by (cases rule: iomem_alloc_cases [where brk = brk and z = z]) auto
next
  case (5 s C b b')
  then obtain B where B: "iomem_inv s B" "C = (\<lambda>(a, k). (membase s + 256 * a, 256 * k)) ` B"
    by (auto simp: iomem_pool_def)
  then obtain x y where xy: "x \<in> B" "y \<in> B" "b = (membase s + 256 * fst x, 256 * snd x)"
    "b' = (membase s + 256 * fst y, 256 * snd y)"
    using 5(2,3) by (auto simp: image_iff case_prod_unfold)
  then have "x \<noteq> y" using 5(4) by blast
  from representsD(3) [OF iomem_invD [OF B(1)] xy(1,2) \<open>x \<noteq> y\<close>] show ?case
    unfolding xy apart_scale by simp
next
  case (6 s C p c)
  then obtain B b x where B: "iomem_inv s B" "(b, x) \<in> B" "c = 256 * x"
    by (auto simp: iomem_pool_def)
  from representsD(2) [OF iomem_invD [OF B(1)] B(2)] B(3) show ?case by simp
next
  case (7 s C p c)
  then obtain B b x where B: "iomem_inv s B" "(b, x) \<in> B" "p = membase s + 256 * b" "c = 256 * x"
    by (auto simp: iomem_pool_def)
  from representsD(2) [OF iomem_invD [OF B(1)] B(2)] iomem_inv_table [OF B(1)] have "0 \<le> b" "b + x \<le> memsize s div 256" by simp_all
  moreover have "256 * (memsize s div 256) \<le> memsize s"
    using pos_mod_sign [of 256 "memsize s"] minus_mod_eq_mult_div [of "memsize s" 256] by linarith
  ultimately have "256 * (b + x) \<le> memsize s"
    using mult_left_mono [of "b + x" "memsize s div 256" 256] by linarith
  with B \<open>0 \<le> b\<close> show ?case by (simp add: iomem_bounds_def)
qed

lemma iomem_init_inv:
  fixes s :: iomem and brk :: "int \<Rightarrow> int \<Rightarrow> int"
  defines "s1 \<equiv> iomem_init brk s"
  assumes "0x40000000 < heap_line s1" "256 \<le> ioheap_line s - (heap_line s1 - 0x40000000)"
    "ioheap_line s - (heap_line s1 - 0x40000000) < 2 ^ 24"
  shows "iomem_inv s1 {}" and "iomem_pool s1 {}"
proof -
  let ?d = "ioheap_line s - (heap_line s1 - 0x40000000)"
  have "?d mod 2 ^ 32 = ?d" using assms(3,4) by (intro mod_pos_pos_trivial) simp_all
  then have e: "membase s1 = heap_line s1 - 0x40000000" "memsize s1 = ?d" "memtblsize s1 = ?d div 256" "memrdy s1"
    "memmap s1 = replicate (nat (?d div 256)) 0"
    unfolding s1_def iomem_init_def Let_def by simp_all
  have q: "?d = 256 * (?d div 256) + ?d mod 256" "0 \<le> ?d mod 256" "?d mod 256 < 256" by simp_all
  have d: "0 < ?d div 256" using q assms(3) by linarith
  have d': "?d div 256 < 2 ^ 16" using q assms(4) by simp
  have r: "represents (replicate (nat n) 0) n {}" if "0 < n" for n
    using that by (simp add: represents_def)
  show inv: "iomem_inv s1 {}"
    unfolding iomem_inv_def e using e(4) d d' r [OF d] assms(2) by simp
  then show "iomem_pool s1 {}" unfolding iomem_pool_def e by auto
qed

subsection \<open>Properties\<close>

text \<open>A pool of eight blocks, for the examples: the C heap ends where its alias begins.\<close>

definition small_pool :: iomem where
  "small_pool = \<lparr>membase = 0x40000000, memsize = 2048, memtblsize = 8, memmap = replicate 8 0,
     memrdy = True, ioheap_line = 0x40000800, heap_line = 0x80000000\<rparr>"

lemma small_pool_inv: "iomem_inv small_pool {}"
  by (simp add: iomem_inv_def represents_def small_pool_def nth_Cons' eval_nat_numeral)

text \<open>\<open>iomem_malloc\<close> of a positive size never touches a cell outside its table.  It returns a null
  pointer, with the state unchanged, exactly when no run of free blocks is long enough; otherwise
  it takes the highest run, records it (the new allocation is disjoint from the live ones), moves \<open>_ioheap_line\<close> down to
  it if it lies below, and returns its address, or loops for ever if it lies below the C heap as well.\<close>

lemma iomem_malloc_highest_fit:
  assumes inv: "iomem_inv s B" and sz: "0 < sz" "sz < 2 ^ 32"
  shows "(iomem_malloc brk sz s = Val (Null s) \<and>
       (\<forall>b. 0 \<le> b \<and> b + blocks_for sz \<le> memtblsize s \<longrightarrow> \<not> free_run B b (blocks_for sz))) \<or>
    (\<exists>b. 0 \<le> b \<and> b + blocks_for sz \<le> memtblsize s \<and> free_run B b (blocks_for sz) \<and>
       (\<forall>a > b. a + blocks_for sz \<le> memtblsize s \<longrightarrow> \<not> free_run B a (blocks_for sz)) \<and>
       iomem_inv (iomem_alloc_at b (blocks_for sz) s) (insert (b, blocks_for sz) B) \<and>
       iomem_malloc brk sz s = Val
         (if membase s + 256 * b < ioheap_line s \<and> membase s + 256 * b < heap_line s - 0x40000000
          then Hang (iomem_alloc_at b (blocks_for sz) s)
          else Block (membase s + 256 * b) (iomem_alloc_at b (blocks_for sz) s)))"
  using assms by (rule iomem_malloc_cases)

lemma iomem_malloc_highest_fit_witness:
  "\<exists>b. 0 \<le> b \<and> free_run {} b 3 \<and> iomem_inv (iomem_alloc_at b 3 small_pool) {(b, 3)}"
proof -
  have f: "free_run {} 0 3" by (simp add: free_run_def free_cell_def)
  have e: "blocks_for 600 = 3" "memtblsize small_pool = 8" by (simp_all add: blocks_for_def small_pool_def)
  have "\<not> (\<forall>b. 0 \<le> b \<and> b + 3 \<le> (8 :: int) \<longrightarrow> \<not> free_run {} b 3)" using f by fastforce
  with iomem_malloc_highest_fit [OF small_pool_inv, of 600 "\<lambda>n l. l"] show ?thesis
    unfolding e by (simp del: not_all) blast
qed

text \<open>\<open>iomem_free\<close> of a live allocation returns, takes exactly that allocation out of the pool, and moves
  \<open>_ioheap_line\<close> up behind it if the allocation was the lowest one.\<close>

lemma iomem_free_removes:
  assumes "iomem_inv s B" "(b, x) \<in> B"
  shows "\<exists>s'. iomem_free brk (membase s + 256 * b) s = Val s' \<and> iomem_inv s' (B - {(b, x)}) \<and>
    membase s' = membase s \<and> memsize s' = memsize s \<and> heap_line s' = heap_line s \<and>
    ioheap_line s' = (if ioheap_line s = membase s + 256 * b then ioheap_line s + 256 * x else ioheap_line s)"
  using assms by (rule iomem_free_live)

lemma small_pool_used: "iomem_inv (iomem_alloc_at 5 3 small_pool) {(5, 3)}"
proof -
  have "represents (memmap small_pool) 8 {}" using small_pool_inv by (simp add: iomem_inv_def small_pool_def)
  from represents_insert [OF this, of 5 3] show ?thesis
    by (simp add: iomem_inv_def iomem_alloc_at_def small_pool_def free_run_def free_cell_def)
qed

lemma iomem_free_removes_witness:
  "\<exists>s'. iomem_free (\<lambda>n l. l) 0x40000500 (iomem_alloc_at 5 3 small_pool) = Val s' \<and> iomem_inv s' {} \<and>
     ioheap_line s' = 0x40000800"
  using iomem_free_removes [OF small_pool_used, of 5 3 "\<lambda>n l. l"]
  by (auto simp: iomem_alloc_at_def small_pool_def)

text \<open>C7.  From the pool \<open>iomem_init\<close> sets up, every sequence of requests and of frees of live
  pointers runs to its end, and all blocks live at the end are pairwise disjoint, as long as
  requested, and inside the pool: no reachable state of the allocator hands out memory twice.\<close>

theorem iomem_live_blocks_disjoint:
  fixes s :: iomem and brk :: "int \<Rightarrow> int \<Rightarrow> int"
  assumes "0x40000000 < heap_line (iomem_init brk s)"
    and "256 \<le> ioheap_line s - (heap_line (iomem_init brk s) - 0x40000000)"
    and "ioheap_line s - (heap_line (iomem_init brk s) - 0x40000000) < 2 ^ 24"
  shows "\<exists>s' live. client_run (iomem_alloc brk) (iomem_release brk) rs (iomem_init brk s, []) = Some (s', live) \<and>
    (\<forall>i j. i < length live \<and> j < length live \<and> i \<noteq> j \<longrightarrow> apart (live ! i) (live ! j)) \<and>
    (\<forall>(p, z) \<in> set live. membase (iomem_init brk s) \<le> p \<and>
       p + z \<le> membase (iomem_init brk s) + memsize (iomem_init brk s))"
proof -
  have "iomem.sound (iomem_init brk s) []"
    using iomem_init_inv(2) [OF assms] unfolding iomem.sound_def by auto
  from iomem.run_sound [OF this, of brk rs] obtain s' live
    where "client_run (iomem_alloc brk) (iomem_release brk) rs (iomem_init brk s, []) = Some (s', live)"
      and "iomem.sound s' live" "iomem_bounds s' = iomem_bounds (iomem_init brk s)" by blast
  then show ?thesis
    using iomem.sound_disjoint [of s' live] iomem.sound_bounds [of s' live]
    by (intro exI [of _ s'] exI [of _ live]) (auto simp: iomem_bounds_def)
qed

theorem iomem_live_blocks_disjoint_witness:
  "\<exists>s' live. client_run (iomem_alloc (\<lambda>n l. l + 256)) (iomem_release (\<lambda>n l. l + 256)) [Malloc 600, Malloc 100, Free 1, Malloc 256]
     (iomem_init (\<lambda>n l. l + 256) (small_pool\<lparr>memrdy := False\<rparr>), []) = Some (s', live) \<and>
    (\<forall>i j. i < length live \<and> j < length live \<and> i \<noteq> j \<longrightarrow> apart (live ! i) (live ! j))"
  using iomem_live_blocks_disjoint [of "\<lambda>n l. l + 256" "small_pool\<lparr>memrdy := False\<rparr>"
      "[Malloc 600, Malloc 100, Free 1, Malloc 256]"]
  by (fastforce simp: iomem_init_def small_pool_def Let_def)

text \<open>The line between the C heap and the pool is not always restored: after two allocations,
  freeing the upper one first leaves every block free and \<open>_ioheap_line\<close> below the top, so
  the C heap cannot use the block between; in the other order the line is restored.\<close>

lemma iomem_line_depends_on_free_order:
  "(case client_run (iomem_alloc (\<lambda>n l. l)) (iomem_release (\<lambda>n l. l)) [Malloc 256, Malloc 256, Free 1, Free 0]
      (small_pool, []) of
      Some (s, live) \<Rightarrow> live = [] \<and> memmap s = memmap small_pool \<and> ioheap_line s = ioheap_line small_pool - 256
    | None \<Rightarrow> False) \<and>
   (case client_run (iomem_alloc (\<lambda>n l. l)) (iomem_release (\<lambda>n l. l)) [Malloc 256, Malloc 256, Free 0, Free 0]
      (small_pool, []) of
      Some (s, live) \<Rightarrow> live = [] \<and> memmap s = memmap small_pool \<and> ioheap_line s = ioheap_line small_pool
    | None \<Rightarrow> False)"
  by code_simp

end
