(* ===== verification/Heap.thy ===== *)
theory Heap
  imports Iomem
begin

text \<open>
  The break of the C heap, \<open>sys_brk\<close> of \<open>lib/bsp/syscalls.c\<close>, and the one memory it shares
  with the uncached allocator: the C heap grows up to \<open>_heap_line\<close>, the pool of
  \<open>iomem.c\<close> grows down to \<open>_ioheap_line\<close>, an alias of the same memory 0x40000000 lower, and each
  side checks the other's line.
\<close>

record heap =
  io_heap :: iomem
  heap_cur :: int

definition ENOMEM :: int where "ENOMEM = 12"

text \<open>
  \<open>None\<close> is the endless loop after "Out of memory!".  The result is a \<open>size_t\<close>, so
  \<open>-ENOMEM\<close> is taken modulo \<open>2 ^ 64\<close>.
\<close>

definition sys_brk :: "int \<Rightarrow> int \<Rightarrow> int \<Rightarrow> heap \<Rightarrow> (int \<times> heap) option" where
  "sys_brk heap_start heap_end pos h =
     (if pos \<noteq> 0 then
        (if pos > heap_end then Some ((- ENOMEM) mod 2 ^ 64, h)
         else if pos > heap_line (io_heap h) then
          (let h = h\<lparr>io_heap := (io_heap h)\<lparr>heap_line := pos\<rparr>\<rparr>
           in if heap_line (io_heap h) - 0x40000000 > ioheap_line (io_heap h) then None
              else Some (pos, h\<lparr>heap_cur := pos\<rparr>))
         else Some (pos, h\<lparr>heap_cur := pos\<rparr>))
      else Some (heap_start, h))"

subsection \<open>Both heaps together\<close>

text \<open>
  One call at a time, in any order: the program asks for uncached memory or frees a block it
  holds, and newlib moves the break.  \<open>live\<close> is the list of blocks the program holds, with the sizes it asked for.
\<close>

inductive heap_step ::
  "int \<Rightarrow> int \<Rightarrow> heap \<times> (int \<times> int) list \<Rightarrow> heap \<times> (int \<times> int) list \<Rightarrow> bool" for hs he where
  malloc_block: "iomem_malloc brk (uint (z :: u32)) (io_heap h) = Val (Block p s') \<Longrightarrow>
     heap_step hs he (h, live) (h\<lparr>io_heap := s'\<rparr>, (p, uint z) # live)"
| malloc_null: "iomem_malloc brk (uint (z :: u32)) (io_heap h) = Val (Null s') \<Longrightarrow>
     heap_step hs he (h, live) (h\<lparr>io_heap := s'\<rparr>, live)"
| free: "(p, z) \<in> set live \<Longrightarrow> iomem_free brk p (io_heap h) = Val s' \<Longrightarrow>
     heap_step hs he (h, live) (h\<lparr>io_heap := s'\<rparr>, remove1 (p, z) live)"
| break: "0 \<le> pos \<Longrightarrow> sys_brk hs he pos h = Some (r, h') \<Longrightarrow> heap_step hs he (h, live) (h', live)"

inductive_cases heap_stepE: "heap_step hs he (h, live) x"

inductive heap_reachable :: "int \<Rightarrow> int \<Rightarrow> heap \<Rightarrow> heap \<times> (int \<times> int) list \<Rightarrow> bool" for hs he h0 where
  start: "heap_reachable hs he h0 (h0, [])"
| step: "heap_reachable hs he h0 x \<Longrightarrow> heap_step hs he x y \<Longrightarrow> heap_reachable hs he h0 y"

definition lines_inv :: "iomem \<Rightarrow> (int \<times> int) set \<Rightarrow> bool" where
  "lines_inv s B \<longleftrightarrow> iomem_inv s B \<and> (\<forall>(a, k) \<in> B. ioheap_line s \<le> membase s + 256 * a) \<and>
     heap_line s - 0x40000000 \<le> ioheap_line s"

definition heap_inv :: "heap \<times> (int \<times> int) list \<Rightarrow> bool" where
  "heap_inv x \<longleftrightarrow> (case x of (h, live) \<Rightarrow> \<exists>B. lines_inv (io_heap h) B \<and> heap_cur h \<le> heap_line (io_heap h) \<and>
     distinct (map fst live) \<and>
     (\<forall>(p, z) \<in> set live. \<exists>a k. (a, k) \<in> B \<and> p = membase (io_heap h) + 256 * a))"

lemma malloc_lines:
  assumes inv: "lines_inv s B" and m: "iomem_malloc brk (uint (z :: u32)) s = Val (Block p s')"
  obtains b x where "(b, x) \<notin> B" "\<forall>(a, k) \<in> B. a \<noteq> b" "lines_inv s' (insert (b, x) B)" "p = membase s + 256 * b"
    "membase s' = membase s" "heap_line s' = heap_line s"
proof -
  have i: "iomem_inv s B" and l: "\<forall>(a, k) \<in> B. ioheap_line s \<le> membase s + 256 * a"
      "heap_line s - 0x40000000 \<le> ioheap_line s"
    using inv by (auto simp: lines_inv_def)
  have "iomem_alloc brk z s = Some (Some p, s')" using m by (simp add: iomem_alloc_def)
  with i obtain b where b: "p = membase s + 256 * b" "free_run B b (blocks_for (uint z))" "0 < uint z"
      "s' = iomem_alloc_at b (blocks_for (uint z)) s" "iomem_inv s' (insert (b, blocks_for (uint z)) B)"
    by (cases rule: iomem_alloc_cases [where brk = brk and z = z]) auto
  let ?x = "blocks_for (uint z)"
  have x: "0 < ?x" using blocks_for_bounds [OF b(3)] by simp
  have new: "a \<noteq> b" if "(a, k) \<in> B" for a k
    using b(2) x that representsD(2) [OF iomem_invD [OF i] that]
    unfolding free_run_def free_cell_def within_def by fastforce
  have nohang: "\<not> (p < ioheap_line s \<and> p < heap_line s - 0x40000000)"
  proof
    assume h: "p < ioheap_line s \<and> p < heap_line s - 0x40000000"
    have "0 < uint z" "uint z < 2 ^ 32" using b(3) uint_lt2p [of z] by simp_all
    from iomem_malloc_cases [OF i this, of brk] m
    obtain b' where "0 \<le> b'" "Val (Block p s') = Val
         (if membase s + 256 * b' < ioheap_line s \<and> membase s + 256 * b' < heap_line s - 0x40000000
          then Hang (iomem_alloc_at b' ?x s) else Block (membase s + 256 * b') (iomem_alloc_at b' ?x s))"
      by auto
    then show False using h by (auto split: if_splits)
  qed
  have "ioheap_line s' = min (ioheap_line s) p" "membase s' = membase s" "heap_line s' = heap_line s"
    by (simp_all add: b(4,1) iomem_alloc_at_def)
  moreover from this have "lines_inv s' (insert (b, ?x) B)"
    unfolding lines_inv_def using b(5,1) l nohang by (auto simp: min_def)
  ultimately show thesis using that [of b ?x] b(1) new by auto
qed

lemma free_lines:
  assumes inv: "lines_inv s B" and b: "(b, x) \<in> B"
  shows "\<exists>s'. iomem_free brk (membase s + 256 * b) s = Val s' \<and> lines_inv s' (B - {(b, x)}) \<and>
    membase s' = membase s \<and> heap_line s' = heap_line s"
proof -
  have i: "iomem_inv s B" and l: "\<And>a k. (a, k) \<in> B \<Longrightarrow> ioheap_line s \<le> membase s + 256 * a"
      "heap_line s - 0x40000000 \<le> ioheap_line s"
    using inv by (auto simp: lines_inv_def)
  obtain s' where s': "iomem_free brk (membase s + 256 * b) s = Val s'" "iomem_inv s' (B - {(b, x)})"
    "membase s' = membase s" "heap_line s' = heap_line s"
    "ioheap_line s' = (if ioheap_line s = membase s + 256 * b then ioheap_line s + 256 * x else ioheap_line s)"
    using iomem_free_live [OF i b, of brk] by blast
  note r = representsD [OF iomem_invD [OF i]]
  have "ioheap_line s' \<le> membase s + 256 * a" if "(a, k) \<in> B - {(b, x)}" for a k
    using l(1) [of a k] that r(2) [of a k] r(2) [OF b] r(3) [of "(a, k)" "(b, x)"] b
    by (auto simp: s'(5) apart_def)
  moreover have "heap_line s' - 0x40000000 \<le> ioheap_line s'"
    using l(2) r(2) [OF b] by (simp add: s'(4,5))
  ultimately have "lines_inv s' (B - {(b, x)})"
    unfolding lines_inv_def using s'(2,3) by auto
  with s' show ?thesis by blast
qed

lemma distinct_fst_unique: "distinct (map fst xs) \<Longrightarrow> (p, y) \<in> set xs \<Longrightarrow> (p, z) \<in> set xs \<Longrightarrow> y = z"
  by (induction xs) force+

lemma heap_step_inv:
  assumes "heap_step hs he x y" "heap_inv x"
  shows "heap_inv y"
  using assms
proof (cases rule: heap_step.cases)
  case (malloc_block brk z h p s' live)
  with assms(2) obtain B where B: "lines_inv (io_heap h) B" "heap_cur h \<le> heap_line (io_heap h)"
    "distinct (map fst live)" "\<forall>(p, z) \<in> set live. \<exists>a k. (a, k) \<in> B \<and> p = membase (io_heap h) + 256 * a"
    by (auto simp: heap_inv_def)
  obtain b x' where b: "(b, x') \<notin> B" "\<forall>(a, k) \<in> B. a \<noteq> b" "lines_inv s' (insert (b, x') B)"
    "p = membase (io_heap h) + 256 * b" "membase s' = membase (io_heap h)" "heap_line s' = heap_line (io_heap h)"
    by (rule malloc_lines [OF B(1) malloc_block(3)])
  have "p \<notin> fst ` set live" using B(4) b(2,4) by fastforce
  have held: "\<exists>a k. (a, k) \<in> insert (b, x') B \<and> q = membase s' + 256 * a"
    if q: "(q, y) \<in> set ((p, uint z) # live)" for q y
  proof (cases "(q, y) \<in> set live")
    case True
    from bspec [OF B(4) this] b(5) show ?thesis by auto
  next
    case False
    with q b(4,5) show ?thesis by auto
  qed
  have "distinct (map fst ((p, uint z) # live))"
    using B(3) \<open>p \<notin> fst ` set live\<close> by simp
  then show ?thesis
    unfolding malloc_block(2) heap_inv_def using B(2) b(3,6) held
    by (intro case_prodI exI [of _ "insert (b, x') B"] conjI ballI case_prodI2) simp_all
next
  case (malloc_null brk z h s' live)
  then have al: "iomem_alloc brk z (io_heap h) = Some (None, s')" by (simp add: iomem_alloc_def)
  obtain B where "iomem_inv (io_heap h) B"
    using assms(2) malloc_null(1) by (auto simp: heap_inv_def lines_inv_def)
  then have "s' = io_heap h"
    using al by (cases rule: iomem_alloc_cases [where brk = brk and z = z]) auto
  with assms(2) malloc_null show ?thesis by simp
next
  case (free p z live brk h s')
  with assms(2) obtain B where B: "lines_inv (io_heap h) B" "heap_cur h \<le> heap_line (io_heap h)"
    "distinct (map fst live)" "\<forall>(p, z) \<in> set live. \<exists>a k. (a, k) \<in> B \<and> p = membase (io_heap h) + 256 * a"
    by (auto simp: heap_inv_def)
  from bspec [OF B(4) free(3)] obtain a k where a: "(a, k) \<in> B" "p = membase (io_heap h) + 256 * a" by auto
  from free_lines [OF B(1) a(1), of brk] free(4) a(2)
  have s': "lines_inv s' (B - {(a, k)})" "membase s' = membase (io_heap h)" "heap_line s' = heap_line (io_heap h)"
    by auto
  have "\<exists>a' k'. (a', k') \<in> B - {(a, k)} \<and> q = membase s' + 256 * a'" if q: "(q, y) \<in> set (remove1 (p, z) live)" for q y
  proof -
    have "(q, y) \<in> set live" using q set_remove1_subset by fastforce
    moreover have "(q, y) \<noteq> (p, z)" using q B(3) by (auto simp: distinct_map)
    ultimately have "q \<noteq> p" using distinct_fst_unique [OF B(3) free(3)] by auto
    moreover from bspec [OF B(4) \<open>(q, y) \<in> set live\<close>] obtain a' k'
      where "(a', k') \<in> B" "q = membase (io_heap h) + 256 * a'" by auto
    ultimately show ?thesis using a(2) s'(2) by auto
  qed
  then show ?thesis
    unfolding free(2) heap_inv_def using s' B(2,3)
    by (auto simp: distinct_map intro!: exI [of _ "B - {(a, k)}"] intro: inj_on_diff)
next
  case (break pos h r h' live)
  then show ?thesis
    using assms(2)
    by (auto simp: heap_inv_def sys_brk_def Let_def lines_inv_def iomem_inv_def split: if_splits)
qed

lemma heap_reachable_inv: "heap_reachable hs he h0 x \<Longrightarrow> heap_inv (h0, []) \<Longrightarrow> heap_inv x"
  by (induction rule: heap_reachable.induct) (auto intro: heap_step_inv)

definition small_heap :: heap where
  "small_heap = \<lparr>io_heap = small_pool, heap_cur = 0x80000000\<rparr>"

lemma small_heap_inv: "heap_inv (small_heap, [])"
  using small_pool_inv by (auto simp: heap_inv_def lines_inv_def small_heap_def small_pool_def)

subsection \<open>Properties\<close>

text \<open>C8.  The two heaps never overlap: start from a ready pool without allocations whose line is above the alias
  of the C heap's line, and run any interleaving of \<open>iomem_malloc\<close>, \<open>iomem_free\<close> of held blocks and
  break changes that return.  Then every uncached block the program holds lies above the alias of everything the C heap
  has ever grown to, and so above its current break.\<close>

theorem heaps_never_overlap:
  assumes "heap_reachable hs he h0 (h, live)"
    and "iomem_inv (io_heap h0) {}" "heap_line (io_heap h0) - 0x40000000 \<le> ioheap_line (io_heap h0)"
    and "heap_cur h0 \<le> heap_line (io_heap h0)" and "(p, z) \<in> set live"
  shows "heap_line (io_heap h) - 0x40000000 \<le> p \<and> heap_cur h \<le> heap_line (io_heap h)"
proof -
  have "heap_inv (h0, [])" using assms(2-4) by (auto simp: heap_inv_def lines_inv_def)
  from heap_reachable_inv [OF assms(1) this] assms(5) show ?thesis
    by (fastforce simp: heap_inv_def lines_inv_def)
qed

theorem heaps_never_overlap_witness:
  "\<exists>h p. heap_reachable 0x80000000 0x80000900 small_heap (h, [(p, 300)]) \<and> heap_cur h = 0x80000300 \<and>
     heap_line (io_heap h) - 0x40000000 \<le> p"
proof -
  obtain s' where s': "iomem_malloc (\<lambda>n l. l) (uint (300 :: u32)) (io_heap small_heap) = Val (Block 0x40000600 s')"
    "ioheap_line s' = 0x40000600" "heap_line s' = 0x80000000"
  proof -
    have "case iomem_malloc (\<lambda>n l. l) (uint (300 :: u32)) (io_heap small_heap) of
        Val (Block p s') \<Rightarrow> p = 0x40000600 \<and> ioheap_line s' = 0x40000600 \<and> heap_line s' = 0x80000000 | _ \<Rightarrow> False"
      by code_simp
    then show thesis using that by (auto split: outcome.splits malloc_result.splits)
  qed
  let ?h1 = "small_heap\<lparr>io_heap := s'\<rparr>"
  let ?h2 = "?h1\<lparr>io_heap := s'\<lparr>heap_line := 0x80000300\<rparr>, heap_cur := 0x80000300\<rparr>"
  have "heap_step 0x80000000 0x80000900 (small_heap, []) (?h1, [(0x40000600, 300)])"
    using heap_step.malloc_block [OF s'(1)] by simp
  moreover have "heap_step 0x80000000 0x80000900 (?h1, [(0x40000600, 300)]) (?h2, [(0x40000600, 300)])"
    using s'(2,3) by (intro heap_step.break [where pos = "0x80000300" and r = "0x80000300"]) (simp_all add: sys_brk_def Let_def)
  ultimately have R: "heap_reachable 0x80000000 0x80000900 small_heap (?h2, [(0x40000600, 300)])"
    by (meson heap_reachable.intros)
  moreover from heaps_never_overlap [OF R, where p = "0x40000600" and z = 300]
  have "heap_line (io_heap ?h2) - 0x40000000 \<le> 0x40000600"
    using small_pool_inv by (simp add: small_heap_def small_pool_def)
  ultimately show ?thesis by (intro exI conjI) auto
qed

end
