(* ===== verification/Locks.thy ===== *)
theory Locks
  imports K210_Prelude
begin

text \<open>
  The re-entrant locks of \<open>lib/bsp/locks.c\<close>, which newlib and \<open>iomem.c\<close> use on the two cores.
  A \<open>_lock_t\<close> is a spin word; the table \<open>reculock\<close> has, for each re-entrant lock in use, its address,
  how often it is held and by which core.  An address is a natural number, 0 the null pointer.

  Everything between \<open>lock_lock(lock)\<close> and \<open>lock_unlock(lock)\<close> is one atomic step here: the
  table entry of a lock is only touched with the lock's spin word held, and new entries are
  inserted under \<open>reculock_mutex\<close>.  \<open>show_error\<close>, the exit system call, does not return.
\<close>

record reculock =
  rl_lock :: nat
  rl_counter :: int
  rl_core :: nat

definition LOCK_MAX_NUM :: nat where "LOCK_MAX_NUM = 1024"

definition empty_entry :: reculock where
  "empty_entry = \<lparr>rl_lock = 0, rl_counter = 0, rl_core = 0\<rparr>"

text \<open>The two table scans: the index of the first entry for \<open>lock\<close>, of the first free entry.\<close>

fun find_lock :: "nat \<Rightarrow> reculock list \<Rightarrow> nat option" where
  "find_lock lock [] = None"
| "find_lock lock (e # es) =
     (if rl_lock e = lock then Some 0 else map_option Suc (find_lock lock es))"

definition get_reculock :: "nat \<Rightarrow> reculock list \<Rightarrow> nat option" where
  "get_reculock lock tbl = find_lock lock tbl"

definition get_free_reculock :: "reculock list \<Rightarrow> nat option" where
  "get_free_reculock tbl = find_lock 0 tbl"

definition reculock_init :: "nat \<Rightarrow> reculock list \<Rightarrow> nat option \<times> reculock list" where
  "reculock_init lock tbl =
     (case get_free_reculock tbl of
        None \<Rightarrow> (None, tbl)
      | Some i \<Rightarrow> (Some i, tbl[i := \<lparr>rl_lock = lock, rl_counter = 0, rl_core = 0\<rparr>]))"

definition reculock_deinit :: "nat \<Rightarrow> reculock list \<Rightarrow> reculock list" where
  "reculock_deinit lock tbl =
     (case get_reculock lock tbl of None \<Rightarrow> tbl | Some i \<Rightarrow> tbl[i := empty_entry])"

text \<open>
  What \<open>reculock_trylock\<close> and \<open>reculock_lock\<close> do with the spin word held: find or make the entry, then
  count up if nobody or this core holds the lock.
\<close>

datatype enter = Taken "reculock list" | Busy "reculock list" | Error

definition reculock_enter :: "nat \<Rightarrow> nat \<Rightarrow> reculock list \<Rightarrow> enter" where
  "reculock_enter core lock tbl =
     (let (v, tbl) = (case get_reculock lock tbl of
          Some i \<Rightarrow> (Some i, tbl) | None \<Rightarrow> reculock_init lock tbl)
      in case v of
           None \<Rightarrow> Error
         | Some i \<Rightarrow>
            (let e = tbl ! i in
             if rl_counter e = 0 then
               Taken (tbl[i := e\<lparr>rl_counter := rl_counter e + 1, rl_core := core\<rparr>])
             else if rl_core e = core then
               Taken (tbl[i := e\<lparr>rl_counter := rl_counter e + 1\<rparr>])
             else Busy tbl))"

text \<open>\<open>spin\<close> is what \<open>lock_trylock\<close> read from the spin word: non-zero when another core is inside.\<close>

definition reculock_trylock :: "nat \<Rightarrow> nat \<Rightarrow> int \<Rightarrow> reculock list \<Rightarrow> (int \<times> reculock list) option" where
  "reculock_trylock core lock spin tbl =
     (if spin \<noteq> 0 then Some (-1, tbl)
      else case reculock_enter core lock tbl of
          Taken tbl' \<Rightarrow> Some (0, tbl')
        | Busy tbl' \<Rightarrow> Some (-1, tbl')
        | Error \<Rightarrow> None)"

definition reculock_unlock :: "nat \<Rightarrow> nat \<Rightarrow> reculock list \<Rightarrow> reculock list option" where
  "reculock_unlock core lock tbl =
     (case get_reculock lock tbl of
        None \<Rightarrow> None
      | Some i \<Rightarrow>
         (let e = tbl ! i in
          if rl_core e = core then
            (let e = e\<lparr>rl_counter := rl_counter e - 1\<rparr>
             in Some (tbl[i := if rl_counter e \<le> 0 then empty_entry else e]))
          else None))"

text \<open>The functions newlib calls for a re-entrant lock that are not one of the above by another name.\<close>

definition lock_init_recursive :: "nat \<Rightarrow> reculock list \<Rightarrow> reculock list" where
  "lock_init_recursive lock tbl = snd (reculock_init lock tbl)"

definition lock_close_recursive :: "nat \<Rightarrow> reculock list \<Rightarrow> reculock list" where
  "lock_close_recursive lock tbl = reculock_deinit lock tbl"

subsection \<open>Cores taking and releasing locks\<close>

text \<open>
  \<open>reculock_lock\<close> of a lock another core holds leaves the critical section and polls, \<open>Waiting lock\<close>:
  \<open>while(atomic_read(&reculock->counter));\<close> reads the counter of the \<^emph>\<open>first\<close> entry of the table
  (\<open>reculock\<close> is the array).  A read of 0 leaves that loop, \<open>Trying lock\<close>, and only the next step is
  \<open>reculock_trylock\<close>; in between, and whenever the try fails, other cores act.  \<open>holds\<close> counts, for the
  specification, the acquisitions a core has not released yet; a core releases only what it holds, initialises a
  lock only while it has no entry, as newlib does before its first use, and closes only a lock nobody holds.
\<close>

datatype lock_pc = Running | Waiting nat | Trying nat

record lock_sys =
  table :: "reculock list"
  pc :: "nat \<Rightarrow> lock_pc"
  holds :: "nat \<Rightarrow> nat \<Rightarrow> nat"

inductive lock_step :: "lock_sys \<Rightarrow> lock_sys \<Rightarrow> bool" where
  lock_taken: "pc s c = Running \<Longrightarrow> l \<noteq> 0 \<Longrightarrow> reculock_enter c l (table s) = Taken t \<Longrightarrow>
     lock_step s (s\<lparr>table := t, holds := (holds s)(c := (holds s c)(l := Suc (holds s c l)))\<rparr>)"
| lock_busy: "pc s c = Running \<Longrightarrow> l \<noteq> 0 \<Longrightarrow> reculock_enter c l (table s) = Busy t \<Longrightarrow>
     lock_step s (s\<lparr>table := t, pc := (pc s)(c := Waiting l)\<rparr>)"
| poll: "pc s c = Waiting l \<Longrightarrow> rl_counter (table s ! 0) = 0 \<Longrightarrow> lock_step s (s\<lparr>pc := (pc s)(c := Trying l)\<rparr>)"
| retry_taken: "pc s c = Trying l \<Longrightarrow> reculock_trylock c l spin (table s) = Some (0, t) \<Longrightarrow>
     lock_step s (s\<lparr>table := t, pc := (pc s)(c := Running),
       holds := (holds s)(c := (holds s c)(l := Suc (holds s c l)))\<rparr>)"
| retry_failed: "pc s c = Trying l \<Longrightarrow> reculock_trylock c l spin (table s) = Some (-1, t) \<Longrightarrow>
     lock_step s (s\<lparr>table := t, pc := (pc s)(c := Waiting l)\<rparr>)"
| try_taken: "pc s c = Running \<Longrightarrow> l \<noteq> 0 \<Longrightarrow> reculock_trylock c l spin (table s) = Some (0, t) \<Longrightarrow>
     lock_step s (s\<lparr>table := t, holds := (holds s)(c := (holds s c)(l := Suc (holds s c l)))\<rparr>)"
| try_failed: "pc s c = Running \<Longrightarrow> l \<noteq> 0 \<Longrightarrow> reculock_trylock c l spin (table s) = Some (-1, t) \<Longrightarrow>
     lock_step s (s\<lparr>table := t\<rparr>)"
| unlock: "pc s c = Running \<Longrightarrow> 0 < holds s c l \<Longrightarrow> reculock_unlock c l (table s) = Some t \<Longrightarrow>
     lock_step s (s\<lparr>table := t, holds := (holds s)(c := (holds s c)(l := holds s c l - 1))\<rparr>)"
| init_recursive: "pc s c = Running \<Longrightarrow> l \<noteq> 0 \<Longrightarrow> get_reculock l (table s) = None \<Longrightarrow>
     lock_init_recursive l (table s) = t \<Longrightarrow> lock_step s (s\<lparr>table := t\<rparr>)"
| close_recursive: "pc s c = Running \<Longrightarrow> l \<noteq> 0 \<Longrightarrow> (\<forall>d. holds s d l = 0) \<Longrightarrow>
     lock_close_recursive l (table s) = t \<Longrightarrow> lock_step s (s\<lparr>table := t\<rparr>)"

inductive lock_reachable :: "lock_sys \<Rightarrow> lock_sys \<Rightarrow> bool" for s0 where
  start: "lock_reachable s0 s0"
| step: "lock_reachable s0 s \<Longrightarrow> lock_step s s' \<Longrightarrow> lock_reachable s0 s'"

text \<open>After reset: the table is zero, nobody waits, nobody holds anything.\<close>

definition lock_init_state :: lock_sys where
  "lock_init_state = \<lparr>table = replicate LOCK_MAX_NUM empty_entry, pc = (\<lambda>c. Running), holds = (\<lambda>c l. 0)\<rparr>"

subsection \<open>The table as a map from locks to owners\<close>

definition table_ok :: "reculock list \<Rightarrow> bool" where
  "table_ok t \<longleftrightarrow>
     (\<forall>i < length t. \<forall>j < length t. rl_lock (t ! i) = rl_lock (t ! j) \<and> rl_lock (t ! i) \<noteq> 0 \<longrightarrow> i = j) \<and>
     (\<forall>i < length t. 0 \<le> rl_counter (t ! i) \<and> (rl_lock (t ! i) = 0 \<longrightarrow> rl_counter (t ! i) = 0))"

definition owner :: "reculock list \<Rightarrow> nat \<Rightarrow> (nat \<times> int) option" where
  "owner t l = (case get_reculock l t of
      None \<Rightarrow> None
    | Some i \<Rightarrow> if rl_counter (t ! i) = 0 then None else Some (rl_core (t ! i), rl_counter (t ! i)))"

lemma find_lock_Some:
  "find_lock l t = Some i \<Longrightarrow> i < length t \<and> rl_lock (t ! i) = l"
  by (induction t arbitrary: i) (auto split: if_splits)

lemma find_lock_None: "find_lock l t = None \<longleftrightarrow> (\<forall>i < length t. rl_lock (t ! i) \<noteq> l)"
  by (induction t) (auto simp: less_Suc_eq_0_disj)

lemma find_lock_unique:
  assumes "table_ok t" "i < length t" "rl_lock (t ! i) = l" "l \<noteq> 0"
  shows "find_lock l t = Some i"
proof (cases "find_lock l t")
  case None
  with assms show ?thesis by (auto simp: find_lock_None)
next
  case (Some j)
  with find_lock_Some [OF Some] assms show ?thesis by (auto simp: table_ok_def)
qed

lemma owner_entry:
  "table_ok t \<Longrightarrow> i < length t \<Longrightarrow> rl_lock (t ! i) = l \<Longrightarrow> l \<noteq> 0 \<Longrightarrow>
   owner t l = (if rl_counter (t ! i) = 0 then None else Some (rl_core (t ! i), rl_counter (t ! i)))"
  by (simp add: owner_def get_reculock_def find_lock_unique)

lemma owner_absent: "\<forall>i < length t. rl_lock (t ! i) \<noteq> l \<Longrightarrow> owner t l = None"
  using find_lock_None [of l t] by (simp add: owner_def get_reculock_def)

text \<open>Writing the entry of one lock leaves the owners of the others alone.\<close>

lemma owner_update_other:
  assumes t: "table_ok t" "table_ok (t[i := e])" and i: "i < length t"
    and l: "l \<noteq> 0" "rl_lock (t ! i) \<noteq> l" "rl_lock e \<noteq> l"
  shows "owner (t[i := e]) l = owner t l"
proof (cases "\<exists>j < length t. rl_lock (t ! j) = l")
  case True
  then obtain j where j: "j < length t" "rl_lock (t ! j) = l" by blast
  then have "j \<noteq> i" using l by blast
  then show ?thesis
    using owner_entry [OF t(1) j l(1)] owner_entry [OF t(2), of j l] j l by simp
next
  case False
  then have "\<forall>j < length (t[i := e]). rl_lock (t[i := e] ! j) \<noteq> l"
    using l i by (auto simp: nth_list_update)
  with False show ?thesis using owner_absent by metis
qed

lemma table_ok_update:
  assumes "table_ok t" "i < length t" "0 \<le> rl_counter e" "rl_lock e = 0 \<longrightarrow> rl_counter e = 0"
    "rl_lock e \<noteq> 0 \<longrightarrow> (\<forall>j < length t. j \<noteq> i \<longrightarrow> rl_lock (t ! j) \<noteq> rl_lock e)"
  shows "table_ok (t[i := e])"
  using assms unfolding table_ok_def by (auto simp: nth_list_update)

lemma owner_counter_pos: "table_ok t \<Longrightarrow> owner t l = Some (c, n) \<Longrightarrow> 0 < n"
  by (auto simp: owner_def get_reculock_def table_ok_def split: option.splits if_splits dest!: find_lock_Some)

text \<open>The table after an entry for \<open>l\<close> has been found or made at \<open>i\<close>.\<close>

lemma enter_entry:
  assumes ok: "table_ok t" and l: "l \<noteq> 0"
    and e: "(case get_reculock l t of Some i \<Rightarrow> (Some i, t) | None \<Rightarrow> reculock_init l t) = (Some i, t1)"
  shows "table_ok t1" "length t1 = length t" "i < length t1" "rl_lock (t1 ! i) = l"
    and "\<And>l'. l' \<noteq> 0 \<Longrightarrow> owner t1 l' = owner t l'"
    and "owner t l \<noteq> None \<Longrightarrow> t1 = t"
proof -
  consider "get_reculock l t = Some i" "t1 = t"
    | "get_reculock l t = None" "get_free_reculock t = Some i" "t1 = t[i := \<lparr>rl_lock = l, rl_counter = 0, rl_core = 0\<rparr>]"
    using e by (auto simp: reculock_init_def split: option.splits)
  then have "table_ok t1 \<and> length t1 = length t \<and> i < length t1 \<and> rl_lock (t1 ! i) = l \<and>
      (\<forall>l'. l' \<noteq> 0 \<longrightarrow> owner t1 l' = owner t l') \<and> (owner t l \<noteq> None \<longrightarrow> t1 = t)"
  proof cases
    case 1
    with ok show ?thesis by (auto simp: get_reculock_def dest: find_lock_Some)
  next
    case 2
    from 2(2) have i: "i < length t" "rl_lock (t ! i) = 0"
      using find_lock_Some by (auto simp: get_free_reculock_def)
    have none: "\<forall>j < length t. rl_lock (t ! j) \<noteq> l" using 2(1) by (simp add: get_reculock_def find_lock_None)
    have ok1: "table_ok t1" unfolding 2(3) using none i by (intro table_ok_update [OF ok]) auto
    have "owner t1 l' = owner t l'" if "l' \<noteq> 0" for l'
    proof (cases "l' = l")
      case True
      have "owner t1 l = None" using owner_entry [OF ok1, of i l] i l by (simp add: 2(3))
      with True none owner_absent show ?thesis by simp
    next
      case False
      show ?thesis unfolding 2(3) using ok1 i that False by (intro owner_update_other [OF ok]) (auto simp: 2(3))
    qed
    moreover have "owner t l = None" by (rule owner_absent [OF none])
    ultimately show ?thesis using ok1 i 2(3) by simp
  qed
  then show "table_ok t1" "length t1 = length t" "i < length t1" "rl_lock (t1 ! i) = l"
    "\<And>l'. l' \<noteq> 0 \<Longrightarrow> owner t1 l' = owner t l'" "owner t l \<noteq> None \<Longrightarrow> t1 = t" by auto
qed

text \<open>Writing back the entry of \<open>l\<close> with a positive count.\<close>

lemma count_entry:
  assumes ok: "table_ok t" and i: "i < length t" "rl_lock (t ! i) = l" and l: "l \<noteq> 0"
    and e: "rl_lock e = l" "0 < rl_counter e"
  shows "table_ok (t[i := e])" "owner (t[i := e]) l = Some (rl_core e, rl_counter e)"
    and "l' \<noteq> 0 \<Longrightarrow> l' \<noteq> l \<Longrightarrow> owner (t[i := e]) l' = owner t l'"
proof -
  have "\<forall>j < length t. j \<noteq> i \<longrightarrow> rl_lock (t ! j) \<noteq> l"
    using ok i l unfolding table_ok_def by metis
  then show ok': "table_ok (t[i := e])"
    using i e l by (intro table_ok_update [OF ok]) auto
  show "owner (t[i := e]) l = Some (rl_core e, rl_counter e)"
    using owner_entry [OF ok', of i l] i e l by simp
  show "l' \<noteq> 0 \<Longrightarrow> l' \<noteq> l \<Longrightarrow> owner (t[i := e]) l' = owner t l'"
    using i e by (intro owner_update_other [OF ok ok']) auto
qed

lemma enter_taken:
  assumes ok: "table_ok t" and l: "l \<noteq> 0" and e: "reculock_enter c l t = Taken t'"
  shows "table_ok t'" "length t' = length t"
    and "owner t l = None \<and> owner t' l = Some (c, 1) \<or>
         (\<exists>n. owner t l = Some (c, n) \<and> owner t' l = Some (c, n + 1))"
    and "l' \<noteq> 0 \<Longrightarrow> l' \<noteq> l \<Longrightarrow> owner t' l' = owner t l'"
proof -
  obtain i t1 where it: "(case get_reculock l t of Some i \<Rightarrow> (Some i, t) | None \<Rightarrow> reculock_init l t) = (Some i, t1)"
    and e': "(if rl_counter (t1 ! i) = 0 then Taken (t1[i := (t1 ! i)\<lparr>rl_counter := rl_counter (t1 ! i) + 1, rl_core := c\<rparr>])
        else if rl_core (t1 ! i) = c then Taken (t1[i := (t1 ! i)\<lparr>rl_counter := rl_counter (t1 ! i) + 1\<rparr>])
        else Busy t1) = Taken t'"
    using e by (auto simp: reculock_enter_def Let_def split: prod.splits option.splits)
  note E = enter_entry [OF ok l it]
  have pos: "0 \<le> rl_counter (t1 ! i)" using E(1,3) by (simp add: table_ok_def)
  have own: "owner t l = (if rl_counter (t1 ! i) = 0 then None else Some (rl_core (t1 ! i), rl_counter (t1 ! i)))"
    using E(5) [OF l] owner_entry [OF E(1,3,4) l] by simp
  obtain en where en: "t' = t1[i := en]" "rl_lock en = l" "rl_counter en = rl_counter (t1 ! i) + 1" "rl_core en = c"
    "rl_counter (t1 ! i) = 0 \<or> rl_core (t1 ! i) = c"
    using e' E(4) by (cases "rl_counter (t1 ! i) = 0") (auto split: if_splits)
  have "0 < rl_counter en" using pos en(3) by simp
  note C = count_entry [OF E(1,3,4) l en(2) this]
  show "table_ok t'" "length t' = length t" using C(1) E(2) by (simp_all add: en(1))
  show "owner t l = None \<and> owner t' l = Some (c, 1) \<or>
         (\<exists>n. owner t l = Some (c, n) \<and> owner t' l = Some (c, n + 1))"
    using C(2) own en by auto
  show "l' \<noteq> 0 \<Longrightarrow> l' \<noteq> l \<Longrightarrow> owner t' l' = owner t l'"
    using C(3) E(5) by (simp add: en(1))
qed

lemma enter_busy:
  assumes ok: "table_ok t" and l: "l \<noteq> 0" and e: "reculock_enter c l t = Busy t'"
  shows "t' = t \<and> (\<exists>c' n. owner t l = Some (c', n) \<and> c' \<noteq> c)"
proof -
  obtain i where it: "(case get_reculock l t of Some i \<Rightarrow> (Some i, t) | None \<Rightarrow> reculock_init l t) = (Some i, t')"
    and b: "rl_counter (t' ! i) \<noteq> 0" "rl_core (t' ! i) \<noteq> c"
    using e by (auto simp: reculock_enter_def Let_def split: prod.splits option.splits if_splits)
  note E = enter_entry [OF ok l it]
  have "owner t l = Some (rl_core (t' ! i), rl_counter (t' ! i))"
    using E(5) [OF l] owner_entry [OF E(1,3,4) l] b by simp
  with E(6) b show ?thesis by auto
qed

lemma unlock_owner:
  assumes ok: "table_ok t" and l: "l \<noteq> 0" and o: "owner t l = Some (c, n)"
  shows "\<exists>t'. reculock_unlock c l t = Some t' \<and> table_ok t' \<and> length t' = length t \<and>
    owner t' l = (if n = 1 then None else Some (c, n - 1)) \<and>
    (\<forall>l'. l' \<noteq> 0 \<and> l' \<noteq> l \<longrightarrow> owner t' l' = owner t l')"
proof -
  obtain i where i: "get_reculock l t = Some i" "rl_core (t ! i) = c" "rl_counter (t ! i) = n"
    using o by (auto simp: owner_def split: option.splits if_splits)
  have il: "i < length t" "rl_lock (t ! i) = l"
    using find_lock_Some i(1) by (auto simp: get_reculock_def)
  have n: "0 < n" using owner_counter_pos [OF ok o] .
  show ?thesis
  proof (cases "n = 1")
    case True
    have u: "reculock_unlock c l t = Some (t[i := empty_entry])"
      using i True by (simp add: reculock_unlock_def Let_def)
    have ok': "table_ok (t[i := empty_entry])"
      using il by (intro table_ok_update [OF ok]) (auto simp: empty_entry_def)
    have "\<forall>j < length t. rl_lock (t[i := empty_entry] ! j) \<noteq> l"
      using ok il l unfolding table_ok_def by (auto simp: nth_list_update empty_entry_def)
    then have "owner (t[i := empty_entry]) l = None" by (intro owner_absent) simp
    moreover have "owner (t[i := empty_entry]) l' = owner t l'" if "l' \<noteq> 0" "l' \<noteq> l" for l'
      using that il by (intro owner_update_other [OF ok ok']) (auto simp: empty_entry_def)
    ultimately show ?thesis using u ok' True by auto
  next
    case False
    let ?e = "(t ! i)\<lparr>rl_counter := n - 1\<rparr>"
    have u: "reculock_unlock c l t = Some (t[i := ?e])"
      using i n False by (simp add: reculock_unlock_def Let_def)
    have "rl_lock ?e = l" "0 < rl_counter ?e" using il n False by auto
    from count_entry [OF ok il l this] show ?thesis using u False i(2) by auto
  qed
qed

subsection \<open>Mutual exclusion\<close>

text \<open>The table's view of a lock agrees with how often each core \<open>c\<close> holds it, \<open>h c\<close>.\<close>

definition agrees :: "(nat \<times> int) option \<Rightarrow> (nat \<Rightarrow> nat) \<Rightarrow> bool" where
  "agrees own h \<longleftrightarrow> (case own of
      None \<Rightarrow> \<forall>c. h c = 0
    | Some (c, n) \<Rightarrow> int (h c) = n \<and> (\<forall>c'. c' \<noteq> c \<longrightarrow> h c' = 0))"

lemma agrees_first: "agrees None h \<Longrightarrow> agrees (Some (c, 1)) (h(c := Suc (h c)))"
  by (simp add: agrees_def)

lemma agrees_again: "agrees (Some (c, n)) h \<Longrightarrow> agrees (Some (c, n + 1)) (h(c := Suc (h c)))"
  by (simp add: agrees_def)

lemma agrees_drop:
  "agrees (Some (c, n)) h \<Longrightarrow> 0 < h c \<Longrightarrow> agrees (if n = 1 then None else Some (c, n - 1)) (h(c := h c - 1))"
  by (auto simp: agrees_def)

lemma agrees_owner: "agrees own h \<Longrightarrow> 0 < h c \<Longrightarrow> \<exists>n. own = Some (c, n)"
  by (cases own) (auto simp: agrees_def, metis less_irrefl)


definition lock_inv :: "lock_sys \<Rightarrow> bool" where
  "lock_inv s \<longleftrightarrow> table_ok (table s) \<and>
     (\<forall>c. holds s c 0 = 0) \<and> (\<forall>c l. pc s c = Waiting l \<or> pc s c = Trying l \<longrightarrow> l \<noteq> 0) \<and>
     (\<forall>l. l \<noteq> 0 \<longrightarrow> agrees (owner (table s) l) (\<lambda>c. holds s c l))"

lemma lock_invD:
  assumes "lock_inv s"
  shows "table_ok (table s)" and "holds s c 0 = 0" and "pc s c = Waiting l \<or> pc s c = Trying l \<Longrightarrow> l \<noteq> 0"
    and "l \<noteq> 0 \<Longrightarrow> agrees (owner (table s) l) (\<lambda>c. holds s c l)"
  using assms by (auto simp: lock_inv_def)

lemma holds_upd:
  "(\<lambda>d. ((holds s)(c := (holds s c)(l := v))) d l') =
     (if l' = l then (\<lambda>d. holds s d l)(c := v) else (\<lambda>d. holds s d l'))"
  by auto

lemma lock_inv_taken:
  assumes inv: "lock_inv s" and l: "l \<noteq> 0" and e: "reculock_enter c l (table s) = Taken t"
    and p: "p = pc s \<or> p = (pc s)(c := Running)"
  shows "lock_inv (s\<lparr>table := t, pc := p, holds := (holds s)(c := (holds s c)(l := Suc (holds s c l)))\<rparr>)"
proof -
  note I = lock_invD [OF inv]
  note T = enter_taken [OF I(1) l e]
  have own: "agrees (owner t l) ((\<lambda>d. holds s d l)(c := Suc (holds s c l)))"
    using T(3) I(4) [OF l] agrees_first [of "\<lambda>d. holds s d l" c] agrees_again [of c _ "\<lambda>d. holds s d l"] by auto
  have "agrees (owner t l') (\<lambda>d. ((holds s)(c := (holds s c)(l := Suc (holds s c l)))) d l')" if "l' \<noteq> 0" for l'
    unfolding holds_upd using own T(4) [of l'] I(4) [OF that] that by simp
  moreover have "p d = Waiting l' \<or> p d = Trying l' \<Longrightarrow> l' \<noteq> 0" for d l'
    using p I(3) [of d l'] by (auto split: if_splits)
  moreover have "((holds s)(c := (holds s c)(l := Suc (holds s c l)))) d 0 = 0" for d
    using I(2) l by simp
  ultimately show ?thesis unfolding lock_inv_def using T(1) by simp
qed

lemma lock_inv_unlock:
  assumes inv: "lock_inv s" and h: "0 < holds s c l" and u: "reculock_unlock c l (table s) = Some t"
  shows "lock_inv (s\<lparr>table := t, holds := (holds s)(c := (holds s c)(l := holds s c l - 1))\<rparr>)"
proof -
  note I = lock_invD [OF inv]
  have l: "l \<noteq> 0" using h I(2) [of c] by (cases "l = 0") auto
  from agrees_owner [OF I(4) [OF l] h] obtain n where o: "owner (table s) l = Some (c, n)" by blast
  from unlock_owner [OF I(1) l o] u
  have U: "table_ok t" "owner t l = (if n = 1 then None else Some (c, n - 1))"
    "\<And>l'. l' \<noteq> 0 \<Longrightarrow> l' \<noteq> l \<Longrightarrow> owner t l' = owner (table s) l'" by auto
  have own: "agrees (owner t l) ((\<lambda>d. holds s d l)(c := holds s c l - 1))"
    using agrees_drop [of c n "\<lambda>d. holds s d l"] I(4) [OF l] h by (simp only: U(2) o)
  have "agrees (owner t l') (\<lambda>d. ((holds s)(c := (holds s c)(l := holds s c l - 1))) d l')" if "l' \<noteq> 0" for l'
    unfolding holds_upd using own U(3) [of l'] I(4) [OF that] that by simp
  moreover have "((holds s)(c := (holds s c)(l := holds s c l - 1))) d 0 = 0" for d
    using I(2) l by simp
  ultimately show ?thesis unfolding lock_inv_def using U(1) I(3) by simp
qed

lemma init_inv:
  assumes inv: "lock_inv s" and l: "l \<noteq> 0" and n: "get_reculock l (table s) = None"
  shows "lock_inv (s\<lparr>table := lock_init_recursive l (table s)\<rparr>)"
proof (cases "get_free_reculock (table s)")
  case None
  then show ?thesis using inv by (simp add: lock_init_recursive_def reculock_init_def)
next
  case (Some i)
  let ?t = "(table s)[i := \<lparr>rl_lock = l, rl_counter = 0, rl_core = 0\<rparr>]"
  have "(case get_reculock l (table s) of Some i \<Rightarrow> (Some i, table s) | None \<Rightarrow> reculock_init l (table s)) = (Some i, ?t)"
    using n Some by (simp add: reculock_init_def)
  note E = enter_entry [OF lock_invD(1) [OF inv] l this]
  show ?thesis
    unfolding lock_init_recursive_def using Some E(1,5) lock_invD [OF inv] by (simp add: reculock_init_def lock_inv_def)
qed

lemma close_inv:
  assumes inv: "lock_inv s" and l: "l \<noteq> 0" and h: "\<forall>d. holds s d l = 0"
  shows "lock_inv (s\<lparr>table := lock_close_recursive l (table s)\<rparr>)"
proof (cases "get_reculock l (table s)")
  case None
  then show ?thesis using inv by (simp add: lock_close_recursive_def reculock_deinit_def)
next
  case (Some i)
  note I = lock_invD [OF inv]
  let ?t = "(table s)[i := empty_entry]"
  have il: "i < length (table s)" "rl_lock (table s ! i) = l"
    using find_lock_Some Some by (auto simp: get_reculock_def)
  have ok': "table_ok ?t"
    using il by (intro table_ok_update [OF I(1)]) (auto simp: empty_entry_def)
  have "\<forall>j < length ?t. rl_lock (?t ! j) \<noteq> l"
    using I(1) il l unfolding table_ok_def by (auto simp: nth_list_update empty_entry_def)
  then have "owner ?t l = None" by (intro owner_absent) simp
  moreover have "owner (table s) l = None"
    using I(4) [OF l] h by (cases "owner (table s) l")
      (auto simp: agrees_def owner_def split: option.splits if_splits)
  moreover have "owner ?t l' = owner (table s) l'" if "l' \<noteq> 0" "l' \<noteq> l" for l'
    using that il by (intro owner_update_other [OF I(1) ok']) (auto simp: empty_entry_def)
  ultimately have "owner ?t l' = owner (table s) l'" if "l' \<noteq> 0" for l'
    using that by (cases "l' = l") auto
  then show ?thesis using ok' I Some by (simp add: lock_inv_def lock_close_recursive_def reculock_deinit_def)
qed

lemma trylock_cases:
  "reculock_trylock c l spin t = Some (r, t') \<Longrightarrow>
   (r = 0 \<and> reculock_enter c l t = Taken t') \<or> (r = -1 \<and> (t' = t \<or> reculock_enter c l t = Busy t'))"
  by (auto simp: reculock_trylock_def split: if_splits enter.splits)

lemma lock_step_inv:
  assumes "lock_step s s'" "lock_inv s"
  shows "lock_inv s'"
proof -
  have ok: "table_ok (table s)" using assms(2) by (simp add: lock_inv_def)
  show ?thesis
    using assms(1)
  proof cases
    case (lock_taken c l t)
    with lock_inv_taken [OF assms(2), of l c t "pc s"] show ?thesis by simp
  next
    case (lock_busy c l t)
    with enter_busy [OF ok, of l c t] have "t = table s" by simp
    with lock_busy assms(2) show ?thesis by (auto simp: lock_inv_def)
  next
    case (retry_taken c l spin t)
    then have "l \<noteq> 0" using assms(2) by (auto simp: lock_inv_def)
    with retry_taken lock_inv_taken [OF assms(2), of l c t "(pc s)(c := Running)"] show ?thesis
      by (auto dest: trylock_cases)
  next
    case (retry_failed c l spin t)
    then have "l \<noteq> 0" using assms(2) by (auto simp: lock_inv_def)
    with retry_failed enter_busy [OF ok, of l c t] have "t = table s" by (auto dest!: trylock_cases)
    with retry_failed \<open>l \<noteq> 0\<close> assms(2) show ?thesis by (auto simp: lock_inv_def)
  next
    case (try_taken c l spin t)
    with lock_inv_taken [OF assms(2), of l c t "pc s"] show ?thesis by (auto dest: trylock_cases)
  next
    case (try_failed c l spin t)
    with enter_busy [OF ok, of l c t] assms(2) show ?thesis by (auto dest!: trylock_cases)
  next
    case (unlock c l t)
    with lock_inv_unlock [OF assms(2)] show ?thesis by simp
  next
    case (poll c l)
    with assms(2) show ?thesis by (auto simp: lock_inv_def)
  next
    case (init_recursive c l t)
    with init_inv [OF assms(2), of l] show ?thesis by simp
  next
    case (close_recursive c l t)
    with close_inv [OF assms(2), of l] show ?thesis by simp
  qed
qed

lemma lock_init_inv: "lock_inv lock_init_state"
proof -
  have "owner (replicate n empty_entry) l = None" if "l \<noteq> 0" for n l
    using that by (intro owner_absent) (auto simp: empty_entry_def)
  moreover have "table_ok (replicate n empty_entry)" for n
    by (simp add: table_ok_def empty_entry_def)
  ultimately show ?thesis
    by (simp add: lock_inv_def lock_init_state_def agrees_def)
qed


subsection \<open>The polling loop looks at the first entry\<close>

text \<open>A first entry that core \<open>c\<close> holds stays as it is while only other cores act.\<close>

lemma first_entry_enter:
  assumes "0 < length t" "rl_lock (t ! 0) \<noteq> 0" "rl_counter (t ! 0) \<noteq> 0" "rl_core (t ! 0) \<noteq> d"
    and e: "reculock_enter d l t = Taken t' \<or> reculock_enter d l t = Busy t'"
  shows "t' ! 0 = t ! 0 \<and> 0 < length t'"
proof (cases "get_reculock l t")
  case None
  then obtain i where i: "get_free_reculock t = Some i" "reculock_enter d l t =
      Taken (t[i := \<lparr>rl_lock = l, rl_counter = 1, rl_core = d\<rparr>])"
    using e by (auto simp: reculock_enter_def reculock_init_def get_free_reculock_def dest: find_lock_Some split: option.splits)
  then have "i \<noteq> 0"
    using assms(2) find_lock_Some [of 0 t i] by (cases "i = 0") (auto simp: get_free_reculock_def)
  with e i assms(1) show ?thesis by auto
next
  case (Some i)
  with e assms show ?thesis
    by (cases "i = 0") (auto simp: reculock_enter_def Let_def split: if_splits)
qed

lemma first_entry_unlock:
  assumes "0 < length t" "rl_core (t ! 0) \<noteq> d" "reculock_unlock d l t = Some t'"
  shows "t' ! 0 = t ! 0 \<and> 0 < length t'"
proof -
  obtain i where "get_reculock l t = Some i" "rl_core (t ! i) = d" "\<exists>e. t' = t[i := e]"
    using assms(3) by (auto simp: reculock_unlock_def Let_def split: option.splits if_splits)
  moreover from this assms(2) have "i \<noteq> 0" by (cases "i = 0") auto
  ultimately show ?thesis using assms(1) by auto
qed

lemma first_entry_init:
  assumes "0 < length t" "rl_lock (t ! 0) \<noteq> 0"
  shows "lock_init_recursive l t ! 0 = t ! 0 \<and> 0 < length (lock_init_recursive l t)"
proof (cases "get_free_reculock t")
  case None
  with assms show ?thesis by (simp add: lock_init_recursive_def reculock_init_def)
next
  case (Some i)
  then have "i \<noteq> 0" using assms(2) find_lock_Some [of 0 t i] by (cases "i = 0") (auto simp: get_free_reculock_def)
  with assms Some show ?thesis by (simp add: lock_init_recursive_def reculock_init_def)
qed

lemma first_entry_close:
  assumes inv: "lock_inv s" and t: "0 < length (table s)" "rl_counter (table s ! 0) \<noteq> 0"
    and l: "l \<noteq> 0" "\<forall>d. holds s d l = 0"
  shows "lock_close_recursive l (table s) ! 0 = table s ! 0 \<and> 0 < length (lock_close_recursive l (table s))"
proof (cases "get_reculock l (table s)")
  case None
  with t show ?thesis by (simp add: lock_close_recursive_def reculock_deinit_def)
next
  case (Some i)
  have "i \<noteq> 0"
  proof
    assume "i = 0"
    with Some t have "owner (table s) l = Some (rl_core (table s ! 0), rl_counter (table s ! 0))" by (simp add: owner_def)
    with lock_invD(4) [OF inv l(1)] l(2) t(2) show False by (simp add: agrees_def)
  qed
  with t Some show ?thesis by (simp add: lock_close_recursive_def reculock_deinit_def)
qed

lemma first_entry_blocks:
  assumes "lock_step s s'" "pc s c = Waiting l" "0 < length (table s)" "lock_inv s"
    and "rl_lock (table s ! 0) \<noteq> 0" "rl_counter (table s ! 0) \<noteq> 0" "rl_core (table s ! 0) = c"
  shows "pc s' c = Waiting l \<and> table s' ! 0 = table s ! 0 \<and> 0 < length (table s') \<and> holds s' c = holds s c"
  using assms(1)
proof cases
  case (lock_taken d l' t)
  with assms first_entry_enter [of "table s" d l' t] show ?thesis by auto
next
  case (lock_busy d l' t)
  with assms first_entry_enter [of "table s" d l' t] show ?thesis by auto
next
  case (try_taken d l' spin t)
  with assms(2) have d: "d \<noteq> c" by auto
  with assms first_entry_enter [of "table s" d l' t] try_taken show ?thesis by (auto dest!: trylock_cases)
next
  case (try_failed d l' spin t)
  with assms(2) have d: "d \<noteq> c" by auto
  with assms first_entry_enter [of "table s" d l' t] try_failed show ?thesis by (auto dest!: trylock_cases)
next
  case (unlock d l' t)
  with assms first_entry_unlock [of "table s" d l' t] show ?thesis by auto
next
  case (init_recursive d l' t)
  with assms first_entry_init [of "table s" l'] show ?thesis by auto
next
  case (close_recursive d l' t)
  with assms first_entry_close [of s l'] show ?thesis by auto
next
  case (retry_taken d l' spin t)
  with assms(2) have d: "d \<noteq> c" by auto
  with assms first_entry_enter [of "table s" d l' t] retry_taken show ?thesis by (auto dest!: trylock_cases)
next
  case (retry_failed d l' spin t)
  with assms(2) have d: "d \<noteq> c" by auto
  with assms first_entry_enter [of "table s" d l' t] retry_failed show ?thesis by (auto dest!: trylock_cases)
next
  case (poll d l')
  with assms show ?thesis by auto
qed

lemma first_entry_blocks_forever:
  assumes "lock_reachable s s'" "pc s c = Waiting l" "0 < length (table s)" "lock_inv s"
    and "rl_lock (table s ! 0) \<noteq> 0" "rl_counter (table s ! 0) \<noteq> 0" "rl_core (table s ! 0) = c"
  shows "lock_inv s' \<and> pc s' c = Waiting l \<and> table s' ! 0 = table s ! 0 \<and> 0 < length (table s') \<and> holds s' c = holds s c"
  using assms
proof (induction rule: lock_reachable.induct)
  case (step s1 s2)
  with first_entry_blocks [OF step.hyps(2), of c l] lock_step_inv [OF step.hyps(2)] show ?case by auto
qed auto

lemma enter_owner:
  assumes "table_ok t" "l \<noteq> 0" "owner t l \<noteq> None \<or> get_free_reculock t \<noteq> None"
  shows "case owner t l of
      None \<Rightarrow> (\<exists>t'. reculock_enter c l t = Taken t' \<and> owner t' l = Some (c, 1))
    | Some (d, n) \<Rightarrow>
        if d = c then (\<exists>t'. reculock_enter c l t = Taken t' \<and> owner t' l = Some (c, n + 1))
        else reculock_enter c l t = Busy t"
proof (cases "reculock_enter c l t")
  case (Taken t')
  from enter_taken(3) [OF assms(1,2) Taken] Taken show ?thesis by auto
next
  case (Busy t')
  with enter_busy [OF assms(1,2) Busy] show ?thesis by auto
next
  case Error
  with assms(3) show ?thesis
    by (auto simp: reculock_enter_def reculock_init_def owner_def Let_def split: option.splits if_splits)
qed

lemma find_lock_replicate: "find_lock l (replicate (Suc n) empty_entry) = (if l = 0 then Some 0 else None)"
  by (induction n) (auto simp: empty_entry_def)

lemma get_reculock_init: "get_reculock l (table lock_init_state) = (if l = 0 then Some 0 else None)"
  using find_lock_replicate [of l 1023] by (simp add: lock_init_state_def get_reculock_def LOCK_MAX_NUM_def)

lemma get_free_init: "get_free_reculock (table lock_init_state) = Some 0"
  using get_reculock_init [of 0] by (simp add: get_reculock_def get_free_reculock_def)


subsection \<open>Properties\<close>



text \<open>C10.  The table implements a map from locks to owner and depth: with a free entry for a new
  lock, entering takes a lock nobody holds with depth 1, deepens the lock a core holds already, and is refused, without
  effect, while another core holds it; releasing undoes exactly one acquisition; and neither changes any other lock.\<close>

theorem reculock_refines_owner_map:
  assumes "table_ok t" "l \<noteq> 0" "owner t l \<noteq> None \<or> get_free_reculock t \<noteq> None"
  shows "(case owner t l of
      None \<Rightarrow> (\<exists>t'. reculock_enter c l t = Taken t' \<and> owner t' l = Some (c, 1))
    | Some (d, n) \<Rightarrow>
        if d = c then (\<exists>t'. reculock_enter c l t = Taken t' \<and> owner t' l = Some (c, n + 1))
        else reculock_enter c l t = Busy t) \<and>
    (\<forall>t' l'. reculock_enter c l t = Taken t' \<longrightarrow> l' \<noteq> 0 \<and> l' \<noteq> l \<longrightarrow> owner t' l' = owner t l') \<and>
    (\<forall>n. owner t l = Some (c, n) \<longrightarrow>
       (\<exists>t'. reculock_unlock c l t = Some t' \<and> table_ok t' \<and>
          owner t' l = (if n = 1 then None else Some (c, n - 1)) \<and>
          (\<forall>l'. l' \<noteq> 0 \<and> l' \<noteq> l \<longrightarrow> owner t' l' = owner t l')))"
proof (intro conjI allI impI)
  show "case owner t l of
      None \<Rightarrow> (\<exists>t'. reculock_enter c l t = Taken t' \<and> owner t' l = Some (c, 1))
    | Some (d, n) \<Rightarrow>
        if d = c then (\<exists>t'. reculock_enter c l t = Taken t' \<and> owner t' l = Some (c, n + 1))
        else reculock_enter c l t = Busy t"
    by (rule enter_owner [OF assms])
next
  fix t' l' assume "reculock_enter c l t = Taken t'" "l' \<noteq> 0 \<and> l' \<noteq> l"
  then show "owner t' l' = owner t l'" using enter_taken(4) [OF assms(1,2)] by simp
next
  fix n assume "owner t l = Some (c, n)"
  from unlock_owner [OF assms(1,2) this]
  show "\<exists>t'. reculock_unlock c l t = Some t' \<and> table_ok t' \<and>
          owner t' l = (if n = 1 then None else Some (c, n - 1)) \<and>
          (\<forall>l'. l' \<noteq> 0 \<and> l' \<noteq> l \<longrightarrow> owner t' l' = owner t l')" by blast
qed

theorem reculock_refines_owner_map_witness:
  "\<exists>t'. reculock_enter 1 7 (table lock_init_state) = Taken t' \<and> owner t' 7 = Some (1, 1)"
proof -
  have ok: "table_ok (table lock_init_state)" using lock_init_inv by (rule lock_invD)
  have o: "owner (table lock_init_state) 7 = None" by (simp add: owner_def get_reculock_init)
  have f: "owner (table lock_init_state) 7 \<noteq> None \<or> get_free_reculock (table lock_init_state) \<noteq> None"
    by (simp add: get_free_init)
  have "(7 :: nat) \<noteq> 0" by simp
  from reculock_refines_owner_map [OF ok this f, of 1, THEN conjunct1] show ?thesis
    unfolding o by simp
qed

text \<open>A core that waits for a second lock while it holds the lock in the first table entry waits for ever:
  the polling loop of \<open>reculock_lock\<close> reads the counter of the first entry, not that of the lock it waits for, and no step of any other
  core, releasing the wanted lock included, changes that counter.\<close>

lemma reculock_polls_wrong_entry:
  assumes "lock_reachable s s'" "pc s c = Waiting l" "0 < length (table s)" "lock_inv s"
    and "rl_lock (table s ! 0) \<noteq> 0" "rl_counter (table s ! 0) \<noteq> 0" "rl_core (table s ! 0) = c"
  shows "pc s' c = Waiting l \<and> holds s' c = holds s c"
  using first_entry_blocks_forever [OF assms] by blast

definition two_locks :: lock_sys where
  "two_locks = \<lparr>table = [\<lparr>rl_lock = 1, rl_counter = 1, rl_core = 0\<rparr>, \<lparr>rl_lock = 2, rl_counter = 1, rl_core = 1\<rparr>],
     pc = (\<lambda>c. Running)(0 := Waiting 2), holds = (\<lambda>c l. if c = 0 \<and> l = 1 \<or> c = 1 \<and> l = 2 then 1 else 0)\<rparr>"

lemma two_locks_inv: "lock_inv two_locks"
proof -
  have "table_ok (table two_locks)" by (simp add: table_ok_def two_locks_def less_Suc_eq)
  moreover have "agrees (owner (table two_locks) l) (\<lambda>c. holds two_locks c l)" if "l \<noteq> 0" for l
    by (simp add: two_locks_def owner_def get_reculock_def agrees_def)
  ultimately show ?thesis by (simp add: lock_inv_def two_locks_def)
qed

lemma reculock_polls_wrong_entry_witness:
  "\<exists>s'. lock_reachable two_locks s' \<and> owner (table s') 2 = None \<and> pc s' 0 = Waiting 2"
proof -
  let ?t = "[\<lparr>rl_lock = 1, rl_counter = 1, rl_core = 0\<rparr>, empty_entry]"
  let ?s = "two_locks\<lparr>table := ?t, holds := (holds two_locks)(1 := (holds two_locks 1)(2 := holds two_locks 1 2 - 1))\<rparr>"
  have "lock_step two_locks ?s"
    by (rule lock_step.unlock)
      (simp_all add: two_locks_def reculock_unlock_def get_reculock_def)
  then have r: "lock_reachable two_locks ?s" by (meson lock_reachable.intros)
  moreover have "owner (table ?s) 2 = None" by (simp add: owner_def get_reculock_def empty_entry_def)
  moreover have "pc ?s 0 = Waiting 2"
    using reculock_polls_wrong_entry [OF r, of 0 2] two_locks_inv by (simp add: two_locks_def)
  ultimately show ?thesis by blast
qed

end
