(* ===== verification/Rtc_Calendar.thy ===== *)
theory Rtc_Calendar
  imports K210_Prelude "HOL-Library.Signed_Division"
begin

text \<open>
  The date arithmetic of \<open>lib/drivers/rtc.c\<close>: leap years, the day of the year, the day of the week.
  A C \<open>int\<close> is an \<open>int\<close> here (no value in the ranges of the driver comes near an overflow); C's
  \<open>/\<close> and \<open>%\<close> round towards zero and are \<open>sdiv\<close> and \<open>smod\<close>.
\<close>

definition rtc_year_is_leap :: "int \<Rightarrow> bool" where
  "rtc_year_is_leap year \<longleftrightarrow>
     (year smod 4 = 0 \<and> year smod 100 \<noteq> 0) \<or> year smod 400 = 0"

definition yday_table :: "int list list" where
  "yday_table =
     [[0, 0, 31, 59, 90, 120, 151, 181, 212, 243, 273, 304, 334],
      [0, 0, 31, 60, 91, 121, 152, 182, 213, 244, 274, 305, 335]]"

text \<open>\<open>None\<close>: a month outside the row, an access outside the table.\<close>

definition rtc_get_yday :: "int \<Rightarrow> int \<Rightarrow> int \<Rightarrow> int option" where
  "rtc_get_yday year month day =
     (let leap = (if rtc_year_is_leap year then 1 else 0) in
      if month < 0 \<or> 13 \<le> month then None
      else Some (yday_table ! leap ! nat month + day))"

text \<open>
  \<open>(day += month < 3 ? year-- : year - 2, 23 * month / 9 + day + 4 + year / 4 - year / 100 + year / 400) % 7\<close>:
  the comma sequences the update of \<open>day\<close>, and of \<open>year\<close> in January and February, before the rest.
\<close>

definition rtc_get_wday :: "int \<Rightarrow> int \<Rightarrow> int \<Rightarrow> int" where
  "rtc_get_wday year month day =
     (let day = day + (if month < 3 then year else year - 2);
          year = (if month < 3 then year - 1 else year)
      in (23 * month sdiv 9 + day + 4 + year sdiv 4 - year sdiv 100 + year sdiv 400) smod 7)"

subsection \<open>The calendar\<close>

definition leap :: "int \<Rightarrow> bool" where
  "leap y \<longleftrightarrow> 4 dvd y \<and> (\<not> 100 dvd y \<or> 400 dvd y)"

definition month_length :: "int \<Rightarrow> int \<Rightarrow> int" where
  "month_length y m =
     (if m = 2 then (if leap y then 29 else 28)
      else if m = 4 \<or> m = 6 \<or> m = 9 \<or> m = 11 then 30 else 31)"

definition valid_date :: "int \<times> int \<times> int \<Rightarrow> bool" where
  "valid_date d = (case d of (y, m, k) \<Rightarrow> 1 \<le> y \<and> 1 \<le> m \<and> m \<le> 12 \<and> 1 \<le> k \<and> k \<le> month_length y m)"

definition next_day :: "int \<times> int \<times> int \<Rightarrow> int \<times> int \<times> int" where
  "next_day d = (case d of (y, m, k) \<Rightarrow>
     if k < month_length y m then (y, m, k + 1)
     else if m < 12 then (y, m + 1, 1)
     else (y + 1, 1, 1))"

definition day_of_year :: "int \<Rightarrow> int \<Rightarrow> int \<Rightarrow> int" where
  "day_of_year y m k = (\<Sum>i \<in> {1..<m}. month_length y i) + k"

lemma smod_mod: "0 \<le> a \<Longrightarrow> 0 < b \<Longrightarrow> (a :: int) smod b = a mod b"
  by (rule smod_mod_positive) auto

lemma sdiv_div: "0 \<le> a \<Longrightarrow> 0 < b \<Longrightarrow> (a :: int) sdiv b = a div b"
  by (simp add: signed_divide_int_def sgn_if)

lemma year_is_leap: "0 \<le> y \<Longrightarrow> rtc_year_is_leap y \<longleftrightarrow> leap y"
  unfolding rtc_year_is_leap_def leap_def by (simp add: smod_mod dvd_eq_mod_eq_0) presburger

lemma month_length_bounds: "28 \<le> month_length y m" "month_length y m \<le> 31"
  by (auto simp: month_length_def)

lemma month_cases:
  "1 \<le> (m :: int) \<Longrightarrow> m \<le> 12 \<Longrightarrow>
   m = 1 \<or> m = 2 \<or> m = 3 \<or> m = 4 \<or> m = 5 \<or> m = 6 \<or> m = 7 \<or> m = 8 \<or> m = 9 \<or> m = 10 \<or> m = 11 \<or> m = 12"
  by presburger

lemma atLeastLessThan_rec: "(i :: int) < m \<Longrightarrow> {i..<m} = insert i {i + 1..<m}"
  by auto

lemma yday_correct:
  assumes "0 \<le> y" "1 \<le> m" "m \<le> 12"
  shows "rtc_get_yday y m k = Some (day_of_year y m k)"
  using month_cases [OF assms(2,3)] year_is_leap [OF assms(1)]
  by (elim disjE) (auto simp: rtc_get_yday_def day_of_year_def yday_table_def atLeastLessThan_rec month_length_def)

subsection \<open>The day of the week\<close>

text \<open>The leap days up to a year.\<close>

definition leaps :: "int \<Rightarrow> int" where
  "leaps y = y div 4 - y div 100 + y div 400"

lemma div_pred:
  assumes "0 < (b :: int)"
  shows "y div b - (y - 1) div b = (if b dvd y then 1 else 0)"
proof (cases "b dvd y")
  case True
  then obtain q where q: "y = b * q" by blast
  have "(y - 1) div b = q - 1"
    by (rule int_div_pos_eq [of _ _ _ "b - 1"]) (use assms in \<open>auto simp: q algebra_simps\<close>)
  then show ?thesis using assms by (simp add: q)
next
  case False
  let ?q = "y div b" and ?r = "y mod b"
  have r: "0 < ?r" "?r < b"
    using assms False pos_mod_sign [of b y] pos_mod_bound [of b y] by (auto simp: dvd_eq_mod_eq_0 order_less_le)
  have y: "y = b * ?q + ?r" by simp
  have "(y - 1) div b = ?q"
    by (rule int_div_pos_eq [of _ _ _ "?r - 1"]) (use r y in linarith)+
  with False show ?thesis by simp
qed

lemma leaps_pred: "leaps y - leaps (y - 1) = (if leap y then 1 else 0)"
proof -
  have d: "100 dvd y \<Longrightarrow> 4 dvd y" "400 dvd y \<Longrightarrow> 100 dvd y"
    by (auto elim: dvd_trans [rotated])
  show ?thesis
    unfolding leaps_def leap_def
    using div_pred [of 4 y] div_pred [of 100 y] div_pred [of 400 y] d
    by (cases "4 dvd y"; cases "100 dvd y"; cases "400 dvd y") auto
qed

lemma leaps_nonneg: "0 \<le> y \<Longrightarrow> 0 \<le> leaps y"
  unfolding leaps_def by (simp add: zdiv_mono2)

definition wday_sum :: "int \<Rightarrow> int \<Rightarrow> int \<Rightarrow> int" where
  "wday_sum y m k =
     23 * m div 9 + k + 4 + (if m < 3 then y + leaps (y - 1) else y - 2 + leaps y)"

lemma wday_eq:
  assumes "1 \<le> y" "1 \<le> m" "0 \<le> k"
  shows "rtc_get_wday y m k = wday_sum y m k mod 7"
proof -
  have n: "0 \<le> 23 * m div 9" "2 \<le> 23 * m div 9" using assms by (simp_all add: pos_imp_zdiv_nonneg_iff)
  have "0 \<le> wday_sum y m k"
    using assms n leaps_nonneg [of y] leaps_nonneg [of "y - 1"] by (auto simp: wday_sum_def)
  moreover have "rtc_get_wday y m k = wday_sum y m k smod 7"
    using assms by (simp add: rtc_get_wday_def wday_sum_def leaps_def sdiv_div Let_def algebra_simps)
  ultimately show ?thesis by (simp add: smod_mod)
qed

lemma wday_sum_next:
  assumes "valid_date (y, m, k)"
  shows "\<exists>q. (case next_day (y, m, k) of (y', m', k') \<Rightarrow> wday_sum y' m' k') = wday_sum y m k + 1 + 7 * q"
proof -
  have v: "1 \<le> m" "m \<le> 12" "k \<le> month_length y m" using assms by (auto simp: valid_date_def)
  show ?thesis
  proof (cases "k < month_length y m")
    case True
    then show ?thesis by (intro exI [of _ 0]) (simp add: next_day_def wday_sum_def)
  next
    case False
    with v have k: "k = month_length y m" by simp
    have "\<exists>q. (if m < 12 then wday_sum y (m + 1) 1 else wday_sum (y + 1) 1 1) = wday_sum y m k + 1 + 7 * q"
    proof -
      define L L' where "L = leaps y" "L' = leaps (y - 1)"
      have "L = L' + (if leap y then 1 else 0)" using leaps_pred [of y] by (simp add: L_L'_def)
      then show ?thesis
        using month_cases [OF v(1,2)]
        by (cases "leap y"; elim disjE; simp add: wday_sum_def k month_length_def flip: L_L'_def; presburger)
    qed
    with False show ?thesis by (auto simp: next_day_def split: if_splits)
  qed
qed

lemma next_day_valid:
  assumes "valid_date d"
  shows "valid_date (next_day d)"
proof -
  obtain y m k where d: "d = (y, m, k)" by (cases d)
  have "1 \<le> month_length y (m + 1)" "1 \<le> month_length (y + 1) 1"
    using month_length_bounds(1) [of y "m + 1"] month_length_bounds(1) [of "y + 1" 1] by linarith+
  with assms show ?thesis by (auto simp: d valid_date_def next_day_def)
qed

lemma wday_next:
  assumes "valid_date (y, m, k)"
  shows "(case next_day (y, m, k) of (y', m', k') \<Rightarrow> rtc_get_wday y' m' k') = (rtc_get_wday y m k + 1) mod 7"
proof -
  obtain y' m' k' where n: "next_day (y, m, k) = (y', m', k')" by (cases "next_day (y, m, k)")
  have v: "valid_date (y', m', k')" using next_day_valid [OF assms] n by simp
  have w: "rtc_get_wday y m k = wday_sum y m k mod 7" "rtc_get_wday y' m' k' = wday_sum y' m' k' mod 7"
    using assms v by (intro wday_eq; simp add: valid_date_def)+
  obtain q where q: "wday_sum y' m' k' = wday_sum y m k + 1 + 7 * q"
    using wday_sum_next [OF assms] n by auto
  have "rtc_get_wday y' m' k' = (wday_sum y m k + 1 + 7 * q) mod 7" using w(2) q by simp
  also have "\<dots> = (wday_sum y m k mod 7 + 1) mod 7"
    by (simp only: mod_mult_self2 mod_add_left_eq)
  finally show ?thesis using w(1) n by simp
qed

lemma wday_range:
  assumes "1 \<le> y" "1 \<le> m" "0 \<le> k"
  shows "0 \<le> rtc_get_wday y m k \<and> rtc_get_wday y m k \<le> 6"
  using wday_eq [OF assms] by (simp add: pos_mod_bound [of 7, simplified])

lemma days_wday:
  "case (next_day ^^ n) (1, 1, 1) of (y, m, k) \<Rightarrow>
     valid_date (y, m, k) \<and> rtc_get_wday y m k = (1 + int n) mod 7"
proof (induction n)
  case 0
  show ?case by (simp add: valid_date_def month_length_def rtc_get_wday_def)
next
  case (Suc n)
  obtain y m k where d: "(next_day ^^ n) (1, 1, 1) = (y, m, k)" by (cases "(next_day ^^ n) (1, 1, 1)")
  obtain y' m' k' where n: "next_day (y, m, k) = (y', m', k')" by (cases "next_day (y, m, k)")
  have "valid_date (y, m, k)" "rtc_get_wday y m k = (1 + int n) mod 7" using Suc d by auto
  moreover from this wday_next [of y m k] n have "rtc_get_wday y' m' k' = ((1 + int n) mod 7 + 1) mod 7" by simp
  moreover have "((1 + int n) mod 7 + 1) mod 7 = (1 + int (Suc n)) mod 7"
    by presburger
  ultimately show ?case using next_day_valid [of "(y, m, k)"] d n by simp
qed

subsection \<open>Properties\<close>

text \<open>C12.  \<open>rtc_get_wday\<close> is the weekday of the proleptic Gregorian calendar: counting the days one by one from Monday,
  1 January of year 1, by month lengths and leap years, the \<open>n\<close>-th day has the weekday \<open>1 + n\<close> modulo 7, with
  Sunday 0, as the driver's documentation promises.\<close>

theorem wday_counts_days:
  "case (next_day ^^ n) (1, 1, 1) of (y, m, k) \<Rightarrow>
     valid_date (y, m, k) \<and> rtc_get_wday y m k = (1 + int n) mod 7 \<and> rtc_get_wday 2000 1 1 = 6"
proof -
  have "rtc_get_wday 2000 1 1 = 6" by (simp add: rtc_get_wday_def)
  with days_wday [of n] show ?thesis by (auto split: prod.splits)
qed

text \<open>For a month 1 to 12, \<open>rtc_get_yday\<close> is the sum of the lengths of the months before plus the day, so the
  first day of a year is day 1; a month above 12, which its caller \<open>rtc_timer_set\<close> has not checked yet, reads
  outside the table.\<close>

lemma yday_counts_from_one:
  assumes "0 \<le> y"
  shows "(1 \<le> m \<and> m \<le> 12 \<longrightarrow> rtc_get_yday y m k = Some (day_of_year y m k)) \<and>
    rtc_get_yday y 1 1 = Some 1 \<and> rtc_get_yday y 12 31 = Some (if leap y then 366 else 365) \<and>
    (13 \<le> m \<longrightarrow> rtc_get_yday y m k = None)"
  using yday_correct [OF assms, of m k] year_is_leap [OF assms]
  by (simp add: rtc_get_yday_def yday_table_def)

lemma yday_counts_from_one_witness:
  "rtc_get_yday 2024 3 1 = Some (day_of_year 2024 3 1) \<and> rtc_get_yday 2024 13 1 = None"
  using yday_counts_from_one [of 2024 3 1] yday_counts_from_one [of 2024 13 1] by simp

end
