(* ===== verification/Plic.thy ===== *)
theory Plic
  imports Csr
begin

text \<open>
  The platform interrupt controller driver \<open>lib/drivers/plic.c\<close>.  The register block is shared by the two cores:
  one priority per source, and per core the enable bits (an array of 32-bit words), the priority threshold, and the
  claim/complete register.  That register is a device: \<open>claims core\<close> is the sequence of
  sources the hardware will hand to the core's next reads (0 when it is used up), \<open>completed core\<close> the
  writes made so far, last first.  \<open>plic_instance\<close> holds a callback and its context per core and source; a callback is an
  element of \<open>'cb\<close>, a context pointer a number.
\<close>

record 'cb plic =
  priority :: "u32 list"
  enables :: "nat \<Rightarrow> u32 list"
  threshold :: "nat \<Rightarrow> u32"
  claims :: "nat \<Rightarrow> u32 list"
  completed :: "nat \<Rightarrow> u32 list"
  instance_cb :: "nat \<Rightarrow> 'cb option list"
  instance_ctx :: "nat \<Rightarrow> nat list"
  init_flag :: bool

definition IRQN_MAX :: nat where [simp]: "IRQN_MAX = 66"
definition PLIC_NUM_SOURCES :: nat where [simp]: "PLIC_NUM_SOURCES = IRQN_MAX - 1"

text \<open>Reading the claim register takes the next source; writing it completes a source.\<close>

definition claim_read :: "nat \<Rightarrow> 'cb plic \<Rightarrow> u32 \<times> 'cb plic" where
  "claim_read core p =
     (case claims p core of
        [] \<Rightarrow> (0, p)
      | n # ns \<Rightarrow> (n, p\<lparr>claims := (claims p)(core := ns)\<rparr>))"

definition claim_write :: "nat \<Rightarrow> u32 \<Rightarrow> 'cb plic \<Rightarrow> 'cb plic" where
  "claim_write core n p = p\<lparr>completed := (completed p)(core := n # completed p core)\<rparr>"

text \<open>The loop that drains the claim register, at most 100 rounds.\<close>

fun claim_drain :: "nat \<Rightarrow> nat \<Rightarrow> 'cb plic \<Rightarrow> 'cb plic" where
  "claim_drain 0 core p = snd (claim_read core p)"
| "claim_drain (Suc rounds) core p =
     (case claim_read core p of (n, p') \<Rightarrow> if 0 < n then claim_drain rounds core p' else p')"

definition plic_init :: "nat \<Rightarrow> 'cb plic \<times> csr \<Rightarrow> 'cb plic \<times> csr" where
  "plic_init core s = (case s of (p, c) \<Rightarrow>
     (let p = fold (\<lambda>i p. p\<lparr>enables := (enables p)(core := (enables p core)[i := 0])\<rparr>)
                [0..<(PLIC_NUM_SOURCES + 32) div 32] p;
          p = (if \<not> init_flag p
               then (fold (\<lambda>i p. p\<lparr>priority := (priority p)[i := 0]\<rparr>) [0..<PLIC_NUM_SOURCES] p)\<lparr>init_flag := True\<rparr>
               else p);
          p = p\<lparr>threshold := (threshold p)(core := 0)\<rparr>;
          p = fold (\<lambda>i p. p\<lparr>instance_cb := (instance_cb p)(core := (instance_cb p core)[i := None]),
                           instance_ctx := (instance_ctx p)(core := (instance_ctx p core)[i := 0])\<rparr>)
                [0..<IRQN_MAX] p;
          p = claim_drain 100 core p
      in (p, set_mie MIP_MEIP c)))"

definition bad_irq :: "int \<Rightarrow> bool" where
  "bad_irq irq \<longleftrightarrow> int PLIC_NUM_SOURCES < irq \<or> 0 > irq"

definition plic_irq_enable :: "nat \<Rightarrow> int \<Rightarrow> 'cb plic \<Rightarrow> int \<times> 'cb plic" where
  "plic_irq_enable core irq p =
     (if bad_irq irq then (-1, p)
      else
       (let n = nat irq; current = enables p core ! (n div 32);
            current = current OR push_bit (n mod 32) 1
        in (0, p\<lparr>enables := (enables p)(core := (enables p core)[n div 32 := current])\<rparr>)))"

definition plic_irq_disable :: "nat \<Rightarrow> int \<Rightarrow> 'cb plic \<Rightarrow> int \<times> 'cb plic" where
  "plic_irq_disable core irq p =
     (if bad_irq irq then (-1, p)
      else
       (let n = nat irq; current = enables p core ! (n div 32);
            current = current AND NOT (push_bit (n mod 32) 1)
        in (0, p\<lparr>enables := (enables p)(core := (enables p core)[n div 32 := current])\<rparr>)))"

definition plic_set_priority :: "int \<Rightarrow> u32 \<Rightarrow> 'cb plic \<Rightarrow> int \<times> 'cb plic" where
  "plic_set_priority irq prio p =
     (if bad_irq irq then (-1, p) else (0, p\<lparr>priority := (priority p)[nat irq := prio]\<rparr>))"

definition plic_get_priority :: "int \<Rightarrow> 'cb plic \<Rightarrow> u32" where
  "plic_get_priority irq p = (if bad_irq irq then 0 else priority p ! nat irq)"

definition plic_irq_claim :: "nat \<Rightarrow> 'cb plic \<Rightarrow> u32 \<times> 'cb plic" where
  "plic_irq_claim core p = claim_read core p"

definition plic_irq_complete :: "nat \<Rightarrow> u32 \<Rightarrow> 'cb plic \<Rightarrow> int \<times> 'cb plic" where
  "plic_irq_complete core source p = (0, claim_write core source p)"

definition plic_irq_register :: "nat \<Rightarrow> nat \<Rightarrow> 'cb option \<Rightarrow> nat \<Rightarrow> 'cb plic \<Rightarrow> 'cb plic" where
  "plic_irq_register core irq cb ctx p =
     p\<lparr>instance_cb := (instance_cb p)(core := (instance_cb p core)[irq := cb]),
       instance_ctx := (instance_ctx p)(core := (instance_ctx p core)[irq := ctx])\<rparr>"

definition plic_irq_unregister :: "nat \<Rightarrow> nat \<Rightarrow> 'cb plic \<Rightarrow> 'cb plic" where
  "plic_irq_unregister core irq p = plic_irq_register core irq None 0 p"

text \<open>
  The handler of machine external interrupts, cut at the callback: \<open>ext_enter\<close> claims the source, raises the threshold
  to its priority, masks timer and software interrupts and enables interrupts again; \<open>ext_leave\<close>
  completes the source and puts back what was saved in local variables.  \<open>run cb ctx\<close> is what the callback does
  to the machine, interrupts nested in it included.
\<close>

definition ext_enter :: "nat \<Rightarrow> 'cb plic \<times> csr \<Rightarrow> u32 \<times> u32 \<times> u64 \<times> 'cb plic \<times> csr" where
  "ext_enter core s = (case s of (p, c) \<Rightarrow>
     (let ie_flag = mie c;
          (int_num, p) = claim_read core p;
          int_threshold = threshold p core;
          p = p\<lparr>threshold := (threshold p)(core := priority p ! unat int_num)\<rparr>;
          c = clear_mie (MIP_MTIP OR MIP_MSIP) c;
          c = set_mstatus MSTATUS_MIE c
      in (int_num, int_threshold, ie_flag, p, c)))"

definition ext_leave :: "nat \<Rightarrow> u32 \<Rightarrow> u32 \<Rightarrow> u64 \<Rightarrow> 'cb plic \<times> csr \<Rightarrow> 'cb plic \<times> csr" where
  "ext_leave core int_num int_threshold ie_flag s = (case s of (p, c) \<Rightarrow>
     (let p = claim_write core int_num p;
          c = clear_mstatus MSTATUS_MIE c;
          c = set_mstatus (MSTATUS_MPIE OR MSTATUS_MPP) c;
          c = c\<lparr>mie := ie_flag\<rparr>;
          p = p\<lparr>threshold := (threshold p)(core := int_threshold)\<rparr>
      in (p, c)))"

definition handle_irq_m_ext ::
  "('cb \<Rightarrow> nat \<Rightarrow> 'cb plic \<times> csr \<Rightarrow> 'cb plic \<times> csr) \<Rightarrow> nat \<Rightarrow> 'cb plic \<times> csr \<Rightarrow> 'cb plic \<times> csr" where
  "handle_irq_m_ext run core s =
     (if mip (snd s) AND MIP_MEIP \<noteq> 0 then
        (case ext_enter core s of (int_num, int_threshold, ie_flag, p, c) \<Rightarrow>
          (let s = (case instance_cb p core ! unat int_num of
                 Some cb \<Rightarrow> run cb (instance_ctx p core ! unat int_num) (p, c)
               | None \<Rightarrow> (p, c))
           in ext_leave core int_num int_threshold ie_flag s))
      else s)"

subsection \<open>The interface drivers rely on\<close>

text \<open>
  A driver arms an interrupt line in three calls: set its priority, register a callback, enable it.  The laws say what each call does to the
  three things a line has, and that it leaves every other line alone.
\<close>

locale irq_controller =
  fixes ok :: "'s \<Rightarrow> bool"
    and enabled :: "'s \<Rightarrow> nat \<Rightarrow> bool"
    and prio :: "'s \<Rightarrow> nat \<Rightarrow> u32"
    and handler :: "'s \<Rightarrow> nat \<Rightarrow> 'cb option \<times> nat"
    and sources :: nat
    and set_prio :: "nat \<Rightarrow> u32 \<Rightarrow> 's \<Rightarrow> 's"
    and register :: "nat \<Rightarrow> 'cb option \<Rightarrow> nat \<Rightarrow> 's \<Rightarrow> 's"
    and enable :: "nat \<Rightarrow> 's \<Rightarrow> 's"
    and disable :: "nat \<Rightarrow> 's \<Rightarrow> 's"
  assumes ok_set_prio: "ok s \<Longrightarrow> n < sources \<Longrightarrow> ok (set_prio n v s)"
    and ok_register: "ok s \<Longrightarrow> n < sources \<Longrightarrow> ok (register n cb ctx s)"
    and ok_enable: "ok s \<Longrightarrow> n < sources \<Longrightarrow> ok (enable n s)"
    and ok_disable: "ok s \<Longrightarrow> n < sources \<Longrightarrow> ok (disable n s)"
    and prio_set_prio: "ok s \<Longrightarrow> n < sources \<Longrightarrow> prio (set_prio n v s) = (prio s)(n := v)"
    and prio_register: "prio (register n cb ctx s) = prio s"
    and prio_enable: "prio (enable n s) = prio s"
    and prio_disable: "prio (disable n s) = prio s"
    and handler_set_prio: "handler (set_prio n v s) = handler s"
    and handler_register: "ok s \<Longrightarrow> n < sources \<Longrightarrow> handler (register n cb ctx s) = (handler s)(n := (cb, ctx))"
    and handler_enable: "handler (enable n s) = handler s"
    and handler_disable: "handler (disable n s) = handler s"
    and enabled_set_prio: "enabled (set_prio n v s) = enabled s"
    and enabled_register: "enabled (register n cb ctx s) = enabled s"
    and enabled_enable: "ok s \<Longrightarrow> n < sources \<Longrightarrow> enabled (enable n s) = (enabled s)(n := True)"
    and enabled_disable: "ok s \<Longrightarrow> n < sources \<Longrightarrow> enabled (disable n s) = (enabled s)(n := False)"
begin

lemma arm:
  assumes "ok s" "n < sources"
  shows "ok (enable n (register n cb ctx (set_prio n v s)))"
    and "enabled (enable n (register n cb ctx (set_prio n v s))) = (enabled s)(n := True)"
    and "prio (enable n (register n cb ctx (set_prio n v s))) = (prio s)(n := v)"
    and "handler (enable n (register n cb ctx (set_prio n v s))) = (handler s)(n := (cb, ctx))"
  using assms
  by (simp_all add: ok_set_prio ok_register ok_enable prio_set_prio prio_register prio_enable
      handler_set_prio handler_register handler_enable enabled_set_prio enabled_register enabled_enable)

lemma disarm:
  assumes "ok s" "n < sources"
  shows "ok (disable n (register n None 0 s))"
    and "enabled (disable n (register n None 0 s)) = (enabled s)(n := False)"
    and "handler (disable n (register n None 0 s)) = (handler s)(n := (None, 0))"
    and "prio (disable n (register n None 0 s)) = prio s"
  using assms
  by (simp_all add: ok_register ok_disable prio_register prio_disable handler_register handler_disable
      enabled_register enabled_disable)

end

subsection \<open>The driver provides it\<close>

definition plic_wf :: "'cb plic \<Rightarrow> bool" where
  "plic_wf p \<longleftrightarrow> length (priority p) = 1024 \<and>
     (\<forall>core. length (enables p core) = 64 \<and> length (instance_cb p core) = 66 \<and> length (instance_ctx p core) = 66)"

definition irq_enabled :: "nat \<Rightarrow> 'cb plic \<Rightarrow> nat \<Rightarrow> bool" where
  "irq_enabled core p n = arr_bit (enables p core) n"

definition irq_prio :: "'cb plic \<Rightarrow> nat \<Rightarrow> u32" where
  "irq_prio p n = priority p ! n"

definition irq_handler :: "nat \<Rightarrow> 'cb plic \<Rightarrow> nat \<Rightarrow> 'cb option \<times> nat" where
  "irq_handler core p n = (instance_cb p core ! n, instance_ctx p core ! n)"

lemmas plic_view = irq_enabled_def irq_prio_def irq_handler_def fun_eq_iff nth_list_update

lemma bad_irq_of_nat: "bad_irq (int n) \<longleftrightarrow> 66 \<le> n"
  by (auto simp: bad_irq_def)

lemma irq_word: "(n :: nat) < 66 \<Longrightarrow> n div 32 < 64"
  by (simp add: div_less_iff_less_mult)

interpretation plic: irq_controller plic_wf "irq_enabled core" irq_prio "irq_handler core" 66
  "\<lambda>n v p. snd (plic_set_priority (int n) v p)" "plic_irq_register core"
  "\<lambda>n p. snd (plic_irq_enable core (int n) p)" "\<lambda>n p. snd (plic_irq_disable core (int n) p)"
  for core
  by (unfold_locales)
    (auto simp: plic_wf_def plic_view plic_set_priority_def plic_irq_register_def plic_irq_enable_def
      plic_irq_disable_def bad_irq_of_nat Let_def arr_bit_set irq_word simp del: push_bit_of_1)

text \<open>The other core keeps its lines and its handlers.\<close>

lemma other_core:
  assumes "core' \<noteq> core"
  shows "irq_enabled core' (snd (plic_irq_enable core irq p)) = irq_enabled core' p"
    and "irq_enabled core' (snd (plic_irq_disable core irq p)) = irq_enabled core' p"
    and "irq_handler core' (plic_irq_register core n cb ctx p) = irq_handler core' p"
    and "irq_enabled core' (plic_irq_register core n cb ctx p) = irq_enabled core' p"
    and "irq_handler core' (snd (plic_irq_enable core irq p)) = irq_handler core' p"
    and "irq_enabled core' (snd (plic_set_priority irq v p)) = irq_enabled core' p"
    and "irq_handler core' (snd (plic_set_priority irq v p)) = irq_handler core' p"
  using assms
  by (auto simp: plic_view plic_irq_enable_def plic_irq_disable_def plic_irq_register_def
      plic_set_priority_def Let_def)

subsection \<open>Initialisation\<close>

lemma claim_drain_keeps:
  "priority (claim_drain r core p) = priority p \<and> enables (claim_drain r core p) = enables p \<and>
   threshold (claim_drain r core p) = threshold p \<and> instance_cb (claim_drain r core p) = instance_cb p \<and>
   instance_ctx (claim_drain r core p) = instance_ctx p \<and> init_flag (claim_drain r core p) = init_flag p"
proof (induction r arbitrary: p)
  case 0
  then show ?case by (simp add: claim_read_def split: list.splits)
next
  case (Suc r)
  then show ?case by (simp add: claim_read_def split: list.splits)
qed

text \<open>Each loop of \<open>plic_init\<close> writes one array.\<close>

lemma init_enables:
  "fold (\<lambda>i p. p\<lparr>enables := (enables p)(core := (enables p core)[i := 0])\<rparr>) is p =
   p\<lparr>enables := (enables p)(core := fold (\<lambda>i xs. xs[i := 0]) is (enables p core))\<rparr>"
  by (induction "is" arbitrary: p) simp_all

lemma init_priorities:
  "fold (\<lambda>i p. p\<lparr>priority := (priority p)[i := 0]\<rparr>) is p =
   p\<lparr>priority := fold (\<lambda>i xs. xs[i := 0]) is (priority p)\<rparr>"
  by (induction "is" arbitrary: p) simp_all

lemma init_instances:
  "fold (\<lambda>i p. p\<lparr>instance_cb := (instance_cb p)(core := (instance_cb p core)[i := None]),
                 instance_ctx := (instance_ctx p)(core := (instance_ctx p core)[i := 0])\<rparr>) is p =
   p\<lparr>instance_cb := (instance_cb p)(core := fold (\<lambda>i xs. xs[i := None]) is (instance_cb p core)),
     instance_ctx := (instance_ctx p)(core := fold (\<lambda>i xs. xs[i := 0]) is (instance_ctx p core))\<rparr>"
  by (induction "is" arbitrary: p) simp_all

lemma plic_init_state:
  fixes p :: "'cb plic" and core :: nat and c :: csr
  assumes "plic_wf p"
  defines "p' \<equiv> fst (plic_init core (p, c))"
  shows "n < 66 \<Longrightarrow> irq_enabled core p' n = False"
    and "n < 66 \<Longrightarrow> irq_handler core p' n = (None, 0)"
    and "threshold p' core = 0"
    and "i < 1024 \<Longrightarrow> irq_prio p' i = (if \<not> init_flag p \<and> i < 65 then 0 else irq_prio p i)"
    and "snd (plic_init core (p, c)) = set_mie MIP_MEIP c"
proof -
  let ?e = "fold (\<lambda>i xs. xs[i := 0]) [0..<3] (enables p core)"
  let ?pr = "if init_flag p then priority p else fold (\<lambda>i xs. xs[i := 0]) [0..<65] (priority p)"
  let ?cb = "fold (\<lambda>i xs. xs[i := None]) [0..<66] (instance_cb p core)"
  let ?cx = "fold (\<lambda>i xs. xs[i := 0]) [0..<66] (instance_ctx p core)"
  have e: "enables p' core = ?e" "priority p' = ?pr" "instance_cb p' core = ?cb" "instance_ctx p' core = ?cx"
    "threshold p' core = 0" "snd (plic_init core (p, c)) = set_mie MIP_MEIP c"
    unfolding p'_def plic_init_def
    by (simp_all add: Let_def claim_drain_keeps init_enables init_priorities init_instances del: claim_drain.simps)
  have l: "length (enables p core) = 64" "length (priority p) = 1024" "length (instance_cb p core) = 66"
    "length (instance_ctx p core) = 66"
    using assms(1) by (auto simp: plic_wf_def)
  show "irq_enabled core p' n = False" if "n < 66"
  proof -
    have "n div 32 < 3" using that by (simp add: div_less_iff_less_mult)
    then have "?e ! (n div 32) = 0" using l(1) by (subst fold_update_nth) auto
    then show ?thesis by (simp add: irq_enabled_def arr_bit_def e(1))
  qed
  show "irq_handler core p' n = (None, 0)" if "n < 66"
    using that l by (simp add: irq_handler_def e fold_update_nth)
  show "irq_prio p' i = (if \<not> init_flag p \<and> i < 65 then 0 else irq_prio p i)" if "i < 1024"
    using that l by (simp add: irq_prio_def e fold_update_nth)
  show "threshold p' core = 0" "snd (plic_init core (p, c)) = set_mie MIP_MEIP c" by (rule e)+
qed

subsection \<open>The handler\<close>

lemma csr_bit_ops:
  "bit (w AND NOT (MIP_MTIP OR MIP_MSIP)) k \<longleftrightarrow> bit w k \<and> k \<noteq> 3 \<and> k \<noteq> 7"
  "bit (w AND NOT MIP_MTIP AND NOT MIP_MSIP) k \<longleftrightarrow> bit w k \<and> k \<noteq> 3 \<and> k \<noteq> 7"
  "bit (w OR MSTATUS_MIE) k \<longleftrightarrow> bit w k \<or> k = 3"
  "bit (w AND NOT MSTATUS_MIE OR (MSTATUS_MPIE OR MSTATUS_MPP)) k \<longleftrightarrow> bit w k \<and> k \<noteq> 3 \<or> k \<in> {7, 11, 12}"
  for w :: u64
  by (auto simp: bit_simps csr_mask_bit dest: bit_imp_le_length)

text \<open>A register block after power-up, for the examples.\<close>

definition plic_blank :: "'cb plic" where
  "plic_blank = \<lparr>priority = replicate 1024 0, enables = (\<lambda>_. replicate 64 0), threshold = (\<lambda>_. 0),
     claims = (\<lambda>_. []), completed = (\<lambda>_. []), instance_cb = (\<lambda>_. replicate 66 None),
     instance_ctx = (\<lambda>_. replicate 66 0), init_flag = False\<rparr>"

lemma plic_blank_wf: "plic_wf plic_blank"
  by (simp add: plic_wf_def plic_blank_def)

subsection \<open>Properties\<close>

text \<open>Arming a line: after \<open>plic_set_priority\<close>, \<open>plic_irq_register\<close> and \<open>plic_irq_enable\<close> for a source of
  the chip, the line is enabled on this core with that priority and callback, no other line of
  the core has changed in any way, and the other core's lines and callbacks are untouched.\<close>

lemma plic_arm_line:
  fixes p :: "'cb plic" and core n ctx :: nat and v :: u32 and cb :: "'cb option"
  assumes "plic_wf p" "n < 66"
  defines "p' \<equiv> snd (plic_irq_enable core (int n) (plic_irq_register core n cb ctx (snd (plic_set_priority (int n) v p))))"
  shows "plic_wf p' \<and> irq_enabled core p' = (irq_enabled core p)(n := True) \<and>
    irq_prio p' = (irq_prio p)(n := v) \<and> irq_handler core p' = (irq_handler core p)(n := (cb, ctx)) \<and>
    (core' \<noteq> core \<longrightarrow> irq_enabled core' p' = irq_enabled core' p \<and> irq_handler core' p' = irq_handler core' p)"
  unfolding p'_def
  using plic.arm [OF assms(1,2), of core cb ctx v] by (simp add: other_core)

lemma plic_arm_line_witness:
  "irq_enabled 0 (snd (plic_irq_enable 0 20 (plic_irq_register 0 20 (Some True) 7 (snd (plic_set_priority 20 3 plic_blank))))) 20 \<and>
   irq_handler 0 (snd (plic_irq_enable 0 20 (plic_irq_register 0 20 (Some True) 7 (snd (plic_set_priority 20 3 plic_blank))))) 20 = (Some True, 7)"
  using plic_arm_line [OF plic_blank_wf, of 20 0 "Some True" 7 3 1] by simp

text \<open>C11.  The external interrupt handler, whatever the callback does: the callback of the claimed source
  runs with the threshold at that source's priority, timer and software interrupts masked and interrupts enabled;
  afterwards the source is completed once, the enable register and the threshold are what they were at
  entry, and the status register makes \<open>mret\<close> return to machine mode with interrupts on.\<close>

theorem ext_handler_restores:
  assumes mip: "mip c AND MIP_MEIP \<noteq> 0" and claim: "claims p core = n # ns"
    and cb: "instance_cb p core ! unat n = Some f"
  shows "\<exists>c1 p2 c2.
    (\<forall>k. bit (mie c1) k \<longleftrightarrow> bit (mie c) k \<and> k \<noteq> 3 \<and> k \<noteq> 7) \<and>
    (\<forall>k. bit (mstatus c1) k \<longleftrightarrow> bit (mstatus c) k \<or> k = 3) \<and>
    run f (instance_ctx p core ! unat n)
      (p\<lparr>claims := (claims p)(core := ns), threshold := (threshold p)(core := priority p ! unat n)\<rparr>, c1) = (p2, c2) \<and>
    (case handle_irq_m_ext run core (p, c) of (p', c') \<Rightarrow>
       p' = p2\<lparr>completed := (completed p2)(core := n # completed p2 core),
               threshold := (threshold p2)(core := threshold p core)\<rparr> \<and>
       mie c' = mie c \<and>
       (\<forall>k. bit (mstatus c') k \<longleftrightarrow> bit (mstatus c2) k \<and> k \<noteq> 3 \<or> k \<in> {7, 11, 12}))"
proof -
  let ?c1 = "c\<lparr>mie := mie c AND NOT (MIP_MTIP OR MIP_MSIP), mstatus := mstatus c OR MSTATUS_MIE\<rparr>"
  let ?p1 = "p\<lparr>claims := (claims p)(core := ns), threshold := (threshold p)(core := priority p ! unat n)\<rparr>"
  obtain p2 c2 where r: "run f (instance_ctx p core ! unat n) (?p1, ?c1) = (p2, c2)" by fastforce
  have e: "ext_enter core (p, c) = (n, threshold p core, mie c, ?p1, ?c1)"
    using claim by (simp add: ext_enter_def claim_read_def csr_ops Let_def)
  have h: "handle_irq_m_ext run core (p, c) = ext_leave core n (threshold p core) (mie c) (p2, c2)"
    using mip cb r by (simp add: handle_irq_m_ext_def e)
  show ?thesis
    by (rule exI [of _ ?c1], rule exI [of _ p2], rule exI [of _ c2])
      (use r in \<open>simp add: h r ext_leave_def claim_write_def csr_ops csr_bit_ops Let_def\<close>)
qed

theorem ext_handler_restores_witness:
  "case handle_irq_m_ext (\<lambda>f ctx (p, c). (p\<lparr>threshold := (\<lambda>_. 6)\<rparr>, c\<lparr>mie := 0\<rparr>)) 0
     (plic_blank\<lparr>claims := (\<lambda>_. [20]), instance_cb := (\<lambda>_. (replicate 66 None)[20 := Some True]), threshold := (\<lambda>_. 2)\<rparr>,
      \<lparr>mstatus = 8, mie = 0x888, mip = 0x800\<rparr>) of
     (p', c') \<Rightarrow> threshold p' 0 = 2 \<and> mie c' = 0x888 \<and> completed p' 0 = [20]"
proof -
  have "(0x800 :: u64) AND MIP_MEIP \<noteq> 0" by code_simp
  then show ?thesis
    using ext_handler_restores [where c = "\<lparr>mstatus = 8, mie = 0x888, mip = 0x800\<rparr>" and core = 0 and n = 20 and ns = "[]" and f = True
      and p = "plic_blank\<lparr>claims := (\<lambda>_. [20]), instance_cb := (\<lambda>_. (replicate 66 None)[20 := Some True]), threshold := (\<lambda>_. 2)\<rparr>"
      and run = "\<lambda>f ctx (p, c). (p\<lparr>threshold := (\<lambda>_. 6)\<rparr>, c\<lparr>mie := 0\<rparr>)"]
    by (auto simp: plic_blank_def split: prod.splits)
qed

text \<open>After \<open>plic_init\<close> on a core, every source is disabled and without callback there, the threshold is
  0 and external interrupts are on; on the first call the priorities of the sources 0 to 64
  are 0, but the loop ends one short: the priority of source 65, the last one, keeps its old value.\<close>

lemma plic_init_misses_last_source:
  assumes "plic_wf p" "n < 66"
  shows "(case plic_init core (p, c) of (p', c') \<Rightarrow>
      \<not> irq_enabled core p' n \<and> irq_handler core p' n = (None, 0) \<and> threshold p' core = 0 \<and>
      irq_prio p' n = (if \<not> init_flag p \<and> n < 65 then 0 else irq_prio p n) \<and>
      irq_prio p' 65 = irq_prio p 65 \<and> c' = c\<lparr>mie := mie c OR MIP_MEIP\<rparr>)"
proof -
  have n: "n < 1024" using assms(2) by simp
  show ?thesis
    using plic_init_state(1,2) [OF assms, of core c] plic_init_state(3,5) [OF assms(1), of core c]
      plic_init_state(4) [OF assms(1) n, of core c] plic_init_state(4) [OF assms(1), of 65 core c]
    by (cases "plic_init core (p, c)") (simp add: set_mie_def)
qed

lemma plic_init_misses_last_source_witness:
  "case plic_init 0 (plic_blank\<lparr>priority := (replicate 1024 0)[65 := 5]\<rparr>, \<lparr>mstatus = 0, mie = 0, mip = 0\<rparr>) of (p', c') \<Rightarrow>
     irq_prio p' 65 = 5"
  using plic_init_misses_last_source [of "plic_blank\<lparr>priority := (replicate 1024 0)[65 := 5]\<rparr>" 65 0 "\<lparr>mstatus = 0, mie = 0, mip = 0\<rparr>"]
    plic_blank_wf
  by (auto simp: plic_wf_def irq_prio_def plic_blank_def case_prod_unfold)

end
