(* ===== verification/Rtc.thy ===== *)
theory Rtc
  imports Rtc_Calendar Sysctl_Freq Plic
begin

text \<open>
  The real-time clock driver \<open>lib/drivers/rtc.c\<close>: the register block, the \<open>struct tm\<close> interface to
  it, and the two users of its one interrupt line, the periodic tick and the alarm.

  The reserved bits and \<open>extended.leap_year\<close> are left out: the latter is written from an
  uninitialised local and never read.  The wait for one cycle of the 26 MHz clock in \<open>rtc_timer_set_mode\<close> changes no
  state and is left out.  Functions that can only return 0 return just the new state.  A tick
  mode is a 32-bit number, because the driver stores \<open>-1\<close> in a variable of the enumeration; an
  alarm mask is its byte, bit 1 the seconds up to bit 7 the year.
\<close>

subsection \<open>Registers\<close>

datatype rtc_timer_mode = RTC_TIMER_PAUSE | RTC_TIMER_RUNNING | RTC_TIMER_SETTING | RTC_TIMER_MAX

definition RTC_INT_SECOND :: u32 where [simp]: "RTC_INT_SECOND = 0"
definition RTC_INT_MINUTE :: u32 where [simp]: "RTC_INT_MINUTE = 1"
definition RTC_INT_HOUR :: u32 where [simp]: "RTC_INT_HOUR = 2"
definition RTC_INT_DAY :: u32 where [simp]: "RTC_INT_DAY = 3"
definition RTC_INT_MAX :: u32 where [simp]: "RTC_INT_MAX = 4"

record rtc_date = d_week :: "3 word"  d_day :: "5 word"  d_month :: "4 word"  d_year :: "12 word"
record rtc_time = t_second :: "6 word"  t_minute :: "6 word"  t_hour :: "5 word"
record rtc_alarm_date = a_week :: "3 word"  a_day :: "5 word"  a_month :: "4 word"  a_year :: "12 word"
record rtc_alarm_time = a_second :: "6 word"  a_minute :: "6 word"  a_hour :: "5 word"

record rtc_interrupt_ctrl =
  tick_enable :: bit1
  alarm_enable :: bit1
  tick_int_mode :: "2 word"
  alarm_compare_mask :: u8

record rtc_register_ctrl =
  read_enable :: bit1
  write_enable :: bit1
  timer_mask :: u8
  alarm_mask :: u8
  initial_count_mask :: bit1
  interrupt_register_mask :: bit1

record rtc =
  rtc_date :: rtc_date
  rtc_time :: rtc_time
  alarm_date :: rtc_alarm_date
  alarm_time :: rtc_alarm_time
  initial_count :: u32
  current_count :: u32
  interrupt_ctrl :: rtc_interrupt_ctrl
  register_ctrl :: rtc_register_ctrl
  century :: "5 word"

record tm =
  tm_sec :: int
  tm_min :: int
  tm_hour :: int
  tm_mday :: int
  tm_mon :: int
  tm_year :: int
  tm_wday :: int
  tm_yday :: int
  tm_isdst :: int

record 'cb rtc_instance =
  tick_callback :: "'cb option"
  tick_ctx :: nat
  alarm_callback :: "'cb option"
  alarm_ctx :: nat
  tick_is_single_shot :: bool
  alarm_is_single_shot :: bool
  tick_enable_by_alarm :: bool
  tick_enable_by_user :: bool
  tick_mode_by_user :: u32
  tick_mode_by_alarm :: u32

text \<open>The driver: the registers, the instance, and the two static \<open>struct tm\<close> its readers fill.\<close>

record 'cb rtc_driver =
  regs :: rtc
  inst :: "'cb rtc_instance"
  timer_tm :: tm
  alarm_tm :: tm

subsection \<open>Timer mode\<close>

definition rtc_timer_set_mode :: "rtc_timer_mode \<Rightarrow> rtc \<Rightarrow> rtc" where
  "rtc_timer_set_mode timer_mode r =
     (let c = register_ctrl r;
          c = (case timer_mode of
                 RTC_TIMER_PAUSE \<Rightarrow> c\<lparr>read_enable := 0, write_enable := 0\<rparr>
               | RTC_TIMER_RUNNING \<Rightarrow> c\<lparr>read_enable := 1, write_enable := 0\<rparr>
               | RTC_TIMER_SETTING \<Rightarrow> c\<lparr>read_enable := 0, write_enable := 1\<rparr>
               | _ \<Rightarrow> c\<lparr>read_enable := 0, write_enable := 0\<rparr>)
      in r\<lparr>register_ctrl := c\<rparr>)"

definition rtc_timer_get_mode :: "rtc \<Rightarrow> rtc_timer_mode \<times> rtc" where
  "rtc_timer_get_mode r =
     (let c = register_ctrl r in
      if read_enable c = 0 \<and> write_enable c = 0 then (RTC_TIMER_PAUSE, r)
      else if read_enable c \<noteq> 0 \<and> write_enable c = 0 then (RTC_TIMER_RUNNING, r)
      else if read_enable c = 0 \<and> write_enable c \<noteq> 0 then (RTC_TIMER_RUNNING, r)
      else (RTC_TIMER_PAUSE, rtc_timer_set_mode RTC_TIMER_PAUSE r))"

text \<open>Most setters put the timer in setting mode, write, and put it back in running mode.\<close>

definition rtc_setting :: "(rtc \<Rightarrow> rtc) \<Rightarrow> rtc \<Rightarrow> rtc" where
  "rtc_setting write r =
     rtc_timer_set_mode RTC_TIMER_RUNNING (write (rtc_timer_set_mode RTC_TIMER_SETTING r))"

subsection \<open>Date and time\<close>

definition rtc_in_range :: "int \<Rightarrow> int \<Rightarrow> int \<Rightarrow> bool" where
  "rtc_in_range value mn mx \<longleftrightarrow> value \<ge> mn \<and> value \<le> mx"

definition rtc_timer_set_tm :: "tm option \<Rightarrow> rtc \<Rightarrow> int \<times> rtc" where
  "rtc_timer_set_tm tmp r =
     (case tmp of None \<Rightarrow> (0, r)
      | Some t \<Rightarrow>
        if \<not> rtc_in_range (tm_sec t) 0 59 then (-1, r)
        else if \<not> rtc_in_range (tm_min t) 0 59 then (-1, r)
        else if \<not> rtc_in_range (tm_hour t) 0 23 then (-1, r)
        else if \<not> rtc_in_range (tm_mday t) 1 31 then (-1, r)
        else if \<not> rtc_in_range (tm_mon t) 0 11 then (-1, r)
        else
         (let human_year = tm_year t + 1900;
              rtc_year = human_year smod 100;
              rtc_century = human_year sdiv 100 in
          if \<not> (rtc_in_range rtc_year 0 99 \<and> rtc_in_range rtc_century 0 31) then (-1, r)
          else if \<not> rtc_in_range (tm_wday t) 0 6 then (-1, r)
          else
            (0, rtc_setting (\<lambda>r. r\<lparr>
               rtc_date := \<lparr>d_week = word_of_int (tm_wday t), d_day = word_of_int (tm_mday t),
                            d_month = word_of_int (tm_mon t + 1), d_year = word_of_int rtc_year\<rparr>,
               rtc_time := \<lparr>t_second = word_of_int (tm_sec t), t_minute = word_of_int (tm_min t),
                            t_hour = word_of_int (tm_hour t)\<rparr>,
               century := word_of_int rtc_century\<rparr>) r)))"

definition rtc_alarm_set_tm :: "tm option \<Rightarrow> rtc \<Rightarrow> int \<times> rtc" where
  "rtc_alarm_set_tm tmp r =
     (case tmp of None \<Rightarrow> (0, r)
      | Some t \<Rightarrow>
        if \<not> rtc_in_range (tm_sec t) 0 59 then (-1, r)
        else if \<not> rtc_in_range (tm_min t) 0 59 then (-1, r)
        else if \<not> rtc_in_range (tm_hour t) 0 23 then (-1, r)
        else if \<not> rtc_in_range (tm_mday t) 1 31 then (-1, r)
        else if \<not> rtc_in_range (tm_mon t) 0 11 then (-1, r)
        else
         (let human_year = tm_year t + 1900;
              rtc_year = human_year smod 100;
              rtc_century = human_year sdiv 100 in
          if \<not> (rtc_in_range rtc_year 0 99 \<and> rtc_in_range rtc_century 0 31) then (-1, r)
          else if \<not> rtc_in_range (tm_wday t) 0 6 then (-1, r)
          else
            (0, rtc_setting (\<lambda>r. r\<lparr>
               alarm_date := \<lparr>a_week = word_of_int (tm_wday t), a_day = word_of_int (tm_mday t),
                              a_month = word_of_int (tm_mon t + 1), a_year = word_of_int rtc_year\<rparr>,
               alarm_time := \<lparr>a_second = word_of_int (tm_sec t), a_minute = word_of_int (tm_min t),
                              a_hour = word_of_int (tm_hour t)\<rparr>\<rparr>) r)))"

text \<open>
  The readers fill their static \<open>struct tm\<close> and return its address, or \<open>NULL\<close> (here \<open>False\<close>) with nothing filled.
  \<open>the\<close> is safe: the month handed to \<open>rtc_get_yday\<close> is at most 12 (\<open>read_month_in_table\<close>).
\<close>

definition read_tm :: "int \<Rightarrow> int \<Rightarrow> int \<Rightarrow> int \<Rightarrow> int \<Rightarrow> int \<Rightarrow> int \<Rightarrow> int \<Rightarrow> tm" where
  "read_tm second minute hour day month year cent week =
     (let mday = day smod 32; mon = (month - 1) smod 12;
          yr = (year smod 100) + (cent * 100) - 1900
      in \<lparr>tm_sec = second smod 61, tm_min = minute smod 60, tm_hour = hour smod 24, tm_mday = mday,
          tm_mon = mon, tm_year = yr, tm_wday = week smod 7,
          tm_yday = the (rtc_get_yday (yr + 1900) (mon + 1) mday) smod 366, tm_isdst = -1\<rparr>)"

definition rtc_timer_get_tm :: "'cb rtc_driver \<Rightarrow> bool \<times> 'cb rtc_driver" where
  "rtc_timer_get_tm d =
     (case rtc_timer_get_mode (regs d) of (mode, r) \<Rightarrow>
        let d = d\<lparr>regs := r\<rparr> in
        if mode \<noteq> RTC_TIMER_RUNNING then (False, d)
        else
          (True, d\<lparr>timer_tm := read_tm (uint (t_second (rtc_time r))) (uint (t_minute (rtc_time r)))
             (uint (t_hour (rtc_time r))) (uint (d_day (rtc_date r))) (uint (d_month (rtc_date r)))
             (uint (d_year (rtc_date r))) (uint (century r)) (uint (d_week (rtc_date r)))\<rparr>))"

definition rtc_alarm_get_tm :: "'cb rtc_driver \<Rightarrow> bool \<times> 'cb rtc_driver" where
  "rtc_alarm_get_tm d =
     (case rtc_timer_get_mode (regs d) of (mode, r) \<Rightarrow>
        let d = d\<lparr>regs := r\<rparr> in
        if mode \<noteq> RTC_TIMER_RUNNING then (False, d)
        else
          (True, d\<lparr>alarm_tm := read_tm (uint (a_second (alarm_time r))) (uint (a_minute (alarm_time r)))
             (uint (a_hour (alarm_time r))) (uint (a_day (alarm_date r))) (uint (a_month (alarm_date r)))
             (uint (a_year (alarm_date r))) (uint (century r)) (uint (a_week (alarm_date r)))\<rparr>))"

text \<open>\<open>None\<close>: the month is outside the table of \<open>rtc_get_yday\<close>, which is called before any check.\<close>

definition broken_down :: "int \<Rightarrow> int \<Rightarrow> int \<Rightarrow> int \<Rightarrow> int \<Rightarrow> int \<Rightarrow> tm option" where
  "broken_down year month day hour minute second =
     (case rtc_get_yday year month day of
        None \<Rightarrow> None
      | Some yday \<Rightarrow>
          Some \<lparr>tm_sec = second, tm_min = minute, tm_hour = hour, tm_mday = day, tm_mon = month - 1,
                tm_year = year - 1900, tm_wday = rtc_get_wday year month day, tm_yday = yday, tm_isdst = -1\<rparr>)"

definition rtc_timer_set :: "int \<Rightarrow> int \<Rightarrow> int \<Rightarrow> int \<Rightarrow> int \<Rightarrow> int \<Rightarrow> rtc \<Rightarrow> (int \<times> rtc) option" where
  "rtc_timer_set year month day hour minute second r =
     (case broken_down year month day hour minute second of
        None \<Rightarrow> None | Some t \<Rightarrow> Some (rtc_timer_set_tm (Some t) r))"

definition rtc_alarm_set :: "int \<Rightarrow> int \<Rightarrow> int \<Rightarrow> int \<Rightarrow> int \<Rightarrow> int \<Rightarrow> rtc \<Rightarrow> (int \<times> rtc) option" where
  "rtc_alarm_set year month day hour minute second r =
     (case broken_down year month day hour minute second of
        None \<Rightarrow> None | Some t \<Rightarrow> Some (rtc_alarm_set_tm (Some t) r))"

text \<open>The getters write through six pointers, here the components of the result; \<open>None\<close> is \<open>-1\<close>.\<close>

definition rtc_timer_get :: "'cb rtc_driver \<Rightarrow> (int \<times> int \<times> int \<times> int \<times> int \<times> int) option \<times> 'cb rtc_driver" where
  "rtc_timer_get d =
     (case rtc_timer_get_tm d of (ok, d) \<Rightarrow>
        (if ok then (let t = timer_tm d in
           Some (tm_year t + 1900, tm_mon t + 1, tm_mday t, tm_hour t, tm_min t, tm_sec t)) else None, d))"

definition rtc_alarm_get :: "'cb rtc_driver \<Rightarrow> (int \<times> int \<times> int \<times> int \<times> int \<times> int) option \<times> 'cb rtc_driver" where
  "rtc_alarm_get d =
     (case rtc_alarm_get_tm d of (ok, d) \<Rightarrow>
        (if ok then (let t = alarm_tm d in
           Some (tm_year t + 1900, tm_mon t + 1, tm_mday t, tm_hour t, tm_min t, tm_sec t)) else None, d))"

subsection \<open>Counters and interrupt control\<close>

definition rtc_timer_set_clock_frequency :: "u32 \<Rightarrow> rtc \<Rightarrow> rtc" where
  "rtc_timer_set_clock_frequency frequency r = rtc_setting (\<lambda>r. r\<lparr>initial_count := frequency\<rparr>) r"

definition rtc_timer_get_clock_frequency :: "rtc \<Rightarrow> u32" where
  "rtc_timer_get_clock_frequency r = initial_count r"

definition rtc_timer_set_clock_count_value :: "u32 \<Rightarrow> rtc \<Rightarrow> rtc" where
  "rtc_timer_set_clock_count_value count r = rtc_setting (\<lambda>r. r\<lparr>current_count := count\<rparr>) r"

definition rtc_timer_get_clock_count_value :: "rtc \<Rightarrow> u32" where
  "rtc_timer_get_clock_count_value r = current_count r"

definition rtc_tick_set_interrupt :: "bit1 \<Rightarrow> rtc \<Rightarrow> rtc" where
  "rtc_tick_set_interrupt enable r =
     (let c = (interrupt_ctrl r)\<lparr>tick_enable := enable\<rparr> in rtc_setting (\<lambda>r. r\<lparr>interrupt_ctrl := c\<rparr>) r)"

definition rtc_tick_get_interrupt :: "rtc \<Rightarrow> bit1" where
  "rtc_tick_get_interrupt r = tick_enable (interrupt_ctrl r)"

definition rtc_tick_set_interrupt_mode :: "u32 \<Rightarrow> rtc \<Rightarrow> rtc" where
  "rtc_tick_set_interrupt_mode mode r =
     (let c = (interrupt_ctrl r)\<lparr>tick_int_mode := ucast mode\<rparr> in rtc_setting (\<lambda>r. r\<lparr>interrupt_ctrl := c\<rparr>) r)"

definition rtc_tick_get_interrupt_mode :: "rtc \<Rightarrow> u32" where
  "rtc_tick_get_interrupt_mode r = ucast (tick_int_mode (interrupt_ctrl r))"

definition rtc_alarm_set_interrupt :: "bit1 \<Rightarrow> rtc \<Rightarrow> rtc" where
  "rtc_alarm_set_interrupt enable r =
     (let c = (interrupt_ctrl r)\<lparr>alarm_enable := enable\<rparr> in rtc_setting (\<lambda>r. r\<lparr>interrupt_ctrl := c\<rparr>) r)"

definition rtc_alarm_get_interrupt :: "rtc \<Rightarrow> bit1" where
  "rtc_alarm_get_interrupt r = alarm_enable (interrupt_ctrl r)"

definition rtc_alarm_set_mask :: "u8 \<Rightarrow> rtc \<Rightarrow> rtc" where
  "rtc_alarm_set_mask m r =
     (let c = (interrupt_ctrl r)\<lparr>alarm_compare_mask := m\<rparr> in rtc_setting (\<lambda>r. r\<lparr>interrupt_ctrl := c\<rparr>) r)"

definition rtc_alarm_get_mask :: "rtc \<Rightarrow> u8" where
  "rtc_alarm_get_mask r = alarm_compare_mask (interrupt_ctrl r)"

definition rtc_protect_set :: "bool \<Rightarrow> rtc \<Rightarrow> rtc" where
  "rtc_protect_set enable r =
     (let c = register_ctrl r;
          c = (if enable then c\<lparr>timer_mask := 0, alarm_mask := 0, initial_count_mask := 0, interrupt_register_mask := 0\<rparr>
               else c\<lparr>timer_mask := 0xFE, alarm_mask := 0xFE, initial_count_mask := 1, interrupt_register_mask := 1\<rparr>)
      in r\<lparr>register_ctrl := c\<rparr>)"

definition rtc_init :: "sysctl \<times> rtc \<Rightarrow> sysctl \<times> rtc" where
  "rtc_init s = (case s of (sy, r) \<Rightarrow>
     (let sy = sysctl_reset SYSCTL_RESET_RTC sy;
          sy = snd (sysctl_clock_enable SYSCTL_CLOCK_RTC sy);
          r = rtc_protect_set False r;
          r = rtc_timer_set_clock_frequency (sysctl_clock_get_freq sy SYSCTL_CLOCK_IN0) r;
          r = rtc_timer_set_clock_count_value 1 r;
          r = rtc_timer_set_mode RTC_TIMER_RUNNING r
      in (sy, r)))"

subsection \<open>Tick and alarm interrupts\<close>

text \<open>
  The comparisons of the alarm part of \<open>rtc_irq_callback\<close>, in order: \<open>None\<close> where a null
  \<open>struct tm\<close> pointer would be read, else whether no selected field differs.
\<close>

definition alarm_compare :: "u8 \<Rightarrow> bool \<Rightarrow> tm \<Rightarrow> tm \<Rightarrow> bool option" where
  "alarm_compare m valid now alarm =
     (if m AND 0xFE = 0 then Some False
      else if \<not> (bit m 7 \<or> bit m 6 \<or> bit m 5 \<or> bit m 3 \<or> bit m 2 \<or> bit m 1) then Some True
      else if \<not> valid then None
      else if bit m 7 \<and> tm_year now \<noteq> tm_year alarm then Some False
      else if bit m 6 \<and> tm_mon now \<noteq> tm_mon alarm then Some False
      else if bit m 5 \<and> tm_mday now \<noteq> tm_mday alarm then Some False
      else if bit m 3 \<and> tm_hour now \<noteq> tm_hour alarm then Some False
      else if bit m 2 \<and> tm_min now \<noteq> tm_min alarm then Some False
      else if bit m 1 \<and> tm_sec now \<noteq> tm_sec alarm then Some False
      else Some True)"

text \<open>What happens when the alarm matches: \<open>run cb ctx\<close> is the effect of a user's callback on the driver.\<close>

definition alarm_fire :: "('cb \<Rightarrow> nat \<Rightarrow> 'cb rtc_driver \<Rightarrow> 'cb rtc_driver) \<Rightarrow> 'cb rtc_driver \<Rightarrow> 'cb rtc_driver" where
  "alarm_fire run d =
     (let d = (if alarm_is_single_shot (inst d) then
                (let d = d\<lparr>regs := rtc_alarm_set_interrupt 0 (regs d),
                           inst := (inst d)\<lparr>tick_enable_by_alarm := False, tick_mode_by_alarm := RTC_INT_MAX\<rparr>\<rparr> in
                 if tick_enable_by_user (inst d) then
                   (if tick_mode_by_user (inst d) > rtc_tick_get_interrupt_mode (regs d) then
                      d\<lparr>regs := rtc_tick_set_interrupt 1 (rtc_tick_set_interrupt_mode (tick_mode_by_user (inst d))
                                 (rtc_tick_set_interrupt 0 (regs d)))\<rparr>
                    else d)
                 else d\<lparr>regs := rtc_tick_set_interrupt 0 (regs d)\<rparr>)
               else d)
      in (case alarm_callback (inst d) of Some cb \<Rightarrow> run cb (alarm_ctx (inst d)) d | None \<Rightarrow> d))"

text \<open>Is the tick due?  Again \<open>None\<close> where a null pointer would be read.\<close>

definition tick_due :: "u32 \<Rightarrow> bool \<Rightarrow> tm \<Rightarrow> bool option" where
  "tick_due mode valid now =
     (if mode = RTC_INT_MINUTE \<or> mode = RTC_INT_HOUR \<or> mode = RTC_INT_DAY then
        (if \<not> valid then None
         else Some (if mode = RTC_INT_MINUTE then \<not> tm_sec now \<noteq> 0
                    else if mode = RTC_INT_HOUR then \<not> (tm_sec now \<noteq> 0 \<or> tm_min now \<noteq> 0)
                    else \<not> (tm_sec now \<noteq> 0 \<or> tm_min now \<noteq> 0 \<or> tm_hour now \<noteq> 0)))
      else Some True)"

definition tick_fire :: "('cb \<Rightarrow> nat \<Rightarrow> 'cb rtc_driver \<Rightarrow> 'cb rtc_driver) \<Rightarrow> 'cb rtc_driver \<Rightarrow> 'cb rtc_driver" where
  "tick_fire run d =
     (let d = (if tick_is_single_shot (inst d) then
                 d\<lparr>regs := rtc_tick_set_interrupt 0 (regs d),
                   inst := (inst d)\<lparr>tick_enable_by_user := False, tick_mode_by_user := -1\<rparr>\<rparr>
               else d)
      in (case tick_callback (inst d) of Some cb \<Rightarrow> run cb (tick_ctx (inst d)) d | None \<Rightarrow> d))"

definition irq_alarm_part :: "('cb \<Rightarrow> nat \<Rightarrow> 'cb rtc_driver \<Rightarrow> 'cb rtc_driver) \<Rightarrow> bool \<Rightarrow> 'cb rtc_driver \<Rightarrow> 'cb rtc_driver option" where
  "irq_alarm_part run now d =
     (if rtc_alarm_get_interrupt (regs d) \<noteq> 0 then
        (case rtc_alarm_get_tm d of (alarm, d) \<Rightarrow>
          (case alarm_compare (rtc_alarm_get_mask (regs d)) (now \<and> alarm) (timer_tm d) (alarm_tm d) of
             None \<Rightarrow> None
           | Some matches \<Rightarrow> Some (if matches then alarm_fire run d else d)))
      else Some d)"

definition irq_tick_part :: "('cb \<Rightarrow> nat \<Rightarrow> 'cb rtc_driver \<Rightarrow> 'cb rtc_driver) \<Rightarrow> bool \<Rightarrow> 'cb rtc_driver \<Rightarrow> 'cb rtc_driver option" where
  "irq_tick_part run now d =
     (if tick_enable_by_user (inst d) then
        (case tick_due (tick_mode_by_user (inst d)) now (timer_tm d) of
           None \<Rightarrow> None
         | Some due \<Rightarrow> Some (if due then tick_fire run d else d))
      else Some d)"

definition rtc_irq_callback :: "('cb \<Rightarrow> nat \<Rightarrow> 'cb rtc_driver \<Rightarrow> 'cb rtc_driver) \<Rightarrow> 'cb rtc_driver \<Rightarrow> 'cb rtc_driver option" where
  "rtc_irq_callback run d =
     (case rtc_timer_get_tm d of (now, d) \<Rightarrow>
        (case irq_alarm_part run now d of None \<Rightarrow> None | Some d \<Rightarrow> irq_tick_part run now d))"

text \<open>
  The four registration functions work on the driver and the interrupt controller of the calling core; \<open>self\<close> is the
  value of the function pointer \<open>rtc_irq_callback\<close> and \<open>inst_addr\<close> the address of \<open>rtc_instance\<close>.
\<close>

definition IRQN_RTC_INTERRUPT :: nat where [simp]: "IRQN_RTC_INTERRUPT = 20"

definition arm_rtc_line :: "nat \<Rightarrow> 'h \<Rightarrow> nat \<Rightarrow> u8 \<Rightarrow> 'h plic \<Rightarrow> 'h plic" where
  "arm_rtc_line core self inst_addr prio p =
     snd (plic_irq_enable core (int IRQN_RTC_INTERRUPT)
       (plic_irq_register core IRQN_RTC_INTERRUPT (Some self) inst_addr
         (snd (plic_set_priority (int IRQN_RTC_INTERRUPT) (ucast prio) p))))"

definition rtc_tick_irq_register ::
  "nat \<Rightarrow> 'h \<Rightarrow> nat \<Rightarrow> bool \<Rightarrow> u32 \<Rightarrow> 'cb option \<Rightarrow> nat \<Rightarrow> u8 \<Rightarrow> 'cb rtc_driver \<times> 'h plic \<Rightarrow> 'cb rtc_driver \<times> 'h plic" where
  "rtc_tick_irq_register core self inst_addr single mode cb ctx prio s = (case s of (d, p) \<Rightarrow>
     (let p = snd (plic_irq_disable core (int IRQN_RTC_INTERRUPT) p);
          d = d\<lparr>regs := rtc_tick_set_interrupt 0 (regs d),
                inst := (inst d)\<lparr>tick_callback := cb, tick_ctx := ctx, tick_is_single_shot := single,
                                tick_enable_by_user := True, tick_mode_by_user := mode\<rparr>\<rparr>;
          d = (if \<not> tick_enable_by_alarm (inst d) \<or>
                  tick_enable_by_alarm (inst d) \<and> mode < rtc_tick_get_interrupt_mode (regs d)
               then d\<lparr>regs := rtc_tick_set_interrupt_mode mode (regs d)\<rparr> else d);
          p = arm_rtc_line core self inst_addr prio p;
          d = d\<lparr>regs := rtc_tick_set_interrupt 1 (regs d)\<rparr>
      in (d, p)))"

definition rtc_tick_irq_unregister :: "nat \<Rightarrow> 'cb rtc_driver \<times> 'h plic \<Rightarrow> 'cb rtc_driver \<times> 'h plic" where
  "rtc_tick_irq_unregister core s = (case s of (d, p) \<Rightarrow>
     (let d = (if rtc_alarm_get_interrupt (regs d) = 0 then d\<lparr>regs := rtc_tick_set_interrupt 0 (regs d)\<rparr> else d);
          d = d\<lparr>inst := (inst d)\<lparr>tick_enable_by_user := False, tick_mode_by_user := -1,
                                tick_callback := None, tick_ctx := 0\<rparr>\<rparr>;
          p = (if tick_callback (inst d) = None \<and> alarm_callback (inst d) = None
               then plic_irq_unregister core IRQN_RTC_INTERRUPT p else p)
      in (d, p)))"

definition alarm_tick_mode :: "u8 \<Rightarrow> u32" where
  "alarm_tick_mode m =
     (if bit m 1 then RTC_INT_SECOND else if bit m 2 then RTC_INT_MINUTE
      else if bit m 3 then RTC_INT_HOUR else RTC_INT_DAY)"

definition rtc_alarm_irq_register ::
  "nat \<Rightarrow> 'h \<Rightarrow> nat \<Rightarrow> bool \<Rightarrow> u8 \<Rightarrow> 'cb option \<Rightarrow> nat \<Rightarrow> u8 \<Rightarrow> 'cb rtc_driver \<times> 'h plic \<Rightarrow> 'cb rtc_driver \<times> 'h plic" where
  "rtc_alarm_irq_register core self inst_addr single m cb ctx prio s = (case s of (d, p) \<Rightarrow>
     (let p = snd (plic_irq_disable core (int IRQN_RTC_INTERRUPT) p);
          d = d\<lparr>regs := rtc_alarm_set_interrupt 0 (rtc_tick_set_interrupt 0 (regs d)),
                inst := (inst d)\<lparr>alarm_callback := cb, alarm_ctx := ctx, alarm_is_single_shot := single,
                                tick_enable_by_alarm := True, tick_mode_by_alarm := alarm_tick_mode m\<rparr>\<rparr>;
          d = (if tick_enable_by_user (inst d) \<and> tick_mode_by_alarm (inst d) < rtc_tick_get_interrupt_mode (regs d) \<or>
                  \<not> tick_enable_by_user (inst d)
               then d\<lparr>regs := rtc_tick_set_interrupt_mode (tick_mode_by_alarm (inst d)) (regs d)\<rparr> else d);
          d = d\<lparr>regs := rtc_alarm_set_mask m (regs d)\<rparr>;
          p = arm_rtc_line core self inst_addr prio p;
          d = d\<lparr>regs := rtc_tick_set_interrupt 1 (rtc_alarm_set_interrupt 1 (regs d))\<rparr>
      in (d, p)))"

definition rtc_alarm_irq_unregister :: "nat \<Rightarrow> 'cb rtc_driver \<times> 'h plic \<Rightarrow> 'cb rtc_driver \<times> 'h plic" where
  "rtc_alarm_irq_unregister core s = (case s of (d, p) \<Rightarrow>
     (let d = d\<lparr>regs := rtc_alarm_set_interrupt 0 (regs d),
                inst := (inst d)\<lparr>alarm_callback := None, alarm_ctx := 0, tick_enable_by_alarm := False,
                                tick_mode_by_alarm := RTC_INT_MAX\<rparr>\<rparr>;
          d = (if tick_enable_by_user (inst d) then
                 (if tick_mode_by_user (inst d) > rtc_tick_get_interrupt_mode (regs d) then
                    d\<lparr>regs := rtc_tick_set_interrupt 1 (rtc_tick_set_interrupt_mode (tick_mode_by_user (inst d))
                               (rtc_tick_set_interrupt 0 (regs d)))\<rparr>
                  else d)
               else d\<lparr>regs := rtc_tick_set_interrupt 0 (regs d)\<rparr>);
          p = (if tick_callback (inst d) = None \<and> alarm_callback (inst d) = None
               then plic_irq_unregister core IRQN_RTC_INTERRUPT p else p)
      in (d, p)))"

subsection \<open>Reading back what was written\<close>

definition settable :: "int \<Rightarrow> int \<Rightarrow> int \<Rightarrow> int \<Rightarrow> int \<Rightarrow> int \<Rightarrow> bool" where
  "settable year month day hour minute second \<longleftrightarrow>
     0 \<le> year \<and> year < 3200 \<and> 1 \<le> month \<and> month \<le> 12 \<and> 1 \<le> day \<and> day \<le> 31 \<and>
     0 \<le> hour \<and> hour < 24 \<and> 0 \<le> minute \<and> minute < 60 \<and> 0 \<le> second \<and> second < 60"

lemma uint_word_of_int_small:
  "0 \<le> k \<Longrightarrow> k < 2 ^ LENGTH('a) \<Longrightarrow> uint (word_of_int k :: 'a::len word) = k"
  by (simp add: uint_word_of_int)

lemma running_mode [simp]:
  "rtc_timer_get_mode (rtc_setting w r) = (RTC_TIMER_RUNNING, rtc_setting w r)"
  by (simp add: rtc_timer_get_mode_def rtc_setting_def rtc_timer_set_mode_def Let_def)

lemma setting_fields [simp]:
  "interrupt_ctrl (rtc_setting w r) = interrupt_ctrl (w (rtc_timer_set_mode RTC_TIMER_SETTING r))"
  "rtc_date (rtc_setting w r) = rtc_date (w (rtc_timer_set_mode RTC_TIMER_SETTING r))"
  "rtc_time (rtc_setting w r) = rtc_time (w (rtc_timer_set_mode RTC_TIMER_SETTING r))"
  "alarm_date (rtc_setting w r) = alarm_date (w (rtc_timer_set_mode RTC_TIMER_SETTING r))"
  "alarm_time (rtc_setting w r) = alarm_time (w (rtc_timer_set_mode RTC_TIMER_SETTING r))"
  "century (rtc_setting w r) = century (w (rtc_timer_set_mode RTC_TIMER_SETTING r))"
  "initial_count (rtc_setting w r) = initial_count (w (rtc_timer_set_mode RTC_TIMER_SETTING r))"
  "current_count (rtc_setting w r) = current_count (w (rtc_timer_set_mode RTC_TIMER_SETTING r))"
  by (simp_all add: rtc_setting_def rtc_timer_set_mode_def Let_def)

lemma set_mode_fields [simp]:
  "interrupt_ctrl (rtc_timer_set_mode m r) = interrupt_ctrl r" "rtc_date (rtc_timer_set_mode m r) = rtc_date r"
  "rtc_time (rtc_timer_set_mode m r) = rtc_time r" "alarm_date (rtc_timer_set_mode m r) = alarm_date r"
  "alarm_time (rtc_timer_set_mode m r) = alarm_time r" "century (rtc_timer_set_mode m r) = century r"
  "initial_count (rtc_timer_set_mode m r) = initial_count r" "current_count (rtc_timer_set_mode m r) = current_count r"
  by (simp_all add: rtc_timer_set_mode_def Let_def)

lemma wday_in_week:
  assumes "0 \<le> y" "1 \<le> m" "1 \<le> k"
  shows "0 \<le> rtc_get_wday y m k \<and> rtc_get_wday y m k \<le> 6"
proof -
  have s: "0 \<le> a \<Longrightarrow> 0 \<le> a smod 7 \<and> a smod 7 \<le> 6" for a :: int
    by (simp add: smod_mod)
  have n: "0 \<le> y sdiv 4 - y sdiv 100 + y sdiv 400" if "0 \<le> y" for y :: int
    using that by (simp add: sdiv_div)
  show ?thesis
  proof (cases "m < 3")
    case True
    have "0 \<le> (y - 1) sdiv 4 - (y - 1) sdiv 100 + (y - 1) sdiv 400"
    proof (cases "y = 0")
      case True
      then show ?thesis by (simp add: signed_divide_int_def)
    qed (use n [of "y - 1"] assms(1) in simp)
    moreover have "0 \<le> (23 * m) sdiv 9" using assms by (simp add: sdiv_div)
    ultimately show ?thesis
      unfolding rtc_get_wday_def Let_def using True assms by (simp only: if_True) (rule s, linarith)
  next
    case False
    moreover have "0 \<le> (23 * m) sdiv 9" using assms by (simp add: sdiv_div)
    ultimately show ?thesis
      unfolding rtc_get_wday_def Let_def using assms n [OF assms(1)] by (simp only: if_False) (rule s, linarith)
  qed
qed

lemma century_year:
  "rtc_in_range (h smod 100) 0 99 \<and> rtc_in_range (h sdiv 100) 0 31 \<longleftrightarrow> 0 \<le> h \<and> h < 3200"
proof (cases "0 \<le> h")
  case True
  then show ?thesis by (simp add: rtc_in_range_def smod_mod sdiv_div) linarith
next
  case False
  then have "h sdiv 100 = - (- h div 100)"
    by (simp add: signed_divide_int_def sgn_if)
  moreover have "h smod 100 = h - h sdiv 100 * 100"
    using minus_sdiv_mult_eq_smod [of h 100] by linarith
  ultimately show ?thesis using False unfolding rtc_in_range_def by linarith
qed

lemma rtc_timer_set_rc:
  assumes "broken_down y mo da h mi se = Some t"
  shows "fst (rtc_timer_set_tm (Some t) r) = (if settable y mo da h mi se then 0 else -1)"
    and "fst (rtc_alarm_set_tm (Some t) r) = (if settable y mo da h mi se then 0 else -1)"
    and "\<not> settable y mo da h mi se \<Longrightarrow> rtc_timer_set_tm (Some t) r = (-1, r)"
    and "\<not> settable y mo da h mi se \<Longrightarrow> rtc_alarm_set_tm (Some t) r = (-1, r)"
proof -
  have t: "tm_sec t = se" "tm_min t = mi" "tm_hour t = h" "tm_mday t = da" "tm_mon t = mo - 1"
    "tm_year t = y - 1900" "tm_wday t = rtc_get_wday y mo da"
    using assms by (auto simp: broken_down_def split: option.splits)
  have w: "rtc_in_range (rtc_get_wday y mo da) 0 6" if "0 \<le> y" "1 \<le> mo" "1 \<le> da"
    using wday_in_week [OF that] by (simp add: rtc_in_range_def)
  show "fst (rtc_timer_set_tm (Some t) r) = (if settable y mo da h mi se then 0 else -1)"
    "fst (rtc_alarm_set_tm (Some t) r) = (if settable y mo da h mi se then 0 else -1)"
    "\<not> settable y mo da h mi se \<Longrightarrow> rtc_timer_set_tm (Some t) r = (-1, r)"
    "\<not> settable y mo da h mi se \<Longrightarrow> rtc_alarm_set_tm (Some t) r = (-1, r)"
    using w unfolding rtc_timer_set_tm_def rtc_alarm_set_tm_def option.case t Let_def
    by (auto simp: century_year settable_def) (auto simp: rtc_in_range_def)
qed

lemma read_back:
  assumes "settable y mo da h mi se" "0 \<le> w" "w < 7" "0 \<le> c"
  shows "read_tm se mi h da mo (y smod 100) c w =
    \<lparr>tm_sec = se, tm_min = mi, tm_hour = h, tm_mday = da, tm_mon = mo - 1,
     tm_year = y mod 100 + c * 100 - 1900, tm_wday = w,
     tm_yday = the (rtc_get_yday (y mod 100 + c * 100) mo da) smod 366, tm_isdst = -1\<rparr>"
proof -
  have "x smod k = x" if "0 \<le> x" "x < k" for x k :: int using that by (simp add: smod_mod)
  then show ?thesis
    using assms by (simp add: read_tm_def settable_def Let_def smod_mod)
qed

lemma set_then_get:
  assumes "settable y mo da h mi se" and t: "broken_down y mo da h mi se = Some t"
  shows "snd (rtc_timer_get_tm (d\<lparr>regs := snd (rtc_timer_set_tm (Some t) (regs d))\<rparr>)) =
      d\<lparr>regs := snd (rtc_timer_set_tm (Some t) (regs d)), timer_tm :=
        read_tm se mi h da mo (y smod 100) (y sdiv 100) (rtc_get_wday y mo da)\<rparr>"
    and "snd (rtc_alarm_get_tm (d\<lparr>regs := snd (rtc_alarm_set_tm (Some t) (regs d))\<rparr>)) =
      d\<lparr>regs := snd (rtc_alarm_set_tm (Some t) (regs d)), alarm_tm :=
        read_tm se mi h da mo (y smod 100) (uint (century (regs d))) (rtc_get_wday y mo da)\<rparr>"
    and "fst (rtc_timer_get_tm (d\<lparr>regs := snd (rtc_timer_set_tm (Some t) (regs d))\<rparr>))"
    and "fst (rtc_alarm_get_tm (d\<lparr>regs := snd (rtc_alarm_set_tm (Some t) (regs d))\<rparr>))"
proof -
  have tt: "tm_sec t = se" "tm_min t = mi" "tm_hour t = h" "tm_mday t = da" "tm_mon t = mo - 1"
    "tm_year t = y - 1900" "tm_wday t = rtc_get_wday y mo da"
    using t by (auto simp: broken_down_def split: option.splits)
  have b: "0 \<le> y" "y < 3200" "1 \<le> mo" "mo \<le> 12" "1 \<le> da" "da \<le> 31" "0 \<le> h" "h < 24" "0 \<le> mi" "mi < 60" "0 \<le> se" "se < 60"
    using assms(1) by (auto simp: settable_def)
  have w: "0 \<le> rtc_get_wday y mo da" "rtc_get_wday y mo da \<le> 6"
    using wday_in_week [of y mo da] b by auto
  have c: "0 \<le> y smod 100" "y smod 100 < 100" "0 \<le> y sdiv 100" "y sdiv 100 < 32"
    using b by (simp_all add: smod_mod sdiv_div)
  have u: "uint (word_of_int se :: 6 word) = se" "uint (word_of_int mi :: 6 word) = mi" "uint (word_of_int h :: 5 word) = h"
    "uint (word_of_int da :: 5 word) = da" "uint (word_of_int mo :: 4 word) = mo"
    "uint (word_of_int (y smod 100) :: 12 word) = y smod 100" "uint (word_of_int (y sdiv 100) :: 5 word) = y sdiv 100"
    "uint (word_of_int (rtc_get_wday y mo da) :: 3 word) = rtc_get_wday y mo da"
    using b c w by (simp_all add: uint_word_of_int_small)
  have r: "rtc_in_range se 0 59" "rtc_in_range mi 0 59" "rtc_in_range h 0 23" "rtc_in_range da 1 31"
    "rtc_in_range (mo - 1) 0 11" "rtc_in_range (rtc_get_wday y mo da) 0 6"
    "rtc_in_range (y smod 100) 0 99" "rtc_in_range (y sdiv 100) 0 31"
    using b w c by (auto simp: rtc_in_range_def)
  show "snd (rtc_timer_get_tm (d\<lparr>regs := snd (rtc_timer_set_tm (Some t) (regs d))\<rparr>)) =
      d\<lparr>regs := snd (rtc_timer_set_tm (Some t) (regs d)), timer_tm :=
        read_tm se mi h da mo (y smod 100) (y sdiv 100) (rtc_get_wday y mo da)\<rparr>"
    "snd (rtc_alarm_get_tm (d\<lparr>regs := snd (rtc_alarm_set_tm (Some t) (regs d))\<rparr>)) =
      d\<lparr>regs := snd (rtc_alarm_set_tm (Some t) (regs d)), alarm_tm :=
        read_tm se mi h da mo (y smod 100) (uint (century (regs d))) (rtc_get_wday y mo da)\<rparr>"
    "fst (rtc_timer_get_tm (d\<lparr>regs := snd (rtc_timer_set_tm (Some t) (regs d))\<rparr>))"
    "fst (rtc_alarm_get_tm (d\<lparr>regs := snd (rtc_alarm_set_tm (Some t) (regs d))\<rparr>))"
    by (simp_all add: rtc_timer_set_tm_def rtc_alarm_set_tm_def rtc_timer_get_tm_def rtc_alarm_get_tm_def tt r u Let_def)
qed

lemma settable_month: "settable y mo da h mi se \<Longrightarrow> broken_down y mo da h mi se \<noteq> None"
  by (auto simp: settable_def broken_down_def rtc_get_yday_def Let_def)

subsection \<open>What the two users of the interrupt line are owed\<close>

text \<open>
  While the tick is requested the tick interrupt is on at least as often as asked for; while an alarm is set
  its comparison is on too; and while a callback is registered, line 20 is enabled
  and leads to \<open>rtc_irq_callback\<close>.  But a single-shot tick that fires switches the shared interrupt off, a pending alarm or not: from then on, until
  the next registration, the alarm is forgotten.  \<open>requests_kept d b\<close> is what holds otherwise, \<open>b\<close> saying
  whether an alarm may have been forgotten.
\<close>

definition requests_kept :: "'cb rtc_driver \<Rightarrow> bool \<Rightarrow> bool" where
  "requests_kept d b \<longleftrightarrow>
     (tick_enable_by_user (inst d) \<longrightarrow>
        rtc_tick_get_interrupt (regs d) = 1 \<and> rtc_tick_get_interrupt_mode (regs d) \<le> tick_mode_by_user (inst d)) \<and>
     (tick_enable_by_alarm (inst d) \<longleftrightarrow> rtc_alarm_get_interrupt (regs d) = 1) \<and>
     (tick_enable_by_alarm (inst d) \<longrightarrow>
        (b \<or> rtc_tick_get_interrupt (regs d) = 1) \<and> rtc_tick_get_interrupt_mode (regs d) \<le> tick_mode_by_alarm (inst d))"

definition forgets :: "'cb rtc_driver \<Rightarrow> 'cb rtc_driver \<Rightarrow> bool" where
  "forgets d d' \<longleftrightarrow>
     tick_enable_by_user (inst d) \<and> \<not> tick_enable_by_user (inst d') \<and> tick_enable_by_alarm (inst d')"

definition line_armed :: "nat \<Rightarrow> 'h \<Rightarrow> nat \<Rightarrow> 'cb rtc_driver \<times> 'h plic \<Rightarrow> bool" where
  "line_armed core self inst_addr s = (case s of (d, p) \<Rightarrow>
     plic_wf p \<and>
     (tick_callback (inst d) \<noteq> None \<or> alarm_callback (inst d) \<noteq> None \<longrightarrow>
        irq_enabled core p 20 \<and> irq_handler core p 20 = (Some self, inst_addr)))"

lemmas rtc_irq_ops = rtc_tick_set_interrupt_def rtc_tick_get_interrupt_def rtc_tick_set_interrupt_mode_def
  rtc_tick_get_interrupt_mode_def rtc_alarm_set_interrupt_def rtc_alarm_get_interrupt_def rtc_alarm_set_mask_def
  rtc_alarm_get_mask_def Let_def

lemma mode_field_le: "(ucast (ucast (m :: u32) :: 2 word) :: u32) \<le> m"
  by (simp add: word_le_nat_alt unat_ucast_mod)

lemma alarm_tick_mode_field [simp]: "(ucast (ucast (alarm_tick_mode m) :: 2 word) :: u32) = alarm_tick_mode m"
  by (simp add: alarm_tick_mode_def)

lemma bit1_zero_one: "(b :: bit1) \<noteq> 1 \<longleftrightarrow> b = 0"
  using bit1_cases [of b] by auto

lemma mode_field_lt: "(ucast (ucast (m :: u32) :: 2 word) :: u32) < m \<or> (ucast (ucast m :: 2 word) :: u32) = m"
  using mode_field_le [of m] by auto

lemma requests_kept_calls:
  assumes "requests_kept (fst s) b"
  shows "requests_kept (fst (rtc_tick_irq_register core self ia single mode cb ctx pr s)) False"
    and "requests_kept (fst (rtc_tick_irq_unregister core s)) b"
    and "requests_kept (fst (rtc_alarm_irq_register core self ia single m cb ctx pr s)) False"
    and "requests_kept (fst (rtc_alarm_irq_unregister core s)) b"
proof -
  obtain d p where s: "s = (d, p)" by fastforce
  show "requests_kept (fst (rtc_tick_irq_register core self ia single mode cb ctx pr s)) False"
    using assms mode_field_le [of mode]
    by (auto simp: s requests_kept_def rtc_tick_irq_register_def rtc_irq_ops dest: order_less_imp_le order_trans)
  show "requests_kept (fst (rtc_tick_irq_unregister core s)) b"
    using assms by (auto simp: s requests_kept_def rtc_tick_irq_unregister_def rtc_irq_ops)
  show "requests_kept (fst (rtc_alarm_irq_register core self ia single m cb ctx pr s)) False"
    using assms by (auto simp: s requests_kept_def rtc_alarm_irq_register_def rtc_irq_ops dest: order_less_imp_le order_trans)
  show "requests_kept (fst (rtc_alarm_irq_unregister core s)) b"
    using assms mode_field_le [of "tick_mode_by_user (inst d)"]
    by (auto simp: s requests_kept_def rtc_alarm_irq_unregister_def rtc_irq_ops)
qed

lemma requests_kept_parts:
  assumes run: "\<forall>f c d. regs (run f c d) = regs d \<and> inst (run f c d) = inst d"
    and "requests_kept d b"
  shows "requests_kept (alarm_fire run d) b"
    and "tick_enable_by_user (inst (alarm_fire run d)) = tick_enable_by_user (inst d)"
    and "tick_enable_by_user (inst d) \<Longrightarrow> requests_kept (tick_fire run d) (b \<or> forgets d (tick_fire run d))"
proof -
  have r: "regs (run f c d) = regs d" "inst (run f c d) = inst d" for f c d using run by auto
  have ext: "requests_kept (run f c d) b = requests_kept d b" for f c d b by (simp add: requests_kept_def r)
  show "requests_kept (tick_fire run d) (b \<or> forgets d (tick_fire run d))" if "tick_enable_by_user (inst d)"
  proof (cases "tick_is_single_shot (inst d)")
    case False
    then show ?thesis using assms(2) by (auto simp: tick_fire_def ext requests_kept_def r split: option.splits)
  next
    case True
    let ?d = "d\<lparr>regs := rtc_tick_set_interrupt 0 (regs d), inst := (inst d)\<lparr>tick_enable_by_user := False, tick_mode_by_user := -1\<rparr>\<rparr>"
    have f: "regs (tick_fire run d) = regs ?d" "inst (tick_fire run d) = inst ?d"
      using True by (simp_all add: tick_fire_def Let_def r split: option.splits)
    then show ?thesis using assms(2) that by (auto simp: requests_kept_def forgets_def rtc_irq_ops)
  qed
  let ?d = "if alarm_is_single_shot (inst d) then
                (let d = d\<lparr>regs := rtc_alarm_set_interrupt 0 (regs d),
                           inst := (inst d)\<lparr>tick_enable_by_alarm := False, tick_mode_by_alarm := RTC_INT_MAX\<rparr>\<rparr> in
                 if tick_enable_by_user (inst d) then
                   (if tick_mode_by_user (inst d) > rtc_tick_get_interrupt_mode (regs d) then
                      d\<lparr>regs := rtc_tick_set_interrupt 1 (rtc_tick_set_interrupt_mode (tick_mode_by_user (inst d))
                                 (rtc_tick_set_interrupt 0 (regs d)))\<rparr>
                    else d)
                 else d\<lparr>regs := rtc_tick_set_interrupt 0 (regs d)\<rparr>)
               else d"
  have f: "alarm_fire run d = (case alarm_callback (inst ?d) of Some cb \<Rightarrow> run cb (alarm_ctx (inst ?d)) ?d | None \<Rightarrow> ?d)"
    unfolding alarm_fire_def Let_def ..
  have "requests_kept ?d b" "tick_enable_by_user (inst ?d) = tick_enable_by_user (inst d)"
    using assms(2) mode_field_le [of "tick_mode_by_user (inst d)"]
    by (auto simp: requests_kept_def rtc_irq_ops)
  then show "requests_kept (alarm_fire run d) b" "tick_enable_by_user (inst (alarm_fire run d)) = tick_enable_by_user (inst d)"
    unfolding f by (auto simp: ext r split: option.splits)
qed

lemma get_tm_fields:
  "inst (snd (rtc_timer_get_tm d)) = inst d" "inst (snd (rtc_alarm_get_tm d)) = inst d"
  "interrupt_ctrl (regs (snd (rtc_timer_get_tm d))) = interrupt_ctrl (regs d)"
  "interrupt_ctrl (regs (snd (rtc_alarm_get_tm d))) = interrupt_ctrl (regs d)"
  by (simp_all add: rtc_timer_get_tm_def rtc_alarm_get_tm_def rtc_timer_get_mode_def Let_def)

lemma requests_kept_get_tm:
  "requests_kept (snd (rtc_timer_get_tm d)) b = requests_kept d b" "requests_kept (snd (rtc_alarm_get_tm d)) b = requests_kept d b"
  by (simp_all add: requests_kept_def get_tm_fields rtc_irq_ops)

lemma requests_kept_irq:
  assumes run: "\<forall>f c d. regs (run f c d) = regs d \<and> inst (run f c d) = inst d"
    and "requests_kept d b" "rtc_irq_callback run d = Some d'"
  shows "requests_kept d' (b \<or> forgets d d')"
proof -
  obtain now d1 where d1: "rtc_timer_get_tm d = (now, d1)" by fastforce
  have t1: "requests_kept d1 b" "tick_enable_by_user (inst d1) = tick_enable_by_user (inst d)"
    using assms(2) requests_kept_get_tm(1) [of d] get_tm_fields(1) [of d] by (auto simp: d1)
  obtain d2 where d2: "irq_alarm_part run now d1 = Some d2" "irq_tick_part run now d2 = Some d'"
    using assms(3) by (auto simp: rtc_irq_callback_def d1 split: option.splits)
  obtain al d3 where d3: "rtc_alarm_get_tm d1 = (al, d3)" by fastforce
  have t3: "requests_kept d3 b" "tick_enable_by_user (inst d3) = tick_enable_by_user (inst d)"
    using t1 requests_kept_get_tm(2) [of d1] get_tm_fields(2) [of d1] by (auto simp: d3)
  have t2: "requests_kept d2 b" "tick_enable_by_user (inst d2) = tick_enable_by_user (inst d)"
    using d2(1) t1 t3 requests_kept_parts(1,2) [OF run t3(1)]
    by (auto simp: irq_alarm_part_def d3 split: if_splits option.splits)
  show ?thesis
  proof (cases "tick_enable_by_user (inst d2) \<and> tick_due (tick_mode_by_user (inst d2)) now (timer_tm d2) = Some True")
    case True
    then have "d' = tick_fire run d2" using d2(2) by (simp add: irq_tick_part_def)
    with requests_kept_parts(3) [OF run t2(1)] True t2(2) show ?thesis by (simp add: forgets_def)
  next
    case False
    then have "d' = d2" using d2(2) by (auto simp: irq_tick_part_def split: if_splits option.splits)
    with t2(1) show ?thesis by (auto simp: requests_kept_def)
  qed
qed

text \<open>The interrupt line.\<close>

lemma rtc_line_plic:
  assumes "plic_wf p"
  shows "plic_wf (arm_rtc_line core self ia pr (snd (plic_irq_disable core 20 p)))"
    "irq_enabled core (arm_rtc_line core self ia pr (snd (plic_irq_disable core 20 p))) 20"
    "irq_handler core (arm_rtc_line core self ia pr (snd (plic_irq_disable core 20 p))) 20 = (Some self, ia)"
    "plic_wf (plic_irq_unregister core 20 p)"
proof -
  have d: "plic_wf (snd (plic_irq_disable core 20 p))"
    using plic.ok_disable [OF assms, of 20 core] by simp
  show "plic_wf (arm_rtc_line core self ia pr (snd (plic_irq_disable core 20 p)))"
    "irq_enabled core (arm_rtc_line core self ia pr (snd (plic_irq_disable core 20 p))) 20"
    "irq_handler core (arm_rtc_line core self ia pr (snd (plic_irq_disable core 20 p))) 20 = (Some self, ia)"
    using plic.arm [OF d, of 20 core "Some self" ia "ucast pr"] by (simp_all add: arm_rtc_line_def)
  show "plic_wf (plic_irq_unregister core 20 p)"
    using plic.ok_register [OF assms, of 20 core None 0] by (simp add: plic_irq_unregister_def)
qed

lemma line_armed_calls:
  assumes "line_armed core self ia s"
  shows "line_armed core self ia (rtc_tick_irq_register core self ia single mode cb ctx pr s)"
    and "line_armed core self ia (rtc_tick_irq_unregister core s)"
    and "line_armed core self ia (rtc_alarm_irq_register core self ia single m cb ctx pr s)"
    and "line_armed core self ia (rtc_alarm_irq_unregister core s)"
proof -
  obtain d p where s: "s = (d, p)" by fastforce
  have p: "plic_wf p" using assms by (simp add: s line_armed_def)
  show "line_armed core self ia (rtc_tick_irq_register core self ia single mode cb ctx pr s)"
    "line_armed core self ia (rtc_alarm_irq_register core self ia single m cb ctx pr s)"
    by (simp_all add: s line_armed_def rtc_tick_irq_register_def rtc_alarm_irq_register_def Let_def rtc_line_plic [OF p])
  show "line_armed core self ia (rtc_tick_irq_unregister core s)"
    using assms p by (simp add: s line_armed_def rtc_tick_irq_unregister_def Let_def rtc_line_plic [OF p])
  show "line_armed core self ia (rtc_alarm_irq_unregister core s)"
    using assms p by (auto simp: s line_armed_def rtc_alarm_irq_unregister_def Let_def rtc_line_plic [OF p])
qed

text \<open>
  Calls and interrupts, in any order.  The flag beside the state is the \<open>b\<close> of \<open>requests_kept\<close>: an interrupt
  in which a single-shot tick fires while an alarm is pending sets it, a registration clears it.
\<close>

inductive rtc_step ::
  "nat \<Rightarrow> 'h \<Rightarrow> nat \<Rightarrow> ('cb \<Rightarrow> nat \<Rightarrow> 'cb rtc_driver \<Rightarrow> 'cb rtc_driver) \<Rightarrow>
   ('cb rtc_driver \<times> 'h plic) \<times> bool \<Rightarrow> ('cb rtc_driver \<times> 'h plic) \<times> bool \<Rightarrow> bool"
  for core self ia run where
  step_tick: "rtc_step core self ia run (s, b) (rtc_tick_irq_register core self ia single mode cb ctx pr s, False)"
| step_tick_off: "rtc_step core self ia run (s, b) (rtc_tick_irq_unregister core s, b)"
| step_alarm: "rtc_step core self ia run (s, b) (rtc_alarm_irq_register core self ia single m cb ctx pr s, False)"
| step_alarm_off: "rtc_step core self ia run (s, b) (rtc_alarm_irq_unregister core s, b)"
| step_irq: "rtc_irq_callback run d = Some d' \<Longrightarrow> rtc_step core self ia run ((d, p), b) ((d', p), b \<or> forgets d d')"

definition inst_const :: "'cb rtc_instance \<Rightarrow> 'cb option \<times> 'cb option \<times> bool" where
  "inst_const i = (tick_callback i, alarm_callback i, tick_is_single_shot i)"

lemma irq_keeps_registrations:
  assumes run: "\<forall>f c d. regs (run f c d) = regs d \<and> inst (run f c d) = inst d"
    and "rtc_irq_callback run d = Some d'"
  shows "inst_const (inst d') = inst_const (inst d)"
proof -
  have r: "inst (run f c d) = inst d" for f c d using run by auto
  have a: "inst_const (inst (alarm_fire run d)) = inst_const (inst d)" for d
    by (auto simp: alarm_fire_def inst_const_def r Let_def split: option.splits)
  have t: "inst_const (inst (tick_fire run d)) = inst_const (inst d)" for d
    by (auto simp: tick_fire_def inst_const_def r Let_def split: option.splits)
  obtain now d1 where d1: "rtc_timer_get_tm d = (now, d1)" by fastforce
  obtain d2 where d2: "irq_alarm_part run now d1 = Some d2" "irq_tick_part run now d2 = Some d'"
    using assms(2) by (auto simp: rtc_irq_callback_def d1 split: option.splits)
  have "inst_const (inst d1) = inst_const (inst d)" using get_tm_fields(1) [of d] by (simp add: d1)
  moreover have "inst_const (inst d2) = inst_const (inst d1)"
    using d2(1) get_tm_fields(2) [of d1] a
    by (auto simp: irq_alarm_part_def split: if_splits option.splits prod.splits)
  moreover have "inst_const (inst d') = inst_const (inst d2)"
    using d2(2) t by (auto simp: irq_tick_part_def split: if_splits option.splits)
  ultimately show ?thesis by simp
qed

lemma rtc_step_invariant:
  assumes run: "\<forall>f c d. regs (run f c d) = regs d \<and> inst (run f c d) = inst d"
    and "rtc_step core self ia run (s, b) (s', b')" "requests_kept (fst s) b" "line_armed core self ia s"
  shows "requests_kept (fst s') b' \<and> line_armed core self ia s'"
  using assms(2-)
proof cases
  case (step_irq d d' p)
  have "inst_const (inst d') = inst_const (inst d)"
    by (rule irq_keeps_registrations [OF run]) (use step_irq in simp)
  moreover have "requests_kept d' b'"
    using requests_kept_irq [OF run, of d b d'] step_irq assms(3) by simp
  ultimately show ?thesis using assms(4) step_irq by (simp add: inst_const_def line_armed_def)
qed (auto intro: requests_kept_calls line_armed_calls)

subsection \<open>When the alarm rings\<close>

text \<open>The fields an alarm mask can select, the day of the week apart.\<close>

definition fields_match :: "u8 \<Rightarrow> tm \<Rightarrow> tm \<Rightarrow> bool" where
  "fields_match m now alarm \<longleftrightarrow>
     (\<forall>(k, field) \<in> {(7, tm_year), (6, tm_mon), (5, tm_mday), (3, tm_hour), (2, tm_min), (1, tm_sec)}.
        bit m k \<longrightarrow> field now = field alarm)"

lemma alarm_compare_match:
  "alarm_compare m True now alarm = Some (m AND 0xFE \<noteq> 0 \<and> fields_match m now alarm)"
  by (simp add: alarm_compare_def fields_match_def)

lemma get_tm_valid:
  assumes "fst (rtc_timer_get_mode (regs d)) = RTC_TIMER_RUNNING"
  shows "fst (rtc_timer_get_tm d)" "fst (rtc_alarm_get_tm d)"
    "regs (snd (rtc_timer_get_tm d)) = regs d" "regs (snd (rtc_alarm_get_tm d)) = regs d"
    "timer_tm (snd (rtc_alarm_get_tm d)) = timer_tm d"
proof -
  have "snd (rtc_timer_get_mode r) = r" if "fst (rtc_timer_get_mode r) = RTC_TIMER_RUNNING" for r
    using that unfolding rtc_timer_get_mode_def Let_def
    by (cases "read_enable (register_ctrl r) = 0"; cases "write_enable (register_ctrl r) = 0") simp_all
  then have "rtc_timer_get_mode (regs d) = (RTC_TIMER_RUNNING, regs d)"
    using assms by (simp add: prod_eq_iff)
  then show "fst (rtc_timer_get_tm d)" "fst (rtc_alarm_get_tm d)"
    "regs (snd (rtc_timer_get_tm d)) = regs d" "regs (snd (rtc_alarm_get_tm d)) = regs d"
    "timer_tm (snd (rtc_alarm_get_tm d)) = timer_tm d"
    by (simp_all add: rtc_timer_get_tm_def rtc_alarm_get_tm_def)
qed

text \<open>A driver as the C runtime leaves it, with the timer started, for the examples.\<close>

definition rtc_boot :: "'cb rtc_driver" where
  "rtc_boot = \<lparr>
     regs = rtc_timer_set_mode RTC_TIMER_RUNNING
       \<lparr>rtc_date = \<lparr>d_week = 0, d_day = 1, d_month = 1, d_year = 0\<rparr>, rtc_time = \<lparr>t_second = 0, t_minute = 0, t_hour = 0\<rparr>,
        alarm_date = \<lparr>a_week = 0, a_day = 1, a_month = 1, a_year = 0\<rparr>, alarm_time = \<lparr>a_second = 0, a_minute = 0, a_hour = 0\<rparr>,
        initial_count = 0, current_count = 0,
        interrupt_ctrl = \<lparr>tick_enable = 0, alarm_enable = 0, tick_int_mode = 0, alarm_compare_mask = 0\<rparr>,
        register_ctrl = \<lparr>read_enable = 0, write_enable = 0, timer_mask = 0, alarm_mask = 0, initial_count_mask = 0,
          interrupt_register_mask = 0\<rparr>, century = 20\<rparr>,
     inst = \<lparr>tick_callback = None, tick_ctx = 0, alarm_callback = None, alarm_ctx = 0, tick_is_single_shot = False,
       alarm_is_single_shot = False, tick_enable_by_alarm = False, tick_enable_by_user = False,
       tick_mode_by_user = -1, tick_mode_by_alarm = RTC_INT_MAX\<rparr>,
     timer_tm = \<lparr>tm_sec = 0, tm_min = 0, tm_hour = 0, tm_mday = 0, tm_mon = 0, tm_year = 0, tm_wday = 0, tm_yday = 0, tm_isdst = 0\<rparr>,
     alarm_tm = \<lparr>tm_sec = 0, tm_min = 0, tm_hour = 0, tm_mday = 0, tm_mon = 0, tm_year = 0, tm_wday = 0, tm_yday = 0, tm_isdst = 0\<rparr>\<rparr>"

lemma rtc_boot_ok:
  "requests_kept rtc_boot False" "line_armed core self ia (rtc_boot, plic_blank)"
  by (simp_all add: rtc_boot_def requests_kept_def line_armed_def plic_blank_wf rtc_irq_ops)

subsection \<open>Properties\<close>

text \<open>C14.  Setting the clock or the alarm and reading it back.  A date whose fields are all in range
  (any day up to 31 in any month, the years 0 to 3199) is accepted and the clock reads back exactly what was written, in running mode;
  any other with a month from 0 to 12 is refused with -1 and no effect.  With a month outside 0 to 12 the code
  looks up the day of the year outside its table before it checks the month, which C does not define; for these inputs, and only these, nothing
  is claimed.  The alarm keeps no century: its year reads back in the century the clock is in.\<close>

theorem rtc_set_get_roundtrip:
  fixes d :: "'cb rtc_driver"
  shows "case (rtc_timer_set y mo da h mi se (regs d), rtc_alarm_set y mo da h mi se (regs d)) of
      (Some (rc, r), Some (rca, ra)) \<Rightarrow>
        if settable y mo da h mi se then
          rc = 0 \<and> fst (rtc_timer_get (d\<lparr>regs := r\<rparr>)) = Some (y, mo, da, h, mi, se) \<and>
          rca = 0 \<and> fst (rtc_alarm_get (d\<lparr>regs := ra\<rparr>)) =
            Some (y mod 100 + 100 * uint (century (regs d)), mo, da, h, mi, se)
        else rc = -1 \<and> r = regs d \<and> rca = -1 \<and> ra = regs d
    | _ \<Rightarrow> mo < 0 \<or> 12 < mo"
proof (cases "broken_down y mo da h mi se")
  case None
  then show ?thesis
    by (auto simp: rtc_timer_set_def broken_down_def rtc_get_yday_def Let_def split: if_splits option.splits)
next
  case (Some t)
  show ?thesis
  proof (cases "settable y mo da h mi se")
    case True
    have y: "y smod 100 = y mod 100" "y sdiv 100 = y div 100" "0 \<le> y"
      using True by (auto simp: settable_def smod_mod sdiv_div)
    have w: "0 \<le> rtc_get_wday y mo da" "rtc_get_wday y mo da < 7"
      using wday_in_week [of y mo da] True by (auto simp: settable_def)
    note rb = read_back [OF True w] set_then_get [OF True Some, of d] rtc_timer_set_rc(1,2) [OF Some, of "regs d"]
    show ?thesis
      using rb True y
      by (simp add: rtc_timer_set_def rtc_alarm_set_def Some rtc_timer_get_def rtc_alarm_get_def case_prod_unfold Let_def
          pos_imp_zdiv_nonneg_iff)
  next
    case False
    then show ?thesis
      using rtc_timer_set_rc(3,4) [OF Some False] by (simp add: rtc_timer_set_def rtc_alarm_set_def Some)
  qed
qed

text \<open>C15.  In running mode the interrupt callback never reads through a null pointer, and it rings the alarm
  exactly if the alarm is on, some field is selected, and every selected field of the clock equals that of the alarm,
  where the day of the week does not count: selected alone, it rings at every tick.\<close>

theorem rtc_alarm_rings_iff_match:
  assumes "fst (rtc_timer_get_mode (regs d)) = RTC_TIMER_RUNNING"
  defines "now \<equiv> snd (rtc_timer_get_tm d)"
  defines "seen \<equiv> (if rtc_alarm_get_interrupt (regs d) = 0 then now else snd (rtc_alarm_get_tm now))"
  defines "m \<equiv> rtc_alarm_get_mask (regs d)"
  shows "rtc_irq_callback run d =
      irq_tick_part run True
        (if rtc_alarm_get_interrupt (regs d) \<noteq> 0 \<and> m AND 0xFE \<noteq> 0 \<and> fields_match m (timer_tm seen) (alarm_tm seen)
         then alarm_fire run seen else seen) \<and>
    rtc_irq_callback run d \<noteq> None \<and>
    fields_match (push_bit 4 1) (timer_tm seen) (alarm_tm seen)"
proof -
  have g: "fst (rtc_timer_get_tm d)" "regs now = regs d"
    using get_tm_valid [OF assms(1)] by (simp_all add: now_def)
  have n: "fst (rtc_timer_get_mode (regs now)) = RTC_TIMER_RUNNING" using assms(1) g by simp
  note a = get_tm_valid [OF n]
  have e: "irq_alarm_part run True now =
      Some (if rtc_alarm_get_interrupt (regs d) \<noteq> 0 \<and> m AND 0xFE \<noteq> 0 \<and> fields_match m (timer_tm seen) (alarm_tm seen)
         then alarm_fire run seen else seen)"
    using a g by (simp add: irq_alarm_part_def seen_def m_def alarm_compare_match case_prod_unfold)
  have c: "rtc_irq_callback run d = (case irq_alarm_part run True now of None \<Rightarrow> None | Some d \<Rightarrow> irq_tick_part run True d)"
    using g by (cases "rtc_timer_get_tm d") (simp add: rtc_irq_callback_def now_def)
  have t: "irq_tick_part run True x \<noteq> None" for x
    by (simp add: irq_tick_part_def tick_due_def)
  have w: "fields_match (push_bit 4 1) (timer_tm seen) (alarm_tm seen)"
    by (simp add: fields_match_def bit_push_bit_iff del: push_bit_of_1)
  show ?thesis using t w by (simp add: c e)
qed

text \<open>The week-only alarm: the clock says Sunday (0), the alarm Wednesday (3), and the alarm's callback runs.\<close>

definition week_alarm :: "bool rtc_driver" where
  "week_alarm = (fst (rtc_alarm_irq_register 0 True 0 True (push_bit 4 1) (Some True) 0 1
     (rtc_boot\<lparr>regs := (regs (rtc_boot :: bool rtc_driver))\<lparr>alarm_date := \<lparr>a_week = 3, a_day = 1, a_month = 1, a_year = 0\<rparr>\<rparr>\<rparr>, plic_blank)))"

theorem rtc_alarm_rings_iff_match_witness:
  "rtc_irq_callback (\<lambda>_ _ d. d) week_alarm \<noteq> None \<and> rtc_alarm_get_mask (regs week_alarm) = push_bit 4 1 \<and>
   d_week (rtc_date (regs week_alarm)) = 0 \<and> a_week (alarm_date (regs week_alarm)) = 3"
proof -
  have "fst (rtc_timer_get_mode (regs week_alarm)) = RTC_TIMER_RUNNING"
    by (simp add: week_alarm_def rtc_alarm_irq_register_def rtc_irq_ops)
  moreover have "rtc_alarm_get_mask (regs week_alarm) = push_bit 4 1 \<and>
      d_week (rtc_date (regs week_alarm)) = 0 \<and> a_week (alarm_date (regs week_alarm)) = 3"
    by (simp add: week_alarm_def rtc_alarm_irq_register_def rtc_boot_def rtc_irq_ops)
  ultimately show ?thesis
    using rtc_alarm_rings_iff_match [of week_alarm "\<lambda>_ _ d. d"] by blast
qed

text \<open>C13.  The tick and the alarm share one interrupt.  Ticks and alarms, single-shot or not, are registered and
  unregistered in whatever order, with interrupts in between, by callbacks that leave the clock and the driver alone:
  a requested tick always has the interrupt on, at least as often as asked; an alarm has its
  comparison on exactly while it is pending, at a rate as high as its mask needs, with the interrupt on unless a
  single-shot tick has fired beside it since the last registration; and while a callback is registered the line is
  enabled and leads to the driver.\<close>

theorem rtc_requests_served:
  assumes "\<forall>f c d. regs (run f c d) = regs d \<and> inst (run f c d) = inst d"
    and "(rtc_step core self ia run)\<^sup>*\<^sup>* ((rtc_boot, plic_blank), False) ((d, p), forgotten)"
  shows "(tick_enable_by_user (inst d) \<longrightarrow>
        rtc_tick_get_interrupt (regs d) = 1 \<and> rtc_tick_get_interrupt_mode (regs d) \<le> tick_mode_by_user (inst d)) \<and>
     (tick_enable_by_alarm (inst d) \<longleftrightarrow> rtc_alarm_get_interrupt (regs d) = 1) \<and>
     (tick_enable_by_alarm (inst d) \<longrightarrow>
        (forgotten \<or> rtc_tick_get_interrupt (regs d) = 1) \<and>
        rtc_tick_get_interrupt_mode (regs d) \<le> tick_mode_by_alarm (inst d)) \<and>
     (tick_callback (inst d) \<noteq> None \<or> alarm_callback (inst d) \<noteq> None \<longrightarrow>
        irq_enabled core p 20 \<and> irq_handler core p 20 = (Some self, ia))"
proof -
  have "requests_kept (fst (fst x)) (snd x) \<and> line_armed core self ia (fst x)"
    if "(rtc_step core self ia run)\<^sup>*\<^sup>* ((rtc_boot, plic_blank), False) x" for x
    using that
  proof (induction rule: rtranclp_induct)
    case base
    then show ?case by (simp add: rtc_boot_ok)
  next
    case (step x y)
    then show ?case
      using rtc_step_invariant [OF assms(1), of core self ia "fst x" "snd x" "fst y" "snd y"] by simp
  qed
  from this [OF assms(2)] show ?thesis by (simp add: requests_kept_def line_armed_def)
qed

theorem rtc_requests_served_witness:
  "case rtc_alarm_irq_register 0 True 7 True 2 (Some True) 0 1
      (rtc_tick_irq_register 0 True 7 True RTC_INT_HOUR (Some False) 0 1 (rtc_boot, plic_blank)) of
     (d, p) \<Rightarrow> rtc_tick_get_interrupt (regs d) = 1 \<and> rtc_alarm_get_interrupt (regs d) = 1 \<and>
       tick_enable_by_user (inst d) \<and> tick_enable_by_alarm (inst d)"
proof -
  let ?s = "rtc_tick_irq_register 0 True 7 True RTC_INT_HOUR (Some False) 0 1 (rtc_boot, plic_blank)"
  let ?t = "rtc_alarm_irq_register 0 True 7 True 2 (Some True) 0 1 ?s"
  have "(rtc_step 0 True 7 (\<lambda>_ _ d. d))\<^sup>*\<^sup>* ((rtc_boot, plic_blank), False) (?t, False)"
    by (meson rtranclp.intros rtc_step.intros)
  moreover obtain d p where t: "?t = (d, p)" by fastforce
  moreover have "tick_enable_by_user (inst (fst ?t))" "tick_enable_by_alarm (inst (fst ?t))"
    by (simp_all add: rtc_alarm_irq_register_def rtc_tick_irq_register_def Let_def)
  ultimately show ?thesis
    using rtc_requests_served [of "\<lambda>_ _ d. d" 0 True 7 d p False] by simp
qed

text \<open>What a single-shot tick does to an alarm beside it.  When a single-shot tick fires that shares the interrupt
  with a pending alarm which does not match yet, the callback switches the tick interrupt off although the alarm still
  needs it: the alarm stays requested with nothing left to compare it.  Unregistering the tick instead
  keeps the interrupt on.\<close>

lemma single_shot_tick_stops_alarm:
  assumes "fst (rtc_timer_get_mode (regs d)) = RTC_TIMER_RUNNING"
    and "requests_kept d False" "tick_enable_by_alarm (inst d)" "tick_enable_by_user (inst d)" "tick_is_single_shot (inst d)"
    and "tick_mode_by_user (inst d) = RTC_INT_SECOND" "tick_callback (inst d) = None"
    and "\<not> fields_match (rtc_alarm_get_mask (regs d)) (timer_tm (snd (rtc_alarm_get_tm (snd (rtc_timer_get_tm d)))))
           (alarm_tm (snd (rtc_alarm_get_tm (snd (rtc_timer_get_tm d)))))"
  shows "(case rtc_irq_callback run d of
      None \<Rightarrow> False
    | Some d' \<Rightarrow> tick_enable_by_alarm (inst d') \<and> rtc_alarm_get_interrupt (regs d') = 1 \<and>
                rtc_tick_get_interrupt (regs d') = 0 \<and> \<not> requests_kept d' False) \<and>
    rtc_tick_get_interrupt (regs (fst (rtc_tick_irq_unregister core (d, p)))) = 1"
proof -
  let ?d1 = "snd (rtc_timer_get_tm d)" and ?d2 = "snd (rtc_alarm_get_tm (snd (rtc_timer_get_tm d)))"
  have al: "rtc_alarm_get_interrupt (regs d) = 1" "rtc_tick_get_interrupt (regs d) = 1"
    using assms(2,3) by (auto simp: requests_kept_def)
  have g: "fst (rtc_timer_get_tm d)" "regs ?d1 = regs d"
    using get_tm_valid [OF assms(1)] by simp_all
  have n: "fst (rtc_timer_get_mode (regs ?d1)) = RTC_TIMER_RUNNING" using assms(1) g by simp
  note a = get_tm_valid [OF n]
  have p1: "irq_alarm_part run True ?d1 = Some ?d2"
    using a g assms(8) al by (simp add: irq_alarm_part_def alarm_compare_match case_prod_unfold)
  have i: "inst ?d2 = inst d" "regs ?d2 = regs d"
    using get_tm_fields(1) [of d] get_tm_fields(2) [of ?d1] a g by simp_all
  have p2: "rtc_irq_callback run d = Some (tick_fire run ?d2)"
    using g p1 assms(4,6) i by (simp add: rtc_irq_callback_def irq_tick_part_def tick_due_def case_prod_unfold)
  show ?thesis
    using assms(2,3,5,7) al i
    by (simp add: p2 tick_fire_def requests_kept_def rtc_tick_irq_unregister_def rtc_irq_ops)
qed

definition shared_tick :: "bool rtc_driver" where
  "shared_tick = fst (rtc_alarm_irq_register 0 True 7 True 2 (Some True) 0 1
     (rtc_tick_irq_register 0 True 7 True RTC_INT_SECOND None 0 1
       (rtc_boot\<lparr>regs := (regs (rtc_boot :: bool rtc_driver))\<lparr>alarm_time := \<lparr>a_second = 30, a_minute = 0, a_hour = 0\<rparr>\<rparr>\<rparr>, plic_blank)))"

lemma single_shot_tick_stops_alarm_witness:
  "case rtc_irq_callback (\<lambda>_ _ d. d) shared_tick of
     None \<Rightarrow> False
   | Some d' \<Rightarrow> tick_enable_by_alarm (inst d') \<and> rtc_alarm_get_interrupt (regs d') = 1 \<and> rtc_tick_get_interrupt (regs d') = 0"
proof -
  have m: "fst (rtc_timer_get_mode (regs shared_tick)) = RTC_TIMER_RUNNING"
    by (simp add: shared_tick_def rtc_alarm_irq_register_def rtc_tick_irq_register_def rtc_irq_ops)
  have i: "tick_enable_by_alarm (inst shared_tick)" "tick_enable_by_user (inst shared_tick)" "tick_is_single_shot (inst shared_tick)"
    "tick_mode_by_user (inst shared_tick) = RTC_INT_SECOND" "tick_callback (inst shared_tick) = None"
    by (simp_all add: shared_tick_def rtc_alarm_irq_register_def rtc_tick_irq_register_def Let_def)
  have "requests_kept (fst (rtc_boot\<lparr>regs := (regs (rtc_boot :: bool rtc_driver))\<lparr>alarm_time := w\<rparr>\<rparr> :: bool rtc_driver, plic_blank :: bool plic)) False" for w
    using rtc_boot_ok(1) [where 'a = bool] by (simp add: requests_kept_def rtc_irq_ops)
  then have t: "requests_kept shared_tick False"
    unfolding shared_tick_def by (rule requests_kept_calls(3) [OF requests_kept_calls(1)])
  have v: "rtc_alarm_get_mask (regs shared_tick) = 2" "a_second (alarm_time (regs shared_tick)) = 30"
    "t_second (rtc_time (regs shared_tick)) = 0"
    by (simp_all add: shared_tick_def rtc_alarm_irq_register_def rtc_tick_irq_register_def rtc_boot_def rtc_irq_ops)
  note g = get_tm_valid [OF m]
  have n: "fst (rtc_timer_get_mode (regs (snd (rtc_timer_get_tm shared_tick)))) = RTC_TIMER_RUNNING" using m g by simp
  note a = get_tm_valid [OF n]
  have now: "tm_sec (timer_tm (snd (rtc_timer_get_tm d))) = uint (t_second (rtc_time (regs d))) smod 61"
    if "fst (rtc_timer_get_tm d)" "regs (snd (rtc_timer_get_tm d)) = regs d" for d :: "bool rtc_driver"
    using that by (auto simp: rtc_timer_get_tm_def read_tm_def Let_def split: prod.splits if_splits)
  have al: "tm_sec (alarm_tm (snd (rtc_alarm_get_tm d))) = uint (a_second (alarm_time (regs d))) smod 61"
    if "fst (rtc_alarm_get_tm d)" "regs (snd (rtc_alarm_get_tm d)) = regs d" for d :: "bool rtc_driver"
    using that by (auto simp: rtc_alarm_get_tm_def read_tm_def Let_def split: prod.splits if_splits)
  have b: "bit (2 :: u8) 1" by (simp add: bit_numeral_rec)
  have s: "tm_sec (timer_tm (snd (rtc_alarm_get_tm (snd (rtc_timer_get_tm shared_tick))))) = 0"
    "tm_sec (alarm_tm (snd (rtc_alarm_get_tm (snd (rtc_timer_get_tm shared_tick))))) = 30"
    using now [OF g(1,3)] al [OF a(2,4)] a(5) g(3) by (simp_all add: v smod_int_alt_def)
  have f: "\<not> fields_match (rtc_alarm_get_mask (regs shared_tick))
      (timer_tm (snd (rtc_alarm_get_tm (snd (rtc_timer_get_tm shared_tick)))))
      (alarm_tm (snd (rtc_alarm_get_tm (snd (rtc_timer_get_tm shared_tick)))))"
    using s b unfolding fields_match_def v by auto
  show ?thesis
    using single_shot_tick_stops_alarm [OF m t i(1,2,3,4,5) f, of "\<lambda>_ _ d. d" 0 "plic_blank :: bool plic"]
    by (simp split: option.splits)
qed

end
