(* ===== verification/Sha256.thy ===== *)
theory Sha256
  imports Sysctl_Freq
begin

text \<open>
  The SHA-256 accelerator driver \<open>lib/drivers/sha256.c\<close>.  The engine is a device: it takes the message as
  a sequence of 32-bit words written to \<open>sha_data_in1\<close> (\<open>fifo\<close>, the writes made since the reset in \<open>sha256_init\<close>) and hands out eight result
  words, a parameter of the model as a function of what was written and of the block count it was
  told.  The driver's own work is to cut the message into blocks,
  to pad it as SHA-256 demands and to count its blocks.  Bytes of a word lie in
  memory in little-endian order.  The two waits on the device (a full FIFO, an unfinished result)
  change no state and are left out.
\<close>

definition SHA256_BLOCK_LEN :: u64 where [simp]: "SHA256_BLOCK_LEN = 64"
definition SHA256_HASH_WORDS :: nat where [simp]: "SHA256_HASH_WORDS = 8"

record sha256 =
  sha_data_cnt :: u16
  sha_en :: bit1
  sha_endian :: bit1
  dma_en :: bit1
  fifo :: "u32 list"

record sha256_context =
  total_len :: u64
  buffer_len :: u64
  buffer :: "u8 list"

subsection \<open>Bytes and words in memory\<close>

text \<open>The union of \<open>words\<close> and \<open>bytes\<close>.\<close>

definition word_at :: "u8 list \<Rightarrow> nat \<Rightarrow> u32" where
  "word_at bs i = ucast (bs ! (4 * i)) OR push_bit 8 (ucast (bs ! (4 * i + 1))) OR
     push_bit 16 (ucast (bs ! (4 * i + 2))) OR push_bit 24 (ucast (bs ! (4 * i + 3)))"

definition bytes64 :: "u64 \<Rightarrow> u8 list" where
  "bytes64 x = map (\<lambda>i. ucast (drop_bit (8 * i) x)) [0..<8]"

definition bytes32 :: "u32 \<Rightarrow> u8 list" where
  "bytes32 x = map (\<lambda>i. ucast (drop_bit (8 * i) x)) [0..<4]"

definition copy_into :: "nat \<Rightarrow> 'a list \<Rightarrow> 'a list \<Rightarrow> 'a list" where
  "copy_into i src dst = take i dst @ src @ drop (i + length src) dst"

definition ROTL :: "u32 \<Rightarrow> nat \<Rightarrow> u32" where "ROTL x n = push_bit n x OR drop_bit (32 - n) x"
definition ROTR :: "u32 \<Rightarrow> nat \<Rightarrow> u32" where "ROTR x n = drop_bit n x OR push_bit (32 - n) x"
definition BYTESWAP :: "u32 \<Rightarrow> u32" where
  "BYTESWAP x = (ROTR x 8 AND 0xff00ff00) OR (ROTL x 8 AND 0x00ff00ff)"

definition byteswap64 :: "u64 \<Rightarrow> u64" where
  "byteswap64 x =
     (let a = ucast (drop_bit 32 x) :: u32; b = ucast x :: u32
      in push_bit 32 (ucast (BYTESWAP b)) OR ucast (BYTESWAP a))"

definition padding :: "u8 list" where
  "padding = 0x80 # replicate 63 0"

subsection \<open>Operations\<close>

definition sha256_init :: "nat \<Rightarrow> sysctl \<times> sha256 \<times> sha256_context \<Rightarrow> sysctl \<times> sha256 \<times> sha256_context" where
  "sha256_init input_len s = (case s of (sy, dev, context) \<Rightarrow>
     (let sy = snd (sysctl_clock_enable SYSCTL_CLOCK_SHA sy);
          sy = sysctl_reset SYSCTL_RESET_SHA sy;
          dev = dev\<lparr>sha_data_cnt := ucast (ucast ((word_of_nat input_len + SHA256_BLOCK_LEN + 8) div SHA256_BLOCK_LEN) :: u32),
                    dma_en := 0, sha_endian := 1, sha_en := 1, fifo := []\<rparr>
      in (sy, dev, context\<lparr>total_len := 0, buffer_len := 0\<rparr>)))"

function (sequential) sha256_update :: "u8 list \<Rightarrow> sha256 \<times> sha256_context \<Rightarrow> sha256 \<times> sha256_context" where
  "sha256_update data (dev, context) =
     (if data = [] then (dev, context)
      else
       (let buffer_bytes_left = SHA256_BLOCK_LEN - buffer_len context;
            bytes_to_copy = unat buffer_bytes_left;
            bytes_to_copy = (if bytes_to_copy > length data then length data else bytes_to_copy);
            context = context\<lparr>
              buffer := copy_into (unat (buffer_len context)) (take bytes_to_copy data) (buffer context),
              total_len := total_len context + word_of_nat bytes_to_copy * 8,
              buffer_len := buffer_len context + word_of_nat bytes_to_copy\<rparr>;
            data = drop bytes_to_copy data
        in if buffer_len context = SHA256_BLOCK_LEN
           then sha256_update data (dev\<lparr>fifo := fifo dev @ map (word_at (buffer context)) [0..<16]\<rparr>, context\<lparr>buffer_len := 0\<rparr>)
           else sha256_update data (dev, context)))"
  by pat_completeness auto
termination
  by (relation "measure (\<lambda>(data, dev, context). 2 * length data + (if buffer_len context = 64 then 1 else 0))")
    (auto simp: unat_gt_0 not_less intro!: diff_less split: if_splits)

definition sha256_final ::
  "(u32 list \<Rightarrow> u16 \<Rightarrow> u32 list) \<Rightarrow> sha256 \<times> sha256_context \<Rightarrow> u8 list \<times> sha256 \<times> sha256_context" where
  "sha256_final engine s = (case s of (dev, context) \<Rightarrow>
     (let bytes_to_pad = 120 - buffer_len context;
          bytes_to_pad = (if bytes_to_pad > 64 then bytes_to_pad - 64 else bytes_to_pad);
          length_pad = byteswap64 (total_len context);
          s = sha256_update (take (unat bytes_to_pad) padding) (dev, context);
          (dev, context) = sha256_update (bytes64 length_pad) s;
          result = engine (fifo dev) (sha_data_cnt dev)
      in (concat (map (\<lambda>i. bytes32 (result ! (SHA256_HASH_WORDS - i - 1))) [0..<SHA256_HASH_WORDS]), dev, context)))"

definition sha256_hard_calculate ::
  "(u32 list \<Rightarrow> u16 \<Rightarrow> u32 list) \<Rightarrow> u8 list \<Rightarrow> sysctl \<times> sha256 \<times> sha256_context \<Rightarrow> u8 list \<times> sysctl \<times> sha256 \<times> sha256_context" where
  "sha256_hard_calculate engine input s =
     (case sha256_init (length input) s of (sy, dev, context) \<Rightarrow>
       (case sha256_final engine (sha256_update input (dev, context)) of (output, dev, context) \<Rightarrow>
          (output, sy, dev, context)))"

declare sha256_update.simps [simp del]

subsection \<open>The padding of SHA-256\<close>

definition be64 :: "u64 \<Rightarrow> u8 list" where
  "be64 x = map (\<lambda>i. ucast (drop_bit (56 - 8 * i) x)) [0..<8]"

definition sha_pad :: "u8 list \<Rightarrow> u8 list" where
  "sha_pad msg = msg @ 0x80 # replicate ((119 - length msg mod 64) mod 64) 0 @ be64 (word_of_nat (8 * length msg))"

fun le_words :: "u8 list \<Rightarrow> u32 list" where
  "le_words (a # b # c # d # r) =
     (ucast a OR push_bit 8 (ucast b) OR push_bit 16 (ucast c) OR push_bit 24 (ucast d)) # le_words r"
| "le_words _ = []"

lemma four_bytes:
  assumes "length bs = 4 * Suc k"
  obtains a b c d r where "bs = a # b # c # d # r" "length r = 4 * k"
proof -
  have "length bs = Suc (Suc (Suc (Suc (4 * k))))" using assms by simp
  then show thesis using that by (auto simp: length_Suc_conv)
qed

lemma le_words_append: "length xs = 4 * k \<Longrightarrow> le_words (xs @ ys) = le_words xs @ le_words ys"
proof (induction k arbitrary: xs)
  case (Suc k)
  then obtain a b c d r where "xs = a # b # c # d # r" "length r = 4 * k"
    by (blast elim: four_bytes)
  then show ?case using Suc.IH by simp
qed simp

lemma word_at_all: "length bs = 4 * k \<Longrightarrow> map (word_at bs) [0..<k] = le_words bs"
proof (induction k arbitrary: bs)
  case (Suc k)
  then obtain a b c d r where bs: "bs = a # b # c # d # r" "length r = 4 * k"
    by (blast elim: four_bytes)
  have m: "map (word_at bs) [0..<Suc k] = word_at bs 0 # map (\<lambda>i. word_at bs (Suc i)) [0..<k]"
    by (simp add: map_upt_Suc del: upt_Suc)
  have "word_at bs (Suc i) = word_at r i" for i by (simp add: word_at_def bs ac_simps)
  then have "map (\<lambda>i. word_at bs (Suc i)) [0..<k] = le_words r"
    using Suc.IH [OF bs(2)] by simp
  moreover have "le_words bs = word_at bs 0 # le_words r" by (simp add: bs word_at_def)
  ultimately show ?case unfolding m by simp
qed simp

lemma swap_masks:
  "\<forall>n \<in> set [0..<32]. bit (0xff00ff00 :: u32) n = (n div 8 = 1 \<or> n div 8 = 3)"
  "\<forall>n \<in> set [0..<32]. bit (0x00ff00ff :: u32) n = (n div 8 = 0 \<or> n div 8 = 2)"
  by code_simp+

lemma bit_BYTESWAP:
  assumes "q < 4" "r < 8"
  shows "bit (BYTESWAP x) (8 * q + r) = bit x (8 * (3 - q) + r)"
proof -
  let ?n = "8 * q + r"
  have n: "?n \<in> set [0..<32]" using assms by simp
  have d: "?n div 8 = q" using assms(2) by simp
  have m: "bit (0xff00ff00 :: u32) ?n = (q = 1 \<or> q = 3)" "bit (0x00ff00ff :: u32) ?n = (q = 0 \<or> q = 2)"
    using bspec [OF swap_masks(1) n] bspec [OF swap_masks(2) n] unfolding d by blast+
  have b: "bit (BYTESWAP x) ?n =
      ((bit x (8 + ?n) \<or> 24 \<le> ?n \<and> bit x (?n - 24)) \<and> (q = 1 \<or> q = 3) \<or>
       (8 \<le> ?n \<and> bit x (?n - 8) \<or> bit x (24 + ?n)) \<and> (q = 0 \<or> q = 2))"
    using n unfolding BYTESWAP_def ROTR_def ROTL_def bit_or_iff bit_and_iff bit_drop_bit_eq bit_push_bit_iff m
    by simp
  have o: "\<not> bit x m" if "32 \<le> m" for m
    using that by (auto dest: bit_imp_le_length)
  consider "q = 0" | "q = 1" | "q = 2" | "q = 3" using assms by linarith
  then show ?thesis
  proof cases
    case 1
    then show ?thesis using b assms(2) by simp
  next
    case 2
    then show ?thesis using b assms(2) by simp
  next
    case 3
    then show ?thesis using b assms(2) by (simp add: o)
  next
    case 4
    then show ?thesis using b assms(2) by (simp add: o)
  qed
qed

lemma bit_byteswap64:
  assumes "q < 8" "r < 8"
  shows "bit (byteswap64 x) (8 * q + r) = bit x (8 * (7 - q) + r)"
proof (cases "q < 4")
  case True
  then have i: "8 * q + r < 32" "8 * (3 - q) + r < 32" "8 * (7 - q) = 32 + 8 * (3 - q)" using assms by linarith+
  show ?thesis using i bit_BYTESWAP [OF True assms(2)]
    by (simp add: byteswap64_def Let_def bit_simps add.assoc)
next
  case False
  then have q: "q - 4 < 4" "8 * q + r - 32 = 8 * (q - 4) + r" "7 - q = 3 - (q - 4)" "32 \<le> 8 * q + r" "8 * q + r < 64"
    "8 * (3 - (q - 4)) + r < 32"
    using assms by linarith+
  have o: "\<not> bit (BYTESWAP y) (8 * q + r)" for y
    using q(4) by (auto dest: bit_imp_le_length)
  show ?thesis using q o bit_BYTESWAP [OF q(1) assms(2)]
    by (simp add: byteswap64_def Let_def bit_simps)
qed

lemma byteswap_bytes: "bytes64 (byteswap64 x) = be64 x"
proof -
  have "ucast (drop_bit (8 * i) (byteswap64 x)) = (ucast (drop_bit (56 - 8 * i) x) :: u8)" if "i < 8" for i
  proof (rule bit_word_eqI)
    fix n assume "n < LENGTH(8)"
    then have n: "n < 8" by simp
    moreover have "56 - 8 * i = 8 * (7 - i)" using that by auto
    ultimately show "bit (ucast (drop_bit (8 * i) (byteswap64 x)) :: u8) n = bit (ucast (drop_bit (56 - 8 * i) x) :: u8) n"
      using bit_byteswap64 [OF that n, of x] by (simp add: bit_simps)
  qed
  then show ?thesis by (simp add: bytes64_def be64_def)
qed

subsection \<open>Streaming\<close>

text \<open>
  \<open>absorbed F n s\<close>: the bytes \<open>F\<close> have been given to \<open>sha256_update\<close> so far; the whole blocks of them are in
  the FIFO as words, the rest is at the front of the buffer.
\<close>

definition absorbed :: "u8 list \<Rightarrow> sha256 \<times> sha256_context \<Rightarrow> bool" where
  "absorbed F s \<longleftrightarrow> (case s of (dev, context) \<Rightarrow>
     length (buffer context) = 64 \<and> unat (buffer_len context) = length F mod 64 \<and>
     total_len context = word_of_nat (8 * length F) \<and>
     fifo dev = le_words (take (64 * (length F div 64)) F) \<and>
     take (length F mod 64) (buffer context) = drop (64 * (length F div 64)) F)"

lemma block_arith:
  assumes "r < 64"
  shows "(64 * q + r) mod 64 = (r :: nat)" "(64 * q + r) div 64 = q"
  using assms by auto

lemma absorbed_split:
  "absorbed F (dev, context) \<longleftrightarrow>
     (\<exists>q r. r < 64 \<and> length F = 64 * q + r \<and> length (buffer context) = 64 \<and> unat (buffer_len context) = r \<and>
       total_len context = word_of_nat (8 * length F) \<and>
       fifo dev = le_words (take (64 * q) F) \<and> take r (buffer context) = drop (64 * q) F)"
  (is "_ \<longleftrightarrow> ?R")
proof
  assume "absorbed F (dev, context)"
  then show ?R unfolding absorbed_def
    by (intro exI [of _ "length F div 64"] exI [of _ "length F mod 64"]) simp
next
  assume ?R
  then obtain q r where qr: "r < 64" "length F = 64 * q + r" "length (buffer context) = 64" "unat (buffer_len context) = r"
    "total_len context = word_of_nat (8 * length F)" "fifo dev = le_words (take (64 * q) F)"
    "take r (buffer context) = drop (64 * q) F" by blast
  have "length F mod 64 = r" "length F div 64 = q" unfolding qr(2) by (rule block_arith [OF qr(1)])+
  then show "absorbed F (dev, context)" using qr by (simp add: absorbed_def)
qed

lemma copied_block:
  assumes "length b = 64" "take r b = drop p F" "p + r = length F" "r + length d \<le> 64"
  shows "length (copy_into r d b) = 64" "take (r + length d) (copy_into r d b) = drop p (F @ d)"
  using assms by (simp_all add: copy_into_def)

lemma sha256_update_absorbs:
  assumes "absorbed F s"
  shows "absorbed (F @ data) (sha256_update data s)"
  using assms
proof (induction "length data" arbitrary: F s data rule: less_induct)
  case less
  obtain dev ctx where s: "s = (dev, ctx)" by fastforce
  obtain q r where qr: "r < 64" "length F = 64 * q + r" "length (buffer ctx) = 64" "unat (buffer_len ctx) = r"
    "total_len ctx = word_of_nat (8 * length F)" "fifo dev = le_words (take (64 * q) F)"
    "take r (buffer ctx) = drop (64 * q) F"
    using less.prems unfolding s absorbed_split by blast
  show ?case
  proof (cases "data = []")
    case True
    then show ?thesis using less.prems by (simp add: s sha256_update.simps)
  next
    case False
    define n where "n = min (64 - r) (length data)"
    have n: "0 < n" "n \<le> length data" "r + n \<le> 64" "n \<le> 64" using False qr(1) by (auto simp: n_def)
    have bl: "buffer_len ctx = word_of_nat r" by (simp flip: qr(4))
    have left: "unat (SHA256_BLOCK_LEN - buffer_len ctx) = 64 - r"
    proof -
      have "buffer_len ctx \<le> 64" using qr(1,4) by (simp add: word_le_nat_alt)
      then show ?thesis using qr(4) by (simp add: unat_sub)
    qed
    define b where "b = copy_into r (take n data) (buffer ctx)"
    have b: "length b = 64" "take (r + n) b = drop (64 * q) (F @ take n data)"
    proof -
      have "r + length (take n data) \<le> 64" "length (take n data) = n" using n by simp_all
      then show "length b = 64" "take (r + n) b = drop (64 * q) (F @ take n data)"
        using copied_block [OF qr(3,7) qr(2) [symmetric], of "take n data"] by (simp_all only: b_def)
    qed
    define c where "c = ctx\<lparr>buffer := b, total_len := total_len ctx + word_of_nat n * 8, buffer_len := word_of_nat (r + n)\<rparr>"
    have full: "(buffer_len c = SHA256_BLOCK_LEN) = (r + n = 64)"
    proof -
      have "unat (word_of_nat (r + n) :: u64) = r + n" using n by (intro unat_of_nat_small) simp
      then show ?thesis by (simp add: c_def word_unat_eq_iff del: of_nat_add)
    qed
    have upd: "sha256_update data s =
        (if r + n = 64 then sha256_update (drop n data) (dev\<lparr>fifo := fifo dev @ map (word_at b) [0..<16]\<rparr>, c\<lparr>buffer_len := 0\<rparr>)
         else sha256_update (drop n data) (dev, c))"
    proof -
      have m: "(if 64 - r > length data then length data else 64 - r) = n" by (simp add: n_def)
      have c': "ctx\<lparr>buffer := copy_into (unat (buffer_len ctx)) (take n data) (buffer ctx),
          total_len := total_len ctx + word_of_nat n * 8, buffer_len := buffer_len ctx + word_of_nat n\<rparr> = c"
        unfolding qr(4) c_def b_def by (simp add: bl)
      show ?thesis
        unfolding s by (subst sha256_update.simps) (simp only: left m c' Let_def False if_False full, simp add: c_def)
    qed
    have tl: "total_len c = word_of_nat (8 * length (F @ take n data))"
      using n qr(5) by (simp add: c_def algebra_simps)
    have F: "F @ data = (F @ take n data) @ drop n data" by simp
    have sm: "length (drop n data) < length data" using n False by simp
    show ?thesis
    proof (cases "r + n = 64")
      case True
      have w: "map (word_at b) [0..<16] = le_words b" using word_at_all [of b 16] b by simp
      have "take (64 * q + 64) (F @ take n data) = take (64 * q) F @ b"
      proof -
        let ?X = "F @ take n data"
        have "length ?X = 64 * q + 64" using qr(2) n(2) True by simp
        then have "take (64 * q + 64) ?X = take (64 * q) ?X @ drop (64 * q) ?X"
          by (simp only: take_all_iff append_take_drop_id)
        moreover have "take (64 * q) ?X = take (64 * q) F" using qr(2) by simp
        moreover have "drop (64 * q) ?X = b" using b True by simp
        ultimately show ?thesis by metis
      qed
      then have fw: "le_words (take (64 * Suc q) (F @ take n data)) = le_words (take (64 * q) F) @ le_words b"
        using le_words_append [of "take (64 * q) F" "16 * q" b] qr(2) by (simp add: add.commute)
      have "absorbed (F @ take n data) (dev\<lparr>fifo := fifo dev @ map (word_at b) [0..<16]\<rparr>, c\<lparr>buffer_len := 0\<rparr>)"
        unfolding absorbed_split
        by (rule exI [of _ "Suc q"], rule exI [of _ 0]) (use True qr n b fw w tl in \<open>simp add: c_def\<close>)
      from less.hyps [OF sm this] show ?thesis using True by (simp add: upd)
    next
      case False
      have "unat (word_of_nat (r + n) :: u64) = r + n" using n by (intro unat_of_nat_small) simp
      then have "absorbed (F @ take n data) (dev, c)"
        unfolding absorbed_split
        by (intro exI [of _ q] exI [of _ "r + n"]) (use False qr n b tl in \<open>simp add: c_def\<close>)
      from less.hyps [OF sm this] show ?thesis using False by (simp add: upd)
    qed
  qed
qed

lemma sha256_update_keeps:
  "sha_data_cnt (fst (sha256_update data s)) = sha_data_cnt (fst s)"
proof (induction data s rule: sha256_update.induct)
  case (1 data dev ctx)
  then show ?case
    by (subst sha256_update.simps) (simp add: Let_def)
qed

lemma sha256_final_pads:
  assumes "absorbed msg s"
  shows "fifo (fst (snd (sha256_final engine s))) = le_words (sha_pad msg)"
    and "fst (sha256_final engine s) = concat (map (\<lambda>i. bytes32 (engine (le_words (sha_pad msg)) (sha_data_cnt (fst s)) ! (7 - i))) [0..<8])"
    and "length (sha_pad msg) = 64 * ((length msg + 72) div 64)"
proof -
  obtain dev ctx where s: "s = (dev, ctx)" by fastforce
  obtain q r where qr: "r < 64" "length msg = 64 * q + r" "unat (buffer_len ctx) = r"
    "total_len ctx = word_of_nat (8 * length msg)"
    using assms unfolding s absorbed_split by blast
  let ?z = "if r < 56 then 55 - r else 119 - r"
  let ?b = "let b = 120 - buffer_len ctx in if b > 64 then b - 64 else b"
  have pad: "take (unat ?b) padding = 0x80 # replicate ?z 0"
  proof -
    have "buffer_len ctx \<le> 120" using qr(1,3) by (simp add: word_le_nat_alt)
    then have u: "unat (120 - buffer_len ctx) = 120 - r" using qr(3) by (simp add: unat_sub)
    have "unat ?b = Suc ?z"
    proof (cases "r < 56")
      case True
      then have "120 - buffer_len ctx > 64" using u by (simp add: word_less_nat_alt)
      moreover have "buffer_len ctx \<le> 56" using True qr(3) by (simp add: word_le_nat_alt)
      then have "unat (56 - buffer_len ctx) = 56 - r" using qr(3) by (simp add: unat_sub)
      ultimately show ?thesis using True by (simp add: Let_def)
    next
      case False
      then have "\<not> 120 - buffer_len ctx > 64" using u by (simp add: word_less_nat_alt)
      then show ?thesis using False u qr(1) by (simp add: Let_def)
    qed
    moreover have "?z \<le> 63" by auto
    ultimately show ?thesis by (simp add: padding_def)
  qed
  have z: "(119 - length msg mod 64) mod 64 = ?z"
    using qr(1) unfolding qr(2) block_arith(1) [OF qr(1)] by (auto simp: mod_if)
  let ?s1 = "sha256_update (0x80 # replicate ?z 0) s"
  let ?s2 = "sha256_update (be64 (word_of_nat (8 * length msg))) ?s1"
  have sp: "sha_pad msg = (msg @ 0x80 # replicate ?z 0) @ be64 (word_of_nat (8 * length msg))"
    by (simp add: sha_pad_def z)
  have a: "absorbed (sha_pad msg) ?s2"
    unfolding sp by (intro sha256_update_absorbs assms)
  have l: "length (sha_pad msg) = 64 * (if r < 56 then q + 1 else q + 2)"
    using qr(1,2) by (auto simp: sp be64_def)
  have d: "(64 * q + r + 72) div 64 = (if r < 56 then q + 1 else q + 2)" using qr(1) by auto
  show "length (sha_pad msg) = 64 * ((length msg + 72) div 64)" unfolding l qr(2) d ..
  have f: "fifo (fst ?s2) = le_words (sha_pad msg)"
    using a l by (cases ?s2) (simp add: absorbed_def)
  have fin: "sha256_final engine s =
      (concat (map (\<lambda>i. bytes32 (engine (fifo (fst ?s2)) (sha_data_cnt (fst ?s2)) ! (7 - i))) [0..<8]), ?s2)"
    unfolding sha256_final_def s prod.case Let_def case_prod_unfold fst_conv snd_conv
    by (simp only: pad [unfolded Let_def] byteswap_bytes qr(4)) simp
  show "fifo (fst (snd (sha256_final engine s))) = le_words (sha_pad msg)" by (simp only: fin f snd_conv)
  show "fst (sha256_final engine s) = concat (map (\<lambda>i. bytes32 (engine (le_words (sha_pad msg)) (sha_data_cnt (fst s)) ! (7 - i))) [0..<8])"
    by (simp only: fin f sha256_update_keeps fst_conv)
qed

lemma sha256_update_chunks:
  "absorbed F s \<Longrightarrow> absorbed (F @ concat chunks) (fold sha256_update chunks s)"
proof (induction chunks arbitrary: F s)
  case (Cons d chunks)
  from Cons.IH [OF sha256_update_absorbs [OF Cons.prems, of d]] show ?case by simp
qed simp

lemma sha256_chunks_keep:
  "sha_data_cnt (fst (fold sha256_update chunks s)) = sha_data_cnt (fst s)"
  by (induction chunks arbitrary: s) (simp_all add: sha256_update_keeps)

lemma sha256_init_absorbed:
  assumes "length (buffer ctx) = 64"
  shows "absorbed [] (snd (sha256_init n (sy, dev, ctx)))"
  using assms by (simp add: sha256_init_def absorbed_def Let_def)

lemma sha256_block_count:
  assumes "n + 72 < 2 ^ 64"
  shows "unat (sha_data_cnt (fst (snd (sha256_init n (sy, dev, ctx))))) = (n + 72) div 64 mod 2 ^ 16"
proof -
  have "word_of_nat n + SHA256_BLOCK_LEN + 8 = (word_of_nat (n + 72) :: u64)"
    by (simp add: add.assoc)
  then have "unat ((word_of_nat n + SHA256_BLOCK_LEN + 8) div SHA256_BLOCK_LEN) = (n + 72) div 64"
    using assms by (simp add: unat_div unat_of_nat_mod del: of_nat_add)
  then show ?thesis
    by (simp add: sha256_init_def Let_def unat_ucast_mod mod_mod_cancel)
qed

subsection \<open>Properties\<close>

text \<open>C16.  However a message is cut into pieces for \<open>sha256_update\<close>, the engine receives the padded message
  of the SHA-256 standard, word by word, and the eight result words come out last first; the block
  count announced at the start is the number of blocks of the padded message modulo \<open>2 ^ 16\<close>, so it is right
  up to 4 MiB.\<close>

theorem sha256_streams_padded_message:
  fixes chunks :: "u8 list list"
  assumes "length (buffer ctx) = 64" and "length (concat chunks) + 72 < 2 ^ 64"
  shows "(let msg = concat chunks;
              (sy', s) = sha256_init (length msg) (sy, dev, ctx);
              (output, dev', ctx') = sha256_final engine (fold sha256_update chunks s)
          in fifo dev' = le_words (sha_pad msg) \<and>
             unat (sha_data_cnt dev') = length (sha_pad msg) div 64 mod 2 ^ 16 \<and>
             output = concat (map (\<lambda>i. bytes32 (engine (le_words (sha_pad msg)) (sha_data_cnt dev') ! (7 - i))) [0..<8]))"
proof -
  let ?m = "concat chunks"
  let ?i = "snd (sha256_init (length ?m) (sy, dev, ctx))"
  let ?s = "fold sha256_update chunks ?i"
  have a: "absorbed ?m ?s"
    using sha256_update_chunks [OF sha256_init_absorbed [OF assms(1)], where chunks = chunks] by simp
  have c: "unat (sha_data_cnt (fst ?i)) = (length ?m + 72) div 64 mod 2 ^ 16"
    by (rule sha256_block_count [OF assms(2)])
  have k: "sha_data_cnt (fst (snd (sha256_final engine ?s))) = sha_data_cnt (fst ?i)"
    by (simp add: sha256_final_def sha256_update_keeps sha256_chunks_keep case_prod_unfold Let_def del: upt_Suc upt_rec_numeral)
  have l: "length (sha_pad ?m) div 64 = (length ?m + 72) div 64"
    using sha256_final_pads(3) [OF a] by simp
  show ?thesis
    using sha256_final_pads(1,2) [OF a, of engine] c k l
    by (simp add: Let_def case_prod_unfold sha256_chunks_keep del: upt_Suc upt_rec_numeral)
qed

text \<open>The standard's example message "abc", in two pieces.\<close>

theorem sha256_streams_padded_message_witness:
  "\<forall>sy dev engine.
   (let (sy', s) = sha256_init 3 (sy, dev, \<lparr>total_len = 7, buffer_len = 9, buffer = replicate 64 0\<rparr>);
        (output, dev', ctx') = sha256_final engine (fold sha256_update [[0x61], [0x62, 0x63]] s)
    in fifo dev' = 0x80636261 # replicate 14 0 @ [0x18000000] \<and> sha_data_cnt dev' = 1)"
proof (intro allI)
  fix sy dev engine
  have p: "le_words (sha_pad [0x61, 0x62, 0x63]) = 0x80636261 # replicate 14 0 @ [0x18000000]" by code_simp
  have l: "length (sha_pad [0x61, 0x62, 0x63]) = 64" by code_simp
  show "(let (sy', s) = sha256_init 3 (sy, dev, \<lparr>total_len = 7, buffer_len = 9, buffer = replicate 64 0\<rparr>);
        (output, dev', ctx') = sha256_final engine (fold sha256_update [[0x61], [0x62, 0x63]] s)
    in fifo dev' = 0x80636261 # replicate 14 0 @ [0x18000000] \<and> sha_data_cnt dev' = 1)"
    using sha256_streams_padded_message [of "\<lparr>total_len = 7, buffer_len = 9, buffer = replicate 64 0\<rparr>" "[[0x61], [0x62, 0x63]]" sy dev engine]
    by (simp add: p l case_prod_unfold Let_def word_unat_eq_iff [of _ 1] numeral_3_eq_3 del: upt_Suc upt_rec_numeral)
qed

end
