(* ===== verification/Clint.thy ===== *)
theory Clint
  imports Csr Sysctl_Freq
begin

text \<open>
  The core-local interrupter \<open>lib/drivers/clint.c\<close>: the machine timer with its periodic or single-shot callback
  and the software interrupts between the cores.  The functions act on the calling core, \<open>core\<close>, and its
  registers \<open>csr\<close>; \<open>now\<close> is the value read from \<open>mtime\<close>.  The two cores' entries of the C arrays are
  functions of the core number.  Callbacks are elements of \<open>'cb\<close>, contexts numbers.
\<close>

definition CLINT_NUM_CORES :: nat where [simp]: "CLINT_NUM_CORES = 2"
definition CLINT_CLOCK_DIV :: u64 where [simp]: "CLINT_CLOCK_DIV = 50"

record 'cb clint_timer_instance =
  ti_interval :: u64
  ti_cycles :: u64
  ti_single_shot :: u64
  ti_callback :: "'cb option"
  ti_ctx :: nat

record 'cb clint_ipi_instance =
  ipi_callback :: "'cb option"
  ipi_ctx :: nat

record 'cb clint =
  msip :: "nat \<Rightarrow> bit1"
  mtimecmp :: "nat \<Rightarrow> u64"
  timer_instance :: "nat \<Rightarrow> 'cb clint_timer_instance"
  ipi_instance :: "nat \<Rightarrow> 'cb clint_ipi_instance"

definition upd_timer :: "nat \<Rightarrow> ('cb clint_timer_instance \<Rightarrow> 'cb clint_timer_instance) \<Rightarrow> 'cb clint \<Rightarrow> 'cb clint" where
  [simp]: "upd_timer core f d = d\<lparr>timer_instance := (timer_instance d)(core := f (timer_instance d core))\<rparr>"

subsection \<open>The timer\<close>

definition clint_timer_init :: "nat \<Rightarrow> 'cb clint \<times> csr \<Rightarrow> 'cb clint \<times> csr" where
  "clint_timer_init core s = (case s of (d, c) \<Rightarrow>
     (upd_timer core (\<lambda>_. \<lparr>ti_interval = 0, ti_cycles = 0, ti_single_shot = 0, ti_callback = None, ti_ctx = 0\<rparr>) d,
      clear_mie MIP_MTIP c))"

definition clint_timer_stop :: "'cb clint \<times> csr \<Rightarrow> 'cb clint \<times> csr" where
  "clint_timer_stop s = (case s of (d, c) \<Rightarrow> (d, clear_mie MIP_MTIP c))"

definition clint_timer_get_freq :: "sysctl \<Rightarrow> u64" where
  "clint_timer_get_freq sy = ucast (sysctl_clock_get_freq sy SYSCTL_CLOCK_CPU) div CLINT_CLOCK_DIV"

definition clint_timer_set_interval :: "nat \<Rightarrow> sysctl \<Rightarrow> u64 \<Rightarrow> 'cb clint \<Rightarrow> int \<times> 'cb clint" where
  "clint_timer_set_interval core sy interval d =
     (if interval = 0 then (-1, d)
      else
       (0, upd_timer core (\<lambda>t. t\<lparr>ti_interval := interval, ti_cycles := interval * clint_timer_get_freq sy div 1000\<rparr>) d))"

definition clint_timer_get_interval :: "nat \<Rightarrow> 'cb clint \<Rightarrow> u64" where
  "clint_timer_get_interval core d = ti_interval (timer_instance d core)"

definition clint_timer_set_single_shot :: "nat \<Rightarrow> int \<Rightarrow> 'cb clint \<Rightarrow> int \<times> 'cb clint" where
  "clint_timer_set_single_shot core single_shot d =
     (0, upd_timer core (\<lambda>t. t\<lparr>ti_single_shot := word_of_int single_shot\<rparr>) d)"

definition clint_timer_get_single_shot :: "nat \<Rightarrow> 'cb clint \<Rightarrow> u64" where
  "clint_timer_get_single_shot core d = ti_single_shot (timer_instance d core)"

definition clint_timer_start ::
  "nat \<Rightarrow> sysctl \<Rightarrow> u64 \<Rightarrow> u64 \<Rightarrow> int \<Rightarrow> 'cb clint \<times> csr \<Rightarrow> int \<times> 'cb clint \<times> csr" where
  "clint_timer_start core sy now interval single_shot s = (case s of (d, c) \<Rightarrow>
     (case clint_timer_set_interval core sy interval d of (rc, d) \<Rightarrow>
        if rc \<noteq> 0 then (-1, d, c)
        else (case clint_timer_set_single_shot core single_shot d of (rc, d) \<Rightarrow>
          if rc \<noteq> 0 then (-1, d, c)
          else if ti_interval (timer_instance d core) = 0 then (-1, d, c)
          else if ti_cycles (timer_instance d core) = 0 then (-1, d, c)
          else
           (let thn = now + ti_cycles (timer_instance d core);
                d = d\<lparr>mtimecmp := (mtimecmp d)(core := thn)\<rparr>;
                c = set_mie MIP_MTIP (set_mstatus MSTATUS_MIE c)
            in (0, d, c)))))"

definition clint_timer_register :: "nat \<Rightarrow> 'cb option \<Rightarrow> nat \<Rightarrow> 'cb clint \<Rightarrow> 'cb clint" where
  "clint_timer_register core cb ctx d = upd_timer core (\<lambda>t. t\<lparr>ti_callback := cb, ti_ctx := ctx\<rparr>) d"

definition clint_timer_unregister :: "nat \<Rightarrow> 'cb clint \<Rightarrow> 'cb clint" where
  "clint_timer_unregister core d = clint_timer_register core None 0 d"

subsection \<open>Interrupts between the cores\<close>

definition clint_ipi_init :: "nat \<Rightarrow> 'cb clint \<times> csr \<Rightarrow> 'cb clint \<times> csr" where
  "clint_ipi_init core s = (case s of (d, c) \<Rightarrow>
     (d\<lparr>ipi_instance := (ipi_instance d)(core := \<lparr>ipi_callback = None, ipi_ctx = 0\<rparr>)\<rparr>, clear_mie MIP_MSIP c))"

definition clint_ipi_enable :: "csr \<Rightarrow> csr" where
  "clint_ipi_enable c = set_mie MIP_MSIP (set_mstatus MSTATUS_MIE c)"

definition clint_ipi_disable :: "csr \<Rightarrow> csr" where
  "clint_ipi_disable c = clear_mie MIP_MSIP c"

definition clint_ipi_send :: "nat \<Rightarrow> 'cb clint \<Rightarrow> int \<times> 'cb clint" where
  "clint_ipi_send core_id d =
     (if core_id \<ge> CLINT_NUM_CORES then (-1, d) else (0, d\<lparr>msip := (msip d)(core_id := 1)\<rparr>))"

definition clint_ipi_clear :: "nat \<Rightarrow> 'cb clint \<Rightarrow> int \<times> 'cb clint" where
  "clint_ipi_clear core_id d =
     (if core_id \<ge> CLINT_NUM_CORES then (-1, d)
      else if msip d core_id \<noteq> 0 then (1, d\<lparr>msip := (msip d)(core_id := 0)\<rparr>)
      else (0, d))"

definition clint_ipi_register :: "nat \<Rightarrow> 'cb option \<Rightarrow> nat \<Rightarrow> 'cb clint \<Rightarrow> 'cb clint" where
  "clint_ipi_register core cb ctx d =
     d\<lparr>ipi_instance := (ipi_instance d)(core := \<lparr>ipi_callback = cb, ipi_ctx = ctx\<rparr>)\<rparr>"

definition clint_ipi_unregister :: "nat \<Rightarrow> 'cb clint \<Rightarrow> 'cb clint" where
  "clint_ipi_unregister core d = clint_ipi_register core None 0 d"

subsection \<open>The handlers\<close>

text \<open>\<open>run cb ctx\<close> is what a callback does to the machine, interrupts nested in it included.\<close>

definition handle_irq_m_timer ::
  "('cb \<Rightarrow> nat \<Rightarrow> 'cb clint \<times> csr \<Rightarrow> 'cb clint \<times> csr) \<Rightarrow> nat \<Rightarrow> 'cb clint \<times> csr \<Rightarrow> 'cb clint \<times> csr" where
  "handle_irq_m_timer run core s = (case s of (d, c) \<Rightarrow>
     (let ie_flag = mie c;
          c = clear_mie (MIP_MTIP OR MIP_MSIP) c;
          c = set_mstatus MSTATUS_MIE c;
          (d, c) = (case ti_callback (timer_instance d core) of
                      Some cb \<Rightarrow> run cb (ti_ctx (timer_instance d core)) (d, c)
                    | None \<Rightarrow> (d, c));
          c = clear_mstatus MSTATUS_MIE c;
          c = set_mstatus (MSTATUS_MPIE OR MSTATUS_MPP) c;
          c = c\<lparr>mie := ie_flag\<rparr>
      in if ti_single_shot (timer_instance d core) = 0 \<and> ti_cycles (timer_instance d core) \<noteq> 0
         then (d\<lparr>mtimecmp := (mtimecmp d)(core := mtimecmp d core + ti_cycles (timer_instance d core))\<rparr>, c)
         else (d, clear_mie MIP_MTIP c)))"

definition handle_irq_m_soft ::
  "('cb \<Rightarrow> nat \<Rightarrow> 'cb clint \<times> csr \<Rightarrow> 'cb clint \<times> csr) \<Rightarrow> nat \<Rightarrow> 'cb clint \<times> csr \<Rightarrow> 'cb clint \<times> csr" where
  "handle_irq_m_soft run core s = (case s of (d, c) \<Rightarrow>
     (let c = clear_mie MIP_MSIP c;
          c = set_mstatus MSTATUS_MIE c;
          d = snd (clint_ipi_clear core d);
          (d, c) = (case ipi_callback (ipi_instance d core) of
                      Some cb \<Rightarrow> run cb (ipi_ctx (ipi_instance d core)) (d, c)
                    | None \<Rightarrow> (d, c));
          c = clear_mstatus MSTATUS_MIE c;
          c = set_mstatus (MSTATUS_MPIE OR MSTATUS_MPP) c;
          c = set_mie MIP_MSIP c
      in (d, c)))"

subsection \<open>Properties\<close>

text \<open>C17.  A periodic timer does not drift, and its callback cannot stop it.  Starting a timer with a valid interval
  puts the deadline one period after the time read and enables the interrupt; every run of the handler
  whose callback leaves the timer's settings alone moves the deadline by exactly one period, however late the handler
  ran, so the \<open>n\<close>-th deadline is the start plus \<open>n + 1\<close> periods.  The enable register is put back as
  it was at entry, so the timer interrupt stays enabled even if the callback is \<open>clint_timer_stop\<close>.\<close>

definition timer_rounds ::
  "('cb \<Rightarrow> nat \<Rightarrow> 'cb clint \<times> csr \<Rightarrow> 'cb clint \<times> csr) \<Rightarrow> nat \<Rightarrow> nat \<Rightarrow> 'cb clint \<times> csr \<Rightarrow> 'cb clint \<times> csr" where
  "timer_rounds run core n s = ((handle_irq_m_timer run core) ^^ n) s"

lemma handle_timer_periodic:
  assumes "\<forall>f c d x. timer_instance (fst (run f c (d, x))) = timer_instance d \<and> mtimecmp (fst (run f c (d, x))) = mtimecmp d"
    and "ti_single_shot (timer_instance d core) = 0" "ti_cycles (timer_instance d core) \<noteq> 0"
  shows "timer_instance (fst (handle_irq_m_timer run core (d, c))) = timer_instance d"
    and "mtimecmp (fst (handle_irq_m_timer run core (d, c))) core = mtimecmp d core + ti_cycles (timer_instance d core)"
    and "mie (snd (handle_irq_m_timer run core (d, c))) = mie c"
proof -
  let ?c = "set_mstatus MSTATUS_MIE (clear_mie (MIP_MTIP OR MIP_MSIP) c)"
  obtain d2 c2 where r: "(case ti_callback (timer_instance d core) of
       Some cb \<Rightarrow> run cb (ti_ctx (timer_instance d core)) (d, ?c) | None \<Rightarrow> (d, ?c)) = (d2, c2)"
    by fastforce
  have k: "timer_instance d2 = timer_instance d" "mtimecmp d2 = mtimecmp d"
    using r assms(1) by (auto split: option.splits dest: arg_cong [where f = fst]) (metis fst_conv)+
  show "timer_instance (fst (handle_irq_m_timer run core (d, c))) = timer_instance d"
    "mtimecmp (fst (handle_irq_m_timer run core (d, c))) core = mtimecmp d core + ti_cycles (timer_instance d core)"
    "mie (snd (handle_irq_m_timer run core (d, c))) = mie c"
    using assms(2,3) unfolding handle_irq_m_timer_def Let_def prod.case r by (simp_all add: k csr_ops)
qed

lemma timer_rounds_periodic:
  assumes "\<forall>f c d x. timer_instance (fst (run f c (d, x))) = timer_instance d \<and> mtimecmp (fst (run f c (d, x))) = mtimecmp d"
    and "ti_single_shot (timer_instance d core) = 0" "ti_cycles (timer_instance d core) \<noteq> 0"
  shows "timer_instance (fst (timer_rounds run core n (d, c))) = timer_instance d \<and>
    mtimecmp (fst (timer_rounds run core n (d, c))) core = mtimecmp d core + word_of_nat n * ti_cycles (timer_instance d core) \<and>
    mie (snd (timer_rounds run core n (d, c))) = mie c"
proof (induction n)
  case (Suc n)
  obtain d1 c1 where s: "timer_rounds run core n (d, c) = (d1, c1)" by fastforce
  have "timer_rounds run core (Suc n) (d, c) = handle_irq_m_timer run core (d1, c1)"
    by (simp add: timer_rounds_def flip: s)
  then show ?case
    using Suc handle_timer_periodic [OF assms(1), of d1 core c1] assms(2,3) by (simp add: s algebra_simps)
qed (simp add: timer_rounds_def)

theorem clint_timer_no_drift:
  fixes d :: "'cb clint"
  assumes "\<forall>f c d x. timer_instance (fst (run f c (d, x))) = timer_instance d \<and> mtimecmp (fst (run f c (d, x))) = mtimecmp d"
    and "clint_timer_start core sy now interval 0 (d, c) = (0, d', c')"
  shows "(let cycles = interval * clint_timer_get_freq sy div 1000;
              (d2, c2) = timer_rounds run core n (d', c')
          in mtimecmp d2 core = now + (word_of_nat n + 1) * cycles \<and>
             mie c2 = mie c OR MIP_MTIP \<and> bit (mie c2) 7)"
proof -
  let ?cy = "interval * clint_timer_get_freq sy div 1000"
  have st: "ti_single_shot (timer_instance d' core) = 0" "ti_cycles (timer_instance d' core) = ?cy" "?cy \<noteq> 0"
    "mtimecmp d' core = now + ?cy" "mie c' = mie c OR MIP_MTIP"
    using assms(2)
    by (auto simp: clint_timer_start_def clint_timer_set_interval_def clint_timer_set_single_shot_def csr_ops Let_def
        split: if_splits)
  have "bit (mie c OR MIP_MTIP) 7" by (simp add: bit_or_iff csr_mask_bit)
  then show ?thesis
    using timer_rounds_periodic [OF assms(1), of d' core n c'] st
    by (simp add: Let_def case_prod_unfold algebra_simps)
qed

text \<open>A callback that calls \<open>clint_timer_stop\<close> on a timer of 1000 ms at 26 MHz: the timer goes on.\<close>

theorem clint_timer_no_drift_witness:
  "\<forall>s :: sysctl.
   (let sy = s\<lparr>clk_sel0 := (clk_sel0 s)\<lparr>aclk_sel := 0\<rparr>\<rparr>;
        c = \<lparr>mstatus = 0, mie = 0, mip = 0\<rparr>;
        d = \<lparr>msip = (\<lambda>_. 0), mtimecmp = (\<lambda>_. 0), timer_instance =
               (\<lambda>_. \<lparr>ti_interval = 0, ti_cycles = 0, ti_single_shot = 0, ti_callback = Some True, ti_ctx = 0\<rparr>),
               ipi_instance = (\<lambda>_. \<lparr>ipi_callback = None, ipi_ctx = 0\<rparr>)\<rparr>;
        (rc, d', c') = clint_timer_start 0 sy 100 1000 0 (d, c);
        (d2, c2) = timer_rounds (\<lambda>_ _. clint_timer_stop) 0 3 (d', c')
    in rc = 0 \<and> mtimecmp d2 0 = 100 + 4 * 520000 \<and> bit (mie c2) 7)"
proof (rule allI)
  fix s :: sysctl
  let ?sy = "s\<lparr>clk_sel0 := (clk_sel0 s)\<lparr>aclk_sel := 0\<rparr>\<rparr>"
  let ?c = "\<lparr>mstatus = 0, mie = 0, mip = 0\<rparr>"
  let ?d = "\<lparr>msip = (\<lambda>_. 0), mtimecmp = (\<lambda>_. 0), timer_instance =
       (\<lambda>_. \<lparr>ti_interval = 0, ti_cycles = 0, ti_single_shot = 0, ti_callback = Some True, ti_ctx = 0\<rparr>),
       ipi_instance = (\<lambda>_. \<lparr>ipi_callback = None, ipi_ctx = 0\<rparr>)\<rparr>"
  have "sysctl_clock_get_freq ?sy SYSCTL_CLOCK_CPU = 26000000"
    by (simp add: sysctl_clock_get_freq.simps sysctl_clock_source_get_freq.simps sysctl_clock_get_clock_select_def SYSCTRL_CLOCK_FREQ_IN0_def)
  then have f: "clint_timer_get_freq ?sy = 520000"
    by (simp add: clint_timer_get_freq_def)
  obtain rc d' c' where st: "clint_timer_start 0 ?sy 100 1000 0 (?d, ?c) = (rc, d', c')" by (metis prod_cases3)
  moreover from st have "rc = 0"
    by (auto simp: clint_timer_start_def clint_timer_set_interval_def clint_timer_set_single_shot_def f Let_def split: if_splits)
  moreover have stop: "\<forall>f c d x. timer_instance (fst (clint_timer_stop (d, x))) = timer_instance d \<and>
      mtimecmp (fst (clint_timer_stop (d, x))) = mtimecmp d"
    by (simp add: clint_timer_stop_def)
  ultimately show "(let sy = ?sy; c = ?c; d = ?d; (rc, d', c') = clint_timer_start 0 sy 100 1000 0 (d, c);
        (d2, c2) = timer_rounds (\<lambda>_ _. clint_timer_stop) 0 3 (d', c')
    in rc = 0 \<and> mtimecmp d2 0 = 100 + 4 * 520000 \<and> bit (mie c2) 7)"
    using clint_timer_no_drift [OF stop, of 0 ?sy 100 1000 ?d ?c d' c' 3]
    by (simp add: f Let_def case_prod_unfold csr_mask_bit)
qed

text \<open>An interrupt sent to the other core sets that core's flag only, and its handler clears the flag
  before it calls the callback, so that an interrupt sent from then on is not lost; a core number out of range is
  refused.  The handler enables software interrupts on its way out, whatever the callback did.\<close>

lemma clint_ipi_contract:
  fixes d :: "'cb clint"
  shows "(case clint_ipi_send core d of (rc, d1) \<Rightarrow>
      if 2 \<le> core then rc = -1 \<and> d1 = d
      else rc = 0 \<and> msip d1 = (msip d)(core := 1) \<and> ipi_instance d1 = ipi_instance d \<and>
        (\<forall>k. bit (mie (snd (handle_irq_m_soft run core (d1, c)))) 3) \<and>
        (case ipi_callback (ipi_instance d core) of
           None \<Rightarrow> msip (fst (handle_irq_m_soft run core (d1, c))) = (msip d)(core := 0)
         | Some f \<Rightarrow>
             fst (handle_irq_m_soft run core (d1, c)) =
             fst (run f (ipi_ctx (ipi_instance d core))
               (d1\<lparr>msip := (msip d)(core := 0)\<rparr>, set_mstatus MSTATUS_MIE (clint_ipi_disable c)))))"
proof -
  have "bit (w OR MIP_MSIP) 3" for w :: u64 by (simp add: bit_or_iff csr_mask_bit)
  then show ?thesis
    by (auto simp: clint_ipi_send_def handle_irq_m_soft_def clint_ipi_clear_def clint_ipi_disable_def csr_ops Let_def
        case_prod_unfold split: option.splits)
qed

end
