(* ===== verification/Timer.thy ===== *)
theory Timer
  imports C_Double Sysctl_Freq Plic
begin

text \<open>
  The timer driver \<open>lib/drivers/timer.c\<close>: three devices of four channels; the channels 0 and 1 of a device
  share one interrupt line, 2 and 3 the next one.  Device and channel are numbers.  Reading an \<open>eoi\<close> register
  acknowledges interrupts: \<open>acks\<close> lists the reads made, last first, \<open>i\<close> for the register of
  channel \<open>i\<close> and 4 for that of the whole device.  Of the two interrupt interfaces, the older one
  (\<open>timer_set_irq\<close>, \<open>timer_isr\<close>) keeps its callbacks in \<open>time_irq\<close>, the newer one
  in \<open>timer_instance\<close>.  What the interrupt controller stores as handler is a \<open>timer_handler\<close>; its context is the
  device number for the old interface, and the address of the instance, \<open>4 * device + channel\<close>, for the new one.
\<close>

definition TIMER_DEVICE_MAX :: nat where [simp]: "TIMER_DEVICE_MAX = 3"
definition TIMER_CHANNEL_MAX :: nat where [simp]: "TIMER_CHANNEL_MAX = 4"
definition TIMER_CR_ENABLE :: u32 where "TIMER_CR_ENABLE = 1"
definition TIMER_CR_MODE_MASK :: u32 where "TIMER_CR_MODE_MASK = 2"
definition TIMER_CR_USER_MODE :: u32 where "TIMER_CR_USER_MODE = 2"
definition TIMER_CR_INTERRUPT_MASK :: u32 where "TIMER_CR_INTERRUPT_MASK = 4"
definition TIMER_CR_PWM_ENABLE :: u32 where "TIMER_CR_PWM_ENABLE = 8"

record timer_channel =
  load_count :: u32
  current_value :: u32
  control :: u32
  ch_intr_stat :: u32

record kendryte_timer =
  channel :: "nat \<Rightarrow> timer_channel"
  intr_stat :: u32
  raw_intr_stat :: u32
  load_count2 :: "nat \<Rightarrow> u32"
  acks :: "nat list"

record 'cb timer_instance =
  in_device :: nat
  in_channel :: nat
  in_callback :: "'cb option"
  in_ctx :: nat
  in_single_shot :: bool

record 'cb timer_driver =
  timer :: "nat \<Rightarrow> kendryte_timer"
  instances :: "nat \<Rightarrow> nat \<Rightarrow> 'cb timer_instance"
  time_irq :: "nat \<Rightarrow> nat \<Rightarrow> 'cb option"

datatype timer_handler = Timer_isr | Timer_interrupt_handler

definition upd_device :: "nat \<Rightarrow> (kendryte_timer \<Rightarrow> kendryte_timer) \<Rightarrow> 'cb timer_driver \<Rightarrow> 'cb timer_driver" where
  "upd_device n f s = s\<lparr>timer := (timer s)(n := f (timer s n))\<rparr>"

definition upd_channel :: "nat \<Rightarrow> nat \<Rightarrow> (timer_channel \<Rightarrow> timer_channel) \<Rightarrow> 'cb timer_driver \<Rightarrow> 'cb timer_driver" where
  "upd_channel n c f = upd_device n (\<lambda>t. t\<lparr>channel := (channel t)(c := f (channel t c))\<rparr>)"

definition ack :: "nat \<Rightarrow> nat \<Rightarrow> 'cb timer_driver \<Rightarrow> 'cb timer_driver" where
  "ack n i = upd_device n (\<lambda>t. t\<lparr>acks := i # acks t\<rparr>)"

subsection \<open>Registers\<close>

definition timer_clock :: "nat \<Rightarrow> sysctl_clock" where
  "timer_clock n = (if n = 0 then SYSCTL_CLOCK_TIMER0 else if n = 1 then SYSCTL_CLOCK_TIMER1 else SYSCTL_CLOCK_TIMER2)"

definition no_instance :: "'cb timer_instance" where
  "no_instance = \<lparr>in_device = 0, in_channel = 0, in_callback = None, in_ctx = 0, in_single_shot = False\<rparr>"

definition timer_init :: "nat \<Rightarrow> sysctl \<times> 'cb timer_driver \<Rightarrow> sysctl \<times> 'cb timer_driver" where
  "timer_init n s = (case s of (sy, t) \<Rightarrow>
     (snd (sysctl_clock_enable (timer_clock n) sy),
      fold (\<lambda>i t. t\<lparr>instances := (instances t)(n := (instances t n)(i := no_instance))\<rparr>) [0..<TIMER_CHANNEL_MAX] t))"

definition timer_set_clock_div :: "nat \<Rightarrow> u32 \<Rightarrow> sysctl \<Rightarrow> sysctl" where
  "timer_set_clock_div n div_value sy =
     snd (sysctl_clock_set_threshold
       (if n = 0 then SYSCTL_THRESHOLD_TIMER0 else if n = 1 then SYSCTL_THRESHOLD_TIMER1 else SYSCTL_THRESHOLD_TIMER2)
       (uint div_value) sy)"

definition timer_enable :: "nat \<Rightarrow> nat \<Rightarrow> 'cb timer_driver \<Rightarrow> 'cb timer_driver" where
  "timer_enable n c = upd_channel n c (\<lambda>r. r\<lparr>control := control r OR TIMER_CR_ENABLE\<rparr>)"

definition timer_disable :: "nat \<Rightarrow> nat \<Rightarrow> 'cb timer_driver \<Rightarrow> 'cb timer_driver" where
  "timer_disable n c = upd_channel n c (\<lambda>r. r\<lparr>control := control r AND NOT TIMER_CR_ENABLE\<rparr>)"

definition timer_enable_pwm :: "nat \<Rightarrow> nat \<Rightarrow> 'cb timer_driver \<Rightarrow> 'cb timer_driver" where
  "timer_enable_pwm n c = upd_channel n c (\<lambda>r. r\<lparr>control := control r OR TIMER_CR_PWM_ENABLE\<rparr>)"

definition timer_disable_pwm :: "nat \<Rightarrow> nat \<Rightarrow> 'cb timer_driver \<Rightarrow> 'cb timer_driver" where
  "timer_disable_pwm n c = upd_channel n c (\<lambda>r. r\<lparr>control := control r AND NOT TIMER_CR_PWM_ENABLE\<rparr>)"

definition timer_enable_interrupt :: "nat \<Rightarrow> nat \<Rightarrow> 'cb timer_driver \<Rightarrow> 'cb timer_driver" where
  "timer_enable_interrupt n c = upd_channel n c (\<lambda>r. r\<lparr>control := control r AND NOT TIMER_CR_INTERRUPT_MASK\<rparr>)"

definition timer_disable_interrupt :: "nat \<Rightarrow> nat \<Rightarrow> 'cb timer_driver \<Rightarrow> 'cb timer_driver" where
  "timer_disable_interrupt n c = upd_channel n c (\<lambda>r. r\<lparr>control := control r OR TIMER_CR_INTERRUPT_MASK\<rparr>)"

definition timer_set_mode :: "nat \<Rightarrow> nat \<Rightarrow> u32 \<Rightarrow> 'cb timer_driver \<Rightarrow> 'cb timer_driver" where
  "timer_set_mode n c mode s =
     upd_channel n c (\<lambda>r. r\<lparr>control := control r OR mode\<rparr>)
       (upd_channel n c (\<lambda>r. r\<lparr>control := control r AND NOT TIMER_CR_MODE_MASK\<rparr>) s)"

definition timer_set_reload :: "nat \<Rightarrow> nat \<Rightarrow> u32 \<Rightarrow> 'cb timer_driver \<Rightarrow> 'cb timer_driver" where
  "timer_set_reload n c count = upd_channel n c (\<lambda>r. r\<lparr>load_count := count\<rparr>)"

definition timer_set_reload2 :: "nat \<Rightarrow> nat \<Rightarrow> u32 \<Rightarrow> 'cb timer_driver \<Rightarrow> 'cb timer_driver" where
  "timer_set_reload2 n c count = upd_device n (\<lambda>t. t\<lparr>load_count2 := (load_count2 t)(c := count)\<rparr>)"

definition timer_get_count :: "nat \<Rightarrow> nat \<Rightarrow> 'cb timer_driver \<Rightarrow> u32" where
  "timer_get_count n c s = current_value (channel (timer s n) c)"

definition timer_get_reload :: "nat \<Rightarrow> nat \<Rightarrow> 'cb timer_driver \<Rightarrow> u32" where
  "timer_get_reload n c s = load_count (channel (timer s n) c)"

definition timer_get_reload2 :: "nat \<Rightarrow> nat \<Rightarrow> 'cb timer_driver \<Rightarrow> u32" where
  "timer_get_reload2 n c s = load_count2 (timer s n) c"

definition timer_get_interrupt_status :: "nat \<Rightarrow> 'cb timer_driver \<Rightarrow> u32" where
  "timer_get_interrupt_status n s = intr_stat (timer s n)"

definition timer_get_raw_interrupt_status :: "nat \<Rightarrow> 'cb timer_driver \<Rightarrow> u32" where
  "timer_get_raw_interrupt_status n s = raw_intr_stat (timer s n)"

definition timer_channel_get_interrupt_status :: "nat \<Rightarrow> nat \<Rightarrow> 'cb timer_driver \<Rightarrow> u32" where
  "timer_channel_get_interrupt_status n c s = ch_intr_stat (channel (timer s n) c)"

definition timer_clear_interrupt :: "nat \<Rightarrow> 'cb timer_driver \<Rightarrow> 'cb timer_driver" where
  "timer_clear_interrupt n = ack n 4"

definition timer_channel_clear_interrupt :: "nat \<Rightarrow> nat \<Rightarrow> 'cb timer_driver \<Rightarrow> 'cb timer_driver" where
  "timer_channel_clear_interrupt n c = ack n c"

definition timer_set_enable :: "nat \<Rightarrow> nat \<Rightarrow> u32 \<Rightarrow> 'cb timer_driver \<Rightarrow> 'cb timer_driver" where
  "timer_set_enable n c enable =
     upd_channel n c (\<lambda>r. r\<lparr>control := (if enable \<noteq> 0 then TIMER_CR_USER_MODE OR TIMER_CR_ENABLE else TIMER_CR_INTERRUPT_MASK)\<rparr>)"

text \<open>\<open>None\<close>: the assertion fails.  Every arithmetic operation on a \<open>double\<close> rounds.\<close>

definition timer_set_interval :: "nat \<Rightarrow> nat \<Rightarrow> nat \<Rightarrow> sysctl \<times> 'cb timer_driver \<Rightarrow> (nat \<times> 'cb timer_driver) option" where
  "timer_set_interval n c nanoseconds s = (case s of (sy, t) \<Rightarrow>
     (let clk_freq = sysctl_clock_get_freq sy (timer_clock n);
          min_step = fl (1000000000 / of_int (uint clk_freq));
          value = nat \<lfloor>fl (fl (of_nat nanoseconds) / min_step)\<rfloor>
      in if 0 < value \<and> value < 2 ^ 32 - 1
         then Some (nat \<lfloor>fl (min_step * fl (of_nat value))\<rfloor>, timer_set_reload n c (word_of_nat value) t)
         else None))"

subsection \<open>The older interrupt interface\<close>

text \<open>\<open>run cb ctx\<close> is what a callback does to the driver; the callbacks of the older interface take no context.\<close>

fun timer_isr_scan :: "('cb \<Rightarrow> nat \<Rightarrow> 'cb timer_driver \<Rightarrow> 'cb timer_driver) \<Rightarrow> nat \<Rightarrow> nat list \<Rightarrow> u32 \<Rightarrow> 'cb timer_driver \<Rightarrow> 'cb timer_driver" where
  "timer_isr_scan run n [] stat s = s"
| "timer_isr_scan run n (i # is) stat s =
     (if stat AND 1 \<noteq> 0
      then (case time_irq s n i of Some cb \<Rightarrow> run cb 0 s | None \<Rightarrow> s)
      else timer_isr_scan run n is (drop_bit 1 stat) s)"

definition timer_isr :: "('cb \<Rightarrow> nat \<Rightarrow> 'cb timer_driver \<Rightarrow> 'cb timer_driver) \<Rightarrow> nat \<Rightarrow> 'cb timer_driver \<Rightarrow> 'cb timer_driver" where
  "timer_isr run n s = ack n 4 (timer_isr_scan run n [0..<4] (intr_stat (timer s n)) s)"

definition IRQN_TIMER0A_INTERRUPT :: nat where [simp]: "IRQN_TIMER0A_INTERRUPT = 14"
definition IRQN_TIMER0B_INTERRUPT :: nat where [simp]: "IRQN_TIMER0B_INTERRUPT = 15"

definition timer_set_irq ::
  "nat \<Rightarrow> nat \<Rightarrow> nat \<Rightarrow> 'cb option \<Rightarrow> u32 \<Rightarrow> 'cb timer_driver \<times> timer_handler plic \<Rightarrow> 'cb timer_driver \<times> timer_handler plic" where
  "timer_set_irq core n c func prio s = (case s of (t, p) \<Rightarrow>
     (let t = t\<lparr>time_irq := (time_irq t)(n := (time_irq t n)(c := func))\<rparr>;
          irq = (if c < 2 then IRQN_TIMER0A_INTERRUPT + n * 2 else IRQN_TIMER0B_INTERRUPT + n * 2);
          p = snd (plic_set_priority (int irq) prio p);
          p = plic_irq_register core irq (Some Timer_isr) n p;
          p = snd (plic_irq_enable core (int irq) p)
      in (t, p)))"

subsection \<open>The newer interrupt interface\<close>

definition IRQN_NO_INTERRUPT :: nat where "IRQN_NO_INTERRUPT = 0"

definition get_timer_irqn_by_device_and_channel :: "nat \<Rightarrow> nat \<Rightarrow> nat" where
  "get_timer_irqn_by_device_and_channel device c =
     (if device < TIMER_DEVICE_MAX \<and> c < TIMER_CHANNEL_MAX
      then (if c < 2 then IRQN_TIMER0A_INTERRUPT + device * 2 else IRQN_TIMER0B_INTERRUPT + device * 2)
      else IRQN_NO_INTERRUPT)"

fun handler_loop ::
  "('cb \<Rightarrow> nat \<Rightarrow> 'cb timer_driver \<Rightarrow> 'cb timer_driver) \<Rightarrow> nat \<Rightarrow> nat list \<Rightarrow> u32 \<Rightarrow> 'cb timer_driver \<Rightarrow> 'cb timer_driver" where
  "handler_loop run device [] stat s = s"
| "handler_loop run device (i # is) stat s =
     (let s = (if stat AND 1 \<noteq> 0 then
                 (let s = (case in_callback (instances s device i) of
                        Some cb \<Rightarrow>
                          (let s = run cb (in_ctx (instances s device i)) s
                           in if in_single_shot (instances s device i) then timer_set_enable device i 0 s else s)
                      | None \<Rightarrow> s)
                  in ack device i s)
               else s)
      in handler_loop run device is (drop_bit 1 stat) s)"

definition timer_interrupt_handler ::
  "('cb \<Rightarrow> nat \<Rightarrow> 'cb timer_driver \<Rightarrow> 'cb timer_driver) \<Rightarrow> nat \<Rightarrow> 'cb timer_driver \<Rightarrow> 'cb timer_driver" where
  "timer_interrupt_handler run ctx s =
     (let inst = instances s (ctx div 4) (ctx mod 4);
          device = in_device inst;
          irq_channel = (in_channel inst div 2) * 2
      in handler_loop run device [irq_channel..<irq_channel + 2] (drop_bit irq_channel (intr_stat (timer s device))) s)"

definition timer_irq_register ::
  "nat \<Rightarrow> nat \<Rightarrow> nat \<Rightarrow> bool \<Rightarrow> u32 \<Rightarrow> 'cb option \<Rightarrow> nat \<Rightarrow>
   'cb timer_driver \<times> timer_handler plic \<Rightarrow> int \<times> 'cb timer_driver \<times> timer_handler plic" where
  "timer_irq_register core device c single prio cb ctx s = (case s of (t, p) \<Rightarrow>
     (if device < TIMER_DEVICE_MAX \<and> c < TIMER_CHANNEL_MAX then
       (let irq = get_timer_irqn_by_device_and_channel device c;
            t = t\<lparr>instances := (instances t)(device := (instances t device)(c :=
                  \<lparr>in_device = device, in_channel = c, in_callback = cb, in_ctx = ctx, in_single_shot = single\<rparr>))\<rparr>;
            p = snd (plic_set_priority (int irq) prio p);
            p = plic_irq_register core irq (Some Timer_interrupt_handler) (4 * device + c) p;
            p = snd (plic_irq_enable core (int irq) p)
        in (0, t, p))
      else (-1, t, p)))"

definition timer_irq_unregister ::
  "nat \<Rightarrow> nat \<Rightarrow> nat \<Rightarrow> 'cb timer_driver \<times> timer_handler plic \<Rightarrow> int \<times> 'cb timer_driver \<times> timer_handler plic" where
  "timer_irq_unregister core device c s = (case s of (t, p) \<Rightarrow>
     (if device < TIMER_DEVICE_MAX \<and> c < TIMER_CHANNEL_MAX then
       (let t = t\<lparr>instances := (instances t)(device := (instances t device)(c := no_instance))\<rparr>;
            used = (\<lambda>i. in_callback (instances t device i) \<noteq> None);
            p = (if \<not> (used 0 \<or> used 1) \<or> \<not> (used 2 \<or> used 3)
                 then plic_irq_unregister core (get_timer_irqn_by_device_and_channel device c) p else p)
        in (0, t, p))
      else (-1, t, p)))"

subsection \<open>Registration keeps the lines served\<close>

definition irqn :: "nat \<Rightarrow> nat \<Rightarrow> nat" where
  "irqn device c = 14 + 2 * device + c div 2"

lemma irqn_lookup: "device < 3 \<Longrightarrow> c < 4 \<Longrightarrow> get_timer_irqn_by_device_and_channel device c = irqn device c"
  by (auto simp: get_timer_irqn_by_device_and_channel_def irqn_def)

lemma irqn_eq: "device < 3 \<Longrightarrow> c < 4 \<Longrightarrow> device' < 3 \<Longrightarrow> c' < 4 \<Longrightarrow>
   irqn device c = irqn device' c' \<longleftrightarrow> device = device' \<and> c div 2 = c' div 2"
proof -
  assume "c < 4" "c' < 4"
  then have "c div 2 < 2" "c' div 2 < 2" by simp_all
  moreover have "2 * a + u = 2 * b + v \<longleftrightarrow> a = b \<and> u = v" if "u < 2" "v < 2" for a b u v :: nat
    using that by presburger
  ultimately show ?thesis by (simp add: irqn_def)
qed

text \<open>Every channel with a callback has its line routed to an instance of the same device and the same half.\<close>

definition line_serves :: "nat \<Rightarrow> 'cb timer_driver \<times> timer_handler plic \<Rightarrow> nat \<Rightarrow> nat \<Rightarrow> bool" where
  "line_serves core s device i \<longleftrightarrow> (case s of (t, p) \<Rightarrow>
     irq_enabled core p (irqn device i) \<and>
     (\<exists>j < 4. irq_handler core p (irqn device i) = (Some Timer_interrupt_handler, 4 * device + j) \<and> j div 2 = i div 2 \<and>
        in_device (instances t device j) = device \<and> in_channel (instances t device j) = j))"

lemma line_serves_iff:
  "line_serves core (t, p) device i \<longleftrightarrow>
     irq_enabled core p (irqn device i) \<and>
     (\<exists>j < 4. irq_handler core p (irqn device i) = (Some Timer_interrupt_handler, 4 * device + j) \<and> j div 2 = i div 2 \<and>
        in_device (instances t device j) = device \<and> in_channel (instances t device j) = j)"
  by (simp add: line_serves_def)

definition lines_served :: "nat \<Rightarrow> 'cb timer_driver \<times> timer_handler plic \<Rightarrow> bool" where
  "lines_served core s \<longleftrightarrow> (case s of (t, p) \<Rightarrow>
     plic_wf p \<and>
     (\<forall>device < 3. \<forall>i < 4. in_callback (instances t device i) \<noteq> None \<longrightarrow> line_serves core s device i))"

lemma register_line:
  assumes "plic_wf p" "device < 3" "c < 4" and "timer_irq_register core device c single prio cb ctx (t, p) = (rc, t', p')"
  shows "rc = 0" "plic_wf p'"
    "irq_enabled core p' = (irq_enabled core p)(irqn device c := True)"
    "irq_handler core p' = (irq_handler core p)(irqn device c := (Some Timer_interrupt_handler, 4 * device + c))"
    "instances t' = (instances t)(device := (instances t device)(c :=
       \<lparr>in_device = device, in_channel = c, in_callback = cb, in_ctx = ctx, in_single_shot = single\<rparr>))"
proof -
  have n: "irqn device c < 66" using assms(2,3) by (auto simp: irqn_def)
  have p': "p' = snd (plic_irq_enable core (int (irqn device c))
       (plic_irq_register core (irqn device c) (Some Timer_interrupt_handler) (4 * device + c)
         (snd (plic_set_priority (int (irqn device c)) prio p))))"
    using assms(2-) by (auto simp: timer_irq_register_def irqn_lookup Let_def)
  show "plic_wf p'" "irq_enabled core p' = (irq_enabled core p)(irqn device c := True)"
    "irq_handler core p' = (irq_handler core p)(irqn device c := (Some Timer_interrupt_handler, 4 * device + c))"
    unfolding p' by (rule plic.arm [OF assms(1) n])+
  show "rc = 0" "instances t' = (instances t)(device := (instances t device)(c :=
       \<lparr>in_device = device, in_channel = c, in_callback = cb, in_ctx = ctx, in_single_shot = single\<rparr>))"
    using assms(2-) by (auto simp: timer_irq_register_def Let_def)
qed

lemma register_serves:
  assumes "lines_served core s"
  shows "lines_served core (snd (timer_irq_register core device c single prio cb ctx s))"
proof (cases "device < 3 \<and> c < 4")
  case False
  then show ?thesis using assms by (cases s) (auto simp: timer_irq_register_def)
next
  case True
  obtain t p where s: "s = (t, p)" by fastforce
  obtain rc t' p' where r: "timer_irq_register core device c single prio cb ctx (t, p) = (rc, t', p')" by (metis prod_cases3)
  have wf: "plic_wf p" using assms by (simp add: s lines_served_def)
  have dc: "device < 3" "c < 4" using True by auto
  note k = register_line [OF wf dc r]
  have "line_serves core (t', p') d i" if di: "d < 3" "i < 4" "in_callback (instances t' d i) \<noteq> None" for d i
  proof (cases "irqn d i = irqn device c")
    case same: True
    then have e: "d = device" "c div 2 = i div 2" using irqn_eq [of d i device c] di True by auto
    show ?thesis
      unfolding line_serves_iff using k dc same e by (intro conjI exI [of _ c]) simp_all
  next
    case False
    then have ne: "\<not> (d = device \<and> i div 2 = c div 2)" using irqn_eq [of d i device c] di True by auto
    then have keep: "instances t' d j = instances t d j" if "j div 2 = i div 2" for j
      using that k True by auto
    have "line_serves core (t, p) d i"
      using assms di keep [of i] by (auto simp: s lines_served_def)
    then show ?thesis
      unfolding line_serves_iff using k(3,4) False keep by auto
  qed
  then show ?thesis
    using k True by (simp add: s r lines_served_def)
qed

text \<open>What the handler does for one channel.\<close>

definition serve_channel ::
  "('cb \<Rightarrow> nat \<Rightarrow> 'cb timer_driver \<Rightarrow> 'cb timer_driver) \<Rightarrow> nat \<Rightarrow> u32 \<Rightarrow> nat \<Rightarrow> 'cb timer_driver \<Rightarrow> 'cb timer_driver" where
  "serve_channel run device stat i s =
     (if \<not> bit stat i then s
      else ack device i
        (case in_callback (instances s device i) of
           None \<Rightarrow> s
         | Some cb \<Rightarrow>
             (let s = run cb (in_ctx (instances s device i)) s
              in if in_single_shot (instances s device i) then timer_set_enable device i 0 s else s)))"

lemma and_one_drop_bit: "(drop_bit i stat AND 1 \<noteq> 0) = bit (stat :: u32) i"
  by (simp add: bit_iff_odd_drop_bit and_one_eq odd_iff_mod_2_eq_one)

lemma handler_pair:
  "handler_loop run device [i..<i + 2] (drop_bit i stat) s = serve_channel run device stat (i + 1) (serve_channel run device stat i s)"
proof -
  have "[i..<i + 2] = [i, i + 1]" by (simp add: upt_rec)
  moreover have "drop_bit 1 (drop_bit i stat) = drop_bit (i + 1) stat" by simp
  ultimately show ?thesis
    by (simp only: handler_loop.simps and_one_drop_bit Let_def serve_channel_def if_distrib [of "ack _ _"] if_not_P not_not) (simp)
qed

lemma handler_serves_pair:
  assumes "j < 4" "j div 2 = i div 2" "in_device (instances t device j) = device" "in_channel (instances t device j) = j"
  shows "timer_interrupt_handler run (4 * device + j) t =
      (let stat = intr_stat (timer t device); first = 2 * (i div 2)
       in serve_channel run device stat (first + 1) (serve_channel run device stat first t))"
proof -
  have a: "(4 * device + j) div 4 = device" "(4 * device + j) mod 4 = j" using assms(1) by auto
  show ?thesis
    unfolding timer_interrupt_handler_def a Let_def assms(3,4) assms(2) mult.commute [of "i div 2" 2]
    by (rule handler_pair)
qed

text \<open>A driver after start-up, for the examples.\<close>

definition timer_blank :: "'cb timer_driver" where
  "timer_blank = \<lparr>
     timer = (\<lambda>_. \<lparr>channel = (\<lambda>_. \<lparr>load_count = 0, current_value = 0, control = 0, ch_intr_stat = 0\<rparr>),
                  intr_stat = 0, raw_intr_stat = 0, load_count2 = (\<lambda>_. 0), acks = []\<rparr>),
     instances = (\<lambda>_ _. no_instance), time_irq = (\<lambda>_ _. None)\<rparr>"

subsection \<open>Properties\<close>

text \<open>After any sequence of registrations on any devices and channels, the interrupt line of every channel
  with a callback is enabled and leads to a run of the handler that serves exactly the two
  channels of that line: for each whose status bit is set it calls the callback, switches a single-shot timer
  off, and acknowledges that channel alone.\<close>

lemma timer_lines_lead_to_callbacks:
  fixes core :: nat and p :: "timer_handler plic" and rs :: "(nat \<times> nat \<times> bool \<times> u32 \<times> 'cb option \<times> nat) list"
  assumes "plic_wf p" and "device < 3" "i < 4"
  defines "s \<equiv> fold (\<lambda>(device, c, single, prio, cb, ctx) s. snd (timer_irq_register core device c single prio cb ctx s))
                 rs (timer_blank, p)"
  shows "in_callback (instances (fst s) device i) = None \<or>
    irq_enabled core (snd s) (irqn device i) \<and>
    (case irq_handler core (snd s) (irqn device i) of (h, ctx) \<Rightarrow>
       h = Some Timer_interrupt_handler \<and>
       timer_interrupt_handler run ctx (fst s) =
         (let stat = intr_stat (timer (fst s) device); first = 2 * (i div 2)
          in serve_channel run device stat (first + 1) (serve_channel run device stat first (fst s))))"
proof -
  have served: "lines_served core s"
    unfolding s_def
  proof (induction rs rule: rev_induct)
    case Nil
    then show ?case using assms(1) by (simp add: lines_served_def timer_blank_def no_instance_def)
  next
    case (snoc r rs)
    then show ?case by (simp add: register_serves case_prod_unfold)
  qed
  show ?thesis
  proof (cases "in_callback (instances (fst s) device i)")
    case (Some f)
    then have "line_serves core (fst s, snd s) device i"
      using served assms(2,3) by (simp add: lines_served_def case_prod_unfold)
    then show ?thesis
      unfolding line_serves_iff using handler_serves_pair by fastforce
  qed simp
qed

lemma timer_lines_lead_to_callbacks_witness:
  "irq_enabled 0 (snd (fold (\<lambda>(device, c, single, prio, cb, ctx) s. snd (timer_irq_register 0 device c single prio cb ctx s))
     [(2, 3, True, 1, Some (7 :: nat), 5)] (timer_blank, plic_blank))) 19"
  using timer_lines_lead_to_callbacks [OF plic_blank_wf, of 2 3 0 "[(2, 3, True, 1, Some (7 :: nat), 5)]"]
  by (simp add: timer_irq_register_def irqn_def Let_def)

text \<open>Unregistering a channel cuts off its neighbour.  With callbacks registered for the channels 0 and 1 of
  a device whose channels 2 and 3 are unused, unregistering channel 1 takes the handler off the line both
  share: the callback of channel 0 stays registered and its line enabled, but an interrupt of channel 0 finds
  no handler.\<close>

lemma timer_unregister_cuts_sibling:
  fixes t :: "'cb timer_driver" and core xa xb :: nat and f g :: 'cb and pa pb :: u32 and sa sb :: bool
  assumes "plic_wf p" "device < 3"
    and "in_callback (instances t device 2) = None" "in_callback (instances t device 3) = None"
  defines "s \<equiv> snd (timer_irq_register core device 1 sb pb (Some g) xb
                 (snd (timer_irq_register core device 0 sa pa (Some f) xa (t, p))))"
  shows "(case timer_irq_unregister core device 1 s of (rc, t', p') \<Rightarrow>
      rc = 0 \<and> in_callback (instances t' device 0) = Some f \<and>
      irq_enabled core p' (irqn device 0) \<and> irq_handler core p' (irqn device 0) = (None, 0))"
proof -
  obtain rc1 t1 p1 where r1: "timer_irq_register core device 0 sa pa (Some f) xa (t, p) = (rc1, t1, p1)"
    by (metis prod_cases3)
  note k1 = register_line [OF assms(1,2) _ r1]
  obtain rc2 t2 p2 where r2: "timer_irq_register core device 1 sb pb (Some g) xb (t1, p1) = (rc2, t2, p2)"
    by (metis prod_cases3)
  note k2 = register_line [OF k1(2) assms(2) _ r2]
  have s: "s = (t2, p2)" by (simp add: s_def r1 r2 del: One_nat_def)
  have i: "irqn device 0 = irqn device 1" "irqn device 1 < 66" using assms(2) by (auto simp: irqn_def)
  have u: "irq_handler core (plic_irq_unregister core (irqn device 1) p2) (irqn device 1) = (None, 0)"
    "irq_enabled core (plic_irq_unregister core (irqn device 1) p2) = irq_enabled core p2"
    using plic.handler_register [of p2 "irqn device 1" core None 0] plic.enabled_register [of core "irqn device 1" None 0 p2]
      k2(2) i(2) by (simp_all add: plic_irq_unregister_def)
  show ?thesis
    using k1 k2 assms(2-4) u i by (simp add: s timer_irq_unregister_def irqn_lookup no_instance_def Let_def)
qed

lemma timer_unregister_cuts_sibling_witness:
  "(case timer_irq_unregister 0 1 1 (snd (timer_irq_register 0 1 1 False 1 (Some True) 0
       (snd (timer_irq_register 0 1 0 False 1 (Some False) 0 (timer_blank, plic_blank))))) of (rc, t', p') \<Rightarrow>
      in_callback (instances t' 1 0) = Some False \<and> irq_handler 0 p' 16 = (None, 0))"
  using timer_unregister_cuts_sibling [OF plic_blank_wf, where device = 1 and t = timer_blank and core = 0
      and sa = False and sb = False and pa = 1 and pb = 1 and f = False and g = True and xa = 0 and xb = 0]
  by (simp add: timer_blank_def no_instance_def irqn_def case_prod_unfold)

end
