(* ===== verification/Flash.thy ===== *)
theory Flash
  imports Sysctl_Freq
begin

text \<open>
  The SPI flash driver \<open>drivers/flash/flash.c\<close>.  It programs the SPI controller directly; a transaction is
  what happens while the chip is selected: command words, then data out or data in.  \<open>bus\<close> is the list of transactions
  so far, each with the controller setting it ran under.  What the hardware answers is input:
  \<open>flr\<close> are the FIFO levels the driver will read, \<open>sr\<close> the status words, \<open>rxd\<close> the bytes the FIFO
  delivers.  \<open>None\<close>: the inputs are used up, the driver is still waiting.  A transfer length is the
  length of its list; status results that can only be \<open>FLASH_OK\<close> are left out.
\<close>

definition flash_FLASH_PAGE_SIZE :: u32 where "flash_FLASH_PAGE_SIZE = 256"
definition SPI_SLAVE_SELECT :: u32 where "SPI_SLAVE_SELECT = 1"

definition WRITE_ENABLE :: u8 where "WRITE_ENABLE = 0x06"
definition READ_REG1 :: u8 where "READ_REG1 = 0x05"
definition READ_REG2 :: u8 where "READ_REG2 = 0x35"
definition WRITE_REG :: u8 where "WRITE_REG = 0x01"
definition PAGE_PROGRAM :: u8 where "PAGE_PROGRAM = 0x02"
definition QUAD_PAGE_PROGRAM :: u32 where "QUAD_PAGE_PROGRAM = 0x32"
definition SECTOR_ERASE :: u8 where "SECTOR_ERASE = 0x20"
definition BLOCK_32K_ERASE :: u8 where "BLOCK_32K_ERASE = 0x52"
definition BLOCK_64K_ERASE :: u8 where "BLOCK_64K_ERASE = 0xD8"
definition CHIP_ERASE :: u8 where "CHIP_ERASE = 0x60"
definition READ_ID :: u8 where "READ_ID = 0x90"
definition READ_JEDEC_ID :: u8 where "READ_JEDEC_ID = 0x9F"
definition READ_UNIQUE :: u8 where "READ_UNIQUE = 0x4B"
definition FAST_READ_QUAL_OUTPUT :: u32 where "FAST_READ_QUAL_OUTPUT = 0x6B"
definition FAST_READ_QUAL_IO :: u32 where "FAST_READ_QUAL_IO = 0xEB"
definition REG1_BUSY_MASK :: u8 where "REG1_BUSY_MASK = 0x01"
definition REG2_QUAL_MASK :: u8 where "REG2_QUAL_MASK = 0x02"

record xfer =
  x_ctrlr0 :: u32
  x_spi_ctrlr0 :: u32
  x_ctrlr1 :: u32
  x_cmd :: "u32 list"
  x_tx :: "u8 list"
  x_rx :: "u8 list"

datatype flash_status = FLASH_OK | FLASH_BUSY
datatype flash_read_mode = FLASH_STANDARD | FLASH_STANDARD_FAST | FLASH_DUAL | FLASH_DUAL_SINGLE | FLASH_QUAD | FLASH_QUAD_SINGLE

record flash =
  ctrlr0 :: u32
  ctrlr1 :: u32
  spi_ctrlr0 :: u32
  baudr :: u32
  imr :: u32
  ser :: u32
  ssienr :: u32
  flr :: "nat list"
  sr :: "u32 list"
  rxd :: "u8 list"
  bus :: "xfer list"
  dfs_offset :: nat
  tmod_offset :: nat
  frf_offset :: nat
  quad :: bool

text \<open>The two loops over the FIFO: 32 entries deep, filled or emptied by what fits at each look.\<close>

fun push_fifo :: "nat list \<Rightarrow> u8 list \<Rightarrow> (u8 list \<times> nat list) option" where
  "push_fifo ls [] = Some ([], ls)"
| "push_fifo [] (x # xs) = None"
| "push_fifo (l # ls) (x # xs) =
     (let data = x # xs; fifo_len = 32 - l; n = (if fifo_len < length data then fifo_len else length data)
      in case push_fifo ls (drop n data) of None \<Rightarrow> None | Some (out, ls) \<Rightarrow> Some (take n data @ out, ls))"

fun pull_fifo :: "nat list \<Rightarrow> u8 list \<Rightarrow> nat \<Rightarrow> (u8 list \<times> nat list \<times> u8 list) option" where
  "pull_fifo ls ds 0 = Some ([], ls, ds)"
| "pull_fifo [] ds (Suc k) = None"
| "pull_fifo (l # ls) ds (Suc k) =
     (let n = (if l < Suc k then l else Suc k)
      in if length ds < n then None
         else case pull_fifo ls (drop n ds) (Suc k - n) of
           None \<Rightarrow> None | Some (inp, ls', ds') \<Rightarrow> Some (take n ds @ inp, ls', ds'))"

fun wait_idle :: "u32 list \<Rightarrow> u32 list option" where
  "wait_idle [] = None"
| "wait_idle (v # vs) = (if v AND 0x05 \<noteq> 0x04 then wait_idle vs else Some vs)"

text \<open>The first fill comes before the chip is selected, whatever there is to send.\<close>

definition send_payload :: "nat list \<Rightarrow> u8 list \<Rightarrow> (u8 list \<times> nat list) option" where
  "send_payload ls data =
     (case ls of [] \<Rightarrow> None
      | l # ls \<Rightarrow>
         (let fifo_len = 32 - l; n = (if fifo_len < length data then fifo_len else length data)
          in case push_fifo ls (drop n data) of None \<Rightarrow> None | Some (out, ls) \<Rightarrow> Some (take n data @ out, ls)))"

subsection \<open>Transactions\<close>

definition log_xfer :: "u32 list \<Rightarrow> u8 list \<Rightarrow> u8 list \<Rightarrow> flash \<Rightarrow> flash" where
  "log_xfer cmd tx rx s = s\<lparr>bus := bus s @ [\<lparr>x_ctrlr0 = ctrlr0 s, x_spi_ctrlr0 = spi_ctrlr0 s, x_ctrlr1 = ctrlr1 s,
     x_cmd = cmd, x_tx = tx, x_rx = rx\<rparr>]\<rparr>"

definition receive_words :: "u32 list \<Rightarrow> nat \<Rightarrow> flash \<Rightarrow> (u8 list \<times> flash) option" where
  "receive_words cmd rx_len s =
     (let s = s\<lparr>ctrlr1 := word_of_nat rx_len - 1, ssienr := 1, ser := SPI_SLAVE_SELECT\<rparr> in
      case pull_fifo (flr s) (rxd s) rx_len of
        None \<Rightarrow> None
      | Some (rx, ls, ds) \<Rightarrow> Some (rx, log_xfer cmd [] rx (s\<lparr>flr := ls, rxd := ds, ser := 0, ssienr := 0\<rparr>)))"

definition send_words :: "u32 list \<Rightarrow> u8 list \<Rightarrow> flash \<Rightarrow> flash option" where
  "send_words cmd tx s =
     (let s = s\<lparr>ssienr := 1\<rparr> in
      case send_payload (flr s) tx of
        None \<Rightarrow> None
      | Some (out, ls) \<Rightarrow>
         (let s = s\<lparr>flr := ls, ser := SPI_SLAVE_SELECT\<rparr> in
          case wait_idle (sr s) of
            None \<Rightarrow> None
          | Some vs \<Rightarrow> Some (log_xfer cmd out [] (s\<lparr>sr := vs, ser := 0, ssienr := 0\<rparr>))))"

definition flash_receive_data :: "u8 list \<Rightarrow> nat \<Rightarrow> flash \<Rightarrow> (u8 list \<times> flash) option" where
  "flash_receive_data cmd rx_len s =
     receive_words (map ucast cmd) rx_len
       (s\<lparr>ctrlr0 := push_bit (dfs_offset s) 0x07 OR push_bit (tmod_offset s) 0x03\<rparr>)"

definition flash_send_data :: "u8 list \<Rightarrow> u8 list \<Rightarrow> flash \<Rightarrow> flash option" where
  "flash_send_data cmd tx s =
     send_words (map ucast cmd) tx
       (s\<lparr>ctrlr0 := push_bit (dfs_offset s) 0x07 OR push_bit (tmod_offset s) 0x01\<rparr>)"

definition flash_receive_data_enhanced :: "u32 list \<Rightarrow> nat \<Rightarrow> flash \<Rightarrow> (u8 list \<times> flash) option" where
  "flash_receive_data_enhanced cmd rx_len s = receive_words cmd rx_len s"

definition flash_send_data_enhanced :: "u32 list \<Rightarrow> u8 list \<Rightarrow> flash \<Rightarrow> flash option" where
  "flash_send_data_enhanced cmd tx s = send_words cmd tx s"

subsection \<open>Commands\<close>

definition flash_init :: "sysctl \<times> flash \<Rightarrow> (sysctl \<times> flash) option" where
  "flash_init s = (case s of (sy, f) \<Rightarrow>
     (let sy = sysctl_reset SYSCTL_RESET_SPI3 sy;
          sy = snd (sysctl_clock_enable SYSCTL_CLOCK_SPI3 sy);
          sy = snd (sysctl_clock_set_threshold SYSCTL_THRESHOLD_SPI3 0 sy);
          f = f\<lparr>dfs_offset := 0, tmod_offset := 10, frf_offset := 22, baudr := 2, imr := 0, ser := 0, ssienr := 0,
                quad := False\<rparr>
      in case flash_send_data [0xFF, 0xFF] [] f of None \<Rightarrow> None | Some f \<Rightarrow> Some (sy, f)))"

definition flash_read_id :: "flash \<Rightarrow> (u8 \<times> u8 \<times> flash) option" where
  "flash_read_id s =
     (case flash_receive_data [READ_ID, 0, 0, 0] 2 s of None \<Rightarrow> None
      | Some (data, s) \<Rightarrow> Some (data ! 0, data ! 1, s))"

definition flash_read_jedec_id :: "flash \<Rightarrow> (u8 list \<times> flash) option" where
  "flash_read_jedec_id s = flash_receive_data [READ_JEDEC_ID] 3 s"

definition flash_read_unique :: "flash \<Rightarrow> (u8 list \<times> flash) option" where
  "flash_read_unique s = flash_receive_data [READ_UNIQUE, 0, 0, 0, 0] 8 s"

definition flash_write_enable :: "flash \<Rightarrow> flash option" where
  "flash_write_enable s = flash_send_data [WRITE_ENABLE] [] s"

definition flash_write_status_reg :: "u8 \<Rightarrow> u8 \<Rightarrow> flash \<Rightarrow> flash option" where
  "flash_write_status_reg reg1_data reg2_data s =
     (case flash_write_enable s of None \<Rightarrow> None
      | Some s \<Rightarrow> flash_send_data [WRITE_REG, reg1_data, reg2_data] [] s)"

definition flash_read_status_reg1 :: "flash \<Rightarrow> (u8 \<times> flash) option" where
  "flash_read_status_reg1 s =
     (case flash_receive_data [READ_REG1] 1 s of None \<Rightarrow> None | Some (data, s) \<Rightarrow> Some (data ! 0, s))"

definition flash_read_status_reg2 :: "flash \<Rightarrow> (u8 \<times> flash) option" where
  "flash_read_status_reg2 s =
     (case flash_receive_data [READ_REG2] 1 s of None \<Rightarrow> None | Some (data, s) \<Rightarrow> Some (data ! 0, s))"

definition flash_is_busy :: "flash \<Rightarrow> (flash_status \<times> flash) option" where
  "flash_is_busy s =
     (case flash_read_status_reg1 s of None \<Rightarrow> None
      | Some (status, s) \<Rightarrow> Some (if status AND REG1_BUSY_MASK \<noteq> 0 then FLASH_BUSY else FLASH_OK, s))"

definition addr_cmd :: "u8 \<Rightarrow> u32 \<Rightarrow> u8 list" where
  "addr_cmd c addr = [c, ucast (drop_bit 16 addr), ucast (drop_bit 8 addr), ucast addr]"

definition flash_erase :: "u8 list \<Rightarrow> flash \<Rightarrow> flash option" where
  "flash_erase cmd s = (case flash_write_enable s of None \<Rightarrow> None | Some s \<Rightarrow> flash_send_data cmd [] s)"

definition flash_sector_erase :: "u32 \<Rightarrow> flash \<Rightarrow> flash option" where
  "flash_sector_erase addr = flash_erase (addr_cmd SECTOR_ERASE addr)"

definition flash_32k_block_erase :: "u32 \<Rightarrow> flash \<Rightarrow> flash option" where
  "flash_32k_block_erase addr = flash_erase (addr_cmd BLOCK_32K_ERASE addr)"

definition flash_64k_block_erase :: "u32 \<Rightarrow> flash \<Rightarrow> flash option" where
  "flash_64k_block_erase addr = flash_erase (addr_cmd BLOCK_64K_ERASE addr)"

definition flash_chip_erase :: "flash \<Rightarrow> flash option" where
  "flash_chip_erase = flash_erase [CHIP_ERASE]"

definition flash_enable_quad_mode :: "flash \<Rightarrow> flash option" where
  "flash_enable_quad_mode s =
     (case flash_read_status_reg2 s of None \<Rightarrow> None
      | Some (reg2, s) \<Rightarrow>
         (case (if reg2 AND REG2_QUAL_MASK = 0
                then (case flash_read_status_reg1 s of None \<Rightarrow> None
                      | Some (reg1, s) \<Rightarrow> flash_write_status_reg reg1 (reg2 OR REG2_QUAL_MASK) s)
                else Some s) of
            None \<Rightarrow> None | Some s \<Rightarrow> Some (s\<lparr>quad := True\<rparr>)))"

definition flash_disable_quad_mode :: "flash \<Rightarrow> flash option" where
  "flash_disable_quad_mode s =
     (case flash_read_status_reg2 s of None \<Rightarrow> None
      | Some (reg2, s) \<Rightarrow>
         (case (if reg2 AND REG2_QUAL_MASK \<noteq> 0
                then (case flash_read_status_reg1 s of None \<Rightarrow> None
                      | Some (reg1, s) \<Rightarrow> flash_write_status_reg reg1 (reg2 AND NOT REG2_QUAL_MASK) s)
                else Some s) of
            None \<Rightarrow> None | Some s \<Rightarrow> Some (s\<lparr>quad := False\<rparr>)))"

subsection \<open>Every look at the FIFO uses up an answer\<close>

lemma push_fifo_round:
  assumes "push_fifo (l # ls) xs = Some (out, ls')" "xs \<noteq> []"
  obtains n out' where "push_fifo ls (drop n xs) = Some (out', ls')" "out = take n xs @ out'"
  using assms by (cases xs) (auto simp: Let_def split: option.splits simp del: drop_Suc_Cons take_Suc_Cons)

lemma push_fifo_shrinks: "push_fifo ls xs = Some (out, ls') \<Longrightarrow> out = xs \<and> length ls' \<le> length ls"
proof (induction ls arbitrary: xs out)
  case Nil
  then show ?case by (cases xs) auto
next
  case (Cons l ls)
  show ?case
  proof (cases "xs = []")
    case False
    then obtain n out' where "push_fifo ls (drop n xs) = Some (out', ls')" "out = take n xs @ out'"
      using push_fifo_round [OF Cons.prems] by blast
    then show ?thesis using Cons.IH by fastforce
  qed (use Cons.prems in simp)
qed

lemma send_payload_shrinks: "send_payload ls xs = Some (out, ls') \<Longrightarrow> out = xs \<and> length ls' < length ls"
  by (auto simp: send_payload_def Let_def dest!: push_fifo_shrinks split: option.splits list.splits if_splits)

lemma pull_fifo_round:
  assumes "pull_fifo (l # ls) ds n = Some (rx, ls', ds')" "0 < n"
  obtains m inp where "m \<le> n" "m \<le> length ds" "pull_fifo ls (drop m ds) (n - m) = Some (inp, ls', ds')" "rx = take m ds @ inp"
proof (cases n)
  case (Suc k)
  let ?m = "if l < Suc k then l else Suc k"
  have "\<not> length ds < ?m" using assms(1) unfolding Suc pull_fifo.simps Let_def by (auto split: if_splits)
  then obtain inp where "pull_fifo ls (drop ?m ds) (Suc k - ?m) = Some (inp, ls', ds')" "rx = take ?m ds @ inp"
    using assms(1) unfolding Suc pull_fifo.simps Let_def by (simp split: option.splits) auto
  then show thesis using that [of ?m inp] \<open>\<not> length ds < ?m\<close> Suc by simp
qed (use assms(2) in simp)

lemma pull_fifo_shrinks:
  "pull_fifo ls ds n = Some (rx, ls', ds') \<Longrightarrow> length rx = n \<and> rx @ ds' = ds \<and> length ls' \<le> length ls \<and> (0 < n \<longrightarrow> length ls' < length ls)"
proof (induction ls arbitrary: ds n rx)
  case Nil
  then show ?case by (cases n) auto
next
  case (Cons l ls)
  show ?case
  proof (cases "0 < n")
    case True
    then obtain m inp where m: "m \<le> n" "m \<le> length ds" "pull_fifo ls (drop m ds) (n - m) = Some (inp, ls', ds')" "rx = take m ds @ inp"
      using pull_fifo_round [OF Cons.prems] by blast
    from Cons.IH [OF m(3)] m show ?thesis by auto
  qed (use Cons.prems in simp)
qed

lemma receive_words_shrinks:
  assumes "receive_words cmd n s = Some (rx, s')"
  shows "length rx = n" "0 < n \<Longrightarrow> length (flr s') < length (flr s)"
    "bus s' = bus s @ [\<lparr>x_ctrlr0 = ctrlr0 s, x_spi_ctrlr0 = spi_ctrlr0 s, x_ctrlr1 = word_of_nat n - 1,
       x_cmd = cmd, x_tx = [], x_rx = rx\<rparr>]"
    "dfs_offset s' = dfs_offset s" "tmod_offset s' = tmod_offset s" "frf_offset s' = frf_offset s" "quad s' = quad s"
    "rxd s = rx @ rxd s'" "ctrlr0 s' = ctrlr0 s" "spi_ctrlr0 s' = spi_ctrlr0 s"
  using assms by (auto simp: receive_words_def log_xfer_def Let_def dest!: pull_fifo_shrinks split: option.splits)

lemma is_busy_shrinks: "flash_is_busy s = Some (b, s') \<Longrightarrow> length (flr s') < length (flr s)"
  by (auto simp: flash_is_busy_def flash_read_status_reg1_def flash_receive_data_def
      dest!: receive_words_shrinks(2) split: option.splits)

subsection \<open>Programming\<close>

function wait_not_busy :: "flash \<Rightarrow> flash option" where
  "wait_not_busy s =
     (case flash_is_busy s of None \<Rightarrow> None
      | Some (status, s') \<Rightarrow> if status = FLASH_BUSY then wait_not_busy s' else Some s')"
  by pat_completeness auto
termination
  by (relation "measure (\<lambda>s. length (flr s))") (auto dest: is_busy_shrinks)

declare wait_not_busy.simps [simp del]

definition flash_page_program :: "u32 \<Rightarrow> u8 list \<Rightarrow> flash \<Rightarrow> flash option" where
  "flash_page_program addr data s =
     (case flash_write_enable s of None \<Rightarrow> None
      | Some s \<Rightarrow>
         (case flash_send_data (addr_cmd PAGE_PROGRAM addr) data s of None \<Rightarrow> None
          | Some s \<Rightarrow> wait_not_busy s))"

definition flash_quad_page_program :: "u32 \<Rightarrow> u8 list \<Rightarrow> flash \<Rightarrow> flash option" where
  "flash_quad_page_program addr data s =
     (case flash_write_enable s of None \<Rightarrow> None
      | Some s \<Rightarrow>
         (let s = s\<lparr>ctrlr0 := push_bit (tmod_offset s) 0x01 OR push_bit (dfs_offset s) 0x07 OR push_bit (frf_offset s) 0x02,
                    spi_ctrlr0 := push_bit 2 0x06 OR push_bit 8 0x02\<rparr>
          in case flash_send_data_enhanced [QUAD_PAGE_PROGRAM, addr] data s of None \<Rightarrow> None
             | Some s \<Rightarrow> wait_not_busy s))"

text \<open>\<open>flash_page_program_fun\<close> is a function pointer that the quad-mode switches set.\<close>

definition flash_page_program_fun :: "u32 \<Rightarrow> u8 list \<Rightarrow> flash \<Rightarrow> flash option" where
  "flash_page_program_fun addr data s =
     (if quad s then flash_quad_page_program addr data s else flash_page_program addr data s)"

function write_page :: "u32 \<Rightarrow> u8 list \<Rightarrow> flash \<Rightarrow> (u32 \<times> flash) option" where
  "write_page addr data s =
     (if data = [] then Some (addr, s)
      else
       (let len = (if length data > 32 then 32 else length data)
        in case flash_page_program_fun addr (take len data) s of
             None \<Rightarrow> None
           | Some s \<Rightarrow> write_page (addr + word_of_nat len) (drop len data) s))"
  by pat_completeness auto
termination
  by (relation "measure (\<lambda>(addr, data, s). length data)") auto

definition page_remain :: "u32 \<Rightarrow> nat" where
  "page_remain addr = unat (flash_FLASH_PAGE_SIZE - (addr AND (flash_FLASH_PAGE_SIZE - 1)))"

lemma page_remain_eq: "page_remain addr = 256 - unat addr mod 256"
proof -
  have "(0xFF :: u32) = mask 8" by (simp add: mask_eq_exp_minus_1)
  then have "addr AND 0xFF = take_bit 8 addr" by (simp only: take_bit_eq_mask)
  then have u: "unat (addr AND 0xFF) = unat addr mod 256"
    by (simp add: take_bit_eq_mod unat_mod)
  then have "addr AND 0xFF \<le> 256"
    by (simp add: word_le_nat_alt order_less_imp_le)
  then show ?thesis
    using u by (simp add: page_remain_def flash_FLASH_PAGE_SIZE_def unat_sub)
qed

function flash_write_data :: "u32 \<Rightarrow> u8 list \<Rightarrow> flash \<Rightarrow> flash option" where
  "flash_write_data addr data s =
     (if data = [] then Some s
      else
       (let write_len = (if length data < page_remain addr then length data else page_remain addr)
        in case write_page addr (take write_len data) s of
             None \<Rightarrow> None
           | Some (addr, s) \<Rightarrow> flash_write_data addr (drop write_len data) s))"
  by pat_completeness auto
termination
  by (relation "measure (\<lambda>(addr, data, s). length data)") (auto simp: page_remain_eq)

declare write_page.simps [simp del] flash_write_data.simps [simp del]

subsection \<open>Reading\<close>

text \<open>The standard and dual modes are commented out in the source: nothing is read, the buffer stays as it was.\<close>

definition flash_read :: "u32 \<Rightarrow> u8 list \<Rightarrow> nat \<Rightarrow> flash_read_mode \<Rightarrow> flash \<Rightarrow> (u8 list \<times> flash) option" where
  "flash_read addr old len mode s =
     (case mode of
        FLASH_QUAD \<Rightarrow>
          flash_receive_data_enhanced [FAST_READ_QUAL_OUTPUT, addr] len
            (s\<lparr>ctrlr0 := push_bit (tmod_offset s) 0x02 OR push_bit (dfs_offset s) 0x07 OR push_bit (frf_offset s) 0x02,
               spi_ctrlr0 := push_bit 2 0x06 OR push_bit 8 0x02 OR push_bit 11 0x08\<rparr>)
      | FLASH_QUAD_SINGLE \<Rightarrow>
          flash_receive_data_enhanced [FAST_READ_QUAL_IO, push_bit 8 addr] len
            (s\<lparr>ctrlr0 := push_bit (tmod_offset s) 0x02 OR push_bit (dfs_offset s) 0x07 OR push_bit (frf_offset s) 0x02,
               spi_ctrlr0 := push_bit 2 0x08 OR push_bit 8 0x02 OR push_bit 11 0x04 OR 0x01\<rparr>)
      | _ \<Rightarrow> Some (old, s))"

text \<open>The buffer, \<open>old\<close> before the call, is filled in pieces of at most 32 bytes.\<close>

function flash_read_data :: "u32 \<Rightarrow> u8 list \<Rightarrow> flash_read_mode \<Rightarrow> flash \<Rightarrow> (u8 list \<times> flash) option" where
  "flash_read_data addr old mode s =
     (if old = [] then Some ([], s)
      else
       (let len = (if length old > 32 then 32 else length old)
        in case flash_read addr (take len old) len mode s of
             None \<Rightarrow> None
           | Some (buf, s) \<Rightarrow>
               (case flash_read_data (addr + word_of_nat len) (drop len old) mode s of
                  None \<Rightarrow> None | Some (rest, s) \<Rightarrow> Some (buf @ rest, s))))"
  by pat_completeness auto
termination
  by (relation "measure (\<lambda>(addr, old, mode, s). length old)") auto

declare flash_read_data.simps [simp del]

definition flash_stand_read_data :: "u32 \<Rightarrow> u8 list \<Rightarrow> flash \<Rightarrow> (u8 list \<times> flash) option" where
  "flash_stand_read_data addr old s = flash_read_data addr old FLASH_STANDARD_FAST s"

definition flash_quad_read_data :: "u32 \<Rightarrow> u8 list \<Rightarrow> flash \<Rightarrow> (u8 list \<times> flash) option" where
  "flash_quad_read_data addr old s = flash_read_data addr old FLASH_QUAD_SINGLE s"

definition flash_read_fun :: "u32 \<Rightarrow> u8 list \<Rightarrow> flash \<Rightarrow> (u8 list \<times> flash) option" where
  "flash_read_fun addr old s = (if quad s then flash_quad_read_data addr old s else flash_stand_read_data addr old s)"

subsection \<open>What reaches the chip\<close>

type_synonym session = "u32 list \<times> u8 list \<times> u8 list"

definition view :: "flash \<Rightarrow> session list" where
  "view s = map (\<lambda>x. (x_cmd x, x_tx x, x_rx x)) (bus s)"

definition write_enable_xfer :: session where "write_enable_xfer = ([0x06], [], [])"
definition status_xfer :: "u8 \<Rightarrow> session" where "status_xfer b = ([0x05], [], [b])"

definition program_xfer :: "bool \<Rightarrow> u32 \<Rightarrow> u8 list \<Rightarrow> session" where
  "program_xfer q addr data =
     (if q then [0x32, addr] else map ucast (addr_cmd 0x02 addr), data, [])"

text \<open>A list of status bytes that ends the first time the busy bit is clear.\<close>

definition polled :: "u8 list \<Rightarrow> bool" where
  "polled bs \<longleftrightarrow> bs \<noteq> [] \<and> (\<forall>b \<in> set (butlast bs). bit b 0) \<and> \<not> bit (last bs) 0"

definition program_session :: "bool \<Rightarrow> u32 \<times> u8 list \<times> u8 list \<Rightarrow> session list" where
  "program_session q p = (case p of (addr, data, bs) \<Rightarrow>
     write_enable_xfer # program_xfer q addr data # map status_xfer bs)"

text \<open>Consecutive pieces of the data, none empty, none over 32 bytes, none across a page boundary.\<close>

fun pieces :: "u32 \<Rightarrow> u8 list \<Rightarrow> (u32 \<times> u8 list \<times> u8 list) list \<Rightarrow> bool" where
  "pieces addr data [] \<longleftrightarrow> data = []"
| "pieces addr data ((a, d, bs) # ps) \<longleftrightarrow>
     a = addr \<and> d \<noteq> [] \<and> length d \<le> 32 \<and> unat addr mod 256 + length d \<le> 256 \<and> d = take (length d) data \<and>
     polled bs \<and> pieces (addr + word_of_nat (length d)) (drop (length d) data) ps"

lemma send_words_view:
  assumes "send_words cmd tx s = Some s'"
  shows "view s' = view s @ [(cmd, tx, [])]" "quad s' = quad s"
    "dfs_offset s' = dfs_offset s" "tmod_offset s' = tmod_offset s" "frf_offset s' = frf_offset s"
  using assms
  by (auto simp: send_words_def log_xfer_def view_def Let_def dest!: send_payload_shrinks split: option.splits)

lemma send_data_view:
  assumes "flash_send_data cmd tx s = Some s'"
  shows "view s' = view s @ [(map ucast cmd, tx, [])]" "quad s' = quad s"
  using send_words_view [OF assms [unfolded flash_send_data_def]] by (simp_all add: view_def)

lemma write_enable_view:
  "flash_write_enable s = Some s' \<Longrightarrow> view s' = view s @ [write_enable_xfer] \<and> quad s' = quad s"
  by (auto simp: flash_write_enable_def write_enable_xfer_def WRITE_ENABLE_def dest: send_data_view)

lemma is_busy_view:
  assumes "flash_is_busy s = Some (st, s')"
  obtains b where "view s' = view s @ [status_xfer b]" "quad s' = quad s" "st = FLASH_BUSY \<longleftrightarrow> bit b 0"
proof -
  obtain data where d: "receive_words [ucast READ_REG1] 1
       (s\<lparr>ctrlr0 := push_bit (dfs_offset s) 0x07 OR push_bit (tmod_offset s) 0x03\<rparr>) = Some (data, s')"
    "st = (if data ! 0 AND REG1_BUSY_MASK \<noteq> 0 then FLASH_BUSY else FLASH_OK)"
    using assms by (auto simp: flash_is_busy_def flash_read_status_reg1_def flash_receive_data_def split: option.splits)
  have "length data = 1" using receive_words_shrinks(1) [OF d(1)] .
  then have "data = [data ! 0]" by (metis One_nat_def length_0_conv length_Suc_conv nth_Cons_0)
  moreover have "(w AND 1 \<noteq> 0) = bit w 0" for w :: u8
    by (simp add: and_one_eq bit_0 odd_iff_mod_2_eq_one)
  ultimately show thesis
    using that [of "data ! 0"] receive_words_shrinks(3,7) [OF d(1)] d(2)
    by (auto simp: view_def status_xfer_def READ_REG1_def REG1_BUSY_MASK_def)
qed

lemma wait_view:
  "wait_not_busy s = Some s' \<Longrightarrow>
   \<exists>bs. view s' = view s @ map status_xfer bs \<and> quad s' = quad s \<and> polled bs"
proof (induction s rule: wait_not_busy.induct)
  case (1 s)
  from 1(2) obtain st s1 where b: "flash_is_busy s = Some (st, s1)"
    "(if st = FLASH_BUSY then wait_not_busy s1 else Some s1) = Some s'"
    by (subst (asm) wait_not_busy.simps) (auto split: option.splits)
  obtain w where w: "view s1 = view s @ [status_xfer w]" "quad s1 = quad s" "st = FLASH_BUSY \<longleftrightarrow> bit w 0"
    using is_busy_view [OF b(1)] by blast
  show ?case
  proof (cases "st = FLASH_BUSY")
    case True
    then obtain bs where bs: "view s' = view s1 @ map status_xfer bs" "quad s' = quad s1" "polled bs"
      using 1(1) [OF b(1) refl True] b(2) by auto
    then have "polled (w # bs)" using w True by (auto simp: polled_def)
    then show ?thesis using bs w by (intro exI [of _ "w # bs"]) simp
  next
    case False
    then show ?thesis using b(2) w by (intro exI [of _ "[w]"]) (simp add: polled_def)
  qed
qed

lemma page_program_view:
  assumes "flash_page_program_fun addr data s = Some s'"
  shows "\<exists>bs. view s' = view s @ program_session (quad s) (addr, data, bs) \<and> quad s' = quad s \<and> polled bs"
proof -
  obtain s1 where s1: "flash_write_enable s = Some s1"
    using assms by (auto simp: flash_page_program_fun_def flash_page_program_def flash_quad_page_program_def
        split: option.splits if_splits)
  have v1: "view s1 = view s @ [write_enable_xfer]" "quad s1 = quad s" using write_enable_view [OF s1] by auto
  obtain s2 where s2: "view s2 = view s1 @ [program_xfer (quad s) addr data]" "quad s2 = quad s1" "wait_not_busy s2 = Some s'"
  proof (cases "quad s")
    case True
    let ?s = "s1\<lparr>ctrlr0 := push_bit (tmod_offset s1) 0x01 OR push_bit (dfs_offset s1) 0x07 OR push_bit (frf_offset s1) 0x02,
                    spi_ctrlr0 := push_bit 2 0x06 OR push_bit 8 0x02\<rparr>"
    obtain s2 where e: "send_words [QUAD_PAGE_PROGRAM, addr] data ?s = Some s2" "wait_not_busy s2 = Some s'"
      using assms True s1
      by (auto simp: flash_page_program_fun_def flash_quad_page_program_def flash_send_data_enhanced_def Let_def
          split: option.splits)
    show thesis
      using that [of s2] send_words_view(1,2) [OF e(1)] e(2) True
      by (simp add: view_def program_xfer_def QUAD_PAGE_PROGRAM_def)
  next
    case False
    obtain s2 where e: "flash_send_data (addr_cmd PAGE_PROGRAM addr) data s1 = Some s2" "wait_not_busy s2 = Some s'"
      using assms False s1
      by (auto simp: flash_page_program_fun_def flash_page_program_def split: option.splits)
    show thesis
      using that [of s2] send_data_view [OF e(1)] e(2) False
      by (simp add: program_xfer_def PAGE_PROGRAM_def)
  qed
  obtain bs where "view s' = view s2 @ map status_xfer bs" "quad s' = quad s2" "polled bs"
    using wait_view [OF s2(3)] by blast
  then show ?thesis using v1 s2 by (auto simp: program_session_def)
qed

lemma pieces_append:
  "pieces addr d1 ps \<Longrightarrow> pieces (addr + word_of_nat (length d1)) d2 qs \<Longrightarrow> pieces addr (d1 @ d2) (ps @ qs)"
proof (induction ps arbitrary: addr d1)
  case (Cons p ps)
  obtain a d bs where p: "p = (a, d, bs)" by (cases p)
  have c: "a = addr" "d \<noteq> []" "length d \<le> 32" "unat addr mod 256 + length d \<le> 256" "d = take (length d) d1" "polled bs"
    "pieces (addr + word_of_nat (length d)) (drop (length d) d1) ps"
    using Cons.prems(1) unfolding p pieces.simps by blast+
  have l: "length d \<le> length d1" using c(5) by (metis length_take min.cobounded1)
  have s: "addr + word_of_nat (length d) + word_of_nat (length (drop (length d) d1)) = addr + word_of_nat (length d1)"
    using l by (simp add: of_nat_diff)
  have "pieces (addr + word_of_nat (length d)) (drop (length d) d1 @ d2) (ps @ qs)"
    by (rule Cons.IH [OF c(7)]) (use Cons.prems(2) in \<open>simp only: s\<close>)
  then show ?case using c l by (simp add: p)
qed simp

lemma write_page_view:
  assumes "write_page addr data s = Some (addr', s')" "unat addr mod 256 + length data \<le> 256"
  shows "\<exists>ps. view s' = view s @ concat (map (program_session (quad s)) ps) \<and> quad s' = quad s \<and> pieces addr data ps \<and>
    addr' = addr + word_of_nat (length data)"
  using assms
proof (induction addr data s rule: write_page.induct)
  case (1 addr data s)
  show ?case
  proof (cases "data = []")
    case True
    then show ?thesis using 1(2) by (intro exI [of _ "[]"]) (simp add: write_page.simps)
  next
    case False
    define len where "len = (if length data > 32 then 32 else length data)"
    have l: "0 < len" "len \<le> length data" "len \<le> 32" using False by (auto simp: len_def)
    obtain s1 where s1: "flash_page_program_fun addr (take len data) s = Some s1"
      "write_page (addr + word_of_nat len) (drop len data) s1 = Some (addr', s')"
      using 1(2) False by (subst (asm) write_page.simps) (auto simp: len_def Let_def split: option.splits)
    obtain bs where bs: "view s1 = view s @ program_session (quad s) (addr, take len data, bs)" "quad s1 = quad s" "polled bs"
      using page_program_view [OF s1(1)] by blast
    have b: "unat (addr + word_of_nat len) mod 256 + length (drop len data) \<le> 256"
    proof (cases "drop len data = []")
      case True
      then show ?thesis by (simp add: order_less_imp_le)
    next
      case False
      then have "unat addr mod 256 + len < 256" using 1(3) l by simp
      moreover have "unat (addr + word_of_nat len) mod 256 = (unat addr + len) mod 256"
        by (simp add: unat_word_ariths unat_of_nat_mod mod_mod_cancel mod_add_right_eq)
      ultimately have "unat (addr + word_of_nat len) mod 256 = unat addr mod 256 + len"
        by (metis mod_add_left_eq mod_less)
      then show ?thesis using 1(3) l by simp
    qed
    obtain ps where ps: "view s' = view s1 @ concat (map (program_session (quad s1)) ps)" "quad s' = quad s1"
      "pieces (addr + word_of_nat len) (drop len data) ps"
      "addr' = addr + word_of_nat len + word_of_nat (length (drop len data))"
      using 1(1) [OF False len_def s1(1,2) b] by blast
    have "addr' = addr + word_of_nat (length data)" using ps(4) l by (simp add: of_nat_diff)
    moreover have "pieces addr data ((addr, take len data, bs) # ps)"
      using l 1(3) ps(3) bs(3) False by (simp add: min_absorb2)
    ultimately show ?thesis
      using bs ps by (intro exI [of _ "(addr, take len data, bs) # ps"]) simp
  qed
qed

lemma write_data_view:
  assumes "flash_write_data addr data s = Some s'"
  shows "\<exists>ps. view s' = view s @ concat (map (program_session (quad s)) ps) \<and> quad s' = quad s \<and> pieces addr data ps"
  using assms
proof (induction addr data s rule: flash_write_data.induct)
  case (1 addr data s)
  show ?case
  proof (cases "data = []")
    case True
    then show ?thesis using 1(2) by (intro exI [of _ "[]"]) (simp add: flash_write_data.simps)
  next
    case False
    define len where "len = (if length data < page_remain addr then length data else page_remain addr)"
    have l: "len \<le> length data" "unat addr mod 256 + len \<le> 256"
      using page_remain_eq [of addr] by (auto simp: len_def)
    obtain addr' s1 where s1: "write_page addr (take len data) s = Some (addr', s1)"
      "flash_write_data addr' (drop len data) s1 = Some s'"
      using 1(2) False by (subst (asm) flash_write_data.simps) (auto simp: len_def Let_def split: option.splits)
    obtain ps where ps: "view s1 = view s @ concat (map (program_session (quad s)) ps)" "quad s1 = quad s"
      "pieces addr (take len data) ps" "addr' = addr + word_of_nat (length (take len data))"
      using write_page_view [OF s1(1)] l by auto
    obtain qs where qs: "view s' = view s1 @ concat (map (program_session (quad s1)) qs)" "quad s' = quad s1"
      "pieces addr' (drop len data) qs"
      using 1(1) [OF False len_def s1(1) refl s1(2)] by blast
    have "pieces addr (take len data @ drop len data) (ps @ qs)"
      by (rule pieces_append [OF ps(3)]) (use qs(3) ps(4) in simp)
    then show ?thesis
      using ps qs by (intro exI [of _ "ps @ qs"]) simp
  qed
qed

subsection \<open>The driver returns when the hardware answers\<close>

text \<open>
  Hardware that always answers: one entry in the FIFO at every look, the controller idle, the chip not
  busy.  \<open>k\<close> such answers are left in each input.
\<close>

definition answering :: "nat \<Rightarrow> flash \<Rightarrow> bool" where
  "answering k s \<longleftrightarrow> (\<exists>a b c. k \<le> a \<and> k \<le> b \<and> k \<le> c \<and>
     flr s = replicate a 1 \<and> sr s = replicate b 0x04 \<and> rxd s = replicate c 0)"

lemma answeringD:
  assumes "answering (Suc k) s"
  obtains a b c where "k \<le> a" "k \<le> b" "k \<le> c" "flr s = 1 # replicate a 1" "sr s = 0x04 # replicate b 0x04" "rxd s = 0 # replicate c 0"
proof -
  obtain a b c where "Suc k \<le> a" "Suc k \<le> b" "Suc k \<le> c" "flr s = replicate a 1" "sr s = replicate b 0x04" "rxd s = replicate c 0"
    using assms by (auto simp: answering_def)
  then show thesis using that [of "a - 1" "b - 1" "c - 1"] by (cases a; cases b; cases c) auto
qed

lemma answering_mono: "answering k s \<Longrightarrow> j \<le> k \<Longrightarrow> answering j s"
  by (auto simp: answering_def intro: order_trans)

lemma answeringI:
  "flr s = replicate a 1 \<Longrightarrow> sr s = replicate b 0x04 \<Longrightarrow> rxd s = replicate c 0 \<Longrightarrow> k \<le> a \<Longrightarrow> k \<le> b \<Longrightarrow> k \<le> c \<Longrightarrow> answering k s"
  by (auto simp: answering_def)

lemma send_words_answers:
  assumes "answering (Suc (Suc k)) s" "length tx \<le> 32"
  shows "\<exists>s'. send_words cmd tx s = Some s' \<and> answering k s'"
proof -
  obtain a b c where h: "Suc k \<le> a" "Suc k \<le> b" "Suc k \<le> c" "flr s = 1 # replicate a 1" "sr s = 0x04 # replicate b 0x04"
    "rxd s = 0 # replicate c 0"
    using assms(1) by (rule answeringD)
  obtain a' where a': "a = Suc a'" "k \<le> a'" using h(1) by (cases a) auto
  have "\<exists>ls. send_payload (flr s) tx = Some (tx, ls) \<and> (\<exists>n \<ge> k. ls = replicate n 1)"
  proof (cases "length tx \<le> 31")
    case True
    have "send_payload (flr s) tx = Some (tx, replicate a 1)"
      using True by (simp add: send_payload_def h(4) Let_def)
    then show ?thesis using h(1) by (metis Suc_leD)
  next
    case False
    obtain d where d: "d = drop 31 tx" by blast
    then have "length d = Suc 0" using False assms(2) by simp
    then obtain x where "d = [x]" by (auto simp: length_Suc_conv)
    then have x: "drop 31 tx = [x]" using d by simp
    have "push_fifo (replicate a 1) [x] = Some ([x], replicate a' 1)"
      by (simp add: a' Let_def)
    then have "send_payload (flr s) tx = Some (take 31 tx @ [x], replicate a' 1)"
      using False by (simp add: send_payload_def h(4) Let_def x)
    moreover have "take 31 tx @ [x] = tx" using x by (metis append_take_drop_id)
    ultimately show ?thesis using a'(2) by metis
  qed
  then obtain ls n where p: "send_payload (flr s) tx = Some (tx, ls)" "k \<le> n" "ls = replicate n 1" by blast
  show ?thesis
    using p h
    by (auto simp: send_words_def log_xfer_def Let_def intro!: answeringI [where a = n and b = b and c = "Suc c"])
qed

lemma send_data_answers:
  assumes "answering (Suc (Suc k)) s" "length tx \<le> 32"
  shows "\<exists>s'. flash_send_data cmd tx s = Some s' \<and> answering k s'"
  unfolding flash_send_data_def by (rule send_words_answers) (use assms in \<open>auto simp: answering_def\<close>)

lemma wait_answers:
  assumes "answering (Suc k) s"
  shows "\<exists>s'. wait_not_busy s = Some s' \<and> answering k s'"
proof -
  obtain a b c where h: "k \<le> a" "k \<le> b" "k \<le> c" "flr s = 1 # replicate a 1" "sr s = 0x04 # replicate b 0x04"
    "rxd s = 0 # replicate c 0"
    using assms by (rule answeringD)
  let ?s = "s\<lparr>ctrlr0 := push_bit (dfs_offset s) 0x07 OR push_bit (tmod_offset s) 0x03\<rparr>"
  have "\<exists>s'. receive_words [ucast READ_REG1] 1 ?s = Some ([0], s') \<and> flr s' = replicate a 1 \<and>
      sr s' = replicate (Suc b) 0x04 \<and> rxd s' = replicate c 0"
    using h by (simp add: receive_words_def log_xfer_def Let_def numeral_eq_Suc)
  then obtain s' where r: "receive_words [ucast READ_REG1] 1 ?s = Some ([0], s')" "flr s' = replicate a 1"
    "sr s' = replicate (Suc b) 0x04" "rxd s' = replicate c 0" by blast
  have "answering k s'" by (rule answeringI [OF r(2-4)]) (use h in simp_all)
  have "flash_is_busy s = Some (FLASH_OK, s')"
    using r(1) by (simp add: flash_is_busy_def flash_read_status_reg1_def flash_receive_data_def)
  then have "wait_not_busy s = Some s'" by (subst wait_not_busy.simps) simp
  then show ?thesis using \<open>answering k s'\<close> by blast
qed

lemma page_program_answers:
  assumes "answering (k + 5) s" "length data \<le> 32"
  shows "\<exists>s'. flash_page_program_fun addr data s = Some s' \<and> answering k s'"
proof -
  have a5: "answering (Suc (Suc (k + 3))) s" using assms(1) by (simp add: eval_nat_numeral)
  obtain s1 where s1: "flash_write_enable s = Some s1" "answering (k + 3) s1"
    using send_data_answers [OF a5, of "[]" "[WRITE_ENABLE]"] by (auto simp: flash_write_enable_def)
  have a3: "answering (Suc (Suc (Suc k))) s1" using s1(2) by (simp add: eval_nat_numeral)
  let ?s = "s1\<lparr>ctrlr0 := push_bit (tmod_offset s1) 0x01 OR push_bit (dfs_offset s1) 0x07 OR push_bit (frf_offset s1) 0x02,
                    spi_ctrlr0 := push_bit 2 0x06 OR push_bit 8 0x02\<rparr>"
  have q: "answering (Suc (Suc (Suc k))) ?s" using a3 by (simp add: answering_def)
  obtain s2 s3 where s23: "flash_send_data (addr_cmd PAGE_PROGRAM addr) data s1 = Some s2" "answering (Suc k) s2"
    "send_words [QUAD_PAGE_PROGRAM, addr] data ?s = Some s3" "answering (Suc k) s3"
    using send_data_answers [OF a3 assms(2)] send_words_answers [OF q assms(2)] by metis
  show ?thesis
    using s1(1) s23(1,3) wait_answers [OF s23(2)] wait_answers [OF s23(4)]
    by (simp add: flash_page_program_fun_def flash_page_program_def flash_quad_page_program_def flash_send_data_enhanced_def Let_def)
qed

lemma write_page_answers:
  "answering (k + 5 * length data) s \<Longrightarrow> \<exists>addr' s'. write_page addr data s = Some (addr', s') \<and> answering k s'"
proof (induction addr data s rule: write_page.induct)
  case (1 addr data s)
  show ?case
  proof (cases "data = []")
    case True
    then show ?thesis using 1(2) by (simp add: write_page.simps)
  next
    case False
    define len where "len = (if length data > 32 then 32 else length data)"
    have l: "0 < len" "len \<le> length data" "len \<le> 32" using False by (auto simp: len_def)
    have "answering (k + 5 * length (drop len data) + 5) s"
      by (rule answering_mono [OF 1(2)]) (use l in simp)
    then obtain s1 where s1: "flash_page_program_fun addr (take len data) s = Some s1"
      "answering (k + 5 * length (drop len data)) s1"
      using page_program_answers [of "k + 5 * length (drop len data)" s "take len data"] l by auto
    show ?thesis
      using 1(1) [OF False len_def s1(1,2)] s1(1) False
      by (subst write_page.simps) (simp add: len_def Let_def)
  qed
qed

lemma write_data_answers:
  "answering (5 * length data) s \<Longrightarrow> \<exists>s'. flash_write_data addr data s = Some s'"
proof (induction addr data s rule: flash_write_data.induct)
  case (1 addr data s)
  show ?case
  proof (cases "data = []")
    case True
    then show ?thesis by (simp add: flash_write_data.simps)
  next
    case False
    define len where "len = (if length data < page_remain addr then length data else page_remain addr)"
    have l: "len \<le> length data" by (simp add: len_def)
    have "answering (5 * length (drop len data) + 5 * length (take len data)) s"
      by (rule answering_mono [OF 1(2)]) (use l in simp)
    from write_page_answers [OF this] obtain addr' s1 where
      s1: "write_page addr (take len data) s = Some (addr', s1)" "answering (5 * length (drop len data)) s1" by blast
    show ?thesis
      using 1(1) [OF False len_def s1(1) refl s1(2)] s1(1) False
      by (subst flash_write_data.simps) (simp add: len_def Let_def)
  qed
qed

subsection \<open>Properties\<close>

text \<open>C18.  Writing to the flash.  Whatever the hardware answers, a write that returns has sent the data in
  consecutive pieces, each at the address where the one before ended, at most 32 bytes and inside one page of
  256, each announced by a write-enable command and followed by status reads until the chip was not
  busy; nothing else was sent.  And it does return when the hardware answers: five looks at
  each of the FIFO, the controller and the chip are enough per byte.\<close>

theorem flash_write_in_pages:
  fixes addr :: u32 and data :: "u8 list"
  shows "(case flash_write_data addr data s of
       None \<Rightarrow> \<not> answering (5 * length data) s
     | Some s' \<Rightarrow> \<exists>ps. view s' = view s @ concat (map (program_session (quad s)) ps) \<and> pieces addr data ps)"
proof (cases "flash_write_data addr data s")
  case None
  then show ?thesis using write_data_answers [of data s addr] by auto
next
  case (Some s')
  then show ?thesis using write_data_view [OF Some] by auto
qed

text \<open>Reading in the modes the driver selects by default does nothing.  After initialisation, and again after
  leaving quad mode, \<open>flash_read_fun\<close> reads in mode \<open>FLASH_STANDARD_FAST\<close>, whose code is commented out: the call
  succeeds, sends nothing to the chip and leaves the buffer as it was.  The same holds for the other
  modes but the two quad ones.\<close>

lemma flash_standard_read_reads_nothing:
  fixes addr :: u32 and old :: "u8 list"
  shows "(if mode = FLASH_QUAD \<or> mode = FLASH_QUAD_SINGLE then True else flash_read_data addr old mode s = Some (old, s)) \<and>
    (case flash_init (sy, s) of None \<Rightarrow> True | Some (sy', s') \<Rightarrow> flash_read_fun addr old s' = Some (old, s'))"
proof -
  have r: "flash_read_data addr old mode s = Some (old, s)" if "\<not> (mode = FLASH_QUAD \<or> mode = FLASH_QUAD_SINGLE)" for mode s
    using that
  proof (induction addr old mode s rule: flash_read_data.induct)
    case (1 addr old mode s)
    show ?case
    proof (cases "old = []")
      case True
      then show ?thesis by (simp add: flash_read_data.simps)
    next
      case False
      define len where "len = (if length old > 32 then 32 else length old)"
      have f: "flash_read addr (take len old) len mode s = Some (take len old, s)"
        using 1(2) by (simp add: flash_read_def split: flash_read_mode.splits)
      show ?thesis
        using 1(1) [OF False len_def f refl 1(2)] f False
        by (subst flash_read_data.simps) (simp add: len_def Let_def)
    qed
  qed
  have "quad s' = False" if "flash_init (sy, s) = Some (sy', s')" for sy' s'
    using that by (auto simp: flash_init_def Let_def dest!: send_data_view(2) split: option.splits)
  then show ?thesis
    using r by (auto simp: flash_read_fun_def flash_stand_read_data_def split: option.splits)
qed

end
