(* ===== verification/Printf.thy ===== *)
theory Printf
  imports K210_Prelude "HOL-Library.While_Combinator"
begin

text \<open>
  The formatted output of \<open>lib/bsp/printf.c\<close>: the conversion of numbers, the parsing of directives, padding, and the
  bounded and unbounded string sinks.  A C string is the list of its characters up to the terminating NUL (a NUL
  inside a list ends it too), a buffer that is written is a function from offsets to characters.  The sink \<open>putf\<close> is a
  parameter that acts on a state of its own.  The arguments of a call are a list: an integer or pointer in
  its 64-bit slot, or the string a \<open>char *\<close> points to; \<open>None\<close> is a missing argument or one of the wrong kind,
  and a digit loop that does not end.
\<close>

datatype va_arg = Word u64 | Str string

record param =
  lz :: bool
  alt :: bool
  uc :: bool
  align_left :: bool
  width :: u32
  prec :: u32
  sgn_char :: char
  base :: u32
  bf :: string
  bf_len :: u64

definition BF_MAX :: nat where "BF_MAX = 20"

abbreviation NUL :: char where "NUL \<equiv> CHR 0x00"

definition ord_of :: "char \<Rightarrow> nat" where
  "ord_of c = of_char c"

definition IS_DIGIT :: "char \<Rightarrow> bool" where
  "IS_DIGIT x = (ord_of x \<ge> ord_of CHR ''0'' \<and> ord_of x \<le> ord_of CHR ''9'')"

text \<open>\<open>ch = *(fmt++)\<close>\<close>

fun fetch :: "string \<Rightarrow> char \<times> string" where
  "fetch [] = (NUL, [])"
| "fetch (c # cs) = (c, cs)"

subsection \<open>Numbers to digits\<close>

definition digit_char :: "bool \<Rightarrow> nat \<Rightarrow> char" where
  "digit_char up dgt = char_of (dgt + (if dgt < 10 then ord_of CHR ''0''
     else (if up then ord_of CHR ''A'' else ord_of CHR ''a'') - 10))"

text \<open>\<open>ulli2a\<close>, \<open>uli2a\<close> and \<open>ui2a\<close> are one text at two widths.  \<open>bf\<close> is what has been written to the buffer.\<close>

definition utoa :: "'a::len word \<Rightarrow> param \<Rightarrow> param option" where
  "utoa num p =
     (if prec p = 0 \<and> num = 0 then Some p
      else case while_option (\<lambda>d. num div d \<ge> ucast (base p)) (\<lambda>d. d * ucast (base p)) 1 of
        None \<Rightarrow> None
      | Some d \<Rightarrow>
         (case while_option (\<lambda>(num, d, b). d \<noteq> 0)
                 (\<lambda>(num, d, b). (num mod d, d div ucast (base p), b @ [digit_char (uc p) (unat (num div d))]))
                 (num, d, []) of
            None \<Rightarrow> None
          | Some (num, d, b) \<Rightarrow> Some (p\<lparr>bf := b, bf_len := word_of_nat (length b)\<rparr>)))"

definition ulli2a :: "u64 \<Rightarrow> param \<Rightarrow> param option" where
  "ulli2a num p = utoa num p"

definition uli2a :: "u64 \<Rightarrow> param \<Rightarrow> param option" where
  "uli2a num p = utoa num p"

definition ui2a :: "u32 \<Rightarrow> param \<Rightarrow> param option" where
  "ui2a num p = utoa num p"

definition lli2a :: "u64 \<Rightarrow> param \<Rightarrow> param option" where
  "lli2a num p = (if sint num < 0 then ulli2a (- num) (p\<lparr>sgn_char := CHR ''-''\<rparr>) else ulli2a num p)"

definition li2a :: "u64 \<Rightarrow> param \<Rightarrow> param option" where
  "li2a num p = (if sint num < 0 then uli2a (- num) (p\<lparr>sgn_char := CHR ''-''\<rparr>) else uli2a num p)"

definition i2a :: "u32 \<Rightarrow> param \<Rightarrow> param option" where
  "i2a num p = (if sint num < 0 then ui2a (- num) (p\<lparr>sgn_char := CHR ''-''\<rparr>) else ui2a num p)"

subsection \<open>Digits to numbers\<close>

definition a2d :: "char \<Rightarrow> int" where
  "a2d ch =
     (if IS_DIGIT ch then int (ord_of ch) - int (ord_of CHR ''0'')
      else if ord_of ch \<ge> ord_of CHR ''a'' \<and> ord_of ch \<le> ord_of CHR ''f'' then int (ord_of ch) - int (ord_of CHR ''a'') + 10
      else if ord_of ch \<ge> ord_of CHR ''A'' \<and> ord_of ch \<le> ord_of CHR ''F'' then int (ord_of ch) - int (ord_of CHR ''A'') + 10
      else - 1)"

text \<open>The loop of \<open>a2u\<close>, from the character \<open>ch\<close> already read and the number so far.\<close>

fun a2u_loop :: "char \<Rightarrow> string \<Rightarrow> int \<Rightarrow> u32 \<Rightarrow> char \<times> string \<times> u32" where
  "a2u_loop ch p b num =
     (if a2d ch \<ge> 0 then
        (if a2d ch > b then (ch, p, num)
         else case p of
             [] \<Rightarrow> (NUL, [], num * word_of_int b + word_of_int (a2d ch))
           | c # p \<Rightarrow> a2u_loop c p b (num * word_of_int b + word_of_int (a2d ch)))
      else (ch, p, num))"

declare a2u_loop.simps [simp del]

definition a2u :: "char \<Rightarrow> string \<Rightarrow> int \<Rightarrow> char \<times> string \<times> u32" where
  "a2u ch src b = a2u_loop ch src b 0"

subsection \<open>Padding\<close>

fun put_fill :: "(char \<Rightarrow> 's \<Rightarrow> 's) \<Rightarrow> char \<Rightarrow> nat \<Rightarrow> 's \<Rightarrow> 's" where
  "put_fill putf c 0 s = s"
| "put_fill putf c (Suc n) s = put_fill putf c n (putf c s)"

text \<open>\<open>while((bf_len-- > 0) && (ch = *bf++)) putf(putp, ch);\<close>\<close>

fun put_buf :: "(char \<Rightarrow> 's \<Rightarrow> 's) \<Rightarrow> nat \<Rightarrow> string \<Rightarrow> 's \<Rightarrow> 's" where
  "put_buf putf (Suc n) (c # b) s = (if c = NUL then s else put_buf putf n b (putf c s))"
| "put_buf putf n b s = s"

text \<open>The number of filling characters that are left once everything else is written, and of leading zeros.\<close>

definition fill_prec :: "param \<Rightarrow> u32" where
  "fill_prec p = prec p - ucast (bf_len p)"

definition fill_width :: "param \<Rightarrow> u32" where
  "fill_width p =
     (let w = width p - ucast (bf_len p);
          w = (if sgn_char p \<noteq> NUL then w - 1 else w);
          w = (if alt p \<and> base p = 16 then w - 2 else if alt p \<and> base p = 8 then w - 1 else w)
      in if sint (fill_prec p) > 0 then w - fill_prec p else w)"

definition putchw :: "(char \<Rightarrow> 's \<Rightarrow> 's) \<Rightarrow> param \<Rightarrow> 's \<Rightarrow> 's" where
  "putchw putf p s =
     (let w = nat (sint (fill_width p));
          s = (if \<not> lz p \<and> \<not> align_left p then put_fill putf CHR '' '' w s else s);
          s = (if sgn_char p \<noteq> NUL then putf (sgn_char p) s else s);
          s = (if alt p \<and> base p = 16 then putf (if uc p then CHR ''X'' else CHR ''x'') (putf CHR ''0'' s)
               else if alt p \<and> base p = 8 then putf CHR ''0'' s else s);
          s = put_fill putf CHR ''0'' (nat (sint (fill_prec p))) s;
          s = (if lz p then put_fill putf CHR ''0'' w s else s);
          s = put_buf putf (unat (bf_len p)) (bf p) s
      in if \<not> lz p \<and> align_left p then put_fill putf CHR '' '' w s else s)"

subsection \<open>Directives\<close>

definition param_init :: param where
  "param_init = \<lparr>lz = False, alt = False, uc = False, align_left = False, width = 0, prec = - 1, sgn_char = NUL,
     base = 0, bf = [], bf_len = 0\<rparr>"

fun parse_flags :: "string \<Rightarrow> param \<Rightarrow> char \<times> string \<times> param" where
  "parse_flags [] p = (NUL, [], p)"
| "parse_flags (ch # fmt) p =
     (if ch = CHR ''-'' then parse_flags fmt (p\<lparr>align_left := True\<rparr>)
      else if ch = CHR ''0'' then parse_flags fmt (p\<lparr>lz := True\<rparr>)
      else if ch = CHR ''#'' then parse_flags fmt (p\<lparr>alt := True\<rparr>)
      else (ch, fmt, p))"

fun va_word :: "va_arg list \<Rightarrow> (u64 \<times> va_arg list) option" where
  "va_word (Word w # va) = Some (w, va)"
| "va_word _ = None"

fun va_str :: "va_arg list \<Rightarrow> (string \<times> va_arg list) option" where
  "va_str (Str b # va) = Some (b, va)"
| "va_str _ = None"

definition parse_width ::
  "char \<Rightarrow> string \<Rightarrow> param \<Rightarrow> va_arg list \<Rightarrow> (char \<times> string \<times> param \<times> va_arg list) option" where
  "parse_width ch fmt p va =
     (if ch = CHR ''*'' then
        (case va_word va of
           None \<Rightarrow> None
         | Some (w, va) \<Rightarrow>
            (let (ch, fmt) = fetch fmt; w = ucast w in
             Some (ch, fmt, (if sint w < 0 then p\<lparr>align_left := True, width := - w\<rparr> else p\<lparr>width := w\<rparr>), va)))
      else if IS_DIGIT ch then
        (let (ch, fmt, w) = a2u ch fmt 10 in Some (ch, fmt, p\<lparr>width := w\<rparr>, va))
      else Some (ch, fmt, p, va))"

definition parse_prec ::
  "char \<Rightarrow> string \<Rightarrow> param \<Rightarrow> va_arg list \<Rightarrow> (char \<times> string \<times> param \<times> va_arg list) option" where
  "parse_prec ch fmt p va =
     (if ch = CHR ''.'' then
        (let (ch, fmt) = fetch fmt in
         if ch = CHR ''*'' then
           (case va_word va of
              None \<Rightarrow> None
            | Some (w, va) \<Rightarrow>
               (let (ch, fmt) = fetch fmt; w = ucast w in
                Some (ch, fmt, p\<lparr>prec := (if sint w < 0 then - 1 else w)\<rparr>, va)))
         else if IS_DIGIT ch then
           (let (ch, fmt, w) = a2u ch fmt 10 in Some (ch, fmt, p\<lparr>prec := w\<rparr>, va))
         else Some (ch, fmt, p\<lparr>prec := 0\<rparr>, va))
      else Some (ch, fmt, p, va))"

text \<open>\<open>lng\<close>: 1 for long (and \<open>size_t\<close>), 2 for long long.\<close>

definition parse_length :: "char \<Rightarrow> string \<Rightarrow> char \<times> string \<times> nat" where
  "parse_length ch fmt =
     (if ch = CHR ''z'' then (let (ch, fmt) = fetch fmt in (ch, fmt, 1))
      else if ch = CHR ''l'' then
        (let (ch, fmt) = fetch fmt in
         if ch = CHR ''l'' then (let (ch, fmt) = fetch fmt in (ch, fmt, 2)) else (ch, fmt, 1))
      else (ch, fmt, 0))"

text \<open>The length of a string argument: \<open>while((prec-- != 0) && *b++) p.bf_len++;\<close> with \<open>unsigned int prec\<close>.\<close>

fun str_len :: "u32 \<Rightarrow> string \<Rightarrow> u64 \<Rightarrow> u64" where
  "str_len m [] n = n"
| "str_len m (c # b) n = (if m \<noteq> 0 \<and> c \<noteq> NUL then str_len (m - 1) b (n + 1) else n)"

definition default_prec :: "param \<Rightarrow> param" where
  "default_prec p = (if sint (prec p) < 0 then p\<lparr>prec := 1\<rparr> else p)"

definition put_number ::
  "(char \<Rightarrow> 's \<Rightarrow> 's) \<Rightarrow> (u64 \<Rightarrow> param \<Rightarrow> param option) \<Rightarrow> param \<Rightarrow> va_arg list \<Rightarrow> 's \<Rightarrow> (va_arg list \<times> 's) option" where
  "put_number putf conv p va s =
     (case va_word va of
        None \<Rightarrow> None
      | Some (w, va) \<Rightarrow> (case conv w p of None \<Rightarrow> None | Some p \<Rightarrow> Some (va, putchw putf p s)))"

definition unsigned_conv :: "nat \<Rightarrow> u64 \<Rightarrow> param \<Rightarrow> param option" where
  "unsigned_conv lng w p = (if lng = 2 then ulli2a w p else if lng = 1 then uli2a w p else ui2a (ucast w) p)"

definition signed_conv :: "nat \<Rightarrow> u64 \<Rightarrow> param \<Rightarrow> param option" where
  "signed_conv lng w p = (if lng = 2 then lli2a w p else if lng = 1 then li2a w p else i2a (ucast w) p)"

definition put_directive ::
  "(char \<Rightarrow> 's \<Rightarrow> 's) \<Rightarrow> char \<Rightarrow> nat \<Rightarrow> param \<Rightarrow> va_arg list \<Rightarrow> 's \<Rightarrow> (va_arg list \<times> 's) option" where
  "put_directive putf ch lng p va s =
     (if ch = CHR ''u'' then put_number putf (unsigned_conv lng) (default_prec (p\<lparr>base := 10\<rparr>)) va s
      else if ch = CHR ''d'' \<or> ch = CHR ''i'' then put_number putf (signed_conv lng) (default_prec (p\<lparr>base := 10\<rparr>)) va s
      else if ch = CHR ''p'' \<or> ch = CHR ''x'' \<or> ch = CHR ''X'' then
        (let (p, lng) = (if ch = CHR ''p'' then (p\<lparr>alt := True\<rparr>, 1) else (p, lng)) in
         put_number putf (unsigned_conv lng) (default_prec (p\<lparr>base := 16, uc := (ch = CHR ''X'')\<rparr>)) va s)
      else if ch = CHR ''o'' then put_number putf (\<lambda>w. ui2a (ucast w)) (default_prec (p\<lparr>base := 8\<rparr>)) va s
      else if ch = CHR ''c'' then
        (case va_word va of None \<Rightarrow> None | Some (w, va) \<Rightarrow> Some (va, putf (char_of (unat (ucast w :: u8))) s))
      else if ch = CHR ''s'' then
        (case va_str va of
           None \<Rightarrow> None
         | Some (b, va) \<Rightarrow> Some (va, putchw putf (p\<lparr>bf := b, bf_len := str_len (prec p) b 0, prec := - 1\<rparr>) s))
      else if ch = CHR ''%'' then Some (va, putf ch s)
      else Some (va, s))"

text \<open>All that follows a percent sign up to the conversion character.\<close>

definition parse_directive ::
  "string \<Rightarrow> va_arg list \<Rightarrow> (char \<times> string \<times> nat \<times> param \<times> va_arg list) option" where
  "parse_directive fmt va =
     (let (ch, fmt, p) = parse_flags fmt param_init;
          p = (if align_left p then p\<lparr>lz := False\<rparr> else p)
      in case parse_width ch fmt p va of
           None \<Rightarrow> None
         | Some (ch, fmt, p, va) \<Rightarrow>
            (case parse_prec ch fmt p va of
               None \<Rightarrow> None
             | Some (ch, fmt, p, va) \<Rightarrow>
                (let p = (if sint (prec p) \<ge> 0 then p\<lparr>lz := False\<rparr> else p);
                     (ch, fmt, lng) = parse_length ch fmt
                 in Some (ch, fmt, lng, p, va))))"

lemma fetch_length: "fetch fmt = (ch, r) \<Longrightarrow> length r \<le> length fmt"
  by (cases fmt) auto

lemma a2u_loop_length: "a2u_loop ch p b n = (ch', p', n') \<Longrightarrow> length p' \<le> length p"
proof (induction p arbitrary: ch n)
  case Nil
  then show ?case by (subst (asm) a2u_loop.simps) (auto split: if_splits)
next
  case (Cons c p)
  from Cons(2) show ?case
    by (subst (asm) a2u_loop.simps) (auto split: if_splits dest: Cons(1))
qed

lemma parse_flags_length: "parse_flags fmt p = (ch, r, p') \<Longrightarrow> length r \<le> length fmt"
  by (induction fmt p rule: parse_flags.induct) (fastforce split: if_splits)+

lemma parse_width_length: "parse_width ch fmt p va = Some (c', r, p', va') \<Longrightarrow> length r \<le> length fmt"
  by (auto simp: parse_width_def a2u_def Let_def split: prod.splits option.splits if_splits dest!: fetch_length a2u_loop_length)

lemma parse_prec_length: "parse_prec ch fmt p va = Some (c', r, p', va') \<Longrightarrow> length r \<le> length fmt"
  unfolding parse_prec_def a2u_def Let_def
  by (force split: prod.splits option.splits if_splits dest!: fetch_length a2u_loop_length)

lemma parse_length_length: "parse_length ch fmt = (c', r, l) \<Longrightarrow> length r \<le> length fmt"
  unfolding parse_length_def Let_def by (auto split: prod.splits if_splits dest!: fetch_length)

lemma parse_directive_length: "parse_directive fmt va = Some (ch, r, x) \<Longrightarrow> length r \<le> length fmt"
  unfolding parse_directive_def Let_def
  by (auto split: prod.splits option.splits
      dest!: parse_flags_length parse_width_length parse_prec_length parse_length_length simp del: if_splits)

text \<open>The result is the arguments not consumed and the state of the sink.\<close>

function tfp_format ::
  "(char \<Rightarrow> 's \<Rightarrow> 's) \<Rightarrow> string \<Rightarrow> va_arg list \<Rightarrow> 's \<Rightarrow> (va_arg list \<times> 's) option" where
  "tfp_format putf [] va s = Some (va, s)"
| "tfp_format putf (ch # fmt) va s =
     (if ch = NUL then Some (va, s)
      else if ch \<noteq> CHR ''%'' then tfp_format putf fmt va (putf ch s)
      else case parse_directive fmt va of
        None \<Rightarrow> None
      | Some (ch, fmt, lng, p, va) \<Rightarrow>
         (if ch = NUL then Some (va, s)
          else case put_directive putf ch lng p va s of
            None \<Rightarrow> None
          | Some (va, s) \<Rightarrow> tfp_format putf fmt va s))"
  by pat_completeness auto
termination
  by (relation "measure (\<lambda>(putf, fmt, va, s). length fmt)") (auto dest: parse_directive_length)

subsection \<open>String sinks\<close>

record vsnprintf_data =
  dest_capacity :: u64
  dest :: "nat \<Rightarrow> char"
  num_chars :: u64

definition vsnprintf_putcf :: "char \<Rightarrow> vsnprintf_data \<Rightarrow> vsnprintf_data" where
  "vsnprintf_putcf c data =
     (let data = (if num_chars data < dest_capacity data
                  then data\<lparr>dest := (dest data)(unat (num_chars data) := c)\<rparr> else data)
      in data\<lparr>num_chars := num_chars data + 1\<rparr>)"

definition tfp_vsnprintf :: "(nat \<Rightarrow> char) \<Rightarrow> u64 \<Rightarrow> string \<Rightarrow> va_arg list \<Rightarrow> ((nat \<Rightarrow> char) \<times> u32) option" where
  "tfp_vsnprintf str sz format ap =
     (if sz < 1 then Some (str, 0)
      else case tfp_format vsnprintf_putcf format ap \<lparr>dest_capacity = sz - 1, dest = str, num_chars = 0\<rparr> of
        None \<Rightarrow> None
      | Some (va, data) \<Rightarrow>
         Some ((dest data)(unat (if num_chars data < dest_capacity data then num_chars data else dest_capacity data) := NUL),
               ucast (num_chars data)))"

definition tfp_snprintf :: "(nat \<Rightarrow> char) \<Rightarrow> u64 \<Rightarrow> string \<Rightarrow> va_arg list \<Rightarrow> ((nat \<Rightarrow> char) \<times> u32) option" where
  "tfp_snprintf = tfp_vsnprintf"

record vsprintf_data =
  vs_dest :: "nat \<Rightarrow> char"
  vs_num_chars :: u64

definition vsprintf_putcf :: "char \<Rightarrow> vsprintf_data \<Rightarrow> vsprintf_data" where
  "vsprintf_putcf c data =
     data\<lparr>vs_dest := (vs_dest data)(unat (vs_num_chars data) := c), vs_num_chars := vs_num_chars data + 1\<rparr>"

definition tfp_vsprintf :: "(nat \<Rightarrow> char) \<Rightarrow> string \<Rightarrow> va_arg list \<Rightarrow> ((nat \<Rightarrow> char) \<times> u32) option" where
  "tfp_vsprintf str format ap =
     (case tfp_format vsprintf_putcf format ap \<lparr>vs_dest = str, vs_num_chars = 0\<rparr> of
        None \<Rightarrow> None
      | Some (va, data) \<Rightarrow> Some ((vs_dest data)(unat (vs_num_chars data) := NUL), ucast (vs_num_chars data)))"

definition tfp_sprintf :: "(nat \<Rightarrow> char) \<Rightarrow> string \<Rightarrow> va_arg list \<Rightarrow> ((nat \<Rightarrow> char) \<times> u32) option" where
  "tfp_sprintf = tfp_vsprintf"

text \<open>The console: the character output \<open>sys_putchar\<close> is called when it is set.\<close>

definition uart_putf :: "(char \<Rightarrow> 's \<Rightarrow> 's) option \<Rightarrow> char \<Rightarrow> 's \<Rightarrow> 's" where
  "uart_putf sys_putchar c s = (case sys_putchar of None \<Rightarrow> s | Some f \<Rightarrow> f c s)"

definition printk ::
  "('s \<Rightarrow> 's) \<Rightarrow> ('s \<Rightarrow> 's) \<Rightarrow> (char \<Rightarrow> 's \<Rightarrow> 's) option \<Rightarrow> string \<Rightarrow> va_arg list \<Rightarrow> 's \<Rightarrow> (int \<times> 's) option" where
  "printk lock unlock sys_putchar format ap s =
     (case tfp_format (uart_putf sys_putchar) format ap (lock s) of
        None \<Rightarrow> None
      | Some (va, s) \<Rightarrow> Some (0, unlock s))"

subsection \<open>The digits of a number\<close>

text \<open>The reference: the usual recursive conversion.\<close>

fun num_string :: "nat \<Rightarrow> bool \<Rightarrow> nat \<Rightarrow> string" where
  "num_string b up n =
     (if b < 2 \<or> n < b then [digit_char up n] else num_string b up (n div b) @ [digit_char up (n mod b)])"

declare num_string.simps [simp del]

fun dig_list :: "nat \<Rightarrow> nat \<Rightarrow> nat \<Rightarrow> nat list" where
  "dig_list b 0 n = [n]"
| "dig_list b (Suc j) n = n div b ^ Suc j # dig_list b j (n mod b ^ Suc j)"

lemma dig_list_snoc:
  assumes "0 < b"
  shows "dig_list b (Suc j) n = dig_list b j (n div b) @ [n mod b]"
proof (induction j arbitrary: n)
  case 0
  show ?case by simp
next
  case (Suc j)
  have "n mod (b * b ^ Suc j) mod b = n mod b" by (simp add: mod_mod_cancel)
  moreover have "n mod (b * b ^ Suc j) div b = n div b mod b ^ Suc j"
    using assms by (simp add: mod_mult2_eq)
  moreover have "n div (b * b ^ Suc j) = n div b div b ^ Suc j" by (rule div_mult2_eq)
  ultimately show ?case
    using Suc [of "n mod b ^ Suc (Suc j)"] by simp
qed

lemma div_less_power: "2 \<le> b \<Longrightarrow> n < b ^ Suc k \<Longrightarrow> n div b < b ^ k" for n b :: nat
  by (metis less_mult_imp_div_less power_Suc2)

lemma num_string_digits:
  assumes "2 \<le> b" "n < b ^ Suc j" "j = 0 \<or> b ^ j \<le> n"
  shows "num_string b up n = map (digit_char up) (dig_list b j n)"
  using assms(2,3)
proof (induction j arbitrary: n)
  case 0
  then show ?case by (simp add: num_string.simps)
next
  case (Suc j)
  have "b \<le> b ^ Suc j" using assms(1) by (simp add: self_le_power)
  then have n: "b \<le> n" using Suc.prems by linarith
  have "n div b < b ^ Suc j" using div_less_power [OF assms(1) Suc.prems(1)] .
  moreover have "b ^ j \<le> n div b"
    using Suc.prems(2) assms(1) by (simp add: less_eq_div_iff_mult_less_eq mult.commute)
  ultimately have "num_string b up (n div b) = map (digit_char up) (dig_list b j (n div b))"
    by (intro Suc.IH) auto
  then show ?case
    using n assms(1) by (simp add: num_string.simps [of b up n] dig_list_snoc del: dig_list.simps)
qed

lemma num_string_length:
  assumes "2 \<le> b" "n < b ^ Suc k"
  shows "length (num_string b up n) \<le> Suc k"
  using assms(2)
proof (induction k arbitrary: n)
  case 0
  then show ?case by (simp add: num_string.simps)
next
  case (Suc k)
  show ?case
  proof (cases "n < b")
    case False
    have "n div b < b ^ Suc k" using div_less_power [OF assms(1) Suc.prems] .
    then show ?thesis using Suc.IH [of "n div b"] by (simp add: num_string.simps [of b up n])
  qed (simp add: num_string.simps)
qed

lemma unat_base:
  assumes "unat (b :: u32) \<le> 16" "8 \<le> LENGTH('a)"
  shows "unat (ucast b :: 'a::len word) = unat b"
proof -
  have "(2 :: nat) ^ 8 \<le> 2 ^ LENGTH('a)" using assms(2) by (rule power_increasing) simp
  then show ?thesis using assms(1) by (simp add: unat_ucast_mod)
qed

text \<open>The first loop finds the weight of the leading digit.\<close>

lemma top_digit_loop:
  fixes num d b :: "'a::len word"
  assumes "2 \<le> unat b" "unat d = unat b ^ k" "k = 0 \<or> unat d \<le> unat num"
  shows "\<exists>d' j. while_option (\<lambda>d. b \<le> num div d) (\<lambda>d. d * b) d = Some d' \<and> unat d' = unat b ^ j \<and>
    unat num < unat b ^ Suc j \<and> (j = 0 \<or> unat b ^ j \<le> unat num)"
  using assms(2,3)
proof (induction "unat num - unat d" arbitrary: d k rule: less_induct)
  case less
  have p: "0 < unat d" using less.prems(1) assms(1) by simp
  show ?case
  proof (cases "b \<le> num div d")
    case True
    then have "unat b \<le> unat num div unat d" by (simp add: word_le_nat_alt unat_div)
    then have n: "unat d * unat b \<le> unat num" using p by (simp add: less_eq_div_iff_mult_less_eq mult.commute)
    then have "unat (d * b) = unat d * unat b"
      using order.strict_trans1 [OF n unsigned_less] by (simp add: unat_word_ariths)
    then have d: "unat (d * b) = unat b ^ Suc k" using less.prems(1) by simp
    have "unat d * 2 \<le> unat d * unat b" using assms(1) by simp
    then have "unat num - unat (d * b) < unat num - unat d"
      using n p \<open>unat (d * b) = unat d * unat b\<close> by linarith
    from less.hyps [OF this d] n \<open>unat (d * b) = unat d * unat b\<close> True
    show ?thesis by (subst while_option_unfold) simp
  next
    case False
    then have "unat num div unat d < unat b" by (simp add: word_le_nat_alt unat_div)
    then have "unat num < unat b * unat d" using p div_less_iff_less_mult [of "unat d" "unat num" "unat b"] by blast
    then have "unat num < unat b ^ Suc k" using less.prems(1) by simp
    then show ?thesis using False less.prems by (subst while_option_unfold) auto
  qed
qed

text \<open>The second loop writes the digits from there.\<close>

lemma digits_loop:
  fixes num d b :: "'a::len word"
  assumes "2 \<le> unat b" "unat d = unat b ^ j" "unat num < unat b ^ Suc j"
  shows "\<exists>n. while_option (\<lambda>(num, d, s). d \<noteq> 0) (\<lambda>(num, d, s). (num mod d, d div b, s @ [digit_char up (unat (num div d))])) (num, d, s) =
    Some (n, 0, s @ map (digit_char up) (dig_list (unat b) j (unat num)))"
  using assms(2,3)
proof (induction j arbitrary: num d s)
  case 0
  then have d: "d = 1" by (simp add: word_unat_eq_iff)
  have "unat (1 div b) = 0" using assms(1) by (simp only: unat_div) simp
  then have "1 div b = 0" by (simp only: unat_eq_zero)
  then show ?case by (simp add: d while_option_unfold)
next
  case (Suc j)
  have "d \<noteq> 0" using Suc.prems(1) assms(1) by (auto simp: word_unat_eq_iff)
  moreover have "unat (d div b) = unat b ^ j" using Suc.prems(1) assms(1) by (simp add: unat_div)
  moreover have m: "unat (num mod d) = unat num mod unat b ^ Suc j" using Suc.prems(1) by (simp add: unat_mod)
  moreover have "unat num mod unat b ^ Suc j < unat b ^ Suc j" using assms(1) by simp
  ultimately show ?case
    using Suc.IH [of "d div b" "num mod d" "s @ [digit_char up (unat (num div d))]"] Suc.prems(1)
    by (subst while_option_unfold) (simp add: unat_div)
qed

lemma utoa_digits:
  fixes num :: "'a::len word"
  assumes "2 \<le> unat (base p)" "unat (base p) \<le> 16" "8 \<le> LENGTH('a)"
  shows "utoa num p = Some (if prec p = 0 \<and> num = 0 then p
    else let ds = num_string (unat (base p)) (uc p) (unat num) in p\<lparr>bf := ds, bf_len := word_of_nat (length ds)\<rparr>)"
proof -
  define b where "b = (ucast (base p) :: 'a word)"
  have b: "unat b = unat (base p)" unfolding b_def by (rule unat_base [OF assms(2,3)])
  then have b2: "2 \<le> unat b" using assms(1) by simp
  obtain d j where d: "while_option (\<lambda>d. b \<le> num div d) (\<lambda>d. d * b) 1 = Some d" "unat d = unat b ^ j"
      "unat num < unat b ^ Suc j" "j = 0 \<or> unat b ^ j \<le> unat num"
    using top_digit_loop [OF b2, of 1 0 num] by auto
  obtain n where n: "while_option (\<lambda>(num, d, s). d \<noteq> 0)
      (\<lambda>(num, d, s). (num mod d, d div b, s @ [digit_char (uc p) (unat (num div d))])) (num, d, []) =
    Some (n, 0, map (digit_char (uc p)) (dig_list (unat b) j (unat num)))"
    using digits_loop [OF b2 d(2,3), of "uc p" "[]"] by auto
  show ?thesis
    unfolding utoa_def b_def [symmetric] d(1)
    by (simp add: n Let_def num_string_digits [OF b2 d(3,4)] flip: b)
qed

subsection \<open>The sink\<close>

text \<open>Whatever the sink is, it is given the characters that a sink collecting them would collect.\<close>

definition emit :: "char \<Rightarrow> string \<Rightarrow> string" where
  "emit c out = out @ [c]"

lemma fold_emit: "putf c (fold putf out s) = fold putf (emit c out) s"
  by (simp add: emit_def)

lemma put_fill_fold: "put_fill putf c n (fold putf out s) = fold putf (put_fill emit c n out) s"
  by (induction n arbitrary: out) (simp_all add: fold_emit)

lemma put_buf_fold: "put_buf putf n b (fold putf out s) = fold putf (put_buf emit n b out) s"
proof (induction n arbitrary: b out)
  case (Suc n)
  then show ?case by (cases b) (simp_all add: fold_emit)
qed simp

lemma putchw_fold: "putchw putf p (fold putf out s) = fold putf (putchw emit p out) s"
  unfolding putchw_def Let_def
  by (auto simp: put_fill_fold put_buf_fold fold_emit)

lemma put_directive_fold:
  "put_directive putf ch lng p va (fold putf out s) =
     map_option (\<lambda>(va, out). (va, fold putf out s)) (put_directive emit ch lng p va out)"
  unfolding put_directive_def put_number_def Let_def
  by (simp add: putchw_fold fold_emit split: option.split prod.split)

lemma tfp_format_fold:
  "tfp_format putf fmt va (fold putf out s) =
     map_option (\<lambda>(va, out). (va, fold putf out s)) (tfp_format emit fmt va out)"
proof (induction "length fmt" arbitrary: fmt va out rule: less_induct)
  case less
  show ?case
  proof (cases fmt)
    case (Cons ch f)
    have r: "length f' \<le> length f" if "parse_directive f va = Some (c, f', x)" for c f' x
      using parse_directive_length [OF that] .
    show ?thesis
      using less [of f va "emit ch out"] Cons
      by (auto simp: fold_emit put_directive_fold split: option.split dest!: r intro!: less)
  qed simp
qed

lemma put_fill_emit: "put_fill emit c n out = out @ replicate n c"
  by (induction n arbitrary: out) (simp_all add: emit_def replicate_app_Cons_same)

lemma put_buf_emit: "NUL \<notin> set b \<Longrightarrow> put_buf emit n b out = out @ take n b"
proof (induction n arbitrary: b out)
  case (Suc n)
  then show ?case by (cases b) (auto simp: emit_def)
qed simp

subsection \<open>Fields\<close>

text \<open>What goes before the digits, and a whole field.\<close>

definition field_prefix :: "param \<Rightarrow> string" where
  "field_prefix p = (if sgn_char p \<noteq> NUL then [sgn_char p] else []) @
     (if alt p \<and> base p = 16 then (if uc p then ''0X'' else ''0x'') else if alt p \<and> base p = 8 then ''0'' else [])"

definition field :: "param \<Rightarrow> string" where
  "field p =
     (let zeros = replicate (nat (sint (prec p)) - length (bf p)) CHR ''0'';
          n = nat (sint (width p)) - (length (field_prefix p) + length zeros + length (bf p))
      in if lz p then field_prefix p @ zeros @ replicate n CHR ''0'' @ bf p
         else if align_left p then field_prefix p @ zeros @ bf p @ replicate n CHR '' ''
         else replicate n CHR '' '' @ field_prefix p @ zeros @ bf p)"

definition param_ok :: "param \<Rightarrow> bool" where
  "param_ok p \<longleftrightarrow> NUL \<notin> set (bf p) \<and> unat (bf_len p) = length (bf p) \<and> length (bf p) < 2 ^ 29 \<and>
     0 \<le> sint (width p) \<and> sint (width p) < 2 ^ 29 \<and> - 1 \<le> sint (prec p) \<and> sint (prec p) < 2 ^ 29"

lemma sint_small: "- (2 ^ 31) \<le> k \<Longrightarrow> k < 2 ^ 31 \<Longrightarrow> sint (word_of_int k :: u32) = k"
  by (simp add: sint_sbintrunc' signed_take_bit_int_eq_self)

lemma fill_sizes:
  assumes "param_ok p"
  shows "nat (sint (fill_prec p)) = nat (sint (prec p)) - length (bf p)"
    and "nat (sint (fill_width p)) =
      nat (sint (width p)) - (length (field_prefix p) + (nat (sint (prec p)) - length (bf p)) + length (bf p))"
proof -
  define W where "W = sint (width p)"
  define P where "P = sint (prec p)"
  define L where "L = int (length (bf p))"
  have b: "0 \<le> W" "W < 2 ^ 29" "- 1 \<le> P" "P < 2 ^ 29" "0 \<le> L" "L < 2 ^ 29"
    using assms by (simp_all add: param_ok_def W_def P_def L_def)
  have e: "width p = word_of_int W" "prec p = word_of_int P" by (simp_all add: W_def P_def)
  have "word_of_int L = (word_of_nat (unat (bf_len p)) :: u32)" using assms by (simp add: L_def param_ok_def)
  then have l: "ucast (bf_len p) = (word_of_int L :: u32)" by simp
  have z: "fill_prec p = word_of_int (P - L)" "sint (fill_prec p) = P - L"
    unfolding fill_prec_def e l using sint_small [of "P - L"] b by simp_all
  define S where "S = int (length (field_prefix p))"
  have S: "0 \<le> S" "S \<le> 3" by (auto simp: S_def field_prefix_def)
  have "fill_width p = word_of_int (W - L - S - (if P - L > 0 then P - L else 0))"
    unfolding fill_width_def Let_def z(2) unfolding z(1) e l S_def field_prefix_def by auto
  moreover have "sint (word_of_int (W - L - S - (if P - L > 0 then P - L else 0)) :: u32) =
      W - L - S - (if P - L > 0 then P - L else 0)"
    by (rule sint_small) (use b S in auto)
  ultimately have w: "sint (fill_width p) = W - L - S - (if P - L > 0 then P - L else 0)" by (simp only:)
  have "nat (W - int l - int k - (if P - int l > 0 then P - int l else 0)) = nat W - (k + (nat P - l) + l)" for l k :: nat
    using b(1,3) by (cases "int l < P") auto
  then show "nat (sint (fill_width p)) =
      nat (sint (width p)) - (length (field_prefix p) + (nat (sint (prec p)) - length (bf p)) + length (bf p))"
    unfolding w L_def S_def W_def [symmetric] P_def [symmetric] .
  show "nat (sint (fill_prec p)) = nat (sint (prec p)) - length (bf p)"
    unfolding z(2) by (simp add: P_def L_def)
qed

lemma putchw_field:
  assumes "param_ok p"
  shows "putchw emit p out = out @ field p"
proof -
  have "unat (bf_len p) = length (bf p)" "NUL \<notin> set (bf p)" using assms by (simp_all add: param_ok_def)
  then show ?thesis
    unfolding putchw_def field_def Let_def fill_sizes [OF assms]
    by (simp add: put_fill_emit put_buf_emit) (simp add: field_prefix_def emit_def)
qed

lemma field_length:
  "length (field p) = max (nat (sint (width p))) (length (field_prefix p) + max (nat (sint (prec p))) (length (bf p)))"
proof -
  have "length (field p) = (let z = nat (sint (prec p)) - length (bf p); m = length (field_prefix p) + z + length (bf p)
     in m + (nat (sint (width p)) - m))"
    by (simp add: field_def Let_def)
  then show ?thesis unfolding Let_def by linarith
qed

subsection \<open>Reading digits\<close>

lemma digit_char_10: "d < 10 \<Longrightarrow> a2d (digit_char up d) = int d"
  by (simp add: digit_char_def a2d_def IS_DIGIT_def ord_of_def)

lemma digit_char_not_NUL: "d < 16 \<Longrightarrow> digit_char up d \<noteq> NUL"
proof -
  assume "d < 16"
  then have "(of_char (digit_char up d) :: nat) \<noteq> of_char NUL" by (simp add: digit_char_def ord_of_def)
  then show ?thesis by metis
qed

lemma num_string_not_NUL: "2 \<le> b \<Longrightarrow> b \<le> 16 \<Longrightarrow> NUL \<notin> set (num_string b up n)"
proof (induction b up n rule: num_string.induct)
  case (1 b up n)
  have "digit_char up (n mod b) \<noteq> NUL"
    by (rule digit_char_not_NUL) (use 1(2,3) in \<open>simp add: less_le_trans [of _ b]\<close>)
  moreover have "n < b \<Longrightarrow> digit_char up n \<noteq> NUL"
    by (rule digit_char_not_NUL) (use 1(3) in simp)
  ultimately show ?case
    using 1 by (subst num_string.simps) auto
qed

definition a2u_from :: "string \<Rightarrow> u32 \<Rightarrow> char \<times> string \<times> u32" where
  "a2u_from s num = (case fetch s of (c, p) \<Rightarrow> a2u_loop c p 10 num)"

lemma a2u_from_digit:
  "d < 10 \<Longrightarrow> a2u_from (digit_char up d # x # s) num = a2u_from (x # s) (num * 10 + word_of_nat d)"
  by (simp add: a2u_from_def a2u_loop.simps [of "digit_char up d"] digit_char_10)

lemma a2u_from_num_string:
  "a2u_from (num_string 10 up n @ x # s) num =
     a2u_from (x # s) (num * 10 ^ length (num_string 10 up n) + word_of_nat n)"
proof (induction "10 :: nat" up n arbitrary: x s num rule: num_string.induct)
  case (1 up n)
  show ?case
  proof (cases "n < 10")
    case True
    then show ?thesis by (simp add: num_string.simps [of 10 up n] a2u_from_digit)
  next
    case False
    define k where "k = length (num_string 10 up (n div 10))"
    have "(word_of_nat (n div 10 * 10 + n mod 10) :: u32) = word_of_nat (n div 10) * 10 + word_of_nat (n mod 10)"
      by (simp only: of_nat_add of_nat_mult) simp
    then have n: "(word_of_nat n :: u32) = word_of_nat (n div 10) * 10 + word_of_nat (n mod 10)" by simp
    have "a2u_from (num_string 10 up n @ x # s) num =
        a2u_from (digit_char up (n mod 10) # x # s) (num * 10 ^ k + word_of_nat (n div 10))"
      using False 1 [of "digit_char up (n mod 10)" "x # s" num] by (simp add: num_string.simps [of 10 up n] k_def)
    also have "\<dots> = a2u_from (x # s) (num * 10 ^ Suc k + word_of_nat n)"
      unfolding n by (simp add: a2u_from_digit algebra_simps)
    finally show ?thesis using False by (simp add: num_string.simps [of 10 up n] k_def)
  qed
qed

subsection \<open>The bounded sink\<close>

lemma vsnprintf_fold:
  assumes "unat (num_chars d) + length out < 2 ^ 64"
  shows "fold vsnprintf_putcf out d = d\<lparr>num_chars := num_chars d + word_of_nat (length out),
    dest := (\<lambda>i. if unat (num_chars d) \<le> i \<and> i < unat (num_chars d) + length out \<and> i < unat (dest_capacity d)
                then out ! (i - unat (num_chars d)) else dest d i)\<rparr>"
  using assms
proof (induction out arbitrary: d)
  case Nil
  have "(\<lambda>i. if unat (num_chars d) \<le> i \<and> i < unat (num_chars d) + length [] \<and> i < unat (dest_capacity d)
      then [] ! (i - unat (num_chars d)) else dest d i) = dest d"
    by (rule ext) auto
  then show ?case by (simp only: list.size of_nat_0 add_0_right fold_simps id_apply) simp
next
  case (Cons c out)
  let ?d = "vsnprintf_putcf c d"
  have n: "num_chars ?d = num_chars d + 1" "dest_capacity ?d = dest_capacity d"
    by (simp_all add: vsnprintf_putcf_def Let_def)
  have u: "unat (num_chars d + 1) = unat (num_chars d) + 1"
    using Cons.prems by (simp add: unat_word_ariths)
  have d: "dest ?d = (\<lambda>i. if i = unat (num_chars d) \<and> i < unat (dest_capacity d) then c else dest d i)"
    by (auto simp: vsnprintf_putcf_def Let_def word_less_nat_alt)
  have "fold vsnprintf_putcf (c # out) d = fold vsnprintf_putcf out ?d" by simp
  also have "\<dots> = ?d\<lparr>num_chars := num_chars ?d + word_of_nat (length out),
    dest := (\<lambda>i. if unat (num_chars ?d) \<le> i \<and> i < unat (num_chars ?d) + length out \<and> i < unat (dest_capacity ?d)
                then out ! (i - unat (num_chars ?d)) else dest ?d i)\<rparr>"
    using Cons.prems by (intro Cons.IH) (simp add: n u)
  also have "\<dots> = d\<lparr>num_chars := num_chars d + word_of_nat (length (c # out)),
    dest := (\<lambda>i. if unat (num_chars d) \<le> i \<and> i < unat (num_chars d) + length (c # out) \<and> i < unat (dest_capacity d)
                then (c # out) ! (i - unat (num_chars d)) else dest d i)\<rparr>"
    unfolding n u d
    by (rule vsnprintf_data.equality) (auto simp: vsnprintf_putcf_def Let_def nth_Cons' fun_eq_iff)
  finally show ?case .
qed

subsection \<open>A number in a field\<close>

lemma param_ok_number:
  assumes "2 \<le> unat (base p)" "unat (base p) \<le> 16" "length ds < 2 ^ 29" "ds = num_string (unat (base p)) up n"
    "0 \<le> sint (width p)" "sint (width p) < 2 ^ 29" "- 1 \<le> sint (prec p)" "sint (prec p) < 2 ^ 29"
  shows "param_ok (p\<lparr>bf := ds, bf_len := word_of_nat (length ds)\<rparr>)"
  using assms num_string_not_NUL [OF assms(1,2)] by (simp add: param_ok_def unat_of_nat_mod)

lemma number_lengths:
  "length (num_string 10 up (unat (w :: u64))) \<le> 20" "length (num_string 10 up (unat (v :: u32))) \<le> 10"
  "length (num_string 16 up (unat (w :: u64))) \<le> 16" "length (num_string 16 up (unat (v :: u32))) \<le> 8"
  "length (num_string 8 up (unat (v :: u32))) \<le> 11"
proof -
  have w: "unat w < 2 ^ 64" "unat v < 2 ^ 32" using unsigned_less [of w] unsigned_less [of v] by simp_all
  have "unat w < 10 ^ Suc 19" "unat v < 10 ^ Suc 9" "unat w < 16 ^ Suc 15" "unat v < 16 ^ Suc 7" "unat v < 8 ^ Suc 10"
    using w by simp_all
  then show "length (num_string 10 up (unat (w :: u64))) \<le> 20" "length (num_string 10 up (unat (v :: u32))) \<le> 10"
    "length (num_string 16 up (unat (w :: u64))) \<le> 16" "length (num_string 16 up (unat (v :: u32))) \<le> 8"
    "length (num_string 8 up (unat (v :: u32))) \<le> 11"
    using num_string_length [of 10 "unat w" 19] num_string_length [of 10 "unat v" 9] num_string_length [of 16 "unat w" 15]
      num_string_length [of 16 "unat v" 7] num_string_length [of 8 "unat v" 10] by simp_all
qed

text \<open>The parameters left by a directive without flags, width and precision.\<close>

definition plain :: "nat \<Rightarrow> bool \<Rightarrow> param" where
  "plain b up = param_init\<lparr>base := word_of_nat b, uc := up, prec := 1\<rparr>"

lemma half_range: "- (2 ^ LENGTH('a)) < sint (w :: 'a::len word)" "sint w < 2 ^ LENGTH('a)"
proof -
  have "(2 :: int) ^ (LENGTH('a) - 1) < 2 ^ LENGTH('a)" by (rule power_strict_increasing) simp_all
  then show "- (2 ^ LENGTH('a)) < sint w" "sint w < 2 ^ LENGTH('a)"
    using sint_ge [of w] sint_lt [of w] by linarith+
qed

lemma unat_neg: "sint (w :: 'a::len word) < 0 \<Longrightarrow> unat (- w) = nat (- sint w)"
proof -
  assume w: "sint w < 0"
  then have "(- sint w) mod 2 ^ LENGTH('a) = - sint w" using half_range(1) [of w] by (intro mod_pos_pos_trivial) linarith+
  moreover have "- w = word_of_int (- sint w)" by simp
  ultimately show ?thesis using w unat_of_int_mod [of "- sint w", where 'a = 'a] by (metis less_eq_int_code(1) neg_0_le_iff_le order_less_imp_le)
qed

lemma unat_sint: "\<not> sint (w :: 'a::len word) < 0 \<Longrightarrow> unat w = nat (sint w)"
proof -
  assume w: "\<not> sint w < 0"
  then have "sint w mod 2 ^ LENGTH('a) = sint w" using half_range(2) [of w] by (intro mod_pos_pos_trivial) linarith+
  then show ?thesis using w unat_of_int_mod [of "sint w", where 'a = 'a] by simp
qed

definition signed_string :: "int \<Rightarrow> string" where
  "signed_string i = (if i < 0 then CHR ''-'' # num_string 10 False (nat (- i)) else num_string 10 False (nat i))"

lemma field_plain:
  assumes "1 \<le> length ds" "length ds < 2 ^ 29" "NUL \<notin> set ds"
  shows "putchw putf ((plain b up)\<lparr>sgn_char := c, bf := ds, bf_len := word_of_nat (length ds)\<rparr>) s =
    fold putf ((if c \<noteq> NUL then [c] else []) @ ds) s"
proof -
  let ?p = "(plain b up)\<lparr>sgn_char := c, bf := ds, bf_len := word_of_nat (length ds)\<rparr>"
  have "param_ok ?p" using assms(2,3) by (simp add: plain_def param_init_def param_ok_def unat_of_nat_mod)
  then have "putchw emit ?p [] = field ?p" using putchw_field [of ?p "[]"] by simp
  moreover have "field ?p = (if c \<noteq> NUL then [c] else []) @ ds"
    using assms(1) by (simp add: plain_def param_init_def field_def field_prefix_def)
  ultimately show ?thesis using putchw_fold [of putf ?p "[]" s] by simp
qed

lemma utoa_plain:
  fixes num :: "'a::len word"
  assumes "2 \<le> b" "b \<le> 16" "8 \<le> LENGTH('a)"
  shows "utoa num ((plain b up)\<lparr>sgn_char := c\<rparr>) =
    (let ds = num_string b up (unat num) in Some ((plain b up)\<lparr>sgn_char := c, bf := ds, bf_len := word_of_nat (length ds)\<rparr>))"
proof -
  have "unat (word_of_nat b :: u32) = b" using assms(2) by (simp add: unat_of_nat_mod)
  then show ?thesis using utoa_digits [of "(plain b up)\<lparr>sgn_char := c\<rparr>" num] assms by (simp add: plain_def Let_def)
qed

lemma num_string_nonempty: "1 \<le> length (num_string b up n)"
  by (subst num_string.simps) simp

lemma put_unsigned:
  assumes "2 \<le> b" "b \<le> 16" "length (num_string b up (unat num)) < 2 ^ 29" "8 \<le> LENGTH('a)"
  shows "(case utoa (num :: 'a::len word) (plain b up) of None \<Rightarrow> None | Some p \<Rightarrow> Some (va, putchw putf p s)) =
    Some (va, fold putf (num_string b up (unat num)) s)"
  using utoa_plain [OF assms(1,2,4), of num NUL up]
    field_plain [where ds = "num_string b up (unat num)" and b = b and up = up and c = NUL and putf = putf and s = s]
    num_string_nonempty [of b up "unat num"] assms(3) num_string_not_NUL [OF assms(1,2), of up "unat num"]
  by (simp add: Let_def plain_def param_init_def)

lemma put_signed:
  assumes "length (num_string 10 False (unat num)) < 2 ^ 29" "length (num_string 10 False (unat (- num))) < 2 ^ 29" "8 \<le> LENGTH('a)"
  shows "(case (if sint (num :: 'a::len word) < 0 then utoa (- num) ((plain 10 False)\<lparr>sgn_char := CHR ''-''\<rparr>) else utoa num (plain 10 False))
      of None \<Rightarrow> None | Some p \<Rightarrow> Some (va, putchw putf p s)) =
    Some (va, fold putf (signed_string (sint num)) s)"
proof (cases "sint num < 0")
  case True
  then show ?thesis
    using utoa_plain [OF _ _ assms(3), of 10 "- num" "CHR ''-''" False]
      field_plain [where ds = "num_string 10 False (unat (- num))" and b = 10 and up = False and c = "CHR ''-''" and putf = putf and s = s]
      num_string_nonempty [of 10 False "unat (- num)"] assms(2) num_string_not_NUL [of 10 False "unat (- num)"]
    by (simp add: Let_def signed_string_def unat_neg [symmetric])
next
  case False
  then show ?thesis
    using put_unsigned [OF _ _ assms(1,3), of va putf s] by (simp add: signed_string_def unat_sint)
qed

lemma parse_plain:
  "parse_directive ''d'' va = Some (CHR ''d'', [], 0, param_init, va)"
  "parse_directive ''u'' va = Some (CHR ''u'', [], 0, param_init, va)"
  "parse_directive ''x'' va = Some (CHR ''x'', [], 0, param_init, va)"
  "parse_directive ''o'' va = Some (CHR ''o'', [], 0, param_init, va)"
  "parse_directive ''ld'' va = Some (CHR ''d'', [], 1, param_init, va)"
  "parse_directive ''lu'' va = Some (CHR ''u'', [], 1, param_init, va)"
  "parse_directive ''lX'' va = Some (CHR ''X'', [], 1, param_init, va)"
  by code_simp+

lemma default_plain:
  "default_prec (param_init\<lparr>base := 10\<rparr>) = plain 10 False"
  "default_prec (param_init\<lparr>base := 8\<rparr>) = plain 8 False"
  "default_prec (param_init\<lparr>base := 16, uc := u\<rparr>) = plain 16 u"
  by (simp_all add: default_prec_def param_init_def plain_def)

lemma printf_number_formats:
  fixes putf :: "char \<Rightarrow> 's \<Rightarrow> 's" and w :: u64
  shows "tfp_format putf ''%d'' [Word w] s = Some ([], fold putf (signed_string (sint (ucast w :: u32))) s) \<and>
    tfp_format putf ''%ld'' [Word w] s = Some ([], fold putf (signed_string (sint w)) s) \<and>
    tfp_format putf ''%u'' [Word w] s = Some ([], fold putf (num_string 10 False (unat (ucast w :: u32))) s) \<and>
    tfp_format putf ''%lu'' [Word w] s = Some ([], fold putf (num_string 10 False (unat w)) s) \<and>
    tfp_format putf ''%x'' [Word w] s = Some ([], fold putf (num_string 16 False (unat (ucast w :: u32))) s) \<and>
    tfp_format putf ''%lX'' [Word w] s = Some ([], fold putf (num_string 16 True (unat w)) s) \<and>
    tfp_format putf ''%o'' [Word w] s = Some ([], fold putf (num_string 8 False (unat (ucast w :: u32))) s) \<and>
    length (num_string 10 False (unat w)) \<le> BF_MAX \<and> length (num_string 16 True (unat w)) \<le> BF_MAX"
proof -
  have l: "length (num_string 10 up (unat w)) < 2 ^ 29" "length (num_string 16 up (unat w)) < 2 ^ 29" "length (num_string 10 up (unat v)) < 2 ^ 29"
    "length (num_string 16 up (unat v)) < 2 ^ 29" "length (num_string 8 up (unat v)) < 2 ^ 29" for w :: u64 and v :: u32 and up
    using number_lengths(1,3) [where w = w and up = up] number_lengths(2,4,5) [where v = v and up = up] by simp_all
  have i: "(case i2a v (plain 10 False) of None \<Rightarrow> None | Some p \<Rightarrow> Some (va, putchw putf p s)) =
      Some (va, fold putf (signed_string (sint v)) s)"
    "(case li2a u (plain 10 False) of None \<Rightarrow> None | Some p \<Rightarrow> Some (va, putchw putf p s)) =
      Some (va, fold putf (signed_string (sint u)) s)" for v u and va :: "va_arg list"
    unfolding i2a_def li2a_def ui2a_def uli2a_def by (rule put_signed [OF l(3) l(3)], simp) (rule put_signed [OF l(1) l(1)], simp)
  note conv = put_number_def unsigned_conv_def signed_conv_def ui2a_def uli2a_def default_plain
  show ?thesis
    using number_lengths(1,3) [where w = w]
    by (simp add: parse_plain put_directive_def conv i
        put_unsigned [OF _ _ l(1)] put_unsigned [OF _ _ l(2)] put_unsigned [OF _ _ l(3)] put_unsigned [OF _ _ l(4)]
        put_unsigned [OF _ _ l(5)] BF_MAX_def order_trans [of _ 16 20])
qed

subsection \<open>Properties\<close>

text \<open>C20.  The number directives print the canonical digits.  Whatever the argument and whatever the sink, each
  of these formats returns (no digit loop runs forever) having consumed its argument and
  given the sink the digits of the reference conversion \<open>num_string\<close>, with a minus sign for negative numbers,
  the most negative included; the digits never exceed the buffer of \<open>BF_MAX\<close> characters.\<close>

theorem printf_numbers_canonical:
  fixes putf :: "char \<Rightarrow> 's \<Rightarrow> 's" and w :: u64
  shows "tfp_format putf ''%d'' [Word w] s = Some ([], fold putf (signed_string (sint (ucast w :: u32))) s) \<and>
    tfp_format putf ''%ld'' [Word w] s = Some ([], fold putf (signed_string (sint w)) s) \<and>
    tfp_format putf ''%u'' [Word w] s = Some ([], fold putf (num_string 10 False (unat (ucast w :: u32))) s) \<and>
    tfp_format putf ''%lu'' [Word w] s = Some ([], fold putf (num_string 10 False (unat w)) s) \<and>
    tfp_format putf ''%x'' [Word w] s = Some ([], fold putf (num_string 16 False (unat (ucast w :: u32))) s) \<and>
    tfp_format putf ''%lX'' [Word w] s = Some ([], fold putf (num_string 16 True (unat w)) s) \<and>
    tfp_format putf ''%o'' [Word w] s = Some ([], fold putf (num_string 8 False (unat (ucast w :: u32))) s) \<and>
    length (num_string 10 False (unat w)) \<le> BF_MAX \<and> length (num_string 16 True (unat w)) \<le> BF_MAX"
  by (rule printf_number_formats)

text \<open>C21.  A number that was printed is read back: \<open>a2u\<close>, with which the parser reads field widths and precisions, returns the
  number (modulo \<open>2 ^ 32\<close>), the character that ended it and the text after that.  That character
  must not be one that \<open>a2u\<close> takes for a digit, and it takes the letters \<open>a\<close> and \<open>A\<close> for one, with the value
  10: its test against the base is off by one.\<close>

theorem a2u_reads_back:
  assumes "a2d x < 0 \<or> 10 < a2d x"
  shows "(case fetch (num_string 10 up n @ x # s) of (c, p) \<Rightarrow> a2u c p 10) = (x, s, word_of_nat n) \<and>
    a2u CHR ''1'' ''ad'' 10 = (CHR ''d'', [], 20)"
proof -
  have "a2u CHR ''1'' ''ad'' 10 = (CHR ''d'', [], 20)"
    by (simp add: a2u_def a2u_loop.simps a2d_def IS_DIGIT_def ord_of_def)
  moreover have "a2u_from (x # s) v = (x, s, v)" for v
    using assms by (auto simp: a2u_from_def a2u_loop.simps)
  ultimately show ?thesis
    using a2u_from_num_string [of up n x s 0] by (simp add: a2u_from_def a2u_def)
qed

theorem a2u_reads_back_witness:
  "num_string 10 False 305 = ''305'' \<and> a2u CHR ''3'' ''05d.'' 10 = (CHR ''d'', ''.'', 305)"
proof -
  have "num_string 10 False 305 = ''305''"
    by code_simp
  then show ?thesis
    using a2u_reads_back [of "CHR ''d''" False 305 "''.''"] by (simp add: a2d_def IS_DIGIT_def ord_of_def)
qed

text \<open>C22.  \<open>tfp_vsnprintf\<close> stays inside the buffer: when formatting produces \<open>out\<close>, a buffer of at least one byte
  receives the longest prefix of \<open>out\<close> that leaves room for the terminator, then the terminator, and no
  other byte of memory changes; the result is the length of \<open>out\<close>, not of what was stored.\<close>

theorem vsnprintf_bounded:
  assumes "tfp_format emit format ap [] = Some (va, out)" "1 \<le> sz" "length out < 2 ^ 64"
  shows "\<exists>str'. tfp_vsnprintf str sz format ap = Some (str', word_of_nat (length out)) \<and>
    (let n = min (length out) (unat sz - 1) in
     n < unat sz \<and> map str' [0..<n] = take n out \<and> str' n = NUL \<and> (\<forall>i>n. str' i = str i))"
proof -
  let ?d = "\<lparr>dest_capacity = sz - 1, dest = str, num_chars = 0\<rparr>"
  have sz: "unat (sz - 1) = unat sz - 1" "1 \<le> unat sz"
    using assms(2) unat_sub [OF assms(2)] by (simp_all add: word_le_nat_alt)
  have l: "unat (word_of_nat (length out) :: u64) = length out" using assms(3) by (simp add: unat_of_nat_mod)
  have f: "tfp_format vsnprintf_putcf format ap ?d = Some (va, fold vsnprintf_putcf out ?d)"
    using tfp_format_fold [of vsnprintf_putcf format ap "[]" ?d] assms(1) by simp
  have u: "ucast (word_of_nat (length out) :: u64) = (word_of_nat (length out) :: u32)"
    by (simp add: word_unat_eq_iff unat_ucast_mod unat_of_nat_mod mod_mod_cancel)
  define n where "n = min (length out) (unat sz - 1)"
  define str' where "str' = (\<lambda>i. if i < length out \<and> i < unat sz - 1 then out ! i else str i)(n := NUL)"
  have "unat (if (word_of_nat (length out) :: u64) < sz - 1 then word_of_nat (length out) else sz - 1) = n"
    using l sz by (auto simp: n_def word_less_nat_alt)
  moreover have "fold vsnprintf_putcf out ?d = \<lparr>dest_capacity = sz - 1,
      dest = (\<lambda>i. if i < length out \<and> i < unat sz - 1 then out ! i else str i), num_chars = word_of_nat (length out)\<rparr>"
    using vsnprintf_fold [of ?d out] assms(3) sz(1) by (simp cong: if_cong)
  moreover have "\<not> sz < 1" using assms(2) by (simp only: not_less)
  ultimately have "tfp_vsnprintf str sz format ap = Some (str', word_of_nat (length out))"
    using f by (simp add: tfp_vsnprintf_def str'_def u cong: if_cong split del: if_split)
  moreover have "map str' [0..<n] = take n out"
    by (rule nth_equalityI) (auto simp: n_def str'_def)
  ultimately show ?thesis
    using sz(2) unfolding Let_def n_def [symmetric] by (auto simp: str'_def n_def)
qed

theorem vsnprintf_bounded_witness:
  "\<forall>str. \<exists>str'. tfp_vsnprintf str 4 ''a=%d'' [Word 15] = Some (str', 4) \<and>
     map str' [0..<3] = ''a=1'' \<and> str' 3 = NUL \<and> str' 4 = str 4"
proof
  fix str
  have "num_string 10 False 15 = ''15''" by code_simp
  moreover have "tfp_format emit ''%d'' [Word 15] ''a='' = Some ([], fold emit (signed_string 15) ''a='')"
    using printf_number_formats [of emit 15 "''a=''"] by simp
  ultimately have "tfp_format emit ''a=%d'' [Word 15] [] = Some ([], ''a=15'')"
    by (simp add: emit_def signed_string_def)
  then show "\<exists>str'. tfp_vsnprintf str 4 ''a=%d'' [Word 15] = Some (str', 4) \<and>
     map str' [0..<3] = ''a=1'' \<and> str' 3 = NUL \<and> str' 4 = str 4"
    using vsnprintf_bounded [of "''a=%d''" "[Word 15]" "[]" "''a=15''" 4 str]
    by (auto simp: Let_def numeral_3_eq_3 simp del: upt_rec_numeral)
qed

end
