(* ===== verification/Dmac.thy ===== *)
theory Dmac
  imports Iomem Plic Sysctl
begin

text \<open>
  The DMA controller driver \<open>lib/drivers/dmac.c\<close> with \<open>FIX_CACHE\<close> on, as \<open>utils.h\<close> has it: a buffer in
  cached memory is replaced by a bounce buffer from \<open>iomem_malloc\<close>, filled before the transfer (source) or
  copied back when the transfer is over (destination).  The registers that the code takes apart into bit-fields are records
  of the fields it uses; \<open>chen\<close>, \<open>cfg\<close> and the interrupt registers, which it also reads as a whole, are words.
  Addresses are integers, memory is a function from addresses to bytes.  \<open>hw\<close> is what the controller does to the
  machine between two polls of a waiting loop.  Channel numbers are naturals below 6.
\<close>

subsection \<open>Registers\<close>

record dmac_ch_ctl =
  sms :: "1 word"
  dms :: "1 word"
  sinc :: "1 word"
  dinc :: "1 word"
  src_tr_width :: "3 word"
  dst_tr_width :: "3 word"
  src_msize :: "4 word"
  dst_msize :: "4 word"
  src_stat_en :: "1 word"
  dst_stat_en :: "1 word"
  ioc_blktfr :: "1 word"
  shadowreg_or_lli_last :: "1 word"
  shadowreg_or_lli_valid :: "1 word"

record dmac_ch_cfg =
  src_multblk_type :: "2 word"
  dst_multblk_type :: "2 word"
  tt_fc :: "3 word"
  hs_sel_src :: "1 word"
  hs_sel_dst :: "1 word"
  src_hwhs_pol :: "1 word"
  dst_hwhs_pol :: "1 word"
  src_per :: "4 word"
  dst_per :: "4 word"
  ch_prior :: "3 word"

record dmac_ch_llp =
  lms :: "1 word"
  loc :: "58 word"

record dmac_channel =
  sar :: u64
  dar :: u64
  block_ts :: u64
  ctl :: dmac_ch_ctl
  ch_cfg :: dmac_ch_cfg
  llp :: dmac_ch_llp
  blk_tfr :: u64
  axi_id :: u64
  intstatus_en :: u64
  intstatus :: u64
  intclear :: u64

record dmac_regs =
  dmac_id :: u64
  compver :: u64
  cfg :: u64
  chen :: u64
  com_intclear :: u64
  com_intstatus_en :: u64
  com_intsignal_en :: u64
  dmac_reset :: u64
  dmac_chans :: "nat \<Rightarrow> dmac_channel"

text \<open>A null pointer is address 0.\<close>

record 'cb dmac_context =
  dmac_channel_num :: nat
  dest_buffer :: int
  src_malloc :: int
  dest_malloc :: int
  buf_len :: int
  dma_callback :: "'cb option"
  dma_ctx :: nat

record 'cb dma =
  regs :: dmac_regs
  context_of :: "nat \<Rightarrow> 'cb dmac_context"
  pool :: iomem
  mem :: "int \<Rightarrow> u8"

definition DMAC_CHANNEL_MAX :: nat where [simp]: "DMAC_CHANNEL_MAX = 6"
definition LAST_ROW :: int where "LAST_ROW = - 1"

datatype dmac_src_dst_select = DMAC_SRC | DMAC_DST | DMAC_SRC_DST
datatype dmac_master_number = DMAC_MASTER1 | DMAC_MASTER2
datatype dmac_sw_hw_hs_select = DMAC_HS_HARDWARE | DMAC_HS_SOFTWARE
datatype dmac_transfer_flow = DMAC_MEM2MEM_DMA | DMAC_MEM2PRF_DMA | DMAC_PRF2MEM_DMA | DMAC_PRF2PRF_DMA
  | DMAC_PRF2MEM_PRF | DMAC_PRF2PRF_SRCPRF | DMAC_MEM2PRF_PRF | DMAC_PRF2PRF_DSTPRF
datatype dmac_burst_trans_length = DMAC_MSIZE_1 | DMAC_MSIZE_4 | DMAC_MSIZE_8 | DMAC_MSIZE_16 | DMAC_MSIZE_32
  | DMAC_MSIZE_64 | DMAC_MSIZE_128 | DMAC_MSIZE_256
datatype dmac_address_increment = DMAC_ADDR_INCREMENT | DMAC_ADDR_NOCHANGE
datatype dmac_transfer_width = DMAC_TRANS_WIDTH_8 | DMAC_TRANS_WIDTH_16 | DMAC_TRANS_WIDTH_32 | DMAC_TRANS_WIDTH_64
  | DMAC_TRANS_WIDTH_128 | DMAC_TRANS_WIDTH_256
datatype dmac_multiblk_transfer_type = CONTIGUOUS | RELOAD | SHADOWREGISTER | LINKEDLIST

primrec master_val :: "dmac_master_number \<Rightarrow> 'a::len word" where
  "master_val DMAC_MASTER1 = 0" | "master_val DMAC_MASTER2 = 1"
primrec hs_val :: "dmac_sw_hw_hs_select \<Rightarrow> 1 word" where
  "hs_val DMAC_HS_HARDWARE = 0" | "hs_val DMAC_HS_SOFTWARE = 1"
primrec flow_val :: "dmac_transfer_flow \<Rightarrow> 3 word" where
  "flow_val DMAC_MEM2MEM_DMA = 0" | "flow_val DMAC_MEM2PRF_DMA = 1" | "flow_val DMAC_PRF2MEM_DMA = 2"
| "flow_val DMAC_PRF2PRF_DMA = 3" | "flow_val DMAC_PRF2MEM_PRF = 4" | "flow_val DMAC_PRF2PRF_SRCPRF = 5"
| "flow_val DMAC_MEM2PRF_PRF = 6" | "flow_val DMAC_PRF2PRF_DSTPRF = 7"
primrec msize_val :: "dmac_burst_trans_length \<Rightarrow> 'a::len word" where
  "msize_val DMAC_MSIZE_1 = 0" | "msize_val DMAC_MSIZE_4 = 1" | "msize_val DMAC_MSIZE_8 = 2" | "msize_val DMAC_MSIZE_16 = 3"
| "msize_val DMAC_MSIZE_32 = 4" | "msize_val DMAC_MSIZE_64 = 5" | "msize_val DMAC_MSIZE_128 = 6" | "msize_val DMAC_MSIZE_256 = 7"
primrec inc_val :: "dmac_address_increment \<Rightarrow> 1 word" where
  "inc_val DMAC_ADDR_INCREMENT = 0" | "inc_val DMAC_ADDR_NOCHANGE = 1"
primrec width_val :: "dmac_transfer_width \<Rightarrow> nat" where
  "width_val DMAC_TRANS_WIDTH_8 = 0" | "width_val DMAC_TRANS_WIDTH_16 = 1" | "width_val DMAC_TRANS_WIDTH_32 = 2"
| "width_val DMAC_TRANS_WIDTH_64 = 3" | "width_val DMAC_TRANS_WIDTH_128 = 4" | "width_val DMAC_TRANS_WIDTH_256 = 5"
primrec multblk_val :: "dmac_multiblk_transfer_type \<Rightarrow> 2 word" where
  "multblk_val CONTIGUOUS = 0" | "multblk_val RELOAD = 1" | "multblk_val SHADOWREGISTER = 2" | "multblk_val LINKEDLIST = 3"

record dmac_channel_config =
  c_sar :: u64
  c_dar :: u64
  ctl_sms :: u8
  ctl_dms :: u8
  ctl_src_msize :: u8
  ctl_drc_msize :: u8
  ctl_sinc :: u8
  ctl_dinc :: u8
  ctl_src_tr_width :: u8
  ctl_dst_tr_width :: u8
  ctl_ioc_blktfr :: u8
  ctl_src_stat_en :: u8
  ctl_dst_stat_en :: u8
  cfg_dst_per :: u8
  cfg_src_per :: u8
  cfg_src_hs_pol :: u8
  cfg_dst_hs_pol :: u8
  cfg_hs_sel_src :: u8
  cfg_hs_sel_dst :: u8
  cfg_src_multblk_type :: u64
  cfg_dst_multblk_type :: u64
  llp_loc :: u64
  llp_lms :: u8
  ctl_block_ts :: u64
  ctl_tt_fc :: u8
  cfg_ch_prior :: u8

record dmac_lli_item =
  li_sar :: u64
  li_dar :: u64
  li_ch_block_ts :: u64
  li_llp :: dmac_ch_llp
  li_ctl :: dmac_ch_ctl
  li_sstat :: u64
  li_dstat :: u64

abbreviation chan :: "nat \<Rightarrow> 'cb dma \<Rightarrow> dmac_channel" where
  "chan n w \<equiv> dmac_chans (regs w) n"

definition upd_regs :: "(dmac_regs \<Rightarrow> dmac_regs) \<Rightarrow> 'cb dma \<Rightarrow> 'cb dma" where
  "upd_regs f w = w\<lparr>regs := f (regs w)\<rparr>"

definition upd_chan :: "nat \<Rightarrow> (dmac_channel \<Rightarrow> dmac_channel) \<Rightarrow> 'cb dma \<Rightarrow> 'cb dma" where
  "upd_chan n f = upd_regs (\<lambda>r. r\<lparr>dmac_chans := (dmac_chans r)(n := f (dmac_chans r n))\<rparr>)"

definition upd_context :: "nat \<Rightarrow> ('cb dmac_context \<Rightarrow> 'cb dmac_context) \<Rightarrow> 'cb dma \<Rightarrow> 'cb dma" where
  "upd_context n f w = w\<lparr>context_of := (context_of w)(n := f (context_of w n))\<rparr>"

definition memcpy :: "int \<Rightarrow> int \<Rightarrow> int \<Rightarrow> (int \<Rightarrow> u8) \<Rightarrow> int \<Rightarrow> u8" where
  "memcpy dest src n m = (\<lambda>a. if dest \<le> a \<and> a < dest + n then m (src + (a - dest)) else m a)"

definition is_memory :: "int \<Rightarrow> bool" where
  "is_memory address \<longleftrightarrow>
     (address \<ge> 0x80000000 \<and> address < 0x80000000 + 6 * 1024 * 1024) \<or>
     (address \<ge> 0x40000000 \<and> address < 0x40000000 + 8 * 1024 * 1024) \<or> address = 0x50450040"

definition is_memory_cache :: "int \<Rightarrow> bool" where
  "is_memory_cache address \<longleftrightarrow> address \<ge> 0x80000000 \<and> address < 0x80000000 + 6 * 1024 * 1024"

subsection \<open>Controller\<close>

definition dmac_read_id :: "'cb dma \<Rightarrow> u64" where "dmac_read_id w = dmac_id (regs w)"
definition dmac_read_version :: "'cb dma \<Rightarrow> u64" where "dmac_read_version w = compver (regs w)"
definition dmac_read_channel_id :: "nat \<Rightarrow> 'cb dma \<Rightarrow> u64" where "dmac_read_channel_id n w = axi_id (chan n w)"

text \<open>Bit 0 is \<open>dmac_en\<close>, bit 1 \<open>int_en\<close>.\<close>

definition dmac_enable :: "'cb dma \<Rightarrow> 'cb dma" where
  [dev_simps]: "dmac_enable = upd_regs (\<lambda>r. r\<lparr>cfg := cfg r OR 3\<rparr>)"

definition dmac_disable :: "'cb dma \<Rightarrow> 'cb dma" where
  [dev_simps]: "dmac_disable = upd_regs (\<lambda>r. r\<lparr>cfg := cfg r AND NOT 3\<rparr>)"

definition src_transaction_complete_int_enable :: "nat \<Rightarrow> 'cb dma \<Rightarrow> 'cb dma" where
  "src_transaction_complete_int_enable n = upd_chan n (\<lambda>c. c\<lparr>intstatus_en := intstatus_en c OR 8\<rparr>)"

text \<open>The enable bit of channel \<open>n\<close> is bit \<open>n\<close>, the bit that lets it be written is bit \<open>8 + n\<close>.\<close>

definition dmac_channel_enable :: "nat \<Rightarrow> 'cb dma \<Rightarrow> 'cb dma" where
  "dmac_channel_enable n w =
     (if n < 6 then upd_regs (\<lambda>r. r\<lparr>chen := chen r OR push_bit n 1 OR push_bit (8 + n) 1\<rparr>) w else w)"

definition dmac_channel_disable :: "nat \<Rightarrow> 'cb dma \<Rightarrow> 'cb dma" where
  "dmac_channel_disable n w =
     (if n < 6 then upd_regs (\<lambda>r. r\<lparr>chen := (chen r AND NOT (push_bit n 1)) OR push_bit (8 + n) 1\<rparr>) w else w)"

definition dmac_check_channel_busy :: "nat \<Rightarrow> 'cb dma \<Rightarrow> int" where
  "dmac_check_channel_busy n w = (if n < 6 \<and> bit (chen (regs w)) n then 1 else 0)"

definition dmac_set_list_master_select ::
  "nat \<Rightarrow> dmac_src_dst_select \<Rightarrow> dmac_master_number \<Rightarrow> 'cb dma \<Rightarrow> int \<times> 'cb dma" where
  "dmac_set_list_master_select n sd_sel mst_num w =
     (let ret = dmac_check_channel_busy n w in
      if ret = 0 then
        (ret, upd_chan n (\<lambda>c. c\<lparr>ctl :=
           (let k = ctl c;
                k = (if sd_sel = DMAC_SRC \<or> sd_sel = DMAC_SRC_DST then k\<lparr>sms := master_val mst_num\<rparr> else k)
            in if sd_sel = DMAC_DST \<or> sd_sel = DMAC_SRC_DST then k\<lparr>dms := master_val mst_num\<rparr> else k)\<rparr>) w)
      else (ret, w))"

definition dmac_enable_common_interrupt_status :: "'cb dma \<Rightarrow> 'cb dma" where
  "dmac_enable_common_interrupt_status = upd_regs (\<lambda>r. r\<lparr>com_intstatus_en := com_intstatus_en r OR 0x10F\<rparr>)"

definition dmac_enable_common_interrupt_signal :: "'cb dma \<Rightarrow> 'cb dma" where
  "dmac_enable_common_interrupt_signal = upd_regs (\<lambda>r. r\<lparr>com_intsignal_en := com_intsignal_en r OR 0x10F\<rparr>)"

definition dmac_enable_channel_interrupt :: "nat \<Rightarrow> 'cb dma \<Rightarrow> 'cb dma" where
  [dev_simps]: "dmac_enable_channel_interrupt n = upd_chan n (\<lambda>c. c\<lparr>intclear := 0xFFFFFFFF, intstatus_en := 2\<rparr>)"

definition dmac_disable_channel_interrupt :: "nat \<Rightarrow> 'cb dma \<Rightarrow> 'cb dma" where
  [dev_simps]: "dmac_disable_channel_interrupt n = upd_chan n (\<lambda>c. c\<lparr>intstatus_en := 0\<rparr>)"

definition dmac_channel_interrupt_clear :: "nat \<Rightarrow> 'cb dma \<Rightarrow> 'cb dma" where
  [dev_simps]: "dmac_channel_interrupt_clear n = upd_chan n (\<lambda>c. c\<lparr>intclear := 0xFFFFFFFF\<rparr>)"

subsection \<open>Channel settings\<close>

definition dmac_set_channel_config :: "nat \<Rightarrow> dmac_channel_config \<Rightarrow> 'cb dma \<Rightarrow> int \<times> 'cb dma" where
  "dmac_set_channel_config n p w =
     (if ctl_sms p > master_val DMAC_MASTER2 then (-1, w)
      else if ctl_dms p > master_val DMAC_MASTER2 then (-1, w)
      else if ctl_src_msize p > msize_val DMAC_MSIZE_256 then (-1, w)
      else if ctl_drc_msize p > msize_val DMAC_MSIZE_256 then (-1, w)
      else (0, upd_chan n (\<lambda>c. c\<lparr>
        ch_cfg := (ch_cfg c)\<lparr>hs_sel_src := ucast (cfg_hs_sel_src p), hs_sel_dst := ucast (cfg_hs_sel_dst p),
          src_hwhs_pol := ucast (cfg_src_hs_pol p), dst_hwhs_pol := ucast (cfg_dst_hs_pol p),
          src_per := ucast (cfg_src_per p), dst_per := ucast (cfg_dst_per p), ch_prior := ucast (cfg_ch_prior p),
          tt_fc := ucast (ctl_tt_fc p), src_multblk_type := ucast (cfg_src_multblk_type p),
          dst_multblk_type := ucast (cfg_dst_multblk_type p)\<rparr>,
        block_ts := ctl_block_ts p, sar := c_sar p, dar := c_dar p,
        llp := (llp c)\<lparr>loc := ucast (llp_loc p), lms := ucast (llp_lms p)\<rparr>,
        ctl := (ctl c)\<lparr>sms := ucast (ctl_sms p), dms := ucast (ctl_dms p), sinc := ucast (ctl_sinc p),
          dinc := ucast (ctl_dinc p), src_tr_width := ucast (ctl_src_tr_width p), dst_tr_width := ucast (ctl_dst_tr_width p),
          src_msize := ucast (ctl_src_msize p), dst_msize := ucast (ctl_drc_msize p),
          ioc_blktfr := ucast (ctl_ioc_blktfr p)\<rparr>\<rparr>) w))"

definition dmac_get_channel_config :: "nat \<Rightarrow> dmac_channel_config \<Rightarrow> 'cb dma \<Rightarrow> int \<times> dmac_channel_config" where
  "dmac_get_channel_config n p w =
     (if n > 3 then (-1, p)
      else
       (let k = ctl (chan n w); g = ch_cfg (chan n w); l = llp (chan n w) in
        (0, p\<lparr>ctl_sms := ucast (sms k), ctl_dms := ucast (dms k), ctl_sinc := ucast (sinc k), ctl_dinc := ucast (dinc k),
              ctl_src_tr_width := ucast (src_tr_width k), ctl_dst_tr_width := ucast (dst_tr_width k),
              ctl_src_msize := ucast (src_msize k), ctl_drc_msize := ucast (dst_msize k), ctl_ioc_blktfr := ucast (ioc_blktfr k),
              cfg_hs_sel_src := ucast (hs_sel_src g), cfg_hs_sel_dst := ucast (hs_sel_dst g),
              cfg_src_hs_pol := ucast (src_hwhs_pol g), cfg_dst_hs_pol := ucast (dst_hwhs_pol g),
              cfg_src_per := ucast (src_per g), cfg_dst_per := ucast (dst_per g), cfg_ch_prior := ucast (ch_prior g),
              cfg_src_multblk_type := ucast (src_multblk_type g), cfg_dst_multblk_type := ucast (dst_multblk_type g),
              c_sar := sar (chan n w), c_dar := dar (chan n w), llp_loc := ucast (loc l), llp_lms := ucast (lms l),
              ctl_block_ts := block_ts (chan n w)\<rparr>)))"

text \<open>\<open>iomem_malloc\<close> on the pool, its null pointer an address 0.\<close>

definition io_malloc :: "(int \<Rightarrow> int \<Rightarrow> int) \<Rightarrow> u32 \<Rightarrow> 'cb dma \<Rightarrow> (int \<times> 'cb dma) option" where
  "io_malloc brk z w =
     (case iomem_alloc brk z (pool w) of
        None \<Rightarrow> None
      | Some (q, s) \<Rightarrow> Some (case q of None \<Rightarrow> 0 | Some p \<Rightarrow> p, w\<lparr>pool := s\<rparr>))"

definition io_free :: "(int \<Rightarrow> int \<Rightarrow> int) \<Rightarrow> int \<Rightarrow> 'cb dma \<Rightarrow> 'cb dma option" where
  "io_free brk p w = (case iomem_release brk p (pool w) of None \<Rightarrow> None | Some s \<Rightarrow> Some (w\<lparr>pool := s\<rparr>))"

text \<open>The bounce buffers: where the transfer really reads and writes.\<close>

definition transfer_len :: "dmac_address_increment \<Rightarrow> dmac_transfer_width \<Rightarrow> u32 \<Rightarrow> u32" where
  "transfer_len inc tr_width blockSize =
     (if inc = DMAC_ADDR_NOCHANGE then push_bit (width_val tr_width) 1
      else blockSize * push_bit (width_val tr_width) 1)"

definition bounce_src ::
  "(int \<Rightarrow> int \<Rightarrow> int) \<Rightarrow> nat \<Rightarrow> int \<Rightarrow> u32 \<Rightarrow> 'cb dma \<Rightarrow> (int \<times> 'cb dma) option" where
  "bounce_src brk n src len w =
     (if is_memory_cache src then
        (case io_malloc brk len w of
           None \<Rightarrow> None
         | Some (src_io, w) \<Rightarrow>
             Some (src_io, upd_context n (\<lambda>x. x\<lparr>src_malloc := src_io\<rparr>) (w\<lparr>mem := memcpy src_io src (uint len) (mem w)\<rparr>)))
      else Some (src, w))"

definition bounce_dest ::
  "(int \<Rightarrow> int \<Rightarrow> int) \<Rightarrow> nat \<Rightarrow> int \<Rightarrow> u32 \<Rightarrow> 'cb dma \<Rightarrow> (int \<times> 'cb dma) option" where
  "bounce_dest brk n dest len w =
     (if is_memory_cache dest then
        (case io_malloc brk len w of
           None \<Rightarrow> None
         | Some (dest_io, w) \<Rightarrow>
             Some (dest_io, upd_context n (\<lambda>x. x\<lparr>buf_len := uint len, dest_malloc := dest_io, dest_buffer := dest\<rparr>) w))
      else Some (dest, w))"

definition flow_control :: "int \<Rightarrow> int \<Rightarrow> dmac_transfer_flow" where
  "flow_control src dest =
     (if \<not> is_memory src \<and> \<not> is_memory dest then DMAC_PRF2PRF_DMA
      else if is_memory src \<and> \<not> is_memory dest then DMAC_MEM2PRF_DMA
      else if \<not> is_memory src \<and> is_memory dest then DMAC_PRF2MEM_DMA
      else DMAC_MEM2MEM_DMA)"

definition dmac_set_channel_param ::
  "(int \<Rightarrow> int \<Rightarrow> int) \<Rightarrow> nat \<Rightarrow> int \<Rightarrow> int \<Rightarrow> dmac_address_increment \<Rightarrow> dmac_address_increment \<Rightarrow>
   dmac_burst_trans_length \<Rightarrow> dmac_transfer_width \<Rightarrow> u32 \<Rightarrow> 'cb dma \<Rightarrow> 'cb dma option" where
  "dmac_set_channel_param brk n src dest src_inc dest_inc burst_size trans_width blockSize w =
     (case bounce_src brk n src (transfer_len src_inc trans_width blockSize) w of
        None \<Rightarrow> None
      | Some (src_io, w) \<Rightarrow>
         (case bounce_dest brk n dest (transfer_len dest_inc trans_width blockSize) w of
            None \<Rightarrow> None
          | Some (dest_io, w) \<Rightarrow>
              Some (upd_chan n (\<lambda>c. c\<lparr>
                ch_cfg := (ch_cfg c)\<lparr>tt_fc := flow_val (flow_control src dest),
                  hs_sel_src := hs_val (if is_memory src then DMAC_HS_SOFTWARE else DMAC_HS_HARDWARE),
                  hs_sel_dst := hs_val (if is_memory dest then DMAC_HS_SOFTWARE else DMAC_HS_HARDWARE),
                  src_per := word_of_nat n, dst_per := word_of_nat n, src_multblk_type := 0, dst_multblk_type := 0\<rparr>,
                sar := word_of_int src_io, dar := word_of_int dest_io,
                ctl := (ctl c)\<lparr>sms := master_val DMAC_MASTER1, dms := master_val DMAC_MASTER2,
                  sinc := inc_val src_inc, dinc := inc_val dest_inc,
                  src_tr_width := word_of_nat (width_val trans_width), dst_tr_width := word_of_nat (width_val trans_width),
                  src_msize := msize_val burst_size, dst_msize := msize_val burst_size\<rparr>,
                block_ts := ucast (blockSize - 1)\<rparr>) w)))"

definition dmac_set_address :: "nat \<Rightarrow> u64 \<Rightarrow> u64 \<Rightarrow> 'cb dma \<Rightarrow> 'cb dma" where
  "dmac_set_address n src_addr dst_addr = upd_chan n (\<lambda>c. c\<lparr>sar := src_addr, dar := dst_addr\<rparr>)"

definition dmac_set_block_ts :: "nat \<Rightarrow> u32 \<Rightarrow> 'cb dma \<Rightarrow> 'cb dma" where
  "dmac_set_block_ts n block_size = upd_chan n (\<lambda>c. c\<lparr>block_ts := ucast (block_size AND 0x3FFFFF)\<rparr>)"

definition dmac_source_control ::
  "nat \<Rightarrow> dmac_master_number \<Rightarrow> dmac_address_increment \<Rightarrow> dmac_transfer_width \<Rightarrow> dmac_burst_trans_length \<Rightarrow> 'cb dma \<Rightarrow> 'cb dma" where
  "dmac_source_control n master_select address_mode tr_width burst_length = upd_chan n (\<lambda>c. c\<lparr>ctl :=
     (ctl c)\<lparr>sms := master_val master_select, sinc := inc_val address_mode,
       src_tr_width := word_of_nat (width_val tr_width), src_msize := msize_val burst_length\<rparr>\<rparr>)"

definition dmac_master_control ::
  "nat \<Rightarrow> dmac_master_number \<Rightarrow> dmac_address_increment \<Rightarrow> dmac_transfer_width \<Rightarrow> dmac_burst_trans_length \<Rightarrow> 'cb dma \<Rightarrow> 'cb dma" where
  "dmac_master_control n master_select address_mode tr_width burst_length = upd_chan n (\<lambda>c. c\<lparr>ctl :=
     (ctl c)\<lparr>dms := master_val master_select, dinc := inc_val address_mode,
       dst_tr_width := word_of_nat (width_val tr_width), dst_msize := msize_val burst_length\<rparr>\<rparr>)"

definition dmac_set_source_transfer_control ::
  "nat \<Rightarrow> dmac_multiblk_transfer_type \<Rightarrow> dmac_sw_hw_hs_select \<Rightarrow> 'cb dma \<Rightarrow> 'cb dma" where
  "dmac_set_source_transfer_control n transfer_type handshak_select = upd_chan n (\<lambda>c. c\<lparr>ch_cfg :=
     (ch_cfg c)\<lparr>src_multblk_type := multblk_val transfer_type, hs_sel_src := hs_val handshak_select\<rparr>\<rparr>)"

definition dmac_set_destination_transfer_control ::
  "nat \<Rightarrow> dmac_multiblk_transfer_type \<Rightarrow> dmac_sw_hw_hs_select \<Rightarrow> 'cb dma \<Rightarrow> 'cb dma" where
  "dmac_set_destination_transfer_control n transfer_type handshak_select = upd_chan n (\<lambda>c. c\<lparr>ch_cfg :=
     (ch_cfg c)\<lparr>dst_multblk_type := multblk_val transfer_type, hs_sel_dst := hs_val handshak_select\<rparr>\<rparr>)"

definition dmac_set_flow_control :: "nat \<Rightarrow> dmac_transfer_flow \<Rightarrow> 'cb dma \<Rightarrow> 'cb dma" where
  "dmac_set_flow_control n fc = upd_chan n (\<lambda>c. c\<lparr>ch_cfg := (ch_cfg c)\<lparr>tt_fc := flow_val fc\<rparr>\<rparr>)"

definition dmac_set_linked_list_addr_point :: "nat \<Rightarrow> u64 \<Rightarrow> 'cb dma \<Rightarrow> 'cb dma" where
  "dmac_set_linked_list_addr_point n addr = upd_chan n (\<lambda>c. c\<lparr>llp := (llp c)\<lparr>loc := ucast addr\<rparr>\<rparr>)"

subsection \<open>Initialisation\<close>

text \<open>\<open>while(dmac_reset.reset.rst)\<close>, after the first read, and \<open>while(readq(&dmac->cfg))\<close>.\<close>

partial_function (option) dmac_wait_reset :: "('cb dma \<Rightarrow> 'cb dma) \<Rightarrow> 'cb dma \<Rightarrow> 'cb dma option" where
  "dmac_wait_reset hw w = (if bit (dmac_reset (regs w)) 0 then dmac_wait_reset hw (hw w) else Some w)"

partial_function (option) dmac_wait_cfg :: "('cb dma \<Rightarrow> 'cb dma) \<Rightarrow> 'cb dma \<Rightarrow> 'cb dma option" where
  "dmac_wait_cfg hw w = (if cfg (regs w) \<noteq> 0 then dmac_wait_cfg hw (hw w) else Some w)"

definition dmac_init :: "('cb dma \<Rightarrow> 'cb dma) \<Rightarrow> sysctl \<times> 'cb dma \<Rightarrow> (sysctl \<times> 'cb dma) option" where
  "dmac_init hw s = (case s of (sy, w) \<Rightarrow>
     (let sy = snd (sysctl_clock_enable SYSCTL_CLOCK_DMA sy);
          w = upd_regs (\<lambda>r. r\<lparr>dmac_reset := dmac_reset r OR 1\<rparr>) w
      in case dmac_wait_reset hw w of
           None \<Rightarrow> None
         | Some w \<Rightarrow>
            (let w = upd_regs (\<lambda>r. r\<lparr>com_intclear := com_intclear r OR 0x10F\<rparr>) w;
                 w = upd_regs (\<lambda>r. r\<lparr>cfg := cfg r AND NOT 3\<rparr>) w
             in case dmac_wait_cfg hw w of
                  None \<Rightarrow> None
                | Some w \<Rightarrow>
                   (let w = upd_regs (\<lambda>r. r\<lparr>chen := chen r AND NOT 0xF\<rparr>) w;
                        w = fold dmac_disable_channel_interrupt [0..<DMAC_CHANNEL_MAX] w
                    in Some (sy, dmac_enable w)))))"

subsection \<open>Linked lists\<close>

text \<open>The links of the nodes of a \<open>list_head_t\<close> list, by the address of the node.\<close>

record list_links =
  next_of :: "int \<Rightarrow> int"
  prev_of :: "int \<Rightarrow> int"

definition list_add :: "int \<Rightarrow> int \<Rightarrow> int \<Rightarrow> list_links \<Rightarrow> list_links" where
  "list_add new prev nxt l =
     (let l = l\<lparr>prev_of := (prev_of l)(nxt := new)\<rparr>;
          l = l\<lparr>next_of := (next_of l)(new := nxt)\<rparr>;
          l = l\<lparr>prev_of := (prev_of l)(new := prev)\<rparr>
      in l\<lparr>next_of := (next_of l)(prev := new)\<rparr>)"

definition list_add_tail :: "int \<Rightarrow> int \<Rightarrow> list_links \<Rightarrow> list_links" where
  "list_add_tail new head l = list_add new (prev_of l head) head l"

definition INIT_LIST_HEAD :: "int \<Rightarrow> list_links \<Rightarrow> list_links" where
  "INIT_LIST_HEAD lst l = l\<lparr>next_of := (next_of l)(lst := lst), prev_of := (prev_of l)(lst := lst)\<rparr>"

text \<open>The control word of a block, for a list item or for the shadow registers.\<close>

definition block_ctl :: "bool \<Rightarrow> dmac_channel_config \<Rightarrow> dmac_ch_ctl \<Rightarrow> dmac_ch_ctl" where
  "block_ctl fin p k =
     k\<lparr>sms := ucast (ctl_sms p), dms := ucast (ctl_dms p), sinc := ucast (ctl_sinc p), dinc := ucast (ctl_dinc p),
       src_tr_width := ucast (ctl_src_tr_width p), dst_tr_width := ucast (ctl_dst_tr_width p),
       src_msize := ucast (ctl_src_msize p), dst_msize := ucast (ctl_drc_msize p),
       src_stat_en := ucast (ctl_src_stat_en p), dst_stat_en := ucast (ctl_dst_stat_en p),
       shadowreg_or_lli_valid := 1, shadowreg_or_lli_last := (if fin then 1 else 0)\<rparr>"

text \<open>The items are at \<open>base\<close>, 64 bytes each; \<open>None\<close> is a row outside the array.\<close>

definition dmac_link_list_item ::
  "nat \<Rightarrow> nat \<Rightarrow> int \<Rightarrow> int \<Rightarrow> dmac_channel_config \<Rightarrow> 'cb dma \<Rightarrow> dmac_lli_item list \<Rightarrow> dmac_lli_item list option" where
  "dmac_link_list_item n row last_row base p w items =
     (if row \<ge> length items then None
      else Some (items[row := (items ! row)\<lparr>li_sar := c_sar p, li_dar := c_dar p,
        li_ctl := block_ctl (last_row = LAST_ROW) p (ctl (chan n w)),
        li_ch_block_ts := ctl_block_ts p, li_sstat := 0, li_dstat := 0,
        li_llp := (llp (chan n w))\<lparr>loc := (if last_row \<noteq> LAST_ROW
          then ucast (drop_bit 6 (word_of_int (base + 64 * (int row + 1)) :: u64)) else 0)\<rparr>\<rparr>]))"

partial_function (option) dmac_wait_shadow :: "('cb dma \<Rightarrow> 'cb dma) \<Rightarrow> nat \<Rightarrow> 'cb dma \<Rightarrow> 'cb dma option" where
  "dmac_wait_shadow hw n w =
     (if shadowreg_or_lli_valid (ctl (chan n w)) \<noteq> 0 then dmac_wait_shadow hw n (hw w) else Some w)"

definition dmac_update_shandow_register ::
  "('cb dma \<Rightarrow> 'cb dma) \<Rightarrow> nat \<Rightarrow> int \<Rightarrow> dmac_channel_config \<Rightarrow> 'cb dma \<Rightarrow> 'cb dma option" where
  "dmac_update_shandow_register hw n last_block p w =
     (case dmac_wait_shadow hw n w of
        None \<Rightarrow> None
      | Some w \<Rightarrow> Some (upd_chan n (\<lambda>c. c\<lparr>sar := c_sar p, dar := c_dar p, block_ts := ctl_block_ts p,
          ctl := block_ctl (last_block = LAST_ROW) p (ctl c), blk_tfr := 0\<rparr>) w))"

definition dmac_set_shadow_invalid_flag :: "nat \<Rightarrow> 'cb dma \<Rightarrow> 'cb dma" where
  "dmac_set_shadow_invalid_flag n =
     upd_chan n (\<lambda>c. c\<lparr>ctl := (ctl c)\<lparr>shadowreg_or_lli_valid := 1, shadowreg_or_lli_last := 0\<rparr>\<rparr>)"

subsection \<open>Transfers\<close>

definition dmac_is_done :: "nat \<Rightarrow> 'cb dma \<Rightarrow> int" where
  "dmac_is_done n w = (if intstatus (chan n w) AND 2 \<noteq> 0 then 1 else 0)"

definition dmac_is_idle :: "nat \<Rightarrow> 'cb dma \<Rightarrow> int" where
  "dmac_is_idle n w = (if drop_bit n (chen (regs w)) AND 1 \<noteq> 0 then 0 else 1)"

partial_function (option) dmac_poll_idle :: "('cb dma \<Rightarrow> 'cb dma) \<Rightarrow> nat \<Rightarrow> 'cb dma \<Rightarrow> 'cb dma option" where
  "dmac_poll_idle hw n w = (if dmac_is_idle n w = 0 then dmac_poll_idle hw n (hw w) else Some w)"

definition dmac_wait_idle :: "('cb dma \<Rightarrow> 'cb dma) \<Rightarrow> nat \<Rightarrow> 'cb dma \<Rightarrow> 'cb dma option" where
  "dmac_wait_idle hw n w = map_option (dmac_channel_interrupt_clear n) (dmac_poll_idle hw n w)"

definition dmac_set_single_mode ::
  "('cb dma \<Rightarrow> 'cb dma) \<Rightarrow> (int \<Rightarrow> int \<Rightarrow> int) \<Rightarrow> nat \<Rightarrow> int \<Rightarrow> int \<Rightarrow> dmac_address_increment \<Rightarrow> dmac_address_increment \<Rightarrow>
   dmac_burst_trans_length \<Rightarrow> dmac_transfer_width \<Rightarrow> u64 \<Rightarrow> 'cb dma \<Rightarrow> 'cb dma option" where
  "dmac_set_single_mode hw brk n src dest src_inc dest_inc burst_size trans_width block_size w =
     (case dmac_wait_idle hw n (dmac_channel_disable n (dmac_channel_interrupt_clear n w)) of
        None \<Rightarrow> None
      | Some w \<Rightarrow>
         (case dmac_set_channel_param brk n src dest src_inc dest_inc burst_size trans_width (ucast block_size) w of
            None \<Rightarrow> None
          | Some w \<Rightarrow> Some (dmac_channel_enable n (dmac_enable w))))"

text \<open>What ends a transfer: the bounce buffer is copied back, both buffers are freed.\<close>

definition return_dest :: "(int \<Rightarrow> int \<Rightarrow> int) \<Rightarrow> nat \<Rightarrow> 'cb dma \<Rightarrow> 'cb dma option" where
  "return_dest brk n w =
     (let x = context_of w n in
      if dest_buffer x \<noteq> 0 then
        map_option (upd_context n (\<lambda>x. x\<lparr>dest_malloc := 0, dest_buffer := 0, buf_len := 0\<rparr>))
          (io_free brk (dest_malloc x) (w\<lparr>mem := memcpy (dest_buffer x) (dest_malloc x) (buf_len x) (mem w)\<rparr>))
      else Some w)"

definition return_src :: "(int \<Rightarrow> int \<Rightarrow> int) \<Rightarrow> nat \<Rightarrow> 'cb dma \<Rightarrow> 'cb dma option" where
  "return_src brk n w =
     (let x = context_of w n in
      if src_malloc x \<noteq> 0 then map_option (upd_context n (\<lambda>x. x\<lparr>src_malloc := 0\<rparr>)) (io_free brk (src_malloc x) w)
      else Some w)"

definition dmac_wait_done :: "('cb dma \<Rightarrow> 'cb dma) \<Rightarrow> (int \<Rightarrow> int \<Rightarrow> int) \<Rightarrow> nat \<Rightarrow> 'cb dma \<Rightarrow> 'cb dma option" where
  "dmac_wait_done hw brk n w =
     Option.bind (dmac_wait_idle hw n w) (\<lambda>w. Option.bind (return_dest brk n w) (return_src brk n))"

definition dmac_set_src_dest_length :: "nat \<Rightarrow> int \<Rightarrow> int \<Rightarrow> u64 \<Rightarrow> 'cb dma \<Rightarrow> 'cb dma" where
  "dmac_set_src_dest_length n src dest len w =
     (let w = (if src \<noteq> 0 then upd_chan n (\<lambda>c. c\<lparr>sar := word_of_int src\<rparr>) w else w);
          w = (if dest \<noteq> 0 then upd_chan n (\<lambda>c. c\<lparr>dar := word_of_int dest\<rparr>) w else w);
          w = (if len > 0 then dmac_set_block_ts n (ucast (len - 1)) w else w)
      in dmac_channel_enable n w)"

text \<open>The context pointer of the interrupt handler is the number of the channel's context.\<close>

definition dmac_irq_callback ::
  "('cb \<Rightarrow> nat \<Rightarrow> 'cb dma \<Rightarrow> 'cb dma) \<Rightarrow> (int \<Rightarrow> int \<Rightarrow> int) \<Rightarrow> nat \<Rightarrow> 'cb dma \<Rightarrow> 'cb dma option" where
  "dmac_irq_callback run brk n w =
     Option.bind (return_dest brk n (dmac_channel_interrupt_clear (dmac_channel_num (context_of w n)) w)) (\<lambda>w.
     Option.bind (return_src brk n w) (\<lambda>w.
       Some (case dma_callback (context_of w n) of None \<Rightarrow> w | Some f \<Rightarrow> run f (dma_ctx (context_of w n)) w)))"

text \<open>The handlers in the interrupt controller: this one, and those of other drivers.\<close>

datatype 'h dma_handler = Dmac_irq_callback | Other_handler 'h

definition IRQN_DMA0_INTERRUPT :: nat where "IRQN_DMA0_INTERRUPT = 27"

definition dmac_irq_register ::
  "nat \<Rightarrow> nat \<Rightarrow> 'cb option \<Rightarrow> nat \<Rightarrow> u32 \<Rightarrow> 'cb dma \<times> 'h dma_handler plic \<Rightarrow> 'cb dma \<times> 'h dma_handler plic" where
  "dmac_irq_register core n cb ctx prio s = (case s of (w, p) \<Rightarrow>
     (let w = upd_context n (\<lambda>x. x\<lparr>dmac_channel_num := n, dma_callback := cb, dma_ctx := ctx\<rparr>) w;
          w = dmac_enable_channel_interrupt n w;
          irq = IRQN_DMA0_INTERRUPT + n;
          p = snd (plic_set_priority (int irq) prio p);
          p = plic_irq_register core irq (Some Dmac_irq_callback) n p;
          p = snd (plic_irq_enable core (int irq) p)
      in (w, p)))"

definition dmac_irq_unregister :: "nat \<Rightarrow> nat \<Rightarrow> 'cb dma \<times> 'h dma_handler plic \<Rightarrow> 'cb dma \<times> 'h dma_handler plic" where
  "dmac_irq_unregister core n s = (case s of (w, p) \<Rightarrow>
     (let w = upd_context n (\<lambda>x. x\<lparr>dma_callback := None, dma_ctx := 0\<rparr>) w;
          w = dmac_disable_channel_interrupt n w
      in (w, plic_irq_unregister core (IRQN_DMA0_INTERRUPT + n) p)))"

subsection \<open>A transfer between cached buffers\<close>

lemma idle_iff: "dmac_is_idle n w = (if bit (chen (regs w)) n then 0 else 1)"
proof -
  have "(drop_bit n x AND 1 \<noteq> 0) = bit x n" for x :: u64
    by (simp add: bit_iff_odd_drop_bit and_one_eq odd_iff_mod_2_eq_one)
  then show ?thesis by (simp add: dmac_is_idle_def)
qed

lemma poll_idle_iterate:
  assumes "\<forall>j<k. dmac_is_idle n ((hw ^^ j) w) = 0" "dmac_is_idle n ((hw ^^ k) w) \<noteq> 0"
  shows "dmac_poll_idle hw n w = Some ((hw ^^ k) w)"
  using assms
proof (induction k arbitrary: w)
  case 0
  then show ?case by (simp add: dmac_poll_idle.simps)
next
  case (Suc k)
  have "dmac_poll_idle hw n (hw w) = Some ((hw ^^ k) (hw w))"
    using Suc.prems by (intro Suc.IH) (auto simp: funpow_swap1 dest: spec [of _ "Suc _"])
  moreover have "dmac_is_idle n w = 0" using Suc.prems(1) by (metis funpow_0 zero_less_Suc)
  ultimately show ?case by (subst dmac_poll_idle.simps) (simp add: funpow_swap1)
qed

text \<open>The end of a memory transfer with both addresses counting up, as the controller's documentation has it: \<open>block_ts + 1\<close> items
  of the source width have been copied and the channel has switched itself off.\<close>

definition transfer_size :: "dmac_channel \<Rightarrow> int" where
  "transfer_size c = (uint (block_ts c AND 0x3FFFFF) + 1) * 2 ^ unat (src_tr_width (ctl c))"

definition transfer_done :: "nat \<Rightarrow> 'cb dma \<Rightarrow> 'cb dma" where
  "transfer_done n w =
     w\<lparr>regs := (regs w)\<lparr>chen := chen (regs w) AND NOT (push_bit n 1)\<rparr>,
       mem := memcpy (uint (dar (chan n w))) (uint (sar (chan n w))) (transfer_size (chan n w)) (mem w)\<rparr>"

text \<open>
  The controller does so only if it is enabled as a whole (bit 0 of its configuration), the channel is enabled and
  is set to one block of a memory to memory transfer, with both addresses counting up and items of one width; of
  any other setting nothing is assumed, not even that it ends.
\<close>

definition programmed :: "nat \<Rightarrow> 'cb dma \<Rightarrow> bool" where
  "programmed n w \<longleftrightarrow>
     bit (cfg (regs w)) 0 \<and> bit (chen (regs w)) n \<and>
     tt_fc (ch_cfg (chan n w)) = 0 \<and> src_multblk_type (ch_cfg (chan n w)) = 0 \<and> dst_multblk_type (ch_cfg (chan n w)) = 0 \<and>
     sinc (ctl (chan n w)) = 0 \<and> dinc (ctl (chan n w)) = 0 \<and>
     dst_tr_width (ctl (chan n w)) = src_tr_width (ctl (chan n w))"

definition controller_copies :: "('cb dma \<Rightarrow> 'cb dma) \<Rightarrow> nat \<Rightarrow> bool" where
  "controller_copies hw n \<longleftrightarrow>
     (\<forall>w. programmed n w \<longrightarrow>
        (\<exists>k. (\<forall>j<k. dmac_is_idle n ((hw ^^ j) w) = 0) \<and> (hw ^^ k) w = transfer_done n w))"

lemma transfer_len_value:
  assumes "uint N * 2 ^ width_val tw < 2 ^ 32"
  shows "uint (transfer_len DMAC_ADDR_INCREMENT tw N) = uint N * 2 ^ width_val tw"
proof -
  have e: "uint (push_bit (width_val tw) 1 :: u32) = 2 ^ width_val tw" by (cases tw) simp_all
  then have "uint N * uint (push_bit (width_val tw) 1 :: u32) < 2 ^ LENGTH(32)" using assms by simp
  from iffD1 [OF uint_mult_lem this] show ?thesis unfolding transfer_len_def e by simp
qed

lemma memcpy_chain:
  assumes "0x80000000 \<le> a" "p + n \<le> 0x80000000" "q + n \<le> 0x80000000"
  shows "memcpy dest q n (memcpy q p n (memcpy p src n m)) a = memcpy dest src n m a"
  using assms by (auto simp: memcpy_def)

text \<open>The machine once the channel has been started.\<close>

definition started :: "nat \<Rightarrow> int \<Rightarrow> int \<Rightarrow> int \<Rightarrow> int \<Rightarrow> dmac_transfer_width \<Rightarrow> u32 \<Rightarrow> iomem \<Rightarrow> 'cb dma \<Rightarrow> 'cb dma \<Rightarrow> bool" where
  "started n src dest p q tw N s w w1 \<longleftrightarrow>
     programmed n w1 \<and>
     sar (chan n w1) = word_of_int p \<and> dar (chan n w1) = word_of_int q \<and>
     transfer_size (chan n w1) = uint N * 2 ^ width_val tw \<and>
     mem w1 = memcpy p src (uint N * 2 ^ width_val tw) (mem w) \<and> pool w1 = s \<and>
     src_malloc (context_of w1 n) = p \<and> dest_malloc (context_of w1 n) = q \<and> dest_buffer (context_of w1 n) = dest \<and>
     buf_len (context_of w1 n) = uint N * 2 ^ width_val tw"

lemma block_ts_value:
  assumes "0 < uint N" "uint (N :: u32) \<le> 2 ^ 22"
  shows "uint ((ucast (N - 1) :: u64) AND 0x3FFFFF) = uint N - 1"
proof -
  have "uint (N - 1) = uint N - 1" using iffD1 [OF uint_sub_lem, of 1 N] assms(1) by simp
  moreover have "uint (ucast (N - 1) :: u64) = uint (N - 1)" by (rule uint_up_ucast) (simp add: is_up)
  ultimately have u: "uint (ucast (N - 1) :: u64) = uint N - 1" by simp
  have "(0x3FFFFF :: u64) = mask 22" by (simp add: mask_eq_exp_minus_1)
  then have "(ucast (N - 1) :: u64) AND 0x3FFFFF = take_bit 22 (ucast (N - 1))" by (simp only: take_bit_eq_mask)
  moreover have "uint (take_bit 22 x) = take_bit 22 (uint x)" for x :: u64 by (simp add: unsigned_take_bit_eq)
  ultimately have "uint ((ucast (N - 1) :: u64) AND 0x3FFFFF) = take_bit 22 (uint N - 1)" by (simp only: u)
  also have "\<dots> = uint N - 1" using assms by (intro take_bit_int_eq_self) simp_all
  finally show ?thesis .
qed

lemma mem_flow:
  "is_memory_cache src \<Longrightarrow> is_memory_cache dest \<Longrightarrow> flow_val (flow_control src dest) = 0"
  by (auto simp: flow_control_def is_memory_def is_memory_cache_def)

lemma single_mode_starts:
  assumes n: "n < 6" and src: "is_memory_cache src" and dest: "is_memory_cache dest"
    and N: "N = ucast block_size" "0 < uint N" "uint N \<le> 2 ^ 22" "uint N * 2 ^ width_val tw < 2 ^ 32"
    and a1: "iomem_alloc brk (transfer_len DMAC_ADDR_INCREMENT tw N) (pool w) = Some (Some p, s1)"
    and a2: "iomem_alloc brk (transfer_len DMAC_ADDR_INCREMENT tw N) s1 = Some (Some q, s2)"
  shows "\<exists>w1. dmac_set_single_mode hw brk n src dest DMAC_ADDR_INCREMENT DMAC_ADDR_INCREMENT burst tw block_size w = Some w1 \<and>
    started n src dest p q tw N s2 w w1"
proof -
  let ?w0 = "dmac_channel_disable n (dmac_channel_interrupt_clear n w)"
  have "dmac_is_idle n ?w0 \<noteq> 0"
    using n by (simp add: idle_iff dmac_channel_disable_def upd_regs_def bit_simps del: push_bit_of_1)
  then have i: "dmac_wait_idle hw n ?w0 = Some (dmac_channel_interrupt_clear n ?w0)"
    by (simp add: dmac_wait_idle_def dmac_poll_idle.simps)
  have keep: "pool (dmac_channel_interrupt_clear n ?w0) = pool w" "mem (dmac_channel_interrupt_clear n ?w0) = mem w"
    using n by (simp_all add: dmac_channel_interrupt_clear_def upd_chan_def upd_regs_def dmac_channel_disable_def)
  note len = transfer_len_value [OF N(4)]
  have tw: "unat (word_of_nat (width_val tw) :: 3 word) = width_val tw" by (cases tw) simp_all
  show ?thesis
    using n src dest a1 a2 len tw block_ts_value [OF N(2,3)] keep
    unfolding dmac_set_single_mode_def i option.case dmac_set_channel_param_def bounce_src_def bounce_dest_def io_malloc_def N(1) [symmetric]
    by (simp add: started_def programmed_def mem_flow dmac_enable_def dmac_channel_enable_def upd_chan_def upd_regs_def upd_context_def idle_iff bit_simps
        transfer_size_def del: push_bit_of_1)
qed

lemma wait_done_delivers:
  assumes st: "started n src dest p q tw N s w w1" and hw: "controller_copies hw n" and n: "n < 6"
    and p: "0 < p" "p < 0x80000000" and q: "0 < q" "q < 0x80000000" and dest: "dest \<noteq> 0"
    and r: "iomem_release brk q s = Some s'" "iomem_release brk p s' = Some s''"
  shows "\<exists>w2. dmac_wait_done hw brk n w1 = Some w2 \<and> pool w2 = s'' \<and>
    mem w2 = memcpy dest q (uint N * 2 ^ width_val tw) (memcpy q p (uint N * 2 ^ width_val tw)
      (memcpy p src (uint N * 2 ^ width_val tw) (mem w))) \<and>
    src_malloc (context_of w2 n) = 0 \<and> dest_buffer (context_of w2 n) = 0 \<and> dmac_is_idle n w2 = 1"
proof -
  let ?w = "transfer_done n w1"
  obtain k where k: "\<forall>j<k. dmac_is_idle n ((hw ^^ j) w1) = 0" "(hw ^^ k) w1 = ?w"
    using hw st unfolding controller_copies_def started_def by blast
  have idle: "dmac_is_idle n ?w = 1"
    by (simp add: transfer_done_def idle_iff bit_simps del: push_bit_of_1)
  have "dmac_poll_idle hw n w1 = Some ?w"
    using poll_idle_iterate [of k n hw w1] k idle by simp
  then have i: "dmac_wait_idle hw n w1 = Some (dmac_channel_interrupt_clear n ?w)" by (simp add: dmac_wait_idle_def)
  have u: "uint (word_of_int p :: u64) = p" "uint (word_of_int q :: u64) = q"
    using p q by (simp_all add: uint_word_of_int)
  show ?thesis
    using st p q dest r idle u
    unfolding dmac_wait_done_def i Option.bind.simps
    by (simp add: started_def return_dest_def return_src_def io_free_def Let_def transfer_done_def idle_iff
        dmac_channel_interrupt_clear_def upd_chan_def upd_regs_def upd_context_def)
qed

lemma pool_step:
  assumes "allocator.sound iomem_pool s live" "iomem_alloc brk z s = Some (Some p, s')"
  shows "allocator.sound iomem_pool s' ((p, uint z) # live)" "iomem_bounds s' = iomem_bounds s"
    "fst (iomem_bounds s) \<le> p" "p + uint z \<le> snd (iomem_bounds s)"
proof -
  show s: "allocator.sound iomem_pool s' ((p, uint z) # live)" "iomem_bounds s' = iomem_bounds s"
    using iomem.sound_malloc [OF assms] by blast+
  show "fst (iomem_bounds s) \<le> p" "p + uint z \<le> snd (iomem_bounds s)"
    using iomem.sound_bounds [OF s(1), of p "uint z"] s(2) by auto
qed

lemma dma_transfer:
  assumes hw: "controller_copies hw n" and n: "n < 6" and src: "is_memory_cache src" and dest: "is_memory_cache dest"
    and N: "N = ucast block_size" "0 < uint N" "uint N \<le> 2 ^ 22" "uint N * 2 ^ width_val tw < 2 ^ 32"
    and pool: "allocator.sound iomem_pool (pool w) live" "0 < fst (iomem_bounds (pool w))" "snd (iomem_bounds (pool w)) \<le> 0x80000000"
    and a1: "iomem_alloc brk (transfer_len DMAC_ADDR_INCREMENT tw N) (pool w) = Some (Some p, s1)"
    and a2: "iomem_alloc brk (transfer_len DMAC_ADDR_INCREMENT tw N) s1 = Some (Some q, s2)"
  shows "\<exists>w1 w2. dmac_set_single_mode hw brk n src dest DMAC_ADDR_INCREMENT DMAC_ADDR_INCREMENT burst tw block_size w = Some w1 \<and>
    dmac_wait_done hw brk n w1 = Some w2 \<and>
    (\<forall>a \<ge> 0x80000000. mem w2 a = memcpy dest src (uint N * 2 ^ width_val tw) (mem w) a) \<and>
    allocator.sound iomem_pool (pool w2) live \<and>
    src_malloc (context_of w2 n) = 0 \<and> dest_buffer (context_of w2 n) = 0 \<and> dmac_is_idle n w2 = 1"
proof -
  let ?n = "uint N * 2 ^ width_val tw"
  note len = transfer_len_value [OF N(4)]
  note P = pool_step [OF pool(1) a1, unfolded len]
  note Q = pool_step [OF P(1) a2, unfolded len]
  have n0: "0 < ?n" using N(2) by simp
  have pq: "0 < p" "p + ?n \<le> 0x80000000" "0 < q" "q + ?n \<le> 0x80000000"
    using P(3,4) Q(3,4) pool(2,3) unfolding P(2) by linarith+
  have d: "dest \<noteq> 0" using dest by (auto simp: is_memory_cache_def)
  obtain s3 where s3: "iomem_release brk q s2 = Some s3" "allocator.sound iomem_pool s3 ((p, ?n) # live)"
    using iomem.sound_free [OF Q(1), of 0] by auto
  obtain s4 where s4: "iomem_release brk p s3 = Some s4" "allocator.sound iomem_pool s4 live"
    using iomem.sound_free [OF s3(2), of 0] by auto
  obtain w1 where w1: "dmac_set_single_mode hw brk n src dest DMAC_ADDR_INCREMENT DMAC_ADDR_INCREMENT burst tw block_size w = Some w1"
    "started n src dest p q tw N s2 w w1"
    using single_mode_starts [OF n src dest N a1 a2] by blast
  obtain w2 where w2: "dmac_wait_done hw brk n w1 = Some w2" "pool w2 = s4"
    "mem w2 = memcpy dest q ?n (memcpy q p ?n (memcpy p src ?n (mem w)))"
    "src_malloc (context_of w2 n) = 0" "dest_buffer (context_of w2 n) = 0" "dmac_is_idle n w2 = 1"
    using wait_done_delivers [OF w1(2) hw n _ _ _ _ d s3(1) s4(1)] pq n0 by auto
  have "\<forall>a \<ge> 0x80000000. mem w2 a = memcpy dest src ?n (mem w) a"
    unfolding w2(3) using memcpy_chain pq by blast
  then show ?thesis using w1(1) w2 s4(2) by blast
qed

subsection \<open>Reading settings back\<close>

definition config_in_range :: "dmac_channel_config \<Rightarrow> bool" where
  "config_in_range p \<longleftrightarrow> ctl_sms p < 2 \<and> ctl_dms p < 2 \<and> ctl_src_msize p < 8 \<and> ctl_drc_msize p < 8 \<and> ctl_sinc p < 2 \<and> ctl_dinc p < 2 \<and>
     ctl_src_tr_width p < 8 \<and> ctl_dst_tr_width p < 8 \<and> ctl_ioc_blktfr p < 2 \<and> cfg_dst_per p < 16 \<and> cfg_src_per p < 16 \<and>
     cfg_src_hs_pol p < 2 \<and> cfg_dst_hs_pol p < 2 \<and> cfg_hs_sel_src p < 2 \<and> cfg_hs_sel_dst p < 2 \<and>
     cfg_src_multblk_type p < 4 \<and> cfg_dst_multblk_type p < 4 \<and> llp_loc p < 2 ^ 58 \<and> llp_lms p < 2 \<and> cfg_ch_prior p < 8"

lemma field_fits:
  fixes x :: "'a::len word"
  assumes "x < 2 ^ LENGTH('b)" "LENGTH('b) < LENGTH('a)"
  shows "ucast (ucast x :: 'b::len word) = x"
proof -
  have "(2 :: 'a word) ^ LENGTH('b) = word_of_nat (2 ^ LENGTH('b))" by simp
  moreover have "(2 :: nat) ^ LENGTH('b) < 2 ^ LENGTH('a)" using assms(2) by simp
  ultimately have "unat ((2 :: 'a word) ^ LENGTH('b)) = 2 ^ LENGTH('b)" by (simp add: unat_of_nat_mod del: of_nat_power)
  then have "unat x < 2 ^ LENGTH('b)" using assms(1) by (simp add: word_less_nat_alt)
  moreover have "unat x < 2 ^ LENGTH('a)" by (rule unsigned_less)
  ultimately show ?thesis by (simp add: word_unat_eq_iff unat_ucast_mod)
qed

lemma config_set_get:
  assumes "config_in_range p"
  shows "fst (dmac_set_channel_config n p w) = 0"
    and "n \<le> 3 \<Longrightarrow> dmac_get_channel_config n q (snd (dmac_set_channel_config n p w)) =
      (0, p\<lparr>ctl_src_stat_en := ctl_src_stat_en q, ctl_dst_stat_en := ctl_dst_stat_en q, ctl_tt_fc := ctl_tt_fc q\<rparr>)"
proof -
  note f = assms [unfolded config_in_range_def]
  have one: "\<And>x :: u8. x < 2 \<Longrightarrow> ucast (ucast x :: 1 word) = x" "\<And>x :: u8. x < 8 \<Longrightarrow> ucast (ucast x :: 3 word) = x"
    "\<And>x :: u8. x < 16 \<Longrightarrow> ucast (ucast x :: 4 word) = x" "\<And>x :: u64. x < 4 \<Longrightarrow> ucast (ucast x :: 2 word) = x"
    "\<And>x :: u64. x < 2 ^ 58 \<Longrightarrow> ucast (ucast x :: 58 word) = x"
    by (rule field_fits; simp)+
  have four: "\<And>x :: u8. x < 8 \<Longrightarrow> ucast (ucast x :: 4 word) = x"
    by (rule one(3)) (erule less_trans, simp)
  have c: "\<not> 1 < ctl_sms p" "\<not> 1 < ctl_dms p" "\<not> 7 < ctl_src_msize p" "\<not> 7 < ctl_drc_msize p"
    using f by (simp_all add: word_less_nat_alt)
  show "fst (dmac_set_channel_config n p w) = 0"
    using c by (simp add: dmac_set_channel_config_def)
  show "dmac_get_channel_config n q (snd (dmac_set_channel_config n p w)) =
      (0, p\<lparr>ctl_src_stat_en := ctl_src_stat_en q, ctl_dst_stat_en := ctl_dst_stat_en q, ctl_tt_fc := ctl_tt_fc q\<rparr>)"
    if "n \<le> 3"
    using c f that
    by (simp add: dmac_set_channel_config_def dmac_get_channel_config_def upd_chan_def upd_regs_def one four Let_def)
qed

subsection \<open>Properties\<close>

text \<open>C23.  A transfer between two buffers in cached memory delivers.  Suppose the channel has no transfer pending, the pool of
  uncached memory lies below the cached memory and has room for the two bounce buffers, and the controller, once it and
  the channel are enabled and set up for a memory to memory transfer, copies what its registers describe.  Then \<open>dmac_set_single_mode\<close> and \<open>dmac_wait_done\<close> return, cached memory is as it was except that
  the destination holds what the source held, both bounce buffers have been freed (exactly the blocks live
  before are live after), and the channel is idle with nothing pending.\<close>

theorem dma_cached_transfer:
  assumes hw: "controller_copies hw n" and n: "n < 6" and src: "is_memory_cache src" and dest: "is_memory_cache dest"
    and N: "N = ucast block_size" "0 < uint N" "uint N \<le> 2 ^ 22" "uint N * 2 ^ width_val tw < 2 ^ 32"
    and pool: "allocator.sound iomem_pool (pool w) live" "0 < fst (iomem_bounds (pool w))" "snd (iomem_bounds (pool w)) \<le> 0x80000000"
    and room: "iomem_alloc brk (transfer_len DMAC_ADDR_INCREMENT tw N) (pool w) = Some (Some p, s1)"
      "iomem_alloc brk (transfer_len DMAC_ADDR_INCREMENT tw N) s1 = Some (Some q, s2)"
  shows "\<exists>w1 w2. dmac_set_single_mode hw brk n src dest DMAC_ADDR_INCREMENT DMAC_ADDR_INCREMENT burst tw block_size w = Some w1 \<and>
    dmac_wait_done hw brk n w1 = Some w2 \<and>
    (\<forall>a \<ge> 0x80000000. mem w2 a = memcpy dest src (uint N * 2 ^ width_val tw) (mem w) a) \<and>
    allocator.sound iomem_pool (pool w2) live \<and>
    src_malloc (context_of w2 n) = 0 \<and> dest_buffer (context_of w2 n) = 0 \<and> dmac_is_idle n w2 = 1"
  by (rule dma_transfer [OF hw n src dest N pool room])

definition demo_dma :: "bool dma" where
  "demo_dma = \<lparr>regs = \<lparr>dmac_id = 0, compver = 0, cfg = 0, chen = 0, com_intclear = 0, com_intstatus_en = 0,
       com_intsignal_en = 0, dmac_reset = 0, dmac_chans = (\<lambda>_. \<lparr>sar = 0, dar = 0, block_ts = 0,
         ctl = \<lparr>sms = 0, dms = 0, sinc = 0, dinc = 0, src_tr_width = 0, dst_tr_width = 0, src_msize = 0, dst_msize = 0,
           src_stat_en = 0, dst_stat_en = 0, ioc_blktfr = 0, shadowreg_or_lli_last = 0, shadowreg_or_lli_valid = 0\<rparr>,
         ch_cfg = \<lparr>src_multblk_type = 0, dst_multblk_type = 0, tt_fc = 0, hs_sel_src = 0, hs_sel_dst = 0, src_hwhs_pol = 0,
           dst_hwhs_pol = 0, src_per = 0, dst_per = 0, ch_prior = 0\<rparr>,
         llp = \<lparr>lms = 0, loc = 0\<rparr>, blk_tfr = 0, axi_id = 0, intstatus_en = 0, intstatus = 0, intclear = 0\<rparr>)\<rparr>,
     context_of = (\<lambda>_. \<lparr>dmac_channel_num = 0, dest_buffer = 0, src_malloc = 0, dest_malloc = 0, buf_len = 0,
       dma_callback = None, dma_ctx = 0\<rparr>),
     pool = small_pool, mem = (\<lambda>a. word_of_int a)\<rparr>"

text \<open>A controller that does nothing unless it is programmed.\<close>

definition demo_hw :: "nat \<Rightarrow> 'cb dma \<Rightarrow> 'cb dma" where
  "demo_hw n w = (if programmed n w then transfer_done n w else w)"

lemma demo_controller: "controller_copies (demo_hw n) n"
  unfolding controller_copies_def
  by (intro allI impI exI [of _ 1]) (simp add: demo_hw_def programmed_def idle_iff)

lemma small_pool_sound: "allocator.sound iomem_pool small_pool []"
  unfolding iomem.sound_def
proof (intro exI [of _ "{}"] conjI)
  show "iomem_pool small_pool {}"
    unfolding iomem_pool_def using small_pool_inv by (intro conjI exI [of _ "{}"]) (simp_all add: small_pool_def)
qed simp_all

theorem dma_cached_transfer_witness:
  "\<exists>w1 w2. dmac_set_single_mode (demo_hw 2) (\<lambda>n l. l) 2 0x80000000 0x80001000 DMAC_ADDR_INCREMENT DMAC_ADDR_INCREMENT
      DMAC_MSIZE_1 DMAC_TRANS_WIDTH_32 3 demo_dma = Some w1 \<and>
    dmac_wait_done (demo_hw 2) (\<lambda>n l. l) 2 w1 = Some w2 \<and> mem w2 0x8000100B = 0x0B \<and> mem w2 0x8000100C = 0x0C"
proof -
  have room: "iomem_alloc (\<lambda>n l. l) 12 small_pool = Some (Some 0x40000700, iomem_alloc_at 7 1 small_pool)"
    "iomem_alloc (\<lambda>n l. l) 12 (iomem_alloc_at 7 1 small_pool) = Some (Some 0x40000600, iomem_alloc_at 6 1 (iomem_alloc_at 7 1 small_pool))"
    by code_simp+
  have pl: "pool demo_dma = small_pool" by (simp add: demo_dma_def)
  have len: "transfer_len DMAC_ADDR_INCREMENT DMAC_TRANS_WIDTH_32 3 = 12" by code_simp
  have "\<exists>w1 w2. dmac_set_single_mode (demo_hw 2) (\<lambda>n l. l) 2 0x80000000 0x80001000 DMAC_ADDR_INCREMENT DMAC_ADDR_INCREMENT
      DMAC_MSIZE_1 DMAC_TRANS_WIDTH_32 3 demo_dma = Some w1 \<and>
    dmac_wait_done (demo_hw 2) (\<lambda>n l. l) 2 w1 = Some w2 \<and>
    (\<forall>a \<ge> 0x80000000. mem w2 a = memcpy 0x80001000 0x80000000 (uint (3 :: u32) * 2 ^ width_val DMAC_TRANS_WIDTH_32) (mem demo_dma) a) \<and>
    allocator.sound iomem_pool (pool w2) [] \<and>
    src_malloc (context_of w2 2) = 0 \<and> dest_buffer (context_of w2 2) = 0 \<and> dmac_is_idle 2 w2 = 1"
    by (rule dma_cached_transfer [OF demo_controller _ _ _ _ _ _ _ _ _ _ room [folded len pl]])
      (simp_all add: is_memory_cache_def pl small_pool_sound, simp_all add: small_pool_def iomem_bounds_def)
  then show ?thesis
    by (elim exE conjE) (intro exI conjI, assumption, assumption, simp_all add: memcpy_def demo_dma_def)
qed

text \<open>\<open>dmac_get_channel_config\<close> reads back what \<open>dmac_set_channel_config\<close> has written, when every setting fits its
  field: all of it but the transfer type and the two status flags, which it leaves alone.  For the channels 4 and 5
  it refuses to read.\<close>

lemma channel_config_roundtrip:
  assumes "config_in_range p"
  shows "case dmac_set_channel_config n p w of (rc, w') \<Rightarrow> rc = 0 \<and>
    dmac_get_channel_config n q w' =
      (if n \<le> 3 then (0, p\<lparr>ctl_src_stat_en := ctl_src_stat_en q, ctl_dst_stat_en := ctl_dst_stat_en q, ctl_tt_fc := ctl_tt_fc q\<rparr>)
       else (- 1, q))"
  using config_set_get(1) [OF assms, where n = n and w = w] config_set_get(2) [OF assms, where n = n and w = w and q = q] by (simp add: case_prod_unfold dmac_get_channel_config_def)

definition demo_config :: dmac_channel_config where
  "demo_config = \<lparr>c_sar = 0x80000000, c_dar = 0x38000000, ctl_sms = 0, ctl_dms = 1, ctl_src_msize = 3, ctl_drc_msize = 3, ctl_sinc = 0,
     ctl_dinc = 1, ctl_src_tr_width = 2, ctl_dst_tr_width = 2, ctl_ioc_blktfr = 1, ctl_src_stat_en = 0, ctl_dst_stat_en = 0,
     cfg_dst_per = 2, cfg_src_per = 2, cfg_src_hs_pol = 0, cfg_dst_hs_pol = 0, cfg_hs_sel_src = 1, cfg_hs_sel_dst = 0,
     cfg_src_multblk_type = 0, cfg_dst_multblk_type = 3, llp_loc = 0x2000000, llp_lms = 1, ctl_block_ts = 99, ctl_tt_fc = 1, cfg_ch_prior = 7\<rparr>"

lemma channel_config_roundtrip_witness:
  "case dmac_set_channel_config 1 demo_config demo_dma of (rc, w') \<Rightarrow>
     rc = 0 \<and> dmac_get_channel_config 1 (demo_config\<lparr>c_sar := 0, ctl_block_ts := 0\<rparr>) w' = (0, demo_config)"
proof -
  have "config_in_range demo_config" by (simp add: config_in_range_def demo_config_def)
  from channel_config_roundtrip [OF this, where n = 1 and w = demo_dma and q = "demo_config\<lparr>c_sar := 0, ctl_block_ts := 0\<rparr>"]
  show ?thesis by (simp add: case_prod_unfold demo_config_def)
qed

end
