(* ===== verification/Dma_Client.thy ===== *)
theory Dma_Client
  imports Dmac
begin

text \<open>
  What the device drivers that transfer by DMA share: the channel numbers as the system controller knows them, bounce
  buffers of 32-bit words (stored little endian, one item of a transfer each), and the callback argument
  \<open>plic_interrupt_t\<close> of their \<open>handle_data_dma\<close> functions.
\<close>

definition dma_channel :: "nat \<Rightarrow> sysctl_dma_channel" where
  "dma_channel n = (if n < 6 then [SYSCTL_DMA_CHANNEL_0, SYSCTL_DMA_CHANNEL_1, SYSCTL_DMA_CHANNEL_2, SYSCTL_DMA_CHANNEL_3,
     SYSCTL_DMA_CHANNEL_4, SYSCTL_DMA_CHANNEL_5] ! n else SYSCTL_DMA_CHANNEL_MAX)"

definition byte_of :: "u32 \<Rightarrow> nat \<Rightarrow> u8" where
  "byte_of w k = ucast (drop_bit (8 * k) w)"

definition store32 :: "int \<Rightarrow> u32 \<Rightarrow> (int \<Rightarrow> u8) \<Rightarrow> int \<Rightarrow> u8" where
  "store32 a w m = m(a := byte_of w 0, a + 1 := byte_of w 1, a + 2 := byte_of w 2, a + 3 := byte_of w 3)"

fun store32s :: "int \<Rightarrow> u32 list \<Rightarrow> (int \<Rightarrow> u8) \<Rightarrow> int \<Rightarrow> u8" where
  "store32s a [] m = m"
| "store32s a (w # ws) m = store32s (a + 4) ws (store32 a w m)"

definition load_low_bytes :: "int \<Rightarrow> nat \<Rightarrow> (int \<Rightarrow> u8) \<Rightarrow> u8 list" where
  "load_low_bytes a n m = map (\<lambda>i. m (a + 4 * int i)) [0..<n]"

record 'u plic_interrupt =
  pi_callback :: "'u option"
  pi_ctx :: nat
  pi_priority :: u32

subsection \<open>A buffer of words\<close>

lemma byte_of_low: "byte_of (ucast (b :: u8)) 0 = b"
  by (rule bit_word_eqI) (simp add: byte_of_def bit_simps)

lemma store32s_outside:
  "x < a \<or> a + 4 * int (length ws) \<le> x \<Longrightarrow> store32s a ws m x = m x"
  by (induction a ws m rule: store32s.induct) (auto simp: store32_def)

text \<open>The low bytes of a stored buffer are the bytes it was made of.\<close>

lemma load_stored:
  "load_low_bytes a (length ws) (store32s a ws m) = map (\<lambda>w. byte_of w 0) ws"
proof (induction ws arbitrary: a m)
  case Nil
  then show ?case by (simp add: load_low_bytes_def)
next
  case (Cons w ws)
  have "load_low_bytes (a + 4) (length ws) (store32s (a + 4) ws (store32 a w m)) = map (\<lambda>w. byte_of w 0) ws" by (rule Cons)
  moreover have "store32s (a + 4) ws (store32 a w m) a = byte_of w 0"
    by (simp add: store32s_outside store32_def)
  moreover have "load_low_bytes a (Suc n) m' = m' a # load_low_bytes (a + 4) n m'" for n m'
    by (simp add: load_low_bytes_def upt_conv_Cons map_Suc_upt [symmetric] o_def algebra_simps del: upt_Suc)
  ultimately show ?case by simp
qed

lemma store_bytes_back: "load_low_bytes a (length bs) (store32s a (map ucast (bs :: u8 list)) m) = bs"
  using load_stored [of a "map ucast bs" m] by (simp add: o_def byte_of_low)

end
