(* ===== verification/I2c.thy ===== *)
theory I2c
  imports Sysctl_Freq Dma_Client
begin

text \<open>
  The I2C driver \<open>lib/drivers/i2c.c\<close>.  A controller is a record of its configuration registers and the
  list of accesses the driver made (\<open>accesses\<close>, oldest first): words put into \<open>data_cmd\<close>, interrupt and abort causes
  cleared by reading, and the enable register.  What the controller answers is input, grouped by the round of the loop
  that reads it: the transmit FIFO level and the abort source of a filling round, the receive level as well when data
  is fetched, both reads of the status register in a waiting round (the second is used when the first shows no activity).
  \<open>None\<close>: the answers are used up and the driver is still polling, or it stands in a failed assertion.  A buffer is a
  list; a transfer length is the length of its list.
\<close>

subsection \<open>Registers\<close>

definition I2C_MAX_NUM :: nat where [simp]: "I2C_MAX_NUM = 3"
definition I2C_CON_MASTER_MODE :: u32 where "I2C_CON_MASTER_MODE = 1"
definition I2C_CON_SPEED :: "u32 \<Rightarrow> u32" where "I2C_CON_SPEED x = push_bit 1 x"
definition I2C_CON_10BITADDR_SLAVE :: u32 where "I2C_CON_10BITADDR_SLAVE = 8"
definition I2C_CON_RESTART_EN :: u32 where "I2C_CON_RESTART_EN = 0x20"
definition I2C_CON_SLAVE_DISABLE :: u32 where "I2C_CON_SLAVE_DISABLE = 0x40"
definition I2C_CON_STOP_DET_IFADDRESSED :: u32 where "I2C_CON_STOP_DET_IFADDRESSED = 0x80"
definition I2C_DATA_CMD_CMD :: u32 where "I2C_DATA_CMD_CMD = 0x100"
definition I2C_INTR_RX_FULL :: u32 where "I2C_INTR_RX_FULL = 4"
definition I2C_INTR_RD_REQ :: u32 where "I2C_INTR_RD_REQ = 0x20"
definition I2C_INTR_STOP_DET :: u32 where "I2C_INTR_STOP_DET = 0x200"
definition I2C_INTR_START_DET :: u32 where "I2C_INTR_START_DET = 0x400"
definition I2C_STATUS_ACTIVITY :: u32 where "I2C_STATUS_ACTIVITY = 1"
definition I2C_STATUS_TFE :: u32 where "I2C_STATUS_TFE = 4"
definition I2C_ENABLE_ENABLE :: u32 where "I2C_ENABLE_ENABLE = 1"

datatype i2c_access = Data_cmd u32 | Clr_tx_abrt | Clr_start_det | Clr_stop_det | Clr_rd_req | Enable u32

record i2c_t =
  i2c_con :: u32
  i2c_tar :: u32
  i2c_sar :: u32
  ss_scl_hcnt :: u32
  ss_scl_lcnt :: u32
  i2c_intr_mask :: u32
  i2c_rx_tl :: u32
  i2c_tx_tl :: u32
  i2c_dma_cr :: u32
  i2c_dma_tdlr :: u32
  i2c_dma_rdlr :: u32
  i2c_enable :: u32
  accesses :: "i2c_access list"

definition access :: "i2c_access list \<Rightarrow> i2c_t \<Rightarrow> i2c_t" where
  "access l d = d\<lparr>accesses := accesses d @ l\<rparr>"

definition set_enable :: "u32 \<Rightarrow> i2c_t \<Rightarrow> i2c_t" where
  "set_enable v d = access [Enable v] (d\<lparr>i2c_enable := v\<rparr>)"

definition i2c_clock :: "nat \<Rightarrow> sysctl_clock" where
  "i2c_clock n = [SYSCTL_CLOCK_I2C0, SYSCTL_CLOCK_I2C1, SYSCTL_CLOCK_I2C2] ! n"

definition i2c_threshold :: "nat \<Rightarrow> sysctl_threshold" where
  "i2c_threshold n = [SYSCTL_THRESHOLD_I2C0, SYSCTL_THRESHOLD_I2C1, SYSCTL_THRESHOLD_I2C2] ! n"

definition i2c_clk_init :: "nat \<Rightarrow> sysctl \<Rightarrow> sysctl option" where
  "i2c_clk_init i2c_num sy =
     (if i2c_num < I2C_MAX_NUM then
       Some (snd (sysctl_clock_set_threshold (i2c_threshold i2c_num) 3 (snd (sysctl_clock_enable (i2c_clock i2c_num) sy))))
      else None)"

definition i2c_init :: "nat \<Rightarrow> u32 \<Rightarrow> u32 \<Rightarrow> u32 \<Rightarrow> sysctl \<times> i2c_t \<Rightarrow> (sysctl \<times> i2c_t) option" where
  "i2c_init i2c_num slave_address address_width i2c_clk s = (case s of (sy, d) \<Rightarrow>
     (if i2c_num < I2C_MAX_NUM \<and> (address_width = 7 \<or> address_width = 10) \<and> i2c_clk \<noteq> 0 then
       (case i2c_clk_init i2c_num sy of
          None \<Rightarrow> None
        | Some sy \<Rightarrow>
           (let v_i2c_freq = sysctl_clock_get_freq sy (i2c_clock i2c_num);
                v_period_clk_cnt = ucast (v_i2c_freq div i2c_clk div 2) :: u16;
                v_period_clk_cnt = (if v_period_clk_cnt = 0 then 1 else v_period_clk_cnt);
                d = set_enable 0 d;
                d = d\<lparr>i2c_con := I2C_CON_MASTER_MODE OR I2C_CON_SLAVE_DISABLE OR I2C_CON_RESTART_EN OR
                       (if address_width = 10 then I2C_CON_10BITADDR_SLAVE else 0) OR I2C_CON_SPEED 1\<rparr>;
                d = d\<lparr>ss_scl_hcnt := ucast v_period_clk_cnt\<rparr>;
                d = d\<lparr>ss_scl_lcnt := ucast v_period_clk_cnt\<rparr>;
                d = d\<lparr>i2c_tar := slave_address, i2c_intr_mask := 0, i2c_dma_cr := 3, i2c_dma_rdlr := 0, i2c_dma_tdlr := 4\<rparr>
            in Some (sy, set_enable I2C_ENABLE_ENABLE d)))
      else None))"

subsection \<open>Slave mode\<close>

text \<open>The callbacks of a slave act on a state \<open>'s\<close> of their own.\<close>

datatype i2c_event = I2C_EV_START | I2C_EV_RESTART | I2C_EV_STOP

record 's i2c_slave_handler =
  on_receive :: "u32 \<Rightarrow> 's \<Rightarrow> 's"
  on_transmit :: "'s \<Rightarrow> u32 \<times> 's"
  on_event :: "i2c_event \<Rightarrow> 's \<Rightarrow> 's"

text \<open>\<open>status\<close> is what \<open>intr_stat\<close> reads, \<open>rx\<close> what \<open>data_cmd\<close> reads.\<close>

definition slave_event :: "'s i2c_slave_handler \<Rightarrow> i2c_event \<Rightarrow> i2c_access \<Rightarrow> i2c_t \<times> 's \<Rightarrow> i2c_t \<times> 's" where
  "slave_event h ev clr s = (access [clr] (fst s), on_event h ev (snd s))"

definition slave_receive :: "'s i2c_slave_handler \<Rightarrow> u32 \<Rightarrow> i2c_t \<times> 's \<Rightarrow> i2c_t \<times> 's" where
  "slave_receive h rx s = (fst s, on_receive h rx (snd s))"

definition slave_transmit :: "'s i2c_slave_handler \<Rightarrow> i2c_t \<times> 's \<Rightarrow> i2c_t \<times> 's" where
  "slave_transmit h s = (case on_transmit h (snd s) of (v, t) \<Rightarrow> (access [Data_cmd v, Clr_rd_req] (fst s), t))"

definition i2c_slave_irq :: "'s i2c_slave_handler \<Rightarrow> u32 \<Rightarrow> u32 \<Rightarrow> i2c_t \<times> 's \<Rightarrow> i2c_t \<times> 's" where
  "i2c_slave_irq h status rx s =
     (let s = (if status AND I2C_INTR_START_DET \<noteq> 0 then slave_event h I2C_EV_START Clr_start_det s else s);
          s = (if status AND I2C_INTR_STOP_DET \<noteq> 0 then slave_event h I2C_EV_STOP Clr_stop_det s else s);
          s = (if status AND I2C_INTR_RX_FULL \<noteq> 0 then slave_receive h rx s else s)
      in (if status AND I2C_INTR_RD_REQ \<noteq> 0 then slave_transmit h s else s))"

definition IRQN_I2C0_INTERRUPT :: nat where [simp]: "IRQN_I2C0_INTERRUPT = 8"

datatype i2c_handler = I2c_slave_irq

text \<open>The context of the interrupt handler is the entry of \<open>slave_instance\<close>, its number.\<close>

definition slave_registers :: "u32 \<Rightarrow> u32 \<Rightarrow> i2c_t \<Rightarrow> i2c_t" where
  "slave_registers slave_address address_width d =
     (set_enable 0 d)\<lparr>
       i2c_con := (if address_width = 10 then I2C_CON_10BITADDR_SLAVE else 0) OR I2C_CON_SPEED 1 OR I2C_CON_STOP_DET_IFADDRESSED,
       ss_scl_hcnt := 37, ss_scl_lcnt := 40, i2c_sar := slave_address, i2c_rx_tl := 0, i2c_tx_tl := 0,
       i2c_intr_mask := I2C_INTR_RX_FULL OR I2C_INTR_START_DET OR I2C_INTR_STOP_DET OR I2C_INTR_RD_REQ\<rparr>"

definition i2c_init_as_slave ::
  "nat \<Rightarrow> nat \<Rightarrow> u32 \<Rightarrow> u32 \<Rightarrow> 'h \<Rightarrow> sysctl \<times> i2c_t \<times> (nat \<Rightarrow> 'h option) \<times> i2c_handler plic \<Rightarrow>
   (sysctl \<times> i2c_t \<times> (nat \<Rightarrow> 'h option) \<times> i2c_handler plic) option" where
  "i2c_init_as_slave core i2c_num slave_address address_width handler s = (case s of (sy, d, slave_instance, p) \<Rightarrow>
     (if address_width = 7 \<or> address_width = 10 then
       (let slave_instance = slave_instance(i2c_num \<mapsto> handler) in
        case i2c_clk_init i2c_num sy of
          None \<Rightarrow> None
        | Some sy \<Rightarrow>
           (let d = slave_registers slave_address address_width d;
                irq = IRQN_I2C0_INTERRUPT + i2c_num;
                p = snd (plic_set_priority (int irq) 1 p);
                p = plic_irq_register core irq (Some I2c_slave_irq) i2c_num p;
                p = snd (plic_irq_enable core (int irq) p)
            in Some (sy, set_enable I2C_ENABLE_ENABLE d, slave_instance, p)))
      else None))"

subsection \<open>Transfers by the processor\<close>

text \<open>How many words go into the FIFO of eight: \<open>8 - txflr\<close> is unsigned arithmetic.\<close>

definition i2c_fifo_len :: "u32 \<Rightarrow> nat \<Rightarrow> nat" where
  "i2c_fifo_len txflr len = (let fifo_len = unat (8 - txflr) in if len < fifo_len then len else fifo_len)"

fun tx_rounds :: "(u32 \<times> u32) list \<Rightarrow> u8 list \<Rightarrow> i2c_t \<Rightarrow> (bool \<times> i2c_t) option" where
  "tx_rounds rs [] d = Some (True, d)"
| "tx_rounds [] (x # xs) d = None"
| "tx_rounds ((txflr, tx_abrt_source) # rs) (x # xs) d =
     (let send_buf = x # xs; fifo_len = i2c_fifo_len txflr (length send_buf);
          d = access (map (Data_cmd \<circ> ucast) (take fifo_len send_buf)) d
      in if tx_abrt_source \<noteq> 0 then Some (False, d) else tx_rounds rs (drop fifo_len send_buf) d)"

definition still_sending :: "u32 \<times> u32 \<Rightarrow> bool" where
  "still_sending st \<longleftrightarrow> fst st AND I2C_STATUS_ACTIVITY \<noteq> 0 \<or> snd st AND I2C_STATUS_TFE = 0"

fun wait_sent :: "(u32 \<times> u32) list \<Rightarrow> bool" where
  "wait_sent [] = False"
| "wait_sent (st # sts) = (if still_sending st then wait_sent sts else True)"

definition i2c_send_data :: "(u32 \<times> u32) list \<Rightarrow> (u32 \<times> u32) list \<Rightarrow> u32 \<Rightarrow> u8 list \<Rightarrow> i2c_t \<Rightarrow> (int \<times> i2c_t) option" where
  "i2c_send_data rs sts tx_abrt_source send_buf d =
     (case tx_rounds rs send_buf (access [Clr_tx_abrt] d) of
        None \<Rightarrow> None
      | Some (False, d) \<Rightarrow> Some (1, d)
      | Some (True, d) \<Rightarrow>
         (if wait_sent sts then Some (if tx_abrt_source \<noteq> 0 then 1 else 0, d) else None))"

text \<open>\<open>rxd\<close> are the words the receive FIFO will deliver; \<open>rx_len\<close> bytes are still to be fetched, \<open>len\<close> read commands
  still to be given.\<close>

fun rx_rounds :: "(u32 \<times> u32 \<times> u32) list \<Rightarrow> u32 list \<Rightarrow> nat \<Rightarrow> nat \<Rightarrow> i2c_t \<Rightarrow> (bool \<times> u8 list \<times> i2c_t) option" where
  "rx_rounds rs rxd len rx_len d =
     (if len = 0 \<and> rx_len = 0 then Some (True, [], d)
      else case rs of
        [] \<Rightarrow> None
      | (rxflr, txflr, tx_abrt_source) # rs \<Rightarrow>
         (let got = (if rx_len < unat rxflr then rx_len else unat rxflr) in
          if length rxd < got then None
          else
           (let cmds = i2c_fifo_len txflr len;
                d = access (replicate cmds (Data_cmd I2C_DATA_CMD_CMD)) d;
                bytes = map ucast (take got rxd)
            in if tx_abrt_source \<noteq> 0 then Some (False, bytes, d)
               else case rx_rounds rs (drop got rxd) (len - cmds) (rx_len - got) d of
                 None \<Rightarrow> None
               | Some (ok, others, d) \<Rightarrow> Some (ok, bytes @ others, d))))"

declare rx_rounds.simps [simp del]

definition i2c_recv_data ::
  "(u32 \<times> u32) list \<Rightarrow> (u32 \<times> u32 \<times> u32) list \<Rightarrow> u32 list \<Rightarrow> u8 list \<Rightarrow> nat \<Rightarrow> i2c_t \<Rightarrow> (int \<times> u8 list \<times> i2c_t) option" where
  "i2c_recv_data ts rs rxd send_buf receive_buf_len d =
     (case tx_rounds ts send_buf d of
        None \<Rightarrow> None
      | Some (False, d) \<Rightarrow> Some (1, [], d)
      | Some (True, d) \<Rightarrow>
         (case rx_rounds rs rxd receive_buf_len receive_buf_len d of
            None \<Rightarrow> None
          | Some (ok, receive_buf, d) \<Rightarrow> Some (if ok then 0 else 1, receive_buf, d)))"


subsection \<open>Transfers by DMA\<close>

text \<open>What reaches \<open>data_cmd\<close> here is written by the DMA controller, so \<open>accesses\<close> holds only what the processor did.  Buffers
  are addresses.  \<open>brk\<close> is the heap limit of the allocator.\<close>

definition I2C0_BASE_ADDR :: int where "I2C0_BASE_ADDR = 0x50280000"

definition data_cmd_addr :: "nat \<Rightarrow> int" where
  "data_cmd_addr i2c_num = I2C0_BASE_ADDR + 0x10000 * int i2c_num + 0x10"

definition SYSCTL_DMA_SELECT_I2C0_RX_REQ :: nat where "SYSCTL_DMA_SELECT_I2C0_RX_REQ = 8"
definition SYSCTL_DMA_SELECT_I2C0_TX_REQ :: nat where "SYSCTL_DMA_SELECT_I2C0_TX_REQ = 9"

text \<open>Once the controller is polled, an abort ends the wait; \<open>Some False\<close> is an abort.\<close>

fun wait_sent_or_abort :: "(u32 \<times> u32 \<times> u32) list \<Rightarrow> bool option" where
  "wait_sent_or_abort [] = None"
| "wait_sent_or_abort ((s1, s2, tx_abrt_source) # sts) =
     (if still_sending (s1, s2) then (if tx_abrt_source \<noteq> 0 then Some False else wait_sent_or_abort sts) else Some True)"

definition i2c_send_data_dma ::
  "('cb dma \<Rightarrow> 'cb dma) \<Rightarrow> (int \<Rightarrow> int \<Rightarrow> int) \<Rightarrow> (u32 \<times> u32 \<times> u32) list \<Rightarrow> nat \<Rightarrow> nat \<Rightarrow> u8 list \<Rightarrow>
   sysctl \<times> 'cb dma \<times> i2c_t \<Rightarrow> (sysctl \<times> 'cb dma \<times> i2c_t) option" where
  "i2c_send_data_dma hw brk sts dma_channel_num i2c_num send_buf s = (case s of (sy, w, d) \<Rightarrow>
     (let d = access [Clr_tx_abrt] d in
      case io_malloc brk (word_of_nat (length send_buf * 4)) w of
        None \<Rightarrow> None
      | Some (buf, w) \<Rightarrow>
         (let w = w\<lparr>mem := store32s buf (map ucast send_buf) (mem w)\<rparr>;
              sy = snd (sysctl_dma_select (dma_channel dma_channel_num) (SYSCTL_DMA_SELECT_I2C0_TX_REQ + i2c_num * 2) sy)
          in
          Option.bind (dmac_set_single_mode hw brk dma_channel_num buf (data_cmd_addr i2c_num) DMAC_ADDR_INCREMENT DMAC_ADDR_NOCHANGE
                         DMAC_MSIZE_4 DMAC_TRANS_WIDTH_32 (word_of_nat (length send_buf)) w) (\<lambda>w.
          Option.bind (dmac_wait_done hw brk dma_channel_num w) (\<lambda>w.
          Option.bind (io_free brk buf w) (\<lambda>w.
          map_option (\<lambda>_. (sy, w, d)) (wait_sent_or_abort sts)))))))"

definition i2c_recv_data_dma ::
  "('cb dma \<Rightarrow> 'cb dma) \<Rightarrow> (int \<Rightarrow> int \<Rightarrow> int) \<Rightarrow> nat \<Rightarrow> nat \<Rightarrow> nat \<Rightarrow> u8 list \<Rightarrow> nat \<Rightarrow>
   sysctl \<times> 'cb dma \<Rightarrow> (u8 list \<times> sysctl \<times> 'cb dma) option" where
  "i2c_recv_data_dma hw brk tx_channel rx_channel i2c_num send_buf receive_buf_len s = (case s of (sy, w) \<Rightarrow>
     (case io_malloc brk (word_of_nat (4 * (length send_buf + receive_buf_len))) w of
        None \<Rightarrow> None
      | Some (write_cmd, w) \<Rightarrow>
         (let w = w\<lparr>mem := store32s write_cmd (map ucast send_buf @ replicate receive_buf_len I2C_DATA_CMD_CMD) (mem w)\<rparr>;
              sy = snd (sysctl_dma_select (dma_channel tx_channel) (SYSCTL_DMA_SELECT_I2C0_TX_REQ + i2c_num * 2) sy);
              sy = snd (sysctl_dma_select (dma_channel rx_channel) (SYSCTL_DMA_SELECT_I2C0_RX_REQ + i2c_num * 2) sy)
          in
          Option.bind (dmac_set_single_mode hw brk rx_channel (data_cmd_addr i2c_num) write_cmd DMAC_ADDR_NOCHANGE DMAC_ADDR_INCREMENT
                         DMAC_MSIZE_1 DMAC_TRANS_WIDTH_32 (word_of_nat receive_buf_len) w) (\<lambda>w.
          Option.bind (dmac_set_single_mode hw brk tx_channel write_cmd (data_cmd_addr i2c_num) DMAC_ADDR_INCREMENT DMAC_ADDR_NOCHANGE
                         DMAC_MSIZE_4 DMAC_TRANS_WIDTH_32 (word_of_nat (receive_buf_len + length send_buf)) w) (\<lambda>w.
          Option.bind (dmac_wait_done hw brk tx_channel w) (\<lambda>w.
          Option.bind (dmac_wait_done hw brk rx_channel w) (\<lambda>w.
          let receive_buf = load_low_bytes write_cmd receive_buf_len (mem w) in
          map_option (\<lambda>w. (receive_buf, sy, w)) (io_free brk write_cmd w))))))))"

subsection \<open>Transfers with a callback\<close>

text \<open>The instance of a controller: the transfer under way and who is told when it is over.  The lock is a flag; taking one that is
  held waits for an interrupt, which is \<open>None\<close> here.  \<open>'u\<close> are the user's callbacks; \<open>dma_cb\<close> stands for the address
  of \<open>i2c_dma_irq\<close> in the DMA driver's table, the context for the number of the instance.\<close>

datatype i2c_transfer_mode = I2C_SEND | I2C_RECEIVE

record 'u i2c_instance =
  i2c_transfer_mode :: i2c_transfer_mode
  i2c_dmac_channel :: nat
  i2c_callback :: "'u option"
  i2c_ctx :: nat
  i2c_lock :: bool

record i2c_data =
  tx_channel :: nat
  rx_channel :: nat
  data_tx_buf :: int
  data_tx_len :: u64
  data_rx_buf :: int
  data_rx_len :: u64
  transfer_mode :: i2c_transfer_mode

type_synonym ('cb, 'u, 'h) i2c_state = "sysctl \<times> 'cb dma \<times> 'h dma_handler plic \<times> i2c_t \<times> 'u i2c_instance"

text \<open>Each result but the last is the value returned; the user's callback is reported with its context.\<close>

definition i2c_dma_irq ::
  "nat \<Rightarrow> (u32 \<times> u32 \<times> u32) list \<Rightarrow> ('cb, 'u, 'h) i2c_state \<Rightarrow> (int \<times> ('u \<times> nat) option \<times> ('cb, 'u, 'h) i2c_state) option" where
  "i2c_dma_irq core sts s = (case s of (sy, w, p, d, v) \<Rightarrow>
     (case dmac_irq_unregister core (i2c_dmac_channel v) (w, p) of (w, p) \<Rightarrow>
       (case (if i2c_transfer_mode v = I2C_SEND then wait_sent_or_abort sts else Some True) of
          None \<Rightarrow> None
        | Some False \<Rightarrow> Some (-1, None, sy, w, p, d, v\<lparr>i2c_lock := False\<rparr>)
        | Some True \<Rightarrow>
            (let v = v\<lparr>i2c_lock := False\<rparr>
             in Some (0, map_option (\<lambda>f. (f, i2c_ctx v)) (i2c_callback v), sy, w, p, d, v)))))"

definition i2c_start_irq ::
  "nat \<Rightarrow> 'cb \<Rightarrow> nat \<Rightarrow> nat \<Rightarrow> i2c_transfer_mode \<Rightarrow> 'u plic_interrupt option \<Rightarrow> ('cb, 'u, 'h) i2c_state \<Rightarrow> ('cb, 'u, 'h) i2c_state" where
  "i2c_start_irq core dma_cb i2c_num n mode cb s = (case s of (sy, w, p, d, v) \<Rightarrow>
     (case cb of None \<Rightarrow> s
      | Some c \<Rightarrow> (case dmac_irq_register core n (Some dma_cb) i2c_num (pi_priority c) (w, p) of (w, p) \<Rightarrow>
          (sy, w, p, d, v\<lparr>i2c_dmac_channel := n, i2c_transfer_mode := mode\<rparr>))))"

definition i2c_handle_data_dma ::
  "('cb dma \<Rightarrow> 'cb dma) \<Rightarrow> (int \<Rightarrow> int \<Rightarrow> int) \<Rightarrow> nat \<Rightarrow> 'cb \<Rightarrow> int \<Rightarrow> (u32 \<times> u32 \<times> u32) list \<Rightarrow> nat \<Rightarrow> i2c_data \<Rightarrow>
   'u plic_interrupt option \<Rightarrow> ('cb, 'u, 'h) i2c_state \<Rightarrow> ('cb, 'u, 'h) i2c_state option" where
  "i2c_handle_data_dma hw brk core dma_cb s_read_cmd sts i2c_num data cb s =
     (let (sy, w, p, d, v) = s; tx = tx_channel data; rx = rx_channel data; fifo = data_cmd_addr i2c_num in
      if \<not> (i2c_num < I2C_MAX_NUM \<and> tx < DMAC_CHANNEL_MAX \<and> rx < DMAC_CHANNEL_MAX) \<or> i2c_lock v then None
      else
       (let v = v\<lparr>i2c_lock := True\<rparr>;
            v = (case cb of None \<Rightarrow> v | Some c \<Rightarrow> v\<lparr>i2c_callback := pi_callback c, i2c_ctx := pi_ctx c\<rparr>);
            done = (\<lambda>(sy, w, p, d, v). (sy, w, p, d, if cb = None then v\<lparr>i2c_lock := False\<rparr> else v))
        in
        if transfer_mode data = I2C_SEND then
         (if data_tx_buf data = 0 \<or> data_tx_len data = 0 then None
          else
           (let (sy, w, p, d, v) = i2c_start_irq core dma_cb i2c_num tx I2C_SEND cb (sy, w, p, access [Clr_tx_abrt] d, v);
                sy = snd (sysctl_dma_select (dma_channel tx) (SYSCTL_DMA_SELECT_I2C0_TX_REQ + i2c_num * 2) sy)
            in
            Option.bind (dmac_set_single_mode hw brk tx (data_tx_buf data) fifo DMAC_ADDR_INCREMENT DMAC_ADDR_NOCHANGE
                           DMAC_MSIZE_4 DMAC_TRANS_WIDTH_32 (data_tx_len data) w) (\<lambda>w.
            if cb = None then
              Option.bind (dmac_wait_done hw brk tx w) (\<lambda>w.
              if wait_sent_or_abort sts = Some True then Some (done (sy, w, p, d, v)) else None)
            else Some (done (sy, w, p, d, v)))))
        else
         (if data_rx_buf data = 0 \<or> data_rx_len data = 0 \<or> (data_tx_len data \<noteq> 0 \<and> data_tx_buf data = 0) then None
          else
           (let (sy, w, p, d, v) = i2c_start_irq core dma_cb i2c_num rx I2C_RECEIVE cb (sy, w, p, d, v);
                sy = snd (sysctl_dma_select (dma_channel rx) (SYSCTL_DMA_SELECT_I2C0_RX_REQ + i2c_num * 2) sy)
            in
            Option.bind (dmac_set_single_mode hw brk rx fifo (data_rx_buf data) DMAC_ADDR_NOCHANGE DMAC_ADDR_INCREMENT
                           DMAC_MSIZE_1 DMAC_TRANS_WIDTH_32 (data_rx_len data) w) (\<lambda>w.
            let sy = snd (sysctl_dma_select (dma_channel tx) (SYSCTL_DMA_SELECT_I2C0_TX_REQ + i2c_num * 2) sy) in
            Option.bind (if data_tx_len data = 0 then Some w
                         else Option.bind (dmac_set_single_mode hw brk tx (data_tx_buf data) fifo DMAC_ADDR_INCREMENT DMAC_ADDR_NOCHANGE
                                             DMAC_MSIZE_4 DMAC_TRANS_WIDTH_32 (data_tx_len data) w) (dmac_wait_done hw brk tx)) (\<lambda>w.
            Option.bind (dmac_set_single_mode hw brk tx s_read_cmd fifo DMAC_ADDR_NOCHANGE DMAC_ADDR_NOCHANGE
                           DMAC_MSIZE_1 DMAC_TRANS_WIDTH_32 (data_rx_len data) w) (\<lambda>w.
            if cb = None then
              Option.bind (dmac_wait_done hw brk tx w) (\<lambda>w.
              Option.bind (dmac_wait_done hw brk rx w) (\<lambda>w. Some (done (sy, w, p, d, v))))
            else Some (done (sy, w, p, d, v)))))))))"

text \<open>The lock says whether a transfer with a callback is under way: a call refuses to start over one, holds it on return
  exactly when a callback is to come, and the interrupt releases it whether the transfer was sent or aborted, but tells
  the user only of one that was sent.\<close>

lemma i2c_lock_held_for_callback:
  assumes "i2c_handle_data_dma hw brk core dma_cb rd sts n data cb (sy, w, p, d, v) = Some (sy', w', p', d', v')"
  shows "\<not> i2c_lock v \<and> (i2c_lock v' \<longleftrightarrow> cb \<noteq> None)"
  using assms
  by (cases cb) (auto simp: i2c_handle_data_dma_def i2c_start_irq_def Let_def Option.bind_eq_Some_conv split: if_splits prod.splits)

lemma i2c_irq_releases:
  assumes "i2c_dma_irq core sts (sy, w, p, d, v) = Some (rc, told, sy', w', p', d', v')"
  shows "\<not> i2c_lock v' \<and> (rc = 0 \<or> rc = -1) \<and>
    told = (if rc = 0 then map_option (\<lambda>f. (f, i2c_ctx v)) (i2c_callback v) else None)"
  using assms by (auto simp: i2c_dma_irq_def Let_def split: prod.splits option.splits bool.splits if_splits)

subsection \<open>What a transfer has put on the bus\<close>

definition put :: "u8 list \<Rightarrow> i2c_access list" where
  "put bs = map (Data_cmd \<circ> ucast) bs"

definition read_commands :: "nat \<Rightarrow> i2c_access list" where
  "read_commands n = replicate n (Data_cmd I2C_DATA_CMD_CMD)"

lemma access_Nil [simp]: "access [] d = d"
  by (simp add: access_def)

lemma access_access [simp]: "access m (access l d) = access (l @ m) d"
  by (simp add: access_def)

lemma accesses_access [simp]: "accesses (access l d) = accesses d @ l"
  by (simp add: access_def)

lemma put_append [simp]: "put (xs @ ys) = put xs @ put ys" "put [] = []"
  by (simp_all add: put_def)

lemma read_commands_add: "read_commands m @ read_commands n = read_commands (m + n)"
  by (simp add: read_commands_def replicate_add)

lemma i2c_fifo_len_le: "i2c_fifo_len txflr n \<le> n"
  by (simp add: i2c_fifo_len_def Let_def)

text \<open>A filling loop writes a prefix of the buffer, all of it unless a round saw an abort.\<close>

lemma tx_rounds_prefix:
  "tx_rounds rs xs d = Some (ok, d') \<Longrightarrow>
   \<exists>k \<le> length xs. d' = access (put (take k xs)) d \<and> (ok \<longrightarrow> k = length xs)"
proof (induction rs xs d arbitrary: d' rule: tx_rounds.induct)
  case (3 txflr a rs x xs d)
  let ?f = "i2c_fifo_len txflr (length (x # xs))"
  let ?d = "access (put (take ?f (x # xs))) d"
  have f: "?f \<le> length (x # xs)" by (rule i2c_fifo_len_le)
  show ?case
  proof (cases "a = 0")
    case False
    then have "ok = False" "d' = ?d" using "3.prems" by (simp_all add: put_def Let_def)
    then show ?thesis using f by blast
  next
    case True
    then have "tx_rounds rs (drop ?f (x # xs)) ?d = Some (ok, d')"
      using "3.prems" by (simp add: put_def Let_def)
    then obtain k where k: "k \<le> length (drop ?f (x # xs))" "d' = access (put (take k (drop ?f (x # xs)))) ?d"
      "ok \<longrightarrow> k = length (drop ?f (x # xs))"
      using "3.IH" [OF refl refl] True by (auto simp: put_def)
    have "d' = access (put (take (?f + k) (x # xs))) d"
      unfolding k(2) access_access put_append(1) [symmetric] take_add ..
    then show ?thesis using k f by (intro exI [of _ "?f + k"]) auto
  qed
qed auto

text \<open>A fetching loop that ends well has given \<open>len\<close> read commands and stored the first \<open>rx_len\<close> words it was delivered.\<close>

lemma rx_rounds_ok:
  assumes "rx_rounds rs rxd len rx_len d = Some (True, bytes, d')"
  shows "bytes = map ucast (take rx_len rxd) \<and> length bytes = rx_len \<and> d' = access (read_commands len) d"
  using assms
proof (induction rs arbitrary: rxd len rx_len d bytes)
  case Nil
  then show ?case by (auto simp: rx_rounds.simps read_commands_def split: if_splits)
next
  case (Cons r rs)
  show ?case
  proof (cases "len = 0 \<and> rx_len = 0")
    case True
    then show ?thesis using Cons.prems by (auto simp: rx_rounds.simps read_commands_def)
  next
    case False
    obtain rxflr txflr a where r: "r = (rxflr, txflr, a)" by (metis prod_cases3)
    define got where "got = (if rx_len < unat rxflr then rx_len else unat rxflr)"
    define cmds where "cmds = i2c_fifo_len txflr len"
    have *: "rx_rounds (r # rs) rxd len rx_len d =
      (if length rxd < got then None
       else if a \<noteq> 0 then Some (False, map ucast (take got rxd), access (read_commands cmds) d)
       else case rx_rounds rs (drop got rxd) (len - cmds) (rx_len - got) (access (read_commands cmds) d) of
         None \<Rightarrow> None | Some (ok, others, d) \<Rightarrow> Some (ok, map ucast (take got rxd) @ others, d))"
      unfolding r rx_rounds.simps [of "_ # rs"] list.case prod.case got_def cmds_def read_commands_def Let_def
      by (simp only: if_not_P [OF False])
    obtain others where o: "got \<le> length rxd" "bytes = map ucast (take got rxd) @ others"
      "rx_rounds rs (drop got rxd) (len - cmds) (rx_len - got) (access (read_commands cmds) d) = Some (True, others, d')"
      using Cons.prems unfolding * by (auto split: if_splits option.splits)
    have le: "got \<le> rx_len" "cmds \<le> len" by (simp_all add: got_def cmds_def i2c_fifo_len_le)
    note I = Cons.IH [OF o(3)]
    have "take rx_len rxd = take got rxd @ take (rx_len - got) (drop got rxd)"
      using le(1) by (metis le_add_diff_inverse take_add)
    moreover have lo: "length others = rx_len - got" using I by blast
    have "length bytes = rx_len" using o(1) le(1) by (simp add: o(2) lo)
    ultimately show ?thesis using I o(1,2) le by (simp add: read_commands_add)
  qed
qed

lemma recv_all:
  assumes "i2c_recv_data ts rs rxd send_buf n d = Some (0, receive_buf, d')"
  shows "receive_buf = map ucast (take n rxd) \<and> length receive_buf = n \<and>
    d' = access (put send_buf @ read_commands n) d"
proof -
  obtain d1 where d1: "tx_rounds ts send_buf d = Some (True, d1)" "rx_rounds rs rxd n n d1 = Some (True, receive_buf, d')"
    using assms by (auto simp: i2c_recv_data_def split: option.splits bool.splits if_splits prod.splits)
  have "d1 = access (put send_buf) d" using tx_rounds_prefix [OF d1(1)] by auto
  then show ?thesis using rx_rounds_ok [OF d1(2)] unfolding access_access [symmetric] by blast
qed

end
