(* ===== verification/Sipeed_I2c.thy ===== *)
theory Sipeed_I2c
  imports C_Double I2c
begin

text \<open>
  The I2C functions with timeouts that the camera driver uses, \<open>drivers/camera/gc0328/src/sipeed_i2c.c\<close>.  The
  file keeps per controller whether it is a master and the slave address last programmed; the registers are those of the I2C
  component.  A round of a polling loop reads the cycle counter first, then what the round looks at.  The pause
  of 10 microseconds after an error is left out.  \<open>None\<close>: the answers are used up and the driver is still polling, a
  failed assertion, or a conversion that C leaves undefined.
\<close>

record maix =
  maix_reg :: i2c_t
  is_master_mode :: bool
  slaves_addr :: u16

definition I2C_CON_SPEED_FAST :: u32 where "I2C_CON_SPEED_FAST = 2"
definition I2C_CON_SPEED_HIGH :: u32 where "I2C_CON_SPEED_HIGH = 3"

text \<open>\<open>floor((freq * 1.0 / clk / 2) + 0.5)\<close> in double arithmetic; a result above 65535 does not convert to \<open>uint16_t\<close>.\<close>

definition maix_period :: "u32 \<Rightarrow> u32 \<Rightarrow> int" where
  "maix_period freq clk = \<lfloor>fl (fl (fl (of_int (uint freq) / of_int (uint clk)) / 2) + 1 / 2)\<rfloor>"

definition maix_i2c_init :: "nat \<Rightarrow> u32 \<Rightarrow> u32 \<Rightarrow> sysctl \<times> maix \<Rightarrow> (sysctl \<times> maix) option" where
  "maix_i2c_init i2c_num address_width i2c_clk s = (case s of (sy, m) \<Rightarrow>
     (if i2c_num < I2C_MAX_NUM \<and> (address_width = 7 \<or> address_width = 10) \<and> i2c_clk \<noteq> 0 then
       (case i2c_clk_init i2c_num sy of
          None \<Rightarrow> None
        | Some sy \<Rightarrow>
           (let v = maix_period (sysctl_clock_get_freq sy (i2c_clock i2c_num)) i2c_clk in
            if v > 65535 then None
            else
             (let v_period_clk_cnt = (if v \<le> 6 then 6 else v);
                  v_period_clk_cnt = (if v_period_clk_cnt \<ge> 65525 then 65525 else v_period_clk_cnt);
                  speed_mode = (if i2c_clk > 100000 \<and> i2c_clk \<le> 1000000 then I2C_CON_SPEED_FAST else I2C_CON_SPEED_HIGH);
                  d = (set_enable 0 (maix_reg m))\<lparr>
                    i2c_con := I2C_CON_MASTER_MODE OR I2C_CON_SLAVE_DISABLE OR I2C_CON_RESTART_EN OR
                      (if address_width = 10 then I2C_CON_10BITADDR_SLAVE else 0) OR I2C_CON_SPEED speed_mode,
                    ss_scl_hcnt := word_of_int v_period_clk_cnt, ss_scl_lcnt := word_of_int v_period_clk_cnt,
                    i2c_intr_mask := 0, i2c_dma_cr := 3, i2c_dma_rdlr := 0, i2c_dma_tdlr := 4\<rparr>
              in Some (sy, m\<lparr>maix_reg := set_enable I2C_ENABLE_ENABLE d, is_master_mode := True\<rparr>))))
      else None))"

datatype maix_handler = Maix_i2c_slave_irq

definition maix_i2c_init_as_slave ::
  "nat \<Rightarrow> nat \<Rightarrow> u32 \<Rightarrow> u32 \<Rightarrow> 'h \<Rightarrow> sysctl \<times> maix \<times> (nat \<Rightarrow> 'h option) \<times> maix_handler plic \<Rightarrow>
   (sysctl \<times> maix \<times> (nat \<Rightarrow> 'h option) \<times> maix_handler plic) option" where
  "maix_i2c_init_as_slave core i2c_num slave_address address_width handler s = (case s of (sy, m, slave_context, p) \<Rightarrow>
     (if address_width = 7 \<or> address_width = 10 then
       (let slave_context = slave_context(i2c_num \<mapsto> handler) in
        case i2c_clk_init i2c_num sy of
          None \<Rightarrow> None
        | Some sy \<Rightarrow>
           (let d = slave_registers slave_address address_width (maix_reg m);
                irq = IRQN_I2C0_INTERRUPT + i2c_num;
                p = snd (plic_set_priority (int irq) 1 p);
                p = plic_irq_register core irq (Some Maix_i2c_slave_irq) i2c_num p;
                p = snd (plic_irq_enable core (int irq) p)
            in Some (sy, m\<lparr>maix_reg := set_enable I2C_ENABLE_ENABLE d, is_master_mode := False\<rparr>, slave_context, p)))
      else None))"

text \<open>Unlike \<open>i2c_slave_irq\<close>, a stop is reported after the data.\<close>

definition maix_i2c_slave_irq :: "'s i2c_slave_handler \<Rightarrow> u32 \<Rightarrow> u32 \<Rightarrow> i2c_t \<times> 's \<Rightarrow> i2c_t \<times> 's" where
  "maix_i2c_slave_irq h status rx s =
     (let s = (if status AND I2C_INTR_START_DET \<noteq> 0 then slave_event h I2C_EV_START Clr_start_det s else s);
          s = (if status AND I2C_INTR_RX_FULL \<noteq> 0 then slave_receive h rx s else s);
          s = (if status AND I2C_INTR_RD_REQ \<noteq> 0 then slave_transmit h s else s)
      in (if status AND I2C_INTR_STOP_DET \<noteq> 0 then slave_event h I2C_EV_STOP Clr_stop_det s else s))"

definition maix_i2c_deinit :: "nat \<Rightarrow> nat \<Rightarrow> sysctl \<times> maix \<times> maix_handler plic \<Rightarrow> (sysctl \<times> maix \<times> maix_handler plic) option" where
  "maix_i2c_deinit core i2c_num s = (case s of (sy, m, p) \<Rightarrow>
     (if i2c_num < I2C_MAX_NUM then
       (let m = m\<lparr>maix_reg := set_enable 0 (maix_reg m)\<rparr>;
            sy = snd (sysctl_clock_disable (i2c_clock i2c_num) sy);
            irq = IRQN_I2C0_INTERRUPT + i2c_num;
            p = (if is_master_mode m then p
                 else snd (plic_irq_disable core (int irq) (plic_irq_unregister core irq p)))
        in Some (sy, m, p))
      else None))"

subsection \<open>Transfers\<close>

text \<open>Milliseconds since start: the cycle counter over the CPU frequency in kHz.\<close>

definition time_ms :: "sysctl \<Rightarrow> u64 \<Rightarrow> u64" where
  "time_ms sy mcycle = mcycle div ucast (sysctl_clock_get_freq sy SYSCTL_CLOCK_CPU div 1000)"

definition timed_out :: "sysctl \<Rightarrow> u64 \<Rightarrow> u16 \<Rightarrow> u64 \<Rightarrow> bool" where
  "timed_out sy time_start timeout_ms mcycle \<longleftrightarrow> time_ms sy mcycle - time_start > ucast timeout_ms"

definition reenable :: "i2c_t \<Rightarrow> i2c_t" where
  "reenable d = set_enable 1 (set_enable 0 (access [Clr_tx_abrt] d))"

definition select_slave :: "u32 \<Rightarrow> maix \<Rightarrow> maix" where
  "select_slave slave_address m =
     (if is_master_mode m \<and> ucast (slaves_addr m) \<noteq> slave_address then
       m\<lparr>maix_reg := set_enable 1 ((set_enable 0 (maix_reg m))\<lparr>i2c_tar := slave_address\<rparr>), slaves_addr := ucast slave_address\<rparr>
      else m)"

text \<open>The loops return the value of the function where it returns from inside them, 0 where it goes on.\<close>

fun maix_tx_rounds ::
  "(u64 \<Rightarrow> bool) \<Rightarrow> (u64 \<times> u32 \<times> u32) list \<Rightarrow> u8 list \<Rightarrow> i2c_t \<Rightarrow> (int \<times> i2c_t) option" where
  "maix_tx_rounds late rs [] d = Some (0, d)"
| "maix_tx_rounds late [] (x # xs) d = None"
| "maix_tx_rounds late ((mcycle, txflr, tx_abrt_source) # rs) (x # xs) d =
     (if late mcycle then Some (-3, reenable d)
      else
       (let send_buf = x # xs; fifo_len = i2c_fifo_len txflr (length send_buf);
            d = access (map (Data_cmd \<circ> ucast) (take fifo_len send_buf)) d
        in if tx_abrt_source \<noteq> 0 then Some (-1, reenable d) else maix_tx_rounds late rs (drop fifo_len send_buf) d))"

text \<open>In a waiting round the status is read first, then the clock, then the abort source.\<close>

fun maix_wait_rounds :: "(u64 \<Rightarrow> bool) \<Rightarrow> (u32 \<times> u32 \<times> u64 \<times> u32) list \<Rightarrow> i2c_t \<Rightarrow> (int \<times> i2c_t) option" where
  "maix_wait_rounds late [] d = None"
| "maix_wait_rounds late ((s1, s2, mcycle, tx_abrt_source) # rs) d =
     (if still_sending (s1, s2) then
       (if late mcycle then Some (-3, reenable d)
        else if tx_abrt_source \<noteq> 0 then Some (-2, reenable d)
        else maix_wait_rounds late rs d)
      else Some (0, d))"

fun maix_rx_rounds ::
  "(u64 \<Rightarrow> bool) \<Rightarrow> (u64 \<times> u32 \<times> u32 \<times> u32) list \<Rightarrow> u32 list \<Rightarrow> nat \<Rightarrow> nat \<Rightarrow> i2c_t \<Rightarrow> (int \<times> u8 list \<times> i2c_t) option" where
  "maix_rx_rounds late rs rxd len rx_len d =
     (if len = 0 \<and> rx_len = 0 then Some (0, [], d)
      else case rs of
        [] \<Rightarrow> None
      | (mcycle, rxflr, txflr, tx_abrt_source) # rs \<Rightarrow>
         (if late mcycle then Some (-3, [], reenable d)
          else
           (let got = (if rx_len < unat rxflr then rx_len else unat rxflr) in
            if length rxd < got then None
            else
             (let cmds = i2c_fifo_len txflr len;
                  d = access (replicate cmds (Data_cmd I2C_DATA_CMD_CMD)) d;
                  bytes = map ucast (take got rxd)
              in if tx_abrt_source \<noteq> 0 then Some (-2, bytes, reenable d)
                 else case maix_rx_rounds late rs (drop got rxd) (len - cmds) (rx_len - got) d of
                   None \<Rightarrow> None
                 | Some (r, others, d) \<Rightarrow> Some (r, bytes @ others, d)))))"

declare maix_rx_rounds.simps [simp del]

text \<open>What a controller answers during one call.\<close>

record i2c_answers =
  start_cycle :: u64
  tx_look :: "(u64 \<times> u32 \<times> u32) list"
  wait_look :: "(u32 \<times> u32 \<times> u64 \<times> u32) list"
  rx_look :: "(u64 \<times> u32 \<times> u32 \<times> u32) list"
  rx_words :: "u32 list"

definition maix_i2c_send_data :: "sysctl \<Rightarrow> i2c_answers \<Rightarrow> u32 \<Rightarrow> u8 list \<Rightarrow> u16 \<Rightarrow> maix \<Rightarrow> (int \<times> maix) option" where
  "maix_i2c_send_data sy an slave_address send_buf timeout_ms m =
     (let late = timed_out sy (time_ms sy (start_cycle an)) timeout_ms;
          m = select_slave slave_address m
      in case maix_tx_rounds late (tx_look an) send_buf (maix_reg m) of
           None \<Rightarrow> None
         | Some (r, d) \<Rightarrow>
             (if r \<noteq> 0 then Some (r, m\<lparr>maix_reg := d\<rparr>)
              else case maix_wait_rounds late (wait_look an) d of
                None \<Rightarrow> None
              | Some (r, d) \<Rightarrow> Some (r, m\<lparr>maix_reg := d\<rparr>)))"

definition maix_i2c_recv_data ::
  "sysctl \<Rightarrow> i2c_answers \<Rightarrow> u32 \<Rightarrow> u8 list \<Rightarrow> nat \<Rightarrow> u16 \<Rightarrow> maix \<Rightarrow> (int \<times> u8 list \<times> maix) option" where
  "maix_i2c_recv_data sy an slave_address send_buf receive_buf_len timeout_ms m =
     (let late = timed_out sy (time_ms sy (start_cycle an)) timeout_ms;
          m = select_slave slave_address m
      in case maix_tx_rounds late (tx_look an) send_buf (maix_reg m) of
           None \<Rightarrow> None
         | Some (r, d) \<Rightarrow>
             (if r \<noteq> 0 then Some (r, [], m\<lparr>maix_reg := d\<rparr>)
              else case maix_rx_rounds late (rx_look an) (rx_words an) receive_buf_len receive_buf_len d of
                None \<Rightarrow> None
              | Some (r, receive_buf, d) \<Rightarrow> Some (r, receive_buf, m\<lparr>maix_reg := d\<rparr>)))"

subsection \<open>What was sent, and that a transfer ends\<close>

lemma maix_tx_prefix:
  "maix_tx_rounds late rs xs d = Some (r, d') \<Longrightarrow>
   \<exists>k \<le> length xs. (r = 0 \<and> k = length xs \<and> d' = access (put xs) d) \<or>
     (r \<in> {-1, -3} \<and> d' = reenable (access (put (take k xs)) d))"
proof (induction late rs xs d arbitrary: d' rule: maix_tx_rounds.induct)
  case (3 late mcycle txflr a rs x xs d)
  let ?f = "i2c_fifo_len txflr (length (x # xs))"
  let ?d = "access (put (take ?f (x # xs))) d"
  have f: "?f \<le> length (x # xs)" by (rule i2c_fifo_len_le)
  show ?case
  proof (cases "late mcycle \<or> a \<noteq> 0")
    case True
    then have "r = -3 \<and> d' = reenable (access (put (take 0 (x # xs))) d) \<or> r = -1 \<and> d' = reenable ?d"
      using "3.prems" by (auto simp: put_def Let_def split: if_splits)
    then show ?thesis using f by blast
  next
    case False
    then have *: "maix_tx_rounds late rs (drop ?f (x # xs)) ?d = Some (r, d')"
      using "3.prems" by (simp add: put_def Let_def)
    obtain k where k: "k \<le> length (drop ?f (x # xs))"
      "(r = 0 \<and> k = length (drop ?f (x # xs)) \<and> d' = access (put (drop ?f (x # xs))) ?d) \<or>
       (r \<in> {-1, -3} \<and> d' = reenable (access (put (take k (drop ?f (x # xs)))) ?d))"
      using "3.IH" [OF _ refl refl refl] False * unfolding put_def by blast
    have "access (put (drop ?f (x # xs))) ?d = access (put (x # xs)) d"
      unfolding access_access put_append(1) [symmetric] append_take_drop_id ..
    moreover have "access (put (take k (drop ?f (x # xs)))) ?d = access (put (take (?f + k) (x # xs))) d"
      unfolding access_access put_append(1) [symmetric] take_add ..
    ultimately show ?thesis using k f by (intro exI [of _ "?f + k"]) auto
  qed
qed auto

text \<open>Why a loop ended: what the look that ended it saw.\<close>

lemma maix_tx_cause:
  "maix_tx_rounds late rs xs d = Some (r, d') \<Longrightarrow>
   r = 0 \<or> r = -1 \<and> (\<exists>x \<in> set rs. snd (snd x) \<noteq> 0) \<or> r = -3 \<and> (\<exists>x \<in> set rs. late (fst x))"
  by (induction late rs xs d rule: maix_tx_rounds.induct) (auto simp: Let_def split: if_splits)

definition bus_idle :: "u32 \<times> u32 \<times> u64 \<times> u32 \<Rightarrow> bool" where
  "bus_idle x \<longleftrightarrow> fst x AND 1 = 0 \<and> fst (snd x) AND 4 \<noteq> 0"

lemma bus_idle_iff: "bus_idle (s1, s2, c, a) \<longleftrightarrow> \<not> still_sending (s1, s2)"
  by (auto simp: bus_idle_def still_sending_def I2C_STATUS_ACTIVITY_def I2C_STATUS_TFE_def)

lemma maix_wait_cause:
  "maix_wait_rounds late rs d = Some (r, d') \<Longrightarrow>
   r = 0 \<and> d' = d \<and> (\<exists>x \<in> set rs. bus_idle x) \<or>
   r = -2 \<and> d' = reenable d \<and> (\<exists>x \<in> set rs. snd (snd (snd x)) \<noteq> 0) \<or>
   r = -3 \<and> d' = reenable d \<and> (\<exists>x \<in> set rs. late (fst (snd (snd x))))"
  by (induction late rs d rule: maix_wait_rounds.induct) (auto simp: bus_idle_iff split: if_splits)

text \<open>The clock ends every loop: a late reading among the answers is enough.\<close>

lemma maix_tx_ends: "list_ex (\<lambda>x. late (fst x)) rs \<Longrightarrow> maix_tx_rounds late rs xs d \<noteq> None"
proof (induction rs arbitrary: xs d)
  case (Cons r rs)
  then show ?case by (cases xs; cases r) (auto simp: Let_def split: if_splits)
qed simp

lemma maix_wait_ends: "list_ex (\<lambda>x. late (fst (snd (snd x)))) rs \<Longrightarrow> maix_wait_rounds late rs d \<noteq> None"
  by (induction rs) (auto split: if_splits)

lemma maix_send:
  assumes late: "late = timed_out sy (time_ms sy (start_cycle an)) timeout_ms"
    and clock: "list_ex (\<lambda>x. late (fst x)) (tx_look an)" "list_ex (\<lambda>x. late (fst (snd (snd x)))) (wait_look an)"
  shows "\<exists>r k d'. maix_i2c_send_data sy an addr xs timeout_ms m = Some (r, (select_slave addr m)\<lparr>maix_reg := d'\<rparr>) \<and> k \<le> length xs \<and>
    (r = 0 \<and> d' = access (put xs) (maix_reg (select_slave addr m)) \<and> (\<exists>x \<in> set (wait_look an). bus_idle x) \<or>
     (r = -1 \<and> (\<exists>x \<in> set (tx_look an). snd (snd x) \<noteq> 0) \<or>
      r = -2 \<and> (\<exists>x \<in> set (wait_look an). snd (snd (snd x)) \<noteq> 0) \<and> k = length xs \<or>
      r = -3 \<and> ((\<exists>x \<in> set (tx_look an). late (fst x)) \<or> (\<exists>x \<in> set (wait_look an). late (fst (snd (snd x)))))) \<and>
     d' = reenable (access (put (take k xs)) (maix_reg (select_slave addr m))))"
proof -
  let ?m = "select_slave addr m"
  obtain r d where t: "maix_tx_rounds late (tx_look an) xs (maix_reg ?m) = Some (r, d)"
    using maix_tx_ends [OF clock(1)] by (metis not_None_eq surj_pair)
  obtain k where k: "k \<le> length xs" "(r = 0 \<and> k = length xs \<and> d = access (put xs) (maix_reg ?m)) \<or>
     (r \<in> {-1, -3} \<and> d = reenable (access (put (take k xs)) (maix_reg ?m)))"
    using maix_tx_prefix [OF t] by blast
  show ?thesis
  proof (cases "r = 0")
    case False
    then have "maix_i2c_send_data sy an addr xs timeout_ms m = Some (r, ?m\<lparr>maix_reg := d\<rparr>)"
      using t by (simp add: maix_i2c_send_data_def late Let_def)
    then show ?thesis using k False maix_tx_cause [OF t] by blast
  next
    case True
    obtain r' d' where w: "maix_wait_rounds late (wait_look an) d = Some (r', d')"
      using maix_wait_ends [OF clock(2)] by (metis not_None_eq surj_pair)
    have "maix_i2c_send_data sy an addr xs timeout_ms m = Some (r', ?m\<lparr>maix_reg := d'\<rparr>)"
      using t w True by (simp add: maix_i2c_send_data_def late Let_def)
    moreover have "d = access (put (take (length xs) xs)) (maix_reg ?m)" using k True by auto
    ultimately show ?thesis using maix_wait_cause [OF w]
      by (intro exI [of _ r'] exI [of _ "length xs"] exI [of _ d']) auto
  qed
qed

text \<open>A transfer that succeeds does on the bus what the functions without timeout do, given the same answers.\<close>

lemma maix_tx_plain:
  "maix_tx_rounds late rs xs d = Some (0, d') \<Longrightarrow> tx_rounds (map snd rs) xs d = Some (True, d')"
  by (induction late rs xs d rule: maix_tx_rounds.induct) (auto simp: Let_def split: if_splits)

lemma maix_rx_plain:
  "maix_rx_rounds late rs rxd len rx_len d = Some (0, bytes, d') \<Longrightarrow>
   rx_rounds (map snd rs) rxd len rx_len d = Some (True, bytes, d')"
proof (induction rs arbitrary: rxd len rx_len d bytes)
  case Nil
  then show ?case by (auto simp: maix_rx_rounds.simps rx_rounds.simps split: if_splits)
next
  case (Cons x rs)
  obtain c rxflr txflr a where x: "x = (c, rxflr, txflr, a)" by (metis prod_cases4)
  show ?case
  proof (cases "len = 0 \<and> rx_len = 0")
    case True
    then show ?thesis using Cons.prems by (simp add: maix_rx_rounds.simps rx_rounds.simps)
  next
    case False
    define got where "got = (if rx_len < unat rxflr then rx_len else unat rxflr)"
    define cmds where "cmds = i2c_fifo_len txflr len"
    let ?d = "access (replicate cmds (Data_cmd I2C_DATA_CMD_CMD)) d"
    have "\<not> late c" "got \<le> length rxd" "a = 0"
      "\<exists>others. maix_rx_rounds late rs (drop got rxd) (len - cmds) (rx_len - got) ?d = Some (0, others, d') \<and>
         bytes = map ucast (take got rxd) @ others"
      using Cons.prems unfolding x maix_rx_rounds.simps [of late "_ # rs"] if_not_P [OF False] list.case prod.case
        got_def [symmetric] cmds_def [symmetric] Let_def
      by (auto split: if_splits option.splits)
    then show ?thesis
      using Cons.IH unfolding x list.map snd_conv rx_rounds.simps [of "_ # _"] if_not_P [OF False] list.case prod.case
        got_def [symmetric] cmds_def [symmetric] Let_def
      by fastforce
  qed
qed

lemma maix_recv_plain:
  assumes "maix_i2c_recv_data sy an addr send_buf n timeout_ms m = Some (0, receive_buf, m')"
  shows "i2c_recv_data (map snd (tx_look an)) (map snd (rx_look an)) (rx_words an) send_buf n (maix_reg (select_slave addr m)) =
    Some (0, receive_buf, maix_reg m')"
proof -
  obtain d where d: "maix_tx_rounds (timed_out sy (time_ms sy (start_cycle an)) timeout_ms) (tx_look an) send_buf
      (maix_reg (select_slave addr m)) = Some (0, d)"
    "maix_rx_rounds (timed_out sy (time_ms sy (start_cycle an)) timeout_ms) (rx_look an) (rx_words an) n n d =
      Some (0, receive_buf, maix_reg m')"
    using assms by (auto simp: maix_i2c_recv_data_def Let_def split: option.splits if_splits)
  show ?thesis unfolding i2c_recv_data_def maix_tx_plain [OF d(1)] using maix_rx_plain [OF d(2)] by simp
qed

text \<open>C24.  A timed I2C write always comes back once the cycle counter passes the limit, whatever the bus does.
  It returns 0 only if the whole buffer was written and a look at the status register found the bus without activity and the
  transmit FIFO empty; -1 or -2 only if the controller reported an abort while the buffer was written or was being sent,
  -3 only if the clock was past the limit.  In case of error a prefix of the buffer was written, all of it for -2,
  the abort was cleared and the controller was switched off and on again.\<close>

theorem maix_send_ends_in_time:
  assumes "late = timed_out sy (time_ms sy (start_cycle an)) timeout_ms"
    and "list_ex (\<lambda>x. late (fst x)) (tx_look an)" "list_ex (\<lambda>x. late (fst (snd (snd x)))) (wait_look an)"
  shows "\<exists>r k d'. maix_i2c_send_data sy an addr xs timeout_ms m = Some (r, (select_slave addr m)\<lparr>maix_reg := d'\<rparr>) \<and> k \<le> length xs \<and>
    (r = 0 \<and> d' = access (put xs) (maix_reg (select_slave addr m)) \<and>
       (\<exists>(s1, s2, c, a) \<in> set (wait_look an). s1 AND 1 = 0 \<and> s2 AND 4 \<noteq> 0) \<or>
     (r = -1 \<and> (\<exists>(c, txflr, abort) \<in> set (tx_look an). abort \<noteq> 0) \<or>
      r = -2 \<and> (\<exists>(s1, s2, c, abort) \<in> set (wait_look an). abort \<noteq> 0) \<and> k = length xs \<or>
      r = -3 \<and> ((\<exists>(c, txflr, abort) \<in> set (tx_look an). late c) \<or> (\<exists>(s1, s2, c, a) \<in> set (wait_look an). late c))) \<and>
     d' = reenable (access (put (take k xs)) (maix_reg (select_slave addr m))))"
  using maix_send [OF assms, of addr xs m] by (simp only: case_prod_unfold bus_idle_def)

definition on_crystal :: "sysctl \<Rightarrow> sysctl" where
  "on_crystal s = s\<lparr>clk_sel0 := (clk_sel0 s)\<lparr>aclk_sel := 0\<rparr>\<rparr>"

lemma crystal_ms: "time_ms (on_crystal s) c = c div 26000"
  by (simp add: time_ms_def on_crystal_def sysctl_clock_get_freq.simps sysctl_clock_source_get_freq.simps
      sysctl_clock_get_clock_select_def SYSCTRL_CLOCK_FREQ_IN0_def)

definition blank_maix :: maix where
  "blank_maix = \<lparr>maix_reg = \<lparr>i2c_con = 0, i2c_tar = 0, i2c_sar = 0, ss_scl_hcnt = 0, ss_scl_lcnt = 0, i2c_intr_mask = 0,
     i2c_rx_tl = 0, i2c_tx_tl = 0, i2c_dma_cr = 0, i2c_dma_tdlr = 0, i2c_dma_rdlr = 0, i2c_enable = 1, accesses = []\<rparr>,
     is_master_mode = True, slaves_addr = 0\<rparr>"

definition stuck_bus :: i2c_answers where
  "stuck_bus = \<lparr>start_cycle = 26000, tx_look = [(26000, 6, 0), (52000, 8, 0), (520000, 8, 0)],
     wait_look = [(1, 0, 520000, 0)], rx_look = [(26000, 0, 0, 0), (52000, 1, 7, 0), (78000, 4, 8, 0)], rx_words = [7, 8]\<rparr>"

lemma maix_send_ends_in_time_witness:
  "\<forall>s. \<exists>d'. maix_i2c_send_data (on_crystal s) stuck_bus 0x21 [1, 2, 3] 10 blank_maix =
       Some (-3, (select_slave 0x21 blank_maix)\<lparr>maix_reg := d'\<rparr>)"
proof
  fix s
  let ?late = "timed_out (on_crystal s) (time_ms (on_crystal s) (start_cycle stuck_bus)) 10"
  have "list_ex (\<lambda>x. ?late (fst x)) (tx_look stuck_bus)" "list_ex (\<lambda>x. ?late (fst (snd (snd x)))) (wait_look stuck_bus)"
    by (simp_all add: stuck_bus_def timed_out_def crystal_ms)
  from maix_send_ends_in_time [OF refl this, where addr = "0x21" and xs = "[1, 2, 3]" and m = blank_maix]
  show "\<exists>d'. maix_i2c_send_data (on_crystal s) stuck_bus 0x21 [1, 2, 3] 10 blank_maix =
       Some (-3, (select_slave 0x21 blank_maix)\<lparr>maix_reg := d'\<rparr>)"
    by (auto simp: stuck_bus_def)
qed

text \<open>A timed I2C read that returns 0 has written the whole command, given exactly as many read commands as bytes were asked for, in
  this order, and filled the buffer with the first words the receive FIFO delivered, in their order.\<close>

lemma maix_recv_as_commanded:
  assumes "maix_i2c_recv_data sy an addr send_buf n timeout_ms m = Some (0, receive_buf, m')"
  shows "receive_buf = map ucast (take n (rx_words an)) \<and> length receive_buf = n \<and>
    maix_reg m' = access (put send_buf @ read_commands n) (maix_reg (select_slave addr m))"
  by (rule recv_all [OF maix_recv_plain [OF assms]])

lemma replicate_two: "replicate 2 x = [x, x]"
  by (simp add: numeral_2_eq_2)

lemma maix_recv_as_commanded_witness:
  "\<forall>s. let r = maix_i2c_recv_data (on_crystal s) stuck_bus 0x21 [0xF0] 2 10 blank_maix in
     r \<noteq> None \<and> fst (the r) = 0 \<and> fst (snd (the r)) = [7, 8] \<and>
     accesses (maix_reg (snd (snd (the r)))) = [Enable 0, Enable 1, Data_cmd 0xF0, Data_cmd 0x100, Data_cmd 0x100]"
proof
  fix s
  have "\<exists>b m'. maix_i2c_recv_data (on_crystal s) stuck_bus 0x21 [0xF0] 2 10 blank_maix = Some (0, b, m')"
    by (simp add: maix_i2c_recv_data_def stuck_bus_def timed_out_def crystal_ms maix_rx_rounds.simps i2c_fifo_len_def)
      (simp add: Let_def)
  then obtain b m' where r: "maix_i2c_recv_data (on_crystal s) stuck_bus 0x21 [0xF0] 2 10 blank_maix = Some (0, b, m')" by blast
  have e: "b = [7, 8]" "accesses (maix_reg m') = [Enable 0, Enable 1, Data_cmd 0xF0, Data_cmd 0x100, Data_cmd 0x100]"
    using maix_recv_as_commanded [OF r] replicate_two
    by (simp_all add: stuck_bus_def put_def read_commands_def I2C_DATA_CMD_CMD_def select_slave_def blank_maix_def set_enable_def)
  show "let r = maix_i2c_recv_data (on_crystal s) stuck_bus 0x21 [0xF0] 2 10 blank_maix in
     r \<noteq> None \<and> fst (the r) = 0 \<and> fst (snd (the r)) = [7, 8] \<and>
     accesses (maix_reg (snd (snd (the r)))) = [Enable 0, Enable 1, Data_cmd 0xF0, Data_cmd 0x100, Data_cmd 0x100]"
    by (simp add: r e)
qed

end
