(* ===== verification/Dvp.thy ===== *)
theory Dvp
  imports C_Double Sysctl_Freq Dmac
begin

text \<open>
  The driver of the digital video port, \<open>lib/drivers/dvp.c\<close>: the camera control bus (SCCB) and the
  settings of the image receiver.  \<open>sts_in\<close> are the values the status register will read, \<open>rdata_in\<close> the bytes a
  camera will put on the bus; \<open>sts_out\<close> lists what the driver wrote to the status register and \<open>sccb_log\<close> the bus transfers it
  started, each with the byte count and the control word it ran with.  \<open>None\<close>: the driver is still polling, a
  failed assertion, or a conversion or division that C leaves undefined.  The delay loops are left out.
\<close>

subsection \<open>Registers\<close>

definition DVP_CFG_AI_OUTPUT_ENABLE :: u32 where "DVP_CFG_AI_OUTPUT_ENABLE = 4"
definition DVP_CFG_DISPLAY_OUTPUT_ENABLE :: u32 where "DVP_CFG_DISPLAY_OUTPUT_ENABLE = 8"
definition DVP_CFG_AUTO_ENABLE :: u32 where "DVP_CFG_AUTO_ENABLE = 0x10"
definition DVP_CFG_BURST_SIZE_4BEATS :: u32 where "DVP_CFG_BURST_SIZE_4BEATS = 0x100"
definition DVP_CFG_FORMAT_MASK :: u32 where "DVP_CFG_FORMAT_MASK = 0x600"
definition DVP_CFG_HREF_BURST_NUM_MASK :: u32 where "DVP_CFG_HREF_BURST_NUM_MASK = 0x000FF000"
definition DVP_CFG_LINE_NUM_MASK :: u32 where "DVP_CFG_LINE_NUM_MASK = 0x3FF00000"
definition DVP_CMOS_CLK_DIV_MASK :: u32 where "DVP_CMOS_CLK_DIV_MASK = 0xFF"
definition DVP_CMOS_CLK_ENABLE :: u32 where "DVP_CMOS_CLK_ENABLE = 0x100"
definition DVP_CMOS_RESET :: u32 where "DVP_CMOS_RESET = 0x10000"
definition DVP_CMOS_POWER_DOWN :: u32 where "DVP_CMOS_POWER_DOWN = 0x1000000"
definition DVP_SCCB_BYTE_NUM_MASK :: u32 where "DVP_SCCB_BYTE_NUM_MASK = 3"
definition DVP_SCCB_BYTE_NUM_2 :: u32 where "DVP_SCCB_BYTE_NUM_2 = 1"
definition DVP_SCCB_BYTE_NUM_3 :: u32 where "DVP_SCCB_BYTE_NUM_3 = 2"
definition DVP_SCCB_BYTE_NUM_4 :: u32 where "DVP_SCCB_BYTE_NUM_4 = 3"
definition DVP_SCCB_SCL_LCNT_MASK :: u32 where "DVP_SCCB_SCL_LCNT_MASK = 0xFF00"
definition DVP_SCCB_SCL_HCNT_MASK :: u32 where "DVP_SCCB_SCL_HCNT_MASK = 0xFF0000"
definition DVP_SCCB_WRITE_DATA_ENABLE :: u32 where "DVP_SCCB_WRITE_DATA_ENABLE = 1"
definition DVP_AXI_GM_MLEN_MASK :: u32 where "DVP_AXI_GM_MLEN_MASK = 0xFF"
definition DVP_AXI_GM_MLEN_1BYTE :: u32 where "DVP_AXI_GM_MLEN_1BYTE = 0"
definition DVP_AXI_GM_MLEN_4BYTE :: u32 where "DVP_AXI_GM_MLEN_4BYTE = 3"
definition DVP_STS_FRAME_START :: u32 where "DVP_STS_FRAME_START = 1"
definition DVP_STS_FRAME_START_WE :: u32 where "DVP_STS_FRAME_START_WE = 2"
definition DVP_STS_FRAME_FINISH :: u32 where "DVP_STS_FRAME_FINISH = 0x100"
definition DVP_STS_FRAME_FINISH_WE :: u32 where "DVP_STS_FRAME_FINISH_WE = 0x200"
definition DVP_STS_DVP_EN :: u32 where "DVP_STS_DVP_EN = 0x10000"
definition DVP_STS_DVP_EN_WE :: u32 where "DVP_STS_DVP_EN_WE = 0x20000"
definition DVP_STS_SCCB_EN :: u32 where "DVP_STS_SCCB_EN = 0x1000000"
definition DVP_STS_SCCB_EN_WE :: u32 where "DVP_STS_SCCB_EN_WE = 0x2000000"

record dvp =
  dvp_cfg :: u32
  r_addr :: u32
  g_addr :: u32
  b_addr :: u32
  cmos_cfg :: u32
  sccb_cfg :: u32
  sccb_ctl :: u32
  axi :: u32
  rgb_addr :: u32
  sccb_reg_len :: u8
  sts_in :: "u32 list"
  rdata_in :: "u8 list"
  sts_out :: "u32 list"
  sccb_log :: "(u32 \<times> u32) list"

definition put_sts :: "u32 \<Rightarrow> dvp \<Rightarrow> dvp" where
  "put_sts v d = d\<lparr>sts_out := sts_out d @ [v]\<rparr>"

text \<open>A waiting loop reads the status until the given bits are set (\<open>b\<close>) or clear (\<open>\<not> b\<close>).\<close>

fun until_sts :: "bool \<Rightarrow> u32 \<Rightarrow> u32 list \<Rightarrow> u32 list option" where
  "until_sts b bits [] = None"
| "until_sts b bits (v # vs) = (if (v AND bits \<noteq> 0) = b then Some vs else until_sts b bits vs)"

definition wait_sts :: "bool \<Rightarrow> u32 \<Rightarrow> dvp \<Rightarrow> dvp option" where
  "wait_sts b bits d = map_option (\<lambda>vs. d\<lparr>sts_in := vs\<rparr>) (until_sts b bits (sts_in d))"

subsection \<open>Camera control bus\<close>

definition dvp_sccb_clk_init :: "dvp \<Rightarrow> dvp" where
  "dvp_sccb_clk_init d =
     (let tmp = sccb_cfg d AND NOT (DVP_SCCB_SCL_LCNT_MASK OR DVP_SCCB_SCL_HCNT_MASK)
      in d\<lparr>sccb_cfg := tmp OR push_bit 8 255 OR push_bit 16 255\<rparr>)"

text \<open>\<open>round\<close> of the C library rounds halves away from zero; its argument here is never negative.\<close>

definition c_round :: "rat \<Rightarrow> int" where
  "c_round x = \<lfloor>x + 1 / 2\<rfloor>"

definition dvp_sccb_set_clk_rate :: "u32 \<Rightarrow> sysctl \<times> dvp \<Rightarrow> (u32 \<times> dvp) option" where
  "dvp_sccb_set_clk_rate clk_rate s = (case s of (sy, d) \<Rightarrow>
     (if clk_rate = 0 then None
      else
       (let v = c_round (of_int (uint (sysctl_clock_get_freq sy SYSCTL_CLOCK_APB1 div clk_rate)) / 2) in
        if v > 65535 then None
        else if v > 255 then Some (0, d)
        else
         (let tmp = sccb_cfg d AND NOT (DVP_SCCB_SCL_LCNT_MASK OR DVP_SCCB_SCL_HCNT_MASK);
              d = d\<lparr>sccb_cfg := tmp OR push_bit 8 (word_of_int v) OR push_bit 16 (word_of_int v)\<rparr>
          in if v = 0 then None else Some (sysctl_clock_get_freq sy SYSCTL_CLOCK_DVP div word_of_int (v * 2), d)))))"

definition dvp_sccb_start_transfer :: "dvp \<Rightarrow> dvp option" where
  "dvp_sccb_start_transfer d =
     Option.bind (wait_sts False DVP_STS_SCCB_EN d) (\<lambda>d.
     let d = put_sts (DVP_STS_SCCB_EN OR DVP_STS_SCCB_EN_WE) d;
         d = d\<lparr>sccb_log := sccb_log d @ [(sccb_cfg d AND DVP_SCCB_BYTE_NUM_MASK, sccb_ctl d)]\<rparr>
     in wait_sts False DVP_STS_SCCB_EN d)"

definition dvp_sccb_send_data :: "u8 \<Rightarrow> u16 \<Rightarrow> u8 \<Rightarrow> dvp \<Rightarrow> dvp option" where
  "dvp_sccb_send_data dev_addr reg_addr reg_data d =
     (let tmp = sccb_cfg d AND NOT DVP_SCCB_BYTE_NUM_MASK;
          tmp = (if sccb_reg_len d = 8 then tmp OR DVP_SCCB_BYTE_NUM_3 else tmp OR DVP_SCCB_BYTE_NUM_4);
          d = d\<lparr>sccb_cfg := tmp\<rparr>;
          d = d\<lparr>sccb_ctl :=
            (if sccb_reg_len d = 8 then
               DVP_SCCB_WRITE_DATA_ENABLE OR ucast dev_addr OR push_bit 8 (ucast reg_addr) OR push_bit 16 (ucast reg_data)
             else DVP_SCCB_WRITE_DATA_ENABLE OR ucast dev_addr OR push_bit 8 (ucast (drop_bit 8 reg_addr)) OR
               push_bit 16 (ucast (reg_addr AND 0xff)) OR push_bit 24 (ucast reg_data))\<rparr>
      in dvp_sccb_start_transfer d)"

text \<open>The byte the camera answered stands in the top byte of \<open>sccb_cfg\<close> when the second transfer is over.\<close>

definition take_rdata :: "dvp \<Rightarrow> dvp option" where
  "take_rdata d =
     (case rdata_in d of [] \<Rightarrow> None
      | b # bs \<Rightarrow> Some (d\<lparr>sccb_cfg := (sccb_cfg d AND 0x00FFFFFF) OR push_bit 24 (ucast b), rdata_in := bs\<rparr>))"

definition dvp_sccb_receive_data :: "u8 \<Rightarrow> u16 \<Rightarrow> dvp \<Rightarrow> (u8 \<times> dvp) option" where
  "dvp_sccb_receive_data dev_addr reg_addr d =
     (let tmp = sccb_cfg d AND NOT DVP_SCCB_BYTE_NUM_MASK;
          tmp = (if sccb_reg_len d = 8 then tmp OR DVP_SCCB_BYTE_NUM_2 else tmp OR DVP_SCCB_BYTE_NUM_3);
          d = d\<lparr>sccb_cfg := tmp\<rparr>;
          d = d\<lparr>sccb_ctl :=
            (if sccb_reg_len d = 8 then DVP_SCCB_WRITE_DATA_ENABLE OR ucast dev_addr OR push_bit 8 (ucast reg_addr)
             else DVP_SCCB_WRITE_DATA_ENABLE OR ucast dev_addr OR push_bit 8 (ucast (drop_bit 8 reg_addr)) OR
               push_bit 16 (ucast (reg_addr AND 0xff)))\<rparr>
      in
      Option.bind (dvp_sccb_start_transfer d) (\<lambda>d.
      Option.bind (dvp_sccb_start_transfer (d\<lparr>sccb_ctl := ucast dev_addr\<rparr>)) (\<lambda>d.
      map_option (\<lambda>d. (ucast (drop_bit 24 (sccb_cfg d)), d)) (take_rdata d))))"

subsection \<open>Image receiver\<close>

definition dvp_reset :: "dvp \<Rightarrow> dvp" where
  "dvp_reset d =
     (let d = d\<lparr>cmos_cfg := cmos_cfg d OR DVP_CMOS_POWER_DOWN\<rparr>;
          d = d\<lparr>cmos_cfg := cmos_cfg d AND NOT DVP_CMOS_POWER_DOWN\<rparr>;
          d = d\<lparr>cmos_cfg := cmos_cfg d AND NOT DVP_CMOS_RESET\<rparr>
      in d\<lparr>cmos_cfg := cmos_cfg d OR DVP_CMOS_RESET\<rparr>)"

definition dvp_init :: "u8 \<Rightarrow> sysctl \<times> dvp \<Rightarrow> sysctl \<times> dvp" where
  "dvp_init reg_len s = (case s of (sy, d) \<Rightarrow>
     (let d = d\<lparr>sccb_reg_len := reg_len\<rparr>;
          sy = snd (sysctl_clock_enable SYSCTL_CLOCK_DVP sy);
          sy = sysctl_reset SYSCTL_RESET_DVP sy;
          d = d\<lparr>cmos_cfg := cmos_cfg d AND NOT DVP_CMOS_CLK_DIV_MASK\<rparr>;
          d = d\<lparr>cmos_cfg := cmos_cfg d OR 3 OR DVP_CMOS_CLK_ENABLE\<rparr>
      in (sy, dvp_reset (dvp_sccb_clk_init d))))"

text \<open>A rate whose double wraps to 0 or whose quotient rounds to 0 converts a number below 0 or infinite.\<close>

definition dvp_set_xclk_rate :: "u32 \<Rightarrow> sysctl \<times> dvp \<Rightarrow> (u32 \<times> dvp) option" where
  "dvp_set_xclk_rate xclk_rate s = (case s of (sy, d) \<Rightarrow>
     (let v_apb1_clk = sysctl_clock_get_freq sy SYSCTL_CLOCK_APB1;
          v = (if v_apb1_clk > xclk_rate * 2
               then c_round (fl (of_int (uint v_apb1_clk) / (of_int (uint xclk_rate) * 2))) - 1 else 0)
      in if v_apb1_clk > xclk_rate * 2 \<and> (xclk_rate = 0 \<or> v < 0) then None
         else
          (let v_period = (if v > 255 then 255 else v);
               d = d\<lparr>cmos_cfg := cmos_cfg d AND NOT DVP_CMOS_CLK_DIV_MASK\<rparr>;
               d = d\<lparr>cmos_cfg := cmos_cfg d OR word_of_int v_period OR DVP_CMOS_CLK_ENABLE\<rparr>
           in Some (v_apb1_clk div (word_of_int ((v_period + 1) * 2)), dvp_reset d))))"

definition dvp_set_image_format :: "u32 \<Rightarrow> dvp \<Rightarrow> dvp" where
  "dvp_set_image_format format d = d\<lparr>dvp_cfg := (dvp_cfg d AND NOT DVP_CFG_FORMAT_MASK) OR format\<rparr>"

definition dvp_enable_burst :: "dvp \<Rightarrow> dvp" where
  "dvp_enable_burst d = d\<lparr>dvp_cfg := dvp_cfg d OR DVP_CFG_BURST_SIZE_4BEATS,
     axi := (axi d AND NOT DVP_AXI_GM_MLEN_MASK) OR DVP_AXI_GM_MLEN_4BYTE\<rparr>"

definition dvp_disable_burst :: "dvp \<Rightarrow> dvp" where
  "dvp_disable_burst d = d\<lparr>dvp_cfg := dvp_cfg d AND NOT DVP_CFG_BURST_SIZE_4BEATS,
     axi := (axi d AND NOT DVP_AXI_GM_MLEN_MASK) OR DVP_AXI_GM_MLEN_1BYTE\<rparr>"

definition dvp_set_image_size :: "u32 \<Rightarrow> u32 \<Rightarrow> dvp \<Rightarrow> dvp" where
  "dvp_set_image_size width height d =
     (let tmp = dvp_cfg d AND NOT (DVP_CFG_HREF_BURST_NUM_MASK OR DVP_CFG_LINE_NUM_MASK);
          tmp = tmp OR push_bit 20 height;
          tmp = (if dvp_cfg d AND DVP_CFG_BURST_SIZE_4BEATS \<noteq> 0
                 then tmp OR push_bit 12 (width div 8 div 4) else tmp OR push_bit 12 (width div 8 div 1))
      in d\<lparr>dvp_cfg := tmp\<rparr>)"

definition dvp_set_ai_addr :: "u32 \<Rightarrow> u32 \<Rightarrow> u32 \<Rightarrow> dvp \<Rightarrow> dvp option" where
  "dvp_set_ai_addr r g b d =
     (if is_memory_cache (uint r) \<or> is_memory_cache (uint g) \<or> is_memory_cache (uint b) then None
      else Some (d\<lparr>r_addr := r, g_addr := g, b_addr := b\<rparr>))"

definition dvp_set_display_addr :: "u32 \<Rightarrow> dvp \<Rightarrow> dvp option" where
  "dvp_set_display_addr a d = (if is_memory_cache (uint a) then None else Some (d\<lparr>rgb_addr := a\<rparr>))"

definition dvp_start_frame :: "dvp \<Rightarrow> dvp option" where
  "dvp_start_frame d = map_option (put_sts (DVP_STS_FRAME_START OR DVP_STS_FRAME_START_WE)) (wait_sts True DVP_STS_FRAME_START d)"

definition dvp_start_convert :: "dvp \<Rightarrow> dvp" where
  "dvp_start_convert d = put_sts (DVP_STS_DVP_EN OR DVP_STS_DVP_EN_WE) d"

definition dvp_finish_convert :: "dvp \<Rightarrow> dvp option" where
  "dvp_finish_convert d = map_option (put_sts (DVP_STS_FRAME_FINISH OR DVP_STS_FRAME_FINISH_WE)) (wait_sts True DVP_STS_FRAME_FINISH d)"

definition dvp_get_image :: "dvp \<Rightarrow> dvp option" where
  "dvp_get_image d =
     Option.bind (wait_sts True DVP_STS_FRAME_START d) (\<lambda>d.
     Option.bind (wait_sts True DVP_STS_FRAME_START (put_sts (DVP_STS_FRAME_START OR DVP_STS_FRAME_START_WE) d)) (\<lambda>d.
     wait_sts True DVP_STS_FRAME_FINISH (put_sts (DVP_STS_FRAME_FINISH OR DVP_STS_FRAME_FINISH_WE OR DVP_STS_FRAME_START OR
       DVP_STS_FRAME_START_WE OR DVP_STS_DVP_EN OR DVP_STS_DVP_EN_WE) d)))"

definition dvp_config_interrupt :: "u32 \<Rightarrow> u8 \<Rightarrow> dvp \<Rightarrow> dvp" where
  "dvp_config_interrupt interrupt enable d =
     (if enable \<noteq> 0 then d\<lparr>dvp_cfg := dvp_cfg d OR interrupt\<rparr> else d\<lparr>dvp_cfg := dvp_cfg d AND NOT interrupt\<rparr>)"

definition dvp_get_interrupt :: "u32 \<Rightarrow> dvp \<Rightarrow> (int \<times> dvp) option" where
  "dvp_get_interrupt interrupt d =
     (case sts_in d of [] \<Rightarrow> None | v # vs \<Rightarrow> Some (if v AND interrupt \<noteq> 0 then 1 else 0, d\<lparr>sts_in := vs\<rparr>))"

definition dvp_clear_interrupt :: "u32 \<Rightarrow> dvp \<Rightarrow> dvp option" where
  "dvp_clear_interrupt interrupt d =
     (let interrupt = interrupt OR push_bit 1 interrupt in
      case sts_in d of [] \<Rightarrow> None | v # vs \<Rightarrow> Some (put_sts (v OR interrupt) (d\<lparr>sts_in := vs\<rparr>)))"

definition dvp_enable_auto :: "dvp \<Rightarrow> dvp" where
  "dvp_enable_auto d = d\<lparr>dvp_cfg := dvp_cfg d OR DVP_CFG_AUTO_ENABLE\<rparr>"

definition dvp_disable_auto :: "dvp \<Rightarrow> dvp" where
  "dvp_disable_auto d = d\<lparr>dvp_cfg := dvp_cfg d AND NOT DVP_CFG_AUTO_ENABLE\<rparr>"

definition dvp_set_output_enable :: "nat \<Rightarrow> int \<Rightarrow> dvp \<Rightarrow> dvp option" where
  "dvp_set_output_enable index enable d =
     (if index \<ge> 2 then None
      else if index = 0 then
        Some (if enable \<noteq> 0 then d\<lparr>dvp_cfg := dvp_cfg d OR DVP_CFG_AI_OUTPUT_ENABLE\<rparr>
              else d\<lparr>dvp_cfg := dvp_cfg d AND NOT DVP_CFG_AI_OUTPUT_ENABLE\<rparr>)
      else
        Some (if enable \<noteq> 0 then d\<lparr>dvp_cfg := dvp_cfg d OR DVP_CFG_DISPLAY_OUTPUT_ENABLE\<rparr>
              else d\<lparr>dvp_cfg := dvp_cfg d AND NOT DVP_CFG_DISPLAY_OUTPUT_ENABLE\<rparr>))"

subsection \<open>Bus transfers\<close>

lemma wait_sts_only:
  "wait_sts b m d = Some d' \<Longrightarrow> \<exists>vs. d' = d\<lparr>sts_in := vs\<rparr>"
  by (auto simp: wait_sts_def)

lemma start_transfer_only:
  assumes "dvp_sccb_start_transfer d = Some d'"
  shows "\<exists>vs. d' = d\<lparr>sts_out := sts_out d @ [DVP_STS_SCCB_EN OR DVP_STS_SCCB_EN_WE],
    sccb_log := sccb_log d @ [(sccb_cfg d AND DVP_SCCB_BYTE_NUM_MASK, sccb_ctl d)], sts_in := vs\<rparr>"
  using assms
  by (auto simp: dvp_sccb_start_transfer_def Option.bind_eq_Some_conv put_sts_def Let_def dest!: wait_sts_only intro: exI)

text \<open>Two idle readings of the status are enough for a transfer.\<close>

lemma start_transfer_idle:
  "sts_in d = 0 # 0 # vs \<Longrightarrow> \<exists>d'. dvp_sccb_start_transfer d = Some d' \<and> sts_in d' = vs"
  by (simp add: dvp_sccb_start_transfer_def wait_sts_def put_sts_def Let_def)

lemma word_bits_below:
  fixes w :: "'a::len word"
  assumes "uint w < 2 ^ k" "bit w n"
  shows "n < k"
proof -
  have "take_bit k (uint w) = uint w" using assms(1) by (simp add: take_bit_int_eq_self)
  moreover have "bit (uint w) n" using assms(2) by (simp add: bit_uint_iff bit_imp_le_length)
  ultimately show ?thesis by (metis bit_take_bit_iff)
qed

lemma byte_num_field:
  assumes "uint k < 4"
  shows "((w AND NOT DVP_SCCB_BYTE_NUM_MASK) OR k) AND DVP_SCCB_BYTE_NUM_MASK = (k :: u32)"
proof -
  have m: "DVP_SCCB_BYTE_NUM_MASK = mask 2" by (simp add: DVP_SCCB_BYTE_NUM_MASK_def mask_eq_exp_minus_1)
  have "n < 2" if "bit k n" for n using word_bits_below [OF _ that, of 2] assms by simp
  then show ?thesis unfolding m by (intro bit_word_eqI) (auto simp: bit_simps)
qed

text \<open>A write to a register of a camera with 8-bit register addresses: three bytes, in the order of the bus.\<close>

definition sccb_write_word :: "u8 \<Rightarrow> u16 \<Rightarrow> u8 \<Rightarrow> u32 \<times> u32" where
  "sccb_write_word a r v = (2, 1 OR ucast a OR push_bit 8 (ucast r) OR push_bit 16 (ucast v))"

lemma send_data_logs:
  assumes "dvp_sccb_send_data a r v d = Some d'" "sccb_reg_len d = 8"
  shows "sccb_log d' = sccb_log d @ [sccb_write_word a r v] \<and> dvp_cfg d' = dvp_cfg d \<and> sccb_reg_len d' = 8 \<and> rdata_in d' = rdata_in d"
proof -
  let ?d = "d\<lparr>sccb_cfg := (sccb_cfg d AND NOT DVP_SCCB_BYTE_NUM_MASK) OR 2, sccb_ctl := snd (sccb_write_word a r v)\<rparr>"
  have "dvp_sccb_start_transfer ?d = Some d'"
    using assms by (simp add: dvp_sccb_send_data_def sccb_write_word_def DVP_SCCB_BYTE_NUM_3_def DVP_SCCB_WRITE_DATA_ENABLE_def Let_def or.assoc)
  from start_transfer_only [OF this] show ?thesis
    using assms(2) byte_num_field [of 2 "sccb_cfg d"] by (auto simp: sccb_write_word_def)
qed

lemma top_byte:
  "ucast (drop_bit 24 (push_bit 24 (ucast b :: u32))) = (b :: u8)"
  by (intro bit_word_eqI) (auto simp: bit_simps)

lemma take_rdata_only:
  "take_rdata d = Some d' \<Longrightarrow> \<exists>b bs. rdata_in d = b # bs \<and>
     d' = d\<lparr>sccb_cfg := (sccb_cfg d AND 0x00FFFFFF) OR push_bit 24 (ucast b), rdata_in := bs\<rparr>"
  by (auto simp: take_rdata_def split: list.splits)

lemma receive_data_answer:
  assumes "dvp_sccb_receive_data a r d = Some (b, d')"
  shows "\<exists>bs. rdata_in d = b # bs \<and> rdata_in d' = bs \<and> dvp_cfg d' = dvp_cfg d \<and> sccb_reg_len d' = sccb_reg_len d"
  using assms
  by (auto simp: dvp_sccb_receive_data_def Option.bind_eq_Some_conv Let_def top_byte dest!: start_transfer_only take_rdata_only)

subsection \<open>Image size\<close>

text \<open>The two fields of the image size, as the masks of the header have them.\<close>

definition line_num :: "dvp \<Rightarrow> u32" where
  "line_num d = drop_bit 20 (dvp_cfg d AND DVP_CFG_LINE_NUM_MASK)"
definition href_burst_num :: "dvp \<Rightarrow> u32" where
  "href_burst_num d = drop_bit 12 (dvp_cfg d AND DVP_CFG_HREF_BURST_NUM_MASK)"

lemma mask_bits:
  "bit DVP_CFG_LINE_NUM_MASK n \<longleftrightarrow> 20 \<le> n \<and> n < 30"
  "bit DVP_CFG_HREF_BURST_NUM_MASK n \<longleftrightarrow> 12 \<le> n \<and> n < 20"
proof -
  have "DVP_CFG_LINE_NUM_MASK = push_bit 20 (mask 10)" "DVP_CFG_HREF_BURST_NUM_MASK = push_bit 12 (mask 8)"
    by (simp_all add: DVP_CFG_LINE_NUM_MASK_def DVP_CFG_HREF_BURST_NUM_MASK_def mask_eq_exp_minus_1 push_bit_eq_mult)
  then have "bit DVP_CFG_LINE_NUM_MASK n \<longleftrightarrow> bit (push_bit 20 (mask 10) :: u32) n"
    "bit DVP_CFG_HREF_BURST_NUM_MASK n \<longleftrightarrow> bit (push_bit 12 (mask 8) :: u32) n" by metis+
  then show "bit DVP_CFG_LINE_NUM_MASK n \<longleftrightarrow> 20 \<le> n \<and> n < 30" "bit DVP_CFG_HREF_BURST_NUM_MASK n \<longleftrightarrow> 12 \<le> n \<and> n < 20"
    by (simp_all only: bit_push_bit_iff bit_mask_iff) (simp_all add: possible_bit_def, linarith+)
qed

lemma image_size_bits:
  fixes w h :: u32
  assumes h: "h < 1024" and q: "q < 256"
    and q_def: "q = (if dvp_cfg d AND DVP_CFG_BURST_SIZE_4BEATS \<noteq> 0 then w div 8 div 4 else w div 8 div 1)"
  shows "line_num (dvp_set_image_size w h d) = h" "href_burst_num (dvp_set_image_size w h d) = q"
    "dvp_cfg (dvp_set_image_size w h d) AND NOT (DVP_CFG_LINE_NUM_MASK OR DVP_CFG_HREF_BURST_NUM_MASK) =
     dvp_cfg d AND NOT (DVP_CFG_LINE_NUM_MASK OR DVP_CFG_HREF_BURST_NUM_MASK)"
proof -
  have hb: "n < 10" if "bit h n" for n using word_bits_below [OF _ that, of 10] h by (simp add: word_less_def)
  have qb: "n < 8" if "bit q n" for n using word_bits_below [OF _ that, of 8] q by (simp add: word_less_def)
  have c: "dvp_cfg (dvp_set_image_size w h d) =
      (dvp_cfg d AND NOT (DVP_CFG_HREF_BURST_NUM_MASK OR DVP_CFG_LINE_NUM_MASK)) OR push_bit 20 h OR push_bit 12 q"
    by (simp add: dvp_set_image_size_def Let_def q_def or.assoc)
  show "line_num (dvp_set_image_size w h d) = h"
    unfolding line_num_def c by (rule bit_word_eqI) (auto simp: bit_simps mask_bits dest: hb qb)
  show "href_burst_num (dvp_set_image_size w h d) = q"
    unfolding href_burst_num_def c by (rule bit_word_eqI) (auto simp: bit_simps mask_bits dest: hb qb)
  show "dvp_cfg (dvp_set_image_size w h d) AND NOT (DVP_CFG_LINE_NUM_MASK OR DVP_CFG_HREF_BURST_NUM_MASK) =
     dvp_cfg d AND NOT (DVP_CFG_LINE_NUM_MASK OR DVP_CFG_HREF_BURST_NUM_MASK)"
    unfolding c by (rule bit_word_eqI) (auto simp: bit_simps mask_bits dest: hb qb)
qed

end
