(* ===== verification/Camera.thy ===== *)
theory Camera
  imports Sipeed_I2c Dvp Fpioa
begin

text \<open>
  The camera: the control bus with its three back ends, \<open>drivers/camera/gc0328/src/cambus.c\<close>, and the driver of
  the GC0328 sensor, \<open>gc0328.c\<close>.  Register writes reach the sensor through the SCCB bus of the video port
  (\<open>i2c_device = -2\<close>), not at all (\<open>-1\<close>), or through one of the I2C controllers; \<open>i2c_in\<close> holds what the
  controllers answer, one entry per transfer.  Pauses and the messages to the console are left out.  \<open>None\<close> as in the bus
  components: the answers are used up, or C leaves the operation undefined.
\<close>

definition GC0328_ADDR :: u8 where [simp]: "GC0328_ADDR = 0x21"
definition FUNC_I2C0_SCLK :: nat where "FUNC_I2C0_SCLK = 126"
definition FUNC_I2C0_SDA :: nat where "FUNC_I2C0_SDA = 127"
definition FUNC_SCCB_SCLK :: nat where "FUNC_SCCB_SCLK = 146"
definition FUNC_SCCB_SDA :: nat where "FUNC_SCCB_SDA = 147"

record camera =
  sccb_reg_width :: u8
  i2c_device :: int
  write_bus_delay :: u32
  cam_fpioa :: fpioa
  cam_sys :: sysctl
  cam_dvp :: dvp
  cam_maix :: "nat \<Rightarrow> maix"
  i2c_in :: "i2c_answers list"

definition cambus_set_writeb_delay :: "u32 \<Rightarrow> camera \<Rightarrow> camera" where
  "cambus_set_writeb_delay delay c = c\<lparr>write_bus_delay := delay\<rparr>"

subsection \<open>Bus back ends\<close>

definition upd_dvp :: "(dvp \<Rightarrow> dvp option) \<Rightarrow> camera \<Rightarrow> camera option" where
  "upd_dvp f c = map_option (\<lambda>d. c\<lparr>cam_dvp := d\<rparr>) (f (cam_dvp c))"

definition dvp_read :: "u8 \<Rightarrow> u16 \<Rightarrow> camera \<Rightarrow> (u8 \<times> camera) option" where
  "dvp_read addr reg c = map_option (\<lambda>(b, d). (b, c\<lparr>cam_dvp := d\<rparr>)) (dvp_sccb_receive_data addr reg (cam_dvp c))"

definition i2c_send :: "nat \<Rightarrow> u8 \<Rightarrow> u8 list \<Rightarrow> camera \<Rightarrow> (int \<times> camera) option" where
  "i2c_send n addr buf c =
     (case i2c_in c of [] \<Rightarrow> None
      | an # ans \<Rightarrow> map_option (\<lambda>(r, m). (r, c\<lparr>cam_maix := (cam_maix c)(n := m), i2c_in := ans\<rparr>))
          (maix_i2c_send_data (cam_sys c) an (ucast addr) buf 10 (cam_maix c n)))"

text \<open>One byte is asked for; \<open>old\<close> stays in the buffer when none came.\<close>

definition i2c_recv :: "nat \<Rightarrow> u8 \<Rightarrow> u8 \<Rightarrow> camera \<Rightarrow> (int \<times> u8 \<times> camera) option" where
  "i2c_recv n addr old c =
     (case i2c_in c of [] \<Rightarrow> None
      | an # ans \<Rightarrow> map_option (\<lambda>(r, bs, m). (r, (case bs of [] \<Rightarrow> old | b # _ \<Rightarrow> b),
            c\<lparr>cam_maix := (cam_maix c)(n := m), i2c_in := ans\<rparr>))
          (maix_i2c_recv_data (cam_sys c) an (ucast addr) [] 1 10 (cam_maix c n)))"

definition sccb_i2c_init :: "int \<Rightarrow> u8 \<Rightarrow> u8 \<Rightarrow> u32 \<Rightarrow> camera \<Rightarrow> (int \<times> camera) option" where
  "sccb_i2c_init i2c pin_clk pin_sda freq c =
     (let route = (\<lambda>clk sda c. c\<lparr>cam_fpioa := snd (fpioa_set_function (uint pin_sda) sda
                                   (snd (fpioa_set_function (uint pin_clk) clk (cam_fpioa c))))\<rparr>) in
      if i2c = -2 then Some (0, route FUNC_SCCB_SCLK FUNC_SCCB_SDA c)
      else if i2c = -1 then Some (0, c)
      else if i2c > 2 \<or> i2c < 0 then Some (-1, c)
      else
       (let n = nat i2c; c = route (FUNC_I2C0_SCLK + n * 2) (FUNC_I2C0_SDA + n * 2) c in
        map_option (\<lambda>(sy, m). (0, c\<lparr>cam_sys := sy, cam_maix := (cam_maix c)(n := m)\<rparr>))
          (maix_i2c_init n 7 freq (cam_sys c, cam_maix c n))))"

definition reg_bytes :: "u16 \<Rightarrow> u8 \<Rightarrow> u8 list" where
  "reg_bytes reg reg_len =
     (if reg_len = 8 then [ucast (reg AND 0xFF)] else [ucast (drop_bit 8 reg AND 0xFF), ucast (reg AND 0xFF)])"

definition sccb_i2c_write_byte :: "int \<Rightarrow> u8 \<Rightarrow> u16 \<Rightarrow> u8 \<Rightarrow> u8 \<Rightarrow> camera \<Rightarrow> (int \<times> camera) option" where
  "sccb_i2c_write_byte i2c addr reg reg_len data c =
     (if i2c = -2 then map_option (Pair 0) (upd_dvp (dvp_sccb_send_data addr reg data) c)
      else if i2c = -1 then Some (0, c)
      else if i2c > 2 \<or> i2c < 0 then Some (-1, c)
      else i2c_send (nat i2c) addr (reg_bytes reg reg_len @ [data]) c)"

text \<open>With 8-bit register addresses the result of sending the address is not looked at.\<close>

definition sccb_i2c_read_byte :: "int \<Rightarrow> u8 \<Rightarrow> u16 \<Rightarrow> u8 \<Rightarrow> camera \<Rightarrow> (int \<times> u8 \<times> camera) option" where
  "sccb_i2c_read_byte i2c addr reg reg_len c =
     (if i2c = -2 then map_option (Pair 0) (dvp_read addr reg c)
      else if i2c = -1 then Some (0, 0, c)
      else if i2c > 2 \<or> i2c < 0 then Some (-1, 0, c)
      else
       (case i2c_send (nat i2c) addr (reg_bytes reg reg_len) c of
          None \<Rightarrow> None
        | Some (ret, c) \<Rightarrow> (if reg_len \<noteq> 8 \<and> ret \<noteq> 0 then Some (ret, 0, c) else i2c_recv (nat i2c) addr 0 c)))"

definition sccb_i2c_recieve_byte :: "int \<Rightarrow> u8 \<Rightarrow> u8 \<Rightarrow> camera \<Rightarrow> (int \<times> u8 \<times> camera) option" where
  "sccb_i2c_recieve_byte i2c addr old c =
     (if i2c = -2 then map_option (\<lambda>(b, c). (uint b, b, c)) (dvp_read addr 0 c)
      else if i2c = -1 then Some (0, old, c)
      else if i2c > 2 \<or> i2c < 0 then Some (-1, old, c)
      else i2c_recv (nat i2c) addr old c)"

subsection \<open>Camera bus\<close>

text \<open>\<open>i2c\<close> and the pins are signed bytes.\<close>

definition cambus_init :: "u8 \<Rightarrow> int \<Rightarrow> int \<Rightarrow> int \<Rightarrow> camera \<Rightarrow> (int \<times> camera) option" where
  "cambus_init reg_wid i2c pin_clk pin_sda c =
     (let c = c\<lparr>sccb_reg_width := reg_wid\<rparr> in
      if pin_clk < 0 \<or> pin_sda < 0 then Some (-1, c)
      else map_option (\<lambda>(_, c). (0, c))
        (sccb_i2c_init i2c (word_of_int pin_clk) (word_of_int pin_sda) 100000 (c\<lparr>i2c_device := i2c\<rparr>)))"

definition bus_read :: "u8 \<Rightarrow> u16 \<Rightarrow> camera \<Rightarrow> (int \<times> u8 \<times> camera) option" where
  "bus_read addr reg c = sccb_i2c_read_byte (i2c_device c) addr reg (sccb_reg_width c) c"

definition word16 :: "u8 \<Rightarrow> u8 \<Rightarrow> u16" where
  "word16 hi lo = push_bit 8 (ucast hi) OR ucast lo"

definition cambus_read_id :: "u8 \<Rightarrow> camera \<Rightarrow> (int \<times> u16 \<times> u16 \<times> camera) option" where
  "cambus_read_id addr c =
     Option.bind (bus_read addr 0x1C c) (\<lambda>(r1, t1, c).
     Option.bind (bus_read addr 0x1D c) (\<lambda>(r2, t2, c).
     Option.bind (bus_read addr 0x0A c) (\<lambda>(r3, t3, c).
     Option.bind (bus_read addr 0x0B c) (\<lambda>(r4, t4, c).
     Some (r1 OR r2 OR r3 OR r4, word16 t1 t2, word16 t3 t4, c)))))"

definition cambus_read16_id :: "u8 \<Rightarrow> camera \<Rightarrow> (int \<times> u16 \<times> u16 \<times> camera) option" where
  "cambus_read16_id addr c =
     Option.bind (bus_read addr 0x300A c) (\<lambda>(r1, t1, c).
     if r1 \<noteq> 0 then Some (r1, 0, 0, c)
     else Option.bind (bus_read addr 0x300B c) (\<lambda>(r2, t2, c). Some (r2, 0, word16 t1 t2, c)))"

fun scan_addrs :: "(u8 \<Rightarrow> camera \<Rightarrow> (int \<times> u16 \<times> u16 \<times> camera) option) \<Rightarrow> u8 list \<Rightarrow> camera \<Rightarrow> (u8 \<times> camera) option" where
  "scan_addrs read_id [] c = Some (0, c)"
| "scan_addrs read_id (addr # addrs) c =
     (case read_id addr c of
        None \<Rightarrow> None
      | Some (ret, manuf_id, device_id, c) \<Rightarrow>
          (if ret = 0 \<and> device_id \<noteq> 0 \<and> device_id \<noteq> 0xffff then Some (addr, c) else scan_addrs read_id addrs c))"

definition scan_range :: "u8 list" where
  "scan_range = map word_of_nat [0x08..<0x78]"

definition cambus_scan :: "camera \<Rightarrow> (u8 \<times> camera) option" where
  "cambus_scan c =
     (case scan_addrs cambus_read_id scan_range (c\<lparr>sccb_reg_width := 8\<rparr>) of
        None \<Rightarrow> None
      | Some (addr, c) \<Rightarrow> (if addr \<noteq> 0 then Some (addr, c) else scan_addrs cambus_read16_id scan_range (c\<lparr>sccb_reg_width := 16\<rparr>)))"

definition cambus_scan_gc0328 :: "camera \<Rightarrow> (u8 \<times> camera) option" where
  "cambus_scan_gc0328 c =
     (let c = c\<lparr>sccb_reg_width := 8\<rparr> in
      Option.bind (sccb_i2c_write_byte (i2c_device c) GC0328_ADDR 0xFE (sccb_reg_width c) 0 c) (\<lambda>(_, c).
      Option.bind (bus_read GC0328_ADDR 0xF0 c) (\<lambda>(_, id, c). Some (if id \<noteq> 0x9d then 0 else id, c))))"

definition cambus_readb :: "u8 \<Rightarrow> u16 \<Rightarrow> camera \<Rightarrow> (int \<times> u8 \<times> camera) option" where
  "cambus_readb slv_addr reg_addr c =
     map_option (\<lambda>(_, reg_data, c). (if reg_data = 0xff then -1 else 0, reg_data, c)) (bus_read slv_addr reg_addr c)"

definition cambus_writeb :: "u8 \<Rightarrow> u16 \<Rightarrow> u8 \<Rightarrow> camera \<Rightarrow> (int \<times> camera) option" where
  "cambus_writeb slv_addr reg_addr reg_data c =
     map_option (\<lambda>(_, c). (0, c)) (sccb_i2c_write_byte (i2c_device c) slv_addr reg_addr (sccb_reg_width c) reg_data c)"

definition cambus_reg_width :: "camera \<Rightarrow> u8" where
  "cambus_reg_width c = sccb_reg_width c"

subsection \<open>Register tables of the sensor\<close>

text \<open>Pairs of register and value, closed by a register 0.  Register \<open>0xfe\<close> selects a page.\<close>

definition sensor_regs_start :: "(u8 \<times> u8) list" where
  "sensor_regs_start = [(0xfe, 0x80), (0xfe, 0x80), (0xfc, 0x16), (0xfc, 0x16), (0xfc, 0x16), (0xfc, 0x16), (0xfe, 0x00), (0x4f, 0x00), 
    (0x42, 0x00), (0x03, 0x00), (0x04, 0xc0), (0x77, 0x62), (0x78, 0x40), (0x79, 0x4d), (0x05, 0x00), (0x06, 0x80), 
    (0x07, 0x00), (0x08, 0x10), (0xfe, 0x01), (0x29, 0x00), (0x2a, 0x96), (0x2b, 0x02), (0x2c, 0x00), (0x2d, 0x02), 
    (0x2e, 0x00), (0x2f, 0x02), (0x30, 0x00), (0x31, 0x02), (0x32, 0x00), (0xfe, 0x00), (0xfe, 0x01), (0x4f, 0x00), 
    (0x4c, 0x01), (0xfe, 0x00), (0xfe, 0x01), (0x51, 0x80), (0x52, 0x12), (0x53, 0x80), (0x54, 0x60), (0x55, 0x01), 
    (0x56, 0x06), (0x5b, 0x02), (0x61, 0xdc), (0x62, 0xdc), (0x7c, 0x71), (0x7d, 0x00), (0x76, 0x00), (0x79, 0x20), 
    (0x7b, 0x00), (0x70, 0xff), (0x71, 0x00), (0x72, 0x10), (0x73, 0x40), (0x74, 0x40), (0x50, 0x00), (0xfe, 0x01), 
    (0x4f, 0x00), (0x4c, 0x01), (0x4f, 0x00), (0x4f, 0x00), (0x4f, 0x00), (0x4d, 0x36), (0x4e, 0x02), (0x4e, 0x02), 
    (0x4d, 0x44), (0x4e, 0x02), (0x4e, 0x02), (0x4e, 0x02), (0x4e, 0x02), (0x4d, 0x53), (0x4e, 0x08), (0x4e, 0x08), 
    (0x4e, 0x02), (0x4d, 0x63), (0x4e, 0x08), (0x4e, 0x08), (0x4d, 0x73), (0x4e, 0x20), (0x4d, 0x83), (0x4e, 0x20), 
    (0x4f, 0x01), (0x50, 0x88), (0xfe, 0x00)]"

definition sensor_regs_middle :: "(u8 \<times> u8) list" where
  "sensor_regs_middle = [(0x27, 0x00), (0x2a, 0x40), (0x2b, 0x40), (0x2c, 0x40), (0x2d, 0x40), (0xfe, 0x00), (0x0d, 0x01), (0x0e, 0xe8), 
    (0x0f, 0x02), (0x10, 0x88), (0x09, 0x00), (0x0a, 0x00), (0x0b, 0x00), (0x0c, 0x00), (0x16, 0x00), (0x17, 0x17), 
    (0x18, 0x0e), (0x19, 0x06), (0x1b, 0x48), (0x1f, 0xc8), (0x20, 0x01), (0x21, 0x78), (0x22, 0xb0), (0x23, 0x04), 
    (0x24, 0x11), (0x26, 0x00), (0x50, 0x01), (0x51, 0x00), (0x52, 0x00), (0x53, 0x00), (0x54, 0x00), (0x55, 0x00), 
    (0x56, 0xf0), (0x57, 0x01), (0x58, 0x40), (0x59, 0x22), (0x5a, 0x03), (0x5b, 0x00), (0x5c, 0x00), (0x5d, 0x00), 
    (0x5e, 0x00), (0x5f, 0x00), (0x60, 0x00), (0x61, 0x00), (0x62, 0x00), (0x70, 0x85), (0x40, 0x7f), (0x41, 0x26), 
    (0x42, 0xff), (0x45, 0x00), (0x44, 0x00), (0x46, 0x03), (0x4b, 0x01), (0x50, 0x01), (0x7e, 0x0a), (0x7f, 0x03), 
    (0x80, 0x27), (0x81, 0x15), (0x82, 0x90), (0x83, 0x02), (0x84, 0x23), (0x90, 0x2c), (0x92, 0x02), (0x94, 0x02), 
    (0x95, 0x35), (0xd1, 0x32), (0xd2, 0x32), (0xdd, 0x18), (0xde, 0x32), (0xe4, 0x88), (0xe5, 0x40), (0xd7, 0x0e)]"

definition sensor_regs_end :: "(u8 \<times> u8) list" where
  "sensor_regs_end = [(0xfe, 0x01), (0x18, 0x02), (0xfe, 0x00), (0x98, 0x00), (0x9b, 0x20), (0x9c, 0x80), (0xa4, 0x10), (0xa8, 0xb0), 
    (0xaa, 0x40), (0xa2, 0x23), (0xad, 0x01), (0xfe, 0x01), (0x9c, 0x02), (0x08, 0xa0), (0x09, 0xe8), (0x10, 0x00), 
    (0x11, 0x11), (0x12, 0x10), (0x13, 0x80), (0x15, 0xfc), (0x18, 0x03), (0x21, 0xc0), (0x22, 0x60), (0x23, 0x30), 
    (0x25, 0x00), (0x24, 0x14), (0xfe, 0x01), (0xc0, 0x10), (0xc1, 0x0c), (0xc2, 0x0a), (0xc6, 0x0e), (0xc7, 0x0b), 
    (0xc8, 0x0a), (0xba, 0x26), (0xbb, 0x1c), (0xbc, 0x1d), (0xb4, 0x23), (0xb5, 0x1c), (0xb6, 0x1a), (0xc3, 0x00), 
    (0xc4, 0x00), (0xc5, 0x00), (0xc9, 0x00), (0xca, 0x00), (0xcb, 0x00), (0xbd, 0x00), (0xbe, 0x00), (0xbf, 0x00), 
    (0xb7, 0x07), (0xb8, 0x05), (0xb9, 0x05), (0xa8, 0x07), (0xa9, 0x06), (0xaa, 0x00), (0xab, 0x04), (0xac, 0x00), 
    (0xad, 0x02), (0xae, 0x0d), (0xaf, 0x05), (0xb0, 0x00), (0xb1, 0x07), (0xb2, 0x03), (0xb3, 0x00), (0xa4, 0x00), 
    (0xa5, 0x00), (0xa6, 0x00), (0xa7, 0x00), (0xa1, 0x3c), (0xa2, 0x50), (0xfe, 0x00), (0xb1, 0x04), (0xb2, 0xfd), 
    (0xb3, 0xfc), (0xb4, 0xf0), (0xb5, 0x05), (0xb6, 0xf0), (0xfe, 0x00), (0x27, 0xf7), (0x28, 0x7f), (0x29, 0x20), 
    (0x33, 0x20), (0x34, 0x20), (0x35, 0x20), (0x36, 0x20), (0x32, 0x08), (0x47, 0x00), (0x48, 0x00), (0xfe, 0x01), 
    (0x79, 0x00), (0x7d, 0x00), (0x50, 0x88), (0x5b, 0x0c), (0x76, 0x8f), (0x80, 0x70), (0x81, 0x70), (0x82, 0xb0), 
    (0x70, 0xff), (0x71, 0x00), (0x72, 0x28), (0x73, 0x0b), (0x74, 0x0b), (0xfe, 0x00), (0x70, 0x45), (0x4f, 0x01), 
    (0xf1, 0x07), (0xf2, 0x01), (0x00, 0x00)]"

definition rgb_gamma_m0 :: "(u8 \<times> u8) list" where
  "rgb_gamma_m0 = [(0xfe, 0x00), (0xbf, 0x0e), (0xc0, 0x1c), (0xc1, 0x34), (0xc2, 0x48), (0xc3, 0x5a), (0xc4, 0x6b), (0xc5, 0x7b), 
    (0xc6, 0x95), (0xc7, 0xab), (0xc8, 0xbf), (0xc9, 0xce), (0xca, 0xd9), (0xcb, 0xe4), (0xcc, 0xec), (0xcd, 0xf7), 
    (0xce, 0xfd), (0xcf, 0xff)]"

definition rgb_gamma_m1 :: "(u8 \<times> u8) list" where
  "rgb_gamma_m1 = [(0xfe, 0x00), (0xbf, 0x06), (0xc0, 0x12), (0xc1, 0x22), (0xc2, 0x35), (0xc3, 0x4b), (0xc4, 0x5f), (0xc5, 0x72), 
    (0xc6, 0x8d), (0xc7, 0xa4), (0xc8, 0xb8), (0xc9, 0xc8), (0xca, 0xd4), (0xcb, 0xde), (0xcc, 0xe6), (0xcd, 0xf1), 
    (0xce, 0xf8), (0xcf, 0xfd)]"

definition rgb_gamma_m2 :: "(u8 \<times> u8) list" where
  "rgb_gamma_m2 = [(0xfe, 0x00), (0xbf, 0x08), (0xc0, 0x0f), (0xc1, 0x21), (0xc2, 0x32), (0xc3, 0x43), (0xc4, 0x50), (0xc5, 0x5e), 
    (0xc6, 0x78), (0xc7, 0x90), (0xc8, 0xa6), (0xc9, 0xb9), (0xca, 0xc9), (0xcb, 0xd6), (0xcc, 0xe0), (0xcd, 0xee), 
    (0xce, 0xf8), (0xcf, 0xff)]"

definition rgb_gamma_m3 :: "(u8 \<times> u8) list" where
  "rgb_gamma_m3 = [(0xfe, 0x00), (0xbf, 0x0b), (0xc0, 0x16), (0xc1, 0x29), (0xc2, 0x3c), (0xc3, 0x4f), (0xc4, 0x5f), (0xc5, 0x6f), 
    (0xc6, 0x8a), (0xc7, 0x9f), (0xc8, 0xb4), (0xc9, 0xc6), (0xca, 0xd3), (0xcb, 0xdd), (0xcc, 0xe5), (0xcd, 0xf1), 
    (0xce, 0xfa), (0xcf, 0xff)]"

definition rgb_gamma_m4 :: "(u8 \<times> u8) list" where
  "rgb_gamma_m4 = [(0xfe, 0x00), (0xbf, 0x0e), (0xc0, 0x1c), (0xc1, 0x34), (0xc2, 0x48), (0xc3, 0x5a), (0xc4, 0x6b), (0xc5, 0x7b), 
    (0xc6, 0x95), (0xc7, 0xab), (0xc8, 0xbf), (0xc9, 0xce), (0xca, 0xd9), (0xcb, 0xe4), (0xcc, 0xec), (0xcd, 0xf7), 
    (0xce, 0xfd), (0xcf, 0xff)]"

definition rgb_gamma_m5 :: "(u8 \<times> u8) list" where
  "rgb_gamma_m5 = [(0xfe, 0x00), (0xbf, 0x10), (0xc0, 0x20), (0xc1, 0x38), (0xc2, 0x4e), (0xc3, 0x63), (0xc4, 0x76), (0xc5, 0x87), 
    (0xc6, 0xa2), (0xc7, 0xb8), (0xc8, 0xca), (0xc9, 0xd8), (0xca, 0xe3), (0xcb, 0xeb), (0xcc, 0xf0), (0xcd, 0xf8), 
    (0xce, 0xfd), (0xcf, 0xff)]"

definition rgb_gamma_m6 :: "(u8 \<times> u8) list" where
  "rgb_gamma_m6 = [(0xfe, 0x00), (0xbf, 0x14), (0xc0, 0x28), (0xc1, 0x44), (0xc2, 0x5d), (0xc3, 0x72), (0xc4, 0x86), (0xc5, 0x95), 
    (0xc6, 0xb1), (0xc7, 0xc6), (0xc8, 0xd5), (0xc9, 0xe1), (0xca, 0xea), (0xcb, 0xf1), (0xcc, 0xf5), (0xcd, 0xfb), 
    (0xce, 0xfe), (0xcf, 0xff)]"

definition rgb_gamma_night :: "(u8 \<times> u8) list" where
  "rgb_gamma_night = [(0xfe, 0x00), (0xbf, 0x0b), (0xc0, 0x16), (0xc1, 0x29), (0xc2, 0x3c), (0xc3, 0x4f), (0xc4, 0x5f), (0xc5, 0x6f), 
    (0xc6, 0x8a), (0xc7, 0x9f), (0xc8, 0xb4), (0xc9, 0xc6), (0xca, 0xd3), (0xcb, 0xdd), (0xcc, 0xe5), (0xcd, 0xf1), 
    (0xce, 0xfa), (0xcf, 0xff)]"

definition rgb_gamma_cap :: "(u8 \<times> u8) list" where
  "rgb_gamma_cap = [(0xfe, 0x00), (0xbf, 0x10), (0xc0, 0x1c), (0xc1, 0x33), (0xc2, 0x48), (0xc3, 0x5a), (0xc4, 0x6b), (0xc5, 0x7b), 
    (0xc6, 0x95), (0xc7, 0xab), (0xc8, 0xbf), (0xc9, 0xcd), (0xca, 0xd9), (0xcb, 0xe3), (0xcc, 0xeb), (0xcd, 0xf7), 
    (0xce, 0xfd), (0xcf, 0xff)]"

definition rgb_gamma_test :: "(u8 \<times> u8) list" where
  "rgb_gamma_test = [(0xfe, 0x00), (0xbf, 0x00), (0xc0, 0x01), (0xc1, 0x02), (0xc2, 0x03), (0xc3, 0x04), (0xc4, 0x05), (0xc5, 0x06), 
    (0xc6, 0x07), (0xc7, 0x08), (0xc8, 0x09), (0xc9, 0x0a), (0xca, 0x0b), (0xcb, 0x0c), (0xcc, 0x0d), (0xcd, 0x0e), 
    (0xce, 0x0f), (0xcf, 0xff)]"

definition y_gamma_05 :: "(u8 \<times> u8) list" where
  "y_gamma_05 = [(0xfe, 0x00), (0x63, 0x00), (0x64, 0x49), (0x65, 0x68), (0x66, 0x80), (0x67, 0x93), (0x68, 0xa5), (0x69, 0xb5), 
    (0x6a, 0xc3), (0x6b, 0xd1), (0x6c, 0xdd), (0x6d, 0xe9), (0x6e, 0xf5), (0x6f, 0xff)]"

definition y_gamma_06 :: "(u8 \<times> u8) list" where
  "y_gamma_06 = [(0xfe, 0x00), (0x63, 0x0), (0x64, 0x39), (0x65, 0x57), (0x66, 0x6f), (0x67, 0x84), (0x68, 0x97), (0x69, 0xa8), 
    (0x6a, 0xb9), (0x6b, 0xc8), (0x6c, 0xd7), (0x6d, 0xe5), (0x6e, 0xf2), (0x6f, 0xff)]"

definition y_gamma_07 :: "(u8 \<times> u8) list" where
  "y_gamma_07 = [(0xfe, 0x00), (0x63, 0x0), (0x64, 0x2c), (0x65, 0x49), (0x66, 0x61), (0x67, 0x76), (0x68, 0x8a), (0x69, 0x9d), 
    (0x6a, 0xaf), (0x6b, 0xc0), (0x6c, 0xd1), (0x6d, 0xe1), (0x6e, 0xf0), (0x6f, 0xff)]"

definition y_gamma_08 :: "(u8 \<times> u8) list" where
  "y_gamma_08 = [(0xfe, 0x00), (0x63, 0x0), (0x64, 0x23), (0x65, 0x3d), (0x66, 0x54), (0x67, 0x6a), (0x68, 0x7f), (0x69, 0x93), 
    (0x6a, 0xa6), (0x6b, 0xb9), (0x6c, 0xcb), (0x6d, 0xdd), (0x6e, 0xee), (0x6f, 0xff)]"

definition y_gamma_09 :: "(u8 \<times> u8) list" where
  "y_gamma_09 = [(0xfe, 0x00), (0x63, 0x0), (0x64, 0x1b), (0x65, 0x33), (0x66, 0x49), (0x67, 0x5f), (0x68, 0x74), (0x69, 0x89), 
    (0x6a, 0x9d), (0x6b, 0xb1), (0x6c, 0xc5), (0x6d, 0xd9), (0x6e, 0xec), (0x6f, 0xff)]"

definition y_gamma_10 :: "(u8 \<times> u8) list" where
  "y_gamma_10 = [(0xfe, 0x00), (0x63, 0x0), (0x64, 0x15), (0x65, 0x2a), (0x66, 0x40), (0x67, 0x55), (0x68, 0x6a), (0x69, 0x80), 
    (0x6a, 0x95), (0x6b, 0xaa), (0x6c, 0xc0), (0x6d, 0xd5), (0x6e, 0xea), (0x6f, 0xff)]"

definition y_gamma_default :: "(u8 \<times> u8) list" where
  "y_gamma_default = [(0xfe, 0x00), (0x63, 0), (0x64, 0x10), (0x65, 0x1c), (0x66, 0x30), (0x67, 0x43), (0x68, 0x54), (0x69, 0x65), 
    (0x6a, 0x75), (0x6b, 0x93), (0x6c, 0xb0), (0x6d, 0xcb), (0x6e, 0xe6), (0x6f, 0xff)]"

definition qqvga_config :: "(u8 \<times> u8) list" where
  "qqvga_config = [(0xfe, 0x00), (0x09, 0x00), (0x0a, 0x00), (0x0b, 0x00), (0x0c, 0x00), (0x0d, 0x01), (0x0e, 0xe8), (0x0f, 0x02), 
    (0x10, 0x88), (0x50, 0x01), (0x51, 0x00), (0x52, 0x00), (0x53, 0x00), (0x54, 0x00), (0x55, 0x00), (0x56, 0x78), 
    (0x57, 0x00), (0x58, 0xa0), (0x59, 0x44), (0x5a, 0x03), (0x5b, 0x00), (0x5c, 0x00), (0x5d, 0x00), (0x5e, 0x00), 
    (0x5f, 0x00), (0x60, 0x00), (0x61, 0x00), (0x62, 0x00), (0x00, 0x00)]"

definition qvga_config :: "(u8 \<times> u8) list" where
  "qvga_config = [(0xfe, 0x00), (0x09, 0x00), (0x0a, 0x00), (0x0b, 0x00), (0x0c, 0x00), (0x0d, 0x01), (0x0e, 0xe8), (0x0f, 0x02), 
    (0x10, 0x88), (0x50, 0x01), (0x59, 0x22), (0x5a, 0x00), (0x5b, 0x00), (0x5c, 0x00), (0x5d, 0x00), (0x5e, 0x00), 
    (0x5f, 0x00), (0x60, 0x00), (0x61, 0x00), (0x62, 0x00), (0x00, 0x00)]"

definition vga_config :: "(u8 \<times> u8) list" where
  "vga_config = [(0xfe, 0x00), (0x50, 0x00), (0x00, 0x00)]"

text \<open>
  The table of initial values is chosen by \<open>#if\<close> tests on names of enumeration constants.  The preprocessor does
  not know enumerations: in a test, a name that is no macro counts as 0 (C11 6.10.1).  \<open>pp_value\<close> is what a name is worth there.
\<close>

datatype rgb_gamma = RGB_m0 | RGB_m1 | RGB_m2 | RGB_m3 | RGB_m4 | RGB_m5 | RGB_m6 | RGB_night | RGB_cap | RGB_test
datatype y_gamma = Y_default | Y_10 | Y_09 | Y_08 | Y_07 | Y_06 | Y_05

definition GC0328_RGB_Gamma :: rgb_gamma where "GC0328_RGB_Gamma = RGB_test"
definition GC0328_Y_Gamma :: y_gamma where "GC0328_Y_Gamma = Y_default"

definition pp_value :: "'a \<Rightarrow> int" where "pp_value name = 0"

fun pp_choose :: "'a \<Rightarrow> ('a \<times> 't list) list \<Rightarrow> 't list" where
  "pp_choose macro [] = []"
| "pp_choose macro ((name, rows) # branches) = (if pp_value macro = pp_value name then rows else pp_choose macro branches)"

definition rgb_gamma_branches :: "(rgb_gamma \<times> (u8 \<times> u8) list) list" where
  "rgb_gamma_branches = [(RGB_m0, rgb_gamma_m0), (RGB_m1, rgb_gamma_m1), (RGB_m2, rgb_gamma_m2), (RGB_m3, rgb_gamma_m3),
     (RGB_m4, rgb_gamma_m4), (RGB_m5, rgb_gamma_m5), (RGB_m6, rgb_gamma_m6), (RGB_night, rgb_gamma_night),
     (RGB_cap, rgb_gamma_cap), (RGB_test, rgb_gamma_test)]"

definition y_gamma_branches :: "(y_gamma \<times> (u8 \<times> u8) list) list" where
  "y_gamma_branches = [(Y_05, y_gamma_05), (Y_06, y_gamma_06), (Y_07, y_gamma_07), (Y_08, y_gamma_08), (Y_09, y_gamma_09),
     (Y_10, y_gamma_10), (Y_default, y_gamma_default)]"

definition sensor_default_regs :: "(u8 \<times> u8) list" where
  "sensor_default_regs = sensor_regs_start @ sensor_regs_middle @ pp_choose GC0328_RGB_Gamma rgb_gamma_branches @
     pp_choose GC0328_Y_Gamma y_gamma_branches @ sensor_regs_end @ [(0, 0)]"

subsection \<open>Sensor driver\<close>

datatype framesize =
    FRAMESIZE_INVALID | FRAMESIZE_QQCIF | FRAMESIZE_QCIF | FRAMESIZE_CIF | FRAMESIZE_QQSIF | FRAMESIZE_QSIF | FRAMESIZE_SIF
  | FRAMESIZE_QQQQVGA | FRAMESIZE_QQQVGA | FRAMESIZE_QQVGA | FRAMESIZE_QVGA | FRAMESIZE_VGA | FRAMESIZE_HQQQVGA
  | FRAMESIZE_HQQVGA | FRAMESIZE_HQVGA | FRAMESIZE_64X32 | FRAMESIZE_64X64 | FRAMESIZE_128X64 | FRAMESIZE_128X128
  | FRAMESIZE_240X240 | FRAMESIZE_LCD | FRAMESIZE_QQVGA2 | FRAMESIZE_WVGA | FRAMESIZE_WVGA2 | FRAMESIZE_SVGA
  | FRAMESIZE_SXGA | FRAMESIZE_UXGA

primrec resolution :: "framesize \<Rightarrow> u16 \<times> u16" where
  "resolution FRAMESIZE_INVALID = (0, 0)" | "resolution FRAMESIZE_QQCIF = (88, 72)" | "resolution FRAMESIZE_QCIF = (176, 144)"
| "resolution FRAMESIZE_CIF = (352, 288)" | "resolution FRAMESIZE_QQSIF = (88, 60)" | "resolution FRAMESIZE_QSIF = (176, 120)"
| "resolution FRAMESIZE_SIF = (352, 240)" | "resolution FRAMESIZE_QQQQVGA = (40, 30)" | "resolution FRAMESIZE_QQQVGA = (80, 60)"
| "resolution FRAMESIZE_QQVGA = (160, 120)" | "resolution FRAMESIZE_QVGA = (320, 240)" | "resolution FRAMESIZE_VGA = (640, 480)"
| "resolution FRAMESIZE_HQQQVGA = (60, 40)" | "resolution FRAMESIZE_HQQVGA = (120, 80)" | "resolution FRAMESIZE_HQVGA = (240, 160)"
| "resolution FRAMESIZE_64X32 = (64, 32)" | "resolution FRAMESIZE_64X64 = (64, 64)" | "resolution FRAMESIZE_128X64 = (128, 64)"
| "resolution FRAMESIZE_128X128 = (128, 128)" | "resolution FRAMESIZE_240X240 = (240, 240)" | "resolution FRAMESIZE_LCD = (224, 224)"
| "resolution FRAMESIZE_QQVGA2 = (128, 160)" | "resolution FRAMESIZE_WVGA = (720, 480)" | "resolution FRAMESIZE_WVGA2 = (752, 480)"
| "resolution FRAMESIZE_SVGA = (800, 600)" | "resolution FRAMESIZE_SXGA = (1280, 1024)" | "resolution FRAMESIZE_UXGA = (1600, 1200)"

fun write_table :: "(u8 \<Rightarrow> u8 \<Rightarrow> camera \<Rightarrow> camera option) \<Rightarrow> (u8 \<times> u8) list \<Rightarrow> camera \<Rightarrow> camera option" where
  "write_table put_reg [] c = None"
| "write_table put_reg ((reg, val) # entries) c =
     (if reg = 0 then Some c else Option.bind (put_reg reg val c) (write_table put_reg entries))"

definition put_reg_bus :: "u8 \<Rightarrow> u8 \<Rightarrow> camera \<Rightarrow> camera option" where
  "put_reg_bus reg val c = map_option snd (cambus_writeb GC0328_ADDR (ucast reg) val c)"

definition put_reg_dvp :: "u8 \<Rightarrow> u8 \<Rightarrow> camera \<Rightarrow> camera option" where
  "put_reg_dvp reg val c = upd_dvp (dvp_sccb_send_data GC0328_ADDR (ucast reg) val) c"

text \<open>An entry \<open>0xff\<close> of the table of initial values is a pause.\<close>

definition unless_pause :: "(u8 \<Rightarrow> u8 \<Rightarrow> camera \<Rightarrow> camera option) \<Rightarrow> u8 \<Rightarrow> u8 \<Rightarrow> camera \<Rightarrow> camera option" where
  "unless_pause put_reg reg val c = (if reg = 0xff then Some c else put_reg reg val c)"

definition framesize_config :: "framesize \<Rightarrow> (u8 \<times> u8) list" where
  "framesize_config framesize =
     (case resolution framesize of (w, h) \<Rightarrow>
        (if framesize = FRAMESIZE_QQVGA then qqvga_config else if w \<le> 320 \<and> h \<le> 240 then qvga_config else vga_config))"

definition gc0328_set_framesize :: "framesize \<Rightarrow> camera \<Rightarrow> (int \<times> camera) option" where
  "gc0328_set_framesize framesize c =
     (case resolution framesize of (w, h) \<Rightarrow>
        Option.bind (write_table put_reg_bus (framesize_config framesize) c) (\<lambda>c.
        Some (0, c\<lparr>cam_dvp := dvp_set_image_size (ucast w) (ucast h) (cam_dvp c)\<rparr>)))"

definition gc0328_read_id :: "camera \<Rightarrow> (u8 \<times> camera) option" where
  "gc0328_read_id c =
     Option.bind (upd_dvp (dvp_sccb_send_data GC0328_ADDR 0xfe 0) c) (\<lambda>c.
     Option.bind (dvp_read GC0328_ADDR 0xF0 c) (\<lambda>(id, c). Some (if id \<noteq> 0x9d then 0 else id, c)))"

definition gc0328_init :: "camera \<Rightarrow> (int \<times> camera) option" where
  "gc0328_init c =
     Option.bind (cambus_scan_gc0328 c) (\<lambda>(id, c).
     if id = 0 then Some (-1, c)
     else Option.bind (upd_dvp (dvp_sccb_send_data GC0328_ADDR 0xfe 1) c) (\<lambda>c.
       map_option (Pair 0) (write_table (unless_pause put_reg_dvp) sensor_default_regs c)))"

definition gc0328_reset :: "camera \<Rightarrow> (int \<times> camera) option" where
  "gc0328_reset c =
     Option.bind (cambus_writeb GC0328_ADDR 0xfe 1 c) (\<lambda>(_, c).
     map_option (Pair 0) (write_table (unless_pause put_reg_bus) sensor_default_regs c))"

subsection \<open>What reaches the sensor\<close>

definition sensor_write :: "u8 \<times> u8 \<Rightarrow> u32 \<times> u32" where
  "sensor_write e = sccb_write_word GC0328_ADDR (ucast (fst e)) (snd e)"

text \<open>The entries a table stands for: those before its closing 0.\<close>

definition entries_of :: "(u8 \<times> u8) list \<Rightarrow> (u8 \<times> u8) list" where
  "entries_of rows = takeWhile (\<lambda>e. fst e \<noteq> 0) rows"

definition on_sccb :: "camera \<Rightarrow> bool" where
  "on_sccb c \<longleftrightarrow> i2c_device c = -2 \<and> sccb_reg_len (cam_dvp c) = 8"

lemma send_data_idle:
  assumes "sts_in d = 0 # 0 # vs"
  shows "\<exists>d'. dvp_sccb_send_data a r v d = Some d' \<and> sts_in d' = vs"
proof -
  have "\<exists>d'. dvp_sccb_start_transfer (d\<lparr>sccb_cfg := x, sccb_ctl := y\<rparr>) = Some d' \<and> sts_in d' = vs" for x y
    using start_transfer_idle [of "d\<lparr>sccb_cfg := x, sccb_ctl := y\<rparr>"] assms by simp
  then show ?thesis by (simp add: dvp_sccb_send_data_def Let_def)
qed

lemma put_reg_bus_writes:
  assumes "on_sccb c" "sts_in (cam_dvp c) = 0 # 0 # vs"
  shows "\<exists>d. put_reg_bus reg val c = Some (c\<lparr>cam_dvp := d\<rparr>) \<and> sts_in d = vs \<and> sccb_reg_len d = 8 \<and>
    sccb_log d = sccb_log (cam_dvp c) @ [sensor_write (reg, val)] \<and> dvp_cfg d = dvp_cfg (cam_dvp c)"
proof -
  obtain d where d: "dvp_sccb_send_data GC0328_ADDR (ucast reg) val (cam_dvp c) = Some d" "sts_in d = vs"
    using send_data_idle [OF assms(2)] by blast
  then show ?thesis
    using send_data_logs [OF d(1)] assms(1)
    by (intro exI [of _ d])
      (simp add: put_reg_bus_def cambus_writeb_def sccb_i2c_write_byte_def upd_dvp_def on_sccb_def sensor_write_def)
qed

text \<open>Over an idle bus the loop over a table writes its entries in order and changes nothing else of the receiver's setting.\<close>

lemma write_table_bus:
  assumes "on_sccb c" "sts_in (cam_dvp c) = replicate (2 * length (entries_of rows)) 0 @ vs" "\<exists>v. (0, v) \<in> set rows"
  shows "\<exists>d. write_table put_reg_bus rows c = Some (c\<lparr>cam_dvp := d\<rparr>) \<and> sts_in d = vs \<and> sccb_reg_len d = 8 \<and>
    sccb_log d = sccb_log (cam_dvp c) @ map sensor_write (entries_of rows) \<and> dvp_cfg d = dvp_cfg (cam_dvp c)"
  using assms
proof (induction rows arbitrary: c)
  case (Cons e rows)
  obtain reg val where e: "e = (reg, val)" by (cases e)
  show ?case
  proof (cases "reg = 0")
    case True
    then show ?thesis using Cons.prems by (auto simp: e entries_of_def on_sccb_def intro!: exI [of _ "cam_dvp c"])
  next
    case False
    then have en: "entries_of (e # rows) = (reg, val) # entries_of rows" by (simp add: e entries_of_def)
    have sts: "sts_in (cam_dvp c) = 0 # 0 # replicate (2 * length (entries_of rows)) 0 @ vs"
      using Cons.prems(2) unfolding en by simp
    obtain d where d: "put_reg_bus reg val c = Some (c\<lparr>cam_dvp := d\<rparr>)" "sts_in d = replicate (2 * length (entries_of rows)) 0 @ vs"
      "sccb_reg_len d = 8" "sccb_log d = sccb_log (cam_dvp c) @ [sensor_write (reg, val)]" "dvp_cfg d = dvp_cfg (cam_dvp c)"
      using put_reg_bus_writes [OF Cons.prems(1) sts, of reg val] by blast
    have z: "\<exists>v. (0, v) \<in> set rows" using Cons.prems(3) False by (auto simp: e)
    obtain d' where "write_table put_reg_bus rows (c\<lparr>cam_dvp := d\<rparr>) = Some (c\<lparr>cam_dvp := d'\<rparr>)" "sts_in d' = vs" "sccb_reg_len d' = 8"
      "sccb_log d' = sccb_log d @ map sensor_write (entries_of rows)" "dvp_cfg d' = dvp_cfg d"
      using Cons.IH [OF _ _ z, of "c\<lparr>cam_dvp := d\<rparr>"] Cons.prems(1) d(2,3) by (auto simp: on_sccb_def)
    then show ?thesis using d False by (intro exI [of _ d']) (simp add: e en [unfolded e])
  qed
qed simp

definition config_entries :: "framesize \<Rightarrow> (u8 \<times> u8) list" where
  "config_entries f = entries_of (framesize_config f)"

lemma config_closed: "\<exists>v. (0, v) \<in> set (framesize_config f)"
proof -
  have "(0, 0) \<in> set (framesize_config f)"
    by (cases "resolution f") (simp add: framesize_config_def qqvga_config_def qvga_config_def vga_config_def)
  then show ?thesis by blast
qed

lemma set_framesize_effect:
  assumes "on_sccb c" "sts_in (cam_dvp c) = replicate (2 * length (config_entries f)) 0 @ vs"
  shows "\<exists>d. gc0328_set_framesize f c = Some (0, c\<lparr>cam_dvp := d\<rparr>) \<and> on_sccb (c\<lparr>cam_dvp := d\<rparr>) \<and> sts_in d = vs \<and>
    sccb_log d = sccb_log (cam_dvp c) @ map sensor_write (config_entries f) \<and>
    dvp_cfg d = dvp_cfg (dvp_set_image_size (ucast (fst (resolution f))) (ucast (snd (resolution f))) (cam_dvp c))"
proof -
  obtain d where d: "write_table put_reg_bus (framesize_config f) c = Some (c\<lparr>cam_dvp := d\<rparr>)" "sts_in d = vs" "sccb_reg_len d = 8"
    "sccb_log d = sccb_log (cam_dvp c) @ map sensor_write (config_entries f)" "dvp_cfg d = dvp_cfg (cam_dvp c)"
    using write_table_bus [OF assms(1) assms(2) [unfolded config_entries_def] config_closed] unfolding config_entries_def by blast
  let ?d = "dvp_set_image_size (ucast (fst (resolution f))) (ucast (snd (resolution f))) d"
  show ?thesis using assms(1) d
    by (intro exI [of _ ?d]) (simp add: gc0328_set_framesize_def on_sccb_def dvp_set_image_size_def Let_def split_beta)
qed

text \<open>What a list of writes leaves in a register of page 0, when page \<open>p\<close> was selected before: the last value written there.\<close>

fun page0_value :: "u8 \<Rightarrow> (u8 \<times> u8) list \<Rightarrow> u8 \<Rightarrow> u8 option \<Rightarrow> u8 option" where
  "page0_value p [] r old = old"
| "page0_value p ((reg, v) # es) r old =
     (if reg = 0xfe then page0_value v es r old
      else page0_value p es r (if p = 0 \<and> reg = r then Some v else old))"

definition window_of :: "(u8 \<times> u8) list \<Rightarrow> u8 option list" where
  "window_of es = map (\<lambda>r. page0_value 0 es r None) [0x50, 0x55, 0x56, 0x57, 0x58, 0x59]"

lemma windows:
  "window_of (config_entries FRAMESIZE_QQVGA @ config_entries FRAMESIZE_QVGA) =
     [Some 1, Some 0, Some 120, Some 0, Some 160, Some 0x22]"
  "window_of (config_entries FRAMESIZE_QQVGA @ config_entries FRAMESIZE_VGA) =
     [Some 0, Some 0, Some 120, Some 0, Some 160, Some 0x44]"
  by (simp_all add: window_of_def config_entries_def entries_of_def framesize_config_def qqvga_config_def qvga_config_def vga_config_def)

text \<open>The gamma curves compiled in are the first of their lists, not those the macros name.\<close>

lemma gamma_compiled_in:
  "pp_choose GC0328_RGB_Gamma rgb_gamma_branches = rgb_gamma_m0" "rgb_gamma_m0 \<noteq> rgb_gamma_test"
  "pp_choose GC0328_Y_Gamma y_gamma_branches = y_gamma_05" "y_gamma_05 \<noteq> y_gamma_default"
  by (simp_all add: rgb_gamma_branches_def y_gamma_branches_def pp_value_def rgb_gamma_m0_def rgb_gamma_test_def y_gamma_05_def
      y_gamma_default_def)

text \<open>A failed read of a camera register is reported as a success with value 0, a register that holds \<open>0xff\<close> as a failure.\<close>

lemma readb_result:
  assumes "bus_read a r c = Some (ret, v, c')"
  shows "cambus_readb a r c = Some (if v = 0xff then -1 else 0, v, c')"
  using assms by (simp add: cambus_readb_def)

lemma readb_hides_error:
  assumes dev: "0 \<le> i2c_device c" "i2c_device c \<le> 2" and w: "sccb_reg_width c \<noteq> 8"
    and an: "i2c_in c = an # ans"
    and err: "maix_i2c_send_data (cam_sys c) an (ucast a) (reg_bytes r (sccb_reg_width c)) 10 (cam_maix c (nat (i2c_device c))) = Some (ret, m)"
      "ret \<noteq> 0"
  shows "\<exists>c'. bus_read a r c = Some (ret, 0, c') \<and> cambus_readb a r c = Some (0, 0, c')"
proof -
  have "bus_read a r c = Some (ret, 0, c\<lparr>cam_maix := (cam_maix c)(nat (i2c_device c) := m), i2c_in := ans\<rparr>)"
    using assms by (simp add: bus_read_def sccb_i2c_read_byte_def i2c_send_def)
  from readb_result [OF this] this show ?thesis by simp
qed

text \<open>Changing the frame size over an idle control bus writes the table of the new size to the sensor and puts the new
  width and height, and nothing else, into the receiver's setting.  But the tables do not undo one another: going
  from 160x120 to 320x240 leaves the sensor cropping to 160x120, and going to 640x480 leaves it subsampling by four, while
  the receiver expects the full picture.\<close>

lemma framesize_keeps_old_window:
  assumes sccb: "on_sccb c" and new: "new = FRAMESIZE_QVGA \<or> new = FRAMESIZE_VGA"
    and idle: "sts_in (cam_dvp c) = replicate (2 * length (config_entries FRAMESIZE_QQVGA @ config_entries new)) 0 @ vs"
  shows "\<exists>d1 d2 es. gc0328_set_framesize FRAMESIZE_QQVGA c = Some (0, c\<lparr>cam_dvp := d1\<rparr>) \<and>
     gc0328_set_framesize new (c\<lparr>cam_dvp := d1\<rparr>) = Some (0, c\<lparr>cam_dvp := d2\<rparr>) \<and>
     sccb_log d2 = sccb_log (cam_dvp c) @ map sensor_write es \<and>
     line_num d1 = 120 \<and> line_num d2 = (if new = FRAMESIZE_QVGA then 240 else 480) \<and>
     window_of es = (if new = FRAMESIZE_QVGA then [Some 1, Some 0, Some 120, Some 0, Some 160, Some 0x22]
                     else [Some 0, Some 0, Some 120, Some 0, Some 160, Some 0x44])"
proof -
  let ?q = "config_entries FRAMESIZE_QQVGA" and ?n = "config_entries new"
  have sts: "sts_in (cam_dvp c) = replicate (2 * length ?q) 0 @ replicate (2 * length ?n) 0 @ vs"
    using idle by (simp add: replicate_add [symmetric])
  obtain d1 where d1: "gc0328_set_framesize FRAMESIZE_QQVGA c = Some (0, c\<lparr>cam_dvp := d1\<rparr>)" "on_sccb (c\<lparr>cam_dvp := d1\<rparr>)"
    "sts_in d1 = replicate (2 * length ?n) 0 @ vs" "sccb_log d1 = sccb_log (cam_dvp c) @ map sensor_write ?q"
    "dvp_cfg d1 = dvp_cfg (dvp_set_image_size 160 120 (cam_dvp c))"
    using set_framesize_effect [OF sccb sts] by auto
  obtain d2 where d2: "gc0328_set_framesize new (c\<lparr>cam_dvp := d1\<rparr>) = Some (0, c\<lparr>cam_dvp := d2\<rparr>)"
    "sccb_log d2 = sccb_log d1 @ map sensor_write ?n"
    "dvp_cfg d2 = dvp_cfg (dvp_set_image_size (ucast (fst (resolution new))) (ucast (snd (resolution new))) d1)"
    using set_framesize_effect [of "c\<lparr>cam_dvp := d1\<rparr>" new vs] d1(2,3) by auto
  have ln: "line_num d = line_num d'" if "dvp_cfg d = dvp_cfg d'" for d d' using that by (simp add: line_num_def)
  have "line_num d1 = 120" using ln [OF d1(5)] image_size_bits(1) [OF _ _ refl, of 120 "cam_dvp c" 160] by simp
  moreover have "line_num d2 = (if new = FRAMESIZE_QVGA then 240 else 480)"
    using ln [OF d2(3)] new image_size_bits(1) [OF _ _ refl, of 240 d1 320] image_size_bits(1) [OF _ _ refl, of 480 d1 640] by auto
  moreover have "sccb_log d2 = sccb_log (cam_dvp c) @ map sensor_write (?q @ ?n)" using d2(2) d1(4) by simp
  moreover have "window_of (?q @ ?n) = (if new = FRAMESIZE_QVGA then [Some 1, Some 0, Some 120, Some 0, Some 160, Some 0x22]
                     else [Some 0, Some 0, Some 120, Some 0, Some 160, Some 0x44])" using new windows by auto
  ultimately show ?thesis using d1(1) d2(1) by blast
qed

lemma framesize_keeps_old_window_witness:
  "\<forall>c. let d = (cam_dvp c)\<lparr>sccb_reg_len := 8, sccb_log := [],
       sts_in := replicate (2 * length (config_entries FRAMESIZE_QQVGA @ config_entries FRAMESIZE_VGA)) 0\<rparr>;
     c = c\<lparr>i2c_device := -2, cam_dvp := d\<rparr>
   in \<exists>d1 d2 es. gc0328_set_framesize FRAMESIZE_QQVGA c = Some (0, c\<lparr>cam_dvp := d1\<rparr>) \<and>
     gc0328_set_framesize FRAMESIZE_VGA (c\<lparr>cam_dvp := d1\<rparr>) = Some (0, c\<lparr>cam_dvp := d2\<rparr>) \<and>
     sccb_log d2 = map sensor_write es \<and> line_num d2 = 480 \<and> window_of es ! 5 = Some 0x44"
proof
  fix c :: camera
  let ?d = "(cam_dvp c)\<lparr>sccb_reg_len := 8, sccb_log := [],
       sts_in := replicate (2 * length (config_entries FRAMESIZE_QQVGA @ config_entries FRAMESIZE_VGA)) 0\<rparr>"
  let ?c = "c\<lparr>i2c_device := -2, cam_dvp := ?d\<rparr>"
  have "on_sccb ?c" by (simp add: on_sccb_def)
  from framesize_keeps_old_window [OF this, of FRAMESIZE_VGA "[]"]
  obtain d1 d2 es where "gc0328_set_framesize FRAMESIZE_QQVGA ?c = Some (0, ?c\<lparr>cam_dvp := d1\<rparr>)"
    "gc0328_set_framesize FRAMESIZE_VGA (?c\<lparr>cam_dvp := d1\<rparr>) = Some (0, ?c\<lparr>cam_dvp := d2\<rparr>)"
    "sccb_log d2 = map sensor_write es" "line_num d2 = 480" "window_of es ! 5 = Some 0x44"
    by auto
  then show "let d = ?d; c = c\<lparr>i2c_device := -2, cam_dvp := d\<rparr>
   in \<exists>d1 d2 es. gc0328_set_framesize FRAMESIZE_QQVGA c = Some (0, c\<lparr>cam_dvp := d1\<rparr>) \<and>
     gc0328_set_framesize FRAMESIZE_VGA (c\<lparr>cam_dvp := d1\<rparr>) = Some (0, c\<lparr>cam_dvp := d2\<rparr>) \<and>
     sccb_log d2 = map sensor_write es \<and> line_num d2 = 480 \<and> window_of es ! 5 = Some 0x44"
    unfolding Let_def by blast
qed

end
