(* ===== verification/Gpio.thy ===== *)
theory Gpio
  imports Fpioa Plic Sysctl
begin

text \<open>
  The two pin drivers \<open>lib/drivers/gpio.c\<close> and \<open>lib/drivers/gpiohs.c\<close>, on the bit functions of
  \<open>lib/drivers/utils.c\<close> and the pad routing of \<open>fpioa.c\<close>.  A pending register of the high speed pins is acknowledged by
  writing ones to it, which is what the driver means by its writes: a write \<open>v\<close> clears the bits of \<open>v\<close>.
  \<open>None\<close> is a failed assertion.  The context of the interrupt handler is the number of the pin's instance.
\<close>

subsection \<open>Bits of a register\<close>

definition set_bit :: "u32 \<Rightarrow> u32 \<Rightarrow> u32 \<Rightarrow> u32" where
  "set_bit bits m value = (let org = bits AND NOT m in org OR (value AND m))"

definition set_bit_offset :: "u32 \<Rightarrow> u32 \<Rightarrow> nat \<Rightarrow> u32 \<Rightarrow> u32" where
  "set_bit_offset bits m offset value = set_bit bits (push_bit offset m) (push_bit offset value)"

definition set_gpio_bit :: "u32 \<Rightarrow> nat \<Rightarrow> u32 \<Rightarrow> u32" where
  "set_gpio_bit bits offset value = set_bit_offset bits 1 offset value"

definition get_bit :: "u32 \<Rightarrow> u32 \<Rightarrow> nat \<Rightarrow> u32" where
  "get_bit bits m offset = drop_bit offset (bits AND push_bit offset m)"

definition get_gpio_bit :: "u32 \<Rightarrow> nat \<Rightarrow> u32" where
  "get_gpio_bit bits offset = get_bit bits 1 offset"

lemma set_gpio_bit_bit:
  "k < 32 \<Longrightarrow> bit (set_gpio_bit w k v) n = (if n = k then bit v 0 else bit w n)"
  by (auto simp: set_gpio_bit_def set_bit_offset_def set_bit_def Let_def bit_simps simp del: push_bit_of_1 dest: bit_imp_le_length)

lemma get_gpio_bit_bit: "get_gpio_bit w k = of_bool (bit w k)"
  by (rule bit_word_eqI) (auto simp: get_gpio_bit_def get_bit_def bit_simps simp del: push_bit_of_1 dest: bit_imp_le_length)

subsection \<open>Low speed pins\<close>

record gpio =
  data_output :: u32
  direction :: u32
  data_input :: u32

datatype gpio_drive_mode = GPIO_DM_INPUT | GPIO_DM_INPUT_PULL_DOWN | GPIO_DM_INPUT_PULL_UP | GPIO_DM_OUTPUT

definition GPIO_MAX_PINNO :: nat where [simp]: "GPIO_MAX_PINNO = 8"
definition FUNC_GPIO0 :: nat where [simp]: "FUNC_GPIO0 = 56"

primrec mode_pull :: "gpio_drive_mode \<Rightarrow> fpioa_pull" where
  "mode_pull GPIO_DM_INPUT = FPIOA_PULL_NONE"
| "mode_pull GPIO_DM_INPUT_PULL_DOWN = FPIOA_PULL_DOWN"
| "mode_pull GPIO_DM_INPUT_PULL_UP = FPIOA_PULL_UP"
| "mode_pull GPIO_DM_OUTPUT = FPIOA_PULL_DOWN"

definition mode_dir :: "gpio_drive_mode \<Rightarrow> u32" where
  "mode_dir mode = (if mode = GPIO_DM_OUTPUT then 1 else 0)"

definition gpio_init :: "sysctl \<Rightarrow> int \<times> sysctl" where
  "gpio_init sy = sysctl_clock_enable SYSCTL_CLOCK_GPIO sy"

definition gpio_set_drive_mode :: "nat \<Rightarrow> gpio_drive_mode \<Rightarrow> fpioa \<times> gpio \<Rightarrow> (fpioa \<times> gpio) option" where
  "gpio_set_drive_mode pin mode s = (case s of (fp, g) \<Rightarrow>
     (if pin < GPIO_MAX_PINNO then
       (let io_number = fpioa_get_io_by_function (FUNC_GPIO0 + pin) fp in
        if io_number \<ge> 0 then
          Some (snd (fpioa_set_io_pull io_number (mode_pull mode) fp), g\<lparr>direction := set_gpio_bit (direction g) pin (mode_dir mode)\<rparr>)
        else None)
      else None))"

definition gpio_get_pin :: "nat \<Rightarrow> gpio \<Rightarrow> u32 option" where
  "gpio_get_pin pin g =
     (if pin < GPIO_MAX_PINNO then
       (let dir = get_gpio_bit (direction g) pin
        in Some (get_gpio_bit (if dir \<noteq> 0 then data_output g else data_input g) pin))
      else None)"

definition gpio_set_pin :: "nat \<Rightarrow> u32 \<Rightarrow> gpio \<Rightarrow> gpio option" where
  "gpio_set_pin pin value g =
     (if pin < GPIO_MAX_PINNO then
       (let dir = get_gpio_bit (direction g) pin
        in if dir = 1 then Some (g\<lparr>data_output := set_gpio_bit (data_output g) pin value\<rparr>) else None)
      else None)"

subsection \<open>High speed pins\<close>

record gpiohs =
  input_val :: u32
  input_en :: u32
  output_en :: u32
  output_val :: u32
  rise_ie :: u32
  rise_ip :: u32
  fall_ie :: u32
  fall_ip :: u32
  high_ie :: u32
  high_ip :: u32
  low_ie :: u32
  low_ip :: u32

definition GPIO_PE_FALLING :: u32 where [simp]: "GPIO_PE_FALLING = 1"
definition GPIO_PE_RISING :: u32 where [simp]: "GPIO_PE_RISING = 2"
definition GPIO_PE_LOW :: u32 where [simp]: "GPIO_PE_LOW = 4"
definition GPIO_PE_HIGH :: u32 where [simp]: "GPIO_PE_HIGH = 8"

record 'cb gpiohs_pin_instance =
  gi_pin :: nat
  gi_edge :: u32
  gi_callback :: "'cb option"
  gi_gpiohs_callback :: "'cb option"
  gi_context :: nat

record 'cb gpiohs_driver =
  hs :: gpiohs
  pin_instance :: "nat \<Rightarrow> 'cb gpiohs_pin_instance"

definition GPIOHS_MAX_PINNO :: nat where [simp]: "GPIOHS_MAX_PINNO = 32"
definition FUNC_GPIOHS0 :: nat where [simp]: "FUNC_GPIOHS0 = 24"
definition IRQN_GPIOHS0_INTERRUPT :: nat where [simp]: "IRQN_GPIOHS0_INTERRUPT = 34"

definition ack_ip :: "u32 \<Rightarrow> nat \<Rightarrow> u32" where
  "ack_ip ip pin = ip AND NOT (set_gpio_bit ip pin 1)"

definition gpiohs_set_drive_mode :: "nat \<Rightarrow> gpio_drive_mode \<Rightarrow> fpioa \<times> gpiohs \<Rightarrow> (fpioa \<times> gpiohs) option" where
  "gpiohs_set_drive_mode pin mode s = (case s of (fp, g) \<Rightarrow>
     (if pin < GPIOHS_MAX_PINNO then
       (let io_number = fpioa_get_io_by_function (FUNC_GPIOHS0 + pin) fp in
        if io_number \<ge> 0 then
          (let fp = snd (fpioa_set_io_pull io_number (mode_pull mode) fp) in
           Some (fp, if mode_dir mode \<noteq> 0
                     then g\<lparr>input_en := set_gpio_bit (input_en g) pin 0, output_en := set_gpio_bit (output_en g) pin 1\<rparr>
                     else g\<lparr>output_en := set_gpio_bit (output_en g) pin 0, input_en := set_gpio_bit (input_en g) pin 1\<rparr>))
        else None)
      else None))"

definition gpiohs_get_pin :: "nat \<Rightarrow> gpiohs \<Rightarrow> u32 option" where
  "gpiohs_get_pin pin g = (if pin < GPIOHS_MAX_PINNO then Some (get_gpio_bit (input_val g) pin) else None)"

definition gpiohs_set_pin :: "nat \<Rightarrow> u32 \<Rightarrow> gpiohs \<Rightarrow> gpiohs option" where
  "gpiohs_set_pin pin value g =
     (if pin < GPIOHS_MAX_PINNO then Some (g\<lparr>output_val := set_gpio_bit (output_val g) pin value\<rparr>) else None)"

definition quiet_pin :: "nat \<Rightarrow> gpiohs \<Rightarrow> gpiohs" where
  "quiet_pin pin g =
     (let g = g\<lparr>rise_ie := set_gpio_bit (rise_ie g) pin 0, rise_ip := ack_ip (rise_ip g) pin\<rparr>;
          g = g\<lparr>fall_ie := set_gpio_bit (fall_ie g) pin 0, fall_ip := ack_ip (fall_ip g) pin\<rparr>;
          g = g\<lparr>low_ie := set_gpio_bit (low_ie g) pin 0, low_ip := ack_ip (low_ip g) pin\<rparr>
      in g\<lparr>high_ie := set_gpio_bit (high_ie g) pin 0, high_ip := ack_ip (high_ip g) pin\<rparr>)"

definition gpiohs_set_pin_edge :: "nat \<Rightarrow> u32 \<Rightarrow> 'cb gpiohs_driver \<Rightarrow> 'cb gpiohs_driver" where
  "gpiohs_set_pin_edge pin edge s =
     (let g = quiet_pin pin (hs s);
          g = g\<lparr>fall_ie := set_gpio_bit (fall_ie g) pin (if edge AND GPIO_PE_FALLING \<noteq> 0 then 1 else 0)\<rparr>;
          g = g\<lparr>rise_ie := set_gpio_bit (rise_ie g) pin (if edge AND GPIO_PE_RISING \<noteq> 0 then 1 else 0)\<rparr>;
          g = g\<lparr>low_ie := set_gpio_bit (low_ie g) pin (if edge AND GPIO_PE_LOW \<noteq> 0 then 1 else 0)\<rparr>;
          g = g\<lparr>high_ie := set_gpio_bit (high_ie g) pin (if edge AND GPIO_PE_HIGH \<noteq> 0 then 1 else 0)\<rparr>
      in s\<lparr>hs := g, pin_instance := (pin_instance s)(pin := (pin_instance s pin)\<lparr>gi_edge := edge\<rparr>)\<rparr>)"

definition isr_ack :: "nat \<Rightarrow> u32 \<Rightarrow> gpiohs \<Rightarrow> gpiohs" where
  "isr_ack pin edge g =
     (let g = (if edge AND GPIO_PE_FALLING \<noteq> 0
               then g\<lparr>fall_ie := set_gpio_bit (set_gpio_bit (fall_ie g) pin 0) pin 1, fall_ip := ack_ip (fall_ip g) pin\<rparr> else g);
          g = (if edge AND GPIO_PE_RISING \<noteq> 0
               then g\<lparr>rise_ie := set_gpio_bit (set_gpio_bit (rise_ie g) pin 0) pin 1, rise_ip := ack_ip (rise_ip g) pin\<rparr> else g);
          g = (if edge AND GPIO_PE_LOW \<noteq> 0
               then g\<lparr>low_ie := set_gpio_bit (set_gpio_bit (low_ie g) pin 0) pin 1, low_ip := ack_ip (low_ip g) pin\<rparr> else g)
      in (if edge AND GPIO_PE_HIGH \<noteq> 0
          then g\<lparr>high_ie := set_gpio_bit (set_gpio_bit (high_ie g) pin 0) pin 1, high_ip := ack_ip (high_ip g) pin\<rparr> else g))"

text \<open>\<open>run f c\<close> calls a callback, with its context or with none.\<close>

definition gpiohs_pin_onchange_isr ::
  "('cb \<Rightarrow> nat option \<Rightarrow> 'cb gpiohs_driver \<Rightarrow> 'cb gpiohs_driver) \<Rightarrow> nat \<Rightarrow> 'cb gpiohs_driver \<Rightarrow> 'cb gpiohs_driver" where
  "gpiohs_pin_onchange_isr run i s =
     (let pin = gi_pin (pin_instance s i);
          s = s\<lparr>hs := isr_ack pin (gi_edge (pin_instance s i)) (hs s)\<rparr>;
          s = (case gi_callback (pin_instance s i) of None \<Rightarrow> s | Some f \<Rightarrow> run f None s)
      in (case gi_gpiohs_callback (pin_instance s i) of
            None \<Rightarrow> s | Some f \<Rightarrow> run f (Some (gi_context (pin_instance s i))) s))"

datatype gpiohs_handler = Gpiohs_pin_onchange_isr

definition arm_pin :: "nat \<Rightarrow> nat \<Rightarrow> u32 \<Rightarrow> gpiohs_handler plic \<Rightarrow> gpiohs_handler plic" where
  "arm_pin core pin prio p =
     (let irq = IRQN_GPIOHS0_INTERRUPT + pin;
          p = snd (plic_set_priority (int irq) prio p);
          p = plic_irq_register core irq (Some Gpiohs_pin_onchange_isr) pin p
      in snd (plic_irq_enable core (int irq) p))"

definition gpiohs_set_irq ::
  "nat \<Rightarrow> nat \<Rightarrow> u32 \<Rightarrow> 'cb option \<Rightarrow> 'cb gpiohs_driver \<times> gpiohs_handler plic \<Rightarrow> 'cb gpiohs_driver \<times> gpiohs_handler plic" where
  "gpiohs_set_irq core pin prio func s = (case s of (g, p) \<Rightarrow>
     (g\<lparr>pin_instance := (pin_instance g)(pin := (pin_instance g pin)\<lparr>gi_pin := pin, gi_callback := func\<rparr>)\<rparr>,
      arm_pin core pin prio p))"

definition gpiohs_irq_register ::
  "nat \<Rightarrow> nat \<Rightarrow> u32 \<Rightarrow> 'cb option \<Rightarrow> nat \<Rightarrow> 'cb gpiohs_driver \<times> gpiohs_handler plic \<Rightarrow> 'cb gpiohs_driver \<times> gpiohs_handler plic" where
  "gpiohs_irq_register core pin prio callback ctx s = (case s of (g, p) \<Rightarrow>
     (g\<lparr>pin_instance := (pin_instance g)(pin := (pin_instance g pin)\<lparr>gi_pin := pin, gi_gpiohs_callback := callback, gi_context := ctx\<rparr>)\<rparr>,
      arm_pin core pin prio p))"

definition gpiohs_irq_unregister :: "nat \<Rightarrow> nat \<Rightarrow> 'cb gpiohs_driver \<times> gpiohs_handler plic \<Rightarrow> 'cb gpiohs_driver \<times> gpiohs_handler plic" where
  "gpiohs_irq_unregister core pin s = (case s of (g, p) \<Rightarrow>
     (let g = g\<lparr>pin_instance := (pin_instance g)(pin :=
                \<lparr>gi_pin = 0, gi_edge = 0, gi_callback = None, gi_gpiohs_callback = None, gi_context = 0\<rparr>)\<rparr>;
          h = hs g;
          h = h\<lparr>rise_ie := set_gpio_bit (rise_ie h) pin 0, fall_ie := set_gpio_bit (fall_ie h) pin 0,
                low_ie := set_gpio_bit (low_ie h) pin 0, high_ie := set_gpio_bit (high_ie h) pin 0\<rparr>
      in (g\<lparr>hs := h\<rparr>, plic_irq_unregister core (IRQN_GPIOHS0_INTERRUPT + pin) p)))"

definition gpiohs_irq_disable :: "nat \<Rightarrow> nat \<Rightarrow> gpiohs_handler plic \<Rightarrow> gpiohs_handler plic" where
  "gpiohs_irq_disable core pin p = snd (plic_irq_disable core (int (IRQN_GPIOHS0_INTERRUPT + pin)) p)"

subsection \<open>Interrupts of a pin\<close>

text \<open>Which of the four events of a pin raise an interrupt, as the bits of an edge value.\<close>

definition pin_events :: "gpiohs \<Rightarrow> nat \<Rightarrow> bool list" where
  "pin_events g n = [bit (fall_ie g) n, bit (rise_ie g) n, bit (low_ie g) n, bit (high_ie g) n]"

definition edge_events :: "u32 \<Rightarrow> bool list" where
  "edge_events e = [e AND 1 \<noteq> 0, e AND 2 \<noteq> 0, e AND 4 \<noteq> 0, e AND 8 \<noteq> 0]"

lemma set_pin_edge_events:
  "pin < 32 \<Longrightarrow> pin_events (hs (gpiohs_set_pin_edge pin e s)) n = (if n = pin then edge_events e else pin_events (hs s) n)"
  by (auto simp: gpiohs_set_pin_edge_def quiet_pin_def pin_events_def edge_events_def set_gpio_bit_bit Let_def)

lemma isr_keeps_events:
  "pin < 32 \<Longrightarrow> pin_events (hs s) pin = edge_events e \<Longrightarrow> pin_events (isr_ack pin e (hs s)) n = pin_events (hs s) n"
  by (auto simp: isr_ack_def pin_events_def edge_events_def set_gpio_bit_bit Let_def)

lemma ack_ip_all: "pin < 32 \<Longrightarrow> ack_ip ip pin = 0"
  by (rule bit_word_eqI) (simp add: ack_ip_def set_gpio_bit_bit bit_simps)

lemma arm_pin_line:
  assumes "plic_wf p" "pin < 32"
  shows "plic_wf (arm_pin core pin prio p)" "irq_enabled core (arm_pin core pin prio p) = (irq_enabled core p)(34 + pin := True)"
    "irq_handler core (arm_pin core pin prio p) = (irq_handler core p)(34 + pin := (Some Gpiohs_pin_onchange_isr, pin))"
  using plic.arm [OF assms(1), of "34 + pin"] assms(2) by (simp_all add: arm_pin_def Let_def)

text \<open>Routing first, then the drive mode: the mode finds the pad.\<close>

lemma drive_mode_reaches_pad:
  assumes "0 \<le> io" "io < 48" "pin < 8" "\<And>i. i < 48 \<Longrightarrow> channel fp i = 56 + pin \<longleftrightarrow> int i = io"
  shows "gpio_set_drive_mode pin mode (fp, g) =
    Some (snd (fpioa_set_io_pull io (mode_pull mode) fp), g\<lparr>direction := set_gpio_bit (direction g) pin (mode_dir mode)\<rparr>)"
  using get_io_by_function_unique [OF assms(1,2,4)] assms(1,3) by (simp add: gpio_set_drive_mode_def)

text \<open>An output pin reads back what was written to it, and the pins beside it keep theirs.\<close>

lemma output_reads_back:
  assumes "pin < 8" "bit (direction g) pin"
  shows "\<exists>g'. gpio_set_pin pin v g = Some g' \<and> gpio_get_pin pin g' = Some (of_bool (bit v 0)) \<and>
    (\<forall>q < 8. q \<noteq> pin \<longrightarrow> gpio_get_pin q g' = gpio_get_pin q g)"
  using assms by (auto simp: gpio_set_pin_def gpio_get_pin_def get_gpio_bit_bit set_gpio_bit_bit)

text \<open>C25.  After \<open>gpiohs_set_pin_edge\<close> and \<open>gpiohs_irq_register\<close> the pin raises interrupts on exactly the events of its edge value, no
  other pin has changed, its line is armed with the handler, and the handler leaves all enabled events as they are
  and calls the callback with its context.  But its acknowledgement reads, sets a bit and writes back a
  register in which ones clear: it discards the pending events of every pin.\<close>

theorem gpiohs_irq_contract:
  assumes wf: "plic_wf p" and pin: "pin < 32" and fresh: "gi_callback (pin_instance g pin) = None"
    and reg: "gpiohs_irq_register core pin prio (Some f) ctx (gpiohs_set_pin_edge pin e g, p) = (g', p')"
  shows "pin_events (hs g') n = (if n = pin then edge_events e else pin_events (hs g) n) \<and>
    irq_enabled core p' = (irq_enabled core p)(34 + pin := True) \<and>
    irq_handler core p' = (irq_handler core p)(34 + pin := (Some Gpiohs_pin_onchange_isr, pin)) \<and>
    gpiohs_pin_onchange_isr run pin g' = run f (Some ctx) (g'\<lparr>hs := isr_ack pin e (hs g')\<rparr>) \<and>
    pin_events (isr_ack pin e (hs g')) n = pin_events (hs g') n \<and>
    (e AND GPIO_PE_RISING \<noteq> 0 \<longrightarrow> rise_ip (isr_ack pin e (hs g')) = 0)"
proof (intro conjI impI)
  have g': "hs g' = hs (gpiohs_set_pin_edge pin e g)" "gi_pin (pin_instance g' pin) = pin" "gi_edge (pin_instance g' pin) = e"
    "gi_callback (pin_instance g' pin) = None" "gi_gpiohs_callback (pin_instance g' pin) = Some f" "gi_context (pin_instance g' pin) = ctx"
    and p': "p' = arm_pin core pin prio p"
    using reg fresh by (auto simp: gpiohs_irq_register_def gpiohs_set_pin_edge_def Let_def)
  show ev: "pin_events (hs g') n = (if n = pin then edge_events e else pin_events (hs g) n)" for n
    unfolding g' by (rule set_pin_edge_events [OF pin])
  show "irq_enabled core p' = (irq_enabled core p)(34 + pin := True)"
    "irq_handler core p' = (irq_handler core p)(34 + pin := (Some Gpiohs_pin_onchange_isr, pin))"
    unfolding p' by (rule arm_pin_line [OF wf pin])+
  show "gpiohs_pin_onchange_isr run pin g' = run f (Some ctx) (g'\<lparr>hs := isr_ack pin e (hs g')\<rparr>)"
    by (simp add: gpiohs_pin_onchange_isr_def Let_def g'(2-))
  show "pin_events (isr_ack pin e (hs g')) n = pin_events (hs g') n"
    using isr_keeps_events [OF pin, of g' e n] ev [of pin] by simp
  show "rise_ip (isr_ack pin e (hs g')) = 0" if "e AND GPIO_PE_RISING \<noteq> 0"
    using that ack_ip_all [OF pin] by (simp add: isr_ack_def Let_def)
qed

lemma gpiohs_irq_contract_witness:
  "\<forall>g :: nat gpiohs_driver. let g = g\<lparr>hs := (hs g)\<lparr>rise_ip := 0xFF\<rparr>,
        pin_instance := (pin_instance g)(5 := (pin_instance g 5)\<lparr>gi_callback := None\<rparr>)\<rparr>;
      (g', p') = gpiohs_irq_register 0 5 1 (Some 7) 9 (gpiohs_set_pin_edge 5 2 g, plic_blank)
    in pin_events (hs g') 5 = [False, True, False, False] \<and> irq_enabled 0 p' 39 \<and>
       rise_ip (isr_ack 5 2 (hs g')) = 0"
proof
  fix g :: "nat gpiohs_driver"
  let ?g = "g\<lparr>hs := (hs g)\<lparr>rise_ip := 0xFF\<rparr>, pin_instance := (pin_instance g)(5 := (pin_instance g 5)\<lparr>gi_callback := None\<rparr>)\<rparr>"
  obtain g' p' where r: "gpiohs_irq_register 0 5 1 (Some 7) 9 (gpiohs_set_pin_edge 5 2 ?g, plic_blank) = (g', p')" by fastforce
  have "gi_callback (pin_instance ?g 5) = None" by simp
  note k = gpiohs_irq_contract [OF plic_blank_wf _ this r]
  show "let g = ?g; (g', p') = gpiohs_irq_register 0 5 1 (Some 7) 9 (gpiohs_set_pin_edge 5 2 g, plic_blank)
    in pin_events (hs g') 5 = [False, True, False, False] \<and> irq_enabled 0 p' 39 \<and> rise_ip (isr_ack 5 2 (hs g')) = 0"
    using k [of 5] by (simp add: Let_def r edge_events_def)
qed

end
