(* ===== verification/Uart.thy ===== *)
theory Uart
  imports C_Double Sysctl_Freq Dma_Client
begin

text \<open>
  The driver of the three serial ports, \<open>lib/drivers/uart.c\<close>.  Two offsets of a port are shared by several
  registers, and bit 7 of \<open>LCR\<close> decides which one an access reaches: the divisor latches or the data and
  interrupt enable registers.  \<open>lsr_in\<close> and \<open>rbr_in\<close> are what the status and the receive register will read, \<open>thr_out\<close>
  lists the characters written.  The receive and transmit functions with DMA run on the model of the DMA driver, with
  \<open>FIX_CACHE\<close> on.  \<open>None\<close>: still polling, a failed assertion, or an operation C leaves undefined.
\<close>

subsection \<open>Registers\<close>

record uart_tcr =
  rs485_en :: bit1
  re_pol :: bit1
  de_pol :: bit1
  xfer_mode :: "2 word"

record uart_t =
  dll :: u32
  dlh :: u32
  ier :: u32
  fcr :: u32
  lcr :: u32
  mcr :: u32
  srt :: u32
  stet :: u32
  tcr :: uart_tcr
  de_en :: u32
  re_en :: u32
  de_assertion_time :: u8
  de_de_assertion_time :: u8
  de_to_re :: u16
  re_to_de :: u16
  dlf :: u32
  lsr_in :: "u32 list"
  rbr_in :: "u32 list"
  thr_out :: "u32 list"

definition dlab :: "uart_t \<Rightarrow> bool" where
  "dlab u = bit (lcr u) 7"

text \<open>Offset 0 is \<open>DLL\<close> or \<open>THR\<close>, offset 4 is \<open>DLH\<close> or \<open>IER\<close>.\<close>

definition write_0 :: "u32 \<Rightarrow> uart_t \<Rightarrow> uart_t" where
  "write_0 v u = (if dlab u then u\<lparr>dll := v\<rparr> else u\<lparr>thr_out := thr_out u @ [v]\<rparr>)"

definition read_4 :: "uart_t \<Rightarrow> u32" where
  "read_4 u = (if dlab u then dlh u else ier u)"

definition write_4 :: "u32 \<Rightarrow> uart_t \<Rightarrow> uart_t" where
  "write_4 v u = (if dlab u then u\<lparr>dlh := v\<rparr> else u\<lparr>ier := v\<rparr>)"

record 'u uart_interrupt_instance =
  ui_callback :: "'u option"
  ui_ctx :: nat

record 'u uart_instance =
  uart_receive_instance :: "'u uart_interrupt_instance"
  uart_send_instance :: "'u uart_interrupt_instance"
  uart_num :: nat

datatype uart_interrupt_mode = UART_SEND | UART_RECEIVE

record 'u uart_dma_instance =
  ud_buffer :: int
  ud_buf_len :: nat
  ud_malloc_buffer :: int
  ud_int_mode :: uart_interrupt_mode
  ud_dmac_channel :: nat
  ud_uart_num :: nat
  ud_int_instance :: "'u uart_interrupt_instance"

record 'u uart_instance_dma =
  un_uart_num :: nat
  un_transfer_mode :: uart_interrupt_mode
  un_dmac_channel :: nat
  un_int_instance :: "'u uart_interrupt_instance"
  un_lock :: bool

datatype console_hook = Uart_debug

record 'u uart_driver =
  uart :: "nat \<Rightarrow> uart_t"
  g_uart_instance :: "nat \<Rightarrow> 'u uart_instance"
  g_write_count :: int
  s_uart_debug_channel :: nat
  sys_getchar :: "console_hook option"
  sys_putchar :: "console_hook option"
  send_dma_instance :: "nat \<Rightarrow> 'u uart_dma_instance"
  recv_dma_instance :: "nat \<Rightarrow> 'u uart_dma_instance"
  send_instance_dma :: "nat \<Rightarrow> 'u uart_instance_dma"
  recv_instance_dma :: "nat \<Rightarrow> 'u uart_instance_dma"

definition upd_uart :: "nat \<Rightarrow> (uart_t \<Rightarrow> uart_t) \<Rightarrow> 'u uart_driver \<Rightarrow> 'u uart_driver" where
  "upd_uart n f s = s\<lparr>uart := (uart s)(n := f (uart s n))\<rparr>"

definition UART_DEVICE_MAX :: nat where [simp]: "UART_DEVICE_MAX = 3"
definition UART_BRATE_CONST :: u32 where [simp]: "UART_BRATE_CONST = 16"
definition UART_INTERRUPT_SEND :: u8 where [simp]: "UART_INTERRUPT_SEND = 2"
definition UART_INTERRUPT_RECEIVE :: u8 where [simp]: "UART_INTERRUPT_RECEIVE = 4"
definition UART_INTERRUPT_CHARACTER_TIMEOUT :: u8 where [simp]: "UART_INTERRUPT_CHARACTER_TIMEOUT = 0xC"
definition IRQN_UART1_INTERRUPT :: nat where [simp]: "IRQN_UART1_INTERRUPT = 11"

subsection \<open>Interrupts and characters\<close>

text \<open>\<open>iir\<close> is what the interrupt identification register reads, \<open>run f c\<close> calls a callback.\<close>

definition call_instance :: "('u \<Rightarrow> nat \<Rightarrow> 's \<Rightarrow> 's) \<Rightarrow> 'u uart_interrupt_instance \<Rightarrow> 's \<Rightarrow> 's" where
  "call_instance run x s = (case ui_callback x of None \<Rightarrow> s | Some f \<Rightarrow> run f (ui_ctx x) s)"

definition uart_irq_callback ::
  "('u \<Rightarrow> nat \<Rightarrow> 'u uart_driver \<Rightarrow> 'u uart_driver) \<Rightarrow> u32 \<Rightarrow> nat \<Rightarrow> 'u uart_driver \<Rightarrow> 'u uart_driver" where
  "uart_irq_callback run iir i s =
     (let v_int_status = ucast (iir AND 0xF) :: u8 in
      if v_int_status = UART_INTERRUPT_SEND \<and> g_write_count s \<noteq> 0 then
        call_instance run (uart_send_instance (g_uart_instance s i)) s
      else if v_int_status = UART_INTERRUPT_RECEIVE \<or> v_int_status = UART_INTERRUPT_CHARACTER_TIMEOUT then
        call_instance run (uart_receive_instance (g_uart_instance s i)) s
      else s)"

fun until_lsr :: "bool \<Rightarrow> nat \<Rightarrow> u32 list \<Rightarrow> u32 list option" where
  "until_lsr b k [] = None"
| "until_lsr b k (v # vs) = (if bit v k = b then Some vs else until_lsr b k vs)"

definition wait_lsr :: "bool \<Rightarrow> nat \<Rightarrow> uart_t \<Rightarrow> uart_t option" where
  "wait_lsr b k u = map_option (\<lambda>vs. u\<lparr>lsr_in := vs\<rparr>) (until_lsr b k (lsr_in u))"

definition upd_uart_opt :: "nat \<Rightarrow> (uart_t \<Rightarrow> uart_t option) \<Rightarrow> 'u uart_driver \<Rightarrow> 'u uart_driver option" where
  "upd_uart_opt n f s = map_option (\<lambda>u. s\<lparr>uart := (uart s)(n := u)\<rparr>) (f (uart s n))"

definition uart_channel_putc :: "u8 \<Rightarrow> nat \<Rightarrow> 'u uart_driver \<Rightarrow> (int \<times> 'u uart_driver) option" where
  "uart_channel_putc c channel s =
     map_option (Pair (uint c)) (upd_uart_opt channel (\<lambda>u. map_option (write_0 (ucast c)) (wait_lsr False 5 u)) s)"

text \<open>One look at the line status and, when a character is there, at the receive register.  \<open>char\<close> is unsigned on this target.\<close>

definition take_char :: "uart_t \<Rightarrow> (u8 option \<times> uart_t) option" where
  "take_char u =
     (case lsr_in u of [] \<Rightarrow> None
      | v # vs \<Rightarrow>
         (let u = u\<lparr>lsr_in := vs\<rparr> in
          if \<not> bit v 0 then Some (None, u)
          else (case rbr_in u of [] \<Rightarrow> None | r # rs \<Rightarrow> Some (Some (ucast (r AND 0xff)), u\<lparr>rbr_in := rs\<rparr>))))"

definition uart_channel_getc :: "nat \<Rightarrow> 'u uart_driver \<Rightarrow> (int \<times> 'u uart_driver) option" where
  "uart_channel_getc channel s =
     map_option (\<lambda>(c, u). (case c of None \<Rightarrow> -1 | Some b \<Rightarrow> uint b, upd_uart channel (\<lambda>_. u) s)) (take_char (uart s channel))"

definition uart_debug_putchar :: "u8 \<Rightarrow> 'u uart_driver \<Rightarrow> (int \<times> 'u uart_driver) option" where
  "uart_debug_putchar c s = uart_channel_putc c (s_uart_debug_channel s) s"

definition uart_debug_getchar :: "'u uart_driver \<Rightarrow> (int \<times> 'u uart_driver) option" where
  "uart_debug_getchar s = uart_channel_getc (s_uart_debug_channel s) s"

fun receive_chars :: "nat \<Rightarrow> uart_t \<Rightarrow> (u8 list \<times> uart_t) option" where
  "receive_chars 0 u = Some ([], u)"
| "receive_chars (Suc n) u =
     (case take_char u of
        None \<Rightarrow> None
      | Some (None, u) \<Rightarrow> Some ([], u)
      | Some (Some b, u) \<Rightarrow> map_option (\<lambda>(bs, u). (b # bs, u)) (receive_chars n u))"

definition uart_receive_data :: "nat \<Rightarrow> nat \<Rightarrow> 'u uart_driver \<Rightarrow> (int \<times> u8 list \<times> 'u uart_driver) option" where
  "uart_receive_data channel n s =
     map_option (\<lambda>(bs, u). (int (length bs), bs, upd_uart channel (\<lambda>_. u) s)) (receive_chars n (uart s channel))"

text \<open>The counter is an \<open>int\<close>; buffers here are shorter than \<open>2 ^ 31\<close>.\<close>

fun send_chars :: "u8 list \<Rightarrow> nat \<Rightarrow> 'u uart_driver \<Rightarrow> 'u uart_driver option" where
  "send_chars [] channel s = Some s"
| "send_chars (c # cs) channel s =
     (case uart_channel_putc c channel s of
        None \<Rightarrow> None
      | Some (_, s) \<Rightarrow> send_chars cs channel (s\<lparr>g_write_count := g_write_count s + 1\<rparr>))"

definition uart_send_data :: "nat \<Rightarrow> u8 list \<Rightarrow> 'u uart_driver \<Rightarrow> (int \<times> 'u uart_driver) option" where
  "uart_send_data channel buffer s =
     map_option (\<lambda>s. (g_write_count s, s)) (send_chars buffer channel (s\<lparr>g_write_count := 0\<rparr>))"

subsection \<open>Line settings\<close>

datatype uart_stopbit = UART_STOP_1 | UART_STOP_1_5 | UART_STOP_2
datatype uart_parity = UART_PARITY_NONE | UART_PARITY_ODD | UART_PARITY_EVEN

primrec parity_val :: "uart_parity \<Rightarrow> u32" where
  "parity_val UART_PARITY_NONE = 0" | "parity_val UART_PARITY_ODD = 1" | "parity_val UART_PARITY_EVEN = 3"

definition divisor_bytes :: "u32 \<Rightarrow> u8 \<times> u8 \<times> u8" where
  "divisor_bytes divisor =
     (let hi = ucast (drop_bit 12 divisor) :: u8;
          lo = ucast ((divisor - push_bit 12 (ucast hi)) div UART_BRATE_CONST) :: u8;
          fr = ucast (divisor - push_bit 12 (ucast hi) - ucast lo * UART_BRATE_CONST) :: u8
      in (hi, lo, fr))"

definition program_line :: "u8 \<times> u8 \<times> u8 \<Rightarrow> u32 \<Rightarrow> uart_t \<Rightarrow> uart_t" where
  "program_line divisor line_mode u =
     (case divisor of (hi, lo, fr) \<Rightarrow>
       (let u = u\<lparr>lcr := lcr u OR push_bit 7 1\<rparr>;
            u = write_4 (ucast hi) u;
            u = write_0 (ucast lo) u;
            u = u\<lparr>dlf := ucast fr\<rparr>;
            u = u\<lparr>lcr := 0\<rparr>;
            u = u\<lparr>lcr := line_mode\<rparr>;
            u = u\<lparr>lcr := lcr u AND NOT (push_bit 7 1)\<rparr>;
            u = write_4 (read_4 u OR 0x80) u
        in u\<lparr>fcr := push_bit 6 0 OR push_bit 4 3 OR push_bit 3 1 OR 1\<rparr>))"

definition uart_configure ::
  "sysctl \<Rightarrow> nat \<Rightarrow> u32 \<Rightarrow> u32 \<Rightarrow> uart_stopbit \<Rightarrow> uart_parity \<Rightarrow> 'u uart_driver \<Rightarrow> 'u uart_driver option" where
  "uart_configure sy channel baud_rate data_width stopbit parity s =
     (if \<not> (5 \<le> data_width \<and> data_width \<le> 8) \<or> (data_width = 5 \<and> stopbit = UART_STOP_2) \<or>
         (data_width \<noteq> 5 \<and> stopbit = UART_STOP_1_5) \<or> baud_rate = 0 then None
      else
       (let stopbit_val = (if stopbit = UART_STOP_1 then 0 else 1);
            divisor = sysctl_clock_get_freq sy SYSCTL_CLOCK_APB0 div baud_rate;
            line_mode = (data_width - 5) OR push_bit 2 stopbit_val OR push_bit 3 (parity_val parity)
        in Some (upd_uart channel (program_line (divisor_bytes divisor) line_mode) s)))"

definition uart_clock :: "nat \<Rightarrow> sysctl_clock" where
  "uart_clock n = [SYSCTL_CLOCK_UART1, SYSCTL_CLOCK_UART2, SYSCTL_CLOCK_UART3] ! n"
definition uart_reset_line :: "nat \<Rightarrow> sysctl_reset_t" where
  "uart_reset_line n = [SYSCTL_RESET_UART1, SYSCTL_RESET_UART2, SYSCTL_RESET_UART3] ! n"

definition uart_init :: "nat \<Rightarrow> sysctl \<Rightarrow> sysctl" where
  "uart_init channel sy = sysctl_reset (uart_reset_line channel) (snd (sysctl_clock_enable (uart_clock channel) sy))"

definition uart_set_send_trigger :: "nat \<Rightarrow> u32 \<Rightarrow> 'u uart_driver \<Rightarrow> 'u uart_driver" where
  "uart_set_send_trigger channel trigger s = upd_uart channel (\<lambda>u. u\<lparr>stet := trigger\<rparr>) s"

definition uart_set_receive_trigger :: "nat \<Rightarrow> u32 \<Rightarrow> 'u uart_driver \<Rightarrow> 'u uart_driver" where
  "uart_set_receive_trigger channel trigger s = upd_uart channel (\<lambda>u. u\<lparr>srt := trigger\<rparr>) s"

definition uart_debug_init :: "nat \<Rightarrow> sysctl \<times> 'u uart_driver \<Rightarrow> (sysctl \<times> 'u uart_driver) option" where
  "uart_debug_init uart_channel x = (case x of (sy, s) \<Rightarrow>
     (let flag = uart_channel \<le> 2;
          s = (if flag then s\<lparr>s_uart_debug_channel := uart_channel\<rparr> else s);
          sy = uart_init (s_uart_debug_channel s) sy
      in case uart_configure sy (s_uart_debug_channel s) 115200 8 UART_STOP_1 UART_PARITY_NONE s of
           None \<Rightarrow> None
         | Some s \<Rightarrow>
            (let s = uart_set_receive_trigger (s_uart_debug_channel s) 0 s;
                 s = (if flag \<or> sys_getchar s = None then s\<lparr>sys_getchar := Some Uart_debug\<rparr> else s);
                 s = (if flag \<or> sys_putchar s = None then s\<lparr>sys_putchar := Some Uart_debug\<rparr> else s)
             in Some (sy, s))))"

definition uart_irq_register ::
  "nat \<Rightarrow> nat \<Rightarrow> uart_interrupt_mode \<Rightarrow> 'u option \<Rightarrow> nat \<Rightarrow> u32 \<Rightarrow> 'u uart_driver \<times> 'h plic \<Rightarrow> 'h \<Rightarrow> 'u uart_driver \<times> 'h plic" where
  "uart_irq_register core channel mode callback ctx prio x h = (case x of (s, p) \<Rightarrow>
     (let inst = \<lparr>ui_callback = callback, ui_ctx = ctx\<rparr>;
          s = upd_uart channel (\<lambda>u. write_4 (read_4 u OR (if mode = UART_SEND then 2 else 1)) u) s;
          g = g_uart_instance s channel;
          g = (if mode = UART_SEND then g\<lparr>uart_send_instance := inst\<rparr> else g\<lparr>uart_receive_instance := inst\<rparr>);
          s = s\<lparr>g_uart_instance := (g_uart_instance s)(channel := g\<lparr>uart_num := channel\<rparr>)\<rparr>;
          irq = IRQN_UART1_INTERRUPT + channel;
          p = snd (plic_set_priority (int irq) prio p);
          p = plic_irq_register core irq (Some h) channel p
      in (s, snd (plic_irq_enable core (int irq) p))))"

definition uart_irq_unregister ::
  "nat \<Rightarrow> nat \<Rightarrow> uart_interrupt_mode \<Rightarrow> 'u uart_driver \<times> 'h plic \<Rightarrow> 'u uart_driver \<times> 'h plic" where
  "uart_irq_unregister core channel mode x = (case x of (s, p) \<Rightarrow>
     (let inst = \<lparr>ui_callback = None, ui_ctx = 0\<rparr>;
          s = upd_uart channel (\<lambda>u. write_4 (read_4 u AND NOT (if mode = UART_SEND then 2 else 1)) u) s;
          g = g_uart_instance s channel;
          g = (if mode = UART_SEND then g\<lparr>uart_send_instance := inst\<rparr> else g\<lparr>uart_receive_instance := inst\<rparr>);
          s = s\<lparr>g_uart_instance := (g_uart_instance s)(channel := g)\<rparr>
      in (s, if read_4 (uart s channel) = 0 then plic_irq_unregister core (IRQN_UART1_INTERRUPT + channel) p else p)))"

subsection \<open>Transfers by DMA\<close>

definition UART1_BASE_ADDR :: int where "UART1_BASE_ADDR = 0x50210000"
definition SYSCTL_DMA_SELECT_UART1_RX_REQ :: nat where "SYSCTL_DMA_SELECT_UART1_RX_REQ = 14"
definition SYSCTL_DMA_SELECT_UART1_TX_REQ :: nat where "SYSCTL_DMA_SELECT_UART1_TX_REQ = 15"

text \<open>\<open>RBR\<close> and \<open>THR\<close> are the first register of a port.\<close>

definition port_addr :: "nat \<Rightarrow> int" where
  "port_addr n = UART1_BASE_ADDR + 0x10000 * int n"

definition store_bytes :: "int \<Rightarrow> u8 list \<Rightarrow> (int \<Rightarrow> u8) \<Rightarrow> int \<Rightarrow> u8" where
  "store_bytes a bs m = fold (\<lambda>i m. m(a + int i := bs ! i)) [0..<length bs] m"

definition uart_receive_data_dma ::
  "('cb dma \<Rightarrow> 'cb dma) \<Rightarrow> (int \<Rightarrow> int \<Rightarrow> int) \<Rightarrow> nat \<Rightarrow> nat \<Rightarrow> nat \<Rightarrow> sysctl \<times> 'cb dma \<Rightarrow> (u8 list \<times> sysctl \<times> 'cb dma) option" where
  "uart_receive_data_dma hw brk channel dmac_channel len x = (case x of (sy, w) \<Rightarrow>
     (case io_malloc brk (word_of_nat (len * 4)) w of
        None \<Rightarrow> None
      | Some (recv_buf, w) \<Rightarrow>
         (if recv_buf = 0 then None
          else
           (let sy = snd (sysctl_dma_select (dma_channel dmac_channel) (SYSCTL_DMA_SELECT_UART1_RX_REQ + channel * 2) sy) in
            Option.bind (dmac_set_single_mode hw brk dmac_channel (port_addr channel) recv_buf DMAC_ADDR_NOCHANGE DMAC_ADDR_INCREMENT
                           DMAC_MSIZE_1 DMAC_TRANS_WIDTH_32 (word_of_nat len) w) (\<lambda>w.
            Option.bind (dmac_wait_done hw brk dmac_channel w) (\<lambda>w.
            let buffer = load_low_bytes recv_buf len (mem w) in
            map_option (\<lambda>w. (buffer, sy, w)) (io_free brk recv_buf w)))))))"

definition uart_send_data_dma ::
  "('cb dma \<Rightarrow> 'cb dma) \<Rightarrow> (int \<Rightarrow> int \<Rightarrow> int) \<Rightarrow> nat \<Rightarrow> nat \<Rightarrow> u8 list \<Rightarrow> sysctl \<times> 'cb dma \<Rightarrow> (sysctl \<times> 'cb dma) option" where
  "uart_send_data_dma hw brk channel dmac_channel buffer x = (case x of (sy, w) \<Rightarrow>
     (case io_malloc brk (word_of_nat (length buffer * 4)) w of
        None \<Rightarrow> None
      | Some (send_buf, w) \<Rightarrow>
         (if send_buf = 0 then None
          else
           (let w = w\<lparr>mem := store32s send_buf (map ucast buffer) (mem w)\<rparr>;
                sy = snd (sysctl_dma_select (dma_channel dmac_channel) (SYSCTL_DMA_SELECT_UART1_TX_REQ + channel * 2) sy)
            in
            Option.bind (dmac_set_single_mode hw brk dmac_channel send_buf (port_addr channel) DMAC_ADDR_INCREMENT DMAC_ADDR_NOCHANGE
                           DMAC_MSIZE_1 DMAC_TRANS_WIDTH_32 (word_of_nat (length buffer)) w) (\<lambda>w.
            Option.bind (dmac_wait_done hw brk dmac_channel w) (\<lambda>w.
            map_option (Pair sy) (io_free brk send_buf w)))))))"

text \<open>The variants that return at once and finish in \<open>uart_dma_callback\<close>; \<open>buffer\<close> is the address of the caller's
  buffer, \<open>dma_cb\<close> stands for the address of the callback.\<close>

type_synonym ('cb, 'u, 'h) uart_dma_state = "sysctl \<times> 'cb dma \<times> 'h dma_handler plic \<times> 'u uart_driver"

definition uart_receive_data_dma_irq ::
  "('cb dma \<Rightarrow> 'cb dma) \<Rightarrow> (int \<Rightarrow> int \<Rightarrow> int) \<Rightarrow> nat \<Rightarrow> 'cb \<Rightarrow> nat \<Rightarrow> nat \<Rightarrow> int \<Rightarrow> nat \<Rightarrow> 'u option \<Rightarrow> nat \<Rightarrow> u32 \<Rightarrow>
   ('cb, 'u, 'h) uart_dma_state \<Rightarrow> ('cb, 'u, 'h) uart_dma_state option" where
  "uart_receive_data_dma_irq hw brk core dma_cb channel dmac_channel buffer len callback ctx prio x = (case x of (sy, w, p, s) \<Rightarrow>
     (case io_malloc brk (word_of_nat (len * 4)) w of
        None \<Rightarrow> None
      | Some (recv_buf, w) \<Rightarrow>
         (if recv_buf = 0 then None
          else
           (let inst = \<lparr>ud_buffer = buffer, ud_buf_len = len, ud_malloc_buffer = recv_buf, ud_int_mode = UART_RECEIVE,
                        ud_dmac_channel = dmac_channel, ud_uart_num = channel, ud_int_instance = \<lparr>ui_callback = callback, ui_ctx = ctx\<rparr>\<rparr>;
                s = s\<lparr>recv_dma_instance := (recv_dma_instance s)(channel := inst)\<rparr>;
                (w, p) = dmac_irq_register core dmac_channel (Some dma_cb) channel prio (w, p);
                sy = snd (sysctl_dma_select (dma_channel dmac_channel) (SYSCTL_DMA_SELECT_UART1_RX_REQ + channel * 2) sy)
            in map_option (\<lambda>w. (sy, w, p, s))
                 (dmac_set_single_mode hw brk dmac_channel (port_addr channel) recv_buf DMAC_ADDR_NOCHANGE DMAC_ADDR_INCREMENT
                    DMAC_MSIZE_1 DMAC_TRANS_WIDTH_32 (word_of_nat len) w)))))"

definition uart_send_data_dma_irq ::
  "('cb dma \<Rightarrow> 'cb dma) \<Rightarrow> (int \<Rightarrow> int \<Rightarrow> int) \<Rightarrow> nat \<Rightarrow> 'cb \<Rightarrow> nat \<Rightarrow> nat \<Rightarrow> int \<Rightarrow> nat \<Rightarrow> 'u option \<Rightarrow> nat \<Rightarrow> u32 \<Rightarrow>
   ('cb, 'u, 'h) uart_dma_state \<Rightarrow> ('cb, 'u, 'h) uart_dma_state option" where
  "uart_send_data_dma_irq hw brk core dma_cb channel dmac_channel buffer len callback ctx prio x = (case x of (sy, w, p, s) \<Rightarrow>
     (case io_malloc brk (word_of_nat (len * 4)) w of
        None \<Rightarrow> None
      | Some (send_buf, w) \<Rightarrow>
         (if send_buf = 0 then None
          else
           (let inst = \<lparr>ud_buffer = buffer, ud_buf_len = len, ud_malloc_buffer = send_buf, ud_int_mode = UART_SEND,
                        ud_dmac_channel = dmac_channel, ud_uart_num = channel, ud_int_instance = \<lparr>ui_callback = callback, ui_ctx = ctx\<rparr>\<rparr>;
                s = s\<lparr>send_dma_instance := (send_dma_instance s)(channel := inst)\<rparr>;
                bytes = map (\<lambda>i. mem w (buffer + int i)) [0..<len];
                w = w\<lparr>mem := store32s send_buf (map ucast bytes) (mem w)\<rparr>;
                (w, p) = dmac_irq_register core dmac_channel (Some dma_cb) channel prio (w, p);
                sy = snd (sysctl_dma_select (dma_channel dmac_channel) (SYSCTL_DMA_SELECT_UART1_TX_REQ + channel * 2) sy)
            in map_option (\<lambda>w. (sy, w, p, s))
                 (dmac_set_single_mode hw brk dmac_channel send_buf (port_addr channel) DMAC_ADDR_INCREMENT DMAC_ADDR_NOCHANGE
                    DMAC_MSIZE_1 DMAC_TRANS_WIDTH_32 (word_of_nat len) w)))))"

text \<open>The callback gets the instance and hands it back; the user's callback is reported with its context.\<close>

definition uart_dma_callback ::
  "(int \<Rightarrow> int \<Rightarrow> int) \<Rightarrow> nat \<Rightarrow> 'u uart_dma_instance \<Rightarrow> 'cb dma \<times> 'h dma_handler plic \<Rightarrow>
   (('u \<times> nat) option \<times> 'u uart_dma_instance \<times> 'cb dma \<times> 'h dma_handler plic) option" where
  "uart_dma_callback brk core v x =
     (case dmac_irq_unregister core (ud_dmac_channel v) x of (w, p) \<Rightarrow>
       (let w = (if ud_int_mode v = UART_RECEIVE
                 then w\<lparr>mem := store_bytes (ud_buffer v) (load_low_bytes (ud_malloc_buffer v) (ud_buf_len v) (mem w)) (mem w)\<rparr> else w)
        in map_option (\<lambda>w. (map_option (\<lambda>f. (f, ui_ctx (ud_int_instance v))) (ui_callback (ud_int_instance v)),
                            v\<lparr>ud_malloc_buffer := 0\<rparr>, w, p))
             (io_free brk (ud_malloc_buffer v) w)))"

record uart_data =
  ux_tx_channel :: nat
  ux_rx_channel :: nat
  ux_tx_buf :: int
  ux_tx_len :: u64
  ux_rx_buf :: int
  ux_rx_len :: u64
  ux_transfer_mode :: uart_interrupt_mode

definition uart_dma_irq ::
  "nat \<Rightarrow> uart_t \<Rightarrow> 'u uart_instance_dma \<Rightarrow> 'cb dma \<times> 'h dma_handler plic \<Rightarrow>
   (('u \<times> nat) option \<times> uart_t \<times> 'u uart_instance_dma \<times> 'cb dma \<times> 'h dma_handler plic) option" where
  "uart_dma_irq core u v x =
     (case dmac_irq_unregister core (un_dmac_channel v) x of (w, p) \<Rightarrow>
       map_option (\<lambda>u. (map_option (\<lambda>f. (f, ui_ctx (un_int_instance v))) (ui_callback (un_int_instance v)), u, v\<lparr>un_lock := False\<rparr>, w, p))
         (if un_transfer_mode v = UART_SEND then wait_lsr True 6 u else Some u))"

text \<open>The setting of an instance before the transfer starts, and the lock: one that is held is waited for.\<close>

definition start_instance ::
  "nat \<Rightarrow> 'cb \<Rightarrow> nat \<Rightarrow> nat \<Rightarrow> uart_interrupt_mode \<Rightarrow> 'u plic_interrupt option \<Rightarrow> 'u uart_instance_dma \<Rightarrow> 'cb dma \<times> 'h dma_handler plic \<Rightarrow>
   ('u uart_instance_dma \<times> 'cb dma \<times> 'h dma_handler plic) option" where
  "start_instance core dma_cb channel n mode cb v x =
     (if un_lock v then None
      else
       (let v = v\<lparr>un_lock := True\<rparr> in
        case cb of
          None \<Rightarrow> Some (v, x)
        | Some c \<Rightarrow> Some (v\<lparr>un_int_instance := \<lparr>ui_callback = pi_callback c, ui_ctx = pi_ctx c\<rparr>, un_dmac_channel := n, un_transfer_mode := mode\<rparr>,
                           dmac_irq_register core n (Some dma_cb) channel (pi_priority c) x)))"

definition uart_handle_data_dma ::
  "('cb dma \<Rightarrow> 'cb dma) \<Rightarrow> (int \<Rightarrow> int \<Rightarrow> int) \<Rightarrow> nat \<Rightarrow> 'cb \<Rightarrow> nat \<Rightarrow> uart_data \<Rightarrow> 'u plic_interrupt option \<Rightarrow>
   ('cb, 'u, 'h) uart_dma_state \<Rightarrow> ('cb, 'u, 'h) uart_dma_state option" where
  "uart_handle_data_dma hw brk core dma_cb channel data cb x = (case x of (sy, w, p, s) \<Rightarrow>
     (if \<not> channel < UART_DEVICE_MAX then None
      else if ux_transfer_mode data = UART_SEND then
       (let n = ux_tx_channel data in
        if ux_tx_buf data = 0 \<or> ux_tx_len data = 0 \<or> \<not> n < DMAC_CHANNEL_MAX then None
        else
          Option.bind (start_instance core dma_cb channel n UART_SEND cb (send_instance_dma s channel) (w, p)) (\<lambda>(v, w, p).
          let sy = snd (sysctl_dma_select (dma_channel n) (SYSCTL_DMA_SELECT_UART1_TX_REQ + channel * 2) sy) in
          Option.bind (dmac_set_single_mode hw brk n (ux_tx_buf data) (port_addr channel) DMAC_ADDR_INCREMENT DMAC_ADDR_NOCHANGE
                         DMAC_MSIZE_1 DMAC_TRANS_WIDTH_32 (ux_tx_len data) w) (\<lambda>w.
          if cb = None then
            Option.bind (dmac_wait_done hw brk n w) (\<lambda>w.
            Option.bind (upd_uart_opt channel (wait_lsr True 6) s) (\<lambda>s.
            Some (sy, w, p, s\<lparr>send_instance_dma := (send_instance_dma s)(channel := v\<lparr>un_lock := False\<rparr>)\<rparr>)))
          else Some (sy, w, p, s\<lparr>send_instance_dma := (send_instance_dma s)(channel := v)\<rparr>))))
      else
       (let n = ux_rx_channel data in
        if ux_rx_buf data = 0 \<or> ux_rx_len data = 0 \<or> \<not> n < DMAC_CHANNEL_MAX then None
        else
          Option.bind (start_instance core dma_cb channel n UART_RECEIVE cb (recv_instance_dma s channel) (w, p)) (\<lambda>(v, w, p).
          let sy = snd (sysctl_dma_select (dma_channel n) (SYSCTL_DMA_SELECT_UART1_RX_REQ + channel * 2) sy) in
          Option.bind (dmac_set_single_mode hw brk n (port_addr channel) (ux_rx_buf data) DMAC_ADDR_NOCHANGE DMAC_ADDR_INCREMENT
                         DMAC_MSIZE_1 DMAC_TRANS_WIDTH_32 (ux_rx_len data) w) (\<lambda>w.
          if cb = None then
            Option.bind (dmac_wait_done hw brk n w) (\<lambda>w.
            Some (sy, w, p, s\<lparr>recv_instance_dma := (recv_instance_dma s)(channel := v\<lparr>un_lock := False\<rparr>)\<rparr>))
          else Some (sy, w, p, s\<lparr>recv_instance_dma := (recv_instance_dma s)(channel := v)\<rparr>))))))"

subsection \<open>RS485\<close>

datatype uart_work_mode = UART_NORMAL | UART_IRDA | UART_RS485_FULL_DUPLEX | UART_RS485_HALF_DUPLEX
datatype uart_rs485_rede = UART_RS485_DE | UART_RS485_RE | UART_RS485_REDE
datatype uart_det_mode = UART_DE_ASSERTION | UART_DE_DE_ASSERTION | UART_DE_ALL
datatype uart_tat_mode = UART_DE_TO_RE | UART_RE_TO_DE | UART_TAT_ALL

definition uart_set_work_mode :: "nat \<Rightarrow> uart_work_mode \<Rightarrow> 'u uart_driver \<Rightarrow> 'u uart_driver" where
  "uart_set_work_mode channel work_mode = upd_uart channel (\<lambda>u.
     case work_mode of
       UART_IRDA \<Rightarrow> u\<lparr>mcr := mcr u OR push_bit 6 1\<rparr>
     | UART_RS485_FULL_DUPLEX \<Rightarrow> u\<lparr>tcr := (tcr u)\<lparr>xfer_mode := 0, rs485_en := 1\<rparr>\<rparr>
     | UART_RS485_HALF_DUPLEX \<Rightarrow> u\<lparr>tcr := (tcr u)\<lparr>xfer_mode := 2, rs485_en := 1\<rparr>, de_en := 1, re_en := 1\<rparr>
     | UART_NORMAL \<Rightarrow> u\<lparr>mcr := mcr u AND NOT (push_bit 6 1), tcr := (tcr u)\<lparr>rs485_en := 0\<rparr>\<rparr>)"

definition uart_set_rede_polarity :: "nat \<Rightarrow> uart_rs485_rede \<Rightarrow> bit1 \<Rightarrow> 'u uart_driver \<Rightarrow> 'u uart_driver" where
  "uart_set_rede_polarity channel rede polarity = upd_uart channel (\<lambda>u.
     case rede of
       UART_RS485_DE \<Rightarrow> u\<lparr>tcr := (tcr u)\<lparr>de_pol := polarity\<rparr>\<rparr>
     | UART_RS485_RE \<Rightarrow> u\<lparr>tcr := (tcr u)\<lparr>re_pol := polarity\<rparr>\<rparr>
     | UART_RS485_REDE \<Rightarrow> u\<lparr>tcr := (tcr u)\<lparr>de_pol := polarity, re_pol := polarity\<rparr>\<rparr>)"

definition uart_set_rede_enable :: "nat \<Rightarrow> uart_rs485_rede \<Rightarrow> bool \<Rightarrow> 'u uart_driver \<Rightarrow> 'u uart_driver" where
  "uart_set_rede_enable channel rede enable = upd_uart channel (\<lambda>u.
     let v = of_bool enable in
     case rede of
       UART_RS485_DE \<Rightarrow> u\<lparr>de_en := v\<rparr>
     | UART_RS485_RE \<Rightarrow> u\<lparr>re_en := v\<rparr>
     | UART_RS485_REDE \<Rightarrow> u\<lparr>de_en := v, re_en := v\<rparr>)"

text \<open>\<open>time * freq / 1e9 + 1\<close>: a 64-bit product, then double arithmetic; a result of \<open>2 ^ 32\<close> or more does not convert.\<close>

definition clk_cnt :: "sysctl \<Rightarrow> u64 \<Rightarrow> int option" where
  "clk_cnt sy time =
     (let v = \<lfloor>fl (fl (fl (of_int (uint (time * ucast (sysctl_clock_get_freq sy SYSCTL_CLOCK_APB0)))) / 1000000000) + 1)\<rfloor>
      in if v < 2 ^ 32 then Some v else None)"

definition uart_set_det :: "sysctl \<Rightarrow> nat \<Rightarrow> uart_det_mode \<Rightarrow> u64 \<Rightarrow> 'u uart_driver \<Rightarrow> 'u uart_driver option" where
  "uart_set_det sy channel mode time s =
     map_option (\<lambda>c. let v = word_of_int (if c > 255 then 255 else c) in
       upd_uart channel (\<lambda>u. case mode of
           UART_DE_ASSERTION \<Rightarrow> u\<lparr>de_assertion_time := v\<rparr>
         | UART_DE_DE_ASSERTION \<Rightarrow> u\<lparr>de_de_assertion_time := v\<rparr>
         | UART_DE_ALL \<Rightarrow> u\<lparr>de_assertion_time := v, de_de_assertion_time := v\<rparr>) s) (clk_cnt sy time)"

definition uart_set_tat :: "sysctl \<Rightarrow> nat \<Rightarrow> uart_tat_mode \<Rightarrow> u64 \<Rightarrow> 'u uart_driver \<Rightarrow> 'u uart_driver option" where
  "uart_set_tat sy channel mode time s =
     map_option (\<lambda>c. let v = word_of_int ((if c > 65536 then 65536 else c) - 1) in
       upd_uart channel (\<lambda>u. case mode of
           UART_DE_TO_RE \<Rightarrow> u\<lparr>de_to_re := v\<rparr>
         | UART_RE_TO_DE \<Rightarrow> u\<lparr>re_to_de := v\<rparr>
         | UART_TAT_ALL \<Rightarrow> u\<lparr>de_to_re := v, re_to_de := v\<rparr>) s) (clk_cnt sy time)"

subsection \<open>The divisor\<close>

lemma divisor_split:
  assumes d: "unat d < 2 ^ 20" and r: "divisor_bytes d = (hi, lo, fr)"
  shows "unat d = (unat hi * 256 + unat lo) * 16 + unat fr" "unat fr < 16"
proof -
  have e: "hi = ucast (drop_bit 12 d)" "lo = ucast ((d - push_bit 12 (ucast hi)) div 16)"
    "fr = ucast (d - push_bit 12 (ucast hi) - ucast lo * 16)"
    using r by (auto simp: divisor_bytes_def Let_def)
  have h: "unat hi = unat d div 4096"
    using d by (simp add: e(1) unat_ucast_mod drop_bit_eq_div unat_div)
  have ph: "unat (push_bit 12 (ucast hi :: u32)) = unat d div 4096 * 4096"
    using d h by (simp add: push_bit_eq_mult unat_word_ariths unat_ucast_mod)
  have rest: "unat (d - push_bit 12 (ucast hi)) = unat d mod 4096"
    using ph by (subst unat_sub) (auto simp: word_le_nat_alt modulo_nat_def)
  have l: "unat lo = unat d mod 4096 div 16"
    by (simp add: e(2) unat_ucast_mod unat_div rest)
  have pl: "unat (ucast lo * 16 :: u32) = unat d mod 4096 div 16 * 16"
    using l by (simp add: unat_word_ariths unat_ucast_mod)
  have f: "unat fr = unat d mod 4096 mod 16"
  proof -
    have "unat (d - push_bit 12 (ucast hi) - ucast lo * 16) = unat d mod 4096 mod 16"
    proof -
      have le: "ucast lo * 16 \<le> d - push_bit 12 (ucast hi)"
        unfolding word_le_nat_alt pl rest by (rule div_times_less_eq_dividend)
      show ?thesis unfolding unat_sub [OF le] pl rest by (rule minus_div_mult_eq_mod)
    qed
    moreover have "unat d mod 4096 mod 16 < 256" by (rule order.strict_trans [of _ 16]) simp_all
    ultimately show ?thesis unfolding e(3) unat_ucast_mod by simp
  qed
  show "unat fr < 16" by (simp add: f)
  show "unat d = (unat hi * 256 + unat lo) * 16 + unat fr"
  proof -
    have "a * 4096 + y = x \<Longrightarrow> b * 16 + c = y \<Longrightarrow> x = (a * 256 + b) * 16 + c" for a b c x y :: nat by simp
    from this [OF div_mult_mod_eq div_mult_mod_eq] show ?thesis unfolding h l f .
  qed
qed

lemma not_bit7 [simp]: "\<not> bit (w AND NOT (push_bit 7 1) :: u32) 7" "bit (w OR push_bit 7 1 :: u32) 7"
  by (simp_all add: bit_simps del: push_bit_of_1)

lemma program_line_effect:
  "program_line (hi, lo, fr) m u = u\<lparr>dlh := ucast hi, dll := ucast lo, dlf := ucast fr, lcr := m AND NOT (push_bit 7 1),
     ier := ier u OR 0x80, fcr := 0x39\<rparr>"
  by (simp add: program_line_def write_4_def write_0_def read_4_def dlab_def Let_def del: push_bit_of_1)
    (simp add: push_bit_eq_mult)

lemma configure_effect:
  assumes "uart_configure sy ch baud dw sb par s = Some s'"
  obtains hi lo fr where "divisor_bytes (sysctl_clock_get_freq sy SYSCTL_CLOCK_APB0 div baud) = (hi, lo, fr)"
    "s' = upd_uart ch (\<lambda>u. u\<lparr>dlh := ucast hi, dll := ucast lo, dlf := ucast fr,
       lcr := ((dw - 5) OR push_bit 2 (if sb = UART_STOP_1 then 0 else 1) OR push_bit 3 (parity_val par)) AND NOT (push_bit 7 1),
       ier := ier u OR 0x80, fcr := 0x39\<rparr>) s"
proof -
  obtain hi lo fr where d: "divisor_bytes (sysctl_clock_get_freq sy SYSCTL_CLOCK_APB0 div baud) = (hi, lo, fr)" by (metis prod_cases3)
  have "s' = upd_uart ch (program_line (hi, lo, fr) ((dw - 5) OR push_bit 2 (if sb = UART_STOP_1 then 0 else 1) OR push_bit 3 (parity_val par))) s"
    using assms d by (simp add: uart_configure_def Let_def split: if_splits)
  then show ?thesis using d that by (simp add: upd_uart_def program_line_effect)
qed

subsection \<open>Sending\<close>

lemma send_chars_effect:
  "send_chars cs ch s = Some s' \<Longrightarrow> \<not> dlab (uart s ch) \<Longrightarrow>
   g_write_count s' = g_write_count s + int (length cs) \<and> thr_out (uart s' ch) = thr_out (uart s ch) @ map ucast cs"
proof (induction cs arbitrary: s)
  case (Cons c cs)
  obtain u where u: "wait_lsr False 5 (uart s ch) = Some u"
    "send_chars cs ch (s\<lparr>uart := (uart s)(ch := write_0 (ucast c) u), g_write_count := g_write_count s + 1\<rparr>) = Some s'"
    using Cons.prems(1) by (auto simp: uart_channel_putc_def upd_uart_opt_def split: option.splits)
  have w: "thr_out u = thr_out (uart s ch)" "\<not> dlab u" using u(1) Cons.prems(2) by (auto simp: wait_lsr_def dlab_def)
  then have "\<not> dlab (write_0 (ucast c) u)" by (simp add: write_0_def dlab_def)
  then show ?case using Cons.IH [OF u(2)] w by (simp add: write_0_def)
qed simp

lemma send_data_all:
  assumes "uart_send_data ch buf s = Some (r, s')" "\<not> dlab (uart s ch)"
  shows "r = int (length buf) \<and> thr_out (uart s' ch) = thr_out (uart s ch) @ map ucast buf"
  using assms send_chars_effect [of buf ch "s\<lparr>g_write_count := 0\<rparr>"] by (auto simp: uart_send_data_def)

text \<open>The counter belongs to no port: after an empty send on any of them the send interrupts of all are ignored.\<close>

lemma empty_send_mutes_all:
  assumes "uart_send_data ch [] s = Some (r, s')"
  shows "uart_irq_callback run 2 i s' = s'"
  using assms by (auto simp: uart_send_data_def uart_irq_callback_def)

text \<open>\<open>uart_configure\<close> programs the divisor of the baud rate exactly (to a sixteenth) for every quotient below
  \<open>2 ^ 20\<close>, through the latch bit and back: no character is sent, the interrupt enables stay but for the bit it
  sets, data width, stop bits and parity are as asked, and the other ports are untouched.\<close>

lemma uart_configure_contract:
  assumes conf: "uart_configure sy ch baud dw sb par s = Some s'" and q: "q = sysctl_clock_get_freq sy SYSCTL_CLOCK_APB0 div baud"
    and fits: "unat q < 2 ^ 20"
  shows "(unat (dlh (uart s' ch)) * 256 + unat (dll (uart s' ch))) * 16 + unat (dlf (uart s' ch)) = unat q \<and>
    unat (dlf (uart s' ch)) < 16 \<and> thr_out (uart s' ch) = thr_out (uart s ch) \<and>
    ier (uart s' ch) = ier (uart s ch) OR 0x80 \<and> \<not> dlab (uart s' ch) \<and>
    lcr (uart s' ch) = ((dw - 5) OR (if sb = UART_STOP_1 then 0 else 4) OR push_bit 3 (parity_val par)) AND NOT 0x80 \<and>
    (n \<noteq> ch \<longrightarrow> uart s' n = uart s n)"
proof (intro conjI impI)
  obtain hi lo fr where d0: "divisor_bytes (sysctl_clock_get_freq sy SYSCTL_CLOCK_APB0 div baud) = (hi, lo, fr)" and s': "s' = upd_uart ch (\<lambda>u. u\<lparr>dlh := ucast hi, dll := ucast lo, dlf := ucast fr,
       lcr := ((dw - 5) OR push_bit 2 (if sb = UART_STOP_1 then 0 else 1) OR push_bit 3 (parity_val par)) AND NOT (push_bit 7 1),
       ier := ier u OR 0x80, fcr := 0x39\<rparr>) s"
    by (rule configure_effect [OF conf])
  have d: "divisor_bytes q = (hi, lo, fr)" using d0 q by simp
  have u: "unat (ucast b :: u32) = unat b" for b :: u8
  proof -
    have "unat b < 256" using unsigned_less [of b] by simp
    then show ?thesis by (simp add: unat_ucast_mod)
  qed
  show "(unat (dlh (uart s' ch)) * 256 + unat (dll (uart s' ch))) * 16 + unat (dlf (uart s' ch)) = unat q" "unat (dlf (uart s' ch)) < 16"
    using divisor_split [OF fits d] by (simp_all add: s' upd_uart_def u)
  show "thr_out (uart s' ch) = thr_out (uart s ch)" "ier (uart s' ch) = ier (uart s ch) OR 0x80" "\<not> dlab (uart s' ch)"
    by (simp_all add: s' upd_uart_def dlab_def del: push_bit_of_1)
  show "uart s' n = uart s n" if "n \<noteq> ch" using that by (simp add: s' upd_uart_def)
  show "lcr (uart s' ch) = ((dw - 5) OR (if sb = UART_STOP_1 then 0 else 4) OR push_bit 3 (parity_val par)) AND NOT 0x80"
    by (simp add: s' upd_uart_def push_bit_eq_mult)
qed

lemma crystal_apb0:
  "sysctl_clock_get_freq (s\<lparr>clk_sel0 := (clk_sel0 s)\<lparr>aclk_sel := 0, apb0_clk_sel := 0\<rparr>\<rparr>) SYSCTL_CLOCK_APB0 = 26000000"
  by (simp add: sysctl_clock_get_freq.simps sysctl_clock_source_get_freq.simps sysctl_clock_get_clock_select_def
      sysctl_clock_get_threshold_def SYSCTRL_CLOCK_FREQ_IN0_def gated_div_def)

lemma uart_configure_contract_witness:
  "\<forall>sy (s :: nat uart_driver). let sy = sy\<lparr>clk_sel0 := (clk_sel0 sy)\<lparr>aclk_sel := 0, apb0_clk_sel := 0\<rparr>\<rparr>;
     s' = the (uart_configure sy 2 115200 8 UART_STOP_1 UART_PARITY_EVEN s); u = uart s' 2
   in (unat (dlh u) * 256 + unat (dll u)) * 16 + unat (dlf u) = 225 \<and> lcr u = 0x1B"
proof (intro allI)
  fix sy :: sysctl and s :: "nat uart_driver"
  let ?sy = "sy\<lparr>clk_sel0 := (clk_sel0 sy)\<lparr>aclk_sel := 0, apb0_clk_sel := 0\<rparr>\<rparr>"
  obtain s' where c: "uart_configure ?sy 2 115200 8 UART_STOP_1 UART_PARITY_EVEN s = Some s'"
    by (simp add: uart_configure_def Let_def)
  have q: "225 = sysctl_clock_get_freq ?sy SYSCTL_CLOCK_APB0 div 115200" unfolding crystal_apb0 by simp
  note k = uart_configure_contract [OF c q]
  show "let sy = ?sy; s' = the (uart_configure sy 2 115200 8 UART_STOP_1 UART_PARITY_EVEN s); u = uart s' 2
   in (unat (dlh u) * 256 + unat (dll u)) * 16 + unat (dlf u) = 225 \<and> lcr u = 0x1B"
    using k by (simp add: c Let_def push_bit_eq_mult)
qed

text \<open>A port that was configured never gives up its interrupt line: \<open>uart_irq_unregister\<close> tests whether all interrupt
  enables are 0, but \<open>uart_configure\<close> has set bit 7 for good.  The callback is gone, the line
  stays enabled with the driver's handler.\<close>

lemma uart_unregister_keeps_line:
  assumes wf: "plic_wf p" and ch: "ch < 3" and conf: "uart_configure sy ch baud dw sb par s0 = Some s"
    and reg: "uart_irq_register core ch mode (Some f) ctx prio (s, p) h = (s1, p1)"
    and unreg: "uart_irq_unregister core ch mode (s1, p1) = (s2, p2)"
  shows "irq_enabled core p2 (11 + ch) \<and> irq_handler core p2 (11 + ch) = (Some h, ch) \<and>
    ui_callback (if mode = UART_SEND then uart_send_instance (g_uart_instance s2 ch)
                 else uart_receive_instance (g_uart_instance s2 ch)) = None"
proof (intro conjI)
  let ?m = "if mode = UART_SEND then 2 else 1 :: u32"
  obtain hi lo fr where s: "s = upd_uart ch (\<lambda>u. u\<lparr>dlh := ucast (hi :: u8), dll := ucast (lo :: u8), dlf := ucast (fr :: u8),
       lcr := ((dw - 5) OR push_bit 2 (if sb = UART_STOP_1 then 0 else 1) OR push_bit 3 (parity_val par)) AND NOT (push_bit 7 1),
       ier := ier u OR 0x80, fcr := 0x39\<rparr>) s0"
    by (rule configure_effect [OF conf])
  have a: "\<not> dlab (uart s ch)" "bit (ier (uart s ch)) 7"
    by (simp_all add: s upd_uart_def dlab_def bit_or_iff del: push_bit_of_1)
  have s1: "\<not> dlab (uart s1 ch)" "bit (ier (uart s1 ch)) 7"
    and p1: "p1 = snd (plic_irq_enable core (int (11 + ch)) (plic_irq_register core (11 + ch) (Some h) ch
                        (snd (plic_set_priority (int (11 + ch)) prio p))))"
    using reg a by (auto simp: uart_irq_register_def Let_def upd_uart_def read_4_def write_4_def dlab_def bit_or_iff)
  have "bit (read_4 (uart s2 ch)) 7"
    using unreg s1 by (auto simp: uart_irq_unregister_def Let_def upd_uart_def read_4_def write_4_def dlab_def bit_simps)
  then have "read_4 (uart s2 ch) \<noteq> 0" by auto
  then have p2: "p2 = p1"
    using unreg by (auto simp: uart_irq_unregister_def Let_def)
  have n: "11 + ch < 66" using ch by simp
  show "irq_enabled core p2 (11 + ch)" "irq_handler core p2 (11 + ch) = (Some h, ch)"
    unfolding p2 p1 plic.arm(2,4) [OF wf n] by simp_all
  show "ui_callback (if mode = UART_SEND then uart_send_instance (g_uart_instance s2 ch)
                      else uart_receive_instance (g_uart_instance s2 ch)) = None"
    using unreg by (auto simp: uart_irq_unregister_def Let_def)
qed

lemma uart_unregister_keeps_line_witness:
  "\<forall>sy (s :: nat uart_driver). let sy = sy\<lparr>clk_sel0 := (clk_sel0 sy)\<lparr>aclk_sel := 0, apb0_clk_sel := 0\<rparr>\<rparr>;
     s = the (uart_configure sy 2 115200 8 UART_STOP_1 UART_PARITY_NONE s);
     (s1, p1) = uart_irq_register 0 2 UART_RECEIVE (Some 7) 9 1 (s, plic_blank) ();
     (s2, p2) = uart_irq_unregister 0 2 UART_RECEIVE (s1, p1)
   in irq_enabled 0 p2 13 \<and> irq_handler 0 p2 13 = (Some (), 2)"
proof (intro allI)
  fix sy :: sysctl and s0 :: "nat uart_driver"
  let ?sy = "sy\<lparr>clk_sel0 := (clk_sel0 sy)\<lparr>aclk_sel := 0, apb0_clk_sel := 0\<rparr>\<rparr>"
  obtain s where c: "uart_configure ?sy 2 115200 8 UART_STOP_1 UART_PARITY_NONE s0 = Some s"
    by (simp add: uart_configure_def Let_def)
  obtain s1 p1 where r: "uart_irq_register 0 2 UART_RECEIVE (Some 7) 9 1 (s, plic_blank) () = (s1, p1)" by fastforce
  obtain s2 p2 where u: "uart_irq_unregister 0 2 UART_RECEIVE (s1, p1) = (s2, p2)" by fastforce
  show "let sy = ?sy; s = the (uart_configure sy 2 115200 8 UART_STOP_1 UART_PARITY_NONE s0);
     (s1, p1) = uart_irq_register 0 2 UART_RECEIVE (Some 7) 9 1 (s, plic_blank) ();
     (s2, p2) = uart_irq_unregister 0 2 UART_RECEIVE (s1, p1)
   in irq_enabled 0 p2 13 \<and> irq_handler 0 p2 13 = (Some (), 2)"
    using uart_unregister_keeps_line [OF plic_blank_wf _ c r u] by (simp add: Let_def c r u)
qed

end
