(* ===== verification/Uarths.thy ===== *)
theory Uarths
  imports Sysctl_Freq Plic
begin

text \<open>
  The driver of the high speed serial port, \<open>lib/drivers/uarths.c\<close>.  \<open>full_in\<close> are the values of the full flag
  the transmit register will read, \<open>rx_in\<close> what the receive register will: empty, or a byte.  \<open>tx_out\<close> lists the bytes
  written.  \<open>None\<close>: the driver is still polling.  A C string is the list of its characters before the closing 0.
\<close>

datatype uarths_interrupt_mode = UARTHS_SEND | UARTHS_RECEIVE | UARTHS_SEND_RECEIVE

record 'u uarths =
  uarths_div :: u16
  txen :: bit1
  nstop :: bit1
  txcnt :: "3 word"
  rxen :: bit1
  rxcnt :: "3 word"
  ip_txwm :: bit1
  ip_rxwm :: bit1
  ie_txwm :: bit1
  ie_rxwm :: bit1
  full_in :: "bool list"
  rx_in :: "u8 option list"
  tx_out :: "u8 list"
  hs_callback :: "'u option"
  hs_ctx :: nat
  uarths_interrupt_mode :: uarths_interrupt_mode

definition IRQN_UARTHS_INTERRUPT :: nat where [simp]: "IRQN_UARTHS_INTERRUPT = 33"

text \<open>The mode as the number of the enumeration.\<close>

definition uarths_get_interrupt_mode :: "'u uarths \<Rightarrow> nat" where
  "uarths_get_interrupt_mode u = (let v_rx = unat (ip_rxwm u); v_tx = unat (ip_txwm u) in 2 * v_rx + v_tx)"

definition uarths_irq_callback :: "('u \<Rightarrow> nat \<Rightarrow> 'u uarths \<Rightarrow> 'u uarths) \<Rightarrow> 'u uarths \<Rightarrow> 'u uarths" where
  "uarths_irq_callback run u = (case hs_callback u of None \<Rightarrow> u | Some f \<Rightarrow> run f (hs_ctx u) u)"

definition uarths_set_interrupt_cnt :: "uarths_interrupt_mode \<Rightarrow> u8 \<Rightarrow> 'u uarths \<Rightarrow> 'u uarths" where
  "uarths_set_interrupt_cnt mode cnt u =
     (case mode of
        UARTHS_SEND \<Rightarrow> u\<lparr>txcnt := ucast cnt\<rparr>
      | UARTHS_RECEIVE \<Rightarrow> u\<lparr>rxcnt := ucast cnt\<rparr>
      | UARTHS_SEND_RECEIVE \<Rightarrow> u\<lparr>txcnt := ucast cnt, rxcnt := ucast cnt\<rparr>)"

definition uarths_set_irq ::
  "nat \<Rightarrow> uarths_interrupt_mode \<Rightarrow> 'u option \<Rightarrow> nat \<Rightarrow> u32 \<Rightarrow> 'h \<Rightarrow> 'u uarths \<times> 'h plic \<Rightarrow> 'u uarths \<times> 'h plic" where
  "uarths_set_irq core mode callback ctx prio h x = (case x of (u, p) \<Rightarrow>
     (let u = u\<lparr>hs_callback := callback, hs_ctx := ctx\<rparr>;
          u = (case mode of
                 UARTHS_SEND \<Rightarrow> u\<lparr>ie_txwm := 1, ie_rxwm := 0\<rparr>
               | UARTHS_RECEIVE \<Rightarrow> u\<lparr>ie_txwm := 0, ie_rxwm := 1\<rparr>
               | UARTHS_SEND_RECEIVE \<Rightarrow> u\<lparr>ie_txwm := 1, ie_rxwm := 1\<rparr>);
          u = u\<lparr>uarths_interrupt_mode := mode\<rparr>;
          p = snd (plic_set_priority (int IRQN_UARTHS_INTERRUPT) prio p);
          p = plic_irq_register core IRQN_UARTHS_INTERRUPT (Some h) 0 p
      in (u, snd (plic_irq_enable core (int IRQN_UARTHS_INTERRUPT) p))))"

fun until_room :: "bool list \<Rightarrow> bool list option" where
  "until_room [] = None"
| "until_room (full # fs) = (if full then until_room fs else Some fs)"

definition uarths_putchar :: "u8 \<Rightarrow> 'u uarths \<Rightarrow> (int \<times> 'u uarths) option" where
  "uarths_putchar c u = map_option (\<lambda>fs. (uint c, u\<lparr>full_in := fs, tx_out := tx_out u @ [c]\<rparr>)) (until_room (full_in u))"

definition uarths_getchar :: "'u uarths \<Rightarrow> (int \<times> 'u uarths) option" where
  "uarths_getchar u =
     (case rx_in u of [] \<Rightarrow> None
      | recv # rs \<Rightarrow> Some (case recv of None \<Rightarrow> -1 | Some b \<Rightarrow> uint b, u\<lparr>rx_in := rs\<rparr>))"

fun uarths_receive_data :: "nat \<Rightarrow> 'u uarths \<Rightarrow> (u8 list \<times> 'u uarths) option" where
  "uarths_receive_data 0 u = Some ([], u)"
| "uarths_receive_data (Suc n) u =
     (case rx_in u of [] \<Rightarrow> None
      | None # rs \<Rightarrow> Some ([], u\<lparr>rx_in := rs\<rparr>)
      | Some b # rs \<Rightarrow> map_option (\<lambda>(bs, u). (b # bs, u)) (uarths_receive_data n (u\<lparr>rx_in := rs\<rparr>)))"

fun uarths_send_data :: "u8 list \<Rightarrow> 'u uarths \<Rightarrow> (nat \<times> 'u uarths) option" where
  "uarths_send_data [] u = Some (0, u)"
| "uarths_send_data (c # cs) u =
     (case uarths_putchar c u of None \<Rightarrow> None
      | Some (_, u) \<Rightarrow> map_option (\<lambda>(n, u). (Suc n, u)) (uarths_send_data cs u))"

fun uarths_puts :: "u8 list \<Rightarrow> 'u uarths \<Rightarrow> (int \<times> 'u uarths) option" where
  "uarths_puts [] u = Some (0, u)"
| "uarths_puts (c # cs) u =
     (case uarths_putchar c u of None \<Rightarrow> None
      | Some (r, u) \<Rightarrow> (if r \<noteq> 0 then Some (-1, u) else uarths_puts cs u))"

definition uarths_init :: "sysctl \<Rightarrow> 'u uarths \<Rightarrow> 'u uarths" where
  "uarths_init sy u =
     (let freq = sysctl_clock_get_freq sy SYSCTL_CLOCK_CPU
      in u\<lparr>uarths_div := ucast (freq div 115200 - 1), txen := 1, rxen := 1, txcnt := 0, rxcnt := 0,
           ip_txwm := 1, ip_rxwm := 1, ie_txwm := 0, ie_rxwm := 1\<rparr>)"

definition uarths_config :: "sysctl \<Rightarrow> u32 \<Rightarrow> bit1 \<Rightarrow> 'u uarths \<Rightarrow> 'u uarths option" where
  "uarths_config sy baud_rate stopbit u =
     (if baud_rate = 0 then None
      else Some (u\<lparr>uarths_div := ucast (sysctl_clock_get_freq sy SYSCTL_CLOCK_CPU div baud_rate - 1), nstop := stopbit\<rparr>))"

subsection \<open>Sending and receiving\<close>

lemma putchar_effect:
  "uarths_putchar c u = Some (r, u') \<Longrightarrow> r = uint c \<and> tx_out u' = tx_out u @ [c] \<and> rx_in u' = rx_in u"
  by (auto simp: uarths_putchar_def)

lemma send_data_effect:
  "uarths_send_data cs u = Some (n, u') \<Longrightarrow> n = length cs \<and> tx_out u' = tx_out u @ cs"
proof (induction cs arbitrary: u n)
  case (Cons c cs)
  then obtain r u1 k where "uarths_putchar c u = Some (r, u1)" "uarths_send_data cs u1 = Some (k, u')" "n = Suc k"
    by (auto split: option.splits)
  then show ?case using Cons.IH putchar_effect [of c u r u1] by auto
qed simp

text \<open>Reading stops at the first empty look; what was there before it is taken in order.\<close>

lemma receive_data_effect:
  "uarths_receive_data n u = Some (bs, u') \<Longrightarrow>
   length bs \<le> n \<and> (\<exists>rs. rx_in u = map Some bs @ rs \<and> (length bs < n \<longrightarrow> (\<exists>rs'. rs = None # rs')))"
proof (induction n arbitrary: u bs)
  case (Suc n)
  obtain recv rs where r: "rx_in u = recv # rs" using Suc.prems by (cases "rx_in u") auto
  show ?case
  proof (cases recv)
    case None
    then show ?thesis using Suc.prems r by auto
  next
    case (Some b)
    then obtain cs where "bs = b # cs" "uarths_receive_data n (u\<lparr>rx_in := rs\<rparr>) = Some (cs, u')"
      using Suc.prems r by auto
    then show ?thesis using Suc.IH [of "u\<lparr>rx_in := rs\<rparr>" cs] r Some by auto
  qed
qed simp

text \<open>\<open>uarths_puts\<close> fails on every string but the empty one: it takes the character that \<open>uarths_putchar\<close> returns for an
  error code, so it sends the first character and returns -1.  \<open>uarths_send_data\<close> on the same characters sends them all.\<close>

lemma uarths_puts_sends_one:
  assumes "c \<noteq> 0" "uarths_puts (c # cs) u = Some (r, u')"
  shows "r = -1 \<and> tx_out u' = tx_out u @ [c] \<and>
    (uarths_send_data (c # cs) u = Some (n, u'') \<longrightarrow> n = Suc (length cs) \<and> tx_out u'' = tx_out u @ c # cs)"
proof -
  obtain k u1 where p: "uarths_putchar c u = Some (k, u1)" using assms(2) by (auto split: option.splits)
  then have "k \<noteq> 0" using putchar_effect [OF p] assms(1) by (auto simp: uint_0_iff)
  then show ?thesis using assms(2) p putchar_effect [OF p] send_data_effect [of "c # cs" u n u''] by auto
qed

lemma uarths_puts_sends_one_witness:
  "\<forall>u :: nat uarths. let u = u\<lparr>full_in := [True, False, False], tx_out := []\<rparr>
   in \<exists>u'. uarths_puts [72, 105] u = Some (-1, u') \<and> tx_out u' = [72]"
proof
  fix u :: "nat uarths"
  let ?u = "u\<lparr>full_in := [True, False, False], tx_out := []\<rparr>"
  obtain r u' where "uarths_puts [72, 105] ?u = Some (r, u')" by (simp add: uarths_putchar_def)
  with uarths_puts_sends_one [of 72 "[105]" ?u r u']
  show "let u = ?u in \<exists>u'. uarths_puts [72, 105] u = Some (-1, u') \<and> tx_out u' = [72]" by simp
qed

end
