(* ===== verification/Wdt.thy ===== *)
theory Wdt
  imports C_Double Sysctl_Freq Plic
begin

text \<open>
  The watchdog driver \<open>lib/drivers/wdt.c\<close> and the waiting functions \<open>lib/bsp/sleep.c\<close>.  A timeout is
  programmed as an exponent: the counter runs through \<open>2 ^ (16 + torr)\<close> clocks, once before the interrupt and once more before the
  reset.  \<open>log2\<close> of the C library is exact enough for its argument here, which is below \<open>2 ^ 16\<close> where it matters.
\<close>

definition WDT_CRR_MASK :: u32 where "WDT_CRR_MASK = 0x76"
definition WDT_CR_ENABLE :: u32 where "WDT_CR_ENABLE = 1"
definition WDT_CR_RMOD_MASK :: u32 where "WDT_CR_RMOD_MASK = 2"
definition WDT_CR_RMOD_INTERRUPT :: u32 where "WDT_CR_RMOD_INTERRUPT = 2"
definition WDT_TORR_TOP :: "u32 \<Rightarrow> u32" where "WDT_TORR_TOP x = (push_bit 4 x OR push_bit 0 x)"

text \<open>\<open>feeds\<close> counts the writes of the restart key, \<open>eois\<close> the acknowledgements.\<close>

record wdt =
  wdt_cr :: u32
  wdt_torr :: u32
  feeds :: nat
  eois :: nat

definition wdt_feed :: "wdt \<Rightarrow> wdt" where
  "wdt_feed w = w\<lparr>feeds := Suc (feeds w)\<rparr>"

definition wdt_enable :: "wdt \<Rightarrow> wdt" where
  "wdt_enable w = (let w = wdt_feed w in w\<lparr>wdt_cr := wdt_cr w OR WDT_CR_ENABLE\<rparr>)"

definition wdt_disable :: "wdt \<Rightarrow> wdt" where
  "wdt_disable w = (let w = wdt_feed w in w\<lparr>wdt_cr := wdt_cr w AND NOT WDT_CR_ENABLE\<rparr>)"

definition wdt_set_timeout :: "u8 \<Rightarrow> wdt \<Rightarrow> wdt" where
  "wdt_set_timeout timeout w = w\<lparr>wdt_torr := WDT_TORR_TOP (ucast timeout)\<rparr>"

definition wdt_response_mode :: "u8 \<Rightarrow> wdt \<Rightarrow> wdt" where
  "wdt_response_mode mode w = w\<lparr>wdt_cr := (wdt_cr w AND NOT WDT_CR_RMOD_MASK) OR ucast mode\<rparr>"

definition wdt_get_pclk :: "sysctl \<Rightarrow> nat \<Rightarrow> u64" where
  "wdt_get_pclk sy dev = ucast (sysctl_clock_get_freq sy (if dev \<noteq> 0 then SYSCTL_CLOCK_WDT1 else SYSCTL_CLOCK_WDT0))"

definition wdt_get_top :: "sysctl \<Rightarrow> nat \<Rightarrow> u64 \<Rightarrow> u8" where
  "wdt_get_top sy dev timeout_ms =
     (let wdt_clk = wdt_get_pclk sy dev;
          ret = uint (drop_bit 16 (timeout_ms * wdt_clk div 1000));
          ret = (if ret \<noteq> 0 then int (ilog2 ret) else ret);
          ret = (if ret > 0xf then 0xf else ret)
      in word_of_int ret)"

definition wdt_clear_interrupt :: "wdt \<Rightarrow> wdt" where
  "wdt_clear_interrupt w = w\<lparr>eois := Suc (eois w)\<rparr>"

definition wdt_irqn :: "nat \<Rightarrow> nat" where
  "wdt_irqn dev = (if dev \<noteq> 0 then 22 else 21)"

definition wdt_clocks :: "nat \<Rightarrow> sysctl \<Rightarrow> sysctl" where
  "wdt_clocks dev sy =
     (let sy = sysctl_reset (if dev \<noteq> 0 then SYSCTL_RESET_WDT1 else SYSCTL_RESET_WDT0) sy;
          sy = snd (sysctl_clock_set_threshold (if dev \<noteq> 0 then SYSCTL_THRESHOLD_WDT1 else SYSCTL_THRESHOLD_WDT0) 0 sy)
      in snd (sysctl_clock_enable (if dev \<noteq> 0 then SYSCTL_CLOCK_WDT1 else SYSCTL_CLOCK_WDT0) sy))"

definition wdt_arm :: "nat \<Rightarrow> nat \<Rightarrow> 'h option \<Rightarrow> nat \<Rightarrow> 'h plic \<Rightarrow> 'h plic" where
  "wdt_arm core dev on_irq ctx p =
     (let p = snd (plic_set_priority (int (wdt_irqn dev)) 1 p);
          p = snd (plic_irq_enable core (int (wdt_irqn dev)) p)
      in plic_irq_register core (wdt_irqn dev) on_irq ctx p)"

definition wdt_program :: "sysctl \<Rightarrow> nat \<Rightarrow> u64 \<Rightarrow> wdt \<Rightarrow> wdt" where
  "wdt_program sy dev time_out_ms w =
     (let w = wdt_response_mode (ucast WDT_CR_RMOD_INTERRUPT) w; m_top = wdt_get_top sy dev time_out_ms
      in wdt_enable (wdt_set_timeout m_top w))"

definition wdt_start :: "nat \<Rightarrow> nat \<Rightarrow> u64 \<Rightarrow> 'h option \<Rightarrow> sysctl \<times> 'h plic \<times> wdt \<Rightarrow> sysctl \<times> 'h plic \<times> wdt" where
  "wdt_start core dev time_out_ms on_irq x = (case x of (sy, p, w) \<Rightarrow>
     (let sy = wdt_clocks dev sy in (sy, wdt_arm core dev on_irq 0 p, wdt_program sy dev time_out_ms w)))"

definition wdt_init :: "nat \<Rightarrow> nat \<Rightarrow> u64 \<Rightarrow> 'h option \<Rightarrow> nat \<Rightarrow> sysctl \<times> 'h plic \<times> wdt \<Rightarrow> u32 \<times> sysctl \<times> 'h plic \<times> wdt" where
  "wdt_init core dev time_out_ms on_irq ctx x = (case x of (sy, p, w) \<Rightarrow>
     (let sy = wdt_clocks dev sy; p = wdt_arm core dev on_irq ctx p; w = wdt_program sy dev time_out_ms w;
          m_top = wdt_get_top sy dev time_out_ms
      in (ucast (push_bit (unat m_top + 16 + 1) 1 * 1000 div wdt_get_pclk sy dev), sy, p, w)))"

definition wdt_stop :: "wdt \<Rightarrow> wdt" where
  "wdt_stop w = wdt_disable w"

subsection \<open>Waiting\<close>

text \<open>\<open>cycles\<close> are the readings of the cycle counter; the result is how many were needed.\<close>

definition nop_all :: "sysctl \<Rightarrow> u64 \<Rightarrow> u64" where
  "nop_all sy usec = usec * ucast (sysctl_clock_get_freq sy SYSCTL_CLOCK_CPU) div 1000000"

fun sleep_loop :: "u64 \<Rightarrow> u64 \<Rightarrow> u64 list \<Rightarrow> nat option" where
  "sleep_loop cycle n [] = None"
| "sleep_loop cycle n (c # cs) = (if c - cycle \<ge> n then Some 1 else map_option Suc (sleep_loop cycle n cs))"

definition usleep :: "sysctl \<Rightarrow> u64 \<Rightarrow> u64 list \<Rightarrow> nat option" where
  "usleep sy usec cycles = (case cycles of [] \<Rightarrow> None | cycle # cs \<Rightarrow> map_option Suc (sleep_loop cycle (nop_all sy usec) cs))"

definition msleep :: "sysctl \<Rightarrow> u64 \<Rightarrow> u64 list \<Rightarrow> nat option" where
  "msleep sy msec cycles = usleep sy (msec * 1000) cycles"

definition sleep :: "sysctl \<Rightarrow> u32 \<Rightarrow> u64 list \<Rightarrow> nat option" where
  "sleep sy seconds cycles = msleep sy (ucast (seconds * 1000)) cycles"

lemma sleep_loop_time:
  "sleep_loop cycle n cs = Some k \<Longrightarrow> 0 < k \<and> k \<le> length cs \<and> cs ! (k - 1) - cycle \<ge> n \<and> (\<forall>i < k - 1. cs ! i - cycle < n)"
proof (induction cs arbitrary: k)
  case (Cons c cs)
  show ?case
  proof (cases "c - cycle \<ge> n")
    case False
    then obtain j where j: "k = Suc j" "sleep_loop cycle n cs = Some j" using Cons.prems by auto
    note I = Cons.IH [OF j(2)]
    then obtain m where m: "j = Suc m" by (cases j) auto
    have "(c # cs) ! i - cycle < n" if "i < j" for i using that I False m by (cases i) auto
    then show ?thesis using I j(1) m by simp
  qed (use Cons.prems in auto)
qed simp

subsection \<open>The timeout reported\<close>

lemma torr_nibbles: "unat t < 16 \<Longrightarrow> WDT_TORR_TOP (ucast (t :: u8)) AND 0xF = ucast t"
proof -
  assume t: "unat t < 16"
  have m: "(0xF :: u32) = mask 4" by (simp add: mask_eq_exp_minus_1)
  have "n < 4" if "bit t n" for n
  proof -
    have "take_bit 4 (unat t) = unat t" using t by (simp add: take_bit_nat_eq_self)
    moreover have "bit (unat t) n" using that by (simp add: bit_unsigned_iff bit_imp_le_length)
    ultimately show ?thesis by (metis bit_take_bit_iff)
  qed
  then show ?thesis unfolding m WDT_TORR_TOP_def by (intro bit_word_eqI) (auto simp: bit_simps)
qed

text \<open>The clocks asked for, as the driver computes them when the 64-bit product does not wrap.\<close>

definition clocks_asked :: "sysctl \<Rightarrow> nat \<Rightarrow> u64 \<Rightarrow> int" where
  "clocks_asked sy dev timeout_ms = uint timeout_ms * uint (wdt_get_pclk sy dev) div 1000"

lemma top_value:
  assumes "uint timeout_ms * uint (wdt_get_pclk sy dev) < 2 ^ 64"
  shows "int (unat (wdt_get_top sy dev timeout_ms)) =
    (let r = clocks_asked sy dev timeout_ms div 65536 in if r = 0 then 0 else min 15 (int (ilog2 r)))"
proof -
  have e: "uint (drop_bit 16 (timeout_ms * wdt_get_pclk sy dev div 1000)) = clocks_asked sy dev timeout_ms div 65536"
  proof -
    have "uint (timeout_ms * wdt_get_pclk sy dev) = uint timeout_ms * uint (wdt_get_pclk sy dev)"
      using assms by (simp add: uint_word_ariths)
    then show ?thesis by (simp add: clocks_asked_def drop_bit_eq_div uint_div)
  qed
  have w: "int (unat (word_of_int k :: u8)) = k" if "0 \<le> k" "k \<le> 15" for k
    using that by (simp add: unat_of_int_mod)
  show ?thesis
    unfolding wdt_get_top_def e Let_def by (subst w) (auto simp: min_def)
qed

lemma top_brackets:
  assumes fits: "uint timeout_ms * uint (wdt_get_pclk sy dev) < 2 ^ 64"
  defines "n \<equiv> clocks_asked sy dev timeout_ms" and "tp \<equiv> unat (wdt_get_top sy dev timeout_ms)"
  shows "tp \<le> 15" and "n < 2 ^ 32 \<Longrightarrow> n < 2 ^ (17 + tp)" and "2 ^ 16 \<le> n \<Longrightarrow> 2 ^ (16 + tp) \<le> n" and "2 ^ 32 \<le> n \<Longrightarrow> tp = 15"
proof -
  let ?r = "n div 65536"
  have t: "int tp = (if ?r = 0 then 0 else min 15 (int (ilog2 ?r)))"
    using top_value [OF fits] by (simp add: n_def tp_def Let_def)
  have n0: "0 \<le> n" unfolding n_def clocks_asked_def by (intro pos_imp_zdiv_nonneg_iff [THEN iffD2] mult_nonneg_nonneg) simp_all
  have b: "2 ^ ilog2 ?r \<le> ?r \<and> ?r < 2 ^ Suc (ilog2 ?r)" if "?r \<noteq> 0"
    using that n0 by (intro ilog2_bounds) (simp add: pos_imp_zdiv_pos_iff order_less_le)
  show "tp \<le> 15" using t by (auto split: if_splits)
  show "n < 2 ^ (17 + tp)" if "n < 2 ^ 32"
  proof (cases "?r = 0")
    case True
    then have "n < 65536" "tp = 0" using n0 t by auto
    then show ?thesis by simp
  next
    case False
    have "?r < 2 ^ 16" using that by simp
    then have "(2 :: int) ^ ilog2 ?r < 2 ^ 16" using b [OF False] by linarith
    then have "ilog2 ?r < 16" by (rule power_less_imp_less_exp [rotated]) simp
    then have "tp = ilog2 ?r" using t False by simp
    then have "?r < 2 * 2 ^ tp" using b [OF False] by simp
    then have "?r + 1 \<le> 2 * 2 ^ tp" by linarith
    then have "(?r + 1) * 65536 \<le> 2 * 2 ^ tp * 65536" by simp
    moreover have "n < (?r + 1) * 65536" by presburger
    ultimately show ?thesis by (simp add: power_add)
  qed
  show "2 ^ (16 + tp) \<le> n" if "2 ^ 16 \<le> n"
  proof -
    have r: "?r \<noteq> 0" using that by auto
    have "tp \<le> ilog2 ?r" using t r by simp
    then have "(2 :: int) ^ tp \<le> 2 ^ ilog2 ?r" by simp
    then have "2 ^ tp \<le> ?r" using b [OF r] by linarith
    then have "2 ^ tp * 65536 \<le> ?r * 65536" by simp
    moreover have "?r * 65536 \<le> n" by presburger
    ultimately show ?thesis by (simp add: power_add)
  qed
  show "tp = 15" if "2 ^ 32 \<le> n"
  proof -
    have "2 ^ 16 \<le> ?r" using that by simp
    then have r: "?r \<noteq> 0" and "(2 :: int) ^ 16 < 2 ^ Suc (ilog2 ?r)" using b by auto
    then have "16 < Suc (ilog2 ?r)" by (intro power_less_imp_less_exp [of "2 :: int"]) simp_all
    then show ?thesis using t r by simp
  qed
qed

text \<open>The watchdog never bites late: for a timeout whose clock count fits 32 bits, the exponent programmed makes
  the counter run out once, at the interrupt, after at most the time asked for (when that is 65536 clocks or more), and a second
  time, at the reset, only after it.  A longer timeout gets the longest there is.\<close>

lemma wdt_timeout_brackets:
  assumes "uint timeout_ms * uint (wdt_get_pclk sy dev) < 2 ^ 64" and w: "w' = wdt_program sy dev timeout_ms w"
    and "n = clocks_asked sy dev timeout_ms"
  shows "\<exists>tp \<le> 15. wdt_torr w' AND 0xF = word_of_nat tp \<and> bit (wdt_cr w') 0 \<and> feeds w' = Suc (feeds w) \<and>
    (n < 2 ^ 32 \<longrightarrow> n < 2 * 2 ^ (16 + tp)) \<and> (2 ^ 16 \<le> n \<longrightarrow> 2 ^ (16 + tp) \<le> n) \<and> (2 ^ 32 \<le> n \<longrightarrow> tp = 15)"
proof -
  let ?t = "wdt_get_top sy dev timeout_ms"
  note b = top_brackets [OF assms(1)]
  have "WDT_TORR_TOP (ucast ?t) AND 0xF = ucast ?t" using b(1) by (intro torr_nibbles) simp
  then have "wdt_torr w' AND 0xF = word_of_nat (unat ?t)" by (simp add: w wdt_program_def wdt_enable_def wdt_feed_def wdt_set_timeout_def Let_def)
  moreover have "bit (wdt_cr w') 0" "feeds w' = Suc (feeds w)"
    by (simp_all add: w wdt_program_def wdt_enable_def wdt_feed_def wdt_set_timeout_def wdt_response_mode_def WDT_CR_ENABLE_def Let_def bit_or_iff)
  ultimately show ?thesis using b assms(3) by (intro exI [of _ "unat ?t"]) (auto simp: power_add)
qed

lemma wdt_timeout_brackets_witness:
  "\<forall>(sy :: sysctl) (w :: wdt). let sy = sy\<lparr>clk_th6 := (clk_th6 sy)\<lparr>wdt0_clk_threshold := 0\<rparr>\<rparr>; n = clocks_asked sy 0 1000
   in n = 13000000 \<and> (\<exists>tp \<le> 15. wdt_torr (wdt_program sy 0 1000 w) AND 0xF = word_of_nat tp \<and> n < 2 * 2 ^ (16 + tp) \<and> 2 ^ (16 + tp) \<le> n)"
proof (intro allI)
  fix sy :: sysctl and w :: wdt
  let ?sy = "sy\<lparr>clk_th6 := (clk_th6 sy)\<lparr>wdt0_clk_threshold := 0\<rparr>\<rparr>"
  have c: "wdt_get_pclk ?sy 0 = 13000000"
    by (simp add: wdt_get_pclk_def sysctl_clock_get_freq.simps sysctl_clock_source_get_freq.simps even_div_def
        sysctl_clock_get_threshold_def SYSCTRL_CLOCK_FREQ_IN0_def)
  have n: "clocks_asked ?sy 0 1000 = 13000000" by (simp add: clocks_asked_def c)
  from wdt_timeout_brackets [of 1000 ?sy 0 "wdt_program ?sy 0 1000 w" w "clocks_asked ?sy 0 1000"]
  have "\<exists>tp \<le> 15. wdt_torr (wdt_program ?sy 0 1000 w) AND 0xF = word_of_nat tp \<and> (13000000 :: int) < 2 * 2 ^ (16 + tp) \<and>
      2 ^ (16 + tp) \<le> (13000000 :: int)"
    unfolding n c by auto
  then show "let sy = ?sy; n = clocks_asked sy 0 1000
   in n = 13000000 \<and> (\<exists>tp \<le> 15. wdt_torr (wdt_program sy 0 1000 w) AND 0xF = word_of_nat tp \<and> n < 2 * 2 ^ (16 + tp) \<and> 2 ^ (16 + tp) \<le> n)"
    unfolding Let_def n by simp
qed

end
