(* ===== verification/Byte_Memory.thy ===== *)
theory Byte_Memory
  imports K210_Prelude
begin

text \<open>
  A memory of bytes read and written in little-endian elements, as the drivers do that step through a buffer by a
  pointer to wider elements: a value of \<open>n\<close> bytes, an array of such values.
\<close>

type_synonym memory = "int \<Rightarrow> u8"

fun load_le :: "nat \<Rightarrow> int \<Rightarrow> memory \<Rightarrow> u32" where
  "load_le 0 a m = 0"
| "load_le (Suc n) a m = ucast (m a) OR push_bit 8 (load_le n (a + 1) m)"

fun store_le :: "nat \<Rightarrow> int \<Rightarrow> u32 \<Rightarrow> memory \<Rightarrow> memory" where
  "store_le 0 a w m = m"
| "store_le (Suc n) a w m = store_le n (a + 1) (drop_bit 8 w) (m(a := ucast w))"

text \<open>An array of elements of \<open>n\<close> bytes.\<close>

definition load_array :: "nat \<Rightarrow> int \<Rightarrow> nat \<Rightarrow> memory \<Rightarrow> u32 list" where
  "load_array n a k m = map (\<lambda>i. load_le n (a + int (n * i)) m) [0..<k]"

fun store_array :: "nat \<Rightarrow> int \<Rightarrow> u32 list \<Rightarrow> memory \<Rightarrow> memory" where
  "store_array n a [] m = m"
| "store_array n a (w # ws) m = store_array n (a + int n) ws (store_le n a w m)"

subsection \<open>What is stored reads back\<close>

lemma load_le_bit: "bit (load_le n a m) k \<longleftrightarrow> k < 32 \<and> k < 8 * n \<and> bit (m (a + int (k div 8))) (k mod 8)"
proof (induction n arbitrary: a k)
  case (Suc n)
  show ?case
  proof (cases "k < 8")
    case True
    then show ?thesis by (auto simp: bit_simps)
  next
    case False
    then obtain j where k: "k = 8 + j" by (metis le_add_diff_inverse linorder_not_less)
    have "\<not> bit (m a) k" using k by (auto dest: bit_imp_le_length)
    moreover have "(8 + j) div 8 = Suc (j div 8)" "(8 + j) mod 8 = j mod 8" by simp_all
    moreover have "a + int (Suc (j div 8)) = a + 1 + int (j div 8)" by simp
    ultimately show ?thesis using Suc [of "a + 1" j] unfolding k by (auto simp: bit_simps add.assoc)
  qed
qed simp

lemma load_le_fits: "take_bit (8 * n) (load_le n a m) = load_le n a m"
  by (rule bit_word_eqI) (auto simp: bit_take_bit_iff load_le_bit)

lemma store_le_outside: "x < a \<or> a + int n \<le> x \<Longrightarrow> store_le n a w m x = m x"
  by (induction n arbitrary: a w m) auto

lemma load_store_le: "load_le n a (store_le n a w m) = take_bit (8 * n) w"
proof (induction n arbitrary: a w m)
  case (Suc n)
  have "load_le n (a + 1) (store_le n (a + 1) (drop_bit 8 w) (m(a := ucast w))) = take_bit (8 * n) (drop_bit 8 w)" by (rule Suc)
  moreover have "store_le n (a + 1) (drop_bit 8 w) (m(a := ucast w)) a = ucast w" by (simp add: store_le_outside)
  ultimately have "load_le (Suc n) a (store_le (Suc n) a w m) = ucast (ucast w :: u8) OR push_bit 8 (take_bit (8 * n) (drop_bit 8 w))" by simp
  also have "\<dots> = take_bit (8 * Suc n) w"
  proof (rule bit_word_eqI)
    fix k assume "k < LENGTH(32)"
    show "bit (ucast (ucast w :: u8) OR push_bit 8 (take_bit (8 * n) (drop_bit 8 w))) k = bit (take_bit (8 * Suc n) w) k"
    proof (cases "k < 8")
      case True
      then show ?thesis using \<open>k < LENGTH(32)\<close> by (auto simp: bit_simps)
    next
      case False
      then show ?thesis using \<open>k < LENGTH(32)\<close> by (auto simp: bit_simps)
    qed
  qed
  finally show ?case .
qed simp

lemma load_le_cong: "(\<And>x. a \<le> x \<Longrightarrow> x < a + int n \<Longrightarrow> m x = m' x) \<Longrightarrow> load_le n a m = load_le n a m'"
  by (induction n arbitrary: a) auto

lemma store_array_outside:
  "x < a \<or> a + int (n * length ws) \<le> x \<Longrightarrow> store_array n a ws m x = m x"
proof (induction n a ws m rule: store_array.induct)
  case (2 n a w ws m)
  define q where "q = int n * int (length ws)"
  have "0 \<le> q" by (simp add: q_def)
  then have "x < a \<or> a + int n \<le> x" "x < a + int n \<or> a + int n + int (n * length ws) \<le> x"
    using "2.prems" by (auto simp: distrib_left q_def [symmetric])
  then show ?case using "2.IH" by (simp add: store_le_outside)
qed simp

text \<open>An array that is stored reads back as its elements cut to their width.\<close>

lemma load_store_array: "load_array n a (length ws) (store_array n a ws m) = map (take_bit (8 * n)) ws"
proof (induction ws arbitrary: a m)
  case Nil
  then show ?case by (simp add: load_array_def)
next
  case (Cons w ws)
  have shift: "load_array n a (Suc k) m' = load_le n a m' # load_array n (a + int n) k m'" for k m'
    by (simp add: load_array_def upt_conv_Cons map_Suc_upt [symmetric] o_def algebra_simps del: upt_Suc)
  have "load_le n a (store_array n (a + int n) ws (store_le n a w m)) = load_le n a (store_le n a w m)"
    by (rule load_le_cong) (simp add: store_array_outside)
  then show ?case using Cons [of "a + int n" "store_le n a w m"] by (simp add: shift load_store_le)
qed

lemma load_array_length [simp]: "length (load_array n a k m) = k"
  by (simp add: load_array_def)

text \<open>Every byte of a stored value, and of a loaded one.\<close>

lemma store_le_apply:
  "store_le n a w m x = (if a \<le> x \<and> x < a + int n then ucast (drop_bit (8 * nat (x - a)) w) else m x)"
proof (induction n arbitrary: a w m x)
  case (Suc n)
  have IH: "store_le n (a + 1) (drop_bit 8 w) m' y =
      (if a + 1 \<le> y \<and> y < a + 1 + int n then ucast (drop_bit (8 * nat (y - (a + 1))) (drop_bit 8 w)) else m' y)" for m' y by (rule Suc)
  consider "x < a" | "x = a" | j where "x = a + 1 + int j" by (metis linorder_neqE_linordered_idom zless_imp_add1_zle zle_iff_zadd)
  then show ?case by cases (simp_all add: IH drop_bit_drop_bit nat_add_distrib nat_int_add add.commute [of 8 "8 * _"])
qed auto

lemma load_le_byte: "j < 4 \<Longrightarrow> j < n \<Longrightarrow> ucast (drop_bit (8 * j) (load_le n a m)) = m (a + int j)"
  by (rule bit_word_eqI) (auto simp: bit_simps load_le_bit)

lemma store_array_apply:
  "0 < n \<Longrightarrow> store_array n a ws m x =
    (if a \<le> x \<and> x < a + int (n * length ws) then ucast (drop_bit (8 * (nat (x - a) mod n)) (ws ! (nat (x - a) div n))) else m x)"
proof (induction ws arbitrary: a m x)
  case (Cons w ws)
  consider "x < a" | j where "x = a + int j" "j < n" | j where "x = a + int n + int j"
    by (metis add.assoc linorder_not_less nat_le_iff_add of_nat_add zle_iff_zadd)
  then show ?case
  proof cases
    case 2
    have "j < n * length (w # ws)" using 2(2) by (simp add: trans_less_add1)
    then have "int j < int n + int n * int (length ws)" by (metis length_Cons mult_Suc_right of_nat_add of_nat_less_iff of_nat_mult)
    then show ?thesis using Cons 2(2) unfolding 2(1) by (simp add: store_le_apply)
  next
    case 3
    have "(n + j) div n = Suc (j div n)" "(n + j) mod n = j mod n" using Cons.prems by (simp_all add: div_add_self1)
    moreover have "nat (int n + int j) = n + j" by simp
    ultimately show ?thesis using Cons unfolding 3 by (simp add: store_le_apply)
  qed (use Cons in \<open>simp_all add: store_le_apply\<close>)
qed auto

lemma store_array_1: "store_array 1 a ws m x = (if a \<le> x \<and> x < a + int (length ws) then ucast (ws ! nat (x - a)) else m x)"
  using store_array_apply [of 1 a ws m x] by simp

lemma store_array_twice:
  "0 < n \<Longrightarrow> length us = length vs \<Longrightarrow> store_array n a vs (store_array n a us m) = store_array n a vs m"
  by (rule ext) (simp add: store_array_apply)

subsection \<open>Double words\<close>

definition load64 :: "int \<Rightarrow> memory \<Rightarrow> u64" where
  "load64 a m = ucast (load_le 4 a m) OR push_bit 32 (ucast (load_le 4 (a + 4) m))"

definition store64 :: "int \<Rightarrow> u64 \<Rightarrow> memory \<Rightarrow> memory" where
  "store64 a w m = store_le 4 (a + 4) (ucast (drop_bit 32 w)) (store_le 4 a (ucast w) m)"

lemma load64_low: "(ucast (load64 a m) :: u32) = load_le 4 a m"
  by (rule bit_word_eqI) (auto simp: load64_def bit_simps)

lemma load64_high: "(ucast (drop_bit 32 (load64 a m)) :: u32) = load_le 4 (a + 4) m"
  by (rule bit_word_eqI) (auto simp: load64_def bit_simps dest: bit_imp_le_length)

lemma store64_outside: "x < a \<or> a + 8 \<le> x \<Longrightarrow> store64 a w m x = m x"
  by (auto simp: store64_def store_le_outside)

lemma load_store_64: "load64 a (store64 a w m) = w"
proof -
  have "load_le 4 a (store64 a w m) = load_le 4 a (store_le 4 a (ucast w) m)"
    unfolding store64_def by (rule load_le_cong) (simp add: store_le_outside)
  then have "load_le 4 a (store64 a w m) = ucast w" by (simp add: load_store_le take_bit_word_eq_self)
  moreover have "load_le 4 (a + 4) (store64 a w m) = ucast (drop_bit 32 w)"
    unfolding store64_def by (simp add: load_store_le take_bit_word_eq_self)
  ultimately show ?thesis unfolding load64_def by (intro bit_word_eqI) (auto simp: bit_simps dest: bit_imp_le_length)
qed

lemma load64_cong: "(\<And>x. a \<le> x \<Longrightarrow> x < a + 8 \<Longrightarrow> m x = m' x) \<Longrightarrow> load64 a m = load64 a m'"
  unfolding load64_def using load_le_cong [of a 4 m m'] load_le_cong [of "a + 4" 4 m m'] by auto

text \<open>Moving a double word moves its eight bytes.\<close>

lemma move64: "store64 d (load64 s m) m' x = (if d \<le> x \<and> x < d + 8 then m (s + (x - d)) else m' x)"
proof (cases "d \<le> x \<and> x < d + 8")
  case True
  define j where "j = nat (x - d)"
  have x: "x = d + int j" "j < 8" using True unfolding j_def by linarith+
  show ?thesis
  proof (cases "j < 4")
    case True
    then show ?thesis using x by (simp add: store64_def store_le_apply load64_low load_le_byte)
  next
    case False
    then obtain i where "j = 4 + i" by (metis le_add_diff_inverse linorder_not_less)
    then show ?thesis using x by (simp add: store64_def store_le_apply load64_high load_le_byte add.assoc)
  qed
qed (auto simp: store64_outside)

end
