(* ===== verification/Spi.thy ===== *)
theory Spi
  imports Sysctl_Freq Dma_Client Gpio Byte_Memory "HOL-Library.Monad_Syntax"
begin

text \<open>
  The SPI driver \<open>lib/drivers/spi.c\<close>: initialisation, the transfers of a master by the processor and by DMA, and those
  with a callback.  A controller is a record of its registers with the log of the accesses that make up a transfer:
  words put into \<open>dr\<close>, the enable register and the slave select.  What the controller answers is input: one level of the
  transmit FIFO for each round of a filling loop, one of the receive FIFO for each round of a fetching loop with the
  words \<open>dr\<close> delivers, one status word for each poll.  A loop that has used up its answers, or a failed assertion, is \<open>None\<close>.
  Buffers are addresses in a memory of bytes.  The branches of a \<open>switch\<close> over the frame width, which
  differ in the C type of the array element only, are one expression over the width in bytes.  \<open>malloc\<close> of the C library is the address it
  returned.  The counters of a loop do not wrap: no buffer of this machine has \<open>2 ^ 32\<close> bytes.
\<close>

subsection \<open>Registers\<close>

definition SPI_DEVICE_MAX :: nat where [simp]: "SPI_DEVICE_MAX = 4"
definition SPI_CHIP_SELECT_MAX :: nat where [simp]: "SPI_CHIP_SELECT_MAX = 4"
definition SYSCTL_DMA_SELECT_SSI0_RX_REQ :: nat where "SYSCTL_DMA_SELECT_SSI0_RX_REQ = 0"
definition SYSCTL_DMA_SELECT_SSI0_TX_REQ :: nat where "SYSCTL_DMA_SELECT_SSI0_TX_REQ = 1"

datatype spi_access = Dr u32 | Ssienr u32 | Ser u32

record spi_t =
  ctrlr0 :: u32
  ctrlr1 :: u32
  ssienr :: u32
  ser :: u32
  baudr :: u32
  txftlr :: u32
  rxftlr :: u32
  imr :: u32
  dmacr :: u32
  dmatdlr :: u32
  dmardlr :: u32
  spi_ctrlr0 :: u32
  endian :: u32
  spi_log :: "spi_access list"

datatype spi_frame_format = SPI_FF_STANDARD | SPI_FF_DUAL | SPI_FF_QUAD | SPI_FF_OCTAL
datatype spi_transfer_mode = SPI_TMOD_TRANS_RECV | SPI_TMOD_TRANS | SPI_TMOD_RECV | SPI_TMOD_EEROM
datatype spi_transfer_width = SPI_TRANS_CHAR | SPI_TRANS_SHORT | SPI_TRANS_INT
datatype spi_aitm = SPI_AITM_STANDARD | SPI_AITM_ADDR_STANDARD | SPI_AITM_AS_FRAME_FORMAT

primrec frf_val :: "spi_frame_format \<Rightarrow> u32" where
  "frf_val SPI_FF_STANDARD = 0" | "frf_val SPI_FF_DUAL = 1" | "frf_val SPI_FF_QUAD = 2" | "frf_val SPI_FF_OCTAL = 3"

primrec tmod_val :: "spi_transfer_mode \<Rightarrow> u32" where
  "tmod_val SPI_TMOD_TRANS_RECV = 0" | "tmod_val SPI_TMOD_TRANS = 1" | "tmod_val SPI_TMOD_RECV = 2" | "tmod_val SPI_TMOD_EEROM = 3"

primrec frame_bytes :: "spi_transfer_width \<Rightarrow> nat" where
  "frame_bytes SPI_TRANS_CHAR = 1" | "frame_bytes SPI_TRANS_SHORT = 2" | "frame_bytes SPI_TRANS_INT = 4"

primrec aitm_val :: "spi_aitm \<Rightarrow> u32" where
  "aitm_val SPI_AITM_STANDARD = 0" | "aitm_val SPI_AITM_ADDR_STANDARD = 1" | "aitm_val SPI_AITM_AS_FRAME_FORMAT = 2"

definition spi_put :: "spi_access list \<Rightarrow> spi_t \<Rightarrow> spi_t" where
  "spi_put l d = d\<lparr>spi_log := spi_log d @ l\<rparr>"

definition set_ssienr :: "u32 \<Rightarrow> spi_t \<Rightarrow> spi_t" where
  "set_ssienr v d = spi_put [Ssienr v] (d\<lparr>ssienr := v\<rparr>)"

definition set_ser :: "u32 \<Rightarrow> spi_t \<Rightarrow> spi_t" where
  "set_ser v d = spi_put [Ser v] (d\<lparr>ser := v\<rparr>)"

text \<open>The masters are the devices 0, 1 and 3; the last has its fields elsewhere.\<close>

definition spi_master :: "nat \<Rightarrow> bool" where
  "spi_master spi_num \<longleftrightarrow> spi_num < SPI_DEVICE_MAX \<and> spi_num \<noteq> 2"

definition dfs_offset :: "nat \<Rightarrow> nat" where "dfs_offset spi_num = (if spi_num = 0 \<or> spi_num = 1 then 16 else 0)"
definition frf_offset :: "nat \<Rightarrow> nat" where "frf_offset spi_num = (if spi_num = 0 \<or> spi_num = 1 then 21 else 22)"
definition work_mode_offset :: "nat \<Rightarrow> nat" where "work_mode_offset spi_num = (if spi_num = 0 \<or> spi_num = 1 then 6 else 8)"
definition tmod_offset :: "nat \<Rightarrow> nat" where "tmod_offset spi_num = (if spi_num = 0 \<or> spi_num = 1 \<or> spi_num = 2 then 8 else 10)"

definition spi_get_frame_format :: "nat \<Rightarrow> spi_t \<Rightarrow> u32" where
  "spi_get_frame_format spi_num d = drop_bit (frf_offset spi_num) (ctrlr0 d) AND 3"

definition spi_get_frame_size :: "nat \<Rightarrow> spi_transfer_width" where
  "spi_get_frame_size data_bit_length =
     (if data_bit_length < 8 then SPI_TRANS_CHAR else if data_bit_length < 16 then SPI_TRANS_SHORT else SPI_TRANS_INT)"

definition frame_width :: "nat \<Rightarrow> spi_t \<Rightarrow> nat" where
  "frame_width spi_num d =
     (let data_bit_length = drop_bit (dfs_offset spi_num) (ctrlr0 d) AND 0x1F
      in frame_bytes (spi_get_frame_size (unat data_bit_length)))"

definition spi_clock :: "nat \<Rightarrow> sysctl_clock" where
  "spi_clock n = [SYSCTL_CLOCK_SPI0, SYSCTL_CLOCK_SPI1, SYSCTL_CLOCK_SPI2, SYSCTL_CLOCK_SPI3] ! n"

definition spi_threshold :: "nat \<Rightarrow> sysctl_threshold" where
  "spi_threshold n = [SYSCTL_THRESHOLD_SPI0, SYSCTL_THRESHOLD_SPI1, SYSCTL_THRESHOLD_SPI2, SYSCTL_THRESHOLD_SPI3] ! n"

definition spi_clk_init :: "nat \<Rightarrow> sysctl \<Rightarrow> sysctl option" where
  "spi_clk_init spi_num sy =
     (if spi_master spi_num then
       (let sy = (if spi_num = 3 then snd (sysctl_clock_set_clock_select SYSCTL_CLOCK_SELECT_SPI3 1 sy) else sy);
            sy = snd (sysctl_clock_enable (spi_clock spi_num) sy)
        in Some (snd (sysctl_clock_set_threshold (spi_threshold spi_num) 0 sy)))
      else None)"

definition spi_set_tmod :: "nat \<Rightarrow> spi_transfer_mode \<Rightarrow> spi_t \<Rightarrow> spi_t option" where
  "spi_set_tmod spi_num tmod d =
     (if spi_num < SPI_DEVICE_MAX then
        Some (d\<lparr>ctrlr0 := set_bit (ctrlr0 d) (push_bit (tmod_offset spi_num) 3) (push_bit (tmod_offset spi_num) (tmod_val tmod))\<rparr>)
      else None)"

definition frame_format_fits :: "spi_frame_format \<Rightarrow> nat \<Rightarrow> bool" where
  "frame_format_fits frame_format data_bit_length =
     (case frame_format of SPI_FF_STANDARD \<Rightarrow> True | SPI_FF_DUAL \<Rightarrow> data_bit_length mod 2 = 0
      | SPI_FF_QUAD \<Rightarrow> data_bit_length mod 4 = 0 | SPI_FF_OCTAL \<Rightarrow> data_bit_length mod 8 = 0)"

definition spi_init ::
  "nat \<Rightarrow> u32 \<Rightarrow> spi_frame_format \<Rightarrow> nat \<Rightarrow> u32 \<Rightarrow> sysctl \<times> spi_t \<Rightarrow> (sysctl \<times> spi_t) option" where
  "spi_init spi_num work_mode frame_format data_bit_length big s = (case s of (sy, d) \<Rightarrow>
     (if \<not> (4 \<le> data_bit_length \<and> data_bit_length \<le> 32 \<and> spi_master spi_num) then None
      else do {
        sy \<leftarrow> spi_clk_init spi_num sy;
        if frame_format_fits frame_format data_bit_length then
          (let d = (if baudr d = 0 then d\<lparr>baudr := 0x14\<rparr> else d);
               d = d\<lparr>imr := 0, dmacr := 0, dmatdlr := 0x10, dmardlr := 0\<rparr>;
               d = set_ssienr 0 (set_ser 0 d);
               d = d\<lparr>ctrlr0 := push_bit (work_mode_offset spi_num) work_mode OR
                                push_bit (frf_offset spi_num) (frf_val frame_format) OR
                                push_bit (dfs_offset spi_num) (word_of_nat (data_bit_length - 1))\<rparr>
           in Some (sy, d\<lparr>spi_ctrlr0 := 0, endian := big\<rparr>))
        else None }))"

definition inst_l :: "u32 \<Rightarrow> u32 option" where
  "inst_l instruction_length =
     (if instruction_length = 0 then Some 0 else if instruction_length = 4 then Some 1
      else if instruction_length = 8 then Some 2 else if instruction_length = 16 then Some 3 else None)"

definition spi_init_non_standard :: "nat \<Rightarrow> u32 \<Rightarrow> u32 \<Rightarrow> u32 \<Rightarrow> spi_aitm \<Rightarrow> spi_t \<Rightarrow> spi_t option" where
  "spi_init_non_standard spi_num instruction_length address_length wait_cycles aitm d =
     (if wait_cycles < 2 ^ 5 \<and> spi_master spi_num then do {
        l \<leftarrow> inst_l instruction_length;
        if address_length mod 4 = 0 \<and> address_length \<le> 60 then
          Some (d\<lparr>spi_ctrlr0 := push_bit 11 wait_cycles OR push_bit 8 l OR push_bit 2 (address_length div 4) OR aitm_val aitm\<rparr>)
        else None }
      else None)"

text \<open>Division by a clock of zero is not modelled: callers pass a positive rate.\<close>

definition spi_set_clk_rate :: "nat \<Rightarrow> u32 \<Rightarrow> sysctl \<times> spi_t \<Rightarrow> u32 \<times> spi_t" where
  "spi_set_clk_rate spi_num spi_clk s = (case s of (sy, d) \<Rightarrow>
     (let spi_baudr = sysctl_clock_get_freq sy (spi_clock spi_num) div spi_clk;
          spi_baudr = (if spi_baudr < 2 then 2 else if spi_baudr > 65534 then 65534 else spi_baudr);
          d = d\<lparr>baudr := spi_baudr\<rparr>
      in (sysctl_clock_get_freq sy (spi_clock spi_num) div spi_baudr, d)))"

subsection \<open>Transfers by the processor\<close>

fun until_idle :: "u32 list \<Rightarrow> unit option" where
  "until_idle [] = None"
| "until_idle (sr # srs) = (if sr AND 5 \<noteq> 4 then until_idle srs else Some ())"

definition tx_room :: "u32 \<Rightarrow> nat \<Rightarrow> nat" where
  "tx_room txflr len = (let fifo_len = unat (32 - txflr) in if fifo_len < len then fifo_len else len)"

text \<open>\<open>spi_send_data_normal\<close>: a buffer that is not aligned to the frames is copied through \<open>v_send_data\<close>, and \<open>i\<close> counts
  bytes; otherwise \<open>i\<close> counts frames.  A frame of two bytes leaves the upper half of the uninitialised \<open>v_send_data\<close> as
  it was (\<open>junk\<close>).\<close>

definition next_frames :: "nat \<Rightarrow> bool \<Rightarrow> u32 \<Rightarrow> int \<Rightarrow> memory \<Rightarrow> nat \<Rightarrow> nat \<Rightarrow> u32 list \<times> nat" where
  "next_frames n v_misalign_flag junk tx_buff m i k =
     (if v_misalign_flag
      then (map (\<lambda>j. load_le n (tx_buff + int (i + n * j)) m OR push_bit (8 * n) junk) [0..<k], i + n * k)
      else (map (\<lambda>j. load_le n (tx_buff + int (n * (i + j))) m) [0..<k], i + k))"

fun send_rounds :: "nat \<Rightarrow> bool \<Rightarrow> u32 \<Rightarrow> int \<Rightarrow> memory \<Rightarrow> u32 list \<Rightarrow> nat \<Rightarrow> nat \<Rightarrow> spi_t \<Rightarrow> spi_t option" where
  "send_rounds n mis junk tx_buff m txs tx_len i d =
     (if tx_len = 0 then Some d
      else case txs of [] \<Rightarrow> None
      | txflr # txs \<Rightarrow>
         (let fifo_len = tx_room txflr tx_len div n * n;
              (frames, i) = next_frames n mis junk tx_buff m i (fifo_len div n)
          in send_rounds n mis junk tx_buff m txs (tx_len - fifo_len) i (spi_put (map Dr frames) d)))"

declare send_rounds.simps [simp del]

definition spi_send_data_normal ::
  "u32 \<Rightarrow> u32 list \<Rightarrow> u32 list \<Rightarrow> nat \<Rightarrow> nat \<Rightarrow> int \<Rightarrow> nat \<Rightarrow> memory \<times> spi_t \<Rightarrow> spi_t option" where
  "spi_send_data_normal junk txs srs spi_num chip_select tx_buff tx_len s = (case s of (m, d) \<Rightarrow>
     (if spi_master spi_num then do {
        d \<leftarrow> spi_set_tmod spi_num SPI_TMOD_TRANS d;
        let n = frame_width spi_num d;
        let v_misalign_flag = (tx_buff mod int n \<noteq> 0);
        let d = set_ser (push_bit chip_select 1) (set_ssienr 1 d);
        d \<leftarrow> send_rounds n v_misalign_flag junk tx_buff m txs tx_len 0 d;
        until_idle srs;
        Some (set_ssienr 0 (set_ser 0 d)) }
      else None))"

text \<open>\<open>v_buf\<close> is what \<open>malloc\<close> returned.\<close>

definition spi_send_data_standard ::
  "int \<Rightarrow> u32 \<Rightarrow> u32 list \<Rightarrow> u32 list \<Rightarrow> nat \<Rightarrow> nat \<Rightarrow> int \<Rightarrow> nat \<Rightarrow> int \<Rightarrow> nat \<Rightarrow> memory \<times> spi_t \<Rightarrow> (memory \<times> spi_t) option" where
  "spi_send_data_standard v_buf junk txs srs spi_num chip_select cmd_buff cmd_len tx_buff tx_len s = (case s of (m, d) \<Rightarrow>
     (if spi_master spi_num then
       (let m = memcpy v_buf cmd_buff (int cmd_len) m;
            m = memcpy (v_buf + int cmd_len) tx_buff (int tx_len) m
        in map_option (Pair m) (spi_send_data_normal junk txs srs spi_num chip_select v_buf (cmd_len + tx_len) (m, d)))
      else None))"

text \<open>The command phase of the receiving functions: all of the command goes into the FIFO, the slave select follows each
  round.\<close>

fun command_rounds :: "u32 \<Rightarrow> u32 list \<Rightarrow> u32 list \<Rightarrow> spi_t \<Rightarrow> spi_t option" where
  "command_rounds sel txs [] d = Some d"
| "command_rounds sel [] (c # cs) d = None"
| "command_rounds sel (txflr # txs) (c # cs) d =
     (let cmd = c # cs; fifo_len = tx_room txflr (length cmd)
      in command_rounds sel txs (drop fifo_len cmd) (set_ser sel (spi_put (map Dr (take fifo_len cmd)) d)))"

text \<open>The fetching loop: \<open>rxd\<close> is what \<open>dr\<close> will deliver.\<close>

fun fetch_rounds :: "u32 list \<Rightarrow> u32 list \<Rightarrow> nat \<Rightarrow> u32 list option" where
  "fetch_rounds rxs rxd v_rx_len =
     (if v_rx_len = 0 then Some []
      else case rxs of [] \<Rightarrow> None
      | rxflr # rxs \<Rightarrow>
         (let fifo_len = (if unat rxflr < v_rx_len then unat rxflr else v_rx_len)
          in if length rxd < fifo_len then None
             else map_option ((@) (take fifo_len rxd)) (fetch_rounds rxs (drop fifo_len rxd) (v_rx_len - fifo_len))))"

declare fetch_rounds.simps [simp del]

definition spi_receive_data_standard ::
  "u32 list \<Rightarrow> u32 list \<Rightarrow> u32 list \<Rightarrow> nat \<Rightarrow> nat \<Rightarrow> int \<Rightarrow> nat \<Rightarrow> int \<Rightarrow> nat \<Rightarrow> memory \<times> spi_t \<Rightarrow> (memory \<times> spi_t) option" where
  "spi_receive_data_standard txs rxs rxd spi_num chip_select cmd_buff cmd_len rx_buff rx_len s = (case s of (m, d) \<Rightarrow>
     (if spi_master spi_num then do {
        d \<leftarrow> spi_set_tmod spi_num (if cmd_len = 0 then SPI_TMOD_RECV else SPI_TMOD_EEROM) d;
        let n = frame_width spi_num d;
        let v_cmd_len = cmd_len div n;
        let v_rx_len = (word_of_nat (rx_len div n) :: u32);
        let d = set_ssienr 1 (d\<lparr>ctrlr1 := v_rx_len - 1\<rparr>);
        d \<leftarrow> command_rounds (push_bit chip_select 1) txs (load_array n cmd_buff v_cmd_len m) d;
        let d = (if cmd_len = 0 then set_ser (push_bit chip_select 1) (spi_put [Dr 0xFFFFFFFF] d) else d);
        ws \<leftarrow> fetch_rounds rxs rxd (unat v_rx_len);
        Some (store_array n rx_buff ws m, set_ssienr 0 (set_ser 0 d)) }
      else None))"

definition spi_receive_data_multiple ::
  "u32 list \<Rightarrow> u32 list \<Rightarrow> u32 list \<Rightarrow> nat \<Rightarrow> nat \<Rightarrow> int \<Rightarrow> nat \<Rightarrow> int \<Rightarrow> nat \<Rightarrow> memory \<times> spi_t \<Rightarrow> (memory \<times> spi_t) option" where
  "spi_receive_data_multiple txs rxs rxd spi_num chip_select cmd_buff cmd_len rx_buff rx_len s = (case s of (m, d) \<Rightarrow>
     (if spi_master spi_num then do {
        d \<leftarrow> spi_set_tmod spi_num (if cmd_len = 0 then SPI_TMOD_RECV else SPI_TMOD_EEROM) d;
        let n = frame_width spi_num d;
        let v_cmd_len = unat (word_of_nat cmd_len :: u32);
        let v_rx_len = (word_of_nat (rx_len div n) :: u32);
        let d = set_ssienr 1 (d\<lparr>ctrlr1 := v_rx_len - 1\<rparr>);
        d \<leftarrow> command_rounds (push_bit chip_select 1) txs (load_array 4 cmd_buff v_cmd_len m) d;
        let d = (if cmd_len = 0 then set_ser (push_bit chip_select 1) d else d);
        ws \<leftarrow> fetch_rounds rxs rxd (unat v_rx_len);
        Some (store_array n rx_buff ws m, set_ssienr 0 (set_ser 0 d)) }
      else None))"

text \<open>\<open>spi_send_data_multiple\<close>: the words of the command are counted in bytes.\<close>

fun word_rounds :: "u32 list \<Rightarrow> u32 list \<Rightarrow> spi_t \<Rightarrow> spi_t option" where
  "word_rounds txs [] d = Some d"
| "word_rounds [] (c # cs) d = None"
| "word_rounds (txflr # txs) (c # cs) d =
     (let cmd = c # cs; fifo_len = tx_room txflr (length cmd * 4) div 4 * 4
      in word_rounds txs (drop (fifo_len div 4) cmd) (spi_put (map Dr (take (fifo_len div 4) cmd)) d))"

definition spi_send_data_multiple ::
  "u32 \<Rightarrow> u32 list \<Rightarrow> u32 list \<Rightarrow> u32 list \<Rightarrow> nat \<Rightarrow> nat \<Rightarrow> int \<Rightarrow> nat \<Rightarrow> int \<Rightarrow> nat \<Rightarrow> memory \<times> spi_t \<Rightarrow> spi_t option" where
  "spi_send_data_multiple junk ctxs txs srs spi_num chip_select cmd_buff cmd_len tx_buff tx_len s = (case s of (m, d) \<Rightarrow>
     (if spi_master spi_num then do {
        d \<leftarrow> spi_set_tmod spi_num SPI_TMOD_TRANS d;
        let d = set_ser (push_bit chip_select 1) (set_ssienr 1 d);
        d \<leftarrow> word_rounds ctxs (load_array 4 cmd_buff cmd_len m) d;
        spi_send_data_normal junk txs srs spi_num chip_select tx_buff tx_len (m, d) }
      else None))"

subsection \<open>Transfers by DMA\<close>

text \<open>What reaches \<open>dr\<close> here is written by the DMA controller, so the log holds only what the processor did.  \<open>brk\<close> is the heap
  limit of the allocator.  A loop that copies an array into a buffer reads the whole array first: the buffer is fresh.\<close>

definition dr_addr :: "nat \<Rightarrow> int" where
  "dr_addr spi_num = [0x52000000, 0x53000000, 0x50240000, 0x54000000] ! spi_num + 0x60"

definition spi_dma_select :: "nat \<Rightarrow> nat \<Rightarrow> nat \<Rightarrow> sysctl \<Rightarrow> sysctl" where
  "spi_dma_select channel_num req spi_num sy = snd (sysctl_dma_select (dma_channel channel_num) (req + spi_num * 2) sy)"

definition dma_to_dr ::
  "('cb dma \<Rightarrow> 'cb dma) \<Rightarrow> (int \<Rightarrow> int \<Rightarrow> int) \<Rightarrow> nat \<Rightarrow> nat \<Rightarrow> int \<Rightarrow> dmac_address_increment \<Rightarrow> dmac_burst_trans_length \<Rightarrow> u64 \<Rightarrow>
   'cb dma \<Rightarrow> 'cb dma option" where
  "dma_to_dr hw brk channel_num spi_num buf inc burst len w =
     dmac_set_single_mode hw brk channel_num buf (dr_addr spi_num) inc DMAC_ADDR_NOCHANGE burst DMAC_TRANS_WIDTH_32 len w"

definition dma_from_dr ::
  "('cb dma \<Rightarrow> 'cb dma) \<Rightarrow> (int \<Rightarrow> int \<Rightarrow> int) \<Rightarrow> nat \<Rightarrow> nat \<Rightarrow> int \<Rightarrow> u64 \<Rightarrow> 'cb dma \<Rightarrow> 'cb dma option" where
  "dma_from_dr hw brk channel_num spi_num buf len w =
     dmac_set_single_mode hw brk channel_num (dr_addr spi_num) buf DMAC_ADDR_NOCHANGE DMAC_ADDR_INCREMENT
       DMAC_MSIZE_1 DMAC_TRANS_WIDTH_32 len w"

definition spi_send_data_normal_dma ::
  "('cb dma \<Rightarrow> 'cb dma) \<Rightarrow> (int \<Rightarrow> int \<Rightarrow> int) \<Rightarrow> u32 list \<Rightarrow> nat \<Rightarrow> nat \<Rightarrow> nat \<Rightarrow> int \<Rightarrow> nat \<Rightarrow> spi_transfer_width \<Rightarrow>
   sysctl \<times> 'cb dma \<times> spi_t \<Rightarrow> (sysctl \<times> 'cb dma \<times> spi_t) option" where
  "spi_send_data_normal_dma hw brk srs channel_num spi_num chip_select tx_buff tx_len width s = (case s of (sy, w, d) \<Rightarrow>
     (if spi_master spi_num then do {
        d \<leftarrow> spi_set_tmod spi_num SPI_TMOD_TRANS d;
        (buf, w) \<leftarrow>
          (if width = SPI_TRANS_INT then Some (tx_buff, w)
           else do {
             (buf, w) \<leftarrow> io_malloc brk (word_of_nat (tx_len * 4)) w;
             Some (buf, w\<lparr>mem := store32s buf (load_array (frame_bytes width) tx_buff tx_len (mem w)) (mem w)\<rparr>) });
        let d = set_ssienr 1 (d\<lparr>dmacr := 2\<rparr>);
        let sy = spi_dma_select channel_num SYSCTL_DMA_SELECT_SSI0_TX_REQ spi_num sy;
        w \<leftarrow> dma_to_dr hw brk channel_num spi_num buf DMAC_ADDR_INCREMENT DMAC_MSIZE_4 (word_of_nat tx_len) w;
        let d = set_ser (push_bit chip_select 1) d;
        w \<leftarrow> dmac_wait_done hw brk channel_num w;
        w \<leftarrow> (if width \<noteq> SPI_TRANS_INT then io_free brk buf w else Some w);
        until_idle srs;
        Some (sy, w, set_ssienr 0 (set_ser 0 d)) }
      else None))"

text \<open>\<open>buf\<close> is what \<open>malloc\<close> returned.\<close>

definition spi_send_data_standard_dma ::
  "('cb dma \<Rightarrow> 'cb dma) \<Rightarrow> (int \<Rightarrow> int \<Rightarrow> int) \<Rightarrow> int \<Rightarrow> u32 list \<Rightarrow> nat \<Rightarrow> nat \<Rightarrow> nat \<Rightarrow> int \<Rightarrow> nat \<Rightarrow> int \<Rightarrow> nat \<Rightarrow>
   sysctl \<times> 'cb dma \<times> spi_t \<Rightarrow> (sysctl \<times> 'cb dma \<times> spi_t) option" where
  "spi_send_data_standard_dma hw brk buf srs channel_num spi_num chip_select cmd_buff cmd_len tx_buff tx_len s =
     (case s of (sy, w, d) \<Rightarrow>
     (if spi_master spi_num then
       (let n = frame_width spi_num d;
            words = load_array n cmd_buff (cmd_len div n) (mem w) @ load_array n tx_buff (tx_len div n) (mem w);
            v_send_len = (cmd_len + tx_len) div n
        in spi_send_data_normal_dma hw brk srs channel_num spi_num chip_select buf v_send_len SPI_TRANS_INT
             (sy, w\<lparr>mem := store32s buf words (mem w)\<rparr>, d))
      else None))"

definition spi_dup_send_receive_data_dma ::
  "('cb dma \<Rightarrow> 'cb dma) \<Rightarrow> (int \<Rightarrow> int \<Rightarrow> int) \<Rightarrow> nat \<Rightarrow> nat \<Rightarrow> nat \<Rightarrow> nat \<Rightarrow> int \<Rightarrow> nat \<Rightarrow> int \<Rightarrow> nat \<Rightarrow>
   sysctl \<times> 'cb dma \<times> spi_t \<Rightarrow> (sysctl \<times> 'cb dma \<times> spi_t) option" where
  "spi_dup_send_receive_data_dma hw brk tx_ch rx_ch spi_num chip_select tx_buf tx_len rx_buf rx_len s =
     (case s of (sy, w, d) \<Rightarrow>
     (if spi_master spi_num then do {
        d \<leftarrow> spi_set_tmod spi_num SPI_TMOD_TRANS_RECV d;
        let n = frame_width spi_num d;
        let v_tx_len = tx_len div n;
        let v_rx_len = rx_len div n;
        let v_max_len = (if v_tx_len > v_rx_len then v_tx_len else v_rx_len);
        (v_tx_buf, w) \<leftarrow> io_malloc brk (word_of_nat (v_max_len * 4)) w;
        (v_rx_buf, w) \<leftarrow> io_malloc brk (word_of_nat (v_max_len * 4)) w;
        let w = w\<lparr>mem := store32s v_tx_buf (load_array n tx_buf v_tx_len (mem w) @ replicate (v_max_len - v_tx_len) 0xFFFFFFFF) (mem w)\<rparr>;
        let d = set_ssienr 1 (d\<lparr>dmacr := 3\<rparr>);
        let sy = spi_dma_select tx_ch SYSCTL_DMA_SELECT_SSI0_TX_REQ spi_num sy;
        let sy = spi_dma_select rx_ch SYSCTL_DMA_SELECT_SSI0_RX_REQ spi_num sy;
        w \<leftarrow> dma_from_dr hw brk rx_ch spi_num v_rx_buf (word_of_nat v_max_len) w;
        w \<leftarrow> dma_to_dr hw brk tx_ch spi_num v_tx_buf DMAC_ADDR_INCREMENT DMAC_MSIZE_4 (word_of_nat v_max_len) w;
        let d = set_ser (push_bit chip_select 1) d;
        w \<leftarrow> dmac_wait_done hw brk tx_ch w;
        w \<leftarrow> dmac_wait_done hw brk rx_ch w;
        let d = set_ssienr 0 (set_ser 0 d);
        let w = w\<lparr>mem := store_array n rx_buf (load_array 4 v_rx_buf v_rx_len (mem w)) (mem w)\<rparr>;
        w \<leftarrow> io_free brk v_tx_buf w;
        w \<leftarrow> io_free brk v_rx_buf w;
        Some (sy, w, d) }
      else None))"

definition spi_receive_data_normal_dma ::
  "('cb dma \<Rightarrow> 'cb dma) \<Rightarrow> (int \<Rightarrow> int \<Rightarrow> int) \<Rightarrow> nat \<Rightarrow> nat \<Rightarrow> nat \<Rightarrow> nat \<Rightarrow> int \<Rightarrow> nat \<Rightarrow> int \<Rightarrow> nat \<Rightarrow>
   sysctl \<times> 'cb dma \<times> spi_t \<Rightarrow> (sysctl \<times> 'cb dma \<times> spi_t) option" where
  "spi_receive_data_normal_dma hw brk tx_ch rx_ch spi_num chip_select cmd_buff cmd_len rx_buff rx_len s =
     (case s of (sy, w, d) \<Rightarrow>
     (if spi_master spi_num then do {
        d \<leftarrow> spi_set_tmod spi_num (if cmd_len = 0 then SPI_TMOD_RECV else SPI_TMOD_EEROM) d;
        let d = set_ssienr 1 (d\<lparr>ctrlr1 := word_of_nat rx_len - 1, dmacr := 3\<rparr>);
        let sy = (if cmd_len \<noteq> 0 then spi_dma_select tx_ch SYSCTL_DMA_SELECT_SSI0_TX_REQ spi_num sy else sy);
        let sy = spi_dma_select rx_ch SYSCTL_DMA_SELECT_SSI0_RX_REQ spi_num sy;
        w \<leftarrow> dma_from_dr hw brk rx_ch spi_num rx_buff (word_of_nat rx_len) w;
        w \<leftarrow> (if cmd_len \<noteq> 0 then dma_to_dr hw brk tx_ch spi_num cmd_buff DMAC_ADDR_INCREMENT DMAC_MSIZE_4 (word_of_nat cmd_len) w
             else Some w);
        let d = (if cmd_len = 0 \<and> spi_get_frame_format spi_num d = frf_val SPI_FF_STANDARD then spi_put [Dr 0xFFFFFFFF] d else d);
        let d = set_ser (push_bit chip_select 1) d;
        w \<leftarrow> (if cmd_len \<noteq> 0 then dmac_wait_done hw brk tx_ch w else Some w);
        w \<leftarrow> dmac_wait_done hw brk rx_ch w;
        Some (sy, w, set_ssienr 0 (set_ser 0 d)) }
      else None))"

text \<open>The size of the bounce buffer: the branch of a frame of four bytes counts bytes, the others words.\<close>

definition spi_receive_data_standard_dma ::
  "('cb dma \<Rightarrow> 'cb dma) \<Rightarrow> (int \<Rightarrow> int \<Rightarrow> int) \<Rightarrow> nat \<Rightarrow> nat \<Rightarrow> nat \<Rightarrow> nat \<Rightarrow> int \<Rightarrow> nat \<Rightarrow> int \<Rightarrow> nat \<Rightarrow>
   sysctl \<times> 'cb dma \<times> spi_t \<Rightarrow> (sysctl \<times> 'cb dma \<times> spi_t) option" where
  "spi_receive_data_standard_dma hw brk tx_ch rx_ch spi_num chip_select cmd_buff cmd_len rx_buff rx_len s =
     (case s of (sy, w, d) \<Rightarrow>
     (if spi_master spi_num then do {
        let n = frame_width spi_num d;
        let v_recv_len = rx_len div n;
        let v_cmd_len = cmd_len div n;
        (write_cmd, w) \<leftarrow> io_malloc brk (word_of_nat (if n = 4 then cmd_len + rx_len else (cmd_len + rx_len) div n * 4)) w;
        let w = w\<lparr>mem := store32s write_cmd (load_array n cmd_buff v_cmd_len (mem w)) (mem w)\<rparr>;
        let read_buf = write_cmd + 4 * int v_cmd_len;
        (sy, w, d) \<leftarrow> spi_receive_data_normal_dma hw brk tx_ch rx_ch spi_num chip_select write_cmd v_cmd_len read_buf v_recv_len (sy, w, d);
        let w = w\<lparr>mem := store_array n rx_buff (load_array 4 read_buf v_recv_len (mem w)) (mem w)\<rparr>;
        w \<leftarrow> io_free brk write_cmd w;
        Some (sy, w, d) }
      else None))"

definition multiple_dma_bytes :: "nat \<Rightarrow> nat \<Rightarrow> nat \<Rightarrow> nat" where
  "multiple_dma_bytes n cmd_len rx_len = cmd_len + rx_len div n * 4"

definition spi_receive_data_multiple_dma ::
  "('cb dma \<Rightarrow> 'cb dma) \<Rightarrow> (int \<Rightarrow> int \<Rightarrow> int) \<Rightarrow> nat \<Rightarrow> nat \<Rightarrow> nat \<Rightarrow> nat \<Rightarrow> int \<Rightarrow> nat \<Rightarrow> int \<Rightarrow> nat \<Rightarrow>
   sysctl \<times> 'cb dma \<times> spi_t \<Rightarrow> (sysctl \<times> 'cb dma \<times> spi_t) option" where
  "spi_receive_data_multiple_dma hw brk tx_ch rx_ch spi_num chip_select cmd_buff cmd_len rx_buff rx_len s =
     (case s of (sy, w, d) \<Rightarrow>
     (if spi_master spi_num then
       (let n = frame_width spi_num d; v_recv_len = rx_len div n in
        if n = 4 then spi_receive_data_normal_dma hw brk tx_ch rx_ch spi_num chip_select cmd_buff cmd_len rx_buff v_recv_len (sy, w, d)
        else do {
          (write_cmd, w) \<leftarrow> io_malloc brk (word_of_nat (multiple_dma_bytes n cmd_len rx_len)) w;
          let w = w\<lparr>mem := store32s write_cmd (load_array 4 cmd_buff cmd_len (mem w)) (mem w)\<rparr>;
          let read_buf = write_cmd + 4 * int cmd_len;
          (sy, w, d) \<leftarrow> spi_receive_data_normal_dma hw brk tx_ch rx_ch spi_num chip_select write_cmd cmd_len read_buf v_recv_len (sy, w, d);
          let w = w\<lparr>mem := store_array n rx_buff (load_array 4 read_buf v_recv_len (mem w)) (mem w)\<rparr>;
          w \<leftarrow> io_free brk write_cmd w;
          Some (sy, w, d) })
      else None))"

definition spi_send_data_multiple_dma ::
  "('cb dma \<Rightarrow> 'cb dma) \<Rightarrow> (int \<Rightarrow> int \<Rightarrow> int) \<Rightarrow> u32 list \<Rightarrow> nat \<Rightarrow> nat \<Rightarrow> nat \<Rightarrow> int \<Rightarrow> nat \<Rightarrow> int \<Rightarrow> nat \<Rightarrow>
   sysctl \<times> 'cb dma \<times> spi_t \<Rightarrow> (sysctl \<times> 'cb dma \<times> spi_t) option" where
  "spi_send_data_multiple_dma hw brk srs channel_num spi_num chip_select cmd_buff cmd_len tx_buff tx_len s =
     (case s of (sy, w, d) \<Rightarrow>
     (if spi_master spi_num then do {
        let n = frame_width spi_num d;
        (buf, w) \<leftarrow> io_malloc brk (word_of_nat (if n = 4 then cmd_len * 4 + tx_len else cmd_len * 4 + tx_len div n * 4)) w;
        let words = load_array 4 cmd_buff cmd_len (mem w) @ load_array n tx_buff (tx_len div n) (mem w);
        let w = w\<lparr>mem := store32s buf words (mem w)\<rparr>;
        (sy, w, d) \<leftarrow> spi_send_data_normal_dma hw brk srs channel_num spi_num chip_select buf (cmd_len + tx_len div n) SPI_TRANS_INT (sy, w, d);
        w \<leftarrow> io_free brk buf w;
        Some (sy, w, d) }
      else None))"

definition spi_fill_data_dma ::
  "('cb dma \<Rightarrow> 'cb dma) \<Rightarrow> (int \<Rightarrow> int \<Rightarrow> int) \<Rightarrow> u32 list \<Rightarrow> nat \<Rightarrow> nat \<Rightarrow> nat \<Rightarrow> int \<Rightarrow> nat \<Rightarrow>
   sysctl \<times> 'cb dma \<times> spi_t \<Rightarrow> (sysctl \<times> 'cb dma \<times> spi_t) option" where
  "spi_fill_data_dma hw brk srs channel_num spi_num chip_select tx_buff tx_len s = (case s of (sy, w, d) \<Rightarrow>
     (if spi_master spi_num then do {
        d \<leftarrow> spi_set_tmod spi_num SPI_TMOD_TRANS d;
        let d = set_ssienr 1 (d\<lparr>dmacr := 2\<rparr>);
        let sy = spi_dma_select channel_num SYSCTL_DMA_SELECT_SSI0_TX_REQ spi_num sy;
        w \<leftarrow> dma_to_dr hw brk channel_num spi_num tx_buff DMAC_ADDR_NOCHANGE DMAC_MSIZE_1 (word_of_nat tx_len) w;
        let d = set_ser (push_bit chip_select 1) d;
        w \<leftarrow> dmac_wait_done hw brk channel_num w;
        until_idle srs;
        Some (sy, w, set_ssienr 0 (set_ser 0 d)) }
      else None))"

subsection \<open>Transfers with a callback\<close>

text \<open>The instance of a device: its number, the channel of the transfer under way, the callback, and the lock as a flag; taking a
  lock that is held waits for an interrupt, which is \<open>None\<close> here.  \<open>dma_cb\<close> stands for the address of \<open>spi_dma_irq\<close> in the DMA
  driver's table, the context for the number of the instance.\<close>

record 'u spi_instance =
  si_num :: nat
  si_dmac_channel :: nat
  si_callback :: "'u option"
  si_ctx :: nat
  si_lock :: bool

record spi_data =
  sd_tx_channel :: nat
  sd_rx_channel :: nat
  sd_tx_buf :: int
  sd_tx_len :: u64
  sd_rx_buf :: int
  sd_rx_len :: u64
  sd_transfer_mode :: spi_transfer_mode
  sd_fill_mode :: bool

type_synonym ('cb, 'u, 'h) spi_state =
  "sysctl \<times> 'cb dma \<times> 'h dma_handler plic \<times> (nat \<Rightarrow> spi_t) \<times> (nat \<Rightarrow> 'u spi_instance)"

definition spi_dma_irq ::
  "nat \<Rightarrow> u32 list \<Rightarrow> nat \<Rightarrow> ('cb, 'u, 'h) spi_state \<Rightarrow> (('u \<times> nat) option \<times> ('cb, 'u, 'h) spi_state) option" where
  "spi_dma_irq core srs k s = (case s of (sy, w, p, spi, inst) \<Rightarrow>
     (let v_instance = inst k; h = si_num v_instance;
          (w, p) = dmac_irq_unregister core (si_dmac_channel v_instance) (w, p)
      in do {
        until_idle srs;
        let spi = spi(h := set_ssienr 0 (set_ser 0 (spi h)));
        let inst = inst(k := v_instance\<lparr>si_lock := False\<rparr>);
        Some (map_option (\<lambda>f. (f, si_ctx v_instance)) (si_callback v_instance), sy, w, p, spi, inst) }))"

definition data_ok :: "spi_data \<Rightarrow> bool" where
  "data_ok data \<longleftrightarrow>
     (let tx = (sd_tx_buf data \<noteq> 0 \<and> sd_tx_len data \<noteq> 0); rx = (sd_rx_buf data \<noteq> 0 \<and> sd_rx_len data \<noteq> 0) in
      case sd_transfer_mode data of SPI_TMOD_TRANS_RECV \<Rightarrow> tx \<and> rx | SPI_TMOD_EEROM \<Rightarrow> tx \<and> rx
      | SPI_TMOD_TRANS \<Rightarrow> tx | SPI_TMOD_RECV \<Rightarrow> rx)"

definition spi_start_irq ::
  "nat \<Rightarrow> 'cb \<Rightarrow> nat \<Rightarrow> nat \<Rightarrow> 'u plic_interrupt option \<Rightarrow> 'cb dma \<times> 'h dma_handler plic \<times> (nat \<Rightarrow> 'u spi_instance) \<Rightarrow>
   'cb dma \<times> 'h dma_handler plic \<times> (nat \<Rightarrow> 'u spi_instance)" where
  "spi_start_irq core dma_cb spi_num channel_num cb s = (case s of (w, p, inst) \<Rightarrow>
     (case cb of None \<Rightarrow> s
      | Some c \<Rightarrow>
         (let (w, p) = dmac_irq_register core channel_num (Some dma_cb) spi_num (pi_priority c) (w, p)
          in (w, p, inst(spi_num := (inst spi_num)\<lparr>si_dmac_channel := channel_num\<rparr>)))))"

definition spi_handle_data_dma ::
  "('cb dma \<Rightarrow> 'cb dma) \<Rightarrow> (int \<Rightarrow> int \<Rightarrow> int) \<Rightarrow> nat \<Rightarrow> 'cb \<Rightarrow> u32 list \<Rightarrow> nat \<Rightarrow> nat \<Rightarrow> spi_data \<Rightarrow> 'u plic_interrupt option \<Rightarrow>
   ('cb, 'u, 'h) spi_state \<Rightarrow> ('cb, 'u, 'h) spi_state option" where
  "spi_handle_data_dma hw brk core dma_cb srs spi_num chip_select data cb s =
     (let (sy, w, p, spi, inst) = s; tx = sd_tx_channel data; rx = sd_rx_channel data; tx_len = sd_tx_len data;
          rx_len = (if sd_transfer_mode data \<noteq> SPI_TMOD_TRANS \<and> sd_rx_len data > 65536 then 65536 else sd_rx_len data);
          tx_inc = (if sd_fill_mode data then DMAC_ADDR_NOCHANGE else DMAC_ADDR_INCREMENT);
          send = dma_to_dr hw brk tx spi_num (sd_tx_buf data) tx_inc DMAC_MSIZE_4 tx_len;
          fetch = dma_from_dr hw brk rx spi_num (sd_rx_buf data) rx_len;
          tx_select = spi_dma_select tx SYSCTL_DMA_SELECT_SSI0_TX_REQ spi_num;
          rx_select = spi_dma_select rx SYSCTL_DMA_SELECT_SSI0_RX_REQ spi_num;
          sel = push_bit chip_select 1; finish = (\<lambda>n w. if cb = None then dmac_wait_done hw brk n w else Some w)
      in
      if \<not> (spi_master spi_num \<and> chip_select < SPI_CHIP_SELECT_MAX \<and> data_ok data \<and> tx < DMAC_CHANNEL_MAX \<and> rx < DMAC_CHANNEL_MAX)
         \<or> si_lock (inst spi_num) then None
      else do {
        let v = (inst spi_num)\<lparr>si_lock := True\<rparr>;
        let inst = inst(spi_num := (case cb of None \<Rightarrow> v | Some c \<Rightarrow> v\<lparr>si_callback := pi_callback c, si_ctx := pi_ctx c\<rparr>));
        d \<leftarrow> spi_set_tmod spi_num (sd_transfer_mode data) (spi spi_num);
        (sy, w, p, d, inst) \<leftarrow>
          (case sd_transfer_mode data of
             SPI_TMOD_RECV \<Rightarrow> do {
               let d = set_ssienr 1 (d\<lparr>ctrlr1 := ucast (rx_len - 1), dmacr := 3\<rparr>);
               let d = (if spi_get_frame_format spi_num d = frf_val SPI_FF_STANDARD then spi_put [Dr 0xFFFFFFFF] d else d);
               let (w, p, inst) = spi_start_irq core dma_cb spi_num rx cb (w, p, inst);
               w \<leftarrow> fetch w;
               w \<leftarrow> finish rx w;
               Some (rx_select sy, w, p, set_ser sel d, inst) }
           | SPI_TMOD_TRANS \<Rightarrow> do {
               let d = set_ssienr 1 (d\<lparr>dmacr := 2\<rparr>);
               let (w, p, inst) = spi_start_irq core dma_cb spi_num tx cb (w, p, inst);
               w \<leftarrow> send w;
               w \<leftarrow> finish tx w;
               (if cb = None then until_idle srs else Some ());
               Some (tx_select sy, w, p, set_ser sel d, inst) }
           | SPI_TMOD_EEROM \<Rightarrow> do {
               let d = set_ssienr 1 (d\<lparr>ctrlr1 := ucast (rx_len - 1), dmacr := 3\<rparr>);
               w \<leftarrow> send w;
               let (w, p, inst) = spi_start_irq core dma_cb spi_num rx cb (w, p, inst);
               w \<leftarrow> fetch w;
               w \<leftarrow> finish tx w;
               w \<leftarrow> finish rx w;
               Some (rx_select (tx_select sy), w, p, set_ser sel d, inst) }
           | SPI_TMOD_TRANS_RECV \<Rightarrow> do {
               let (w, p, inst) = spi_start_irq core dma_cb spi_num (if tx_len > rx_len then tx else rx) cb (w, p, inst);
               let d = set_ssienr 1 (d\<lparr>ctrlr1 := ucast (rx_len - 1), dmacr := 3\<rparr>);
               w \<leftarrow> send w;
               w \<leftarrow> fetch w;
               w \<leftarrow> finish tx w;
               w \<leftarrow> finish rx w;
               Some (rx_select (tx_select sy), w, p, set_ser sel d, inst) });
        (if cb = None then
           Some (sy, w, p, spi(spi_num := set_ssienr 0 (set_ser 0 d)), inst(spi_num := (inst spi_num)\<lparr>si_lock := False\<rparr>))
         else Some (sy, w, p, spi(spi_num := d), inst)) })"

subsection \<open>What the filling loop sends\<close>

lemma spi_put_put [simp]: "spi_put l' (spi_put l d) = spi_put (l @ l') d" "spi_put [] d = d"
  by (simp_all add: spi_put_def)

lemma spi_log_put [simp]: "spi_log (spi_put l d) = spi_log d @ l" "spi_log (d\<lparr>ctrlr0 := v\<rparr>) = spi_log d"
  "spi_log (set_ser v d) = spi_log d @ [Ser v]" "spi_log (set_ssienr v d) = spi_log d @ [Ssienr v]"
  "ser (set_ser v d) = v" "ser (set_ssienr v d) = ser d" "ser (spi_put l d) = ser d"
  "ssienr (set_ser v d) = ssienr d" "ssienr (set_ssienr v d) = v" "ssienr (spi_put l d) = ssienr d"
  by (simp_all add: spi_put_def set_ser_def set_ssienr_def)

text \<open>The frames the controller has room for, each round in whole frames.\<close>

definition frames_room :: "nat \<Rightarrow> u32 list \<Rightarrow> nat" where
  "frames_room n txs = sum_list (map (\<lambda>txflr. unat (32 - txflr) div n) txs)"

lemma round_bytes:
  assumes "0 < n"
  shows "tx_room txflr (n * k) div n = min (unat (32 - txflr) div n) k"
proof -
  have "tx_room txflr (n * k) = min (unat (32 - txflr)) (n * k)" by (simp add: tx_room_def Let_def min_def)
  moreover have "min r (n * k) div n = min (r div n) k" for r
  proof (cases "r \<le> n * k")
    case True
    then have "r div n \<le> n * k div n" by (rule div_le_mono)
    with True show ?thesis using assms by (simp add: min_def)
  next
    case False
    then have "k \<le> r div n" using assms by (simp add: less_eq_div_iff_mult_less_eq mult.commute)
    with False show ?thesis using assms by (simp add: min_def)
  qed
  ultimately show ?thesis by simp
qed

lemma next_frames_length [simp]: "length (fst (next_frames n mis junk a m i k)) = k"
  by (simp add: next_frames_def)

lemma next_frames_add:
  "next_frames n mis junk a m i (j + k) =
     (fst (next_frames n mis junk a m i j) @ fst (next_frames n mis junk a m (snd (next_frames n mis junk a m i j)) k),
      snd (next_frames n mis junk a m (snd (next_frames n mis junk a m i j)) k))"
proof -
  have split: "map f [0..<j + k] = map f [0..<j] @ map (\<lambda>x. f (j + x)) [0..<k]" for f :: "nat \<Rightarrow> u32"
    by (induction k) simp_all
  show ?thesis
    unfolding next_frames_def by (cases mis) (simp_all add: split add_mult_distrib2 add.assoc distrib_left)
qed

lemma send_rounds_frames:
  assumes "0 < n"
  shows "send_rounds n mis junk a m txs (n * k) i d =
    (if k \<le> frames_room n txs then Some (spi_put (map Dr (fst (next_frames n mis junk a m i k))) d) else None)"
proof (induction txs arbitrary: k i d)
  case Nil
  then show ?case using assms by (simp add: send_rounds.simps frames_room_def next_frames_def)
next
  case (Cons t txs)
  show ?case
  proof (cases "k = 0")
    case True
    then show ?thesis by (simp add: send_rounds.simps next_frames_def)
  next
    case False
    let ?c = "min (unat (32 - t) div n) k"
    obtain fr i' where f: "next_frames n mis junk a m i ?c = (fr, i')" by fastforce
    have len: "tx_room t (n * k) div n * n = n * ?c" using round_bytes [OF assms] by (simp add: mult.commute)
    have rest: "n * k - n * ?c = n * (k - ?c)" by (simp add: diff_mult_distrib2)
    have room: "k - min r k \<le> c \<longleftrightarrow> k \<le> r + c" for r c :: nat by (auto simp: min_def)
    have more: "frames_room n (t # txs) = unat (32 - t) div n + frames_room n txs" by (simp add: frames_room_def)
    have pos: "(n * k = 0) = False" using False assms by simp
    have "send_rounds n mis junk a m (t # txs) (n * k) i d = send_rounds n mis junk a m txs (n * (k - ?c)) i' (spi_put (map Dr fr) d)"
      using False assms f by (subst send_rounds.simps) (simp only: pos if_False list.case Let_def len rest, simp)
    also have "\<dots> = (if k - ?c \<le> frames_room n txs
        then Some (spi_put (map Dr (fr @ fst (next_frames n mis junk a m i' (k - ?c)))) d) else None)"
      by (simp only: Cons spi_put_put map_append)
    also have "fr @ fst (next_frames n mis junk a m i' (k - ?c)) = fst (next_frames n mis junk a m i k)"
      using next_frames_add [of n mis junk a m i ?c "k - ?c"] f by simp
    also have "k - ?c \<le> frames_room n txs \<longleftrightarrow> k \<le> frames_room n (t # txs)"
      by (simp only: room more)
    finally show ?thesis .
  qed
qed

text \<open>A length that is not a whole number of frames is never sent: the loop ends up asking for no frame at all.\<close>

lemma send_rounds_stuck:
  assumes "0 < n" "\<not> n dvd len"
  shows "send_rounds n mis junk a m txs len i d = None"
  using assms(2)
proof (induction txs arbitrary: len i d)
  case Nil
  then have "len \<noteq> 0" by (intro notI) simp
  then show ?case by (simp add: send_rounds.simps)
next
  case (Cons t txs)
  let ?f = "tx_room t len div n * n"
  have "len \<noteq> 0" using Cons.prems by (intro notI) simp
  have "?f \<le> len" by (rule order_trans [OF div_times_less_eq_dividend]) (simp add: tx_room_def Let_def)
  then have "\<not> n dvd (len - ?f)" using Cons.prems by (metis dvd_add dvd_triv_right le_add_diff_inverse2)
  then show ?case using Cons \<open>len \<noteq> 0\<close> by (subst send_rounds.simps) (auto simp: Let_def split: prod.split)
qed

lemma field_untouched:
  fixes c w v t :: u32
  assumes w: "\<And>j. bit w j \<Longrightarrow> j < 5" and t: "\<And>j. bit t j \<Longrightarrow> j < 2" and off: "p = 16 \<and> q = 8 \<or> p = 0 \<and> q = 10"
  shows "drop_bit p (set_bit c (push_bit q t) (push_bit q v)) AND w = drop_bit p c AND w"
proof (rule bit_word_eqI)
  fix n assume "n < LENGTH(32)"
  have "\<not> bit (push_bit q t) (p + n)" if "bit w n"
    using w [OF that] t [of "p + n - q"] off by (auto simp: bit_push_bit_iff)
  then show "bit (drop_bit p (set_bit c (push_bit q t) (push_bit q v)) AND w) n = bit (drop_bit p c AND w) n"
    using \<open>n < LENGTH(32)\<close> by (auto simp: set_bit_def Let_def bit_and_iff bit_or_iff bit_not_iff bit_drop_bit_eq dest: bit_imp_le_length)
qed

text \<open>Setting the transfer mode keeps the width of the frames.\<close>

lemma set_tmod_frame_width:
  assumes "spi_master spi_num" "spi_set_tmod spi_num t d = Some d'"
  shows "frame_width spi_num d' = frame_width spi_num d" "spi_log d' = spi_log d"
proof -
  have d': "d' = d\<lparr>ctrlr0 := set_bit (ctrlr0 d) (push_bit (tmod_offset spi_num) 3) (push_bit (tmod_offset spi_num) (tmod_val t))\<rparr>"
    using assms(2) by (simp add: spi_set_tmod_def split: if_splits)
  have off: "(dfs_offset spi_num = 16 \<and> tmod_offset spi_num = 8) \<or> (dfs_offset spi_num = 0 \<and> tmod_offset spi_num = 10)"
    using assms(1) by (auto simp: spi_master_def dfs_offset_def tmod_offset_def)
  have low: "bit (0x1F :: u32) j \<longleftrightarrow> j < 5" for j
  proof -
    have "(0x1F :: u32) = mask 5" by (simp add: mask_eq_exp_minus_1)
    then show ?thesis by (simp only: bit_mask_iff possible_bit_word) auto
  qed
  have three: "bit (3 :: u32) j \<longleftrightarrow> j < 2" for j
  proof -
    have "(3 :: u32) = mask 2" by (simp add: mask_eq_exp_minus_1)
    then show ?thesis by (simp only: bit_mask_iff possible_bit_word) auto
  qed
  have "drop_bit (dfs_offset spi_num) (ctrlr0 d') AND 0x1F = drop_bit (dfs_offset spi_num) (ctrlr0 d) AND 0x1F"
    unfolding d' by (simp, rule field_untouched [OF _ _ off]) (simp_all only: low three)
  then show "frame_width spi_num d' = frame_width spi_num d" by (simp add: frame_width_def)
  show "spi_log d' = spi_log d" by (simp add: d')
qed

lemma frame_width_pos: "frame_width spi_num d \<in> {1, 2, 4}"
  by (auto simp: frame_width_def spi_get_frame_size_def Let_def)

text \<open>C26.  A master sends a buffer by the processor exactly when its length is a whole number of frames, the FIFO has made room for
  them and the controller becomes idle; then the frames of the buffer, and only they, stand in the data register
  between the select of the slave and its release, whether the buffer is aligned or not.  With any other length the
  function never returns, however the controller answers.\<close>

theorem spi_send_frames:
  assumes "spi_master spi_num"
  shows "let n = frame_width spi_num d; k = len div n; r = spi_send_data_normal junk txs srs spi_num cs a len (m, d) in
    (r \<noteq> None \<longleftrightarrow> n dvd len \<and> k \<le> frames_room n txs \<and> until_idle srs \<noteq> None) \<and>
    (\<forall>d'. r = Some d' \<longrightarrow> (\<exists>fs. map (take_bit (8 * n)) fs = load_array n a k m \<and>
       spi_log d' = spi_log d @ Ssienr 1 # Ser (push_bit cs 1) # map Dr fs @ [Ser 0, Ssienr 0]))"
proof -
  let ?n = "frame_width spi_num d"
  let ?k = "len div ?n"
  have n: "0 < ?n" using frame_width_pos [of spi_num d] by auto
  obtain d1 where t: "spi_set_tmod spi_num SPI_TMOD_TRANS d = Some d1"
    using assms by (simp add: spi_set_tmod_def spi_master_def)
  note w = set_tmod_frame_width [OF assms t]
  let ?d = "set_ser (push_bit cs 1) (set_ssienr 1 d1)"
  let ?mis = "a mod int ?n \<noteq> 0"
  let ?fs = "fst (next_frames ?n ?mis junk a m 0 ?k)"
  have rounds: "send_rounds ?n ?mis junk a m txs len 0 ?d =
      (if ?n dvd len \<and> ?k \<le> frames_room ?n txs then Some (spi_put (map Dr ?fs) ?d) else None)"
    using send_rounds_frames [OF n, of ?mis junk a m txs ?k 0 ?d] send_rounds_stuck [OF n, of len ?mis junk a m txs 0 ?d]
    by (cases "?n dvd len") auto
  have r: "spi_send_data_normal junk txs srs spi_num cs a len (m, d) =
      (if ?n dvd len \<and> ?k \<le> frames_room ?n txs \<and> until_idle srs \<noteq> None
       then Some (set_ssienr 0 (set_ser 0 (spi_put (map Dr ?fs) ?d))) else None)"
    using assms by (cases "until_idle srs") (simp_all add: spi_send_data_normal_def t w Let_def rounds del: push_bit_of_1)
  have "take_bit (8 * ?n) (load_le ?n x m OR push_bit (8 * ?n) junk) = load_le ?n x m" for x
    by (rule bit_word_eqI) (auto simp: bit_take_bit_iff bit_or_iff bit_push_bit_iff load_le_bit)
  then have "map (take_bit (8 * ?n)) ?fs = load_array ?n a ?k m"
    by (simp add: next_frames_def load_array_def load_le_fits)
  then show ?thesis unfolding Let_def r by (auto simp: w simp del: push_bit_of_1 intro: exI [of _ ?fs])
qed

lemma spi_send_frames_witness:
  "\<forall>d. let d = d\<lparr>ctrlr0 := 0xF0000, spi_log := []\<rparr>; send = (\<lambda>len. spi_send_data_normal 0xBEEF [31, 30, 28] [1, 4] 0 2 1 len (word_of_int, d))
   in (\<exists>d'. send 4 = Some d') \<and> send 3 = None"
proof
  fix d :: spi_t
  let ?d = "d\<lparr>ctrlr0 := 0xF0000, spi_log := []\<rparr>"
  have m: "spi_master 0" by (simp add: spi_master_def)
  have n: "frame_width 0 ?d = 2" by (simp add: frame_width_def spi_get_frame_size_def dfs_offset_def Let_def)
  have room: "2 \<le> frames_room 2 [31, 30, 28]" "until_idle [1, 4] = Some ()" by (simp_all add: frames_room_def)
  from spi_send_frames [OF m, of ?d 4 "0xBEEF" "[31, 30, 28]" "[1, 4]" 2 1 word_of_int]
    spi_send_frames [OF m, of ?d 3 "0xBEEF" "[31, 30, 28]" "[1, 4]" 2 1 word_of_int]
  show "let d = ?d; send = (\<lambda>len. spi_send_data_normal 0xBEEF [31, 30, 28] [1, 4] 0 2 1 len (word_of_int, d))
   in (\<exists>d'. send 4 = Some d') \<and> send 3 = None"
    using room by (simp add: n Let_def)
qed

subsection \<open>What the fetching loop stores\<close>

lemma fetch_rounds_take:
  "fetch_rounds rxs rxd k = Some ws \<Longrightarrow> ws = take k rxd \<and> length ws = k"
proof (induction rxs rxd k arbitrary: ws rule: fetch_rounds.induct)
  case (1 rxs rxd k)
  show ?case
  proof (cases "k = 0")
    case True
    then show ?thesis using "1.prems" by (simp add: fetch_rounds.simps)
  next
    case False
    then obtain r rs where rxs: "rxs = r # rs" using "1.prems" by (cases rxs) (simp_all add: fetch_rounds.simps)
    let ?f = "if unat r < k then unat r else k"
    obtain vs where f: "\<not> length rxd < ?f" "fetch_rounds rs (drop ?f rxd) (k - ?f) = Some vs" "ws = take ?f rxd @ vs"
      using "1.prems" False by (subst (asm) fetch_rounds.simps) (auto simp: rxs Let_def split: if_splits)
    have "vs = take (k - ?f) (drop ?f rxd) \<and> length vs = k - ?f"
      using "1.IH" [OF False rxs refl f(1) f(2)] .
    then have "ws = take (?f + (k - ?f)) rxd" "length ws = ?f + (k - ?f)" using f(1,3) by (simp_all only: take_add length_append length_take) auto
    then show ?thesis by simp
  qed
qed

definition sent_words :: "spi_access list \<Rightarrow> u32 list" where
  "sent_words l = concat (map (\<lambda>x. case x of Dr w \<Rightarrow> [w] | _ \<Rightarrow> []) l)"

lemma sent_words_simps [simp]:
  "sent_words [] = []" "sent_words (l @ l') = sent_words l @ sent_words l'" "sent_words (map Dr ws) = ws"
  "sent_words (Dr w # l) = w # sent_words l" "sent_words (Ser v # l) = sent_words l" "sent_words (Ssienr v # l) = sent_words l"
  by (induction ws) (simp_all add: sent_words_def)

lemma command_rounds_words:
  "command_rounds sel txs cmd d = Some d' \<Longrightarrow> sent_words (spi_log d') = sent_words (spi_log d) @ cmd \<and> ctrlr1 d' = ctrlr1 d"
proof (induction sel txs cmd d rule: command_rounds.induct)
  case (3 sel txflr txs c cs d)
  then show ?case by (auto simp: Let_def spi_put_def set_ser_def)
qed simp_all

text \<open>A receive by the processor that returns has sent the command in order, told the controller the number of frames less one, and
  stored the first frames that came in, cut to their width, and nothing else.\<close>

lemma spi_receive_frames:
  assumes r: "spi_receive_data_standard txs rxs rxd spi_num cs cmd cmd_len rx rx_len (m, d) = Some (m', d')"
    and n: "n = frame_width spi_num d" and small: "rx_len div n < 2 ^ 32"
  shows "load_array n rx (rx_len div n) m' = map (take_bit (8 * n)) (take (rx_len div n) rxd) \<and>
    (x < rx \<or> rx + int (n * (rx_len div n)) \<le> x \<longrightarrow> m' x = m x) \<and> ctrlr1 d' = word_of_nat (rx_len div n) - 1 \<and>
    sent_words (spi_log d') = sent_words (spi_log d) @ load_array n cmd (cmd_len div n) m @ (if cmd_len = 0 then [0xFFFFFFFF] else [])"
proof -
  have ms: "spi_master spi_num" using r by (auto simp: spi_receive_data_standard_def split: if_splits)
  let ?t = "if cmd_len = 0 then SPI_TMOD_RECV else SPI_TMOD_EEROM"
  obtain d1 where t: "spi_set_tmod spi_num ?t d = Some d1" using ms by (simp add: spi_set_tmod_def spi_master_def)
  note w = set_tmod_frame_width [OF ms t]
  have u: "unat (word_of_nat (rx_len div n) :: u32) = rx_len div n" using small by (simp add: unat_of_nat_small)
  obtain d2 ws where c: "command_rounds (push_bit cs 1) txs (load_array n cmd (cmd_len div n) m) (set_ssienr 1 (d1\<lparr>ctrlr1 := word_of_nat (rx_len div n) - 1\<rparr>)) = Some d2"
    and f: "fetch_rounds rxs rxd (rx_len div n) = Some ws" and m': "m' = store_array n rx ws m"
    and d': "d' = set_ssienr 0 (set_ser 0 (if cmd_len = 0 then set_ser (push_bit cs 1) (spi_put [Dr 0xFFFFFFFF] d2) else d2))"
    using r ms t by (auto simp: spi_receive_data_standard_def w(1) n [symmetric] Let_def u Option.bind_eq_Some_conv simp del: push_bit_of_1)
  note ws = fetch_rounds_take [OF f]
  have "load_array n rx (rx_len div n) m' = map (take_bit (8 * n)) ws" using load_store_array [of n rx ws m] by (simp only: m' conjunct2 [OF ws])
  moreover have "x < rx \<or> rx + int (n * (rx_len div n)) \<le> x \<longrightarrow> m' x = m x" using store_array_outside [of x rx n ws m] ws m' by auto
  moreover have "sent_words (spi_log d2) = sent_words (spi_log d) @ load_array n cmd (cmd_len div n) m \<and> ctrlr1 d2 = word_of_nat (rx_len div n) - 1"
    using command_rounds_words [OF c] w(2) by (simp add: set_ssienr_def spi_put_def)
  ultimately show ?thesis using ws by (auto simp: d' spi_put_def set_ser_def set_ssienr_def)
qed

subsection \<open>The interrupt at the end of a transfer\<close>

text \<open>Nothing in the driver assigns \<open>spi_num\<close> of an instance: the static array starts as zeros.\<close>

lemma start_irq_inst:
  "snd (snd (spi_start_irq core dma_cb n ch (Some c) (w, p, inst))) = inst(n := (inst n)\<lparr>si_dmac_channel := ch\<rparr>)"
  by (simp add: spi_start_irq_def split_beta Let_def)

lemma handle_leaves_selected:
  assumes "spi_handle_data_dma hw brk core dma_cb srs n cs data (Some c) (sy, w, p, spi, inst) = Some (sy', w', p', spi', inst')"
  shows "ser (spi' n) = push_bit cs 1 \<and> ssienr (spi' n) = 1 \<and> si_lock (inst' n) \<and> si_num (inst' k) = si_num (inst k) \<and>
    si_callback (inst' n) = pi_callback c \<and> si_ctx (inst' n) = pi_ctx c \<and>
    (\<forall>j. j \<noteq> n \<longrightarrow> spi' j = spi j)"
proof -
  note d = spi_handle_data_dma_def Let_def Option.bind_eq_Some_conv spi_put_def set_ser_def set_ssienr_def
  show ?thesis
    using assms
    by (cases "sd_transfer_mode data")
      (clarsimp simp: d split_beta start_irq_inst simp del: push_bit_of_1 split: if_splits; auto simp del: push_bit_of_1)+
qed

text \<open>The interrupt at the end of a DMA transfer finds its controller through \<open>spi_num\<close> of the instance, which nothing sets:
  after a transfer with a callback on the device 1 or 3 it waits for device 0, deselects and disables device 0, and
  leaves the controller that did the transfer enabled with its slave selected; the lock is released and the callback
  reported all the same.\<close>

lemma spi_irq_finishes_device_0:
  assumes boot: "\<forall>k. si_num (inst k) = 0" and n: "n \<noteq> 0"
    and start: "spi_handle_data_dma hw brk core dma_cb srs n cs data (Some c) (sy, w, p, spi, inst) = Some (sy1, w1, p1, spi1, inst1)"
    and irq: "spi_dma_irq core srs' n (sy1, w1, p1, spi1, inst1) = Some (told, sy2, w2, p2, spi2, inst2)"
  shows "ser (spi2 n) = push_bit cs 1 \<and> ssienr (spi2 n) = 1 \<and> ser (spi2 0) = 0 \<and> ssienr (spi2 0) = 0 \<and>
    \<not> si_lock (inst2 n) \<and> told = map_option (\<lambda>f. (f, pi_ctx c)) (pi_callback c)"
proof -
  note h = handle_leaves_selected [OF start]
  have "si_num (inst1 n) = 0" using h [of n] boot by simp
  then show ?thesis
    using irq h [of n] n
    by (auto simp: spi_dma_irq_def Let_def Option.bind_eq_Some_conv set_ser_def set_ssienr_def spi_put_def split_beta simp del: push_bit_of_1)
qed

definition demo_data :: spi_data where
  "demo_data = \<lparr>sd_tx_channel = 2, sd_rx_channel = 3, sd_tx_buf = 0x40001000, sd_tx_len = 4, sd_rx_buf = 0, sd_rx_len = 0,
     sd_transfer_mode = SPI_TMOD_TRANS, sd_fill_mode = False\<rparr>"

lemma demo_start:
  "\<exists>w'. dma_to_dr (\<lambda>w. w) (\<lambda>n l. l) 2 1 0x40001000 DMAC_ADDR_INCREMENT DMAC_MSIZE_4 4 (fst (dmac_irq_register 0 2 (Some cb) 1 1 (demo_dma, p))) = Some w'"
  apply (simp add: dma_to_dr_def dmac_set_single_mode_def dmac_wait_idle_def dmac_poll_idle.simps dmac_is_idle_def dmac_channel_disable_def dmac_channel_interrupt_clear_def dmac_irq_register_def Let_def demo_dma_def upd_chan_def upd_regs_def upd_context_def dmac_enable_channel_interrupt_def dmac_set_channel_param_def is_memory_cache_def is_memory_def bounce_src_def bounce_dest_def dr_addr_def)
  done

lemma spi_irq_finishes_device_0_witness:
  "\<forall>(sy :: sysctl) (spi :: nat \<Rightarrow> spi_t) (inst :: nat \<Rightarrow> nat spi_instance).
     let inst = (\<lambda>k. (inst k)\<lparr>si_num := 0, si_lock := False\<rparr>);
         s1 = the (spi_handle_data_dma (\<lambda>w. w) (\<lambda>n l. l) 0 True [] 1 2 demo_data (Some \<lparr>pi_callback = Some 7, pi_ctx = 9, pi_priority = 1\<rparr>)
                    (sy, demo_dma, plic_blank :: unit dma_handler plic, spi, inst));
         (told, sy2, w2, p2, spi2, inst2) = the (spi_dma_irq 0 [4] 1 s1)
     in told = Some (7, 9) \<and> ser (spi2 1) = 4 \<and> ssienr (spi2 1) = 1 \<and> ssienr (spi2 0) = 0"
proof (intro allI)
  fix sy :: sysctl and spi :: "nat \<Rightarrow> spi_t" and inst0 :: "nat \<Rightarrow> nat spi_instance"
  let ?inst = "\<lambda>k. (inst0 k)\<lparr>si_num := 0, si_lock := False\<rparr>"
  let ?c = "\<lparr>pi_callback = Some (7 :: nat), pi_ctx = 9, pi_priority = 1\<rparr> :: nat plic_interrupt"
  have ex: "\<exists>sy1 w1 p1 spi1 inst1. spi_handle_data_dma (\<lambda>w. w) (\<lambda>n l. l) 0 True [] 1 2 demo_data (Some ?c)
      (sy, demo_dma, plic_blank :: unit dma_handler plic, spi, ?inst) = Some (sy1, w1, p1, spi1, inst1)"
    using demo_start [of True "plic_blank :: unit dma_handler plic"]
    by (auto simp: spi_handle_data_dma_def demo_data_def data_ok_def spi_master_def spi_set_tmod_def spi_start_irq_def split_beta Let_def)
  then obtain sy1 w1 p1 spi1 inst1 where start: "spi_handle_data_dma (\<lambda>w. w) (\<lambda>n l. l) 0 True [] 1 2 demo_data (Some ?c)
      (sy, demo_dma, plic_blank :: unit dma_handler plic, spi, ?inst) = Some (sy1, w1, p1, spi1, inst1)" by auto
  obtain told sy2 w2 p2 spi2 inst2 where irq: "spi_dma_irq 0 [4] 1 (sy1, w1, p1, spi1, inst1) = Some (told, sy2, w2, p2, spi2, inst2)"
    by (simp add: spi_dma_irq_def split_beta Let_def)
  show "let inst = ?inst;
         s1 = the (spi_handle_data_dma (\<lambda>w. w) (\<lambda>n l. l) 0 True [] 1 2 demo_data (Some ?c) (sy, demo_dma, plic_blank :: unit dma_handler plic, spi, inst));
         (told, sy2, w2, p2, spi2, inst2) = the (spi_dma_irq 0 [4] 1 s1)
     in told = Some (7, 9) \<and> ser (spi2 1) = 4 \<and> ssienr (spi2 1) = 1 \<and> ssienr (spi2 0) = 0"
    using spi_irq_finishes_device_0 [OF _ _ start irq] by (simp add: start irq Let_def push_bit_eq_mult del: One_nat_def)
qed

end
