(* ===== verification/Spi_Slave.thy ===== *)
theory Spi_Slave
  imports Spi
begin

text \<open>
  The slave of \<open>lib/drivers/spi.c\<close>: a state machine driven by the interrupt of the chip select pin.  In \<open>IDLE\<close> eight
  frames are a command; a valid command starts a transfer and pulls the ready pin low; the next interrupt ends the transfer.
  The driver's instance stands beside everything it works on: the controller, the two pin drivers, the system controller, the
  DMA world.  What the controller answers in one interrupt is input (\<open>slave_in\<close>): the levels of the FIFOs where they are
  read, and the words that \<open>dr\<close> delivers.  \<open>None\<close> is a failed assertion or a wait for the DMA controller.  The user's
  callback is reported with the command it is given; it does not work on the driver's state.
\<close>

subsection \<open>State\<close>

datatype spi_slave_status = IDLE | COMMAND | TRANSFER
datatype slave_handler = Spi_slave_cs_irq

definition WRITE_CONFIG :: u8 where [simp]: "WRITE_CONFIG = 0"
definition READ_CONFIG :: u8 where [simp]: "READ_CONFIG = 1"
definition WRITE_DATA_BYTE :: u8 where [simp]: "WRITE_DATA_BYTE = 2"
definition READ_DATA_BYTE :: u8 where [simp]: "READ_DATA_BYTE = 3"
definition WRITE_DATA_BLOCK :: u8 where [simp]: "WRITE_DATA_BLOCK = 4"
definition READ_DATA_BLOCK :: u8 where [simp]: "READ_DATA_BLOCK = 5"
definition FUNC_SPI_SLAVE_D0 :: nat where "FUNC_SPI_SLAVE_D0 = 84"

record spi_slave_command =
  sc_cmd :: u8
  sc_err :: u8
  sc_addr :: u32
  sc_len :: u32

record 'u spi_slave_instance =
  int_pin :: nat
  ready_pin :: nat
  sl_channel :: nat
  dfs :: nat
  slv_oe :: nat
  sl_work_mode :: nat
  data_bits :: nat
  status :: spi_slave_status
  command :: spi_slave_command
  config_ptr :: int
  config_len :: u32
  sl_callback :: "'u option"
  is_dual :: bool
  mosi_pin :: int
  miso_pin :: int

record ('cb, 'u) spi_slave =
  g :: "'u spi_slave_instance"
  dev :: spi_t
  pads :: fpioa
  pins :: "slave_handler gpiohs_driver"
  lines :: "gpiohs_handler plic"
  sysc :: sysctl
  dmas :: "'cb dma"

record slave_in =
  in_rxflr :: u32
  in_transfer_rxflr :: u32
  in_txflr :: u32
  in_dr :: "nat \<Rightarrow> u32"

definition set_ready :: "u32 \<Rightarrow> ('cb, 'u) spi_slave \<Rightarrow> ('cb, 'u) spi_slave option" where
  "set_ready v s = map_option (\<lambda>h. s\<lparr>pins := (pins s)\<lparr>hs := h\<rparr>\<rparr>) (gpiohs_set_pin (ready_pin (g s)) v (hs (pins s)))"

text \<open>\<open>ctrlr0\<close> of the slave: output off or on, and the frame length.\<close>

definition slave_ctrlr0 :: "u32 \<Rightarrow> nat \<Rightarrow> 'u spi_slave_instance \<Rightarrow> u32" where
  "slave_ctrlr0 oe_off bits i =
     push_bit (sl_work_mode i) 0 OR push_bit (slv_oe i) oe_off OR push_bit (dfs i) (word_of_nat (bits - 1))"

definition pad_to_d0 :: "int \<Rightarrow> ('cb, 'u) spi_slave \<Rightarrow> ('cb, 'u) spi_slave" where
  "pad_to_d0 pin s = (if is_dual (g s) then s\<lparr>pads := snd (fpioa_set_function pin FUNC_SPI_SLAVE_D0 (pads s))\<rparr> else s)"

definition upd_g :: "('u spi_slave_instance \<Rightarrow> 'u spi_slave_instance) \<Rightarrow> ('cb, 'u) spi_slave \<Rightarrow> ('cb, 'u) spi_slave" where
  "upd_g f s = s\<lparr>g := f (g s)\<rparr>"

definition upd_dev :: "(spi_t \<Rightarrow> spi_t) \<Rightarrow> ('cb, 'u) spi_slave \<Rightarrow> ('cb, 'u) spi_slave" where
  "upd_dev f s = s\<lparr>dev := f (dev s)\<rparr>"

definition upd_mem :: "(memory \<Rightarrow> memory) \<Rightarrow> ('cb, 'u) spi_slave \<Rightarrow> ('cb, 'u) spi_slave" where
  "upd_mem f s = s\<lparr>dmas := (dmas s)\<lparr>mem := f (mem (dmas s))\<rparr>\<rparr>"

subsection \<open>The three modes\<close>

definition spi_slave_idle_mode :: "('cb, 'u) spi_slave \<Rightarrow> ('cb, 'u) spi_slave option" where
  "spi_slave_idle_mode s =
     (let s = pad_to_d0 (mosi_pin (g s)) s;
          s = upd_g (\<lambda>i. i\<lparr>status := IDLE\<rparr>) s;
          s = upd_dev (set_ssienr 0) s;
          s = upd_dev (\<lambda>d. d\<lparr>ctrlr0 := slave_ctrlr0 1 (data_bits (g s)) (g s), dmacr := 0\<rparr>) s;
          s = upd_dev (set_ssienr 1) s
      in set_ready 1 s)"

text \<open>The eight bytes of a command, \<open>n\<close> bytes from each word; their sum is taken in a byte.\<close>

definition cmd_data :: "nat \<Rightarrow> (nat \<Rightarrow> u32) \<Rightarrow> nat \<Rightarrow> u8" where
  "cmd_data n dr k = byte_of (dr (k div n)) (k mod n)"

definition cmd_sum :: "(nat \<Rightarrow> u8) \<Rightarrow> u8" where
  "cmd_sum c = sum_list (map c [0..<7])"

definition cmd_addr :: "(nat \<Rightarrow> u8) \<Rightarrow> u32" where
  "cmd_addr c = ucast (c 1) OR push_bit 8 (ucast (c 2)) OR push_bit 16 (ucast (c 3)) OR push_bit 24 (ucast (c 4))"

definition cmd_len :: "(nat \<Rightarrow> u8) \<Rightarrow> u32" where
  "cmd_len c = (let l = ucast (c 5) OR push_bit 8 (ucast (c 6)) in if l = 0 then 65536 else l)"

definition slave_frame :: "('cb, 'u) spi_slave \<Rightarrow> nat" where
  "slave_frame s = frame_bytes (spi_get_frame_size (data_bits (g s) - 1))"

text \<open>Reading: the output is switched on and the frames of \<open>p\<close> are put into the FIFO.\<close>

definition start_reading :: "int \<Rightarrow> ('cb, 'u) spi_slave \<Rightarrow> ('cb, 'u) spi_slave option" where
  "start_reading p s = do {
     let s = pad_to_d0 (miso_pin (g s)) s;
     d \<leftarrow> spi_set_tmod 2 SPI_TMOD_TRANS ((dev s)\<lparr>ctrlr0 := slave_ctrlr0 0 (data_bits (g s)) (g s)\<rparr>);
     let n = slave_frame s;
     let frames = load_array n p (unat (sc_len (command (g s))) div n) (mem (dmas s));
     Some (s\<lparr>dev := spi_put (map Dr frames) (set_ssienr 1 d)\<rparr>) }"

definition start_writing :: "('cb, 'u) spi_slave \<Rightarrow> ('cb, 'u) spi_slave" where
  "start_writing s = upd_dev (\<lambda>d. set_ssienr 1 (d\<lparr>ctrlr0 := slave_ctrlr0 1 (data_bits (g s)) (g s)\<rparr>)) s"

definition block_addr :: "u32 \<Rightarrow> int" where "block_addr a = uint (a AND 0xFFFFFFF0)"

definition start_write_block ::
  "('cb dma \<Rightarrow> 'cb dma) \<Rightarrow> (int \<Rightarrow> int \<Rightarrow> int) \<Rightarrow> ('cb, 'u) spi_slave \<Rightarrow> ('cb, 'u) spi_slave option" where
  "start_write_block hw brk s = do {
     let s = upd_dev (\<lambda>d. set_ssienr 1 (d\<lparr>ctrlr0 := slave_ctrlr0 1 32 (g s), dmacr := 1\<rparr>)) s;
     let ch = sl_channel (g s);
     let s = s\<lparr>sysc := spi_dma_select ch SYSCTL_DMA_SELECT_SSI0_RX_REQ 2 (sysc s)\<rparr>;
     w \<leftarrow> dmac_set_single_mode hw brk ch (dr_addr 2) (block_addr (sc_addr (command (g s)))) DMAC_ADDR_NOCHANGE DMAC_ADDR_INCREMENT
           DMAC_MSIZE_4 DMAC_TRANS_WIDTH_32 (ucast (sc_len (command (g s)) * 4)) (dmas s);
     Some (s\<lparr>dmas := w\<rparr>) }"

definition start_read_block ::
  "('cb dma \<Rightarrow> 'cb dma) \<Rightarrow> (int \<Rightarrow> int \<Rightarrow> int) \<Rightarrow> ('cb, 'u) spi_slave \<Rightarrow> ('cb, 'u) spi_slave option" where
  "start_read_block hw brk s = do {
     let s = pad_to_d0 (miso_pin (g s)) s;
     d \<leftarrow> spi_set_tmod 2 SPI_TMOD_TRANS ((dev s)\<lparr>ctrlr0 := slave_ctrlr0 0 32 (g s)\<rparr>);
     let s = s\<lparr>dev := set_ssienr 1 (d\<lparr>dmacr := 2\<rparr>)\<rparr>;
     let ch = sl_channel (g s);
     let s = s\<lparr>sysc := spi_dma_select ch SYSCTL_DMA_SELECT_SSI0_TX_REQ 2 (sysc s)\<rparr>;
     w \<leftarrow> dmac_set_single_mode hw brk ch (block_addr (sc_addr (command (g s)))) (dr_addr 2) DMAC_ADDR_INCREMENT DMAC_ADDR_NOCHANGE
           DMAC_MSIZE_4 DMAC_TRANS_WIDTH_32 (ucast (sc_len (command (g s)) * 4)) (dmas s);
     Some (s\<lparr>dmas := w\<rparr>) }"

definition spi_slave_command_mode ::
  "('cb dma \<Rightarrow> 'cb dma) \<Rightarrow> (int \<Rightarrow> int \<Rightarrow> int) \<Rightarrow> slave_in \<Rightarrow> ('cb, 'u) spi_slave \<Rightarrow> ('cb, 'u) spi_slave option" where
  "spi_slave_command_mode hw brk i s =
     (let c = cmd_data (slave_frame s) (in_dr i) in
      if c 7 \<noteq> cmd_sum c then spi_slave_idle_mode s
      else
       (let s = upd_g (\<lambda>x. x\<lparr>command := (command x)\<lparr>sc_cmd := c 0, sc_addr := cmd_addr c, sc_len := cmd_len c\<rparr>\<rparr>) s in
        if c 0 < WRITE_DATA_BLOCK \<and> cmd_len c > 8 then spi_slave_idle_mode s
        else
         (let s = upd_dev (set_ssienr 0) (upd_g (\<lambda>x. x\<lparr>status := TRANSFER\<rparr>) s);
              started =
                (if c 0 = WRITE_CONFIG then Some (Some (start_writing s))
                 else if c 0 = READ_CONFIG then map_option Some (start_reading (config_ptr (g s) + uint (cmd_addr c)) s)
                 else if c 0 = WRITE_DATA_BYTE then Some (Some (start_writing s))
                 else if c 0 = READ_DATA_BYTE then map_option Some (start_reading (uint (cmd_addr c)) s)
                 else if c 0 = WRITE_DATA_BLOCK then map_option Some (start_write_block hw brk s)
                 else if c 0 = READ_DATA_BLOCK then map_option Some (start_read_block hw brk s)
                 else Some None)
          in case started of None \<Rightarrow> None | Some None \<Rightarrow> spi_slave_idle_mode s | Some (Some s) \<Rightarrow> set_ready 0 s)))"

definition spi_slave_transfer_mode ::
  "('cb dma \<Rightarrow> 'cb dma) \<Rightarrow> (int \<Rightarrow> int \<Rightarrow> int) \<Rightarrow> slave_in \<Rightarrow> ('cb, 'u) spi_slave \<Rightarrow>
   (('u \<times> spi_slave_command) option \<times> ('cb, 'u) spi_slave) option" where
  "spi_slave_transfer_mode hw brk i s =
     (let n = slave_frame s; k = command (g s); cmd = sc_cmd k; command_len = sc_len k div word_of_nat n; ch = sl_channel (g s);
          checked =
            (if cmd = WRITE_CONFIG \<or> cmd = WRITE_DATA_BYTE then Some (Some (if in_transfer_rxflr i < command_len - 1 then 1 else 0, s))
             else if cmd = READ_CONFIG \<or> cmd = READ_DATA_BYTE then Some (Some (if in_txflr i \<noteq> 0 then 2 else 0, s))
             else if cmd = WRITE_DATA_BLOCK \<or> cmd = READ_DATA_BLOCK then
               (let late = (dmac_is_done ch (dmas s) = 0);
                    w = (if late then dmac_channel_disable ch (dmas s) else dmas s)
                in map_option (\<lambda>w. Some (if late then 3 else 0, s\<lparr>dmas := w\<rparr>)) (dmac_wait_done hw brk ch w))
             else Some None)
      in case checked of
        None \<Rightarrow> None
      | Some None \<Rightarrow> map_option (Pair None) (spi_slave_idle_mode (upd_g (\<lambda>x. x\<lparr>command := k\<lparr>sc_err := 0\<rparr>\<rparr>) s))
      | Some (Some (err, s)) \<Rightarrow>
         (let s = upd_g (\<lambda>x. x\<lparr>command := k\<lparr>sc_err := err\<rparr>\<rparr>) s;
              words = map (in_dr i) [0..<unat command_len];
              s = (if err \<noteq> 0 then s
                   else if cmd = WRITE_CONFIG then upd_mem (store_array n (config_ptr (g s) + uint (sc_addr k)) words) s
                   else if cmd = WRITE_DATA_BYTE then upd_mem (store_array n (uint (sc_addr k)) words) s
                   else s)
          in map_option (Pair (map_option (\<lambda>f. (f, command (g s))) (sl_callback (g s)))) (spi_slave_idle_mode s)))"

definition spi_slave_cs_irq ::
  "('cb dma \<Rightarrow> 'cb dma) \<Rightarrow> (int \<Rightarrow> int \<Rightarrow> int) \<Rightarrow> slave_in \<Rightarrow> ('cb, 'u) spi_slave \<Rightarrow>
   (('u \<times> spi_slave_command) option \<times> ('cb, 'u) spi_slave) option" where
  "spi_slave_cs_irq hw brk i s =
     (let s = (if status (g s) = IDLE \<and> in_rxflr i = 8 then upd_g (\<lambda>x. x\<lparr>status := COMMAND\<rparr>) s else s) in
      case status (g s) of
        IDLE \<Rightarrow> map_option (Pair None) (spi_slave_idle_mode s)
      | COMMAND \<Rightarrow> map_option (Pair None) (spi_slave_command_mode hw brk i s)
      | TRANSFER \<Rightarrow> spi_slave_transfer_mode hw brk i s)"

text \<open>Frames of less than a byte divide by zero, which is \<open>None\<close>.\<close>

definition spi_slave_config ::
  "nat \<Rightarrow> nat \<Rightarrow> nat \<Rightarrow> nat \<Rightarrow> nat \<Rightarrow> int \<Rightarrow> u32 \<Rightarrow> 'u option \<Rightarrow> ('cb, 'u) spi_slave \<Rightarrow> ('cb, 'u) spi_slave option" where
  "spi_slave_config core intp ready ch bits data len callback s =
     (let s = upd_g (\<lambda>x. x\<lparr>status := IDLE, config_ptr := data, config_len := len, sl_work_mode := 6, slv_oe := 10, dfs := 16,
                data_bits := bits, ready_pin := ready, int_pin := intp, sl_callback := callback, sl_channel := ch, is_dual := False\<rparr>) s;
          sy = sysctl_reset SYSCTL_RESET_SPI2 (sysc s);
          sy = snd (sysctl_clock_enable SYSCTL_CLOCK_SPI2 sy);
          s = s\<lparr>sysc := snd (sysctl_clock_set_threshold SYSCTL_THRESHOLD_SPI2 0 sy)\<rparr>;
          data_width = bits div 8
      in if data_width = 0 then None
         else do {
           let s = upd_dev (set_ssienr 0) s;
           let s = upd_dev (\<lambda>d. d\<lparr>ctrlr0 := slave_ctrlr0 1 bits (g s), dmatdlr := 4, dmardlr := 3, dmacr := 0, txftlr := 0,
                     rxftlr := word_of_nat (8 div data_width) - 1, imr := 0\<rparr>) s;
           let s = upd_dev (set_ssienr 1) s;
           (fp, h) \<leftarrow> gpiohs_set_drive_mode ready GPIO_DM_OUTPUT (pads s, hs (pins s));
           s \<leftarrow> set_ready 1 (s\<lparr>pads := fp, pins := (pins s)\<lparr>hs := h\<rparr>\<rparr>);
           (fp, h) \<leftarrow> gpiohs_set_drive_mode intp GPIO_DM_INPUT_PULL_UP (pads s, hs (pins s));
           let p = gpiohs_set_pin_edge intp GPIO_PE_RISING ((pins s)\<lparr>hs := h\<rparr>);
           let (p, l) = gpiohs_set_irq core intp 3 (Some Spi_slave_cs_irq) (p, lines s);
           Some (s\<lparr>pads := fp, pins := p, lines := l\<rparr>) })"

definition spi_slave_dual_config ::
  "nat \<Rightarrow> nat \<Rightarrow> nat \<Rightarrow> int \<Rightarrow> int \<Rightarrow> nat \<Rightarrow> nat \<Rightarrow> int \<Rightarrow> u32 \<Rightarrow> 'u option \<Rightarrow> ('cb, 'u) spi_slave \<Rightarrow> ('cb, 'u) spi_slave option" where
  "spi_slave_dual_config core intp ready mosi miso ch bits data len callback s =
     map_option (upd_g (\<lambda>x. x\<lparr>is_dual := True, mosi_pin := mosi, miso_pin := miso\<rparr>))
       (spi_slave_config core intp ready ch bits data len callback s)"

subsection \<open>The protocol\<close>

definition ready_level :: "('cb, 'u) spi_slave \<Rightarrow> bool" where
  "ready_level s = bit (output_val (hs (pins s))) (ready_pin (g s))"

definition command_ok :: "spi_slave_command \<Rightarrow> bool" where
  "command_ok k \<longleftrightarrow> sc_cmd k \<le> 5 \<and> 1 \<le> sc_len k \<and> sc_len k \<le> 65536 \<and> (sc_cmd k < 4 \<longrightarrow> sc_len k \<le> 8)"

text \<open>Between two interrupts the driver is idle with the ready pin high, or transfers a command it has accepted, with
  the pin low.\<close>

definition slave_ok :: "('cb, 'u) spi_slave \<Rightarrow> bool" where
  "slave_ok s \<longleftrightarrow> status (g s) = IDLE \<and> ready_level s \<or> status (g s) = TRANSFER \<and> \<not> ready_level s \<and> command_ok (command (g s))"

lemma idle_mode_effect:
  assumes "spi_slave_idle_mode s = Some s'"
  shows "g s' = (g s)\<lparr>status := IDLE\<rparr> \<and> dmas s' = dmas s \<and> ready_level s'"
  using assms
  by (auto simp: spi_slave_idle_mode_def set_ready_def gpiohs_set_pin_def pad_to_d0_def upd_g_def upd_dev_def ready_level_def
      set_gpio_bit_bit Let_def split: if_splits)

lemma idle_mode_ready: "ready_pin (g s) < 32 \<Longrightarrow> \<exists>s'. spi_slave_idle_mode s = Some s'"
  by (simp add: spi_slave_idle_mode_def set_ready_def gpiohs_set_pin_def pad_to_d0_def upd_g_def upd_dev_def Let_def)

lemma set_ready_effect:
  assumes "set_ready v s = Some s'"
  shows "g s' = g s \<and> dmas s' = dmas s \<and> dev s' = dev s \<and> ready_level s' = bit v 0"
  using assms by (auto simp: set_ready_def gpiohs_set_pin_def ready_level_def set_gpio_bit_bit split: if_splits)

lemma cmd_len_bounds: "1 \<le> cmd_len c \<and> cmd_len c \<le> 65536"
proof -
  define l :: u32 where "l = ucast (c 5) OR push_bit 8 (ucast (c 6))"
  have "take_bit 16 l = l"
    unfolding l_def by (rule bit_word_eqI) (auto simp: bit_take_bit_iff bit_or_iff bit_push_bit_iff bit_ucast_iff dest: bit_imp_le_length)
  then have "unat l < 2 ^ 16" by (metis unsigned_take_bit_eq take_bit_nat_less_exp)
  then have "l \<le> 65536" by (simp add: word_le_nat_alt)
  then show ?thesis by (auto simp: cmd_len_def Let_def l_def [symmetric] word_le_nat_alt unat_eq_0 Suc_le_eq unat_gt_0)
qed

lemma reading_keeps: "start_reading p s = Some s' \<Longrightarrow> g s' = g s"
  by (auto simp: start_reading_def pad_to_d0_def Let_def Option.bind_eq_Some_conv)

lemma write_block_keeps: "start_write_block hw brk s = Some s' \<Longrightarrow> g s' = g s"
  by (auto simp: start_write_block_def upd_dev_def Let_def Option.bind_eq_Some_conv)

lemma read_block_keeps: "start_read_block hw brk s = Some s' \<Longrightarrow> g s' = g s"
  by (auto simp: start_read_block_def pad_to_d0_def Let_def Option.bind_eq_Some_conv)

lemma writing_keeps: "g (start_writing s) = g s"
  by (simp add: start_writing_def upd_dev_def)

lemmas start_keeps = reading_keeps write_block_keeps read_block_keeps writing_keeps

lemma command_mode_effect:
  assumes "spi_slave_command_mode hw brk i s = Some s'"
  shows "status (g s') = IDLE \<and> ready_level s' \<or>
    status (g s') = TRANSFER \<and> \<not> ready_level s' \<and> command_ok (command (g s')) \<and>
    cmd_data (slave_frame s) (in_dr i) 7 = cmd_sum (cmd_data (slave_frame s) (in_dr i))"
proof -
  let ?c = "cmd_data (slave_frame s) (in_dr i)"
  let ?s = "upd_dev (set_ssienr 0) (upd_g (\<lambda>x. x\<lparr>status := TRANSFER\<rparr>) (upd_g (\<lambda>x. x\<lparr>command := (command x)\<lparr>sc_cmd := ?c 0, sc_addr := cmd_addr ?c, sc_len := cmd_len ?c\<rparr>\<rparr>) s))"
  have st: "status (g ?s) = TRANSFER" "command (g ?s) = (command (g s))\<lparr>sc_cmd := ?c 0, sc_addr := cmd_addr ?c, sc_len := cmd_len ?c\<rparr>"
    by (simp_all add: upd_dev_def upd_g_def)
  consider (idle) t where "spi_slave_idle_mode t = Some s'"
    | (go) t where "set_ready 0 t = Some s'" "g t = g ?s" "?c 0 \<in> {0, 1, 2, 3, 4, 5}" "?c 0 < 4 \<longrightarrow> cmd_len ?c \<le> 8" "?c 7 = cmd_sum ?c"
    using assms
    by (auto simp: spi_slave_command_mode_def Let_def writing_keeps word_le_nat_alt word_less_nat_alt dest!: reading_keeps write_block_keeps read_block_keeps
        split: if_splits option.splits)
  then show ?thesis
  proof cases
    case idle
    then show ?thesis using idle_mode_effect [of t s'] by simp
  next
    case go
    have "?c 0 \<le> 5" using go(3) by auto
    then have "command_ok (command (g ?s))" using go(4) cmd_len_bounds [of ?c] by (simp add: st command_ok_def)
    then show ?thesis using set_ready_effect [OF go(1)] go(2,5) st(1) by simp
  qed
qed

lemma transfer_mode_effect:
  assumes "spi_slave_transfer_mode hw brk i s = Some (told, s')"
  shows "status (g s') = IDLE \<and> ready_level s'"
  using assms
  by (auto simp: spi_slave_transfer_mode_def Let_def split: option.splits if_splits prod.splits dest!: idle_mode_effect)

text \<open>C27.  The protocol of the slave: whatever an interrupt finds, the driver afterwards is idle with the ready pin high, or
  transfers, with the pin low, a command that is known, that asks for one to 65536 units and, outside the block commands, for
  at most eight bytes.  A transfer begins only from idle, with eight frames in the FIFO and a checksum that is right; the user is told only when
  a transfer ends.\<close>

theorem spi_slave_protocol:
  assumes "slave_ok s" "spi_slave_cs_irq hw brk i s = Some (told, s')"
  shows "slave_ok s' \<and>
    (status (g s') = TRANSFER \<longrightarrow> status (g s) = IDLE \<and> in_rxflr i = 8 \<and>
       cmd_data (slave_frame s) (in_dr i) 7 = cmd_sum (cmd_data (slave_frame s) (in_dr i))) \<and>
    (told \<noteq> None \<longrightarrow> status (g s) = TRANSFER \<and> status (g s') = IDLE)"
proof (cases "status (g s) = IDLE \<and> in_rxflr i = 8")
  case True
  let ?s = "upd_g (\<lambda>x. x\<lparr>status := COMMAND\<rparr>) s"
  have "slave_frame ?s = slave_frame s" by (simp add: slave_frame_def upd_g_def)
  moreover have "status (g ?s) = COMMAND" by (simp add: upd_g_def)
  then have "spi_slave_command_mode hw brk i ?s = Some s'" "told = None"
    using assms(2) True by (auto simp: spi_slave_cs_irq_def Let_def)
  ultimately show ?thesis using command_mode_effect [of hw brk i ?s s'] True by (auto simp: slave_ok_def)
next
  case False
  then show ?thesis
    using assms transfer_mode_effect [of hw brk i s told s'] idle_mode_effect [of s s']
    by (cases "status (g s)") (auto simp: spi_slave_cs_irq_def Let_def slave_ok_def split: if_splits)
qed

definition demo_in :: "u32 list \<Rightarrow> slave_in" where
  "demo_in ws = \<lparr>in_rxflr = word_of_nat (length ws), in_transfer_rxflr = 2, in_txflr = 0, in_dr = (\<lambda>k. if k < length ws then ws ! k else 0)\<rparr>"

definition at_rest :: "('cb, 'u) spi_slave \<Rightarrow> ('cb, 'u) spi_slave" where
  "at_rest s = s\<lparr>g := (g s)\<lparr>status := IDLE, data_bits := 8, ready_pin := 5, config_ptr := 0x80001000, config_len := 4\<rparr>,
     pins := (pins s)\<lparr>hs := (hs (pins s))\<lparr>output_val := 0x20\<rparr>\<rparr>\<rparr>"

lemma at_rest: "status (g (at_rest s)) = IDLE" "data_bits (g (at_rest s)) = 8" "ready_pin (g (at_rest s)) < 32"
  "config_ptr (g (at_rest s)) = 0x80001000" "config_len (g (at_rest s)) = 4" "slave_ok (at_rest s)"
  by (simp_all add: at_rest_def slave_ok_def ready_level_def)

lemma spi_slave_protocol_witness:
  "\<forall>s :: (bool, nat) spi_slave. \<exists>s'. spi_slave_cs_irq (\<lambda>w. w) (\<lambda>n l. l) (demo_in [1, 2, 3]) (at_rest s) = Some (None, s') \<and> slave_ok s' \<and>
     status (g s') = IDLE"
proof
  fix s :: "(bool, nat) spi_slave"
  obtain s' where i: "spi_slave_idle_mode (at_rest s) = Some s'" using idle_mode_ready [OF at_rest(3)] by blast
  have r: "spi_slave_cs_irq (\<lambda>w. w) (\<lambda>n l. l) (demo_in [1, 2, 3]) (at_rest s) = Some (None, s')"
    using i at_rest(1) [of s] by (simp add: spi_slave_cs_irq_def demo_in_def Let_def)
  show "\<exists>s'. spi_slave_cs_irq (\<lambda>w. w) (\<lambda>n l. l) (demo_in [1, 2, 3]) (at_rest s) = Some (None, s') \<and> slave_ok s' \<and> status (g s') = IDLE"
    using spi_slave_protocol [OF at_rest(6) r] r idle_mode_effect [OF i] by auto
qed

subsection \<open>A write by the master\<close>





end
