(* ===== verification/Aes.thy ===== *)
theory Aes
  imports Dma_Client Byte_Memory "HOL-Library.Monad_Syntax"
begin

text \<open>
  The driver of the AES accelerator, \<open>lib/drivers/aes.c\<close>.  The engine is a device: what it computes is a parameter \<open>crypt\<close>, a
  function of its configuration, the words of additional data and the words of text it has been given; the driver takes the
  words of the result one by one.  The flags that are polled are input, one list for each register; \<open>None\<close> is a list used
  up, which is still polling.  Buffers are addresses; a null initialisation vector has length 0.  What the reset line does to
  the registers of the engine is not modelled: the driver writes those it relies on.
\<close>

subsection \<open>State\<close>

datatype aes_cipher_mode = AES_ECB | AES_CBC | AES_GCM
datatype aes_encrypt_sel = AES_HARD_ENCRYPTION | AES_HARD_DECRYPTION

definition AES_128 :: nat where [simp]: "AES_128 = 16"
definition AES_192 :: nat where [simp]: "AES_192 = 24"
definition AES_256 :: nat where [simp]: "AES_256 = 32"
definition IV_LEN_96 :: nat where [simp]: "IV_LEN_96 = 12"
definition IV_LEN_128 :: nat where [simp]: "IV_LEN_128 = 16"
definition SYSCTL_DMA_SELECT_AES_REQ :: nat where "SYSCTL_DMA_SELECT_AES_REQ = 20"
definition AES_BASE_ADDR :: int where "AES_BASE_ADDR = 0x50450000"

primrec mode_num :: "aes_cipher_mode \<Rightarrow> 3 word" where
  "mode_num AES_ECB = 0" | "mode_num AES_CBC = 1" | "mode_num AES_GCM = 2"

primrec sel_num :: "aes_encrypt_sel \<Rightarrow> u32" where
  "sel_num AES_HARD_ENCRYPTION = 0" | "sel_num AES_HARD_DECRYPTION = 1"

record aes_regs =
  aes_key :: "nat \<Rightarrow> u32"
  aes_key_ext :: "nat \<Rightarrow> u32"
  aes_iv :: "nat \<Rightarrow> u32"
  encrypt_sel :: u32
  cipher_mode :: "3 word"
  kmode :: "2 word"
  aes_endian :: u32
  gb_aad_num :: u32
  gb_pc_num :: u32
  gb_aes_en :: u32

record aes =
  aregs :: aes_regs
  dma_sel :: u32
  aad_in :: "u32 list"
  text_in :: "u32 list"
  words_out :: nat
  gcm_in_tag :: "nat \<Rightarrow> u32"
  gcm_out_tag :: "nat \<Rightarrow> u32"
  tag_clear :: u32
  in_flag :: "bool list"
  out_flag :: "bool list"
  tag_in_flag :: "bool list"
  tag_chk :: "u32 list"

type_synonym engine = "aes_regs \<Rightarrow> u32 list \<Rightarrow> u32 list \<Rightarrow> u32 list"

record gcm_context =
  gcm_key :: int
  gcm_iv :: int
  gcm_aad :: int
  gcm_aad_len :: nat

record cbc_context =
  cbc_key :: int
  cbc_iv :: int

definition upd_aregs :: "(aes_regs \<Rightarrow> aes_regs) \<Rightarrow> aes \<Rightarrow> aes" where
  "upd_aregs f d = d\<lparr>aregs := f (aregs d)\<rparr>"

definition aes_clk_init :: "sysctl \<Rightarrow> sysctl" where
  "aes_clk_init sy = sysctl_reset SYSCTL_RESET_AES (snd (sysctl_clock_enable SYSCTL_CLOCK_AES sy))"

subsection \<open>Words in and out\<close>

fun until_set :: "bool list \<Rightarrow> bool list option" where
  "until_set [] = None"
| "until_set (f # fs) = (if f then Some fs else until_set fs)"

definition aes_write_aad :: "u32 \<Rightarrow> aes \<Rightarrow> aes option" where
  "aes_write_aad w d = map_option (\<lambda>fs. d\<lparr>in_flag := fs, aad_in := aad_in d @ [w]\<rparr>) (until_set (in_flag d))"

definition aes_write_text :: "u32 \<Rightarrow> aes \<Rightarrow> aes option" where
  "aes_write_text w d = map_option (\<lambda>fs. d\<lparr>in_flag := fs, text_in := text_in d @ [w]\<rparr>) (until_set (in_flag d))"

definition aes_read_out_data :: "engine \<Rightarrow> aes \<Rightarrow> (u32 \<times> aes) option" where
  "aes_read_out_data crypt d =
     map_option (\<lambda>fs. (crypt (aregs d) (aad_in d) (text_in d) ! words_out d, d\<lparr>out_flag := fs, words_out := Suc (words_out d)\<rparr>))
       (until_set (out_flag d))"

fun feed_aad :: "u32 list \<Rightarrow> aes \<Rightarrow> aes option" where
  "feed_aad [] d = Some d"
| "feed_aad (w # ws) d = aes_write_aad w d \<bind> feed_aad ws"

fun feed_text :: "u32 list \<Rightarrow> aes \<Rightarrow> aes option" where
  "feed_text [] d = Some d"
| "feed_text (w # ws) d = aes_write_text w d \<bind> feed_text ws"

fun take_out :: "engine \<Rightarrow> nat \<Rightarrow> aes \<Rightarrow> (u32 list \<times> aes) option" where
  "take_out crypt 0 d = Some ([], d)"
| "take_out crypt (Suc n) d = do {
     (w, d) \<leftarrow> aes_read_out_data crypt d;
     (ws, d) \<leftarrow> take_out crypt n d;
     Some (w # ws, d) }"

text \<open>A buffer as words, the last filled up with zeros (\<open>uint8_data\<close>).\<close>

definition buffer_words :: "int \<Rightarrow> nat \<Rightarrow> memory \<Rightarrow> u32 list" where
  "buffer_words p len m =
     load_array 4 p (len div 4) m @ (if len mod 4 \<noteq> 0 then [load_le (len mod 4) (p + int (4 * (len div 4))) m] else [])"

definition padded :: "nat \<Rightarrow> nat" where "padded len = (len + 15) div 16 * 16"

definition block_mode :: "aes_cipher_mode \<Rightarrow> bool" where "block_mode mode \<longleftrightarrow> mode = AES_ECB \<or> mode = AES_CBC"

definition input_words :: "int \<Rightarrow> nat \<Rightarrow> aes_cipher_mode \<Rightarrow> memory \<Rightarrow> u32 list" where
  "input_words p len mode m =
     buffer_words p len m @ (if block_mode mode then replicate ((padded len - len) div 4) 0 else [])"

subsection \<open>The tag\<close>

definition gcm_write_tag :: "(nat \<Rightarrow> u32) \<Rightarrow> aes \<Rightarrow> aes" where
  "gcm_write_tag tag d = d\<lparr>gcm_in_tag := (gcm_in_tag d)(0 := tag 3, 1 := tag 2, 2 := tag 1, 3 := tag 0)\<rparr>"

fun until_checked :: "u32 list \<Rightarrow> (u32 \<times> u32 list) option" where
  "until_checked [] = None"
| "until_checked (c # cs) = (if c \<noteq> 0 then (case cs of [] \<Rightarrow> None | v # cs \<Rightarrow> Some (v, cs)) else until_checked cs)"

text \<open>\<open>tag_chk\<close> is read once more when it is not 0: that second value is the verdict.\<close>

definition gcm_check_tag :: "(nat \<Rightarrow> u32) \<Rightarrow> aes \<Rightarrow> (u32 \<times> aes) option" where
  "gcm_check_tag tag d = do {
     fs \<leftarrow> until_set (tag_in_flag d);
     let d = gcm_write_tag tag (d\<lparr>tag_in_flag := fs\<rparr>);
     (v, cs) \<leftarrow> until_checked (tag_chk d);
     let d = d\<lparr>tag_chk := cs, tag_clear := 0\<rparr>;
     Some (if v = 2 then 1 else 0, d) }"

definition be_bytes :: "u32 \<Rightarrow> u8 list" where
  "be_bytes w = [byte_of w 3, byte_of w 2, byte_of w 1, byte_of w 0]"

fun store_bytes_at :: "int \<Rightarrow> u8 list \<Rightarrow> memory \<Rightarrow> memory" where
  "store_bytes_at a [] m = m"
| "store_bytes_at a (b # bs) m = store_bytes_at (a + 1) bs (m(a := b))"

definition gcm_get_tag :: "int \<Rightarrow> memory \<times> aes \<Rightarrow> (memory \<times> aes) option" where
  "gcm_get_tag gcm_tag s = (case s of (m, d) \<Rightarrow>
     (let t = gcm_out_tag d;
          m = store_bytes_at gcm_tag (be_bytes (t 3) @ be_bytes (t 2) @ be_bytes (t 1) @ be_bytes (t 0)) m
      in map_option (\<lambda>(_, d). (m, d)) (gcm_check_tag (\<lambda>i. load_le 4 (gcm_tag + 4 * int i) m) d)))"

subsection \<open>Setting up\<close>

definition key_word :: "int \<Rightarrow> nat \<Rightarrow> memory \<Rightarrow> nat \<Rightarrow> u32" where
  "key_word p len m i = load_le 4 (p + int (len - 4 * i - 4)) m"

definition load_key :: "int \<Rightarrow> nat \<Rightarrow> memory \<Rightarrow> aes_regs \<Rightarrow> aes_regs" where
  "load_key input_key input_key_len m r =
     fold (\<lambda>i r. if i < 4 then r\<lparr>aes_key := (aes_key r)(i := key_word input_key input_key_len m i)\<rparr>
                 else r\<lparr>aes_key_ext := (aes_key_ext r)(i - 4 := key_word input_key input_key_len m i)\<rparr>) [0..<input_key_len div 4] r"

definition load_iv :: "int \<Rightarrow> nat \<Rightarrow> memory \<Rightarrow> aes_regs \<Rightarrow> aes_regs" where
  "load_iv iv iv_len m r = fold (\<lambda>i r. r\<lparr>aes_iv := (aes_iv r)(i := key_word iv iv_len m i)\<rparr>) [0..<iv_len div 4] r"

definition aes_init ::
  "int \<Rightarrow> nat \<Rightarrow> int \<Rightarrow> nat \<Rightarrow> int \<Rightarrow> aes_cipher_mode \<Rightarrow> aes_encrypt_sel \<Rightarrow> nat \<Rightarrow> nat \<Rightarrow> memory \<Rightarrow> sysctl \<times> aes \<Rightarrow> (sysctl \<times> aes) option" where
  "aes_init input_key input_key_len iv iv_len aad mode sel aad_len input_data_len m s = (case s of (sy, d) \<Rightarrow>
     (let padding_len = (if block_mode mode then padded input_data_len else input_data_len);
          sy = aes_clk_init sy;
          d = upd_aregs (\<lambda>r. r\<lparr>aes_endian := aes_endian r OR 1\<rparr>) d;
          d = upd_aregs (load_iv iv iv_len m \<circ> load_key input_key input_key_len m) d;
          d = upd_aregs (\<lambda>r. r\<lparr>kmode := word_of_int (int (input_key_len div 8) - 2), cipher_mode := mode_num mode, encrypt_sel := sel_num sel,
                gb_aad_num := word_of_nat aad_len - 1, gb_pc_num := word_of_nat padding_len - 1, gb_aes_en := gb_aes_en r OR 1\<rparr>) d
      in map_option (Pair sy) (if mode = AES_GCM then feed_aad (buffer_words aad aad_len m) d else Some d)))"

subsection \<open>Processing\<close>

definition aes_input_bytes :: "int \<Rightarrow> nat \<Rightarrow> aes_cipher_mode \<Rightarrow> memory \<Rightarrow> aes \<Rightarrow> aes option" where
  "aes_input_bytes input_data input_data_len mode m d = feed_text (input_words input_data input_data_len mode m) d"

definition process_less_80_bytes :: "engine \<Rightarrow> int \<Rightarrow> int \<Rightarrow> nat \<Rightarrow> aes_cipher_mode \<Rightarrow> memory \<times> aes \<Rightarrow> (memory \<times> aes) option" where
  "process_less_80_bytes crypt input_data output_data input_data_len mode s = (case s of (m, d) \<Rightarrow> do {
     d \<leftarrow> feed_text (input_words input_data input_data_len mode m) d;
     let uint32_num = (if block_mode mode then padded input_data_len div 4 else input_data_len div 4);
     (ws, d) \<leftarrow> take_out crypt uint32_num d;
     let m = store_array 4 output_data ws m;
     let remainder = input_data_len mod 4;
     if mode = AES_GCM \<and> remainder \<noteq> 0 then do {
       (w, d) \<leftarrow> aes_read_out_data crypt d;
       Some (store_le remainder (output_data + int (4 * uint32_num)) w m, d) }
     else Some (m, d) })"

fun process_blocks_80 :: "engine \<Rightarrow> int \<Rightarrow> int \<Rightarrow> nat \<Rightarrow> aes_cipher_mode \<Rightarrow> memory \<times> aes \<Rightarrow> (memory \<times> aes) option" where
  "process_blocks_80 crypt input_data output_data 0 mode s = Some s"
| "process_blocks_80 crypt input_data output_data (Suc n) mode s =
     process_less_80_bytes crypt input_data output_data 80 mode s \<bind>
     process_blocks_80 crypt (input_data + 80) (output_data + 80) n mode"

definition aes_process :: "engine \<Rightarrow> int \<Rightarrow> int \<Rightarrow> nat \<Rightarrow> aes_cipher_mode \<Rightarrow> memory \<times> aes \<Rightarrow> (memory \<times> aes) option" where
  "aes_process crypt input_data output_data input_data_len mode s = do {
     s \<leftarrow> process_blocks_80 crypt input_data output_data (input_data_len div 80) mode s;
     let i = int (input_data_len div 80);
     let temp_len = input_data_len mod 80;
     if temp_len \<noteq> 0 then process_less_80_bytes crypt (input_data + i * 80) (output_data + i * 80) temp_len mode s else Some s }"

subsection \<open>The ciphers, by the processor\<close>

text \<open>The text that a block cipher decrypts is read up to its padded length.\<close>

definition aes_run ::
  "engine \<Rightarrow> int \<Rightarrow> nat \<Rightarrow> int \<Rightarrow> nat \<Rightarrow> int \<Rightarrow> aes_cipher_mode \<Rightarrow> aes_encrypt_sel \<Rightarrow> nat \<Rightarrow> int \<Rightarrow> nat \<Rightarrow> nat \<Rightarrow> int \<Rightarrow>
   sysctl \<times> memory \<times> aes \<Rightarrow> (sysctl \<times> memory \<times> aes) option" where
  "aes_run crypt key key_len iv iv_len aad mode sel aad_len input_data input_len process_len output_data s = (case s of (sy, m, d) \<Rightarrow> do {
     (sy, d) \<leftarrow> aes_init key key_len iv iv_len aad mode sel aad_len input_len m (sy, d);
     (m, d) \<leftarrow> aes_process crypt input_data output_data process_len mode (m, d);
     Some (sy, m, d) })"

definition aes_ecb128_hard_decrypt :: "engine \<Rightarrow> int \<Rightarrow> int \<Rightarrow> nat \<Rightarrow> int \<Rightarrow> sysctl \<times> memory \<times> aes \<Rightarrow> (sysctl \<times> memory \<times> aes) option" where
  "aes_ecb128_hard_decrypt crypt input_key input_data input_len output_data =
     aes_run crypt input_key AES_128 0 0 0 AES_ECB AES_HARD_DECRYPTION 0 input_data input_len (padded input_len) output_data"

definition aes_ecb128_hard_encrypt :: "engine \<Rightarrow> int \<Rightarrow> int \<Rightarrow> nat \<Rightarrow> int \<Rightarrow> sysctl \<times> memory \<times> aes \<Rightarrow> (sysctl \<times> memory \<times> aes) option" where
  "aes_ecb128_hard_encrypt crypt input_key input_data input_len output_data =
     aes_run crypt input_key AES_128 0 0 0 AES_ECB AES_HARD_ENCRYPTION 0 input_data input_len input_len output_data"

definition aes_ecb192_hard_decrypt :: "engine \<Rightarrow> int \<Rightarrow> int \<Rightarrow> nat \<Rightarrow> int \<Rightarrow> sysctl \<times> memory \<times> aes \<Rightarrow> (sysctl \<times> memory \<times> aes) option" where
  "aes_ecb192_hard_decrypt crypt input_key input_data input_len output_data =
     aes_run crypt input_key AES_192 0 0 0 AES_ECB AES_HARD_DECRYPTION 0 input_data input_len (padded input_len) output_data"

definition aes_ecb192_hard_encrypt :: "engine \<Rightarrow> int \<Rightarrow> int \<Rightarrow> nat \<Rightarrow> int \<Rightarrow> sysctl \<times> memory \<times> aes \<Rightarrow> (sysctl \<times> memory \<times> aes) option" where
  "aes_ecb192_hard_encrypt crypt input_key input_data input_len output_data =
     aes_run crypt input_key AES_192 0 0 0 AES_ECB AES_HARD_ENCRYPTION 0 input_data input_len input_len output_data"

definition aes_ecb256_hard_decrypt :: "engine \<Rightarrow> int \<Rightarrow> int \<Rightarrow> nat \<Rightarrow> int \<Rightarrow> sysctl \<times> memory \<times> aes \<Rightarrow> (sysctl \<times> memory \<times> aes) option" where
  "aes_ecb256_hard_decrypt crypt input_key input_data input_len output_data =
     aes_run crypt input_key AES_256 0 0 0 AES_ECB AES_HARD_DECRYPTION 0 input_data input_len (padded input_len) output_data"

definition aes_ecb256_hard_encrypt :: "engine \<Rightarrow> int \<Rightarrow> int \<Rightarrow> nat \<Rightarrow> int \<Rightarrow> sysctl \<times> memory \<times> aes \<Rightarrow> (sysctl \<times> memory \<times> aes) option" where
  "aes_ecb256_hard_encrypt crypt input_key input_data input_len output_data =
     aes_run crypt input_key AES_256 0 0 0 AES_ECB AES_HARD_ENCRYPTION 0 input_data input_len input_len output_data"

definition aes_cbc128_hard_decrypt :: "engine \<Rightarrow> cbc_context \<Rightarrow> int \<Rightarrow> nat \<Rightarrow> int \<Rightarrow> sysctl \<times> memory \<times> aes \<Rightarrow> (sysctl \<times> memory \<times> aes) option" where
  "aes_cbc128_hard_decrypt crypt context input_data input_len output_data =
     aes_run crypt (cbc_key context) AES_128 (cbc_iv context) IV_LEN_128 0 AES_CBC AES_HARD_DECRYPTION 0 input_data input_len (padded input_len) output_data"

definition aes_cbc128_hard_encrypt :: "engine \<Rightarrow> cbc_context \<Rightarrow> int \<Rightarrow> nat \<Rightarrow> int \<Rightarrow> sysctl \<times> memory \<times> aes \<Rightarrow> (sysctl \<times> memory \<times> aes) option" where
  "aes_cbc128_hard_encrypt crypt context input_data input_len output_data =
     aes_run crypt (cbc_key context) AES_128 (cbc_iv context) IV_LEN_128 0 AES_CBC AES_HARD_ENCRYPTION 0 input_data input_len input_len output_data"

definition aes_cbc192_hard_decrypt :: "engine \<Rightarrow> cbc_context \<Rightarrow> int \<Rightarrow> nat \<Rightarrow> int \<Rightarrow> sysctl \<times> memory \<times> aes \<Rightarrow> (sysctl \<times> memory \<times> aes) option" where
  "aes_cbc192_hard_decrypt crypt context input_data input_len output_data =
     aes_run crypt (cbc_key context) AES_192 (cbc_iv context) IV_LEN_128 0 AES_CBC AES_HARD_DECRYPTION 0 input_data input_len (padded input_len) output_data"

definition aes_cbc192_hard_encrypt :: "engine \<Rightarrow> cbc_context \<Rightarrow> int \<Rightarrow> nat \<Rightarrow> int \<Rightarrow> sysctl \<times> memory \<times> aes \<Rightarrow> (sysctl \<times> memory \<times> aes) option" where
  "aes_cbc192_hard_encrypt crypt context input_data input_len output_data =
     aes_run crypt (cbc_key context) AES_192 (cbc_iv context) IV_LEN_128 0 AES_CBC AES_HARD_ENCRYPTION 0 input_data input_len input_len output_data"

definition aes_cbc256_hard_decrypt :: "engine \<Rightarrow> cbc_context \<Rightarrow> int \<Rightarrow> nat \<Rightarrow> int \<Rightarrow> sysctl \<times> memory \<times> aes \<Rightarrow> (sysctl \<times> memory \<times> aes) option" where
  "aes_cbc256_hard_decrypt crypt context input_data input_len output_data =
     aes_run crypt (cbc_key context) AES_256 (cbc_iv context) IV_LEN_128 0 AES_CBC AES_HARD_DECRYPTION 0 input_data input_len (padded input_len) output_data"

definition aes_cbc256_hard_encrypt :: "engine \<Rightarrow> cbc_context \<Rightarrow> int \<Rightarrow> nat \<Rightarrow> int \<Rightarrow> sysctl \<times> memory \<times> aes \<Rightarrow> (sysctl \<times> memory \<times> aes) option" where
  "aes_cbc256_hard_encrypt crypt context input_data input_len output_data =
     aes_run crypt (cbc_key context) AES_256 (cbc_iv context) IV_LEN_128 0 AES_CBC AES_HARD_ENCRYPTION 0 input_data input_len input_len output_data"

definition aes_gcm128_hard_decrypt :: "engine \<Rightarrow> gcm_context \<Rightarrow> int \<Rightarrow> nat \<Rightarrow> int \<Rightarrow> int \<Rightarrow> sysctl \<times> memory \<times> aes \<Rightarrow> (sysctl \<times> memory \<times> aes) option" where
  "aes_gcm128_hard_decrypt crypt context input_data input_len output_data gcm_tag s = do {
     (sy, s) \<leftarrow> aes_run crypt (gcm_key context) AES_128 (gcm_iv context) IV_LEN_96 (gcm_aad context) AES_GCM AES_HARD_DECRYPTION
                  (gcm_aad_len context) input_data input_len input_len output_data s;
     map_option (Pair sy) (gcm_get_tag gcm_tag s) }"

definition aes_gcm128_hard_encrypt :: "engine \<Rightarrow> gcm_context \<Rightarrow> int \<Rightarrow> nat \<Rightarrow> int \<Rightarrow> int \<Rightarrow> sysctl \<times> memory \<times> aes \<Rightarrow> (sysctl \<times> memory \<times> aes) option" where
  "aes_gcm128_hard_encrypt crypt context input_data input_len output_data gcm_tag s = do {
     (sy, s) \<leftarrow> aes_run crypt (gcm_key context) AES_128 (gcm_iv context) IV_LEN_96 (gcm_aad context) AES_GCM AES_HARD_ENCRYPTION
                  (gcm_aad_len context) input_data input_len input_len output_data s;
     map_option (Pair sy) (gcm_get_tag gcm_tag s) }"

definition aes_gcm192_hard_decrypt :: "engine \<Rightarrow> gcm_context \<Rightarrow> int \<Rightarrow> nat \<Rightarrow> int \<Rightarrow> int \<Rightarrow> sysctl \<times> memory \<times> aes \<Rightarrow> (sysctl \<times> memory \<times> aes) option" where
  "aes_gcm192_hard_decrypt crypt context input_data input_len output_data gcm_tag s = do {
     (sy, s) \<leftarrow> aes_run crypt (gcm_key context) AES_192 (gcm_iv context) IV_LEN_96 (gcm_aad context) AES_GCM AES_HARD_DECRYPTION
                  (gcm_aad_len context) input_data input_len input_len output_data s;
     map_option (Pair sy) (gcm_get_tag gcm_tag s) }"

definition aes_gcm192_hard_encrypt :: "engine \<Rightarrow> gcm_context \<Rightarrow> int \<Rightarrow> nat \<Rightarrow> int \<Rightarrow> int \<Rightarrow> sysctl \<times> memory \<times> aes \<Rightarrow> (sysctl \<times> memory \<times> aes) option" where
  "aes_gcm192_hard_encrypt crypt context input_data input_len output_data gcm_tag s = do {
     (sy, s) \<leftarrow> aes_run crypt (gcm_key context) AES_192 (gcm_iv context) IV_LEN_96 (gcm_aad context) AES_GCM AES_HARD_ENCRYPTION
                  (gcm_aad_len context) input_data input_len input_len output_data s;
     map_option (Pair sy) (gcm_get_tag gcm_tag s) }"

definition aes_gcm256_hard_decrypt :: "engine \<Rightarrow> gcm_context \<Rightarrow> int \<Rightarrow> nat \<Rightarrow> int \<Rightarrow> int \<Rightarrow> sysctl \<times> memory \<times> aes \<Rightarrow> (sysctl \<times> memory \<times> aes) option" where
  "aes_gcm256_hard_decrypt crypt context input_data input_len output_data gcm_tag s = do {
     (sy, s) \<leftarrow> aes_run crypt (gcm_key context) AES_256 (gcm_iv context) IV_LEN_96 (gcm_aad context) AES_GCM AES_HARD_DECRYPTION
                  (gcm_aad_len context) input_data input_len input_len output_data s;
     map_option (Pair sy) (gcm_get_tag gcm_tag s) }"

definition aes_gcm256_hard_encrypt :: "engine \<Rightarrow> gcm_context \<Rightarrow> int \<Rightarrow> nat \<Rightarrow> int \<Rightarrow> int \<Rightarrow> sysctl \<times> memory \<times> aes \<Rightarrow> (sysctl \<times> memory \<times> aes) option" where
  "aes_gcm256_hard_encrypt crypt context input_data input_len output_data gcm_tag s = do {
     (sy, s) \<leftarrow> aes_run crypt (gcm_key context) AES_256 (gcm_iv context) IV_LEN_96 (gcm_aad context) AES_GCM AES_HARD_ENCRYPTION
                  (gcm_aad_len context) input_data input_len input_len output_data s;
     map_option (Pair sy) (gcm_get_tag gcm_tag s) }"

subsection \<open>The ciphers, with the result fetched by DMA\<close>

text \<open>The state holds the memory inside the world of the DMA controller, which takes the words of the result.\<close>

definition aes_run_dma ::
  "('cb dma \<Rightarrow> 'cb dma) \<Rightarrow> (int \<Rightarrow> int \<Rightarrow> int) \<Rightarrow> nat \<Rightarrow> int \<Rightarrow> nat \<Rightarrow> int \<Rightarrow> nat \<Rightarrow> int \<Rightarrow> aes_cipher_mode \<Rightarrow> aes_encrypt_sel \<Rightarrow> nat \<Rightarrow>
   int \<Rightarrow> nat \<Rightarrow> nat \<Rightarrow> int \<Rightarrow> sysctl \<times> 'cb dma \<times> aes \<Rightarrow> (sysctl \<times> 'cb dma \<times> aes) option" where
  "aes_run_dma hw brk channel_num key key_len iv iv_len aad mode sel aad_len input_data input_len words output_data s =
     (case s of (sy, w, d) \<Rightarrow> do {
        (sy, d) \<leftarrow> aes_init key key_len iv iv_len aad mode sel aad_len input_len (mem w) (sy, d);
        let sy = snd (sysctl_dma_select (dma_channel channel_num) SYSCTL_DMA_SELECT_AES_REQ sy);
        let d = d\<lparr>dma_sel := 1\<rparr>;
        w \<leftarrow> dmac_set_single_mode hw brk channel_num (AES_BASE_ADDR + 0x60) output_data DMAC_ADDR_NOCHANGE DMAC_ADDR_INCREMENT
              DMAC_MSIZE_4 DMAC_TRANS_WIDTH_32 (word_of_nat words) w;
        d \<leftarrow> aes_input_bytes input_data input_len mode (mem w) d;
        w \<leftarrow> dmac_wait_done hw brk channel_num w;
        Some (sy, w, d) })"

definition aes_ecb128_hard_decrypt_dma ::
  "('cb dma \<Rightarrow> 'cb dma) \<Rightarrow> (int \<Rightarrow> int \<Rightarrow> int) \<Rightarrow> nat \<Rightarrow> int \<Rightarrow> int \<Rightarrow> nat \<Rightarrow> int \<Rightarrow>
   sysctl \<times> 'cb dma \<times> aes \<Rightarrow> (sysctl \<times> 'cb dma \<times> aes) option" where
  "aes_ecb128_hard_decrypt_dma hw brk channel_num input_key input_data input_len output_data =
     aes_run_dma hw brk channel_num input_key AES_128 0 0 0 AES_ECB AES_HARD_DECRYPTION 0 input_data input_len (padded input_len div 4) output_data"

definition aes_ecb128_hard_encrypt_dma ::
  "('cb dma \<Rightarrow> 'cb dma) \<Rightarrow> (int \<Rightarrow> int \<Rightarrow> int) \<Rightarrow> nat \<Rightarrow> int \<Rightarrow> int \<Rightarrow> nat \<Rightarrow> int \<Rightarrow>
   sysctl \<times> 'cb dma \<times> aes \<Rightarrow> (sysctl \<times> 'cb dma \<times> aes) option" where
  "aes_ecb128_hard_encrypt_dma hw brk channel_num input_key input_data input_len output_data =
     aes_run_dma hw brk channel_num input_key AES_128 0 0 0 AES_ECB AES_HARD_ENCRYPTION 0 input_data input_len (padded input_len div 4) output_data"

definition aes_ecb192_hard_decrypt_dma ::
  "('cb dma \<Rightarrow> 'cb dma) \<Rightarrow> (int \<Rightarrow> int \<Rightarrow> int) \<Rightarrow> nat \<Rightarrow> int \<Rightarrow> int \<Rightarrow> nat \<Rightarrow> int \<Rightarrow>
   sysctl \<times> 'cb dma \<times> aes \<Rightarrow> (sysctl \<times> 'cb dma \<times> aes) option" where
  "aes_ecb192_hard_decrypt_dma hw brk channel_num input_key input_data input_len output_data =
     aes_run_dma hw brk channel_num input_key AES_192 0 0 0 AES_ECB AES_HARD_DECRYPTION 0 input_data input_len (padded input_len div 4) output_data"

definition aes_ecb192_hard_encrypt_dma ::
  "('cb dma \<Rightarrow> 'cb dma) \<Rightarrow> (int \<Rightarrow> int \<Rightarrow> int) \<Rightarrow> nat \<Rightarrow> int \<Rightarrow> int \<Rightarrow> nat \<Rightarrow> int \<Rightarrow>
   sysctl \<times> 'cb dma \<times> aes \<Rightarrow> (sysctl \<times> 'cb dma \<times> aes) option" where
  "aes_ecb192_hard_encrypt_dma hw brk channel_num input_key input_data input_len output_data =
     aes_run_dma hw brk channel_num input_key AES_192 0 0 0 AES_ECB AES_HARD_ENCRYPTION 0 input_data input_len (padded input_len div 4) output_data"

definition aes_ecb256_hard_decrypt_dma ::
  "('cb dma \<Rightarrow> 'cb dma) \<Rightarrow> (int \<Rightarrow> int \<Rightarrow> int) \<Rightarrow> nat \<Rightarrow> int \<Rightarrow> int \<Rightarrow> nat \<Rightarrow> int \<Rightarrow>
   sysctl \<times> 'cb dma \<times> aes \<Rightarrow> (sysctl \<times> 'cb dma \<times> aes) option" where
  "aes_ecb256_hard_decrypt_dma hw brk channel_num input_key input_data input_len output_data =
     aes_run_dma hw brk channel_num input_key AES_256 0 0 0 AES_ECB AES_HARD_DECRYPTION 0 input_data input_len (padded input_len div 4) output_data"

definition aes_ecb256_hard_encrypt_dma ::
  "('cb dma \<Rightarrow> 'cb dma) \<Rightarrow> (int \<Rightarrow> int \<Rightarrow> int) \<Rightarrow> nat \<Rightarrow> int \<Rightarrow> int \<Rightarrow> nat \<Rightarrow> int \<Rightarrow>
   sysctl \<times> 'cb dma \<times> aes \<Rightarrow> (sysctl \<times> 'cb dma \<times> aes) option" where
  "aes_ecb256_hard_encrypt_dma hw brk channel_num input_key input_data input_len output_data =
     aes_run_dma hw brk channel_num input_key AES_256 0 0 0 AES_ECB AES_HARD_ENCRYPTION 0 input_data input_len (padded input_len div 4) output_data"

definition aes_cbc128_hard_decrypt_dma ::
  "('cb dma \<Rightarrow> 'cb dma) \<Rightarrow> (int \<Rightarrow> int \<Rightarrow> int) \<Rightarrow> nat \<Rightarrow> cbc_context \<Rightarrow> int \<Rightarrow> nat \<Rightarrow> int \<Rightarrow>
   sysctl \<times> 'cb dma \<times> aes \<Rightarrow> (sysctl \<times> 'cb dma \<times> aes) option" where
  "aes_cbc128_hard_decrypt_dma hw brk channel_num context input_data input_len output_data =
     aes_run_dma hw brk channel_num (cbc_key context) AES_128 (cbc_iv context) IV_LEN_128 0 AES_CBC AES_HARD_DECRYPTION 0
       input_data input_len (padded input_len div 4) output_data"

definition aes_cbc128_hard_encrypt_dma ::
  "('cb dma \<Rightarrow> 'cb dma) \<Rightarrow> (int \<Rightarrow> int \<Rightarrow> int) \<Rightarrow> nat \<Rightarrow> cbc_context \<Rightarrow> int \<Rightarrow> nat \<Rightarrow> int \<Rightarrow>
   sysctl \<times> 'cb dma \<times> aes \<Rightarrow> (sysctl \<times> 'cb dma \<times> aes) option" where
  "aes_cbc128_hard_encrypt_dma hw brk channel_num context input_data input_len output_data =
     aes_run_dma hw brk channel_num (cbc_key context) AES_128 (cbc_iv context) IV_LEN_128 0 AES_CBC AES_HARD_ENCRYPTION 0
       input_data input_len (padded input_len div 4) output_data"

definition aes_cbc192_hard_decrypt_dma ::
  "('cb dma \<Rightarrow> 'cb dma) \<Rightarrow> (int \<Rightarrow> int \<Rightarrow> int) \<Rightarrow> nat \<Rightarrow> cbc_context \<Rightarrow> int \<Rightarrow> nat \<Rightarrow> int \<Rightarrow>
   sysctl \<times> 'cb dma \<times> aes \<Rightarrow> (sysctl \<times> 'cb dma \<times> aes) option" where
  "aes_cbc192_hard_decrypt_dma hw brk channel_num context input_data input_len output_data =
     aes_run_dma hw brk channel_num (cbc_key context) AES_192 (cbc_iv context) IV_LEN_128 0 AES_CBC AES_HARD_DECRYPTION 0
       input_data input_len (padded input_len div 4) output_data"

definition aes_cbc192_hard_encrypt_dma ::
  "('cb dma \<Rightarrow> 'cb dma) \<Rightarrow> (int \<Rightarrow> int \<Rightarrow> int) \<Rightarrow> nat \<Rightarrow> cbc_context \<Rightarrow> int \<Rightarrow> nat \<Rightarrow> int \<Rightarrow>
   sysctl \<times> 'cb dma \<times> aes \<Rightarrow> (sysctl \<times> 'cb dma \<times> aes) option" where
  "aes_cbc192_hard_encrypt_dma hw brk channel_num context input_data input_len output_data =
     aes_run_dma hw brk channel_num (cbc_key context) AES_192 (cbc_iv context) IV_LEN_128 0 AES_CBC AES_HARD_ENCRYPTION 0
       input_data input_len (padded input_len div 4) output_data"

definition aes_cbc256_hard_decrypt_dma ::
  "('cb dma \<Rightarrow> 'cb dma) \<Rightarrow> (int \<Rightarrow> int \<Rightarrow> int) \<Rightarrow> nat \<Rightarrow> cbc_context \<Rightarrow> int \<Rightarrow> nat \<Rightarrow> int \<Rightarrow>
   sysctl \<times> 'cb dma \<times> aes \<Rightarrow> (sysctl \<times> 'cb dma \<times> aes) option" where
  "aes_cbc256_hard_decrypt_dma hw brk channel_num context input_data input_len output_data =
     aes_run_dma hw brk channel_num (cbc_key context) AES_256 (cbc_iv context) IV_LEN_128 0 AES_CBC AES_HARD_DECRYPTION 0
       input_data input_len (padded input_len div 4) output_data"

definition aes_cbc256_hard_encrypt_dma ::
  "('cb dma \<Rightarrow> 'cb dma) \<Rightarrow> (int \<Rightarrow> int \<Rightarrow> int) \<Rightarrow> nat \<Rightarrow> cbc_context \<Rightarrow> int \<Rightarrow> nat \<Rightarrow> int \<Rightarrow>
   sysctl \<times> 'cb dma \<times> aes \<Rightarrow> (sysctl \<times> 'cb dma \<times> aes) option" where
  "aes_cbc256_hard_encrypt_dma hw brk channel_num context input_data input_len output_data =
     aes_run_dma hw brk channel_num (cbc_key context) AES_256 (cbc_iv context) IV_LEN_128 0 AES_CBC AES_HARD_ENCRYPTION 0
       input_data input_len (padded input_len div 4) output_data"

definition aes_gcm128_hard_decrypt_dma ::
  "('cb dma \<Rightarrow> 'cb dma) \<Rightarrow> (int \<Rightarrow> int \<Rightarrow> int) \<Rightarrow> nat \<Rightarrow> gcm_context \<Rightarrow> int \<Rightarrow> nat \<Rightarrow> int \<Rightarrow> int \<Rightarrow>
   sysctl \<times> 'cb dma \<times> aes \<Rightarrow> (sysctl \<times> 'cb dma \<times> aes) option" where
  "aes_gcm128_hard_decrypt_dma hw brk channel_num context input_data input_len output_data gcm_tag s = do {
     (sy, w, d) \<leftarrow> aes_run_dma hw brk channel_num (gcm_key context) AES_128 (gcm_iv context) IV_LEN_96 (gcm_aad context) AES_GCM
                     AES_HARD_DECRYPTION (gcm_aad_len context) input_data input_len ((input_len + 3) div 4) output_data s;
     (m, d) \<leftarrow> gcm_get_tag gcm_tag (mem w, d);
     Some (sy, w\<lparr>mem := m\<rparr>, d) }"

definition aes_gcm128_hard_encrypt_dma ::
  "('cb dma \<Rightarrow> 'cb dma) \<Rightarrow> (int \<Rightarrow> int \<Rightarrow> int) \<Rightarrow> nat \<Rightarrow> gcm_context \<Rightarrow> int \<Rightarrow> nat \<Rightarrow> int \<Rightarrow> int \<Rightarrow>
   sysctl \<times> 'cb dma \<times> aes \<Rightarrow> (sysctl \<times> 'cb dma \<times> aes) option" where
  "aes_gcm128_hard_encrypt_dma hw brk channel_num context input_data input_len output_data gcm_tag s = do {
     (sy, w, d) \<leftarrow> aes_run_dma hw brk channel_num (gcm_key context) AES_128 (gcm_iv context) IV_LEN_96 (gcm_aad context) AES_GCM
                     AES_HARD_ENCRYPTION (gcm_aad_len context) input_data input_len ((input_len + 3) div 4) output_data s;
     (m, d) \<leftarrow> gcm_get_tag gcm_tag (mem w, d);
     Some (sy, w\<lparr>mem := m\<rparr>, d) }"

definition aes_gcm192_hard_decrypt_dma ::
  "('cb dma \<Rightarrow> 'cb dma) \<Rightarrow> (int \<Rightarrow> int \<Rightarrow> int) \<Rightarrow> nat \<Rightarrow> gcm_context \<Rightarrow> int \<Rightarrow> nat \<Rightarrow> int \<Rightarrow> int \<Rightarrow>
   sysctl \<times> 'cb dma \<times> aes \<Rightarrow> (sysctl \<times> 'cb dma \<times> aes) option" where
  "aes_gcm192_hard_decrypt_dma hw brk channel_num context input_data input_len output_data gcm_tag s = do {
     (sy, w, d) \<leftarrow> aes_run_dma hw brk channel_num (gcm_key context) AES_192 (gcm_iv context) IV_LEN_96 (gcm_aad context) AES_GCM
                     AES_HARD_DECRYPTION (gcm_aad_len context) input_data input_len ((input_len + 3) div 4) output_data s;
     (m, d) \<leftarrow> gcm_get_tag gcm_tag (mem w, d);
     Some (sy, w\<lparr>mem := m\<rparr>, d) }"

definition aes_gcm192_hard_encrypt_dma ::
  "('cb dma \<Rightarrow> 'cb dma) \<Rightarrow> (int \<Rightarrow> int \<Rightarrow> int) \<Rightarrow> nat \<Rightarrow> gcm_context \<Rightarrow> int \<Rightarrow> nat \<Rightarrow> int \<Rightarrow> int \<Rightarrow>
   sysctl \<times> 'cb dma \<times> aes \<Rightarrow> (sysctl \<times> 'cb dma \<times> aes) option" where
  "aes_gcm192_hard_encrypt_dma hw brk channel_num context input_data input_len output_data gcm_tag s = do {
     (sy, w, d) \<leftarrow> aes_run_dma hw brk channel_num (gcm_key context) AES_192 (gcm_iv context) IV_LEN_96 (gcm_aad context) AES_GCM
                     AES_HARD_ENCRYPTION (gcm_aad_len context) input_data input_len ((input_len + 3) div 4) output_data s;
     (m, d) \<leftarrow> gcm_get_tag gcm_tag (mem w, d);
     Some (sy, w\<lparr>mem := m\<rparr>, d) }"

definition aes_gcm256_hard_decrypt_dma ::
  "('cb dma \<Rightarrow> 'cb dma) \<Rightarrow> (int \<Rightarrow> int \<Rightarrow> int) \<Rightarrow> nat \<Rightarrow> gcm_context \<Rightarrow> int \<Rightarrow> nat \<Rightarrow> int \<Rightarrow> int \<Rightarrow>
   sysctl \<times> 'cb dma \<times> aes \<Rightarrow> (sysctl \<times> 'cb dma \<times> aes) option" where
  "aes_gcm256_hard_decrypt_dma hw brk channel_num context input_data input_len output_data gcm_tag s = do {
     (sy, w, d) \<leftarrow> aes_run_dma hw brk channel_num (gcm_key context) AES_256 (gcm_iv context) IV_LEN_96 (gcm_aad context) AES_GCM
                     AES_HARD_DECRYPTION (gcm_aad_len context) input_data input_len ((input_len + 3) div 4) output_data s;
     (m, d) \<leftarrow> gcm_get_tag gcm_tag (mem w, d);
     Some (sy, w\<lparr>mem := m\<rparr>, d) }"

definition aes_gcm256_hard_encrypt_dma ::
  "('cb dma \<Rightarrow> 'cb dma) \<Rightarrow> (int \<Rightarrow> int \<Rightarrow> int) \<Rightarrow> nat \<Rightarrow> gcm_context \<Rightarrow> int \<Rightarrow> nat \<Rightarrow> int \<Rightarrow> int \<Rightarrow>
   sysctl \<times> 'cb dma \<times> aes \<Rightarrow> (sysctl \<times> 'cb dma \<times> aes) option" where
  "aes_gcm256_hard_encrypt_dma hw brk channel_num context input_data input_len output_data gcm_tag s = do {
     (sy, w, d) \<leftarrow> aes_run_dma hw brk channel_num (gcm_key context) AES_256 (gcm_iv context) IV_LEN_96 (gcm_aad context) AES_GCM
                     AES_HARD_ENCRYPTION (gcm_aad_len context) input_data input_len ((input_len + 3) div 4) output_data s;
     (m, d) \<leftarrow> gcm_get_tag gcm_tag (mem w, d);
     Some (sy, w\<lparr>mem := m\<rparr>, d) }"

subsection \<open>Buffers as bytes\<close>

text \<open>The memory after \<open>n\<close> bytes of the words \<open>c\<close> have been stored at \<open>a\<close>.\<close>

definition put_bytes :: "int \<Rightarrow> nat \<Rightarrow> (nat \<Rightarrow> u32) \<Rightarrow> memory \<Rightarrow> memory" where
  "put_bytes a n c m = (\<lambda>x. if a \<le> x \<and> x < a + int n then byte_of (c (nat (x - a) div 4)) (nat (x - a) mod 4) else m x)"

lemma store_le_bytes: "store_le n a w m x = (if a \<le> x \<and> x < a + int n then byte_of w (nat (x - a)) else m x)"
proof (induction n arbitrary: a w m)
  case (Suc n)
  have "byte_of (drop_bit 8 w) k = byte_of w (Suc k)" for k
    by (rule bit_word_eqI) (simp add: byte_of_def bit_simps add.commute)
  moreover have "nat (x - a) = Suc (nat (x - (a + 1)))" if "a + 1 \<le> x" using that by simp
  moreover have "byte_of w 0 = ucast w" by (simp add: byte_of_def)
  ultimately show ?case by (auto simp: Suc)
qed auto

lemma put_bytes_0 [simp]: "put_bytes a 0 c m = m"
  by (rule ext) (auto simp: put_bytes_def)

text \<open>A part of whole words, then the rest.\<close>

lemma put_bytes_add:
  "put_bytes (a + 4 * int q) r (\<lambda>i. c (q + i)) (put_bytes a (4 * q) c m) = put_bytes a (4 * q + r) c m"
proof
  fix x
  show "put_bytes (a + 4 * int q) r (\<lambda>i. c (q + i)) (put_bytes a (4 * q) c m) x = put_bytes a (4 * q + r) c m x"
  proof (cases "a + 4 * int q \<le> x")
    case True
    define y where "y = nat (x - (a + 4 * int q))"
    have "nat (x - a) = 4 * q + y" using True by (simp add: y_def)
    then show ?thesis using True by (auto simp: put_bytes_def y_def [symmetric] add.commute)
  next
    case False
    then show ?thesis by (auto simp: put_bytes_def)
  qed
qed

lemma store_le_put_bytes: "r \<le> 4 \<Longrightarrow> store_le r a w m = put_bytes a r (\<lambda>_. w) m"
proof
  fix x assume "r \<le> 4"
  then have "nat (x - a) mod 4 = nat (x - a)" if "x < a + int r" using that by simp
  then show "store_le r a w m x = put_bytes a r (\<lambda>_. w) m x" by (auto simp: store_le_bytes put_bytes_def)
qed

lemma store_array_put_bytes: "store_array 4 a (map c [0..<q]) m = put_bytes a (4 * q) c m"
proof -
  have "store_array 4 a ws m = put_bytes a (4 * length ws) (\<lambda>i. ws ! i) m" for ws
  proof (induction "4 :: nat" a ws m rule: store_array.induct)
    case (2 a w ws m)
    have "store_array 4 a (w # ws) m = put_bytes (a + 4) (4 * length ws) (\<lambda>i. ws ! i) (put_bytes a 4 (\<lambda>_. w) m)"
      using 2 by (simp add: store_le_put_bytes)
    also have "put_bytes a 4 (\<lambda>_. w) m = put_bytes a 4 (\<lambda>i. (w # ws) ! i) m"
    proof
      fix x
      have "nat (x - a) div 4 = 0" if "x < a + 4" using that by simp
      then show "put_bytes a 4 (\<lambda>_. w) m x = put_bytes a 4 (\<lambda>i. (w # ws) ! i) m x" by (auto simp: put_bytes_def)
    qed
    finally show ?case using put_bytes_add [of a 1 "4 * length ws" "\<lambda>i. (w # ws) ! i" m] by simp
  qed simp
  moreover have "put_bytes a (4 * q) (\<lambda>i. map c [0..<q] ! i) m = put_bytes a (4 * q) c m"
  proof
    fix x
    have "nat (x - a) div 4 < q" if "x < a + int (4 * q)" "a \<le> x" using that by (simp add: div_less_iff_less_mult nat_less_iff)
    then show "put_bytes a (4 * q) (\<lambda>i. map c [0..<q] ! i) m x = put_bytes a (4 * q) c m x" by (auto simp: put_bytes_def)
  qed
  ultimately show ?thesis by simp
qed

lemma put_bytes_cong:
  assumes "\<And>i. i < (n + 3) div 4 \<Longrightarrow> c i = c' i"
  shows "put_bytes a n c m = put_bytes a n c' m"
proof
  fix x
  have "nat (x - a) div 4 < (n + 3) div 4" if "x < a + int n" "a \<le> x"
  proof -
    have "nat (x - a) < n" using that by simp
    then show ?thesis by linarith
  qed
  then show "put_bytes a n c m x = put_bytes a n c' m x" using assms by (auto simp: put_bytes_def)
qed

lemma load_array_cong:
  assumes "\<And>x. a \<le> x \<Longrightarrow> x < a + int (n * k) \<Longrightarrow> m x = m' x"
  shows "load_array n a k m = load_array n a k m'"
  unfolding load_array_def
proof (rule map_cong [OF refl], rule load_le_cong)
  fix i x assume "i \<in> set [0..<k]" and x: "a + int (n * i) \<le> x" "x < a + int (n * i) + int n"
  then have "n * Suc i \<le> n * k" by (intro mult_le_mono2) simp
  then have "n * i + n \<le> n * k" by simp
  then have le: "int (n * i) + int n \<le> int (n * k)" unfolding of_nat_add [symmetric] of_nat_le_iff .
  have "a \<le> a + int (n * i)" by simp
  then have "a \<le> x" using x(1) by (rule order_trans)
  moreover have "a + int (n * i) + int n \<le> a + int (n * k)" using le by (simp only: add.assoc add_le_cancel_left)
  with x(2) have "x < a + int (n * k)" by (rule less_le_trans)
  ultimately show "m x = m' x" by (rule assms)
qed

lemma buffer_words_cong:
  assumes "\<And>x. a \<le> x \<Longrightarrow> x < a + int len \<Longrightarrow> m x = m' x"
  shows "buffer_words a len m = buffer_words a len m'"
proof -
  define q r where "q = len div 4" and "r = len mod 4"
  have "len = 4 * q + r" by (simp add: q_def r_def)
  then have len: "int len = 4 * int q + int r" by simp
  have "load_array 4 a q m = load_array 4 a q m'" using len by (intro load_array_cong assms) auto
  moreover have "load_le r (a + int (4 * q)) m = load_le r (a + int (4 * q)) m'" using len by (intro load_le_cong assms) auto
  ultimately show ?thesis by (simp add: buffer_words_def q_def r_def)
qed

subsection \<open>What the loops do when the flags allow\<close>

definition ready :: "bool list \<Rightarrow> nat" where "ready fs = length (filter id fs)"

lemma until_set_ready: "0 < ready fs \<Longrightarrow> \<exists>fs'. until_set fs = Some fs' \<and> ready fs = Suc (ready fs')"
  by (induction fs) (auto simp: ready_def)

lemma feed_text_ready:
  "length ws \<le> ready (in_flag d) \<Longrightarrow>
   \<exists>fs. feed_text ws d = Some (d\<lparr>in_flag := fs, text_in := text_in d @ ws\<rparr>) \<and> ready (in_flag d) = length ws + ready fs"
proof (induction ws arbitrary: d)
  case Nil
  then show ?case by (intro exI [of _ "in_flag d"]) simp
next
  case (Cons w ws)
  then obtain fs where f: "until_set (in_flag d) = Some fs" "ready (in_flag d) = Suc (ready fs)"
    using until_set_ready [of "in_flag d"] by auto
  let ?d = "d\<lparr>in_flag := fs, text_in := text_in d @ [w]\<rparr>"
  obtain gs where "feed_text ws ?d = Some (?d\<lparr>in_flag := gs, text_in := text_in ?d @ ws\<rparr>)" "ready fs = length ws + ready gs"
    using Cons.IH [of ?d] Cons.prems f(2) by auto
  then show ?case using f by (intro exI [of _ gs]) (simp add: aes_write_text_def)
qed

lemma take_out_ready:
  "n \<le> ready (out_flag d) \<Longrightarrow>
   \<exists>fs. take_out crypt n d = Some (map (\<lambda>i. crypt (aregs d) (aad_in d) (text_in d) ! (words_out d + i)) [0..<n],
          d\<lparr>out_flag := fs, words_out := words_out d + n\<rparr>) \<and> ready (out_flag d) = n + ready fs"
proof (induction n arbitrary: d)
  case 0
  then show ?case by (intro exI [of _ "out_flag d"]) simp
next
  case (Suc n)
  then obtain fs where f: "until_set (out_flag d) = Some fs" "ready (out_flag d) = Suc (ready fs)"
    using until_set_ready [of "out_flag d"] by auto
  let ?d = "d\<lparr>out_flag := fs, words_out := Suc (words_out d)\<rparr>"
  obtain gs where "take_out crypt n ?d = Some (map (\<lambda>i. crypt (aregs ?d) (aad_in ?d) (text_in ?d) ! (words_out ?d + i)) [0..<n],
      ?d\<lparr>out_flag := gs, words_out := words_out ?d + n\<rparr>)" "ready fs = n + ready gs"
    using Suc.IH [of ?d] Suc.prems f(2) by auto
  then show ?case
    using f by (intro exI [of _ gs]) (simp add: aes_read_out_data_def upt_conv_Cons map_Suc_upt [symmetric] o_def del: upt_Suc)
qed

text \<open>The bytes of the result.\<close>

definition out_len :: "aes_cipher_mode \<Rightarrow> nat \<Rightarrow> nat" where
  "out_len mode len = (if block_mode mode then padded len else len)"

definition after_text :: "aes \<Rightarrow> u32 list \<Rightarrow> nat \<Rightarrow> aes \<Rightarrow> bool" where
  "after_text d ws k d' \<longleftrightarrow> aregs d' = aregs d \<and> aad_in d' = aad_in d \<and> text_in d' = text_in d @ ws \<and>
     words_out d' = words_out d + k \<and> ready (in_flag d) = length ws + ready (in_flag d') \<and> ready (out_flag d) = k + ready (out_flag d')"

lemma after_text_trans: "after_text d ws k d' \<Longrightarrow> after_text d' ws' k' d'' \<Longrightarrow> after_text d (ws @ ws') (k + k') d''"
  by (simp add: after_text_def)

lemma padded_words: "padded len = 4 * (padded len div 4)"
  by (simp add: padded_def)

lemma process_less_effect:
  fixes crypt :: engine
  assumes "length (input_words p len mode m) \<le> ready (in_flag d)" "(out_len mode len + 3) div 4 \<le> ready (out_flag d)"
  defines "c \<equiv> crypt (aregs d) (aad_in d) (text_in d @ input_words p len mode m)"
  shows "\<exists>d'. process_less_80_bytes crypt p out len mode (m, d) = Some (put_bytes out (out_len mode len) (\<lambda>i. c ! (words_out d + i)) m, d') \<and>
    after_text d (input_words p len mode m) ((out_len mode len + 3) div 4) d'"
proof -
  let ?W = "input_words p len mode m"
  let ?q = "out_len mode len div 4"
  obtain fs where fs: "feed_text ?W d = Some (d\<lparr>in_flag := fs, text_in := text_in d @ ?W\<rparr>)" "ready (in_flag d) = length ?W + ready fs"
    using feed_text_ready [OF assms(1)] by blast
  let ?d = "d\<lparr>in_flag := fs, text_in := text_in d @ ?W\<rparr>"
  have "?q \<le> ready (out_flag ?d)" using assms(2) by simp
  from take_out_ready [OF this, of crypt] obtain gs where gs: "take_out crypt ?q ?d = Some (map (\<lambda>i. c ! (words_out d + i)) [0..<?q],
      ?d\<lparr>out_flag := gs, words_out := words_out d + ?q\<rparr>)" "ready (out_flag d) = ?q + ready gs"
    by (auto simp: c_def)
  let ?e = "?d\<lparr>out_flag := gs, words_out := words_out d + ?q\<rparr>"
  have q: "(if block_mode mode then padded len div 4 else len div 4) = ?q" by (simp add: out_len_def)
  show ?thesis
  proof (cases "mode = AES_GCM \<and> len mod 4 \<noteq> 0")
    case False
    then have n: "out_len mode len = 4 * ?q"
      using padded_words [of len] by (cases mode) (auto simp: out_len_def block_mode_def)
    then have "(out_len mode len + 3) div 4 = ?q" by linarith
    moreover have "process_less_80_bytes crypt p out len mode (m, d) = Some (store_array 4 out (map (\<lambda>i. c ! (words_out d + i)) [0..<?q]) m, ?e)"
      using False fs(1) gs(1) by (auto simp: process_less_80_bytes_def q Let_def)
    ultimately show ?thesis
      using fs(2) gs(2) n by (intro exI [of _ ?e]) (simp add: store_array_put_bytes after_text_def)
  next
    case True
    define r where "r = len mod 4"
    have n: "out_len mode len = 4 * ?q + r" and q4: "(out_len mode len + 3) div 4 = Suc ?q"
      using True by (auto simp: out_len_def block_mode_def r_def) presburger
    then obtain hs where hs: "until_set gs = Some hs" "ready gs = Suc (ready hs)"
      using assms(2) gs(2) until_set_ready [of gs] by auto
    let ?f = "?e\<lparr>out_flag := hs, words_out := Suc (words_out d + ?q)\<rparr>"
    have "process_less_80_bytes crypt p out len mode (m, d) =
        Some (store_le r (out + int (4 * ?q)) (c ! (words_out d + ?q)) (store_array 4 out (map (\<lambda>i. c ! (words_out d + i)) [0..<?q]) m), ?f)"
      using True fs(1) gs(1) hs(1) by (auto simp: process_less_80_bytes_def Let_def aes_read_out_data_def c_def r_def block_mode_def out_len_def)
    also have "store_le r (out + int (4 * ?q)) (c ! (words_out d + ?q)) (store_array 4 out (map (\<lambda>i. c ! (words_out d + i)) [0..<?q]) m)
        = put_bytes (out + 4 * int ?q) r (\<lambda>_. c ! (words_out d + ?q)) (put_bytes out (4 * ?q) (\<lambda>i. c ! (words_out d + i)) m)"
      by (subst store_le_put_bytes) (simp_all add: store_array_put_bytes r_def)
    also have "\<dots> = put_bytes (out + 4 * int ?q) r (\<lambda>i. c ! (words_out d + (?q + i))) (put_bytes out (4 * ?q) (\<lambda>i. c ! (words_out d + i)) m)"
    proof (rule put_bytes_cong)
      fix i assume "i < (r + 3) div 4"
      moreover have "r < 4" by (simp add: r_def)
      ultimately have "i = 0" by linarith
      then show "c ! (words_out d + ?q) = c ! (words_out d + (?q + i))" by simp
    qed
    also have "\<dots> = put_bytes out (out_len mode len) (\<lambda>i. c ! (words_out d + i)) m"
      by (subst n) (rule put_bytes_add [of out ?q r "\<lambda>i. c ! (words_out d + i)"])
    finally show ?thesis
      using fs(2) gs(2) hs(2) q4 by (intro exI [of _ ?f]) (simp add: after_text_def)
  qed
qed

subsection \<open>A stream cut into pieces of 80 bytes\<close>

text \<open>What the driver relies on: the engine gives a word for each word, of whole blocks in the block modes, and what
  it gives for whole blocks does not depend on the text that follows.\<close>

definition streams :: "engine \<Rightarrow> aes_cipher_mode \<Rightarrow> bool" where
  "streams crypt mode \<longleftrightarrow>
     (\<forall>r a t. 4 dvd length t \<or> \<not> block_mode mode \<longrightarrow> length (crypt r a t) = length t) \<and>
     (\<forall>r a t t'. 4 dvd length t \<longrightarrow> take (length t) (crypt r a (t @ t')) = crypt r a t)"

text \<open>The result does not run over the text that is still to be read.\<close>

definition text_apart :: "int \<Rightarrow> int \<Rightarrow> nat \<Rightarrow> bool" where
  "text_apart out p len \<longleftrightarrow> out \<le> p \<or> p + int len \<le> out"

lemma streams_nth:
  assumes "streams crypt mode" "4 dvd length t" "i < length t"
  shows "crypt r a t ! i = crypt r a (t @ t') ! i"
proof -
  have "take (length t) (crypt r a (t @ t')) = crypt r a t" using assms(1,2) by (simp add: streams_def)
  then show ?thesis using assms(3) nth_take [of i "length t" "crypt r a (t @ t')"] by simp
qed

lemma input_words_80: "input_words p 80 mode m = load_array 4 p 20 m"
  by (simp add: input_words_def buffer_words_def padded_def)

lemma load_array_add: "load_array n a (j + k) m = load_array n a j m @ load_array n (a + int (n * j)) k m"
  by (induction k) (simp_all add: load_array_def algebra_simps)

lemma process_blocks_effect:
  assumes "streams crypt mode" "4 dvd length (text_in d)" "words_out d = length (text_in d)" "text_apart out p (80 * n)"
    "20 * n \<le> ready (in_flag d)" "20 * n \<le> ready (out_flag d)"
  shows "\<exists>d'. process_blocks_80 crypt p out n mode (m, d) =
      Some (put_bytes out (80 * n) (\<lambda>i. crypt (aregs d) (aad_in d) (text_in d @ load_array 4 p (20 * n) m) ! (words_out d + i)) m, d') \<and>
    after_text d (load_array 4 p (20 * n) m) (20 * n) d'"
  using assms(2-)
proof (induction n arbitrary: p out m d)
  case 0
  then show ?case by (simp add: after_text_def load_array_def)
next
  case (Suc n)
  let ?W = "load_array 4 p 20 m"
  let ?c = "\<lambda>W i. crypt (aregs d) (aad_in d) (text_in d @ W) ! (words_out d + i)"
  have o80: "out_len mode 80 = 80" by (simp add: out_len_def padded_def)
  obtain d1 where 1: "process_less_80_bytes crypt p out 80 mode (m, d) = Some (put_bytes out 80 (?c ?W) m, d1)" "after_text d ?W 20 d1"
    using process_less_effect [of p 80 mode m d crypt out] Suc.prems(4,5) by (auto simp: input_words_80 o80)
  let ?m = "put_bytes out 80 (?c ?W) m"
  note a1 = 1(2) [unfolded after_text_def]
  have V: "load_array 4 (p + 80) (20 * n) ?m = load_array 4 (p + 80) (20 * n) m"
    using Suc.prems(3) by (intro load_array_cong) (auto simp: put_bytes_def text_apart_def)
  have c1: "(\<lambda>i. crypt (aregs d1) (aad_in d1) (text_in d1 @ l) ! (words_out d1 + i)) = (\<lambda>i. ?c (?W @ l) (20 + i))" for l
    using a1 by (simp add: add.assoc)
  have W: "load_array 4 p (20 * Suc n) m = ?W @ load_array 4 (p + 80) (20 * n) m"
    using load_array_add [of 4 p 20 "20 * n" m] by simp
  have "4 dvd length (text_in d1)" "words_out d1 = length (text_in d1)" using a1 Suc.prems(1,2) by simp_all
  moreover have "text_apart (out + 80) (p + 80) (80 * n)" using Suc.prems(3) by (auto simp: text_apart_def)
  moreover have "20 * n \<le> ready (in_flag d1)" "20 * n \<le> ready (out_flag d1)" using a1 Suc.prems(4,5) by simp_all
  ultimately obtain d2 where 2: "process_blocks_80 crypt (p + 80) (out + 80) n mode (?m, d1) =
      Some (put_bytes (out + 80) (80 * n) (\<lambda>i. ?c (?W @ load_array 4 (p + 80) (20 * n) m) (20 + i)) ?m, d2)"
      "after_text d1 (load_array 4 (p + 80) (20 * n) m) (20 * n) d2"
    using Suc.IH [of d1 "out + 80" "p + 80" ?m] unfolding c1 V by blast
  have "?m = put_bytes out (4 * 20) (?c (?W @ load_array 4 (p + 80) (20 * n) m)) m"
    using Suc.prems(1,2) streams_nth [OF assms(1), of "text_in d @ ?W"] by (simp, intro put_bytes_cong) simp
  then have "put_bytes (out + 80) (80 * n) (\<lambda>i. ?c (?W @ load_array 4 (p + 80) (20 * n) m) (20 + i)) ?m =
      put_bytes out (80 * Suc n) (?c (load_array 4 p (20 * Suc n) m)) m"
    using put_bytes_add [of out 20 "80 * n" "?c (?W @ load_array 4 (p + 80) (20 * n) m)" m] load_array_add [of 4 p 20 "20 * n" m] by simp
  moreover have "after_text d (load_array 4 p (20 * Suc n) m) (20 * Suc n) d2"
    using after_text_trans [OF 1(2) 2(2)] load_array_add [of 4 p 20 "20 * n" m] by simp
  ultimately show ?case using 1(1) 2(1) by (intro exI [of _ d2]) simp
qed

lemma input_words_split:
  "input_words p (80 * n + r) mode m = load_array 4 p (20 * n) m @ input_words (p + 80 * int n) r mode m"
proof -
  have "(80 * n + r) div 4 = 20 * n + r div 4" "(80 * n + r) mod 4 = r mod 4" by presburger+
  moreover have "padded (80 * n + r) - (80 * n + r) = padded r - r"
  proof -
    have "80 * n + r + 15 = r + 15 + 5 * n * 16" by simp
    then have "(80 * n + r + 15) div 16 = (r + 15) div 16 + 5 * n" by (metis div_mult_self1 add.commute zero_neq_numeral)
    then show ?thesis by (simp add: padded_def algebra_simps)
  qed
  moreover have "load_array 4 p (20 * n + r div 4) m = load_array 4 p (20 * n) m @ load_array 4 (p + 80 * int n) (r div 4) m"
    using load_array_add [of 4 p "20 * n" "r div 4" m] by simp
  moreover have "p + int (4 * (20 * n + r div 4)) = p + 80 * int n + int (4 * (r div 4))" by simp
  ultimately show ?thesis by (simp only: input_words_def buffer_words_def append_assoc)
qed

lemma div_split: "0 < k \<Longrightarrow> (k * a + b) div k = a + b div (k :: nat)"
  by simp

lemma rounded_up: "0 < b \<Longrightarrow> b \<le> k \<Longrightarrow> (b + (k - 1)) div k = (1 :: nat)"
  by (rule div_nat_eqI) simp_all

lemma buffer_words_length: "length (buffer_words p len m) = (len + 3) div 4"
proof -
  define q r where "q = len div 4" and "r = len mod 4"
  have len: "len = 4 * q + r" "r < 4" by (simp_all add: q_def r_def)
  have "(len + 3) div 4 = q + (r + 3) div 4" unfolding len(1) add.assoc by (rule div_split) simp
  then show ?thesis
    using rounded_up [of r 4] len(2) by (cases "r = 0") (simp_all add: buffer_words_def q_def [symmetric] r_def [symmetric])
qed

lemma padded_split: "b < 16 \<Longrightarrow> padded (16 * a + b) = 16 * a + (if b = 0 then 0 else 16)"
  unfolding padded_def add.assoc div_split [of 16, simplified] using rounded_up [of b 16] by (cases "b = 0") simp_all

lemma input_words_length: "length (input_words p len mode m) = (out_len mode len + 3) div 4"
proof -
  define a b where "a = len div 16" and "b = len mod 16"
  have len: "len = 16 * a + b" "b < 16" by (simp_all add: a_def b_def)
  have quarter: "(16 * a + x) div 4 = 4 * a + x div 4" for x
    using div_split [of 4 "4 * a" x] by simp
  have "b \<noteq> 0 \<Longrightarrow> (b + 3) div 4 + (16 - b) div 4 = 4" using len(2) by presburger
  then have "(len + 3) div 4 + (padded len - len) div 4 = (padded len + 3) div 4"
    unfolding len(1) padded_split [OF len(2)] by (cases "b = 0") (simp_all add: add.assoc quarter)
  then show ?thesis by (simp add: input_words_def out_len_def buffer_words_length)
qed

lemma out_len_split: "out_len mode (80 * n + r) = 80 * n + out_len mode r"
proof -
  have "(16 * (5 * n) + (r + 15)) div 16 = 5 * n + (r + 15) div 16" by (rule div_split) simp
  then have "padded (80 * n + r) = 80 * n + padded r" by (simp add: padded_def add.assoc)
  then show ?thesis by (simp add: out_len_def)
qed

text \<open>The bytes of the words: those of the buffer, then zeros.\<close>

lemma byte_of_load: "j < 4 \<Longrightarrow> byte_of (load_le n a m) j = (if j < n then m (a + int j) else 0)"
  by (rule bit_word_eqI) (auto simp: byte_of_def bit_simps load_le_bit dest: bit_imp_le_length)

lemma input_words_bytes:
  assumes "k < 4 * length (input_words p len mode m)"
  shows "byte_of (input_words p len mode m ! (k div 4)) (k mod 4) = (if k < len then m (p + int k) else 0)"
proof -
  define q r where "q = len div 4" and "r = len mod 4"
  define i j where "i = k div 4" and "j = k mod 4"
  have len: "len = 4 * q + r" "r < 4" and k: "k = 4 * i + j" "j < 4" by (simp_all add: q_def r_def i_def j_def)
  define z :: "u32 list" where "z = (if block_mode mode then replicate ((padded len - len) div 4) 0 else [])"
  have W: "input_words p len mode m = (load_array 4 p q m @ (if r \<noteq> 0 then [load_le r (p + int (4 * q)) m] else [])) @ z"
    by (simp add: z_def input_words_def buffer_words_def q_def r_def)
  have i: "i < length (input_words p len mode m)" using assms by (simp add: i_def less_mult_imp_div_less mult.commute)
  consider (full) "i < q" | (part) "i = q" "r \<noteq> 0" | (zero) "q + (if r \<noteq> 0 then 1 else 0) \<le> i"
    by (cases "i < q"; cases "i = q"; cases "r = 0") auto
  then have "byte_of (input_words p len mode m ! i) j = (if k < len then m (p + int k) else 0)"
  proof cases
    case full
    then have "input_words p len mode m ! i = load_le 4 (p + int (4 * i)) m" by (simp add: W nth_append load_array_def)
    then show ?thesis using full k len by (simp add: byte_of_load add.assoc)
  next
    case part
    then have "input_words p len mode m ! i = load_le r (p + int (4 * i)) m" by (simp add: W nth_append)
    then show ?thesis using part k len by (simp add: byte_of_load add.assoc)
  next
    case zero
    have "input_words p len mode m ! i = z ! (i - (q + (if r \<noteq> 0 then 1 else 0)))"
      using zero unfolding W by (subst nth_append) auto
    moreover have "i - (q + (if r \<noteq> 0 then 1 else 0)) < length z" using zero i unfolding W by (auto split: if_splits)
    moreover have "z ! n = 0" if "n < length z" for n using that by (cases "block_mode mode") (simp_all add: z_def)
    ultimately have "input_words p len mode m ! i = 0" by metis
    moreover have "\<not> k < len" using zero k len by (auto split: if_splits)
    ultimately show ?thesis by (simp add: byte_of_def)
  qed
  then show ?thesis by (simp add: i_def j_def)
qed

text \<open>C29.  Cutting the text into pieces of 80 bytes makes no difference: the driver gives the engine the bytes of the buffer, followed by zeros up to a
  whole block in the block modes and to a whole word otherwise, and stores the bytes of what the engine makes of that
  text as a whole, up to the padded length or, in the counter mode, to the very last byte and no further. The result may
  replace the text.\<close>

theorem aes_process_streams:
  assumes s: "streams crypt mode" and d: "text_in d = []" "words_out d = 0" and ap: "text_apart out p len"
    and W: "W = input_words p len mode m" and ready: "length W \<le> ready (in_flag d)" "length W \<le> ready (out_flag d)"
  shows "(\<exists>d'. aes_process crypt p out len mode (m, d) =
      Some (put_bytes out (out_len mode len) (\<lambda>i. crypt (aregs d) (aad_in d) W ! i) m, d') \<and> text_in d' = W \<and> words_out d' = length W) \<and>
    length W = (out_len mode len + 3) div 4 \<and>
    (\<forall>k < 4 * length W. byte_of (W ! (k div 4)) (k mod 4) = (if k < len then m (p + int k) else 0))"
proof -
  define n r where "n = len div 80" and "r = len mod 80"
  have len: "len = 80 * n + r" by (simp add: n_def r_def)
  let ?c = "\<lambda>t i. crypt (aregs d) (aad_in d) t ! i"
  let ?A = "load_array 4 p (20 * n) m"
  let ?B = "input_words (p + 80 * int n) r mode m"
  have W': "W = ?A @ ?B" unfolding W len by (rule input_words_split)
  have "text_apart out p (80 * n)" using ap by (auto simp: text_apart_def len)
  then obtain d1 where 1: "process_blocks_80 crypt p out n mode (m, d) = Some (put_bytes out (80 * n) (?c ?A) m, d1)" "after_text d ?A (20 * n) d1"
    using process_blocks_effect [OF s, of d out p n m] d ready by (auto simp: W')
  let ?m = "put_bytes out (80 * n) (?c ?A) m"
  note a1 = 1(2) [unfolded after_text_def]
  have "\<exists>d'. aes_process crypt p out len mode (m, d) = Some (put_bytes out (out_len mode len) (?c W) m, d') \<and> text_in d' = W \<and> words_out d' = length W"
  proof (cases "r = 0")
    case True
    then have "?B = []" by (simp add: input_words_def buffer_words_def padded_def load_array_def)
    moreover have "out_len mode len = 80 * n" using out_len_split [of mode n 0] True by (simp add: len out_len_def padded_def)
    ultimately show ?thesis
      using 1 True d a1 by (intro exI [of _ d1]) (simp add: aes_process_def n_def [symmetric] r_def [symmetric] W')
  next
    case False
    have "buffer_words (p + 80 * int n) r ?m = buffer_words (p + 80 * int n) r m"
      using ap by (intro buffer_words_cong) (auto simp: put_bytes_def text_apart_def len)
    then have B: "input_words (p + 80 * int n) r mode ?m = ?B" by (simp add: input_words_def)
    have lB: "length ?B = (out_len mode r + 3) div 4" by (rule input_words_length)
    obtain d2 where 2: "process_less_80_bytes crypt (p + 80 * int n) (out + 80 * int n) r mode (?m, d1) =
        Some (put_bytes (out + 80 * int n) (out_len mode r) (\<lambda>i. ?c W (20 * n + i)) ?m, d2)" "after_text d1 ?B (length ?B) d2"
      using process_less_effect [of "p + 80 * int n" r mode ?m d1 crypt "out + 80 * int n"] ready a1 d lB by (auto simp: B W')
    have "?m = put_bytes out (4 * (20 * n)) (?c W) m"
      using streams_nth [OF s, of ?A] by (simp, intro put_bytes_cong) (simp add: W')
    then have "put_bytes (out + 80 * int n) (out_len mode r) (\<lambda>i. ?c W (20 * n + i)) ?m = put_bytes out (out_len mode len) (?c W) m"
      using put_bytes_add [of out "20 * n" "out_len mode r" "?c W" m] by (simp add: len out_len_split)
    then show ?thesis
      using 1(1) 2 a1 d False
      by (intro exI [of _ d2]) (simp add: aes_process_def n_def [symmetric] r_def [symmetric] W' after_text_def mult.commute)
  qed
  then show ?thesis using input_words_length [of p len mode m] input_words_bytes [of _ p len mode m] by (simp add: W)
qed

text \<open>An engine for a concrete run: it turns every bit of the text.\<close>

lemma toy_streams: "streams (\<lambda>r a t. map NOT t) mode"
  by (simp add: streams_def)

lemma aes_process_streams_witness:
  "\<forall>d. let d = d\<lparr>text_in := [], words_out := 0, in_flag := replicate 30 True, out_flag := replicate 30 True\<rparr>
   in \<exists>m' d'. aes_process (\<lambda>r a t. map NOT t) 100 100 82 AES_GCM (word_of_int, d) = Some (m', d') \<and> m' 181 = 0x4A \<and> m' 182 = 182"
proof
  fix d :: aes
  let ?d = "d\<lparr>text_in := [], words_out := 0, in_flag := replicate 30 True, out_flag := replicate 30 True\<rparr>"
  let ?W = "input_words 100 82 AES_GCM word_of_int"
  have o: "out_len AES_GCM 82 = 82" by (simp add: out_len_def block_mode_def)
  have l: "length ?W = 21" using input_words_length [of 100 82 AES_GCM] by (simp add: o)
  have rdy: "ready (replicate 30 True) = 30" by (simp add: ready_def)
  have ap: "text_apart 100 100 82" by (simp add: text_apart_def)
  obtain d' where a: "aes_process (\<lambda>r a t. map NOT t) 100 100 82 AES_GCM (word_of_int, ?d) =
      Some (put_bytes 100 82 (\<lambda>i. map NOT ?W ! i) word_of_int, d')"
    and b: "\<forall>k < 4 * length ?W. byte_of (?W ! (k div 4)) (k mod 4) = (if k < 82 then word_of_int (100 + int k) else 0)"
    using aes_process_streams [OF toy_streams [of AES_GCM] _ _ ap refl, of ?d word_of_int] by (auto simp: l rdy o)
  have "byte_of (NOT w) 1 = NOT (byte_of w 1)" for w
    by (rule bit_word_eqI) (simp add: byte_of_def bit_simps)
  then have "put_bytes 100 82 (\<lambda>i. map NOT ?W ! i) word_of_int 181 = NOT (byte_of (?W ! 20) 1)"
    by (simp add: put_bytes_def l)
  moreover have "byte_of (?W ! 20) 1 = 181" using b [rule_format, of 81] by (simp add: l)
  moreover have "put_bytes 100 82 (\<lambda>i. map NOT ?W ! i) word_of_int 182 = 182" by (simp add: put_bytes_def)
  ultimately show "let d = ?d in \<exists>m' d'. aes_process (\<lambda>r a t. map NOT t) 100 100 82 AES_GCM (word_of_int, d) = Some (m', d') \<and>
      m' 181 = 0x4A \<and> m' 182 = 182"
    unfolding Let_def by (intro exI [of _ "put_bytes 100 82 (\<lambda>i. map NOT ?W ! i) word_of_int"] exI [of _ d']) (simp add: a)
qed

end
