(* ===== verification/Kpu_Image.thy ===== *)
theory Kpu_Image
  imports Byte_Memory
begin

text \<open>
  Images in the memory of the neural network processor, as \<open>lib/drivers/kpu.c\<close> lays them out there: the upload of an image
  by rows of pixels, whole or in double words, and the padding of single pixels.  Buffers are addresses of one byte
  addressed memory, counts of pixels and channels (\<open>size_t\<close>) natural numbers.
\<close>

subsection \<open>Images in the memory of the processor\<close>

definition AI_IO_BASE_ADDR :: u32 where "AI_IO_BASE_ADDR = 0x40600000"

text \<open>Rows of pixels lie in lines of 64 bytes; narrow rows of several channels share a line.\<close>

record row_layout =
  row_padding :: nat
  row_group :: nat
  row_length :: nat

definition rows_of :: "nat \<Rightarrow> row_layout" where
  "rows_of width =
     (if width \<le> 16 then \<lparr>row_padding = 16, row_group = 4, row_length = 1\<rparr>
      else if width \<le> 32 then \<lparr>row_padding = 32, row_group = 2, row_length = 1\<rparr>
      else \<lparr>row_padding = 64, row_group = 1, row_length = (width + 63) div 64\<rparr>)"

definition channel_origin :: "row_layout \<Rightarrow> nat \<Rightarrow> nat \<Rightarrow> nat" where
  "channel_origin r height oc = oc div row_group r * row_length r * height * 64 + oc mod row_group r * row_padding r"

definition y_origin :: "row_layout \<Rightarrow> nat \<Rightarrow> nat \<Rightarrow> nat \<Rightarrow> nat" where
  "y_origin r height oc y = channel_origin r height oc + y * row_length r * 64"

text \<open>\<open>memcpy\<close> of \<open>n\<close> bytes.\<close>

definition moved :: "int \<Rightarrow> int \<Rightarrow> nat \<Rightarrow> memory \<Rightarrow> memory" where
  "moved d src n m x = (if d \<le> x \<and> x < d + int n then m (src + (x - d)) else m x)"

text \<open>The source pointer advances through the image; a state is the pointer and the memory.\<close>

fun copy_row :: "int \<Rightarrow> nat \<Rightarrow> int \<times> memory \<Rightarrow> int \<times> memory" where
  "copy_row d 0 s = s"
| "copy_row d (Suc n) (src, m) = copy_row (d + 1) n (src + 1, m(d := m src))"

fun copy_row64 :: "int \<Rightarrow> nat \<Rightarrow> int \<times> memory \<Rightarrow> int \<times> memory" where
  "copy_row64 d 0 s = s"
| "copy_row64 d (Suc n) (src, m) = copy_row64 (d + 8) n (src + 8, store64 d (load64 src m) m)"

text \<open>Rows of one, two and four double words have loops of their own.\<close>

definition upload_words :: "nat \<Rightarrow> int \<Rightarrow> int \<times> memory \<Rightarrow> int \<times> memory" where
  "upload_words width d s =
     (let move = (\<lambda>k (src, m). (src + 8, store64 (d + 8 * k) (load64 src m) m))
      in if width = 1 then move 0 s
         else if width = 2 then move 1 (move 0 s)
         else if width = 4 then move 3 (move 2 (move 1 (move 0 s)))
         else copy_row64 d width s)"

definition upload_rows ::
  "(int \<Rightarrow> int \<times> memory \<Rightarrow> int \<times> memory) \<Rightarrow> row_layout \<Rightarrow> int \<Rightarrow> nat \<Rightarrow> nat \<Rightarrow> int \<times> memory \<Rightarrow> int \<times> memory" where
  "upload_rows row r dest height channels =
     fold (\<lambda>oc. fold (\<lambda>y. row (dest + int (y_origin r height oc y))) [0..<height]) [0..<channels]"

definition kpu_upload_core :: "nat \<Rightarrow> nat \<Rightarrow> nat \<Rightarrow> int \<Rightarrow> u32 \<Rightarrow> memory \<Rightarrow> memory" where
  "kpu_upload_core width height channels src kpu_addr m =
     (let dest = uint (AI_IO_BASE_ADDR + kpu_addr * 64); r = rows_of width
      in snd (if src mod 8 = 0 \<and> width mod 8 = 0
              then upload_rows (upload_words (width div 8)) r dest height channels (src, m)
              else upload_rows (\<lambda>d. copy_row d width) r dest height channels (src, m)))"

definition kpu_input_with_padding :: "u32 \<Rightarrow> int \<Rightarrow> nat \<Rightarrow> nat \<Rightarrow> nat \<Rightarrow> memory \<Rightarrow> memory" where
  "kpu_input_with_padding image_src_addr src width height channels m =
     snd (upload_rows (\<lambda>d. copy_row d width) (rows_of width) (uint (AI_IO_BASE_ADDR + image_src_addr * 64)) height channels (src, m))"

definition kpu_add_padding :: "int \<Rightarrow> u32 \<Rightarrow> nat \<Rightarrow> memory \<Rightarrow> memory" where
  "kpu_add_padding src kpu_mem_out_address channels m =
     snd (fold (\<lambda>oc (src, m).
            (src + 1, m(uint (AI_IO_BASE_ADDR + kpu_mem_out_address * 64) +
                        int (y_origin \<lparr>row_padding = 16, row_group = 4, row_length = 1\<rparr> 4 oc 0) := m src)))
          [0..<channels] (src, m))"

definition kpu_remove_padding :: "int \<Rightarrow> int \<Rightarrow> nat \<Rightarrow> memory \<Rightarrow> memory" where
  "kpu_remove_padding src dest channels m =
     fold (\<lambda>oc m. m(dest + int oc := m (src + int (oc * 16)))) [0..<channels] m"

subsection \<open>Copying rows\<close>

definition disjoint_from :: "int \<Rightarrow> nat \<Rightarrow> int \<Rightarrow> nat \<Rightarrow> bool" where
  "disjoint_from a n b k \<longleftrightarrow> a + int n \<le> b \<or> b + int k \<le> a"

lemma moved_0 [simp]: "moved d src 0 m = m"
  by (rule ext) (auto simp: moved_def)

lemma moved_add:
  assumes "disjoint_from d (j + k) src (j + k)"
  shows "moved (d + int j) (src + int j) k (moved d src j m) = moved d src (j + k) m"
proof
  fix x
  show "moved (d + int j) (src + int j) k (moved d src j m) x = moved d src (j + k) m x"
    using assms by (auto simp: moved_def disjoint_from_def)
qed

text \<open>Both ways of copying a row move its bytes and the pointer.\<close>

lemma copy_row_moves: "disjoint_from d n src n \<Longrightarrow> copy_row d n (src, m) = (src + int n, moved d src n m)"
proof (induction n arbitrary: d src m)
  case (Suc n)
  have "m(d := m src) = moved d src 1 m" by (rule ext) (auto simp: moved_def)
  moreover have "copy_row (d + 1) n (src + 1, m') = (src + 1 + int n, moved (d + 1) (src + 1) n m')" for m'
    using Suc.prems by (intro Suc.IH) (auto simp: disjoint_from_def)
  ultimately show ?case using moved_add [of d 1 n src m] Suc.prems by simp
qed simp

lemma move64_moved: "store64 d (load64 src m) m = moved d src 8 m"
  by (rule ext) (simp add: move64 moved_def)

lemma copy_row64_moves: "disjoint_from d (8 * n) src (8 * n) \<Longrightarrow> copy_row64 d n (src, m) = (src + int (8 * n), moved d src (8 * n) m)"
proof (induction n arbitrary: d src m)
  case (Suc n)
  have "copy_row64 (d + 8) n (src + 8, m') = (src + 8 + int (8 * n), moved (d + 8) (src + 8) (8 * n) m')" for m'
    using Suc.prems by (intro Suc.IH) (auto simp: disjoint_from_def)
  then show ?case using moved_add [of d 8 "8 * n" src m] Suc.prems by (simp add: move64_moved)
qed simp

text \<open>A sequence of rows that overlap neither each other nor the image.\<close>

definition rows_apart :: "nat \<Rightarrow> int list \<Rightarrow> int \<Rightarrow> bool" where
  "rows_apart w ds src \<longleftrightarrow>
     (\<forall>i<length ds. disjoint_from (ds ! i) w src (w * length ds) \<and> (\<forall>j<i. disjoint_from (ds ! j) w (ds ! i) w))"

lemma rows_apart_Cons:
  "rows_apart w (d # ds) src \<Longrightarrow>
   disjoint_from d w src (w * Suc (length ds)) \<and> rows_apart w ds (src + int w) \<and> (\<forall>i<length ds. disjoint_from d w (ds ! i) w)"
  unfolding rows_apart_def
  by (intro conjI allI impI)
    (use spec [of _ "0 :: nat"] spec [of _ "Suc _"] in \<open>force simp: disjoint_from_def algebra_simps\<close>)+

lemma rows_moved:
  assumes row: "\<And>d src m. disjoint_from d w src w \<Longrightarrow> row d (src, m) = (src + int w, moved d src w m)"
    and "rows_apart w ds src"
  shows "(\<forall>i<length ds. \<forall>k<w. snd (fold row ds (src, m)) (ds ! i + int k) = m (src + int (w * i + k))) \<and>
    (\<forall>x. (\<forall>i<length ds. \<not> (ds ! i \<le> x \<and> x < ds ! i + int w)) \<longrightarrow> snd (fold row ds (src, m)) x = m x)"
  using assms(2)
proof (induction ds arbitrary: src m)
  case (Cons d ds)
  note ap = rows_apart_Cons [OF Cons.prems]
  let ?m = "moved d src w m" and ?m' = "snd (fold row (d # ds) (src, m))"
  have "w \<le> w * Suc (length ds)" by simp
  then have "disjoint_from d w src w" using ap unfolding disjoint_from_def by linarith
  then have m': "?m' = snd (fold row ds (src + int w, ?m))" by (simp add: row)
  have ap': "rows_apart w ds (src + int w)" using ap by blast
  note IH = Cons.IH [OF ap', of ?m, folded m']
  have untouched: "?m' x = ?m x" if "\<forall>i<length ds. \<not> (ds ! i \<le> x \<and> x < ds ! i + int w)" for x
    using IH that by blast
  have first: "?m' (d + int k) = m (src + int k)" if "k < w" for k
  proof -
    have "?m' (d + int k) = ?m (d + int k)"
      by (rule untouched) (use ap that in \<open>auto simp: disjoint_from_def\<close>)
    then show ?thesis using that by (simp add: moved_def)
  qed
  have rest: "?m' (ds ! i + int k) = m (src + int (w * Suc i + k))" if "i < length ds" "k < w" for i k
  proof -
    have "w * i + w \<le> w * length ds" using that(1) by (metis Suc_leI mult_Suc_right mult_le_mono2 add.commute)
    then have n: "w * i + k < w * length ds" using that(2) by linarith
    have "?m' (ds ! i + int k) = ?m (src + int w + int (w * i + k))" using IH ap that by simp
    also have "\<dots> = m (src + int w + int (w * i + k))"
    proof -
      have "w * Suc (length ds) = w + w * length ds" by simp
      then have "\<not> (d \<le> src + int w + int (w * i + k) \<and> src + int w + int (w * i + k) < d + int w)"
        using ap n unfolding disjoint_from_def by linarith
      then show ?thesis unfolding moved_def by meson
    qed
    finally show ?thesis by (simp add: algebra_simps)
  qed
  have others: "?m' x = m x" if "\<forall>i<length (d # ds). \<not> ((d # ds) ! i \<le> x \<and> x < (d # ds) ! i + int w)" for x
  proof -
    have "\<forall>i<length ds. \<not> (ds ! i \<le> x \<and> x < ds ! i + int w)" using that by force
    moreover have "\<not> (d \<le> x \<and> x < d + int w)" using that by force
    ultimately show ?thesis using untouched [of x] by (auto simp: moved_def)
  qed
  show ?case using first rest others by (auto simp: less_Suc_eq_0_disj distrib_left add.assoc)
qed simp

definition row_addrs :: "row_layout \<Rightarrow> int \<Rightarrow> nat \<Rightarrow> nat \<Rightarrow> int list" where
  "row_addrs r dest height channels = concat (map (\<lambda>oc. map (\<lambda>y. dest + int (y_origin r height oc y)) [0..<height]) [0..<channels])"

lemma upload_rows_fold: "upload_rows row r dest height channels s = fold row (row_addrs r dest height channels) s"
proof -
  have "fold (\<lambda>oc. fold (\<lambda>y. row (g oc y)) ys) ocs s = fold row (concat (map (\<lambda>oc. map (g oc) ys) ocs)) s" for g ys ocs
    by (induction ocs arbitrary: s) (simp_all add: fold_map o_def)
  then show ?thesis by (simp add: upload_rows_def row_addrs_def)
qed

lemma concat_rows:
  "length (concat (map (\<lambda>a. map (g a) [0..<h]) [0..<c])) = c * h \<and>
   (\<forall>a<c. \<forall>b<h. concat (map (\<lambda>a. map (g a) [0..<h]) [0..<c]) ! (a * h + b) = g a b)"
proof (induction c)
  case (Suc c)
  let ?xs = "concat (map (\<lambda>a. map (g a) [0..<h]) [0..<c])"
  have "(?xs @ map (g c) [0..<h]) ! (a * h + b) = g a b" if "a < Suc c" "b < h" for a b
  proof (cases "a = c")
    case False
    then have "a < c" using that by simp
    then have "Suc a * h \<le> c * h" by (intro mult_le_mono1) simp
    then have "a * h + b < c * h" using that by simp
    then show ?thesis using Suc that \<open>a < c\<close> by (simp add: nth_append)
  qed (use Suc that in \<open>simp add: nth_append\<close>)
  then show ?case using Suc by simp
qed simp

lemma row_addrs_nth:
  "length (row_addrs r dest height channels) = channels * height"
  "oc < channels \<Longrightarrow> y < height \<Longrightarrow> row_addrs r dest height channels ! (oc * height + y) = dest + int (y_origin r height oc y)"
  unfolding row_addrs_def using concat_rows [where g = "\<lambda>oc y. dest + int (y_origin r height oc y)" and c = channels and h = height]
  by blast+

subsection \<open>The layout\<close>

abbreviation line_bytes :: "row_layout \<Rightarrow> nat" where "line_bytes r \<equiv> row_length r * 64"

definition image_bytes :: "row_layout \<Rightarrow> nat \<Rightarrow> nat \<Rightarrow> nat" where
  "image_bytes r height channels = (channels + row_group r - 1) div row_group r * height * line_bytes r"

definition good_layout :: "row_layout \<Rightarrow> nat \<Rightarrow> bool" where
  "good_layout r w \<longleftrightarrow> 0 < row_group r \<and> 0 < w \<and> (row_group r - 1) * row_padding r + w \<le> line_bytes r \<and> (1 < row_group r \<longrightarrow> w \<le> row_padding r)"

lemma rows_of_good: "0 < w \<Longrightarrow> good_layout (rows_of w) w"
  by (auto simp: rows_of_def good_layout_def)

lemma y_origin_line:
  "y_origin r h oc y = (oc div row_group r * h + y) * line_bytes r + oc mod row_group r * row_padding r"
  by (simp add: y_origin_def channel_origin_def algebra_simps)

lemma in_line:
  assumes "good_layout r w"
  shows "oc mod row_group r * row_padding r + w \<le> line_bytes r"
proof -
  have "oc mod row_group r \<le> row_group r - 1"
    using assms mod_less_divisor [of "row_group r" oc] unfolding good_layout_def by linarith
  then have "oc mod row_group r * row_padding r \<le> (row_group r - 1) * row_padding r" by (rule mult_le_mono1)
  then show ?thesis using assms unfolding good_layout_def by linarith
qed

lemma lines_apart: "a < b \<Longrightarrow> i + w \<le> L \<Longrightarrow> a * L + i + w \<le> b * L + (j :: nat)"
proof -
  assume "a < b" and i: "i + w \<le> L"
  then have "Suc a * L \<le> b * L" by (intro mult_le_mono1) simp
  then show ?thesis using i by simp
qed

lemma rows_disjoint:
  assumes g: "good_layout r w" and y: "y < h" "y' < h" and ne: "(oc, y) \<noteq> (oc', y')"
  shows "y_origin r h oc y + w \<le> y_origin r h oc' y' \<or> y_origin r h oc' y' + w \<le> y_origin r h oc y"
proof -
  let ?l = "oc div row_group r * h + y" and ?l' = "oc' div row_group r * h + y'"
  consider "?l < ?l'" | "?l' < ?l" | "?l = ?l'" by linarith
  then show ?thesis
  proof cases
    case 1
    then show ?thesis unfolding y_origin_line using lines_apart [OF _ in_line [OF g]] by blast
  next
    case 2
    then show ?thesis unfolding y_origin_line using lines_apart [OF _ in_line [OF g]] by blast
  next
    case 3
    have "?l div h = ?l' div h" "?l mod h = ?l' mod h" using 3 by simp_all
    then have dy: "oc div row_group r = oc' div row_group r" "y = y'" using y by simp_all
    then have m: "oc mod row_group r \<noteq> oc' mod row_group r" using ne by (metis div_mult_mod_eq)
    have "row_group r \<noteq> 1" using m by auto
    then have w: "w \<le> row_padding r" using g unfolding good_layout_def by linarith
    have a: "i * row_padding r + w \<le> j * row_padding r" if "i < j" for i j
      using lines_apart [OF that, of 0 w "row_padding r" 0] w by simp
    show ?thesis unfolding y_origin_line 3 using a m by (metis add.assoc add_le_cancel_left nat_neq_iff)
  qed
qed

lemma row_inside:
  assumes g: "good_layout r w" and "oc < channels" "y < h"
  shows "y_origin r h oc y + w \<le> image_bytes r h channels"
proof -
  let ?G = "row_group r"
  have G: "0 < ?G" using g by (simp add: good_layout_def)
  have "oc div ?G + 1 \<le> (channels + ?G - 1) div ?G"
    using div_le_mono [of "oc + ?G" "channels + ?G - 1" ?G] assms(2) G by (simp add: div_add_self2 [of ?G oc])
  then have "(oc div ?G + 1) * h \<le> (channels + ?G - 1) div ?G * h" by (rule mult_le_mono1)
  then have "oc div ?G * h + y < (channels + ?G - 1) div ?G * h" using assms(3) by simp
  then show ?thesis unfolding y_origin_line image_bytes_def using lines_apart [OF _ in_line [OF g], of _ _ oc 0] by fastforce
qed

lemma upload_words_loop: "upload_words n d s = copy_row64 d n s"
  by (cases s) (simp add: upload_words_def numeral_eq_Suc add.commute)

lemma image_rows_apart:
  assumes "0 < w" and "disjoint_from dest (image_bytes (rows_of w) h c) src (c * h * w)"
  shows "rows_apart w (row_addrs (rows_of w) dest h c) src"
proof -
  let ?r = "rows_of w"
  note g = rows_of_good [OF assms(1)]
  have n: "length (row_addrs ?r dest h c) = c * h" by (rule row_addrs_nth)
  have split: "\<exists>oc y. oc < c \<and> y < h \<and> i = oc * h + y" if "i < c * h" for i
  proof -
    have "0 < h" using that by (cases h) auto
    then show ?thesis using that by (intro exI [of _ "i div h"] exI [of _ "i mod h"]) (simp add: less_mult_imp_div_less)
  qed
  have at: "\<exists>oc y. oc < c \<and> y < h \<and> i = oc * h + y \<and> row_addrs ?r dest h c ! i = dest + int (y_origin ?r h oc y)" if "i < c * h" for i
    using split [OF that] row_addrs_nth(2) by blast
  have "disjoint_from (row_addrs ?r dest h c ! i) w src (w * (c * h))" if i: "i < c * h" for i
  proof -
    from at [OF i] obtain oc y where "oc < c" "y < h" and a: "row_addrs ?r dest h c ! i = dest + int (y_origin ?r h oc y)" by blast
    then have "y_origin ?r h oc y + w \<le> image_bytes ?r h c" by (intro row_inside [OF g])
    moreover have "w * (c * h) = c * h * w" by simp
    ultimately show ?thesis using assms(2) unfolding a disjoint_from_def by linarith
  qed
  moreover have "disjoint_from (row_addrs ?r dest h c ! j) w (row_addrs ?r dest h c ! i) w" if "i < c * h" "j < i" for i j
  proof -
    from that have "j < c * h" by simp
    from at [OF that(1)] at [OF this] obtain oc y oc' y'
      where y: "y < h" "y' < h" and ij: "i = oc * h + y" "j = oc' * h + y'"
        and a: "row_addrs ?r dest h c ! i = dest + int (y_origin ?r h oc y)" "row_addrs ?r dest h c ! j = dest + int (y_origin ?r h oc' y')"
      by blast
    have "(oc, y) \<noteq> (oc', y')" using ij that(2) by auto
    from rows_disjoint [OF g y this] show ?thesis unfolding a disjoint_from_def by linarith
  qed
  ultimately show ?thesis unfolding rows_apart_def n by blast
qed

lemma upload_rows_effect:
  assumes row: "\<And>d src m. disjoint_from d w src w \<Longrightarrow> row d (src, m) = (src + int w, moved d src w m)"
    and w: "0 < w" and dis: "disjoint_from dest (image_bytes (rows_of w) h c) src (c * h * w)"
  shows "(\<forall>oc<c. \<forall>y<h. \<forall>x<w. snd (upload_rows row (rows_of w) dest h c (src, m)) (dest + int (y_origin (rows_of w) h oc y + x)) =
      m (src + int ((oc * h + y) * w + x))) \<and>
    (\<forall>a. (\<forall>oc<c. \<forall>y<h. \<not> (dest + int (y_origin (rows_of w) h oc y) \<le> a \<and> a < dest + int (y_origin (rows_of w) h oc y + w))) \<longrightarrow>
      snd (upload_rows row (rows_of w) dest h c (src, m)) a = m a)"
proof -
  let ?ds = "row_addrs (rows_of w) dest h c"
  note e = rows_moved [OF row image_rows_apart [OF w dis], of m, folded upload_rows_fold]
  have n: "length ?ds = c * h" by (rule row_addrs_nth)
  have i: "oc * h + y < c * h" if "oc < c" "y < h" for oc y
  proof -
    have "Suc oc * h \<le> c * h" using that(1) by (intro mult_le_mono1) simp
    then show ?thesis using that(2) by simp
  qed
  have "snd (upload_rows row (rows_of w) dest h c (src, m)) (dest + int (y_origin (rows_of w) h oc y + x)) = m (src + int ((oc * h + y) * w + x))"
    if "oc < c" "y < h" "x < w" for oc y x
  proof -
    have "snd (upload_rows row (rows_of w) dest h c (src, m)) (?ds ! (oc * h + y) + int x) = m (src + int (w * (oc * h + y) + x))"
      using e i [OF that(1,2)] that(3) n by simp
    moreover have "dest + int (y_origin (rows_of w) h oc y + x) = ?ds ! (oc * h + y) + int x"
      by (simp add: row_addrs_nth(2) [OF that(1,2)])
    moreover have "w * (oc * h + y) + x = (oc * h + y) * w + x" by (simp only: mult.commute)
    ultimately show ?thesis by (simp only:)
  qed
  moreover have "snd (upload_rows row (rows_of w) dest h c (src, m)) a = m a"
    if a: "\<forall>oc<c. \<forall>y<h. \<not> (dest + int (y_origin (rows_of w) h oc y) \<le> a \<and> a < dest + int (y_origin (rows_of w) h oc y + w))" for a
  proof -
    have "\<not> (?ds ! i \<le> a \<and> a < ?ds ! i + int w)" if "i < c * h" for i
    proof -
      have h: "0 < h" using that by (cases h) auto
      then have "i div h < c" "i mod h < h" using that by (simp_all add: less_mult_imp_div_less)
      then show ?thesis using a row_addrs_nth(2) [of "i div h" c "i mod h" h "rows_of w" dest] by (metis add.assoc div_mult_mod_eq of_nat_add)
    qed
    then show ?thesis using e n by auto
  qed
  ultimately show ?thesis by blast
qed

text \<open>C32.  An image that is uploaded lies in the memory of the neural network processor pixel by pixel where the layout of
  its width puts it, and nothing else changes, whichever of the copying loops the alignment and the width choose; the
  function for images of a task does the same.\<close>

theorem kpu_upload_places_pixels:
  assumes w: "0 < w" and dest: "dest = uint (AI_IO_BASE_ADDR + kpu_addr * 64)"
    and dis: "disjoint_from dest (image_bytes (rows_of w) h c) src (c * h * w)"
  shows "(\<forall>oc<c. \<forall>y<h. \<forall>x<w. kpu_upload_core w h c src kpu_addr m (dest + int (y_origin (rows_of w) h oc y + x)) =
      m (src + int ((oc * h + y) * w + x))) \<and>
    (\<forall>a. (\<forall>oc<c. \<forall>y<h. \<not> (dest + int (y_origin (rows_of w) h oc y) \<le> a \<and> a < dest + int (y_origin (rows_of w) h oc y + w))) \<longrightarrow>
      kpu_upload_core w h c src kpu_addr m a = m a) \<and>
    kpu_input_with_padding kpu_addr src w h c m = kpu_upload_core w h c src kpu_addr m"
proof -
  have bytes: "copy_row d w (src, m) = (src + int w, moved d src w m)" if "disjoint_from d w src w" for d src m
    using that by (rule copy_row_moves)
  have words: "upload_words (w div 8) d (src, m) = (src + int w, moved d src w m)" if "w mod 8 = 0" "disjoint_from d w src w" for d src m
  proof -
    have "8 * (w div 8) = w" using that(1) by (simp add: mod_eq_0_iff_dvd)
    then show ?thesis using copy_row64_moves [of d "w div 8" src m] that(2) by (simp add: upload_words_loop)
  qed
  have same: "snd (upload_rows (upload_words (w div 8)) (rows_of w) dest h c (src, m)) = snd (upload_rows (\<lambda>d. copy_row d w) (rows_of w) dest h c (src, m))"
    if "w mod 8 = 0"
  proof
    fix a
    note e = upload_rows_effect [OF bytes w dis, of m] upload_rows_effect [OF words [OF that] w dis, of m]
    show "snd (upload_rows (upload_words (w div 8)) (rows_of w) dest h c (src, m)) a = snd (upload_rows (\<lambda>d. copy_row d w) (rows_of w) dest h c (src, m)) a"
    proof (cases "\<exists>oc<c. \<exists>y<h. \<exists>x<w. a = dest + int (y_origin (rows_of w) h oc y + x)")
      case True
      then show ?thesis using e by auto
    next
      case False
      have "\<forall>oc<c. \<forall>y<h. \<not> (dest + int (y_origin (rows_of w) h oc y) \<le> a \<and> a < dest + int (y_origin (rows_of w) h oc y + w))"
      proof (intro allI impI notI)
        fix oc y
        assume "oc < c" "y < h"
          and a: "dest + int (y_origin (rows_of w) h oc y) \<le> a \<and> a < dest + int (y_origin (rows_of w) h oc y + w)"
        from a have "nat (a - (dest + int (y_origin (rows_of w) h oc y))) < w"
          and "a = dest + int (y_origin (rows_of w) h oc y + nat (a - (dest + int (y_origin (rows_of w) h oc y))))" by linarith+
        then show False using False \<open>oc < c\<close> \<open>y < h\<close> by blast
      qed
      then show ?thesis using e(1) [THEN conjunct2] e(2) [THEN conjunct2] by simp
    qed
  qed
  have core: "kpu_upload_core w h c src kpu_addr m = snd (upload_rows (\<lambda>d. copy_row d w) (rows_of w) dest h c (src, m))"
    using same by (simp add: kpu_upload_core_def dest Let_def)
  show ?thesis
    using upload_rows_effect [OF bytes w dis, of m] by (simp add: core kpu_input_with_padding_def dest)
qed

lemma kpu_upload_places_pixels_witness:
  "\<forall>m. kpu_upload_core 40 3 2 0x80000000 5 m (0x40600140 + (5 * 64 + 39)) = m (0x80000000 + 239) \<and>
     kpu_upload_core 40 3 2 0x80000000 5 m (0x40600140 + 40) = m (0x40600140 + 40)"
proof
  fix m :: memory
  have w: "0 < (40 :: nat)" by simp
  have d: "uint (AI_IO_BASE_ADDR + 5 * 64) = 0x40600140" by (simp add: AI_IO_BASE_ADDR_def)
  have r: "rows_of 40 = \<lparr>row_padding = 64, row_group = 1, row_length = 1\<rparr>" by (simp add: rows_of_def)
  have "disjoint_from 0x40600140 (image_bytes (rows_of 40) 3 2) 0x80000000 (2 * 3 * 40)"
    by (simp add: r image_bytes_def disjoint_from_def)
  note e = kpu_upload_places_pixels [OF w d [symmetric] this, of m]
  have "kpu_upload_core 40 3 2 0x80000000 5 m (0x40600140 + int (y_origin (rows_of 40) 3 1 2 + 39)) = m (0x80000000 + int ((1 * 3 + 2) * 40 + 39))"
    using e [THEN conjunct1, rule_format, of 1 2 39] by simp
  moreover have "kpu_upload_core 40 3 2 0x80000000 5 m (0x40600140 + 40) = m (0x40600140 + 40)"
    by (rule e [THEN conjunct2, THEN conjunct1, rule_format]) (auto simp: r y_origin_def channel_origin_def less_Suc_eq numeral_2_eq_2 numeral_3_eq_3)
  ultimately show "kpu_upload_core 40 3 2 0x80000000 5 m (0x40600140 + (5 * 64 + 39)) = m (0x80000000 + 239) \<and>
     kpu_upload_core 40 3 2 0x80000000 5 m (0x40600140 + 40) = m (0x40600140 + 40)"
    by (simp add: r y_origin_def channel_origin_def)
qed

end
