(* ===== verification/Kpu.thy ===== *)
theory Kpu
  imports Sysctl_Freq Dma_Client Kpu_Image "HOL-Library.Monad_Syntax"
begin

text \<open>
  The neural network processor as the driver \<open>lib/drivers/kpu.c\<close> feeds it: the arguments of a layer are twelve 64-bit registers
  that go into a FIFO of the device, a few layers at a time, from the interrupt handler.  Layers lie in memory; a
  pointer to one is its address, and so the changes the driver makes to a layer are seen through every pointer.  Tasks are
  numbered, number 0 is the copy in \<open>g_kpu_context\<close>.  A bit field of 32 bits computes as an \<open>unsigned int\<close>.  Calls of the
  functions a user has registered are recorded with their argument; \<open>malloc\<close> is a parameter.
\<close>

subsection \<open>Layer arguments\<close>

definition bits :: "nat \<Rightarrow> nat \<Rightarrow> u64 \<Rightarrow> u64" where "bits lo n r = take_bit n (drop_bit lo r)"

definition put_bits :: "nat \<Rightarrow> nat \<Rightarrow> u64 \<Rightarrow> u64 \<Rightarrow> u64" where
  "put_bits lo n v r = (r AND NOT (push_bit lo (mask n))) OR push_bit lo (take_bit n v)"

record kpu_layer_argument =
  interrupt_enabe :: u64
  image_addr :: u64
  image_channel_num :: u64
  image_size :: u64
  kernel_pool_type_cfg :: u64
  kernel_load_cfg :: u64
  kernel_offset :: u64
  kernel_calc_type_cfg :: u64
  write_back_cfg :: u64
  conv_value :: u64
  conv_value2 :: u64
  dma_parameter :: u64

definition LAYER_SIZE :: int where "LAYER_SIZE = 96"

definition layer_at :: "int \<Rightarrow> memory \<Rightarrow> kpu_layer_argument" where
  "layer_at a m = \<lparr>interrupt_enabe = load64 a m, image_addr = load64 (a + 8) m, image_channel_num = load64 (a + 16) m,
     image_size = load64 (a + 24) m, kernel_pool_type_cfg = load64 (a + 32) m, kernel_load_cfg = load64 (a + 40) m,
     kernel_offset = load64 (a + 48) m, kernel_calc_type_cfg = load64 (a + 56) m, write_back_cfg = load64 (a + 64) m,
     conv_value = load64 (a + 72) m, conv_value2 = load64 (a + 80) m, dma_parameter = load64 (a + 88) m\<rparr>"

definition image_src_addr :: "kpu_layer_argument \<Rightarrow> u32" where "image_src_addr l = ucast (bits 0 15 (image_addr l))"
definition i_ch_num :: "kpu_layer_argument \<Rightarrow> u64" where "i_ch_num l = bits 0 10 (image_channel_num l)"
definition o_ch_num :: "kpu_layer_argument \<Rightarrow> u64" where "o_ch_num l = bits 32 10 (image_channel_num l)"
definition channel_switch_addr :: "kpu_layer_argument \<Rightarrow> u64" where "channel_switch_addr l = bits 0 15 (kernel_calc_type_cfg l)"
definition dma_total_byte :: "kpu_layer_argument \<Rightarrow> u32" where "dma_total_byte l = ucast (bits 32 32 (dma_parameter l))"

text \<open>Setting fields of a layer in memory.\<close>

definition upd_reg :: "int \<Rightarrow> (u64 \<Rightarrow> u64) \<Rightarrow> memory \<Rightarrow> memory" where "upd_reg a f m = store64 a (f (load64 a m)) m"

definition set_int_en :: "int \<Rightarrow> memory \<Rightarrow> memory" where "set_int_en a = upd_reg a (put_bits 0 1 1)"
definition set_full_add :: "int \<Rightarrow> memory \<Rightarrow> memory" where "set_full_add a = upd_reg a (put_bits 2 1 1)"
definition set_send_data_out :: "int \<Rightarrow> memory \<Rightarrow> memory" where "set_send_data_out a = upd_reg (a + 88) (put_bits 0 1 1)"
definition set_para_start_addr :: "u64 \<Rightarrow> int \<Rightarrow> memory \<Rightarrow> memory" where "set_para_start_addr v a = upd_reg (a + 40) (put_bits 32 32 v)"
definition set_bwsx_base_addr :: "u64 \<Rightarrow> int \<Rightarrow> memory \<Rightarrow> memory" where "set_bwsx_base_addr v a = upd_reg (a + 32) (put_bits 32 32 v)"
definition set_active_addr :: "u64 \<Rightarrow> int \<Rightarrow> memory \<Rightarrow> memory" where "set_active_addr v a = upd_reg (a + 56) (put_bits 32 32 v)"

subsection \<open>State\<close>

record kpu_config =
  layer_argument_fifo :: "u64 list"
  interrupt_mask :: u64
  interrupt_clear :: u64
  fifo_threshold :: u64
  eight_bit_mode :: u64

definition kpu_config_interrupt :: "u64 \<Rightarrow> u64 \<Rightarrow> u64 \<Rightarrow> u64" where
  "kpu_config_interrupt calc_done_int layer_cfg_almost_empty_int layer_cfg_almost_full_int =
     calc_done_int OR push_bit 1 layer_cfg_almost_empty_int OR push_bit 2 layer_cfg_almost_full_int"

definition kpu_config_fifo_threshold :: "u64 \<Rightarrow> u64 \<Rightarrow> u64" where
  "kpu_config_fifo_threshold fifo_full_threshold fifo_empty_threshold = fifo_full_threshold OR push_bit 4 fifo_empty_threshold"

record 'u kpu_task =
  task_layers :: int
  task_remain_layers :: int
  task_callback :: 'u
  task_ctx :: nat
  task_src :: int
  task_dst :: int
  task_src_length :: u32
  task_dst_length :: u32
  task_layers_length :: u32
  task_remain_length :: u32
  task_dma_ch :: nat
  task_eight_bit_mode :: u32
  task_output_scale :: u32
  task_output_bias :: u32

text \<open>The handlers the driver gives to the interrupt controller and to the DMA controller.\<close>

datatype 'u kpu_handler = Kpu_continue | Kpu_config_input | Kpu_push_layers | Kpu_run_all_done | Kpu_done | Kpu_data_ready
  | Ai_step | Kpu_kmodel_done | User 'u

record 'u kpu_world =
  kw_sysctl :: sysctl
  kw_plic :: "'u kpu_handler dma_handler plic"
  kw_dma :: "'u kpu_handler dma"
  kw_kpu :: kpu_config
  kpu_status :: u32
  g_kpu_status :: u32
  kw_tasks :: "nat \<Rightarrow> 'u kpu_task"
  kw_calls :: "('u \<times> nat) list"

definition AI_BASE_ADDR :: int where "AI_BASE_ADDR = 0x40800000"
definition fifo_data_out :: int where "fifo_data_out = AI_BASE_ADDR + 0x30"
definition IRQN_AI_INTERRUPT :: nat where "IRQN_AI_INTERRUPT = 25"
definition SYSCTL_DMA_SELECT_AI_RX_REQ :: nat where "SYSCTL_DMA_SELECT_AI_RX_REQ = 22"
definition LAYER_BURST_SIZE :: u32 where "LAYER_BURST_SIZE = 12"

abbreviation kw_mem :: "'u kpu_world \<Rightarrow> memory" where "kw_mem w \<equiv> mem (kw_dma w)"

definition upd_kpu :: "(kpu_config \<Rightarrow> kpu_config) \<Rightarrow> 'u kpu_world \<Rightarrow> 'u kpu_world" where
  "upd_kpu f w = w\<lparr>kw_kpu := f (kw_kpu w)\<rparr>"

definition upd_task :: "nat \<Rightarrow> ('u kpu_task \<Rightarrow> 'u kpu_task) \<Rightarrow> 'u kpu_world \<Rightarrow> 'u kpu_world" where
  "upd_task t f w = w\<lparr>kw_tasks := (kw_tasks w)(t := f (kw_tasks w t))\<rparr>"

definition upd_mem :: "(memory \<Rightarrow> memory) \<Rightarrow> 'u kpu_world \<Rightarrow> 'u kpu_world" where
  "upd_mem f w = w\<lparr>kw_dma := (kw_dma w)\<lparr>mem := f (kw_mem w)\<rparr>\<rparr>"

text \<open>What the functions below do with the other controllers.\<close>

definition on_irq :: "nat \<Rightarrow> nat \<Rightarrow> 'u kpu_handler \<Rightarrow> nat \<Rightarrow> u32 \<Rightarrow> 'u kpu_world \<Rightarrow> 'u kpu_world" where
  "on_irq core ch cb arg prio w =
     (let (d, p) = dmac_irq_register core ch (Some cb) arg prio (kw_dma w, kw_plic w) in w\<lparr>kw_dma := d, kw_plic := p\<rparr>)"

definition on_ai_line :: "nat \<Rightarrow> u32 \<Rightarrow> 'u kpu_handler \<Rightarrow> nat \<Rightarrow> 'u kpu_world \<Rightarrow> 'u kpu_world" where
  "on_ai_line core prio cb arg w =
     w\<lparr>kw_plic := snd (plic_irq_enable core (int IRQN_AI_INTERRUPT)
        (plic_irq_register core IRQN_AI_INTERRUPT (Some (Other_handler cb)) arg
          (snd (plic_set_priority (int IRQN_AI_INTERRUPT) prio (kw_plic w)))))\<rparr>"

definition ai_rx_select :: "nat \<Rightarrow> 'u kpu_world \<Rightarrow> 'u kpu_world" where
  "ai_rx_select ch w = w\<lparr>kw_sysctl := snd (sysctl_dma_select (dma_channel ch) SYSCTL_DMA_SELECT_AI_RX_REQ (kw_sysctl w))\<rparr>"

type_synonym 'u dma_hw = "'u kpu_handler dma \<Rightarrow> 'u kpu_handler dma"
type_synonym mem_line = "int \<Rightarrow> int \<Rightarrow> int"

definition dma_out :: "'u dma_hw \<Rightarrow> mem_line \<Rightarrow> nat \<Rightarrow> int \<Rightarrow> u64 \<Rightarrow> 'u kpu_world \<Rightarrow> 'u kpu_world option" where
  "dma_out hw brk ch dest block_size w =
     map_option (\<lambda>d. w\<lparr>kw_dma := d\<rparr>)
       (dmac_set_single_mode hw brk ch fifo_data_out dest DMAC_ADDR_NOCHANGE DMAC_ADDR_INCREMENT DMAC_MSIZE_8 DMAC_TRANS_WIDTH_64
          block_size (kw_dma w))"

definition dma_in :: "'u dma_hw \<Rightarrow> mem_line \<Rightarrow> nat \<Rightarrow> int \<Rightarrow> int \<Rightarrow> u64 \<Rightarrow> 'u kpu_world \<Rightarrow> 'u kpu_world option" where
  "dma_in hw brk ch src dest block_size w =
     map_option (\<lambda>d. w\<lparr>kw_dma := d\<rparr>)
       (dmac_set_single_mode hw brk ch src dest DMAC_ADDR_INCREMENT DMAC_ADDR_INCREMENT DMAC_MSIZE_16 DMAC_TRANS_WIDTH_64
          block_size (kw_dma w))"

subsection \<open>Layers into the FIFO\<close>

definition kpu_send_layer :: "kpu_layer_argument \<Rightarrow> kpu_config \<Rightarrow> kpu_config" where
  "kpu_send_layer l k = k\<lparr>layer_argument_fifo := layer_argument_fifo k @
     [interrupt_enabe l, image_addr l, image_channel_num l, image_size l, kernel_pool_type_cfg l, kernel_load_cfg l,
      kernel_offset l, kernel_calc_type_cfg l, write_back_cfg l, conv_value l, conv_value2 l, dma_parameter l]\<rparr>"

definition layer_of :: "int \<Rightarrow> nat \<Rightarrow> memory \<Rightarrow> kpu_layer_argument" where
  "layer_of a i m = layer_at (a + LAYER_SIZE * int i) m"

definition send_layers :: "int \<Rightarrow> nat \<Rightarrow> 'u kpu_world \<Rightarrow> 'u kpu_world" where
  "send_layers a n w = upd_kpu (fold (\<lambda>i. kpu_send_layer (layer_of a i (kw_mem w))) [0..<n]) w"

text \<open>At most \<open>layer_burst_size\<close> of the layers that remain.\<close>

definition push_burst :: "u32 \<Rightarrow> nat \<Rightarrow> 'u kpu_world \<Rightarrow> 'u kpu_world" where
  "push_burst layer_burst_size t w =
     (let task = kw_tasks w t in
      if task_remain_length task \<le> layer_burst_size
      then upd_task t (task_remain_length_update (\<lambda>_. 0)) (send_layers (task_remain_layers task) (unat (task_remain_length task)) w)
      else upd_task t (\<lambda>k. k\<lparr>task_remain_layers := task_remain_layers k + LAYER_SIZE * uint layer_burst_size,
                             task_remain_length := task_remain_length k - layer_burst_size\<rparr>)
             (send_layers (task_remain_layers task) (unat layer_burst_size) w))"

definition clear_interrupts :: "'u kpu_world \<Rightarrow> 'u kpu_world" where
  "clear_interrupts = upd_kpu (\<lambda>k. k\<lparr>interrupt_clear := kpu_config_interrupt 1 1 1\<rparr>)"

definition mask_interrupts :: "u64 \<Rightarrow> u64 \<Rightarrow> u64 \<Rightarrow> 'u kpu_world \<Rightarrow> 'u kpu_world" where
  "mask_interrupts calc_done almost_empty almost_full =
     upd_kpu (\<lambda>k. k\<lparr>interrupt_mask := kpu_config_interrupt calc_done almost_empty almost_full\<rparr>)"

subsection \<open>Running a task with the context of the driver\<close>

definition kpu_run_all_done :: "nat \<Rightarrow> 'u kpu_world \<Rightarrow> 'u kpu_world" where
  "kpu_run_all_done t w = w\<lparr>g_kpu_status := 0, kw_calls := kw_calls w @ [(task_callback (kw_tasks w t), t)]\<rparr>"

definition kpu_continue :: "nat \<Rightarrow> 'u kpu_world \<Rightarrow> 'u kpu_world" where
  "kpu_continue t w =
     (let w = clear_interrupts w in if task_remain_length (kw_tasks w t) = 0 then w else push_burst 1 t w)"

definition last_layer :: "'u kpu_task \<Rightarrow> int" where
  "last_layer task = task_layers task + LAYER_SIZE * uint (task_layers_length task - 1)"

definition kpu_run_dma_output :: "'u dma_hw \<Rightarrow> mem_line \<Rightarrow> nat \<Rightarrow> nat \<Rightarrow> int \<Rightarrow> u32 \<Rightarrow> nat \<Rightarrow> 'u kpu_world \<Rightarrow> 'u kpu_world option" where
  "kpu_run_dma_output hw brk core ch dst len t w =
     dma_out hw brk ch dst (ucast ((len + 7) div 8)) (on_irq core ch Kpu_run_all_done t 1 (ai_rx_select ch w))"

definition kpu_run_dma_input_done_push_layers :: "'u dma_hw \<Rightarrow> mem_line \<Rightarrow> nat \<Rightarrow> nat \<Rightarrow> 'u kpu_world \<Rightarrow> 'u kpu_world option" where
  "kpu_run_dma_input_done_push_layers hw brk core t w =
     (let task = kw_tasks w t;
          w = clear_interrupts w;
          w = w\<lparr>kw_dma := dmac_channel_interrupt_clear (task_dma_ch task) (kw_dma w)\<rparr>;
          w = upd_kpu (\<lambda>k. k\<lparr>fifo_threshold := kpu_config_fifo_threshold 10 1,
                             eight_bit_mode := take_bit 1 (ucast (task_eight_bit_mode task))\<rparr>) w
      in do {
        w \<leftarrow> kpu_run_dma_output hw brk core (task_dma_ch task) (task_dst task) (dma_total_byte (layer_at (last_layer task) (kw_mem w)) + 1) t w;
        Some (kpu_continue t (mask_interrupts 0 0 1 w)) })"

definition input_size :: "kpu_layer_argument \<Rightarrow> u64" where
  "input_size l = channel_switch_addr l * 64 * (i_ch_num l + 1)"

definition kpu_run_dma_input :: "'u dma_hw \<Rightarrow> mem_line \<Rightarrow> nat \<Rightarrow> nat \<Rightarrow> int \<Rightarrow> 'u kpu_handler \<Rightarrow> nat \<Rightarrow> 'u kpu_world \<Rightarrow> 'u kpu_world option" where
  "kpu_run_dma_input hw brk core ch src cb t w =
     (let first_layer = layer_at (task_layers (kw_tasks w t)) (kw_mem w)
      in dma_in hw brk ch src (uint AI_IO_BASE_ADDR) (input_size first_layer div 8) (on_irq core ch cb t 1 w))"

definition kpu_run ::
  "'u dma_hw \<Rightarrow> mem_line \<Rightarrow> nat \<Rightarrow> nat \<Rightarrow> nat \<Rightarrow> int \<Rightarrow> int \<Rightarrow> 'u \<Rightarrow> 'u kpu_world \<Rightarrow> (int \<times> 'u kpu_world) option" where
  "kpu_run hw brk core v_task ch src dest cb w =
     (if g_kpu_status w \<noteq> 0 then Some (-1, w)
      else
       (let w = w\<lparr>g_kpu_status := 1, kw_tasks := (kw_tasks w)(0 := kw_tasks w v_task)\<rparr>;
            task = kw_tasks w 0;
            output_size = dma_total_byte (layer_at (last_layer task) (kw_mem w)) + 1;
            w = upd_mem (set_int_en (last_layer task) \<circ> set_send_data_out (last_layer task)) w;
            w = upd_task 0 (\<lambda>k. k\<lparr>task_dma_ch := ch, task_dst := dest, task_dst_length := output_size, task_callback := cb,
                                  task_remain_length := task_layers_length k, task_remain_layers := task_layers k\<rparr>) w;
            w = on_ai_line core 1 Kpu_continue 0 w
        in map_option (Pair 0) (kpu_run_dma_input hw brk core ch src Kpu_push_layers 0 w)))"

definition kpu_get_output_buf :: "(u32 \<Rightarrow> int) \<Rightarrow> nat \<Rightarrow> 'u kpu_world \<Rightarrow> int" where
  "kpu_get_output_buf malloc t w =
     malloc ((dma_total_byte (layer_at (last_layer (kw_tasks w t)) (kw_mem w)) + 1 + 7) div 8 * 8)"

subsection \<open>Running a task of the user\<close>

definition kpu_done :: "nat \<Rightarrow> 'u kpu_world \<Rightarrow> 'u kpu_world" where
  "kpu_done t w = w\<lparr>kpu_status := 0, kw_calls := kw_calls w @ [(task_callback (kw_tasks w t), task_ctx (kw_tasks w t))]\<rparr>"

definition kpu_config_input :: "nat \<Rightarrow> 'u kpu_world \<Rightarrow> 'u kpu_world" where
  "kpu_config_input t w =
     (let w = clear_interrupts w; last = (task_remain_length (kw_tasks w t) \<le> LAYER_BURST_SIZE);
          w = push_burst LAYER_BURST_SIZE t w
      in if last then mask_interrupts 1 1 1 w else w)"

definition kpu_data_output :: "'u dma_hw \<Rightarrow> mem_line \<Rightarrow> nat \<Rightarrow> nat \<Rightarrow> 'u kpu_world \<Rightarrow> 'u kpu_world option" where
  "kpu_data_output hw brk core t w =
     (let task = kw_tasks w t; ch = task_dma_ch task
      in dma_out hw brk ch (task_dst task) (ucast (task_dst_length task)) (on_irq core ch Kpu_done t 1 (ai_rx_select ch w)))"

definition kpu_data_ready :: "'u dma_hw \<Rightarrow> mem_line \<Rightarrow> nat \<Rightarrow> nat \<Rightarrow> 'u kpu_world \<Rightarrow> 'u kpu_world option" where
  "kpu_data_ready hw brk core t w = do {
     let task = kw_tasks w t;
     w \<leftarrow> kpu_data_output hw brk core t (w\<lparr>kw_dma := dmac_channel_interrupt_clear (task_dma_ch task) (kw_dma w)\<rparr>);
     let w = upd_kpu (\<lambda>k. k\<lparr>eight_bit_mode := ucast (task_eight_bit_mode task), interrupt_mask := 7, interrupt_clear := 7,
                           fifo_threshold := kpu_config_fifo_threshold 12 1\<rparr>) w;
     let w = on_ai_line core 2 Kpu_config_input t w;
     Some (mask_interrupts 1 0 1 (kpu_config_input t w)) }"

definition image_address :: "kpu_layer_argument \<Rightarrow> int" where
  "image_address l = uint (AI_IO_BASE_ADDR + image_src_addr l * 64)"

definition kpu_data_input :: "'u dma_hw \<Rightarrow> mem_line \<Rightarrow> nat \<Rightarrow> nat \<Rightarrow> 'u kpu_world \<Rightarrow> 'u kpu_world option" where
  "kpu_data_input hw brk core t w =
     (let task = kw_tasks w t in
      if task_src task = 0 then kpu_data_ready hw brk core t w
      else dma_in hw brk (task_dma_ch task) (task_src task) (image_address (layer_at (task_layers task) (kw_mem w)))
             (ucast (task_src_length task)) (on_irq core (task_dma_ch task) Kpu_data_ready t 1 w))"

text \<open>\<open>None\<close>: the buffer is cleared before the test that it is there.\<close>

definition kpu_single_task_init :: "(u32 \<Rightarrow> int) \<Rightarrow> nat \<Rightarrow> 'u kpu_world \<Rightarrow> (int \<times> 'u kpu_world) option" where
  "kpu_single_task_init malloc t w =
     (let w = w\<lparr>kw_sysctl := snd (sysctl_clock_enable SYSCTL_CLOCK_AI (kw_sysctl w))\<rparr>;
          task = kw_tasks w t;
          w = upd_mem (set_int_en (last_layer task) \<circ> set_send_data_out (last_layer task)) w;
          dst_length = (dma_total_byte (layer_at (last_layer task) (kw_mem w)) + 1 + 7) div 8;
          dst = malloc (dst_length * 8);
          w = upd_task t (\<lambda>k. k\<lparr>task_src_length := ucast (input_size (layer_at (task_layers task) (kw_mem w)) div 8),
                                task_dst_length := dst_length, task_dst := dst\<rparr>) w
      in if dst = 0 \<and> dst_length * 8 \<noteq> 0 then None
         else (let w = upd_mem (\<lambda>m x. if dst \<le> x \<and> x < dst + uint (dst_length * 8) then 0 else m x) w
               in Some (if dst = 0 then (1, w) else (0, w))))"

definition kpu_start :: "'u dma_hw \<Rightarrow> mem_line \<Rightarrow> nat \<Rightarrow> nat \<Rightarrow> 'u kpu_world \<Rightarrow> (int \<times> 'u kpu_world) option" where
  "kpu_start hw brk core t w =
     (if kpu_status w \<noteq> 0 then Some (-1, w)
      else
       (let w = upd_task t (\<lambda>k. k\<lparr>task_remain_length := task_layers_length k, task_remain_layers := task_layers k\<rparr>) (w\<lparr>kpu_status := 1\<rparr>)
        in map_option (Pair 0) (kpu_data_input hw brk core t w)))"

text \<open>A model in a buffer: a header of five words, seven words for every layer, the layer arguments.\<close>

definition kpu_model_load_from_buffer :: "nat \<Rightarrow> int \<Rightarrow> 'u kpu_world \<Rightarrow> int \<times> int \<times> 'u kpu_world" where
  "kpu_model_load_from_buffer t buffer w =
     (let word = (\<lambda>k. load_le 4 (buffer + 4 * k) (kw_mem w));
          layer_meta = buffer + 20;
          layers = buffer + uint (word 4);
          layers_length = word 2;
          last_meta = layer_meta + 28 * uint (layers_length - 1)
      in if word 0 \<noteq> 1 then (-1, 0, w)
         else
          (let w = upd_task t (\<lambda>k. k\<lparr>task_layers_length := layers_length, task_eight_bit_mode := word 1 AND 1, task_layers := layers,
                                   task_output_scale := load_le 4 (last_meta + 20) (kw_mem w),
                                   task_output_bias := load_le 4 (last_meta + 24) (kw_mem w)\<rparr>) w;
               w = upd_mem (fold (\<lambda>i m.
                     let offset = (\<lambda>k m. word_of_int (buffer + uint (load_le 4 (layer_meta + 28 * int i + 4 * k) m))); l = layers + LAYER_SIZE * int i;
                         m = set_para_start_addr (offset 0 m) l m;
                         m = set_bwsx_base_addr (offset 1 m) l m
                     in set_active_addr (offset 2 m) l m) [0..<unat layers_length]) w
           in (0, layer_meta, w)))"

subsection \<open>Single layers\<close>

definition kpu_init :: "nat \<Rightarrow> u32 \<Rightarrow> 'u \<Rightarrow> nat \<Rightarrow> 'u kpu_world \<Rightarrow> 'u kpu_world" where
  "kpu_init core mode cb userdata w =
     (let w = upd_kpu (\<lambda>k. k\<lparr>interrupt_clear := 7, fifo_threshold := kpu_config_fifo_threshold 10 1,
                             eight_bit_mode := take_bit 1 (ucast mode)\<rparr>) w
      in on_ai_line core 1 (User cb) userdata (mask_interrupts 1 0 1 w))"

definition kpu_input_dma :: "'u dma_hw \<Rightarrow> mem_line \<Rightarrow> nat \<Rightarrow> kpu_layer_argument \<Rightarrow> int \<Rightarrow> nat \<Rightarrow> 'u kpu_handler \<Rightarrow> nat \<Rightarrow> 'u kpu_world \<Rightarrow> 'u kpu_world option" where
  "kpu_input_dma hw brk core layer src ch cb userdata w =
     dma_in hw brk ch src (image_address layer) (input_size layer div 8) (on_irq core ch cb userdata 1 w)"

definition kpu_conv2d_core :: "int \<Rightarrow> 'u kpu_world \<Rightarrow> 'u kpu_world" where
  "kpu_conv2d_core layer w = upd_kpu (kpu_send_layer (layer_at layer (kw_mem w))) w"

definition kpu_conv2d :: "int \<Rightarrow> 'u kpu_world \<Rightarrow> 'u kpu_world" where
  "kpu_conv2d layer w = kpu_conv2d_core layer (mask_interrupts 1 0 1 (clear_interrupts w))"

definition kpu_conv2d_output ::
  "'u dma_hw \<Rightarrow> mem_line \<Rightarrow> nat \<Rightarrow> int \<Rightarrow> nat \<Rightarrow> int \<Rightarrow> 'u kpu_handler \<Rightarrow> nat \<Rightarrow> 'u kpu_world \<Rightarrow> 'u kpu_world option" where
  "kpu_conv2d_output hw brk core layer ch dest cb userdata w = do {
     let w = mask_interrupts 1 1 1 (clear_interrupts w);
     let w = on_irq core ch cb userdata 1 (ai_rx_select ch (upd_mem (set_send_data_out layer) w));
     w \<leftarrow> dma_out hw brk ch dest (ucast ((dma_total_byte (layer_at layer (kw_mem w)) + 8) div 8)) w;
     Some (kpu_conv2d_core layer w) }"

definition kpu_conv2d_output_full_add ::
  "'u dma_hw \<Rightarrow> mem_line \<Rightarrow> nat \<Rightarrow> int \<Rightarrow> nat \<Rightarrow> int \<Rightarrow> 'u kpu_handler \<Rightarrow> nat \<Rightarrow> 'u kpu_world \<Rightarrow> 'u kpu_world option" where
  "kpu_conv2d_output_full_add hw brk core layer ch dest cb userdata w = do {
     let channels = o_ch_num (layer_at layer (kw_mem w)) + 1;
     let w = mask_interrupts 1 1 1 (clear_interrupts (upd_mem (set_full_add layer) w));
     let w = on_irq core ch cb userdata 1 (ai_rx_select ch (upd_mem (set_send_data_out layer) w));
     w \<leftarrow> dma_out hw brk ch dest channels w;
     Some (kpu_conv2d_core layer w) }"

subsection \<open>Feeding the FIFO from the interrupt\<close>

definition layer_words :: "kpu_layer_argument \<Rightarrow> u64 list" where
  "layer_words l =
     [interrupt_enabe l, image_addr l, image_channel_num l, image_size l, kernel_pool_type_cfg l, kernel_load_cfg l,
      kernel_offset l, kernel_calc_type_cfg l, write_back_cfg l, conv_value l, conv_value2 l, dma_parameter l]"

definition layers_words :: "int \<Rightarrow> nat \<Rightarrow> memory \<Rightarrow> u64 list" where
  "layers_words a n m = concat (map (\<lambda>i. layer_words (layer_of a i m)) [0..<n])"

abbreviation fifo :: "'u kpu_world \<Rightarrow> u64 list" where "fifo w \<equiv> layer_argument_fifo (kw_kpu w)"
abbreviation remain :: "nat \<Rightarrow> 'u kpu_world \<Rightarrow> nat" where "remain t w \<equiv> unat (task_remain_length (kw_tasks w t))"
abbreviation remain_at :: "nat \<Rightarrow> 'u kpu_world \<Rightarrow> int" where "remain_at t w \<equiv> task_remain_layers (kw_tasks w t)"

lemma layers_words_add: "layers_words a (n + k) m = layers_words a n m @ layers_words (a + LAYER_SIZE * int n) k m"
proof -
  have "[0..<n + k] = [0..<n] @ [n..<n + k]" by (rule upt_add_eq_append) simp
  moreover have "[n..<n + k] = map (\<lambda>i. i + n) [0..<k]" by (simp only: map_add_upt add.commute [of n k])
  moreover have "layer_of a (i + n) m = layer_of (a + LAYER_SIZE * int n) i m" for i
  proof -
    have "a + LAYER_SIZE * int (i + n) = a + LAYER_SIZE * int n + LAYER_SIZE * int i" by (simp add: algebra_simps)
    then show ?thesis by (simp only: layer_of_def)
  qed
  ultimately show ?thesis by (simp only: layers_words_def map_append concat_append map_map o_def)
qed

lemma send_layers_effect:
  "send_layers a n w = w\<lparr>kw_kpu := (kw_kpu w)\<lparr>layer_argument_fifo := fifo w @ layers_words a n (kw_mem w)\<rparr>\<rparr>"
proof -
  have "fold (\<lambda>i. kpu_send_layer (g i)) is k = k\<lparr>layer_argument_fifo := layer_argument_fifo k @ concat (map (layer_words \<circ> g) is)\<rparr>" for g and "is" :: "nat list" and k
    by (induction "is" arbitrary: k) (simp_all add: kpu_send_layer_def layer_words_def)
  then show ?thesis by (simp add: send_layers_def upd_kpu_def layers_words_def o_def)
qed

text \<open>What one call of a handler that feeds the FIFO promises.\<close>

definition fed :: "nat \<Rightarrow> nat \<Rightarrow> 'u kpu_world \<Rightarrow> 'u kpu_world \<Rightarrow> bool" where
  "fed t k w w' \<longleftrightarrow>
     fifo w' = fifo w @ layers_words (remain_at t w) k (kw_mem w) \<and> k \<le> remain t w \<and> remain t w' = remain t w - k \<and>
     (k < remain t w \<longrightarrow> remain_at t w' = remain_at t w + LAYER_SIZE * int k) \<and>
     kw_dma w' = kw_dma w \<and> kw_plic w' = kw_plic w \<and> kw_calls w' = kw_calls w \<and> kpu_status w' = kpu_status w \<and>
     g_kpu_status w' = g_kpu_status w \<and> task_callback (kw_tasks w' t) = task_callback (kw_tasks w t) \<and>
     task_ctx (kw_tasks w' t) = task_ctx (kw_tasks w t)"

lemma fed_trans: "fed t j w w' \<Longrightarrow> fed t k w' w'' \<Longrightarrow> fed t (j + k) w w''"
proof -
  assume a: "fed t j w w'" "fed t k w' w''"
  then have "k = 0 \<or> remain_at t w' = remain_at t w + LAYER_SIZE * int j" unfolding fed_def by linarith
  moreover have "layers_words b 0 m = []" for b m by (simp add: layers_words_def)
  ultimately show ?thesis using a unfolding fed_def by (auto simp: layers_words_add algebra_simps)
qed

lemma push_burst_feeds: "fed t (min (unat b) (remain t w)) w (push_burst b t w)"
proof (cases "task_remain_length (kw_tasks w t) \<le> b")
  case True
  then show ?thesis by (simp add: push_burst_def fed_def send_layers_effect upd_task_def word_le_nat_alt min_absorb2 Let_def)
next
  case False
  then have "b \<le> task_remain_length (kw_tasks w t)" by simp
  then show ?thesis
    using False by (simp add: push_burst_def fed_def send_layers_effect upd_task_def word_le_nat_alt min_absorb1 unat_sub Let_def)
qed

locale layer_feeder =
  fixes feed :: "'u kpu_world \<Rightarrow> 'u kpu_world" and t :: nat and burst :: nat
  assumes feeds: "fed t (min burst (remain t w)) w (feed w)"
begin

text \<open>Called again and again, it has fed what the bursts add up to, until no layer remains.\<close>

lemma feeds_in_order: "fed t (min (burst * k) (remain t w)) w ((feed ^^ k) w)"
proof (induction k)
  case 0
  then show ?case by (simp add: fed_def layers_words_def)
next
  case (Suc k)
  let ?n = "remain t w" and ?w = "(feed ^^ k) w"
  have "fed t (min (burst * k) ?n + min burst (remain t ?w)) w (feed ?w)" using Suc feeds by (rule fed_trans)
  moreover have "remain t ?w = ?n - min (burst * k) ?n" using Suc by (simp add: fed_def)
  moreover have "min (burst * k) ?n + min burst (?n - min (burst * k) ?n) = min (burst * Suc k) ?n"
    unfolding mult_Suc_right by linarith
  ultimately show ?case by simp
qed


end

lemma fed_same_rest:
  "fed t k w w' \<Longrightarrow> fifo w2 = fifo w \<Longrightarrow> kw_tasks w2 = kw_tasks w \<Longrightarrow> kw_dma w2 = kw_dma w \<Longrightarrow> kw_plic w2 = kw_plic w \<Longrightarrow>
   kw_calls w2 = kw_calls w \<Longrightarrow> kpu_status w2 = kpu_status w \<Longrightarrow> g_kpu_status w2 = g_kpu_status w \<Longrightarrow> fed t k w2 w'"
  by (simp add: fed_def)

lemma clear_keeps:
  "fifo (clear_interrupts w) = fifo w" "kw_tasks (clear_interrupts w) = kw_tasks w" "kw_dma (clear_interrupts w) = kw_dma w"
  "kw_plic (clear_interrupts w) = kw_plic w" "kw_calls (clear_interrupts w) = kw_calls w"
  "kpu_status (clear_interrupts w) = kpu_status w" "g_kpu_status (clear_interrupts w) = g_kpu_status w"
  by (simp_all add: clear_interrupts_def upd_kpu_def)

lemma mask_keeps:
  "fifo (mask_interrupts a b c w) = fifo w" "kw_tasks (mask_interrupts a b c w) = kw_tasks w" "kw_dma (mask_interrupts a b c w) = kw_dma w"
  "kw_plic (mask_interrupts a b c w) = kw_plic w" "kw_calls (mask_interrupts a b c w) = kw_calls w"
  "kpu_status (mask_interrupts a b c w) = kpu_status w" "g_kpu_status (mask_interrupts a b c w) = g_kpu_status w"
  by (simp_all add: mask_interrupts_def upd_kpu_def)

lemma kpu_continue_feeds: "fed t (min 1 (remain t w)) w (kpu_continue t w)"
proof (cases "task_remain_length (kw_tasks w t) = 0")
  case True
  then show ?thesis by (simp add: kpu_continue_def Let_def clear_keeps fed_def layers_words_def)
next
  case False
  have "fed t (min 1 (remain t w)) (clear_interrupts w) (push_burst 1 t (clear_interrupts w))"
    using push_burst_feeds [of t 1 "clear_interrupts w"] by (simp add: clear_keeps)
  then show ?thesis using False by (auto simp: kpu_continue_def Let_def clear_keeps fed_def)
qed

lemma kpu_config_input_feeds: "fed t (min 12 (remain t w)) w (kpu_config_input t w)"
proof -
  have "fed t (min 12 (remain t w)) (clear_interrupts w) (push_burst LAYER_BURST_SIZE t (clear_interrupts w))"
    using push_burst_feeds [of t LAYER_BURST_SIZE "clear_interrupts w"] by (simp add: clear_keeps LAYER_BURST_SIZE_def)
  then show ?thesis by (simp add: kpu_config_input_def Let_def clear_keeps mask_keeps fed_def)
qed

interpretation continue: layer_feeder "kpu_continue t" t 1 for t
  by unfold_locales (rule kpu_continue_feeds)

interpretation config: layer_feeder "kpu_config_input t" t 12 for t
  by unfold_locales (rule kpu_config_input_feeds)

subsection \<open>Runs\<close>

lemma kpu_run_starts:
  assumes "kpu_run hw brk core v ch src dest cb w = Some (r, w1)"
  shows "(g_kpu_status w \<noteq> 0 \<longrightarrow> r = - 1 \<and> w1 = w) \<and>
    (g_kpu_status w = 0 \<longrightarrow> r = 0 \<and> g_kpu_status w1 = 1 \<and> fifo w1 = fifo w \<and> kw_calls w1 = kw_calls w \<and>
       remain 0 w1 = unat (task_layers_length (kw_tasks w v)) \<and> remain_at 0 w1 = task_layers (kw_tasks w v) \<and>
       task_callback (kw_tasks w1 0) = cb)"
  using assms
  by (auto simp: kpu_run_def Let_def kpu_run_dma_input_def dma_in_def on_irq_def on_ai_line_def upd_task_def upd_mem_def split_beta split: if_splits)

lemma push_layers_continues:
  assumes "kpu_run_dma_input_done_push_layers hw brk core t w = Some w'"
  shows "\<exists>d. w' = kpu_continue t d \<and> fifo d = fifo w \<and> kw_tasks d = kw_tasks w \<and> g_kpu_status d = g_kpu_status w \<and> kw_calls d = kw_calls w"
  using assms
  by (auto simp: kpu_run_dma_input_done_push_layers_def Let_def kpu_run_dma_output_def dma_out_def on_irq_def ai_rx_select_def
      upd_kpu_def clear_keeps mask_keeps split_beta bind_eq_Some_conv)

text \<open>C30.  A task that has been started is fed to the neural network processor layer by layer: when its input has arrived and \<open>k\<close>
  interrupts have followed, the first \<open>k + 1\<close> layers are in the FIFO, each once and in order, and after as many
  interrupts as there are layers nothing is left to send.  Until the result has arrived a second task is refused; then the
  callback of this one is called, once, and the driver is free.\<close>

theorem kpu_run_streams_layers:
  assumes idle: "g_kpu_status w = 0" and run: "kpu_run hw brk core v ch src dest cb w = Some (r, w1)"
    and input: "kpu_run_dma_input_done_push_layers hw brk core 0 (w1\<lparr>kw_dma := d\<rparr>) = Some w2"
    and n: "n = unat (task_layers_length (kw_tasks w v))" and w3: "w3 = (kpu_continue 0 ^^ k) w2"
  shows "r = 0 \<and> fifo w3 = fifo w @ layers_words (task_layers (kw_tasks w v)) (min (Suc k) n) (kw_mem w3) \<and>
    remain 0 w3 = n - Suc k \<and> kw_calls w3 = kw_calls w \<and>
    kpu_run hw brk core v' ch' src' dest' cb' w3 = Some (- 1, w3) \<and>
    kw_calls (kpu_run_all_done 0 w3) = kw_calls w @ [(cb, 0)] \<and> g_kpu_status (kpu_run_all_done 0 w3) = 0"
proof -
  note s = kpu_run_starts [OF run] idle
  obtain w1' where w1': "w2 = kpu_continue 0 w1'" "fifo w1' = fifo w1" "kw_tasks w1' = kw_tasks w1"
    "g_kpu_status w1' = g_kpu_status w1" "kw_calls w1' = kw_calls w1"
    using push_layers_continues [OF input] by auto
  have "w3 = (kpu_continue 0 ^^ Suc k) w1'" using w3 w1'(1) by (simp add: funpow_swap1)
  then have "fed 0 (min (Suc k) (remain 0 w1')) w1' w3" using continue.feeds_in_order [of 0 "Suc k" w1'] by simp
  then show ?thesis
    using s w1' by (simp add: fed_def n kpu_run_def kpu_run_all_done_def)
qed

lemma kpu_config_input_streams:
  "fifo ((kpu_config_input t ^^ k) w) = fifo w @ layers_words (remain_at t w) (min (12 * k) (remain t w)) (kw_mem w)"
  using config.feeds_in_order [of t k w] by (simp add: fed_def)

text \<open>\<open>kpu_single_task_init\<close> never reports that there is no memory: it has written to the null pointer before.\<close>

lemma single_task_init_reports_nothing:
  "kpu_single_task_init malloc t w = Some (r, w') \<Longrightarrow> task_dst_length (kw_tasks w' t) * 8 \<noteq> 0 \<Longrightarrow> r = 0"
  by (auto simp: kpu_single_task_init_def Let_def upd_task_def upd_mem_def split: if_splits)

text \<open>A world for a concrete run: a task of two layers, input and output in memory that is not cached.\<close>

definition demo_world :: "sysctl \<Rightarrow> nat kpu_world" where
  "demo_world sy = \<lparr>kw_sysctl = sy, kw_plic = plic_blank,
     kw_dma = \<lparr>regs = regs demo_dma, context_of = (\<lambda>_. \<lparr>dmac_channel_num = 0, dest_buffer = 0, src_malloc = 0, dest_malloc = 0,
       buf_len = 0, dma_callback = None, dma_ctx = 0\<rparr>), pool = pool demo_dma, mem = (\<lambda>_. 0)\<rparr>,
     kw_kpu = \<lparr>layer_argument_fifo = [], interrupt_mask = 0, interrupt_clear = 0, fifo_threshold = 0, eight_bit_mode = 0\<rparr>,
     kpu_status = 0, g_kpu_status = 0,
     kw_tasks = (\<lambda>_. \<lparr>task_layers = 0x40002000, task_remain_layers = 0, task_callback = 0, task_ctx = 0, task_src = 0, task_dst = 0,
       task_src_length = 0, task_dst_length = 0, task_layers_length = 2, task_remain_length = 0, task_dma_ch = 0, task_eight_bit_mode = 0,
       task_output_scale = 0, task_output_bias = 0\<rparr>), kw_calls = []\<rparr>"

lemmas demo_transfer = dmac_set_single_mode_def dmac_wait_idle_def dmac_poll_idle.simps dmac_is_idle_def dmac_channel_disable_def
  dmac_channel_interrupt_clear_def dmac_irq_register_def demo_dma_def upd_chan_def upd_regs_def upd_context_def
  dmac_enable_channel_interrupt_def dmac_set_channel_param_def is_memory_cache_def is_memory_def bounce_src_def bounce_dest_def
  dmac_enable_def dmac_channel_enable_def

lemmas demo_unfold = kpu_run_def kpu_run_dma_input_def dma_in_def on_irq_def on_ai_line_def upd_task_def upd_mem_def split_beta Let_def
  demo_world_def demo_transfer AI_IO_BASE_ADDR_def kpu_run_dma_input_done_push_layers_def kpu_run_dma_output_def dma_out_def
  fifo_data_out_def AI_BASE_ADDR_def ai_rx_select_def upd_kpu_def clear_interrupts_def

lemma demo_run:
  "\<exists>r w1. kpu_run (\<lambda>d. d) (\<lambda>n l. l) 0 1 2 0x40001000 0x40003000 7 (demo_world sy) = Some (r, w1) \<and>
     (\<exists>w2. kpu_run_dma_input_done_push_layers (\<lambda>d. d) (\<lambda>n l. l) 0 0 w1 = Some w2)"
  by (simp add: demo_unfold)

lemma kpu_run_streams_layers_witness:
  "\<forall>sy. \<exists>w1 w2. kpu_run (\<lambda>d. d) (\<lambda>n l. l) 0 1 2 0x40001000 0x40003000 7 (demo_world sy) = Some (0, w1) \<and>
     kpu_run_dma_input_done_push_layers (\<lambda>d. d) (\<lambda>n l. l) 0 0 w1 = Some w2 \<and>
     (let w3 = (kpu_continue 0 ^^ 5) w2
      in fifo w3 = layers_words 0x40002000 2 (kw_mem w3) \<and> kw_calls (kpu_run_all_done 0 w3) = [(7, 0)])"
proof
  fix sy
  obtain r w1 w2 where run: "kpu_run (\<lambda>d. d) (\<lambda>n l. l) 0 1 2 0x40001000 0x40003000 7 (demo_world sy) = Some (r, w1)"
    and input: "kpu_run_dma_input_done_push_layers (\<lambda>d. d) (\<lambda>n l. l) 0 0 w1 = Some w2"
    using demo_run by metis
  have idle: "g_kpu_status (demo_world sy) = 0" and start: "fifo (demo_world sy) = []" "kw_calls (demo_world sy) = []"
    "task_layers (kw_tasks (demo_world sy) 1) = 0x40002000" "unat (task_layers_length (kw_tasks (demo_world sy) 1)) = 2"
    by (simp_all add: demo_world_def)
  have "kpu_run_dma_input_done_push_layers (\<lambda>d. d) (\<lambda>n l. l) 0 0 (w1\<lparr>kw_dma := kw_dma w1\<rparr>) = Some w2" using input by simp
  note e = kpu_run_streams_layers [OF idle run this refl refl, where k = 5, unfolded start]
  show "\<exists>w1 w2. kpu_run (\<lambda>d. d) (\<lambda>n l. l) 0 1 2 0x40001000 0x40003000 7 (demo_world sy) = Some (0, w1) \<and>
     kpu_run_dma_input_done_push_layers (\<lambda>d. d) (\<lambda>n l. l) 0 0 w1 = Some w2 \<and>
     (let w3 = (kpu_continue 0 ^^ 5) w2
      in fifo w3 = layers_words 0x40002000 2 (kw_mem w3) \<and> kw_calls (kpu_run_all_done 0 w3) = [(7, 0)])"
    using run input e by (intro exI [of _ w1] exI [of _ w2]) (simp add: Let_def)
qed

end
