(* ===== verification/Kpu_Layers.thy ===== *)
theory Kpu_Layers
  imports Kpu_Image
begin

text \<open>
  The layers of a model that the processor computes in the main memory, \<open>lib/drivers/kpu.c\<close>.  A layer reads its operands
  and writes its result element by element; an element is a byte or the four bytes of a \<open>float\<close>.  Sizes and counts
  come from the model as \<open>uint32_t\<close> and are natural numbers where the code only counts with them, words
  where it computes with them.  The signed products of the quantised layers wrap around as they do on the machine (C leaves
  such an overflow undefined), and a shift distance counts modulo 64.  Single precision arithmetic
  is a parameter \<open>fpu\<close>, its operations work on the bit patterns of floats.
\<close>

subsection \<open>Elements\<close>

text \<open>One element written at the pointer into the destination, which moves on.\<close>

definition emit :: "nat \<Rightarrow> ('a \<Rightarrow> memory \<Rightarrow> u32) \<Rightarrow> 'a \<Rightarrow> int \<times> memory \<Rightarrow> int \<times> memory" where
  "emit n f x s = (case s of (dest, m) \<Rightarrow> (dest + int n, store_le n dest (f x m) m))"

definition emit_all :: "nat \<Rightarrow> ('a \<Rightarrow> memory \<Rightarrow> u32) \<Rightarrow> 'a list \<Rightarrow> int \<Rightarrow> memory \<Rightarrow> memory" where
  "emit_all n f xs dest m = snd (fold (emit n f) xs (dest, m))"

abbreviation u8_at :: "int \<Rightarrow> nat \<Rightarrow> memory \<Rightarrow> u32" where "u8_at p i m \<equiv> load_le 1 (p + int i) m"
abbreviation float_at :: "int \<Rightarrow> nat \<Rightarrow> memory \<Rightarrow> u32" where "float_at p i m \<equiv> load_le 4 (p + 4 * int i) m"

subsection \<open>Quantised values\<close>

definition sar :: "u64 \<Rightarrow> u64 \<Rightarrow> u64" where "sar v k = signed_drop_bit (unat k mod 64) v"

definition kpu_carry_shift :: "u64 \<Rightarrow> u32 \<Rightarrow> u64" where
  "kpu_carry_shift value shift =
     (if 0 < shift
      then (let value = sar value (ucast (shift - 1))
            in if value AND 1 \<noteq> 0
               then (if value <s 0 then sar value 1 - 1 else sar value 1 + 1)
               else sar value 1)
      else value)"

record quant_add =
  in_a_offset :: u32
  in_a_mul :: u32
  in_a_shift :: u32
  in_b_offset :: u32
  in_b_mul :: u32
  in_b_shift :: u32
  out_offset :: u32
  out_mul :: u32
  out_shift :: u32

definition qadd_value :: "quant_add \<Rightarrow> u32 \<Rightarrow> u32 \<Rightarrow> u32" where
  "qadd_value q a b =
     (let off_a = scast (in_a_offset q) :: u64; mul_a = scast (in_a_mul q); sh_a = scast (in_a_shift q);
          off_b = scast (in_b_offset q); mul_b = scast (in_b_mul q); sh_b = scast (in_b_shift q);
          off_o = scast (out_offset q); mul_o = scast (out_mul q); sh_o = (scast (out_shift q) :: u64);
          a = ucast a + off_a; b = ucast b + off_b;
          a = a * mul_a; b = b * mul_b;
          v = (if sh_a = sh_b then sar (a + b) sh_a else sar a sh_a + sar b sh_b);
          v = v * mul_o;
          v = kpu_carry_shift v (ucast sh_o);
          v = v + off_o;
          v = (if 0 \<le>s v then v else 0);
          v = (if 0xFF <s v then 0xFF else v)
      in ucast v)"

definition align_up_8 :: "u32 \<Rightarrow> u32" where "align_up_8 x = (x + 7) AND NOT 7"

text \<open>A round loads eight pairs and stores the eight results.\<close>

definition qadd_round :: "quant_add \<Rightarrow> int \<Rightarrow> int \<Rightarrow> int \<Rightarrow> nat \<Rightarrow> memory \<Rightarrow> memory" where
  "qadd_round q src_a src_b dest i m =
     store_array 1 (dest + 8 * int i) (map (\<lambda>x. qadd_value q (u8_at src_a (8 * i + x) m) (u8_at src_b (8 * i + x) m)) [0..<8]) m"

definition kpu_quantized_add :: "quant_add \<Rightarrow> int \<Rightarrow> int \<Rightarrow> int \<Rightarrow> u32 \<Rightarrow> memory \<Rightarrow> memory" where
  "kpu_quantized_add q src_a src_b dest count m = fold (qadd_round q src_a src_b dest) [0..<unat (align_up_8 count) div 8] m"

subsection \<open>Pooling of bytes\<close>

record kpu_model_shape =
  shape_width :: u32
  shape_height :: u32
  shape_channels :: u32

record pool =
  in_shape :: kpu_model_shape
  out_shape :: kpu_model_shape
  kernel_width :: u32
  kernel_height :: u32
  stride_width :: u32
  stride_height :: u32
  padding_width :: u32
  padding_height :: u32

text \<open>The origin of a window in one direction, and the offsets in it that lie in the image.\<close>

definition pool_origin :: "u32 \<Rightarrow> u32 \<Rightarrow> u32 \<Rightarrow> u32" where
  "pool_origin out_pos stride padding = out_pos * stride - padding"

definition pool_range :: "u32 \<Rightarrow> u32 \<Rightarrow> u32 \<Rightarrow> int list" where
  "pool_range origin ksize in_size =
     (let start = (if 0 <s - origin then - origin else 0);
          stop = (if ksize < in_size - origin then ksize else in_size - origin)
      in [sint start..sint stop - 1])"

text \<open>The window of an output pixel, as indices into the channel of the input.\<close>

definition pool_window :: "pool \<Rightarrow> u32 \<Rightarrow> u32 \<Rightarrow> u32 list" where
  "pool_window p out_y out_x =
     (let x0 = pool_origin out_x (stride_width p) (padding_width p);
          y0 = pool_origin out_y (stride_height p) (padding_height p)
      in concat (map (\<lambda>ky. map (\<lambda>kx. (y0 + word_of_int ky) * shape_width (in_shape p) + (x0 + word_of_int kx))
           (pool_range x0 (kernel_width p) (shape_width (in_shape p))))
         (pool_range y0 (kernel_height p) (shape_height (in_shape p)))))"

definition pixels :: "kpu_model_shape \<Rightarrow> (u32 \<times> u32 \<times> u32) list" where
  "pixels s = concat (map (\<lambda>oc. concat (map (\<lambda>y. map (\<lambda>x. (word_of_nat oc, word_of_nat y, word_of_nat x))
     [0..<unat (shape_width s)]) [0..<unat (shape_height s)])) [0..<unat (shape_channels s)])"

definition channel_offset :: "kpu_model_shape \<Rightarrow> u32 \<Rightarrow> u32" where
  "channel_offset s oc = shape_width s * shape_height s * oc"

definition kpu_quantized_max_pool2d :: "pool \<Rightarrow> int \<Rightarrow> int \<Rightarrow> memory \<Rightarrow> memory" where
  "kpu_quantized_max_pool2d p src dest =
     emit_all 1 (\<lambda>(oc, out_y, out_x) m.
        fold (\<lambda>i value. let x = load_le 1 (src + uint (channel_offset (in_shape p) oc) + uint i) m in if value > x then value else x)
          (pool_window p out_y out_x) 0)
      (pixels (out_shape p)) dest"

subsection \<open>Layers that move elements\<close>

definition kpu_requantize :: "int \<Rightarrow> int \<Rightarrow> int \<Rightarrow> nat \<Rightarrow> memory \<Rightarrow> memory" where
  "kpu_requantize table src dest count = emit_all 1 (\<lambda>oc m. load_le 1 (table + uint (u8_at src oc m)) m) [0..<count] dest"

definition kpu_concat :: "int \<Rightarrow> int \<Rightarrow> nat \<Rightarrow> int \<Rightarrow> memory \<Rightarrow> memory" where
  "kpu_concat inputs_mem main_buffer count dest m =
     snd (fold (\<lambda>i (dest, m).
            let start = load_le 4 (inputs_mem + 8 * int i) m; size = load_le 4 (inputs_mem + 8 * int i + 4) m
            in (dest + uint size, moved dest (main_buffer + uint start) (unat size) m)) [0..<count] (dest, m))"

definition kpu_tf_flatten :: "kpu_model_shape \<Rightarrow> int \<Rightarrow> int \<Rightarrow> memory \<Rightarrow> memory" where
  "kpu_tf_flatten s src dest =
     emit_all 4 (\<lambda>(oy, ox, oc) m. load_le 4 (src + 4 * uint ((oc * shape_height s + oy) * shape_width s + ox)) m)
      (pixels \<lparr>shape_width = shape_channels s, shape_height = shape_width s, shape_channels = shape_height s\<rparr>) dest"

definition kpu_kmodel_input_float :: "int \<Rightarrow> int \<Rightarrow> nat \<Rightarrow> memory \<Rightarrow> memory" where
  "kpu_kmodel_input_float src dest count = moved dest src (4 * count)"

subsection \<open>Layers of floats\<close>

record fpu =
  fadd :: "u32 \<Rightarrow> u32 \<Rightarrow> u32"
  fsub :: "u32 \<Rightarrow> u32 \<Rightarrow> u32"
  fmul :: "u32 \<Rightarrow> u32 \<Rightarrow> u32"
  fdiv :: "u32 \<Rightarrow> u32 \<Rightarrow> u32"
  fless :: "u32 \<Rightarrow> u32 \<Rightarrow> bool"
  fmaxf :: "u32 \<Rightarrow> u32 \<Rightarrow> u32"
  of_integer :: "int \<Rightarrow> u32"
  to_integer :: "u32 \<Rightarrow> int"
  floorf :: "u32 \<Rightarrow> u32"
  roundf :: "u32 \<Rightarrow> u32"
  sqrtf :: "u32 \<Rightarrow> u32"
  expf :: "u32 \<Rightarrow> u32"
  fneg :: "u32 \<Rightarrow> u32"

definition FLT_MIN :: u32 where "FLT_MIN = 0x00800000"
definition float_one :: u32 where "float_one = 0x3F800000"
definition float_six :: u32 where "float_six = 0x40C00000"
definition epsilon :: u32 where "epsilon = 0x2EDBE6FF"

record quant_param =
  qscale :: u32
  qbias :: u32

definition clamp_byte :: "int \<Rightarrow> u32" where
  "clamp_byte value = (if value < 0 then 0 else if value > 0xFF then 0xFF else word_of_int value)"

definition fsum :: "fpu \<Rightarrow> u32 list \<Rightarrow> u32" where
  "fsum U xs = fold (\<lambda>x sum. fadd U sum x) xs 0"

definition dequantized :: "fpu \<Rightarrow> quant_param \<Rightarrow> u32 \<Rightarrow> u32" where
  "dequantized U q b = fadd U (fmul U (of_integer U (uint b)) (qscale q)) (qbias q)"

datatype kpu_model_activation = KLA_LINEAR | KLA_RELU | KLA_RELU6

definition activated :: "fpu \<Rightarrow> kpu_model_activation \<Rightarrow> u32 \<Rightarrow> u32" where
  "activated U act x =
     (let relu = (if fless U 0 x then x else 0)
      in case act of KLA_LINEAR \<Rightarrow> x | KLA_RELU \<Rightarrow> relu | KLA_RELU6 \<Rightarrow> if fless U relu float_six then relu else float_six)"

definition kpu_float_activation :: "fpu \<Rightarrow> int \<Rightarrow> nat \<Rightarrow> kpu_model_activation \<Rightarrow> memory \<Rightarrow> memory" where
  "kpu_float_activation U data_at count act m =
     (if act = KLA_LINEAR then m else emit_all 4 (\<lambda>i m. activated U act (float_at data_at i m)) [0..<count] data_at m)"

definition kpu_kmodel_add :: "fpu \<Rightarrow> int \<Rightarrow> int \<Rightarrow> int \<Rightarrow> nat \<Rightarrow> memory \<Rightarrow> memory" where
  "kpu_kmodel_add U src_a src_b dest count =
     emit_all 4 (\<lambda>i m. fadd U (float_at src_a i m) (float_at src_b i m)) [0..<count] dest"

definition kpu_global_average_pool2d :: "fpu \<Rightarrow> int \<Rightarrow> int \<Rightarrow> nat \<Rightarrow> nat \<Rightarrow> memory \<Rightarrow> memory" where
  "kpu_global_average_pool2d U src dest kernel_size channels =
     emit_all 4 (\<lambda>oc m. fdiv U (fsum U (map (\<lambda>i. float_at src (oc * kernel_size + i) m) [0..<kernel_size]))
        (of_integer U (int kernel_size))) [0..<channels] dest"

definition kpu_average_pool2d :: "fpu \<Rightarrow> pool \<Rightarrow> int \<Rightarrow> int \<Rightarrow> memory \<Rightarrow> memory" where
  "kpu_average_pool2d U p src dest =
     emit_all 4 (\<lambda>(oc, out_y, out_x) m.
        let window = map (\<lambda>i. load_le 4 (src + 4 * uint (channel_offset (in_shape p) oc) + 4 * uint i) m) (pool_window p out_y out_x)
        in fdiv U (fsum U window) (fsum U (map (\<lambda>_. float_one) window)))
      (pixels (out_shape p)) dest"

definition kpu_quantize :: "fpu \<Rightarrow> quant_param \<Rightarrow> int \<Rightarrow> int \<Rightarrow> nat \<Rightarrow> memory \<Rightarrow> memory" where
  "kpu_quantize U q src dest count =
     (let scale = fdiv U float_one (qscale q)
      in emit_all 1 (\<lambda>i m. clamp_byte (to_integer U (roundf U (fmul U (fsub U (float_at src i m) (qbias q)) scale)))) [0..<count] dest)"

definition kpu_kmodel_dequantize :: "fpu \<Rightarrow> quant_param \<Rightarrow> int \<Rightarrow> int \<Rightarrow> nat \<Rightarrow> memory \<Rightarrow> memory" where
  "kpu_kmodel_dequantize U q src dest count = emit_all 4 (\<lambda>i m. dequantized U q (u8_at src i m)) [0..<count] dest"

definition kpu_kmodel_channelwise_dequantize :: "fpu \<Rightarrow> int \<Rightarrow> int \<Rightarrow> int \<Rightarrow> nat \<Rightarrow> nat \<Rightarrow> memory \<Rightarrow> memory" where
  "kpu_kmodel_channelwise_dequantize U quant_params src dest channels count m =
     snd (fold (\<lambda>oc (dest, m).
            let q = \<lparr>qscale = float_at quant_params (2 * oc) m, qbias = float_at quant_params (2 * oc + 1) m\<rparr>
            in fold (emit 4 (\<lambda>i m. dequantized U q (u8_at src (oc * count + i) m))) [0..<count] (dest, m)) [0..<channels] (dest, m))"

definition kpu_l2_normalization :: "fpu \<Rightarrow> int \<Rightarrow> int \<Rightarrow> nat \<Rightarrow> memory \<Rightarrow> memory" where
  "kpu_l2_normalization U src dest channels m =
     (let sum = fsum U (map (\<lambda>oc. fmul U (float_at src oc m) (float_at src oc m)) [0..<channels]);
          sum = (if fless U sum epsilon then epsilon else sum);
          sum = fdiv U float_one (sqrtf U sum)
      in emit_all 4 (\<lambda>oc m. fmul U (float_at src oc m) sum) [0..<channels] dest m)"

definition kpu_softmax :: "fpu \<Rightarrow> int \<Rightarrow> int \<Rightarrow> nat \<Rightarrow> memory \<Rightarrow> memory" where
  "kpu_softmax U src dest channels m =
     (let mx = fold (\<lambda>oc mx. fmaxf U mx (float_at src oc m)) [0..<channels] FLT_MIN;
          (sum, m) = fold (\<lambda>oc (sum, m).
             let value = expf U (fsub U (float_at src oc m) mx) in (fadd U sum value, store_le 4 (dest + 4 * int oc) value m))
             [0..<channels] (0, m)
      in emit_all 4 (\<lambda>oc m. fdiv U (float_at dest oc m) sum) [0..<channels] dest m)"

text \<open>The weights and biases are copied to memory of their own first; \<open>dot8\<close> is the loop unrolled eight times.\<close>

definition dot :: "fpu \<Rightarrow> u32 list \<Rightarrow> u32 list \<Rightarrow> nat \<Rightarrow> u32" where
  "dot U xs ws n = fold (\<lambda>ic sum. fadd U sum (fmul U (xs ! ic) (ws ! ic))) [0..<n] 0"

definition dot8 :: "fpu \<Rightarrow> u32 list \<Rightarrow> u32 list \<Rightarrow> nat \<Rightarrow> u32" where
  "dot8 U xs ws n =
     fold (\<lambda>ic sum.
        let p = (\<lambda>k. fmul U (xs ! (8 * ic + k)) (ws ! (8 * ic + k))); add = (\<lambda>k sum. fadd U sum (p k))
        in add 7 (add 6 (add 5 (add 4 (add 3 (add 2 (add 1 (add 0 sum)))))))) [0..<n div 8] 0"

definition kpu_kmodel_fully_connected ::
  "fpu \<Rightarrow> int \<Rightarrow> kpu_model_activation \<Rightarrow> int \<Rightarrow> int \<Rightarrow> nat \<Rightarrow> nat \<Rightarrow> memory \<Rightarrow> memory" where
  "kpu_kmodel_fully_connected U weights_at act src dest in_channels out_channels m =
     (let weights = load_array 4 weights_at (in_channels * out_channels) m;
          bias = load_array 4 (weights_at + 4 * int (in_channels * out_channels)) out_channels m;
          m = emit_all 4 (\<lambda>oc m.
                let c_src = load_array 4 src in_channels m; c_weights = drop (oc * in_channels) weights;
                    sum = (if in_channels mod 8 = 0 then dot8 U c_src c_weights in_channels else dot U c_src c_weights in_channels)
                in fadd U sum (bias ! oc)) [0..<out_channels] dest m
      in kpu_float_activation U dest out_channels act m)"

definition nearest :: "fpu \<Rightarrow> u32 \<Rightarrow> u32 \<Rightarrow> u32 \<Rightarrow> u32" where
  "nearest U in_size out_size pos =
     (let scale = fdiv U (of_integer U (uint in_size)) (of_integer U (uint out_size));
          a = floorf U (fmul U (of_integer U (uint pos)) scale); b = of_integer U (uint (in_size - 1))
      in word_of_int (to_integer U (if fless U a b then a else b)))"

definition resized :: "nat \<Rightarrow> fpu \<Rightarrow> kpu_model_shape \<Rightarrow> u32 \<Rightarrow> u32 \<Rightarrow> int \<Rightarrow> int \<Rightarrow> memory \<Rightarrow> memory" where
  "resized n U s out_width out_height src dest =
     emit_all n (\<lambda>(oc, oy, ox) m.
        load_le n (src + int n * uint (channel_offset s oc) + int n * uint (nearest U (shape_height s) out_height oy * shape_width s)
           + int n * uint (nearest U (shape_width s) out_width ox)) m)
      (pixels \<lparr>shape_width = out_width, shape_height = out_height, shape_channels = shape_channels s\<rparr>) dest"

definition kpu_resize_nearest_neighbor :: "fpu \<Rightarrow> kpu_model_shape \<Rightarrow> u32 \<Rightarrow> u32 \<Rightarrow> int \<Rightarrow> int \<Rightarrow> memory \<Rightarrow> memory" where
  "kpu_resize_nearest_neighbor = resized 4"

definition kpu_quant_resize_nearest_neighbor :: "fpu \<Rightarrow> kpu_model_shape \<Rightarrow> u32 \<Rightarrow> u32 \<Rightarrow> int \<Rightarrow> int \<Rightarrow> memory \<Rightarrow> memory" where
  "kpu_quant_resize_nearest_neighbor = resized 1"

definition kpu_logistic :: "fpu \<Rightarrow> int \<Rightarrow> int \<Rightarrow> nat \<Rightarrow> memory \<Rightarrow> memory" where
  "kpu_logistic U src dest channels =
     emit_all 4 (\<lambda>oc m. fdiv U float_one (fadd U float_one (expf U (fneg U (float_at src oc m))))) [0..<channels] dest"

subsection \<open>The functions for tasks\<close>

definition kpu_add :: "fpu \<Rightarrow> int \<Rightarrow> quant_param \<Rightarrow> int \<Rightarrow> quant_param \<Rightarrow> nat \<Rightarrow> int \<Rightarrow> quant_param \<Rightarrow> memory \<Rightarrow> memory" where
  "kpu_add U src1 q1 src2 q2 count dest q3 =
     emit_all 1 (\<lambda>i m.
        let sum = fadd U (dequantized U q1 (u8_at src1 i m)) (fmul U (of_integer U (uint (u8_at src2 i m))) (qscale q2));
            sum = fadd U sum (qbias q2)
        in clamp_byte (to_integer U (fdiv U (fsub U sum (qbias q3)) (qscale q3)))) [0..<count] dest"

definition byte_average :: "fpu \<Rightarrow> quant_param \<Rightarrow> int \<Rightarrow> nat \<Rightarrow> nat \<Rightarrow> memory \<Rightarrow> u32" where
  "byte_average U q src kernel_size oc m =
     (let sum = (\<Sum>i \<leftarrow> [0..<kernel_size]. uint (u8_at src (oc * kernel_size + i) m))
      in fdiv U (fadd U (fmul U (of_integer U sum) (qscale q)) (qbias q)) (of_integer U (int kernel_size)))"

definition kpu_global_average_pool :: "fpu \<Rightarrow> int \<Rightarrow> quant_param \<Rightarrow> nat \<Rightarrow> nat \<Rightarrow> int \<Rightarrow> quant_param \<Rightarrow> memory \<Rightarrow> memory" where
  "kpu_global_average_pool U src q1 kernel_size channels dest q2 m =
     (let value = (\<lambda>oc m. clamp_byte (to_integer U (fdiv U (fsub U (byte_average U q1 src kernel_size oc m) (qbias q2)) (qscale q2))))
      in if uint AI_IO_BASE_ADDR \<le> dest \<and> dest < uint AI_IO_BASE_ADDR + 2 * 1024 * 1024
         then fold (\<lambda>oc m. store_le 1 (dest + int (y_origin \<lparr>row_padding = 16, row_group = 4, row_length = 1\<rparr> 4 oc 0)) (value oc m) m)
                [0..<channels] m
         else fold (\<lambda>oc m. store_le 1 (dest + int oc) (value oc m) m) [0..<channels] m)"

definition kpu_global_average_pool_float :: "fpu \<Rightarrow> int \<Rightarrow> quant_param \<Rightarrow> nat \<Rightarrow> nat \<Rightarrow> int \<Rightarrow> memory \<Rightarrow> memory" where
  "kpu_global_average_pool_float U src q kernel_size channels dest =
     emit_all 4 (\<lambda>oc m. byte_average U q src kernel_size oc m) [0..<channels] dest"

definition kpu_matmul_end :: "fpu \<Rightarrow> int \<Rightarrow> nat \<Rightarrow> int \<Rightarrow> quant_param \<Rightarrow> memory \<Rightarrow> memory" where
  "kpu_matmul_end U src channels dest q1 = emit_all 4 (\<lambda>i m. dequantized U q1 (u8_at src (i * 16) m)) [0..<channels] dest"

definition kpu_fully_connected :: "fpu \<Rightarrow> int \<Rightarrow> int \<Rightarrow> int \<Rightarrow> int \<Rightarrow> nat \<Rightarrow> nat \<Rightarrow> memory \<Rightarrow> memory" where
  "kpu_fully_connected U src weights biases dest input_channels output_channels =
     emit_all 4 (\<lambda>oc m. fadd U (dot U (load_array 4 src input_channels m) (load_array 4 (weights + 4 * int (oc * input_channels)) input_channels m)
        input_channels) (float_at biases oc m)) [0..<output_channels] dest"

definition kpu_dequantize :: "fpu \<Rightarrow> int \<Rightarrow> quant_param \<Rightarrow> nat \<Rightarrow> int \<Rightarrow> memory \<Rightarrow> memory" where
  "kpu_dequantize U src q1 count dest = emit_all 4 (\<lambda>i m. dequantized U q1 (u8_at src i m)) [0..<count] dest"

subsection \<open>What a layer stores\<close>

text \<open>\<open>reads_ahead\<close>: no element is computed from bytes that elements before it have been written to.\<close>

definition reads_ahead :: "nat \<Rightarrow> ('a \<Rightarrow> memory \<Rightarrow> u32) \<Rightarrow> 'a list \<Rightarrow> int \<Rightarrow> memory \<Rightarrow> bool" where
  "reads_ahead n f xs dest m \<longleftrightarrow>
     (\<forall>i<length xs. \<forall>m'. (\<forall>a. a < dest \<or> dest + int (n * i) \<le> a \<longrightarrow> m' a = m a) \<longrightarrow> f (xs ! i) m' = f (xs ! i) m)"

lemma store_array_append: "store_array n a (us @ vs) m = store_array n (a + int (n * length us)) vs (store_array n a us m)"
  by (induction us arbitrary: a m) (simp_all add: algebra_simps)

lemma emit_all_values:
  assumes "reads_ahead n f xs dest m"
  shows "emit_all n f xs dest m = store_array n dest (map (\<lambda>x. f x m) xs) m"
proof -
  have "fold (emit n f) xs (dest, m) = (dest + int (n * length xs), store_array n dest (map (\<lambda>x. f x m) xs) m)"
    using assms
  proof (induction xs rule: rev_induct)
    case (snoc x xs)
    let ?m = "store_array n dest (map (\<lambda>x. f x m) xs) m"
    have "reads_ahead n f xs dest m"
      unfolding reads_ahead_def
    proof (intro allI impI)
      fix i m' assume i: "i < length xs" and m': "\<forall>a. a < dest \<or> dest + int (n * i) \<le> a \<longrightarrow> m' a = m a"
      have "f ((xs @ [x]) ! i) m' = f ((xs @ [x]) ! i) m"
        using snoc.prems [unfolded reads_ahead_def, rule_format, of i m'] i m' by simp
      then show "f (xs ! i) m' = f (xs ! i) m" using i by (simp add: nth_append)
    qed
    moreover have "f x ?m = f x m"
      using snoc.prems [unfolded reads_ahead_def, rule_format, of "length xs" ?m] by (simp add: store_array_outside)
    ultimately show ?case using snoc.IH by (simp add: emit_def store_array_append distrib_left)
  qed simp
  then show ?thesis by (simp add: emit_all_def)
qed

subsection \<open>Rounding\<close>

lemma sint_sar: "sint (sar v k) = sint v div 2 ^ (unat k mod 64)"
  by (simp add: sar_def sint_signed_drop_bit_eq drop_bit_eq_div)

lemma odd_word_sint: "v AND 1 \<noteq> 0 \<longleftrightarrow> odd (sint (v :: u64))"
proof -
  have "odd (sint v) \<longleftrightarrow> odd v" using bit_sint_iff [of v 0] by (simp add: bit_0)
  then show ?thesis by (simp add: and_one_eq odd_iff_mod_2_eq_one)
qed

lemma sint64_bounds: "- (2 ^ 63) \<le> sint (v :: u64) \<and> sint v < 2 ^ 63"
  using sint_ge [of v] sint_lt [of v] by simp

lemma sint64_add: "- (2 ^ 63) \<le> sint v + sint w \<Longrightarrow> sint v + sint w < 2 ^ 63 \<Longrightarrow> sint (v + w :: u64) = sint v + sint w"
  by (simp add: sint_word_add signed_take_bit_int_eq_self)

lemma sint64_sub: "- (2 ^ 63) \<le> sint v - sint w \<Longrightarrow> sint v - sint w < 2 ^ 63 \<Longrightarrow> sint (v - w :: u64) = sint v - sint w"
  by (simp add: sint_word_diff signed_take_bit_int_eq_self)

text \<open>C35.  The shift that ends a quantised addition rounds a sum that is not negative to the nearest value, halves up.  A
  negative one is rounded down when the first bit cut off is 0, and otherwise, where the nearest value is above, the result
  is more than one below: at least three halves less than the exact quotient.\<close>

theorem kpu_carry_shift_rounds:
  fixes v :: u64 and k :: u32
  assumes "0 < unat k" "unat k < 64"
  defines "V \<equiv> sint v" and "R \<equiv> sint (kpu_carry_shift v k)" and "s \<equiv> unat k"
  shows "(0 \<le> V \<longrightarrow> R = (V + 2 ^ (s - 1)) div 2 ^ s) \<and>
    (V < 0 \<and> even (V div 2 ^ (s - 1)) \<longrightarrow> R = V div 2 ^ s) \<and>
    (V < 0 \<and> odd (V div 2 ^ (s - 1)) \<longrightarrow> (2 * R + 3) * 2 ^ s \<le> 2 * V)"
proof -
  define t where "t = unat k - 1"
  have t: "s = Suc t" "t < 63" using assms(1,2) by (simp_all add: t_def s_def)
  have "k \<noteq> 0" using assms(1) by auto
  then have k1: "unat (ucast (k - 1) :: u64) mod 64 = t"
    using assms(2) by (simp add: unat_ucast_mod unat_minus_one t_def)
  define w where "w = sar v (ucast (k - 1))"
  define q where "q = sint w"
  have q: "q = V div 2 ^ t" using t(2) by (simp add: q_def w_def sint_sar k1 V_def)
  have half: "sint (sar w 1) = q div 2" by (simp add: sint_sar q_def)
  have qb: "- (2 ^ 63) \<le> q" "q < 2 ^ 63" using sint64_bounds [of w] unfolding q_def by simp_all
  have R: "R = (if odd q then (if q < 0 then q div 2 - 1 else q div 2 + 1) else q div 2)"
  proof -
    have "sint (sar w 1 + 1) = q div 2 + 1" "sint (sar w 1 - 1) = q div 2 - 1"
      using qb sint64_add [of "sar w 1" 1] sint64_sub [of "sar w 1" 1] by (simp_all add: half)
    moreover have "0 < k" using assms(1) by (simp add: word_less_nat_alt)
    ultimately show ?thesis
      unfolding R_def kpu_carry_shift_def
      by (simp add: Let_def w_def [symmetric] odd_word_sint word_sless_alt half q_def [symmetric])
  qed
  have V2: "V div 2 ^ s = q div 2" unfolding t(1) q power_Suc2 by (rule zdiv_zmult2_eq) simp
  have sgn: "q < 0 \<longleftrightarrow> V < 0" unfolding q by (simp add: neg_imp_zdiv_neg_iff pos_imp_zdiv_neg_iff)
  have up: "(V + 2 ^ t) div 2 ^ s = (q + 1) div 2"
  proof -
    have "(V + 2 ^ t) div 2 ^ Suc t = (V + 2 ^ t) div 2 ^ t div 2" unfolding power_Suc2 by (rule zdiv_zmult2_eq) simp
    also have "(V + 2 ^ t) div 2 ^ t = q + 1" using div_add_self2 [of "2 ^ t" V] by (simp add: q)
    finally show ?thesis by (simp add: t(1))
  qed
  have "q * 2 ^ t \<le> V" unfolding q by (metis div_mult_mod_eq le_add_same_cancel1 pos_mod_sign zero_less_numeral zero_less_power)
  then have low: "q * 2 ^ s \<le> 2 * V" by (simp add: t(1))
  have n: "2 * R + 3 = q" if "odd q" "q < 0" using that by (simp add: R) (presburger)
  have p: "R = (q + 1) div 2" if "\<not> q < 0" using that by (simp add: R)
  have e: "R = q div 2" if "even q" using that by (simp add: R)
  have st: "s - 1 = t" by (simp add: t(1))
  show ?thesis unfolding st up V2 q [symmetric] using low n p e sgn by force
qed

lemma kpu_carry_shift_rounds_witness:
  "sint (kpu_carry_shift 7 2) = 2 \<and> sint (kpu_carry_shift (- 6) 2) \<le> - 3"
proof -
  have "(7 :: int) = sint (7 :: u64)" "(- 6 :: int) = sint (- 6 :: u64)" by simp_all
  then show ?thesis
    using kpu_carry_shift_rounds [of 2 7] kpu_carry_shift_rounds [of 2 "- 6"] by simp
qed

subsection \<open>Quantised addition\<close>

text \<open>C34.  The addition of quantised images, unrolled eight times, stores the sum of every pair: byte \<open>i\<close> of the result is made of
  the bytes \<open>i\<close> of the operands, up to the next multiple of eight and no further. The result may take the place of an
  operand.\<close>

theorem kpu_quantized_add_elementwise:
  assumes c: "unat count \<le> 2 ^ 32 - 8" and N: "N = 8 * ((unat count + 7) div 8)"
    and a: "dest \<le> src_a \<or> src_a + int N \<le> dest" and b: "dest \<le> src_b \<or> src_b + int N \<le> dest"
  shows "kpu_quantized_add q src_a src_b dest count m x =
    (if dest \<le> x \<and> x < dest + int N
     then ucast (qadd_value q (u8_at src_a (nat (x - dest)) m) (u8_at src_b (nat (x - dest)) m)) else m x)"
proof -
  let ?v = "\<lambda>m i. qadd_value q (u8_at src_a i m) (u8_at src_b i m)"
  have vals: "fold (qadd_round q src_a src_b dest) [0..<n] m x =
     (if dest \<le> x \<and> x < dest + 8 * int n then ucast (?v m (nat (x - dest))) else m x)" if "8 * n \<le> N" for n x
    using that
  proof (induction n arbitrary: x)
    case (Suc n)
    let ?m = "fold (qadd_round q src_a src_b dest) [0..<n] m"
    have IH: "?m x = (if dest \<le> x \<and> x < dest + 8 * int n then ucast (?v m (nat (x - dest))) else m x)" for x
      using Suc by simp
    have "u8_at p (8 * n + k) ?m = u8_at p (8 * n + k) m" if "dest \<le> p \<or> p + int N \<le> dest" "k < 8" for p k
      by (rule load_le_cong) (use that Suc.prems in \<open>auto simp: IH\<close>)
    then have same: "?v ?m (8 * n + k) = ?v m (8 * n + k)" if "k < 8" for k using a b that by (simp del: One_nat_def)
    have round: "fold (qadd_round q src_a src_b dest) [0..<Suc n] m = store_array 1 (dest + 8 * int n) (map (\<lambda>k. ?v ?m (8 * n + k)) [0..<8]) ?m"
      by (simp add: qadd_round_def del: One_nat_def)
    show ?case
    proof (cases "dest + 8 * int n \<le> x \<and> x < dest + 8 * int n + 8")
      case True
      define k where "k = nat (x - dest - 8 * int n)"
      have k: "x = dest + int (8 * n + k)" "k < 8" using True unfolding k_def by linarith+
      then show ?thesis unfolding round store_array_1 using same [OF k(2)] by (simp del: One_nat_def)
    next
      case False
      then show ?thesis unfolding round store_array_1 using IH by (auto simp del: One_nat_def)
    qed
  qed auto
  have "drop_bit 3 (align_up_8 count) = drop_bit 3 (count + 7)"
  proof -
    have "drop_bit 3 (w AND NOT (mask 3)) = drop_bit 3 w" for w :: u32
      by (rule bit_word_eqI) (auto simp: bit_simps dest: bit_imp_le_length)
    moreover have "(mask 3 :: u32) = 7" by (simp add: mask_eq_exp_minus_1)
    ultimately show ?thesis by (simp only: align_up_8_def)
  qed
  moreover have drop8: "unat w div 8 = unat (drop_bit 3 w)" for w :: u32
    using unat_drop_bit_eq [of 3 w] by (simp only: drop_bit_eq_div) simp
  ultimately have "unat (align_up_8 count) div 8 = unat (count + 7) div 8"
    by (simp add: drop8)
  moreover have "unat (count + 7) = unat count + 7" using c by (simp add: unat_word_ariths)
  ultimately have "N = 8 * (unat (align_up_8 count) div 8)" by (simp add: N)
  then show ?thesis using vals [of "unat (align_up_8 count) div 8" x] unfolding kpu_quantized_add_def by (simp del: One_nat_def)
qed

lemma kpu_quantized_add_elementwise_witness:
  "\<forall>q m. kpu_quantized_add q 100 200 100 5 m 107 = ucast (qadd_value q (u8_at 100 7 m) (u8_at 200 7 m)) \<and>
     kpu_quantized_add q 100 200 100 5 m 108 = m 108"
  using kpu_quantized_add_elementwise [where count = 5 and N = 8 and dest = 100 and src_a = 100 and src_b = 200]
  by (simp del: One_nat_def)

subsection \<open>The fully connected layer\<close>

lemma dot8_dot: "n mod 8 = 0 \<Longrightarrow> dot8 U xs ws n = dot U xs ws n"
proof -
  assume "n mod 8 = 0"
  then obtain k where n: "n = 8 * k" by (auto simp: mod_eq_0_iff_dvd)
  have "[0..<8 * Suc k] = [0..<8 * k] @ [8 * k..<8 * k + 8]" for k
    using upt_add_eq_append [of 0 "8 * k" 8] by (simp add: add.commute)
  moreover have "[8 * k..<8 * k + 8] = map (\<lambda>i. 8 * k + i) [0, 1, 2, 3, 4, 5, 6, 7]" for k
    by (simp add: upt_rec)
  moreover have "[0..<Suc k] = [0..<k] @ [k]" for k by simp
  ultimately have "dot U xs ws (8 * k) = dot8 U xs ws (8 * k)"
    by (induction k) (simp_all add: dot_def dot8_def del: upt_Suc mult_Suc_right)
  then show ?thesis by (simp add: n)
qed

lemma dot_either: "(if n mod 8 = 0 then dot8 U xs ws n else dot U xs ws n) = dot U xs ws n"
  by (simp add: dot8_dot)

lemma float_of_stored:
  assumes "i < length ws"
  shows "float_at dest i (store_array 4 dest ws m) = ws ! i"
proof -
  have "load_array 4 dest (length ws) (store_array 4 dest ws m) ! i = map (take_bit 32) ws ! i"
    using load_store_array [of 4 dest ws m] by simp
  then show ?thesis using assms by (simp add: load_array_def take_bit_word_eq_self)
qed

text \<open>C36.  The fully connected layer computes, for every output channel, the weighted sum of the inputs in their order,
  plus the bias, through the activation: unrolled eight times when the number of inputs allows it, and with the same
  roundings either way, whatever the arithmetic does.\<close>

theorem fully_connected_weighted_sums:
  assumes "dest + 4 * int k \<le> src \<or> src + 4 * int n \<le> dest"
  shows "kpu_kmodel_fully_connected U wp act src dest n k m =
    store_array 4 dest (map (\<lambda>oc. activated U act (fadd U
      (dot U (load_array 4 src n m) (drop (oc * n) (load_array 4 wp (n * k) m)) n) (load_array 4 (wp + 4 * int (n * k)) k m ! oc))) [0..<k]) m"
proof -
  let ?sum = "\<lambda>oc. fadd U (dot U (load_array 4 src n m) (drop (oc * n) (load_array 4 wp (n * k) m)) n) (load_array 4 (wp + 4 * int (n * k)) k m ! oc)"
  let ?f = "\<lambda>oc m'. fadd U (dot U (load_array 4 src n m') (drop (oc * n) (load_array 4 wp (n * k) m)) n) (load_array 4 (wp + 4 * int (n * k)) k m ! oc)"
  let ?m = "store_array 4 dest (map ?sum [0..<k]) m"
  have "reads_ahead 4 ?f [0..<k] dest m"
    unfolding reads_ahead_def
  proof (intro allI impI)
    fix i and m' :: memory
    assume i: "i < length [0..<k]" and m': "\<forall>a. a < dest \<or> dest + int (4 * i) \<le> a \<longrightarrow> m' a = m a"
    have "load_le 4 (src + int (4 * j)) m' = load_le 4 (src + int (4 * j)) m" if "j < n" for j
      by (rule load_le_cong) (use assms i m' that in auto)
    then have "load_array 4 src n m' = load_array 4 src n m" by (simp add: load_array_def)
    then show "?f ([0..<k] ! i) m' = ?f ([0..<k] ! i) m" by simp
  qed
  from emit_all_values [OF this] have sums: "emit_all 4 ?f [0..<k] dest m = ?m" .
  have "kpu_float_activation U dest k act ?m = store_array 4 dest (map (\<lambda>oc. activated U act (?sum oc)) [0..<k]) m"
  proof (cases "act = KLA_LINEAR")
    case True
    then show ?thesis by (simp add: kpu_float_activation_def activated_def)
  next
    case False
    have "reads_ahead 4 (\<lambda>i m. activated U act (float_at dest i m)) [0..<k] dest ?m"
      unfolding reads_ahead_def
    proof (intro allI impI)
      fix i and m' :: memory
      assume "i < length [0..<k]" and m': "\<forall>a. a < dest \<or> dest + int (4 * i) \<le> a \<longrightarrow> m' a = ?m a"
      moreover have "float_at dest i m' = float_at dest i ?m" by (rule load_le_cong) (use m' in auto)
      ultimately show "activated U act (float_at dest ([0..<k] ! i) m') = activated U act (float_at dest ([0..<k] ! i) ?m)" by simp
    qed
    from emit_all_values [OF this] have "kpu_float_activation U dest k act ?m =
        store_array 4 dest (map (\<lambda>i. activated U act (float_at dest i ?m)) [0..<k]) ?m"
      using False by (simp add: kpu_float_activation_def)
    moreover have "map (\<lambda>i. activated U act (float_at dest i ?m)) [0..<k] = map (\<lambda>oc. activated U act (?sum oc)) [0..<k]"
      using float_of_stored [of _ "map ?sum [0..<k]" dest m] by (intro map_cong) simp_all
    ultimately show ?thesis by (simp add: store_array_twice del: map_eq_conv)
  qed
  then show ?thesis using sums by (simp add: kpu_kmodel_fully_connected_def dot_either Let_def)
qed

lemma fully_connected_weighted_sums_witness:
  "\<forall>m. kpu_kmodel_fully_connected \<lparr>fadd = (+), fsub = (-), fmul = (*), fdiv = (div), fless = (<), fmaxf = max, of_integer = word_of_int,
      to_integer = uint, floorf = id, roundf = id, sqrtf = id, expf = id, fneg = uminus\<rparr> 100 KLA_LINEAR 200 300 1 1 m =
    store_array 4 300 [load_le 4 200 m * load_le 4 100 m + load_le 4 104 m] m"
  using fully_connected_weighted_sums [where dest = 300 and k = 1 and src = 200 and n = 1 and wp = 100 and act = KLA_LINEAR]
  by (simp add: activated_def dot_def load_array_def)

subsection \<open>Maximum pooling\<close>

text \<open>The window of an output pixel in the plane of the integers, and what the layer has to find in it.\<close>

definition in_window :: "nat \<Rightarrow> nat \<Rightarrow> nat \<Rightarrow> nat \<Rightarrow> nat \<Rightarrow> int set" where
  "in_window out_pos stride padding ksize in_size =
     {i. 0 \<le> i \<and> i < int in_size \<and> int (out_pos * stride) - int padding \<le> i \<and> i < int (out_pos * stride) - int padding + int ksize}"

text \<open>A direction of the pooling in which no computation overflows and no window begins behind the image.\<close>

definition pool_fits :: "nat \<Rightarrow> u32 \<Rightarrow> u32 \<Rightarrow> u32 \<Rightarrow> u32 \<Rightarrow> bool" where
  "pool_fits out_pos stride padding ksize in_size \<longleftrightarrow>
     out_pos * unat stride < 2 ^ 30 \<and> unat padding < 2 ^ 30 \<and> unat ksize < 2 ^ 30 \<and> unat in_size < 2 ^ 30 \<and>
     out_pos * unat stride \<le> unat in_size + unat padding"

lemma pool_range_window:
  assumes "pool_fits out_pos stride padding ksize in_size"
  defines "origin \<equiv> pool_origin (word_of_nat out_pos) stride padding"
  shows "sint origin = int (out_pos * unat stride) - int (unat padding) \<and>
    (\<lambda>k. sint origin + k) ` set (pool_range origin ksize in_size) =
      in_window out_pos (unat stride) (unat padding) (unat ksize) (unat in_size)"
proof -
  define P where "P = out_pos * unat stride"
  define Q K S where "Q = unat padding" and "K = unat ksize" and "S = unat in_size"
  note fits = assms(1) [unfolded pool_fits_def, folded P_def Q_def K_def S_def]
  define o' where "o' = int P - int Q"
  have words: "sint (word_of_int x :: u32) = x" if "- (2 ^ 31) \<le> x" "x < 2 ^ 31" for x
    unfolding sint_sbintrunc' by (rule signed_take_bit_int_eq_self) (use that in simp_all)
  have uwords: "uint (word_of_int x :: u32) = x" if "0 \<le> x" "x < 2 ^ 32" for x
    using that by (simp add: uint_word_of_int)
  have o: "origin = word_of_int o'" unfolding origin_def pool_origin_def o'_def P_def Q_def by simp
  have so: "sint origin = o'" unfolding o by (rule words) (use fits in \<open>simp_all add: o'_def\<close>)
  have "- origin = word_of_int (- o')" by (simp add: o)
  then have "sint (- origin) = - o'" by (simp only:) (rule words, use fits in \<open>simp_all add: o'_def\<close>)
  then have start: "sint (if 0 <s - origin then - origin else 0) = max 0 (- o')" by (auto simp: word_sless_alt)
  have rest: "in_size - origin = word_of_int (int S - o')" by (simp add: o S_def)
  have urest: "uint (in_size - origin) = int S - o'"
    unfolding rest by (rule uwords) (use fits in \<open>simp_all add: o'_def\<close>)
  have srest: "sint (in_size - origin) = int S - o'"
    unfolding rest by (rule words) (use fits in \<open>simp_all add: o'_def\<close>)
  have k: "ksize = word_of_int (int K)" by (simp add: K_def)
  have sk: "sint ksize = int K" unfolding k by (rule words) (use fits in simp_all)
  have "uint ksize = int K" by (simp add: K_def)
  then have stop: "sint (if ksize < in_size - origin then ksize else in_size - origin) = min (int K) (int S - o')"
    using urest srest sk by (auto simp: word_less_def)
  have "(\<lambda>k. o' + k) ` {max 0 (- o')..min (int K) (int S - o') - 1} = {max 0 o'..<min (int S) (o' + int K)}"
    by (auto simp: image_iff intro!: bexI [of _ "_ - o'"])
  moreover have "{max 0 o'..<min (int S) (o' + int K)} = in_window out_pos (unat stride) Q K S"
    by (auto simp: in_window_def o'_def P_def)
  ultimately show ?thesis
    by (simp add: so pool_range_def start stop Q_def [symmetric] K_def [symmetric] S_def [symmetric] P_def [symmetric] o'_def del: of_nat_mult)
qed

lemma image_pairs: "{f a b | a b. a \<in> A \<and> b \<in> B} = (\<lambda>(a, b). f a b) ` (A \<times> B)"
  by auto

lemma load_le_1: "load_le 1 a m = ucast (m a)"
  by simp

lemma pool_maximum: "fold (\<lambda>i v. if v > f i then v else f i) xs 0 = Max (insert (0 :: u32) (f ` set xs))"
proof -
  have "fold (\<lambda>i v. if v > f i then v else f i) xs v = fold max (map f xs) v" for v
    by (induction xs arbitrary: v) (auto simp: max_def)
  then show ?thesis using Max.set_eq_fold [of 0 "map f xs"] by simp
qed

lemma max_of_bytes:
  assumes "finite B"
  shows "ucast (Max (insert 0 ((ucast :: u8 \<Rightarrow> u32) ` B))) = Max (insert 0 B)"
proof -
  have "unat (ucast (b :: u8) :: u32) = unat b" for b
  proof -
    have "unat b < 256" using unsigned_less [of b] by simp
    then show ?thesis by (simp add: unat_ucast_mod)
  qed
  then have "mono (ucast :: u8 \<Rightarrow> u32)" by (intro monoI) (simp add: word_le_nat_alt)
  then have "(ucast :: u8 \<Rightarrow> u32) (Max (insert 0 B)) = Max (ucast ` insert 0 B)"
    by (rule mono_Max_commute) (use assms in simp_all)
  then have "Max (insert 0 ((ucast :: u8 \<Rightarrow> u32) ` B)) = ucast (Max (insert 0 B))" by simp
  moreover have "ucast (ucast b :: u32) = b" for b :: u8 by (rule bit_word_eqI) (auto simp: bit_simps)
  ultimately show ?thesis by simp
qed

text \<open>The indices of a window are those of its pixels, row by row.\<close>

lemma pool_window_indices:
  assumes x: "pool_fits ox (stride_width p) (padding_width p) (kernel_width p) (shape_width (in_shape p))"
    and y: "pool_fits oy (stride_height p) (padding_height p) (kernel_height p) (shape_height (in_shape p))"
    and size: "unat (shape_width (in_shape p)) * unat (shape_height (in_shape p)) \<le> 2 ^ 32"
  shows "uint ` set (pool_window p (word_of_nat oy) (word_of_nat ox)) =
    {iy * int (unat (shape_width (in_shape p))) + ix | iy ix.
       iy \<in> in_window oy (unat (stride_height p)) (unat (padding_height p)) (unat (kernel_height p)) (unat (shape_height (in_shape p))) \<and>
       ix \<in> in_window ox (unat (stride_width p)) (unat (padding_width p)) (unat (kernel_width p)) (unat (shape_width (in_shape p)))}"
    (is "_ = {iy * ?W + ix | iy ix. iy \<in> ?Y \<and> ix \<in> ?X}")
proof -
  let ?x0 = "pool_origin (word_of_nat ox) (stride_width p) (padding_width p)"
  let ?y0 = "pool_origin (word_of_nat oy) (stride_height p) (padding_height p)"
  note rx = pool_range_window [OF x] and ry = pool_range_window [OF y]
  have index: "uint ((?y0 + word_of_int ky) * shape_width (in_shape p) + (?x0 + word_of_int kx)) = (sint ?y0 + ky) * ?W + (sint ?x0 + kx)"
    if "sint ?y0 + ky \<in> ?Y" "sint ?x0 + kx \<in> ?X" for ky kx
  proof -
    let ?iy = "sint ?y0 + ky" and ?ix = "sint ?x0 + kx"
    have b: "0 \<le> ?iy" "?iy + 1 \<le> int (unat (shape_height (in_shape p)))" "0 \<le> ?ix" "?ix < ?W"
      using that by (auto simp: in_window_def)
    have "(?iy + 1) * ?W \<le> int (unat (shape_height (in_shape p))) * ?W" by (rule mult_right_mono) (use b in simp_all)
    also have "\<dots> \<le> 2 ^ 32" using size by (metis of_nat_mult mult.commute of_nat_le_iff of_nat_numeral of_nat_power)
    finally have "?iy * ?W + ?ix < 2 ^ 32" using b(4) by (simp add: distrib_right)
    moreover have "0 \<le> ?iy * ?W + ?ix" using b by simp
    moreover have "(?y0 + word_of_int ky) * shape_width (in_shape p) + (?x0 + word_of_int kx) = word_of_int (?iy * ?W + ?ix)"
      by simp
    ultimately show ?thesis by (simp only: uint_word_of_int) simp
  qed
  let ?F = "\<lambda>ky kx. (?y0 + word_of_int ky) * shape_width (in_shape p) + (?x0 + word_of_int kx)"
  let ?ys = "set (pool_range ?y0 (kernel_height p) (shape_height (in_shape p)))"
  let ?xs = "set (pool_range ?x0 (kernel_width p) (shape_width (in_shape p)))"
  have Y: "(\<lambda>k. sint ?y0 + k) ` ?ys = ?Y" and X: "(\<lambda>k. sint ?x0 + k) ` ?xs = ?X" using rx ry by blast+
  have "set (pool_window p (word_of_nat oy) (word_of_nat ox)) = (\<lambda>(ky, kx). ?F ky kx) ` (?ys \<times> ?xs)"
    by (auto simp: pool_window_def Let_def)
  then have "uint ` set (pool_window p (word_of_nat oy) (word_of_nat ox)) = (\<lambda>(ky, kx). uint (?F ky kx)) ` (?ys \<times> ?xs)"
    by (simp only: image_image case_prod_beta')
  also have "\<dots> = (\<lambda>(ky, kx). (sint ?y0 + ky) * ?W + (sint ?x0 + kx)) ` (?ys \<times> ?xs)"
  proof (rule image_cong [OF refl])
    fix c assume c: "c \<in> ?ys \<times> ?xs"
    then have "sint ?y0 + fst c \<in> ?Y" "sint ?x0 + snd c \<in> ?X" unfolding Y [symmetric] X [symmetric] by auto
    from index [OF this] show "(\<lambda>(ky, kx). uint (?F ky kx)) c = (\<lambda>(ky, kx). (sint ?y0 + ky) * ?W + (sint ?x0 + kx)) c"
      by (simp only: case_prod_beta)
  qed
  also have "\<dots> = {iy * ?W + ix | iy ix. iy \<in> ?Y \<and> ix \<in> ?X}"
    unfolding Y [symmetric] X [symmetric] by auto
  finally show ?thesis .
qed

lemma pixels_nth:
  assumes "oc < unat (shape_channels s)" "y < unat (shape_height s)" "x < unat (shape_width s)"
  shows "pixels s ! ((oc * unat (shape_height s) + y) * unat (shape_width s) + x) = (word_of_nat oc, word_of_nat y, word_of_nat x)"
    and "(oc * unat (shape_height s) + y) * unat (shape_width s) + x < length (pixels s)"
proof -
  let ?C = "unat (shape_channels s)" and ?H = "unat (shape_height s)" and ?W = "unat (shape_width s)"
  define L where "L oc = concat (map (\<lambda>y. map (\<lambda>x. (word_of_nat oc :: u32, word_of_nat y :: u32, word_of_nat x :: u32)) [0..<?W]) [0..<?H])" for oc
  have L: "length (L oc) = ?H * ?W \<and> (\<forall>y<?H. \<forall>x<?W. L oc ! (y * ?W + x) = (word_of_nat oc, word_of_nat y, word_of_nat x))" for oc
    unfolding L_def by (rule concat_rows)
  have "L oc = map (\<lambda>j. L oc ! j) [0..<?H * ?W]" for oc using L by (metis map_nth)
  then have "pixels s = concat (map (\<lambda>oc. map (\<lambda>j. L oc ! j) [0..<?H * ?W]) [0..<?C])"
    by (simp add: pixels_def L_def)
  with concat_rows [where g = "\<lambda>oc j. L oc ! j" and h = "?H * ?W" and c = ?C]
  have P: "length (pixels s) = ?C * (?H * ?W)" "\<forall>oc<?C. \<forall>j<?H * ?W. pixels s ! (oc * (?H * ?W) + j) = L oc ! j" by simp_all
  have "Suc y * ?W \<le> ?H * ?W" using assms(2) by (intro mult_le_mono1) simp
  then have j: "y * ?W + x < ?H * ?W" using assms(3) by simp
  have i: "(oc * ?H + y) * ?W + x = oc * (?H * ?W) + (y * ?W + x)" by (simp add: algebra_simps)
  show "pixels s ! ((oc * ?H + y) * ?W + x) = (word_of_nat oc, word_of_nat y, word_of_nat x)"
    using P(2) L assms j unfolding i by simp
  have "Suc oc * (?H * ?W) \<le> ?C * (?H * ?W)" using assms(1) by (intro mult_le_mono1) simp
  then show "(oc * ?H + y) * ?W + x < length (pixels s)" using j unfolding i P(1) by simp
qed

lemma pixels_all:
  assumes "i < length (pixels s)"
  obtains oc y x where "oc < unat (shape_channels s)" "y < unat (shape_height s)" "x < unat (shape_width s)"
    "pixels s ! i = (word_of_nat oc, word_of_nat y, word_of_nat x)"
proof -
  have "pixels s ! i \<in> set (pixels s)" using assms by (rule nth_mem)
  then show ?thesis using that by (auto simp: pixels_def)
qed

text \<open>C33.  A pixel of the result of quantised maximum pooling is the greatest of the pixels of its channel in the part of its window that lies
  in the image, 0 when there is none; every pixel read belongs to the input, and nothing but the result is
  written.\<close>

theorem max_pool_takes_maximum:
  fixes p :: pool
  defines "W \<equiv> unat (shape_width (in_shape p))" and "H \<equiv> unat (shape_height (in_shape p))" and "C \<equiv> unat (shape_channels (out_shape p))"
    and "OW \<equiv> unat (shape_width (out_shape p))" and "OH \<equiv> unat (shape_height (out_shape p))"
  assumes x: "\<forall>ox<OW. pool_fits ox (stride_width p) (padding_width p) (kernel_width p) (shape_width (in_shape p))"
    and y: "\<forall>oy<OH. pool_fits oy (stride_height p) (padding_height p) (kernel_height p) (shape_height (in_shape p))"
    and size: "W * H * C \<le> 2 ^ 32" and apart: "dest + int (C * OH * OW) \<le> src \<or> src + int (W * H * C) \<le> dest"
  shows "(\<forall>oc<C. \<forall>oy<OH. \<forall>ox<OW. kpu_quantized_max_pool2d p src dest m (dest + int ((oc * OH + oy) * OW + ox)) =
      Max (insert 0 {m (src + int (W * H * oc) + iy * int W + ix) | iy ix.
        iy \<in> in_window oy (unat (stride_height p)) (unat (padding_height p)) (unat (kernel_height p)) H \<and>
        ix \<in> in_window ox (unat (stride_width p)) (unat (padding_width p)) (unat (kernel_width p)) W})) \<and>
    (\<forall>a. a < dest \<or> dest + int (C * OH * OW) \<le> a \<longrightarrow> kpu_quantized_max_pool2d p src dest m a = m a)"
proof -
  let ?Y = "\<lambda>oy. in_window oy (unat (stride_height p)) (unat (padding_height p)) (unat (kernel_height p)) H"
  let ?X = "\<lambda>ox. in_window ox (unat (stride_width p)) (unat (padding_width p)) (unat (kernel_width p)) W"
  let ?f = "\<lambda>(oc, out_y, out_x) m. fold (\<lambda>i value. let x = load_le 1 (src + uint (channel_offset (in_shape p) oc) + uint i) m in
    if value > x then value else x) (pool_window p out_y out_x) 0"
  define B where "B m oc oy ox = {m (src + int (W * H * oc) + iy * int W + ix) | iy ix. iy \<in> ?Y oy \<and> ix \<in> ?X ox}" for m :: memory and oc oy ox
  have len: "length (pixels (out_shape p)) = C * (OH * OW)"
    by (simp add: pixels_def length_concat o_def sum_list_triv C_def OH_def OW_def)
  have finX: "finite (in_window pos st pad k n)" for pos st pad k n
    by (rule finite_subset [of _ "{0..int n}"]) (auto simp: in_window_def)
  have B_image: "B m oc oy ox = (\<lambda>(iy, ix). m (src + int (W * H * oc) + iy * int W + ix)) ` (?Y oy \<times> ?X ox)" for m oc oy ox
    by (auto simp: B_def)
  have fin: "finite (B m oc oy ox)" for m oc oy ox unfolding B_image by (intro finite_imageI finite_cartesian_product finX)
  have plane: "W * H * oc + W * H \<le> W * H * C" if "oc < C" for oc
    using mult_le_mono2 [of "Suc oc" C "W * H"] that by simp
  have pos: "0 \<le> iy * int W + ix \<and> iy * int W + ix < int (W * H)" if "iy \<in> ?Y oy" "ix \<in> ?X ox" for iy ix oy ox
  proof -
    have b: "0 \<le> iy" "iy + 1 \<le> int H" "0 \<le> ix" "ix < int W" using that by (auto simp: in_window_def)
    have "(iy + 1) * int W \<le> int H * int W" by (rule mult_right_mono) (use b in simp_all)
    then have "iy * int W + int W \<le> int (W * H)" by (simp add: distrib_right mult.commute [of "int H"])
    moreover have "0 \<le> iy * int W" using b(1) by simp
    ultimately show ?thesis using b by linarith
  qed
  have vals: "?f (word_of_nat oc, word_of_nat oy, word_of_nat ox) m = Max (insert 0 (ucast ` B m oc oy ox))"
    if b: "oc < C" "oy < OH" "ox < OW" for m oc oy ox
  proof -
    have WH: "W * H \<le> 2 ^ 32" using plane [OF b(1)] size by linarith
    have "W * H * oc < 2 ^ 32"
    proof (cases "W * H = 0")
      case True
      then show ?thesis by (simp only: mult_0) simp
    next
      case False
      then show ?thesis using plane [OF b(1)] size by linarith
    qed
    then have small: "int W * int H * int oc < 2 ^ 32" by (metis of_nat_less_iff of_nat_mult of_nat_numeral of_nat_power)
    have "channel_offset (in_shape p) (word_of_nat oc) = word_of_int (int W * int H * int oc)"
      by (simp add: channel_offset_def W_def H_def)
    then have off: "uint (channel_offset (in_shape p) (word_of_nat oc)) = int (W * H * oc)"
      using small by (simp only: uint_word_of_int) simp
    have idx: "uint ` set (pool_window p (word_of_nat oy) (word_of_nat ox)) = {iy * int W + ix | iy ix. iy \<in> ?Y oy \<and> ix \<in> ?X ox}"
      unfolding W_def H_def
      by (rule pool_window_indices) (use x y b WH in \<open>simp_all add: W_def H_def\<close>)
    let ?g = "\<lambda>i. load_le 1 (src + uint (channel_offset (in_shape p) (word_of_nat oc)) + uint i) m"
    have "?f (word_of_nat oc, word_of_nat oy, word_of_nat ox) m = Max (insert 0 (?g ` set (pool_window p (word_of_nat oy) (word_of_nat ox))))"
      using pool_maximum [of ?g] by (simp only: Let_def prod.case)
    also have "?g ` set (pool_window p (word_of_nat oy) (word_of_nat ox)) =
        (\<lambda>j. ucast (m (src + int (W * H * oc) + j))) ` (uint ` set (pool_window p (word_of_nat oy) (word_of_nat ox)))"
      by (simp only: image_image off load_le_1)
    also have "\<dots> = ucast ` B m oc oy ox" unfolding idx B_def by (auto simp: add.assoc)
    finally show ?thesis .
  qed
  have same: "B m' oc oy ox = B m oc oy ox" if out: "\<forall>a. a < dest \<or> dest + int (C * OH * OW) \<le> a \<longrightarrow> m' a = m a" and oc: "oc < C" for m' oc oy ox
  proof -
    have "m' (src + int (W * H * oc) + iy * int W + ix) = m (src + int (W * H * oc) + iy * int W + ix)" if "iy \<in> ?Y oy" "ix \<in> ?X ox" for iy ix
    proof -
      have "int (W * H * oc) + int (W * H) \<le> int (W * H * C)" using plane [OF oc] by linarith
      then show ?thesis using out apart pos [OF that] by (intro out [rule_format]) linarith
    qed
    then show ?thesis unfolding B_image by (intro image_cong) auto
  qed
  have "reads_ahead 1 ?f (pixels (out_shape p)) dest m"
    unfolding reads_ahead_def
  proof (intro allI impI)
    fix i and m' :: memory
    assume i: "i < length (pixels (out_shape p))" and m': "\<forall>a. a < dest \<or> dest + int (1 * i) \<le> a \<longrightarrow> m' a = m a"
    from pixels_all [OF i] obtain oc oy ox where b: "oc < C" "oy < OH" "ox < OW"
      and px: "pixels (out_shape p) ! i = (word_of_nat oc, word_of_nat oy, word_of_nat ox)" unfolding C_def OH_def OW_def .
    have "i < C * OH * OW" using i len by (simp add: mult.assoc)
    then have "\<forall>a. a < dest \<or> dest + int (C * OH * OW) \<le> a \<longrightarrow> m' a = m a" using m' by (auto simp del: of_nat_mult)
    from same [OF this b(1)] show "?f (pixels (out_shape p) ! i) m' = ?f (pixels (out_shape p) ! i) m"
      unfolding px vals [OF b] by simp
  qed
  from emit_all_values [OF this]
  have e: "kpu_quantized_max_pool2d p src dest m = store_array 1 dest (map (\<lambda>x. ?f x m) (pixels (out_shape p))) m"
    unfolding kpu_quantized_max_pool2d_def by (simp only:)
  have px: "kpu_quantized_max_pool2d p src dest m (dest + int ((oc * OH + oy) * OW + ox)) = Max (insert 0 (B m oc oy ox))"
    if b: "oc < C" "oy < OH" "ox < OW" for oc oy ox
  proof -
    let ?i = "(oc * OH + oy) * OW + ox"
    note n = pixels_nth [of oc "out_shape p" oy ox, folded C_def OH_def OW_def, OF b]
    have "kpu_quantized_max_pool2d p src dest m (dest + int ?i) = ucast (?f (pixels (out_shape p) ! ?i) m)"
      unfolding e store_array_1 using n(2) by (simp del: of_nat_mult of_nat_add of_nat_Suc)
    then show ?thesis unfolding n(1) vals [OF b] using max_of_bytes [OF fin] by simp
  qed
  have "kpu_quantized_max_pool2d p src dest m a = m a" if "a < dest \<or> dest + int (C * OH * OW) \<le> a" for a
    unfolding e by (rule store_array_outside) (use that in \<open>simp add: len mult.assoc del: of_nat_mult\<close>)
  then show ?thesis unfolding B_def [symmetric] using px by blast
qed

text \<open>A pooling of three by three windows with stride 2 and padding 1 on an image of 5 by 4 pixels.\<close>

definition demo_pool :: pool where
  "demo_pool = \<lparr>in_shape = \<lparr>shape_width = 5, shape_height = 4, shape_channels = 2\<rparr>,
     out_shape = \<lparr>shape_width = 3, shape_height = 2, shape_channels = 2\<rparr>, kernel_width = 3, kernel_height = 3,
     stride_width = 2, stride_height = 2, padding_width = 1, padding_height = 1\<rparr>"

lemma max_pool_takes_maximum_witness:
  "\<forall>m. kpu_quantized_max_pool2d demo_pool 100 200 m (200 + 6) = Max {0, m 120, m 121, m 125, m 126} \<and>
     kpu_quantized_max_pool2d demo_pool 100 200 m 212 = m 212"
proof
  fix m :: memory
  have x: "\<forall>ox<unat (shape_width (out_shape demo_pool)). pool_fits ox (stride_width demo_pool) (padding_width demo_pool)
      (kernel_width demo_pool) (shape_width (in_shape demo_pool))"
    and y: "\<forall>oy<unat (shape_height (out_shape demo_pool)). pool_fits oy (stride_height demo_pool) (padding_height demo_pool)
      (kernel_height demo_pool) (shape_height (in_shape demo_pool))"
    by (simp_all add: demo_pool_def pool_fits_def)
  have w: "in_window 0 2 1 3 n = {i. 0 \<le> i \<and> i < int n \<and> i < 2}" for n by (auto simp: in_window_def)
  then have w: "in_window 0 2 (Suc 0) 3 5 = {0, 1}" "in_window 0 2 (Suc 0) 3 4 = {0, 1}" by auto
  note e = max_pool_takes_maximum [OF x y, of 200 100 m, unfolded image_pairs]
  show "kpu_quantized_max_pool2d demo_pool 100 200 m (200 + 6) = Max {0, m 120, m 121, m 125, m 126} \<and>
     kpu_quantized_max_pool2d demo_pool 100 200 m 212 = m 212"
    using e [THEN conjunct1, rule_format, of 1 0 0] e [THEN conjunct2, rule_format, of 212] by (simp add: demo_pool_def w)
qed

end
