(* ===== verification/Kpu_Model.thy ===== *)
theory Kpu_Model
  imports Kpu Kpu_Layers Sysctl_Pll
begin

text \<open>
  Models of neural networks as \<open>lib/drivers/kpu.c\<close> runs them: a kmodel is a header, a table of outputs, a table of layer
  headers and the bodies of the layers, all read from memory where the code reads them; the layers that the processor
  computes are those of the layer component, a convolution goes to the neural network processor and the interrupt at its end
  runs the layers after it.  The functions of the nncase runtime are parameters, and so are \<open>malloc\<close> and the
  arithmetic of floats.  \<open>None\<close>: a failed assertion, or a DMA controller that is never idle.
\<close>

subsection \<open>Layer types\<close>

definition KL_ADD :: u32 where "KL_ADD = 1"
definition KL_QUANTIZED_ADD :: u32 where "KL_QUANTIZED_ADD = 2"
definition KL_GLOBAL_AVERAGE_POOL2D :: u32 where "KL_GLOBAL_AVERAGE_POOL2D = 5"
definition KL_QUANTIZED_MAX_POOL2D :: u32 where "KL_QUANTIZED_MAX_POOL2D = 8"
definition KL_AVERAGE_POOL2D :: u32 where "KL_AVERAGE_POOL2D = 9"
definition KL_QUANTIZE :: u32 where "KL_QUANTIZE = 11"
definition KL_DEQUANTIZE :: u32 where "KL_DEQUANTIZE = 12"
definition KL_REQUANTIZE :: u32 where "KL_REQUANTIZE = 13"
definition KL_L2_NORMALIZATION :: u32 where "KL_L2_NORMALIZATION = 14"
definition KL_SOFTMAX :: u32 where "KL_SOFTMAX = 15"
definition KL_CONCAT :: u32 where "KL_CONCAT = 16"
definition KL_QUANTIZED_CONCAT :: u32 where "KL_QUANTIZED_CONCAT = 17"
definition KL_FULLY_CONNECTED :: u32 where "KL_FULLY_CONNECTED = 18"
definition KL_TENSORFLOW_FLATTEN :: u32 where "KL_TENSORFLOW_FLATTEN = 20"
definition KL_RESIZE_NEAREST_NEIGHBOR :: u32 where "KL_RESIZE_NEAREST_NEIGHBOR = 22"
definition KL_QUANTIZED_RESIZE_NEAREST_NEIGHBOR :: u32 where "KL_QUANTIZED_RESIZE_NEAREST_NEIGHBOR = 23"
definition KL_CHANNELWISE_DEQUANTIZE :: u32 where "KL_CHANNELWISE_DEQUANTIZE = 24"
definition KL_LOGISTIC :: u32 where "KL_LOGISTIC = 25"
definition KL_K210_CONV :: u32 where "KL_K210_CONV = 10240"
definition KL_K210_ADD_PADDING :: u32 where "KL_K210_ADD_PADDING = 10241"
definition KL_K210_REMOVE_PADDING :: u32 where "KL_K210_REMOVE_PADDING = 10242"
definition KL_K210_UPLOAD :: u32 where "KL_K210_UPLOAD = 10243"

lemmas layer_types = KL_ADD_def KL_QUANTIZED_ADD_def KL_GLOBAL_AVERAGE_POOL2D_def KL_QUANTIZED_MAX_POOL2D_def KL_AVERAGE_POOL2D_def
  KL_QUANTIZE_def KL_DEQUANTIZE_def KL_REQUANTIZE_def KL_L2_NORMALIZATION_def KL_SOFTMAX_def KL_CONCAT_def KL_QUANTIZED_CONCAT_def
  KL_FULLY_CONNECTED_def KL_TENSORFLOW_FLATTEN_def KL_RESIZE_NEAREST_NEIGHBOR_def KL_QUANTIZED_RESIZE_NEAREST_NEIGHBOR_def
  KL_CHANNELWISE_DEQUANTIZE_def KL_LOGISTIC_def KL_K210_CONV_def KL_K210_ADD_PADDING_def KL_K210_REMOVE_PADDING_def KL_K210_UPLOAD_def

definition KLF_MAIN_MEM_OUT :: u32 where "KLF_MAIN_MEM_OUT = 1"
definition IOMEM :: int where "IOMEM = 0x40000000"

definition activation_of :: "u32 \<Rightarrow> kpu_model_activation" where
  "activation_of a = (if a = 1 then KLA_RELU else if a = 2 then KLA_RELU6 else KLA_LINEAR)"

text \<open>The arguments of a layer are the words of its body, offsets into the main buffer among them.\<close>

definition arg :: "int \<Rightarrow> nat \<Rightarrow> memory \<Rightarrow> u32" where "arg body k m = load_le 4 (body + 4 * int k) m"

definition shape_arg :: "int \<Rightarrow> nat \<Rightarrow> memory \<Rightarrow> kpu_model_shape" where
  "shape_arg body k m = \<lparr>shape_width = arg body k m, shape_height = arg body (k + 1) m, shape_channels = arg body (k + 2) m\<rparr>"

definition pool_arg :: "int \<Rightarrow> memory \<Rightarrow> pool" where
  "pool_arg body m = \<lparr>in_shape = shape_arg body 3 m, out_shape = shape_arg body 6 m, kernel_width = arg body 9 m, kernel_height = arg body 10 m,
     stride_width = arg body 11 m, stride_height = arg body 12 m, padding_width = arg body 13 m, padding_height = arg body 14 m\<rparr>"

definition quant_add_arg :: "int \<Rightarrow> memory \<Rightarrow> quant_add" where
  "quant_add_arg body m = \<lparr>in_a_offset = arg body 5 m, in_a_mul = arg body 6 m, in_a_shift = arg body 7 m, in_b_offset = arg body 8 m,
     in_b_mul = arg body 9 m, in_b_shift = arg body 10 m, out_offset = arg body 11 m, out_mul = arg body 12 m, out_shift = arg body 13 m\<rparr>"

definition quant_arg :: "int \<Rightarrow> nat \<Rightarrow> memory \<Rightarrow> quant_param" where
  "quant_arg body k m = \<lparr>qscale = arg body k m, qbias = arg body (k + 1) m\<rparr>"

definition kpu_upload :: "int \<Rightarrow> u32 \<Rightarrow> nat \<Rightarrow> nat \<Rightarrow> nat \<Rightarrow> memory \<Rightarrow> memory" where
  "kpu_upload src kpu_mem_out_address width height channels = kpu_upload_core width height channels src kpu_mem_out_address"

definition cpu_layer :: "fpu \<Rightarrow> u32 \<Rightarrow> int \<Rightarrow> int \<Rightarrow> memory \<Rightarrow> memory option" where
  "cpu_layer U ty body main m =
     (let a = (\<lambda>k. arg body k m); buf = (\<lambda>k. main + uint (a k)); n = (\<lambda>k. unat (a k)) in
      if ty = KL_ADD then Some (kpu_kmodel_add U (buf 1) (buf 2) (buf 3) (n 4) m)
      else if ty = KL_QUANTIZED_ADD then Some (kpu_quantized_add (quant_add_arg body m) (buf 1) (buf 2) (buf 3) (a 4) m)
      else if ty = KL_GLOBAL_AVERAGE_POOL2D then Some (kpu_global_average_pool2d U (buf 1) (buf 2) (n 3) (n 4) m)
      else if ty = KL_QUANTIZED_MAX_POOL2D then Some (kpu_quantized_max_pool2d (pool_arg body m) (buf 1) (buf 2) m)
      else if ty = KL_AVERAGE_POOL2D then Some (kpu_average_pool2d U (pool_arg body m) (buf 1) (buf 2) m)
      else if ty = KL_QUANTIZE then Some (kpu_quantize U (quant_arg body 4 m) (buf 1) (buf 2) (n 3) m)
      else if ty = KL_DEQUANTIZE then Some (kpu_kmodel_dequantize U (quant_arg body 4 m) (buf 1) (buf 2) (n 3) m)
      else if ty = KL_REQUANTIZE then Some (kpu_requantize (body + 16) (buf 1) (buf 2) (n 3) m)
      else if ty = KL_L2_NORMALIZATION then Some (kpu_l2_normalization U (buf 1) (buf 2) (n 3) m)
      else if ty = KL_SOFTMAX then Some (kpu_softmax U (buf 1) (buf 2) (n 3) m)
      else if ty = KL_CONCAT \<or> ty = KL_QUANTIZED_CONCAT then Some (kpu_concat (body + 12) main (n 2) (buf 1) m)
      else if ty = KL_FULLY_CONNECTED then
        Some (kpu_kmodel_fully_connected U (body + 24) (activation_of (a 5)) (buf 1) (buf 2) (n 3) (n 4) m)
      else if ty = KL_TENSORFLOW_FLATTEN then Some (kpu_tf_flatten (shape_arg body 3 m) (buf 1) (buf 2) m)
      else if ty = KL_RESIZE_NEAREST_NEIGHBOR then Some (kpu_resize_nearest_neighbor U (shape_arg body 3 m) (a 6) (a 7) (buf 1) (buf 2) m)
      else if ty = KL_QUANTIZED_RESIZE_NEAREST_NEIGHBOR then
        Some (kpu_quant_resize_nearest_neighbor U (shape_arg body 3 m) (a 6) (a 7) (buf 1) (buf 2) m)
      else if ty = KL_CHANNELWISE_DEQUANTIZE then Some (kpu_kmodel_channelwise_dequantize U (body + 20) (buf 1) (buf 2) (n 3) (n 4) m)
      else if ty = KL_LOGISTIC then Some (kpu_logistic U (buf 1) (buf 2) (n 3) m)
      else if ty = KL_K210_ADD_PADDING then Some (kpu_add_padding (buf 1) (a 2) (n 3) m)
      else if ty = KL_K210_REMOVE_PADDING then Some (kpu_remove_padding (buf 1) (buf 2) (n 3) m)
      else if ty = KL_K210_UPLOAD then Some (kpu_upload (buf 1) (a 2) (n 3) (n 4) (n 5) m)
      else None)"

subsection \<open>The context\<close>

record 'u kpu_model_context =
  is_nncase :: bool
  model_buffer :: int
  main_buffer :: int
  output_count :: u32
  outputs :: int
  layer_headers :: int
  body_start :: int
  layers_length :: u32
  current_layer :: u32
  current_body :: int
  model_dma_ch :: nat
  done_callback :: 'u
  userdata :: nat

type_synonym 'u model_state = "'u kpu_model_context \<times> 'u kpu_world"

definition header_type :: "'u kpu_model_context \<Rightarrow> u32 \<Rightarrow> memory \<Rightarrow> u32" where
  "header_type c i m = load_le 4 (layer_headers c + 8 * uint i) m"

definition header_size :: "'u kpu_model_context \<Rightarrow> u32 \<Rightarrow> memory \<Rightarrow> u32" where
  "header_size c i m = load_le 4 (layer_headers c + 8 * uint i + 4) m"

definition kpu_kmodel_done :: "'u model_state \<Rightarrow> 'u model_state" where
  "kpu_kmodel_done s = (case s of (c, w) \<Rightarrow>
     (let w = mask_interrupts 1 1 1 (clear_interrupts w) in (c, w\<lparr>kw_calls := kw_calls w @ [(done_callback c, userdata c)]\<rparr>)))"

text \<open>The parameters of the layer are read through the uncached alias of the model.\<close>

definition kpu_conv :: "'u dma_hw \<Rightarrow> mem_line \<Rightarrow> nat \<Rightarrow> int \<Rightarrow> 'u kpu_model_context \<Rightarrow> 'u kpu_world \<Rightarrow> 'u kpu_world option" where
  "kpu_conv hw brk core body c w =
     (let a = (\<lambda>k. arg body k (kw_mem w));
          layer = layer_at (model_buffer c + uint (a 2)) (kw_mem w);
          uncached = (\<lambda>k. word_of_int (model_buffer c + uint (a k) - IOMEM));
          layer = layer\<lparr>kernel_load_cfg := put_bits 32 32 (uncached 3) (kernel_load_cfg layer),
                        kernel_pool_type_cfg := put_bits 32 32 (uncached 4) (kernel_pool_type_cfg layer),
                        kernel_calc_type_cfg := put_bits 32 32 (uncached 5) (kernel_calc_type_cfg layer)\<rparr>;
          ch = model_dma_ch c
      in if a 0 AND KLF_MAIN_MEM_OUT \<noteq> 0
         then do {
           let dest = main_buffer c + uint (a 1);
           let w = mask_interrupts 1 1 1 (clear_interrupts w);
           let layer = layer\<lparr>dma_parameter := put_bits 0 1 1 (dma_parameter layer)\<rparr>;
           let w = on_irq core ch (if current_layer c \<noteq> layers_length c then Ai_step else Kpu_kmodel_done) 0 1 (ai_rx_select ch w);
           w \<leftarrow> dma_out hw brk ch dest (ucast ((dma_total_byte layer + 8) div 8)) w;
           Some (upd_kpu (kpu_send_layer layer) w) }
         else
          (let w = mask_interrupts 0 1 1 (clear_interrupts w);
               layer = layer\<lparr>interrupt_enabe := put_bits 0 1 1 (interrupt_enabe layer)\<rparr>
           in Some (upd_kpu (kpu_send_layer layer) w)))"

text \<open>The number of layers after the current one, which may wrap around, decreases.\<close>

lemma layers_left_less: "i \<noteq> n - 1 \<Longrightarrow> unat (n - i - 2) < unat (n - 1 - (i :: u32))"
proof -
  assume "i \<noteq> n - 1"
  then have "n - 1 - i \<noteq> 0" by auto
  moreover have "unat (d - 1) < unat d" if "d \<noteq> 0" for d :: u32
    using unat_minus_one [OF that] that by (simp add: unat_gt_0)
  ultimately have "unat (n - 1 - i - 1) < unat (n - 1 - i)" by blast
  moreover have "n - i - 2 = n - 1 - i - 1" by simp
  ultimately show ?thesis by (simp only:)
qed

function ai_step :: "fpu \<Rightarrow> 'u dma_hw \<Rightarrow> mem_line \<Rightarrow> nat \<Rightarrow> 'u model_state \<Rightarrow> 'u model_state option" where
  "ai_step U hw brk core (c, w) =
     (let cnt_layer_id = current_layer c; layer_body = current_body c; ty = header_type c cnt_layer_id (kw_mem w);
          c = c\<lparr>current_layer := cnt_layer_id + 1, current_body := layer_body + uint (header_size c cnt_layer_id (kw_mem w))\<rparr>
      in if ty = KL_K210_CONV then map_option (Pair c) (kpu_conv hw brk core layer_body c w)
         else
          (case cpu_layer U ty layer_body (main_buffer c) (kw_mem w) of
             None \<Rightarrow> None
           | Some m \<Rightarrow>
              (let w = upd_mem (\<lambda>_. m) w
               in if cnt_layer_id \<noteq> layers_length c - 1 then ai_step U hw brk core (c, w) else Some (kpu_kmodel_done (c, w)))))"
  by pat_completeness auto
termination
  by (relation "measure (\<lambda>(U, hw, brk, core, c, w). unat (layers_length c - 1 - current_layer c))") (auto simp: layers_left_less)

definition ai_step_not_isr :: "fpu \<Rightarrow> 'u dma_hw \<Rightarrow> mem_line \<Rightarrow> nat \<Rightarrow> csr \<times> 'u model_state \<Rightarrow> (csr \<times> 'u model_state) option" where
  "ai_step_not_isr U hw brk core s = (case s of (csr, s) \<Rightarrow>
     map_option (Pair (sysctl_enable_irq (sysctl_disable_irq csr))) (ai_step U hw brk core s))"

subsection \<open>Loading and running a model\<close>

record 'u nncase =
  nncase_load_kmodel :: "int \<Rightarrow> 'u model_state \<Rightarrow> int \<times> 'u model_state"
  nncase_get_output :: "u32 \<Rightarrow> 'u model_state \<Rightarrow> int \<times> int \<times> u32"
  nncase_model_free :: "'u model_state \<Rightarrow> 'u model_state"
  nncase_run_kmodel :: "int \<Rightarrow> nat \<Rightarrow> 'u \<Rightarrow> nat \<Rightarrow> 'u model_state \<Rightarrow> (int \<times> 'u model_state) option"

definition KMDL :: u32 where "KMDL = 0x4B4D444C"

text \<open>The bodies are copied to their uncached alias.\<close>

definition bodies_size :: "'u kpu_model_context \<Rightarrow> memory \<Rightarrow> u32" where
  "bodies_size c m = fold (\<lambda>i body_size. body_size + header_size c (word_of_nat i) m) [0..<unat (layers_length c)] 0"

definition kpu_load_kmodel :: "'u nncase \<Rightarrow> (u32 \<Rightarrow> int) \<Rightarrow> int \<Rightarrow> 'u model_state \<Rightarrow> (int \<times> 'u model_state) option" where
  "kpu_load_kmodel N malloc buffer s = (case s of (c, w) \<Rightarrow>
     if \<not> is_memory_cache buffer then None
     else
      (let header = (\<lambda>k. arg buffer k (kw_mem w)) in
       if header 0 = 3 \<and> header 2 = 0
       then
        (let out = buffer + 28; headers = out + 8 * uint (header 6); bodies = headers + 8 * uint (header 3);
             c = c\<lparr>is_nncase := False, model_buffer := buffer, output_count := header 6, outputs := out, layer_headers := headers,
                    layers_length := header 3, body_start := bodies, main_buffer := malloc (header 5)\<rparr>
         in if main_buffer c = 0 then Some (-1, c, w)
            else
             (let size = bodies_size c (kw_mem w);
                  w = upd_mem (moved (bodies - IOMEM) bodies (unat size)) w
              in if list_all (\<lambda>i. kw_mem w (bodies - IOMEM + int i) = kw_mem w (bodies + int i)) [0..<unat size]
                 then Some (0, c, w) else None))
       else if header 0 = KMDL then Some (nncase_load_kmodel N buffer (c, w))
       else Some (-1, c, w)))"

definition kpu_get_output :: "'u nncase \<Rightarrow> u32 \<Rightarrow> 'u model_state \<Rightarrow> int \<times> int \<times> u32" where
  "kpu_get_output N index s = (case s of (c, w) \<Rightarrow>
     if is_nncase c then nncase_get_output N index s
     else if index \<ge> output_count c then (-1, 0, 0)
     else
      (let output = outputs c + 8 * uint index
       in (0, main_buffer c + uint (load_le 4 output (kw_mem w)), load_le 4 (output + 4) (kw_mem w))))"

definition kpu_model_free :: "'u nncase \<Rightarrow> 'u model_state \<Rightarrow> 'u model_state" where
  "kpu_model_free N s = (case s of (c, w) \<Rightarrow> if is_nncase c then nncase_model_free N s else (c\<lparr>main_buffer := 0\<rparr>, w))"

definition i_row_wid :: "kpu_layer_argument \<Rightarrow> u64" where "i_row_wid l = bits 0 10 (image_size l)"
definition i_col_high :: "kpu_layer_argument \<Rightarrow> u64" where "i_col_high l = bits 10 9 (image_size l)"

definition kpu_kmodel_input_with_padding :: "kpu_layer_argument \<Rightarrow> int \<Rightarrow> memory \<Rightarrow> memory" where
  "kpu_kmodel_input_with_padding layer src =
     kpu_upload_core (unat (i_row_wid layer) + 1) (unat (i_col_high layer) + 1) (unat (i_ch_num layer) + 1) src (image_src_addr layer)"

definition kpu_run_kmodel ::
  "'u nncase \<Rightarrow> fpu \<Rightarrow> 'u dma_hw \<Rightarrow> mem_line \<Rightarrow> nat \<Rightarrow> int \<Rightarrow> nat \<Rightarrow> 'u \<Rightarrow> nat \<Rightarrow> csr \<times> 'u model_state \<Rightarrow>
   (int \<times> csr \<times> 'u model_state) option" where
  "kpu_run_kmodel N U hw brk core src ch cb data s = (case s of (csr, c, w) \<Rightarrow>
     if is_nncase c then map_option (\<lambda>(r, s). (r, csr, s)) (nncase_run_kmodel N src ch cb data (c, w))
     else
      (let c = c\<lparr>model_dma_ch := ch, done_callback := cb, userdata := data, current_layer := 0, current_body := body_start c\<rparr>;
           flags = arg (model_buffer c) 1 (kw_mem w);
           w = upd_kpu (\<lambda>k. k\<lparr>interrupt_clear := 7, fifo_threshold := kpu_config_fifo_threshold 10 1,
                              eight_bit_mode := ucast (flags AND 1)\<rparr>) w;
           w = on_ai_line core 1 Ai_step 0 (mask_interrupts 1 0 1 w);
           ty = header_type c 0 (kw_mem w)
       in if ty = KL_K210_CONV
          then (let layer_arg = layer_at (model_buffer c + uint (arg (body_start c) 2 (kw_mem w))) (kw_mem w)
                in if (i_row_wid layer_arg + 1) mod 64 \<noteq> 0
                   then map_option (Pair 0) (ai_step_not_isr U hw brk core (csr, c, upd_mem (kpu_kmodel_input_with_padding layer_arg src) w))
                   else map_option (\<lambda>w. (0, csr, c, w)) (kpu_input_dma hw brk core layer_arg src ch Ai_step 0 w))
          else if ty = KL_FULLY_CONNECTED
          then (let a = (\<lambda>k. arg (body_start c) k (kw_mem w));
                    w = upd_mem (kpu_kmodel_input_float src (main_buffer c + uint (a 1)) (unat (a 3))) w
                in map_option (Pair 0) (ai_step_not_isr U hw brk core (csr, c, w)))
          else Some (-1, csr, c, w)))"

subsection \<open>Progress\<close>

declare ai_step.simps [simp del]

lemma u32_step_unat: "i < n \<Longrightarrow> unat (i + 1) = unat i + 1" for i n :: u32
proof -
  assume "i < n"
  then have "unat i < unat n" "unat n < 2 ^ 32" using unsigned_less [of n] by (simp_all add: word_less_nat_alt)
  then show "unat (i + 1) = unat i + 1" by (simp add: unat_word_ariths)
qed

lemma u32_step_up: "i < n \<Longrightarrow> i < i + 1 \<and> i + 1 \<le> n" for i n :: u32
proof -
  assume less: "i < n"
  have "unat i < unat n" "unat n < 2 ^ 32" using less unsigned_less [of n] by (simp_all add: word_less_nat_alt)
  then have "unat (i + 1) = unat i + 1" by (simp add: unat_word_ariths)
  then show "i < i + 1 \<and> i + 1 \<le> n" using \<open>unat i < unat n\<close> by (simp add: word_less_nat_alt word_le_nat_alt)
qed

text \<open>
  The specification of a run: \<open>cpu_layers U k\<close> runs the next \<open>k\<close> layers, none of them a convolution, one after the other on the
  memory the layer before has left; \<open>conv_words\<close> is a convolution as the words the processor gets, the stored
  layer with the addresses of its parameters in the upper halves of three words and the flag that it signals its
  end by an interrupt or sends its result to memory.
\<close>

definition next_layer :: "'u kpu_model_context \<Rightarrow> memory \<Rightarrow> 'u kpu_model_context" where
  "next_layer c m = c\<lparr>current_layer := current_layer c + 1,
     current_body := current_body c + uint (header_size c (current_layer c) m)\<rparr>"

fun cpu_layers :: "fpu \<Rightarrow> nat \<Rightarrow> 'u kpu_model_context \<times> memory \<Rightarrow> ('u kpu_model_context \<times> memory) option" where
  "cpu_layers U 0 x = Some x"
| "cpu_layers U (Suc k) (c, m) =
     (let ty = header_type c (current_layer c) m
      in if ty = KL_K210_CONV then None
         else case cpu_layer U ty (current_body c) (main_buffer c) m of
           None \<Rightarrow> None
         | Some m' \<Rightarrow> cpu_layers U k (next_layer c m, m'))"

definition conv_words :: "int \<Rightarrow> int \<Rightarrow> memory \<Rightarrow> u64 list" where
  "conv_words buffer body m =
     (let p = buffer + uint (load_le 4 (body + 8) m);
          reg = (\<lambda>k. load64 (p + 8 * k) m);
          uncached = (\<lambda>offset. word_of_int (buffer + uint (load_le 4 (body + offset) m) - 0x40000000));
          to_memory = load_le 4 body m AND 1 \<noteq> 0
      in [if to_memory then reg 0 else put_bits 0 1 1 (reg 0), reg 1, reg 2, reg 3, put_bits 32 32 (uncached 16) (reg 4),
          put_bits 32 32 (uncached 12) (reg 5), reg 6, put_bits 32 32 (uncached 20) (reg 7), reg 8, reg 9, reg 10,
          if to_memory then put_bits 0 1 1 (reg 11) else reg 11])"

lemma kpu_conv_sends:
  assumes "kpu_conv hw brk core body c w = Some w'"
  shows "kw_calls w' = kw_calls w \<and> fifo w' = fifo w @ conv_words (model_buffer c) body (kw_mem w)"
  using assms
  by (auto simp: kpu_conv_def Let_def bind_eq_Some_conv dma_out_def on_irq_def ai_rx_select_def upd_kpu_def kpu_send_layer_def
      clear_interrupts_def mask_interrupts_def split_beta conv_words_def arg_def layer_at_def KLF_MAIN_MEM_OUT_def IOMEM_def
      split: if_splits)

lemma ai_step_unfold:
  "ai_step U hw brk core (c, w) =
     (if header_type c (current_layer c) (kw_mem w) = KL_K210_CONV
      then map_option (Pair (next_layer c (kw_mem w))) (kpu_conv hw brk core (current_body c) (next_layer c (kw_mem w)) w)
      else case cpu_layer U (header_type c (current_layer c) (kw_mem w)) (current_body c) (main_buffer c) (kw_mem w) of
        None \<Rightarrow> None
      | Some m \<Rightarrow>
         if current_layer c \<noteq> layers_length c - 1 then ai_step U hw brk core (next_layer c (kw_mem w), upd_mem (\<lambda>_. m) w)
         else Some (kpu_kmodel_done (next_layer c (kw_mem w), upd_mem (\<lambda>_. m) w)))"
  by (subst ai_step.simps) (simp add: next_layer_def Let_def split: option.splits)

lemma next_layer_keeps:
  "layers_length (next_layer c m) = layers_length c" "done_callback (next_layer c m) = done_callback c"
  "userdata (next_layer c m) = userdata c" "main_buffer (next_layer c m) = main_buffer c"
  "model_buffer (next_layer c m) = model_buffer c" "layer_headers (next_layer c m) = layer_headers c"
  "current_layer (next_layer c m) = current_layer c + 1"
  by (simp_all add: next_layer_def)

text \<open>C31.  A call of \<open>ai_step\<close> while layers are left, as every caller makes it for a model with layers (the code does not check
  this).  It runs the next \<open>k\<close> layers, none of them a convolution, in order, each by the function of its type, and then
  either is at a convolution before the last layer is passed, hands exactly this layer over as its twelve words and returns with the
  user not called, or is at the end: then the memory is what those layers have computed, nothing was handed over and the user
  is called, once.\<close>

theorem ai_step_runs_to_convolution:
  assumes "ai_step U hw brk core (c, w) = Some (c', w')" and "current_layer c < layers_length c"
  shows "\<exists>k c1 m. cpu_layers U k (c, kw_mem w) = Some (c1, m) \<and> unat (current_layer c1) = unat (current_layer c) + k \<and>
    (current_layer c1 < layers_length c \<and> header_type c1 (current_layer c1) m = 10240 \<and> c' = next_layer c1 m \<and>
       fifo w' = fifo w @ conv_words (model_buffer c) (current_body c1) m \<and> kw_calls w' = kw_calls w \<or>
     current_layer c1 = layers_length c \<and> c' = c1 \<and> kw_mem w' = m \<and>
       fifo w' = fifo w \<and> kw_calls w' = kw_calls w @ [(done_callback c, userdata c)])"
  using assms
proof (induction "unat (layers_length c - 1 - current_layer c)" arbitrary: c w rule: less_induct)
  case less
  let ?ty = "header_type c (current_layer c) (kw_mem w)" and ?d = "next_layer c (kw_mem w)"
  note up = u32_step_up [OF less.prems(2)]
  have un: "unat (current_layer ?d) = Suc (unat (current_layer c))"
    using u32_step_unat [OF less.prems(2)] by (simp add: next_layer_keeps)
  show ?case
  proof (cases "?ty = KL_K210_CONV")
    case True
    then have "kpu_conv hw brk core (current_body c) ?d w = Some w'" "c' = ?d"
      using less.prems(1) unfolding ai_step_unfold [of U hw brk core c w] by auto
    then show ?thesis using kpu_conv_sends [of hw brk core "current_body c" ?d w w'] less.prems(2) True
      by (intro exI [of _ 0] exI [of _ c] exI [of _ "kw_mem w"]) (simp add: next_layer_keeps KL_K210_CONV_def)
  next
    case False
    then obtain m where m: "cpu_layer U ?ty (current_body c) (main_buffer c) (kw_mem w) = Some m"
      using less.prems(1) unfolding ai_step_unfold [of U hw brk core c w] by (auto split: option.splits)
    have same: "fifo (upd_mem (\<lambda>_. m) w) = fifo w" "kw_calls (upd_mem (\<lambda>_. m) w) = kw_calls w" "kw_mem (upd_mem (\<lambda>_. m) w) = m"
      by (simp_all add: upd_mem_def)
    have run1: "cpu_layers U (Suc k) (c, kw_mem w) = cpu_layers U k (?d, m)" for k using False m by (simp add: Let_def)
    show ?thesis
    proof (cases "current_layer c = layers_length c - 1")
      case True
      then have fin: "(c', w') = kpu_kmodel_done (?d, upd_mem (\<lambda>_. m) w)"
        using less.prems(1) False m unfolding ai_step_unfold [of U hw brk core c w] by simp
      then show ?thesis using fin True un same run1 [of 0]
        by (intro exI [of _ 1] exI [of _ ?d] exI [of _ m]) (simp add: kpu_kmodel_done_def Let_def clear_keeps mask_keeps next_layer_keeps)
    next
      case last: False
      then have step: "ai_step U hw brk core (?d, upd_mem (\<lambda>_. m) w) = Some (c', w')"
        using less.prems(1) False m unfolding ai_step_unfold [of U hw brk core c w] by simp
      have "current_layer c + 1 \<noteq> layers_length c" using last by (metis add_diff_cancel)
      then have in_range: "current_layer ?d < layers_length ?d" using up by (simp add: next_layer_keeps order.not_eq_order_implies_strict)
      have "unat (layers_length ?d - 1 - current_layer ?d) < unat (layers_length c - 1 - current_layer c)"
        using layers_left_less [OF last] by (simp add: next_layer_keeps diff_diff_eq add.commute)
      from less.hyps [OF this step in_range] obtain k c1 m1 where
        "cpu_layers U k (?d, m) = Some (c1, m1)" "unat (current_layer c1) = unat (current_layer ?d) + k"
        "current_layer c1 < layers_length c \<and> header_type c1 (current_layer c1) m1 = 10240 \<and> c' = next_layer c1 m1 \<and>
           fifo w' = fifo w @ conv_words (model_buffer c) (current_body c1) m1 \<and> kw_calls w' = kw_calls w \<or>
         current_layer c1 = layers_length c \<and> c' = c1 \<and> kw_mem w' = m1 \<and>
           fifo w' = fifo w \<and> kw_calls w' = kw_calls w @ [(done_callback c, userdata c)]"
        unfolding same next_layer_keeps by blast
      then show ?thesis using un run1 [of k] by (intro exI [of _ "Suc k"] exI [of _ c1] exI [of _ m1]) simp
    qed
  qed
qed

definition two_layers :: memory where
  "two_layers = (\<lambda>_. 0)(0 := 2, 1 := 40, 8 := 2, 9 := 40)"

definition two_layer_context :: "nat kpu_model_context" where
  "two_layer_context = \<lparr>is_nncase = False, model_buffer = 0, main_buffer = 0, output_count = 0, outputs = 0, layer_headers = 0, body_start = 100,
     layers_length = 2, current_layer = 0, current_body = 100, model_dma_ch = 0, done_callback = 7, userdata = 9\<rparr>"

lemma load_le_4: "load_le 4 a m =
    ucast (m a) OR push_bit 8 (ucast (m (a + 1)) OR push_bit 8 (ucast (m (a + 2)) OR push_bit 8 (ucast (m (a + 3)) :: u32)))"
  by (simp add: eval_nat_numeral add.commute)

lemma two_layers_load:
  "load_le 4 0 two_layers = 10242" "load_le 4 8 two_layers = 10242" "load_le 4 4 two_layers = 0" "load_le 4 12 two_layers = 0"
  "load_le 4 104 two_layers = 0" "load_le 4 108 two_layers = 0" "load_le 4 112 two_layers = 0"
  by (simp_all add: two_layers_def load_le_4 push_bit_eq_mult)

lemma two_layers_run:
  assumes "kw_mem w = two_layers"
  shows "ai_step U hw brk core (two_layer_context, w) = Some (kpu_kmodel_done (two_layer_context\<lparr>current_layer := 2\<rparr>, w))"
proof -
  have same: "upd_mem (\<lambda>_. two_layers) w = w" using assms by (simp add: upd_mem_def flip: assms)
  have layer: "cpu_layer U 10242 100 0 two_layers = Some two_layers"
    by (simp add: cpu_layer_def Let_def layer_types arg_def two_layers_load kpu_remove_padding_def)
  show ?thesis
    by (simp add: ai_step.simps [where w = w] two_layer_context_def header_type_def header_size_def two_layers_load assms KL_K210_CONV_def layer same Let_def)
qed

lemma ai_step_runs_to_convolution_witness:
  "\<forall>(U :: fpu) (hw :: nat dma_hw) brk (w :: nat kpu_world).
     \<exists>c' w'. ai_step U hw brk 0 (two_layer_context, upd_mem (\<lambda>_. two_layers) w) = Some (c', w') \<and> current_layer c' = 2 \<and>
        (fifo w' = fifo w \<and> kw_calls w' = kw_calls w @ [(7, 9)] \<or> (\<exists>k c1 m. c' = next_layer c1 m \<and> fifo w' = fifo w @ conv_words 0 (current_body c1) m))"
proof (intro allI)
  fix U :: fpu and hw :: "nat dma_hw" and brk and w :: "nat kpu_world"
  let ?w = "upd_mem (\<lambda>_. two_layers) w"
  have mem: "kw_mem ?w = two_layers" by (simp add: upd_mem_def)
  obtain c' w' where run: "ai_step U hw brk 0 (two_layer_context, ?w) = Some (c', w')" and c': "current_layer c' = 2"
    unfolding two_layers_run [OF mem] by (auto simp: kpu_kmodel_done_def Let_def)
  have "current_layer two_layer_context < layers_length two_layer_context" by (simp add: two_layer_context_def)
  from ai_step_runs_to_convolution [OF run this] run c'
  show "\<exists>c' w'. ai_step U hw brk 0 (two_layer_context, ?w) = Some (c', w') \<and> current_layer c' = 2 \<and>
        (fifo w' = fifo w \<and> kw_calls w' = kw_calls w @ [(7, 9)] \<or> (\<exists>k c1 m. c' = next_layer c1 m \<and> fifo w' = fifo w @ conv_words 0 (current_body c1) m))"
    by (auto simp: two_layer_context_def upd_mem_def)
qed

end
