(* ===== verification/Pwm.thy ===== *)
theory Pwm
  imports Timer
begin

text \<open>
  Pulse width modulation \<open>lib/drivers/pwm.c\<close> on the registers of the timers: a channel counts \<open>load_count\<close> ticks low and
  \<open>load_count2\<close> ticks high.  A \<open>double\<close> is a rational, rounded by \<open>fl\<close>; the conversions to integers saturate, as the
  instructions of the processor do (C leaves them undefined out of range).  \<open>None\<close>: the assertion on the number of periods fails.
\<close>

definition pwm_init :: "nat \<Rightarrow> sysctl \<Rightarrow> sysctl" where
  "pwm_init n sy = snd (sysctl_clock_enable (timer_clock n) sy)"

definition upd_load :: "nat \<Rightarrow> nat \<Rightarrow> u32 \<Rightarrow> 'cb timer_driver \<Rightarrow> 'cb timer_driver" where
  "upd_load n c v = upd_channel n c (\<lambda>r. r\<lparr>load_count := v\<rparr>)"

definition upd_load2 :: "nat \<Rightarrow> nat \<Rightarrow> u32 \<Rightarrow> 'cb timer_driver \<Rightarrow> 'cb timer_driver" where
  "upd_load2 n c v = upd_device n (\<lambda>t. t\<lparr>load_count2 := (load_count2 t)(c := v)\<rparr>)"

definition pwm_set_enable :: "nat \<Rightarrow> nat \<Rightarrow> bool \<Rightarrow> 'cb timer_driver \<Rightarrow> 'cb timer_driver" where
  "pwm_set_enable n c enable s =
     (if enable
      then (let s = (if load_count (channel (timer s n) c) = 0 then upd_load n c 1 s else s);
                s = (if load_count2 (timer s n) c = 0 then upd_load2 n c 1 s else s)
            in upd_channel n c (\<lambda>r. r\<lparr>control :=
                 TIMER_CR_INTERRUPT_MASK OR TIMER_CR_PWM_ENABLE OR TIMER_CR_USER_MODE OR TIMER_CR_ENABLE\<rparr>) s)
      else upd_channel n c (\<lambda>r. r\<lparr>control := TIMER_CR_INTERRUPT_MASK\<rparr>) s)"

definition truncated :: "rat \<Rightarrow> int" where
  "truncated x = (if x < 0 then - \<lfloor>- x\<rfloor> else \<lfloor>x\<rfloor>)"

definition to_int32 :: "rat \<Rightarrow> int" where
  "to_int32 x = max (- (2 ^ 31)) (min (2 ^ 31 - 1) (truncated x))"

definition to_uint32 :: "rat \<Rightarrow> int" where
  "to_uint32 x = max 0 (min (2 ^ 32 - 1) (truncated x))"

text \<open>The quotient by zero is infinite.\<close>

definition pwm_periods :: "u32 \<Rightarrow> rat \<Rightarrow> int" where
  "pwm_periods v_clk frequency =
     (if frequency = 0 then 2 ^ 31 - 1 else to_int32 (fl (of_int (uint v_clk) / frequency)))"

definition pwm_set_frequency :: "sysctl \<Rightarrow> nat \<Rightarrow> nat \<Rightarrow> rat \<Rightarrow> rat \<Rightarrow> 'cb timer_driver \<Rightarrow> (rat \<times> 'cb timer_driver) option" where
  "pwm_set_frequency sy n c frequency duty s =
     (let v_clk = sysctl_clock_get_freq sy (timer_clock n);
          periods = pwm_periods v_clk frequency
      in if \<not> 0 < periods then None
         else
          (let frequency = fl (of_int (uint v_clk) / of_int periods);
               percent = to_uint32 (fl (duty * of_int periods));
               s = upd_load n c (word_of_int (periods - percent)) s;
               s = upd_load2 n c (word_of_int percent) s
           in Some (frequency, s)))"

subsection \<open>The period and its high part\<close>

abbreviation low_ticks :: "nat \<Rightarrow> nat \<Rightarrow> 'cb timer_driver \<Rightarrow> int" where
  "low_ticks n c s \<equiv> uint (load_count (channel (timer s n) c))"

abbreviation high_ticks :: "nat \<Rightarrow> nat \<Rightarrow> 'cb timer_driver \<Rightarrow> int" where
  "high_ticks n c s \<equiv> uint (load_count2 (timer s n) c)"

lemma tick_pos: "0 < uint (w :: u32) \<longleftrightarrow> w \<noteq> 0"
  by (simp add: order_less_le uint_0_iff)

lemma uint_tick_count: "0 \<le> k \<Longrightarrow> k < 2 ^ 31 \<Longrightarrow> uint (word_of_int k :: u32) = k"
  by (simp add: uint_word_of_int)

text \<open>The product of a number of ticks with a duty between 0 and 1, rounded and cut to an integer: the number below, or the next
  one if that is not further than the rounding error.\<close>

lemma duty_ticks:
  assumes d: "0 \<le> duty" "duty \<le> 1" and p: "0 < p" "p < 2 ^ 31"
  shows "0 \<le> to_uint32 (fl (duty * of_int p)) \<and> to_uint32 (fl (duty * of_int p)) \<le> p \<and>
    of_int (to_uint32 (fl (duty * of_int p))) \<le> duty * of_int p + 1 / 2 ^ 22 \<and>
    duty * of_int p < of_int (to_uint32 (fl (duty * of_int p))) + 1"
proof -
  let ?x = "duty * of_int p :: rat"
  have x: "0 \<le> ?x" "?x \<le> of_int p" using d p mult_right_mono [of duty 1 "rat_of_int p"] by simp_all
  have "rat_of_int p < 2 ^ 31" using p(2) by (simp only: flip: of_int_less_iff [where 'a = rat]) simp
  then have near: "of_int \<lfloor>fl ?x\<rfloor> \<le> ?x + 1 / 2 ^ 22 \<and> ?x < of_int \<lfloor>fl ?x\<rfloor> + 1" using x by (intro floor_fl) linarith+
  have tiny: "1 / 2 ^ 22 < (1 :: rat)" by simp
  have "0 \<le> fl ?x" using x(1) by (rule fl_nonneg)
  then have "0 \<le> \<lfloor>fl ?x\<rfloor>" by simp
  have "rat_of_int \<lfloor>fl ?x\<rfloor> < of_int p + 1" using tiny near x(2) by linarith
  then have "rat_of_int \<lfloor>fl ?x\<rfloor> < of_int (p + 1)" by simp
  then have le: "\<lfloor>fl ?x\<rfloor> \<le> p" by (simp only: of_int_less_iff)
  have v: "to_uint32 (fl ?x) = \<lfloor>fl ?x\<rfloor>"
    using \<open>0 \<le> fl ?x\<close> \<open>0 \<le> \<lfloor>fl ?x\<rfloor>\<close> le p(2) by (simp add: to_uint32_def truncated_def)
  show ?thesis unfolding v using \<open>0 \<le> \<lfloor>fl ?x\<rfloor>\<close> le near by blast
qed

lemma periods_near:
  assumes f: "0 < f" "f \<le> of_int (uint clk)" "of_int (uint clk) / f < 2 ^ 31 - 1"
  shows "0 < pwm_periods clk f \<and> pwm_periods clk f < 2 ^ 31 \<and>
    of_int (pwm_periods clk f) \<le> of_int (uint clk) / f + 1 / 2 ^ 22 \<and> of_int (uint clk) / f < of_int (pwm_periods clk f) + 1"
proof -
  let ?x = "of_int (uint clk) / f"
  have x: "1 \<le> ?x" "?x < 2 ^ 31 - 1" using f by (simp_all add: field_simps)
  then have near: "of_int \<lfloor>fl ?x\<rfloor> \<le> ?x + 1 / 2 ^ 22 \<and> ?x < of_int \<lfloor>fl ?x\<rfloor> + 1" by (intro floor_fl) linarith+
  have tiny: "1 / 2 ^ 22 < (1 :: rat)" by simp
  have "1 \<le> fl ?x" using x(1) by (rule fl_at_least_1)
  then have one: "1 \<le> \<lfloor>fl ?x\<rfloor>" by simp
  have "rat_of_int \<lfloor>fl ?x\<rfloor> < 2 ^ 31" using tiny near x(2) by linarith
  then have "rat_of_int \<lfloor>fl ?x\<rfloor> < of_int (2 ^ 31)" by simp
  then have top: "\<lfloor>fl ?x\<rfloor> < 2 ^ 31" by (simp only: of_int_less_iff)
  have v: "pwm_periods clk f = \<lfloor>fl ?x\<rfloor>"
    using f(1) one top \<open>1 \<le> fl ?x\<close> by (simp add: pwm_periods_def to_int32_def truncated_def)
  show ?thesis unfolding v using one top near by auto
qed

text \<open>C37.  For a frequency from one tick to 2^31 - 1 ticks per period and a duty between 0 and 1, the two counts add up to the
  whole number of ticks below the quotient of clock and frequency, or to the next one if the quotient is less than 2^-22 short of
  it (the rounding of the division); the high part is in the same way the whole number of ticks below the duty asked for, and the
  result is the frequency of the period programmed; no other register changes.  Enabling the channel then makes both counts
  positive and starts it with its interrupt masked.\<close>

theorem pwm_period_and_duty:
  fixes s :: "'cb timer_driver"
  assumes f: "0 < f" "f \<le> of_int (uint clk)" "of_int (uint clk) / f < 2 ^ 31 - 1" and d: "0 \<le> duty" "duty \<le> 1"
    and clk: "clk = sysctl_clock_get_freq sy (timer_clock n)"
  shows "\<exists>p s'. pwm_set_frequency sy n c f duty s = Some (fl (of_int (uint clk) / of_int p), s') \<and>
    0 < p \<and> of_int p \<le> of_int (uint clk) / f + 1 / 2 ^ 22 \<and> of_int (uint clk) / f < of_int p + 1 \<and>
    low_ticks n c s' + high_ticks n c s' = p \<and>
    of_int (high_ticks n c s') \<le> duty * of_int p + 1 / 2 ^ 22 \<and> duty * of_int p < of_int (high_ticks n c s') + 1 \<and>
    s' = upd_load2 n c (load_count2 (timer s' n) c) (upd_load n c (load_count (channel (timer s' n) c)) s) \<and>
    0 < low_ticks n c (pwm_set_enable n c True s') \<and> 0 < high_ticks n c (pwm_set_enable n c True s') \<and>
    control (channel (timer (pwm_set_enable n c True s') n) c) = 15"
proof -
  define p where "p = pwm_periods clk f"
  define h where "h = to_uint32 (fl (duty * of_int p))"
  have p: "0 < p" "p < 2 ^ 31" "of_int p \<le> of_int (uint clk) / f + 1 / 2 ^ 22" "of_int (uint clk) / f < of_int p + 1"
    using periods_near [OF f] by (simp_all add: p_def)
  have h: "0 \<le> h" "h \<le> p" "of_int h \<le> duty * of_int p + 1 / 2 ^ 22" "duty * of_int p < of_int h + 1"
    using duty_ticks [OF d p(1,2)] by (simp_all add: h_def)
  have words: "uint (word_of_int (p - h) :: u32) = p - h" "uint (word_of_int h :: u32) = h"
    using h p by (intro uint_tick_count; simp)+
  define s' where "s' = upd_load2 n c (word_of_int h) (upd_load n c (word_of_int (p - h)) s)"
  have run: "pwm_set_frequency sy n c f duty s = Some (fl (of_int (uint clk) / of_int p), s')"
    using p(1) by (simp add: pwm_set_frequency_def clk [symmetric] Let_def p_def [symmetric] h_def [symmetric] s'_def)
  have ticks: "low_ticks n c s' = p - h" "high_ticks n c s' = h"
    unfolding s'_def upd_load2_def upd_load_def upd_channel_def upd_device_def by (simp_all add: words del: of_int_diff)
  have only: "s' = upd_load2 n c (load_count2 (timer s' n) c) (upd_load n c (load_count (channel (timer s' n) c)) s)"
    by (simp add: s'_def upd_load2_def upd_load_def upd_channel_def upd_device_def)
  have on: "0 < low_ticks n c (pwm_set_enable n c True s') \<and> 0 < high_ticks n c (pwm_set_enable n c True s') \<and>
    control (channel (timer (pwm_set_enable n c True s') n) c) = 15"
    by (simp add: pwm_set_enable_def Let_def upd_load2_def upd_load_def upd_channel_def upd_device_def tick_pos
        TIMER_CR_INTERRUPT_MASK_def TIMER_CR_PWM_ENABLE_def TIMER_CR_USER_MODE_def TIMER_CR_ENABLE_def)
  from run p h ticks only on show ?thesis by (intro exI [of _ p] exI [of _ s']) simp
qed

lemma pwm_period_and_duty_witness:
  "\<forall>(sy :: sysctl) (s :: unit timer_driver).
     let sy = sy\<lparr>clk_sel0 := (clk_sel0 sy)\<lparr>timer0_clk_sel := 0\<rparr>, clk_th2 := (clk_th2 sy)\<lparr>timer0_clk_threshold := 0\<rparr>\<rparr> in
     \<exists>p s'. pwm_set_frequency sy 0 1 1000 (1 / 2) s = Some (fl (13000000 / of_int p), s') \<and> 0 < p \<and>
       low_ticks 0 1 s' + high_ticks 0 1 s' = p \<and> control (channel (timer (pwm_set_enable 0 1 True s') 0) 1) = 15"
proof (intro allI)
  fix sy :: sysctl and s :: "unit timer_driver"
  let ?sy = "sy\<lparr>clk_sel0 := (clk_sel0 sy)\<lparr>timer0_clk_sel := 0\<rparr>, clk_th2 := (clk_th2 sy)\<lparr>timer0_clk_threshold := 0\<rparr>\<rparr>"
  have c: "13000000 = sysctl_clock_get_freq ?sy (timer_clock 0)"
    by (simp add: timer_clock_def sysctl_clock_get_freq.simps sysctl_clock_source_get_freq.simps even_div_def
        sysctl_clock_get_clock_select_def sysctl_clock_get_threshold_def SYSCTRL_CLOCK_FREQ_IN0_def)
  from pwm_period_and_duty [OF _ _ _ _ _ c, of 1000 "1 / 2" 1 s]
  show "let sy = ?sy in \<exists>p s'. pwm_set_frequency sy 0 1 1000 (1 / 2) s = Some (fl (13000000 / of_int p), s') \<and> 0 < p \<and>
       low_ticks 0 1 s' + high_ticks 0 1 s' = p \<and> control (channel (timer (pwm_set_enable 0 1 True s') 0) 1) = 15"
    by (auto simp: Let_def)
qed

end
