(* ===== verification/Fft.thy ===== *)
theory Fft
  imports Dma_Client
begin

text \<open>
  The Fourier transform accelerator, \<open>lib/drivers/fft.c\<close>: a control register and two FIFOs that two DMA channels serve.
  \<open>None\<close>: the number of points is none of the four (a failed assertion), or a DMA channel is never idle.
\<close>

record fft_ctrl =
  fft_point :: "3 word"
  fft_mode :: "1 word"
  fft_shift :: "9 word"
  fft_enable :: "1 word"
  dma_send :: "1 word"
  fft_input_mode :: "2 word"
  fft_data_mode :: "1 word"

datatype fft_point_number = FFT_512 | FFT_256 | FFT_128 | FFT_64
datatype fft_direction = FFT_DIR_BACKWARD | FFT_DIR_FORWARD

primrec point_val :: "fft_point_number \<Rightarrow> u8" where
  "point_val FFT_512 = 0" | "point_val FFT_256 = 1" | "point_val FFT_128 = 2" | "point_val FFT_64 = 3"

primrec direction_val :: "fft_direction \<Rightarrow> u8" where
  "direction_val FFT_DIR_BACKWARD = 0" | "direction_val FFT_DIR_FORWARD = 1"

definition FFT_BASE_ADDR :: int where "FFT_BASE_ADDR = 0x42000000"
definition fft_input_fifo :: int where "fft_input_fifo = FFT_BASE_ADDR"
definition fft_output_fifo :: int where "fft_output_fifo = FFT_BASE_ADDR + 0x38"

definition SYSCTL_DMA_SELECT_FFT_RX_REQ :: nat where "SYSCTL_DMA_SELECT_FFT_RX_REQ = 23"
definition SYSCTL_DMA_SELECT_FFT_TX_REQ :: nat where "SYSCTL_DMA_SELECT_FFT_TX_REQ = 24"

definition fft_init :: "u8 \<Rightarrow> u8 \<Rightarrow> u16 \<Rightarrow> u8 \<Rightarrow> u8 \<Rightarrow> u8 \<Rightarrow> fft_ctrl \<Rightarrow> fft_ctrl" where
  "fft_init point mode shift is_dma input_mode data_mode k =
     k\<lparr>fft_point := ucast point, fft_mode := ucast mode, fft_shift := ucast shift, dma_send := ucast is_dma, fft_enable := 1,
       fft_input_mode := ucast input_mode, fft_data_mode := ucast data_mode\<rparr>"

definition point_of :: "nat \<Rightarrow> fft_point_number option" where
  "point_of point_num =
     (if point_num = 512 then Some FFT_512 else if point_num = 256 then Some FFT_256
      else if point_num = 128 then Some FFT_128 else if point_num = 64 then Some FFT_64 else None)"

definition fft_complex_uint16_dma ::
  "('cb dma \<Rightarrow> 'cb dma) \<Rightarrow> (int \<Rightarrow> int \<Rightarrow> int) \<Rightarrow> nat \<Rightarrow> nat \<Rightarrow> u16 \<Rightarrow> fft_direction \<Rightarrow> int \<Rightarrow> nat \<Rightarrow> int \<Rightarrow>
   sysctl \<times> fft_ctrl \<times> 'cb dma \<Rightarrow> (sysctl \<times> fft_ctrl \<times> 'cb dma) option" where
  "fft_complex_uint16_dma hw brk send_ch receive_ch shift direction input point_num out s = (case s of (sy, k, w) \<Rightarrow>
     Option.bind (point_of point_num) (\<lambda>point.
       let sy = snd (sysctl_clock_enable SYSCTL_CLOCK_FFT sy);
           sy = sysctl_reset SYSCTL_RESET_FFT sy;
           k = fft_init (point_val point) (direction_val direction) shift 1 0 0 k;
           sy = snd (sysctl_dma_select (dma_channel receive_ch) SYSCTL_DMA_SELECT_FFT_RX_REQ sy);
           sy = snd (sysctl_dma_select (dma_channel send_ch) SYSCTL_DMA_SELECT_FFT_TX_REQ sy)
       in Option.bind (dmac_set_single_mode hw brk receive_ch fft_output_fifo out DMAC_ADDR_NOCHANGE DMAC_ADDR_INCREMENT
                         DMAC_MSIZE_4 DMAC_TRANS_WIDTH_64 (word_of_nat (point_num div 2)) w) (\<lambda>w.
          Option.bind (dmac_set_single_mode hw brk send_ch input fft_input_fifo DMAC_ADDR_INCREMENT DMAC_ADDR_NOCHANGE
                         DMAC_MSIZE_4 DMAC_TRANS_WIDTH_64 (word_of_nat (point_num div 2)) w) (\<lambda>w.
          Option.bind (dmac_wait_done hw brk send_ch w) (\<lambda>w.
          map_option (\<lambda>w. (sy, k, w)) (dmac_wait_done hw brk receive_ch w))))))"

text \<open>The code of the length is the number of halvings of 512.\<close>

lemma point_code: "point_of n = Some p \<Longrightarrow> n = 512 div 2 ^ unat (point_val p)"
  by (auto simp: point_of_def split: if_splits)

text \<open>A transform that returns has programmed the length, the direction and the shift, and enabled the engine for DMA.\<close>

lemma fft_programs:
  assumes "fft_complex_uint16_dma hw brk a b shift direction input n out (sy, k, w) = Some (sy', k', w')"
  shows "n = 512 div 2 ^ unat (fft_point k') \<and> fft_mode k' = ucast (direction_val direction) \<and> fft_shift k' = ucast shift \<and>
    fft_enable k' = 1 \<and> dma_send k' = 1 \<and> fft_input_mode k' = 0 \<and> fft_data_mode k' = 0"
proof -
  obtain p where p: "point_of n = Some p" "k' = fft_init (point_val p) (direction_val direction) shift 1 0 0 k"
    using assms by (auto simp: fft_complex_uint16_dma_def Let_def bind_eq_Some_conv)
  have "unat (ucast (point_val p) :: 3 word) = unat (point_val p)" by (cases p) simp_all
  then show ?thesis using point_code [OF p(1)] by (simp add: p(2) fft_init_def)
qed

end
