(* ===== verification/I2s.thy ===== *)
theory I2s
  imports C_Double Sysctl_Freq Dma_Client Byte_Memory "HOL-Library.Monad_Syntax"
begin

text \<open>
  The serial audio driver \<open>lib/drivers/i2s.c\<close>: three devices of four channels, a channel sends and receives pairs of a
  left and a right sample.  Register writes that start something (flushing a FIFO) leave the value written.  What a status
  register answers is input, one entry per round of the polling loop.  The argument checks of the enumeration types are on
  numbers.  \<open>None\<close>: a failed assertion, a division by zero, or a polling loop that has used up its answers.  \<open>malloc\<close> is a
  parameter, and sample counters do not reach \<open>2 ^ 32\<close>.
\<close>

subsection \<open>Registers\<close>

record i2s_channel =
  left_right :: "(u32 \<times> u32) list"
  rxchenx :: "1 word"
  txchenx :: "1 word"
  rcr_wlen :: "3 word"
  tcr_wlen :: "3 word"
  rxdam :: "1 word"
  rxfom :: "1 word"
  txfem :: "1 word"
  txfom :: "1 word"
  rxchdt :: "4 word"
  txchet :: "4 word"
  rff :: u32
  tff :: u32

record i2s_ccr =
  clk_gate :: "3 word"
  clk_word_size :: "2 word"
  align_mode :: "3 word"
  dma_tx_en :: "1 word"
  dma_rx_en :: "1 word"
  dma_divide_16 :: "1 word"
  sign_expand_en :: "1 word"

record i2s =
  ien :: "1 word"
  rxen :: "1 word"
  txen :: "1 word"
  clken :: "1 word"
  ccr :: i2s_ccr
  rxffr :: u32
  txffr :: u32
  i2s_chan :: "nat \<Rightarrow> i2s_channel"

datatype i2s_transfer_mode = I2S_SEND | I2S_RECEIVE

record 'u i2s_instance =
  transfer_mode :: i2s_transfer_mode
  inst_dmac_channel :: nat
  int_callback :: "'u option"
  int_ctx :: nat

text \<open>What the driver registers at the DMA controller is its own handler, the context the instance it is given.\<close>

datatype i2s_handler = I2s_dmac_irq

record ('u, 'h) i2s_world =
  iw_sysctl :: sysctl
  iw_plic :: "'h dma_handler plic"
  iw_dma :: "i2s_handler dma"
  i2s_dev :: "nat \<Rightarrow> i2s"
  dmac_recv_flag :: "nat \<Rightarrow> bool"
  g_i2s_send_instance :: "nat \<Rightarrow> 'u i2s_instance"
  g_i2s_recv_instance :: "nat \<Rightarrow> 'u i2s_instance"

definition I2S_DEVICE_MAX :: nat where [simp]: "I2S_DEVICE_MAX = 3"
definition RESOLUTION_32_BIT :: nat where [simp]: "RESOLUTION_32_BIT = 5"
definition SCLK_CYCLES_32 :: nat where [simp]: "SCLK_CYCLES_32 = 2"
definition NO_CLOCK_GATING :: nat where [simp]: "NO_CLOCK_GATING = 0"
definition CLOCK_CYCLES_24 :: nat where [simp]: "CLOCK_CYCLES_24 = 4"
definition TRIGGER_LEVEL_16 :: nat where [simp]: "TRIGGER_LEVEL_16 = 15"
definition I2S_CHANNEL_3 :: nat where [simp]: "I2S_CHANNEL_3 = 3"
definition SYSCTL_DMA_SELECT_I2S0_TX_REQ :: nat where "SYSCTL_DMA_SELECT_I2S0_TX_REQ = 25"
definition SYSCTL_DMA_SELECT_I2S0_RX_REQ :: nat where "SYSCTL_DMA_SELECT_I2S0_RX_REQ = 26"

definition i2s_base :: "nat \<Rightarrow> int" where "i2s_base n = 0x50250000 + 0x10000 * int n"
definition rxdma :: "nat \<Rightarrow> int" where "rxdma n = i2s_base n + 0x1C0"
definition txdma :: "nat \<Rightarrow> int" where "txdma n = i2s_base n + 0x1C8"

definition i2s_clock :: "nat \<Rightarrow> sysctl_clock" where
  "i2s_clock n = [SYSCTL_CLOCK_I2S0, SYSCTL_CLOCK_I2S1, SYSCTL_CLOCK_I2S2] ! n"

definition i2s_reset :: "nat \<Rightarrow> sysctl_reset_t" where
  "i2s_reset n = [SYSCTL_RESET_I2S0, SYSCTL_RESET_I2S1, SYSCTL_RESET_I2S2] ! n"

definition i2s_threshold :: "nat \<Rightarrow> sysctl_threshold" where
  "i2s_threshold n = [SYSCTL_THRESHOLD_I2S0, SYSCTL_THRESHOLD_I2S1, SYSCTL_THRESHOLD_I2S2] ! n"

type_synonym i2s_devs = "nat \<Rightarrow> i2s"

definition upd_i2s :: "nat \<Rightarrow> (i2s \<Rightarrow> i2s) \<Rightarrow> i2s_devs \<Rightarrow> i2s_devs" where
  "upd_i2s n f d = d(n := f (d n))"

definition upd_ccr :: "nat \<Rightarrow> (i2s_ccr \<Rightarrow> i2s_ccr) \<Rightarrow> i2s_devs \<Rightarrow> i2s_devs" where
  "upd_ccr n f = upd_i2s n (\<lambda>r. r\<lparr>ccr := f (ccr r)\<rparr>)"

definition upd_ch :: "nat \<Rightarrow> nat \<Rightarrow> (i2s_channel \<Rightarrow> i2s_channel) \<Rightarrow> i2s_devs \<Rightarrow> i2s_devs" where
  "upd_ch n c f = upd_i2s n (\<lambda>r. r\<lparr>i2s_chan := (i2s_chan r)(c := f (i2s_chan r c))\<rparr>)"

definition i2s_recv_channel_enable :: "nat \<Rightarrow> nat \<Rightarrow> u32 \<Rightarrow> i2s_devs \<Rightarrow> int \<times> i2s_devs" where
  "i2s_recv_channel_enable n c enable d =
     (if c > I2S_CHANNEL_3 then (-1, d) else (0, upd_ch n c (\<lambda>r. r\<lparr>rxchenx := ucast enable\<rparr>) d))"

definition i2s_transmit_channel_enable :: "nat \<Rightarrow> nat \<Rightarrow> u32 \<Rightarrow> i2s_devs \<Rightarrow> int \<times> i2s_devs" where
  "i2s_transmit_channel_enable n c enable d =
     (if c > I2S_CHANNEL_3 then (-1, d) else (0, upd_ch n c (\<lambda>r. r\<lparr>txchenx := ucast enable\<rparr>) d))"

definition i2s_receive_enable :: "nat \<Rightarrow> nat \<Rightarrow> i2s_devs \<Rightarrow> i2s_devs" where
  "i2s_receive_enable n c d = snd (i2s_recv_channel_enable n c 1 (upd_i2s n (\<lambda>r. r\<lparr>rxen := 1\<rparr>) d))"

definition i2s_transimit_enable :: "nat \<Rightarrow> nat \<Rightarrow> i2s_devs \<Rightarrow> i2s_devs" where
  "i2s_transimit_enable n c d = snd (i2s_transmit_channel_enable n c 1 (upd_i2s n (\<lambda>r. r\<lparr>txen := 1\<rparr>) d))"

definition i2s_set_enable :: "nat \<Rightarrow> u32 \<Rightarrow> i2s_devs \<Rightarrow> i2s_devs" where
  "i2s_set_enable n enable = upd_i2s n (\<lambda>r. r\<lparr>ien := ucast enable\<rparr>)"

datatype i2s_transmit = I2S_TRANSMITTER | I2S_RECEIVER

definition i2s_disable_block :: "nat \<Rightarrow> i2s_transmit \<Rightarrow> i2s_devs \<Rightarrow> i2s_devs" where
  "i2s_disable_block n rxtx_mode =
     (if rxtx_mode = I2S_RECEIVER then upd_i2s n (\<lambda>r. r\<lparr>rxen := 0\<rparr>) else upd_i2s n (\<lambda>r. r\<lparr>txen := 0\<rparr>))"

definition i2s_set_rx_word_length :: "nat \<Rightarrow> nat \<Rightarrow> nat \<Rightarrow> i2s_devs \<Rightarrow> int \<times> i2s_devs" where
  "i2s_set_rx_word_length n word_length c d =
     (if word_length > RESOLUTION_32_BIT then (-1, d) else if c > I2S_CHANNEL_3 then (-1, d)
      else (0, upd_ch n c (\<lambda>r. r\<lparr>rcr_wlen := word_of_nat word_length\<rparr>) d))"

definition i2s_set_tx_word_length :: "nat \<Rightarrow> nat \<Rightarrow> nat \<Rightarrow> i2s_devs \<Rightarrow> int \<times> i2s_devs" where
  "i2s_set_tx_word_length n word_length c d =
     (if word_length > RESOLUTION_32_BIT then (-1, d) else if c > I2S_CHANNEL_3 then (-1, d)
      else (0, upd_ch n c (\<lambda>r. r\<lparr>tcr_wlen := word_of_nat word_length\<rparr>) d))"

definition i2s_master_configure :: "nat \<Rightarrow> nat \<Rightarrow> nat \<Rightarrow> u32 \<Rightarrow> i2s_devs \<Rightarrow> i2s_devs option" where
  "i2s_master_configure n word_select_size gating_cycles word_mode d =
     (if word_select_size > SCLK_CYCLES_32 \<or> gating_cycles > CLOCK_CYCLES_24 then None
      else
       (let d = upd_ccr n (\<lambda>r. r\<lparr>clk_word_size := word_of_nat word_select_size, clk_gate := word_of_nat gating_cycles,
                                 align_mode := ucast word_mode\<rparr>) d
        in Some (upd_i2s n (\<lambda>r. r\<lparr>clken := 1\<rparr>) d)))"

definition i2s_set_rx_threshold :: "nat \<Rightarrow> nat \<Rightarrow> nat \<Rightarrow> i2s_devs \<Rightarrow> int \<times> i2s_devs" where
  "i2s_set_rx_threshold n level c d =
     (if level > TRIGGER_LEVEL_16 then (-1, d) else if c > I2S_CHANNEL_3 then (-1, d)
      else (0, upd_ch n c (\<lambda>r. r\<lparr>rxchdt := word_of_nat level\<rparr>) d))"

definition i2s_set_tx_threshold :: "nat \<Rightarrow> nat \<Rightarrow> nat \<Rightarrow> i2s_devs \<Rightarrow> int \<times> i2s_devs" where
  "i2s_set_tx_threshold n level c d =
     (if level > TRIGGER_LEVEL_16 then (-1, d) else if c > I2S_CHANNEL_3 then (-1, d)
      else (0, upd_ch n c (\<lambda>r. r\<lparr>txchet := word_of_nat level\<rparr>) d))"

definition i2s_set_mask_interrupt :: "nat \<Rightarrow> nat \<Rightarrow> u32 \<Rightarrow> u32 \<Rightarrow> u32 \<Rightarrow> u32 \<Rightarrow> i2s_devs \<Rightarrow> int \<times> i2s_devs" where
  "i2s_set_mask_interrupt n c rx_available_int rx_overrun_int tx_empty_int tx_overrun_int d =
     (if c > I2S_CHANNEL_3 then (-1, d)
      else (0, upd_ch n c (\<lambda>r. r\<lparr>rxdam := (if rx_available_int = 1 then 1 else 0), rxfom := (if rx_overrun_int = 1 then 1 else 0),
                                 txfem := (if tx_empty_int = 1 then 1 else 0), txfom := (if tx_overrun_int = 1 then 1 else 0)\<rparr>) d))"

definition i2s_transmit_dma_enable :: "nat \<Rightarrow> u32 \<Rightarrow> i2s_devs \<Rightarrow> int \<times> i2s_devs" where
  "i2s_transmit_dma_enable n enable d =
     (if n \<ge> I2S_DEVICE_MAX then (-1, d) else (0, upd_ccr n (\<lambda>r. r\<lparr>dma_tx_en := ucast enable\<rparr>) d))"

definition i2s_receive_dma_enable :: "nat \<Rightarrow> u32 \<Rightarrow> i2s_devs \<Rightarrow> int \<times> i2s_devs" where
  "i2s_receive_dma_enable n enable d =
     (if n \<ge> I2S_DEVICE_MAX then (-1, d) else (0, upd_ccr n (\<lambda>r. r\<lparr>dma_rx_en := ucast enable\<rparr>) d))"

definition i2s_set_dma_divide_16 :: "nat \<Rightarrow> u32 \<Rightarrow> i2s_devs \<Rightarrow> int \<times> i2s_devs" where
  "i2s_set_dma_divide_16 n enable d =
     (if n \<ge> I2S_DEVICE_MAX then (-1, d) else (0, upd_ccr n (\<lambda>r. r\<lparr>dma_divide_16 := ucast enable\<rparr>) d))"

definition i2s_get_dma_divide_16 :: "nat \<Rightarrow> i2s_devs \<Rightarrow> int" where
  "i2s_get_dma_divide_16 n d = (if n \<ge> I2S_DEVICE_MAX then -1 else uint (dma_divide_16 (ccr (d n))))"

definition i2s_set_sign_expand_en :: "nat \<Rightarrow> u32 \<Rightarrow> i2s_devs \<Rightarrow> i2s_devs" where
  "i2s_set_sign_expand_en n enable = upd_ccr n (\<lambda>r. r\<lparr>sign_expand_en := ucast enable\<rparr>)"

subsection \<open>Setting up\<close>

definition i2s_rx_channel_config :: "nat \<Rightarrow> nat \<Rightarrow> nat \<Rightarrow> nat \<Rightarrow> nat \<Rightarrow> u32 \<Rightarrow> i2s_devs \<Rightarrow> i2s_devs option" where
  "i2s_rx_channel_config n c word_length word_select_size trigger_level word_mode d = do {
     let d = snd (i2s_recv_channel_enable n c 0 d);
     let d = upd_ch n c (\<lambda>r. r\<lparr>txchenx := 0\<rparr>) d;
     let d = upd_ch n c (\<lambda>r. r\<lparr>rff := 1\<rparr>) d;
     let d = upd_i2s n (\<lambda>r. r\<lparr>rxffr := 1\<rparr>) d;
     let d = snd (i2s_set_rx_word_length n word_length c d);
     d \<leftarrow> i2s_master_configure n word_select_size NO_CLOCK_GATING word_mode d;
     let d = snd (i2s_set_rx_threshold n trigger_level c d);
     Some (snd (i2s_recv_channel_enable n c 1 d)) }"

definition i2s_tx_channel_config :: "nat \<Rightarrow> nat \<Rightarrow> nat \<Rightarrow> nat \<Rightarrow> nat \<Rightarrow> u32 \<Rightarrow> i2s_devs \<Rightarrow> i2s_devs option" where
  "i2s_tx_channel_config n c word_length word_select_size trigger_level word_mode d = do {
     let d = upd_ch n c (\<lambda>r. r\<lparr>rxchenx := 0\<rparr>) d;
     let d = snd (i2s_transmit_channel_enable n c 0 d);
     let d = upd_i2s n (\<lambda>r. r\<lparr>txffr := 1\<rparr>) d;
     let d = upd_ch n c (\<lambda>r. r\<lparr>tff := 1\<rparr>) d;
     let d = snd (i2s_set_tx_word_length n word_length c d);
     d \<leftarrow> i2s_master_configure n word_select_size NO_CLOCK_GATING word_mode d;
     let d = snd (i2s_set_tx_threshold n trigger_level c d);
     Some (snd (i2s_transmit_channel_enable n c 1 d)) }"

text \<open>Channel \<open>i\<close> is in use if both bits of its pair in the mask are set.\<close>

definition init_channels :: "(nat \<Rightarrow> i2s_devs \<Rightarrow> i2s_devs) \<Rightarrow> (nat \<Rightarrow> i2s_devs \<Rightarrow> i2s_devs) \<Rightarrow> nat \<Rightarrow> u32 \<Rightarrow> i2s_devs \<Rightarrow> i2s_devs" where
  "init_channels on off n channel_mask d =
     snd (fold (\<lambda>i (channel_mask, d).
            (drop_bit 2 channel_mask,
             if channel_mask AND 3 = 3 then on i (snd (i2s_set_mask_interrupt n i 1 1 1 1 d)) else off i d)) [0..<4] (channel_mask, d))"

definition i2s_init :: "nat \<Rightarrow> i2s_transmit \<Rightarrow> u32 \<Rightarrow> sysctl \<times> i2s_devs \<Rightarrow> sysctl \<times> i2s_devs" where
  "i2s_init n rxtx_mode channel_mask s = (case s of (sy, d) \<Rightarrow>
     (let sy = snd (sysctl_clock_enable (i2s_clock n) sy);
          sy = sysctl_reset (i2s_reset n) sy;
          sy = snd (sysctl_clock_set_threshold (i2s_threshold n) 7 sy);
          d = i2s_set_enable n 1 d;
          d = i2s_disable_block n I2S_TRANSMITTER d;
          d = i2s_disable_block n I2S_RECEIVER d
      in (sy,
          if rxtx_mode = I2S_TRANSMITTER
          then (let d = init_channels (i2s_transimit_enable n) (\<lambda>i d. snd (i2s_transmit_channel_enable n i 0 d)) n channel_mask d
                in snd (i2s_transmit_dma_enable n 1 d))
          else (let d = init_channels (i2s_receive_enable n) (\<lambda>i d. snd (i2s_recv_channel_enable n i 0 d)) n channel_mask d;
                    d = i2s_set_sign_expand_en n 1 d
                in snd (i2s_receive_dma_enable n 1 d)))))"

subsection \<open>Sample rate\<close>

definition round_away :: "rat \<Rightarrow> int" where
  "round_away x = (if x < 0 then - \<lfloor>- x + 1 / 2\<rfloor> else \<lfloor>x + 1 / 2\<rfloor>)"

definition saturated_u32 :: "int \<Rightarrow> u32" where
  "saturated_u32 k = word_of_int (max 0 (min (2 ^ 32 - 1) k))"

text \<open>The products are exact; a quotient by zero is infinite.\<close>

definition rate_threshold :: "u32 \<Rightarrow> u32 \<Rightarrow> u32 \<Rightarrow> u32" where
  "rate_threshold pll2_clock sample_rate v_clk_word_size =
     (let d = of_int (uint sample_rate) * 2 * of_int (uint v_clk_word_size) * 2
      in if d = 0 then saturated_u32 (2 ^ 32 - 1) else saturated_u32 (round_away (fl (fl (of_int (uint pll2_clock) / d) - 1))))"

definition i2s_set_sample_rate :: "nat \<Rightarrow> u32 \<Rightarrow> sysctl \<times> i2s_devs \<Rightarrow> u32 \<times> sysctl" where
  "i2s_set_sample_rate n sample_rate s = (case s of (sy, d) \<Rightarrow>
     (let pll2_clock = sysctl_pll_get_freq sy SYSCTL_PLL2;
          v_clk_word_size = (ucast (clk_word_size (ccr (d n))) + 2) * 8;
          sy = snd (sysctl_clock_set_threshold (i2s_threshold n) (uint (rate_threshold pll2_clock sample_rate v_clk_word_size)) sy)
      in (sysctl_clock_get_freq sy (i2s_clock n), sy)))"

subsection \<open>Samples by the processor\<close>

text \<open>An answer of a receiving round: whether data is available, and what the two data registers read then.\<close>

fun receive_rounds :: "nat \<Rightarrow> (bool \<times> u32 \<times> u32) list \<Rightarrow> u64 list option" where
  "receive_rounds 0 as = Some []"
| "receive_rounds (Suc k) [] = None"
| "receive_rounds (Suc k) ((rxda, left, right) # as) =
     (if rxda then map_option (Cons (push_bit 32 (ucast left) OR ucast right)) (receive_rounds k as) else receive_rounds (Suc k) as)"

definition i2s_receive_data :: "nat \<Rightarrow> (bool \<times> u32 \<times> u32) list \<Rightarrow> u64 list option" where
  "i2s_receive_data = receive_rounds"

text \<open>The next pair of samples and the position after it; \<open>i\<close> counts elements of the type the buffer is read as.\<close>

definition three_bytes :: "int \<Rightarrow> memory \<Rightarrow> u32" where
  "three_bytes p m = ((0 OR load_le 1 p m) OR push_bit 8 (load_le 1 (p + 1) m)) OR push_bit 16 (load_le 1 (p + 2) m)"

definition next_pair :: "nat \<Rightarrow> int \<Rightarrow> memory \<Rightarrow> nat \<Rightarrow> (u32 \<times> u32) \<times> nat" where
  "next_pair single_length pcm m i =
     (let el = (\<lambda>k j. load_le k (pcm + int k * int j) m)
      in if single_length = 16 then ((el 2 i, el 2 (i + 1)), i + 2)
         else if single_length = 24 then ((three_bytes (pcm + int i) m, three_bytes (pcm + int (i + 3)) m), i + 6)
         else if single_length = 32 then ((el 4 i, el 4 (i + 1)), i + 2)
         else ((el 1 i, el 1 (i + 1)), i + 2))"

fun pcm_rounds :: "nat \<Rightarrow> int \<Rightarrow> memory \<Rightarrow> nat \<Rightarrow> nat \<Rightarrow> bool list \<Rightarrow> (u32 \<times> u32) list option" where
  "pcm_rounds single_length pcm m 0 i as = Some []"
| "pcm_rounds single_length pcm m (Suc k) i [] = None"
| "pcm_rounds single_length pcm m (Suc k) i (txfe # as) =
     (if txfe then (let (p, i) = next_pair single_length pcm m i in map_option (Cons p) (pcm_rounds single_length pcm m k i as))
      else pcm_rounds single_length pcm m (Suc k) i as)"

definition i2s_send_data :: "nat \<Rightarrow> nat \<Rightarrow> int \<Rightarrow> nat \<Rightarrow> nat \<Rightarrow> bool list \<Rightarrow> memory \<Rightarrow> i2s_devs \<Rightarrow> (int \<times> i2s_devs) option" where
  "i2s_send_data n c pcm count single_length as m d =
     (if c > I2S_CHANNEL_3 then Some (-1, d)
      else if single_length div 8 = 0 then None
      else map_option (\<lambda>ps. (0, upd_ch n c (\<lambda>r. r\<lparr>left_right := left_right r @ ps\<rparr>) d))
             (pcm_rounds single_length pcm m (count div (single_length div 8) div 2) 0 as))"

subsection \<open>Samples by DMA\<close>

definition wait_done :: "(i2s_handler dma \<Rightarrow> i2s_handler dma) \<Rightarrow> (int \<Rightarrow> int \<Rightarrow> int) \<Rightarrow> nat \<Rightarrow> ('u, 'h) i2s_world \<Rightarrow> ('u, 'h) i2s_world option" where
  "wait_done hw brk ch w = map_option (\<lambda>d. w\<lparr>iw_dma := d\<rparr>) (dmac_wait_done hw brk ch (iw_dma w))"

text \<open>A request line and one block of words, between memory and the data register of a device.\<close>

definition transfer_block ::
  "(i2s_handler dma \<Rightarrow> i2s_handler dma) \<Rightarrow> (int \<Rightarrow> int \<Rightarrow> int) \<Rightarrow> nat \<Rightarrow> nat \<Rightarrow> int \<Rightarrow> int \<Rightarrow> dmac_address_increment \<Rightarrow> dmac_address_increment \<Rightarrow>
   nat \<Rightarrow> ('u, 'h) i2s_world \<Rightarrow> ('u, 'h) i2s_world option" where
  "transfer_block hw brk ch request src dest src_inc dest_inc count w =
     map_option (\<lambda>d. w\<lparr>iw_sysctl := snd (sysctl_dma_select (dma_channel ch) request (iw_sysctl w)), iw_dma := d\<rparr>)
       (dmac_set_single_mode hw brk ch src dest src_inc dest_inc DMAC_MSIZE_1 DMAC_TRANS_WIDTH_32 (word_of_nat count) (iw_dma w))"

definition i2s_receive_data_dma ::
  "(i2s_handler dma \<Rightarrow> i2s_handler dma) \<Rightarrow> (int \<Rightarrow> int \<Rightarrow> int) \<Rightarrow> nat \<Rightarrow> int \<Rightarrow> nat \<Rightarrow> nat \<Rightarrow> ('u, 'h) i2s_world \<Rightarrow> ('u, 'h) i2s_world option" where
  "i2s_receive_data_dma hw brk n buf count ch w = do {
     w \<leftarrow> wait_done hw brk ch w;
     transfer_block hw brk ch (SYSCTL_DMA_SELECT_I2S0_RX_REQ + n * 2) (rxdma n) buf DMAC_ADDR_NOCHANGE DMAC_ADDR_INCREMENT count w }"

definition i2s_rx_to_tx ::
  "(i2s_handler dma \<Rightarrow> i2s_handler dma) \<Rightarrow> (int \<Rightarrow> int \<Rightarrow> int) \<Rightarrow> nat \<Rightarrow> nat \<Rightarrow> nat \<Rightarrow> nat \<Rightarrow> ('u, 'h) i2s_world \<Rightarrow> (int \<times> ('u, 'h) i2s_world) option" where
  "i2s_rx_to_tx hw brk src_num dest_num count ch w = do {
     w \<leftarrow> (if dmac_recv_flag w ch then wait_done hw brk ch w else Some (w\<lparr>dmac_recv_flag := (dmac_recv_flag w)(ch := True)\<rparr>));
     w \<leftarrow> transfer_block hw brk ch (SYSCTL_DMA_SELECT_I2S0_RX_REQ + src_num * 2) (rxdma src_num) (txdma dest_num)
            DMAC_ADDR_NOCHANGE DMAC_ADDR_NOCHANGE count w;
     Some (0, w) }"

definition i2s_send_data_dma ::
  "(i2s_handler dma \<Rightarrow> i2s_handler dma) \<Rightarrow> (int \<Rightarrow> int \<Rightarrow> int) \<Rightarrow> nat \<Rightarrow> nat \<Rightarrow> int \<Rightarrow> nat \<Rightarrow> ('u, 'h) i2s_world \<Rightarrow> ('u, 'h) i2s_world option" where
  "i2s_send_data_dma hw brk n ch buf count w = do {
     w \<leftarrow> wait_done hw brk ch w;
     transfer_block hw brk ch (SYSCTL_DMA_SELECT_I2S0_TX_REQ + n * 2) buf (txdma n) DMAC_ADDR_INCREMENT DMAC_ADDR_NOCHANGE count w }"

text \<open>Single channel samples become pairs of words; \<open>j\<close> runs through the bytes of 24-bit samples.\<close>

definition or_bytes :: "int \<Rightarrow> int \<Rightarrow> memory \<Rightarrow> memory" where
  "or_bytes a p = fold (\<lambda>k m. store_le 4 a (load_le 4 a m OR push_bit (8 * k) (load_le 1 (p + int k) m)) m) [0..<3]"

definition parse_sample :: "int \<Rightarrow> int \<Rightarrow> nat \<Rightarrow> nat \<Rightarrow> nat \<Rightarrow> nat \<times> memory \<Rightarrow> nat \<times> memory" where
  "parse_sample buf pcm bits_per_sample track_num i s = (case s of (j, m) \<Rightarrow>
     (let l = buf + 8 * int i; r = buf + 8 * int i + 4
      in if bits_per_sample = 16 then (j, store_le 4 r 0 (store_le 4 l (load_le 2 (pcm + 2 * int i) m) m))
         else if bits_per_sample = 24
         then (let m = or_bytes l (pcm + int j) (store_le 4 l 0 m); j = j + 3; m = store_le 4 r 0 m
               in if track_num = 2 then (j + 3, or_bytes r (pcm + int j) m) else (j, m))
         else (j, store_le 4 r 0 (store_le 4 l (load_le 4 (pcm + 4 * int i) m) m))))"

definition i2s_parse_voice :: "int \<Rightarrow> int \<Rightarrow> nat \<Rightarrow> nat \<Rightarrow> nat \<Rightarrow> memory \<Rightarrow> nat \<times> memory" where
  "i2s_parse_voice buf pcm len bits_per_sample track_num m =
     (len * 2, snd (fold (parse_sample buf pcm bits_per_sample track_num) [0..<len] (0, m)))"

fun each :: "('a \<Rightarrow> 's \<Rightarrow> 's option) \<Rightarrow> 'a list \<Rightarrow> 's \<Rightarrow> 's option" where
  "each f [] s = Some s"
| "each f (x # xs) s = Option.bind (f x s) (each f xs)"

definition set_divide_16 :: "nat \<Rightarrow> u32 \<Rightarrow> ('u, 'h) i2s_world \<Rightarrow> ('u, 'h) i2s_world" where
  "set_divide_16 n enable w = w\<lparr>i2s_dev := snd (i2s_set_dma_divide_16 n enable (i2s_dev w))\<rparr>"

definition parse_to :: "int \<Rightarrow> int \<Rightarrow> nat \<Rightarrow> nat \<Rightarrow> nat \<Rightarrow> ('u, 'h) i2s_world \<Rightarrow> nat \<times> ('u, 'h) i2s_world" where
  "parse_to buf pcm len bits_per_sample track_num w =
     (let (send_len, m) = i2s_parse_voice buf pcm len bits_per_sample track_num (mem (iw_dma w))
      in (send_len, w\<lparr>iw_dma := (iw_dma w)\<lparr>mem := m\<rparr>\<rparr>))"

definition i2s_play ::
  "(i2s_handler dma \<Rightarrow> i2s_handler dma) \<Rightarrow> (int \<Rightarrow> int \<Rightarrow> int) \<Rightarrow> (nat \<Rightarrow> int) \<Rightarrow> nat \<Rightarrow> nat \<Rightarrow> int \<Rightarrow> nat \<Rightarrow> nat \<Rightarrow> nat \<Rightarrow> nat \<Rightarrow>
   ('u, 'h) i2s_world \<Rightarrow> ('u, 'h) i2s_world option" where
  "i2s_play hw brk malloc n ch buf count frame bits_per_sample track_num w =
     (if bits_per_sample div 8 = 0 \<or> track_num = 0 \<or> frame = 0 then None
      else
       (let sample_cnt = count div (bits_per_sample div 8) div track_num;
            frame_cnt = sample_cnt div frame;
            frame_remain = sample_cnt mod frame;
            trans_buf = (\<lambda>i. buf + int (i * frame * (bits_per_sample div 8) * track_num));
            w = set_divide_16 n 0 w
        in if bits_per_sample = 16 \<and> track_num = 2
           then do {
             let w = set_divide_16 n 1 w;
             w \<leftarrow> each (\<lambda>i. i2s_send_data_dma hw brk n ch (trans_buf i) frame) [0..<frame_cnt] w;
             if frame_remain \<noteq> 0 then i2s_send_data_dma hw brk n ch (trans_buf frame_cnt) frame_remain w else Some w }
           else if bits_per_sample = 32 \<and> track_num = 2
           then do {
             w \<leftarrow> each (\<lambda>i. i2s_send_data_dma hw brk n ch (trans_buf i) (frame * 2)) [0..<frame_cnt] w;
             if frame_remain \<noteq> 0 then i2s_send_data_dma hw brk n ch (trans_buf frame_cnt) (frame_remain * 2) w else Some w }
           else do {
             let buff0 = malloc (frame * 2 * 4 * 2);
             let buff = (\<lambda>i. if even i then buff0 else buff0 + int (frame * 8));
             w \<leftarrow> each (\<lambda>i w.
                    let (send_len, w) = parse_to (buff i) (trans_buf i) frame bits_per_sample track_num w
                    in i2s_send_data_dma hw brk n ch (buff i) send_len w) [0..<frame_cnt] w;
             if frame_remain \<noteq> 0
             then (let (send_len, w) = parse_to (buff frame_cnt) (trans_buf frame_cnt) frame_remain bits_per_sample track_num w
                   in i2s_send_data_dma hw brk n ch (trans_buf frame_cnt) send_len w)
             else Some w }))"

subsection \<open>Transfers with a callback\<close>

definition i2s_dmac_irq :: "('u \<Rightarrow> nat \<Rightarrow> ('u, 'h) i2s_world \<Rightarrow> ('u, 'h) i2s_world) \<Rightarrow> nat \<Rightarrow> 'u i2s_instance \<Rightarrow> ('u, 'h) i2s_world \<Rightarrow> ('u, 'h) i2s_world" where
  "i2s_dmac_irq run core v_instance w =
     (let (d, p) = dmac_irq_unregister core (inst_dmac_channel v_instance) (iw_dma w, iw_plic w);
          w = w\<lparr>iw_dma := d, iw_plic := p\<rparr>
      in case int_callback v_instance of None \<Rightarrow> w | Some f \<Rightarrow> run f (int_ctx v_instance) w)"

record i2s_data =
  tx_channel :: nat
  rx_channel :: nat
  tx_buf :: int
  tx_len :: nat
  rx_buf :: int
  rx_len :: nat
  data_transfer_mode :: i2s_transfer_mode
  nowait_dma_idle :: bool
  wait_dma_done :: bool

text \<open>The context of the handler is the number of the instance, the receiving ones from 3 on.\<close>

definition register_irq :: "nat \<Rightarrow> nat \<Rightarrow> nat \<Rightarrow> u32 \<Rightarrow> ('u, 'h) i2s_world \<Rightarrow> ('u, 'h) i2s_world" where
  "register_irq core ch ctx prio w =
     (let (d, p) = dmac_irq_register core ch (Some I2s_dmac_irq) ctx prio (iw_dma w, iw_plic w) in w\<lparr>iw_dma := d, iw_plic := p\<rparr>)"

definition set_instance :: "'u plic_interrupt \<Rightarrow> nat \<Rightarrow> i2s_transfer_mode \<Rightarrow> 'u i2s_instance" where
  "set_instance cb ch mode = \<lparr>transfer_mode = mode, inst_dmac_channel = ch, int_callback = pi_callback cb, int_ctx = pi_ctx cb\<rparr>"

definition i2s_handle_data_dma ::
  "(i2s_handler dma \<Rightarrow> i2s_handler dma) \<Rightarrow> (int \<Rightarrow> int \<Rightarrow> int) \<Rightarrow> nat \<Rightarrow> nat \<Rightarrow> i2s_data \<Rightarrow> 'u plic_interrupt option \<Rightarrow>
   ('u, 'h) i2s_world \<Rightarrow> ('u, 'h) i2s_world option" where
  "i2s_handle_data_dma hw brk core n data cb w =
     (if \<not> n < I2S_DEVICE_MAX then None
      else if data_transfer_mode data = I2S_SEND
      then (let ch = tx_channel data in
        if \<not> (tx_buf data \<noteq> 0 \<and> tx_len data \<noteq> 0) then None
        else do {
          w \<leftarrow> (if \<not> nowait_dma_idle data then wait_done hw brk ch w else Some w);
          let w = (case cb of None \<Rightarrow> w
            | Some cb \<Rightarrow> register_irq core ch n (pi_priority cb)
                (w\<lparr>g_i2s_send_instance := (g_i2s_send_instance w)(n := set_instance cb ch I2S_SEND)\<rparr>));
          w \<leftarrow> transfer_block hw brk ch (SYSCTL_DMA_SELECT_I2S0_TX_REQ + n * 2) (tx_buf data) (txdma n)
                 DMAC_ADDR_INCREMENT DMAC_ADDR_NOCHANGE (tx_len data) w;
          if cb = None \<and> wait_dma_done data then wait_done hw brk ch w else Some w })
      else (let ch = rx_channel data in
        if \<not> (rx_buf data \<noteq> 0 \<and> rx_len data \<noteq> 0) then None
        else do {
          w \<leftarrow> (if \<not> nowait_dma_idle data then wait_done hw brk ch w else Some w);
          let w = (case cb of None \<Rightarrow> w
            | Some cb \<Rightarrow> register_irq core ch (3 + n) (pi_priority cb)
                (w\<lparr>g_i2s_recv_instance := (g_i2s_recv_instance w)(n := set_instance cb ch I2S_RECEIVE)\<rparr>));
          w \<leftarrow> transfer_block hw brk ch (SYSCTL_DMA_SELECT_I2S0_RX_REQ + n * 2) (rxdma n) (rx_buf data)
                 DMAC_ADDR_NOCHANGE DMAC_ADDR_INCREMENT (rx_len data) w;
          if cb = None \<and> wait_dma_done data then wait_done hw brk ch w else Some w }))"

subsection \<open>What is sent\<close>

lemma load_u8: "load_le 1 p m = ucast (m p)"
  by (simp add: eval_nat_numeral)

lemma load_le_3: "load_le 3 p m = ucast (m p) OR push_bit 8 (ucast (m (p + 1)) OR push_bit 8 (ucast (m (p + 2)) :: u32))"
  by (simp add: eval_nat_numeral add.commute)

lemma three_bytes_word: "three_bytes p m = load_le 3 p m"
  by (rule bit_word_eqI) (auto simp: three_bytes_def load_u8 load_le_3 bit_simps)

definition frame_at :: "nat \<Rightarrow> int \<Rightarrow> memory \<Rightarrow> nat \<Rightarrow> u32 \<times> u32" where
  "frame_at b pcm m j = (load_le b (pcm + int (2 * b * j)) m, load_le b (pcm + int (2 * b * j + b)) m)"

definition position :: "nat \<Rightarrow> nat \<Rightarrow> nat" where
  "position single_length j = (if single_length = 24 then 6 * j else 2 * j)"

lemma next_pair_frame:
  assumes "single_length \<in> {8, 16, 24, 32}"
  shows "next_pair single_length pcm m (position single_length j) =
    (frame_at (single_length div 8) pcm m j, position single_length (Suc j))"
  using assms by (auto simp: next_pair_def frame_at_def position_def three_bytes_word algebra_simps)

lemma pcm_rounds_frames:
  assumes "single_length \<in> {8, 16, 24, 32}"
  shows "pcm_rounds single_length pcm m k (position single_length j) as =
    (if k \<le> length (filter id as) then Some (map (frame_at (single_length div 8) pcm m) [j..<j + k]) else None)"
proof (induction k arbitrary: j as)
  case (Suc k)
  show ?case
  proof (induction as)
    case (Cons a as)
    then show ?case
      using Suc [of "Suc j" as] by (simp add: next_pair_frame [OF assms] upt_conv_Cons del: upt_Suc)
  qed simp
qed simp

text \<open>Sending by the processor: with samples of 8, 16, 24 or 32 bits the channel gets the whole frames of the buffer in
  order, left and right sample little endian each, one frame per round in which the FIFO has room; it returns exactly when there
  are enough such rounds, and a rest of the buffer smaller than a frame is not sent.\<close>

lemma i2s_send_data_sends_frames:
  assumes c: "c \<le> 3" and L: "single_length \<in> {8, 16, 24, 32}" and b: "b = single_length div 8" and n: "n = count div (2 * b)"
  shows "i2s_send_data dev c pcm count single_length as m d =
    (if n \<le> length (filter id as)
     then Some (0, upd_ch dev c (\<lambda>r. r\<lparr>left_right := left_right r @ map (frame_at b pcm m) [0..<n]\<rparr>) d) else None)"
proof -
  have "count div (single_length div 8) div 2 = n" by (simp add: n b div_mult2_eq [symmetric] mult.commute)
  moreover have "single_length div 8 \<noteq> 0" using L by auto
  ultimately show ?thesis
    using c pcm_rounds_frames [OF L, of pcm m n 0 as] by (simp add: i2s_send_data_def b position_def cong: if_cong)
qed

definition demo_pcm :: memory where "demo_pcm a = word_of_int a"

lemma i2s_send_data_sends_frames_witness:
  "\<forall>d. i2s_send_data 0 1 100 7 24 [False, True] demo_pcm d =
    Some (0, upd_ch 0 1 (\<lambda>r. r\<lparr>left_right := left_right r @ [(0x666564, 0x696867)]\<rparr>) d)"
proof
  fix d
  have f: "map (frame_at 3 100 demo_pcm) [0..<1] = [(0x666564, 0x696867)]"
    by (simp add: frame_at_def load_le_3 push_bit_eq_mult demo_pcm_def)
  have h: "(1 :: nat) \<le> 3" "(24 :: nat) \<in> {8, 16, 24, 32}" "(3 :: nat) = 24 div 8" "(1 :: nat) = 7 div (2 * 3)" by simp_all
  have r: "1 \<le> length (filter id [False, True])" by simp
  show "i2s_send_data 0 1 100 7 24 [False, True] demo_pcm d =
    Some (0, upd_ch 0 1 (\<lambda>r. r\<lparr>left_right := left_right r @ [(0x666564, 0x696867)]\<rparr>) d)"
    by (simp only: i2s_send_data_sends_frames [OF h, of 0 100 "[False, True]" demo_pcm d] f r if_True)
qed

subsection \<open>Blocks of a sound buffer\<close>

lemma each_append: "each f (xs @ ys) s = Option.bind (each f xs s) (each f ys)"
  by (induction xs arbitrary: s) (auto split: bind_splits)

lemma each_map: "each f (map g xs) s = each (\<lambda>x. f (g x)) xs s"
  by (induction xs arbitrary: s) (auto split: bind_splits)

lemma set_divide_twice: "set_divide_16 n 1 (set_divide_16 n 0 w) = set_divide_16 n 1 w"
  by (simp add: set_divide_16_def i2s_set_dma_divide_16_def upd_ccr_def upd_i2s_def)

lemma bind_Some_right: "Option.bind x Some = x"
  by (cases x) simp_all

lemma each_short: "each f [] = Some" "each f [x] = f x"
proof -
  show e: "each f [] = Some" by (rule ext) simp
  show "each f [x] = f x" by (rule ext) (simp add: e bind_Some_right)
qed

lemma upto_cut: "i \<le> j \<Longrightarrow> j \<le> k + 1 \<Longrightarrow> [i..k] = [i..j - 1] @ [j..k]"
  by (cases "j = k + 1") (simp_all add: upto_split1)

lemma tiles_upto:
  assumes "0 \<le> z"
  shows "concat (map (\<lambda>i. [a + z * int i..a + z * int i + z - 1]) [0..<q]) = [a..a + z * int q - 1]"
proof (induction q)
  case (Suc q)
  have "[a..a + z * int (Suc q) - 1] = [a..(a + z * int q) - 1] @ [a + z * int q..a + z * int (Suc q) - 1]"
    using assms by (intro upto_cut) (simp_all add: algebra_simps)
  moreover have "a + z * int (Suc q) - 1 = a + z * int q + z - 1" by (simp add: algebra_simps)
  ultimately have "[a..a + z * int (Suc q) - 1] = [a..a + z * int q - 1] @ [a + z * int q..a + z * int q + z - 1]" by (simp only:)
  then show ?case using Suc by (simp only: upt_Suc le0 if_True map_append concat_append list.map concat.simps append_Nil2)
qed simp

text \<open>C38.  Playing stereo samples of 16 or 32 bits hands the whole frames of the buffer to the DMA channel without copying,
  block by block: the blocks lie end to end and cover the frames in order, no byte twice and none left out, and no
  block is empty or longer than asked; 16-bit samples are sent in pairs, which the device divides.\<close>

theorem i2s_play_tiles:
  fixes w :: "('u, 'h) i2s_world"
  assumes k: "(bits, k) \<in> {(16, 1), (32, 2)}" and frame: "0 < frame" and N: "N = count div (4 * k)"
  shows "\<exists>blocks. i2s_play hw brk malloc n ch buf count frame bits 2 w =
      each (\<lambda>(a, l). i2s_send_data_dma hw brk n ch a l) blocks (set_divide_16 n (if bits = 16 then 1 else 0) w) \<and>
    concat (map (\<lambda>(a, l). [a..a + 4 * int l - 1]) blocks) = [buf..buf + 4 * int (k * N) - 1] \<and>
    (\<forall>(a, l) \<in> set blocks. 0 < l \<and> l \<le> k * frame)"
proof -
  let ?q = "N div frame" and ?r = "N mod frame" and ?z = "4 * int (k * frame)"
  let ?full = "map (\<lambda>i. (buf + ?z * int i, k * frame)) [0..<?q]"
  let ?rest = "if ?r = 0 then [] else [(buf + ?z * int ?q, k * ?r)]"
  let ?w = "set_divide_16 n (if bits = 16 then 1 else 0) w"
  have N': "count div (bits div 8) div 2 = N" using k by (auto simp: N div_mult2_eq [symmetric])
  have addr: "buf + int (i * frame * (bits div 8) * 2) = buf + ?z * int i" for i using k by (auto simp: algebra_simps)
  have send: "Option.bind v (\<lambda>w. if ?r \<noteq> 0 then i2s_send_data_dma hw brk n ch (buf + ?z * int ?q) (k * ?r) w else Some w) =
      Option.bind v (each (\<lambda>(a, l). i2s_send_data_dma hw brk n ch a l) ?rest)" for v :: "('u, 'h) i2s_world option"
    by (simp add: each_short)
  have play: "i2s_play hw brk malloc n ch buf count frame bits 2 w =
      Option.bind (each (\<lambda>i. i2s_send_data_dma hw brk n ch (buf + ?z * int i) (k * frame)) [0..<?q] ?w)
        (\<lambda>w. if ?r \<noteq> 0 then i2s_send_data_dma hw brk n ch (buf + ?z * int ?q) (k * ?r) w else Some w)"
  proof (cases "bits = 16")
    case True
    then have k1: "k = 1" using k by auto
    show ?thesis unfolding i2s_play_def Let_def N' addr k1 mult_1 using True frame by (simp add: set_divide_twice)
  next
    case False
    then have k2: "k = 2" "bits = 32" using k by auto
    then have words: "frame * 2 = k * frame" "?r * 2 = k * ?r" by simp_all
    show ?thesis unfolding i2s_play_def Let_def N' addr words using frame k2(2) by simp
  qed
  have run: "i2s_play hw brk malloc n ch buf count frame bits 2 w =
      each (\<lambda>(a, l). i2s_send_data_dma hw brk n ch a l) (?full @ ?rest) ?w"
    unfolding play send by (simp add: each_append each_map)
  have full: "concat (map (\<lambda>(a, l). [a..a + 4 * int l - 1]) ?full) = [buf..buf + ?z * int ?q - 1]"
    using tiles_upto [of ?z buf ?q] k frame by (auto simp: o_def)
  have total: "?z * int ?q + 4 * int (k * ?r) = 4 * int (k * N)"
  proof -
    have "int N = int frame * int ?q + int ?r" by (simp only: of_nat_mult [symmetric] of_nat_add [symmetric] mult_div_mod_eq)
    then show ?thesis by (simp only: of_nat_mult distrib_left mult.assoc mult.left_commute mult.commute)
  qed
  define e where "e = buf + ?z * int ?q"
  have rest: "concat (map (\<lambda>(a, l). [a..a + 4 * int l - 1]) ?rest) = [e..e + 4 * int (k * ?r) - 1]"
    by (simp add: e_def)
  have e: "buf \<le> e" "buf + 4 * int (k * N) - 1 = e + 4 * int (k * ?r) - 1" "0 \<le> 4 * int (k * ?r)"
    using total by (simp_all add: e_def)
  have "[buf..buf + 4 * int (k * N) - 1] = [buf..e - 1] @ [e..e + 4 * int (k * ?r) - 1]"
    unfolding e(2) using e(1,3) by (intro upto_cut) linarith+
  then have "concat (map (\<lambda>(a, l). [a..a + 4 * int l - 1]) (?full @ ?rest)) = [buf..buf + 4 * int (k * N) - 1]"
    unfolding map_append concat_append full rest by (simp only: e_def)
  moreover have "\<forall>(a, l) \<in> set (?full @ ?rest). 0 < l \<and> l \<le> k * frame"
    using k frame by (auto simp: less_imp_le)
  ultimately show ?thesis using run by (intro exI [of _ "?full @ ?rest"]) simp
qed

lemma i2s_play_tiles_witness:
  "\<forall>hw brk malloc (w :: (nat, nat) i2s_world). \<exists>blocks.
    i2s_play hw brk malloc 0 1 0x80001000 45 4 16 2 w =
      each (\<lambda>(a, l). i2s_send_data_dma hw brk 0 1 a l) blocks (set_divide_16 0 1 w) \<and>
    concat (map (\<lambda>(a, l). [a..a + 4 * int l - 1]) blocks) = [0x80001000..0x8000102B]"
proof (intro allI)
  fix hw brk malloc and w :: "(nat, nat) i2s_world"
  have h: "(16, 1) \<in> {(16 :: nat, 1 :: nat), (32, 2)}" "0 < (4 :: nat)" "(11 :: nat) = 45 div (4 * 1)" by simp_all
  have e: "0x80001000 + 4 * int (1 * 11) - 1 = 0x8000102B" "(if (16 :: nat) = 16 then 1 else 0 :: u32) = 1" by simp_all
  show "\<exists>blocks. i2s_play hw brk malloc 0 1 0x80001000 45 4 16 2 w =
      each (\<lambda>(a, l). i2s_send_data_dma hw brk 0 1 a l) blocks (set_divide_16 0 1 w) \<and>
    concat (map (\<lambda>(a, l). [a..a + 4 * int l - 1]) blocks) = [0x80001000..0x8000102B]"
    using i2s_play_tiles [OF h, where hw = hw and brk = brk and malloc = malloc and n = 0 and ch = 1 and buf = "0x80001000" and w = w, unfolded e] by (elim exE conjE) (intro exI conjI)
qed

subsection \<open>The divider of a sample rate\<close>

lemma rate_threshold_near:
  fixes x :: rat
  assumes d: "d = of_int (uint sample_rate) * 2 * of_int (uint ws) * 2" "0 < d" and x: "x = of_int (uint pll) / d" "1 \<le> x" "x \<le> 65536"
  shows "uint (rate_threshold pll sample_rate ws) < 2 ^ 16 \<and>
    \<bar>of_int (uint (rate_threshold pll sample_rate ws)) + 1 - x\<bar> \<le> 1 / 2 + 1 / 2 ^ 21"
proof -
  define y where "y = fl (fl x - 1)"
  have tiny: "1 / 2 ^ 22 + 1 / 2 ^ 22 = (1 / 2 ^ 21 :: rat)" "1 / 2 ^ 21 < (1 / 2 :: rat)" by simp_all
  have a: "fl x - x \<le> 1 / 2 ^ 22" "x - fl x \<le> 1 / 2 ^ 22" using fl_error_small [of x] x by simp_all
  have "1 \<le> fl x" using x(2) by (rule fl_at_least_1)
  moreover have "fl x - 1 < 2 ^ 31" using a(1) x(3) tiny by simp
  ultimately have b: "y - (fl x - 1) \<le> 1 / 2 ^ 22" "fl x - 1 - y \<le> 1 / 2 ^ 22" and "0 \<le> y"
    using fl_error_small [of "fl x - 1"] fl_nonneg [of "fl x - 1"] by (simp_all add: y_def)
  define t where "t = \<lfloor>y + 1 / 2\<rfloor>"
  have floor: "of_int t \<le> y + 1 / 2" "y + 1 / 2 < of_int t + 1" unfolding t_def using floor_correct [of "y + 1 / 2"] by simp_all
  have "0 \<le> t" using \<open>0 \<le> y\<close> by (simp add: t_def)
  have "rat_of_int t < 65536" using floor a b x(3) tiny by linarith
  then have "t < 65536" by linarith
  have "rate_threshold pll sample_rate ws = saturated_u32 t"
    using d(2) \<open>0 \<le> y\<close> unfolding rate_threshold_def Let_def d(1) [symmetric] x(1) [symmetric] y_def [symmetric]
    by (simp add: round_away_def t_def)
  then have "uint (rate_threshold pll sample_rate ws) = t"
    using \<open>0 \<le> t\<close> \<open>t < 65536\<close> by (simp add: saturated_u32_def uint_word_of_int)
  then show ?thesis using floor a b tiny \<open>t < 65536\<close> unfolding abs_le_iff by simp
qed

lemma i2s_threshold_cases: "n < 3 \<Longrightarrow> (n = 0 \<and> i2s_threshold n = SYSCTL_THRESHOLD_I2S0 \<and> i2s_clock n = SYSCTL_CLOCK_I2S0) \<or>
   (n = 1 \<and> i2s_threshold n = SYSCTL_THRESHOLD_I2S1 \<and> i2s_clock n = SYSCTL_CLOCK_I2S1) \<or>
   (n = 2 \<and> i2s_threshold n = SYSCTL_THRESHOLD_I2S2 \<and> i2s_clock n = SYSCTL_CLOCK_I2S2)"
  by (auto simp: less_Suc_eq numeral_3_eq_3 i2s_threshold_def i2s_clock_def)

lemma pll_keeps_i2s_threshold:
  assumes "n < 3"
  shows "sysctl_pll_get_freq (snd (sysctl_clock_set_threshold (i2s_threshold n) v sy)) SYSCTL_PLL2 = sysctl_pll_get_freq sy SYSCTL_PLL2"
  using i2s_threshold_cases [OF assms]
  by (elim disjE conjE) (simp_all add: sysctl_clock_set_threshold_def sysctl_clock_source_get_freq.simps sysctl_pll_get_freq.simps cong: if_cong)

text \<open>C39.  Setting the sample rate programs the divider nearest to the exact quotient of the PLL by the rate and the frame of two
  words, when that quotient lies between 1 and 65536, and returns the bit clock that results.\<close>

theorem i2s_sample_rate_nearest:
  fixes x :: rat
  assumes n: "n < 3" and ws: "ws = 8 * (uint (clk_word_size (ccr (d n))) + 2)"
    and x: "x = of_int (uint (sysctl_pll_get_freq sy SYSCTL_PLL2)) / (4 * of_int (uint sample_rate) * of_int ws)" "1 \<le> x" "x \<le> 65536"
    and run: "(f, sy') = i2s_set_sample_rate n sample_rate (sy, d)"
  shows "\<bar>of_int (sysctl_clock_get_threshold (i2s_threshold n) sy') + 1 - x\<bar> \<le> 1 / 2 + 1 / 2 ^ 21 \<and>
    uint f = uint (sysctl_pll_get_freq sy SYSCTL_PLL2) div (2 * (sysctl_clock_get_threshold (i2s_threshold n) sy' + 1))"
proof -
  define ww :: u32 where "ww = (ucast (clk_word_size (ccr (d n))) + 2) * 8"
  define th where "th = rate_threshold (sysctl_pll_get_freq sy SYSCTL_PLL2) sample_rate ww"
  have "uint (clk_word_size (ccr (d n))) < 4" using uint_lt2p [of "clk_word_size (ccr (d n))"] by simp
  then have "uint (ucast (clk_word_size (ccr (d n))) :: u32) = uint (clk_word_size (ccr (d n)))" by (simp add: unsigned_ucast_eq take_bit_eq_mod)
  then have ww: "uint ww = ws" using \<open>uint (clk_word_size (ccr (d n))) < 4\<close> by (simp add: ww_def ws uint_word_ariths)
  let ?d = "of_int (uint sample_rate) * 2 * of_int (uint ww) * 2 :: rat"
  have d: "?d = 4 * of_int (uint sample_rate) * of_int ws" by (simp add: ww)
  have "uint sample_rate \<noteq> 0" using x by (auto simp: uint_0_iff)
  moreover have "0 \<le> uint sample_rate" by simp
  ultimately have p1: "0 < uint sample_rate" by linarith
  have "0 \<le> uint (clk_word_size (ccr (d n)))" by simp
  then have p2: "0 < ws" unfolding ws by (simp add: add_nonneg_pos)
  have "0 < rat_of_int (uint sample_rate)" "0 < rat_of_int ws" by (simp_all only: of_int_0_less_iff p1 p2)
  then have "0 < ?d" by (simp only: ww) (intro mult_pos_pos; simp)
  then have near: "uint th < 2 ^ 16" "\<bar>of_int (uint th) + 1 - x\<bar> \<le> 1 / 2 + 1 / 2 ^ 21"
    using rate_threshold_near [OF refl, of sample_rate ww x "sysctl_pll_get_freq sy SYSCTL_PLL2"] x d by (simp_all only: th_def simp_thms)
  have sy': "sy' = snd (sysctl_clock_set_threshold (i2s_threshold n) (uint th) sy)" "f = sysctl_clock_get_freq sy' (i2s_clock n)"
    using run by (simp_all add: i2s_set_sample_rate_def Let_def th_def ww_def)
  have w: "threshold_width (i2s_threshold n) = 16" "i2s_threshold n \<noteq> SYSCTL_THRESHOLD_MAX"
    using i2s_threshold_cases [OF n] by (elim disjE conjE; simp)+
  have t: "sysctl_clock_get_threshold (i2s_threshold n) sy' = uint th"
    using thresholds.get_same [of "i2s_threshold n" "uint th" sy] w near(1) by (simp add: sy')
  have pll: "sysctl_pll_get_freq sy' SYSCTL_PLL2 = sysctl_pll_get_freq sy SYSCTL_PLL2"
    using pll_keeps_i2s_threshold [OF n] by (simp add: sy')
  have "f = even_div (sysctl_pll_get_freq sy' SYSCTL_PLL2) (sysctl_clock_get_threshold (i2s_threshold n) sy')"
    using i2s_threshold_cases [OF n]
    by (elim disjE conjE) (simp_all add: sy'(2) sysctl_clock_get_freq.simps sysctl_clock_source_get_freq.simps [where input = SYSCTL_SOURCE_PLL2])
  moreover have fits: "uint (word_of_int k :: u32) = k" if "0 \<le> k" "k < 2 ^ 32" for k using that by (simp add: uint_word_of_int)
  have "uint (word_of_int ((uint th + 1) * 2) :: u32) = (uint th + 1) * 2" using near(1) by (intro fits) simp_all
  ultimately have "uint f = uint (sysctl_pll_get_freq sy SYSCTL_PLL2) div (2 * (uint th + 1))"
    by (simp only: even_div_def uint_div t pll mult.commute)
  then show ?thesis using near(2) by (simp add: t)
qed

lemma i2s_sample_rate_nearest_witness:
  "\<forall>(sy :: sysctl) (d :: i2s_devs).
    let sy = sy\<lparr>pll2 := (pll2 sy)\<lparr>pll_ckin_sel := 0, clkr := 0, clkf := 7, clkod := 1\<rparr>\<rparr>;
        d = upd_ccr 0 (\<lambda>r. r\<lparr>clk_word_size := 2\<rparr>) d;
        (f, sy') = i2s_set_sample_rate 0 44100 (sy, d)
    in \<bar>of_int (sysctl_clock_get_threshold SYSCTL_THRESHOLD_I2S0 sy') + 1 - 104000000 / (128 * 44100 :: rat)\<bar> \<le> 1 / 2 + 1 / 2 ^ 21"
proof (intro allI)
  fix sy :: sysctl and d :: i2s_devs
  let ?sy = "sy\<lparr>pll2 := (pll2 sy)\<lparr>pll_ckin_sel := 0, clkr := 0, clkf := 7, clkod := 1\<rparr>\<rparr>"
  let ?d = "upd_ccr 0 (\<lambda>r. r\<lparr>clk_word_size := 2\<rparr>) d"
  have pll: "sysctl_pll_get_freq ?sy SYSCTL_PLL2 = 104000000"
    using fl_of_int [of 26000000] fl_of_int [of 208000000] fl_of_int [of 104000000]
    by (simp add: sysctl_pll_get_freq.simps sysctl_clock_source_get_freq.simps pll_freq_out_def SYSCTRL_CLOCK_FREQ_IN0_def double_to_u32_def)
  obtain f sy' where r: "(f, sy') = i2s_set_sample_rate 0 44100 (?sy, ?d)" by (metis surj_pair)
  have "(0 :: nat) < 3" "32 = 8 * (uint (clk_word_size (ccr (?d 0))) + 2)" by (simp_all add: upd_ccr_def upd_i2s_def)
  from i2s_sample_rate_nearest [OF this refl _ _ r] pll
  show "let sy = ?sy; d = ?d; (f, sy') = i2s_set_sample_rate 0 44100 (sy, d)
    in \<bar>of_int (sysctl_clock_get_threshold SYSCTL_THRESHOLD_I2S0 sy') + 1 - 104000000 / (128 * 44100 :: rat)\<bar> \<le> 1 / 2 + 1 / 2 ^ 21"
    by (simp add: r [symmetric] Let_def i2s_threshold_def)
qed

end
