(* ===== verification/Apu.thy ===== *)
theory Apu
  imports K210_Prelude
begin

text \<open>
  The microphone array processor, \<open>lib/drivers/apu.c\<close>.  Its two configuration registers take a write field by field: a
  field changes only if the write enable bit that belongs to it is written as 1; the write enable bits read 0 (they are write
  only in \<open>apu.h\<close>) and the bits that request a reset or a new direction clear themselves, so what is requested is listed
  in \<open>requests\<close>.  Arithmetic of floats is a parameter, on the bit patterns of floats.  Automatic variables that are not
  initialised have the values \<open>junk\<close> and \<open>junk_delay\<close>, arguments.
\<close>

subsection \<open>Registers\<close>

record apu_ch_cfg =
  bf_sound_ch_en :: "8 word"
  bf_target_dir :: "4 word"
  audio_gain :: "11 word"
  data_src_mode :: "1 word"
  we_bf_sound_ch_en :: "1 word"
  we_bf_target_dir :: "1 word"
  we_audio_gain :: "1 word"
  we_data_src_mode :: "1 word"

record apu_ctl =
  bf_dir_search_en :: "1 word"
  search_path_reset :: "1 word"
  bf_stream_gen_en :: "1 word"
  voice_gen_path_reset :: "1 word"
  update_voice_dir :: "1 word"
  we_bf_dir_search_en :: "1 word"
  we_search_path_rst :: "1 word"
  we_bf_stream_gen :: "1 word"
  we_voice_gen_path_rst :: "1 word"
  we_update_voice_dir :: "1 word"

record apu_dir_bidx =
  dir_rd_idx0 :: "6 word"
  dir_rd_idx1 :: "6 word"
  dir_rd_idx2 :: "6 word"
  dir_rd_idx3 :: "6 word"

record apu_fir_coef =
  fir_tap0 :: u16
  fir_tap1 :: u16

record apu_dwsz_cfg =
  dir_dwn_siz_rate :: "4 word"
  voc_dwn_siz_rate :: "4 word"
  smpl_shift_bits :: "5 word"

record apu_fft_cfg =
  apu_fft_shift_factor :: "9 word"
  apu_fft_enable :: "1 word"

record apu_int_stat =
  dir_search_data_rdy :: "1 word"
  voc_buf_data_rdy :: "1 word"

record apu_int_mask =
  dir_data_rdy_msk :: "1 word"
  voc_buf_rdy_msk :: "1 word"

datatype apu_request = Search_path_reset | Voice_path_reset | Update_voice_dir

record apu =
  bf_ch_cfg_reg :: apu_ch_cfg
  bf_ctl_reg :: apu_ctl
  bf_dir_bidx :: "nat \<Rightarrow> nat \<Rightarrow> apu_dir_bidx"
  bf_pre_fir0_coef :: "nat \<Rightarrow> apu_fir_coef"
  bf_post_fir0_coef :: "nat \<Rightarrow> apu_fir_coef"
  bf_pre_fir1_coef :: "nat \<Rightarrow> apu_fir_coef"
  bf_post_fir1_coef :: "nat \<Rightarrow> apu_fir_coef"
  bf_dwsz_cfg_reg :: apu_dwsz_cfg
  bf_fft_cfg_reg :: apu_fft_cfg
  bf_int_stat_reg :: apu_int_stat
  bf_int_mask_reg :: apu_int_mask
  saturation_counter :: u32
  saturation_limits :: u32
  requests :: "apu_request list"

definition write_ch_cfg :: "apu_ch_cfg \<Rightarrow> apu \<Rightarrow> apu" where
  "write_ch_cfg v a = a\<lparr>bf_ch_cfg_reg := \<lparr>
     bf_sound_ch_en = (if we_bf_sound_ch_en v = 1 then bf_sound_ch_en v else bf_sound_ch_en (bf_ch_cfg_reg a)),
     bf_target_dir = (if we_bf_target_dir v = 1 then bf_target_dir v else bf_target_dir (bf_ch_cfg_reg a)),
     audio_gain = (if we_audio_gain v = 1 then audio_gain v else audio_gain (bf_ch_cfg_reg a)),
     data_src_mode = (if we_data_src_mode v = 1 then data_src_mode v else data_src_mode (bf_ch_cfg_reg a)),
     we_bf_sound_ch_en = 0, we_bf_target_dir = 0, we_audio_gain = 0, we_data_src_mode = 0\<rparr>\<rparr>"

definition write_ctl :: "apu_ctl \<Rightarrow> apu \<Rightarrow> apu" where
  "write_ctl v a = a\<lparr>bf_ctl_reg := \<lparr>
     bf_dir_search_en = (if we_bf_dir_search_en v = 1 then bf_dir_search_en v else bf_dir_search_en (bf_ctl_reg a)),
     search_path_reset = 0,
     bf_stream_gen_en = (if we_bf_stream_gen v = 1 then bf_stream_gen_en v else bf_stream_gen_en (bf_ctl_reg a)),
     voice_gen_path_reset = 0, update_voice_dir = 0,
     we_bf_dir_search_en = 0, we_search_path_rst = 0, we_bf_stream_gen = 0, we_voice_gen_path_rst = 0, we_update_voice_dir = 0\<rparr>,
   requests := requests a
     @ (if we_search_path_rst v = 1 \<and> search_path_reset v = 1 then [Search_path_reset] else [])
     @ (if we_voice_gen_path_rst v = 1 \<and> voice_gen_path_reset v = 1 then [Voice_path_reset] else [])
     @ (if we_update_voice_dir v = 1 \<and> update_voice_dir v = 1 then [Update_voice_dir] else [])\<rparr>"

subsection \<open>Settings\<close>

definition apu_set_audio_gain :: "u16 \<Rightarrow> apu \<Rightarrow> apu" where
  "apu_set_audio_gain gain a = write_ch_cfg ((bf_ch_cfg_reg a)\<lparr>we_bf_target_dir := 0, we_bf_sound_ch_en := 0, we_data_src_mode := 0,
     we_audio_gain := 1, audio_gain := ucast gain\<rparr>) a"

definition apu_set_smpl_shift :: "u8 \<Rightarrow> apu \<Rightarrow> apu" where
  "apu_set_smpl_shift smpl_shift a = a\<lparr>bf_dwsz_cfg_reg := (bf_dwsz_cfg_reg a)\<lparr>smpl_shift_bits := ucast smpl_shift\<rparr>\<rparr>"

definition apu_get_smpl_shift :: "apu \<Rightarrow> u8" where
  "apu_get_smpl_shift a = ucast (smpl_shift_bits (bf_dwsz_cfg_reg a))"

definition apu_set_channel_enabled :: "apu_ch_cfg \<Rightarrow> u8 \<Rightarrow> apu \<Rightarrow> apu" where
  "apu_set_channel_enabled junk channel_bit a =
     write_ch_cfg (junk\<lparr>we_audio_gain := 0, we_bf_target_dir := 0, we_bf_sound_ch_en := 1, bf_sound_ch_en := channel_bit\<rparr>) a"

definition apu_channel_enable :: "u8 \<Rightarrow> apu \<Rightarrow> apu" where
  "apu_channel_enable channel_bit a = write_ch_cfg ((bf_ch_cfg_reg a)\<lparr>we_audio_gain := 0, we_bf_target_dir := 0, we_data_src_mode := 0,
     we_bf_sound_ch_en := 1, bf_sound_ch_en := channel_bit\<rparr>) a"

definition apu_set_src_mode :: "u8 \<Rightarrow> apu \<Rightarrow> apu" where
  "apu_set_src_mode src_mode a = write_ch_cfg ((bf_ch_cfg_reg a)\<lparr>we_audio_gain := 0, we_bf_target_dir := 0, we_bf_sound_ch_en := 0,
     we_data_src_mode := 1, data_src_mode := ucast src_mode\<rparr>) a"

definition apu_set_direction_delay :: "nat \<Rightarrow> (nat \<Rightarrow> u8) \<Rightarrow> apu \<Rightarrow> apu" where
  "apu_set_direction_delay dir_num dir_bidx a =
     (let quad = (\<lambda>k. \<lparr>dir_rd_idx0 = ucast (dir_bidx k), dir_rd_idx1 = ucast (dir_bidx (k + 1)),
                       dir_rd_idx2 = ucast (dir_bidx (k + 2)), dir_rd_idx3 = ucast (dir_bidx (k + 3))\<rparr>)
      in a\<lparr>bf_dir_bidx := (bf_dir_bidx a)(dir_num := (bf_dir_bidx a dir_num)(0 := quad 0, 1 := quad 4))\<rparr>)"

definition apu_dir_enable :: "apu \<Rightarrow> apu" where
  "apu_dir_enable a = write_ctl ((bf_ctl_reg a)\<lparr>we_bf_dir_search_en := 1, bf_dir_search_en := 1\<rparr>) a"

definition apu_dir_reset :: "apu \<Rightarrow> apu" where
  "apu_dir_reset a = write_ctl ((bf_ctl_reg a)\<lparr>we_search_path_rst := 1, search_path_reset := 1\<rparr>) a"

definition apu_voc_enable :: "u8 \<Rightarrow> apu \<Rightarrow> apu" where
  "apu_voc_enable enable_flag a = write_ctl ((bf_ctl_reg a)\<lparr>we_bf_stream_gen := 1, bf_stream_gen_en := ucast enable_flag\<rparr>) a"

definition apu_voc_reset :: "apu \<Rightarrow> apu" where
  "apu_voc_reset a = write_ctl ((bf_ctl_reg a)\<lparr>we_voice_gen_path_rst := 1, voice_gen_path_reset := 1\<rparr>) a"

definition apu_voc_set_direction :: "nat \<Rightarrow> apu \<Rightarrow> apu" where
  "apu_voc_set_direction direction a =
     (let a = write_ch_cfg ((bf_ch_cfg_reg a)\<lparr>we_bf_sound_ch_en := 0, we_audio_gain := 0, we_data_src_mode := 0,
                we_bf_target_dir := 1, bf_target_dir := word_of_nat direction\<rparr>) a
      in write_ctl ((bf_ctl_reg a)\<lparr>we_update_voice_dir := 1, update_voice_dir := 1\<rparr>) a)"

definition fir_coefs :: "(nat \<Rightarrow> u16) \<Rightarrow> (nat \<Rightarrow> apu_fir_coef) \<Rightarrow> nat \<Rightarrow> apu_fir_coef" where
  "fir_coefs fir_coef regs =
     fold (\<lambda>i regs. regs(i := \<lparr>fir_tap0 = fir_coef (i * 2), fir_tap1 = (if i = 8 then 0 else fir_coef (i * 2 + 1))\<rparr>)) [0..<9] regs"

definition apu_dir_set_prev_fir :: "(nat \<Rightarrow> u16) \<Rightarrow> apu \<Rightarrow> apu" where
  "apu_dir_set_prev_fir fir_coef a = a\<lparr>bf_pre_fir0_coef := fir_coefs fir_coef (bf_pre_fir0_coef a)\<rparr>"

definition apu_dir_set_post_fir :: "(nat \<Rightarrow> u16) \<Rightarrow> apu \<Rightarrow> apu" where
  "apu_dir_set_post_fir fir_coef a = a\<lparr>bf_post_fir0_coef := fir_coefs fir_coef (bf_post_fir0_coef a)\<rparr>"

definition apu_voc_set_prev_fir :: "(nat \<Rightarrow> u16) \<Rightarrow> apu \<Rightarrow> apu" where
  "apu_voc_set_prev_fir fir_coef a = a\<lparr>bf_pre_fir1_coef := fir_coefs fir_coef (bf_pre_fir1_coef a)\<rparr>"

definition apu_voc_set_post_fir :: "(nat \<Rightarrow> u16) \<Rightarrow> apu \<Rightarrow> apu" where
  "apu_voc_set_post_fir fir_coef a = a\<lparr>bf_post_fir1_coef := fir_coefs fir_coef (bf_post_fir1_coef a)\<rparr>"

definition apu_set_fft_shift_factor :: "u8 \<Rightarrow> u16 \<Rightarrow> apu \<Rightarrow> apu" where
  "apu_set_fft_shift_factor enable_flag shift_factor a =
     (let a = a\<lparr>bf_fft_cfg_reg := \<lparr>apu_fft_shift_factor = ucast shift_factor, apu_fft_enable = ucast enable_flag\<rparr>\<rparr>
      in write_ch_cfg ((bf_ch_cfg_reg a)\<lparr>we_data_src_mode := 1, data_src_mode := ucast enable_flag\<rparr>) a)"

definition apu_dir_set_down_size :: "u8 \<Rightarrow> apu \<Rightarrow> apu" where
  "apu_dir_set_down_size dir_dwn_size a = a\<lparr>bf_dwsz_cfg_reg := (bf_dwsz_cfg_reg a)\<lparr>dir_dwn_siz_rate := ucast dir_dwn_size\<rparr>\<rparr>"

definition apu_dir_set_interrupt_mask :: "u8 \<Rightarrow> apu \<Rightarrow> apu" where
  "apu_dir_set_interrupt_mask dir_int_mask a = a\<lparr>bf_int_mask_reg := (bf_int_mask_reg a)\<lparr>dir_data_rdy_msk := ucast dir_int_mask\<rparr>\<rparr>"

definition apu_voc_set_down_size :: "u8 \<Rightarrow> apu \<Rightarrow> apu" where
  "apu_voc_set_down_size voc_dwn_size a = a\<lparr>bf_dwsz_cfg_reg := (bf_dwsz_cfg_reg a)\<lparr>voc_dwn_siz_rate := ucast voc_dwn_size\<rparr>\<rparr>"

definition apu_voc_set_interrupt_mask :: "u8 \<Rightarrow> apu \<Rightarrow> apu" where
  "apu_voc_set_interrupt_mask voc_int_mask a = a\<lparr>bf_int_mask_reg := (bf_int_mask_reg a)\<lparr>voc_buf_rdy_msk := ucast voc_int_mask\<rparr>\<rparr>"

definition apu_set_down_size :: "u8 \<Rightarrow> u8 \<Rightarrow> apu \<Rightarrow> apu" where
  "apu_set_down_size dir_dwn_size voc_dwn_size a =
     a\<lparr>bf_dwsz_cfg_reg := (bf_dwsz_cfg_reg a)\<lparr>dir_dwn_siz_rate := ucast dir_dwn_size, voc_dwn_siz_rate := ucast voc_dwn_size\<rparr>\<rparr>"

definition apu_set_interrupt_mask :: "u8 \<Rightarrow> u8 \<Rightarrow> apu \<Rightarrow> apu" where
  "apu_set_interrupt_mask dir_int_mask voc_int_mask a =
     a\<lparr>bf_int_mask_reg := \<lparr>dir_data_rdy_msk = ucast dir_int_mask, voc_buf_rdy_msk = ucast voc_int_mask\<rparr>\<rparr>"

text \<open>Writing 1 to an event clears it, writing 0 does nothing.\<close>

definition write_int_stat :: "apu_int_stat \<Rightarrow> apu \<Rightarrow> apu" where
  "write_int_stat v a = a\<lparr>bf_int_stat_reg := \<lparr>
     dir_search_data_rdy = (if dir_search_data_rdy v = 1 then 0 else dir_search_data_rdy (bf_int_stat_reg a)),
     voc_buf_data_rdy = (if voc_buf_data_rdy v = 1 then 0 else voc_buf_data_rdy (bf_int_stat_reg a))\<rparr>\<rparr>"

definition apu_dir_clear_int_state :: "apu \<Rightarrow> apu" where
  "apu_dir_clear_int_state = write_int_stat \<lparr>dir_search_data_rdy = 1, voc_buf_data_rdy = 0\<rparr>"

definition apu_voc_clear_int_state :: "apu \<Rightarrow> apu" where
  "apu_voc_clear_int_state = write_int_stat \<lparr>dir_search_data_rdy = 0, voc_buf_data_rdy = 1\<rparr>"

definition apu_voc_reset_saturation_counter :: "apu \<Rightarrow> apu" where
  "apu_voc_reset_saturation_counter a = a\<lparr>saturation_counter := push_bit 31 1\<rparr>"

definition apu_voc_get_saturation_counter :: "apu \<Rightarrow> u32" where
  "apu_voc_get_saturation_counter a = saturation_counter a"

definition apu_voc_set_saturation_limit :: "u16 \<Rightarrow> u16 \<Rightarrow> apu \<Rightarrow> apu" where
  "apu_voc_set_saturation_limit upper bottom a = a\<lparr>saturation_limits := push_bit 16 (ucast bottom) OR ucast upper\<rparr>"

definition apu_voc_get_saturation_limit :: "apu \<Rightarrow> u32" where
  "apu_voc_get_saturation_limit a = saturation_limits a"

subsection \<open>Delays of a circle of microphones\<close>

definition DIRECTION_RES :: nat where [simp]: "DIRECTION_RES = 16"

text \<open>What the code computes with floats: \<open>arc_delay radius hudu_jiao cm_tick\<close> is \<open>radius * (1 - cos(hudu_jiao)) / cm_tick\<close>.\<close>

record apu_math =
  of_int_float :: "int \<Rightarrow> u32"
  float_sub :: "u32 \<Rightarrow> u32 \<Rightarrow> u32"
  float_div :: "u32 \<Rightarrow> u32 \<Rightarrow> u32"
  float_less :: "u32 \<Rightarrow> u32 \<Rightarrow> bool"
  float_double :: "u32 \<Rightarrow> u32"
  is_zero :: "u32 \<Rightarrow> bool"
  radians :: "u32 \<Rightarrow> u32"
  arc_delay :: "u32 \<Rightarrow> u32 \<Rightarrow> u32 \<Rightarrow> u32"
  round_u8 :: "u32 \<Rightarrow> u8"
  cm_tick :: u32

text \<open>The arrays have eight columns, \<open>n\<close> of them are written: the microphones of the circle and as many more as the number
  \<open>center\<close> says.  The column after the circle is the microphone in the centre; the driver documents 0 and 1 for
  \<open>center\<close>, and the delays of the columns after that one are not initialised.  A row is filled from the
  delays; the loop that clears the rest of a row clears the rest of row 0.\<close>

definition circle_delay :: "apu_math \<Rightarrow> u32 \<Rightarrow> nat \<Rightarrow> u8 \<Rightarrow> (nat \<Rightarrow> u32) \<Rightarrow> (nat \<Rightarrow> u32) \<Rightarrow> nat \<Rightarrow> u32" where
  "circle_delay M radius mics center seta delay i =
     (if i < mics then arc_delay M radius (radians M (seta i)) (cm_tick M)
      else if center \<noteq> 0 \<and> i = mics then float_div M radius (cm_tick M) else delay i)"

definition fill_row :: "apu_math \<Rightarrow> nat \<Rightarrow> nat \<Rightarrow> (nat \<Rightarrow> u32) \<Rightarrow> (nat \<Rightarrow> nat \<Rightarrow> u8) \<Rightarrow> nat \<Rightarrow> nat \<Rightarrow> u8" where
  "fill_row M n j delay offsets =
     (\<lambda>j' i. if j' = j \<and> i < n then round_u8 M (delay i) else if j' = 0 \<and> n \<le> i \<and> i < 8 then 0 else offsets j' i)"

definition turn_row :: "apu_math \<Rightarrow> u32 \<Rightarrow> nat \<Rightarrow> u8 \<Rightarrow> nat \<Rightarrow> nat \<Rightarrow> (nat \<Rightarrow> u32) \<times> (nat \<Rightarrow> u32) \<times> (nat \<Rightarrow> nat \<Rightarrow> u8) \<Rightarrow>
   (nat \<Rightarrow> u32) \<times> (nat \<Rightarrow> u32) \<times> (nat \<Rightarrow> nat \<Rightarrow> u8)" where
  "turn_row M radius mics center n j s = (case s of (seta, delay, offsets) \<Rightarrow>
     (let seta = (\<lambda>i. if i < mics then float_sub M (seta i) (of_int_float M (360 div int DIRECTION_RES)) else seta i);
          delay = circle_delay M radius mics center seta delay;
          mn = fold (\<lambda>i mn. if float_less M (delay i) mn then delay i else mn) [0..<mics] (float_double M radius);
          delay = (if is_zero M mn then delay else (\<lambda>i. if i < n then float_sub M (delay i) mn else delay i))
      in (seta, delay, fill_row M n j delay offsets)))"

definition delay_offsets :: "apu_math \<Rightarrow> (nat \<Rightarrow> nat \<Rightarrow> u8) \<Rightarrow> (nat \<Rightarrow> u32) \<Rightarrow> u32 \<Rightarrow> nat \<Rightarrow> u8 \<Rightarrow> nat \<Rightarrow> nat \<Rightarrow> nat \<Rightarrow> u8" where
  "delay_offsets M junk junk_delay radius mics center n =
     (let seta = (\<lambda>i. of_int_float M (360 * int i div int mics));
          delay = circle_delay M radius mics center seta junk_delay;
          (seta, delay, offsets) = fold (turn_row M radius mics center n) [1..<DIRECTION_RES] (seta, delay, fill_row M n 0 delay junk)
      in offsets)"

definition apu_set_delay :: "apu_math \<Rightarrow> (nat \<Rightarrow> nat \<Rightarrow> u8) \<Rightarrow> (nat \<Rightarrow> u32) \<Rightarrow> u32 \<Rightarrow> nat \<Rightarrow> u8 \<Rightarrow> apu \<Rightarrow> apu option" where
  "apu_set_delay M junk junk_delay radius mic_num_a_circle center a =
     (let n = mic_num_a_circle + unat center; offsets = delay_offsets M junk junk_delay radius mic_num_a_circle center n
      in if 8 < n then None else Some (fold (\<lambda>i. apu_set_direction_delay i (offsets i)) [0..<DIRECTION_RES] a))"

subsection \<open>Settings are independent\<close>

text \<open>What the settings say, apart from the registers they say it in.\<close>

datatype apu_field = Channels | Direction | Gain | Source | Search | Stream | Dir_down | Voc_down | Shift_bits | Dir_mask | Voc_mask

fun apu_get :: "apu_field \<Rightarrow> apu \<Rightarrow> int" where
  "apu_get Channels a = uint (bf_sound_ch_en (bf_ch_cfg_reg a))"
| "apu_get Direction a = uint (bf_target_dir (bf_ch_cfg_reg a))"
| "apu_get Gain a = uint (audio_gain (bf_ch_cfg_reg a))"
| "apu_get Source a = uint (data_src_mode (bf_ch_cfg_reg a))"
| "apu_get Search a = uint (bf_dir_search_en (bf_ctl_reg a))"
| "apu_get Stream a = uint (bf_stream_gen_en (bf_ctl_reg a))"
| "apu_get Dir_down a = uint (dir_dwn_siz_rate (bf_dwsz_cfg_reg a))"
| "apu_get Voc_down a = uint (voc_dwn_siz_rate (bf_dwsz_cfg_reg a))"
| "apu_get Shift_bits a = uint (smpl_shift_bits (bf_dwsz_cfg_reg a))"
| "apu_get Dir_mask a = uint (dir_data_rdy_msk (bf_int_mask_reg a))"
| "apu_get Voc_mask a = uint (voc_buf_rdy_msk (bf_int_mask_reg a))"

datatype apu_call = Set_audio_gain u16 | Channel_enable u8 | Set_src_mode u8 | Voc_set_direction nat | Dir_enable | Dir_reset
  | Voc_enable u8 | Voc_reset | Set_smpl_shift u8 | Dir_set_down_size u8 | Voc_set_down_size u8 | Dir_set_interrupt_mask u8
  | Voc_set_interrupt_mask u8

fun apu_do :: "apu_call \<Rightarrow> apu \<Rightarrow> apu" where
  "apu_do (Set_audio_gain v) = apu_set_audio_gain v"
| "apu_do (Channel_enable v) = apu_channel_enable v"
| "apu_do (Set_src_mode v) = apu_set_src_mode v"
| "apu_do (Voc_set_direction v) = apu_voc_set_direction v"
| "apu_do Dir_enable = apu_dir_enable"
| "apu_do Dir_reset = apu_dir_reset"
| "apu_do (Voc_enable v) = apu_voc_enable v"
| "apu_do Voc_reset = apu_voc_reset"
| "apu_do (Set_smpl_shift v) = apu_set_smpl_shift v"
| "apu_do (Dir_set_down_size v) = apu_dir_set_down_size v"
| "apu_do (Voc_set_down_size v) = apu_voc_set_down_size v"
| "apu_do (Dir_set_interrupt_mask v) = apu_dir_set_interrupt_mask v"
| "apu_do (Voc_set_interrupt_mask v) = apu_voc_set_interrupt_mask v"

text \<open>The field a call sets, to the value reduced to the width of the field.\<close>

fun sets :: "apu_call \<Rightarrow> (apu_field \<times> int) option" where
  "sets (Set_audio_gain v) = Some (Gain, uint v mod 2 ^ 11)"
| "sets (Channel_enable v) = Some (Channels, uint v)"
| "sets (Set_src_mode v) = Some (Source, uint v mod 2)"
| "sets (Voc_set_direction v) = Some (Direction, int v mod 16)"
| "sets Dir_enable = Some (Search, 1)"
| "sets Dir_reset = None"
| "sets (Voc_enable v) = Some (Stream, uint v mod 2)"
| "sets Voc_reset = None"
| "sets (Set_smpl_shift v) = Some (Shift_bits, uint v mod 2 ^ 5)"
| "sets (Dir_set_down_size v) = Some (Dir_down, uint v mod 16)"
| "sets (Voc_set_down_size v) = Some (Voc_down, uint v mod 16)"
| "sets (Dir_set_interrupt_mask v) = Some (Dir_mask, uint v mod 2)"
| "sets (Voc_set_interrupt_mask v) = Some (Voc_mask, uint v mod 2)"

fun requested :: "apu_call \<Rightarrow> apu_request list" where
  "requested Dir_reset = [Search_path_reset]"
| "requested Voc_reset = [Voice_path_reset]"
| "requested (Voc_set_direction v) = [Update_voice_dir]"
| "requested _ = []"

text \<open>The write enable bits and the requests read 0.\<close>

definition apu_settled :: "apu \<Rightarrow> bool" where
  "apu_settled a \<longleftrightarrow>
     (let c = bf_ch_cfg_reg a; k = bf_ctl_reg a in
      we_bf_sound_ch_en c = 0 \<and> we_bf_target_dir c = 0 \<and> we_audio_gain c = 0 \<and> we_data_src_mode c = 0 \<and>
      we_bf_dir_search_en k = 0 \<and> we_search_path_rst k = 0 \<and> we_bf_stream_gen k = 0 \<and> we_voice_gen_path_rst k = 0 \<and>
      we_update_voice_dir k = 0)"

lemmas apu_defs = apu_set_audio_gain_def apu_channel_enable_def apu_set_src_mode_def apu_voc_set_direction_def apu_dir_enable_def
  apu_dir_reset_def apu_voc_enable_def apu_voc_reset_def apu_set_smpl_shift_def apu_dir_set_down_size_def apu_voc_set_down_size_def
  apu_dir_set_interrupt_mask_def apu_voc_set_interrupt_mask_def write_ch_cfg_def write_ctl_def Let_def

lemma uint_narrow: "uint (ucast (w :: 'a::len word) :: 'b::len word) = uint w mod 2 ^ LENGTH('b)"
  by (simp add: unsigned_ucast_eq take_bit_eq_mod)

lemma apu_step_settled: "apu_settled a \<Longrightarrow> apu_settled (apu_do c a)"
  by (cases c) (simp_all add: apu_settled_def apu_defs)

lemma apu_step_get:
  assumes "apu_settled a"
  shows "apu_get f (apu_do c a) = (case sets c of Some (g, v) \<Rightarrow> if f = g then v else apu_get f a | None \<Rightarrow> apu_get f a)"
  using assms by (cases c; cases f) (simp_all add: apu_settled_def apu_defs uint_narrow uint_word_of_int unsigned_of_nat take_bit_nat_eq_self zmod_int take_bit_eq_mod)

lemma apu_step_requests: "apu_settled a \<Longrightarrow> requests (apu_do c a) = requests a @ requested c"
  by (cases c) (simp_all add: apu_settled_def apu_defs)

text \<open>Settings of the microphone array: after any sequence of calls every field holds the value of the last call that
  sets it, reduced to the width of the field, or what it held before; the calls of one field never touch another, although they
  read and write whole registers; the resets and the change of direction are requested as often as they are called for.\<close>

lemma apu_program_contract:
  assumes "apu_settled a"
  shows "apu_get f (fold apu_do cs a) = (case map_of (rev (List.map_filter sets cs)) f of Some v \<Rightarrow> v | None \<Rightarrow> apu_get f a) \<and>
    requests (fold apu_do cs a) = requests a @ concat (map requested cs)"
  using assms
proof (induction cs arbitrary: a)
  case (Cons c cs)
  have IH: "apu_get f (fold apu_do cs (apu_do c a)) =
      (case map_of (rev (List.map_filter sets cs)) f of Some v \<Rightarrow> v | None \<Rightarrow> apu_get f (apu_do c a))"
    "requests (fold apu_do cs (apu_do c a)) = requests (apu_do c a) @ concat (map requested cs)"
    using Cons.IH [OF apu_step_settled [OF Cons.prems]] by blast+
  show ?case
    using IH apu_step_get [OF Cons.prems, of f c] apu_step_requests [OF Cons.prems, of c]
    by (auto simp: List.map_filter_simps map_add_def split: option.splits)
qed (simp add: List.map_filter_simps)

lemma apu_program_contract_witness:
  "\<forall>a :: apu. let a = a\<lparr>bf_ch_cfg_reg := (bf_ch_cfg_reg a)\<lparr>we_bf_sound_ch_en := 0, we_bf_target_dir := 0, we_audio_gain := 0, we_data_src_mode := 0\<rparr>,
       bf_ctl_reg := (bf_ctl_reg a)\<lparr>we_bf_dir_search_en := 0, we_search_path_rst := 0, we_bf_stream_gen := 0, we_voice_gen_path_rst := 0,
         we_update_voice_dir := 0\<rparr>\<rparr>;
       b = fold apu_do [Set_audio_gain 0x1400, Channel_enable 0xFF, Dir_reset, Voc_set_direction 19, Set_audio_gain 7] a
     in apu_get Gain b = 7 \<and> apu_get Channels b = 255 \<and> apu_get Direction b = 3 \<and> apu_get Source b = apu_get Source a \<and>
        requests b = requests a @ [Search_path_reset, Update_voice_dir]"
proof
  fix a :: apu
  let ?a = "a\<lparr>bf_ch_cfg_reg := (bf_ch_cfg_reg a)\<lparr>we_bf_sound_ch_en := 0, we_bf_target_dir := 0, we_audio_gain := 0, we_data_src_mode := 0\<rparr>,
       bf_ctl_reg := (bf_ctl_reg a)\<lparr>we_bf_dir_search_en := 0, we_search_path_rst := 0, we_bf_stream_gen := 0, we_voice_gen_path_rst := 0,
         we_update_voice_dir := 0\<rparr>\<rparr>"
  let ?cs = "[Set_audio_gain 0x1400, Channel_enable 0xFF, Dir_reset, Voc_set_direction 19, Set_audio_gain 7]"
  have s: "apu_settled ?a" by (simp add: apu_settled_def)
  have l: "rev (List.map_filter sets ?cs) = [(Gain, 7), (Direction, 3), (Channels, 255), (Gain, 0x400)]"
    by (simp add: List.map_filter_simps)
  note p = apu_program_contract [OF s, of _ ?cs, unfolded l]
  show "let a = ?a; b = fold apu_do ?cs a
     in apu_get Gain b = 7 \<and> apu_get Channels b = 255 \<and> apu_get Direction b = 3 \<and> apu_get Source b = apu_get Source a \<and>
        requests b = requests a @ [Search_path_reset, Update_voice_dir]"
    unfolding Let_def using p [of Gain] p [of Channels] p [of Direction] p [of Source]
    by (simp del: fold_simps apu_do.simps apu_get.simps)
qed

subsection \<open>The delays that are left\<close>

definition dir_idx :: "apu \<Rightarrow> nat \<Rightarrow> nat \<Rightarrow> 6 word" where
  "dir_idx a j i = ([dir_rd_idx0, dir_rd_idx1, dir_rd_idx2, dir_rd_idx3] ! (i mod 4)) (bf_dir_bidx a j (i div 4))"

lemma direction_delays:
  assumes "i < 8"
  shows "dir_idx (apu_set_direction_delay j b a) j' i = (if j' = j then ucast (b i) else dir_idx a j' i)"
proof -
  have "i \<in> {0, 1, 2, 3, 4, 5, 6, 7}" using assms by auto
  then show ?thesis by (auto simp: dir_idx_def apu_set_direction_delay_def Let_def numeral_2_eq_2)
qed

lemma all_delays:
  assumes "i < 8"
  shows "dir_idx (fold (\<lambda>j. apu_set_direction_delay j (b j)) [0..<n] a) j i = (if j < n then ucast (b j i) else dir_idx a j i)"
  by (induction n) (auto simp: direction_delays [OF assms] less_Suc_eq)

lemma turn_row_columns:
  assumes k: "k = mics + (if center = 0 then 0 else 1)" "k \<le> n"
  shows "\<exists>s d d'. turn_row M radius mics center n j (seta, delay, offsets) = (s, d, fill_row M n j d offsets) \<and>
    turn_row M radius mics center n j (seta, delay', offsets') = (s, d', fill_row M n j d' offsets') \<and> (\<forall>i<k. d i = d' i)"
proof -
  define s where "s = (\<lambda>i. if i < mics then float_sub M (seta i) (of_int_float M (360 div int DIRECTION_RES)) else seta i)"
  define d where "d = circle_delay M radius mics center s delay"
  define d' where "d' = circle_delay M radius mics center s delay'"
  have d: "\<forall>i<k. d i = d' i" by (auto simp: d_def d'_def circle_delay_def k(1) split: if_splits)
  have mics: "\<forall>i<mics. d i = d' i" using d by (simp add: k(1))
  define mn where "mn = fold (\<lambda>i mn. if float_less M (d i) mn then d i else mn) [0..<mics] (float_double M radius)"
  have mn': "mn = fold (\<lambda>i mn. if float_less M (d' i) mn then d' i else mn) [0..<mics] (float_double M radius)"
    unfolding mn_def by (rule fold_cong) (auto simp: mics fun_eq_iff)
  let ?e = "\<lambda>d. if is_zero M mn then d else (\<lambda>i. if i < n then float_sub M (d i) mn else d i)"
  have "turn_row M radius mics center n j (seta, delay, offsets) = (s, ?e d, fill_row M n j (?e d) offsets)"
    by (simp only: turn_row_def prod.case Let_def s_def [symmetric] d_def [symmetric] mn_def [symmetric])
  moreover have "turn_row M radius mics center n j (seta, delay', offsets') = (s, ?e d', fill_row M n j (?e d') offsets')"
    by (simp only: turn_row_def prod.case Let_def s_def [symmetric] d'_def [symmetric] mn' [symmetric])
  ultimately show ?thesis using d by (intro exI [of _ s] exI [of _ "?e d"] exI [of _ "?e d'"]) auto
qed

lemma rotations:
  assumes k: "k = mics + (if center = 0 then 0 else 1)" "k \<le> n"
    and "fold (turn_row M radius mics center n) js (seta, delay, offsets) = (seta1, delay1, offsets1)"
    and "fold (turn_row M radius mics center n) js (seta, delay', offsets') = (seta2, delay2, offsets2)"
    and "\<forall>i<k. offsets j i = offsets' j i \<or> j \<in> set js"
  shows "\<forall>i. (i < k \<longrightarrow> offsets1 j i = offsets2 j i) \<and> (n \<le> i \<and> 0 < j \<longrightarrow> offsets1 j i = offsets j i) \<and>
    (n \<le> i \<and> i < 8 \<and> j = 0 \<and> (js \<noteq> [] \<or> offsets 0 i = 0) \<longrightarrow> offsets1 j i = 0)"
  using assms(3-)
proof (induction js arbitrary: seta delay delay' offsets offsets')
  case (Cons r js)
  obtain s d d' where r: "turn_row M radius mics center n r (seta, delay, offsets) = (s, d, fill_row M n r d offsets)"
    "turn_row M radius mics center n r (seta, delay', offsets') = (s, d', fill_row M n r d' offsets')" and d: "\<forall>i<k. d i = d' i"
    using turn_row_columns [OF k] by meson
  have "\<forall>i<k. fill_row M n r d offsets j i = fill_row M n r d' offsets' j i \<or> j \<in> set js"
    using Cons.prems(3) d k(2) by (auto simp: fill_row_def)
  from Cons.IH [OF Cons.prems(1,2) [unfolded fold_simps comp_apply r] this]
  show ?case by (auto simp: fill_row_def)
qed auto

text \<open>C40.  The delays of \<open>apu_set_delay\<close>: in every direction the columns of the circle and of the microphone in the centre are
  determined by the arguments; the columns after the \<open>center\<close> ones are 0 in direction 0 only.  In the directions 1 to 15
  they hold what the uninitialised array held, because the loop that should clear them clears row 0 again.\<close>

theorem apu_delay_columns:
  assumes 1: "apu_set_delay M junk junk_delay radius mics center a = Some a1"
    and 2: "apu_set_delay M junk' junk_delay' radius mics center b = Some a2"
    and k: "k = mics + (if center = 0 then 0 else 1)" and n: "n = mics + unat center" and j: "j < 16" and i: "i < 8"
  shows "(i < k \<longrightarrow> dir_idx a1 j i = dir_idx a2 j i) \<and> (n \<le> i \<longrightarrow> dir_idx a1 j i = (if j = 0 then 0 else ucast (junk j i)))"
proof -
  have kn: "k \<le> n" unfolding k n by (auto simp: unat_gt_0 Suc_le_eq)
  have a: "dir_idx a1 j i = ucast (delay_offsets M junk junk_delay radius mics center n j i)"
    "dir_idx a2 j i = ucast (delay_offsets M junk' junk_delay' radius mics center n j i)"
    using 1 2 j all_delays [OF i] by (auto simp: apu_set_delay_def Let_def n split: if_splits)
  define seta where "seta = (\<lambda>i. of_int_float M (360 * int i div int mics))"
  define delay where "delay = circle_delay M radius mics center seta"
  let ?rot = "\<lambda>junk jd. fold (turn_row M radius mics center n) [1..<16] (seta, delay jd, fill_row M n 0 (delay jd) junk)"
  obtain s1 d1 o1 s2 d2 o2 where r: "?rot junk junk_delay = (s1, d1, o1)" "?rot junk' junk_delay' = (s2, d2, o2)"
    by (metis prod_cases3)
  have o: "delay_offsets M junk junk_delay radius mics center n = o1" "delay_offsets M junk' junk_delay' radius mics center n = o2"
    using r by (simp_all add: delay_offsets_def Let_def seta_def [symmetric] delay_def [symmetric])
  have "\<forall>i<k. delay junk_delay i = delay junk_delay' i" by (auto simp: delay_def circle_delay_def k split: if_splits)
  then have "\<forall>i<k. fill_row M n 0 (delay junk_delay) junk j i = fill_row M n 0 (delay junk_delay') junk' j i \<or> j \<in> set [1..<16]"
    using j kn by (auto simp: fill_row_def)
  from rotations [OF k kn r this]
  have "(i < k \<longrightarrow> o1 j i = o2 j i) \<and> (n \<le> i \<and> 0 < j \<longrightarrow> o1 j i = fill_row M n 0 (delay junk_delay) junk j i) \<and>
    (n \<le> i \<and> j = 0 \<longrightarrow> o1 j i = 0)"
    using i by simp
  then show ?thesis unfolding a o by (auto simp: fill_row_def)
qed

lemma apu_delay_columns_witness:
  "\<forall>M jd radius a. \<exists>a1. apu_set_delay M (\<lambda>j i. 42) jd radius 6 1 a = Some a1 \<and> dir_idx a1 5 7 = 42 \<and> dir_idx a1 0 7 = 0"
proof (intro allI)
  fix M jd radius a
  obtain a1 where r: "apu_set_delay M (\<lambda>j i. 42) jd radius 6 1 a = Some a1" by (simp add: apu_set_delay_def Let_def)
  show "\<exists>a1. apu_set_delay M (\<lambda>j i. 42) jd radius 6 1 a = Some a1 \<and> dir_idx a1 5 7 = 42 \<and> dir_idx a1 0 7 = 0"
    using apu_delay_columns [OF r r refl refl, of 5 7] apu_delay_columns [OF r r refl refl, of 0 7] r by simp
qed

end
