(* ===== verification/Traps.thy ===== *)
theory Traps
  imports K210_Prelude
begin

text \<open>
  The dispatch of traps, \<^verbatim>\<open>lib/bsp/interrupt.c\<close> and the exception half of \<^verbatim>\<open>lib/bsp/syscalls.c\<close>.
  The start-up code \<^verbatim>\<open>crt.S\<close> saves the registers to a frame, calls \<open>handle_irq\<close> or \<open>handle_syscall\<close>
  with the cause and the program counter, resumes at the program counter returned and reloads the registers from the frame.
  A shift by 64 and more, which C leaves undefined and which only a store with a reserved size (\<open>len\<close> above 8) reaches, gives 0 here.
  An access to an address the core cannot split is emulated: the handler decodes the instruction, moves the data byte
  by byte and resumes behind the instruction.  Every other exception dumps the core and never returns.

  The frame is \<open>regs\<close> and \<open>fregs\<close>, 32 words each; \<open>regs[0]\<close> is a slot of the frame no register
  is reloaded from.  The memory is a map from addresses to bytes, and \<open>Halted\<close> is the endless loop of
  \<open>sys_exit\<close> after the dump with its title.
\<close>

type_synonym bytes = "u64 \<Rightarrow> u8"

record hart =
  mem :: bytes
  regs :: "u64 list"
  fregs :: "u64 list"

datatype trap_end = Resume u64 hart | Halted string

subsection \<open>Memory, a byte at a time\<close>

text \<open>The loops over \<open>len\<close> bytes of the two handlers, and the fetch of an instruction.\<close>

definition read_bytes :: "nat \<Rightarrow> u64 \<Rightarrow> bytes \<Rightarrow> u64" where
  "read_bytes len addr m = fold (\<lambda>i d. d OR push_bit (8 * i) (ucast (m (addr + of_nat i)))) [0..<len] 0"

definition write_bytes :: "nat \<Rightarrow> u64 \<Rightarrow> u64 \<Rightarrow> bytes \<Rightarrow> bytes" where
  "write_bytes len addr d m = fold (\<lambda>i m. m(addr + of_nat i := ucast (drop_bit (i * 8) d AND 0xFF))) [0..<len] m"

definition compressed :: "u64 \<Rightarrow> bytes \<Rightarrow> bool" where
  "compressed epc m \<longleftrightarrow> read_bytes 2 epc m AND 3 \<noteq> 3"

definition fetch_instruct :: "u64 \<Rightarrow> bytes \<Rightarrow> u32" where
  "fetch_instruct epc m = ucast (read_bytes 4 epc m)"

subsection \<open>Emulation of misaligned accesses\<close>

text \<open>What both handlers make of the twelve bits of the immediate.\<close>

definition misaligned_offset :: "int \<Rightarrow> int" where
  "misaligned_offset imm = (if imm div 2 ^ 11 \<noteq> 0 then - ((imm AND 0x3FF) + 1) else imm)"

definition adjust_sign :: "nat \<Rightarrow> u64 \<Rightarrow> u64" where
  "adjust_sign len d =
     (if len = 1 then scast (ucast d :: u8)
      else if len = 2 then scast (ucast d :: u16)
      else if len = 4 then scast (ucast d :: u32)
      else d)"

definition handle_misaligned_load :: "u64 \<Rightarrow> hart \<Rightarrow> trap_end" where
  "handle_misaligned_load epc h =
     (if compressed epc (mem h) then Halted ''misaligned load''
      else let instruct = fetch_instruct epc (mem h);
               opcode = instruct AND 0x7F;
               dst = unat (drop_bit 7 instruct AND 0x1F);
               len = unat (drop_bit 12 instruct AND 3);
               unsigned' = drop_bit 14 instruct AND 1 \<noteq> 0;
               src = unat (drop_bit 15 instruct AND 0x1F);
               offset = uint (drop_bit 20 instruct);
               len = 2 ^ len
           in if opcode \<noteq> 3 \<and> opcode \<noteq> 7 then Halted ''misaligned load''
              else let fpu = opcode = 7;
                       addr = regs h ! src + word_of_int (misaligned_offset offset);
                       data_load = read_bytes len addr (mem h);
                       data_load = (if \<not> unsigned' \<and> \<not> fpu then adjust_sign len data_load else data_load)
                   in Resume (epc + 4)
                        (if fpu then h\<lparr>fregs := (fregs h)[dst := data_load]\<rparr>
                         else h\<lparr>regs := (regs h)[dst := data_load]\<rparr>))"

definition handle_misaligned_store :: "u64 \<Rightarrow> hart \<Rightarrow> trap_end" where
  "handle_misaligned_store epc h =
     (if compressed epc (mem h) then Halted ''misaligned store''
      else let instruct = fetch_instruct epc (mem h);
               opcode = instruct AND 0x7F;
               len = unat (drop_bit 12 instruct AND 7);
               dst = unat (drop_bit 15 instruct AND 0x1F);
               src = unat (drop_bit 20 instruct AND 0x1F);
               offset = uint ((drop_bit 7 instruct AND 0x1F) OR (drop_bit 20 instruct AND 0xFE0));
               len = 2 ^ len
           in if opcode \<noteq> 0x23 \<and> opcode \<noteq> 0x27 then Halted ''misaligned store''
              else let fpu = opcode = 0x27;
                       addr = regs h ! dst + word_of_int (misaligned_offset offset);
                       data_store = (if fpu then fregs h ! src else regs h ! src)
                   in Resume (epc + 4) (h\<lparr>mem := write_bytes len addr data_store (mem h)\<rparr>))"

subsection \<open>Dispatch\<close>

text \<open>
  The table of exceptions has an entry for the causes 0 to 11; \<open>ecall\<close> is \<open>handle_ecall\<close>, whose four
  names for the privilege levels are aliases.  \<open>None\<close> is the call through an address read behind the table.
\<close>

definition CAUSE_MISALIGNED_LOAD :: u64 where "CAUSE_MISALIGNED_LOAD = 4"
definition CAUSE_MISALIGNED_STORE :: u64 where "CAUSE_MISALIGNED_STORE = 6"

definition handle_syscall :: "(u64 \<Rightarrow> hart \<Rightarrow> trap_end) \<Rightarrow> u64 \<Rightarrow> u64 \<Rightarrow> hart \<Rightarrow> trap_end option" where
  "handle_syscall ecall cause epc h =
     (let cause_table =
        [Halted ''misaligned fetch'', Halted ''fault fetch'', Halted ''illegal instruction'', Halted ''breakpoint'',
         handle_misaligned_load epc h, Halted ''fault load'', handle_misaligned_store epc h, Halted ''fault store'',
         ecall epc h, ecall epc h, ecall epc h, ecall epc h]
      in if unat cause < length cause_table then Some (cause_table ! unat cause) else None)"

text \<open>
  The interrupts, with the handlers of \<^verbatim>\<open>clint.c\<close> and \<^verbatim>\<open>plic.c\<close> for the soft, the timer and the
  external interrupt.
\<close>

definition IRQ_M_SOFT :: nat where "IRQ_M_SOFT = 3"
definition IRQ_M_TIMER :: nat where "IRQ_M_TIMER = 7"
definition IRQ_M_EXT :: nat where "IRQ_M_EXT = 11"

definition CAUSE_MACHINE_IRQ_REASON_MASK :: u64 where "CAUSE_MACHINE_IRQ_REASON_MASK = 0x7FFFFFFFFFFFFFFF"

definition handle_irq :: "(u64 \<Rightarrow> 's \<Rightarrow> 'r) \<Rightarrow> (u64 \<Rightarrow> 's \<Rightarrow> 'r) \<Rightarrow> (u64 \<Rightarrow> 's \<Rightarrow> 'r) \<Rightarrow> (u64 \<Rightarrow> 's \<Rightarrow> 'r) \<Rightarrow>
    u64 \<Rightarrow> u64 \<Rightarrow> 's \<Rightarrow> 'r option" where
  "handle_irq dummy m_soft m_timer m_ext cause epc s =
     (let irq_table = (replicate 15 dummy)[IRQ_M_SOFT := m_soft, IRQ_M_TIMER := m_timer, IRQ_M_EXT := m_ext];
          i = unat (cause AND CAUSE_MACHINE_IRQ_REASON_MASK)
      in if i < length irq_table then Some ((irq_table ! i) epc s) else None)"

lemmas trap_defs = handle_syscall_def handle_irq_def IRQ_M_SOFT_def IRQ_M_TIMER_def IRQ_M_EXT_def
  CAUSE_MISALIGNED_LOAD_def CAUSE_MISALIGNED_STORE_def CAUSE_MACHINE_IRQ_REASON_MASK_def

subsection \<open>Bytes and numbers\<close>

text \<open>The number a little-endian list of bytes stands for, and its reading as a signed number of \<open>n\<close> bytes.\<close>

fun le_value :: "u8 list \<Rightarrow> int" where
  "le_value [] = 0"
| "le_value (b # bs) = uint b + 256 * le_value bs"

definition signed_value :: "nat \<Rightarrow> int \<Rightarrow> int" where
  "signed_value n x = (if x < 2 ^ (8 * n - 1) then x else x - 2 ^ (8 * n))"

definition bytes_at :: "u64 \<Rightarrow> nat \<Rightarrow> bytes \<Rightarrow> u8 list" where
  "bytes_at a n m = map (\<lambda>i. m (a + of_nat i)) [0..<n]"

lemma le_value_append: "le_value (xs @ ys) = le_value xs + 256 ^ length xs * le_value ys"
  by (induction xs) (simp_all add: algebra_simps)

lemma le_value_range: "0 \<le> le_value bs \<and> le_value bs < 256 ^ length bs"
proof (induction bs)
  case (Cons b bs)
  have "0 \<le> uint b" "uint b < 256" using uint_lt2p [of b] by simp_all
  with Cons have "0 \<le> uint b + 256 * le_value bs" "uint b + 256 * le_value bs < 256 * 256 ^ length bs" by linarith+
  then show ?case by simp
qed simp

lemma read_bytes_Suc:
  "read_bytes (Suc n) a m = read_bytes n a m OR push_bit (8 * n) (ucast (m (a + of_nat n)))"
  by (simp add: read_bytes_def)

lemma write_bytes_Suc:
  "write_bytes (Suc n) a d m = (write_bytes n a d m)(a + of_nat n := ucast (drop_bit (n * 8) d AND 0xFF))"
  by (simp add: write_bytes_def)

lemma read_bytes_bit:
  "bit (read_bytes n a m) k \<longleftrightarrow> k < 64 \<and> k < 8 * n \<and> bit (m (a + of_nat (k div 8))) (k mod 8)"
proof (induction n)
  case 0
  then show ?case by (simp add: read_bytes_def)
next
  case (Suc n)
  show ?case
  proof (cases "k < 8 * n")
    case True
    with Suc show ?thesis by (auto simp: read_bytes_Suc bit_simps)
  next
    case False
    then obtain j where k: "k = 8 * n + j" by (metis le_add_diff_inverse linorder_not_less)
    show ?thesis
    proof (cases "j < 8")
      case True
      then have "k div 8 = n" "k mod 8 = j" using k by simp_all
      with Suc True show ?thesis by (auto simp: read_bytes_Suc bit_simps k)
    next
      case False
      then have "\<not> bit (m (a + of_nat n)) j" by (auto dest: bit_imp_le_length)
      with Suc False show ?thesis by (auto simp: read_bytes_Suc bit_simps k)
    qed
  qed
qed

lemma read_bytes_value: "n \<le> 8 \<Longrightarrow> uint (read_bytes n a m) = le_value (bytes_at a n m)"
proof (induction n)
  case 0
  then show ?case by (simp add: read_bytes_def bytes_at_def)
next
  case (Suc n)
  let ?p = "push_bit (8 * n) (ucast (m (a + of_nat n))) :: u64"
  have "read_bytes n a m AND ?p = 0"
    by (rule bit_word_eqI) (auto simp: bit_simps read_bytes_bit)
  then have "uint (read_bytes (Suc n) a m) = uint (read_bytes n a m) + uint ?p"
    using plus_and_or [of "uint (read_bytes n a m)" "uint ?p"]
    by (simp add: read_bytes_Suc unsigned_or_eq flip: unsigned_and_eq)
  moreover have "uint ?p = 256 ^ n * uint (m (a + of_nat n))"
  proof -
    have u: "uint (m (a + of_nat n)) < 2 ^ 8" using uint_lt2p [of "m (a + of_nat n)"] by simp
    have "uint ?p = take_bit 64 (push_bit (8 * n) (uint (m (a + of_nat n))))"
      by (simp add: unsigned_push_bit_eq unsigned_ucast_eq take_bit_push_bit)
    also have "\<dots> = push_bit (8 * n) (uint (m (a + of_nat n)))"
    proof (rule take_bit_int_eq_self)
      show "0 \<le> push_bit (8 * n) (uint (m (a + of_nat n)))" by simp
      have "(2::int) ^ (8 * n) \<le> 2 ^ 56" using Suc.prems by (intro power_increasing) simp_all
      then have "uint (m (a + of_nat n)) * 2 ^ (8 * n) < 2 ^ 8 * 2 ^ 56"
        using u by (intro mult_less_le_imp_less) simp_all
      then show "push_bit (8 * n) (uint (m (a + of_nat n))) < 2 ^ 64" by (simp add: push_bit_eq_mult)
    qed
    finally have "uint ?p = uint (m (a + of_nat n)) * 2 ^ (8 * n)" by (simp only: push_bit_eq_mult)
    moreover have "(2::int) ^ (8 * n) = 256 ^ n" by (simp add: power_mult)
    ultimately show ?thesis by (simp only: mult.commute)
  qed
  ultimately show ?case using Suc by (simp add: bytes_at_def le_value_append)
qed

lemma write_bytes_outside:
  "(\<And>i. i < n \<Longrightarrow> x \<noteq> a + of_nat i) \<Longrightarrow> write_bytes n a d m x = m x"
  by (induction n) (auto simp: write_bytes_Suc, simp add: write_bytes_def)

lemma write_bytes_inside:
  "i < n \<Longrightarrow> n \<le> 8 \<Longrightarrow> write_bytes n a d m (a + of_nat i) = ucast (drop_bit (8 * i) d)"
proof (induction n)
  case (Suc n)
  have m: "ucast (w AND 0xFF) = (ucast w :: u8)" for w :: u64
  proof -
    have e: "(0xFF :: u64) = mask 8" by (simp add: mask_eq_exp_minus_1)
    show ?thesis unfolding e by (rule bit_word_eqI) (auto simp: bit_simps)
  qed
  show ?case
  proof (cases "i = n")
    case True
    then show ?thesis by (simp add: write_bytes_Suc m mult.commute)
  next
    case False
    have "(of_nat i :: u64) \<noteq> of_nat n"
      using False Suc.prems by (auto simp: word_of_nat_eq_iff take_bit_nat_eq_self)
    with False Suc show ?thesis by (simp add: write_bytes_Suc)
  qed
qed simp

lemma load_write_bytes:
  assumes "n \<le> 8"
  shows "read_bytes n a (write_bytes n a d m) = take_bit (8 * n) d"
proof (rule bit_word_eqI)
  fix k assume "k < LENGTH(64)"
  show "bit (read_bytes n a (write_bytes n a d m)) k = bit (take_bit (8 * n) d) k"
  proof (cases "k < 8 * n")
    case True
    then have "k div 8 < n" by (simp add: less_mult_imp_div_less mult.commute)
    with True \<open>k < LENGTH(64)\<close> show ?thesis
      by (simp add: read_bytes_bit write_bytes_inside [OF _ assms] bit_simps)
  next
    case False
    then show ?thesis by (simp add: read_bytes_bit bit_simps)
  qed
qed

lemma sint_as_signed: "sint (w :: 'a::len word) = (if uint w < 2 ^ (LENGTH('a) - 1) then uint w else uint w - 2 ^ LENGTH('a))"
proof -
  obtain n where n: "LENGTH('a) = Suc n" by (meson len_gt_0 gr0_implies_Suc)
  have r: "0 \<le> uint w" "uint w < 2 * 2 ^ n" using uint_lt2p [of w] by (simp_all add: n)
  have s: "sint w = (uint w + 2 ^ n) mod (2 * 2 ^ n) - 2 ^ n"
    by (simp add: sint_uint n signed_take_bit_eq_take_bit_shift take_bit_eq_mod)
  have "(uint w + 2 ^ n) mod (2 * 2 ^ n) = (if uint w < 2 ^ n then uint w + 2 ^ n else uint w - 2 ^ n)"
  proof (cases "uint w < 2 ^ n")
    case True
    then show ?thesis using r by (simp add: mod_pos_pos_trivial)
  next
    case False
    have "(uint w + 2 ^ n) mod (2 * 2 ^ n) = (uint w - 2 ^ n + 1 * (2 * 2 ^ n)) mod (2 * 2 ^ n)" by (simp add: algebra_simps)
    also have "\<dots> = uint w - 2 ^ n" using False r by (subst mod_mult_self1) (simp add: mod_pos_pos_trivial)
    finally show ?thesis using False by simp
  qed
  with s show ?thesis by (simp add: n)
qed

subsection \<open>Instructions\<close>

text \<open>
  The encoding of a load and of a store: a signed immediate of twelve bits, register numbers, the function code
  \<open>f3\<close>, whose low bits are the logarithm of the size and whose high bit marks a load without sign.
\<close>

definition enc_load :: "12 word \<Rightarrow> 5 word \<Rightarrow> 3 word \<Rightarrow> 5 word \<Rightarrow> 7 word \<Rightarrow> u32" where
  "enc_load imm rs1 f3 rd opcode =
     push_bit 20 (ucast imm) OR push_bit 15 (ucast rs1) OR push_bit 12 (ucast f3) OR push_bit 7 (ucast rd) OR ucast opcode"

definition enc_store :: "12 word \<Rightarrow> 5 word \<Rightarrow> 5 word \<Rightarrow> 3 word \<Rightarrow> 7 word \<Rightarrow> u32" where
  "enc_store imm rs2 rs1 f3 opcode =
     push_bit 25 (ucast (drop_bit 5 imm)) OR push_bit 20 (ucast rs2) OR push_bit 15 (ucast rs1) OR
     push_bit 12 (ucast f3) OR push_bit 7 (ucast imm AND mask 5) OR ucast opcode"

lemma field_masks:
  "(0x7F :: u32) = mask 7" "(0x1F :: u32) = mask 5" "(7 :: u32) = mask 3" "(3 :: u32) = mask 2" "(1 :: u32) = mask 1"
  "(0xFE0 :: u32) = push_bit 5 (mask 7)"
  by (simp_all add: mask_eq_exp_minus_1)

lemma enc_load_fields:
  "enc_load imm rs1 f3 rd opcode AND 0x7F = ucast opcode"
  "drop_bit 7 (enc_load imm rs1 f3 rd opcode) AND 0x1F = ucast rd"
  "drop_bit 12 (enc_load imm rs1 f3 rd opcode) AND 3 = ucast (take_bit 2 f3)"
  "drop_bit 15 (enc_load imm rs1 f3 rd opcode) AND 0x1F = ucast rs1"
  "drop_bit 20 (enc_load imm rs1 f3 rd opcode) = ucast imm"
  unfolding field_masks enc_load_def
  by (rule bit_word_eqI; auto simp: bit_simps dest: bit_imp_le_length)+

lemma enc_store_registers:
  "enc_store imm rs2 rs1 f3 opcode AND 0x7F = ucast opcode"
  "drop_bit 12 (enc_store imm rs2 rs1 f3 opcode) AND 7 = ucast f3"
  "drop_bit 15 (enc_store imm rs2 rs1 f3 opcode) AND 0x1F = ucast rs1"
  "drop_bit 20 (enc_store imm rs2 rs1 f3 opcode) AND 0x1F = ucast rs2"
  unfolding field_masks enc_store_def
  by (rule bit_word_eqI; auto simp: bit_simps dest: bit_imp_le_length)+

lemma enc_store_imm_low:
  "bit (enc_store imm rs2 rs1 f3 opcode) (k + 7) \<longleftrightarrow> bit imm k" if "k < 5"
  unfolding enc_store_def using that by (auto simp: bit_simps dest: bit_imp_le_length)

lemma enc_store_imm_high:
  "bit (enc_store imm rs2 rs1 f3 opcode) (k + 20) \<longleftrightarrow> bit imm k" if "5 \<le> k" "k < 12"
proof -
  have "k + 20 - 25 + 5 = k" using that by simp
  then show ?thesis unfolding enc_store_def using that by (auto simp: bit_simps add.commute dest: bit_imp_le_length)
qed

lemma enc_store_imm:
  "(drop_bit 7 (enc_store imm rs2 rs1 f3 opcode) AND 0x1F) OR (drop_bit 20 (enc_store imm rs2 rs1 f3 opcode) AND 0xFE0) = ucast imm"
  unfolding field_masks
proof (rule bit_word_eqI)
  fix k assume "k < LENGTH(32)"
  let ?w = "enc_store imm rs2 rs1 f3 opcode"
  have w: "bit ((drop_bit 7 ?w AND mask 5) OR (drop_bit 20 ?w AND push_bit 5 (mask 7))) k \<longleftrightarrow>
      (k < 5 \<and> bit ?w (k + 7)) \<or> (5 \<le> k \<and> k < 12 \<and> bit ?w (k + 20))"
    using \<open>k < LENGTH(32)\<close> by (auto simp: bit_simps add.commute)
  show "bit ((drop_bit 7 ?w AND mask 5) OR (drop_bit 20 ?w AND push_bit 5 (mask 7))) k = bit (ucast imm :: u32) k"
  proof (cases "k < 12")
    case True
    show ?thesis
    proof (cases "k < 5")
      case True
      then show ?thesis unfolding w using enc_store_imm_low [of k imm rs2 rs1 f3 opcode] by (simp add: bit_simps)
    next
      case False
      with \<open>k < 12\<close> show ?thesis unfolding w using enc_store_imm_high [of k imm rs2 rs1 f3 opcode] by (simp add: bit_simps)
    qed
  next
    case False
    then have "\<not> bit imm k" by (auto dest: bit_imp_le_length)
    with False show ?thesis unfolding w by (simp add: bit_simps)
  qed
qed

lemmas enc_store_fields = enc_store_registers enc_store_imm

lemma sint_scast: "LENGTH('a) \<le> LENGTH('b) \<Longrightarrow> sint (scast (w :: 'a::len word) :: 'b::len word) = sint w"
proof -
  assume l: "LENGTH('a) \<le> LENGTH('b)"
  have "signed_take_bit (LENGTH('b) - 1) (sint w) = sint w"
    using l by (simp add: sint_uint min_def)
  then show ?thesis by (simp add: signed_scast_eq)
qed

lemma not_compressed:
  assumes "fetch_instruct epc m AND 3 = 3"
  shows "\<not> compressed epc m"
proof -
  have b: "bit (fetch_instruct epc m) k" if "k < 2" for k
    using that arg_cong [OF assms, of "\<lambda>w. bit w k"] unfolding field_masks by (auto simp: bit_simps)
  have "read_bytes 2 epc m AND mask 2 = mask 2"
  proof (rule bit_word_eqI)
    fix k assume "k < LENGTH(64)"
    show "bit (read_bytes 2 epc m AND mask 2) k = bit (mask 2 :: u64) k"
      using b [of k] by (auto simp: fetch_instruct_def bit_simps read_bytes_bit)
  qed
  moreover have "(3 :: u64) = mask 2" by (simp add: mask_eq_exp_minus_1)
  ultimately show ?thesis by (simp add: compressed_def)
qed

lemma misaligned_offset_right_iff:
  fixes imm :: "12 word"
  shows "word_of_int (misaligned_offset (uint imm)) = (scast imm :: u64) \<longleftrightarrow> 0 \<le> sint imm"
proof -
  have u: "0 \<le> uint imm" "uint imm < 4096" using uint_lt2p [of imm] by simp_all
  have s: "sint imm = (if uint imm < 2048 then uint imm else uint imm - 4096)" by (simp add: sint_as_signed)
  let ?o = "misaligned_offset (uint imm)"
  have a: "uint imm AND 0x3FF = uint imm mod 1024"
    using take_bit_eq_mask [of 10 "uint imm"] by (simp add: take_bit_eq_mod mask_eq_exp_minus_1)
  have o: "?o = (if uint imm < 2048 then uint imm else - (uint imm mod 1024 + 1))"
    using u unfolding misaligned_offset_def a by (auto simp: div_eq_0_iff)
  have m: "0 \<le> uint imm mod 1024" "uint imm mod 1024 < 1024" by simp_all
  have "?o = uint imm \<and> uint imm < 2048 \<or> ?o = - (uint imm mod 1024 + 1)" by (simp add: o)
  with u m have "- 2048 \<le> ?o" "?o < 2048" by linarith+
  then have so: "sint (word_of_int ?o :: u64) = ?o"
    by (simp add: sint_sbintrunc' signed_take_bit_int_eq_self)
  have ss: "sint (scast imm :: u64) = sint imm" by (simp add: sint_scast)
  have "word_of_int ?o = (scast imm :: u64) \<longleftrightarrow> ?o = sint imm" 
    using so ss arg_cong [of "word_of_int ?o" "scast imm :: u64" sint] signed_word_eqI [of "word_of_int ?o" "scast imm :: u64"] by auto
  also have "\<dots> \<longleftrightarrow> 0 \<le> sint imm"
  proof (cases "uint imm < 2048")
    case True
    then show ?thesis using u by (simp add: o s)
  next
    case False
    have "- (r + 1) \<noteq> 1024 * q + r - 4096" for q r :: int by presburger
    from this [of "uint imm mod 1024" "uint imm div 1024"] have "- (uint imm mod 1024 + 1) \<noteq> uint imm - 4096" by simp
    then show ?thesis using False u by (simp add: o s)
  qed
  finally show ?thesis .
qed

lemma adjust_sign_value:
  assumes d: "uint d < 2 ^ (8 * n)" and n: "n \<in> {1, 2, 4, 8}"
  shows "sint (adjust_sign n d) = signed_value n (uint d)"
proof -
  have t: "take_bit (8 * n) (uint d) = uint d" using d by (simp add: take_bit_int_eq_self)
  consider "n = 1" | "n = 2" | "n = 4" | "n = 8" using n by auto
  then show ?thesis
  proof cases
    case 1
    then have "uint (ucast d :: u8) = uint d" using t by (simp add: unsigned_ucast_eq)
    with 1 show ?thesis by (simp add: adjust_sign_def signed_value_def sint_scast sint_as_signed [where 'a = 8])
  next
    case 2
    then have "uint (ucast d :: u16) = uint d" using t by (simp add: unsigned_ucast_eq)
    with 2 show ?thesis by (simp add: adjust_sign_def signed_value_def sint_scast sint_as_signed [where 'a = 16])
  next
    case 3
    then have "uint (ucast d :: u32) = uint d" using t by (simp add: unsigned_ucast_eq)
    with 3 show ?thesis by (simp add: adjust_sign_def signed_value_def sint_scast sint_as_signed [where 'a = 32])
  next
    case 4
    then show ?thesis by (simp add: adjust_sign_def signed_value_def sint_as_signed [where 'a = 64])
  qed
qed

subsection \<open>What the handlers do\<close>

lemma unat_ucast_up: "LENGTH('a) \<le> LENGTH('b) \<Longrightarrow> unat (ucast (w :: 'a::len word) :: 'b::len word) = unat w"
proof -
  assume l: "LENGTH('a) \<le> LENGTH('b)"
  have "unat w < 2 ^ LENGTH('a)" by (rule unsigned_less)
  also have "\<dots> \<le> 2 ^ LENGTH('b)" using l by (simp add: power_increasing)
  finally show ?thesis by (simp add: unsigned_ucast_eq take_bit_nat_eq_self)
qed

lemma size_of_access: "unat (take_bit 2 (f3 :: 3 word)) = unat f3 mod 4"
  unfolding unsigned_take_bit_eq by (simp add: take_bit_eq_mod)

lemma and_one_is_bit: "drop_bit n (w :: u32) AND 1 \<noteq> 0 \<longleftrightarrow> bit w n"
  by (simp add: and_one_eq bit_iff_odd_drop_bit mod2_eq_if)

lemma access_sizes: "(2 :: nat) ^ (k mod 4) \<in> {1, 2, 4, 8}"
proof -
  have "k mod 4 < 4" by simp
  then consider "k mod 4 = 0" | "k mod 4 = 1" | "k mod 4 = 2" | "k mod 4 = 3" by linarith
  then show ?thesis by cases simp_all
qed

lemma uint_ucast_up: "LENGTH('a) \<le> LENGTH('b) \<Longrightarrow> uint (ucast (w :: 'a::len word) :: 'b::len word) = uint w"
  by (drule unat_ucast_up [of w]) (simp only: uint_nat)

lemma field_values:
  "unat (ucast (r :: 5 word) :: u32) = unat r" "unat (ucast (f :: 3 word) :: u32) = unat f"
  "uint (ucast (imm :: 12 word) :: u32) = uint imm"
  by (simp_all add: unat_ucast_up uint_ucast_up)

lemma enc_load_unsigned: "drop_bit 14 (enc_load imm rs1 f3 rd opcode) AND 1 \<noteq> 0 \<longleftrightarrow> bit f3 2"
  unfolding and_one_is_bit enc_load_def by (auto simp: bit_simps dest: bit_imp_le_length)

lemma handle_misaligned_load_decoded:
  assumes f: "fetch_instruct epc (mem h) = enc_load imm rs1 f3 rd 3"
  shows "handle_misaligned_load epc h = Resume (epc + 4) (h\<lparr>regs := (regs h)[unat rd :=
    (let n = 2 ^ (unat f3 mod 4);
         d = read_bytes n (regs h ! unat rs1 + word_of_int (misaligned_offset (uint imm))) (mem h)
     in if bit f3 2 then d else adjust_sign n d)]\<rparr>)"
proof -
  have c: "\<not> compressed epc (mem h)"
  proof (rule not_compressed)
    have "(enc_load imm rs1 f3 rd 3 AND 0x7F) AND 3 = 3" by (simp add: enc_load_fields)
    then show "fetch_instruct epc (mem h) AND 3 = 3" by (simp add: f and.assoc)
  qed
  show ?thesis
    unfolding handle_misaligned_load_def Let_def f if_not_P [OF c]
    by (simp add: enc_load_fields size_of_access unat_ucast_up field_values enc_load_unsigned)
qed

text \<open>A frame and a memory for the witnesses: \<open>sh x2, 3(x1)\<close> and \<open>lh x3, 3(x1)\<close> at 0x1000.\<close>

definition demo_hart :: hart where
  "demo_hart = \<lparr>mem = (\<lambda>_. 0)(0x1000 := 0xA3, 0x1001 := 0x91, 0x1002 := 0x20, 0x1004 := 0x83, 0x1005 := 0x91, 0x1006 := 0x30,
       0x200E := 0xFE, 0x200F := 0xFF),
     regs = (replicate 32 0)[1 := 0x200B, 2 := 0xFFFE], fregs = replicate 32 0\<rparr>"

lemma demo_fetch:
  "fetch_instruct 0x1000 (mem demo_hart) = enc_store 3 2 1 1 0x23" "fetch_instruct 0x1004 (mem demo_hart) = enc_load 3 1 1 3 3"
  by (simp_all add: demo_hart_def fetch_instruct_def read_bytes_def upt_rec enc_store_def enc_load_def mask_eq_exp_minus_1)

text \<open>A misaligned load is emulated: the destination register of the frame receives the little-endian bytes
  at the address the handler computes, with the sign or without as the instruction says, and the program resumes behind
  it.  That address is base plus immediate, as the instruction means it, exactly if the immediate is not negative.\<close>

lemma misaligned_load_emulates:
  assumes "fetch_instruct epc (mem h) = enc_load imm rs1 f3 rd 3"
  shows "\<exists>v. handle_syscall ecall CAUSE_MISALIGNED_LOAD epc h =
      Some (Resume (epc + 4) (h\<lparr>regs := (regs h)[unat rd := v]\<rparr>)) \<and>
    (let n = 2 ^ (unat f3 mod 4);
         off = word_of_int (misaligned_offset (uint imm));
         x = le_value (bytes_at (regs h ! unat rs1 + off) n (mem h))
     in (if bit f3 2 then uint v = x else sint v = signed_value n x) \<and>
        (off = scast imm \<longleftrightarrow> 0 \<le> sint imm))"
proof -
  let ?n = "2 ^ (unat f3 mod 4) :: nat"
  let ?d = "read_bytes ?n (regs h ! unat rs1 + word_of_int (misaligned_offset (uint imm))) (mem h)"
  have n: "?n \<in> {1, 2, 4, 8}" by (rule access_sizes)
  then have "?n \<le> 8" by auto
  note x = read_bytes_value [OF this]
  have "uint ?d < 256 ^ ?n" unfolding x using le_value_range [of "bytes_at _ ?n _"] by (simp add: bytes_at_def)
  then have d: "uint ?d < 2 ^ (8 * ?n)" by (simp add: power_mult)
  show ?thesis
    unfolding trap_defs
    using handle_misaligned_load_decoded [OF assms] adjust_sign_value [OF d n] misaligned_offset_right_iff [of imm]
    by (intro exI [of _ "if bit f3 2 then ?d else adjust_sign ?n ?d"]) (simp add: Let_def x)
qed

lemma misaligned_load_emulates_witness:
  "\<exists>v. handle_syscall (\<lambda>epc h. Resume epc h) CAUSE_MISALIGNED_LOAD 0x1004 demo_hart =
      Some (Resume (0x1004 + 4) (demo_hart\<lparr>regs := (regs demo_hart)[unat (3 :: 5 word) := v]\<rparr>)) \<and> sint v = - 2"
proof -
  obtain v where v: "handle_syscall (\<lambda>epc h. Resume epc h) CAUSE_MISALIGNED_LOAD 0x1004 demo_hart =
      Some (Resume (0x1004 + 4) (demo_hart\<lparr>regs := (regs demo_hart)[unat (3 :: 5 word) := v]\<rparr>))"
    "sint v = signed_value (2 ^ (unat (1 :: 3 word) mod 4))
      (le_value (bytes_at (regs demo_hart ! unat (1 :: 5 word) + word_of_int (misaligned_offset (uint (3 :: 12 word)))) (2 ^ (unat (1 :: 3 word) mod 4)) (mem demo_hart)))"
    using misaligned_load_emulates [OF demo_fetch(2), of "\<lambda>epc h. Resume epc h"] by (auto simp: Let_def)
  have "signed_value (2 ^ (unat (1 :: 3 word) mod 4))
      (le_value (bytes_at (regs demo_hart ! unat (1 :: 5 word) + word_of_int (misaligned_offset (uint (3 :: 12 word)))) (2 ^ (unat (1 :: 3 word) mod 4)) (mem demo_hart))) = - 2"
    by (simp add: demo_hart_def signed_value_def bytes_at_def misaligned_offset_def upt_rec)
  with v show ?thesis by auto
qed

lemma handle_misaligned_store_decoded:
  assumes f: "fetch_instruct epc (mem h) = enc_store imm rs2 rs1 f3 0x23"
  shows "handle_misaligned_store epc h = Resume (epc + 4) (h\<lparr>mem :=
    write_bytes (2 ^ unat f3) (regs h ! unat rs1 + word_of_int (misaligned_offset (uint imm))) (regs h ! unat rs2) (mem h)\<rparr>)"
proof -
  have c: "\<not> compressed epc (mem h)"
  proof (rule not_compressed)
    have "(enc_store imm rs2 rs1 f3 0x23 AND 0x7F) AND 3 = 3" by (simp add: enc_store_fields)
    then show "fetch_instruct epc (mem h) AND 3 = 3" by (simp add: f and.assoc)
  qed
  show ?thesis
    unfolding handle_misaligned_store_def Let_def f if_not_P [OF c]
    by (simp add: enc_store_fields field_values)
qed

text \<open>A misaligned store followed by a misaligned load of the same size and the same address operands: the
  load returns the stored register, cut to the size of the access and extended as the load says.\<close>

lemma misaligned_store_then_load:
  assumes "fetch_instruct epc (mem h) = enc_store imm rs2 rs1 f3 0x23" "unat f3 < 4"
    and "handle_syscall ecall CAUSE_MISALIGNED_STORE epc h = Some (Resume epc' h')"
    and "fetch_instruct epc' (mem h') = enc_load imm rs1 (f3 OR u) rd 3" "u = 0 \<or> u = 4" "unat rd < length (regs h)"
  shows "\<exists>h''. handle_syscall ecall CAUSE_MISALIGNED_LOAD epc' h' = Some (Resume (epc' + 4) h'') \<and> mem h'' = mem h' \<and>
    (let x = uint (regs h ! unat rs2) mod 2 ^ (8 * 2 ^ unat f3)
     in if bit (f3 OR u) 2 then uint (regs h'' ! unat rd) = x
        else sint (regs h'' ! unat rd) = signed_value (2 ^ unat f3) x)"
proof -
  let ?n = "2 ^ unat f3 :: nat" and ?a = "regs h ! unat rs1 + word_of_int (misaligned_offset (uint imm))"
  have h': "h' = h\<lparr>mem := write_bytes ?n ?a (regs h ! unat rs2) (mem h)\<rparr>"
    using assms(3) unfolding trap_defs by (simp add: handle_misaligned_store_decoded [OF assms(1)])
  have "(f3 OR u) AND mask 2 = f3 AND mask 2"
    using assms(5) by (rule disjE) (simp_all add: bit.conj_disj_distrib2 mask_eq_exp_minus_1)
  then have "take_bit 2 (f3 OR u) = take_bit 2 f3" by (simp only: take_bit_eq_mask)
  then have m: "unat (f3 OR u) mod 4 = unat f3" using assms(2) by (simp flip: size_of_access) (simp add: size_of_access)
  have n: "?n \<in> {1, 2, 4, 8}" using access_sizes [of "unat f3"] assms(2) by simp
  then have n8: "?n \<le> 8" by auto
  have v: "uint (take_bit (8 * ?n) w) = uint w mod 2 ^ (8 * ?n)" for w :: u64
    unfolding unsigned_take_bit_eq by (rule take_bit_eq_mod)
  have d: "uint (take_bit (8 * ?n) (regs h ! unat rs2)) < 2 ^ (8 * ?n)" unfolding v by simp
  show ?thesis
    using handle_misaligned_load_decoded [OF assms(4)] adjust_sign_value [OF d n] assms(6) v [of "regs h ! unat rs2"]
    unfolding trap_defs m by (simp add: Let_def h' load_write_bytes [OF n8])
qed

lemma misaligned_store_then_load_witness:
  "\<exists>h' h''. handle_syscall (\<lambda>epc h. Resume epc h) CAUSE_MISALIGNED_STORE 0x1000 demo_hart = Some (Resume 0x1004 h') \<and>
    handle_syscall (\<lambda>epc h. Resume epc h) CAUSE_MISALIGNED_LOAD 0x1004 h' = Some (Resume (0x1004 + 4) h'') \<and>
    sint (regs h'' ! 3) = - 2"
proof -
  let ?e = "\<lambda>epc h. Resume epc h"
  define h' where "h' = demo_hart\<lparr>mem := write_bytes 2 0x200E 0xFFFE (mem demo_hart)\<rparr>"
  have s: "handle_syscall ?e CAUSE_MISALIGNED_STORE 0x1000 demo_hart = Some (Resume 0x1004 h')"
    unfolding trap_defs handle_misaligned_store_decoded [OF demo_fetch(1)]
    by (simp add: h'_def) (simp add: demo_hart_def misaligned_offset_def)
  have "fetch_instruct 0x1004 (mem h') = enc_load 3 1 (1 OR 0) 3 3" unfolding h'_def demo_hart_def
    by (simp add: fetch_instruct_def read_bytes_def write_bytes_def upt_rec enc_load_def mask_eq_exp_minus_1)
  from misaligned_store_then_load [OF demo_fetch(1) _ s this] obtain h'' where
    "handle_syscall ?e CAUSE_MISALIGNED_LOAD 0x1004 h' = Some (Resume (0x1004 + 4) h'')"
    "sint (regs h'' ! unat (3 :: 5 word)) = signed_value 2 (uint (regs demo_hart ! unat (2 :: 5 word)) mod 2 ^ 16)"
    by (auto simp: Let_def demo_hart_def)
  moreover have "signed_value 2 (uint (regs demo_hart ! unat (2 :: 5 word)) mod 2 ^ 16) = - 2"
    by (simp add: demo_hart_def signed_value_def)
  ultimately show ?thesis using s by auto
qed

end
