(* ===== verification/Spec2Isabelle.thy ===== *)
theory Spec2Isabelle
  imports Sysctl_Pll Fpioa Heap Locks Rtc Sha256 Clint Timer Flash Printf Dmac I2c Sipeed_I2c Dvp Camera Gpio
    Uart Uarths Wdt Spi_Slave Aes Kpu_Model Pwm Fft I2s Apu Traps
begin

text \<open>
  The board support package and the peripheral drivers of the Kendryte K210 (\<^verbatim>\<open>sdk/lib\<close>), with the
  camera and flash drivers of the project (\<^verbatim>\<open>drivers/\<close>), modelled in HOL.

  \<^bold>\<open>The program.\<close>  The K210 has two RISC-V cores, a system controller that distributes clocks, resets and
  DMA request lines, a pin multiplexer, an interrupt controller, and about twenty peripherals.  Each driver is a
  C file over one memory mapped register block; many keep a few static variables beside it (callback tables, the
  frequency of a clock, the state of a slave).  The drivers call each other: all of them open their clock gates
  through \<^verbatim>\<open>sysctl.c\<close>, compute dividers from its frequency tree, and arm their interrupt lines through
  \<^verbatim>\<open>plic.c\<close>, whose dispatcher calls back into them; those that move data by DMA go through
  \<^verbatim>\<open>dmac.c\<close>, which borrows its bounce buffers from the uncached pool of \<^verbatim>\<open>iomem.c\<close>; that pool
  shares one memory with the C heap that \<^verbatim>\<open>syscalls.c\<close> extends, and the lock of \<^verbatim>\<open>locks.c\<close> protects
  both allocators.

  \<^bold>\<open>How the code is written down.\<close>
  \<^item> A register block is a record with one field per bit field the code uses (fields of C structs keep their
    names), its hardware reset values are not assumed.  A 32-bit register the code treats as a whole is a
    \<^typ>\<open>32 word\<close>; bit fields are words of the width of the field, so a store truncates as in C.
  \<^item> A function takes the state it touches and returns the updated state, with its result; an assertion or an
    error return is a value of \<^typ>\<open>'a option\<close>, of an error code, or of a sum type.
  \<^item> What the hardware answers (a status flag that is polled, a data register that is read, the cycle counter) is
    an input: a list of answers, of which each poll takes the next.  A loop that has used up its answers
    without leaving is \<^const>\<open>None\<close>, which reads: still polling.  A loop over a fixed function of the state is
    a \<^theory_text>\<open>partial_function\<close>, with \<^const>\<open>None\<close> for a loop that never ends.
  \<^item> What the driver writes to a data register is a list, in the order of the stores.
  \<^item> Callbacks are parameters of the dispatchers that call them, and registered callbacks are values of a type
    variable or numbers.
  \<^item> Machine integers keep their width (the \<^verbatim>\<open>Word\<close> library), and computations of sizes and dividers are made on
    words wherever the code makes them on \<^verbatim>\<open>uint32_t\<close>.  \<^verbatim>\<open>double\<close> is binary64 with round to
    nearest, ties to even, on rationals (\<^verbatim>\<open>C_Double\<close>).

  \<^bold>\<open>The theories.\<close>
  \<^item> \<^verbatim>\<open>K210_Prelude\<close>: the names of the C types, the rewrite collection \<open>dev_simps\<close>,
    generic facts on words, lists and maps.
  \<^item> \<^verbatim>\<open>C_Double\<close>: binary64 rounding of rationals (\<^verbatim>\<open>Sysctl_Freq\<close>, \<^verbatim>\<open>Sysctl_Pll\<close>, \<^verbatim>\<open>Uarths\<close> use it).
  \<^item> \<^verbatim>\<open>Sysctl\<close>: the register block of \<^verbatim>\<open>sysctl.c\<close>; clock gates, clock selectors, dividers, resets, PLL
    control, DMA selectors.  The locale \<open>control_bank\<close> states what a set of independent control fields promises (a write is
    read back, other fields keep their value) and is interpreted on the selectors and on the dividers.
  \<^item> \<^verbatim>\<open>Sysctl_Freq\<close>: the frequency tree, a recursion over the clock sources with a termination proof.
    \<^verbatim>\<open>Sysctl_Pll\<close>: the search for PLL dividers, its bounds and its accuracy.
  \<^item> \<^verbatim>\<open>Fpioa_Table\<close>, \<^verbatim>\<open>Fpioa\<close>: the 256 functions of \<^verbatim>\<open>fpioa.c\<close> and the routing of pads; the
    invariant is that no function is driven from two pads; it is kept exactly by the call sequences that write no
    function a second time past \<^verbatim>\<open>fpioa_set_function\<close>.
  \<^item> \<^verbatim>\<open>Iomem\<close>, \<^verbatim>\<open>Heap\<close>, \<^verbatim>\<open>Locks\<close>: the pool of uncached memory (\<^verbatim>\<open>iomem.c\<close>), the break of
    the C heap (\<^verbatim>\<open>sys_brk\<close>), the re-entrant locks (\<^verbatim>\<open>locks.c\<close>).  The locale \<open>allocator\<close> is the contract of a
    pool (blocks are disjoint and inside the bounds) and is interpreted on the code of \<^verbatim>\<open>iomem.c\<close> for every
    position of the break; the locks are a step relation of the cores, in which taking, polling,
    retrying, releasing, initialising and closing are steps of their own, refined to an owner map.
  \<^item> \<^verbatim>\<open>Csr\<close>, \<^verbatim>\<open>Plic\<close>: the interrupt bits of a core, the interrupt controller and its dispatcher; the locale
    \<open>irq_controller\<close> is what a driver relies on when it arms a line.  \<^verbatim>\<open>Clint\<close>: the core timer and the
    inter-core interrupts.
  \<^item> \<^verbatim>\<open>Rtc_Calendar\<close>, \<^verbatim>\<open>Rtc\<close>, \<^verbatim>\<open>Timer\<close>, \<^verbatim>\<open>Wdt\<close>: the calendar and the real-time clock, the timers,
    the watchdogs, with \<^verbatim>\<open>sleep.c\<close>.
  \<^item> \<^verbatim>\<open>Gpio\<close>, \<^verbatim>\<open>Uart\<close>, \<^verbatim>\<open>Uarths\<close>, \<^verbatim>\<open>Printf\<close>: the pins, the serial ports, the formatted output of
    \<^verbatim>\<open>bsp/printf.c\<close>.
  \<^item> \<^verbatim>\<open>Dmac\<close>, \<^verbatim>\<open>Dma_Client\<close>: the DMA controller with the bounce buffers that stand in for cached memory, and
    what its clients share.
  \<^item> \<^verbatim>\<open>Sha256\<close>: the hash accelerator.  \<^verbatim>\<open>Flash\<close>: the flash chip behind the SPI controller.
  \<^item> \<^verbatim>\<open>I2c\<close>, \<^verbatim>\<open>Sipeed_I2c\<close>, \<^verbatim>\<open>Dvp\<close>, \<^verbatim>\<open>Camera\<close>: the I2C driver, its variant with timeouts, the video
    port, and on top of the three the camera bus (\<^verbatim>\<open>cambus.c\<close>) and the sensor driver (\<^verbatim>\<open>gc0328.c\<close>).
  \<^item> \<^verbatim>\<open>Byte_Memory\<close>: byte addressed memory, little endian words and arrays of words in it.
  \<^item> \<^verbatim>\<open>Spi\<close>, \<^verbatim>\<open>Spi_Slave\<close>: the SPI controller as a master (\<^verbatim>\<open>spi.c\<close>, every transfer by the processor and by
    DMA) and as the slave that serves read and write commands of another chip, a state machine driven by the
    edges of its select pin.
  \<^item> \<^verbatim>\<open>Aes\<close>: the cipher accelerator (\<^verbatim>\<open>aes.c\<close>).
  \<^item> \<^verbatim>\<open>Kpu_Image\<close>, \<^verbatim>\<open>Kpu_Layers\<close>, \<^verbatim>\<open>Kpu\<close>, \<^verbatim>\<open>Kpu_Model\<close>: the neural network processor (\<^verbatim>\<open>kpu.c\<close>):
    the layout of images in its memory, the layers that the processor core computes (float arithmetic is a parameter
    \<open>fpu\<close>), the tasks whose layers go into its FIFO from the interrupt, the interpreter of models.  The locale
    \<open>layer_feeder\<close> is the contract of an interrupt handler that feeds the FIFO a burst at a time and is interpreted on
    \<open>kpu_continue\<close> and \<open>kpu_config_input\<close>.
  \<^item> \<^verbatim>\<open>Pwm\<close>, \<^verbatim>\<open>Fft\<close>, \<^verbatim>\<open>I2s\<close>, \<^verbatim>\<open>Apu\<close>: pulse width modulation on the timers, the Fourier transform
    accelerator, the serial audio interface and the microphone array processor.
  \<^item> \<^verbatim>\<open>Traps\<close>: the dispatch of exceptions and interrupts (\<^verbatim>\<open>syscalls.c\<close>, \<^verbatim>\<open>interrupt.c\<close>) and the
    emulation of misaligned loads and stores, which moves the right bytes, at the right address exactly for immediates that
    are not negative.

  \<^bold>\<open>What the theorems show.\<close>
  \<^item> Clocks: a PLL that is set to a frequency gets dividers inside their fields whose frequency is what the
    function returns; the frequency computed in binary64 is within one hertz of the exact quotient; gates, selectors
    and dividers are independent of each other; the wait for a PLL looks at and clears
    the bits of this PLL only and returns exactly when it locks.
  \<^item> Memory: live blocks of the pool never overlap each other nor the C heap, an allocation takes the highest
    free run that fits, a free gives it back; the lock excludes the other core and refines an owner map.
  \<^item> Interrupts: what a driver arms is enabled with its handler and priority and nothing else changes; the
    dispatcher restores the registers it saved and ends; lines of the timers lead to the callbacks registered.
  \<^item> Time: the day of the week counts the days since the first Sunday of the calendar, a date that is set is read
    back, an alarm rings exactly on a match, the periodic timer does not drift, a watchdog's timeout is the least
    period that covers the time asked.
  \<^item> Data: the hash of the context is that of the padded message whatever the split of the input; the flash is
    written page by page at the right addresses; a DMA transfer moves the bytes whether or not the buffers are
    cached; numbers print canonically and read back; the bounded printer never writes past its buffer; a serial
    port is configured to a divisor within the rounding of the baud rate asked.
  \<^item> Protocols: between interrupts the SPI slave is idle or in a transfer it has checked, and a write command of
    whole frames stores the words delivered for it, or nothing if more than one is missing; a frame by frame SPI transfer sends the buffer and ends when the length is a whole
    number of frames; the cipher engine gets the same text whatever the pieces the driver cuts it into.
  \<^item> Neural networks: the FIFO gets the layers of a task in order and the user is told once; an upload puts every
    pixel in its place; pooling, the unrolled addition and the unrolled weighted sums compute what their plain
    definitions say; the interpreter runs the layers of the processor in order up to the next convolution
    or, called while layers are left, to the end.
  \<^item> Sound and pulses: a buffer that is played is cut into blocks that tile it, a sample rate gets the nearest
    divider, the two counts of a pulse add up to the period asked for, cut to whole ticks; the delay table of the microphones is not
    initialised where it should be 0.
  \<^item> Errors: transfers with a timeout end in time and report it, asserts are exactly the arguments out of range.
  Several theorems state behaviour that contradicts a comment or the evident purpose of the code (the findings of the
  development's manifest).

  \<^bold>\<open>Bounds and fuel.\<close>
  \<^item> The dispatcher of the interrupt controller drains at most 100 claims during initialisation: \<open>claim_drain\<close>
    has that counter because the code has it.  The lock table has 1024 entries (\<^const>\<open>LOCK_MAX_NUM\<close>).
  \<^item> Searches are functions with a measure: \<^const>\<open>k_search\<close> (the index falls to the bottom of the table),
    \<^const>\<open>sysctl_clock_source_get_freq\<close> (the depth of the clock tree), \<^const>\<open>write_page\<close> and its callers (the bytes
    left), \<^const>\<open>ai_step\<close> (the layers left), \<^const>\<open>tfp_format\<close> (the rest of the format), so no fuel is used.
  \<^item> Polls of hardware are bounded only by the answers given; each theorem that such a function returns says for
    which answers.

  \<^bold>\<open>Not modelled.\<close>
  \<^item> The stores of a driver are ordered by the functions of the model, but bus timing, caches other than the
    address alias of uncached memory, and delays of the hardware between two stores are not.
  \<^item> Interrupts that arrive in the middle of a driver function, except where the code masks or locks against them
    (the locks, the DMA transfers of the drivers).
  \<^item> Compiled out code: the debug output of \<^verbatim>\<open>KPU_DEBUG\<close> and the variants without \<^verbatim>\<open>FIX_CACHE\<close>.
  \<^item> The start-up code (\<^verbatim>\<open>crt.S\<close>, \<^verbatim>\<open>entry.c\<close>, \<^verbatim>\<open>entry_user.c\<close>) and the system calls
    other than \<^verbatim>\<open>sys_brk\<close>: assembler and the console.
  \<^item> The runtime for models in the nncase format and \<open>malloc\<close> are parameters of \<^verbatim>\<open>Kpu_Model\<close>; the two functions of
    \<^verbatim>\<open>kpu.c\<close> that only free memory have no effect on the state of the model.
  \<^item> The C++ parts: the application (\<^verbatim>\<open>base\<close>), the link to the ESP32 (\<^verbatim>\<open>Maixduino_esp32\<close>, \<^verbatim>\<open>drivers/esp32\<close>,
    \<^verbatim>\<open>drivers/TBPipe\<close>, \<^verbatim>\<open>drivers/esp8266\<close>, \<^verbatim>\<open>drivers/stm32_program\<close>) and the runtime \<^verbatim>\<open>sdk/lib/nncase\<close>, a
    third-party library; tests, scripts, linker scripts and build files.
\<close>

end
